(* ===== verification/Prelude.thy ===== *)
theory Prelude
  imports Main "HOL-Library.Word" "HOL-Library.Multiset"
begin

text \<open>
  Shared vocabulary of the development: identifiers and instants, the 64-bit
  signed integers of Go, results that are either an error or a value, and the
  rows of a keyed table (a SQL table with a primary key) with the lemmas the
  stores rest on.

  A \<open>uuid.UUID\<close> is a natural number, with \<open>uuid.Nil\<close> the number 0.  A
  \<open>time.Time\<close> is an integer number of nanoseconds since the Unix epoch; the
  zero \<open>time.Time\<close> is never compared by the modelled code.  A Go \<open>int64\<close> is an
  \<open>int\<close> whose arithmetic is reduced by \<open>wrap64\<close> wherever the source computes.
\<close>

named_theorems table_simps \<open>rewriting of keyed tables\<close>
named_theorems i64_simps \<open>arithmetic of wrapped 64-bit integers\<close>

type_synonym uuid = nat
type_synonym instant = int

abbreviation (input) uuid_Nil :: uuid where "uuid_Nil \<equiv> 0"

section \<open>64-bit signed integers\<close>

definition wrap64 :: "int \<Rightarrow> int" where
  "wrap64 x = (x + 2 ^ 63) mod 2 ^ 64 - 2 ^ 63"

definition in_i64 :: "int \<Rightarrow> bool" where
  "in_i64 x \<longleftrightarrow> - (2 ^ 63) \<le> x \<and> x < 2 ^ 63"

abbreviation (input) max_i64 :: int where "max_i64 \<equiv> 9223372036854775807"

lemma wrap64_id [i64_simps]: "in_i64 x \<Longrightarrow> wrap64 x = x"
  by (simp add: wrap64_def in_i64_def)

lemma in_i64_wrap64 [simp]: "in_i64 (wrap64 x)"
  by (simp add: wrap64_def in_i64_def)

lemma wrap64_eq_iff: "wrap64 x = wrap64 y \<longleftrightarrow> x mod 2 ^ 64 = y mod 2 ^ 64"
proof -
  have "wrap64 x = wrap64 y \<longleftrightarrow> (x + 2 ^ 63) mod 2 ^ 64 = (y + 2 ^ 63) mod 2 ^ 64"
    by (simp add: wrap64_def)
  also have "\<dots> \<longleftrightarrow> 2 ^ 64 dvd (x + 2 ^ 63) - (y + 2 ^ 63)"
    by (simp only: mod_eq_dvd_iff)
  also have "(x + 2 ^ 63) - (y + 2 ^ 63) = x - y"
    by simp
  finally show ?thesis
    by (simp only: mod_eq_dvd_iff)
qed

lemma wrap64_mod: "wrap64 x mod 2 ^ 64 = x mod 2 ^ 64"
  by (simp add: wrap64_def mod_diff_left_eq)

lemma wrap64_wrap64 [simp]: "wrap64 (wrap64 x) = wrap64 x"
  by (simp add: wrap64_id)

lemma wrap64_add [i64_simps]:
  "wrap64 (wrap64 x + y) = wrap64 (x + y)" "wrap64 (x + wrap64 y) = wrap64 (x + y)"
  by (simp_all only: wrap64_eq_iff)
     (metis wrap64_mod mod_add_left_eq, metis wrap64_mod mod_add_right_eq)

lemma wrap64_diff [i64_simps]:
  "wrap64 (wrap64 x - y) = wrap64 (x - y)" "wrap64 (x - wrap64 y) = wrap64 (x - y)"
  by (simp_all only: wrap64_eq_iff)
     (metis wrap64_mod mod_diff_left_eq, metis wrap64_mod mod_diff_right_eq)

lemma wrap64_minus [i64_simps]: "wrap64 (- wrap64 x) = wrap64 (- x)"
  using wrap64_diff(2) [of 0 x] by simp

text \<open>The arithmetic above is that of 64-bit two's complement words.\<close>

lemma wrap64_word: "wrap64 x = sint (word_of_int x :: 64 word)"
  by (simp add: wrap64_def sint_sbintrunc' signed_take_bit_eq_take_bit_shift take_bit_eq_mod)

section \<open>Results\<close>

type_synonym ('e, 'a) res = "'e + 'a"

fun is_ok :: "('e, 'a) res \<Rightarrow> bool" where
  "is_ok (Inr _) = True"
| "is_ok (Inl _) = False"

lemma is_ok_iff: "is_ok r \<longleftrightarrow> (\<exists>v. r = Inr v)"
  by (cases r) auto

fun map_err :: "('e \<Rightarrow> 'f) \<Rightarrow> ('e, 'a) res \<Rightarrow> ('f, 'a) res" where
  "map_err f (Inl e) = Inl (f e)"
| "map_err f (Inr v) = Inr v"

lemma map_err_Inr [simp]: "map_err f r = Inr v \<longleftrightarrow> r = Inr v"
  by (cases r) auto

section \<open>Keyed tables\<close>

text \<open>
  A table is the list of its rows in insertion order.  \<open>find_row\<close> is a lookup
  by primary key, \<open>upsert_row\<close> an \<open>INSERT .. ON CONFLICT(key) DO UPDATE\<close>, and
  \<open>delete_row\<close> a \<open>DELETE\<close> by key.
\<close>

definition find_row :: "('r \<Rightarrow> 'k) \<Rightarrow> 'k \<Rightarrow> 'r list \<Rightarrow> 'r option" where
  "find_row key k rows = find (\<lambda>r. key r = k) rows"

fun upsert_row :: "('r \<Rightarrow> 'k) \<Rightarrow> 'r \<Rightarrow> 'r list \<Rightarrow> 'r list" where
  "upsert_row key x [] = [x]"
| "upsert_row key x (r # rows) = (if key r = key x then x # rows else r # upsert_row key x rows)"

definition delete_row :: "('r \<Rightarrow> 'k) \<Rightarrow> 'k \<Rightarrow> 'r list \<Rightarrow> 'r list" where
  "delete_row key k rows = filter (\<lambda>r. key r \<noteq> k) rows"

abbreviation keyed :: "('r \<Rightarrow> 'k) \<Rightarrow> 'r list \<Rightarrow> bool" where
  "keyed key rows \<equiv> distinct (map key rows)"

lemma find_row_Nil [table_simps]: "find_row key k [] = None"
  by (simp add: find_row_def)

lemma find_row_Cons [table_simps]:
  "find_row key k (r # rows) = (if key r = k then Some r else find_row key k rows)"
  by (simp add: find_row_def)

lemma find_row_SomeD: "find_row key k rows = Some r \<Longrightarrow> r \<in> set rows \<and> key r = k"
  by (auto simp: find_row_def find_Some_iff)

lemma find_row_None [table_simps]: "find_row key k rows = None \<longleftrightarrow> (\<forall>r \<in> set rows. key r \<noteq> k)"
  by (auto simp: find_row_def find_None_iff)

lemma find_row_fresh: "k \<notin> key ` set rows \<Longrightarrow> find_row key k rows = None"
  by (auto simp: find_row_def find_None_iff)

lemma find_row_Some_iff:
  assumes "keyed key rows"
  shows "find_row key k rows = Some r \<longleftrightarrow> r \<in> set rows \<and> key r = k"
  using assms by (induction rows) (auto simp: table_simps image_iff)

text \<open>A lookup by key with a further condition.\<close>

lemma find_keyed:
  assumes "keyed key rows"
  shows "find (\<lambda>r. key r = i \<and> P r) rows = (case find_row key i rows of
    None \<Rightarrow> None | Some r \<Rightarrow> if P r then Some r else None)"
  using assms
proof (induction rows)
  case (Cons a rows)
  then have "find_row key (key a) rows = None" by (simp add: find_row_fresh)
  with Cons show ?case by (auto simp: find_row_Cons)
qed (simp add: table_simps)

lemma set_upsert_row:
  assumes "keyed key rows"
  shows "set (upsert_row key x rows) = insert x {r \<in> set rows. key r \<noteq> key x}"
  using assms by (induction rows) (auto simp: image_iff)

lemma keys_upsert_row:
  "key ` set (upsert_row key x rows) = insert (key x) (key ` set rows)"
  by (induction rows) auto

lemma keyed_upsert_row: "keyed key rows \<Longrightarrow> keyed key (upsert_row key x rows)"
  using keys_upsert_row [of key x] by (induction rows) (auto dest: equalityD1)

lemma upsert_row_new: "find_row key (key x) rows = None \<Longrightarrow> upsert_row key x rows = rows @ [x]"
  by (induction rows) (auto simp: table_simps)

lemma upsert_row_map:
  assumes "keyed key rows" "find_row key (key x) rows = Some r"
  shows "upsert_row key x rows = map (\<lambda>q. if key q = key x then x else q) rows"
  using assms
proof (induction rows)
  case (Cons a rows)
  then show ?case
    by (cases "key a = key x") (auto simp: table_simps map_idI image_iff intro!: map_idI [symmetric])
qed (simp add: table_simps)

lemma find_row_upsert:
  "find_row key k (upsert_row key x rows) = (if k = key x then Some x else find_row key k rows)"
  by (induction rows) (auto simp: table_simps)

lemma set_delete_row [simp]: "set (delete_row key k rows) = {r \<in> set rows. key r \<noteq> k}"
  by (simp add: delete_row_def)

lemma keyed_delete_row: "keyed key rows \<Longrightarrow> keyed key (delete_row key k rows)"
  by (simp add: delete_row_def distinct_map_filter)

lemma find_row_delete:
  "find_row key k (delete_row key j rows) = (if k = j then None else find_row key k rows)"
  by (induction rows) (auto simp: delete_row_def table_simps)

lemma mset_upsert_old:
  assumes "keyed key rows" "find_row key (key x) rows = Some r"
  shows "mset (upsert_row key x rows) = mset rows - {#r#} + {#x#}"
  using assms
proof (induction rows)
  case (Cons a rows)
  then show ?case
    by (cases "key a = key x")
       (auto simp: table_simps dest: find_row_SomeD)
qed (simp add: table_simps)

section \<open>Folding sums over rows\<close>

lemma sum_list_filter_split:
  fixes f :: "'a \<Rightarrow> 'b::comm_monoid_add"
  shows "sum_list (map f (filter P xs)) + sum_list (map f (filter (\<lambda>x. \<not> P x) xs)) = sum_list (map f xs)"
  by (induction xs) (auto simp: ac_simps)

lemma sum_list_map_if:
  fixes f :: "'a \<Rightarrow> 'b::comm_monoid_add"
  shows "sum_list (map (\<lambda>x. if P x then f x else 0) xs) = sum_list (map f (filter P xs))"
  by (induction xs) auto

end
