(* ===== verification/GoStrings.thy ===== *)
theory GoStrings
  imports Prelude "HOL-Library.Sublist"
begin

text \<open>
  The part of Go's \<open>strings\<close>, \<open>strconv\<close> and \<open>unicode/utf8\<close> packages the source
  uses.  A Go string is a sequence of bytes: a \<open>string\<close> here, each \<open>char\<close> one
  byte.  \<open>runes\<close> cuts it into UTF-8 sequences (an invalid byte is a sequence of
  its own).  \<open>TrimSpace\<close> knows every Unicode white space character.  Case
  conversion covers ASCII letters and the four letters outside ASCII whose
  image is ASCII; every other letter outside ASCII keeps its bytes.
\<close>

definition byte :: "char \<Rightarrow> int" where
  "byte c = of_char c"

lemma byte_char_of: "0 \<le> n \<Longrightarrow> n < 256 \<Longrightarrow> byte (char_of n) = n"
  by (simp add: byte_def)

lemma byte_bounds: "0 \<le> byte c" "byte c < 256"
proof -
  have "byte c = byte c mod 256" by (simp add: byte_def)
  then show "0 \<le> byte c" "byte c < 256"
    using pos_mod_bound [of 256 "byte c"] pos_mod_sign [of 256 "byte c"] by simp_all
qed

lemma byte_inj: "byte c = byte d \<longleftrightarrow> c = d"
  by (simp add: byte_def)

section \<open>UTF-8\<close>

definition cont_in :: "int \<Rightarrow> int \<Rightarrow> nat \<Rightarrow> string \<Rightarrow> bool" where
  "cont_in lo hi i s \<longleftrightarrow> i < length s \<and> lo \<le> byte (s ! i) \<and> byte (s ! i) \<le> hi"

definition rune_len :: "string \<Rightarrow> nat" where
  "rune_len s = (let b = byte (hd s) in
     if b < 0xC2 then 1
     else if b \<le> 0xDF then (if cont_in 0x80 0xBF 1 s then 2 else 1)
     else if b \<le> 0xEF then
       (if cont_in (if b = 0xE0 then 0xA0 else 0x80) (if b = 0xED then 0x9F else 0xBF) 1 s
           \<and> cont_in 0x80 0xBF 2 s then 3 else 1)
     else if b \<le> 0xF4 then
       (if cont_in (if b = 0xF0 then 0x90 else 0x80) (if b = 0xF4 then 0x8F else 0xBF) 1 s
           \<and> cont_in 0x80 0xBF 2 s \<and> cont_in 0x80 0xBF 3 s then 4 else 1)
     else 1)"

lemma rune_len_pos: "0 < rune_len s"
  by (simp add: rune_len_def Let_def)

function runes :: "string \<Rightarrow> string list" where
  "runes s = (if s = [] then [] else take (rune_len s) s # runes (drop (rune_len s) s))"
  by auto
termination
  by (relation "measure length") (use rune_len_pos in auto)

declare runes.simps [simp del]

lemma runes_Nil [simp]: "runes [] = []"
  by (simp add: runes.simps)

lemma concat_runes: "concat (runes s) = s"
  by (induction s rule: runes.induct) (subst runes.simps, simp)

definition RuneCountInString :: "string \<Rightarrow> nat" where
  "RuneCountInString s = length (runes s)"

lemma length_runes_le: "length (runes s) \<le> length s"
proof (induction s rule: runes.induct)
  case (1 s)
  show ?case
  proof (cases "s = []")
    case False
    then have "length (runes (drop (rune_len s) s)) \<le> length s - rune_len s"
      using 1 by simp
    moreover have "0 < length s" "0 < rune_len s" using False rune_len_pos by auto
    ultimately have "Suc (length (runes (drop (rune_len s) s))) \<le> length s" by linarith
    with False show ?thesis by (subst runes.simps) simp
  qed simp
qed

abbreviation ascii :: "string \<Rightarrow> bool" where
  "ascii s \<equiv> \<forall>c \<in> set s. byte c < 0x80"

lemma runes_ascii_Cons [simp]: "byte c < 0x80 \<Longrightarrow> runes (c # s) = [c] # runes s"
  by (subst runes.simps) (simp add: rune_len_def)

lemma runes_ascii: "ascii s \<Longrightarrow> runes s = map (\<lambda>c. [c]) s"
  by (induction s) auto

text \<open>
  A sequence of \<open>runes\<close> is valid when it is an ASCII byte or longer than one byte.
  \<open>ToValidUTF8\<close> replaces every run of invalid bytes by the replacement.
\<close>

definition valid_rune :: "string \<Rightarrow> bool" where
  "valid_rune r \<longleftrightarrow> length r > 1 \<or> byte (hd r) < 0x80"

definition ValidString :: "string \<Rightarrow> bool" where
  "ValidString s \<longleftrightarrow> list_all valid_rune (runes s)"

fun replace_runs :: "string \<Rightarrow> bool \<Rightarrow> string list \<Rightarrow> string" where
  "replace_runs rep bad [] = []"
| "replace_runs rep bad (r # rs) =
     (if valid_rune r then r @ replace_runs rep False rs
      else (if bad then [] else rep) @ replace_runs rep True rs)"

definition ToValidUTF8 :: "string \<Rightarrow> string \<Rightarrow> string" where
  "ToValidUTF8 s rep = replace_runs rep False (runes s)"

lemma length_replace_runs_Nil: "length (replace_runs [] bad rs) \<le> length (concat rs)"
  by (induction rs arbitrary: bad) (auto intro: le_SucI trans_le_add2)

lemma length_ToValidUTF8_Nil: "length (ToValidUTF8 s []) \<le> length s"
  using length_replace_runs_Nil [of False "runes s"] by (simp add: ToValidUTF8_def concat_runes)

section \<open>White space\<close>

definition white_space :: "string list" where
  "white_space =
     map (\<lambda>n. [char_of (n::int)]) [0x09, 0x0A, 0x0B, 0x0C, 0x0D, 0x20]
     @ map (map (\<lambda>n. char_of (n::int)))
         ([[0xC2, 0x85], [0xC2, 0xA0], [0xE1, 0x9A, 0x80]]
          @ map (\<lambda>n. [0xE2, 0x80, n]) [0x80 .. 0x8A]
          @ [[0xE2, 0x80, 0xA8], [0xE2, 0x80, 0xA9], [0xE2, 0x80, 0xAF],
             [0xE2, 0x81, 0x9F], [0xE3, 0x80, 0x80]])"

lemma white_space_ne: "p \<in> set white_space \<Longrightarrow> p \<noteq> []"
  by (auto simp: white_space_def)

function trim_left :: "string list \<Rightarrow> string \<Rightarrow> string" where
  "trim_left ps s = (case find (\<lambda>p. p \<noteq> [] \<and> prefix p s) ps of
     None \<Rightarrow> s | Some p \<Rightarrow> trim_left ps (drop (length p) s))"
  by auto
termination
  by (relation "measure (length \<circ> snd)") (auto simp: find_Some_iff prefix_def)

declare trim_left.simps [simp del]

definition TrimSpace :: "string \<Rightarrow> string" where
  "TrimSpace s = rev (trim_left (map rev white_space) (rev (trim_left white_space s)))"

lemma trim_left_id: "\<forall>p \<in> set ps. p = [] \<or> \<not> prefix p s \<Longrightarrow> trim_left ps s = s"
  by (subst trim_left.simps) (auto simp: find_None_iff split: option.splits dest!: find_Some_iff [THEN iffD1])

lemma trim_left_suffix: "suffix (trim_left ps s) s"
  by (induction ps s rule: trim_left.induct)
     (subst trim_left.simps, auto split: option.split intro: suffix_order.trans suffix_drop)

lemma trim_left_idem: "trim_left ps (trim_left ps s) = trim_left ps s"
proof (induction ps s rule: trim_left.induct)
  case (1 ps s)
  show ?case
  proof (cases "find (\<lambda>p. p \<noteq> [] \<and> prefix p s) ps")
    case None
    then have "trim_left ps s = s" by (subst trim_left.simps) simp
    then show ?thesis by simp
  next
    case (Some p)
    then have "trim_left ps s = trim_left ps (drop (length p) s)" by (subst trim_left.simps) simp
    with 1 Some show ?thesis by simp
  qed
qed

lemma set_TrimSpace: "set (TrimSpace s) \<subseteq> set s"
  using trim_left_suffix [of white_space s] trim_left_suffix [of "map rev white_space" "rev (trim_left white_space s)"]
  by (auto simp: TrimSpace_def dest!: set_mono_suffix) (meson subsetD)

lemma length_TrimSpace: "length (TrimSpace s) \<le> length s"
  using trim_left_suffix [of white_space s, THEN suffix_length_le]
    trim_left_suffix [of "map rev white_space" "rev (trim_left white_space s)", THEN suffix_length_le]
  by (simp add: TrimSpace_def)

text \<open>A visible ASCII character at both ends is enough for \<open>TrimSpace\<close> to keep a string.\<close>

definition visible :: "char \<Rightarrow> bool" where
  "visible c \<longleftrightarrow> 0x20 < byte c \<and> byte c < 0x80"

lemma white_space_hd: "p \<in> set white_space \<Longrightarrow> \<not> visible (hd p)"
  by (auto simp: white_space_def visible_def byte_def upto.simps)

lemma white_space_last: "p \<in> set white_space \<Longrightarrow> \<not> visible (last p)"
  by (auto simp: white_space_def visible_def byte_def upto.simps)

lemma TrimSpace_visible:
  assumes "s \<noteq> []" "visible (hd s)" "visible (last s)"
  shows "TrimSpace s = s"
proof -
  have 1: "trim_left white_space s = s"
    using assms(1,2) white_space_hd by (intro trim_left_id) (auto simp: prefix_def neq_Nil_conv)
  have "trim_left (map rev white_space) (rev s) = rev s"
  proof (intro trim_left_id ballI)
    fix p assume "p \<in> set (map rev white_space)"
    then obtain q where q: "q \<in> set white_space" "p = rev q" by auto
    have "\<not> suffix q s" if "q \<noteq> []"
      using white_space_last [OF q(1)] assms(3) that by (auto simp: suffix_def)
    then show "p = [] \<or> \<not> prefix p (rev s)" using q(2) by (auto simp: suffix_to_prefix)
  qed
  with 1 show ?thesis by (simp add: TrimSpace_def)
qed

lemma TrimSpace_Nil [simp]: "TrimSpace [] = []"
  by (simp add: TrimSpace_def trim_left_id)

section \<open>Case\<close>

definition upper_byte :: "int \<Rightarrow> int" where
  "upper_byte b = (if 97 \<le> b \<and> b \<le> 122 then b - 32 else b)"

definition lower_byte :: "int \<Rightarrow> int" where
  "lower_byte b = (if 65 \<le> b \<and> b \<le> 90 then b + 32 else b)"

definition rune_error :: string where
  "rune_error = map (\<lambda>n. char_of (n::int)) [0xEF, 0xBF, 0xBD]"

definition upper_rune :: "string \<Rightarrow> string" where
  "upper_rune r =
     (if length r = 1 then (if byte (hd r) < 0x80 then [char_of (upper_byte (byte (hd r)))] else rune_error)
      else if map byte r = [0xC4, 0xB1] then ''I''
      else if map byte r = [0xC5, 0xBF] then ''S''
      else r)"

definition lower_rune :: "string \<Rightarrow> string" where
  "lower_rune r =
     (if length r = 1 then (if byte (hd r) < 0x80 then [char_of (lower_byte (byte (hd r)))] else rune_error)
      else if map byte r = [0xC4, 0xB0] then ''i''
      else if map byte r = [0xE2, 0x84, 0xAA] then ''k''
      else r)"

definition ToUpper :: "string \<Rightarrow> string" where
  "ToUpper s = concat (map upper_rune (runes s))"

definition ToLower :: "string \<Rightarrow> string" where
  "ToLower s = concat (map lower_rune (runes s))"

lemma ToUpper_ascii_Cons: "byte c < 0x80 \<Longrightarrow> ToUpper (c # s) = char_of (upper_byte (byte c)) # ToUpper s"
  by (simp add: ToUpper_def upper_rune_def)

lemma ToUpper_fixed:
  assumes "\<forall>c \<in> set s. byte c < 0x80 \<and> upper_byte (byte c) = byte c"
  shows "ToUpper s = s"
  using assms
proof (induction s)
  case (Cons c s)
  then show ?case by (simp add: ToUpper_ascii_Cons) (simp add: byte_def)
qed (simp add: ToUpper_def)

text \<open>Lowering a string twice changes nothing more: every rune of the image is read back whole.\<close>

definition whole_rune :: "string \<Rightarrow> bool" where
  "whole_rune r \<longleftrightarrow> r \<noteq> [] \<and> (\<forall>t. rune_len (r @ t) = length r)"

lemma runes_concat: "\<forall>r \<in> set rs. whole_rune r \<Longrightarrow> runes (concat rs) = rs"
proof (induction rs)
  case (Cons r rs)
  then have r: "r \<noteq> []" "rune_len (r @ concat rs) = length r" by (auto simp: whole_rune_def)
  show ?case using Cons r by (subst runes.simps) simp
qed simp

lemma cont_in_length: "cont_in lo hi i s \<Longrightarrow> i < length s"
  by (simp add: cont_in_def)

lemma rune_len_le: "s \<noteq> [] \<Longrightarrow> rune_len s \<le> length s"
proof -
  assume "s \<noteq> []"
  then have "1 \<le> length s" by (cases s) auto
  then show ?thesis using cont_in_length [of _ _ _ s]
    by (auto simp: rune_len_def Let_def Suc_le_eq numeral_eq_Suc dest!: cont_in_length)
qed

lemma rune_len_prefix:
  assumes "1 < rune_len s" "n = rune_len s"
  shows "rune_len (take n s @ t) = n"
proof -
  have "cont_in lo hi i [] = False" for lo hi i by (simp add: cont_in_def)
  then have ne: "s \<noteq> []" using assms by (auto simp: rune_len_def Let_def split: if_splits)
  let ?s = "take n s @ t"
  have n: "n \<le> length s" using rune_len_le [OF ne] assms by simp
  have h: "hd ?s = hd s" using ne n assms by (cases s; cases n) auto
  have c: "cont_in lo hi i ?s = cont_in lo hi i s" if "i < n" for lo hi i
    using that n by (auto simp: cont_in_def nth_append)
  consider "n = 2" | "n = 3" | "n = 4" using assms by (auto simp: rune_len_def Let_def split: if_splits)
  then show ?thesis
  proof cases
    case 1
    then show ?thesis using assms c [of 1] unfolding rune_len_def h by (simp add: Let_def split: if_splits)
  next
    case 2
    then show ?thesis using assms c [of 1] c [of 2] unfolding rune_len_def h by (simp add: Let_def split: if_splits)
  next
    case 3
    then show ?thesis using assms c [of 1] c [of 2] c [of 3] unfolding rune_len_def h by (simp add: Let_def split: if_splits)
  qed
qed

lemma runes_shape: "r \<in> set (runes s) \<Longrightarrow> length r = 1 \<or> whole_rune r"
proof (induction s rule: runes.induct)
  case (1 s)
  show ?case
  proof (cases "s = []")
    case False
    then have l: "length (take (rune_len s) s) = rune_len s" using rune_len_le by simp
    from False 1(2) have "r = take (rune_len s) s \<or> r \<in> set (runes (drop (rune_len s) s))" by (subst (asm) runes.simps) simp
    moreover have "length r = 1 \<or> whole_rune r" if r: "r = take (rune_len s) s"
    proof (cases "rune_len s = 1")
      case False
      then have "1 < rune_len s" using rune_len_pos [of s] by simp
      then show ?thesis using rune_len_prefix [of s "rune_len s"] l r by (auto simp: whole_rune_def)
    qed (use r l in simp)
    ultimately show ?thesis using 1(1) False by blast
  qed (use 1(2) in simp)
qed

lemma whole_ascii: "byte c < 0x80 \<Longrightarrow> whole_rune [c]"
  by (simp add: whole_rune_def rune_len_def Let_def)

lemma lower_byte_ascii: "0 \<le> b \<Longrightarrow> b < 0x80 \<Longrightarrow> 0 \<le> lower_byte b \<and> lower_byte b < 0x80"
  by (simp add: lower_byte_def)

lemma whole_rune_error: "whole_rune rune_error"
  by (simp add: whole_rune_def rune_error_def rune_len_def Let_def cont_in_def byte_def)

lemma whole_lower_rune: "r \<in> set (runes s) \<Longrightarrow> whole_rune (lower_rune r)"
proof -
  assume r: "r \<in> set (runes s)"
  have ik: "whole_rune ''i''" "whole_rune ''k''" by (simp_all add: whole_ascii byte_def)
  have "whole_rune [char_of (lower_byte (byte c))]" if "byte c < 0x80" for c
    using lower_byte_ascii [OF byte_bounds(1) that] by (intro whole_ascii) (simp add: byte_char_of)
  then show ?thesis using runes_shape [OF r] whole_rune_error ik by (auto simp: lower_rune_def)
qed

lemma lower_rune_idem: "lower_rune (lower_rune r) = lower_rune r"
proof -
  have a: "lower_rune [char_of (lower_byte (byte c))] = [char_of (lower_byte (byte c))]" if "byte c < 0x80" for c
    using lower_byte_ascii [OF byte_bounds(1) that] by (simp add: lower_rune_def byte_char_of) (simp add: lower_byte_def)
  have "lower_rune rune_error = rune_error" "lower_rune ''i'' = ''i''" "lower_rune ''k'' = ''k''"
    by (simp_all add: lower_rune_def rune_error_def byte_def lower_byte_def) (simp_all add: char_of_def)
  then show ?thesis using a by (auto simp: lower_rune_def [of r])
qed

lemma ToLower_idem [simp]: "ToLower (ToLower s) = ToLower s"
proof -
  have "runes (ToLower s) = map lower_rune (runes s)"
    unfolding ToLower_def by (rule runes_concat) (auto intro: whole_lower_rune)
  then show ?thesis by (simp add: ToLower_def lower_rune_idem comp_def)
qed

section \<open>Prefixes, substrings\<close>

definition TrimPrefix :: "string \<Rightarrow> string \<Rightarrow> string" where
  "TrimPrefix s p = (if prefix p s then drop (length p) s else s)"

definition Contains :: "string \<Rightarrow> string \<Rightarrow> bool" where
  "Contains s sub \<longleftrightarrow> sublist sub s"

section \<open>Decimal digits\<close>

definition is_digit :: "char \<Rightarrow> bool" where
  "is_digit c \<longleftrightarrow> 48 \<le> byte c \<and> byte c \<le> 57"

definition digit :: "int \<Rightarrow> char" where
  "digit n = char_of (48 + n)"

definition digit_val :: "char \<Rightarrow> int" where
  "digit_val c = byte c - 48"

function utoa :: "int \<Rightarrow> string" where
  "utoa n = (if n < 10 then [digit n] else utoa (n div 10) @ [digit (n mod 10)])"
  by auto
termination
  by (relation "measure nat") auto

declare utoa.simps [simp del]

definition FormatInt :: "int \<Rightarrow> string" where
  "FormatInt i = (if i < 0 then CHR ''-'' # utoa (- i) else utoa i)"

definition digits_val :: "string \<Rightarrow> int" where
  "digits_val s = foldl (\<lambda>a c. 10 * a + digit_val c) 0 s"

text \<open>\<open>strconv.ParseInt(s, 10, 64)\<close> on a string of digits: the only error left is the range error.\<close>

definition ParseInt_digits :: "string \<Rightarrow> int option" where
  "ParseInt_digits s = (let n = digits_val s in if n \<le> max_i64 then Some n else None)"

lemma is_digit_digit [simp]: "0 \<le> n \<Longrightarrow> n < 10 \<Longrightarrow> is_digit (digit n)"
  by (simp add: is_digit_def digit_def byte_def)

lemma digit_val_digit [simp]: "0 \<le> n \<Longrightarrow> n < 10 \<Longrightarrow> digit_val (digit n) = n"
  by (simp add: digit_val_def digit_def byte_def)

lemma is_digit_visible: "is_digit c \<Longrightarrow> visible c"
  by (simp add: is_digit_def visible_def)

lemma utoa_ne [simp]: "utoa n \<noteq> []"
  by (subst utoa.simps) simp

lemma utoa_digits: "0 \<le> n \<Longrightarrow> \<forall>c \<in> set (utoa n). is_digit c"
  by (induction n rule: utoa.induct) (subst utoa.simps, auto)

lemma foldl_digits:
  "foldl (\<lambda>a c. 10 * a + digit_val c) k s = k * 10 ^ length s + digits_val s"
proof (induction s arbitrary: k)
  case (Cons c s)
  show ?case
    using Cons [of "10 * k + digit_val c"] Cons [of "digit_val c"]
    by (simp add: digits_val_def algebra_simps)
qed (simp add: digits_val_def)

lemma digits_val_append: "digits_val (s @ t) = digits_val s * 10 ^ length t + digits_val t"
  using foldl_digits [of "digits_val s" t] by (simp add: digits_val_def)

lemma digits_val_single [simp]: "digits_val [c] = digit_val c"
  by (simp add: digits_val_def)

lemma digits_val_utoa [simp]: "0 \<le> n \<Longrightarrow> digits_val (utoa n) = n"
proof (induction n rule: utoa.induct)
  case (1 n)
  show ?case
  proof (cases "n < 10")
    case False
    then show ?thesis
      using 1 by (subst utoa.simps) (simp add: digits_val_append)
  qed (use 1(2) in \<open>subst utoa.simps, simp\<close>)
qed

lemma digits_val_replicate0 [simp]: "digits_val (replicate n (CHR ''0'')) = 0"
proof (induction n)
  case (Suc n)
  have "digits_val ([CHR ''0''] @ replicate n (CHR ''0'')) = 0"
    by (simp only: digits_val_append Suc digits_val_single) (simp add: digit_val_def byte_def)
  then show ?case by simp
qed (simp add: digits_val_def)


section \<open>Fixed-width decimals\<close>

lemma digit_val_bounds: "is_digit c \<Longrightarrow> 0 \<le> digit_val c \<and> digit_val c < 10"
  by (auto simp: is_digit_def digit_val_def)

lemma digit_val_inj: "is_digit c \<Longrightarrow> is_digit d \<Longrightarrow> digit_val c = digit_val d \<Longrightarrow> c = d"
  by (simp add: digit_val_def byte_inj)

lemma digits_val_bounds: "list_all is_digit s \<Longrightarrow> 0 \<le> digits_val s \<and> digits_val s < 10 ^ length s"
proof (induction s rule: rev_induct)
  case (snoc c s)
  then show ?case
    using digit_val_bounds [of c] by (simp add: digits_val_append)
qed (simp add: digits_val_def)

lemma digits_val_inj:
  assumes "length s = length t" "list_all is_digit s" "list_all is_digit t" "digits_val s = digits_val t"
  shows "s = t"
  using assms
proof (induction s arbitrary: t rule: rev_induct)
  case (snoc c s)
  then obtain u d where t: "t = u @ [d]" by (metis length_append_singleton length_Suc_conv_rev)
  have c: "0 \<le> digit_val c" "digit_val c < 10" "0 \<le> digit_val d" "digit_val d < 10"
    using snoc.prems digit_val_bounds by (auto simp: t)
  have eq: "10 * digits_val s + digit_val c = 10 * digits_val u + digit_val d"
    using snoc.prems by (simp add: t digits_val_append)
  with c have v: "digits_val s = digits_val u" by linarith
  with eq have "digit_val c = digit_val d" by simp
  note v this
  with snoc show ?case
    using digit_val_inj [of c d] by (simp add: t)
qed simp

lemma length_utoa: "0 \<le> n \<Longrightarrow> n < 10 ^ w \<Longrightarrow> 0 < w \<Longrightarrow> length (utoa n) \<le> w"
proof (induction n arbitrary: w rule: utoa.induct)
  case (1 n)
  show ?case
  proof (cases "n < 10")
    case True
    with 1 show ?thesis by (subst utoa.simps) simp
  next
    case False
    have v: "w = Suc (w - 1)" "0 < w - 1"
      using 1(3,4) False by (cases w; cases "w - 1"; simp)+
    then have "n div 10 < 10 ^ (w - 1)"
      using 1(3) power_Suc2 [of "10::int" "w - 1"] by (simp add: div_less_iff_less_mult)
    then have "length (utoa (n div 10)) \<le> w - 1" using 1(1) [OF False, of "w - 1"] 1(2) v by simp
    with False v show ?thesis by (subst utoa.simps) simp
  qed
qed

definition pad :: "nat \<Rightarrow> int \<Rightarrow> string" where
  "pad w n = (let s = utoa n in replicate (w - length s) (CHR ''0'') @ s)"

lemma pad_digits: "0 \<le> n \<Longrightarrow> list_all is_digit (pad w n)"
  using utoa_digits [of n] by (auto simp: pad_def list_all_iff is_digit_def byte_def Let_def)

lemma digits_val_pad: "0 \<le> n \<Longrightarrow> digits_val (pad w n) = n"
  by (simp add: pad_def Let_def digits_val_append)

lemma length_pad: "0 \<le> n \<Longrightarrow> n < 10 ^ w \<Longrightarrow> 0 < w \<Longrightarrow> length (pad w n) = w"
  using length_utoa [of n w] by (simp add: pad_def Let_def)

lemma pad_digits_val:
  assumes "list_all is_digit s" "s \<noteq> []"
  shows "pad (length s) (digits_val s) = s"
  using assms digits_val_bounds [of s]
  by (intro digits_val_inj) (simp_all add: length_pad pad_digits digits_val_pad)

end
