(* ===== verification/Civil.thy ===== *)
theory Civil
  imports GoStrings
begin

text \<open>
  Package \<open>civil\<close>: calendar dates without a time or zone, and the part of Go's
  \<open>time\<close> package it stands on: the proleptic Gregorian calendar, instants
  (nanoseconds since the Unix epoch) and locations.  A location is its zone
  table read as a function from Unix seconds to the offset from UTC in seconds;
  the table itself comes from the tz database and is a parameter.
\<close>

named_theorems date_simps \<open>calendar arithmetic\<close>

section \<open>The Gregorian calendar\<close>

datatype Date = Date (Year: int) (Month: int) (Day: int)

definition leap :: "int \<Rightarrow> bool" where
  "leap y \<longleftrightarrow> 4 dvd y \<and> (\<not> 100 dvd y \<or> 400 dvd y)"

definition month_days :: "int \<Rightarrow> int \<Rightarrow> int" where
  "month_days y m = (if m = 2 then (if leap y then 29 else 28)
     else if m \<in> {4, 6, 9, 11} then 30 else 31)"

definition year_days :: "int \<Rightarrow> int" where
  "year_days y = (if leap y then 366 else 365)"

text \<open>Days from 1970-01-01 to January 1st of a year, and from there to the first of a month.\<close>

definition days_before_year :: "int \<Rightarrow> int" where
  "days_before_year y =
     365 * (y - 1) + (y - 1) div 4 - (y - 1) div 100 + (y - 1) div 400 - 719162"

definition days_before_month :: "int \<Rightarrow> int \<Rightarrow> int" where
  "days_before_month y m = sum_list (map (month_days y) [1..m - 1])"

text \<open>\<open>time.Date(y, m, d, 0, 0, 0, 0, time.UTC)\<close> in days since the epoch; a month out of range carries into the year.\<close>

definition days_of_civil :: "int \<Rightarrow> int \<Rightarrow> int \<Rightarrow> int" where
  "days_of_civil y m d = (let y' = y + (m - 1) div 12; m' = (m - 1) mod 12 + 1
     in days_before_year y' + days_before_month y' m' + d - 1)"

definition days :: "Date \<Rightarrow> int" where
  "days d = days_of_civil (Year d) (Month d) (Day d)"

lemma div_pred:
  fixes y k :: int
  assumes "0 < k"
  shows "y div k = (y - 1) div k + of_bool (k dvd y)"
proof -
  let ?q = "(y - 1) div k" and ?r = "(y - 1) mod k"
  have r: "0 \<le> ?r" "?r < k" using assms by simp_all
  have y: "y = k * ?q + (?r + 1)" using mult_div_mod_eq [of k "y - 1"] by linarith
  show ?thesis
  proof (cases "?r + 1 = k")
    case True
    then have "y = k * (?q + 1)" using y by (simp add: algebra_simps)
    then show ?thesis using assms by (metis dvd_triv_left nonzero_mult_div_cancel_left of_bool_eq(2) less_irrefl)
  next
    case False
    then have "y div k = ?q" "y mod k = ?r + 1"
      using int_div_pos_eq [OF y] int_mod_pos_eq [OF y] r by simp_all
    then show ?thesis using r by (simp add: dvd_eq_mod_eq_0)
  qed
qed

lemma days_before_year_Suc: "days_before_year (y + 1) = days_before_year y + year_days y"
proof -
  have carry: "a' = a + p \<Longrightarrow> b' = b + q \<Longrightarrow> c' = c + r \<Longrightarrow> p - q + r = l - 365 \<Longrightarrow>
      365 * y + a' - b' + c' - k = (365 * (y - 1) + a - b + c - k) + l"
    for a b c a' b' c' p q r l k :: int
    by (simp add: algebra_simps)
  have bools: "(r \<longrightarrow> q) \<Longrightarrow> (q \<longrightarrow> p) \<Longrightarrow> of_bool p - of_bool q + of_bool r
      = (if p \<and> (\<not> q \<or> r) then 366 else 365) - (365::int)" for p q r
    by (cases p; cases q; cases r; simp)
  have "400 dvd y \<longrightarrow> 100 dvd y" "100 dvd y \<longrightarrow> 4 dvd y"
    using dvd_trans [of 100 400 y] dvd_trans [of 4 100 y] by simp_all
  then have "of_bool (4 dvd y) - of_bool (100 dvd y) + of_bool (400 dvd y) = year_days y - 365"
    unfolding year_days_def leap_def by (rule bools)
  from carry [OF div_pred [of 4] div_pred [of 100] div_pred [of 400] this, of 719162] show ?thesis
    by (simp only: days_before_year_def add_diff_cancel_right' zero_less_numeral simp_thms)
qed

lemma days_before_year_add:
  "days_before_year y + 365 * int n \<le> days_before_year (y + int n)"
proof (induction n)
  case (Suc n)
  then show ?case
    using days_before_year_Suc [of "y + int n"] by (simp add: year_days_def ac_simps split: if_splits)
qed simp

lemma days_before_year_less: "y < z \<Longrightarrow> days_before_year (y + 1) \<le> days_before_year z"
  using days_before_year_add [of "y + 1" "nat (z - y - 1)"] by simp

lemma days_before_year_unique:
  assumes "days_before_year y \<le> n" "n < days_before_year (y + 1)"
    and "days_before_year z \<le> n" "n < days_before_year (z + 1)"
  shows "y = z"
  using assms days_before_year_less [of y z] days_before_year_less [of z y] by linarith

function year_search :: "int \<Rightarrow> int \<Rightarrow> int" where
  "year_search n y =
     (if n < days_before_year y then year_search n (y - 1)
      else if days_before_year (y + 1) \<le> n then year_search n (y + 1) else y)"
  by auto
termination
proof (relation "measure (\<lambda>(n, y). nat (if n < days_before_year y
    then days_before_year y - n + 1000 else n - days_before_year y))", goal_cases)
  case (2 n y)
  then show ?case using days_before_year_Suc [of "y - 1"] by (auto simp: year_days_def split: if_splits)
next
  case (3 n y)
  then show ?case using days_before_year_Suc [of y] by (auto simp: year_days_def split: if_splits)
qed simp

declare year_search.simps [simp del]

definition year_of_days :: "int \<Rightarrow> int" where
  "year_of_days n = year_search n (1970 + n * 400 div 146097)"

lemma year_search_correct:
  "days_before_year (year_search n y) \<le> n \<and> n < days_before_year (year_search n y + 1)"
proof (induction n y rule: year_search.induct)
  case (1 n y)
  then show ?case by (subst (1 2) year_search.simps) auto
qed

lemma year_of_days_eq:
  "days_before_year y \<le> n \<Longrightarrow> n < days_before_year (y + 1) \<Longrightarrow> year_of_days n = y"
  using year_search_correct days_before_year_unique unfolding year_of_days_def by blast

function month_walk :: "int \<Rightarrow> int \<Rightarrow> int \<Rightarrow> int \<times> int" where
  "month_walk y m k =
     (if 12 \<le> m \<or> k < month_days y m then (m, k) else month_walk y (m + 1) (k - month_days y m))"
  by auto
termination
  by (relation "measure (\<lambda>(y, m, k). nat (12 - m))") auto

declare month_walk.simps [simp del]

text \<open>The calendar date of a day number, as \<open>Time.Date()\<close> gives it in UTC.\<close>

definition civil_of_days :: "int \<Rightarrow> Date" where
  "civil_of_days n = (let y = year_of_days n; (m, k) = month_walk y 1 (n - days_before_year y)
     in Date y m (k + 1))"

definition valid_date :: "Date \<Rightarrow> bool" where
  "valid_date d \<longleftrightarrow> 1 \<le> Month d \<and> Month d \<le> 12 \<and> 1 \<le> Day d \<and> Day d \<le> month_days (Year d) (Month d)"

lemma month_days_bounds: "28 \<le> month_days y m" "month_days y m \<le> 31"
  by (auto simp: month_days_def)

lemma days_before_month_Suc:
  "1 \<le> m \<Longrightarrow> days_before_month y (m + 1) = days_before_month y m + month_days y m"
  by (simp add: days_before_month_def upto_rec2)

lemma days_before_month_1 [simp]: "days_before_month y 1 = 0"
  by (simp add: days_before_month_def)

lemma days_before_month_13: "days_before_month y 13 = year_days y"
  by (simp add: days_before_month_def upto.simps month_days_def year_days_def)

lemma month_walk_hit:
  assumes "1 \<le> j" "0 \<le> k" "k < month_days y (j + int n)" "j + int n \<le> 12"
  shows "month_walk y j (days_before_month y (j + int n) - days_before_month y j + k) = (j + int n, k)"
  using assms
proof (induction n arbitrary: j)
  case 0
  then show ?case by (subst month_walk.simps) simp
next
  case (Suc n)
  let ?m = "j + int (Suc n)"
  have le: "days_before_month y (j + 1) \<le> days_before_month y ?m"
  proof -
    have "days_before_month y (j + 1) \<le> days_before_month y (j + 1 + int i)" for i
    proof (induction i)
      case (Suc i)
      then show ?case
        using days_before_month_Suc [of "j + 1 + int i" y] month_days_bounds(1) [of y "j + 1 + int i"]
          \<open>1 \<le> j\<close> by (simp add: ac_simps)
    qed simp
    from this [of n] show ?thesis by (simp add: ac_simps)
  qed
  have "month_walk y (j + 1) (days_before_month y (j + 1 + int n) - days_before_month y (j + 1) + k)
      = (j + 1 + int n, k)"
    by (rule Suc.IH) (use Suc.prems in \<open>simp_all add: ac_simps\<close>)
  then show ?case
    using le Suc.prems days_before_month_Suc [of j y]
    by (subst month_walk.simps) (simp add: algebra_simps)
qed

lemma month_walk_correct:
  assumes "1 \<le> m" "m \<le> 12" "0 \<le> k" "k < days_before_month y 13 - days_before_month y m"
    and "month_walk y m k = (m', k')"
  shows "m \<le> m' \<and> m' \<le> 12 \<and> 0 \<le> k' \<and> k' < month_days y m' \<and>
    days_before_month y m' + k' = days_before_month y m + k"
  using assms
proof (induction y m k rule: month_walk.induct)
  case (1 y m k)
  show ?case
  proof (cases "12 \<le> m \<or> k < month_days y m")
    case True
    then have "m' = m" "k' = k" using 1(6) by (auto simp: month_walk.simps [of y m k])
    moreover have "k < month_days y m" if "m = 12"
      using 1(5) days_before_month_Suc [of 12 y] that by simp
    ultimately show ?thesis using 1 True by auto
  next
    case False
    then have "month_walk y (m + 1) (k - month_days y m) = (m', k')"
      using 1(6) by (simp add: month_walk.simps [of y m k])
    then show ?thesis
      using 1(1) [OF False] 1(2-5) False days_before_month_Suc [of m y] by auto
  qed
qed

lemma days_valid:
  "1 \<le> Month d \<Longrightarrow> Month d \<le> 12 \<Longrightarrow>
    days d = days_before_year (Year d) + days_before_month (Year d) (Month d) + Day d - 1"
  by (simp add: days_def days_of_civil_def Let_def)

lemma civil_of_days_correct: "valid_date (civil_of_days n) \<and> days (civil_of_days n) = n"
proof -
  let ?y = "year_of_days n"
  have y: "days_before_year ?y \<le> n" "n < days_before_year (?y + 1)"
    using year_search_correct by (auto simp: year_of_days_def)
  obtain m k where mk: "month_walk ?y 1 (n - days_before_year ?y) = (m, k)" by force
  have "1 \<le> m \<and> m \<le> 12 \<and> 0 \<le> k \<and> k < month_days ?y m \<and>
      days_before_month ?y m + k = n - days_before_year ?y"
    using month_walk_correct [OF _ _ _ _ mk] y days_before_year_Suc [of ?y]
    by (simp add: days_before_month_13)
  then show ?thesis
    using mk by (auto simp: civil_of_days_def valid_date_def days_valid)
qed

lemma valid_civil_of_days [simp]: "valid_date (civil_of_days n)"
  and days_civil_of_days [simp]: "days (civil_of_days n) = n"
  using civil_of_days_correct by blast+

lemma days_before_month_mono: "1 \<le> m \<Longrightarrow> m \<le> m' \<Longrightarrow> days_before_month y m \<le> days_before_month y m'"
proof (induction "nat (m' - m)" arbitrary: m')
  case (Suc n)
  then have "n = nat (m' - 1 - m)" "m \<le> m' - 1" by linarith+
  with Suc have "days_before_month y m \<le> days_before_month y (m' - 1)" by blast
  then show ?case
    using days_before_month_Suc [of "m' - 1" y] month_days_bounds(1) [of y "m' - 1"] Suc(2,3) by simp
qed simp

lemma civil_of_days_days [simp]:
  assumes "valid_date d"
  shows "civil_of_days (days d) = d"
proof -
  let ?y = "Year d" and ?m = "Month d" and ?k = "Day d - 1"
  have v: "1 \<le> ?m" "?m \<le> 12" "0 \<le> ?k" "?k < month_days ?y ?m"
    using assms by (auto simp: valid_date_def)
  have "days_before_month ?y 1 \<le> days_before_month ?y ?m"
    "days_before_month ?y (?m + 1) \<le> days_before_month ?y 13"
    using v days_before_month_mono [of 1 ?m] days_before_month_mono [of "?m + 1" 13] by simp_all
  then have "year_of_days (days d) = ?y"
    using v days_before_year_Suc [of ?y] days_before_month_Suc [of ?m ?y]
    by (intro year_of_days_eq) (simp_all add: days_valid days_before_month_13)
  moreover have "month_walk ?y 1 (days d - days_before_year ?y) = (?m, ?k)"
    using month_walk_hit [of 1 ?k ?y "nat (?m - 1)"] v by (simp add: days_valid algebra_simps)
  ultimately show ?thesis by (simp add: civil_of_days_def)
qed

lemma days_inj: "valid_date d \<Longrightarrow> valid_date e \<Longrightarrow> days d = days e \<longleftrightarrow> d = e"
  by (metis civil_of_days_days)


section \<open>Order\<close>

text \<open>
  Dates are ordered by year, month and day: the order of the text form
  \<open>YYYY-MM-DD\<close>, which is how SQLite compares the date columns.
\<close>

instantiation Date :: linorder
begin

definition less_eq_Date :: "Date \<Rightarrow> Date \<Rightarrow> bool" where
  "less_eq_Date d e \<longleftrightarrow> Year d < Year e \<or> Year d = Year e \<and>
     (Month d < Month e \<or> Month d = Month e \<and> Day d \<le> Day e)"

definition less_Date :: "Date \<Rightarrow> Date \<Rightarrow> bool" where
  "less_Date d e \<longleftrightarrow> Year d < Year e \<or> Year d = Year e \<and>
     (Month d < Month e \<or> Month d = Month e \<and> Day d < Day e)"

instance
  by standard (auto simp: less_eq_Date_def less_Date_def Date.expand)

end

lemma days_less_mono:
  assumes v: "valid_date d" "valid_date e" and less: "d < e"
  shows "days d < days e"
proof -
  note d = v(1) [unfolded valid_date_def] and e = v(2) [unfolded valid_date_def]
  consider (year) "Year d < Year e" | (month) "Year d = Year e" "Month d < Month e"
    | (day) "Year d = Year e" "Month d = Month e" "Day d < Day e"
    using less by (auto simp: less_Date_def)
  then show ?thesis
  proof cases
    case year
    have "days_before_month (Year d) (Month d + 1) \<le> days_before_month (Year d) 13"
      "days_before_month (Year e) 1 \<le> days_before_month (Year e) (Month e)"
      using d e days_before_month_mono [of "Month d + 1" 13 "Year d"]
        days_before_month_mono [of 1 "Month e" "Year e"] by auto
    then show ?thesis
      using d e days_before_month_Suc [of "Month d" "Year d"] days_before_year_Suc [of "Year d"]
        days_before_year_less [OF year]
      by (simp add: days_valid days_before_month_13)
  next
    case month
    then show ?thesis
      using d e days_before_month_Suc [of "Month d" "Year d"]
        days_before_month_mono [of "Month d + 1" "Month e" "Year d"]
      by (simp add: days_valid)
  qed (use d e in \<open>simp add: days_valid\<close>)
qed

lemma days_less_iff [date_simps]: "valid_date d \<Longrightarrow> valid_date e \<Longrightarrow> days d < days e \<longleftrightarrow> d < e"
  by (metis days_less_mono less_irrefl not_less_iff_gr_or_eq less_trans)

lemma days_le_iff [date_simps]: "valid_date d \<Longrightarrow> valid_date e \<Longrightarrow> days d \<le> days e \<longleftrightarrow> d \<le> e"
  by (metis days_less_iff not_less)

section \<open>Instants and locations\<close>

type_synonym Location = "int \<Rightarrow> int"

definition time_UTC :: Location where
  "time_UTC = (\<lambda>_. 0)"

definition second_ns :: int where
  "second_ns = 1000000000"

definition day_seconds :: int where
  "day_seconds = 86400"

text \<open>\<open>Time.Unix()\<close>, and the seconds shown by the wall clock of a location.\<close>

definition unix_seconds :: "instant \<Rightarrow> int" where
  "unix_seconds t = t div second_ns"

definition local_seconds :: "instant \<Rightarrow> Location \<Rightarrow> int" where
  "local_seconds t loc = unix_seconds t + loc (unix_seconds t)"

text \<open>\<open>time.Date\<close> at local midnight: the offset is looked up once for the wall
  clock reading and once more for the instant it suggests.\<close>

definition midnight_in :: "int \<Rightarrow> Location \<Rightarrow> instant" where
  "midnight_in n loc = (let unix = n * day_seconds; offset = loc unix in
     (if offset = 0 then unix else unix - loc (unix - offset)) * second_ns)"

section \<open>The operations of civil/date.go\<close>

datatype civil_error = CivilParseError string

definition DateOf :: "instant \<Rightarrow> Location \<Rightarrow> Date" where
  "DateOf t loc = civil_of_days (local_seconds t loc div day_seconds)"

definition date_In :: "Date \<Rightarrow> Location \<Rightarrow> instant" where
  "date_In d loc = midnight_in (days d) loc"

text \<open>\<open>AddDate(0, 0, n)\<close> adds to the day field and lets \<open>time.Date\<close> normalise it.\<close>

definition AddDays :: "Date \<Rightarrow> int \<Rightarrow> Date" where
  "AddDays d n = (let e = DateOf (date_In d time_UTC) time_UTC in
     DateOf (midnight_in (days_of_civil (Year e) (Month e) (Day e + n)) time_UTC) time_UTC)"

definition date_Compare :: "Date \<Rightarrow> Date \<Rightarrow> int" where
  "date_Compare d e = (let a = date_In d time_UTC; b = date_In e time_UTC in
     if a < b then -1 else if b < a then 1 else 0)"

definition Before :: "Date \<Rightarrow> Date \<Rightarrow> bool" where
  "Before d e \<longleftrightarrow> date_Compare d e < 0"

definition date_IsZero :: "Date \<Rightarrow> bool" where
  "date_IsZero d \<longleftrightarrow> d = Date 0 0 0"

definition date_String :: "Date \<Rightarrow> string" where
  "date_String d = (let e = DateOf (date_In d time_UTC) time_UTC;
       y = Year e in
     (if y < 0 then ''-'' @ pad 4 (- y) else pad 4 y) @ ''-'' @ pad 2 (Month e) @ ''-'' @ pad 2 (Day e))"

text \<open>\<open>time.Parse("2006-01-02", s)\<close>: four digits, a dash, two digits, a dash, two
  digits and nothing else, naming a month and a day that exist.\<close>

definition ParseDate :: "string \<Rightarrow> (civil_error, Date) res" where
  "ParseDate s =
     (if length s = 10 \<and> s ! 4 = CHR ''-'' \<and> s ! 7 = CHR ''-''
         \<and> list_all is_digit (take 4 s @ take 2 (drop 5 s) @ drop 8 s)
      then let d = Date (digits_val (take 4 s)) (digits_val (take 2 (drop 5 s))) (digits_val (drop 8 s))
           in if valid_date d then Inr d else Inl (CivilParseError s)
      else Inl (CivilParseError s))"

definition MarshalText :: "Date \<Rightarrow> string" where
  "MarshalText d = date_String d"

definition UnmarshalText :: "string \<Rightarrow> Date \<Rightarrow> (civil_error, Date) res" where
  "UnmarshalText b d = (case ParseDate b of Inl e \<Rightarrow> Inl e | Inr p \<Rightarrow> Inr p)"

datatype scan_src = ScanTime instant | ScanText string | ScanNil | ScanOther

definition Scan :: "scan_src \<Rightarrow> Date \<Rightarrow> (civil_error option, Date) res" where
  "Scan src d = (case src of
     ScanTime t \<Rightarrow> Inr (DateOf t time_UTC)
   | ScanText s \<Rightarrow> map_err Some (UnmarshalText s d)
   | ScanNil \<Rightarrow> Inr (Date 0 0 0)
   | ScanOther \<Rightarrow> Inl None)"

section \<open>Laws\<close>

lemma DateOf_In_UTC [simp]: "DateOf (date_In d time_UTC) time_UTC = civil_of_days (days d)"
  by (simp add: DateOf_def date_In_def midnight_in_def local_seconds_def unix_seconds_def
    time_UTC_def second_ns_def day_seconds_def)

lemma valid_DateOf [simp]: "valid_date (DateOf t loc)"
  by (simp add: DateOf_def)

lemma DateOf_midnight_UTC [simp]: "DateOf (midnight_in n time_UTC) time_UTC = civil_of_days n"
  by (simp add: DateOf_def midnight_in_def local_seconds_def unix_seconds_def
    time_UTC_def second_ns_def day_seconds_def)

lemma days_of_civil_add: "days_of_civil y m (d + n) = days_of_civil y m d + n"
  by (simp add: days_of_civil_def Let_def)

lemma AddDays_eq: "AddDays d n = civil_of_days (days d + n)"
  by (simp add: AddDays_def days_of_civil_add Let_def) (simp add: days_def [symmetric])

lemma days_AddDays [simp, date_simps]: "days (AddDays d n) = days d + n"
  by (simp add: AddDays_eq)

lemma valid_AddDays [simp]: "valid_date (AddDays d n)"
  by (simp add: AddDays_eq)

lemma AddDays_0: "valid_date d \<Longrightarrow> AddDays d 0 = d"
  by (simp add: AddDays_eq)

lemma AddDays_AddDays: "AddDays (AddDays d m) n = AddDays d (m + n)"
  by (simp add: AddDays_eq ac_simps)

lemma date_Compare_days: "date_Compare d e = (if days d < days e then -1 else if days e < days d then 1 else 0)"
  by (simp add: date_Compare_def date_In_def midnight_in_def time_UTC_def second_ns_def day_seconds_def)

lemma Before_days [date_simps]: "Before d e \<longleftrightarrow> days d < days e"
  by (simp add: Before_def date_Compare_days)

lemma Before_iff_less: "valid_date d \<Longrightarrow> valid_date e \<Longrightarrow> Before d e \<longleftrightarrow> d < e"
  by (simp add: Before_days days_less_iff)

lemma not_valid_zero: "\<not> valid_date (Date 0 0 0)"
  by (simp add: valid_date_def)


section \<open>Text form\<close>

lemma date_String_valid:
  "valid_date d \<Longrightarrow> 0 \<le> Year d \<Longrightarrow>
    date_String d = pad 4 (Year d) @ ''-'' @ pad 2 (Month d) @ ''-'' @ pad 2 (Day d)"
  by (simp add: date_String_def)

lemma valid_date_bounds:
  "valid_date d \<Longrightarrow> 1 \<le> Month d \<and> Month d \<le> 12 \<and> 1 \<le> Day d \<and> Day d \<le> 31"
  using month_days_bounds(2) [of "Year d" "Month d"] by (auto simp: valid_date_def)

lemma ParseDate_date_String:
  assumes "valid_date d" "0 \<le> Year d" "Year d \<le> 9999"
  shows "ParseDate (date_String d) = Inr d"
proof -
  have l: "length (pad 4 (Year d)) = 4" "length (pad 2 (Month d)) = 2" "length (pad 2 (Day d)) = 2"
    using assms valid_date_bounds [of d] by (simp_all add: length_pad)
  have dg: "list_all is_digit (pad 4 (Year d))" "list_all is_digit (pad 2 (Month d))"
      "list_all is_digit (pad 2 (Day d))"
    using assms valid_date_bounds [of d] by (simp_all add: pad_digits)
  have "digits_val (pad 4 (Year d)) = Year d" "digits_val (pad 2 (Month d)) = Month d"
      "digits_val (pad 2 (Day d)) = Day d"
    using assms valid_date_bounds [of d] by (simp_all add: digits_val_pad)
  then show ?thesis
    using assms l dg by (simp add: ParseDate_def date_String_valid Let_def nth_append)
qed

lemma length10_split:
  assumes "length s = 10" "s ! 4 = x" "s ! 7 = y"
  shows "s = take 4 s @ [x] @ take 2 (drop 5 s) @ [y] @ drop 8 s"
proof -
  obtain a b c d e f g h i j where "s = [a, b, c, d, e, f, g, h, i, j]"
    using assms(1) by (auto simp: numeral_eq_Suc length_Suc_conv)
  then show ?thesis using assms by simp
qed

lemma ParseDate_Inr:
  assumes "ParseDate s = Inr d"
  shows "valid_date d \<and> 0 \<le> Year d \<and> Year d \<le> 9999 \<and> s = date_String d"
proof -
  let ?y = "take 4 s" and ?m = "take 2 (drop 5 s)" and ?d = "drop 8 s"
  from assms have s: "length s = 10" "s ! 4 = CHR ''-''" "s ! 7 = CHR ''-''"
      "list_all is_digit ?y" "list_all is_digit ?m" "list_all is_digit ?d"
    and d: "d = Date (digits_val ?y) (digits_val ?m) (digits_val ?d)" "valid_date d"
    by (auto simp: ParseDate_def Let_def split: if_splits)
  have "0 \<le> Year d" "Year d < 10 ^ 4"
    using digits_val_bounds [OF s(4)] s(1) d(1) by simp_all
  moreover have "pad 4 (Year d) = ?y" "pad 2 (Month d) = ?m" "pad 2 (Day d) = ?d"
    using pad_digits_val [OF s(4)] pad_digits_val [OF s(5)] pad_digits_val [OF s(6)] s(1) d(1)
    by (cases s; auto)+
  ultimately show ?thesis
    using d(2) length10_split [OF s(1-3)] by (simp add: date_String_valid)
qed

end
