(* ===== verification/Money.thy ===== *)
theory Money
  imports GoStrings "HOL-Library.Signed_Division"
begin

text \<open>
  Package \<open>money\<close>: amounts in integer minor units, the currency table, the
  rendering of an amount in major units and the parser of a typed amount.
  A panic of the source is the value \<open>None\<close>.
\<close>

section \<open>Currencies (money/currency.go)\<close>

type_synonym Currency = string

record meta =
  exponent :: nat
  display :: nat
  symbol :: string

definition IDR :: Currency where
  "IDR = ''IDR''"

definition mk_meta :: "nat \<Rightarrow> nat \<Rightarrow> string \<Rightarrow> meta" where
  "mk_meta e d s = \<lparr>exponent = e, display = d, symbol = s\<rparr>"

definition currencies :: "Currency \<rightharpoonup> meta" where
  "currencies = map_of
     [(IDR, mk_meta 2 0 ''Rp''),
      (''USD'', mk_meta 2 2 ''$''),
      (''SGD'', mk_meta 2 2 ''S$''),
      (''MYR'', mk_meta 2 2 ''RM''),
      (''EUR'', mk_meta 2 2 [CHR 0xE2, CHR 0x82, CHR 0xAC]),
      (''JPY'', mk_meta 0 0 [CHR 0xC2, CHR 0xA5])]"

definition currency_Valid :: "Currency \<Rightarrow> bool" where
  "currency_Valid c = (case currencies c of None \<Rightarrow> False | Some _ \<Rightarrow> True)"

definition Exponent :: "Currency \<Rightarrow> nat" where
  "Exponent c = (case currencies c of None \<Rightarrow> 0 | Some m \<Rightarrow> exponent m)"

definition DisplayExponent :: "Currency \<Rightarrow> nat" where
  "DisplayExponent c = (case currencies c of None \<Rightarrow> 0 | Some m \<Rightarrow> display m)"

definition currency_symbol :: "Currency \<Rightarrow> string" where
  "currency_symbol c = (case currencies c of None \<Rightarrow> '''' | Some m \<Rightarrow> symbol m)"

datatype money_error = UnknownCurrencyError string | MoneyParseError string string

definition ParseCurrency :: "string \<Rightarrow> (money_error, Currency) res" where
  "ParseCurrency code = (let c = ToUpper (TrimSpace code) in
     if currency_Valid c then Inr c else Inl (UnknownCurrencyError code))"

section \<open>Amounts (money/amount.go)\<close>

record Amount =
  Minor :: int
  Currency :: Currency

definition money_New :: "int \<Rightarrow> Currency \<Rightarrow> Amount" where
  "money_New minor c = \<lparr>Minor = minor, Currency = c\<rparr>"

definition money_Zero :: "Currency \<Rightarrow> Amount" where
  "money_Zero c = \<lparr>Minor = 0, Currency = c\<rparr>"

definition SameCurrency :: "Amount \<Rightarrow> Amount \<Rightarrow> bool" where
  "SameCurrency a b \<longleftrightarrow> Currency a = Currency b"

definition amount_Add :: "Amount \<Rightarrow> Amount \<Rightarrow> Amount option" where
  "amount_Add a b = (if Currency a \<noteq> Currency b then None
     else Some \<lparr>Minor = wrap64 (Minor a + Minor b), Currency = Currency a\<rparr>)"

definition amount_Sub :: "Amount \<Rightarrow> Amount \<Rightarrow> Amount option" where
  "amount_Sub a b = (if Currency a \<noteq> Currency b then None
     else Some \<lparr>Minor = wrap64 (Minor a - Minor b), Currency = Currency a\<rparr>)"

definition amount_Neg :: "Amount \<Rightarrow> Amount" where
  "amount_Neg a = \<lparr>Minor = wrap64 (- Minor a), Currency = Currency a\<rparr>"

definition amount_Compare :: "Amount \<Rightarrow> Amount \<Rightarrow> int option" where
  "amount_Compare a b = (if Currency a \<noteq> Currency b then None
     else Some (if Minor a < Minor b then -1 else if Minor a > Minor b then 1 else 0))"

definition amount_IsZero :: "Amount \<Rightarrow> bool" where
  "amount_IsZero a \<longleftrightarrow> Minor a = 0"

definition amount_IsPositive :: "Amount \<Rightarrow> bool" where
  "amount_IsPositive a \<longleftrightarrow> 0 < Minor a"

fun pow10 :: "nat \<Rightarrow> int" where
  "pow10 0 = 1"
| "pow10 (Suc n) = wrap64 (pow10 n * 10)"

definition Major :: "Amount \<Rightarrow> string" where
  "Major a = (let e = Exponent (Currency a) in
     if e = 0 then FormatInt (Minor a)
     else let neg = Minor a < 0;
              abs = (if neg then wrap64 (- Minor a) else Minor a);
              pow = pow10 e;
              whole = abs sdiv pow;
              frac = abs smod pow;
              s = FormatInt whole;
              s = (if frac \<noteq> 0 \<or> DisplayExponent (Currency a) > 0
                   then let fs = FormatInt frac
                        in s @ ''.'' @ replicate (e - length fs) (CHR ''0'') @ fs
                   else s)
          in if neg then ''-'' @ s else s)"

definition amount_String :: "Amount \<Rightarrow> string" where
  "amount_String a = Currency a @ '' '' @ FormatInt (Minor a)"

section \<open>Parsing a typed amount (money/parse.go)\<close>

definition is_sep :: "char \<Rightarrow> bool" where
  "is_sep c \<longleftrightarrow> c = CHR ''.'' \<or> c = CHR '',''"

definition splitDecimal :: "string \<Rightarrow> nat \<Rightarrow> (string \<times> string) option" where
  "splitDecimal raw displayExp =
     (if displayExp = 0 then Some (raw, '''')
      else if \<not> (\<exists>c \<in> set raw. is_sep c) then Some (raw, '''')
      else let tail = rev (takeWhile (\<lambda>c. \<not> is_sep c) (rev raw));
               i = length raw - length tail - 1
           in if length tail \<ge> 1 \<and> length tail \<le> displayExp then Some (take i raw, tail)
              else if raw ! i = CHR '','' then Some (raw, '''')
              else None)"

definition ParseMajor :: "string \<Rightarrow> Currency \<Rightarrow> (money_error, Amount) res" where
  "ParseMajor s c =
     (if \<not> currency_Valid c then Inl (UnknownCurrencyError c) else
      let raw = TrimSpace s;
          raw = TrimPrefix raw (currency_symbol c);
          raw = TrimPrefix (ToUpper raw) c;
          raw = filter (\<lambda>x. x \<noteq> CHR '' '') (TrimSpace raw)
      in if raw = '''' then Inl (MoneyParseError s ''empty'')
         else if prefix ''-'' raw then Inl (MoneyParseError s ''negative'')
         else case splitDecimal raw (DisplayExponent c) of
           None \<Rightarrow> Inl (MoneyParseError s ''ambiguous decimal separator'')
         | Some (whole, frac) \<Rightarrow>
             let whole = filter (\<lambda>x. \<not> is_sep x) whole
             in if whole = '''' \<or> \<not> list_all is_digit whole \<or> \<not> list_all is_digit frac
                then Inl (MoneyParseError s ''not a number'')
                else if length frac > Exponent c
                then Inl (MoneyParseError s ''too many decimals'')
                else case ParseInt_digits (whole @ frac @ replicate (Exponent c - length frac) (CHR ''0'')) of
                  None \<Rightarrow> Inl (MoneyParseError s ''overflow'')
                | Some n \<Rightarrow> Inr \<lparr>Minor = n, Currency = c\<rparr>)"


section \<open>The currency table\<close>

lemma currencies_cases:
  assumes "currency_Valid c"
  obtains "c = IDR" | "c = ''USD''" | "c = ''SGD''" | "c = ''MYR''" | "c = ''EUR''" | "c = ''JPY''"
  using assms by (auto simp: currency_Valid_def currencies_def split: if_splits)

lemmas currency_table = Exponent_def DisplayExponent_def currency_symbol_def currencies_def IDR_def
  mk_meta_def

lemma display_le_exponent: "DisplayExponent c \<le> Exponent c"
  by (simp add: currency_table)

lemma Exponent_le_2: "Exponent c \<le> 2"
  by (simp add: currency_table)

lemma display_0_or_exponent: "DisplayExponent c = 0 \<or> DisplayExponent c = Exponent c"
  by (simp add: currency_table)

lemma pow10_small [simp]: "pow10 (Suc 0) = 10" "pow10 2 = 100" "pow10 (Suc (Suc 0)) = 100"
  by (simp_all add: numeral_2_eq_2 wrap64_def)

lemma pow10_Exponent: "pow10 (Exponent c) = 10 ^ Exponent c"
proof -
  have "Exponent c \<in> {0, Suc 0, Suc (Suc 0)}"
    using Exponent_le_2 [of c] by auto
  then show ?thesis by (auto simp: wrap64_def)
qed

lemma ParseCurrency_valid: "ParseCurrency s = Inr c \<Longrightarrow> currency_Valid c"
  by (auto simp: ParseCurrency_def Let_def split: if_splits)

section \<open>Parsing and rendering\<close>

text \<open>What survives the cleaning of the input: a string of digits and separators is kept.\<close>

definition raw_amount :: "string \<Rightarrow> Currency \<Rightarrow> string" where
  "raw_amount s c = filter (\<lambda>x. x \<noteq> CHR '' '')
     (TrimSpace (TrimPrefix (ToUpper (TrimPrefix (TrimSpace s) (currency_symbol c))) c))"

lemma TrimPrefix_digit: "is_digit (hd s) \<Longrightarrow> p \<noteq> [] \<Longrightarrow> \<not> is_digit (hd p) \<Longrightarrow> s \<noteq> [] \<Longrightarrow> TrimPrefix s p = s"
  by (auto simp: TrimPrefix_def prefix_def neq_Nil_conv)

lemma currency_text:
  assumes "currency_Valid c"
  shows "c \<noteq> []" "\<not> is_digit (hd c)" "currency_symbol c \<noteq> []" "\<not> is_digit (hd (currency_symbol c))"
  using assms by (cases rule: currencies_cases; simp add: currency_table is_digit_def byte_def)+

lemma raw_amount_id:
  assumes c: "currency_Valid c" and s: "s \<noteq> []" "is_digit (hd s)" "is_digit (last s)"
    and chars: "\<forall>x \<in> set s. is_digit x \<or> is_sep x"
  shows "raw_amount s c = s"
proof -
  have "TrimSpace s = s"
    using s by (simp add: TrimSpace_visible is_digit_visible)
  moreover have "TrimPrefix s (currency_symbol c) = s" "TrimPrefix s c = s"
    using s currency_text [OF c] by (simp_all add: TrimPrefix_digit)
  moreover have "ToUpper s = s"
    using chars by (intro ToUpper_fixed) (auto simp: is_digit_def is_sep_def upper_byte_def byte_def)
  moreover have "filter (\<lambda>x. x \<noteq> CHR '' '') s = s"
    using chars by (intro filter_True) (auto simp: is_digit_def is_sep_def byte_def)
  ultimately show ?thesis by (simp add: raw_amount_def)
qed

lemma not_digit_sep: "is_digit x \<Longrightarrow> \<not> is_sep x"
  by (auto simp: is_digit_def is_sep_def byte_def)

lemma splitDecimal_digits: "list_all is_digit s \<Longrightarrow> splitDecimal s e = Some (s, [])"
  using not_digit_sep by (auto simp: splitDecimal_def list_all_iff)

lemma splitDecimal_dot:
  assumes "list_all is_digit t" "t \<noteq> []" "length t \<le> e"
  shows "splitDecimal (w @ ''.'' @ t) e = Some (w, t)"
proof -
  have "takeWhile (\<lambda>c. \<not> is_sep c) (rev t @ CHR ''.'' # rev w) = rev t"
    using assms(1) not_digit_sep by (subst takeWhile_append2) (auto simp: list_all_iff is_sep_def)
  moreover have "0 < length t" "e \<noteq> 0" using assms(2,3) by (cases t, simp_all)+
  ultimately show ?thesis using assms by (auto simp: splitDecimal_def is_sep_def Let_def Suc_le_eq)
qed

lemma ParseMajor_unfold:
  assumes "currency_Valid c" "raw_amount s c = r" "r \<noteq> []" "is_digit (hd r)"
    and "splitDecimal r (DisplayExponent c) = Some (w, f)" "w \<noteq> []"
    and "list_all is_digit w" "list_all is_digit f" "length f \<le> Exponent c"
    and "v = digits_val (w @ f @ replicate (Exponent c - length f) (CHR ''0''))" "v \<le> max_i64"
  shows "ParseMajor s c = Inr \<lparr>Minor = v, Currency = c\<rparr>"
proof -
  have "filter (\<lambda>x. \<not> is_sep x) w = w"
    using assms(7) not_digit_sep by (auto simp: list_all_iff intro!: filter_True)
  moreover have "\<not> prefix ''-'' r"
    using assms(4) by (auto simp: prefix_def is_digit_def byte_def)
  ultimately show ?thesis
    using assms by (simp add: ParseMajor_def raw_amount_def ParseInt_digits_def Let_def)
qed

lemma utoa_small: "n < 10 \<Longrightarrow> utoa n = [digit n]"
  by (simp add: utoa.simps)

lemma utoa_two: "10 \<le> n \<Longrightarrow> n < 100 \<Longrightarrow> utoa n = [digit (n div 10), digit (n mod 10)]"
  by (subst utoa.simps) (simp add: utoa_small)

lemma two_digits:
  assumes "0 \<le> n" "n < 100"
  shows "replicate (2 - length (utoa n)) (CHR ''0'') @ utoa n = [digit (n div 10), digit (n mod 10)]"
proof (cases "n < 10")
  case True
  with assms show ?thesis by (simp add: utoa_small div_pos_pos_trivial mod_pos_pos_trivial)
      (simp add: digit_def char_of_def)
next
  case False
  with assms show ?thesis by (simp add: utoa_two)
qed

lemma digits_val_cents:
  assumes "0 \<le> f" "f < 100"
  shows "digits_val (w @ [digit (f div 10), digit (f mod 10)]) = digits_val w * 100 + f"
proof -
  have "digits_val [digit (f div 10), digit (f mod 10)] = f"
    using assms digits_val_append [of "[digit (f div 10)]" "[digit (f mod 10)]"] by simp
  then show ?thesis
    using digits_val_append [of w "[digit (f div 10), digit (f mod 10)]"] by simp
qed

text \<open>The string \<open>Major\<close> gives for an amount that is not negative.\<close>

lemma Major_nonneg:
  assumes "0 \<le> Minor a"
  shows "Major a = (let e = Exponent (Currency a) in
     if e = 0 then utoa (Minor a)
     else utoa (Minor a div 10 ^ e) @
       (if Minor a mod 10 ^ e \<noteq> 0 \<or> 0 < DisplayExponent (Currency a)
        then ''.'' @ replicate (e - length (utoa (Minor a mod 10 ^ e))) (CHR ''0'') @ utoa (Minor a mod 10 ^ e)
        else []))"
proof -
  have "Minor a sdiv 10 ^ n = Minor a div 10 ^ n" "Minor a smod 10 ^ n = Minor a mod 10 ^ n" for n
    using assms by (cases "Minor a = 0"; simp add: signed_divide_int_def signed_modulo_int_def)+
  moreover have "\<not> Minor a mod 10 ^ n < 0" "\<not> Minor a div 10 ^ n < 0" for n
    using assms by (simp_all add: not_less pos_imp_zdiv_nonneg_iff)
  ultimately show ?thesis
    using assms by (simp add: Major_def Let_def pow10_Exponent FormatInt_def)
qed

lemma Major_digits:
  assumes "0 \<le> Minor a" "DisplayExponent (Currency a) = 0" "10 ^ Exponent (Currency a) dvd Minor a"
  shows "Major a = utoa (Minor a div 10 ^ Exponent (Currency a))"
  using assms by (auto simp: Major_nonneg Let_def)

lemma Major_cents:
  assumes "0 \<le> Minor a" "DisplayExponent (Currency a) = 2" "Exponent (Currency a) = 2"
  shows "Major a = utoa (Minor a div 100) @ ''.'' @
    [digit (Minor a mod 100 div 10), digit (Minor a mod 100 mod 10)]"
  using assms two_digits [of "Minor a mod 100"] by (simp add: Major_nonneg Let_def)

lemma ParseMajor_Major:
  assumes c: "currency_Valid (Currency a)" and n: "0 \<le> Minor a" "Minor a \<le> max_i64"
    and dvd: "10 ^ (Exponent (Currency a) - DisplayExponent (Currency a)) dvd Minor a"
  shows "ParseMajor (Major a) (Currency a) = Inr a"
proof -
  let ?c = "Currency a"
  have hd: "is_digit (hd (utoa n))" "is_digit (last (utoa n))" "list_all is_digit (utoa n)" if "0 \<le> n" for n
    using utoa_digits [OF that] by (simp_all add: list_all_iff)
  consider (whole) "DisplayExponent ?c = 0" | (cents) "DisplayExponent ?c = 2" "Exponent ?c = 2"
    using c by (cases rule: currencies_cases) (simp_all add: currency_table)
  then have "ParseMajor (Major a) ?c = Inr \<lparr>Minor = Minor a, Currency = ?c\<rparr>"
  proof cases
    case whole
    let ?w = "Minor a div 10 ^ Exponent ?c"
    have w: "0 \<le> ?w" using n by (simp add: pos_imp_zdiv_nonneg_iff)
    have M: "Major a = utoa ?w" using whole dvd n by (simp add: Major_digits)
    have "?w * 10 ^ Exponent ?c = Minor a" using dvd whole by simp
    then show ?thesis
      using w c n hd [OF w] utoa_digits [OF w] M
      by (intro ParseMajor_unfold [where r = "utoa ?w" and w = "utoa ?w" and f = "[]"])
         (auto simp: raw_amount_id splitDecimal_digits digits_val_append)
  next
    case cents
    let ?w = "Minor a div 100" and ?f = "Minor a mod 100"
    let ?t = "[digit (?f div 10), digit (?f mod 10)]"
    have w: "0 \<le> ?w" using n by (simp add: pos_imp_zdiv_nonneg_iff)
    have t: "list_all is_digit ?t"
      using pos_mod_bound [of 100 "Minor a"] by simp
    have M: "Major a = utoa ?w @ ''.'' @ ?t" using cents n by (simp add: Major_cents)
    have raw: "raw_amount (Major a) ?c = Major a"
      using c hd [OF w] utoa_digits [OF w] t unfolding M
      by (intro raw_amount_id) (auto simp: is_sep_def)
    have split: "splitDecimal (Major a) (DisplayExponent ?c) = Some (utoa ?w, ?t)"
      using splitDecimal_dot [OF t, of 2 "utoa ?w"] cents M by simp
    have "digits_val (utoa ?w @ ?t) = ?w * 100 + ?f"
      by (subst digits_val_cents) (use w in \<open>simp_all add: pos_mod_bound\<close>)
    then have val: "Minor a = digits_val (utoa ?w @ ?t @ replicate (Exponent ?c - length ?t) (CHR ''0''))"
      using cents(2) by (simp only: length_Cons list.size(3)) simp
    have "Major a \<noteq> []" "is_digit (hd (Major a))"
      using hd(1) [OF w] unfolding M by simp_all
    moreover have "length ?t \<le> Exponent ?c" using cents(2) by simp
    ultimately show ?thesis
      by (rule ParseMajor_unfold [OF c raw _ _ split utoa_ne hd(3) [OF w] t _ val n(2)])
  qed
  then show ?thesis by simp
qed

text \<open>What an accepted input gives.\<close>

lemma digits_val_nonneg: "list_all is_digit s \<Longrightarrow> 0 \<le> digits_val s"
proof (induction s rule: rev_induct)
  case (snoc c s)
  then show ?case by (simp add: digits_val_append digit_val_def is_digit_def)
qed (simp add: digits_val_def)

lemma splitDecimal_frac: "splitDecimal r e = Some (w, f) \<Longrightarrow> length f \<le> e"
  by (auto simp: splitDecimal_def Let_def split: if_splits)

lemma ParseMajor_Inr:
  assumes "ParseMajor s c = Inr a"
  shows "currency_Valid c" "Currency a = c" "0 \<le> Minor a" "Minor a \<le> max_i64"
    "10 ^ (Exponent c - DisplayExponent c) dvd Minor a"
proof -
  from assms obtain w f where
    c: "currency_Valid c" and sp: "splitDecimal (raw_amount s c) (DisplayExponent c) = Some (w, f)"
    and d: "list_all is_digit (filter (\<lambda>x. \<not> is_sep x) w)" "list_all is_digit f" and f: "length f \<le> Exponent c"
    and a: "ParseInt_digits (filter (\<lambda>x. \<not> is_sep x) w @ f @ replicate (Exponent c - length f) (CHR ''0''))
      = Some (Minor a)" "Currency a = c"
    by (auto simp: ParseMajor_def raw_amount_def Let_def not_less split: if_splits option.splits)
  let ?ds = "filter (\<lambda>x. \<not> is_sep x) w @ f" and ?z = "replicate (Exponent c - length f) (CHR ''0'')"
  have v: "Minor a = digits_val ?ds * 10 ^ (Exponent c - length f)" "Minor a \<le> max_i64"
    using a digits_val_append [of ?ds ?z] by (auto simp: ParseInt_digits_def Let_def split: if_splits)
  show "currency_Valid c" "Currency a = c" "Minor a \<le> max_i64" using c a v by simp_all
  show "0 \<le> Minor a" using v digits_val_nonneg [of ?ds] d by (simp add: list_all_append)
  have "Exponent c - DisplayExponent c \<le> Exponent c - length f"
    using splitDecimal_frac [OF sp] by simp
  then show "10 ^ (Exponent c - DisplayExponent c) dvd Minor a"
    using v(1) by (simp add: dvd_mult le_imp_power_dvd)
qed

end
