(* ===== verification/Errors.thy ===== *)
theory Errors
  imports Civil Money
begin

text \<open>
  The error values of the program.  Every package of the source declares its
  typed errors; here each is a datatype with the source's constructors, and
  \<open>err\<close> is the Go \<open>error\<close> interface over all of them.  \<open>Unexpected op cause\<close> is
  the envelope \<open>Reporter.Unexpected\<close> builds: it keeps its cause, so the
  \<open>Is..Error\<close> predicates see through it.  \<open>Sql\<close> holds the raw failures of the
  database (a constraint that no typed error names, an integer overflow in an
  aggregate).
\<close>

text \<open>What a lookup that found nothing was given: an identifier, or a text such as a name or a date.\<close>

datatype ref = RefID uuid | RefText string

datatype tenant_error = TenantMissingError | TenantUnscopedError

datatype ledger_error =
    LedgerNotFoundError uuid
  | InvalidTimezoneError string
  | InvalidStartDayError int
  | LedgerUnknownCurrencyError string

datatype wallet_error =
    WalletNotFoundError ref
  | WalletInvalidNameError string
  | WalletAlreadyExistsError string
  | WalletInvalidKindError string
  | WalletInUseError uuid
  | WalletAmbiguousNameError string "string list"
  | WalletArchivedErr uuid

datatype category_error =
    CategoryNotFoundError uuid string
  | CategoryInvalidNameError string
  | CategoryInvalidIconError string
  | CategoryInvalidColorError string
  | CategoryAlreadyExistsError string string
  | CategoryInvalidKindError string
  | CategoryInUseError uuid
  | CategoryAmbiguousNameError string nat

datatype transaction_error =
    TxNotFoundError uuid
  | InvalidAmountError string
  | CurrencyMismatchError uuid string string
  | InvalidKindError string string
  | SameWalletError uuid
  | CategoryKindMismatchError uuid string string
  | WalletArchivedError uuid
  | SystemRecordedError string
  | PeriodLockedError uuid
  | PeriodNotAdjacentError uuid
  | InvalidNoteError string
  | TxAuthorMissingError
  | ErrNoUnitOfWork

datatype period_error =
    PeriodNotFoundError ref
  | PeriodInvalidNameError string
  | InvalidRangeError string
  | OverlapError Date "Date option"
  | AlreadyClosedError uuid
  | NotClosedError uuid
  | NotLatestClosedError uuid
  | PeriodAuthorMissingError

datatype sheet_error =
    LinkNotFoundError uuid
  | InvalidSettingError string string
  | APIKeyRequiredError
  | NotVerifiedError
  | SheetUnreachableError string
  | ShapeMismatchError string "string list"
  | NoIDColumnError string
  | SheetNotWritableError string
  | ContractUnsatisfiedError string string
  | LinkDisabledError
  | ScopeMismatchError uuid "uuid option"

text \<open>
  Package \<open>opensheet\<close>: the errors of its client.  An exchange that got no answer carries
  the cause of its \<open>url.Error\<close>.
\<close>

datatype exchange_cause = PrivateAddress | Canceled | DeadlineExceeded | Unreachable

datatype opensheet_error =
    APIError nat string string
  | SheetNotFoundError string string string
  | PreconditionFailedError string string
  | StaleCursorError string
  | RateLimitedError int
  | PayloadTooLargeError string
  | ValidationError string string
  | ExchangeError exchange_cause
  | ClientConfigError string

datatype outbox_error =
    EntryNotFoundError uuid
  | TerminalStateError uuid string
  | StaleClaimError uuid int int
  | NotFailedError uuid string
  | InvalidEntryError string string

datatype apikey_error =
    KeyNotFoundError
  | UnknownScopeError string
  | RetiredScopeError string
  | ScopeLevelError string
  | EmptyGrantError
  | GrantConflictError
  | BoundToProjectError
  | AlreadyAllProjectsError
  | RevokedError
  | ProjectNotInOrgError uuid
  | ExpiryRequiredError
  | ExpiryInPastError
  | ExpiryTooLongError

datatype authn_error =
    UnauthorizedError
  | InsufficientScopeError string
  | SessionRequiredError

datatype org_error =
    OrgNotFoundError ref
  | SystemOrgNotFoundError
  | OrgAlreadyExistsError string
  | OrgInvalidSlugError string string
  | OrgInvalidNameError string
  | InvalidRoleError string
  | MembershipExistsError uuid uuid
  | MembershipMissingError uuid uuid
  | SystemProtectedError string uuid uuid string
  | SelfRemovalError uuid uuid
  | OwnerRemovalError uuid uuid
  | CreationDisabledError
  | UnreadableExistingOrgError string
  | SystemOrgExistsError string
  | NotManagerError uuid uuid

datatype webhook_error =
    EndpointNotFoundError uuid
  | InvalidURLError string
  | InvalidEventTypesError string
  | InvalidDescriptionError string
  | EndpointLimitError int
  | DeliveryNotRetryableError uuid
  | DeliveryNotFoundError uuid
  | EndpointInactiveError uuid
  | SecretConflictError uuid
  | InvalidAttemptError string string
  | WebhookNoUnitOfWorkError
  | DeliveryFailedError int
  | UnknownTypeError string
  | PayloadMismatchError string

datatype project_error =
    ProjectNotFoundError ref
  | ProjectAlreadyExistsError string string
  | ProjectInvalidSlugError string string
  | ProjectInvalidNameError string
  | ProjectSystemProtectedError string uuid
  | SystemProjectExistsError uuid string

datatype invite_error =
    InviteNotFoundError ref
  | InviteExpiredError uuid
  | InviteAlreadyUsedError uuid
  | InviteInvalidRoleError string
  | InviteInvalidEmailError string string
  | InvitesDisabledError string
  | TokenMismatchError

datatype user_error =
    SingletonOrgMissingError
  | UserNotFoundError ref
  | UserAlreadyExistsError string string
  | NotInvitedError string
  | UserInvalidEmailError string string
  | SignupRequiredError uuid string
  | UserInvalidNameError string
  | EmailUnverifiedError
  | IdentityConflictError
  | UnknownPolicyError string

datatype onboard_error =
    NotOnboardedError
  | AlreadyOnboardedError
  | InvalidMethodError string string

datatype auth_error =
    InvalidCredentialsError
  | OIDCUnavailableError
  | OIDCClaimMissingError string

datatype sealer_error =
    SealerUnavailableError
  | OpenFailedError
  | SealerInvalidKeyError nat
  | SealerKeyTextError

datatype blogcat_error =
    BlogCategoryNotFoundError uuid
  | BlogCategoryAlreadyExistsError string
  | BlogCategoryInvalidNameError string
  | BlogCategoryInUseError uuid

datatype tag_error =
    TagNotFoundError ref
  | TagAlreadyExistsError string
  | TagInvalidNameError string
  | TagInUseError uuid

datatype post_error =
    PostNotFoundError ref
  | PostAlreadyExistsError string
  | InvalidTitleError string
  | InvalidSlugError string
  | InvalidBodyError string
  | StaleVersionError int int
  | CategoryRequiredError

datatype todo_error =
    TodoNotFoundError uuid
  | TodoInvalidTitleError string

datatype sql_error = ConstraintUnique | ConstraintCheck | ConstraintForeignKey | IntegerOverflow

datatype err =
    ETenant tenant_error
  | ELedger ledger_error
  | EWallet wallet_error
  | ECategory category_error
  | ETransaction transaction_error
  | EPeriod period_error
  | ESheet sheet_error
  | EMoney money_error
  | ECivil civil_error
  | EOutbox outbox_error
  | EApiKey apikey_error
  | EAuthn authn_error
  | EOrg org_error
  | EWebhook webhook_error
  | EProject project_error
  | EInvite invite_error
  | EUser user_error
  | EOnboard onboard_error
  | EAuth auth_error
  | ESealer sealer_error
  | EBlogCategory blogcat_error
  | ETag tag_error
  | EPost post_error
  | ETodo todo_error
  | Sql sql_error
  | ErrNestedUnitOfWork
  | ErrPeriodAbsent
  | ErrTooManyPeriods
  | SecretUnavailableError err
  | UnavailableError err
  | EOpensheet opensheet_error
  | SheetError string err
  | SheetUnavailableError string err
  | SyncRefusedError string string err
  | RowRefusedError string string err
  | KeyUnreadableError err
  | PrivateEndpointError err
  | Unexpected string err

section \<open>Errors seen through the envelope\<close>

fun root_cause :: "err \<Rightarrow> err" where
  "root_cause (Unexpected op e) = root_cause e"
| "root_cause (SecretUnavailableError e) = root_cause e"
| "root_cause (UnavailableError e) = root_cause e"
| "root_cause (SheetError sheet e) = root_cause e"
| "root_cause (SyncRefusedError sheet code e) = root_cause e"
| "root_cause (RowRefusedError sheet code e) = root_cause e"
| "root_cause (KeyUnreadableError e) = root_cause e"
| "root_cause (PrivateEndpointError e) = root_cause e"
| "root_cause e = e"

definition ledger_IsNotFoundError :: "err \<Rightarrow> bool" where
  "ledger_IsNotFoundError e = (case root_cause e of ELedger (LedgerNotFoundError _) \<Rightarrow> True | _ \<Rightarrow> False)"

definition wallet_IsNotFoundError :: "err \<Rightarrow> bool" where
  "wallet_IsNotFoundError e = (case root_cause e of EWallet (WalletNotFoundError _) \<Rightarrow> True | _ \<Rightarrow> False)"

definition wallet_IsAlreadyExistsError :: "err \<Rightarrow> bool" where
  "wallet_IsAlreadyExistsError e = (case root_cause e of EWallet (WalletAlreadyExistsError _) \<Rightarrow> True | _ \<Rightarrow> False)"

definition wallet_IsInUseError :: "err \<Rightarrow> bool" where
  "wallet_IsInUseError e = (case root_cause e of EWallet (WalletInUseError _) \<Rightarrow> True | _ \<Rightarrow> False)"

definition category_IsNotFoundError :: "err \<Rightarrow> bool" where
  "category_IsNotFoundError e = (case root_cause e of ECategory (CategoryNotFoundError _ _) \<Rightarrow> True | _ \<Rightarrow> False)"

definition category_IsAlreadyExistsError :: "err \<Rightarrow> bool" where
  "category_IsAlreadyExistsError e =
     (case root_cause e of ECategory (CategoryAlreadyExistsError _ _) \<Rightarrow> True | _ \<Rightarrow> False)"

definition category_IsInUseError :: "err \<Rightarrow> bool" where
  "category_IsInUseError e = (case root_cause e of ECategory (CategoryInUseError _) \<Rightarrow> True | _ \<Rightarrow> False)"

definition tx_IsNotFoundError :: "err \<Rightarrow> bool" where
  "tx_IsNotFoundError e = (case root_cause e of ETransaction (TxNotFoundError _) \<Rightarrow> True | _ \<Rightarrow> False)"

definition tx_IsAuthorMissingError :: "err \<Rightarrow> bool" where
  "tx_IsAuthorMissingError e = (case root_cause e of ETransaction TxAuthorMissingError \<Rightarrow> True | _ \<Rightarrow> False)"

definition period_IsNotFoundError :: "err \<Rightarrow> bool" where
  "period_IsNotFoundError e = (case root_cause e of EPeriod (PeriodNotFoundError _) \<Rightarrow> True | _ \<Rightarrow> False)"

definition period_isDomainError :: "err \<Rightarrow> bool" where
  "period_isDomainError e = (case root_cause e of EPeriod _ \<Rightarrow> True | _ \<Rightarrow> False)"

lemmas is_error_defs = ledger_IsNotFoundError_def wallet_IsNotFoundError_def wallet_IsAlreadyExistsError_def
  wallet_IsInUseError_def category_IsNotFoundError_def category_IsAlreadyExistsError_def
  category_IsInUseError_def tx_IsNotFoundError_def tx_IsAuthorMissingError_def
  period_IsNotFoundError_def period_isDomainError_def

definition outbox_IsNotFoundError :: "err \<Rightarrow> bool" where
  "outbox_IsNotFoundError e = (case root_cause e of EOutbox (EntryNotFoundError _) \<Rightarrow> True | _ \<Rightarrow> False)"

definition outbox_IsNotFailedError :: "err \<Rightarrow> bool" where
  "outbox_IsNotFailedError e = (case root_cause e of EOutbox (NotFailedError _ _) \<Rightarrow> True | _ \<Rightarrow> False)"

definition org_IsNotFoundError :: "err \<Rightarrow> bool" where
  "org_IsNotFoundError e = (case root_cause e of EOrg (OrgNotFoundError _) \<Rightarrow> True | EOrg SystemOrgNotFoundError \<Rightarrow> True | _ \<Rightarrow> False)"

definition IsMembershipMissingError :: "err \<Rightarrow> bool" where
  "IsMembershipMissingError e = (case root_cause e of EOrg (MembershipMissingError _ _) \<Rightarrow> True | _ \<Rightarrow> False)"

definition org_IsAlreadyExistsError :: "err \<Rightarrow> bool" where
  "org_IsAlreadyExistsError e = (case root_cause e of EOrg (OrgAlreadyExistsError _) \<Rightarrow> True | _ \<Rightarrow> False)"

definition IsSystemOrgExistsError :: "err \<Rightarrow> bool" where
  "IsSystemOrgExistsError e = (case root_cause e of EOrg (SystemOrgExistsError _) \<Rightarrow> True | _ \<Rightarrow> False)"

definition IsUnreadableExistingOrgError :: "err \<Rightarrow> bool" where
  "IsUnreadableExistingOrgError e = (case root_cause e of EOrg (UnreadableExistingOrgError _) \<Rightarrow> True | _ \<Rightarrow> False)"

definition apikey_IsNotFoundError :: "err \<Rightarrow> bool" where
  "apikey_IsNotFoundError e = (case root_cause e of EApiKey KeyNotFoundError \<Rightarrow> True | _ \<Rightarrow> False)"

definition IsUnauthorizedError :: "err \<Rightarrow> bool" where
  "IsUnauthorizedError e = (case root_cause e of EAuthn UnauthorizedError \<Rightarrow> True | _ \<Rightarrow> False)"

definition project_IsNotFoundError :: "err \<Rightarrow> bool" where
  "project_IsNotFoundError e \<longleftrightarrow> (case root_cause e of EProject (ProjectNotFoundError _) \<Rightarrow> True | _ \<Rightarrow> False)"

definition project_IsAlreadyExistsError :: "err \<Rightarrow> bool" where
  "project_IsAlreadyExistsError e \<longleftrightarrow> (case root_cause e of EProject (ProjectAlreadyExistsError _ _) \<Rightarrow> True | _ \<Rightarrow> False)"

definition IsSystemProjectExistsError :: "err \<Rightarrow> bool" where
  "IsSystemProjectExistsError e \<longleftrightarrow> (case root_cause e of EProject (SystemProjectExistsError _ _) \<Rightarrow> True | _ \<Rightarrow> False)"

definition invite_IsNotFoundError :: "err \<Rightarrow> bool" where
  "invite_IsNotFoundError e \<longleftrightarrow> (case root_cause e of EInvite (InviteNotFoundError _) \<Rightarrow> True | _ \<Rightarrow> False)"

definition user_IsNotFoundError :: "err \<Rightarrow> bool" where
  "user_IsNotFoundError e \<longleftrightarrow> (case root_cause e of EUser (UserNotFoundError _) \<Rightarrow> True | _ \<Rightarrow> False)"

definition user_IsAlreadyExistsError :: "err \<Rightarrow> bool" where
  "user_IsAlreadyExistsError e \<longleftrightarrow> (case root_cause e of EUser (UserAlreadyExistsError _ _) \<Rightarrow> True | _ \<Rightarrow> False)"

definition IsSingletonOrgMissingError :: "err \<Rightarrow> bool" where
  "IsSingletonOrgMissingError e \<longleftrightarrow> root_cause e = EUser SingletonOrgMissingError"

definition IsNotOnboardedError :: "err \<Rightarrow> bool" where
  "IsNotOnboardedError e \<longleftrightarrow> root_cause e = EOnboard NotOnboardedError"

definition IsAlreadyOnboardedError :: "err \<Rightarrow> bool" where
  "IsAlreadyOnboardedError e \<longleftrightarrow> root_cause e = EOnboard AlreadyOnboardedError"

definition webhook_IsNotFoundError :: "err \<Rightarrow> bool" where
  "webhook_IsNotFoundError e = (case root_cause e of EWebhook (EndpointNotFoundError _) \<Rightarrow> True | _ \<Rightarrow> False)"

definition IsSecretConflictError :: "err \<Rightarrow> bool" where
  "IsSecretConflictError e = (case root_cause e of EWebhook (SecretConflictError _) \<Rightarrow> True | _ \<Rightarrow> False)"

definition IsSealerUnavailableError :: "err \<Rightarrow> bool" where
  "IsSealerUnavailableError e = (case root_cause e of ESealer SealerUnavailableError \<Rightarrow> True | _ \<Rightarrow> False)"

lemmas platform_error_defs = org_IsNotFoundError_def IsMembershipMissingError_def org_IsAlreadyExistsError_def
  IsSystemOrgExistsError_def IsUnreadableExistingOrgError_def outbox_IsNotFoundError_def outbox_IsNotFailedError_def apikey_IsNotFoundError_def
  project_IsNotFoundError_def project_IsAlreadyExistsError_def IsSystemProjectExistsError_def invite_IsNotFoundError_def
  user_IsNotFoundError_def user_IsAlreadyExistsError_def IsSingletonOrgMissingError_def IsNotOnboardedError_def IsAlreadyOnboardedError_def
  IsUnauthorizedError_def webhook_IsNotFoundError_def IsSecretConflictError_def IsSealerUnavailableError_def

definition blogcat_IsNotFoundError :: "err \<Rightarrow> bool" where
  "blogcat_IsNotFoundError e = (case root_cause e of EBlogCategory (BlogCategoryNotFoundError _) \<Rightarrow> True | _ \<Rightarrow> False)"

definition blogcat_IsAlreadyExistsError :: "err \<Rightarrow> bool" where
  "blogcat_IsAlreadyExistsError e = (case root_cause e of EBlogCategory (BlogCategoryAlreadyExistsError _) \<Rightarrow> True | _ \<Rightarrow> False)"

definition blogcat_IsInUseError :: "err \<Rightarrow> bool" where
  "blogcat_IsInUseError e = (case root_cause e of EBlogCategory (BlogCategoryInUseError _) \<Rightarrow> True | _ \<Rightarrow> False)"

definition tag_IsNotFoundError :: "err \<Rightarrow> bool" where
  "tag_IsNotFoundError e = (case root_cause e of ETag (TagNotFoundError _) \<Rightarrow> True | _ \<Rightarrow> False)"

definition tag_IsAlreadyExistsError :: "err \<Rightarrow> bool" where
  "tag_IsAlreadyExistsError e = (case root_cause e of ETag (TagAlreadyExistsError _) \<Rightarrow> True | _ \<Rightarrow> False)"

definition tag_IsInUseError :: "err \<Rightarrow> bool" where
  "tag_IsInUseError e = (case root_cause e of ETag (TagInUseError _) \<Rightarrow> True | _ \<Rightarrow> False)"

definition post_IsNotFoundError :: "err \<Rightarrow> bool" where
  "post_IsNotFoundError e = (case root_cause e of EPost (PostNotFoundError _) \<Rightarrow> True | _ \<Rightarrow> False)"

definition post_IsAlreadyExistsError :: "err \<Rightarrow> bool" where
  "post_IsAlreadyExistsError e = (case root_cause e of EPost (PostAlreadyExistsError _) \<Rightarrow> True | _ \<Rightarrow> False)"

definition IsStaleVersionError :: "err \<Rightarrow> bool" where
  "IsStaleVersionError e = (case root_cause e of EPost (StaleVersionError _ _) \<Rightarrow> True | _ \<Rightarrow> False)"

definition todo_IsNotFoundError :: "err \<Rightarrow> bool" where
  "todo_IsNotFoundError e = (case root_cause e of ETodo (TodoNotFoundError _) \<Rightarrow> True | _ \<Rightarrow> False)"

text \<open>
  The errors of a sync wrap their cause, so these look along the chain; an
  \<open>UnavailableError\<close> of the mirror keeps the text of its cause only.
\<close>

definition IsLinkNotFoundError :: "err \<Rightarrow> bool" where
  "IsLinkNotFoundError e = (case root_cause e of ESheet (LinkNotFoundError _) \<Rightarrow> True | _ \<Rightarrow> False)"

definition IsScopeMismatchError :: "err \<Rightarrow> bool" where
  "IsScopeMismatchError e = (case root_cause e of ESheet (ScopeMismatchError _ _) \<Rightarrow> True | _ \<Rightarrow> False)"

fun IsSyncRefusedError :: "err \<Rightarrow> bool" where
  "IsSyncRefusedError (SyncRefusedError sheet code e) = True"
| "IsSyncRefusedError (Unexpected op e) = IsSyncRefusedError e"
| "IsSyncRefusedError (SheetError sheet e) = IsSyncRefusedError e"
| "IsSyncRefusedError (RowRefusedError sheet code e) = IsSyncRefusedError e"
| "IsSyncRefusedError _ = False"

fun IsRowRefusedError :: "err \<Rightarrow> bool" where
  "IsRowRefusedError (RowRefusedError sheet code e) = True"
| "IsRowRefusedError (Unexpected op e) = IsRowRefusedError e"
| "IsRowRefusedError (SheetError sheet e) = IsRowRefusedError e"
| "IsRowRefusedError (SyncRefusedError sheet code e) = IsRowRefusedError e"
| "IsRowRefusedError _ = False"

definition IsOpenFailedError :: "err \<Rightarrow> bool" where
  "IsOpenFailedError e = (case root_cause e of ESealer OpenFailedError \<Rightarrow> True | _ \<Rightarrow> False)"

lemmas blog_error_defs = blogcat_IsNotFoundError_def blogcat_IsAlreadyExistsError_def blogcat_IsInUseError_def
  tag_IsNotFoundError_def tag_IsAlreadyExistsError_def tag_IsInUseError_def
  post_IsNotFoundError_def post_IsAlreadyExistsError_def IsStaleVersionError_def

section \<open>The wire envelope\<close>

text \<open>
  \<open>ToAppError\<close>: the stable code and the gRPC status of the envelope each typed
  error becomes.  \<open>AsAppError\<close> stops at the first envelope on the chain, so an
  \<open>Unexpected\<close> error always surfaces as \<open>GEN900\<close>, whatever its cause.
\<close>

fun AsAppError :: "err \<Rightarrow> bool" where
  "AsAppError (ETransaction e) = (e \<noteq> ErrNoUnitOfWork)"
| "AsAppError (EMoney _) = False"
| "AsAppError (EOutbox _) = False"
| "AsAppError (EApiKey e) = (e \<noteq> KeyNotFoundError)"
| "AsAppError (EAuthn _) = False"
| "AsAppError (EOrg e) = (case e of UnreadableExistingOrgError _ \<Rightarrow> False | SystemOrgExistsError _ \<Rightarrow> False | _ \<Rightarrow> True)"
| "AsAppError (EWebhook e) = (case e of InvalidAttemptError _ _ \<Rightarrow> False | WebhookNoUnitOfWorkError \<Rightarrow> False
     | DeliveryFailedError _ \<Rightarrow> False | UnknownTypeError _ \<Rightarrow> False | PayloadMismatchError _ \<Rightarrow> False | _ \<Rightarrow> True)"
| "AsAppError (EProject e) = (case e of SystemProjectExistsError _ _ \<Rightarrow> False | _ \<Rightarrow> True)"
| "AsAppError (EUser e) = (case e of SingletonOrgMissingError \<Rightarrow> False | UnknownPolicyError _ \<Rightarrow> False | _ \<Rightarrow> True)"
| "AsAppError (ESealer e) = (e \<noteq> SealerKeyTextError)"
| "AsAppError (SecretUnavailableError e) = AsAppError e"
| "AsAppError (UnavailableError e) = AsAppError e"
| "AsAppError (ECivil _) = False"
| "AsAppError (Sql _) = False"
| "AsAppError ErrNestedUnitOfWork = False"
| "AsAppError ErrPeriodAbsent = False"
| "AsAppError ErrTooManyPeriods = False"
| "AsAppError (EOpensheet _) = False"
| "AsAppError (SheetError sheet e) = AsAppError e"
| "AsAppError _ = True"

datatype grpc_code = OK_NotFound | InvalidArgument | AlreadyExists | FailedPrecondition | Internal | PermissionDenied | Unauthenticated | Unavailable

fun ledger_ToAppError :: "ledger_error \<Rightarrow> string \<times> grpc_code" where
  "ledger_ToAppError (LedgerNotFoundError _) = (''GEN005'', OK_NotFound)"
| "ledger_ToAppError (InvalidTimezoneError _) = (''LDG001'', InvalidArgument)"
| "ledger_ToAppError (InvalidStartDayError _) = (''LDG002'', InvalidArgument)"
| "ledger_ToAppError (LedgerUnknownCurrencyError _) = (''LDG003'', InvalidArgument)"

fun wallet_ToAppError :: "wallet_error \<Rightarrow> string \<times> grpc_code" where
  "wallet_ToAppError (WalletNotFoundError _) = (''WLT001'', OK_NotFound)"
| "wallet_ToAppError (WalletInvalidNameError _) = (''WLT002'', InvalidArgument)"
| "wallet_ToAppError (WalletAlreadyExistsError _) = (''WLT003'', AlreadyExists)"
| "wallet_ToAppError (WalletInvalidKindError _) = (''WLT004'', InvalidArgument)"
| "wallet_ToAppError (WalletInUseError _) = (''WLT005'', FailedPrecondition)"
| "wallet_ToAppError (WalletAmbiguousNameError _ _) = (''WLT006'', InvalidArgument)"
| "wallet_ToAppError (WalletArchivedErr _) = (''WLT007'', FailedPrecondition)"

fun category_ToAppError :: "category_error \<Rightarrow> string \<times> grpc_code" where
  "category_ToAppError (CategoryNotFoundError _ _) = (''CTG001'', OK_NotFound)"
| "category_ToAppError (CategoryInvalidNameError _) = (''CTG002'', InvalidArgument)"
| "category_ToAppError (CategoryInvalidIconError _) = (''CTG002'', InvalidArgument)"
| "category_ToAppError (CategoryInvalidColorError _) = (''CTG002'', InvalidArgument)"
| "category_ToAppError (CategoryAlreadyExistsError _ _) = (''CTG003'', AlreadyExists)"
| "category_ToAppError (CategoryInvalidKindError _) = (''CTG004'', InvalidArgument)"
| "category_ToAppError (CategoryInUseError _) = (''CTG005'', FailedPrecondition)"
| "category_ToAppError (CategoryAmbiguousNameError _ _) = (''CTG006'', InvalidArgument)"

fun transaction_ToAppError :: "transaction_error \<Rightarrow> (string \<times> grpc_code) option" where
  "transaction_ToAppError (TxNotFoundError _) = Some (''TXN001'', OK_NotFound)"
| "transaction_ToAppError (InvalidAmountError _) = Some (''TXN002'', InvalidArgument)"
| "transaction_ToAppError (CurrencyMismatchError _ _ _) = Some (''TXN003'', InvalidArgument)"
| "transaction_ToAppError (InvalidKindError _ _) = Some (''TXN004'', InvalidArgument)"
| "transaction_ToAppError (SameWalletError _) = Some (''TXN005'', InvalidArgument)"
| "transaction_ToAppError (CategoryKindMismatchError _ _ _) = Some (''TXN006'', InvalidArgument)"
| "transaction_ToAppError (WalletArchivedError _) = Some (''TXN007'', FailedPrecondition)"
| "transaction_ToAppError (SystemRecordedError _) = Some (''TXN011'', FailedPrecondition)"
| "transaction_ToAppError (PeriodLockedError _) = Some (''TXN008'', FailedPrecondition)"
| "transaction_ToAppError (PeriodNotAdjacentError _) = Some (''TXN009'', InvalidArgument)"
| "transaction_ToAppError (InvalidNoteError _) = Some (''TXN010'', InvalidArgument)"
| "transaction_ToAppError TxAuthorMissingError = Some (''TXN012'', FailedPrecondition)"
| "transaction_ToAppError ErrNoUnitOfWork = None"

fun period_ToAppError :: "period_error \<Rightarrow> string \<times> grpc_code" where
  "period_ToAppError (PeriodNotFoundError _) = (''PRD001'', OK_NotFound)"
| "period_ToAppError (PeriodInvalidNameError _) = (''PRD002'', InvalidArgument)"
| "period_ToAppError (InvalidRangeError _) = (''PRD003'', InvalidArgument)"
| "period_ToAppError (OverlapError _ _) = (''PRD004'', AlreadyExists)"
| "period_ToAppError (AlreadyClosedError _) = (''PRD005'', FailedPrecondition)"
| "period_ToAppError (NotClosedError _) = (''PRD006'', FailedPrecondition)"
| "period_ToAppError (NotLatestClosedError _) = (''PRD007'', FailedPrecondition)"
| "period_ToAppError PeriodAuthorMissingError = (''PRD008'', FailedPrecondition)"

fun org_ToAppError :: "org_error \<Rightarrow> (string \<times> grpc_code) option" where
  "org_ToAppError (OrgNotFoundError _) = Some (''ORG001'', OK_NotFound)"
| "org_ToAppError SystemOrgNotFoundError = Some (''ORG001'', OK_NotFound)"
| "org_ToAppError (OrgAlreadyExistsError _) = Some (''ORG002'', AlreadyExists)"
| "org_ToAppError (OrgInvalidSlugError _ _) = Some (''ORG003'', InvalidArgument)"
| "org_ToAppError (OrgInvalidNameError _) = Some (''ORG004'', InvalidArgument)"
| "org_ToAppError (InvalidRoleError _) = Some (''GEN004'', InvalidArgument)"
| "org_ToAppError (MembershipExistsError _ _) = Some (''ORG005'', AlreadyExists)"
| "org_ToAppError (MembershipMissingError _ _) = Some (''ORG006'', OK_NotFound)"
| "org_ToAppError (SystemProtectedError _ _ _ _) = Some (''ORG008'', FailedPrecondition)"
| "org_ToAppError (SelfRemovalError _ _) = Some (''ORG009'', FailedPrecondition)"
| "org_ToAppError (OwnerRemovalError _ _) = Some (''ORG010'', FailedPrecondition)"
| "org_ToAppError CreationDisabledError = Some (''ORG007'', FailedPrecondition)"
| "org_ToAppError (UnreadableExistingOrgError _) = None"
| "org_ToAppError (SystemOrgExistsError _) = None"
| "org_ToAppError (NotManagerError _ _) = Some (''ORG011'', PermissionDenied)"

fun apikey_ToAppError :: "apikey_error \<Rightarrow> (string \<times> grpc_code) option" where
  "apikey_ToAppError KeyNotFoundError = None"
| "apikey_ToAppError (UnknownScopeError _) = Some (''APK001'', InvalidArgument)"
| "apikey_ToAppError (RetiredScopeError _) = Some (''APK002'', InvalidArgument)"
| "apikey_ToAppError (ScopeLevelError _) = Some (''APK003'', InvalidArgument)"
| "apikey_ToAppError EmptyGrantError = Some (''APK004'', InvalidArgument)"
| "apikey_ToAppError GrantConflictError = Some (''APK005'', InvalidArgument)"
| "apikey_ToAppError BoundToProjectError = Some (''APK006'', FailedPrecondition)"
| "apikey_ToAppError AlreadyAllProjectsError = Some (''APK007'', FailedPrecondition)"
| "apikey_ToAppError RevokedError = Some (''APK008'', FailedPrecondition)"
| "apikey_ToAppError (ProjectNotInOrgError _) = Some (''APK009'', InvalidArgument)"
| "apikey_ToAppError ExpiryRequiredError = Some (''APK010'', InvalidArgument)"
| "apikey_ToAppError ExpiryInPastError = Some (''APK011'', InvalidArgument)"
| "apikey_ToAppError ExpiryTooLongError = Some (''APK012'', InvalidArgument)"

fun project_ToAppError :: "project_error \<Rightarrow> (string \<times> grpc_code) option" where
  "project_ToAppError (ProjectNotFoundError _) = Some (''PRJ001'', OK_NotFound)"
| "project_ToAppError (ProjectAlreadyExistsError _ _) = Some (''PRJ002'', AlreadyExists)"
| "project_ToAppError (ProjectInvalidSlugError _ _) = Some (''PRJ003'', InvalidArgument)"
| "project_ToAppError (ProjectInvalidNameError _) = Some (''GEN004'', InvalidArgument)"
| "project_ToAppError (ProjectSystemProtectedError _ _) = Some (''PRJ004'', FailedPrecondition)"
| "project_ToAppError (SystemProjectExistsError _ _) = None"

fun invite_ToAppError :: "invite_error \<Rightarrow> string \<times> grpc_code" where
  "invite_ToAppError (InviteNotFoundError _) = (''INV001'', OK_NotFound)"
| "invite_ToAppError (InviteExpiredError _) = (''INV002'', FailedPrecondition)"
| "invite_ToAppError (InviteAlreadyUsedError _) = (''INV003'', FailedPrecondition)"
| "invite_ToAppError (InviteInvalidRoleError _) = (''INV004'', InvalidArgument)"
| "invite_ToAppError (InviteInvalidEmailError _ _) = (''GEN004'', InvalidArgument)"
| "invite_ToAppError (InvitesDisabledError _) = (''INV005'', FailedPrecondition)"
| "invite_ToAppError TokenMismatchError = (''INV001'', OK_NotFound)"

fun user_ToAppError :: "user_error \<Rightarrow> (string \<times> grpc_code) option" where
  "user_ToAppError SingletonOrgMissingError = None"
| "user_ToAppError (UserNotFoundError _) = Some (''USR001'', OK_NotFound)"
| "user_ToAppError (UserAlreadyExistsError _ _) = Some (''USR002'', AlreadyExists)"
| "user_ToAppError (NotInvitedError _) = Some (''USR003'', PermissionDenied)"
| "user_ToAppError (UserInvalidEmailError _ _) = Some (''USR004'', InvalidArgument)"
| "user_ToAppError (SignupRequiredError _ _) = Some (''SGN001'', FailedPrecondition)"
| "user_ToAppError (UserInvalidNameError _) = Some (''USR005'', InvalidArgument)"
| "user_ToAppError EmailUnverifiedError = Some (''USR006'', PermissionDenied)"
| "user_ToAppError IdentityConflictError = Some (''USR007'', PermissionDenied)"
| "user_ToAppError (UnknownPolicyError _) = None"

fun onboard_ToAppError :: "onboard_error \<Rightarrow> string \<times> grpc_code" where
  "onboard_ToAppError NotOnboardedError = (''ONB001'', FailedPrecondition)"
| "onboard_ToAppError AlreadyOnboardedError = (''ONB002'', AlreadyExists)"
| "onboard_ToAppError (InvalidMethodError _ _) = (''GEN004'', InvalidArgument)"

fun auth_ToAppError :: "auth_error \<Rightarrow> string \<times> grpc_code" where
  "auth_ToAppError InvalidCredentialsError = (''AUT001'', Unauthenticated)"
| "auth_ToAppError OIDCUnavailableError = (''AUT002'', FailedPrecondition)"
| "auth_ToAppError (OIDCClaimMissingError _) = (''AUT003'', InvalidArgument)"

fun webhook_ToAppError :: "webhook_error \<Rightarrow> (string \<times> grpc_code) option" where
  "webhook_ToAppError (EndpointNotFoundError _) = Some (''WHK001'', OK_NotFound)"
| "webhook_ToAppError (InvalidURLError _) = Some (''WHK002'', InvalidArgument)"
| "webhook_ToAppError (InvalidEventTypesError _) = Some (''WHK003'', InvalidArgument)"
| "webhook_ToAppError (InvalidDescriptionError _) = Some (''GEN004'', InvalidArgument)"
| "webhook_ToAppError (EndpointLimitError _) = Some (''WHK004'', FailedPrecondition)"
| "webhook_ToAppError (DeliveryNotRetryableError _) = Some (''WHK005'', FailedPrecondition)"
| "webhook_ToAppError (DeliveryNotFoundError _) = Some (''WHK006'', OK_NotFound)"
| "webhook_ToAppError (EndpointInactiveError _) = Some (''WHK007'', FailedPrecondition)"
| "webhook_ToAppError (SecretConflictError _) = Some (''WHK008'', FailedPrecondition)"
| "webhook_ToAppError _ = None"

fun sealer_ToAppError :: "sealer_error \<Rightarrow> (string \<times> grpc_code) option" where
  "sealer_ToAppError SealerUnavailableError = Some (''ENC001'', FailedPrecondition)"
| "sealer_ToAppError (SealerInvalidKeyError _) = Some (''ENC001'', FailedPrecondition)"
| "sealer_ToAppError OpenFailedError = Some (''ENC002'', FailedPrecondition)"
| "sealer_ToAppError SealerKeyTextError = None"

fun sheet_ToAppError :: "err \<Rightarrow> (string \<times> grpc_code) option" where
  "sheet_ToAppError (ESheet (LinkNotFoundError _)) = Some (''OSL001'', OK_NotFound)"
| "sheet_ToAppError (ESheet (InvalidSettingError _ _)) = Some (''OSL002'', InvalidArgument)"
| "sheet_ToAppError (ESheet APIKeyRequiredError) = Some (''OSL003'', InvalidArgument)"
| "sheet_ToAppError (ESheet (SheetUnreachableError _)) = Some (''OSL004'', FailedPrecondition)"
| "sheet_ToAppError (ESheet (ShapeMismatchError _ _)) = Some (''OSL005'', FailedPrecondition)"
| "sheet_ToAppError (ESheet (NoIDColumnError _)) = Some (''OSL006'', FailedPrecondition)"
| "sheet_ToAppError (ESheet (SheetNotWritableError _)) = Some (''OSL007'', FailedPrecondition)"
| "sheet_ToAppError (ESheet (ContractUnsatisfiedError _ _)) = Some (''OSL008'', FailedPrecondition)"
| "sheet_ToAppError (SheetUnavailableError _ _) = Some (''OSL009'', Unavailable)"
| "sheet_ToAppError (ESheet NotVerifiedError) = Some (''OSL010'', FailedPrecondition)"
| "sheet_ToAppError (ESheet LinkDisabledError) = Some (''OSL011'', FailedPrecondition)"
| "sheet_ToAppError (SyncRefusedError _ _ _) = Some (''OSL012'', FailedPrecondition)"
| "sheet_ToAppError (ESheet (ScopeMismatchError _ _)) = Some (''OSL013'', FailedPrecondition)"
| "sheet_ToAppError (RowRefusedError _ _ _) = Some (''OSL014'', FailedPrecondition)"
| "sheet_ToAppError (KeyUnreadableError _) = Some (''OSL015'', FailedPrecondition)"
| "sheet_ToAppError (PrivateEndpointError _) = Some (''OSL016'', FailedPrecondition)"
| "sheet_ToAppError _ = None"

fun blogcat_ToAppError :: "blogcat_error \<Rightarrow> string \<times> grpc_code" where
  "blogcat_ToAppError (BlogCategoryNotFoundError _) = (''CAT001'', OK_NotFound)"
| "blogcat_ToAppError (BlogCategoryAlreadyExistsError _) = (''CAT002'', AlreadyExists)"
| "blogcat_ToAppError (BlogCategoryInvalidNameError _) = (''CAT003'', InvalidArgument)"
| "blogcat_ToAppError (BlogCategoryInUseError _) = (''CAT004'', FailedPrecondition)"

fun tag_ToAppError :: "tag_error \<Rightarrow> string \<times> grpc_code" where
  "tag_ToAppError (TagNotFoundError _) = (''TAG001'', OK_NotFound)"
| "tag_ToAppError (TagAlreadyExistsError _) = (''TAG002'', AlreadyExists)"
| "tag_ToAppError (TagInvalidNameError _) = (''TAG003'', InvalidArgument)"
| "tag_ToAppError (TagInUseError _) = (''TAG004'', FailedPrecondition)"

fun post_ToAppError :: "post_error \<Rightarrow> string \<times> grpc_code" where
  "post_ToAppError (PostNotFoundError _) = (''BLG001'', OK_NotFound)"
| "post_ToAppError (PostAlreadyExistsError _) = (''BLG002'', AlreadyExists)"
| "post_ToAppError (InvalidTitleError _) = (''BLG003'', InvalidArgument)"
| "post_ToAppError (InvalidSlugError _) = (''BLG004'', InvalidArgument)"
| "post_ToAppError (InvalidBodyError _) = (''BLG005'', InvalidArgument)"
| "post_ToAppError CategoryRequiredError = (''BLG006'', InvalidArgument)"
| "post_ToAppError (StaleVersionError _ _) = (''BLG007'', FailedPrecondition)"

fun todo_ToAppError :: "todo_error \<Rightarrow> string \<times> grpc_code" where
  "todo_ToAppError (TodoNotFoundError _) = (''TDO001'', OK_NotFound)"
| "todo_ToAppError (TodoInvalidTitleError _) = (''TDO002'', InvalidArgument)"

text \<open>An error has an envelope exactly when its \<open>ToAppError\<close> gives one.\<close>

lemma AsAppError_envelopes:
  "AsAppError (EOrg e1) \<longleftrightarrow> org_ToAppError e1 \<noteq> None" "AsAppError (EApiKey e2) \<longleftrightarrow> apikey_ToAppError e2 \<noteq> None"
  "AsAppError (EProject e3) \<longleftrightarrow> project_ToAppError e3 \<noteq> None" "AsAppError (EUser e4) \<longleftrightarrow> user_ToAppError e4 \<noteq> None"
  "AsAppError (EWebhook e5) \<longleftrightarrow> webhook_ToAppError e5 \<noteq> None" "AsAppError (ESealer e6) \<longleftrightarrow> sealer_ToAppError e6 \<noteq> None"
proof -
  show "AsAppError (EOrg e1) \<longleftrightarrow> org_ToAppError e1 \<noteq> None" by (cases e1) simp_all
  show "AsAppError (EApiKey e2) \<longleftrightarrow> apikey_ToAppError e2 \<noteq> None" by (cases e2) simp_all
  show "AsAppError (EProject e3) \<longleftrightarrow> project_ToAppError e3 \<noteq> None" by (cases e3) simp_all
  show "AsAppError (EUser e4) \<longleftrightarrow> user_ToAppError e4 \<noteq> None" by (cases e4) simp_all
  show "AsAppError (EWebhook e5) \<longleftrightarrow> webhook_ToAppError e5 \<noteq> None" by (cases e5) simp_all
  show "AsAppError (ESealer e6) \<longleftrightarrow> sealer_ToAppError e6 \<noteq> None" by (cases e6) simp_all
qed

end
