(* ===== verification/Tenant.thy ===== *)
theory Tenant
  imports Errors
begin

text \<open>
  The request context: the tenant scope of \<open>internal/platform/tenant\<close>, the
  authenticated principal of \<open>internal/platform/session\<close> and whether a unit of
  work is open (\<open>internal/platform/db\<close>).  \<open>RunInTx\<close> runs a computation over a
  store in one transaction: the state it leaves on an error is the state it
  found.
\<close>

record Tenant =
  tc_OrgID :: uuid
  tc_ProjectID :: uuid
  tc_UserID :: uuid

record Principal =
  pr_UserID :: uuid
  pr_KeyID :: uuid

definition no_principal :: Principal where
  "no_principal = \<lparr>pr_UserID = uuid_Nil, pr_KeyID = uuid_Nil\<rparr>"

record ctx =
  ctx_tenant :: "Tenant option"
  ctx_principal :: "Principal option"
  ctx_uow :: bool

definition zero_tenant :: Tenant where
  "zero_tenant = \<lparr>tc_OrgID = uuid_Nil, tc_ProjectID = uuid_Nil, tc_UserID = uuid_Nil\<rparr>"

definition tenant_Into :: "ctx \<Rightarrow> Tenant \<Rightarrow> ctx" where
  "tenant_Into c tc = c\<lparr>ctx_tenant := Some tc\<rparr>"

definition tenant_From :: "ctx \<Rightarrow> (err, Tenant) res" where
  "tenant_From c = (case ctx_tenant c of
     None \<Rightarrow> Inl (ETenant TenantMissingError)
   | Some tc \<Rightarrow> if tc_OrgID tc = uuid_Nil then Inl (ETenant TenantUnscopedError) else Inr tc)"

definition WithProject :: "ctx \<Rightarrow> uuid \<Rightarrow> ctx" where
  "WithProject c projectID = (let tc = (case ctx_tenant c of None \<Rightarrow> zero_tenant | Some tc \<Rightarrow> tc)
     in tenant_Into c (tc\<lparr>tc_ProjectID := projectID\<rparr>))"

definition WithOrg :: "ctx \<Rightarrow> uuid \<Rightarrow> ctx" where
  "WithOrg c orgID = (let tc = (case ctx_tenant c of None \<Rightarrow> zero_tenant | Some tc \<Rightarrow> tc)
     in tenant_Into c (tc\<lparr>tc_OrgID := orgID\<rparr>))"

definition PrincipalFrom :: "ctx \<Rightarrow> Principal" where
  "PrincipalFrom c = (case ctx_principal c of None \<Rightarrow> no_principal | Some p \<Rightarrow> p)"

lemma tenant_From_Inr [simp]:
  "tenant_From c = Inr tc \<longleftrightarrow> ctx_tenant c = Some tc \<and> tc_OrgID tc \<noteq> uuid_Nil"
  by (auto simp: tenant_From_def split: option.splits)

lemma tenant_From_uow [simp]: "tenant_From (c\<lparr>ctx_uow := b\<rparr>) = tenant_From c"
  by (simp add: tenant_From_def)

lemma PrincipalFrom_uow [simp]: "PrincipalFrom (c\<lparr>ctx_uow := b\<rparr>) = PrincipalFrom c"
  by (simp add: PrincipalFrom_def)

section \<open>Units of work\<close>

type_synonym ('s, 'a) prog = "'s \<Rightarrow> (err, 'a) res \<times> 's"

definition RunInTx :: "ctx \<Rightarrow> (ctx \<Rightarrow> ('s, 'a) prog) \<Rightarrow> ('s, 'a) prog" where
  "RunInTx c fn s =
     (if ctx_uow c then (Inl ErrNestedUnitOfWork, s)
      else case fn (c\<lparr>ctx_uow := True\<rparr>) s of
        (Inl e, _) \<Rightarrow> (Inl e, s)
      | (Inr v, s') \<Rightarrow> (Inr v, s'))"

text \<open>
  A store method that fails leaves the tables as it found them: it rolls its own
  transaction back, or the unit of work it runs in is rolled back.
\<close>

definition atomically :: "('s, 'a) prog \<Rightarrow> ('s, 'a) prog" where
  "atomically f s = (case f s of (Inl e, _) \<Rightarrow> (Inl e, s) | (Inr v, s') \<Rightarrow> (Inr v, s'))"

lemma atomically_Inr [simp]: "atomically f s = (Inr v, s') \<longleftrightarrow> f s = (Inr v, s')"
  by (auto simp: atomically_def split: prod.splits sum.splits)

lemma atomically_Inl: "atomically f s = (Inl e, s') \<Longrightarrow> s' = s"
  by (auto simp: atomically_def split: prod.splits sum.splits)

text \<open>The contract the services rely on: what a unit of work does with the outcome of its body.\<close>

locale unit_of_work =
  fixes run :: "ctx \<Rightarrow> (ctx \<Rightarrow> ('s, 'a) prog) \<Rightarrow> ('s, 'a) prog"
  assumes rollback: "run c fn s = (Inl e, s') \<Longrightarrow> s' = s"
    and commit: "run c fn s = (Inr v, s') \<Longrightarrow> fn (c\<lparr>ctx_uow := True\<rparr>) s = (Inr v, s')"
    and runs: "\<not> ctx_uow c \<Longrightarrow> fn (c\<lparr>ctx_uow := True\<rparr>) s = (Inr v, s') \<Longrightarrow> run c fn s = (Inr v, s')"
    and fails: "\<not> ctx_uow c \<Longrightarrow> fn (c\<lparr>ctx_uow := True\<rparr>) s = (Inl e, s') \<Longrightarrow> run c fn s = (Inl e, s)"
begin

lemma all_or_nothing:
  "snd (run c fn s) = s \<or> (\<exists>v. fn (c\<lparr>ctx_uow := True\<rparr>) s = (Inr v, snd (run c fn s)))"
  using rollback commit by (metis prod.collapse sum.exhaust)

lemma preserves:
  assumes "I s" and "\<And>v s'. fn (c\<lparr>ctx_uow := True\<rparr>) s = (Inr v, s') \<Longrightarrow> I s'"
  shows "I (snd (run c fn s))"
  using all_or_nothing [of c fn s] assms by metis

end

interpretation uow: unit_of_work RunInTx
proof (standard, goal_cases)
  case (1 c fn s e s')
  then show ?case by (auto simp: RunInTx_def split: if_splits prod.splits sum.splits)
next
  case (2 c fn s v s')
  then show ?case by (auto simp: RunInTx_def split: if_splits prod.splits sum.splits)
qed (simp_all add: RunInTx_def)

lemma RunInTx_Inr:
  "RunInTx c fn s = (Inr v, s') \<longleftrightarrow> \<not> ctx_uow c \<and> fn (c\<lparr>ctx_uow := True\<rparr>) s = (Inr v, s')"
  by (auto simp: RunInTx_def split: prod.splits sum.splits)

end
