(* ===== verification/Ledger.thy ===== *)
theory Ledger
  imports Tenant
begin

text \<open>
  Package \<open>internal/ledger\<close>: the per-project settings (time zone, default
  currency, day of the month a budget period starts on), their validation, the
  SQLite store and the service.  The tz database is the parameter \<open>load\<close>, which
  stands for \<open>time.LoadLocation\<close>.
\<close>

section \<open>Settings (ledger.go)\<close>

record Settings =
  s_OrgID :: uuid
  s_ProjectID :: uuid
  s_Timezone :: string
  s_Currency :: Currency
  s_PeriodStartDay :: int
  s_UpdatedAt :: instant

definition DefaultTimezone :: string where "DefaultTimezone = ''Asia/Jakarta''"

definition DefaultPeriodStartDay :: int where "DefaultPeriodStartDay = 1"

definition MinPeriodStartDay :: int where "MinPeriodStartDay = 1"

definition MaxPeriodStartDay :: int where "MaxPeriodStartDay = 28"

definition settings_Defaults :: "uuid \<Rightarrow> uuid \<Rightarrow> Settings" where
  "settings_Defaults orgID projectID =
     \<lparr>s_OrgID = orgID, s_ProjectID = projectID, s_Timezone = DefaultTimezone, s_Currency = IDR,
      s_PeriodStartDay = DefaultPeriodStartDay, s_UpdatedAt = 0\<rparr>"

record SettingsPatch =
  sp_Timezone :: "string option"
  sp_Currency :: "Currency option"
  sp_PeriodStartDay :: "int option"

type_synonym tzdb = "string \<Rightarrow> Location option"

definition apply_timezone :: "tzdb \<Rightarrow> string option \<Rightarrow> Settings \<Rightarrow> (err, Settings) res" where
  "apply_timezone load tzo s = (case tzo of
     None \<Rightarrow> Inr s
   | Some raw \<Rightarrow> (let tz = TrimSpace raw in
       if tz = '''' then Inl (ELedger (InvalidTimezoneError raw))
       else case load tz of
         None \<Rightarrow> Inl (ELedger (InvalidTimezoneError raw))
       | Some _ \<Rightarrow> Inr (s\<lparr>s_Timezone := tz\<rparr>)))"

definition apply_currency :: "Currency option \<Rightarrow> Settings \<Rightarrow> (err, Settings) res" where
  "apply_currency co s = (case co of
     None \<Rightarrow> Inr s
   | Some raw \<Rightarrow> (case ParseCurrency raw of
       Inl _ \<Rightarrow> Inl (ELedger (LedgerUnknownCurrencyError raw))
     | Inr c \<Rightarrow> Inr (s\<lparr>s_Currency := c\<rparr>)))"

definition apply_start_day :: "int option \<Rightarrow> Settings \<Rightarrow> (err, Settings) res" where
  "apply_start_day d s = (case d of
     None \<Rightarrow> Inr s
   | Some n \<Rightarrow> if n < MinPeriodStartDay \<or> n > MaxPeriodStartDay
               then Inl (ELedger (InvalidStartDayError n)) else Inr (s\<lparr>s_PeriodStartDay := n\<rparr>))"

text \<open>\<open>Apply\<close> returns the verdict and the settings the receiver holds afterwards.\<close>

definition settings_Apply ::
    "tzdb \<Rightarrow> instant \<Rightarrow> SettingsPatch \<Rightarrow> Settings \<Rightarrow> (err, unit) res \<times> Settings" where
  "settings_Apply load now p s =
     (case apply_timezone load (sp_Timezone p) s of Inl e \<Rightarrow> (Inl e, s) | Inr s1 \<Rightarrow>
     (case apply_currency (sp_Currency p) s1 of Inl e \<Rightarrow> (Inl e, s) | Inr s2 \<Rightarrow>
     (case apply_start_day (sp_PeriodStartDay p) s2 of Inl e \<Rightarrow> (Inl e, s) | Inr s3 \<Rightarrow>
       (Inr (), s3\<lparr>s_UpdatedAt := now\<rparr>))))"

definition settings_Location :: "tzdb \<Rightarrow> Settings \<Rightarrow> (err, Location) res" where
  "settings_Location load s = (case load (s_Timezone s) of
     None \<Rightarrow> Inl (ELedger (InvalidTimezoneError (s_Timezone s))) | Some loc \<Rightarrow> Inr loc)"

section \<open>The SQLite store (sqlite.go)\<close>

definition settings_checks :: "Settings \<Rightarrow> bool" where
  "settings_checks s \<longleftrightarrow> length (s_Currency s) = 3 \<and> 1 \<le> s_PeriodStartDay s \<and> s_PeriodStartDay s \<le> 28"

definition ledger_ByProject :: "ctx \<Rightarrow> uuid \<Rightarrow> uuid \<Rightarrow> Settings list \<Rightarrow> (err, Settings) res" where
  "ledger_ByProject c orgID projectID rows =
     (case tenant_From c of Inl e \<Rightarrow> Inl e | Inr tc \<Rightarrow>
      (case find (\<lambda>s. s_ProjectID s = projectID \<and> s_OrgID s = orgID \<and> s_OrgID s = tc_OrgID tc) rows of
         None \<Rightarrow> Inl (ELedger (LedgerNotFoundError projectID))
       | Some s \<Rightarrow> Inr s))"

definition ledger_Save :: "ctx \<Rightarrow> Settings \<Rightarrow> (Settings list, unit) prog" where
  "ledger_Save c st rows =
     (case tenant_From c of Inl e \<Rightarrow> (Inl e, rows) | Inr tc \<Rightarrow>
      if \<not> settings_checks st then (Inl (Sql ConstraintCheck), rows)
      else case find_row s_ProjectID (s_ProjectID st) rows of
        None \<Rightarrow> (Inr (), rows @ [st])
      | Some old \<Rightarrow>
          if s_OrgID old = tc_OrgID tc
          then (Inr (), upsert_row s_ProjectID (st\<lparr>s_OrgID := s_OrgID old\<rparr>) rows)
          else (Inl (ELedger (LedgerNotFoundError (s_ProjectID st))), rows))"

section \<open>The service (service.go)\<close>

definition ledger_effective :: "ctx \<Rightarrow> string \<Rightarrow> uuid \<Rightarrow> uuid \<Rightarrow> Settings list \<Rightarrow> (err, Settings) res" where
  "ledger_effective c op orgID projectID rows =
     (case ledger_ByProject c orgID projectID rows of
        Inr st \<Rightarrow> Inr st
      | Inl e \<Rightarrow> if ledger_IsNotFoundError e then Inr (settings_Defaults orgID projectID)
                 else Inl (Unexpected (op @ '': byProject'') e))"

definition ledger_Get :: "ctx \<Rightarrow> Settings list \<Rightarrow> (err, Settings) res" where
  "ledger_Get c rows = (case tenant_From c of Inl e \<Rightarrow> Inl e | Inr tc \<Rightarrow>
     ledger_effective c ''ledger.Get'' (tc_OrgID tc) (tc_ProjectID tc) rows)"

definition ledger_Update ::
    "tzdb \<Rightarrow> instant \<Rightarrow> ctx \<Rightarrow> SettingsPatch \<Rightarrow> (Settings list, Settings) prog" where
  "ledger_Update load now c p rows =
     (case tenant_From c of Inl e \<Rightarrow> (Inl e, rows) | Inr tc \<Rightarrow>
     (case ledger_effective c ''ledger.Update'' (tc_OrgID tc) (tc_ProjectID tc) rows of
        Inl e \<Rightarrow> (Inl e, rows)
      | Inr cur \<Rightarrow>
        (case settings_Apply load now p cur of
           (Inl e, _) \<Rightarrow> (Inl e, rows)
         | (Inr _, cur') \<Rightarrow>
           (case ledger_Save c cur' rows of
              (Inl e, rows') \<Rightarrow>
                (Inl (if ledger_IsNotFoundError e then e else Unexpected ''ledger.Update: save'' e), rows')
            | (Inr _, rows') \<Rightarrow> (Inr cur', rows')))))"

definition ledger_Location :: "tzdb \<Rightarrow> ctx \<Rightarrow> uuid \<Rightarrow> uuid \<Rightarrow> Settings list \<Rightarrow> (err, Location) res" where
  "ledger_Location load c orgID projectID rows =
     (case ledger_effective c ''ledger.Location'' orgID projectID rows of
        Inl e \<Rightarrow> Inl e | Inr st \<Rightarrow> settings_Location load st)"

definition ledger_StartDay :: "ctx \<Rightarrow> uuid \<Rightarrow> uuid \<Rightarrow> Settings list \<Rightarrow> (err, int) res" where
  "ledger_StartDay c orgID projectID rows =
     (case ledger_effective c ''ledger.StartDay'' orgID projectID rows of
        Inl e \<Rightarrow> Inl e | Inr st \<Rightarrow> Inr (s_PeriodStartDay st))"

definition ledger_DefaultCurrency :: "ctx \<Rightarrow> uuid \<Rightarrow> uuid \<Rightarrow> Settings list \<Rightarrow> (err, Currency) res" where
  "ledger_DefaultCurrency c orgID projectID rows =
     (case ledger_effective c ''ledger.DefaultCurrency'' orgID projectID rows of
        Inl e \<Rightarrow> Inl e | Inr st \<Rightarrow> Inr (s_Currency st))"

section \<open>Well-formed settings\<close>

definition settings_ok :: "tzdb \<Rightarrow> Settings \<Rightarrow> bool" where
  "settings_ok load s \<longleftrightarrow> load (s_Timezone s) \<noteq> None \<and> currency_Valid (s_Currency s) \<and>
     1 \<le> s_PeriodStartDay s \<and> s_PeriodStartDay s \<le> 28"

lemma settings_Defaults_ok: "load DefaultTimezone \<noteq> None \<Longrightarrow> settings_ok load (settings_Defaults org prj)"
  by (simp add: settings_ok_def settings_Defaults_def DefaultPeriodStartDay_def currency_Valid_def
    currencies_def)

lemmas apply_defs = apply_timezone_def apply_currency_def apply_start_day_def

lemma settings_Apply_ok:
  assumes "settings_ok load s" "settings_Apply load now p s = (r, s')"
  shows "settings_ok load s'"
  using assms ParseCurrency_valid
  by (auto simp: settings_Apply_def apply_defs settings_ok_def Let_def MinPeriodStartDay_def
      MaxPeriodStartDay_def split: option.splits sum.splits if_splits)

lemma settings_Apply_error:
  "settings_Apply load now p s = (Inl e, s') \<Longrightarrow> s' = s"
  by (auto simp: settings_Apply_def split: sum.splits)

lemma settings_Apply_scope:
  "settings_Apply load now p s = (r, s') \<Longrightarrow> s_OrgID s' = s_OrgID s \<and> s_ProjectID s' = s_ProjectID s"
  by (auto simp: settings_Apply_def apply_defs Let_def split: sum.splits option.splits if_splits)

lemma length_valid_currency: "currency_Valid c \<Longrightarrow> length c = 3"
  by (cases c rule: currencies_cases) (simp_all add: IDR_def)

lemma settings_ok_checks: "settings_ok load s \<Longrightarrow> settings_checks s"
  by (simp add: settings_ok_def settings_checks_def length_valid_currency)

text \<open>The invariant of the settings table: one well-formed row per project.\<close>

definition ledger_inv :: "tzdb \<Rightarrow> Settings list \<Rightarrow> bool" where
  "ledger_inv load rows \<longleftrightarrow> keyed s_ProjectID rows \<and> (\<forall>s \<in> set rows. settings_ok load s)"

lemma ledger_Save_inv:
  assumes "ledger_inv load rows" "settings_ok load st" "ledger_Save c st rows = (r, rows')"
  shows "ledger_inv load rows'"
  using assms
  by (auto simp: ledger_inv_def ledger_Save_def settings_ok_def set_upsert_row keyed_upsert_row
      table_simps dest: find_row_SomeD split: sum.splits if_splits option.splits) blast

lemma ledger_effective_ok:
  assumes "ledger_inv load rows" "load DefaultTimezone \<noteq> None"
    "ledger_effective c op org prj rows = Inr st"
  shows "settings_ok load st"
  using assms settings_Defaults_ok [of load org prj]
  by (auto simp: ledger_effective_def ledger_ByProject_def ledger_inv_def find_Some_iff
      split: sum.splits option.splits if_splits)

lemma ledger_effective_scope:
  assumes "ledger_effective c op org prj rows = Inr st"
  shows "s_OrgID st = org \<and> s_ProjectID st = prj"
  using assms
  by (auto simp: ledger_effective_def ledger_ByProject_def settings_Defaults_def find_Some_iff
      split: sum.splits option.splits if_splits)

lemma ledger_Update_Inr:
  assumes "ledger_Update load now c p rows = (Inr st, rows')"
  obtains tc cur where "tenant_From c = Inr tc"
    "ledger_effective c ''ledger.Update'' (tc_OrgID tc) (tc_ProjectID tc) rows = Inr cur"
    "settings_Apply load now p cur = (Inr (), st)" "ledger_Save c st rows = (Inr (), rows')"
  using assms that by (auto simp: ledger_Update_def split: sum.splits prod.splits)

lemma ledger_Save_error: "ledger_Save c st rows = (Inl e, rows') \<Longrightarrow> rows' = rows"
  by (auto simp: ledger_Save_def split: sum.splits if_splits option.splits)

lemma ledger_Update_error: "ledger_Update load now c p rows = (Inl e, rows') \<Longrightarrow> rows' = rows"
  using ledger_Save_error by (auto simp: ledger_Update_def split: sum.splits prod.splits if_splits)

lemma ledger_Update_inv:
  assumes inv: "ledger_inv load rows" and tz: "load DefaultTimezone \<noteq> None"
    and upd: "ledger_Update load now c p rows = (r, rows')"
  shows "ledger_inv load rows'"
proof (cases r)
  case (Inl e)
  then show ?thesis using ledger_Update_error upd inv by blast
next
  case (Inr st)
  then obtain tc cur where "tenant_From c = Inr tc"
    and cur: "ledger_effective c ''ledger.Update'' (tc_OrgID tc) (tc_ProjectID tc) rows = Inr cur"
    and st: "settings_Apply load now p cur = (Inr (), st)" and save: "ledger_Save c st rows = (Inr (), rows')"
    using upd by (auto elim: ledger_Update_Inr)
  show ?thesis
    using ledger_Save_inv [OF inv settings_Apply_ok [OF ledger_effective_ok [OF inv tz cur] st] save] .
qed

text \<open>What \<open>Get\<close> returns after an accepted \<open>Update\<close>, and that no other project is touched.\<close>

lemma find_update_same:
  assumes "keyed s_ProjectID rows" "s_OrgID st = org" "\<And>r. r \<in> set rows \<Longrightarrow> s_ProjectID r = s_ProjectID st \<Longrightarrow> s_OrgID r = org"
  shows "find (\<lambda>s. s_ProjectID s = s_ProjectID st \<and> s_OrgID s = org) (upsert_row s_ProjectID st rows) = Some st"
  using assms by (induction rows) auto

lemma ledger_Save_Inr:
  assumes "ledger_Save c st rows = (Inr (), rows')" "tenant_From c = Inr tc" "s_OrgID st = tc_OrgID tc"
  shows "rows' = upsert_row s_ProjectID st rows"
    and "find_row s_ProjectID (s_ProjectID st) rows = Some old \<Longrightarrow> s_OrgID old = tc_OrgID tc"
proof -
  have "upsert_row s_ProjectID (st\<lparr>s_OrgID := tc_OrgID tc\<rparr>) rows = upsert_row s_ProjectID st rows"
    using assms(3) by (cases st) simp
  then show "rows' = upsert_row s_ProjectID st rows"
    "find_row s_ProjectID (s_ProjectID st) rows = Some old \<Longrightarrow> s_OrgID old = tc_OrgID tc"
    using assms by (auto simp: ledger_Save_def upsert_row_new split: sum.splits option.splits if_splits)
qed

lemma ledger_Get_Update:
  assumes "keyed s_ProjectID rows" "ledger_Update load now c p rows = (Inr st, rows')"
  shows "ledger_Get c rows' = Inr st"
proof -
  from assms(2) obtain tc cur where tc: "tenant_From c = Inr tc"
    and cur: "ledger_effective c ''ledger.Update'' (tc_OrgID tc) (tc_ProjectID tc) rows = Inr cur"
    and st: "settings_Apply load now p cur = (Inr (), st)" and save: "ledger_Save c st rows = (Inr (), rows')"
    by (rule ledger_Update_Inr)
  have sc: "s_OrgID st = tc_OrgID tc" "s_ProjectID st = tc_ProjectID tc"
    using settings_Apply_scope [OF st] ledger_effective_scope [OF cur] by auto
  have "s_OrgID r = tc_OrgID tc" if "r \<in> set rows" "s_ProjectID r = s_ProjectID st" for r
    using that ledger_Save_Inr(2) [OF save tc sc(1), of r] assms(1) by (simp add: find_row_Some_iff)
  then have "find (\<lambda>s. s_ProjectID s = s_ProjectID st \<and> s_OrgID s = tc_OrgID tc) rows' = Some st"
    using find_update_same [OF assms(1) sc(1)] ledger_Save_Inr(1) [OF save tc sc(1)] by simp
  then have "ledger_ByProject c (tc_OrgID tc) (tc_ProjectID tc) rows' = Inr st"
    using tc sc by (simp add: ledger_ByProject_def tenant_From_def)
  then show ?thesis using tc by (simp add: ledger_Get_def ledger_effective_def tenant_From_def)
qed

lemma ledger_Update_frame:
  assumes "ledger_Update load now c p rows = (r, rows')" "ctx_tenant c = Some tc" "prj \<noteq> tc_ProjectID tc"
  shows "find_row s_ProjectID prj rows' = find_row s_ProjectID prj rows"
proof (cases r)
  case (Inl e)
  then show ?thesis using ledger_Update_error assms(1) by metis
next
  case (Inr st)
  then obtain tc' cur where tc': "tenant_From c = Inr tc'"
    and cur: "ledger_effective c ''ledger.Update'' (tc_OrgID tc') (tc_ProjectID tc') rows = Inr cur"
    and st: "settings_Apply load now p cur = (Inr (), st)" and save: "ledger_Save c st rows = (Inr (), rows')"
    using assms(1) by (auto elim: ledger_Update_Inr)
  have "s_OrgID st = tc_OrgID tc'" "s_ProjectID st = tc_ProjectID tc'"
    using settings_Apply_scope [OF st] ledger_effective_scope [OF cur] by auto
  then show ?thesis
    using ledger_Save_Inr(1) [OF save tc'] tc' assms(2,3) by (simp add: find_row_upsert)
qed

end
