(* ===== verification/CoreProperties.thy ===== *)
theory CoreProperties
  imports Ledger
begin

text \<open>The properties of the value types and of the ledger settings: amounts, dates, settings.\<close>

section \<open>Amounts\<close>

text \<open>C7: What ParseMajor accepts, Major renders back to the same amount: an amount a user typed and the
  form shows again (the edit form does) is read again as itself. The parse never gives a negative amount nor one
  outside int64.\<close>

theorem ParseMajor_survives_Major:
  assumes "ParseMajor s c = Inr a"
  shows "ParseMajor (Major a) c = Inr a \<and> Currency a = c \<and> 0 \<le> Minor a \<and> Minor a \<le> max_i64"
  using ParseMajor_Inr [OF assms] ParseMajor_Major [of a] by simp

theorem ParseMajor_survives_Major_witness:
  "ParseMajor ''$ 1.234,56'' ''USD'' = Inr \<lparr>Minor = 123456, Currency = ''USD''\<rparr> \<and>
   ParseMajor (Major \<lparr>Minor = 123456, Currency = ''USD''\<rparr>) ''USD'' = Inr \<lparr>Minor = 123456, Currency = ''USD''\<rparr>"
proof -
  have e: "ParseMajor ''$ 1.234,56'' ''USD'' = Inr \<lparr>Minor = 123456, Currency = ''USD''\<rparr>" by code_simp
  from ParseMajor_survives_Major [OF e] e show ?thesis by simp
qed

text \<open>Addition of amounts of one currency is an abelian group under int64 wrap-around: it never panics,
  commutes, Sub undoes Add and Neg is the inverse; amounts of different currencies always panic.\<close>

theorem amounts_form_a_group:
  assumes "Currency a = Currency b" and "in_i64 (Minor a)" and "in_i64 (Minor b)"
  shows "amount_Add a b = amount_Add b a \<and>
    (\<exists>r. amount_Add a b = Some r \<and> Currency r = Currency a \<and> in_i64 (Minor r) \<and> amount_Sub r b = Some a) \<and>
    amount_Add a (amount_Neg a) = Some (money_Zero (Currency a)) \<and>
    (amount_Compare a b = Some 0 \<longleftrightarrow> a = b) \<and>
    (\<forall>x. Currency x \<noteq> Currency a \<longrightarrow> amount_Add a x = None \<and> amount_Sub a x = None \<and> amount_Compare a x = None)"
proof -
  have "wrap64 (wrap64 (Minor a + Minor b) - Minor b) = Minor a"
    using assms by (simp add: i64_simps)
  moreover have "wrap64 (Minor a + wrap64 (- Minor a)) = 0"
    by (simp add: i64_simps wrap64_id in_i64_def)
  moreover have "a = b \<longleftrightarrow> Minor a = Minor b" using assms(1) by (cases a, cases b) simp
  ultimately show ?thesis
    using assms by (auto simp: amount_Add_def amount_Sub_def amount_Neg_def amount_Compare_def money_Zero_def
        add.commute)
qed

theorem amounts_form_a_group_witness:
  "amount_Add (money_New max_i64 IDR) (money_New 1 IDR) = amount_Add (money_New 1 IDR) (money_New max_i64 IDR) \<and>
   amount_Add (money_New max_i64 IDR) (money_New 1 IDR) = Some (money_New (- (2 ^ 63)) IDR)"
proof -
  have "Currency (money_New max_i64 IDR) = Currency (money_New 1 IDR)" "in_i64 (Minor (money_New max_i64 IDR))"
    "in_i64 (Minor (money_New 1 IDR))"
    by code_simp+
  from amounts_form_a_group [OF this] show ?thesis
    by (simp add: amount_Add_def money_New_def wrap64_def)
qed

section \<open>Dates\<close>

text \<open>ParseDate is the inverse of String: it accepts exactly the text forms of the calendar dates of
  the years 0 to 9999, and gives back the date whose text form it read.\<close>

theorem ParseDate_inverts_String:
  "ParseDate s = Inr d \<longleftrightarrow> valid_date d \<and> 0 \<le> Year d \<and> Year d \<le> 9999 \<and> s = date_String d"
  using ParseDate_Inr ParseDate_date_String by blast

text \<open>Date arithmetic is that of a day count: AddDays is additive and keeps calendar dates, one day
  later is the next date in order, and Before orders calendar dates as their text forms are ordered.\<close>

theorem AddDays_counts_days:
  assumes "valid_date d" and "valid_date e"
  shows "valid_date (AddDays d n) \<and> AddDays (AddDays d m) n = AddDays d (m + n) \<and> AddDays d 0 = d \<and>
    (Before d e \<longleftrightarrow> d < e) \<and> (Before d e \<longleftrightarrow> (\<exists>k > 0. e = AddDays d k)) \<and>
    \<not> (\<exists>x. valid_date x \<and> d < x \<and> x < AddDays d 1)"
proof -
  have "Before d e \<longleftrightarrow> (\<exists>k > 0. e = AddDays d k)"
  proof
    assume "Before d e"
    then have "e = AddDays d (days e - days d)" "0 < days e - days d"
      using assms by (auto simp: AddDays_eq Before_days)
    then show "\<exists>k > 0. e = AddDays d k" by blast
  qed (auto simp: Before_days)
  moreover have "\<not> (d < x \<and> x < AddDays d 1)" if "valid_date x" for x
    using that assms by (auto simp flip: days_less_iff)
  ultimately show ?thesis
    using assms by (simp add: AddDays_AddDays AddDays_0 Before_iff_less)
qed

theorem AddDays_counts_days_witness:
  "AddDays (Date 2024 2 28) 1 = Date 2024 2 29 \<and> AddDays (AddDays (Date 2024 2 28) 1) 1 = AddDays (Date 2024 2 28) (1 + 1) \<and>
   (Before (Date 2024 2 28) (Date 2024 3 1) \<longleftrightarrow> Date 2024 2 28 < Date 2024 3 1)"
proof -
  have "valid_date (Date 2024 2 28)" "valid_date (Date 2024 3 1)" by code_simp+
  moreover have "AddDays (Date 2024 2 28) 1 = Date 2024 2 29" by code_simp
  ultimately show ?thesis using AddDays_counts_days [of "Date 2024 2 28" "Date 2024 3 1" 1 1] by blast
qed

section \<open>Ledger settings\<close>

text \<open>An update of the settings is all or nothing and well formed: a refused patch changes no row; an
  accepted one leaves every stored row with a known time zone, a supported currency and a start day in 1..28, is
  what Get returns afterwards, and touches no other project's row.\<close>

theorem ledger_Update_correct:
  assumes "ledger_inv load rows" and "load DefaultTimezone \<noteq> None" and "ctx_tenant c = Some tc"
  shows "case ledger_Update load now c p rows of
      (Inl e, rows') \<Rightarrow> rows' = rows
    | (Inr st, rows') \<Rightarrow> ledger_inv load rows' \<and> settings_ok load st \<and> ledger_Get c rows' = Inr st \<and>
        (\<forall>prj. prj \<noteq> tc_ProjectID tc \<longrightarrow> find_row s_ProjectID prj rows' = find_row s_ProjectID prj rows)"
proof (cases "ledger_Update load now c p rows")
  case (Pair r rows')
  show ?thesis
  proof (cases r)
    case (Inl e)
    then show ?thesis using Pair ledger_Update_error by auto
  next
    case (Inr st)
    note run = Pair [unfolded Inr]
    have k: "keyed s_ProjectID rows" using assms(1) by (simp add: ledger_inv_def)
    have inv': "ledger_inv load rows'" using ledger_Update_inv [OF assms(1,2) run] .
    have get: "ledger_Get c rows' = Inr st" using ledger_Get_Update [OF k run] .
    have "settings_ok load st"
      using get ledger_effective_ok [OF inv' assms(2)] by (auto simp: ledger_Get_def split: sum.splits)
    then show ?thesis
      using run inv' get ledger_Update_frame [OF run assms(3)] by simp
  qed
qed

theorem ledger_Update_correct_witness:
  "case ledger_Update (\<lambda>_. Some time_UTC) 7
        \<lparr>ctx_tenant = Some \<lparr>tc_OrgID = 1, tc_ProjectID = 2, tc_UserID = 3\<rparr>, ctx_principal = None, ctx_uow = False\<rparr>
        \<lparr>sp_Timezone = None, sp_Currency = Some ''usd'', sp_PeriodStartDay = Some 25\<rparr> [] of
      (Inl e, rows') \<Rightarrow> False
    | (Inr st, rows') \<Rightarrow> s_Currency st = ''USD'' \<and> ledger_Get
        \<lparr>ctx_tenant = Some \<lparr>tc_OrgID = 1, tc_ProjectID = 2, tc_UserID = 3\<rparr>, ctx_principal = None, ctx_uow = False\<rparr>
        rows' = Inr st"
proof -
  let ?c = "\<lparr>ctx_tenant = Some \<lparr>tc_OrgID = 1, tc_ProjectID = 2, tc_UserID = 3\<rparr>, ctx_principal = None, ctx_uow = False\<rparr>"
  let ?p = "\<lparr>sp_Timezone = None, sp_Currency = Some ''usd'', sp_PeriodStartDay = Some 25\<rparr>"
  let ?st = "\<lparr>s_OrgID = 1, s_ProjectID = 2, s_Timezone = ''Asia/Jakarta'', s_Currency = ''USD'', s_PeriodStartDay = 25,
    s_UpdatedAt = 7\<rparr>"
  have run: "ledger_Update (\<lambda>_. Some time_UTC) 7 ?c ?p [] = (Inr ?st, [?st])" by code_simp
  have "ledger_inv (\<lambda>_. Some time_UTC) []" by (simp add: ledger_inv_def)
  from ledger_Update_correct [OF this, of ?c "\<lparr>tc_OrgID = 1, tc_ProjectID = 2, tc_UserID = 3\<rparr>" 7 ?p]
  show ?thesis unfolding run by (simp del: One_nat_def)
qed

end
