(* ===== verification/Wallet.thy ===== *)
theory Wallet
  imports Tenant
begin

text \<open>
  Package \<open>internal/wallet\<close>, the aggregate: the wallet kinds, the creation
  invariants and the edits.  A mutating method returns its verdict and the
  wallet the receiver holds afterwards.
\<close>

datatype WalletKind = KindCash | KindBank | KindEwallet | KindSavings | KindInvestment | KindOther
  | WKindUnknown string

definition wallet_kind_of :: "string \<Rightarrow> WalletKind" where
  "wallet_kind_of s = (case map_of [(''cash'', KindCash), (''bank'', KindBank), (''ewallet'', KindEwallet),
      (''savings'', KindSavings), (''investment'', KindInvestment), (''other'', KindOther)] s of
     Some k \<Rightarrow> k | None \<Rightarrow> WKindUnknown s)"

fun wallet_kind_str :: "WalletKind \<Rightarrow> string" where
  "wallet_kind_str KindCash = ''cash''"
| "wallet_kind_str KindBank = ''bank''"
| "wallet_kind_str KindEwallet = ''ewallet''"
| "wallet_kind_str KindSavings = ''savings''"
| "wallet_kind_str KindInvestment = ''investment''"
| "wallet_kind_str KindOther = ''other''"
| "wallet_kind_str (WKindUnknown s) = s"

fun wallet_kind_Valid :: "WalletKind \<Rightarrow> bool" where
  "wallet_kind_Valid (WKindUnknown _) = False"
| "wallet_kind_Valid _ = True"

definition wallet_ParseKind :: "string \<Rightarrow> (err, WalletKind) res" where
  "wallet_ParseKind s = (let k = wallet_kind_of (ToLower (TrimSpace s)) in
     if wallet_kind_Valid k then Inr k else Inl (EWallet (WalletInvalidKindError s)))"

definition DefaultExcludeFromTotal :: "WalletKind \<Rightarrow> bool" where
  "DefaultExcludeFromTotal k \<longleftrightarrow> k = KindSavings \<or> k = KindInvestment"

record WalletParams =
  wp_Name :: string
  wp_Kind :: WalletKind
  wp_Provider :: string
  wp_Currency :: Currency
  wp_ExcludeFromTotal :: bool

record Wallet =
  w_ID :: uuid
  w_OrgID :: uuid
  w_ProjectID :: uuid
  w_Name :: string
  w_Kind :: WalletKind
  w_Provider :: string
  w_Currency :: Currency
  w_ExcludeFromTotal :: bool
  w_ArchivedAt :: "instant option"
  w_CreatedAt :: instant
  w_UpdatedAt :: instant

definition wallet_cleanName :: "string \<Rightarrow> (err, string) res" where
  "wallet_cleanName name0 = (let name = TrimSpace name0 in
     if name = '''' then Inl (EWallet (WalletInvalidNameError ''empty''))
     else if RuneCountInString name > 80 then Inl (EWallet (WalletInvalidNameError ''over 80 characters''))
     else Inr name)"

definition wallet_New :: "uuid \<Rightarrow> instant \<Rightarrow> uuid \<Rightarrow> uuid \<Rightarrow> WalletParams \<Rightarrow> (err, Wallet) res" where
  "wallet_New wid now orgID projectID p =
     (case wallet_cleanName (wp_Name p) of Inl e \<Rightarrow> Inl e | Inr name \<Rightarrow>
      if \<not> wallet_kind_Valid (wp_Kind p) then Inl (EWallet (WalletInvalidKindError (wallet_kind_str (wp_Kind p))))
      else if \<not> currency_Valid (wp_Currency p) then Inl (EMoney (UnknownCurrencyError (wp_Currency p)))
      else Inr \<lparr>w_ID = wid, w_OrgID = orgID, w_ProjectID = projectID, w_Name = name, w_Kind = wp_Kind p,
        w_Provider = TrimSpace (wp_Provider p), w_Currency = wp_Currency p,
        w_ExcludeFromTotal = wp_ExcludeFromTotal p, w_ArchivedAt = None, w_CreatedAt = now, w_UpdatedAt = now\<rparr>)"

definition wallet_IsArchived :: "Wallet \<Rightarrow> bool" where
  "wallet_IsArchived w \<longleftrightarrow> w_ArchivedAt w \<noteq> None"

definition wallet_Rename :: "instant \<Rightarrow> string \<Rightarrow> Wallet \<Rightarrow> (err, unit) res \<times> Wallet" where
  "wallet_Rename now name w = (case wallet_cleanName name of
     Inl e \<Rightarrow> (Inl e, w)
   | Inr clean \<Rightarrow> (Inr (), w\<lparr>w_Name := clean, w_UpdatedAt := now\<rparr>))"

definition wallet_Update ::
    "instant \<Rightarrow> WalletKind \<Rightarrow> string \<Rightarrow> bool \<Rightarrow> Wallet \<Rightarrow> (err, unit) res \<times> Wallet" where
  "wallet_Update now kind provider exclude w =
     (if wallet_IsArchived w then (Inl (EWallet (WalletArchivedErr (w_ID w))), w)
      else if \<not> wallet_kind_Valid kind then (Inl (EWallet (WalletInvalidKindError (wallet_kind_str kind))), w)
      else (Inr (), w\<lparr>w_Kind := kind, w_Provider := TrimSpace provider,
                      w_ExcludeFromTotal := exclude, w_UpdatedAt := now\<rparr>))"

definition wallet_Edit ::
    "instant \<Rightarrow> string \<Rightarrow> WalletKind \<Rightarrow> string \<Rightarrow> bool \<Rightarrow> Wallet \<Rightarrow> (err, unit) res \<times> Wallet" where
  "wallet_Edit now name kind provider exclude w =
     (if wallet_IsArchived w then (Inl (EWallet (WalletArchivedErr (w_ID w))), w)
      else case wallet_cleanName name of Inl e \<Rightarrow> (Inl e, w) | Inr clean \<Rightarrow>
      if \<not> wallet_kind_Valid kind then (Inl (EWallet (WalletInvalidKindError (wallet_kind_str kind))), w)
      else (Inr (), w\<lparr>w_Name := clean, w_Kind := kind, w_Provider := TrimSpace provider,
                      w_ExcludeFromTotal := exclude, w_UpdatedAt := now\<rparr>))"

definition wallet_Archive :: "instant \<Rightarrow> Wallet \<Rightarrow> Wallet" where
  "wallet_Archive now w = (if wallet_IsArchived w then w
     else w\<lparr>w_ArchivedAt := Some now, w_UpdatedAt := now\<rparr>)"

definition wallet_Unarchive :: "instant \<Rightarrow> Wallet \<Rightarrow> Wallet" where
  "wallet_Unarchive now w = (if \<not> wallet_IsArchived w then w
     else w\<lparr>w_ArchivedAt := None, w_UpdatedAt := now\<rparr>)"

section \<open>Well-formed wallets\<close>

definition wallet_ok :: "Wallet \<Rightarrow> bool" where
  "wallet_ok w \<longleftrightarrow> w_Name w \<noteq> [] \<and> RuneCountInString (w_Name w) \<le> 80 \<and>
     wallet_kind_Valid (w_Kind w) \<and> currency_Valid (w_Currency w)"

lemma wallet_cleanName_Inr:
  "wallet_cleanName n = Inr m \<Longrightarrow> m = TrimSpace n \<and> m \<noteq> [] \<and> RuneCountInString m \<le> 80"
  by (auto simp: wallet_cleanName_def Let_def split: if_splits)

lemma wallet_New_Inr:
  assumes "wallet_New wid now org prj p = Inr w"
  shows "w_ID w = wid" "w_OrgID w = org" "w_ProjectID w = prj" "wallet_ok w" "\<not> wallet_IsArchived w"
    "w_Currency w = wp_Currency p"
  using assms wallet_cleanName_Inr
  by (auto simp: wallet_New_def wallet_ok_def wallet_IsArchived_def split: sum.splits if_splits)

text \<open>Every edit keeps a wallet well formed, and none touches its identity, owner or currency.\<close>

definition same_wallet :: "Wallet \<Rightarrow> Wallet \<Rightarrow> bool" where
  "same_wallet w w' \<longleftrightarrow> w_ID w' = w_ID w \<and> w_OrgID w' = w_OrgID w \<and> w_ProjectID w' = w_ProjectID w \<and>
     w_Currency w' = w_Currency w \<and> (wallet_ok w \<longrightarrow> wallet_ok w')"

lemma wallet_edits_same:
  "wallet_Rename now n w = (r, w') \<Longrightarrow> same_wallet w w'"
  "wallet_Update now k pr x w = (r, w') \<Longrightarrow> same_wallet w w'"
  "wallet_Edit now n k pr x w = (r, w') \<Longrightarrow> same_wallet w w'"
  "same_wallet w (wallet_Archive now w)"
  "same_wallet w (wallet_Unarchive now w)"
  using wallet_cleanName_Inr
  by (auto simp: same_wallet_def wallet_ok_def wallet_Rename_def wallet_Update_def wallet_Edit_def
      wallet_Archive_def wallet_Unarchive_def split: sum.splits if_splits)

end
