(* ===== verification/Category.thy ===== *)
theory Category
  imports Tenant
begin

text \<open>
  Package \<open>internal/category\<close>, the aggregate: category kinds, the icon
  allow-list, accepted colours, the creation invariants, the edits and the
  table of seeded defaults.
\<close>

datatype CategoryKind = CKindExpense | CKindIncome | CKindUnknown string

fun category_kind_str :: "CategoryKind \<Rightarrow> string" where
  "category_kind_str CKindExpense = ''expense''"
| "category_kind_str CKindIncome = ''income''"
| "category_kind_str (CKindUnknown s) = s"

definition category_kind_of :: "string \<Rightarrow> CategoryKind" where
  "category_kind_of s = (if s = ''expense'' then CKindExpense
     else if s = ''income'' then CKindIncome else CKindUnknown s)"

fun category_kind_known :: "CategoryKind \<Rightarrow> bool" where
  "category_kind_known (CKindUnknown _) = False"
| "category_kind_known _ = True"

definition category_ParseKind :: "string \<Rightarrow> (err, CategoryKind) res" where
  "category_ParseKind s = (let k = category_kind_of (ToLower (TrimSpace s)) in
     if category_kind_known k then Inr k else Inl (ECategory (CategoryInvalidKindError s)))"

definition AllowedIcons :: "string list" where
  "AllowedIcons = [''utensils'', ''bus'', ''shopping-bag'', ''receipt'', ''smartphone'', ''heart-pulse'', ''house'',
     ''clapperboard'', ''graduation-cap'', ''users'', ''credit-card'', ''hand-heart'', ''circle-ellipsis'',
     ''banknote'', ''gift'', ''briefcase'', ''trending-up'', ''laptop'', ''wallet'']"

definition is_hex :: "char \<Rightarrow> bool" where
  "is_hex c \<longleftrightarrow> is_digit c \<or> 97 \<le> byte c \<and> byte c \<le> 102 \<or> 65 \<le> byte c \<and> byte c \<le> 70"

definition hexColor :: "string \<Rightarrow> bool" where
  "hexColor s \<longleftrightarrow> length s = 7 \<and> hd s = CHR ''#'' \<and> list_all is_hex (tl s)"

definition chartColor :: "string \<Rightarrow> bool" where
  "chartColor s \<longleftrightarrow> length s = 7 \<and> take 6 s = ''chart-'' \<and> 49 \<le> byte (s ! 6) \<and> byte (s ! 6) \<le> 53"

record Category =
  c_ID :: uuid
  c_OrgID :: uuid
  c_ProjectID :: uuid
  c_Name :: string
  c_Kind :: CategoryKind
  c_Icon :: string
  c_Color :: string
  c_SortOrder :: int
  c_ArchivedAt :: "instant option"
  c_CreatedAt :: instant
  c_UpdatedAt :: instant

definition normalizeName :: "string \<Rightarrow> (err, string) res" where
  "normalizeName name0 = (let name = TrimSpace name0 in
     if name = '''' then Inl (ECategory (CategoryInvalidNameError ''empty''))
     else if RuneCountInString name > 100 then Inl (ECategory (CategoryInvalidNameError ''over 100 characters''))
     else Inr name)"

definition normalizeIcon :: "string \<Rightarrow> (err, string) res" where
  "normalizeIcon icon0 = (let icon = TrimSpace icon0 in
     if icon = '''' then Inr ''''
     else if icon \<notin> set AllowedIcons then Inl (ECategory (CategoryInvalidIconError icon))
     else Inr icon)"

definition normalizeColor :: "string \<Rightarrow> (err, string) res" where
  "normalizeColor color0 = (let color = TrimSpace color0 in
     if color = '''' then Inr ''''
     else if chartColor color then Inr color
     else if hexColor color then Inr (ToLower color)
     else Inl (ECategory (CategoryInvalidColorError color)))"

definition MaxSortOrder :: int where "MaxSortOrder = 2147483647"

definition clampSortOrder :: "int \<Rightarrow> int" where
  "clampSortOrder v = min (max v 0) MaxSortOrder"

definition SortOrder32 :: "int \<Rightarrow> int" where
  "SortOrder32 v = clampSortOrder v"

definition FoldName :: "string \<Rightarrow> string" where
  "FoldName name = ToLower (TrimSpace name)"

definition category_New :: "uuid \<Rightarrow> instant \<Rightarrow> uuid \<Rightarrow> uuid \<Rightarrow> string \<Rightarrow> CategoryKind \<Rightarrow> string \<Rightarrow> string
    \<Rightarrow> int \<Rightarrow> (err, Category) res" where
  "category_New cid now orgID projectID name0 kind icon0 color0 sortOrder =
     (case normalizeName name0 of Inl e \<Rightarrow> Inl e | Inr name \<Rightarrow>
      if \<not> category_kind_known kind then Inl (ECategory (CategoryInvalidKindError (category_kind_str kind)))
      else case normalizeIcon icon0 of Inl e \<Rightarrow> Inl e | Inr icon \<Rightarrow>
      (case normalizeColor color0 of Inl e \<Rightarrow> Inl e | Inr color \<Rightarrow>
       Inr \<lparr>c_ID = cid, c_OrgID = orgID, c_ProjectID = projectID, c_Name = name, c_Kind = kind, c_Icon = icon,
         c_Color = color, c_SortOrder = clampSortOrder sortOrder, c_ArchivedAt = None,
         c_CreatedAt = now, c_UpdatedAt = now\<rparr>))"

definition category_Rename :: "instant \<Rightarrow> string \<Rightarrow> Category \<Rightarrow> (err, unit) res \<times> Category" where
  "category_Rename now name c = (case normalizeName name of
     Inl e \<Rightarrow> (Inl e, c) | Inr clean \<Rightarrow> (Inr (), c\<lparr>c_Name := clean, c_UpdatedAt := now\<rparr>))"

definition category_Update :: "instant \<Rightarrow> string \<Rightarrow> string \<Rightarrow> Category \<Rightarrow> (err, unit) res \<times> Category" where
  "category_Update now icon0 color0 c =
     (case normalizeIcon icon0 of Inl e \<Rightarrow> (Inl e, c) | Inr icon \<Rightarrow>
     (case normalizeColor color0 of Inl e \<Rightarrow> (Inl e, c) | Inr color \<Rightarrow>
       (Inr (), c\<lparr>c_Icon := icon, c_Color := color, c_UpdatedAt := now\<rparr>)))"

definition category_IsArchived :: "Category \<Rightarrow> bool" where
  "category_IsArchived c \<longleftrightarrow> c_ArchivedAt c \<noteq> None"

definition category_Archive :: "instant \<Rightarrow> Category \<Rightarrow> Category" where
  "category_Archive now c = (if c_ArchivedAt c \<noteq> None then c
     else c\<lparr>c_ArchivedAt := Some now, c_UpdatedAt := now\<rparr>)"

definition category_Unarchive :: "instant \<Rightarrow> Category \<Rightarrow> Category" where
  "category_Unarchive now c = (if c_ArchivedAt c = None then c
     else c\<lparr>c_ArchivedAt := None, c_UpdatedAt := now\<rparr>)"

section \<open>Seeded defaults (defaults.go)\<close>

record DefaultCat =
  dc_Key :: string
  dc_Kind :: CategoryKind
  dc_Icon :: string
  dc_Color :: string

definition default_cat :: "CategoryKind \<Rightarrow> string \<Rightarrow> string \<Rightarrow> string \<Rightarrow> DefaultCat" where
  "default_cat kind key icon color = \<lparr>dc_Key = key, dc_Kind = kind, dc_Icon = icon, dc_Color = color\<rparr>"

definition category_Defaults :: "DefaultCat list" where
  "category_Defaults =
     [default_cat CKindExpense ''food'' ''utensils'' ''chart-1'',
      default_cat CKindExpense ''transport'' ''bus'' ''chart-2'',
      default_cat CKindExpense ''shopping'' ''shopping-bag'' ''chart-3'',
      default_cat CKindExpense ''bills'' ''receipt'' ''chart-4'',
      default_cat CKindExpense ''phone_internet'' ''smartphone'' ''chart-5'',
      default_cat CKindExpense ''health'' ''heart-pulse'' ''chart-1'',
      default_cat CKindExpense ''home'' ''house'' ''chart-2'',
      default_cat CKindExpense ''entertainment'' ''clapperboard'' ''chart-3'',
      default_cat CKindExpense ''education'' ''graduation-cap'' ''chart-4'',
      default_cat CKindExpense ''family'' ''users'' ''chart-5'',
      default_cat CKindExpense ''installments'' ''credit-card'' ''chart-1'',
      default_cat CKindExpense ''charity'' ''hand-heart'' ''chart-2'',
      default_cat CKindExpense ''other_expense'' ''circle-ellipsis'' ''chart-3'',
      default_cat CKindIncome ''salary'' ''banknote'' ''chart-4'',
      default_cat CKindIncome ''bonus'' ''wallet'' ''chart-5'',
      default_cat CKindIncome ''freelance'' ''laptop'' ''chart-1'',
      default_cat CKindIncome ''business'' ''briefcase'' ''chart-2'',
      default_cat CKindIncome ''investment'' ''trending-up'' ''chart-3'',
      default_cat CKindIncome ''gift'' ''gift'' ''chart-4'',
      default_cat CKindIncome ''other_income'' ''circle-ellipsis'' ''chart-5'']"

definition DefaultNameKey :: "string \<Rightarrow> string" where
  "DefaultNameKey key = ''category.default.'' @ key"

text \<open>\<open>titleCase\<close>: words separated by underscore, dash or blank, each with its first rune in upper case.\<close>

fun key_words :: "string \<Rightarrow> string \<Rightarrow> string list" where
  "key_words [] acc = (if acc = [] then [] else [acc])"
| "key_words (c # s) acc =
     (if c \<in> {CHR ''_'', CHR ''-'', CHR '' ''} then (if acc = [] then key_words s [] else acc # key_words s [])
      else key_words s (acc @ [c]))"

definition title_word :: "string \<Rightarrow> string" where
  "title_word w = (case runes w of [] \<Rightarrow> [] | r # rs \<Rightarrow> upper_rune r @ concat rs)"

fun join_words :: "string \<Rightarrow> string list \<Rightarrow> string" where
  "join_words sep [] = []"
| "join_words sep [w] = w"
| "join_words sep (w # ws) = w @ sep @ join_words sep ws"

definition titleCase :: "string \<Rightarrow> string" where
  "titleCase key = join_words '' '' (map title_word (key_words key []))"

section \<open>Well-formed categories\<close>

definition color_ok :: "string \<Rightarrow> bool" where
  "color_ok s \<longleftrightarrow> s = [] \<or> chartColor s \<or> (\<exists>t. hexColor t \<and> s = ToLower t)"

definition category_ok :: "Category \<Rightarrow> bool" where
  "category_ok c \<longleftrightarrow> c_Name c \<noteq> [] \<and> RuneCountInString (c_Name c) \<le> 100 \<and> category_kind_known (c_Kind c) \<and>
     (c_Icon c = [] \<or> c_Icon c \<in> set AllowedIcons) \<and> color_ok (c_Color c) \<and>
     0 \<le> c_SortOrder c \<and> c_SortOrder c \<le> MaxSortOrder"

lemma normalizeName_Inr:
  "normalizeName n = Inr m \<Longrightarrow> m = TrimSpace n \<and> m \<noteq> [] \<and> RuneCountInString m \<le> 100"
  by (auto simp: normalizeName_def Let_def split: if_splits)

lemma normalizeIcon_Inr: "normalizeIcon i = Inr j \<Longrightarrow> j = [] \<or> j \<in> set AllowedIcons"
  by (auto simp: normalizeIcon_def Let_def split: if_splits)

lemma normalizeColor_Inr: "normalizeColor i = Inr j \<Longrightarrow> color_ok j"
  by (auto simp: normalizeColor_def color_ok_def Let_def split: if_splits)

lemma clampSortOrder_bounds: "0 \<le> clampSortOrder v" "clampSortOrder v \<le> MaxSortOrder"
  by (auto simp: clampSortOrder_def MaxSortOrder_def)

lemmas normalize_Inr = normalizeName_Inr normalizeIcon_Inr normalizeColor_Inr

lemma category_New_Inr:
  assumes "category_New cid now org prj n k i co so = Inr c"
  shows "c_ID c = cid" "c_OrgID c = org" "c_ProjectID c = prj" "c_Kind c = k" "category_ok c"
    "c_ArchivedAt c = None" "c_Name c = TrimSpace n"
  using assms clampSortOrder_bounds
  by (auto simp: category_New_def category_ok_def dest: normalize_Inr split: sum.splits if_splits)

definition same_category :: "Category \<Rightarrow> Category \<Rightarrow> bool" where
  "same_category c c' \<longleftrightarrow> c_ID c' = c_ID c \<and> c_OrgID c' = c_OrgID c \<and> c_ProjectID c' = c_ProjectID c \<and>
     c_Kind c' = c_Kind c \<and> c_SortOrder c' = c_SortOrder c \<and> (category_ok c \<longrightarrow> category_ok c')"

lemma category_edits_same:
  "category_Rename now n c = (r, c') \<Longrightarrow> same_category c c'"
  "category_Update now i co c = (r, c') \<Longrightarrow> same_category c c'"
  "same_category c (category_Archive now c)"
  "same_category c (category_Unarchive now c)"
  by (auto simp: same_category_def category_ok_def category_Rename_def category_Update_def
      category_Archive_def category_Unarchive_def dest: normalize_Inr split: sum.splits if_splits)

end
