(* ===== verification/Period.thy ===== *)
theory Period
  imports Tenant
begin

text \<open>
  Package \<open>internal/period\<close>, the aggregate: budget periods, their naming, the
  arithmetic of the monthly cycle (\<open>FirstStart\<close>, \<open>nextCycleStart\<close>,
  \<open>SuggestedEnd\<close>), the choice of the period that may be reopened and of the date
  an opening balance takes.
\<close>

named_theorems period_simps \<open>predicates on periods\<close>

section \<open>Data (period.go, snapshot.go)\<close>

datatype Status = StatusOpen | StatusClosed

record WalletClosing =
  wc_WalletID :: uuid
  wc_Name :: string
  wc_Closing :: int

record Snapshot =
  sn_Currency :: Currency
  sn_Income :: int
  sn_Expense :: int
  sn_Net :: int
  sn_TxCount :: int
  sn_Wallets :: "WalletClosing list"
  sn_ComputedAt :: instant

record Period =
  p_ID :: uuid
  p_OrgID :: uuid
  p_ProjectID :: uuid
  p_Name :: string
  p_StartDate :: Date
  p_EndDate :: "Date option"
  p_Status :: Status
  p_ClosedAt :: "instant option"
  p_Snapshot :: "Snapshot option"
  p_CreatedAt :: instant
  p_UpdatedAt :: instant

record Closing =
  cl_ID :: uuid
  cl_OrgID :: uuid
  cl_ProjectID :: uuid
  cl_PeriodID :: uuid
  cl_ClosedAt :: instant
  cl_ClosedBy :: uuid
  cl_ClosedByKeyID :: uuid
  cl_Snapshot :: Snapshot

section \<open>Names\<close>

definition MaxNameRunes :: nat where "MaxNameRunes = 60"

definition cleanName :: "string \<Rightarrow> (err, string) res" where
  "cleanName name = (let clean = TrimSpace name in
     if clean = '''' then Inl (EPeriod (PeriodInvalidNameError ''empty''))
     else if RuneCountInString clean > MaxNameRunes
     then Inl (EPeriod (PeriodInvalidNameError ''over 60 characters''))
     else Inr clean)"

definition month_abbr :: "int \<Rightarrow> string" where
  "month_abbr m = [''Jan'', ''Feb'', ''Mar'', ''Apr'', ''May'', ''Jun'',
     ''Jul'', ''Aug'', ''Sep'', ''Oct'', ''Nov'', ''Dec''] ! nat (m - 1)"

definition DefaultName :: "Date \<Rightarrow> string" where
  "DefaultName start = (let d = DateOf (date_In start time_UTC) time_UTC; y = Year d in
     month_abbr (Month d) @ '' '' @ (if y < 0 then ''-'' @ pad 4 (- y) else pad 4 y))"

definition period_New ::
    "uuid \<Rightarrow> instant \<Rightarrow> uuid \<Rightarrow> uuid \<Rightarrow> Date \<Rightarrow> string \<Rightarrow> (err, Period) res" where
  "period_New pid now orgID projectID start name =
     (if date_IsZero start then Inl (EPeriod (InvalidRangeError ''start date is empty''))
      else case cleanName (if TrimSpace name = '''' then DefaultName start else name) of
        Inl e \<Rightarrow> Inl e
      | Inr clean \<Rightarrow> Inr \<lparr>p_ID = pid, p_OrgID = orgID, p_ProjectID = projectID, p_Name = clean,
          p_StartDate = start, p_EndDate = None, p_Status = StatusOpen, p_ClosedAt = None,
          p_Snapshot = None, p_CreatedAt = now, p_UpdatedAt = now\<rparr>)"

definition period_Rename :: "instant \<Rightarrow> string \<Rightarrow> Period \<Rightarrow> (err, unit) res \<times> Period" where
  "period_Rename now name p = (case cleanName name of
     Inl e \<Rightarrow> (Inl e, p)
   | Inr clean \<Rightarrow> (Inr (), p\<lparr>p_Name := clean, p_UpdatedAt := now\<rparr>))"

section \<open>Predicates\<close>

definition IsCurrent :: "Period \<Rightarrow> bool" where
  "IsCurrent p \<longleftrightarrow> p_EndDate p = None"

definition IsLocked :: "Period \<Rightarrow> bool" where
  "IsLocked p \<longleftrightarrow> p_Status p = StatusClosed"

definition period_Contains :: "Period \<Rightarrow> Date \<Rightarrow> bool" where
  "period_Contains p d =
     (if Before d (p_StartDate p) then False
      else case p_EndDate p of None \<Rightarrow> True | Some e \<Rightarrow> \<not> Before e d)"

section \<open>The monthly cycle\<close>

definition MinStartDay :: int where "MinStartDay = 1"

definition MaxStartDay :: int where "MaxStartDay = 28"

definition ClampStartDay :: "int \<Rightarrow> int" where
  "ClampStartDay day = (if day < MinStartDay then MinStartDay
     else if day > MaxStartDay then MaxStartDay else day)"

definition FirstStart :: "Date \<Rightarrow> int \<Rightarrow> Date" where
  "FirstStart today startDay = (let day = ClampStartDay startDay in
     if Day today \<ge> day then Date (Year today) (Month today) day
     else let prev = AddDays (Date (Year today) (Month today) 1) (-1)
          in Date (Year prev) (Month prev) day)"

definition nextCycleStart :: "Date \<Rightarrow> int \<Rightarrow> Date" where
  "nextCycleStart start startDay = (let day = ClampStartDay startDay;
       next = Date (Year start) (Month start) day in
     if \<not> Before start next
     then (if Month start = 12 then Date (Year start + 1) 1 day
           else Date (Year start) (Month start + 1) day)
     else next)"

definition SuggestedEnd :: "Date \<Rightarrow> Date \<Rightarrow> int \<Rightarrow> Date" where
  "SuggestedEnd start today startDay =
     (let end0 = AddDays (nextCycleStart start startDay) (-1);
          end1 = (if Before today end0 then today else end0)
      in if Before end1 start then start else end1)"

section \<open>Which period may be reopened, and where an opening balance goes\<close>

text \<open>The first loop of \<open>LatestClosed\<close>; \<open>None\<close> is its early \<open>return nil\<close>.\<close>

fun latest_scan :: "Period option \<Rightarrow> Period list \<Rightarrow> Period option option" where
  "latest_scan best [] = Some best"
| "latest_scan best (p # items) =
     (if IsCurrent p then latest_scan best items
      else if \<not> IsLocked p then None
      else latest_scan (case best of None \<Rightarrow> Some p
        | Some b \<Rightarrow> if Before (p_StartDate b) (p_StartDate p) then Some p else Some b) items)"

definition LatestClosed :: "Period list \<Rightarrow> Period option" where
  "LatestClosed items = (case latest_scan None items of
     None \<Rightarrow> None
   | Some None \<Rightarrow> None
   | Some (Some best) \<Rightarrow>
       if list_all (\<lambda>p. p_ID p = p_ID best \<or> IsCurrent p \<or> Before (p_StartDate p) (p_StartDate best)) items
       then Some best else None)"

record OpeningDate =
  od_At :: instant
  od_Date :: Date
  od_Moved :: bool

definition next_open_pick :: "Date \<Rightarrow> Period option \<Rightarrow> Period \<Rightarrow> Period option" where
  "next_open_pick today best p =
     (if IsLocked p \<or> \<not> Before today (p_StartDate p) then best
      else case best of None \<Rightarrow> Some p
        | Some b \<Rightarrow> if Before (p_StartDate p) (p_StartDate b) then Some p else Some b)"

definition NextOpenStart :: "Period list \<Rightarrow> Period \<Rightarrow> Date \<Rightarrow> Date" where
  "NextOpenStart items closed today = (case foldl (next_open_pick today) None items of
     Some b \<Rightarrow> p_StartDate b
   | None \<Rightarrow> (case p_EndDate closed of None \<Rightarrow> AddDays today 1 | Some e \<Rightarrow> AddDays e 1))"

definition ParseEnd :: "string \<Rightarrow> (err, Date) res" where
  "ParseEnd raw = (case ParseDate (TrimSpace raw) of
     Inl _ \<Rightarrow> Inl (EPeriod (InvalidRangeError ''end date is not a date''))
   | Inr d \<Rightarrow> Inr d)"

record PeriodListOpts =
  pl_Limit :: int
  pl_Before :: "Date option"

section \<open>Lemmas: names\<close>

lemma cleanName_Inr: "cleanName n = Inr m \<Longrightarrow> m = TrimSpace n \<and> m \<noteq> [] \<and> RuneCountInString m \<le> 60"
  by (auto simp: cleanName_def Let_def MaxNameRunes_def split: if_splits)

lemma period_New_Inr:
  assumes "period_New pid now org prj start name = Inr p"
  shows "p_ID p = pid" "p_OrgID p = org" "p_ProjectID p = prj" "p_StartDate p = start"
    "p_EndDate p = None" "p_Status p = StatusOpen" "p_Snapshot p = None" "start \<noteq> Date 0 0 0"
    "p_Name p \<noteq> []" "RuneCountInString (p_Name p) \<le> 60"
  using assms cleanName_Inr by (auto simp: period_New_def date_IsZero_def split: if_splits sum.splits)

lemma DefaultName_clean:
  assumes "0 \<le> Year start" "Year start \<le> 9999" "valid_date start"
  shows "cleanName (DefaultName start) = Inr (DefaultName start)"
proof -
  let ?n = "DefaultName start" and ?y = "pad 4 (Year start)"
  have y: "length ?y = 4" "list_all is_digit ?y" using assms by (simp_all add: length_pad pad_digits)
  have m: "nat (Month start - 1) < 12" using assms(3) by (auto simp: valid_date_def)
  have "\<forall>n < 12. length (month_abbr (int n + 1)) = 3 \<and> visible (hd (month_abbr (int n + 1)))"
    by (simp add: month_abbr_def numeral_eq_Suc All_less_Suc visible_def byte_def)
  from this [rule_format, OF m] have a: "length (month_abbr (Month start)) = 3" "visible (hd (month_abbr (Month start)))"
    using assms(3) by (auto simp: valid_date_def)
  have n: "?n = month_abbr (Month start) @ '' '' @ ?y"
    using assms by (simp add: DefaultName_def Let_def)
  have "visible (last ?n)"
    using y is_digit_visible [of "last ?y"] last_in_set [of ?y] by (auto simp: n list_all_iff)
  moreover have "visible (hd ?n)" using a by (cases "month_abbr (Month start)") (auto simp: n)
  ultimately have "TrimSpace ?n = ?n" using a by (intro TrimSpace_visible) (auto simp: n)
  moreover have "length ?n = 8" using a y by (simp add: n)
  then have "RuneCountInString ?n \<le> 60" "?n \<noteq> []"
    using length_runes_le [of ?n] by (auto simp: RuneCountInString_def)
  ultimately show ?thesis by (simp add: cleanName_def MaxNameRunes_def)
qed

lemma period_New_default:
  assumes "0 \<le> Year start" "Year start \<le> 9999" "valid_date start"
  shows "\<exists>p. period_New pid now org prj start '''' = Inr p"
  using DefaultName_clean [OF assms] assms(3) not_valid_zero by (auto simp: period_New_def date_IsZero_def)


section \<open>Lemmas: the cycle\<close>

lemma ClampStartDay_bounds: "1 \<le> ClampStartDay n" "ClampStartDay n \<le> 28"
  by (auto simp: ClampStartDay_def MinStartDay_def MaxStartDay_def)

lemma ClampStartDay_id: "1 \<le> n \<Longrightarrow> n \<le> 28 \<Longrightarrow> ClampStartDay n = n"
  by (simp add: ClampStartDay_def MinStartDay_def MaxStartDay_def)

lemma valid_cycle_day: "1 \<le> m \<Longrightarrow> m \<le> 12 \<Longrightarrow> valid_date (Date y m (ClampStartDay n))"
  using ClampStartDay_bounds [of n] month_days_bounds(1) [of y m] by (simp add: valid_date_def)

lemma last_of_previous_month:
  assumes "1 \<le> m" "m \<le> 12"
  shows "AddDays (Date y m 1) (-1) =
    (if m = 1 then Date (y - 1) 12 31 else Date y (m - 1) (month_days y (m - 1)))"
proof -
  let ?d = "if m = 1 then Date (y - 1) 12 31 else Date y (m - 1) (month_days y (m - 1))"
  have v: "valid_date ?d"
    using assms month_days_bounds(1) [of y "m - 1"] by (auto simp: valid_date_def month_days_def)
  have "days ?d = days (Date y m 1) - 1"
  proof (cases "m = 1")
    case True
    then show ?thesis
      using days_before_year_Suc [of "y - 1"] days_before_month_13 [of "y - 1"]
        days_before_month_Suc [of 12 "y - 1"]
      by (simp add: days_valid month_days_def)
  next
    case False
    then show ?thesis
      using assms days_before_month_Suc [of "m - 1" y] by (simp add: days_valid)
  qed
  then show ?thesis
    using civil_of_days_days [OF v] by (simp add: AddDays_eq)
qed

lemma FirstStart_eq:
  assumes "valid_date today"
  shows "FirstStart today n = (if Day today \<ge> ClampStartDay n then Date (Year today) (Month today) (ClampStartDay n)
     else if Month today = 1 then Date (Year today - 1) 12 (ClampStartDay n)
     else Date (Year today) (Month today - 1) (ClampStartDay n))"
  using assms by (simp add: FirstStart_def Let_def last_of_previous_month valid_date_def)

lemma FirstStart_valid: "valid_date today \<Longrightarrow> valid_date (FirstStart today n)"
  using valid_cycle_day by (auto simp: FirstStart_eq valid_date_def [of today])

lemma FirstStart_le: "valid_date today \<Longrightarrow> FirstStart today n \<le> today"
  by (auto simp: FirstStart_eq less_eq_Date_def)

lemma FirstStart_greatest:
  assumes "valid_date today" "valid_date d" "Day d = ClampStartDay n" "d \<le> today"
  shows "d \<le> FirstStart today n"
  using assms by (auto simp: FirstStart_eq less_eq_Date_def valid_date_def)

lemma Day_FirstStart: "valid_date today \<Longrightarrow> Day (FirstStart today n) = ClampStartDay n"
  by (simp add: FirstStart_eq)

lemma nextCycleStart_valid: "valid_date start \<Longrightarrow> valid_date (nextCycleStart start n)"
  using valid_cycle_day by (auto simp: nextCycleStart_def Let_def valid_date_def [of start])

lemma nextCycleStart_eq:
  assumes "valid_date start"
  shows "nextCycleStart start n = (if Day start < ClampStartDay n then Date (Year start) (Month start) (ClampStartDay n)
     else if Month start = 12 then Date (Year start + 1) 1 (ClampStartDay n)
     else Date (Year start) (Month start + 1) (ClampStartDay n))"
proof -
  have "valid_date (Date (Year start) (Month start) (ClampStartDay n))"
    using assms by (intro valid_cycle_day) (auto simp: valid_date_def)
  then show ?thesis
    using assms by (auto simp: nextCycleStart_def Let_def Before_iff_less less_Date_def)
qed

lemma nextCycleStart_greater: "valid_date start \<Longrightarrow> start < nextCycleStart start n"
  by (auto simp: nextCycleStart_eq less_Date_def)

lemma Day_nextCycleStart: "valid_date start \<Longrightarrow> Day (nextCycleStart start n) = ClampStartDay n"
  by (simp add: nextCycleStart_eq)

lemma nextCycleStart_least:
  assumes "valid_date start" "valid_date d" "Day d = ClampStartDay n" "start < d"
  shows "nextCycleStart start n \<le> d"
  using assms by (auto simp: nextCycleStart_eq less_eq_Date_def less_Date_def valid_date_def)

lemma SuggestedEnd_days:
  assumes "valid_date start" "valid_date today"
  shows "days (SuggestedEnd start today n) =
    max (days start) (min (days today) (days (nextCycleStart start n) - 1))"
  by (auto simp: SuggestedEnd_def Let_def Before_days max_def min_def)

lemma SuggestedEnd_valid:
  "valid_date start \<Longrightarrow> valid_date today \<Longrightarrow> valid_date (SuggestedEnd start today n)"
  by (simp add: SuggestedEnd_def Let_def)

section \<open>Lemmas: containment and reopening\<close>

lemma period_Contains_days [period_simps]:
  "period_Contains p d \<longleftrightarrow> days (p_StartDate p) \<le> days d \<and>
     (case p_EndDate p of None \<Rightarrow> True | Some e \<Rightarrow> days d \<le> days e)"
  by (auto simp: period_Contains_def Before_days split: option.splits)

lemma latest_scan_Some:
  assumes "latest_scan b0 items = Some r"
  shows "(\<forall>p \<in> set items. IsCurrent p \<or> IsLocked p) \<and> (r = b0 \<or> (\<exists>b \<in> set items. r = Some b \<and> \<not> IsCurrent b)) \<and>
    (r = None \<longrightarrow> b0 = None \<and> (\<forall>p \<in> set items. IsCurrent p))"
  using assms
proof (induction items arbitrary: b0)
  case (Cons p items)
  then show ?case by (auto split: if_splits option.splits dest!: Cons.IH)
qed simp

lemma latest_scan_max:
  assumes "latest_scan b0 items = Some (Some b)"
  shows "(\<forall>x. b0 = Some x \<longrightarrow> days (p_StartDate x) \<le> days (p_StartDate b)) \<and>
    (\<forall>p \<in> set items. \<not> IsCurrent p \<longrightarrow> days (p_StartDate p) \<le> days (p_StartDate b))"
  using assms
proof (induction items arbitrary: b0)
  case (Cons p items)
  then show ?case
    by (fastforce simp: Before_days split: if_splits option.splits dest!: Cons.IH)
qed simp

lemma latest_scan_defined:
  "(\<forall>p \<in> set items. IsCurrent p \<or> IsLocked p) \<Longrightarrow> \<exists>r. latest_scan b0 items = Some r"
  by (induction items arbitrary: b0) auto

text \<open>
  \<open>LatestClosed\<close> is the unique period that has an end, starts after every other
  period that has one, while all of those are locked.
\<close>

lemma LatestClosed_iff:
  assumes d: "keyed p_ID items"
  shows "LatestClosed items = Some b \<longleftrightarrow>
    b \<in> set items \<and> \<not> IsCurrent b \<and> (\<forall>p \<in> set items. \<not> IsCurrent p \<longrightarrow> IsLocked p) \<and>
    (\<forall>p \<in> set items. \<not> IsCurrent p \<and> p \<noteq> b \<longrightarrow> days (p_StartDate p) < days (p_StartDate b))" (is "?l \<longleftrightarrow> ?r")
proof
  assume ?l
  then have s: "latest_scan None items = Some (Some b)"
    and a: "\<forall>p \<in> set items. p_ID p = p_ID b \<or> IsCurrent p \<or> days (p_StartDate p) < days (p_StartDate b)"
    by (auto simp: LatestClosed_def list_all_iff Before_days split: option.splits if_splits)
  have "b \<in> set items" using latest_scan_Some [OF s] by auto
  then show ?r
    using latest_scan_Some [OF s] a d by (auto simp: inj_on_eq_iff distinct_map)
next
  assume r: ?r
  then obtain x where x: "latest_scan None items = Some x" using latest_scan_defined by blast
  with r have "x \<noteq> None" using latest_scan_Some [OF x] by auto
  with x obtain c where c: "latest_scan None items = Some (Some c)" by auto
  have "c = b"
  proof (rule ccontr)
    assume "c \<noteq> b"
    then have "days (p_StartDate c) < days (p_StartDate b)" using r latest_scan_Some [OF c] by auto
    then show False using latest_scan_max [OF c] r by auto
  qed
  then show ?l
    using r c by (auto simp: LatestClosed_def list_all_iff Before_days)
qed

lemma LatestClosed_None:
  assumes "\<exists>p \<in> set items. \<not> IsCurrent p \<and> \<not> IsLocked p"
  shows "LatestClosed items = None"
  using assms latest_scan_Some by (fastforce simp: LatestClosed_def split: option.splits)

lemma next_open_fold:
  assumes "foldl (next_open_pick today) b0 items = r"
  shows "(r = None \<longrightarrow> b0 = None \<and> (\<forall>p \<in> set items. IsLocked p \<or> days (p_StartDate p) \<le> days today)) \<and>
    (\<forall>b. r = Some b \<longrightarrow> (b0 = Some b \<or> b \<in> set items \<and> \<not> IsLocked b \<and> days today < days (p_StartDate b)) \<and>
      (\<forall>x. b0 = Some x \<longrightarrow> days (p_StartDate b) \<le> days (p_StartDate x)) \<and>
      (\<forall>p \<in> set items. \<not> IsLocked p \<and> days today < days (p_StartDate p) \<longrightarrow>
         days (p_StartDate b) \<le> days (p_StartDate p)))"
  using assms
proof (induction items arbitrary: b0)
  case (Cons p items)
  then have "foldl (next_open_pick today) (next_open_pick today b0 p) items = r" by simp
  from Cons.IH [OF this] show ?case
    by (cases b0; cases r) (auto simp: next_open_pick_def Before_days not_less split: if_splits)
qed auto

end
