(* ===== verification/Transaction.thy ===== *)
theory Transaction
  imports Tenant
begin

text \<open>
  Package \<open>internal/transaction\<close>, the aggregate: the kinds of money movement,
  the creation invariants, what a transaction does to a wallet's balance
  (\<open>Effect\<close>), the setters, note normalisation and the page limits.
\<close>

datatype TxKind = KindIncome | KindExpense | KindTransfer | KindOpening | KindAdjustmentIn | KindAdjustmentOut
  | TKindUnknown string

fun tx_kind_str :: "TxKind \<Rightarrow> string" where
  "tx_kind_str KindIncome = ''income''"
| "tx_kind_str KindExpense = ''expense''"
| "tx_kind_str KindTransfer = ''transfer''"
| "tx_kind_str KindOpening = ''opening''"
| "tx_kind_str KindAdjustmentIn = ''adjustment_in''"
| "tx_kind_str KindAdjustmentOut = ''adjustment_out''"
| "tx_kind_str (TKindUnknown s) = s"

definition tx_kind_of :: "string \<Rightarrow> TxKind" where
  "tx_kind_of s = (case find (\<lambda>k. tx_kind_str k = s)
      [KindIncome, KindExpense, KindTransfer, KindOpening, KindAdjustmentIn, KindAdjustmentOut] of
     Some k \<Rightarrow> k | None \<Rightarrow> TKindUnknown s)"

fun tx_kind_valid :: "TxKind \<Rightarrow> bool" where
  "tx_kind_valid (TKindUnknown _) = False"
| "tx_kind_valid _ = True"

definition tx_ParseKind :: "string \<Rightarrow> (err, TxKind) res" where
  "tx_ParseKind s = (let k = tx_kind_of s in
     if tx_kind_valid k then Inr k else Inl (ETransaction (InvalidKindError s ''unknown kind'')))"

fun IsInflow :: "TxKind \<Rightarrow> bool" where
  "IsInflow KindIncome = True"
| "IsInflow KindOpening = True"
| "IsInflow KindAdjustmentIn = True"
| "IsInflow _ = False"

definition AllowsCategory :: "TxKind \<Rightarrow> bool" where
  "AllowsCategory k \<longleftrightarrow> k = KindIncome \<or> k = KindExpense"

definition IsUserRecorded :: "TxKind \<Rightarrow> bool" where
  "IsUserRecorded k \<longleftrightarrow> k = KindIncome \<or> k = KindExpense \<or> k = KindTransfer"

record Transaction =
  t_ID :: uuid
  t_OrgID :: uuid
  t_ProjectID :: uuid
  t_WalletID :: uuid
  t_ToWalletID :: "uuid option"
  t_Kind :: TxKind
  t_Amount :: Amount
  t_CategoryID :: "uuid option"
  t_PeriodID :: "uuid option"
  t_Note :: string
  t_OccurredAt :: instant
  t_CreatedBy :: uuid
  t_CreatedByKeyID :: uuid
  t_CreatedAt :: instant
  t_UpdatedAt :: instant

record TxNewParams =
  np_WalletID :: uuid
  np_ToWalletID :: "uuid option"
  np_Kind :: TxKind
  np_Amount :: Amount
  np_CategoryID :: "uuid option"
  np_PeriodID :: "uuid option"
  np_Note :: string
  np_OccurredAt :: instant
  np_CreatedBy :: uuid
  np_CreatedByKeyID :: uuid

definition MaxNoteRunes :: nat where "MaxNoteRunes = 500"

definition validAmount :: "Amount \<Rightarrow> (err, unit) res" where
  "validAmount a =
     (if \<not> currency_Valid (Currency a)
      then Inl (ETransaction (InvalidAmountError (''unknown currency '' @ Currency a)))
      else if \<not> amount_IsPositive a then Inl (ETransaction (InvalidAmountError ''must be greater than zero''))
      else Inr ())"

definition validNote :: "string \<Rightarrow> (err, unit) res" where
  "validNote note = (if RuneCountInString note > MaxNoteRunes
     then Inl (ETransaction (InvalidNoteError ''over 500 characters'')) else Inr ())"

definition tx_validate :: "Transaction \<Rightarrow> (err, unit) res" where
  "tx_validate t =
     (if \<not> tx_kind_valid (t_Kind t) then Inl (ETransaction (InvalidKindError (tx_kind_str (t_Kind t)) ''unknown kind''))
      else case validAmount (t_Amount t) of Inl e \<Rightarrow> Inl e | Inr _ \<Rightarrow>
      (case validNote (t_Note t) of Inl e \<Rightarrow> Inl e | Inr _ \<Rightarrow>
       if t_Kind t = KindTransfer \<and> t_ToWalletID t = None
       then Inl (ETransaction (InvalidKindError (tx_kind_str (t_Kind t)) ''transfer needs a destination wallet''))
       else if t_Kind t = KindTransfer \<and> t_ToWalletID t = Some (t_WalletID t)
       then Inl (ETransaction (SameWalletError (t_WalletID t)))
       else if t_Kind t \<noteq> KindTransfer \<and> t_ToWalletID t \<noteq> None
       then Inl (ETransaction (InvalidKindError (tx_kind_str (t_Kind t)) ''only a transfer may name a destination wallet''))
       else if t_CategoryID t \<noteq> None \<and> \<not> AllowsCategory (t_Kind t)
       then Inl (ETransaction (InvalidKindError (tx_kind_str (t_Kind t)) ''only income and expense may name a category''))
       else Inr ()))"

definition tx_New :: "uuid \<Rightarrow> instant \<Rightarrow> uuid \<Rightarrow> uuid \<Rightarrow> TxNewParams \<Rightarrow> (err, Transaction) res" where
  "tx_New tid now orgID projectID p =
     (let t = \<lparr>t_ID = tid, t_OrgID = orgID, t_ProjectID = projectID, t_WalletID = np_WalletID p,
         t_ToWalletID = np_ToWalletID p, t_Kind = np_Kind p, t_Amount = np_Amount p,
         t_CategoryID = np_CategoryID p, t_PeriodID = np_PeriodID p, t_Note = TrimSpace (np_Note p),
         t_OccurredAt = np_OccurredAt p, t_CreatedBy = np_CreatedBy p, t_CreatedByKeyID = np_CreatedByKeyID p,
         t_CreatedAt = now, t_UpdatedAt = now\<rparr>
      in case tx_validate t of Inl e \<Rightarrow> Inl e | Inr _ \<Rightarrow> Inr t)"

definition Effect :: "Transaction \<Rightarrow> uuid \<Rightarrow> Amount" where
  "Effect t walletID =
     (if t_Kind t = KindTransfer then
        (if walletID = t_WalletID t then amount_Neg (t_Amount t)
         else if t_ToWalletID t = Some walletID then t_Amount t
         else money_Zero (Currency (t_Amount t)))
      else if walletID \<noteq> t_WalletID t then money_Zero (Currency (t_Amount t))
      else if IsInflow (t_Kind t) then t_Amount t
      else amount_Neg (t_Amount t))"

section \<open>Setters\<close>

definition SetAmount :: "instant \<Rightarrow> Amount \<Rightarrow> Transaction \<Rightarrow> (err, unit) res \<times> Transaction" where
  "SetAmount now a t = (case validAmount a of Inl e \<Rightarrow> (Inl e, t)
     | Inr _ \<Rightarrow> (Inr (), t\<lparr>t_Amount := a, t_UpdatedAt := now\<rparr>))"

definition SetNote :: "instant \<Rightarrow> string \<Rightarrow> Transaction \<Rightarrow> (err, unit) res \<times> Transaction" where
  "SetNote now note0 t = (let note = TrimSpace note0 in case validNote note of Inl e \<Rightarrow> (Inl e, t)
     | Inr _ \<Rightarrow> (Inr (), t\<lparr>t_Note := note, t_UpdatedAt := now\<rparr>))"

definition SetOccurredAt :: "instant \<Rightarrow> instant \<Rightarrow> Transaction \<Rightarrow> Transaction" where
  "SetOccurredAt now at t = t\<lparr>t_OccurredAt := at, t_UpdatedAt := now\<rparr>"

definition SetCategory :: "instant \<Rightarrow> uuid option \<Rightarrow> Transaction \<Rightarrow> (err, unit) res \<times> Transaction" where
  "SetCategory now cid t =
     (if cid \<noteq> None \<and> \<not> AllowsCategory (t_Kind t)
      then (Inl (ETransaction (InvalidKindError (tx_kind_str (t_Kind t)) ''only income and expense may name a category'')), t)
      else (Inr (), t\<lparr>t_CategoryID := cid, t_UpdatedAt := now\<rparr>))"

definition SetToWallet :: "instant \<Rightarrow> uuid option \<Rightarrow> Transaction \<Rightarrow> Transaction" where
  "SetToWallet now wid t = t\<lparr>t_ToWalletID := wid, t_UpdatedAt := now\<rparr>"

definition SetWallet :: "instant \<Rightarrow> uuid \<Rightarrow> Transaction \<Rightarrow> Transaction" where
  "SetWallet now wid t = t\<lparr>t_WalletID := wid, t_UpdatedAt := now\<rparr>"

definition SetPeriod :: "instant \<Rightarrow> uuid option \<Rightarrow> Transaction \<Rightarrow> Transaction" where
  "SetPeriod now pid t = t\<lparr>t_PeriodID := pid, t_UpdatedAt := now\<rparr>"

section \<open>Notes, pages\<close>

fun fields_scan :: "string list \<Rightarrow> string \<Rightarrow> string list" where
  "fields_scan [] acc = (if acc = [] then [] else [acc])"
| "fields_scan (r # rs) acc =
     (if r \<in> set white_space then (if acc = [] then fields_scan rs [] else acc # fields_scan rs [])
      else fields_scan rs (acc @ r))"

definition Fields :: "string \<Rightarrow> string list" where
  "Fields s = fields_scan (runes s) []"

fun join_blank :: "string list \<Rightarrow> string" where
  "join_blank [] = []"
| "join_blank [w] = w"
| "join_blank (w # ws) = w @ '' '' @ join_blank ws"

definition NormalizeNote :: "string \<Rightarrow> string" where
  "NormalizeNote s = ToLower (join_blank (Fields s))"

record Cursor =
  cu_OccurredAt :: instant
  cu_CreatedAt :: instant
  cu_ID :: uuid

record TxListOpts =
  lo_WalletID :: "uuid option"
  lo_CategoryID :: "uuid option"
  lo_PeriodID :: "uuid option"
  lo_Kinds :: "TxKind list"
  lo_From :: "instant option"
  lo_To :: "instant option"
  lo_Search :: string
  lo_Limit :: int
  lo_After :: "Cursor option"

definition DefaultListLimit :: int where "DefaultListLimit = 50"

definition MaxListLimit :: int where "MaxListLimit = 200"

definition NormalizedLimit :: "TxListOpts \<Rightarrow> int" where
  "NormalizedLimit o' = (if lo_Limit o' \<le> 0 then DefaultListLimit
     else if lo_Limit o' > MaxListLimit then MaxListLimit else lo_Limit o')"

section \<open>Well-formed transactions\<close>

definition tx_ok :: "Transaction \<Rightarrow> bool" where
  "tx_ok t \<longleftrightarrow> tx_kind_valid (t_Kind t) \<and> currency_Valid (Currency (t_Amount t)) \<and> 0 < Minor (t_Amount t) \<and>
     RuneCountInString (t_Note t) \<le> 500 \<and>
     (t_Kind t = KindTransfer \<longleftrightarrow> t_ToWalletID t \<noteq> None) \<and> t_ToWalletID t \<noteq> Some (t_WalletID t) \<and>
     (t_CategoryID t \<noteq> None \<longrightarrow> AllowsCategory (t_Kind t))"

lemma validAmount_Inr: "validAmount a = Inr u \<longleftrightarrow> currency_Valid (Currency a) \<and> 0 < Minor a"
  by (simp add: validAmount_def amount_IsPositive_def)

lemma tx_validate_iff: "tx_validate t = Inr u \<longleftrightarrow> tx_ok t"
  by (auto simp: tx_validate_def tx_ok_def validAmount_def validNote_def amount_IsPositive_def MaxNoteRunes_def
      split: sum.splits if_splits)

lemma tx_New_Inr:
  assumes "tx_New tid now org prj p = Inr t"
  shows "tx_ok t" "t_ID t = tid" "t_OrgID t = org" "t_ProjectID t = prj" "t_WalletID t = np_WalletID p"
    "t_ToWalletID t = np_ToWalletID p" "t_Kind t = np_Kind p" "t_Amount t = np_Amount p"
    "t_CategoryID t = np_CategoryID p" "t_PeriodID t = np_PeriodID p" "t_OccurredAt t = np_OccurredAt p"
    "t_CreatedBy t = np_CreatedBy p" "t_CreatedByKeyID t = np_CreatedByKeyID p"
  using assms by (auto simp: tx_New_def Let_def tx_validate_iff split: sum.splits)

lemma Currency_Effect [simp]: "Currency (Effect t w) = Currency (t_Amount t)"
  by (simp add: Effect_def amount_Neg_def money_Zero_def)

text \<open>The signed effect in minor units: the amount with a sign, or zero.\<close>

definition effect_minor :: "Transaction \<Rightarrow> uuid \<Rightarrow> int" where
  "effect_minor t w = (if t_Kind t \<noteq> KindTransfer \<and> IsInflow (t_Kind t) \<and> w = t_WalletID t then Minor (t_Amount t)
     else if t_Kind t = KindTransfer \<and> t_ToWalletID t = Some w \<and> w \<noteq> t_WalletID t then Minor (t_Amount t)
     else if w = t_WalletID t then - Minor (t_Amount t) else 0)"

lemma Minor_Effect:
  assumes "0 < Minor (t_Amount t)" "in_i64 (Minor (t_Amount t))"
  shows "Minor (Effect t w) = effect_minor t w"
proof -
  have "wrap64 (- Minor (t_Amount t)) = - Minor (t_Amount t)"
    using assms by (intro wrap64_id) (simp add: in_i64_def)
  then show ?thesis
    by (auto simp: Effect_def effect_minor_def amount_Neg_def money_Zero_def)
qed

lemma NormalizedLimit_bounds: "1 \<le> NormalizedLimit o'" "NormalizedLimit o' \<le> 200"
  by (auto simp: NormalizedLimit_def DefaultListLimit_def MaxListLimit_def)

lemma tx_kind_of_str: "tx_kind_valid k \<Longrightarrow> tx_kind_of (tx_kind_str k) = k"
  by (cases k) (simp_all add: tx_kind_of_def)

end
