(* ===== verification/SheetLink.thy ===== *)
theory SheetLink
  imports Tenant "HOL-Library.Product_Lexorder"
begin

text \<open>
  Package \<open>internal/opensheetsync\<close>, the data: references to mirrored rows and the
  order every writer locks them in (\<open>ref.go\<close>), a project's link to its sheets
  with the form that configures it (\<open>link.go\<close>), the bookkeeping of one mirrored
  row, and the payload of a sync job (\<open>job.go\<close>).
\<close>

section \<open>References (ref.go)\<close>

datatype Entity = EntityTransaction | EntityWallet | EntityCategory

fun entity_str :: "Entity \<Rightarrow> string" where
  "entity_str EntityTransaction = ''transaction''"
| "entity_str EntityWallet = ''wallet''"
| "entity_str EntityCategory = ''category''"

fun LockRank :: "Entity \<Rightarrow> nat" where
  "LockRank EntityTransaction = 0"
| "LockRank EntityCategory = 1"
| "LockRank EntityWallet = 2"

definition ParseEntity :: "string \<Rightarrow> Entity option" where
  "ParseEntity s = find (\<lambda>e. entity_str e = s) [EntityTransaction, EntityWallet, EntityCategory]"

record MirrorRef =
  mr_Entity :: Entity
  mr_ID :: uuid
  mr_Deleted :: bool
  mr_Cascade :: bool

definition ref_key :: "MirrorRef \<Rightarrow> Entity \<times> uuid" where
  "ref_key r = (mr_Entity r, mr_ID r)"

fun merge_ref :: "MirrorRef \<Rightarrow> MirrorRef list \<Rightarrow> MirrorRef list" where
  "merge_ref r [] = [r]"
| "merge_ref r (x # out) = (if ref_key x = ref_key r
     then x\<lparr>mr_Deleted := mr_Deleted x \<or> mr_Deleted r, mr_Cascade := mr_Cascade x \<or> mr_Cascade r\<rparr> # out
     else x # merge_ref r out)"

definition Dedupe :: "MirrorRef list \<Rightarrow> MirrorRef list" where
  "Dedupe refs = foldl (\<lambda>out r. merge_ref r out) [] refs"

definition lock_key :: "MirrorRef \<Rightarrow> nat \<times> uuid" where
  "lock_key r = (LockRank (mr_Entity r), mr_ID r)"

definition LockOrder :: "MirrorRef list \<Rightarrow> MirrorRef list" where
  "LockOrder refs = sort_key lock_key (Dedupe refs)"

text \<open>The row of \<open>opensheet_sync_state\<close>: \<open>State\<close> with the columns only the store reads.\<close>

record SyncState =
  st_OrgID :: uuid
  st_ProjectID :: uuid
  st_Entity :: Entity
  st_ID :: uuid
  st_Version :: int
  st_SyncedVersion :: int
  st_Deleted :: bool
  st_Attempts :: int
  st_LastError :: string
  st_LeaseToken :: "uuid option"
  st_LeasedUntil :: "instant option"
  st_RetryAfter :: "instant option"
  st_UpdatedAt :: instant

definition state_Dirty :: "SyncState \<Rightarrow> bool" where
  "state_Dirty s \<longleftrightarrow> st_SyncedVersion s < st_Version s"

definition MaxRowAttempts :: int where "MaxRowAttempts = 5"

definition RowBackoff :: "int \<Rightarrow> int" where
  "RowBackoff attempts = 60000000000 * 2 ^ nat (min (max (attempts - 1) 0) 3)"

section \<open>Links (link.go)\<close>

definition DisableAfter :: int where "DisableAfter = 3"

record SheetSlugs =
  sh_Transactions :: string
  sh_Wallets :: string
  sh_Categories :: string

fun slugs_For :: "SheetSlugs \<Rightarrow> Entity \<Rightarrow> string" where
  "slugs_For s EntityTransaction = sh_Transactions s"
| "slugs_For s EntityWallet = sh_Wallets s"
| "slugs_For s EntityCategory = sh_Categories s"

record SheetSettings =
  ss_OSOrg :: string
  ss_OSProject :: string
  ss_APIKey :: string
  ss_Sheets :: SheetSlugs

definition ss_Normalized :: "SheetSettings \<Rightarrow> SheetSettings" where
  "ss_Normalized s = \<lparr>ss_OSOrg = TrimSpace (ss_OSOrg s), ss_OSProject = TrimSpace (ss_OSProject s),
     ss_APIKey = TrimSpace (ss_APIKey s),
     ss_Sheets = \<lparr>sh_Transactions = TrimSpace (sh_Transactions (ss_Sheets s)),
       sh_Wallets = TrimSpace (sh_Wallets (ss_Sheets s)), sh_Categories = TrimSpace (sh_Categories (ss_Sheets s))\<rparr>\<rparr>"

definition slug_start :: "char \<Rightarrow> bool" where
  "slug_start c \<longleftrightarrow> is_digit c \<or> 97 \<le> byte c \<and> byte c \<le> 122"

text \<open>\<open>slugRe\<close>: \<open>^[a-z0-9][a-z0-9-]{0,63}$\<close>.\<close>

definition slugRe :: "string \<Rightarrow> bool" where
  "slugRe s = (case s of [] \<Rightarrow> False | c # cs \<Rightarrow>
     slug_start c \<and> length cs \<le> 63 \<and> list_all (\<lambda>x. slug_start x \<or> x = CHR ''-'') cs)"

definition slug_fields :: "SheetSettings \<Rightarrow> (string \<times> string) list" where
  "slug_fields s = [(''os_org'', ss_OSOrg s), (''os_project'', ss_OSProject s),
     (''transactions_sheet'', sh_Transactions (ss_Sheets s)), (''wallets_sheet'', sh_Wallets (ss_Sheets s)),
     (''categories_sheet'', sh_Categories (ss_Sheets s))]"

definition maxAPIKeyLen :: nat where "maxAPIKeyLen = 512"

definition blank_in_key :: "char \<Rightarrow> bool" where
  "blank_in_key c \<longleftrightarrow> byte c \<in> {32, 9, 13, 10}"

definition ss_Validate :: "bool \<Rightarrow> SheetSettings \<Rightarrow> (err, unit) res" where
  "ss_Validate requireKey s =
     (case find (\<lambda>(_, v). \<not> slugRe v) (slug_fields s) of
        Some (field, _) \<Rightarrow>
          Inl (ESheet (InvalidSettingError field ''use lowercase letters, digits and hyphens, at most 64''))
      | None \<Rightarrow>
        let sh = ss_Sheets s in
        if sh_Transactions sh = sh_Wallets sh \<or> sh_Transactions sh = sh_Categories sh \<or> sh_Wallets sh = sh_Categories sh
        then Inl (ESheet (InvalidSettingError ''sheets'' ''each tab needs its own sheet''))
        else if ss_APIKey s = '''' then (if requireKey then Inl (ESheet APIKeyRequiredError) else Inr ())
        else if RuneCountInString (ss_APIKey s) > maxAPIKeyLen \<or> list_ex blank_in_key (ss_APIKey s)
        then Inl (ESheet (InvalidSettingError ''api_key'' ''paste the key exactly as opensheet showed it''))
        else Inr ())"

record Link =
  ln_ID :: uuid
  ln_OrgID :: uuid
  ln_ProjectID :: uuid
  ln_OSOrg :: string
  ln_OSProject :: string
  ln_APIKeySealed :: string
  ln_APIKeyHint :: string
  ln_Sheets :: SheetSlugs
  ln_Enabled :: bool
  ln_VerifiedAt :: "instant option"
  ln_LastError :: string
  ln_LastSyncedAt :: "instant option"
  ln_FailureStreak :: int
  ln_AutoDisabledAt :: "instant option"
  ln_CreatedBy :: uuid
  ln_CreatedByKeyID :: uuid
  ln_CreatedAt :: instant
  ln_UpdatedAt :: instant

definition link_Configure :: "SheetSettings \<Rightarrow> string option \<Rightarrow> string \<Rightarrow> instant \<Rightarrow> Link \<Rightarrow> Link" where
  "link_Configure s sealed hint at l =
     (let l1 = l\<lparr>ln_OSOrg := ss_OSOrg s, ln_OSProject := ss_OSProject s, ln_Sheets := ss_Sheets s\<rparr>;
          l2 = (case sealed of None \<Rightarrow> l1 | Some k \<Rightarrow> l1\<lparr>ln_APIKeySealed := k, ln_APIKeyHint := hint\<rparr>)
      in l2\<lparr>ln_VerifiedAt := Some at, ln_FailureStreak := 0, ln_AutoDisabledAt := None, ln_UpdatedAt := at\<rparr>)"

definition link_Retargets :: "SheetSettings \<Rightarrow> Link \<Rightarrow> bool" where
  "link_Retargets s l \<longleftrightarrow> ln_OSOrg l \<noteq> ss_OSOrg s \<or> ln_OSProject l \<noteq> ss_OSProject s \<or> ln_Sheets l \<noteq> ss_Sheets s"

definition link_Enable :: "instant \<Rightarrow> Link \<Rightarrow> (err, unit) res \<times> Link" where
  "link_Enable at l = (if ln_VerifiedAt l = None then (Inl (ESheet NotVerifiedError), l)
     else (Inr (), l\<lparr>ln_Enabled := True, ln_FailureStreak := 0, ln_AutoDisabledAt := None,
                     ln_LastError := '''', ln_UpdatedAt := at\<rparr>))"

definition link_Disable :: "instant \<Rightarrow> Link \<Rightarrow> Link" where
  "link_Disable at l = l\<lparr>ln_Enabled := False, ln_UpdatedAt := at\<rparr>"

definition AutoDisabled :: "Link \<Rightarrow> bool" where
  "AutoDisabled l \<longleftrightarrow> ln_AutoDisabledAt l \<noteq> None"

definition AwaitingFirstSync :: "Link \<Rightarrow> bool" where
  "AwaitingFirstSync l = (case ln_VerifiedAt l of None \<Rightarrow> False | Some v \<Rightarrow>
     (case ln_LastSyncedAt l of None \<Rightarrow> True | Some s \<Rightarrow> s < v))"

section \<open>Sync jobs (job.go)\<close>

definition maxRefsPerJob :: nat where "maxRefsPerJob = 50"

record syncV1 =
  sj_ProjectID :: uuid
  sj_Refs :: "(string \<times> uuid) list"

definition payloadOf :: "uuid \<Rightarrow> MirrorRef list \<Rightarrow> syncV1" where
  "payloadOf projectID refs = \<lparr>sj_ProjectID = projectID, sj_Refs = map (\<lambda>r. (entity_str (mr_Entity r), mr_ID r)) refs\<rparr>"

fun payload_refs :: "(string \<times> uuid) list \<Rightarrow> MirrorRef list option" where
  "payload_refs [] = Some []"
| "payload_refs ((e, i) # rs) = (case ParseEntity e of None \<Rightarrow> None | Some en \<Rightarrow>
     (case payload_refs rs of None \<Rightarrow> None | Some out \<Rightarrow>
       Some (\<lparr>mr_Entity = en, mr_ID = i, mr_Deleted = False, mr_Cascade = False\<rparr> # out)))"

section \<open>Properties of the references\<close>

lemma ParseEntity_str [simp]: "ParseEntity (entity_str e) = Some e"
  by (cases e) (simp_all add: ParseEntity_def)

lemma payload_roundtrip:
  "payload_refs (sj_Refs (payloadOf p refs)) =
     Some (map (\<lambda>r. r\<lparr>mr_Deleted := False, mr_Cascade := False\<rparr>) refs)"
  by (induction refs) (auto simp: payloadOf_def)

lemma keys_merge_ref: "ref_key ` set (merge_ref r out) = insert (ref_key r) (ref_key ` set out)"
  by (induction out) (auto simp: ref_key_def)

lemma keyed_merge_ref: "keyed ref_key out \<Longrightarrow> keyed ref_key (merge_ref r out)"
proof (induction out)
  case (Cons x out)
  then show ?case
    using keys_merge_ref [of r out] by (auto simp: ref_key_def image_iff set_eq_iff)
qed simp

lemma Dedupe_fold:
  "keyed ref_key out \<Longrightarrow> keyed ref_key (foldl (\<lambda>o' r. merge_ref r o') out refs) \<and>
     ref_key ` set (foldl (\<lambda>o' r. merge_ref r o') out refs) = ref_key ` set out \<union> ref_key ` set refs"
proof (induction refs arbitrary: out)
  case (Cons r refs)
  have "keyed ref_key (merge_ref r out)" using Cons.prems by (rule keyed_merge_ref)
  from Cons.IH [OF this] keys_merge_ref [of r out] show ?case by simp
qed simp

lemma Dedupe_keyed: "keyed ref_key (Dedupe refs)"
  and Dedupe_keys: "ref_key ` set (Dedupe refs) = ref_key ` set refs"
  using Dedupe_fold [of "[]" refs] by (simp_all add: Dedupe_def)

lemma set_LockOrder [simp]: "set (LockOrder refs) = set (Dedupe refs)"
  by (simp add: LockOrder_def)

lemma LockOrder_keys: "ref_key ` set (LockOrder refs) = ref_key ` set refs"
  by (simp add: Dedupe_keys)

lemma LockOrder_keyed: "keyed ref_key (LockOrder refs)"
  using Dedupe_keyed [of refs]
  by (simp add: LockOrder_def distinct_map)

lemma LockOrder_sorted: "sorted (map lock_key (LockOrder refs))"
  by (simp add: LockOrder_def)

lemma lock_key_iff: "lock_key a = lock_key b \<longleftrightarrow> ref_key a = ref_key b"
  by (cases "mr_Entity a"; cases "mr_Entity b") (auto simp: lock_key_def ref_key_def)

end
