(* ===== verification/Database.thy ===== *)
theory Database
  imports Ledger Wallet Category Period Transaction SheetLink "HOL-Library.Product_Lexorder"
begin

text \<open>
  The tables the modelled packages share (\<open>schema/migrations/sqlite\<close>), each the
  list of its rows in insertion order, and the CHECK, UNIQUE and FOREIGN KEY
  constraints of the schema as predicates the stores test.  \<open>db_jobs\<close> is not a
  table but the sync jobs handed to the queue, in the order they were.  Rows of \<open>orgs\<close>,
  \<open>projects\<close> and \<open>api_keys\<close> are not modelled: the references to them are taken
  to hold.
\<close>

record db =
  db_settings :: "Settings list"
  db_wallets :: "Wallet list"
  db_categories :: "Category list"
  db_periods :: "Period list"
  db_closings :: "Closing list"
  db_transactions :: "Transaction list"
  db_links :: "Link list"
  db_sync :: "SyncState list"
  db_jobs :: "syncV1 list"

definition empty_db :: db where
  "empty_db = \<lparr>db_settings = [], db_wallets = [], db_categories = [], db_periods = [],
     db_closings = [], db_transactions = [], db_links = [], db_sync = [], db_jobs = []\<rparr>"

section \<open>Constraints\<close>

definition wallet_checks :: "Wallet \<Rightarrow> bool" where
  "wallet_checks w \<longleftrightarrow> wallet_kind_Valid (w_Kind w) \<and> length (w_Currency w) = 3"

definition category_checks :: "Category \<Rightarrow> bool" where
  "category_checks c \<longleftrightarrow> category_kind_known (c_Kind c)"

definition period_checks :: "Period \<Rightarrow> bool" where
  "period_checks p \<longleftrightarrow> (case p_EndDate p of None \<Rightarrow> True | Some e \<Rightarrow> p_StartDate p \<le> e) \<and>
     (p_Status p = StatusOpen \<or> p_EndDate p \<noteq> None)"

definition tx_checks :: "Transaction \<Rightarrow> bool" where
  "tx_checks t \<longleftrightarrow> tx_kind_valid (t_Kind t) \<and> 0 < Minor (t_Amount t) \<and> length (Currency (t_Amount t)) = 3 \<and>
     (t_Kind t \<noteq> KindTransfer \<or> t_ToWalletID t \<noteq> None \<and> t_ToWalletID t \<noteq> Some (t_WalletID t) \<and> t_CategoryID t = None) \<and>
     (t_Kind t = KindTransfer \<or> t_ToWalletID t = None) \<and>
     (t_Kind t \<in> {KindIncome, KindExpense} \<or> t_CategoryID t = None)"

definition tx_fks :: "db \<Rightarrow> Transaction \<Rightarrow> bool" where
  "tx_fks d t \<longleftrightarrow>
     (\<exists>w \<in> set (db_wallets d). w_ID w = t_WalletID t \<and> w_OrgID w = t_OrgID t) \<and>
     (case t_ToWalletID t of None \<Rightarrow> True
      | Some i \<Rightarrow> \<exists>w \<in> set (db_wallets d). w_ID w = i \<and> w_OrgID w = t_OrgID t) \<and>
     (case t_CategoryID t of None \<Rightarrow> True
      | Some i \<Rightarrow> \<exists>c \<in> set (db_categories d). c_ID c = i \<and> c_OrgID c = t_OrgID t) \<and>
     (case t_PeriodID t of None \<Rightarrow> True
      | Some i \<Rightarrow> \<exists>p \<in> set (db_periods d). p_ID p = i \<and> p_OrgID p = t_OrgID t)"

text \<open>The partial unique index \<open>periods_project_current\<close>: would this row be a second current period of its project?\<close>

definition second_current :: "Period list \<Rightarrow> Period \<Rightarrow> bool" where
  "second_current rows p \<longleftrightarrow> p_EndDate p = None \<and>
     (\<exists>r \<in> set rows. p_ID r \<noteq> p_ID p \<and> p_ProjectID r = p_ProjectID p \<and> p_EndDate r = None)"

text \<open>SQLite's \<open>lower()\<close> folds ASCII letters only.\<close>

definition sql_lower :: "string \<Rightarrow> string" where
  "sql_lower s = map (\<lambda>c. char_of (lower_byte (byte c))) s"

definition wallet_name_taken :: "Wallet list \<Rightarrow> Wallet \<Rightarrow> bool" where
  "wallet_name_taken rows w \<longleftrightarrow> w_ArchivedAt w = None \<and>
     (\<exists>r \<in> set rows. w_ID r \<noteq> w_ID w \<and> w_ProjectID r = w_ProjectID w \<and> w_ArchivedAt r = None \<and>
        sql_lower (w_Name r) = sql_lower (w_Name w))"

definition category_name_taken :: "Category list \<Rightarrow> Category \<Rightarrow> bool" where
  "category_name_taken rows c \<longleftrightarrow> c_ArchivedAt c = None \<and>
     (\<exists>r \<in> set rows. c_ID r \<noteq> c_ID c \<and> c_ProjectID r = c_ProjectID c \<and> c_Kind r = c_Kind c \<and>
        c_ArchivedAt r = None \<and> sql_lower (c_Name r) = sql_lower (c_Name c))"

text \<open>A valid transaction satisfies every CHECK constraint of its table.\<close>

lemma tx_ok_checks: "tx_ok t \<Longrightarrow> tx_checks t"
  using length_valid_currency [of "Currency (t_Amount t)"]
  by (auto simp: tx_ok_def tx_checks_def AllowsCategory_def)

lemma wallet_ok_checks: "wallet_ok w \<Longrightarrow> wallet_checks w"
  using length_valid_currency by (simp add: wallet_ok_def wallet_checks_def)

lemma category_ok_checks: "category_ok c \<Longrightarrow> category_checks c"
  by (simp add: category_ok_def category_checks_def)

end
