(* ===== verification/PeriodStore.thy ===== *)
theory PeriodStore
  imports Database
begin

text \<open>
  The SQLite store of \<open>internal/period\<close> (\<open>sqlite.go\<close>).  A read without ORDER BY
  and with LIMIT 1 takes the first matching row of the table; the invariant of
  the period timeline shows that no such read has a choice.
\<close>

definition period_scope :: "uuid \<Rightarrow> uuid \<Rightarrow> uuid \<Rightarrow> Period \<Rightarrow> bool" where
  "period_scope orgID projectID ctxOrgID p \<longleftrightarrow>
     p_OrgID p = orgID \<and> p_OrgID p = ctxOrgID \<and> p_ProjectID p = projectID"

definition period_queryOne :: "(Period \<Rightarrow> bool) \<Rightarrow> ref \<Rightarrow> Period list \<Rightarrow> (err, Period) res" where
  "period_queryOne cond notFoundID rows = (case find cond rows of
     None \<Rightarrow> Inl (EPeriod (PeriodNotFoundError notFoundID)) | Some p \<Rightarrow> Inr p)"

definition by_start :: "Period \<Rightarrow> Date \<times> uuid" where
  "by_start p = (p_StartDate p, p_ID p)"

definition period_newest_first :: "Period list \<Rightarrow> Period list" where
  "period_newest_first rows = rev (sort_key by_start rows)"

definition period_oldest_first :: "Period list \<Rightarrow> Period list" where
  "period_oldest_first rows = sort_key by_start rows"

definition first_row :: "'a list \<Rightarrow> 'a option" where
  "first_row rows = (case rows of [] \<Rightarrow> None | r # _ \<Rightarrow> Some r)"

definition newOverlapError :: "Period \<Rightarrow> err" where
  "newOverlapError p = EPeriod (OverlapError (p_StartDate p) (p_EndDate p))"

definition period_Save :: "ctx \<Rightarrow> Period \<Rightarrow> (db, unit) prog" where
  "period_Save c p d =
     (case tenant_From c of Inl e \<Rightarrow> (Inl e, d) | Inr tc \<Rightarrow>
      (case find_row p_ID (p_ID p) (db_periods d) of
         Some old \<Rightarrow>
           if p_OrgID old \<noteq> tc_OrgID tc \<or> p_ProjectID old \<noteq> tc_ProjectID tc
           then (Inl (EPeriod (PeriodNotFoundError (RefID (p_ID p)))), d)
           else let row = old\<lparr>p_Name := p_Name p, p_StartDate := p_StartDate p, p_EndDate := p_EndDate p,
                    p_Status := p_Status p, p_ClosedAt := p_ClosedAt p, p_Snapshot := p_Snapshot p,
                    p_UpdatedAt := p_UpdatedAt p\<rparr>
                in if \<not> period_checks row then (Inl (Sql ConstraintCheck), d)
                   else if second_current (db_periods d) row then (Inl (newOverlapError p), d)
                   else (Inr (), d\<lparr>db_periods := upsert_row p_ID row (db_periods d)\<rparr>)
       | None \<Rightarrow>
           if \<not> period_checks p then (Inl (Sql ConstraintCheck), d)
           else if second_current (db_periods d) p then (Inl (newOverlapError p), d)
           else (Inr (), d\<lparr>db_periods := db_periods d @ [p]\<rparr>)))"

definition period_CreateCurrent :: "ctx \<Rightarrow> Period \<Rightarrow> (db, bool) prog" where
  "period_CreateCurrent c p d =
     (case tenant_From c of Inl e \<Rightarrow> (Inl e, d) | Inr tc \<Rightarrow>
      if p_OrgID p \<noteq> tc_OrgID tc \<or> p_ProjectID p \<noteq> tc_ProjectID tc
      then (Inl (EPeriod (PeriodNotFoundError (RefID (p_ID p)))), d)
      else if \<not> period_checks p then (Inl (Sql ConstraintCheck), d)
      else if second_current (db_periods d) p then (Inr False, d)
      else if find_row p_ID (p_ID p) (db_periods d) \<noteq> None then (Inl (Sql ConstraintUnique), d)
      else (Inr True, d\<lparr>db_periods := db_periods d @ [p]\<rparr>))"

definition period_SaveClosing :: "ctx \<Rightarrow> Closing \<Rightarrow> (db, unit) prog" where
  "period_SaveClosing c cl d =
     (case tenant_From c of Inl e \<Rightarrow> (Inl e, d) | Inr tc \<Rightarrow>
      if cl_OrgID cl \<noteq> tc_OrgID tc \<or> cl_ProjectID cl \<noteq> tc_ProjectID tc
      then (Inl (EPeriod (PeriodNotFoundError (RefID (cl_PeriodID cl)))), d)
      else if find_row cl_ID (cl_ID cl) (db_closings d) \<noteq> None then (Inl (Sql ConstraintUnique), d)
      else if \<not> (\<exists>p \<in> set (db_periods d). p_ID p = cl_PeriodID cl \<and> p_OrgID p = cl_OrgID cl)
      then (Inl (Sql ConstraintForeignKey), d)
      else (Inr (), d\<lparr>db_closings := db_closings d @ [cl]\<rparr>))"

definition period_ByID :: "ctx \<Rightarrow> uuid \<Rightarrow> db \<Rightarrow> (err, Period) res" where
  "period_ByID c pid d = (case tenant_From c of Inl e \<Rightarrow> Inl e | Inr tc \<Rightarrow>
     period_queryOne (\<lambda>p. p_ID p = pid \<and> p_OrgID p = tc_OrgID tc) (RefID pid) (db_periods d))"

definition period_ByIDLocked :: "ctx \<Rightarrow> uuid \<Rightarrow> db \<Rightarrow> (err, Period) res" where
  "period_ByIDLocked c pid d = period_ByID c pid d"

definition period_Current :: "ctx \<Rightarrow> uuid \<Rightarrow> uuid \<Rightarrow> db \<Rightarrow> (err, Period) res" where
  "period_Current c orgID projectID d = (case tenant_From c of Inl e \<Rightarrow> Inl e | Inr tc \<Rightarrow>
     period_queryOne (\<lambda>p. period_scope orgID projectID (tc_OrgID tc) p \<and> p_EndDate p = None)
       (RefID projectID) (db_periods d))"

definition period_Containing :: "ctx \<Rightarrow> uuid \<Rightarrow> uuid \<Rightarrow> Date \<Rightarrow> db \<Rightarrow> (err, Period) res" where
  "period_Containing c orgID projectID iso_d d = (case tenant_From c of Inl e \<Rightarrow> Inl e | Inr tc \<Rightarrow>
     period_queryOne (\<lambda>p. period_scope orgID projectID (tc_OrgID tc) p \<and> p_StartDate p \<le> iso_d \<and>
         (case p_EndDate p of None \<Rightarrow> True | Some e \<Rightarrow> iso_d \<le> e))
       (RefText (date_String iso_d)) (db_periods d))"

definition period_List :: "ctx \<Rightarrow> uuid \<Rightarrow> uuid \<Rightarrow> PeriodListOpts \<Rightarrow> db \<Rightarrow> (err, Period list) res" where
  "period_List c orgID projectID opts d = (case tenant_From c of Inl e \<Rightarrow> Inl e | Inr tc \<Rightarrow>
     (let rows = filter (\<lambda>p. period_scope orgID projectID (tc_OrgID tc) p \<and>
            (case pl_Before opts of None \<Rightarrow> True | Some b \<Rightarrow> p_StartDate p < b)) (db_periods d);
          sorted = period_newest_first rows
      in Inr (if pl_Limit opts > 0 then take (nat (pl_Limit opts)) sorted else sorted)))"

definition period_Neighbors ::
    "ctx \<Rightarrow> uuid \<Rightarrow> uuid \<Rightarrow> uuid \<Rightarrow> db \<Rightarrow> (err, Period option \<times> Period option) res" where
  "period_Neighbors c orgID projectID pid d = (case tenant_From c of Inl e \<Rightarrow> Inl e | Inr tc \<Rightarrow>
     (let scope = period_scope orgID projectID (tc_OrgID tc) in
      case period_queryOne (\<lambda>p. scope p \<and> p_ID p = pid) (RefID pid) (db_periods d) of
        Inl e \<Rightarrow> Inl e
      | Inr self \<Rightarrow> Inr
          (first_row (period_newest_first (filter (\<lambda>p. scope p \<and> p_StartDate p < p_StartDate self) (db_periods d))),
           first_row (period_oldest_first (filter (\<lambda>p. scope p \<and> p_StartDate p > p_StartDate self) (db_periods d))))))"

definition period_ListClosings :: "ctx \<Rightarrow> uuid \<Rightarrow> uuid \<Rightarrow> uuid \<Rightarrow> db \<Rightarrow> (err, Closing list) res" where
  "period_ListClosings c orgID projectID periodID d = (case tenant_From c of Inl e \<Rightarrow> Inl e | Inr tc \<Rightarrow>
     Inr (rev (sort_key (\<lambda>cl. (cl_ClosedAt cl, cl_ID cl))
       (filter (\<lambda>cl. cl_OrgID cl = orgID \<and> cl_OrgID cl = tc_OrgID tc \<and> cl_ProjectID cl = projectID \<and>
          cl_PeriodID cl = periodID) (db_closings d)))))"

section \<open>Reads\<close>

lemma period_queryOne_Inr: "period_queryOne cond r rows = Inr p \<Longrightarrow> p \<in> set rows \<and> cond p"
  by (auto simp: period_queryOne_def find_Some_iff split: option.splits)

lemma period_queryOne_Inl:
  "period_queryOne cond r rows = Inl e \<longleftrightarrow> e = EPeriod (PeriodNotFoundError r) \<and> (\<forall>p \<in> set rows. \<not> cond p)"
  by (auto simp: period_queryOne_def find_Some_iff find_None_iff split: option.splits)

lemma period_queryOne_unique:
  assumes "p \<in> set rows" "cond p" "\<And>q. q \<in> set rows \<Longrightarrow> cond q \<Longrightarrow> q = p"
  shows "period_queryOne cond r rows = Inr p"
proof (cases "period_queryOne cond r rows")
  case (Inl e)
  then show ?thesis using assms(1,2) by (auto simp: period_queryOne_Inl)
next
  case (Inr q)
  then show ?thesis using assms(3) period_queryOne_Inr by fastforce
qed

lemma set_newest_first [simp]: "set (period_newest_first rows) = set rows"
  by (simp add: period_newest_first_def)

lemma set_oldest_first [simp]: "set (period_oldest_first rows) = set rows"
  by (simp add: period_oldest_first_def)

lemma keyed_newest_first: "keyed p_ID rows \<Longrightarrow> keyed p_ID (period_newest_first rows)"
  by (simp add: period_newest_first_def distinct_map flip: rev_map)

lemma first_row_Some: "first_row rows = Some r \<longleftrightarrow> rows \<noteq> [] \<and> r = hd rows"
  by (auto simp: first_row_def split: list.splits)

lemma first_row_None: "first_row rows = None \<longleftrightarrow> rows = []"
  by (auto simp: first_row_def split: list.splits)

section \<open>Writes\<close>

text \<open>What an accepted \<open>Save\<close> stores: the row in the caller's scope, with owner and creation time kept.\<close>

definition period_stored :: "Period \<Rightarrow> Period option \<Rightarrow> Period" where
  "period_stored p old = (case old of None \<Rightarrow> p | Some o' \<Rightarrow>
     o'\<lparr>p_Name := p_Name p, p_StartDate := p_StartDate p, p_EndDate := p_EndDate p, p_Status := p_Status p,
        p_ClosedAt := p_ClosedAt p, p_Snapshot := p_Snapshot p, p_UpdatedAt := p_UpdatedAt p\<rparr>)"

lemma period_Save_error: "period_Save c p d = (Inl e, d') \<Longrightarrow> d' = d"
  by (auto simp: period_Save_def Let_def split: sum.splits option.splits if_splits)

lemma p_ID_stored [simp]: "old = find_row p_ID (p_ID p) rows \<Longrightarrow> p_ID (period_stored p old) = p_ID p"
  by (auto simp: period_stored_def split: option.splits dest: find_row_SomeD)

lemma period_Save_Inr:
  assumes "period_Save c p d = (Inr (), d')"
  shows "\<exists>tc. tenant_From c = Inr tc \<and>
    (let old = find_row p_ID (p_ID p) (db_periods d); row = period_stored p old in
      d' = d\<lparr>db_periods := upsert_row p_ID row (db_periods d)\<rparr> \<and> period_checks row \<and>
      \<not> second_current (db_periods d) row \<and>
      (\<forall>o'. old = Some o' \<longrightarrow> p_OrgID o' = tc_OrgID tc \<and> p_ProjectID o' = tc_ProjectID tc))"
  using assms
  by (auto simp: period_Save_def period_stored_def upsert_row_new Let_def
      split: sum.splits option.splits if_splits)

lemma period_Save_ok:
  assumes "tenant_From c = Inr tc" "old = find_row p_ID (p_ID p) (db_periods d)"
    "period_checks (period_stored p old)" "\<not> second_current (db_periods d) (period_stored p old)"
    "\<And>o'. old = Some o' \<Longrightarrow> p_OrgID o' = tc_OrgID tc \<and> p_ProjectID o' = tc_ProjectID tc"
  shows "period_Save c p d = (Inr (), d\<lparr>db_periods := upsert_row p_ID (period_stored p old) (db_periods d)\<rparr>)"
  using assms
  by (auto simp: period_Save_def period_stored_def upsert_row_new tenant_From_def Let_def
      split: option.splits if_splits)

lemma period_CreateCurrent_cases:
  assumes "period_CreateCurrent c p d = (r, d')"
  obtains (refused) e where "r = Inl e" "d' = d"
    | (lost) "r = Inr False" "d' = d" "second_current (db_periods d) p"
    | (created) tc where "r = Inr True" "tenant_From c = Inr tc" "d' = d\<lparr>db_periods := db_periods d @ [p]\<rparr>"
        "p_OrgID p = tc_OrgID tc" "p_ProjectID p = tc_ProjectID tc" "period_checks p"
        "\<not> second_current (db_periods d) p" "find_row p_ID (p_ID p) (db_periods d) = None"
  using assms by (auto simp: period_CreateCurrent_def split: sum.splits if_splits)

lemma period_SaveClosing_cases:
  assumes "period_SaveClosing c cl d = (r, d')"
  obtains (refused) e where "r = Inl e" "d' = d"
    | (saved) "r = Inr ()" "d' = d\<lparr>db_closings := db_closings d @ [cl]\<rparr>"
        "find_row cl_ID (cl_ID cl) (db_closings d) = None"
  using assms by (auto simp: period_SaveClosing_def split: sum.splits if_splits)

end
