(* ===== verification/PeriodService.thy ===== *)
theory PeriodService
  imports PeriodStore
begin

text \<open>
  The service of \<open>internal/period\<close> (\<open>service.go\<close>): creating the first period,
  closing, reopening, renaming, and the reads other modules use.  The settings
  reader is the ledger service, as boot wires it.  The snapshotter is a
  parameter here; the adapters theory instantiates it with the report module.
  Fresh identifiers and the clock reading are arguments.
\<close>

type_synonym snapshotter = "ctx \<Rightarrow> uuid \<Rightarrow> uuid \<Rightarrow> uuid \<Rightarrow> Date \<Rightarrow> instant \<Rightarrow> db \<Rightarrow> (err, Snapshot) res"

section \<open>Scope and settings\<close>

definition period_scopedRow :: "Tenant \<Rightarrow> uuid \<Rightarrow> (err, Period) res \<Rightarrow> (err, Period) res" where
  "period_scopedRow tc pid read = (case read of
     Inl e \<Rightarrow> Inl (if period_IsNotFoundError e then e else Unexpected ''period.scoped: byID'' e)
   | Inr p \<Rightarrow> if p_OrgID p \<noteq> tc_OrgID tc \<or> p_ProjectID p \<noteq> tc_ProjectID tc
             then Inl (EPeriod (PeriodNotFoundError (RefID pid))) else Inr p)"

definition period_scoped :: "ctx \<Rightarrow> Tenant \<Rightarrow> uuid \<Rightarrow> db \<Rightarrow> (err, Period) res" where
  "period_scoped c tc pid d = period_scopedRow tc pid (period_ByID c pid d)"

definition period_scopedLocked :: "ctx \<Rightarrow> Tenant \<Rightarrow> uuid \<Rightarrow> db \<Rightarrow> (err, Period) res" where
  "period_scopedLocked c tc pid d = period_scopedRow tc pid (period_ByIDLocked c pid d)"

definition period_location :: "tzdb \<Rightarrow> ctx \<Rightarrow> Tenant \<Rightarrow> db \<Rightarrow> (err, Location) res" where
  "period_location load c tc d =
     (case ledger_Location load c (tc_OrgID tc) (tc_ProjectID tc) (db_settings d) of
        Inl e \<Rightarrow> Inl (Unexpected ''period.location: location'' e) | Inr loc \<Rightarrow> Inr loc)"

definition period_cycle :: "tzdb \<Rightarrow> ctx \<Rightarrow> Tenant \<Rightarrow> db \<Rightarrow> (err, Location \<times> int) res" where
  "period_cycle load c tc d =
     (case period_location load c tc d of Inl e \<Rightarrow> Inl e | Inr loc \<Rightarrow>
     (case ledger_StartDay c (tc_OrgID tc) (tc_ProjectID tc) (db_settings d) of
        Inl e \<Rightarrow> Inl (Unexpected ''period.cycle: start day'' e) | Inr day \<Rightarrow> Inr (loc, day)))"

definition period_author :: "ctx \<Rightarrow> uuid \<Rightarrow> (err, uuid \<times> uuid) res" where
  "period_author c by' =
     (if by' \<noteq> uuid_Nil then Inr (by', uuid_Nil)
      else let p = PrincipalFrom c in
        if pr_UserID p = uuid_Nil \<and> pr_KeyID p \<noteq> uuid_Nil then Inr (uuid_Nil, pr_KeyID p)
        else Inl (EPeriod PeriodAuthorMissingError))"

section \<open>The current period\<close>

definition currentAfterRace :: "ctx \<Rightarrow> Tenant \<Rightarrow> db \<Rightarrow> (err, Period) res" where
  "currentAfterRace c tc d = (case period_Current c (tc_OrgID tc) (tc_ProjectID tc) d of
     Inl e \<Rightarrow> Inl (if period_IsNotFoundError e then e
       else Unexpected ''period.EnsureCurrent: reread after race'' e)
   | Inr cur \<Rightarrow> Inr cur)"

definition EnsureCurrent :: "tzdb \<Rightarrow> instant \<Rightarrow> uuid \<Rightarrow> ctx \<Rightarrow> (db, Period) prog" where
  "EnsureCurrent load now pid c d =
     (case tenant_From c of Inl e \<Rightarrow> (Inl e, d) | Inr tc \<Rightarrow>
     (case period_Current c (tc_OrgID tc) (tc_ProjectID tc) d of
        Inr cur \<Rightarrow> (Inr cur, d)
      | Inl e \<Rightarrow>
        if \<not> period_IsNotFoundError e then (Inl (Unexpected ''period.EnsureCurrent: current'' e), d)
        else case period_cycle load c tc d of Inl e \<Rightarrow> (Inl e, d) | Inr (loc, startDay) \<Rightarrow>
        (case period_New pid now (tc_OrgID tc) (tc_ProjectID tc) (FirstStart (DateOf now loc) startDay) '''' of
           Inl e \<Rightarrow> (Inl e, d)
         | Inr first \<Rightarrow>
           (case period_CreateCurrent c first d of
              (Inl e, d') \<Rightarrow> (Inl (Unexpected ''period.EnsureCurrent: create'' e), d')
            | (Inr created, d') \<Rightarrow>
                if \<not> created then (currentAfterRace c tc d', d') else (Inr first, d')))))"

definition svc_Current :: "ctx \<Rightarrow> db \<Rightarrow> (err, Period) res" where
  "svc_Current c d = (case tenant_From c of Inl e \<Rightarrow> Inl e | Inr tc \<Rightarrow>
     (case period_Current c (tc_OrgID tc) (tc_ProjectID tc) d of
        Inl e \<Rightarrow> Inl (if period_IsNotFoundError e then e else Unexpected ''period.Current: current'' e)
      | Inr cur \<Rightarrow> Inr cur))"

definition no_list_opts :: PeriodListOpts where
  "no_list_opts = \<lparr>pl_Limit = 0, pl_Before = None\<rparr>"

definition svc_List :: "ctx \<Rightarrow> PeriodListOpts \<Rightarrow> db \<Rightarrow> (err, Period list) res" where
  "svc_List c opts d = (case tenant_From c of Inl e \<Rightarrow> Inl e | Inr tc \<Rightarrow>
     (case period_List c (tc_OrgID tc) (tc_ProjectID tc) opts d of
        Inl e \<Rightarrow> Inl (Unexpected ''period.List: list'' e) | Inr out \<Rightarrow> Inr out))"

definition svc_ByID :: "ctx \<Rightarrow> uuid \<Rightarrow> db \<Rightarrow> (err, Period) res" where
  "svc_ByID c pid d = (case tenant_From c of Inl e \<Rightarrow> Inl e | Inr tc \<Rightarrow> period_scoped c tc pid d)"

definition svc_SuggestedEnd :: "tzdb \<Rightarrow> instant \<Rightarrow> ctx \<Rightarrow> uuid \<Rightarrow> db \<Rightarrow> (err, Date) res" where
  "svc_SuggestedEnd load now c pid d = (case tenant_From c of Inl e \<Rightarrow> Inl e | Inr tc \<Rightarrow>
     (case period_scoped c tc pid d of Inl e \<Rightarrow> Inl e | Inr p \<Rightarrow>
     (case p_EndDate p of Some e \<Rightarrow> Inr e | None \<Rightarrow>
     (case period_cycle load c tc d of Inl e \<Rightarrow> Inl e | Inr (loc, startDay) \<Rightarrow>
        Inr (SuggestedEnd (p_StartDate p) (DateOf now loc) startDay)))))"

definition Reopenable :: "ctx \<Rightarrow> db \<Rightarrow> (err, Period option) res" where
  "Reopenable c d = (case tenant_From c of Inl e \<Rightarrow> Inl e | Inr tc \<Rightarrow>
     (case period_List c (tc_OrgID tc) (tc_ProjectID tc) no_list_opts d of
        Inl e \<Rightarrow> Inl (Unexpected ''period.Reopenable: list'' e) | Inr items \<Rightarrow> Inr (LatestClosed items)))"

definition svc_Rename :: "instant \<Rightarrow> ctx \<Rightarrow> uuid \<Rightarrow> string \<Rightarrow> (db, Period) prog" where
  "svc_Rename now c pid name d =
     (case tenant_From c of Inl e \<Rightarrow> (Inl e, d) | Inr tc \<Rightarrow>
     (case period_scoped c tc pid d of Inl e \<Rightarrow> (Inl e, d) | Inr p \<Rightarrow>
     (case period_Rename now name p of
        (Inl e, _) \<Rightarrow> (Inl e, d)
      | (Inr _, p') \<Rightarrow>
        (case period_Save c p' d of
           (Inl e, d') \<Rightarrow> (Inl (if period_isDomainError e then e else Unexpected ''period.Rename: save'' e), d')
         | (Inr _, d') \<Rightarrow> (Inr p', d')))))"

section \<open>Closing\<close>

definition checkClosable :: "tzdb \<Rightarrow> instant \<Rightarrow> ctx \<Rightarrow> Tenant \<Rightarrow> Period \<Rightarrow> Date \<Rightarrow> db \<Rightarrow> (err, unit) res" where
  "checkClosable load now c tc p end' d =
     (if IsLocked p then Inl (EPeriod (AlreadyClosedError (p_ID p)))
      else case p_EndDate p of
        Some e \<Rightarrow> if date_Compare end' e \<noteq> 0
                  then Inl (EPeriod (InvalidRangeError ''end date is fixed after reopen'')) else Inr ()
      | None \<Rightarrow>
          if Before end' (p_StartDate p)
          then Inl (EPeriod (InvalidRangeError ''end date is before the start date''))
          else case period_location load c tc d of Inl e \<Rightarrow> Inl e | Inr loc \<Rightarrow>
            if Before (DateOf now loc) end'
            then Inl (EPeriod (InvalidRangeError ''end date is in the future'')) else Inr ())"

definition closable :: "tzdb \<Rightarrow> instant \<Rightarrow> ctx \<Rightarrow> Tenant \<Rightarrow> uuid \<Rightarrow> Date \<Rightarrow> db \<Rightarrow> (err, Period) res" where
  "closable load now c tc pid end' d =
     (case period_scoped c tc pid d of Inl e \<Rightarrow> Inl e | Inr p \<Rightarrow>
     (case checkClosable load now c tc p end' d of Inl e \<Rightarrow> Inl e | Inr _ \<Rightarrow> Inr p))"

definition closableLocked :: "tzdb \<Rightarrow> instant \<Rightarrow> ctx \<Rightarrow> Tenant \<Rightarrow> uuid \<Rightarrow> Date \<Rightarrow> db \<Rightarrow> (err, Period) res" where
  "closableLocked load now c tc pid end' d =
     (case period_scopedLocked c tc pid d of Inl e \<Rightarrow> Inl e | Inr p \<Rightarrow>
     (case checkClosable load now c tc p end' d of Inl e \<Rightarrow> Inl e | Inr _ \<Rightarrow> Inr p))"

definition PreviewClose ::
    "snapshotter \<Rightarrow> tzdb \<Rightarrow> instant \<Rightarrow> ctx \<Rightarrow> uuid \<Rightarrow> Date \<Rightarrow> db \<Rightarrow> (err, Snapshot) res" where
  "PreviewClose snapper load now c pid end' d = (case tenant_From c of Inl e \<Rightarrow> Inl e | Inr tc \<Rightarrow>
     (case closable load now c tc pid end' d of Inl e \<Rightarrow> Inl e | Inr p \<Rightarrow>
     (case snapper c (tc_OrgID tc) (tc_ProjectID tc) (p_ID p) end' now d of
        Inl e \<Rightarrow> Inl (Unexpected ''period.PreviewClose: snapshot'' e) | Inr snap \<Rightarrow> Inr snap)))"

definition truncate_us :: "instant \<Rightarrow> instant" where
  "truncate_us t = t - t mod 1000"

definition closed_period :: "Date \<Rightarrow> instant \<Rightarrow> Snapshot \<Rightarrow> Period \<Rightarrow> Period" where
  "closed_period end' closedAt snap p =
     p\<lparr>p_EndDate := (case p_EndDate p of None \<Rightarrow> Some end' | Some e \<Rightarrow> Some e),
       p_Status := StatusClosed, p_ClosedAt := Some closedAt, p_Snapshot := Some snap, p_UpdatedAt := closedAt\<rparr>"

text \<open>
  The body of the unit of work of \<open>Close\<close>.  The outer result is the flow of the
  code; a failed snapshot is kept apart, as the code keeps it in \<open>snapErr\<close>.
\<close>

datatype close_error = SnapErr err | TxErr err

definition close_body ::
    "snapshotter \<Rightarrow> tzdb \<Rightarrow> instant \<Rightarrow> uuid \<Rightarrow> uuid \<Rightarrow> Tenant \<Rightarrow> uuid \<Rightarrow> Date \<Rightarrow> uuid \<Rightarrow> ctx \<Rightarrow> db
      \<Rightarrow> (close_error, Period) res \<times> db" where
  "close_body snapper load now clid nextid tc pid end' by' c d =
     (case closableLocked load now c tc pid end' d of Inl e \<Rightarrow> (Inl (TxErr e), d) | Inr p \<Rightarrow>
      let firstClose = (p_EndDate p = None); closedAt = truncate_us now in
      case snapper c (tc_OrgID tc) (tc_ProjectID tc) (p_ID p) end' closedAt d of
        Inl e \<Rightarrow> (Inl (SnapErr e), d)
      | Inr snap \<Rightarrow>
        let p' = closed_period end' closedAt snap p in
        case period_Save c p' d of (Inl e, d1) \<Rightarrow> (Inl (TxErr e), d1) | (Inr _, d1) \<Rightarrow>
        (case period_author c by' of Inl e \<Rightarrow> (Inl (TxErr e), d1) | Inr (closedBy, closedByKey) \<Rightarrow>
         let closing = \<lparr>cl_ID = clid, cl_OrgID = p_OrgID p', cl_ProjectID = p_ProjectID p', cl_PeriodID = p_ID p',
               cl_ClosedAt = closedAt, cl_ClosedBy = closedBy, cl_ClosedByKeyID = closedByKey, cl_Snapshot = snap\<rparr>
         in case period_SaveClosing c closing d1 of (Inl e, d2) \<Rightarrow> (Inl (TxErr e), d2) | (Inr _, d2) \<Rightarrow>
            if \<not> firstClose then (Inr p', d2)
            else case period_New nextid now (p_OrgID p') (p_ProjectID p') (AddDays end' 1) '''' of
              Inl e \<Rightarrow> (Inl (TxErr e), d2)
            | Inr next \<Rightarrow>
              (case period_Save c next d2 of
                 (Inl e, d3) \<Rightarrow> (Inl (TxErr e), d3) | (Inr _, d3) \<Rightarrow> (Inr p', d3))))"

definition close_result :: "close_error \<Rightarrow> err" where
  "close_result ce = (case ce of
     SnapErr e \<Rightarrow> Unexpected ''period.Close: snapshot'' e
   | TxErr e \<Rightarrow> if period_isDomainError e then e else Unexpected ''period.Close: commit'' e)"

definition Close ::
    "snapshotter \<Rightarrow> tzdb \<Rightarrow> instant \<Rightarrow> uuid \<Rightarrow> uuid \<Rightarrow> ctx \<Rightarrow> uuid \<Rightarrow> Date \<Rightarrow> uuid \<Rightarrow> (db, Period) prog" where
  "Close snapper load now clid nextid c pid end' by' d =
     (case tenant_From c of Inl e \<Rightarrow> (Inl e, d) | Inr tc \<Rightarrow>
     (case closable load now c tc pid end' d of Inl e \<Rightarrow> (Inl e, d) | Inr _ \<Rightarrow>
       if ctx_uow c then (Inl (close_result (TxErr ErrNestedUnitOfWork)), d)
       else RunInTx c (\<lambda>c' d'. case close_body snapper load now clid nextid tc pid end' by' c' d' of
           (Inl ce, d'') \<Rightarrow> (Inl (close_result ce), d'')
         | (Inr p, d'') \<Rightarrow> (Inr p, d'')) d))"

section \<open>Reopening\<close>

definition Reopen :: "instant \<Rightarrow> ctx \<Rightarrow> uuid \<Rightarrow> (db, Period) prog" where
  "Reopen now c pid d =
     (case tenant_From c of Inl e \<Rightarrow> (Inl e, d) | Inr tc \<Rightarrow>
     (case period_scoped c tc pid d of Inl e \<Rightarrow> (Inl e, d) | Inr p \<Rightarrow>
      if \<not> IsLocked p then (Inl (EPeriod (NotClosedError pid)), d)
      else case period_List c (tc_OrgID tc) (tc_ProjectID tc) no_list_opts d of
        Inl e \<Rightarrow> (Inl (Unexpected ''period.Reopen: list'' e), d)
      | Inr siblings \<Rightarrow>
        if (case LatestClosed siblings of None \<Rightarrow> True | Some latest \<Rightarrow> p_ID latest \<noteq> p_ID p)
        then (Inl (EPeriod (NotLatestClosedError pid)), d)
        else let p' = p\<lparr>p_Status := StatusOpen, p_UpdatedAt := now\<rparr> in
          case period_Save c p' d of
            (Inl e, d') \<Rightarrow> (Inl (if period_isDomainError e then e else Unexpected ''period.Reopen: save'' e), d')
          | (Inr _, d') \<Rightarrow> (Inr p', d')))"

section \<open>Reads for other modules\<close>

definition svc_Containing :: "tzdb \<Rightarrow> instant \<Rightarrow> uuid \<Rightarrow> ctx \<Rightarrow> instant \<Rightarrow> (db, Period) prog" where
  "svc_Containing load now pid c at d =
     (case tenant_From c of Inl e \<Rightarrow> (Inl e, d) | Inr tc \<Rightarrow>
     (case EnsureCurrent load now pid c d of
        (Inl e, d') \<Rightarrow> (Inl e, d')
      | (Inr _, d') \<Rightarrow>
        (case period_location load c tc d' of Inl e \<Rightarrow> (Inl e, d') | Inr loc \<Rightarrow>
        (case period_Containing c (tc_OrgID tc) (tc_ProjectID tc) (DateOf at loc) d' of
           Inl e \<Rightarrow> (Inl (if period_IsNotFoundError e then e else Unexpected ''period.Containing: containing'' e), d')
         | Inr p \<Rightarrow> (Inr p, d')))))"

definition svc_OpeningDate :: "tzdb \<Rightarrow> ctx \<Rightarrow> instant \<Rightarrow> db \<Rightarrow> (err, OpeningDate) res" where
  "svc_OpeningDate load c at d =
     (case tenant_From c of Inl e \<Rightarrow> Inl e | Inr tc \<Rightarrow>
     (case period_location load c tc d of Inl e \<Rightarrow> Inl e | Inr loc \<Rightarrow>
      let today = DateOf at loc; kept = \<lparr>od_At = at, od_Date = today, od_Moved = False\<rparr> in
      case period_Containing c (tc_OrgID tc) (tc_ProjectID tc) today d of
        Inl e \<Rightarrow> if period_IsNotFoundError e then Inr kept
                 else Inl (Unexpected ''period.OpeningDate: containing'' e)
      | Inr p \<Rightarrow>
        if \<not> IsLocked p then Inr kept
        else case period_List c (tc_OrgID tc) (tc_ProjectID tc) no_list_opts d of
          Inl e \<Rightarrow> Inl (Unexpected ''period.OpeningDate: list'' e)
        | Inr items \<Rightarrow> (let start = NextOpenStart items p today
            in Inr \<lparr>od_At = date_In start loc, od_Date = start, od_Moved = True\<rparr>)))"

definition svc_Neighbors :: "ctx \<Rightarrow> uuid \<Rightarrow> db \<Rightarrow> (err, Period option \<times> Period option) res" where
  "svc_Neighbors c pid d = (case tenant_From c of Inl e \<Rightarrow> Inl e | Inr tc \<Rightarrow>
     (case period_scoped c tc pid d of Inl e \<Rightarrow> Inl e | Inr _ \<Rightarrow>
     (case period_Neighbors c (tc_OrgID tc) (tc_ProjectID tc) pid d of
        Inl e \<Rightarrow> Inl (if period_IsNotFoundError e then e else Unexpected ''period.Neighbors: neighbors'' e)
      | Inr pn \<Rightarrow> Inr pn)))"

definition svc_Closings :: "ctx \<Rightarrow> uuid \<Rightarrow> db \<Rightarrow> (err, Closing list) res" where
  "svc_Closings c pid d = (case tenant_From c of Inl e \<Rightarrow> Inl e | Inr tc \<Rightarrow>
     (case period_scoped c tc pid d of Inl e \<Rightarrow> Inl e | Inr _ \<Rightarrow>
     (case period_ListClosings c (tc_OrgID tc) (tc_ProjectID tc) pid d of
        Inl e \<Rightarrow> Inl (Unexpected ''period.Closings: list'' e) | Inr out \<Rightarrow> Inr out)))"

end
