(* ===== verification/PeriodTimeline.thy ===== *)
theory PeriodTimeline
  imports PeriodService
begin

text \<open>
  The timeline of a project's budget periods.  Sorted by start, the periods of
  a project form a chain: each ends the day before the next one starts, and only
  the last has no end.  Every operation of the service keeps the chain.
\<close>

section \<open>Chains\<close>

definition link :: "Period \<Rightarrow> Period \<Rightarrow> bool" where
  "link p q \<longleftrightarrow> (case p_EndDate p of None \<Rightarrow> False
     | Some e \<Rightarrow> valid_date e \<and> days (p_StartDate p) \<le> days e \<and> p_StartDate q = AddDays e 1)"

fun chained :: "Period list \<Rightarrow> bool" where
  "chained [] = True"
| "chained [p] = (valid_date (p_StartDate p) \<and> p_EndDate p = None)"
| "chained (p # q # ps) = (valid_date (p_StartDate p) \<and> link p q \<and> chained (q # ps))"

lemma chained_Cons: "chained (p # ps) \<Longrightarrow> chained ps"
  by (cases ps) auto

lemma chained_valid: "chained ps \<Longrightarrow> p \<in> set ps \<Longrightarrow> valid_date (p_StartDate p)"
  by (induction ps rule: chained.induct) auto

lemma link_days:
  "link p q \<Longrightarrow> \<exists>e. p_EndDate p = Some e \<and> days (p_StartDate p) \<le> days e \<and> days (p_StartDate q) = days e + 1"
  by (auto simp: link_def split: option.splits)

lemma chained_starts_above:
  "chained (p # ps) \<Longrightarrow> q \<in> set ps \<Longrightarrow>
    \<exists>e. p_EndDate p = Some e \<and> days (p_StartDate p) \<le> days e \<and> days e < days (p_StartDate q)"
proof (induction ps arbitrary: p)
  case (Cons r ps)
  from Cons.prems(1) obtain e where e: "p_EndDate p = Some e" "days (p_StartDate p) \<le> days e"
      "days (p_StartDate r) = days e + 1" "chained (r # ps)"
    using link_days by fastforce
  show ?case
  proof (cases "q = r")
    case False
    then obtain e' where "days (p_StartDate r) \<le> days e'" "days e' < days (p_StartDate q)"
      using Cons.IH [OF e(4)] Cons.prems(2) by auto
    with e show ?thesis by auto
  qed (use e in auto)
qed simp

lemma chained_sorted: "chained ps \<Longrightarrow> sorted_wrt (\<lambda>p q. p_StartDate p < p_StartDate q) ps"
proof (induction ps)
  case (Cons p ps)
  have "p_StartDate p < p_StartDate q" if "q \<in> set ps" for q
    using chained_starts_above [OF Cons.prems that] chained_valid [OF Cons.prems] that
    by (auto simp flip: days_less_iff)
  then show ?case using Cons chained_Cons by auto
qed simp

lemma chained_unique_container:
  assumes "chained ps" "p \<in> set ps" "q \<in> set ps" "period_Contains p d" "period_Contains q d"
  shows "p = q"
  using assms
proof (induction ps)
  case (Cons r ps)
  have far: "\<not> (period_Contains r d \<and> period_Contains x d)" if "x \<in> set ps" for x
    using chained_starts_above [OF Cons.prems(1) that] by (auto simp: period_Contains_days)
  from Cons show ?case using far chained_Cons by (auto)
qed simp

lemma chained_container_exists:
  assumes "chained ps" "ps \<noteq> []" "days (p_StartDate (hd ps)) \<le> days d"
  shows "\<exists>p \<in> set ps. period_Contains p d"
  using assms
proof (induction ps rule: chained.induct)
  case (3 p q ps)
  from 3(2) obtain e where e: "p_EndDate p = Some e" "days (p_StartDate q) = days e + 1"
    using link_days by fastforce
  show ?case
  proof (cases "days d \<le> days e")
    case True
    then show ?thesis using 3(4) e by (auto simp: period_Contains_days)
  next
    case False
    then have "\<exists>x \<in> set (q # ps). period_Contains x d" using 3 e by auto
    then show ?thesis by auto
  qed
qed (auto simp: period_Contains_days)

lemma chained_current: "chained ps \<Longrightarrow> ps \<noteq> [] \<Longrightarrow> p \<in> set ps \<Longrightarrow> p_EndDate p = None \<longleftrightarrow> p = last ps"
proof (induction ps rule: chained.induct)
  case (3 p q ps)
  have "p \<notin> set (q # ps)"
    using chained_starts_above [OF 3(2)] by force
  with 3 show ?case by (auto simp: link_def split: option.splits)
qed auto

lemma chained_ended_valid: "chained ps \<Longrightarrow> p \<in> set ps \<Longrightarrow> p_EndDate p = Some e \<Longrightarrow> valid_date e"
  by (induction ps rule: chained.induct) (auto simp: link_def)

lemma chained_close:
  assumes "chained (xs @ [p])" "p_StartDate p' = p_StartDate p" "p_EndDate p' = Some e" "valid_date e"
    "days (p_StartDate p) \<le> days e" "p_StartDate q = AddDays e 1" "p_EndDate q = None"
  shows "chained (xs @ [p', q])"
  using assms
proof (induction xs rule: chained.induct)
  case (2 x)
  then show ?case by (auto simp: link_def split: option.splits)
next
  case (3 x y xs)
  then show ?case by auto
qed (auto simp: link_def)

text \<open>Replacing a row by one with the same boundaries keeps the chain.\<close>

definition same_bounds :: "Period \<Rightarrow> Period \<Rightarrow> bool" where
  "same_bounds p q \<longleftrightarrow> p_StartDate q = p_StartDate p \<and> p_EndDate q = p_EndDate p"

lemma chained_bounds: "list_all2 same_bounds ps qs \<Longrightarrow> chained ps \<Longrightarrow> chained qs"
proof (induction ps arbitrary: qs rule: chained.induct)
  case (2 p)
  then show ?case by (auto simp: list_all2_Cons1 same_bounds_def)
next
  case (3 p q ps)
  then obtain p' q' ps' where qs: "qs = p' # q' # ps'" "same_bounds p p'" "same_bounds q q'"
      "list_all2 same_bounds (q # ps) (q' # ps')"
    by (auto simp: list_all2_Cons1)
  with 3 show ?case by (auto simp: same_bounds_def link_def split: option.splits)
qed simp

section \<open>The book of a project\<close>

definition book :: "uuid \<Rightarrow> uuid \<Rightarrow> Period list \<Rightarrow> Period list" where
  "book org prj rows = filter (\<lambda>p. p_OrgID p = org \<and> p_ProjectID p = prj) rows"

definition timeline :: "uuid \<Rightarrow> uuid \<Rightarrow> Period list \<Rightarrow> Period list" where
  "timeline org prj rows = period_oldest_first (book org prj rows)"

definition reopened :: "Period \<Rightarrow> bool" where
  "reopened p \<longleftrightarrow> \<not> IsCurrent p \<and> \<not> IsLocked p"

definition period_ok :: "Period \<Rightarrow> bool" where
  "period_ok p \<longleftrightarrow> (IsLocked p \<longrightarrow> \<not> IsCurrent p \<and> p_ClosedAt p \<noteq> None \<and> p_Snapshot p \<noteq> None) \<and>
     p_Name p \<noteq> [] \<and> RuneCountInString (p_Name p) \<le> 60"

text \<open>The invariant of the periods table.\<close>

definition book_inv :: "Period list \<Rightarrow> bool" where
  "book_inv ps \<longleftrightarrow> chained (period_oldest_first ps) \<and> length (filter reopened ps) \<le> 1"

definition periods_inv :: "Period list \<Rightarrow> bool" where
  "periods_inv rows \<longleftrightarrow> keyed p_ID rows \<and> (\<forall>p \<in> set rows. period_ok p) \<and>
     (\<forall>p \<in> set rows. book_inv (book (p_OrgID p) (p_ProjectID p) rows))"

lemma oldest_first_unique:
  assumes "chained ps" "mset ps = mset rows"
  shows "period_oldest_first rows = ps"
proof -
  have s: "sorted_wrt (<) (map by_start ps)"
    unfolding sorted_wrt_map
    by (rule sorted_wrt_mono_rel [OF _ chained_sorted [OF assms(1)]]) (simp add: by_start_def)
  then have "sorted (map by_start ps)" "distinct (map by_start ps)"
    by (simp_all add: strict_sorted_iff)
  moreover have "set rows = set ps" using assms(2) by (metis set_mset_mset)
  ultimately show ?thesis
    unfolding period_oldest_first_def using assms(2)
    by (intro sort_key_inj_key_eq) (simp_all add: distinct_map)
qed

lemma mset_oldest_first [simp]: "mset (period_oldest_first rows) = mset rows"
  by (simp add: period_oldest_first_def)

lemma book_inv_iff:
  "book_inv rows \<longleftrightarrow> (\<exists>ps. mset ps = mset rows \<and> chained ps \<and> length (filter reopened ps) \<le> 1)"
proof -
  have "length (filter reopened ps) = length (filter reopened rows)" if "mset ps = mset rows" for ps
    using that by (metis mset_filter size_mset)
  then show ?thesis
    using oldest_first_unique unfolding book_inv_def by (metis mset_oldest_first)
qed

section \<open>Writing one row of a book\<close>

lemma book_upsert_same:
  assumes k: "keyed p_ID rows" and old: "find_row p_ID (p_ID p) rows = Some o'"
    and scope: "p_OrgID p = p_OrgID o'" "p_ProjectID p = p_ProjectID o'"
  shows "mset (book org prj (upsert_row p_ID p rows)) =
    (if org = p_OrgID p \<and> prj = p_ProjectID p
     then mset (book org prj rows) - {#o'#} + {#p#} else mset (book org prj rows))"
proof -
  have "mset (upsert_row p_ID p rows) = mset rows - {#o'#} + {#p#}"
    using k old by (rule mset_upsert_old)
  moreover have "o' \<in># mset rows" using old by (auto dest: find_row_SomeD)
  ultimately show ?thesis
    using scope by (auto simp: book_def filter_mset_eq_conv)
qed

lemma book_append: "book org prj (rows @ [p]) =
    book org prj rows @ (if p_OrgID p = org \<and> p_ProjectID p = prj then [p] else [])"
  by (simp add: book_def)

lemma mset_replace_split:
  assumes "mset ps - {#a#} + {#b#} = mset rows" "a \<in> set ps"
  obtains xs ys where "ps = xs @ a # ys" "mset rows = mset (xs @ b # ys)"
proof -
  obtain xs ys where "ps = xs @ a # ys" using assms(2) by (meson split_list)
  then show thesis using that assms(1) by simp
qed

text \<open>Replacing a row by one with the same boundaries that is not newly reopened.\<close>

lemma book_inv_replace:
  assumes inv: "book_inv rows" and new: "mset rows' = mset rows - {#a#} + {#b#}" and a: "a \<in> set rows"
    and b: "same_bounds a b"
    and re: "reopened b \<longrightarrow> reopened a \<or> (\<forall>p \<in> set rows. \<not> reopened p)"
  shows "book_inv rows'"
proof -
  obtain ps where ps: "mset ps = mset rows" "chained ps" "length (filter reopened ps) \<le> 1"
    using inv by (auto simp: book_inv_iff)
  have set: "set ps = set rows" using ps(1) by (metis set_mset_mset)
  obtain xs ys where split: "ps = xs @ a # ys" "mset rows' = mset (xs @ b # ys)"
    using mset_replace_split [of ps a b rows'] new ps(1) a set by metis
  have "list_all2 same_bounds ps (xs @ b # ys)"
    using b by (auto simp: split(1) list_all2_append same_bounds_def intro: list_all2_refl)
  then have "chained (xs @ b # ys)" using chained_bounds ps(2) by blast
  moreover have "length (filter reopened (xs @ b # ys)) \<le> 1"
  proof (cases "reopened b \<and> \<not> reopened a")
    case True
    then have none: "\<forall>p \<in> set ps. \<not> reopened p" using re set by auto
    then have "filter reopened xs = []" "filter reopened ys = []"
      by (auto simp: split(1) filter_empty_conv)
    then show ?thesis by simp
  qed (use ps(3) in \<open>auto simp: split(1) split: if_splits\<close>)
  ultimately show ?thesis using split(2) by (metis book_inv_iff)
qed

text \<open>Closing the current period and opening the next one.\<close>

lemma book_inv_first_close:
  assumes inv: "book_inv rows" and new: "mset rows' = mset rows - {#a#} + {#b#} + {#q#}" and a: "a \<in> set rows"
    and cur: "p_EndDate a = None" and b: "p_StartDate b = p_StartDate a" "p_EndDate b = Some e" "IsLocked b"
    and e: "valid_date e" "days (p_StartDate a) \<le> days e"
    and q: "p_StartDate q = AddDays e 1" "p_EndDate q = None"
  shows "book_inv rows'"
proof -
  obtain ps where ps: "mset ps = mset rows" "chained ps" "length (filter reopened ps) \<le> 1"
    using inv by (auto simp: book_inv_iff)
  have "set ps = set rows" using ps(1) by (metis set_mset_mset)
  then have "ps \<noteq> []" "a \<in> set ps" using a by auto
  then have "ps \<noteq> []" "a = last ps" using cur chained_current [OF ps(2)] by auto
  then obtain xs where xs: "ps = xs @ [a]" by (metis append_butlast_last_id)
  have "mset rows = mset xs + {#a#}" using ps(1) xs by simp
  then have "mset rows' = mset (xs @ [b, q])" using new by simp
  moreover have "chained (xs @ [b, q])" using chained_close ps(2) xs b e q by metis
  moreover have "length (filter reopened (xs @ [b, q])) \<le> 1"
    using ps(3) b q by (simp add: xs reopened_def IsCurrent_def)
  ultimately show ?thesis by (metis book_inv_iff)
qed

lemma book_inv_single:
  "valid_date (p_StartDate p) \<Longrightarrow> p_EndDate p = None \<Longrightarrow> book_inv [p]"
  by (simp add: book_inv_def period_oldest_first_def)


lemma book_inv_mset: "mset rows = mset rows' \<Longrightarrow> book_inv rows \<Longrightarrow> book_inv rows'"
  by (simp add: book_inv_iff)

lemma book_inv_Nil [simp]: "book_inv []"
  by (simp add: book_inv_def period_oldest_first_def)

lemma periods_inv_all:
  "periods_inv rows \<longleftrightarrow> keyed p_ID rows \<and> (\<forall>p \<in> set rows. period_ok p) \<and> (\<forall>org prj. book_inv (book org prj rows))"
proof -
  have "book_inv (book org prj rows)"
    if "\<forall>p \<in> set rows. book_inv (book (p_OrgID p) (p_ProjectID p) rows)" for org prj
  proof (cases "book org prj rows")
    case (Cons p ps)
    then have "p \<in> set (book org prj rows)" by simp
    then have "p \<in> set rows" "p_OrgID p = org" "p_ProjectID p = prj" by (auto simp: book_def)
    then show ?thesis using that by auto
  qed simp
  then show ?thesis by (auto simp: periods_inv_def)
qed

lemma periods_invD:
  assumes "periods_inv rows"
  shows "keyed p_ID rows" "p \<in> set rows \<Longrightarrow> period_ok p" "book_inv (book org prj rows)"
    "chained (timeline org prj rows)"
  using assms by (auto simp: periods_inv_all timeline_def book_inv_def)

lemma set_timeline: "set (timeline org prj rows) = {p \<in> set rows. p_OrgID p = org \<and> p_ProjectID p = prj}"
  by (simp add: timeline_def book_def)

lemma periods_inv_replace:
  assumes inv: "periods_inv rows" and old: "find_row p_ID (p_ID row) rows = Some o'"
    and scope: "p_OrgID row = p_OrgID o'" "p_ProjectID row = p_ProjectID o'"
    and ok: "period_ok row" and same: "same_bounds o' row"
    and re: "reopened row \<longrightarrow> reopened o' \<or> (\<forall>p \<in> set (book (p_OrgID o') (p_ProjectID o') rows). \<not> reopened p)"
  shows "periods_inv (upsert_row p_ID row rows)"
proof -
  note k = periods_invD(1) [OF inv]
  have "book_inv (book org prj (upsert_row p_ID row rows))" for org prj
  proof (cases "org = p_OrgID row \<and> prj = p_ProjectID row")
    case True
    have "o' \<in> set (book org prj rows)"
      using old scope True by (auto simp: book_def dest: find_row_SomeD)
    moreover have "mset (book org prj (upsert_row p_ID row rows)) = mset (book org prj rows) - {#o'#} + {#row#}"
      using book_upsert_same [OF k old scope] True by simp
    moreover have "reopened row \<longrightarrow> reopened o' \<or> (\<forall>p \<in> set (book org prj rows). \<not> reopened p)"
      using re scope True by simp
    ultimately show ?thesis
      using book_inv_replace [OF periods_invD(3) [OF inv]] same by metis
  next
    case False
    then have "mset (book org prj rows) = mset (book org prj (upsert_row p_ID row rows))"
      using book_upsert_same [OF k old scope] by auto
    then show ?thesis using book_inv_mset periods_invD(3) [OF inv] by blast
  qed
  then show ?thesis
    using keyed_upsert_row [OF k] ok periods_invD(2) [OF inv]
    by (auto simp: periods_inv_all set_upsert_row [OF k])
qed

lemma periods_inv_first:
  assumes inv: "periods_inv rows" and new: "find_row p_ID (p_ID p) rows = None"
    and empty: "book (p_OrgID p) (p_ProjectID p) rows = []" and ok: "period_ok p"
    and p: "valid_date (p_StartDate p)" "p_EndDate p = None"
  shows "periods_inv (rows @ [p])"
proof -
  have "book_inv (book org prj (rows @ [p]))" for org prj
    using periods_invD(3) [OF inv] empty book_inv_single [OF p] by (auto simp: book_append)
  moreover have "keyed p_ID (rows @ [p])"
    using periods_invD(1) [OF inv] new by (auto simp: table_simps)
  ultimately show ?thesis using ok periods_invD(2) [OF inv] by (auto simp: periods_inv_all)
qed

lemma periods_inv_first_close:
  assumes inv: "periods_inv rows" and old: "find_row p_ID (p_ID b) rows = Some a"
    and scope: "p_OrgID b = p_OrgID a" "p_ProjectID b = p_ProjectID a"
    and cur: "p_EndDate a = None" and b: "p_StartDate b = p_StartDate a" "p_EndDate b = Some e" "IsLocked b"
    and e: "valid_date e" "days (p_StartDate a) \<le> days e"
    and q: "p_StartDate q = AddDays e 1" "p_EndDate q = None" "p_OrgID q = p_OrgID a" "p_ProjectID q = p_ProjectID a"
    and ok: "period_ok b" "period_ok q" and new: "find_row p_ID (p_ID q) rows = None"
  shows "periods_inv (upsert_row p_ID b rows @ [q])"
proof -
  note k = periods_invD(1) [OF inv]
  have a: "a \<in> set rows" "p_ID a = p_ID b" using old by (auto dest: find_row_SomeD)
  have "book_inv (book org prj (upsert_row p_ID b rows @ [q]))" for org prj
  proof (cases "org = p_OrgID b \<and> prj = p_ProjectID b")
    case True
    have "a \<in> set (book org prj rows)" using a scope True by (simp add: book_def)
    moreover have "mset (book org prj (upsert_row p_ID b rows @ [q])) = mset (book org prj rows) - {#a#} + {#b#} + {#q#}"
      using book_upsert_same [OF k old scope] True scope q by (simp add: book_append)
    ultimately show ?thesis
      using book_inv_first_close [OF periods_invD(3) [OF inv] _ _ cur b e q(1,2)] by metis
  next
    case False
    then have "book org prj (upsert_row p_ID b rows @ [q]) = book org prj (upsert_row p_ID b rows)"
      using scope q by (auto simp: book_append)
    moreover have "mset (book org prj rows) = mset (book org prj (upsert_row p_ID b rows))"
      using book_upsert_same [OF k old scope] False by auto
    ultimately show ?thesis using book_inv_mset periods_invD(3) [OF inv] by metis
  qed
  moreover have "keyed p_ID (upsert_row p_ID b rows @ [q])"
    using keyed_upsert_row [OF k] new a by (auto simp: set_upsert_row [OF k] table_simps)
  ultimately show ?thesis
    using ok periods_invD(2) [OF inv] by (auto simp: periods_inv_all set_upsert_row [OF k])
qed

end
