(* ===== verification/PeriodInvariants.thy ===== *)
theory PeriodInvariants
  imports PeriodTimeline
begin

text \<open>
  The operations of the period service over the timeline: what each does to the
  table, that each keeps the invariant, and the state machine of reachable
  books.
\<close>

section \<open>Scoped reads\<close>

lemma period_ByID_Inr:
  "period_ByID c pid d = Inr p \<Longrightarrow> p \<in> set (db_periods d) \<and> p_ID p = pid \<and>
     (\<exists>tc. tenant_From c = Inr tc \<and> p_OrgID p = tc_OrgID tc)"
  by (auto simp: period_ByID_def split: sum.splits dest: period_queryOne_Inr)

lemma period_scoped_Inr:
  assumes "period_scoped c tc pid d = Inr p"
  shows "p \<in> set (db_periods d)" "p_ID p = pid" "p_OrgID p = tc_OrgID tc" "p_ProjectID p = tc_ProjectID tc"
  using assms period_ByID_Inr
  by (auto simp: period_scoped_def period_scopedRow_def split: sum.splits if_splits)

lemma period_scopedLocked_eq: "period_scopedLocked = period_scoped"
  by (intro ext) (simp add: period_scopedLocked_def period_scoped_def period_ByIDLocked_def)

lemma closableLocked_eq: "closableLocked = closable"
  by (intro ext) (simp add: closableLocked_def closable_def period_scopedLocked_eq)

lemma period_scoped_uow [simp]: "period_scoped (c\<lparr>ctx_uow := b\<rparr>) = period_scoped c"
  by (intro ext) (simp add: period_scoped_def period_ByID_def)

lemma ledger_Location_uow [simp]: "ledger_Location load (c\<lparr>ctx_uow := b\<rparr>) = ledger_Location load c"
  by (intro ext) (simp add: ledger_Location_def ledger_effective_def ledger_ByProject_def)

lemma checkClosable_uow [simp]: "checkClosable load now (c\<lparr>ctx_uow := b\<rparr>) = checkClosable load now c"
  by (intro ext) (simp add: checkClosable_def period_location_def split: option.split)

lemma closable_uow [simp]: "closable load now (c\<lparr>ctx_uow := b\<rparr>) = closable load now c"
  by (intro ext) (simp add: closable_def split: sum.split)

lemma period_author_uow [simp]: "period_author (c\<lparr>ctx_uow := b\<rparr>) = period_author c"
  by (intro ext) (simp add: period_author_def)

lemma period_Save_uow [simp]: "period_Save (c\<lparr>ctx_uow := b\<rparr>) = period_Save c"
  by (intro ext) (simp add: period_Save_def)

lemma period_SaveClosing_uow [simp]: "period_SaveClosing (c\<lparr>ctx_uow := b\<rparr>) = period_SaveClosing c"
  by (intro ext) (simp add: period_SaveClosing_def)

lemma scoped_find_row:
  "keyed p_ID (db_periods d) \<Longrightarrow> period_scoped c tc pid d = Inr p \<Longrightarrow>
    find_row p_ID pid (db_periods d) = Some p"
  using period_scoped_Inr by (simp add: find_row_Some_iff)

lemma period_Current_Inr:
  assumes "tenant_From c = Inr tc" "period_Current c (tc_OrgID tc) (tc_ProjectID tc) d = Inr p"
  shows "p \<in> set (timeline (tc_OrgID tc) (tc_ProjectID tc) (db_periods d))" "IsCurrent p"
  using assms by (auto simp: period_Current_def set_timeline period_scope_def IsCurrent_def tenant_From_def
      dest!: period_queryOne_Inr split: option.splits if_splits)

lemma period_Current_Inl:
  assumes "tenant_From c = Inr tc" "period_Current c (tc_OrgID tc) (tc_ProjectID tc) d = Inl e"
  shows "e = EPeriod (PeriodNotFoundError (RefID (tc_ProjectID tc))) \<and>
    (\<forall>p \<in> set (timeline (tc_OrgID tc) (tc_ProjectID tc) (db_periods d)). \<not> IsCurrent p)"
  using assms by (auto simp: period_Current_def set_timeline period_scope_def IsCurrent_def tenant_From_def
      period_queryOne_Inl)

lemma no_current_empty_book:
  assumes "periods_inv (db_periods d)" "\<forall>p \<in> set (timeline org prj (db_periods d)). \<not> IsCurrent p"
  shows "book org prj (db_periods d) = []"
proof (rule ccontr)
  let ?t = "timeline org prj (db_periods d)"
  assume "book org prj (db_periods d) \<noteq> []"
  then have "?t \<noteq> []" by (metis timeline_def set_oldest_first set_empty)
  then have "p_EndDate (last ?t) = None"
    using chained_current [OF periods_invD(4) [OF assms(1)]] last_in_set by blast
  then show False using assms(2) \<open>?t \<noteq> []\<close> last_in_set by (fastforce simp: IsCurrent_def)
qed

section \<open>EnsureCurrent\<close>

lemma period_New_ok: "period_New pid now org prj start n = Inr p \<Longrightarrow> period_ok p"
  using period_New_Inr by (simp add: period_ok_def IsLocked_def)

lemma period_CreateCurrent_same:
  "period_CreateCurrent c p d = (Inl e, d') \<Longrightarrow> d' = d"
  "period_CreateCurrent c p d = (Inr False, d') \<Longrightarrow> d' = d"
  by (auto elim: period_CreateCurrent_cases)

lemma EnsureCurrent_effect:
  assumes "EnsureCurrent load now pid c d = (r, d')"
  obtains (same) "d' = d"
    | (first) tc loc day p where "tenant_From c = Inr tc" "r = Inr p"
        "period_cycle load c tc d = Inr (loc, day)"
        "period_New pid now (tc_OrgID tc) (tc_ProjectID tc) (FirstStart (DateOf now loc) day) '''' = Inr p"
        "\<forall>q \<in> set (timeline (tc_OrgID tc) (tc_ProjectID tc) (db_periods d)). \<not> IsCurrent q"
        "find_row p_ID pid (db_periods d) = None"
        "d' = d\<lparr>db_periods := db_periods d @ [p]\<rparr>"
proof -
  from assms consider "d' = d"
    | tc e loc day p where "tenant_From c = Inr tc"
        "period_Current c (tc_OrgID tc) (tc_ProjectID tc) d = Inl e" "period_cycle load c tc d = Inr (loc, day)"
        "period_New pid now (tc_OrgID tc) (tc_ProjectID tc) (FirstStart (DateOf now loc) day) '''' = Inr p"
        "period_CreateCurrent c p d = (Inr True, d')" "r = Inr p"
    by (auto simp: EnsureCurrent_def split: sum.splits prod.splits if_splits
        dest: period_CreateCurrent_same)
  then show thesis
  proof cases
    case 2
    from 2(5) have "d' = d\<lparr>db_periods := db_periods d @ [p]\<rparr>" "find_row p_ID (p_ID p) (db_periods d) = None"
      by (auto elim: period_CreateCurrent_cases)
    then show thesis
      using period_Current_Inl [OF 2(1,2)] period_New_Inr(1) [OF 2(4)]
      by (intro first [OF 2(1,6,3,4)]) simp_all
  qed (rule same)
qed

lemma EnsureCurrent_inv:
  assumes inv: "periods_inv (db_periods d)" and run: "EnsureCurrent load now pid c d = (r, d')"
  shows "periods_inv (db_periods d')"
  using run
proof (cases rule: EnsureCurrent_effect)
  case (first tc loc day p)
  note p = period_New_Inr [OF first(4)]
  have "periods_inv (db_periods d @ [p])"
  proof (rule periods_inv_first [OF inv])
    show "book (p_OrgID p) (p_ProjectID p) (db_periods d) = []"
      using no_current_empty_book [OF inv first(5)] p by simp
  qed (use first p period_New_ok [OF first(4)] FirstStart_valid in auto)
  then show ?thesis using first by simp
qed (use inv in simp)

section \<open>Rename\<close>

lemma period_stored_same:
  assumes "p_OrgID p = p_OrgID o'" "p_ProjectID p = p_ProjectID o'" "p_CreatedAt p = p_CreatedAt o'" "p_ID p = p_ID o'"
  shows "period_stored p (Some o') = p"
  using assms by (cases p, cases o') (simp add: period_stored_def)

lemma period_Save_replace:
  assumes "keyed p_ID (db_periods d)" "period_scoped c tc pid d = Inr o'" "period_Save c p d = (Inr (), d')"
    "p_OrgID p = p_OrgID o'" "p_ProjectID p = p_ProjectID o'" "p_CreatedAt p = p_CreatedAt o'" "p_ID p = p_ID o'"
  shows "d' = d\<lparr>db_periods := upsert_row p_ID p (db_periods d)\<rparr> \<and> period_checks p"
proof -
  have "find_row p_ID (p_ID p) (db_periods d) = Some o'"
    using scoped_find_row [OF assms(1,2)] period_scoped_Inr [OF assms(2)] assms(7) by simp
  then show ?thesis
    using period_Save_Inr [OF assms(3)] period_stored_same [OF assms(4-7)] by (auto simp: Let_def)
qed

lemma svc_Rename_effect:
  assumes "svc_Rename now c pid name d = (r, d')" "keyed p_ID (db_periods d)"
  obtains (same) e where "r = Inl e" "d' = d"
    | (renamed) tc p clean where "tenant_From c = Inr tc" "period_scoped c tc pid d = Inr p"
        "cleanName name = Inr clean" "r = Inr (p\<lparr>p_Name := clean, p_UpdatedAt := now\<rparr>)"
        "d' = d\<lparr>db_periods := upsert_row p_ID (p\<lparr>p_Name := clean, p_UpdatedAt := now\<rparr>) (db_periods d)\<rparr>"
proof -
  from assms(1) consider (a) e where "r = Inl e" "d' = d"
    | (b) e where "r = Inl e" "\<exists>p e. period_Save c p d = (Inl e, d')"
    | (c) tc p clean where "tenant_From c = Inr tc" "period_scoped c tc pid d = Inr p"
        "cleanName name = Inr clean" "r = Inr (p\<lparr>p_Name := clean, p_UpdatedAt := now\<rparr>)"
        "period_Save c (p\<lparr>p_Name := clean, p_UpdatedAt := now\<rparr>) d = (Inr (), d')"
    by (auto simp: svc_Rename_def period_Rename_def split: sum.splits prod.splits
        dest: sym [of "Inl _"] sym [of "Inr _"])
  then show thesis
  proof cases
    case (c tc p clean)
    then show thesis using renamed period_Save_replace [OF assms(2) c(2) c(5)] by simp
  qed (use same period_Save_error in blast)+
qed

lemma svc_Rename_inv:
  assumes inv: "periods_inv (db_periods d)" and run: "svc_Rename now c pid name d = (r, d')"
  shows "periods_inv (db_periods d')"
  using run periods_invD(1) [OF inv]
proof (cases rule: svc_Rename_effect)
  case (renamed tc p clean)
  let ?p = "p\<lparr>p_Name := clean, p_UpdatedAt := now\<rparr>"
  have f: "find_row p_ID (p_ID ?p) (db_periods d) = Some p"
    using scoped_find_row [OF periods_invD(1) [OF inv] renamed(2)] period_scoped_Inr(2) [OF renamed(2)] by simp
  have "period_ok p" using periods_invD(2) [OF inv] period_scoped_Inr(1) [OF renamed(2)] by simp
  then have "period_ok ?p"
    using cleanName_Inr [OF renamed(3)] by (auto simp: period_ok_def IsLocked_def IsCurrent_def)
  then have "periods_inv (upsert_row p_ID ?p (db_periods d))"
    by (intro periods_inv_replace [OF inv f])
       (simp_all add: same_bounds_def reopened_def IsLocked_def IsCurrent_def)
  then show ?thesis using renamed by simp
qed (use inv in simp)

section \<open>Close\<close>

lemma closable_Inr:
  assumes "closable load now c tc pid end' d = Inr p"
  shows "period_scoped c tc pid d = Inr p" "\<not> IsLocked p"
    "p_EndDate p = Some e \<Longrightarrow> days end' = days e"
    "p_EndDate p = None \<Longrightarrow> days (p_StartDate p) \<le> days end' \<and>
      (\<exists>loc. period_location load c tc d = Inr loc \<and> days end' \<le> days (DateOf now loc))"
  using assms
  by (auto simp: closable_def checkClosable_def date_Compare_days Before_days not_less
      split: sum.splits if_splits option.splits)

definition closing_of :: "uuid \<Rightarrow> instant \<Rightarrow> uuid \<times> uuid \<Rightarrow> Snapshot \<Rightarrow> Period \<Rightarrow> Closing" where
  "closing_of clid at who snap p = \<lparr>cl_ID = clid, cl_OrgID = p_OrgID p, cl_ProjectID = p_ProjectID p,
     cl_PeriodID = p_ID p, cl_ClosedAt = at, cl_ClosedBy = fst who, cl_ClosedByKeyID = snd who, cl_Snapshot = snap\<rparr>"

lemma closed_period_fields [simp]:
  "p_ID (closed_period e at s p) = p_ID p" "p_OrgID (closed_period e at s p) = p_OrgID p"
  "p_ProjectID (closed_period e at s p) = p_ProjectID p" "p_CreatedAt (closed_period e at s p) = p_CreatedAt p"
  "p_StartDate (closed_period e at s p) = p_StartDate p" "IsLocked (closed_period e at s p)"
  "p_Snapshot (closed_period e at s p) = Some s" "p_ClosedAt (closed_period e at s p) = Some at"
  "p_EndDate (closed_period e at s p) = (case p_EndDate p of None \<Rightarrow> Some e | Some e' \<Rightarrow> Some e')"
  "p_Name (closed_period e at s p) = p_Name p"
  by (simp_all add: closed_period_def IsLocked_def)

text \<open>What a successful body did, step by step.\<close>

lemma close_body_Inr:
  assumes "close_body snapper load now clid nextid tc pid end' by' c d = (Inr p', d')"
  obtains p snap who d1 d2 where
    "closable load now c tc pid end' d = Inr p"
    "snapper c (tc_OrgID tc) (tc_ProjectID tc) (p_ID p) end' (truncate_us now) d = Inr snap"
    "p' = closed_period end' (truncate_us now) snap p"
    "period_Save c p' d = (Inr (), d1)" "period_author c by' = Inr who"
    "period_SaveClosing c (closing_of clid (truncate_us now) who snap p') d1 = (Inr (), d2)"
    "p_EndDate p \<noteq> None \<and> d' = d2 \<or> p_EndDate p = None \<and>
      (\<exists>next. period_New nextid now (p_OrgID p') (p_ProjectID p') (AddDays end' 1) '''' = Inr next \<and>
         period_Save c next d2 = (Inr (), d'))"
  using assms
  by (auto simp: close_body_def closableLocked_eq closing_of_def Let_def
      split: sum.splits prod.splits if_splits dest: sym [of "Inl _"] sym [of "Inr _"])

lemma Close_Inr:
  assumes "Close snapper load now clid nextid c pid end' by' d = (Inr p', d')"
  obtains tc where "tenant_From c = Inr tc" "\<not> ctx_uow c"
    "close_body snapper load now clid nextid tc pid end' by' (c\<lparr>ctx_uow := True\<rparr>) d = (Inr p', d')"
  using assms that
  by (auto simp: Close_def RunInTx_Inr split: sum.splits prod.splits if_splits)

lemma Close_error:
  assumes "Close snapper load now clid nextid c pid end' by' d = (Inl e, d')"
  shows "d' = d"
  using assms uow.rollback by (fastforce simp: Close_def split: sum.splits if_splits)

lemma period_Save_fresh:
  assumes "period_Save c p d = (Inr (), d')" "find_row p_ID (p_ID p) (db_periods d) = None"
  shows "d' = d\<lparr>db_periods := db_periods d @ [p]\<rparr>"
  using period_Save_Inr [OF assms(1)] assms(2) by (auto simp: period_stored_def upsert_row_new Let_def)

text \<open>The effect of a successful close on the tables, for fresh identifiers.\<close>

lemma Close_effect:
  assumes run: "Close snapper load now clid nextid c pid end' by' d = (Inr p', d')"
    and k: "keyed p_ID (db_periods d)" and fresh: "nextid \<notin> p_ID ` set (db_periods d)"
  obtains tc p snap who where "tenant_From c = Inr tc" "closable load now c tc pid end' d = Inr p"
    "snapper (c\<lparr>ctx_uow := True\<rparr>) (tc_OrgID tc) (tc_ProjectID tc) pid end' (truncate_us now) d = Inr snap"
    "p' = closed_period end' (truncate_us now) snap p" "period_author c by' = Inr who"
    "p_EndDate p \<noteq> None \<and> d' = d\<lparr>db_periods := upsert_row p_ID p' (db_periods d),
        db_closings := db_closings d @ [closing_of clid (truncate_us now) who snap p']\<rparr> \<or>
     p_EndDate p = None \<and>
      (\<exists>next. period_New nextid now (p_OrgID p') (p_ProjectID p') (AddDays end' 1) '''' = Inr next \<and>
        d' = d\<lparr>db_periods := upsert_row p_ID p' (db_periods d) @ [next],
          db_closings := db_closings d @ [closing_of clid (truncate_us now) who snap p']\<rparr>)"
proof -
  from run obtain tc where tc: "tenant_From c = Inr tc"
    and body: "close_body snapper load now clid nextid tc pid end' by' (c\<lparr>ctx_uow := True\<rparr>) d = (Inr p', d')"
    by (rule Close_Inr)
  from body obtain p snap who d1 d2 where
    p: "closable load now c tc pid end' d = Inr p"
    and snap: "snapper (c\<lparr>ctx_uow := True\<rparr>) (tc_OrgID tc) (tc_ProjectID tc) (p_ID p) end' (truncate_us now) d = Inr snap"
    and p': "p' = closed_period end' (truncate_us now) snap p"
    and save: "period_Save c p' d = (Inr (), d1)" and who: "period_author c by' = Inr who"
    and closing: "period_SaveClosing c (closing_of clid (truncate_us now) who snap p') d1 = (Inr (), d2)"
    and last: "p_EndDate p \<noteq> None \<and> d' = d2 \<or> p_EndDate p = None \<and>
      (\<exists>next. period_New nextid now (p_OrgID p') (p_ProjectID p') (AddDays end' 1) '''' = Inr next \<and>
         period_Save c next d2 = (Inr (), d'))"
    by (rule close_body_Inr) simp
  note sc = closable_Inr(1) [OF p]
  have pid: "p_ID p = pid" using period_scoped_Inr(2) [OF sc] .
  have d1: "d1 = d\<lparr>db_periods := upsert_row p_ID p' (db_periods d)\<rparr>"
    using period_Save_replace [OF k sc save] by (simp add: p')
  have d2: "d2 = d1\<lparr>db_closings := db_closings d1 @ [closing_of clid (truncate_us now) who snap p']\<rparr>"
    using closing by (auto elim: period_SaveClosing_cases)
  have "d' = d2\<lparr>db_periods := db_periods d2 @ [next]\<rparr>"
    if n: "period_New nextid now (p_OrgID p') (p_ProjectID p') (AddDays end' 1) '''' = Inr next"
      "period_Save c next d2 = (Inr (), d')" for "next"
  proof -
    have "p_ID next \<notin> p_ID ` set (db_periods d2)"
      using fresh period_New_Inr(1) [OF n(1)] period_scoped_Inr(1) [OF sc] by (auto simp: d1 d2 p' keys_upsert_row)
    then have "find_row p_ID (p_ID next) (db_periods d2) = None" by (rule find_row_fresh)
    then show ?thesis using period_Save_fresh n(2) by blast
  qed
  with last show thesis
    using that [OF tc p snap [unfolded pid] p' who] d1 d2 by auto
qed

lemma period_ok_closed: "period_ok p \<Longrightarrow> period_ok (closed_period e at s p)"
  by (auto simp: period_ok_def IsCurrent_def split: option.splits)

lemma Close_inv:
  assumes inv: "periods_inv (db_periods d)" and e: "valid_date end'"
    and fresh: "nextid \<notin> p_ID ` set (db_periods d)"
    and run: "Close snapper load now clid nextid c pid end' by' d = (r, d')"
  shows "periods_inv (db_periods d')"
proof (cases r)
  case (Inl e)
  then show ?thesis using Close_error run inv by blast
next
  case (Inr p')
  note run' = run [unfolded Inr] and k = periods_invD(1) [OF inv]
  from run' k fresh show ?thesis
  proof (cases rule: Close_effect)
    case (1 tc p snap who)
    note sc = closable_Inr(1) [OF 1(2)]
    have old: "find_row p_ID (p_ID p') (db_periods d) = Some p"
      using scoped_find_row [OF k sc] period_scoped_Inr(2) [OF sc] 1(4) by simp
    have ok: "period_ok p'" using period_ok_closed periods_invD(2) [OF inv period_scoped_Inr(1) [OF sc]] 1(4) by simp
    show ?thesis
    proof (cases "p_EndDate p")
      case None
      with 1(6) obtain "next" where n: "period_New nextid now (p_OrgID p') (p_ProjectID p') (AddDays end' 1) '''' = Inr next"
          "db_periods d' = upsert_row p_ID p' (db_periods d) @ [next]"
        by auto
      have "find_row p_ID (p_ID next) (db_periods d) = None"
        using fresh period_New_Inr(1) [OF n(1)] by (simp add: find_row_fresh)
      then have "periods_inv (upsert_row p_ID p' (db_periods d) @ [next])"
        using old ok None e closable_Inr(4) [OF 1(2) None] period_New_Inr [OF n(1)] period_New_ok [OF n(1)] 1(4)
        by (intro periods_inv_first_close [OF inv old, where e = end']) auto
      then show ?thesis using n by simp
    next
      case (Some e')
      then have "periods_inv (upsert_row p_ID p' (db_periods d))"
        using old ok 1(4)
        by (intro periods_inv_replace [OF inv old]) (simp_all add: same_bounds_def reopened_def)
      then show ?thesis using 1(6) Some by auto
    qed
  qed
qed

section \<open>Reopen\<close>

lemma period_List_all:
  assumes "tenant_From c = Inr tc"
  shows "period_List c (tc_OrgID tc) (tc_ProjectID tc) no_list_opts d =
    Inr (period_newest_first (book (tc_OrgID tc) (tc_ProjectID tc) (db_periods d)))"
  using assms by (auto simp: period_List_def no_list_opts_def book_def period_scope_def tenant_From_def Let_def
      split: option.splits if_splits intro!: arg_cong [where f = period_newest_first] filter_cong)

lemma Reopenable_eq:
  assumes "tenant_From c = Inr tc"
  shows "Reopenable c d = Inr (LatestClosed (period_newest_first (book (tc_OrgID tc) (tc_ProjectID tc) (db_periods d))))"
  using period_List_all [OF assms] assms by (simp add: Reopenable_def tenant_From_def)

lemma keyed_book: "keyed p_ID rows \<Longrightarrow> keyed p_ID (book org prj rows)"
  by (simp add: book_def distinct_map_filter)

lemma Reopen_effect:
  assumes "Reopen now c pid d = (r, d')" "keyed p_ID (db_periods d)"
  obtains (same) e where "r = Inl e" "d' = d"
    | (reopened) tc p where "tenant_From c = Inr tc" "period_scoped c tc pid d = Inr p" "IsLocked p"
        "LatestClosed (period_newest_first (book (tc_OrgID tc) (tc_ProjectID tc) (db_periods d))) = Some p"
        "r = Inr (p\<lparr>p_Status := StatusOpen, p_UpdatedAt := now\<rparr>)"
        "d' = d\<lparr>db_periods := upsert_row p_ID (p\<lparr>p_Status := StatusOpen, p_UpdatedAt := now\<rparr>) (db_periods d)\<rparr>"
proof -
  from assms(1) consider (a) e where "r = Inl e" "d' = d"
    | (b) e where "r = Inl e" "\<exists>p e. period_Save c p d = (Inl e, d')"
    | (c) tc p items latest where "tenant_From c = Inr tc" "period_scoped c tc pid d = Inr p" "IsLocked p"
        "period_List c (tc_OrgID tc) (tc_ProjectID tc) no_list_opts d = Inr items"
        "LatestClosed items = Some latest" "p_ID latest = p_ID p"
        "r = Inr (p\<lparr>p_Status := StatusOpen, p_UpdatedAt := now\<rparr>)"
        "period_Save c (p\<lparr>p_Status := StatusOpen, p_UpdatedAt := now\<rparr>) d = (Inr (), d')"
    by (auto simp: Reopen_def Let_def split: sum.splits prod.splits if_splits option.splits
        dest: sym [of "Inl _"] sym [of "Inr _"])
  then show thesis
  proof cases
    case (c tc p items latest)
    have items: "items = period_newest_first (book (tc_OrgID tc) (tc_ProjectID tc) (db_periods d))"
      using c(4) period_List_all [OF c(1)] by simp
    then have "latest \<in> set (db_periods d)"
      using c(5) LatestClosed_iff [OF keyed_newest_first [OF keyed_book [OF assms(2)]]] by (auto simp: book_def)
    then have "latest = p"
      using c(6) period_scoped_Inr(1) [OF c(2)] assms(2) by (auto simp: distinct_map inj_on_def)
    then show thesis
      using reopened [OF c(1-3) _ c(7)] c(5) items period_Save_replace [OF assms(2) c(2) c(8)] by simp
  qed (use same period_Save_error in blast)+
qed

lemma Reopen_inv:
  assumes inv: "periods_inv (db_periods d)" and run: "Reopen now c pid d = (r, d')"
  shows "periods_inv (db_periods d')"
  using run periods_invD(1) [OF inv]
proof (cases rule: Reopen_effect)
  case (reopened tc p)
  let ?p = "p\<lparr>p_Status := StatusOpen, p_UpdatedAt := now\<rparr>"
  note k = periods_invD(1) [OF inv] and sc = period_scoped_Inr [OF reopened(2)]
  have f: "find_row p_ID (p_ID ?p) (db_periods d) = Some p"
    using scoped_find_row [OF k reopened(2)] sc(2) by simp
  have "\<forall>q \<in> set (book (p_OrgID p) (p_ProjectID p) (db_periods d)). \<not> PeriodTimeline.reopened q"
    using reopened(4) LatestClosed_iff [OF keyed_newest_first [OF keyed_book [OF k]]] sc
    by (auto simp: reopened_def)
  moreover have "period_ok ?p"
    using periods_invD(2) [OF inv sc(1)] by (simp add: period_ok_def IsLocked_def IsCurrent_def)
  ultimately have "periods_inv (upsert_row p_ID ?p (db_periods d))"
    by (intro periods_inv_replace [OF inv f]) (simp_all add: same_bounds_def)
  then show ?thesis using reopened by simp
qed (use inv in simp)

section \<open>Containing\<close>

lemma svc_Containing_effect:
  assumes "svc_Containing load now pid c at d = (r, d')"
  shows "d' = d \<or> (\<exists>r'. EnsureCurrent load now pid c d = (r', d'))"
  using assms by (auto simp: svc_Containing_def split: sum.splits prod.splits)

lemma svc_Containing_inv:
  assumes "periods_inv (db_periods d)" "svc_Containing load now pid c at d = (r, d')"
  shows "periods_inv (db_periods d')"
  using svc_Containing_effect [OF assms(2)] EnsureCurrent_inv [OF assms(1)] assms(1) by metis

section \<open>The state machine of the books\<close>

text \<open>
  One step is one call of a state-changing operation of the service, by any
  caller, at any time, for any argument; the identifiers minted are fresh and
  the end date of a close is a calendar date (\<open>ParseEnd\<close> gives no other).
  \<open>elsewhere\<close> is any step of the rest of the program: it leaves the periods alone.
\<close>

inductive period_step :: "snapshotter \<Rightarrow> tzdb \<Rightarrow> db \<Rightarrow> db \<Rightarrow> bool" for snapper load where
  ensure: "EnsureCurrent load now pid c d = (r, d') \<Longrightarrow> period_step snapper load d d'"
| contain: "svc_Containing load now pid c at d = (r2, d') \<Longrightarrow> period_step snapper load d d'"
| rename: "svc_Rename now c pid name d = (r3, d') \<Longrightarrow> period_step snapper load d d'"
| close: "Close snapper load now clid nextid c pid end' by' d = (r4, d') \<Longrightarrow> valid_date end' \<Longrightarrow>
    nextid \<notin> p_ID ` set (db_periods d) \<Longrightarrow> period_step snapper load d d'"
| reopen: "Reopen now c pid d = (r5, d') \<Longrightarrow> period_step snapper load d d'"
| elsewhere: "db_periods d' = db_periods d \<Longrightarrow> period_step snapper load d d'"

inductive period_reachable :: "snapshotter \<Rightarrow> tzdb \<Rightarrow> db \<Rightarrow> bool" for snapper load where
  init: "db_periods d = [] \<Longrightarrow> period_reachable snapper load d"
| step: "period_reachable snapper load d \<Longrightarrow> period_step snapper load d d' \<Longrightarrow> period_reachable snapper load d'"

lemma period_step_inv: "period_step snapper load d d' \<Longrightarrow> periods_inv (db_periods d) \<Longrightarrow> periods_inv (db_periods d')"
  by (induction rule: period_step.induct)
     (auto intro: EnsureCurrent_inv svc_Containing_inv svc_Rename_inv Close_inv Reopen_inv)

lemma periods_inv_Nil [simp]: "periods_inv []"
  by (simp add: periods_inv_def)

lemma period_reachable_inv: "period_reachable snapper load d \<Longrightarrow> periods_inv (db_periods d)"
  by (induction rule: period_reachable.induct) (auto intro: period_step_inv)

section \<open>Reading the timeline\<close>

lemma Contains_text_order:
  assumes "chained ps" "p \<in> set ps" "valid_date dt"
  shows "period_Contains p dt \<longleftrightarrow> p_StartDate p \<le> dt \<and> (case p_EndDate p of None \<Rightarrow> True | Some e \<Rightarrow> dt \<le> e)"
  using chained_valid [OF assms(1,2)] chained_ended_valid [OF assms(1,2)] assms(3)
  by (auto simp: period_Contains_days days_le_iff split: option.splits)

lemma period_Containing_eq:
  assumes inv: "periods_inv (db_periods d)" and tc: "tenant_From c = Inr tc" and dt: "valid_date dt"
    and p: "p \<in> set (timeline (tc_OrgID tc) (tc_ProjectID tc) (db_periods d))" "period_Contains p dt"
  shows "period_Containing c (tc_OrgID tc) (tc_ProjectID tc) dt d = Inr p"
proof -
  let ?ps = "timeline (tc_OrgID tc) (tc_ProjectID tc) (db_periods d)"
  note ch = periods_invD(4) [OF inv, of "tc_OrgID tc" "tc_ProjectID tc"]
  have cond: "(period_scope (tc_OrgID tc) (tc_ProjectID tc) (tc_OrgID tc) q \<and> p_StartDate q \<le> dt \<and>
      (case p_EndDate q of None \<Rightarrow> True | Some e \<Rightarrow> dt \<le> e)) \<longleftrightarrow> q \<in> set ?ps \<and> period_Contains q dt"
    if "q \<in> set (db_periods d)" for q
    using that Contains_text_order [OF ch _ dt, of q] by (auto simp: set_timeline period_scope_def)
  have "p \<in> set (db_periods d)" using p by (simp add: set_timeline)
  then have "period_queryOne (\<lambda>q. period_scope (tc_OrgID tc) (tc_ProjectID tc) (tc_OrgID tc) q \<and> p_StartDate q \<le> dt \<and>
      (case p_EndDate q of None \<Rightarrow> True | Some e \<Rightarrow> dt \<le> e)) (RefText (date_String dt)) (db_periods d) = Inr p"
    using cond p chained_unique_container [OF ch] by (intro period_queryOne_unique) auto
  then show ?thesis using tc by (simp add: period_Containing_def tenant_From_def)
qed

lemma period_Containing_Inr:
  assumes "tenant_From c = Inr tc" "period_Containing c (tc_OrgID tc) (tc_ProjectID tc) dt d = Inr p"
  shows "p \<in> set (timeline (tc_OrgID tc) (tc_ProjectID tc) (db_periods d))"
    "periods_inv (db_periods d) \<Longrightarrow> valid_date dt \<Longrightarrow> period_Contains p dt"
proof -
  from assms have p: "p \<in> set (db_periods d)" "period_scope (tc_OrgID tc) (tc_ProjectID tc) (tc_OrgID tc) p"
      "p_StartDate p \<le> dt" "case p_EndDate p of None \<Rightarrow> True | Some e \<Rightarrow> dt \<le> e"
    by (auto simp: period_Containing_def tenant_From_def dest!: period_queryOne_Inr split: option.splits if_splits)
  show t: "p \<in> set (timeline (tc_OrgID tc) (tc_ProjectID tc) (db_periods d))"
    using p by (simp add: set_timeline period_scope_def)
  show "period_Contains p dt" if "periods_inv (db_periods d)" "valid_date dt"
    using Contains_text_order [OF periods_invD(4) [OF that(1)] t that(2)] p by simp
qed

section \<open>The timeline after a close\<close>

lemma timeline_unique:
  assumes "periods_inv rows'" "mset ps = mset (book org prj rows')" "chained ps"
  shows "timeline org prj rows' = ps"
  using oldest_first_unique [OF assms(3,2)] by (simp add: timeline_def)

lemma timeline_first_close:
  assumes inv: "periods_inv rows" and old: "find_row p_ID (p_ID b) rows = Some a"
    and scope: "p_OrgID b = p_OrgID a" "p_ProjectID b = p_ProjectID a"
    and cur: "p_EndDate a = None" and b: "p_StartDate b = p_StartDate a" "p_EndDate b = Some e"
    and e: "valid_date e" "days (p_StartDate a) \<le> days e"
    and q: "p_StartDate q = AddDays e 1" "p_EndDate q = None" "p_OrgID q = p_OrgID a" "p_ProjectID q = p_ProjectID a"
  shows "timeline (p_OrgID a) (p_ProjectID a) (upsert_row p_ID b rows @ [q]) =
    butlast (timeline (p_OrgID a) (p_ProjectID a) rows) @ [b, q]"
proof -
  let ?t = "timeline (p_OrgID a) (p_ProjectID a) rows"
  note k = periods_invD(1) [OF inv] and ch = periods_invD(4) [OF inv, of "p_OrgID a" "p_ProjectID a"]
  have "a \<in> set ?t" using old by (auto simp: set_timeline dest: find_row_SomeD)
  moreover from this have "?t \<noteq> []" by auto
  ultimately have "?t \<noteq> []" "a = last ?t" using chained_current [OF ch] cur by simp_all
  then have t: "?t = butlast ?t @ [a]" by (metis append_butlast_last_id)
  have "mset (book (p_OrgID a) (p_ProjectID a) rows) = mset (butlast ?t) + {#a#}"
    using t unfolding timeline_def by (metis mset_append mset_oldest_first mset.simps)
  then have "mset (book (p_OrgID a) (p_ProjectID a) (upsert_row p_ID b rows @ [q])) = mset (butlast ?t @ [b, q])"
    using book_upsert_same [OF k old scope] scope q by (simp add: book_append)
  moreover have "chained (butlast ?t @ [b, q])"
    using chained_close [of "butlast ?t" a b e q] ch t b e q by metis
  ultimately show ?thesis unfolding timeline_def using oldest_first_unique by metis
qed

section \<open>Closing succeeds when its guards hold\<close>

lemma second_current_False:
  assumes inv: "periods_inv rows" and p: "p_EndDate p \<noteq> None \<or> (\<forall>r \<in> set rows. p_ProjectID r = p_ProjectID p \<longrightarrow> p_EndDate r \<noteq> None \<or> p_ID r = p_ID p)"
  shows "\<not> second_current rows p"
  using p by (auto simp: second_current_def)

lemma period_checks_closed:
  assumes "valid_date (p_StartDate p)" "valid_date end'" "days (p_StartDate p) \<le> days end'"
    "p_EndDate p = None \<or> p_EndDate p = Some e \<and> valid_date e \<and> days (p_StartDate p) \<le> days e"
  shows "period_checks (closed_period end' at s p)"
  using assms by (auto simp: period_checks_def closed_period_def days_le_iff)

lemma chained_ended:
  assumes "chained ps" "p \<in> set ps" "p_EndDate p = Some e"
  shows "valid_date e" "days (p_StartDate p) \<le> days e"
  using assms
proof (induction ps rule: chained.induct)
  case (3 p q ps)
  { case 1 then show ?case using 3 by (auto simp: link_def split: option.splits) next
    case 2 then show ?case using 3 by (auto simp: link_def split: option.splits) }
qed auto

lemma period_Save_own:
  assumes tc: "tenant_From c = Inr tc" and f: "find_row p_ID (p_ID p) (db_periods d) = Some o'"
    and sc: "p_OrgID o' = tc_OrgID tc" "p_ProjectID o' = tc_ProjectID tc"
    and same: "p_OrgID p = p_OrgID o'" "p_ProjectID p = p_ProjectID o'" "p_CreatedAt p = p_CreatedAt o'" "p_ID p = p_ID o'"
    and ok: "period_checks p" "\<not> second_current (db_periods d) p"
  shows "period_Save c p d = (Inr (), d\<lparr>db_periods := upsert_row p_ID p (db_periods d)\<rparr>)"
  using period_Save_ok [OF tc f [symmetric]] period_stored_same [OF same] ok sc by simp

lemma Reopen_succeeds:
  assumes inv: "periods_inv (db_periods d)" and tc: "tenant_From c = Inr tc"
    and l: "LatestClosed (period_newest_first (book (tc_OrgID tc) (tc_ProjectID tc) (db_periods d))) = Some p"
  shows "fst (Reopen now c (p_ID p) d) = Inr (p\<lparr>p_Status := StatusOpen, p_UpdatedAt := now\<rparr>)"
proof -
  let ?p = "p\<lparr>p_Status := StatusOpen, p_UpdatedAt := now\<rparr>" and ?ps = "timeline (tc_OrgID tc) (tc_ProjectID tc) (db_periods d)"
  note k = periods_invD(1) [OF inv] and ch = periods_invD(4) [OF inv, of "tc_OrgID tc" "tc_ProjectID tc"]
  have p: "p \<in> set (db_periods d)" "p_OrgID p = tc_OrgID tc" "p_ProjectID p = tc_ProjectID tc" "\<not> IsCurrent p" "IsLocked p"
    using l LatestClosed_iff [OF keyed_newest_first [OF keyed_book [OF k]]] by (auto simp: book_def)
  have "p \<in> set ?ps" using p by (simp add: set_timeline)
  then obtain e where e: "p_EndDate p = Some e" "valid_date e" "days (p_StartDate p) \<le> days e" "valid_date (p_StartDate p)"
    using p(4) chained_ended [OF ch] chained_valid [OF ch] by (auto simp: IsCurrent_def)
  have f: "find_row p_ID (p_ID p) (db_periods d) = Some p" using p k by (simp add: find_row_Some_iff)
  have "period_queryOne (\<lambda>q. p_ID q = p_ID p \<and> p_OrgID q = tc_OrgID tc) (RefID (p_ID p)) (db_periods d) = Inr p"
    using p k by (intro period_queryOne_unique) (auto simp: distinct_map inj_on_def)
  then have sc: "period_scoped c tc (p_ID p) d = Inr p"
    using tc p by (simp add: period_scoped_def period_scopedRow_def period_ByID_def tenant_From_def)
  have "period_Save c ?p d = (Inr (), d\<lparr>db_periods := upsert_row p_ID ?p (db_periods d)\<rparr>)"
    using p e f by (intro period_Save_own [OF tc, where o' = p])
      (auto simp: period_checks_def second_current_def days_le_iff)
  then show ?thesis
    using tc sc p l period_List_all [OF tc, of d] by (simp add: Reopen_def tenant_From_def Let_def)
qed

section \<open>Dating an opening balance\<close>

lemma svc_OpeningDate_open:
  assumes inv: "periods_inv (db_periods d)" and tc: "tenant_From c = Inr tc"
    and run: "svc_OpeningDate load c at d = Inr od"
    and p: "p \<in> set (timeline (tc_OrgID tc) (tc_ProjectID tc) (db_periods d))" "period_Contains p (od_Date od)"
  shows "\<not> IsLocked p"
proof -
  let ?ps = "timeline (tc_OrgID tc) (tc_ProjectID tc) (db_periods d)"
  let ?items = "period_newest_first (book (tc_OrgID tc) (tc_ProjectID tc) (db_periods d))"
  note ch = periods_invD(4) [OF inv, of "tc_OrgID tc" "tc_ProjectID tc"]
  have set: "set ?items = set ?ps" by (simp add: set_timeline book_def)
  obtain loc where loc: "period_location load c tc d = Inr loc"
    using run tc by (auto simp: svc_OpeningDate_def tenant_From_def split: sum.splits)
  let ?today = "DateOf at loc"
  have only: "q = p" if "q \<in> set ?ps" "period_Contains q (od_Date od)" for q
    using chained_unique_container [OF ch that(1) p(1) that(2) p(2)] .
  show ?thesis
  proof (cases "period_Containing c (tc_OrgID tc) (tc_ProjectID tc) ?today d")
    case (Inl e)
    then have "od_Date od = ?today"
      using run tc loc by (auto simp: svc_OpeningDate_def tenant_From_def Let_def split: if_splits)
    then have "period_Containing c (tc_OrgID tc) (tc_ProjectID tc) ?today d = Inr p"
      using period_Containing_eq [OF inv tc valid_DateOf p(1)] p(2) by simp
    then show ?thesis using Inl by simp
  next
    case (Inr q)
    note q = period_Containing_Inr [OF tc Inr]
    show ?thesis
    proof (cases "IsLocked q")
      case False
      then have "od_Date od = ?today"
        using run tc loc Inr by (auto simp: svc_OpeningDate_def tenant_From_def Let_def)
      then have "q = p" using only [OF q(1)] q(2) [OF inv] by simp
      then show ?thesis using False by simp
    next
      case True
      then have od: "od_Date od = NextOpenStart ?items q ?today"
        using run tc loc Inr period_List_all [OF tc, of d] by (auto simp: svc_OpeningDate_def tenant_From_def Let_def)
      have "?ps \<noteq> []" using p(1) by auto
      then have last: "last ?ps \<in> set ?ps" "p_EndDate (last ?ps) = None"
        using chained_current [OF ch] by auto
      then have nl: "\<not> IsLocked (last ?ps)"
        using periods_invD(2) [OF inv, of "last ?ps"] by (auto simp: period_ok_def IsCurrent_def set_timeline)
      have "days ?today < days (p_StartDate (last ?ps))"
      proof (rule ccontr)
        assume "\<not> ?thesis"
        then have "period_Contains (last ?ps) ?today" using last by (simp add: period_Contains_days)
        then have "last ?ps = q" using chained_unique_container [OF ch last(1) q(1)] q(2) [OF inv] by simp
        then show False using True nl by simp
      qed
      then obtain b where b: "foldl (next_open_pick ?today) None ?items = Some b"
        using next_open_fold [OF refl, of ?today None ?items] last nl set
        by (cases "foldl (next_open_pick ?today) None ?items") auto
      then have "b \<in> set ?ps" "\<not> IsLocked b"
        using next_open_fold [OF b] set by auto
      moreover have "period_Contains b (od_Date od)"
        using b od chained_ended(2) [OF ch \<open>b \<in> set ?ps\<close>]
        by (auto simp: NextOpenStart_def period_Contains_days split: option.splits)
      ultimately show ?thesis using only by auto
    qed
  qed
qed

section \<open>Liveness of Close\<close>

definition project_owned :: "uuid \<Rightarrow> uuid \<Rightarrow> Period list \<Rightarrow> bool" where
  "project_owned org prj rows \<longleftrightarrow> (\<forall>p \<in> set rows. p_ProjectID p = prj \<longrightarrow> p_OrgID p = org)"

lemma current_is_unique:
  assumes inv: "periods_inv rows" and own: "project_owned org prj rows"
    and p: "p \<in> set rows" "p_ProjectID p = prj" "p_EndDate p = None"
    and q: "q \<in> set rows" "p_ProjectID q = prj" "p_EndDate q = None"
  shows "q = p"
proof -
  have t: "p \<in> set (timeline org prj rows)" "q \<in> set (timeline org prj rows)"
    using own p q by (auto simp: set_timeline project_owned_def)
  moreover from t(1) have "timeline org prj rows \<noteq> []" by auto
  ultimately show ?thesis
    using chained_current [OF periods_invD(4) [OF inv, of org prj]] p(3) q(3) by auto
qed

lemma period_SaveClosing_ok:
  assumes "tenant_From c = Inr tc" "cl_OrgID cl = tc_OrgID tc" "cl_ProjectID cl = tc_ProjectID tc"
    "cl_ID cl \<notin> cl_ID ` set (db_closings d)"
    "p \<in> set (db_periods d)" "p_ID p = cl_PeriodID cl" "p_OrgID p = cl_OrgID cl"
  shows "period_SaveClosing c cl d = (Inr (), d\<lparr>db_closings := db_closings d @ [cl]\<rparr>)"
  using assms find_row_fresh [OF assms(4)] by (auto simp: period_SaveClosing_def tenant_From_def)

lemma Close_succeeds:
  assumes inv: "periods_inv (db_periods d)" and tc: "tenant_From c = Inr tc" and uow: "\<not> ctx_uow c"
    and own: "project_owned (tc_OrgID tc) (tc_ProjectID tc) (db_periods d)"
    and cl: "closable load now c tc pid end' d = Inr p"
    and snap: "snapper (c\<lparr>ctx_uow := True\<rparr>) (tc_OrgID tc) (tc_ProjectID tc) pid end' (truncate_us now) d = Inr s"
    and who: "period_author c by' = Inr who"
    and e: "valid_date end'" "0 \<le> Year (AddDays end' 1)" "Year (AddDays end' 1) \<le> 9999"
    and fresh: "nextid \<notin> p_ID ` set (db_periods d)" "clid \<notin> cl_ID ` set (db_closings d)"
  shows "fst (Close snapper load now clid nextid c pid end' by' d) = Inr (closed_period end' (truncate_us now) s p)"
proof -
  let ?at = "truncate_us now" and ?c = "c\<lparr>ctx_uow := True\<rparr>"
  let ?p = "closed_period end' ?at s p" and ?rows = "db_periods d"
  let ?d1 = "d\<lparr>db_periods := upsert_row p_ID (closed_period end' (truncate_us now) s p) (db_periods d)\<rparr>"
  let ?cl = "closing_of clid ?at who s ?p"
  let ?d2 = "?d1\<lparr>db_closings := db_closings ?d1 @ [?cl]\<rparr>"
  note k = periods_invD(1) [OF inv] and sc = closable_Inr(1) [OF cl]
  note p = period_scoped_Inr [OF sc]
  have t: "p \<in> set (timeline (tc_OrgID tc) (tc_ProjectID tc) ?rows)" using p by (simp add: set_timeline)
  note ch = periods_invD(4) [OF inv, of "tc_OrgID tc" "tc_ProjectID tc"]
  have f: "find_row p_ID pid ?rows = Some p" by (rule scoped_find_row [OF k sc])
  have checks: "period_checks ?p"
    using chained_valid [OF ch t] chained_ended [OF ch t] closable_Inr(3,4) [OF cl] e(1)
    by (intro period_checks_closed [where e = "the (p_EndDate p)"]) (cases "p_EndDate p"; auto)+
  have s1: "period_Save ?c ?p d = (Inr (), ?d1)"
    using f p checks by (simp, intro period_Save_own [OF tc, where o' = p])
      (auto simp: second_current_def split: option.splits)
  have "?p \<in> set (db_periods ?d1)" by (simp add: set_upsert_row [OF k])
  then have s2: "period_SaveClosing ?c ?cl ?d1 = (Inr (), ?d2)"
    unfolding period_SaveClosing_uow using fresh(2) p
    by (intro period_SaveClosing_ok [OF tc, where p = ?p]) (simp_all add: closing_of_def)
  obtain n where n: "period_New nextid now (p_OrgID ?p) (p_ProjectID ?p) (AddDays end' 1) '''' = Inr n"
    using period_New_default [OF e(2,3) valid_AddDays] by blast
  note nf = period_New_Inr [OF n]
  have s3: "fst (period_Save ?c n ?d2) = Inr ()" if cur: "p_EndDate p = None"
  proof -
    have fr: "find_row p_ID (p_ID n) (db_periods ?d2) = None"
      using fresh(1) nf(1) p by (intro find_row_fresh) (auto simp: keys_upsert_row)
    have "p_EndDate r \<noteq> None" if r: "r \<in> set (db_periods ?d2)" "p_ProjectID r = p_ProjectID n" for r
    proof (cases "r = ?p")
      case False
      then have "r \<in> set ?rows" "p_ID r \<noteq> p_ID p" using r(1) by (auto simp: set_upsert_row [OF k])
      then show ?thesis using current_is_unique [OF inv own p(1,4) cur, of r] r(2) nf(3) p(4) by auto
    qed (simp add: cur)
    then have "\<not> second_current (db_periods ?d2) n" unfolding second_current_def by blast
    moreover have "period_checks n" using nf by (simp add: period_checks_def)
    ultimately show ?thesis
      using period_Save_ok [OF tc fr [symmetric]] by (simp add: period_stored_def)
  qed
  have "fst (close_body snapper load now clid nextid tc pid end' by' ?c d) = Inr ?p"
  proof (cases "p_EndDate p")
    case (Some e')
    then show ?thesis
      using cl snap s1 s2 who p
      by (cases who) (simp add: close_body_def closableLocked_eq Let_def closing_of_def)
  next
    case None
    then show ?thesis
      using cl snap s1 s2 who p n s3 [OF None]
      by (auto simp: close_body_def closableLocked_eq Let_def closing_of_def split: prod.splits sum.splits)
  qed
  then show ?thesis
    using tc cl uow by (auto simp: Close_def RunInTx_def tenant_From_def split: prod.splits)
qed

end
