(* ===== verification/Fixtures.thy ===== *)
theory Fixtures
  imports PeriodInvariants
begin

text \<open>
  Concrete inputs for the witnesses: a tz database that knows only UTC, a
  signed-in caller of organisation 1 and project 2, and the states a first
  period and its close lead to.
\<close>

definition w_load :: tzdb where
  "w_load = (\<lambda>_. Some time_UTC)"

definition w_tc :: Tenant where
  "w_tc = \<lparr>tc_OrgID = 1, tc_ProjectID = 2, tc_UserID = 3\<rparr>"

definition w_ctx :: ctx where
  "w_ctx = \<lparr>ctx_tenant = Some w_tc, ctx_principal = None, ctx_uow = False\<rparr>"

definition w_snap :: snapshotter where
  "w_snap c org prj pid e at d = Inr \<lparr>sn_Currency = IDR, sn_Income = 0, sn_Expense = 0, sn_Net = 0,
     sn_TxCount = 0, sn_Wallets = [], sn_ComputedAt = at\<rparr>"

definition w_db1 :: db where
  "w_db1 = snd (EnsureCurrent w_load 0 10 w_ctx empty_db)"

definition w_close :: "(err, Period) res \<times> db" where
  "w_close = Close w_snap w_load 0 20 11 w_ctx 10 (Date 1970 1 1) 3 w_db1"

definition w_db2 :: db where
  "w_db2 = snd w_close"

lemma w_tenant [simp]: "tenant_From w_ctx = Inr w_tc"
  by (simp add: w_ctx_def w_tc_def)

lemma w_location: "db_settings d = [] \<Longrightarrow> period_location w_load w_ctx w_tc d = Inr time_UTC"
  by (simp add: period_location_def ledger_Location_def ledger_effective_def ledger_ByProject_def
    settings_Location_def is_error_defs w_load_def)

lemma w_db1_reachable: "period_reachable w_snap w_load w_db1"
proof -
  have "period_reachable w_snap w_load empty_db"
    by (rule period_reachable.init) (simp add: empty_db_def)
  then show ?thesis
    unfolding w_db1_def
    by (rule period_reachable.step) (rule period_step.ensure [OF prod.collapse [symmetric]])
qed

lemma w_db2_reachable: "period_reachable w_snap w_load w_db2"
proof (rule period_reachable.step [OF w_db1_reachable])
  have "11 \<notin> p_ID ` set (db_periods w_db1)" by code_simp
  moreover have "valid_date (Date 1970 1 1)" by code_simp
  ultimately show "period_step w_snap w_load w_db1 w_db2"
    unfolding w_db2_def w_close_def by (intro period_step.close [OF prod.collapse [symmetric]])
qed

end
