(* ===== verification/PeriodProperties.thy ===== *)
theory PeriodProperties
  imports Fixtures
begin

text \<open>The properties of the budget periods: the timeline, closing, reopening, the monthly cycle.\<close>

section \<open>The timeline\<close>

text \<open>C1: In every reachable state, every day from a project's first period on falls in exactly one of
  the project's periods, whatever sequence of creations, closes, reopens and renames led there.\<close>

theorem period_book_tiles_time:
  assumes "period_reachable snapper load d" and "timeline org prj (db_periods d) = first # rest"
    and "days (p_StartDate first) \<le> days dt"
  shows "\<exists>!p. p \<in> set (timeline org prj (db_periods d)) \<and> period_Contains p dt"
proof -
  note ch = periods_invD(4) [OF period_reachable_inv [OF assms(1)], of org prj]
  have "\<exists>p \<in> set (timeline org prj (db_periods d)). period_Contains p dt"
    using chained_container_exists [OF ch] assms(2,3) by simp
  then show ?thesis using chained_unique_container [OF ch] by blast
qed

theorem period_book_tiles_time_witness:
  "\<exists>!p. p \<in> set (timeline 1 2 (db_periods w_db2)) \<and> period_Contains p (Date 1970 1 2)"
proof (rule period_book_tiles_time [OF w_db2_reachable])
  show "timeline 1 2 (db_periods w_db2) =
      hd (timeline 1 2 (db_periods w_db2)) # tl (timeline 1 2 (db_periods w_db2))"
    by code_simp
  show "days (p_StartDate (hd (timeline 1 2 (db_periods w_db2)))) \<le> days (Date 1970 1 2)"
    by code_simp
qed

text \<open>C2: In every reachable state a project that has periods has exactly one current period, the last
  of its timeline, and at most one period that was reopened and not closed again.\<close>

theorem period_book_one_current:
  assumes "period_reachable snapper load d" and "timeline org prj (db_periods d) = first # rest"
  shows "(\<forall>p \<in> set (timeline org prj (db_periods d)).
            IsCurrent p \<longleftrightarrow> p = last (timeline org prj (db_periods d))) \<and>
         length (filter (\<lambda>p. \<not> IsCurrent p \<and> \<not> IsLocked p) (timeline org prj (db_periods d))) \<le> 1"
proof -
  note inv = period_reachable_inv [OF assms(1)]
  have r: "reopened = (\<lambda>p. \<not> IsCurrent p \<and> \<not> IsLocked p)" by (intro ext) (simp add: reopened_def)
  have "length (filter reopened (timeline org prj (db_periods d))) \<le> 1"
    using periods_invD(3) [OF inv, of org prj] unfolding book_inv_def timeline_def
    by (metis mset_filter mset_oldest_first size_mset)
  then show ?thesis
    using chained_current [OF periods_invD(4) [OF inv, of org prj]] assms(2) by (simp add: IsCurrent_def r)
qed

theorem period_book_one_current_witness:
  "IsCurrent (last (timeline 1 2 (db_periods w_db2))) \<and> \<not> IsCurrent (hd (timeline 1 2 (db_periods w_db2))) \<and>
   length (filter (\<lambda>p. \<not> IsCurrent p \<and> \<not> IsLocked p) (timeline 1 2 (db_periods w_db2))) \<le> 1"
proof -
  let ?t = "timeline 1 2 (db_periods w_db2)"
  have t: "?t = hd ?t # tl ?t" by code_simp
  have "hd ?t \<in> set ?t" "last ?t \<in> set ?t" "hd ?t \<noteq> last ?t" by code_simp+
  then show ?thesis using period_book_one_current [OF w_db2_reachable t] by blast
qed

text \<open>The store's unordered LIMIT 1 lookup by date has no choice: in every reachable state it returns
  the period of the caller's project that contains the date, when there is one.\<close>

theorem Containing_finds_the_period:
  assumes "period_reachable snapper load d" and "tenant_From c = Inr tc" and "valid_date dt"
    and "p \<in> set (timeline (tc_OrgID tc) (tc_ProjectID tc) (db_periods d))" and "period_Contains p dt"
  shows "period_Containing c (tc_OrgID tc) (tc_ProjectID tc) dt d = Inr p"
  using assms period_Containing_eq [OF period_reachable_inv] by blast

theorem Containing_finds_the_period_witness:
  "period_Containing w_ctx (tc_OrgID w_tc) (tc_ProjectID w_tc) (Date 1970 1 9) w_db2 =
     Inr (last (timeline (tc_OrgID w_tc) (tc_ProjectID w_tc) (db_periods w_db2)))"
  by (rule Containing_finds_the_period [OF w_db2_reachable w_tenant]) code_simp+

section \<open>Closing\<close>

text \<open>The first close of the current period, when it succeeds, replaces it at the end of the timeline
  by the locked period with the given end date and the snapshot the report module computed, opens the next
  period the day after, records one closing, and changes nothing else.\<close>

theorem Close_extends_the_timeline:
  assumes "period_reachable snapper load d" and "tenant_From c = Inr tc" and "valid_date end'"
    and "nextid \<notin> p_ID ` set (db_periods d)" and "period_scoped c tc pid d = Inr p" and "IsCurrent p"
    and "Close snapper load now clid nextid c pid end' by' d = (Inr p', d')"
  shows "\<exists>snap who nxt.
    snapper (c\<lparr>ctx_uow := True\<rparr>) (tc_OrgID tc) (tc_ProjectID tc) pid end' (truncate_us now) d = Inr snap \<and>
    p' = p\<lparr>p_EndDate := Some end', p_Status := StatusClosed, p_ClosedAt := Some (truncate_us now),
           p_Snapshot := Some snap, p_UpdatedAt := truncate_us now\<rparr> \<and>
    p_StartDate nxt = AddDays end' 1 \<and> IsCurrent nxt \<and> \<not> IsLocked nxt \<and> p_ID nxt = nextid \<and>
    timeline (tc_OrgID tc) (tc_ProjectID tc) (db_periods d') =
      butlast (timeline (tc_OrgID tc) (tc_ProjectID tc) (db_periods d)) @ [p', nxt] \<and>
    d' = d\<lparr>db_periods := db_periods d', db_closings := db_closings d @ [closing_of clid (truncate_us now) who snap p']\<rparr>"
proof -
  note inv = period_reachable_inv [OF assms(1)] and k = periods_invD(1) [OF period_reachable_inv [OF assms(1)]]
  note sc = period_scoped_Inr [OF assms(5)]
  from assms(7) k assms(4) show ?thesis
  proof (cases rule: Close_effect)
    case (1 tc' q snap who)
    have "tc' = tc" "q = p" using 1(1,2) closable_Inr(1) assms(2,5) by auto
    note 1 = 1 [unfolded this] and cur = \<open>IsCurrent p\<close> [unfolded IsCurrent_def]
    from 1(6) cur obtain n where n: "period_New nextid now (p_OrgID p') (p_ProjectID p') (AddDays end' 1) '''' = Inr n"
        "d' = d\<lparr>db_periods := upsert_row p_ID p' (db_periods d) @ [n],
               db_closings := db_closings d @ [closing_of clid (truncate_us now) who snap p']\<rparr>"
      by auto
    have old: "find_row p_ID (p_ID p') (db_periods d) = Some p"
      using scoped_find_row [OF k assms(5)] sc(2) 1(4) by simp
    have "timeline (p_OrgID p) (p_ProjectID p) (db_periods d') =
        butlast (timeline (p_OrgID p) (p_ProjectID p) (db_periods d)) @ [p', n]"
      using timeline_first_close [OF inv old _ _ cur, of end' n] 1(4) cur assms(3) closable_Inr(4) [OF 1(2) cur]
        period_New_Inr [OF n(1)] n(2) by simp
    then show ?thesis
      using 1(3,4) n period_New_Inr [OF n(1)] sc(3,4) cur
      by (intro exI [of _ snap] exI [of _ who] exI [of _ n])
         (simp add: closed_period_def IsCurrent_def IsLocked_def)
  qed
qed

theorem Close_extends_the_timeline_witness:
  "\<exists>snap who nxt.
    w_snap (w_ctx\<lparr>ctx_uow := True\<rparr>) (tc_OrgID w_tc) (tc_ProjectID w_tc) 10 (Date 1970 1 1) (truncate_us 0) w_db1 = Inr snap \<and>
    projr (fst w_close) = (hd (db_periods w_db1))\<lparr>p_EndDate := Some (Date 1970 1 1), p_Status := StatusClosed,
      p_ClosedAt := Some (truncate_us 0), p_Snapshot := Some snap, p_UpdatedAt := truncate_us 0\<rparr> \<and>
    p_StartDate nxt = AddDays (Date 1970 1 1) 1 \<and> IsCurrent nxt \<and> \<not> IsLocked nxt \<and> p_ID nxt = 11 \<and>
    timeline (tc_OrgID w_tc) (tc_ProjectID w_tc) (db_periods w_db2) =
      butlast (timeline (tc_OrgID w_tc) (tc_ProjectID w_tc) (db_periods w_db1)) @ [projr (fst w_close), nxt] \<and>
    w_db2 = w_db1\<lparr>db_periods := db_periods w_db2,
      db_closings := db_closings w_db1 @ [closing_of 20 (truncate_us 0) who snap (projr (fst w_close))]\<rparr>"
proof (rule Close_extends_the_timeline [OF w_db1_reachable w_tenant])
  show "Close w_snap w_load 0 20 11 w_ctx 10 (Date 1970 1 1) 3 w_db1 = (Inr (projr (fst w_close)), w_db2)"
    unfolding w_db2_def w_close_def [symmetric] by code_simp
  show "period_scoped w_ctx w_tc 10 w_db1 = Inr (hd (db_periods w_db1))" by code_simp
  show "valid_date (Date 1970 1 1)" "11 \<notin> p_ID ` set (db_periods w_db1)" "IsCurrent (hd (db_periods w_db1))"
    by code_simp+
qed

text \<open>Close is all or nothing: whatever stops it (a guard, the snapshot, the author, a store write, an
  open unit of work), the database is the one it started from.\<close>

theorem Close_all_or_nothing:
  "case Close snapper load now clid nextid c pid end' by' d of (Inl e, d') \<Rightarrow> d' = d | (Inr p', _) \<Rightarrow> IsLocked p'"
proof (cases "Close snapper load now clid nextid c pid end' by' d")
  case (Pair r d')
  show ?thesis
  proof (cases r)
    case (Inl e)
    then show ?thesis using Pair Close_error by auto
  next
    case (Inr p')
    then show ?thesis
      using Pair by (auto elim!: Close_Inr close_body_Inr)
  qed
qed

text \<open>C3: Close succeeds exactly when its guards hold: no unit of work is open, the period is open, its end date is
  neither before its start nor in the future of the ledger's zone (which must load; after a reopen, it is the fixed one), the snapshot
  can be computed and the caller is a person or an API key; the result is then the closed period with that snapshot. This is for any
  reachable table in which the project's periods are of one organisation, a period in the caller's scope, fresh ids for the
  next period and the closing, and a calendar end date whose next day has a year from 0 to 9999.\<close>

theorem Close_goes_through:
  assumes "period_reachable snapper load d" and "tenant_From c = Inr tc"
    and "project_owned (tc_OrgID tc) (tc_ProjectID tc) (db_periods d)" and "period_scoped c tc pid d = Inr p"
    and "valid_date end'" and "0 \<le> Year (AddDays end' 1)" and "Year (AddDays end' 1) \<le> 9999"
    and "nextid \<notin> p_ID ` set (db_periods d)" and "clid \<notin> cl_ID ` set (db_closings d)"
  shows "fst (Close snapper load now clid nextid c pid end' by' d) = Inr p' \<longleftrightarrow>
    \<not> ctx_uow c \<and> \<not> IsLocked p \<and>
    (case p_EndDate p of
       None \<Rightarrow> days (p_StartDate p) \<le> days end' \<and> (\<exists>loc. period_location load c tc d = Inr loc \<and> days end' \<le> days (DateOf now loc))
     | Some fixed \<Rightarrow> days end' = days fixed) \<and>
    (by' \<noteq> uuid_Nil \<or> pr_UserID (PrincipalFrom c) = uuid_Nil \<and> pr_KeyID (PrincipalFrom c) \<noteq> uuid_Nil) \<and>
    (\<exists>s. snapper (c\<lparr>ctx_uow := True\<rparr>) (tc_OrgID tc) (tc_ProjectID tc) pid end' (truncate_us now) d = Inr s \<and>
       p' = closed_period end' (truncate_us now) s p)"
    (is "?ok \<longleftrightarrow> ?guards")
proof
  note inv = period_reachable_inv [OF assms(1)]
  {
    assume ?ok
    then obtain d' where run: "Close snapper load now clid nextid c pid end' by' d = (Inr p', d')" by (metis prod.collapse)
    have "\<not> ctx_uow c" using run assms(2) by (auto simp: Close_def split: sum.splits)
    from run periods_invD(1) [OF inv] assms(8) show ?guards
    proof (cases rule: Close_effect)
      case (1 tc' q snap who)
      have t: "tc' = tc" using 1(1) assms(2) by simp
      note cl = closable_Inr [OF 1(2) [unfolded t]]
      have q: "q = p" using cl(1) assms(4) by simp
      have "by' \<noteq> uuid_Nil \<or> pr_UserID (PrincipalFrom c) = uuid_Nil \<and> pr_KeyID (PrincipalFrom c) \<noteq> uuid_Nil"
        using 1(5) by (auto simp: period_author_def Let_def split: if_splits)
      then show ?thesis using cl(2-4) 1(3,4) \<open>\<not> ctx_uow c\<close> unfolding t q by (auto split: option.split)
    qed
  }
  assume g: ?guards
  then obtain s where s: "snapper (c\<lparr>ctx_uow := True\<rparr>) (tc_OrgID tc) (tc_ProjectID tc) pid end' (truncate_us now) d = Inr s"
    "p' = closed_period end' (truncate_us now) s p" by blast
  have cl: "closable load now c tc pid end' d = Inr p"
    using g assms(4) by (auto simp: closable_def checkClosable_def Before_days date_Compare_days split: option.splits)
  obtain who where who: "period_author c by' = Inr who"
    using g by (cases "by' = uuid_Nil") (auto simp: period_author_def)
  have uow: "\<not> ctx_uow c" using g by blast
  show ?ok unfolding s(2) by (rule Close_succeeds [where snapper = snapper, OF inv assms(2) uow assms(3) cl s(1) who assms(5-9)])
qed

theorem Close_goes_through_witness:
  "fst (Close w_snap w_load 0 20 11 w_ctx 10 (Date 1970 1 1) 3 w_db1) =
     Inr (closed_period (Date 1970 1 1) (truncate_us 0)
       (projr (w_snap (w_ctx\<lparr>ctx_uow := True\<rparr>) 1 2 10 (Date 1970 1 1) (truncate_us 0) w_db1)) (hd (db_periods w_db1)))"
proof -
  have own: "project_owned (tc_OrgID w_tc) (tc_ProjectID w_tc) (db_periods w_db1)" by code_simp
  have p: "period_scoped w_ctx w_tc 10 w_db1 = Inr (hd (db_periods w_db1))" "p_EndDate (hd (db_periods w_db1)) = None"
    "\<not> IsLocked (hd (db_periods w_db1))" by code_simp+
  have e: "valid_date (Date 1970 1 1)" "0 \<le> Year (AddDays (Date 1970 1 1) 1)" "Year (AddDays (Date 1970 1 1) 1) \<le> 9999"
    "11 \<notin> p_ID ` set (db_periods w_db1)" "20 \<notin> cl_ID ` set (db_closings w_db1)" by code_simp+
  have l: "period_location w_load w_ctx w_tc w_db1 = Inr time_UTC"
    by (rule w_location) code_simp
  have g: "\<not> ctx_uow w_ctx" "days (p_StartDate (hd (db_periods w_db1))) \<le> days (Date 1970 1 1)"
    "days (Date 1970 1 1) \<le> days (DateOf 0 time_UTC)" "(3::uuid) \<noteq> uuid_Nil" "tc_OrgID w_tc = 1" "tc_ProjectID w_tc = 2" by code_simp+
  show ?thesis
    by (rule Close_goes_through [OF w_db1_reachable w_tenant own p(1) e, THEN iffD2]) (use p l g in \<open>simp add: w_snap_def\<close>)
qed



section \<open>Reopening\<close>

text \<open>C5: Reopenable names exactly the period Reopen accepts: a call to Reopen succeeds if and only if its
  argument is the period Reopenable returns, and it then keeps the end date and the snapshot.\<close>

theorem Reopen_accepts_what_Reopenable_names:
  assumes "period_reachable snapper load d" and "tenant_From c = Inr tc"
  shows "((\<exists>p'. fst (Reopen now c pid d) = Inr p') \<longleftrightarrow> (\<exists>p. Reopenable c d = Inr (Some p) \<and> p_ID p = pid)) \<and>
    (\<forall>p'. fst (Reopen now c pid d) = Inr p' \<longrightarrow> (\<exists>p. Reopenable c d = Inr (Some p) \<and> p_ID p = pid \<and>
      p' = p\<lparr>p_Status := StatusOpen, p_UpdatedAt := now\<rparr>))"
proof -
  note inv = period_reachable_inv [OF assms(1)]
  have named: "\<exists>p. Reopenable c d = Inr (Some p) \<and> p_ID p = pid \<and> p' = p\<lparr>p_Status := StatusOpen, p_UpdatedAt := now\<rparr>"
    if run: "fst (Reopen now c pid d) = Inr p'" for p'
  proof -
    obtain r d' where rd: "Reopen now c pid d = (r, d')" by force
    show ?thesis
      using rd periods_invD(1) [OF inv]
    proof (cases rule: Reopen_effect)
      case (reopened tc' p)
      then have "tc' = tc" using assms(2) by simp
      then show ?thesis using reopened Reopenable_eq [OF assms(2), of d] period_scoped_Inr(2) [OF reopened(2)] rd run
        by auto
    qed (use rd run in simp)
  qed
  moreover have "(\<exists>p'. fst (Reopen now c pid d) = Inr p') \<longleftrightarrow> (\<exists>p. Reopenable c d = Inr (Some p) \<and> p_ID p = pid)"
    using named Reopen_succeeds [OF inv assms(2)] Reopenable_eq [OF assms(2), of d] by fastforce
  ultimately show ?thesis by blast
qed

theorem Reopen_accepts_what_Reopenable_names_witness:
  "(\<exists>p'. fst (Reopen 5 w_ctx 10 w_db2) = Inr p') \<and> \<not> (\<exists>p'. fst (Reopen 5 w_ctx 11 w_db2) = Inr p') \<and>
   (\<exists>p. Reopenable w_ctx w_db2 = Inr (Some p) \<and> p_ID p = 10 \<and>
     projr (fst (Reopen 5 w_ctx 10 w_db2)) = p\<lparr>p_Status := StatusOpen, p_UpdatedAt := 5\<rparr>)"
proof -
  note W = Reopen_accepts_what_Reopenable_names [OF w_db2_reachable w_tenant]
  have r: "Reopenable w_ctx w_db2 = Inr (Some (projr (fst w_close)))" "p_ID (projr (fst w_close)) = 10"
    by code_simp+
  then have ok: "\<exists>p'. fst (Reopen 5 w_ctx 10 w_db2) = Inr p'" using W [of 5 10] by blast
  moreover have "\<not> (\<exists>p'. fst (Reopen 5 w_ctx 11 w_db2) = Inr p')" using W [of 5 11] r by simp
  ultimately show ?thesis using W [of 5 10] by auto
qed

section \<open>Opening balances\<close>

text \<open>The date OpeningDate gives an opening balance never falls in a closed period of the caller's
  project, and it is the requested date unless that one was closed.\<close>

theorem OpeningDate_avoids_closed_periods:
  assumes "period_reachable snapper load d" and "tenant_From c = Inr tc" and "svc_OpeningDate load c at d = Inr od"
  shows "(\<forall>p \<in> set (timeline (tc_OrgID tc) (tc_ProjectID tc) (db_periods d)).
      period_Contains p (od_Date od) \<longrightarrow> \<not> IsLocked p) \<and> (\<not> od_Moved od \<longrightarrow> od_At od = at)"
  using svc_OpeningDate_open [OF period_reachable_inv [OF assms(1)] assms(2,3)] assms(2,3)
  by (auto simp: svc_OpeningDate_def tenant_From_def Let_def split: sum.splits if_splits)

theorem OpeningDate_avoids_closed_periods_witness:
  "svc_OpeningDate w_load w_ctx 0 w_db2 = Inr \<lparr>od_At = 86400000000000, od_Date = Date 1970 1 2, od_Moved = True\<rparr> \<and>
   \<not> IsLocked (last (timeline (tc_OrgID w_tc) (tc_ProjectID w_tc) (db_periods w_db2)))"
proof -
  let ?t = "timeline (tc_OrgID w_tc) (tc_ProjectID w_tc) (db_periods w_db2)"
  have run: "svc_OpeningDate w_load w_ctx 0 w_db2 =
      Inr \<lparr>od_At = 86400000000000, od_Date = Date 1970 1 2, od_Moved = True\<rparr>"
    by code_simp
  have "last ?t \<in> set ?t" "period_Contains (last ?t) (Date 1970 1 2)" by code_simp+
  then show ?thesis
    using OpeningDate_avoids_closed_periods [OF w_db2_reachable w_tenant run] run by simp
qed

section \<open>The monthly cycle\<close>

text \<open>C6: FirstStart is the most recent cycle start on or before today: a calendar date that falls on
  the (clamped) start day, not after today, and no later date that is not after today falls on that day.\<close>

theorem FirstStart_is_the_latest_cycle_start:
  assumes "valid_date today"
  shows "valid_date (FirstStart today n) \<and> Day (FirstStart today n) = ClampStartDay n \<and> FirstStart today n \<le> today \<and>
    (\<forall>x. valid_date x \<and> Day x = ClampStartDay n \<and> x \<le> today \<longrightarrow> x \<le> FirstStart today n)"
  using assms FirstStart_valid FirstStart_le FirstStart_greatest Day_FirstStart by blast

theorem FirstStart_is_the_latest_cycle_start_witness:
  "FirstStart (Date 2026 1 9) 25 = Date 2025 12 25 \<and> Date 2025 11 25 \<le> FirstStart (Date 2026 1 9) 25"
proof -
  have v: "valid_date (Date 2026 1 9)" by code_simp
  have x: "valid_date (Date 2025 11 25)" "Day (Date 2025 11 25) = ClampStartDay 25" "Date 2025 11 25 \<le> Date 2026 1 9"
    by code_simp+
  have "FirstStart (Date 2026 1 9) 25 = Date 2025 12 25" by code_simp
  then show ?thesis using FirstStart_is_the_latest_cycle_start [OF v, of 25] x by blast
qed

text \<open>The end date suggested for a close lies between the period's start and today and before the next
  cycle start, which is the first date after the start that falls on the start day.\<close>

theorem SuggestedEnd_within_the_cycle:
  assumes "valid_date start" and "valid_date today" and "start \<le> today"
  shows "start \<le> SuggestedEnd start today n \<and> SuggestedEnd start today n \<le> today \<and>
    SuggestedEnd start today n < nextCycleStart start n \<and> valid_date (nextCycleStart start n) \<and>
    Day (nextCycleStart start n) = ClampStartDay n \<and>
    (\<forall>x. valid_date x \<and> Day x = ClampStartDay n \<and> start < x \<longrightarrow> nextCycleStart start n \<le> x)"
proof -
  note v = SuggestedEnd_valid [OF assms(1,2), of n] nextCycleStart_valid [OF assms(1), of n]
  have "days start < days (nextCycleStart start n)" "days start \<le> days today"
    using nextCycleStart_greater [OF assms(1)] assms v by (auto simp: date_simps)
  then have "start \<le> SuggestedEnd start today n \<and> SuggestedEnd start today n \<le> today \<and>
      SuggestedEnd start today n < nextCycleStart start n"
    using SuggestedEnd_days [OF assms(1,2), of n] assms v by (auto simp flip: days_le_iff days_less_iff)
  then show ?thesis
    using v(2) Day_nextCycleStart [OF assms(1)] nextCycleStart_least [OF assms(1)] by blast
qed

theorem SuggestedEnd_within_the_cycle_witness:
  "SuggestedEnd (Date 2026 1 25) (Date 2026 3 1) 25 = Date 2026 2 24 \<and>
   Date 2026 1 25 \<le> Date 2026 2 24 \<and> Date 2026 2 24 \<le> Date 2026 3 1 \<and>
   Date 2026 2 24 < nextCycleStart (Date 2026 1 25) 25"
proof -
  have v: "valid_date (Date 2026 1 25)" "valid_date (Date 2026 3 1)" "Date 2026 1 25 \<le> Date 2026 3 1" by code_simp+
  have e: "SuggestedEnd (Date 2026 1 25) (Date 2026 3 1) 25 = Date 2026 2 24" by code_simp
  show ?thesis using SuggestedEnd_within_the_cycle [OF v, of 25] unfolding e by simp
qed

end
