(* ===== verification/MirrorStore.thy ===== *)
theory MirrorStore
  imports Database
begin

text \<open>
  The SQLite store of \<open>internal/opensheetsync\<close> (\<open>sqlite.go\<close>): the links table and
  the sync-state table, whose primary key is the organisation, the entity and the
  entity's id.  A mark bumps a row's version; a claim leases the row to one job;
  settling records the version that reached the sheet, if the lease still holds.
\<close>

definition linkWhere :: "uuid \<Rightarrow> uuid \<Rightarrow> Link \<Rightarrow> bool" where
  "linkWhere orgID projectID l \<longleftrightarrow> ln_OrgID l = orgID \<and> ln_ProjectID l = projectID"

definition link_checks :: "Link \<Rightarrow> bool" where
  "link_checks l \<longleftrightarrow> ln_APIKeySealed l \<noteq> [] \<and> 0 \<le> ln_FailureStreak l \<and>
     (ln_CreatedBy l = uuid_Nil) \<noteq> (ln_CreatedByKeyID l = uuid_Nil) \<and>
     sh_Transactions (ln_Sheets l) \<noteq> sh_Wallets (ln_Sheets l) \<and>
     sh_Transactions (ln_Sheets l) \<noteq> sh_Categories (ln_Sheets l) \<and>
     sh_Wallets (ln_Sheets l) \<noteq> sh_Categories (ln_Sheets l)"

definition SaveLink :: "Link \<Rightarrow> (db, unit) prog" where
  "SaveLink l d =
     (if \<not> link_checks l then (Inl (Sql ConstraintCheck), d)
      else case find_row ln_ProjectID (ln_ProjectID l) (db_links d) of
        Some old \<Rightarrow>
          if ln_OrgID old \<noteq> ln_OrgID l then (Inl (ESheet (LinkNotFoundError (ln_ProjectID l))), d)
          else let row = old\<lparr>ln_OSOrg := ln_OSOrg l, ln_OSProject := ln_OSProject l, ln_APIKeySealed := ln_APIKeySealed l,
                 ln_APIKeyHint := ln_APIKeyHint l, ln_Sheets := ln_Sheets l, ln_Enabled := ln_Enabled l,
                 ln_VerifiedAt := ln_VerifiedAt l, ln_LastError := ln_LastError l,
                 ln_FailureStreak := ln_FailureStreak l, ln_AutoDisabledAt := ln_AutoDisabledAt l,
                 ln_UpdatedAt := ln_UpdatedAt l\<rparr>
               in (Inr (), d\<lparr>db_links := upsert_row ln_ProjectID row (db_links d)\<rparr>)
      | None \<Rightarrow>
          if find_row ln_ID (ln_ID l) (db_links d) \<noteq> None then (Inl (Sql ConstraintUnique), d)
          else (Inr (), d\<lparr>db_links := db_links d @ [l]\<rparr>))"

definition LinkByProject :: "uuid \<Rightarrow> uuid \<Rightarrow> db \<Rightarrow> (err, Link) res" where
  "LinkByProject orgID projectID d = (case find (linkWhere orgID projectID) (db_links d) of
     None \<Rightarrow> Inl (ESheet (LinkNotFoundError projectID)) | Some l \<Rightarrow> Inr l)"

definition LinkEnabled :: "uuid \<Rightarrow> uuid \<Rightarrow> db \<Rightarrow> bool" where
  "LinkEnabled orgID projectID d = (case filter (linkWhere orgID projectID) (db_links d) of
     [l] \<Rightarrow> ln_Enabled l | _ \<Rightarrow> False)"

definition ListEnabledLinks :: "uuid \<Rightarrow> db \<Rightarrow> Link list" where
  "ListEnabledLinks orgID d = sort_key (\<lambda>l. (ln_CreatedAt l, ln_ID l))
     (filter (\<lambda>l. ln_OrgID l = orgID \<and> ln_Enabled l) (db_links d))"

text \<open>Deleting a link deletes its sync state (\<open>ON DELETE CASCADE\<close>).\<close>

definition DeleteLink :: "uuid \<Rightarrow> uuid \<Rightarrow> (db, unit) prog" where
  "DeleteLink orgID projectID d =
     (if \<not> list_ex (linkWhere orgID projectID) (db_links d)
      then (Inl (ESheet (LinkNotFoundError projectID)), d)
      else (Inr (), d\<lparr>db_links := filter (\<lambda>l. \<not> linkWhere orgID projectID l) (db_links d),
        db_sync := filter (\<lambda>s. \<not> (st_OrgID s = orgID \<and> st_ProjectID s = projectID)) (db_sync d)\<rparr>))"

record Outcome =
  oc_LinkUpdatedAt :: instant
  oc_Err :: string
  oc_At :: instant

definition outcome_where :: "uuid \<Rightarrow> uuid \<Rightarrow> Outcome \<Rightarrow> Link \<Rightarrow> bool" where
  "outcome_where orgID projectID o' l \<longleftrightarrow> linkWhere orgID projectID l \<and> ln_UpdatedAt l = oc_LinkUpdatedAt o'"

definition SaveOutcome :: "uuid \<Rightarrow> uuid \<Rightarrow> Outcome \<Rightarrow> db \<Rightarrow> bool \<times> db" where
  "SaveOutcome orgID projectID o' d =
     (let hit = outcome_where orgID projectID o' in
      if oc_Err o' = '''' then
        (False, d\<lparr>db_links := map (\<lambda>l. if hit l then l\<lparr>ln_FailureStreak := 0, ln_LastError := '''',
           ln_LastSyncedAt := Some (oc_At o')\<rparr> else l) (db_links d)\<rparr>)
      else let links = map (\<lambda>l. if hit l then l\<lparr>ln_FailureStreak := ln_FailureStreak l + 1,
                 ln_LastError := oc_Err o'\<rparr> else l) (db_links d)
           in case find hit links of
                None \<Rightarrow> (False, d)
              | Some l \<Rightarrow>
                if ln_FailureStreak l < DisableAfter then (False, d\<lparr>db_links := links\<rparr>)
                else (list_ex (\<lambda>l. hit l \<and> ln_Enabled l) links,
                      d\<lparr>db_links := map (\<lambda>l. if hit l \<and> ln_Enabled l then l\<lparr>ln_Enabled := False,
                         ln_VerifiedAt := None, ln_AutoDisabledAt := Some (oc_At o')\<rparr> else l) links\<rparr>))"

section \<open>Marking\<close>

definition sync_key :: "SyncState \<Rightarrow> uuid \<times> Entity \<times> uuid" where
  "sync_key s = (st_OrgID s, st_Entity s, st_ID s)"

definition fresh_state :: "uuid \<Rightarrow> uuid \<Rightarrow> Entity \<Rightarrow> uuid \<Rightarrow> bool \<Rightarrow> instant \<Rightarrow> SyncState" where
  "fresh_state orgID projectID e i deleted at = \<lparr>st_OrgID = orgID, st_ProjectID = projectID, st_Entity = e, st_ID = i,
     st_Version = 1, st_SyncedVersion = 0, st_Deleted = deleted, st_Attempts = 0, st_LastError = '''',
     st_LeaseToken = None, st_LeasedUntil = None, st_RetryAfter = None, st_UpdatedAt = at\<rparr>"

definition markSets :: "instant \<Rightarrow> bool \<Rightarrow> SyncState \<Rightarrow> SyncState" where
  "markSets at deleted s = s\<lparr>st_Version := st_Version s + 1, st_Attempts := 0, st_RetryAfter := None,
     st_UpdatedAt := at, st_Deleted := st_Deleted s \<or> deleted\<rparr>"

definition link_fk :: "uuid \<Rightarrow> uuid \<Rightarrow> Link list \<Rightarrow> bool" where
  "link_fk orgID projectID links \<longleftrightarrow> list_ex (linkWhere orgID projectID) links"

definition mark_row :: "uuid \<Rightarrow> uuid \<Rightarrow> Entity \<Rightarrow> uuid \<Rightarrow> bool \<Rightarrow> instant \<Rightarrow> (db, unit) prog" where
  "mark_row orgID projectID e i deleted at d =
     (case find_row sync_key (orgID, e, i) (db_sync d) of
        Some old \<Rightarrow> (Inr (), d\<lparr>db_sync := upsert_row sync_key (markSets at deleted old) (db_sync d)\<rparr>)
      | None \<Rightarrow> if \<not> link_fk orgID projectID (db_links d) then (Inl (Sql ConstraintForeignKey), d)
                else (Inr (), d\<lparr>db_sync := db_sync d @ [fresh_state orgID projectID e i deleted at]\<rparr>))"

fun mark_rows :: "uuid \<Rightarrow> uuid \<Rightarrow> (Entity \<times> uuid \<times> bool) list \<Rightarrow> instant \<Rightarrow> (db, unit) prog" where
  "mark_rows orgID projectID [] at d = (Inr (), d)"
| "mark_rows orgID projectID ((e, i, deleted) # refs) at d =
     (case mark_row orgID projectID e i deleted at d of
        (Inl err, d') \<Rightarrow> (Inl err, d')
      | (Inr _, d') \<Rightarrow> mark_rows orgID projectID refs at d')"

definition store_Mark :: "uuid \<Rightarrow> uuid \<Rightarrow> MirrorRef list \<Rightarrow> instant \<Rightarrow> (db, unit) prog" where
  "store_Mark orgID projectID refs at d =
     atomically (mark_rows orgID projectID (map (\<lambda>r. (mr_Entity r, mr_ID r, mr_Deleted r)) (LockOrder refs)) at) d"

definition shows_name :: "MirrorRef \<Rightarrow> Transaction \<Rightarrow> bool" where
  "shows_name r t = (case mr_Entity r of
     EntityWallet \<Rightarrow> t_WalletID t = mr_ID r \<or> t_ToWalletID t = Some (mr_ID r)
   | EntityCategory \<Rightarrow> t_CategoryID t = Some (mr_ID r)
   | EntityTransaction \<Rightarrow> False)"

definition MarkReferencing :: "uuid \<Rightarrow> uuid \<Rightarrow> MirrorRef \<Rightarrow> instant \<Rightarrow> (db, unit) prog" where
  "MarkReferencing orgID projectID r at d =
     atomically (mark_rows orgID projectID
       (map (\<lambda>t. (EntityTransaction, t_ID t, False))
          (sort_key t_ID (filter (\<lambda>t. t_OrgID t = orgID \<and> t_ProjectID t = projectID \<and> shows_name r t)
             (db_transactions d)))) at) d"

definition entity_rows :: "uuid \<Rightarrow> uuid \<Rightarrow> Entity \<Rightarrow> db \<Rightarrow> uuid list" where
  "entity_rows orgID projectID e d = sort (case e of
     EntityTransaction \<Rightarrow> map t_ID (filter (\<lambda>t. t_OrgID t = orgID \<and> t_ProjectID t = projectID) (db_transactions d))
   | EntityCategory \<Rightarrow> map c_ID (filter (\<lambda>c. c_OrgID c = orgID \<and> c_ProjectID c = projectID) (db_categories d))
   | EntityWallet \<Rightarrow> map w_ID (filter (\<lambda>w. w_OrgID w = orgID \<and> w_ProjectID w = projectID) (db_wallets d)))"

definition entity_exists :: "uuid \<Rightarrow> Entity \<Rightarrow> uuid \<Rightarrow> db \<Rightarrow> bool" where
  "entity_exists orgID e i d = (case e of
     EntityTransaction \<Rightarrow> list_ex (\<lambda>t. t_ID t = i \<and> t_OrgID t = orgID) (db_transactions d)
   | EntityCategory \<Rightarrow> list_ex (\<lambda>c. c_ID c = i \<and> c_OrgID c = orgID) (db_categories d)
   | EntityWallet \<Rightarrow> list_ex (\<lambda>w. w_ID w = i \<and> w_OrgID w = orgID) (db_wallets d))"

definition markGone :: "uuid \<Rightarrow> uuid \<Rightarrow> Entity \<Rightarrow> instant \<Rightarrow> db \<Rightarrow> db" where
  "markGone orgID projectID e at d =
     d\<lparr>db_sync := map (\<lambda>s. if st_OrgID s = orgID \<and> st_ProjectID s = projectID \<and> st_Entity s = e \<and>
          \<not> entity_exists orgID e (st_ID s) d then markSets at True s else s) (db_sync d)\<rparr>"

fun mark_sources :: "uuid \<Rightarrow> uuid \<Rightarrow> Entity list \<Rightarrow> instant \<Rightarrow> (db, unit) prog" where
  "mark_sources orgID projectID [] at d = (Inr (), d)"
| "mark_sources orgID projectID (e # es) at d =
     (case mark_rows orgID projectID (map (\<lambda>i. (e, i, False)) (entity_rows orgID projectID e d)) at d of
        (Inl err, d') \<Rightarrow> (Inl err, d')
      | (Inr _, d') \<Rightarrow> mark_sources orgID projectID es at (markGone orgID projectID e at d'))"

definition MarkAll :: "uuid \<Rightarrow> uuid \<Rightarrow> instant \<Rightarrow> (db, unit) prog" where
  "MarkAll orgID projectID at d =
     atomically (mark_sources orgID projectID [EntityTransaction, EntityCategory, EntityWallet] at) d"

section \<open>Leases\<close>

definition claimable :: "instant \<Rightarrow> SyncState \<Rightarrow> bool" where
  "claimable at s \<longleftrightarrow> st_SyncedVersion s < st_Version s \<and> st_Attempts s < MaxRowAttempts \<and>
     (case st_LeasedUntil s of None \<Rightarrow> True | Some u \<Rightarrow> u < at) \<and>
     (case st_RetryAfter s of None \<Rightarrow> True | Some u \<Rightarrow> u < at)"

definition stateKey :: "uuid \<Rightarrow> uuid \<Rightarrow> Entity \<Rightarrow> uuid \<Rightarrow> SyncState \<Rightarrow> bool" where
  "stateKey orgID projectID e i s \<longleftrightarrow>
     st_OrgID s = orgID \<and> st_ProjectID s = projectID \<and> st_Entity s = e \<and> st_ID s = i"

definition update_state :: "(SyncState \<Rightarrow> bool) \<Rightarrow> (SyncState \<Rightarrow> SyncState) \<Rightarrow> db \<Rightarrow> db" where
  "update_state hit f d = d\<lparr>db_sync := map (\<lambda>s. if hit s then f s else s) (db_sync d)\<rparr>"

definition Claim :: "uuid \<Rightarrow> uuid \<Rightarrow> Entity \<Rightarrow> uuid \<Rightarrow> uuid \<Rightarrow> instant \<Rightarrow> int \<Rightarrow> db \<Rightarrow> SyncState option \<times> db" where
  "Claim orgID projectID e i token at ttl d =
     (let hit = (\<lambda>s. stateKey orgID projectID e i s \<and> claimable at s);
          lease = (\<lambda>s. s\<lparr>st_LeaseToken := Some token, st_LeasedUntil := Some (at + ttl)\<rparr>)
      in (map_option lease (find hit (db_sync d)), update_state hit lease d))"

definition held :: "uuid \<Rightarrow> uuid \<Rightarrow> Entity \<Rightarrow> uuid \<Rightarrow> uuid \<Rightarrow> SyncState \<Rightarrow> bool" where
  "held orgID projectID e i token s \<longleftrightarrow> stateKey orgID projectID e i s \<and> st_LeaseToken s = Some token"

text \<open>\<open>Settle\<close> returns whether the lease still held and whether the row was marked again meanwhile.\<close>

definition Settle :: "uuid \<Rightarrow> uuid \<Rightarrow> Entity \<Rightarrow> uuid \<Rightarrow> int \<Rightarrow> uuid \<Rightarrow> db \<Rightarrow> (bool \<times> bool) \<times> db" where
  "Settle orgID projectID e i version token d =
     (let hit = held orgID projectID e i token;
          settled = (\<lambda>s. s\<lparr>st_SyncedVersion := version, st_Attempts := 0, st_LastError := '''',
            st_LeaseToken := None, st_LeasedUntil := None, st_RetryAfter := None\<rparr>)
      in case find hit (db_sync d) of
           None \<Rightarrow> ((False, False), d)
         | Some s \<Rightarrow> ((True, version < st_Version s), update_state hit settled d))"

record Failure =
  fl_Reason :: string
  fl_Count :: bool
  fl_RetryAfter :: "instant option"
  fl_Version :: int
  fl_At :: instant

definition Release :: "uuid \<Rightarrow> uuid \<Rightarrow> Entity \<Rightarrow> uuid \<Rightarrow> uuid \<Rightarrow> Failure \<Rightarrow> db \<Rightarrow> db" where
  "Release orgID projectID e i token f d =
     update_state (held orgID projectID e i token)
       (\<lambda>s. let same = (fl_Version f = 0 \<or> st_Version s = fl_Version f) in
          s\<lparr>st_Attempts := (if same then (if fl_Count f then st_Attempts s + 1 else st_Attempts s) else st_Attempts s),
            st_LastError := fl_Reason f, st_LeaseToken := None, st_LeasedUntil := None,
            st_RetryAfter := (if same then fl_RetryAfter f else st_RetryAfter s), st_UpdatedAt := fl_At f\<rparr>) d"

text \<open>The order of the entity column, which is text.\<close>

fun entity_order :: "Entity \<Rightarrow> nat" where
  "entity_order EntityCategory = 0"
| "entity_order EntityTransaction = 1"
| "entity_order EntityWallet = 2"

definition ListDirty :: "uuid \<Rightarrow> uuid \<Rightarrow> instant \<Rightarrow> instant \<Rightarrow> nat \<Rightarrow> db \<Rightarrow> MirrorRef list" where
  "ListDirty orgID projectID cutoff at limit d =
     map (\<lambda>s. \<lparr>mr_Entity = st_Entity s, mr_ID = st_ID s, mr_Deleted = st_Deleted s, mr_Cascade = False\<rparr>)
       (take limit (sort_key (\<lambda>s. (st_UpdatedAt s, entity_order (st_Entity s), st_ID s))
          (filter (\<lambda>s. st_OrgID s = orgID \<and> st_ProjectID s = projectID \<and> st_UpdatedAt s < cutoff \<and> claimable at s)
             (db_sync d))))"

record Backlog =
  bl_Pending :: nat
  bl_Failing :: nat
  bl_GivenUp :: nat

definition store_Backlog :: "uuid \<Rightarrow> uuid \<Rightarrow> db \<Rightarrow> Backlog" where
  "store_Backlog orgID projectID d =
     (let rows = filter (\<lambda>s. st_OrgID s = orgID \<and> st_ProjectID s = projectID \<and> state_Dirty s) (db_sync d)
      in \<lparr>bl_Pending = length (filter (\<lambda>s. st_Attempts s < MaxRowAttempts) rows),
          bl_Failing = length (filter (\<lambda>s. 0 < st_Attempts s \<and> st_Attempts s < MaxRowAttempts) rows),
          bl_GivenUp = length (filter (\<lambda>s. MaxRowAttempts \<le> st_Attempts s) rows)\<rparr>)"

end
