(* ===== verification/MirrorMark.thy ===== *)
theory MirrorMark
  imports MirrorStore
begin

text \<open>
  The write side of the mirror (\<open>internal/opensheetsync/mirror.go\<close>) and the
  \<open>commit\<close> helper the wallet, category and transaction services share: a write
  and its marks in one unit of work, the job after it.  \<open>mirror_on\<close> is whether
  the program is wired with an opensheet base URL (without it the services get
  the no-op mirror); \<open>queue_ok\<close> is whether the submitter takes the job, which the
  code never lets fail the caller.
\<close>

record mirror =
  mirror_on :: bool
  queue_ok :: bool

definition nopMirror :: mirror where
  "nopMirror = \<lparr>mirror_on = False, queue_ok = False\<rparr>"

fun mark_cascades :: "uuid \<Rightarrow> uuid \<Rightarrow> MirrorRef list \<Rightarrow> instant \<Rightarrow> (db, unit) prog" where
  "mark_cascades orgID projectID [] now d = (Inr (), d)"
| "mark_cascades orgID projectID (r # refs) now d =
     (if \<not> mr_Cascade r then mark_cascades orgID projectID refs now d
      else case MarkReferencing orgID projectID r now d of
        (Inl e, d') \<Rightarrow> (Inl e, d')
      | (Inr _, d') \<Rightarrow> mark_cascades orgID projectID refs now d')"

definition mirror_Mark :: "mirror \<Rightarrow> instant \<Rightarrow> ctx \<Rightarrow> MirrorRef list \<Rightarrow> (db, unit) prog" where
  "mirror_Mark m now c refs d =
     (if \<not> mirror_on m \<or> refs = [] then (Inr (), d)
      else case tenant_From c of Inl e \<Rightarrow> (Inl e, d) | Inr tc \<Rightarrow>
      if \<not> LinkEnabled (tc_OrgID tc) (tc_ProjectID tc) d then (Inr (), d)
      else (case mark_cascades (tc_OrgID tc) (tc_ProjectID tc) (LockOrder refs) now d of
              (Inl e, d') \<Rightarrow> (Inl e, d')
            | (Inr _, d') \<Rightarrow> store_Mark (tc_OrgID tc) (tc_ProjectID tc) (LockOrder refs) now d'))"

definition mirror_Kick :: "mirror \<Rightarrow> ctx \<Rightarrow> MirrorRef list \<Rightarrow> db \<Rightarrow> db" where
  "mirror_Kick m c refs d =
     (if \<not> mirror_on m \<or> refs = [] then d
      else case tenant_From c of Inl _ \<Rightarrow> d | Inr tc \<Rightarrow>
      if \<not> LinkEnabled (tc_OrgID tc) (tc_ProjectID tc) d \<or> \<not> queue_ok m then d
      else d\<lparr>db_jobs := db_jobs d @ [payloadOf (tc_ProjectID tc) (take maxRefsPerJob (LockOrder refs))]\<rparr>)"

definition commit ::
    "mirror \<Rightarrow> instant \<Rightarrow> string \<Rightarrow> ctx \<Rightarrow> (ctx \<Rightarrow> (db, 'a \<times> MirrorRef list) prog) \<Rightarrow> (db, 'a \<times> MirrorRef list) prog" where
  "commit m now op c write d =
     (if ctx_uow c then (Inl (Unexpected (op @ '': unit of work'') ErrNestedUnitOfWork), d)
      else RunInTx c (\<lambda>c' d0. case write c' d0 of
          (Inl e, d1) \<Rightarrow> (Inl e, d1)
        | (Inr (v, refs), d1) \<Rightarrow>
            (case mirror_Mark m now c' refs d1 of
               (Inl e, d2) \<Rightarrow> (Inl (Unexpected (op @ '': mark'') e), d2)
             | (Inr _, d2) \<Rightarrow> (Inr (v, refs), d2))) d)"

text \<open>The common shape of a service method: commit, then hand the refs over.\<close>

definition commit_kick ::
    "mirror \<Rightarrow> instant \<Rightarrow> string \<Rightarrow> ctx \<Rightarrow> (ctx \<Rightarrow> (db, 'a \<times> MirrorRef list) prog) \<Rightarrow> (db, 'a) prog" where
  "commit_kick m now op c write d = (case commit m now op c write d of
     (Inl e, d') \<Rightarrow> (Inl e, d') | (Inr (v, refs), d') \<Rightarrow> (Inr v, mirror_Kick m c refs d'))"

section \<open>What marking leaves alone\<close>

text \<open>
  \<open>same_books d d'\<close>: the two states differ at most in the mirror's own
  bookkeeping.  Marks and kicks never touch the books.
\<close>

definition same_books :: "db \<Rightarrow> db \<Rightarrow> bool" where
  "same_books d d' \<longleftrightarrow> db_settings d' = db_settings d \<and> db_wallets d' = db_wallets d \<and>
     db_categories d' = db_categories d \<and> db_periods d' = db_periods d \<and> db_closings d' = db_closings d \<and>
     db_transactions d' = db_transactions d \<and> db_links d' = db_links d"

lemma same_books_refl [simp]: "same_books d d"
  by (simp add: same_books_def)

lemma same_books_trans: "same_books a b \<Longrightarrow> same_books b c \<Longrightarrow> same_books a c"
  by (simp add: same_books_def)

lemma same_booksD:
  assumes "same_books d d'"
  shows "db_settings d' = db_settings d" "db_wallets d' = db_wallets d" "db_categories d' = db_categories d"
    "db_periods d' = db_periods d" "db_closings d' = db_closings d" "db_transactions d' = db_transactions d"
    "db_links d' = db_links d"
  using assms by (simp_all add: same_books_def)

lemma mark_row_books: "mark_row o' p e i x at d = (r, d') \<Longrightarrow> same_books d d'"
  by (auto simp: mark_row_def same_books_def split: option.splits if_splits)

lemma mark_rows_books: "mark_rows o' p refs at d = (r, d') \<Longrightarrow> same_books d d'"
proof (induction o' p refs at d rule: mark_rows.induct)
  case (2 o' p e i x refs at d)
  obtain r1 d1 where m: "mark_row o' p e i x at d = (r1, d1)" by fastforce
  then have b: "same_books d d1" by (rule mark_row_books)
  show ?case
  proof (cases r1)
    case Inl
    then show ?thesis using 2(2) m b by auto
  next
    case Inr
    then have "same_books d1 d'" using 2 m by (intro 2(1) [OF m [symmetric] Inr]) auto
    then show ?thesis using b same_books_trans by blast
  qed
qed auto

lemma atomic_books:
  assumes "atomically f d = (r, d')" and "\<And>r d'. f d = (r, d') \<Longrightarrow> same_books d d'"
  shows "same_books d d'"
  using assms by (cases "f d") (auto simp: atomically_def split: sum.splits)

lemma MarkReferencing_books: "MarkReferencing o' p r at d = (x, d') \<Longrightarrow> same_books d d'"
  unfolding MarkReferencing_def by (erule atomic_books) (rule mark_rows_books)

lemma store_Mark_books: "store_Mark o' p refs at d = (x, d') \<Longrightarrow> same_books d d'"
  unfolding store_Mark_def by (erule atomic_books) (rule mark_rows_books)

lemma mark_cascades_books: "mark_cascades o' p refs now d = (x, d') \<Longrightarrow> same_books d d'"
proof (induction o' p refs now d rule: mark_cascades.induct)
  case (2 o' p r refs now d)
  show ?case
  proof (cases "mr_Cascade r")
    case False
    then show ?thesis using 2 by simp
  next
    case True
    obtain r1 d1 where m: "MarkReferencing o' p r now d = (r1, d1)" by fastforce
    then have b: "same_books d d1" by (rule MarkReferencing_books)
    show ?thesis
    proof (cases r1)
      case Inl
      then show ?thesis using 2(3) m b True by auto
    next
      case (Inr u)
      then have "same_books d1 d'" using 2(3) m True by (intro 2(2) [OF _ m [symmetric] Inr]) auto
      then show ?thesis using b same_books_trans by blast
    qed
  qed
qed auto

lemma mirror_Mark_books: "mirror_Mark m now c refs d = (r, d') \<Longrightarrow> same_books d d'"
  by (auto simp: mirror_Mark_def split: if_splits sum.splits prod.splits
      dest!: sym [of _ d'] dest: mark_cascades_books store_Mark_books intro: same_books_trans)

lemma mirror_Kick_books [simp]: "same_books d (mirror_Kick m c refs d)"
  by (simp add: mirror_Kick_def same_books_def split: sum.splits)

section \<open>What a commit does\<close>

lemma commit_Inr:
  assumes "commit m now op c write d = (Inr (v, refs), d')"
  obtains d1 where "\<not> ctx_uow c" "write (c\<lparr>ctx_uow := True\<rparr>) d = (Inr (v, refs), d1)"
    "mirror_Mark m now (c\<lparr>ctx_uow := True\<rparr>) refs d1 = (Inr (), d')" "same_books d1 d'"
  using assms mirror_Mark_books
  by (auto simp: commit_def RunInTx_Inr split: if_splits prod.splits sum.splits)

lemma commit_Inl: "commit m now op c write d = (Inl e, d') \<Longrightarrow> d' = d"
  using uow.rollback by (fastforce simp: commit_def split: if_splits)

lemma commit_kick_Inr:
  assumes "commit_kick m now op c write d = (Inr v, d')"
  obtains d1 refs where "\<not> ctx_uow c" "write (c\<lparr>ctx_uow := True\<rparr>) d = (Inr (v, refs), d1)" "same_books d1 d'"
proof -
  obtain refs d2 where k: "commit m now op c write d = (Inr (v, refs), d2)" "d' = mirror_Kick m c refs d2"
    using assms by (auto simp: commit_kick_def split: prod.splits sum.splits)
  show thesis
    by (rule commit_Inr [OF k(1)]) (use k(2) that same_books_trans mirror_Kick_books in blast)
qed

lemma commit_kick_Inl: "commit_kick m now op c write d = (Inl e, d') \<Longrightarrow> d' = d"
  by (auto simp: commit_kick_def split: prod.splits sum.splits dest: commit_Inl)

text \<open>A commit keeps whatever its write keeps, provided the books determine it.\<close>

lemma commit_kick_preserves:
  assumes "commit_kick m now op c write d = (r, d')" and "I d"
    and "\<And>v d1. write (c\<lparr>ctx_uow := True\<rparr>) d = (Inr v, d1) \<Longrightarrow> I d1"
    and "\<And>a b. same_books a b \<Longrightarrow> I a \<Longrightarrow> I b"
  shows "I d'"
proof (cases r)
  case (Inl e)
  then show ?thesis using commit_kick_Inl assms(1,2) by metis
next
  case (Inr v)
  then show ?thesis using assms by (metis commit_kick_Inr)
qed

text \<open>With the mirror off a commit is the bare unit of work.\<close>

lemma mirror_Mark_off [simp]: "\<not> mirror_on m \<Longrightarrow> mirror_Mark m now c refs d = (Inr (), d)"
  by (simp add: mirror_Mark_def)

lemma mirror_Kick_off [simp]: "\<not> mirror_on m \<Longrightarrow> mirror_Kick m c refs d = d"
  by (simp add: mirror_Kick_def)

lemma commit_off:
  assumes "\<not> mirror_on m" "\<not> ctx_uow c"
  shows "commit m now op c write d = RunInTx c write d"
  using assms by (auto simp: commit_def RunInTx_def split: prod.splits sum.splits)

end
