(* ===== verification/RowStore.thy ===== *)
theory RowStore
  imports MirrorMark
begin

text \<open>
  The contract the SQLite stores of the tenant tables share, as a locale: a save
  inserts a new row as the columns hold it, or overlays the mutable columns of a row the caller's
  organisation and project own; a lookup is by id within the organisation; a
  delete removes a row the caller owns.  The lemmas about isolation and about
  reading one's own writes are proved once here, and every store interprets the
  locale.
\<close>

definition in_scope :: "('r \<Rightarrow> uuid) \<Rightarrow> ('r \<Rightarrow> uuid) \<Rightarrow> Tenant \<Rightarrow> 'r \<Rightarrow> bool" where
  "in_scope org prj tc r \<longleftrightarrow> org r = tc_OrgID tc \<and> prj r = tc_ProjectID tc"

text \<open>The rows outside a tenant's scope.\<close>

definition foreign_rows :: "('r \<Rightarrow> uuid) \<Rightarrow> ('r \<Rightarrow> uuid) \<Rightarrow> Tenant \<Rightarrow> 'r list \<Rightarrow> 'r list" where
  "foreign_rows org prj tc rows = filter (\<lambda>r. \<not> in_scope org prj tc r) rows"

lemma foreign_upsert:
  assumes "in_scope org prj tc x"
    and "\<And>old. find_row key (key x) rows = Some old \<Longrightarrow> in_scope org prj tc old"
  shows "foreign_rows org prj tc (upsert_row key x rows) = foreign_rows org prj tc rows"
  using assms by (induction rows) (auto simp: foreign_rows_def table_simps split: if_splits)

lemma foreign_delete:
  assumes "keyed key rows" "find_row key i rows = Some old" "in_scope org prj tc old"
  shows "foreign_rows org prj tc (delete_row key i rows) = foreign_rows org prj tc rows"
proof -
  have "in_scope org prj tc r" if "r \<in> set rows" "key r = i" for r
    using that assms by (simp add: find_row_Some_iff [OF assms(1)])
      (metis assms(1,2) find_row_Some_iff option.inject)
  then show ?thesis by (auto simp: foreign_rows_def delete_row_def filter_filter intro!: filter_cong)
qed

locale row_store =
  fixes key org prj :: "'r \<Rightarrow> uuid"
    and stored :: "'r \<Rightarrow> 'r"
    and overlay :: "'r \<Rightarrow> 'r \<Rightarrow> 'r"
    and rows :: "db \<Rightarrow> 'r list"
    and save :: "ctx \<Rightarrow> 'r \<Rightarrow> (db, unit) prog"
    and byid :: "ctx \<Rightarrow> uuid \<Rightarrow> db \<Rightarrow> (err, 'r) res"
  assumes stored_key: "key (stored r) = key r"
    and stored_org: "org (stored r) = org r"
    and stored_prj: "prj (stored r) = prj r"
    and overlay_key: "key (overlay old new) = key old"
    and overlay_org: "org (overlay old new) = org old"
    and overlay_prj: "prj (overlay old new) = prj old"
    and save_insert: "save c r d = (Inr (), d') \<Longrightarrow> find_row key (key r) (rows d) = None \<Longrightarrow> rows d' = rows d @ [stored r]"
    and save_update: "save c r d = (Inr (), d') \<Longrightarrow> find_row key (key r) (rows d) = Some old \<Longrightarrow>
      rows d' = upsert_row key (overlay old r) (rows d) \<and>
      (\<exists>tc. tenant_From c = Inr tc \<and> in_scope org prj tc old)"
    and save_tenant: "save c r d = (Inr (), d') \<Longrightarrow> \<exists>tc. tenant_From c = Inr tc"
    and save_failed: "save c r d = (Inl e, d') \<Longrightarrow> d' = d"
    and byid_found: "keyed key (rows d) \<Longrightarrow> tenant_From c = Inr tc \<Longrightarrow>
      byid c i d = Inr r \<longleftrightarrow> find_row key i (rows d) = Some r \<and> org r = tc_OrgID tc"
begin

lemma save_row:
  assumes "save c r d = (Inr (), d')"
  obtains row where "rows d' = upsert_row key row (rows d)" "key row = key r"
    "row = stored r \<and> find_row key (key r) (rows d) = None \<or>
     (\<exists>old tc. find_row key (key r) (rows d) = Some old \<and> row = overlay old r \<and> tenant_From c = Inr tc \<and> in_scope org prj tc old)"
proof (cases "find_row key (key r) (rows d)")
  case None
  have "find_row key (key (stored r)) (rows d) = None" unfolding stored_key by (rule None)
  from upsert_row_new [OF this] have "rows d' = upsert_row key (stored r) (rows d)"
    unfolding save_insert [OF assms None] by (rule sym)
  then show ?thesis by (rule that [OF _ stored_key]) (rule disjI1, rule conjI [OF refl None])
next
  case (Some old)
  have "key (overlay old r) = key r"
    using find_row_SomeD [OF Some] overlay_key [of old r] by (elim conjE) (rule trans)
  note u = save_update [OF assms Some]
  from u obtain tc where tc: "tenant_From c = Inr tc" "in_scope org prj tc old" by blast
  show ?thesis
    by (rule that [OF conjunct1 [OF u] \<open>key (overlay old r) = key r\<close>])
       (rule disjI2, rule exI [of _ old], rule exI [of _ tc], use Some tc in blast)
qed

lemma save_keyed:
  assumes "keyed key (rows d)" "save c r d = (x, d')"
  shows "keyed key (rows d')"
proof (cases x)
  case (Inl e)
  then show ?thesis using assms save_failed by blast
next
  case (Inr u)
  then have "save c r d = (Inr (), d')" using assms by simp
  then show ?thesis by (rule save_row) (use assms(1) keyed_upsert_row in metis)
qed

text \<open>A save by one tenant leaves the rows of every other organisation and project as they were.\<close>

lemma save_isolated:
  assumes "save c r d = (x, d')" "tenant_From c = Inr tc" "in_scope org prj tc r"
  shows "foreign_rows org prj tc (rows d') = foreign_rows org prj tc (rows d)"
proof (cases x)
  case (Inl e)
  then show ?thesis using assms save_failed by blast
next
  case (Inr u)
  then have s: "save c r d = (Inr (), d')" using assms by simp
  show ?thesis
  proof (rule save_row [OF s])
    fix row assume r: "rows d' = upsert_row key row (rows d)" "key row = key r"
      "row = stored r \<and> find_row key (key r) (rows d) = None \<or>
       (\<exists>old tc. find_row key (key r) (rows d) = Some old \<and> row = overlay old r \<and> tenant_From c = Inr tc \<and> in_scope org prj tc old)"
    have "in_scope org prj tc row" using r assms(2,3) overlay_org overlay_prj stored_org stored_prj by (auto simp: in_scope_def)
    then show ?thesis using r assms(2) by (auto intro!: foreign_upsert)
  qed
qed

lemma save_then_find:
  assumes "save c r d = (Inr (), d')"
  obtains row where "find_row key (key r) (rows d') = Some row"
    "row = stored r \<or> (\<exists>old. find_row key (key r) (rows d) = Some old \<and> row = overlay old r)"
    "\<And>j. j \<noteq> key r \<Longrightarrow> find_row key j (rows d') = find_row key j (rows d)"
  by (rule save_row [OF assms], rule that) (auto simp: find_row_upsert)

end

locale deletable_store = row_store +
  fixes delete :: "ctx \<Rightarrow> uuid \<Rightarrow> (db, unit) prog"
  assumes delete_ok: "keyed key (rows d) \<Longrightarrow> delete c i d = (Inr (), d') \<Longrightarrow>
      rows d' = delete_row key i (rows d) \<and>
      (\<exists>tc old. tenant_From c = Inr tc \<and> find_row key i (rows d) = Some old \<and> in_scope org prj tc old)"
    and delete_failed: "delete c i d = (Inl e, d') \<Longrightarrow> d' = d"
begin

lemma delete_keyed:
  assumes "keyed key (rows d)" "delete c i d = (x, d')"
  shows "keyed key (rows d')"
proof (cases x)
  case (Inl e)
  then show ?thesis using assms delete_failed by blast
next
  case (Inr u)
  then have "delete c i d = (Inr (), d')" using assms by simp
  from delete_ok [OF assms(1) this] show ?thesis
    using keyed_delete_row [OF assms(1)] by simp
qed

lemma delete_isolated:
  assumes "keyed key (rows d)" "delete c i d = (x, d')" "tenant_From c = Inr tc"
  shows "foreign_rows org prj tc (rows d') = foreign_rows org prj tc (rows d)"
proof (cases x)
  case (Inl e)
  then show ?thesis using assms delete_failed by blast
next
  case (Inr u)
  then have "delete c i d = (Inr (), d')" using assms by simp
  from delete_ok [OF assms(1) this] show ?thesis
    using assms foreign_delete by auto
qed

lemma delete_then_absent:
  assumes "keyed key (rows d)" "delete c i d = (Inr (), d')"
  shows "find_row key i (rows d') = None"
  using delete_ok [OF assms] by (simp add: find_row_delete)

end

end
