(* ===== verification/WalletService.thy ===== *)
theory WalletService
  imports RowStore "HOL-Library.List_Lexorder"
begin

text \<open>
  Package \<open>internal/wallet\<close>: the SQLite store (\<open>sqlite.go\<close>), the service
  (\<open>service.go\<close>) and its lookup by name.  Every write runs in a unit of work that
  also marks the wallet for the mirror.
\<close>

section \<open>The store (sqlite.go)\<close>

text \<open>The columns an update sets.\<close>

definition wallet_overlay :: "Wallet \<Rightarrow> Wallet \<Rightarrow> Wallet" where
  "wallet_overlay old w = old\<lparr>w_Name := w_Name w, w_Kind := w_Kind w, w_Provider := w_Provider w,
     w_Currency := w_Currency w, w_ExcludeFromTotal := w_ExcludeFromTotal w, w_ArchivedAt := w_ArchivedAt w,
     w_UpdatedAt := w_UpdatedAt w\<rparr>"

definition wallet_Save :: "ctx \<Rightarrow> Wallet \<Rightarrow> (db, unit) prog" where
  "wallet_Save c w d =
     (case tenant_From c of Inl e \<Rightarrow> (Inl e, d) | Inr tc \<Rightarrow>
      if \<not> wallet_checks w then (Inl (Sql ConstraintCheck), d)
      else case find_row w_ID (w_ID w) (db_wallets d) of
        Some old \<Rightarrow>
          if w_OrgID old \<noteq> tc_OrgID tc \<or> w_ProjectID old \<noteq> tc_ProjectID tc
          then (Inl (EWallet (WalletNotFoundError (RefID (w_ID w)))), d)
          else if wallet_name_taken (db_wallets d) (wallet_overlay old w)
          then (Inl (EWallet (WalletAlreadyExistsError (w_Name w))), d)
          else (Inr (), d\<lparr>db_wallets := upsert_row w_ID (wallet_overlay old w) (db_wallets d)\<rparr>)
      | None \<Rightarrow>
          if wallet_name_taken (db_wallets d) w then (Inl (EWallet (WalletAlreadyExistsError (w_Name w))), d)
          else (Inr (), d\<lparr>db_wallets := db_wallets d @ [w]\<rparr>))"

definition wallet_ByID :: "ctx \<Rightarrow> uuid \<Rightarrow> db \<Rightarrow> (err, Wallet) res" where
  "wallet_ByID c wid d = (case tenant_From c of Inl e \<Rightarrow> Inl e | Inr tc \<Rightarrow>
     (case find (\<lambda>w. w_ID w = wid \<and> w_OrgID w = tc_OrgID tc) (db_wallets d) of
        None \<Rightarrow> Inl (EWallet (WalletNotFoundError (RefID wid))) | Some w \<Rightarrow> Inr w))"

definition wallet_by_name :: "Wallet \<Rightarrow> int list \<times> uuid" where
  "wallet_by_name w = (map byte (w_Name w), w_ID w)"

definition wallet_List :: "ctx \<Rightarrow> uuid \<Rightarrow> uuid \<Rightarrow> bool \<Rightarrow> db \<Rightarrow> (err, Wallet list) res" where
  "wallet_List c orgID projectID includeArchived d = (case tenant_From c of Inl e \<Rightarrow> Inl e | Inr tc \<Rightarrow>
     Inr (sort_key wallet_by_name (filter (\<lambda>w. w_OrgID w = orgID \<and> w_OrgID w = tc_OrgID tc \<and>
       w_ProjectID w = projectID \<and> (includeArchived \<or> w_ArchivedAt w = None)) (db_wallets d))))"

text \<open>The foreign keys of \<open>transactions\<close> to \<open>wallets\<close> restrict deletes.\<close>

definition wallet_referenced :: "Wallet \<Rightarrow> db \<Rightarrow> bool" where
  "wallet_referenced w d \<longleftrightarrow> list_ex (\<lambda>t. t_OrgID t = w_OrgID w \<and>
     (t_WalletID t = w_ID w \<or> t_ToWalletID t = Some (w_ID w))) (db_transactions d)"

definition wallet_Delete :: "ctx \<Rightarrow> uuid \<Rightarrow> (db, unit) prog" where
  "wallet_Delete c wid d =
     (case tenant_From c of Inl e \<Rightarrow> (Inl e, d) | Inr tc \<Rightarrow>
     (case find (\<lambda>w. w_ID w = wid \<and> w_OrgID w = tc_OrgID tc \<and> w_ProjectID w = tc_ProjectID tc) (db_wallets d) of
        None \<Rightarrow> (Inl (EWallet (WalletNotFoundError (RefID wid))), d)
      | Some w \<Rightarrow>
          if wallet_referenced w d then (Inl (EWallet (WalletInUseError wid)), d)
          else (Inr (), d\<lparr>db_wallets := delete_row w_ID wid (db_wallets d)\<rparr>)))"

section \<open>The service (service.go)\<close>

definition wallet_saveRow :: "ctx \<Rightarrow> Wallet \<Rightarrow> string \<Rightarrow> (db, unit) prog" where
  "wallet_saveRow c w op d = (case wallet_Save c w d of
     (Inl e, d') \<Rightarrow> (Inl (if wallet_IsAlreadyExistsError e \<or> wallet_IsNotFoundError e then e
                           else Unexpected (op @ '': save'') e), d')
   | (Inr u, d') \<Rightarrow> (Inr u, d'))"

definition wallet_ref :: "uuid \<Rightarrow> bool \<Rightarrow> bool \<Rightarrow> MirrorRef" where
  "wallet_ref i deleted cascade = \<lparr>mr_Entity = EntityWallet, mr_ID = i, mr_Deleted = deleted, mr_Cascade = cascade\<rparr>"

definition wallets_create :: "instant \<Rightarrow> uuid \<Rightarrow> ctx \<Rightarrow> WalletParams \<Rightarrow> (db, Wallet) prog" where
  "wallets_create now wid c p d =
     (case tenant_From c of Inl e \<Rightarrow> (Inl e, d) | Inr tc \<Rightarrow>
     (case ParseCurrency (wp_Currency p) of Inl e \<Rightarrow> (Inl (EMoney e), d) | Inr cur \<Rightarrow>
     (case wallet_New wid now (tc_OrgID tc) (tc_ProjectID tc) (p\<lparr>wp_Currency := cur\<rparr>) of
        Inl e \<Rightarrow> (Inl e, d)
      | Inr w \<Rightarrow> (case wallet_saveRow c w ''wallet.Create'' d of
                    (Inl e, d') \<Rightarrow> (Inl e, d') | (Inr _, d') \<Rightarrow> (Inr w, d')))))"

definition wallets_Create :: "mirror \<Rightarrow> instant \<Rightarrow> uuid \<Rightarrow> ctx \<Rightarrow> WalletParams \<Rightarrow> (db, Wallet) prog" where
  "wallets_Create m now wid c p d = commit_kick m now ''wallet.Create'' c (\<lambda>c' d0.
     case wallets_create now wid c' p d0 of
       (Inl e, d1) \<Rightarrow> (Inl e, d1)
     | (Inr w, d1) \<Rightarrow> (Inr (w, [wallet_ref (w_ID w) False False]), d1)) d"

definition wallets_ByID :: "ctx \<Rightarrow> uuid \<Rightarrow> db \<Rightarrow> (err, Wallet) res" where
  "wallets_ByID c wid d = (case tenant_From c of Inl e \<Rightarrow> Inl e | Inr tc \<Rightarrow>
     (case wallet_ByID c wid d of
        Inl e \<Rightarrow> Inl (if wallet_IsNotFoundError e then e else Unexpected ''wallet.ByID: byID'' e)
      | Inr w \<Rightarrow> if w_OrgID w \<noteq> tc_OrgID tc \<or> w_ProjectID w \<noteq> tc_ProjectID tc
                 then Inl (EWallet (WalletNotFoundError (RefID wid))) else Inr w))"

definition wallets_save :: "mirror \<Rightarrow> instant \<Rightarrow> ctx \<Rightarrow> Wallet \<Rightarrow> string \<Rightarrow> bool \<Rightarrow> (db, unit) prog" where
  "wallets_save m now c w op cascade d = commit_kick m now op c (\<lambda>c' d0.
     case wallet_saveRow c' w op d0 of
       (Inl e, d1) \<Rightarrow> (Inl e, d1)
     | (Inr _, d1) \<Rightarrow> (Inr ((), [wallet_ref (w_ID w) False cascade]), d1)) d"

text \<open>
  \<open>wallets_edit\<close> is the body \<open>Update\<close>, \<open>Edit\<close> and \<open>Rename\<close> share: load, apply one
  method of the aggregate, save; \<open>cascade\<close> compares the wallet before and after.
\<close>

definition wallets_edit :: "mirror \<Rightarrow> instant \<Rightarrow> ctx \<Rightarrow> uuid \<Rightarrow> string \<Rightarrow> (Wallet \<Rightarrow> (err, unit) res \<times> Wallet)
    \<Rightarrow> (Wallet \<Rightarrow> Wallet \<Rightarrow> bool) \<Rightarrow> (db, Wallet) prog" where
  "wallets_edit m now c wid op method cascade d =
     (case wallets_ByID c wid d of Inl e \<Rightarrow> (Inl e, d) | Inr w \<Rightarrow>
     (case method w of
        (Inl e, _) \<Rightarrow> (Inl e, d)
      | (Inr _, w') \<Rightarrow>
        (case wallets_save m now c w' op (cascade w w') d of
           (Inl e, d') \<Rightarrow> (Inl e, d') | (Inr _, d') \<Rightarrow> (Inr w', d'))))"

definition wallets_Update ::
    "mirror \<Rightarrow> instant \<Rightarrow> ctx \<Rightarrow> uuid \<Rightarrow> WalletKind \<Rightarrow> string \<Rightarrow> bool \<Rightarrow> (db, Wallet) prog" where
  "wallets_Update m now c wid kind provider exclude d =
     wallets_edit m now c wid ''wallet.Update'' (wallet_Update now kind provider exclude) (\<lambda>_ _. False) d"

definition wallets_Edit ::
    "mirror \<Rightarrow> instant \<Rightarrow> ctx \<Rightarrow> uuid \<Rightarrow> string \<Rightarrow> WalletKind \<Rightarrow> string \<Rightarrow> bool \<Rightarrow> (db, Wallet) prog" where
  "wallets_Edit m now c wid name kind provider exclude d =
     wallets_edit m now c wid ''wallet.Edit'' (wallet_Edit now name kind provider exclude)
       (\<lambda>w w'. w_Name w' \<noteq> w_Name w) d"

definition wallets_Rename :: "mirror \<Rightarrow> instant \<Rightarrow> ctx \<Rightarrow> uuid \<Rightarrow> string \<Rightarrow> (db, Wallet) prog" where
  "wallets_Rename m now c wid name d =
     wallets_edit m now c wid ''wallet.Rename'' (wallet_Rename now name) (\<lambda>w w'. w_Name w' \<noteq> w_Name w) d"

definition wallets_Archive :: "mirror \<Rightarrow> instant \<Rightarrow> ctx \<Rightarrow> uuid \<Rightarrow> (db, Wallet) prog" where
  "wallets_Archive m now c wid d =
     (case wallets_ByID c wid d of Inl e \<Rightarrow> (Inl e, d) | Inr w \<Rightarrow>
      if wallet_IsArchived w then (Inr w, d)
      else let w' = wallet_Archive now w in
        case wallets_save m now c w' ''wallet.Archive'' False d of
          (Inl e, d') \<Rightarrow> (Inl e, d') | (Inr _, d') \<Rightarrow> (Inr w', d'))"

definition wallets_Unarchive :: "mirror \<Rightarrow> instant \<Rightarrow> ctx \<Rightarrow> uuid \<Rightarrow> (db, Wallet) prog" where
  "wallets_Unarchive m now c wid d =
     (case wallets_ByID c wid d of Inl e \<Rightarrow> (Inl e, d) | Inr w \<Rightarrow>
      if \<not> wallet_IsArchived w then (Inr w, d)
      else let w' = wallet_Unarchive now w in
        case wallets_save m now c w' ''wallet.Unarchive'' False d of
          (Inl e, d') \<Rightarrow> (Inl e, d') | (Inr _, d') \<Rightarrow> (Inr w', d'))"

definition wallets_Delete :: "mirror \<Rightarrow> instant \<Rightarrow> ctx \<Rightarrow> uuid \<Rightarrow> (db, unit) prog" where
  "wallets_Delete m now c wid d =
     (case wallets_ByID c wid d of Inl e \<Rightarrow> (Inl e, d) | Inr _ \<Rightarrow>
      commit_kick m now ''wallet.Delete'' c (\<lambda>c' d0.
        case wallet_Delete c' wid d0 of
          (Inl e, d1) \<Rightarrow> (Inl (if wallet_IsInUseError e \<or> wallet_IsNotFoundError e then e
                                else Unexpected ''wallet.Delete: delete'' e), d1)
        | (Inr _, d1) \<Rightarrow> (Inr ((), [wallet_ref wid True False]), d1)) d)"

definition wallets_List :: "ctx \<Rightarrow> bool \<Rightarrow> db \<Rightarrow> (err, Wallet list) res" where
  "wallets_List c includeArchived d = (case tenant_From c of Inl e \<Rightarrow> Inl e | Inr tc \<Rightarrow>
     (case wallet_List c (tc_OrgID tc) (tc_ProjectID tc) includeArchived d of
        Inl e \<Rightarrow> Inl (Unexpected ''wallet.List: list'' e) | Inr out \<Rightarrow> Inr out))"

definition wallets_ResolveByName :: "ctx \<Rightarrow> string \<Rightarrow> db \<Rightarrow> (err, Wallet) res" where
  "wallets_ResolveByName c q0 d =
     (let q = TrimSpace q0; needle = ToLower q in
      if needle = '''' then Inl (EWallet (WalletNotFoundError (RefText q)))
      else case wallets_List c False d of Inl e \<Rightarrow> Inl e | Inr active \<Rightarrow>
        let exact = filter (\<lambda>w. ToLower (w_Name w) = needle) active;
            partial = filter (\<lambda>w. ToLower (w_Name w) \<noteq> needle \<and> Contains (ToLower (w_Name w)) needle) active;
            candidates = (if exact = [] then partial else exact)
        in case candidates of
             [] \<Rightarrow> Inl (EWallet (WalletNotFoundError (RefText q)))
           | [w] \<Rightarrow> Inr w
           | _ \<Rightarrow> Inl (EWallet (WalletAmbiguousNameError q (sort_key (map byte) (map w_Name candidates)))))"

section \<open>The store keeps its contract\<close>

lemma wallet_Save_Inr:
  "wallet_Save c w d = (Inr u, d') \<longleftrightarrow> (\<exists>tc. tenant_From c = Inr tc \<and> wallet_checks w \<and>
     (case find_row w_ID (w_ID w) (db_wallets d) of
        None \<Rightarrow> \<not> wallet_name_taken (db_wallets d) w \<and> d' = d\<lparr>db_wallets := db_wallets d @ [w]\<rparr>
      | Some old \<Rightarrow> w_OrgID old = tc_OrgID tc \<and> w_ProjectID old = tc_ProjectID tc \<and>
          \<not> wallet_name_taken (db_wallets d) (wallet_overlay old w) \<and>
          d' = d\<lparr>db_wallets := upsert_row w_ID (wallet_overlay old w) (db_wallets d)\<rparr>))"
  by (auto simp: wallet_Save_def tenant_From_def split: option.splits if_splits)

lemma wallet_Save_Inl: "wallet_Save c w d = (Inl e, d') \<Longrightarrow> d' = d"
  by (auto simp: wallet_Save_def split: sum.splits option.splits if_splits)

lemma wallet_Delete_Inr:
  "wallet_Delete c i d = (Inr u, d') \<longleftrightarrow> (\<exists>tc w. tenant_From c = Inr tc \<and>
     find (\<lambda>w. w_ID w = i \<and> w_OrgID w = tc_OrgID tc \<and> w_ProjectID w = tc_ProjectID tc) (db_wallets d) = Some w \<and>
     \<not> wallet_referenced w d \<and> d' = d\<lparr>db_wallets := delete_row w_ID i (db_wallets d)\<rparr>)"
  by (auto simp: wallet_Delete_def tenant_From_def split: option.splits if_splits)

lemma wallet_Delete_Inl: "wallet_Delete c i d = (Inl e, d') \<Longrightarrow> d' = d"
  by (auto simp: wallet_Delete_def split: sum.splits option.splits if_splits)

interpretation wallet_store: deletable_store w_ID w_OrgID w_ProjectID "\<lambda>w. w" wallet_overlay db_wallets wallet_Save wallet_ByID wallet_Delete
proof (unfold_locales, goal_cases)
  case (11 d c tc i r)
  show ?case
    unfolding wallet_ByID_def 11(2) by (auto simp: find_keyed [OF 11(1)] split: option.splits)
next
  case (12 d c i d')
  then show ?case by (auto simp: wallet_Delete_Inr find_keyed in_scope_def split: option.splits if_splits)
qed (auto simp: wallet_overlay_def wallet_Save_Inr in_scope_def dest: wallet_Save_Inl wallet_Delete_Inl)

text \<open>
  The workflow that opens a wallet with its opening balance
  (\<open>internal/wallet/open.go\<close>): the wallet row, the opening transaction and their
  marks in one unit of work.  The recorder of the opening transaction and the
  dater are its ports.
\<close>

type_synonym opening_recorder = "ctx \<Rightarrow> uuid \<Rightarrow> Amount \<Rightarrow> instant \<Rightarrow> uuid \<Rightarrow> (db, uuid) prog"
type_synonym opening_dater = "ctx \<Rightarrow> instant \<Rightarrow> db \<Rightarrow> (err, OpeningDate) res"

definition no_opening :: "Amount option \<Rightarrow> bool" where
  "no_opening opening = (case opening of None \<Rightarrow> True | Some a \<Rightarrow> amount_IsZero a)"

definition open_date :: "opening_dater \<Rightarrow> ctx \<Rightarrow> Amount option \<Rightarrow> instant \<Rightarrow> db \<Rightarrow> (err, OpeningDate) res" where
  "open_date dater c opening at d =
     (if no_opening opening then Inr \<lparr>od_At = at, od_Date = Date 0 0 0, od_Moved = False\<rparr>
      else dater c at d)"

definition open_body :: "mirror \<Rightarrow> opening_recorder \<Rightarrow> opening_dater \<Rightarrow> instant \<Rightarrow> uuid \<Rightarrow> WalletParams \<Rightarrow> Amount option
    \<Rightarrow> instant \<Rightarrow> uuid \<Rightarrow> ctx \<Rightarrow> (db, (Wallet \<times> OpeningDate) \<times> MirrorRef list) prog" where
  "open_body m recorder dater now wid p opening at by' c d =
     (case wallets_create now wid c p d of (Inl e, d1) \<Rightarrow> (Inl e, d1) | (Inr created, d1) \<Rightarrow>
     (case open_date dater c opening at d1 of Inl e \<Rightarrow> (Inl e, d1) | Inr dated \<Rightarrow>
      let walletRef = wallet_ref (w_ID created) False False in
      case (if no_opening opening then (Inr [walletRef], d1)
            else case recorder c (w_ID created) (the opening) (od_At dated) by' d1 of
              (Inl e, d2) \<Rightarrow> (Inl e, d2)
            | (Inr txID, d2) \<Rightarrow> (Inr [walletRef, \<lparr>mr_Entity = EntityTransaction, mr_ID = txID,
                                   mr_Deleted = False, mr_Cascade = False\<rparr>], d2)) of
        (Inl e, d2) \<Rightarrow> (Inl e, d2)
      | (Inr refs, d2) \<Rightarrow>
        (case mirror_Mark m now c [walletRef] d2 of
           (Inl e, d3) \<Rightarrow> (Inl (Unexpected ''wallet.Open: mark'' e), d3)
         | (Inr _, d3) \<Rightarrow> (Inr ((created, dated), refs), d3))))"

definition open_Run :: "mirror \<Rightarrow> opening_recorder \<Rightarrow> opening_dater \<Rightarrow> instant \<Rightarrow> uuid \<Rightarrow> ctx \<Rightarrow> WalletParams
    \<Rightarrow> Amount option \<Rightarrow> instant \<Rightarrow> (db, Wallet \<times> OpeningDate) prog" where
  "open_Run m recorder dater now wid c p opening at d =
     (case tenant_From c of Inl e \<Rightarrow> (Inl e, d) | Inr tc \<Rightarrow>
      if ctx_uow c then (Inl (Unexpected ''wallet.Open: unit of work'' ErrNestedUnitOfWork), d)
      else case RunInTx c (open_body m recorder dater now wid p opening at (tc_UserID tc)) d of
        (Inl e, d') \<Rightarrow> (Inl e, d')
      | (Inr (out, refs), d') \<Rightarrow> (Inr out, mirror_Kick m c refs d'))"

definition open_Preview :: "opening_dater \<Rightarrow> ctx \<Rightarrow> Amount option \<Rightarrow> instant \<Rightarrow> db \<Rightarrow> (err, OpeningDate) res" where
  "open_Preview dater c opening at d = (case tenant_From c of Inl e \<Rightarrow> Inl e | Inr _ \<Rightarrow> open_date dater c opening at d)"

end
