(* ===== verification/CategoryService.thy ===== *)
theory CategoryService
  imports RowStore "HOL-Library.List_Lexorder"
begin

text \<open>
  Package \<open>internal/category\<close>: the SQLite store (\<open>sqlite.go\<close>) and the service
  (\<open>service.go\<close>), with name resolution and the seeding of default categories.
  The translated names of the defaults are the parameter \<open>namer\<close>.
\<close>

section \<open>The store (sqlite.go)\<close>

definition category_stored :: "Category \<Rightarrow> Category" where
  "category_stored c = c\<lparr>c_SortOrder := SortOrder32 (c_SortOrder c)\<rparr>"

definition category_overlay :: "Category \<Rightarrow> Category \<Rightarrow> Category" where
  "category_overlay old c = old\<lparr>c_Name := c_Name c, c_Kind := c_Kind c, c_Icon := c_Icon c, c_Color := c_Color c,
     c_SortOrder := SortOrder32 (c_SortOrder c), c_ArchivedAt := c_ArchivedAt c, c_UpdatedAt := c_UpdatedAt c\<rparr>"

definition category_exists_error :: "Category \<Rightarrow> err" where
  "category_exists_error c = ECategory (CategoryAlreadyExistsError (c_Name c) (category_kind_str (c_Kind c)))"

definition category_Save :: "ctx \<Rightarrow> Category \<Rightarrow> (db, unit) prog" where
  "category_Save x c d =
     (case tenant_From x of Inl e \<Rightarrow> (Inl e, d) | Inr tc \<Rightarrow>
      if \<not> category_checks c then (Inl (Sql ConstraintCheck), d)
      else case find_row c_ID (c_ID c) (db_categories d) of
        Some old \<Rightarrow>
          if c_OrgID old \<noteq> tc_OrgID tc \<or> c_ProjectID old \<noteq> tc_ProjectID tc
          then (Inl (ECategory (CategoryNotFoundError (c_ID c) '''')), d)
          else if category_name_taken (db_categories d) (category_overlay old c) then (Inl (category_exists_error c), d)
          else (Inr (), d\<lparr>db_categories := upsert_row c_ID (category_overlay old c) (db_categories d)\<rparr>)
      | None \<Rightarrow>
          if category_name_taken (db_categories d) c then (Inl (category_exists_error c), d)
          else (Inr (), d\<lparr>db_categories := db_categories d @ [category_stored c]\<rparr>))"

definition category_ByID :: "ctx \<Rightarrow> uuid \<Rightarrow> db \<Rightarrow> (err, Category) res" where
  "category_ByID x cid d = (case tenant_From x of Inl e \<Rightarrow> Inl e | Inr tc \<Rightarrow>
     (case find (\<lambda>c. c_ID c = cid \<and> c_OrgID c = tc_OrgID tc) (db_categories d) of
        None \<Rightarrow> Inl (ECategory (CategoryNotFoundError cid '''')) | Some c \<Rightarrow> Inr c))"

definition category_ByIDs :: "ctx \<Rightarrow> uuid \<Rightarrow> uuid \<Rightarrow> uuid list \<Rightarrow> db \<Rightarrow> (err, Category list) res" where
  "category_ByIDs x orgID projectID ids d = (case tenant_From x of Inl e \<Rightarrow> Inl e | Inr tc \<Rightarrow>
     Inr (if ids = [] then [] else filter (\<lambda>c. c_OrgID c = orgID \<and> c_OrgID c = tc_OrgID tc \<and>
       c_ProjectID c = projectID \<and> c_ID c \<in> set ids) (db_categories d)))"

record CategoryListOpts =
  co_Kind :: "CategoryKind option"
  co_IncludeArchived :: bool

definition category_by_order :: "Category \<Rightarrow> int \<times> int list \<times> uuid" where
  "category_by_order c = (c_SortOrder c, map byte (c_Name c), c_ID c)"

definition category_List :: "ctx \<Rightarrow> uuid \<Rightarrow> uuid \<Rightarrow> CategoryListOpts \<Rightarrow> db \<Rightarrow> (err, Category list) res" where
  "category_List x orgID projectID opts d = (case tenant_From x of Inl e \<Rightarrow> Inl e | Inr tc \<Rightarrow>
     Inr (sort_key category_by_order (filter (\<lambda>c. c_OrgID c = orgID \<and> c_OrgID c = tc_OrgID tc \<and>
       c_ProjectID c = projectID \<and> (case co_Kind opts of None \<Rightarrow> True | Some k \<Rightarrow> c_Kind c = k) \<and>
       (co_IncludeArchived opts \<or> c_ArchivedAt c = None)) (db_categories d))))"

definition category_referenced :: "Category \<Rightarrow> db \<Rightarrow> bool" where
  "category_referenced c d \<longleftrightarrow> list_ex (\<lambda>t. t_OrgID t = c_OrgID c \<and> t_CategoryID t = Some (c_ID c)) (db_transactions d)"

definition category_Delete :: "ctx \<Rightarrow> uuid \<Rightarrow> (db, unit) prog" where
  "category_Delete x cid d =
     (case tenant_From x of Inl e \<Rightarrow> (Inl e, d) | Inr tc \<Rightarrow>
     (case find (\<lambda>c. c_ID c = cid \<and> c_OrgID c = tc_OrgID tc \<and> c_ProjectID c = tc_ProjectID tc) (db_categories d) of
        None \<Rightarrow> (Inl (ECategory (CategoryNotFoundError cid '''')), d)
      | Some c \<Rightarrow>
          if category_referenced c d then (Inl (ECategory (CategoryInUseError cid)), d)
          else (Inr (), d\<lparr>db_categories := delete_row c_ID cid (db_categories d)\<rparr>)))"

section \<open>The service (service.go)\<close>

definition category_ref :: "uuid \<Rightarrow> bool \<Rightarrow> bool \<Rightarrow> MirrorRef" where
  "category_ref i deleted cascade = \<lparr>mr_Entity = EntityCategory, mr_ID = i, mr_Deleted = deleted, mr_Cascade = cascade\<rparr>"

fun next_order :: "int \<Rightarrow> Category list \<Rightarrow> int" where
  "next_order n [] = n"
| "next_order n (c # cs) = next_order (if c_SortOrder c \<ge> n then c_SortOrder c + 1 else n) cs"

definition nextSortOrder :: "ctx \<Rightarrow> Tenant \<Rightarrow> CategoryKind \<Rightarrow> db \<Rightarrow> (err, int) res" where
  "nextSortOrder x tc kind d =
     (case category_List x (tc_OrgID tc) (tc_ProjectID tc) \<lparr>co_Kind = Some kind, co_IncludeArchived = True\<rparr> d of
        Inl e \<Rightarrow> Inl (Unexpected ''category.Create: list'' e) | Inr rows \<Rightarrow> Inr (next_order 0 rows))"

text \<open>The write of \<open>Create\<close> and \<open>SeedDefaults\<close>: only a taken name surfaces as it is.\<close>

definition category_insert :: "string \<Rightarrow> Category \<Rightarrow> ctx \<Rightarrow> (db, unit \<times> MirrorRef list) prog" where
  "category_insert op c x d = (case category_Save x c d of
     (Inl e, d') \<Rightarrow> (Inl (if category_IsAlreadyExistsError e then e else Unexpected (op @ '': save'') e), d')
   | (Inr _, d') \<Rightarrow> (Inr ((), [category_ref (c_ID c) False False]), d'))"

definition categories_Create :: "mirror \<Rightarrow> instant \<Rightarrow> uuid \<Rightarrow> ctx \<Rightarrow> string \<Rightarrow> CategoryKind \<Rightarrow> string \<Rightarrow> string
    \<Rightarrow> (db, Category) prog" where
  "categories_Create m now cid x name kind icon color d =
     (case tenant_From x of Inl e \<Rightarrow> (Inl e, d) | Inr tc \<Rightarrow>
      if \<not> category_kind_known kind then (Inl (ECategory (CategoryInvalidKindError (category_kind_str kind))), d)
      else case nextSortOrder x tc kind d of Inl e \<Rightarrow> (Inl e, d) | Inr sortOrder \<Rightarrow>
      (case category_New cid now (tc_OrgID tc) (tc_ProjectID tc) name kind icon color sortOrder of
         Inl e \<Rightarrow> (Inl e, d)
       | Inr c \<Rightarrow> (case commit_kick m now ''category.Create'' x (category_insert ''category.Create'' c) d of
                     (Inl e, d') \<Rightarrow> (Inl e, d') | (Inr _, d') \<Rightarrow> (Inr c, d'))))"

definition categories_ByID :: "ctx \<Rightarrow> uuid \<Rightarrow> db \<Rightarrow> (err, Category) res" where
  "categories_ByID x cid d = (case tenant_From x of Inl e \<Rightarrow> Inl e | Inr tc \<Rightarrow>
     (case category_ByID x cid d of
        Inl e \<Rightarrow> Inl (if category_IsNotFoundError e then e else Unexpected ''category.ByID: byID'' e)
      | Inr c \<Rightarrow> if c_OrgID c \<noteq> tc_OrgID tc \<or> c_ProjectID c \<noteq> tc_ProjectID tc
                 then Inl (ECategory (CategoryNotFoundError cid '''')) else Inr c))"

definition categories_save :: "mirror \<Rightarrow> instant \<Rightarrow> ctx \<Rightarrow> Category \<Rightarrow> string \<Rightarrow> bool \<Rightarrow> (db, Category) prog" where
  "categories_save m now x c op cascade d = commit_kick m now op x (\<lambda>x' d0.
     case category_Save x' c d0 of
       (Inl e, d1) \<Rightarrow> (Inl (if category_IsAlreadyExistsError e \<or> category_IsNotFoundError e then e
                             else Unexpected (op @ '': save'') e), d1)
     | (Inr _, d1) \<Rightarrow> (Inr (c, [category_ref (c_ID c) False cascade]), d1)) d"

definition categories_Rename :: "mirror \<Rightarrow> instant \<Rightarrow> ctx \<Rightarrow> uuid \<Rightarrow> string \<Rightarrow> (db, Category) prog" where
  "categories_Rename m now x cid name d =
     (case categories_ByID x cid d of Inl e \<Rightarrow> (Inl e, d) | Inr c \<Rightarrow>
     (case category_Rename now name c of
        (Inl e, _) \<Rightarrow> (Inl e, d)
      | (Inr _, c') \<Rightarrow> categories_save m now x c' ''category.Rename'' (c_Name c' \<noteq> c_Name c) d))"

definition categories_Update :: "mirror \<Rightarrow> instant \<Rightarrow> ctx \<Rightarrow> uuid \<Rightarrow> string \<Rightarrow> string \<Rightarrow> (db, Category) prog" where
  "categories_Update m now x cid icon color d =
     (case categories_ByID x cid d of Inl e \<Rightarrow> (Inl e, d) | Inr c \<Rightarrow>
     (case category_Update now icon color c of
        (Inl e, _) \<Rightarrow> (Inl e, d)
      | (Inr _, c') \<Rightarrow> categories_save m now x c' ''category.Update'' False d))"

definition categories_Archive :: "mirror \<Rightarrow> instant \<Rightarrow> ctx \<Rightarrow> uuid \<Rightarrow> (db, Category) prog" where
  "categories_Archive m now x cid d =
     (case categories_ByID x cid d of Inl e \<Rightarrow> (Inl e, d) | Inr c \<Rightarrow>
       categories_save m now x (category_Archive now c) ''category.Archive'' False d)"

definition categories_Unarchive :: "mirror \<Rightarrow> instant \<Rightarrow> ctx \<Rightarrow> uuid \<Rightarrow> (db, Category) prog" where
  "categories_Unarchive m now x cid d =
     (case categories_ByID x cid d of Inl e \<Rightarrow> (Inl e, d) | Inr c \<Rightarrow>
       categories_save m now x (category_Unarchive now c) ''category.Unarchive'' False d)"

definition categories_Delete :: "mirror \<Rightarrow> instant \<Rightarrow> ctx \<Rightarrow> uuid \<Rightarrow> (db, unit) prog" where
  "categories_Delete m now x cid d =
     (case categories_ByID x cid d of Inl e \<Rightarrow> (Inl e, d) | Inr _ \<Rightarrow>
      commit_kick m now ''category.Delete'' x (\<lambda>x' d0.
        case category_Delete x' cid d0 of
          (Inl e, d1) \<Rightarrow> (Inl (if category_IsInUseError e \<or> category_IsNotFoundError e then e
                                else Unexpected ''category.Delete: delete'' e), d1)
        | (Inr _, d1) \<Rightarrow> (Inr ((), [category_ref cid True False]), d1)) d)"

definition categories_List :: "ctx \<Rightarrow> CategoryListOpts \<Rightarrow> db \<Rightarrow> (err, Category list) res" where
  "categories_List x opts d = (case tenant_From x of Inl e \<Rightarrow> Inl e | Inr tc \<Rightarrow>
     (case category_List x (tc_OrgID tc) (tc_ProjectID tc) opts d of
        Inl e \<Rightarrow> Inl (Unexpected ''category.List: list'' e) | Inr out \<Rightarrow> Inr out))"

text \<open>The loop of \<open>ResolveByName\<close> stops at the first exact match; the partial matches collect on the way.\<close>

fun resolve_scan :: "string \<Rightarrow> Category list \<Rightarrow> Category list \<Rightarrow> Category + Category list" where
  "resolve_scan needle [] partial = Inr partial"
| "resolve_scan needle (c # rows) partial =
     (if FoldName (c_Name c) = needle then Inl c
      else if Contains (FoldName (c_Name c)) needle then resolve_scan needle rows (partial @ [c])
      else resolve_scan needle rows partial)"

definition categories_ResolveByName :: "ctx \<Rightarrow> CategoryKind \<Rightarrow> string \<Rightarrow> db \<Rightarrow> (err, Category) res" where
  "categories_ResolveByName x kind q d =
     (if \<not> category_kind_known kind then Inl (ECategory (CategoryInvalidKindError (category_kind_str kind)))
      else let needle = FoldName q in
      if needle = '''' then Inl (ECategory (CategoryInvalidNameError ''empty''))
      else case categories_List x \<lparr>co_Kind = Some kind, co_IncludeArchived = False\<rparr> d of Inl e \<Rightarrow> Inl e | Inr rows \<Rightarrow>
      (case resolve_scan needle rows [] of
         Inl c \<Rightarrow> Inr c
       | Inr [] \<Rightarrow> Inl (ECategory (CategoryNotFoundError uuid_Nil (TrimSpace q)))
       | Inr [c] \<Rightarrow> Inr c
       | Inr partial \<Rightarrow> Inl (ECategory (CategoryAmbiguousNameError (TrimSpace q) (length partial)))))"

section \<open>Seeding the defaults\<close>

definition defaultName :: "(string \<Rightarrow> string) \<Rightarrow> DefaultCat \<Rightarrow> string" where
  "defaultName namer dc = (let name = TrimSpace (namer (DefaultNameKey (dc_Key dc)))
     in if name = '''' then titleCase (dc_Key dc) else name)"

definition kind_rows :: "CategoryKind \<Rightarrow> Category list \<Rightarrow> Category list" where
  "kind_rows k rows = filter (\<lambda>c. c_Kind c = k) rows"

text \<open>
  \<open>taken\<close> holds the folded names in use per kind, \<open>next'\<close> the first free sort order
  per kind, \<open>seen\<close> the defaults of each kind met so far.  \<open>newid\<close> supplies the id of
  each new row.  The counts and the first failure are both returned, as in Go.
\<close>

fun seed_loop :: "mirror \<Rightarrow> instant \<Rightarrow> (string \<Rightarrow> uuid) \<Rightarrow> (string \<Rightarrow> string) \<Rightarrow> ctx \<Rightarrow> Tenant \<Rightarrow> (CategoryKind \<Rightarrow> int)
    \<Rightarrow> DefaultCat list \<Rightarrow> (CategoryKind \<times> string) set \<Rightarrow> (CategoryKind \<Rightarrow> int) \<Rightarrow> nat \<Rightarrow> MirrorRef list \<Rightarrow> db
    \<Rightarrow> (nat \<times> err option) \<times> MirrorRef list \<times> db" where
  "seed_loop m now newid namer x tc next' [] taken seen added kick d = ((added, None), kick, d)"
| "seed_loop m now newid namer x tc next' (dc # dcs) taken seen added kick d =
     (let k = dc_Kind dc; sortOrder = next' k + seen k; seen' = seen(k := seen k + 1);
          name = defaultName namer dc in
      if (k, FoldName name) \<in> taken
      then seed_loop m now newid namer x tc next' dcs taken seen' added kick d
      else case category_New (newid (dc_Key dc)) now (tc_OrgID tc) (tc_ProjectID tc) name k (dc_Icon dc) (dc_Color dc) sortOrder of
        Inl e \<Rightarrow> ((added, Some (Unexpected ''category.SeedDefaults: build default'' e)), kick, d)
      | Inr c \<Rightarrow>
        (case commit m now ''category.SeedDefaults'' x (category_insert ''category.SeedDefaults'' c) d of
           (Inl e, d') \<Rightarrow>
             if category_IsAlreadyExistsError e
             then seed_loop m now newid namer x tc next' dcs taken seen' added kick d'
             else ((added, Some e), kick, d')
         | (Inr (_, refs), d') \<Rightarrow>
             seed_loop m now newid namer x tc next' dcs (insert (k, FoldName name) taken) seen'
               (added + 1) (kick @ refs) d'))"

definition SeedDefaults :: "mirror \<Rightarrow> instant \<Rightarrow> (string \<Rightarrow> uuid) \<Rightarrow> (string \<Rightarrow> string) \<Rightarrow> ctx \<Rightarrow> db
    \<Rightarrow> (nat \<times> err option) \<times> db" where
  "SeedDefaults m now newid namer x d =
     (case tenant_From x of Inl e \<Rightarrow> ((0, Some e), d) | Inr tc \<Rightarrow>
     (case category_List x (tc_OrgID tc) (tc_ProjectID tc) \<lparr>co_Kind = None, co_IncludeArchived = True\<rparr> d of
        Inl e \<Rightarrow> ((0, Some (Unexpected ''category.SeedDefaults: list'' e)), d)
      | Inr existing \<Rightarrow>
        (case seed_loop m now newid namer x tc (\<lambda>k. next_order 0 (kind_rows k existing)) category_Defaults
            (set (map (\<lambda>c. (c_Kind c, FoldName (c_Name c))) existing)) (\<lambda>_. 0) 0 [] d of
           (res, kick, d') \<Rightarrow> (res, mirror_Kick m x kick d'))))"

section \<open>The store keeps its contract\<close>

lemma category_Save_Inr:
  "category_Save x c d = (Inr u, d') \<longleftrightarrow> (\<exists>tc. tenant_From x = Inr tc \<and> category_checks c \<and>
     (case find_row c_ID (c_ID c) (db_categories d) of
        None \<Rightarrow> \<not> category_name_taken (db_categories d) c \<and> d' = d\<lparr>db_categories := db_categories d @ [category_stored c]\<rparr>
      | Some old \<Rightarrow> c_OrgID old = tc_OrgID tc \<and> c_ProjectID old = tc_ProjectID tc \<and>
          \<not> category_name_taken (db_categories d) (category_overlay old c) \<and>
          d' = d\<lparr>db_categories := upsert_row c_ID (category_overlay old c) (db_categories d)\<rparr>))"
  by (auto simp: category_Save_def tenant_From_def split: option.splits if_splits)

lemma category_Save_Inl: "category_Save x c d = (Inl e, d') \<Longrightarrow> d' = d"
  by (auto simp: category_Save_def split: sum.splits option.splits if_splits)

lemma category_Delete_Inr:
  "category_Delete x i d = (Inr u, d') \<longleftrightarrow> (\<exists>tc c. tenant_From x = Inr tc \<and>
     find (\<lambda>c. c_ID c = i \<and> c_OrgID c = tc_OrgID tc \<and> c_ProjectID c = tc_ProjectID tc) (db_categories d) = Some c \<and>
     \<not> category_referenced c d \<and> d' = d\<lparr>db_categories := delete_row c_ID i (db_categories d)\<rparr>)"
  by (auto simp: category_Delete_def tenant_From_def split: option.splits if_splits)

lemma category_Delete_Inl: "category_Delete x i d = (Inl e, d') \<Longrightarrow> d' = d"
  by (auto simp: category_Delete_def split: sum.splits option.splits if_splits)

interpretation category_store: deletable_store c_ID c_OrgID c_ProjectID category_stored category_overlay db_categories
  category_Save category_ByID category_Delete
proof (unfold_locales, goal_cases)
  case (11 d c tc i r)
  show ?case
    unfolding category_ByID_def 11(2) by (auto simp: find_keyed [OF 11(1)] split: option.splits)
next
  case (12 d c i d')
  then show ?case by (auto simp: category_Delete_Inr find_keyed in_scope_def split: option.splits if_splits)
qed (auto simp: category_overlay_def category_stored_def category_Save_Inr in_scope_def
    dest: category_Save_Inl category_Delete_Inl)

end
