(* ===== verification/TransactionStore.thy ===== *)
theory TransactionStore
  imports RowStore "HOL-Library.List_Lexorder"
begin

text \<open>
  The SQLite store of \<open>internal/transaction\<close> (\<open>sqlite.go\<close>), the derived balances,
  the LIKE search with its escaping (\<open>search.go\<close>) and the category suggester
  (\<open>suggest.go\<close>).  Instants compare as the zero-padded texts of \<open>SQLiteTime\<close> do,
  which for the years 0 to 9999 is chronologically.
\<close>

section \<open>Searching notes (search.go)\<close>

definition backslash :: char where "backslash = CHR 0x5C"

definition escape_char :: "char \<Rightarrow> string" where
  "escape_char c = (if c = backslash \<or> c = CHR ''%'' \<or> c = CHR ''_'' then [backslash, c] else [c])"

definition escapeLikePattern :: "string \<Rightarrow> string" where
  "escapeLikePattern s = ''%'' @ concat (map escape_char s) @ ''%''"

text \<open>
  SQLite's \<open>LIKE .. ESCAPE '\'\<close> on texts already folded by \<open>lower()\<close>: \<open>%\<close> is any
  run, \<open>_\<close> one character, an escaped character itself.
\<close>

function like_match :: "string \<Rightarrow> string \<Rightarrow> bool" where
  "like_match [] s \<longleftrightarrow> s = []"
| "like_match (c # p) s =
     (if c = CHR ''%'' then (if like_match p s then True else if s = [] then False else like_match (c # p) (tl s))
      else if s = [] then False
      else if c = backslash then (case p of [] \<Rightarrow> False | e # p' \<Rightarrow> if hd s = e then like_match p' (tl s) else False)
      else if c = CHR ''_'' then like_match p (drop (max 1 (rune_len s)) s)
      else if hd s = c then like_match p (tl s) else False)"
  by pat_completeness auto
termination
  by (relation "measure (\<lambda>(p, s). length p + length s)") (auto simp: neq_Nil_conv)

definition note_matches :: "string \<Rightarrow> string \<Rightarrow> bool" where
  "note_matches search note \<longleftrightarrow> like_match (sql_lower (escapeLikePattern search)) (sql_lower note)"

section \<open>Rows\<close>

text \<open>What a new row holds: an API key's transaction has no user (\<open>sqliteAuthorArgs\<close>).\<close>

definition tx_stored :: "Transaction \<Rightarrow> Transaction" where
  "tx_stored t = t\<lparr>t_CreatedBy := (if t_CreatedByKeyID t \<noteq> uuid_Nil then uuid_Nil else t_CreatedBy t)\<rparr>"

definition tx_overlay :: "Transaction \<Rightarrow> Transaction \<Rightarrow> Transaction" where
  "tx_overlay old t = old\<lparr>t_WalletID := t_WalletID t, t_ToWalletID := t_ToWalletID t, t_Kind := t_Kind t,
     t_Amount := t_Amount t, t_CategoryID := t_CategoryID t, t_PeriodID := t_PeriodID t, t_Note := t_Note t,
     t_OccurredAt := t_OccurredAt t, t_UpdatedAt := t_UpdatedAt t\<rparr>"

definition tx_Save :: "ctx \<Rightarrow> Transaction \<Rightarrow> (db, unit) prog" where
  "tx_Save c t d =
     (case tenant_From c of Inl e \<Rightarrow> (Inl e, d) | Inr tc \<Rightarrow>
      if \<not> tx_checks t then (Inl (Sql ConstraintCheck), d)
      else case find_row t_ID (t_ID t) (db_transactions d) of
        Some old \<Rightarrow>
          if t_OrgID old \<noteq> tc_OrgID tc \<or> t_ProjectID old \<noteq> tc_ProjectID tc
          then (Inl (ETransaction (TxNotFoundError (t_ID t))), d)
          else if \<not> tx_fks d (tx_overlay old t) then (Inl (ETransaction (TxNotFoundError uuid_Nil)), d)
          else (Inr (), d\<lparr>db_transactions := upsert_row t_ID (tx_overlay old t) (db_transactions d)\<rparr>)
      | None \<Rightarrow>
          if \<not> tx_fks d t then (Inl (ETransaction (TxNotFoundError uuid_Nil)), d)
          else (Inr (), d\<lparr>db_transactions := db_transactions d @ [tx_stored t]\<rparr>))"

definition tx_ByID :: "ctx \<Rightarrow> uuid \<Rightarrow> db \<Rightarrow> (err, Transaction) res" where
  "tx_ByID c tid d = (case tenant_From c of Inl e \<Rightarrow> Inl e | Inr tc \<Rightarrow>
     (case find (\<lambda>t. t_ID t = tid \<and> t_OrgID t = tc_OrgID tc) (db_transactions d) of
        None \<Rightarrow> Inl (ETransaction (TxNotFoundError tid)) | Some t \<Rightarrow> Inr t))"

definition tx_Delete :: "ctx \<Rightarrow> uuid \<Rightarrow> (db, unit) prog" where
  "tx_Delete c tid d =
     (case tenant_From c of Inl e \<Rightarrow> (Inl e, d) | Inr tc \<Rightarrow>
     (case find (\<lambda>t. t_ID t = tid \<and> t_OrgID t = tc_OrgID tc \<and> t_ProjectID t = tc_ProjectID tc) (db_transactions d) of
        None \<Rightarrow> (Inl (ETransaction (TxNotFoundError tid)), d)
      | Some _ \<Rightarrow> (Inr (), d\<lparr>db_transactions := delete_row t_ID tid (db_transactions d)\<rparr>)))"

section \<open>Listing\<close>

definition tx_scope :: "uuid \<Rightarrow> uuid \<Rightarrow> uuid \<Rightarrow> Transaction \<Rightarrow> bool" where
  "tx_scope orgID projectID scopeOrgID t \<longleftrightarrow>
     t_OrgID t = orgID \<and> t_OrgID t = scopeOrgID \<and> t_ProjectID t = projectID"

definition tx_position :: "Transaction \<Rightarrow> instant \<times> instant \<times> uuid" where
  "tx_position t = (t_OccurredAt t, t_CreatedAt t, t_ID t)"

definition cursor_position :: "Cursor \<Rightarrow> instant \<times> instant \<times> uuid" where
  "cursor_position cu = (cu_OccurredAt cu, cu_CreatedAt cu, cu_ID cu)"

definition before_cursor :: "Cursor \<Rightarrow> Transaction \<Rightarrow> bool" where
  "before_cursor cu t \<longleftrightarrow> t_OccurredAt t < cu_OccurredAt cu \<or>
     t_OccurredAt t = cu_OccurredAt cu \<and> (t_CreatedAt t < cu_CreatedAt cu \<or>
       t_CreatedAt t = cu_CreatedAt cu \<and> t_ID t < cu_ID cu)"

definition tx_filter :: "TxListOpts \<Rightarrow> Transaction \<Rightarrow> bool" where
  "tx_filter opts t \<longleftrightarrow>
     (case lo_WalletID opts of None \<Rightarrow> True | Some w \<Rightarrow> t_WalletID t = w \<or> t_ToWalletID t = Some w) \<and>
     (case lo_CategoryID opts of None \<Rightarrow> True | Some i \<Rightarrow> t_CategoryID t = Some i) \<and>
     (case lo_PeriodID opts of None \<Rightarrow> True | Some i \<Rightarrow> t_PeriodID t = Some i) \<and>
     (lo_Kinds opts = [] \<or> t_Kind t \<in> set (lo_Kinds opts)) \<and>
     (case lo_From opts of None \<Rightarrow> True | Some a \<Rightarrow> a \<le> t_OccurredAt t) \<and>
     (case lo_To opts of None \<Rightarrow> True | Some a \<Rightarrow> t_OccurredAt t \<le> a) \<and>
     (lo_Search opts = '''' \<or> note_matches (lo_Search opts) (t_Note t))"

definition sqliteListWhere :: "uuid \<Rightarrow> uuid \<Rightarrow> uuid \<Rightarrow> TxListOpts \<Rightarrow> Transaction \<Rightarrow> bool" where
  "sqliteListWhere orgID projectID scopeOrgID opts t \<longleftrightarrow>
     tx_scope orgID projectID scopeOrgID t \<and> tx_filter opts t \<and>
     (case lo_After opts of None \<Rightarrow> True | Some cu \<Rightarrow> before_cursor cu t)"

definition newest_first :: "Transaction list \<Rightarrow> Transaction list" where
  "newest_first rows = rev (sort_key tx_position rows)"

definition tx_List :: "ctx \<Rightarrow> uuid \<Rightarrow> uuid \<Rightarrow> TxListOpts \<Rightarrow> db \<Rightarrow> (err, Transaction list) res" where
  "tx_List c orgID projectID opts d = (case tenant_From c of Inl e \<Rightarrow> Inl e | Inr tc \<Rightarrow>
     Inr (take (nat (NormalizedLimit opts))
       (newest_first (filter (sqliteListWhere orgID projectID (tc_OrgID tc) opts) (db_transactions d)))))"

section \<open>Derived balances\<close>

text \<open>SQLite's \<open>SUM\<close> of integers: an error once a partial sum leaves 64 bits.\<close>

fun sql_sum :: "int \<Rightarrow> int list \<Rightarrow> int option" where
  "sql_sum acc [] = Some acc"
| "sql_sum acc (x # xs) = (if in_i64 (acc + x) then sql_sum (acc + x) xs else None)"

definition own_delta :: "Transaction \<Rightarrow> int" where
  "own_delta t = (if t_Kind t \<in> {KindIncome, KindOpening, KindAdjustmentIn}
     then Minor (t_Amount t) else - Minor (t_Amount t))"

definition tx_currency :: "Transaction \<Rightarrow> Currency" where
  "tx_currency t = Currency (t_Amount t)"

definition wallet_deltas :: "uuid \<Rightarrow> Transaction list \<Rightarrow> (Currency \<times> int) list" where
  "wallet_deltas wid rows =
     map (\<lambda>t. (tx_currency t, own_delta t)) (filter (\<lambda>t. t_WalletID t = wid) rows) @
     map (\<lambda>t. (tx_currency t, Minor (t_Amount t)))
       (filter (\<lambda>t. t_Kind t = KindTransfer \<and> t_ToWalletID t = Some wid) rows)"

definition zero_Amount :: Amount where
  "zero_Amount = \<lparr>Minor = 0, Currency = ''''\<rparr>"

definition scoped_rows :: "uuid \<Rightarrow> uuid \<Rightarrow> uuid \<Rightarrow> db \<Rightarrow> Transaction list" where
  "scoped_rows orgID projectID scopeOrgID d = filter (tx_scope orgID projectID scopeOrgID) (db_transactions d)"

text \<open>Grouped by currency, the first group in text order.\<close>

definition tx_Balance :: "ctx \<Rightarrow> uuid \<Rightarrow> uuid \<Rightarrow> uuid \<Rightarrow> db \<Rightarrow> (err, Amount) res" where
  "tx_Balance c orgID projectID wid d = (case tenant_From c of Inl e \<Rightarrow> Inl e | Inr tc \<Rightarrow>
     let deltas = wallet_deltas wid (scoped_rows orgID projectID (tc_OrgID tc) d)
     in case sort_key (map byte) (remdups (map fst deltas)) of
          [] \<Rightarrow> Inr zero_Amount
        | cur # _ \<Rightarrow>
          (case sql_sum 0 (map snd (filter (\<lambda>x. fst x = cur) deltas)) of
             None \<Rightarrow> Inl (Sql IntegerOverflow) | Some tot \<Rightarrow> Inr (money_New tot cur)))"

type_synonym balance_key = "uuid \<times> Currency"

definition own_rows :: "Transaction list \<Rightarrow> (balance_key \<times> int) list" where
  "own_rows rows = map (\<lambda>t. ((t_WalletID t, tx_currency t), own_delta t)) rows"

definition incoming_rows :: "Transaction list \<Rightarrow> (balance_key \<times> int) list" where
  "incoming_rows rows = map (\<lambda>t. ((the (t_ToWalletID t), tx_currency t), Minor (t_Amount t)))
     (filter (\<lambda>t. t_Kind t = KindTransfer \<and> t_ToWalletID t \<noteq> None) rows)"

definition group_keys :: "(balance_key \<times> int) list \<Rightarrow> balance_key list" where
  "group_keys rows = sort_key (\<lambda>k. (fst k, map byte (snd k))) (remdups (map fst rows))"

definition key_total :: "(balance_key \<times> int) list \<Rightarrow> balance_key \<Rightarrow> int option" where
  "key_total rows k = sql_sum 0 (map snd (filter (\<lambda>r. fst r = k) rows))"

definition accumulate :: "(uuid \<rightharpoonup> Amount) \<Rightarrow> uuid \<Rightarrow> Amount \<Rightarrow> (uuid \<rightharpoonup> Amount)" where
  "accumulate out wid delta = (case out wid of
     None \<Rightarrow> out(wid \<mapsto> delta)
   | Some cur \<Rightarrow> (case amount_Add cur delta of None \<Rightarrow> out(wid \<mapsto> delta) | Some s \<Rightarrow> out(wid \<mapsto> s)))"

fun accumulate_groups :: "(balance_key \<times> int) list \<Rightarrow> balance_key list \<Rightarrow> (uuid \<rightharpoonup> Amount) \<Rightarrow> (err, uuid \<rightharpoonup> Amount) res" where
  "accumulate_groups rows [] out = Inr out"
| "accumulate_groups rows (k # ks) out = (case key_total rows k of
     None \<Rightarrow> Inl (Sql IntegerOverflow)
   | Some tot \<Rightarrow> accumulate_groups rows ks (accumulate out (fst k) (money_New tot (snd k))))"

definition tx_Balances :: "ctx \<Rightarrow> uuid \<Rightarrow> uuid \<Rightarrow> db \<Rightarrow> (err, uuid \<rightharpoonup> Amount) res" where
  "tx_Balances c orgID projectID d = (case tenant_From c of Inl e \<Rightarrow> Inl e | Inr tc \<Rightarrow>
     let rows = scoped_rows orgID projectID (tc_OrgID tc) d;
         own = own_rows rows; incoming = incoming_rows rows
     in case accumulate_groups own (group_keys own) Map.empty of
          Inl e \<Rightarrow> Inl e
        | Inr out \<Rightarrow> accumulate_groups incoming (group_keys incoming) out)"

section \<open>Suggestions, locks\<close>

definition LastCategoryForNote :: "ctx \<Rightarrow> uuid \<Rightarrow> uuid \<Rightarrow> string \<Rightarrow> db \<Rightarrow> (err, uuid option) res" where
  "LastCategoryForNote c orgID projectID noteNorm d =
     (if noteNorm = '''' then Inr None
      else case tenant_From c of Inl e \<Rightarrow> Inl e | Inr tc \<Rightarrow>
        (case newest_first (filter (\<lambda>t. tx_scope orgID projectID (tc_OrgID tc) t \<and>
             NormalizeNote (t_Note t) = noteNorm \<and> t_CategoryID t \<noteq> None) (db_transactions d)) of
           [] \<Rightarrow> Inr None | t # _ \<Rightarrow> Inr (t_CategoryID t)))"

definition suggester_Suggest :: "ctx \<Rightarrow> uuid \<Rightarrow> uuid \<Rightarrow> string \<Rightarrow> db \<Rightarrow> (err, uuid option) res" where
  "suggester_Suggest c orgID projectID note d = (let norm = NormalizeNote note in
     if norm = '''' then Inr None else LastCategoryForNote c orgID projectID norm d)"

definition LockWallet :: "ctx \<Rightarrow> (err, unit) res" where
  "LockWallet c = (if \<not> ctx_uow c then Inl (ETransaction ErrNoUnitOfWork)
     else case tenant_From c of Inl e \<Rightarrow> Inl e | Inr _ \<Rightarrow> Inr ())"

section \<open>The store keeps its contract\<close>

lemma tx_Save_Inr:
  "tx_Save c t d = (Inr u, d') \<longleftrightarrow> (\<exists>tc. tenant_From c = Inr tc \<and> tx_checks t \<and>
     (case find_row t_ID (t_ID t) (db_transactions d) of
        None \<Rightarrow> tx_fks d t \<and> d' = d\<lparr>db_transactions := db_transactions d @ [tx_stored t]\<rparr>
      | Some old \<Rightarrow> t_OrgID old = tc_OrgID tc \<and> t_ProjectID old = tc_ProjectID tc \<and> tx_fks d (tx_overlay old t) \<and>
          d' = d\<lparr>db_transactions := upsert_row t_ID (tx_overlay old t) (db_transactions d)\<rparr>))"
  by (auto simp: tx_Save_def tenant_From_def split: option.splits if_splits)

lemma tx_Save_Inl: "tx_Save c t d = (Inl e, d') \<Longrightarrow> d' = d"
  by (auto simp: tx_Save_def split: sum.splits option.splits if_splits)

lemma tx_Delete_Inr:
  "tx_Delete c i d = (Inr u, d') \<longleftrightarrow> (\<exists>tc t. tenant_From c = Inr tc \<and>
     find (\<lambda>t. t_ID t = i \<and> t_OrgID t = tc_OrgID tc \<and> t_ProjectID t = tc_ProjectID tc) (db_transactions d) = Some t \<and>
     d' = d\<lparr>db_transactions := delete_row t_ID i (db_transactions d)\<rparr>)"
  by (auto simp: tx_Delete_def tenant_From_def split: option.splits if_splits)

lemma tx_Delete_Inl: "tx_Delete c i d = (Inl e, d') \<Longrightarrow> d' = d"
  by (auto simp: tx_Delete_def split: sum.splits option.splits if_splits)

interpretation tx_store: deletable_store t_ID t_OrgID t_ProjectID tx_stored tx_overlay db_transactions
  tx_Save tx_ByID tx_Delete
proof (unfold_locales, goal_cases)
  case (11 d c tc i r)
  show ?case
    unfolding tx_ByID_def 11(2) by (auto simp: find_keyed [OF 11(1)] split: option.splits)
next
  case (12 d c i d')
  then show ?case by (auto simp: tx_Delete_Inr find_keyed in_scope_def split: option.splits if_splits)
qed (auto simp: tx_overlay_def tx_stored_def tx_Save_Inr in_scope_def dest: tx_Save_Inl tx_Delete_Inl)

end
