(* ===== verification/TransactionService.thy ===== *)
theory TransactionService
  imports TransactionStore
begin

text \<open>
  Package \<open>internal/transaction\<close>, the service (\<open>service.go\<close>).  The readers of
  wallets, categories and periods are the ports of \<open>ports.go\<close>, a record of
  functions; the program passes the adapters of \<open>internal/boot/adapters.go\<close>.
  Fresh ids are arguments.
\<close>

section \<open>Ports (ports.go)\<close>

record WalletInfo =
  wi_ID :: uuid
  wi_Currency :: Currency
  wi_Archived :: bool

record CategoryInfo =
  ci_ID :: uuid
  ci_Kind :: string
  ci_Archived :: bool

record PeriodInfo =
  pi_ID :: uuid
  pi_Locked :: bool
  pi_PrevID :: "uuid option"
  pi_NextID :: "uuid option"

record ports =
  port_Wallet :: "ctx \<Rightarrow> uuid \<Rightarrow> uuid \<Rightarrow> uuid \<Rightarrow> db \<Rightarrow> (err, WalletInfo) res"
  port_Category :: "ctx \<Rightarrow> uuid \<Rightarrow> uuid \<Rightarrow> uuid \<Rightarrow> db \<Rightarrow> (err, CategoryInfo) res"
  port_Containing :: "ctx \<Rightarrow> uuid \<Rightarrow> uuid \<Rightarrow> instant \<Rightarrow> (db, PeriodInfo option) prog"
  port_PeriodByID :: "ctx \<Rightarrow> uuid \<Rightarrow> uuid \<Rightarrow> uuid \<Rightarrow> db \<Rightarrow> (err, PeriodInfo) res"

record RecordInput =
  ri_WalletID :: uuid
  ri_ToWalletID :: "uuid option"
  ri_Kind :: TxKind
  ri_Amount :: Amount
  ri_CategoryID :: "uuid option"
  ri_PeriodID :: "uuid option"
  ri_Note :: string
  ri_OccurredAt :: instant

record RevisePatch =
  rp_WalletID :: "uuid option"
  rp_ToWalletID :: "uuid option option"
  rp_Amount :: "Amount option"
  rp_CategoryID :: "uuid option option"
  rp_PeriodID :: "uuid option option"
  rp_Note :: "string option"
  rp_OccurredAt :: "instant option"

section \<open>Guards\<close>

definition as_app :: "string \<Rightarrow> err \<Rightarrow> err" where
  "as_app op e = (if AsAppError e then e else Unexpected op e)"

definition tx_wallet :: "ports \<Rightarrow> ctx \<Rightarrow> Tenant \<Rightarrow> uuid \<Rightarrow> db \<Rightarrow> (err, WalletInfo) res" where
  "tx_wallet pt c tc wid d =
     map_err (as_app ''transaction: wallet lookup'') (port_Wallet pt c (tc_OrgID tc) (tc_ProjectID tc) wid d)"

definition checkWallets ::
    "ports \<Rightarrow> ctx \<Rightarrow> Tenant \<Rightarrow> uuid \<Rightarrow> uuid option \<Rightarrow> TxKind \<Rightarrow> Amount \<Rightarrow> db \<Rightarrow> (err, Currency) res" where
  "checkWallets pt c tc wid toWid kind amount d =
     (case tx_wallet pt c tc wid d of Inl e \<Rightarrow> Inl e | Inr w \<Rightarrow>
      if wi_Archived w then Inl (ETransaction (WalletArchivedError wid))
      else if Currency amount \<noteq> wi_Currency w
      then Inl (ETransaction (CurrencyMismatchError wid (wi_Currency w) (Currency amount)))
      else if kind \<noteq> KindTransfer then Inr (wi_Currency w)
      else case toWid of None \<Rightarrow> Inr (wi_Currency w) | Some to \<Rightarrow>
      (case tx_wallet pt c tc to d of Inl e \<Rightarrow> Inl e | Inr tw \<Rightarrow>
       if wi_Archived tw then Inl (ETransaction (WalletArchivedError to))
       else if wi_Currency tw \<noteq> wi_Currency w
       then Inl (ETransaction (CurrencyMismatchError to (wi_Currency tw) (wi_Currency w)))
       else Inr (wi_Currency w)))"

definition checkCategory :: "ports \<Rightarrow> ctx \<Rightarrow> Tenant \<Rightarrow> uuid option \<Rightarrow> TxKind \<Rightarrow> db \<Rightarrow> (err, unit) res" where
  "checkCategory pt c tc cido kind d =
     (case cido of None \<Rightarrow> Inr () | Some cid \<Rightarrow>
      if \<not> AllowsCategory kind
      then Inl (ETransaction (InvalidKindError (tx_kind_str kind) ''only income and expense may name a category''))
      else case port_Category pt c (tc_OrgID tc) (tc_ProjectID tc) cid d of
        Inl e \<Rightarrow> Inl (as_app ''transaction: category lookup'' e)
      | Inr ci \<Rightarrow> if ci_Kind ci \<noteq> tx_kind_str kind
                  then Inl (ETransaction (CategoryKindMismatchError cid (ci_Kind ci) (tx_kind_str kind))) else Inr ())"

definition adjacent :: "PeriodInfo \<Rightarrow> uuid \<Rightarrow> bool" where
  "adjacent info i \<longleftrightarrow> i = pi_ID info \<or> pi_PrevID info = Some i \<or> pi_NextID info = Some i"

definition check_target :: "ports \<Rightarrow> ctx \<Rightarrow> Tenant \<Rightarrow> uuid \<Rightarrow> db \<Rightarrow> (err, uuid option) res" where
  "check_target pt c tc chosen d =
     (case port_PeriodByID pt c (tc_OrgID tc) (tc_ProjectID tc) chosen d of
        Inl e \<Rightarrow> Inl (as_app ''transaction: period lookup'' e)
      | Inr target \<Rightarrow> if pi_Locked target then Inl (ETransaction (PeriodLockedError chosen)) else Inr (Some chosen))"

definition resolvePeriod :: "ports \<Rightarrow> ctx \<Rightarrow> Tenant \<Rightarrow> instant \<Rightarrow> uuid option \<Rightarrow> (db, uuid option) prog" where
  "resolvePeriod pt c tc at want d =
     (case port_Containing pt c (tc_OrgID tc) (tc_ProjectID tc) at d of
        (Inl e, d') \<Rightarrow> (Inl (as_app ''transaction: containing period'' e), d')
      | (Inr info, d') \<Rightarrow>
        (case want of
           None \<Rightarrow> (case info of None \<Rightarrow> (Inr None, d') | Some i \<Rightarrow> (check_target pt c tc (pi_ID i) d', d'))
         | Some w \<Rightarrow> (case info of
             None \<Rightarrow> (Inl (ETransaction (PeriodNotAdjacentError w)), d')
           | Some i \<Rightarrow> if \<not> adjacent i w then (Inl (ETransaction (PeriodNotAdjacentError w)), d')
                       else (check_target pt c tc w d', d'))))"

definition refusePeriodLocked :: "ports \<Rightarrow> ctx \<Rightarrow> Tenant \<Rightarrow> uuid option \<Rightarrow> db \<Rightarrow> (err, unit) res" where
  "refusePeriodLocked pt c tc pido d =
     (case pido of None \<Rightarrow> Inr () | Some pid \<Rightarrow>
     (case port_PeriodByID pt c (tc_OrgID tc) (tc_ProjectID tc) pid d of
        Inl e \<Rightarrow> Inl (as_app ''transaction: period lookup'' e)
      | Inr info \<Rightarrow> if pi_Locked info then Inl (ETransaction (PeriodLockedError pid)) else Inr ()))"

definition tx_author :: "ctx \<Rightarrow> uuid \<Rightarrow> (err, uuid \<times> uuid) res" where
  "tx_author c by' =
     (if by' \<noteq> uuid_Nil then Inr (by', uuid_Nil)
      else let p = PrincipalFrom c in
        if pr_UserID p = uuid_Nil \<and> pr_KeyID p \<noteq> uuid_Nil then Inr (uuid_Nil, pr_KeyID p)
        else Inl (ETransaction TxAuthorMissingError))"

definition tx_load :: "ctx \<Rightarrow> Tenant \<Rightarrow> uuid \<Rightarrow> string \<Rightarrow> db \<Rightarrow> (err, Transaction) res" where
  "tx_load c tc tid op d = (case tx_ByID c tid d of
     Inl e \<Rightarrow> Inl (if tx_IsNotFoundError e then e else Unexpected (op @ '': byID'') e)
   | Inr t \<Rightarrow> if t_OrgID t \<noteq> tc_OrgID tc \<or> t_ProjectID t \<noteq> tc_ProjectID tc
              then Inl (ETransaction (TxNotFoundError tid)) else Inr t)"

definition tx_save_error :: "string \<Rightarrow> err \<Rightarrow> err" where
  "tx_save_error op e = (if tx_IsNotFoundError e \<or> tx_IsAuthorMissingError e then e else Unexpected op e)"

section \<open>Recording\<close>

definition tx_ref :: "uuid \<Rightarrow> bool \<Rightarrow> MirrorRef" where
  "tx_ref i deleted = \<lparr>mr_Entity = EntityTransaction, mr_ID = i, mr_Deleted = deleted, mr_Cascade = False\<rparr>"

definition moved_wallet_ref :: "uuid \<Rightarrow> MirrorRef" where
  "moved_wallet_ref i = \<lparr>mr_Entity = EntityWallet, mr_ID = i, mr_Deleted = False, mr_Cascade = False\<rparr>"

definition touched :: "Transaction \<Rightarrow> bool \<Rightarrow> MirrorRef list" where
  "touched t deleted = [tx_ref (t_ID t) deleted, moved_wallet_ref (t_WalletID t)] @
     (case t_ToWalletID t of None \<Rightarrow> [] | Some w \<Rightarrow> [moved_wallet_ref w])"

definition new_params :: "RecordInput \<Rightarrow> Currency \<Rightarrow> uuid option \<Rightarrow> uuid \<times> uuid \<Rightarrow> TxNewParams" where
  "new_params inp currency periodID who = \<lparr>np_WalletID = ri_WalletID inp, np_ToWalletID = ri_ToWalletID inp,
     np_Kind = ri_Kind inp, np_Amount = money_New (Minor (ri_Amount inp)) currency, np_CategoryID = ri_CategoryID inp,
     np_PeriodID = periodID, np_Note = ri_Note inp, np_OccurredAt = ri_OccurredAt inp,
     np_CreatedBy = fst who, np_CreatedByKeyID = snd who\<rparr>"

definition tx_record :: "ports \<Rightarrow> instant \<Rightarrow> uuid \<Rightarrow> ctx \<Rightarrow> Tenant \<Rightarrow> RecordInput \<Rightarrow> uuid \<Rightarrow> (db, Transaction) prog" where
  "tx_record pt now tid c tc inp by' d =
     (case checkWallets pt c tc (ri_WalletID inp) (ri_ToWalletID inp) (ri_Kind inp) (ri_Amount inp) d of
        Inl e \<Rightarrow> (Inl e, d)
      | Inr currency \<Rightarrow>
     (case checkCategory pt c tc (ri_CategoryID inp) (ri_Kind inp) d of Inl e \<Rightarrow> (Inl e, d) | Inr _ \<Rightarrow>
     (case resolvePeriod pt c tc (ri_OccurredAt inp) (ri_PeriodID inp) d of
        (Inl e, d1) \<Rightarrow> (Inl e, d1)
      | (Inr periodID, d1) \<Rightarrow>
     (case tx_author c by' of Inl e \<Rightarrow> (Inl e, d1) | Inr who \<Rightarrow>
     (case tx_New tid now (tc_OrgID tc) (tc_ProjectID tc) (new_params inp currency periodID who) of
        Inl e \<Rightarrow> (Inl e, d1)
      | Inr t \<Rightarrow>
        (case tx_Save c t d1 of
           (Inl e, d2) \<Rightarrow> (Inl (tx_save_error ''transaction.Record: save'' e), d2)
         | (Inr _, d2) \<Rightarrow> (Inr t, d2)))))))"

definition recordOne ::
    "mirror \<Rightarrow> ports \<Rightarrow> instant \<Rightarrow> uuid \<Rightarrow> ctx \<Rightarrow> RecordInput \<Rightarrow> (db, Transaction \<times> MirrorRef list) prog" where
  "recordOne m pt now tid c inp d =
     (case tenant_From c of Inl e \<Rightarrow> (Inl e, d) | Inr tc \<Rightarrow>
      commit m now ''transaction.Record'' c (\<lambda>c' d0.
        case tx_record pt now tid c' tc inp (tc_UserID tc) d0 of
          (Inl e, d1) \<Rightarrow> (Inl e, d1)
        | (Inr t, d1) \<Rightarrow> (Inr (t, touched t False), d1)) d)"

definition Record :: "mirror \<Rightarrow> ports \<Rightarrow> instant \<Rightarrow> uuid \<Rightarrow> ctx \<Rightarrow> RecordInput \<Rightarrow> (db, Transaction) prog" where
  "Record m pt now tid c inp d = (case recordOne m pt now tid c inp d of
     (Inl e, d') \<Rightarrow> (Inl e, d') | (Inr (t, refs), d') \<Rightarrow> (Inr t, mirror_Kick m c refs d'))"

text \<open>The loop of \<open>RecordBatch\<close>: every row in its own unit of work, one kick at the end.\<close>

fun batch_loop :: "mirror \<Rightarrow> ports \<Rightarrow> instant \<Rightarrow> (nat \<Rightarrow> uuid) \<Rightarrow> ctx \<Rightarrow> nat \<Rightarrow> RecordInput list \<Rightarrow> db
    \<Rightarrow> (err, Transaction) res list \<times> MirrorRef list \<times> db" where
  "batch_loop m pt now newid c i [] d = ([], [], d)"
| "batch_loop m pt now newid c i (row # rest) d =
     (case recordOne m pt now (newid i) c row d of
        (Inl e, d') \<Rightarrow> (case batch_loop m pt now newid c (Suc i) rest d' of
            (out, kick, d'') \<Rightarrow> (Inl e # out, kick, d''))
      | (Inr (t, refs), d') \<Rightarrow> (case batch_loop m pt now newid c (Suc i) rest d' of
            (out, kick, d'') \<Rightarrow> (Inr t # out, refs @ kick, d'')))"

definition RecordBatch :: "mirror \<Rightarrow> ports \<Rightarrow> instant \<Rightarrow> (nat \<Rightarrow> uuid) \<Rightarrow> ctx \<Rightarrow> RecordInput list \<Rightarrow> db
    \<Rightarrow> (err, Transaction) res list \<times> db" where
  "RecordBatch m pt now newid c inp d = (case batch_loop m pt now newid c 0 inp d of
     (out, kick, d') \<Rightarrow> (out, mirror_Kick m c kick d'))"

section \<open>Revising\<close>

text \<open>The setters of the patch, in the order the code applies them, and the check of the result.\<close>

definition apply_patch :: "instant \<Rightarrow> RevisePatch \<Rightarrow> Transaction \<Rightarrow> (err, Transaction) res" where
  "apply_patch now p t =
     (let t1 = (case rp_OccurredAt p of None \<Rightarrow> t | Some at \<Rightarrow> SetOccurredAt now at t);
          t2 = (case rp_WalletID p of None \<Rightarrow> t1 | Some w \<Rightarrow> SetWallet now w t1);
          t3 = (case rp_ToWalletID p of None \<Rightarrow> t2 | Some w \<Rightarrow> SetToWallet now w t2) in
      case (case rp_Note p of None \<Rightarrow> (Inr (), t3) | Some n \<Rightarrow> SetNote now n t3) of (Inl e, _) \<Rightarrow> Inl e | (Inr _, t4) \<Rightarrow>
     (case (case rp_Amount p of None \<Rightarrow> (Inr (), t4) | Some a \<Rightarrow> SetAmount now a t4) of (Inl e, _) \<Rightarrow> Inl e | (Inr _, t5) \<Rightarrow>
     (case (case rp_CategoryID p of None \<Rightarrow> (Inr (), t5) | Some i \<Rightarrow> SetCategory now i t5) of (Inl e, _) \<Rightarrow> Inl e | (Inr _, t6) \<Rightarrow>
     (case tx_validate t6 of Inl e \<Rightarrow> Inl e | Inr _ \<Rightarrow> Inr t6))))"

definition revise_period ::
    "ports \<Rightarrow> instant \<Rightarrow> ctx \<Rightarrow> Tenant \<Rightarrow> RevisePatch \<Rightarrow> bool \<Rightarrow> Transaction \<Rightarrow> (db, Transaction) prog" where
  "revise_period pt now c tc p movedInTime t d =
     (case rp_PeriodID p of
        Some None \<Rightarrow> (Inr (SetPeriod now None t), d)
      | Some (Some i) \<Rightarrow>
          (case resolvePeriod pt c tc (t_OccurredAt t) (Some i) d of
             (Inl e, d') \<Rightarrow> (Inl e, d') | (Inr pid, d') \<Rightarrow> (Inr (SetPeriod now pid t), d'))
      | None \<Rightarrow>
          if movedInTime then
            (case resolvePeriod pt c tc (t_OccurredAt t) None d of
               (Inl e, d') \<Rightarrow> (Inl e, d') | (Inr pid, d') \<Rightarrow> (Inr (SetPeriod now pid t), d'))
          else (Inr t, d))"

definition tx_revise ::
    "ports \<Rightarrow> instant \<Rightarrow> ctx \<Rightarrow> Tenant \<Rightarrow> uuid \<Rightarrow> RevisePatch \<Rightarrow> (db, Transaction \<times> MirrorRef list) prog" where
  "tx_revise pt now c tc tid p d =
     (case tx_load c tc tid ''transaction.Revise'' d of Inl e \<Rightarrow> (Inl e, d) | Inr t \<Rightarrow>
      if \<not> IsUserRecorded (t_Kind t) then (Inl (ETransaction (SystemRecordedError (tx_kind_str (t_Kind t)))), d)
      else case refusePeriodLocked pt c tc (t_PeriodID t) d of Inl e \<Rightarrow> (Inl e, d) | Inr _ \<Rightarrow>
     (case apply_patch now p t of Inl e \<Rightarrow> (Inl e, d) | Inr t1 \<Rightarrow>
     (case checkWallets pt c tc (t_WalletID t1) (t_ToWalletID t1) (t_Kind t1) (t_Amount t1) d of
        Inl e \<Rightarrow> (Inl e, d)
      | Inr currency \<Rightarrow>
        let t2 = t1\<lparr>t_Amount := money_New (Minor (t_Amount t1)) currency\<rparr> in
     (case checkCategory pt c tc (t_CategoryID t2) (t_Kind t2) d of Inl e \<Rightarrow> (Inl e, d) | Inr _ \<Rightarrow>
     (case revise_period pt now c tc p (t_OccurredAt t2 \<noteq> t_OccurredAt t) t2 d of
        (Inl e, d1) \<Rightarrow> (Inl e, d1)
      | (Inr t3, d1) \<Rightarrow>
        (case tx_Save c t3 d1 of
           (Inl e, d2) \<Rightarrow> (Inl (tx_save_error ''transaction.Revise: save'' e), d2)
         | (Inr _, d2) \<Rightarrow> (Inr (t3, touched t3 False @ tl (touched t False)), d2)))))))"

definition Revise :: "mirror \<Rightarrow> ports \<Rightarrow> instant \<Rightarrow> ctx \<Rightarrow> uuid \<Rightarrow> RevisePatch \<Rightarrow> (db, Transaction) prog" where
  "Revise m pt now c tid p d =
     (case tenant_From c of Inl e \<Rightarrow> (Inl e, d) | Inr tc \<Rightarrow>
       commit_kick m now ''transaction.Revise'' c (\<lambda>c'. tx_revise pt now c' tc tid p) d)"

section \<open>Deleting\<close>

definition delete_body :: "ports \<Rightarrow> ctx \<Rightarrow> Tenant \<Rightarrow> uuid \<Rightarrow> (db, unit \<times> MirrorRef list) prog" where
  "delete_body pt c tc tid d =
     (case tx_load c tc tid ''transaction.Delete'' d of Inl e \<Rightarrow> (Inl e, d) | Inr t \<Rightarrow>
      if \<not> IsUserRecorded (t_Kind t) then (Inl (ETransaction (SystemRecordedError (tx_kind_str (t_Kind t)))), d)
      else case refusePeriodLocked pt c tc (t_PeriodID t) d of Inl e \<Rightarrow> (Inl e, d) | Inr _ \<Rightarrow>
     (case tx_Delete c tid d of
        (Inl e, d') \<Rightarrow> (Inl (if tx_IsNotFoundError e then e else Unexpected ''transaction.Delete: delete'' e), d')
      | (Inr _, d') \<Rightarrow> (Inr ((), touched t True), d')))"

definition txs_Delete :: "mirror \<Rightarrow> ports \<Rightarrow> instant \<Rightarrow> ctx \<Rightarrow> uuid \<Rightarrow> (db, unit) prog" where
  "txs_Delete m pt now c tid d =
     (case tenant_From c of Inl e \<Rightarrow> (Inl e, d) | Inr tc \<Rightarrow>
       commit_kick m now ''transaction.Delete'' c (\<lambda>c'. delete_body pt c' tc tid) d)"

section \<open>Reads\<close>

definition txs_ByID :: "ctx \<Rightarrow> uuid \<Rightarrow> db \<Rightarrow> (err, Transaction) res" where
  "txs_ByID c tid d = (case tenant_From c of Inl e \<Rightarrow> Inl e | Inr tc \<Rightarrow> tx_load c tc tid ''transaction.ByID'' d)"

definition cursor_of :: "Transaction \<Rightarrow> Cursor" where
  "cursor_of t = \<lparr>cu_OccurredAt = t_OccurredAt t, cu_CreatedAt = t_CreatedAt t, cu_ID = t_ID t\<rparr>"

definition txs_List :: "ctx \<Rightarrow> TxListOpts \<Rightarrow> db \<Rightarrow> (err, Transaction list \<times> Cursor option) res" where
  "txs_List c opts d = (case tenant_From c of Inl e \<Rightarrow> Inl e | Inr tc \<Rightarrow>
     let limit = NormalizedLimit opts in
     (case tx_List c (tc_OrgID tc) (tc_ProjectID tc) (opts\<lparr>lo_Limit := limit\<rparr>) d of
        Inl e \<Rightarrow> Inl (Unexpected ''transaction.List: list'' e)
      | Inr items \<Rightarrow> if int (length items) < limit then Inr (items, None)
                     else Inr (items, Some (cursor_of (last items)))))"

definition txs_Balances :: "ctx \<Rightarrow> db \<Rightarrow> (err, uuid \<rightharpoonup> Amount) res" where
  "txs_Balances c d = (case tenant_From c of Inl e \<Rightarrow> Inl e | Inr tc \<Rightarrow>
     map_err (Unexpected ''transaction.Balances: balances'') (tx_Balances c (tc_OrgID tc) (tc_ProjectID tc) d))"

definition txs_Balance :: "ports \<Rightarrow> ctx \<Rightarrow> uuid \<Rightarrow> db \<Rightarrow> (err, Amount) res" where
  "txs_Balance pt c wid d = (case tenant_From c of Inl e \<Rightarrow> Inl e | Inr tc \<Rightarrow>
     (case tx_Balance c (tc_OrgID tc) (tc_ProjectID tc) wid d of
        Inl e \<Rightarrow> Inl (Unexpected ''transaction.Balance: balance'' e)
      | Inr out \<Rightarrow>
        if Currency out = '''' then
          (case tx_wallet pt c tc wid d of Inl e \<Rightarrow> Inl e | Inr w \<Rightarrow> Inr (money_Zero (wi_Currency w)))
        else Inr out))"

definition SuggestCategory :: "ctx \<Rightarrow> string \<Rightarrow> db \<Rightarrow> (err, uuid option) res" where
  "SuggestCategory c note d = (case tenant_From c of Inl e \<Rightarrow> Inl e | Inr tc \<Rightarrow>
     map_err (Unexpected ''transaction.SuggestCategory: suggest'')
       (suggester_Suggest c (tc_OrgID tc) (tc_ProjectID tc) note d))"

section \<open>Opening balances and adjustments\<close>

definition system_input :: "uuid \<Rightarrow> TxKind \<Rightarrow> Amount \<Rightarrow> instant \<Rightarrow> RecordInput" where
  "system_input wid kind amount at = \<lparr>ri_WalletID = wid, ri_ToWalletID = None, ri_Kind = kind, ri_Amount = amount,
     ri_CategoryID = None, ri_PeriodID = None, ri_Note = '''', ri_OccurredAt = at\<rparr>"

definition tx_mark :: "mirror \<Rightarrow> instant \<Rightarrow> ctx \<Rightarrow> string \<Rightarrow> MirrorRef list \<Rightarrow> (db, unit) prog" where
  "tx_mark m now c op refs d = (case mirror_Mark m now c refs d of
     (Inl e, d') \<Rightarrow> (Inl (Unexpected (op @ '': mark'') e), d') | (Inr u, d') \<Rightarrow> (Inr u, d'))"

definition RecordOpening :: "mirror \<Rightarrow> ports \<Rightarrow> instant \<Rightarrow> uuid \<Rightarrow> ctx \<Rightarrow> uuid \<Rightarrow> Amount \<Rightarrow> instant \<Rightarrow> uuid \<Rightarrow> (db, uuid) prog" where
  "RecordOpening m pt now tid c wid amount at by' d =
     (case tenant_From c of Inl e \<Rightarrow> (Inl e, d) | Inr tc \<Rightarrow>
     (case tx_record pt now tid c tc (system_input wid KindOpening amount at) by' d of
        (Inl e, d') \<Rightarrow> (Inl e, d')
      | (Inr t, d') \<Rightarrow>
        (case tx_mark m now c ''transaction.RecordOpening'' (touched t False) d' of
           (Inl e, d'') \<Rightarrow> (Inl e, d'') | (Inr _, d'') \<Rightarrow> (Inr (t_ID t), d''))))"

definition adjust_body :: "mirror \<Rightarrow> ports \<Rightarrow> instant \<Rightarrow> uuid \<Rightarrow> Tenant \<Rightarrow> WalletInfo \<Rightarrow> uuid \<Rightarrow> Amount \<Rightarrow> instant \<Rightarrow> uuid
    \<Rightarrow> ctx \<Rightarrow> (db, Transaction option \<times> MirrorRef list) prog" where
  "adjust_body m pt now tid tc w wid target at by' c d =
     (case LockWallet c of Inl e \<Rightarrow> (Inl (Unexpected ''transaction.Adjust: lock wallet'' e), d) | Inr _ \<Rightarrow>
     (case tx_Balance c (tc_OrgID tc) (tc_ProjectID tc) wid d of
        Inl e \<Rightarrow> (Inl (Unexpected ''transaction.Adjust: balance'' e), d)
      | Inr current \<Rightarrow>
        if Currency current \<noteq> '''' \<and> Currency current \<noteq> wi_Currency w
        then (Inl (ETransaction (CurrencyMismatchError wid (wi_Currency w) (Currency current))), d)
        else let delta = wrap64 (Minor target - Minor current) in
        if delta = 0 then (Inr (None, []), d)
        else let kind = (if delta < 0 then KindAdjustmentOut else KindAdjustmentIn);
                 amt = (if delta < 0 then wrap64 (- delta) else delta) in
        case tx_record pt now tid c tc (system_input wid kind (money_New amt (wi_Currency w)) at) by' d of
          (Inl e, d') \<Rightarrow> (Inl e, d')
        | (Inr t, d') \<Rightarrow>
          (case tx_mark m now c ''transaction.Adjust'' (touched t False) d' of
             (Inl e, d'') \<Rightarrow> (Inl e, d'') | (Inr _, d'') \<Rightarrow> (Inr (Some t, touched t False), d''))))"

definition Adjust :: "mirror \<Rightarrow> ports \<Rightarrow> instant \<Rightarrow> uuid \<Rightarrow> ctx \<Rightarrow> uuid \<Rightarrow> Amount \<Rightarrow> instant \<Rightarrow> uuid
    \<Rightarrow> (db, Transaction option) prog" where
  "Adjust m pt now tid c wid target at by' d =
     (case tenant_From c of Inl e \<Rightarrow> (Inl e, d) | Inr tc \<Rightarrow>
     (case tx_wallet pt c tc wid d of Inl e \<Rightarrow> (Inl e, d) | Inr w \<Rightarrow>
      if wi_Archived w then (Inl (ETransaction (WalletArchivedError wid)), d)
      else if Currency target \<noteq> wi_Currency w
      then (Inl (ETransaction (CurrencyMismatchError wid (wi_Currency w) (Currency target))), d)
      else case RunInTx c (adjust_body m pt now tid tc w wid target at by') d of
        (Inl e, d') \<Rightarrow> (Inl e, d')
      | (Inr (out, refs), d') \<Rightarrow> (Inr out, mirror_Kick m c refs d')))"

end
