(* ===== verification/Report.thy ===== *)
theory Report
  imports TransactionStore
begin

text \<open>
  Package \<open>internal/report\<close>: the report types (\<open>report.go\<close>), the arithmetic over
  wallet lines (\<open>compute.go\<close>), the SQL reads of the SQLite reader (\<open>sql.go\<close>,
  \<open>sqlite.go\<close>) and the service (\<open>service.go\<close>).  Everything here only reads.  The
  share of a category is kept as the quotient the float64 division rounds.
\<close>

section \<open>Report types (report.go)\<close>

record PeriodRef =
  pf_ID :: uuid
  pf_Name :: string
  pf_Start :: Date
  pf_End :: "Date option"
  pf_ClosedAt :: "instant option"

definition ArchivedBefore :: "PeriodRef \<Rightarrow> Location \<Rightarrow> instant option" where
  "ArchivedBefore r loc = (case pf_End r of
     None \<Rightarrow> None
   | Some e \<Rightarrow> let cutoff = date_In (AddDays e 1) loc in
       Some (case pf_ClosedAt r of None \<Rightarrow> cutoff | Some ca \<Rightarrow> if ca < cutoff then ca else cutoff))"

record WalletLine =
  wl_WalletID :: uuid
  wl_Name :: string
  wl_Kind :: string
  wl_ExcludeFromTotal :: bool
  wl_Opening :: Amount
  wl_In :: Amount
  wl_Out :: Amount
  wl_Closing :: Amount

record WalletTotals =
  tt_Spendable :: Amount
  tt_Total :: Amount
  tt_Mixed :: bool

record PeriodSummary =
  su_Period :: PeriodRef
  su_Currency :: Currency
  su_Income :: Amount
  su_Expense :: Amount
  su_Net :: Amount
  su_TxCount :: int
  su_Wallets :: "WalletLine list"
  su_SpendableTotal :: Amount
  su_Total :: Amount

record CategorySlice =
  sl_CategoryID :: "uuid option"
  sl_Name :: string
  sl_Icon :: string
  sl_Color :: string
  sl_Amount :: Amount
  sl_Share :: "int \<times> int"
  sl_Count :: int

record CashflowPoint =
  cf_Period :: PeriodRef
  cf_Income :: Amount
  cf_Expense :: Amount
  cf_Net :: Amount

record Flow =
  fw_WalletID :: uuid
  fw_WalletName :: string
  fw_CategoryID :: "uuid option"
  fw_CategoryName :: string
  fw_Amount :: Amount

section \<open>Arithmetic (compute.go)\<close>

record walletMovement =
  mv_WalletID :: uuid
  mv_Name :: string
  mv_Kind :: string
  mv_ExcludeFromTotal :: bool
  mv_Opening :: int
  mv_In :: int
  mv_Out :: int

definition movement_line :: "walletMovement \<Rightarrow> Currency \<Rightarrow> WalletLine" where
  "movement_line m currency = \<lparr>wl_WalletID = mv_WalletID m, wl_Name = mv_Name m, wl_Kind = mv_Kind m,
     wl_ExcludeFromTotal = mv_ExcludeFromTotal m, wl_Opening = money_New (mv_Opening m) currency,
     wl_In = money_New (mv_In m) currency, wl_Out = money_New (mv_Out m) currency,
     wl_Closing = money_New (wrap64 (wrap64 (mv_Opening m + mv_In m) - mv_Out m)) currency\<rparr>"

text \<open>\<open>Add\<close> panics on a currency mismatch; the guard rules it out, so the sum is total here.\<close>

fun totals_loop :: "WalletLine list \<Rightarrow> Currency \<Rightarrow> WalletTotals \<Rightarrow> WalletTotals" where
  "totals_loop [] currency out = out"
| "totals_loop (l # lines) currency out =
     (if Currency (wl_Closing l) \<noteq> currency then totals_loop lines currency (out\<lparr>tt_Mixed := True\<rparr>)
      else let out1 = out\<lparr>tt_Total := the (amount_Add (tt_Total out) (wl_Closing l))\<rparr>;
               out2 = (if wl_ExcludeFromTotal l then out1
                       else out1\<lparr>tt_Spendable := the (amount_Add (tt_Spendable out) (wl_Closing l))\<rparr>)
           in totals_loop lines currency out2)"

definition TotalsOf :: "WalletLine list \<Rightarrow> Currency \<Rightarrow> WalletTotals" where
  "TotalsOf lines currency =
     totals_loop lines currency \<lparr>tt_Spendable = money_Zero currency, tt_Total = money_Zero currency, tt_Mixed = False\<rparr>"

definition assembleSummary ::
    "PeriodRef \<Rightarrow> Currency \<Rightarrow> int \<Rightarrow> int \<Rightarrow> int \<Rightarrow> walletMovement list \<Rightarrow> PeriodSummary" where
  "assembleSummary r currency income expense txCount moves =
     (let lines = map (\<lambda>m. movement_line m currency) moves; tot = TotalsOf lines currency in
      \<lparr>su_Period = r, su_Currency = currency, su_Income = money_New income currency,
       su_Expense = money_New expense currency, su_Net = money_New (wrap64 (income - expense)) currency,
       su_TxCount = txCount, su_Wallets = lines, su_SpendableTotal = tt_Spendable tot, su_Total = tt_Total tot\<rparr>)"

fun wrapped_sum :: "int \<Rightarrow> int list \<Rightarrow> int" where
  "wrapped_sum acc [] = acc"
| "wrapped_sum acc (x # xs) = wrapped_sum (wrap64 (acc + x)) xs"

definition assignShares :: "CategorySlice list \<Rightarrow> CategorySlice list" where
  "assignShares slices = (let tot = wrapped_sum 0 (map (\<lambda>s. Minor (sl_Amount s)) slices) in
     if tot = 0 then slices else map (\<lambda>s. s\<lparr>sl_Share := (Minor (sl_Amount s), tot)\<rparr>) slices)"

definition orderCashflow :: "uuid list \<Rightarrow> CashflowPoint list \<Rightarrow> CashflowPoint list" where
  "orderCashflow periodIDs found = List.map_filter (\<lambda>i. find (\<lambda>p. pf_ID (cf_Period p) = i) found) periodIDs"

section \<open>The reads (sql.go, sqlite.go)\<close>

definition report_scope :: "uuid \<Rightarrow> uuid \<Rightarrow> uuid \<Rightarrow> uuid \<Rightarrow> uuid \<Rightarrow> bool" where
  "report_scope orgID projectID scopeOrg rowOrg rowProject \<longleftrightarrow>
     rowOrg = orgID \<and> rowOrg = scopeOrg \<and> rowProject = projectID"

definition period_ref :: "Period \<Rightarrow> PeriodRef" where
  "period_ref p = \<lparr>pf_ID = p_ID p, pf_Name = p_Name p, pf_Start = p_StartDate p, pf_End = p_EndDate p,
     pf_ClosedAt = (if p_Status p = StatusClosed then p_ClosedAt p else None)\<rparr>"

definition reader_Period :: "ctx \<Rightarrow> uuid \<Rightarrow> uuid \<Rightarrow> uuid \<Rightarrow> db \<Rightarrow> (err, PeriodRef) res" where
  "reader_Period c orgID projectID periodID d = (case tenant_From c of Inl e \<Rightarrow> Inl e | Inr tc \<Rightarrow>
     (case find (\<lambda>p. p_ID p = periodID \<and> report_scope orgID projectID (tc_OrgID tc) (p_OrgID p) (p_ProjectID p))
         (db_periods d) of
        None \<Rightarrow> Inl ErrPeriodAbsent | Some p \<Rightarrow> Inr (period_ref p)))"

definition period_rows :: "uuid \<Rightarrow> Currency \<Rightarrow> Transaction list \<Rightarrow> Transaction list" where
  "period_rows periodID currency rows = filter (\<lambda>t. t_PeriodID t = Some periodID \<and> tx_currency t = currency) rows"

definition income_of :: "Transaction \<Rightarrow> int" where
  "income_of t = (if t_Kind t \<in> {KindIncome, KindAdjustmentIn} then Minor (t_Amount t) else 0)"

definition expense_of :: "Transaction \<Rightarrow> int" where
  "expense_of t = (if t_Kind t \<in> {KindExpense, KindAdjustmentOut} then Minor (t_Amount t) else 0)"

definition counted :: "Transaction \<Rightarrow> int" where
  "counted t = (if t_Kind t \<in> {KindIncome, KindExpense} then 1 else 0)"

definition summaryTotals :: "uuid \<Rightarrow> Currency \<Rightarrow> Transaction list \<Rightarrow> (err, int \<times> int \<times> int) res" where
  "summaryTotals periodID currency rows = (let pr = period_rows periodID currency rows in
     case (sql_sum 0 (map income_of pr), sql_sum 0 (map expense_of pr), sql_sum 0 (map counted pr)) of
       (Some i, Some e, Some n) \<Rightarrow> Inr (i, e, n) | _ \<Rightarrow> Inl (Sql IntegerOverflow))"

text \<open>\<open>priorPredicate\<close>: assigned to an earlier period, or to none and dated before the start.\<close>

definition prior :: "uuid \<Rightarrow> uuid \<Rightarrow> uuid \<Rightarrow> instant \<Rightarrow> db \<Rightarrow> Transaction \<Rightarrow> bool" where
  "prior orgID projectID periodID startUTC d t \<longleftrightarrow>
     (case t_PeriodID t of
        None \<Rightarrow> t_OccurredAt t < startUTC
      | Some i \<Rightarrow> list_ex (\<lambda>p. p_ID p = i \<and> p_OrgID p = orgID \<and> p_ProjectID p = projectID \<and>
          (case find (\<lambda>p2. p_ID p2 = periodID \<and> p_OrgID p2 = orgID \<and> p_ProjectID p2 = projectID) (db_periods d) of
             None \<Rightarrow> False | Some p2 \<Rightarrow> p_StartDate p < p_StartDate p2)) (db_periods d))"

record move_row =
  mo_wallet :: uuid
  mo_opening :: int
  mo_in :: int
  mo_out :: int

definition own_move :: "(Transaction \<Rightarrow> bool) \<Rightarrow> uuid \<Rightarrow> Transaction \<Rightarrow> move_row" where
  "own_move pri periodID t = \<lparr>mo_wallet = t_WalletID t,
     mo_opening = (if pri t then own_delta t else 0),
     mo_in = (if t_PeriodID t = Some periodID \<and> t_Kind t \<in> {KindIncome, KindOpening, KindAdjustmentIn}
              then Minor (t_Amount t) else 0),
     mo_out = (if t_PeriodID t = Some periodID \<and> t_Kind t \<in> {KindExpense, KindTransfer, KindAdjustmentOut}
               then Minor (t_Amount t) else 0)\<rparr>"

definition incoming_move :: "(Transaction \<Rightarrow> bool) \<Rightarrow> uuid \<Rightarrow> Transaction \<Rightarrow> move_row" where
  "incoming_move pri periodID t = \<lparr>mo_wallet = the (t_ToWalletID t),
     mo_opening = (if pri t then Minor (t_Amount t) else 0),
     mo_in = (if t_PeriodID t = Some periodID then Minor (t_Amount t) else 0), mo_out = 0\<rparr>"

definition move_rows :: "(Transaction \<Rightarrow> bool) \<Rightarrow> uuid \<Rightarrow> Transaction list \<Rightarrow> move_row list" where
  "move_rows pri periodID rows = map (own_move pri periodID) rows @
     map (incoming_move pri periodID) (filter (\<lambda>t. t_Kind t = KindTransfer \<and> t_ToWalletID t \<noteq> None) rows)"

definition wallet_movement :: "move_row list \<Rightarrow> Wallet \<Rightarrow> walletMovement option" where
  "wallet_movement moves w = (let ms = filter (\<lambda>m. mo_wallet m = w_ID w) moves in
     case (sql_sum 0 (map mo_opening ms), sql_sum 0 (map mo_in ms), sql_sum 0 (map mo_out ms)) of
       (Some o', Some i, Some u) \<Rightarrow>
         Some \<lparr>mv_WalletID = w_ID w, mv_Name = w_Name w, mv_Kind = wallet_kind_str (w_Kind w),
           mv_ExcludeFromTotal = w_ExcludeFromTotal w, mv_Opening = o', mv_In = i, mv_Out = u\<rparr>
     | _ \<Rightarrow> None)"

fun all_movements :: "move_row list \<Rightarrow> Wallet list \<Rightarrow> (err, walletMovement list) res" where
  "all_movements moves [] = Inr []"
| "all_movements moves (w # ws) = (case wallet_movement moves w of
     None \<Rightarrow> Inl (Sql IntegerOverflow)
   | Some m \<Rightarrow> (case all_movements moves ws of Inl e \<Rightarrow> Inl e | Inr ms \<Rightarrow> Inr (m # ms)))"

definition by_lower_name :: "Wallet \<Rightarrow> int list \<times> uuid" where
  "by_lower_name w = (map byte (sql_lower (w_Name w)), w_ID w)"

definition walletLines :: "uuid \<Rightarrow> uuid \<Rightarrow> uuid \<Rightarrow> uuid \<Rightarrow> Currency \<Rightarrow> instant \<Rightarrow> instant option \<Rightarrow> db
    \<Rightarrow> (err, walletMovement list) res" where
  "walletLines orgID projectID scopeOrg periodID currency startUTC archivedBefore d =
     (let rows = filter (\<lambda>t. tx_currency t = currency) (scoped_rows orgID projectID scopeOrg d);
          pri = prior orgID projectID periodID startUTC d;
          kept = (\<lambda>w. case w_ArchivedAt w of None \<Rightarrow> True | Some a \<Rightarrow>
             (case archivedBefore of None \<Rightarrow> False | Some cutoff \<Rightarrow> cutoff \<le> a));
          wallets = sort_key by_lower_name (filter (\<lambda>w. report_scope orgID projectID scopeOrg (w_OrgID w) (w_ProjectID w) \<and>
             w_Currency w = currency \<and> kept w) (db_wallets d))
      in all_movements (move_rows pri periodID rows) wallets)"

definition reader_Summary :: "ctx \<Rightarrow> uuid \<Rightarrow> uuid \<Rightarrow> uuid \<Rightarrow> Currency \<Rightarrow> instant \<Rightarrow> instant option \<Rightarrow> db
    \<Rightarrow> (err, PeriodSummary) res" where
  "reader_Summary c orgID projectID periodID currency startUTC archivedBefore d =
     (case reader_Period c orgID projectID periodID d of Inl e \<Rightarrow> Inl e | Inr r \<Rightarrow>
     (case tenant_From c of Inl e \<Rightarrow> Inl e | Inr tc \<Rightarrow>
     (case summaryTotals periodID currency (scoped_rows orgID projectID (tc_OrgID tc) d) of
        Inl e \<Rightarrow> Inl e
      | Inr (income, expense, n) \<Rightarrow>
        (case walletLines orgID projectID (tc_OrgID tc) periodID currency startUTC archivedBefore d of
           Inl e \<Rightarrow> Inl e
         | Inr moves \<Rightarrow> Inr (assembleSummary r currency income expense n moves)))))"

definition named_category :: "uuid \<Rightarrow> uuid option \<Rightarrow> db \<Rightarrow> Category option" where
  "named_category orgID cid d = (case cid of None \<Rightarrow> None
     | Some i \<Rightarrow> find (\<lambda>c. c_ID c = i \<and> c_OrgID c = orgID) (db_categories d))"

definition text_or_empty :: "('a \<Rightarrow> string) \<Rightarrow> 'a option \<Rightarrow> string" where
  "text_or_empty f x = (case x of None \<Rightarrow> '''' | Some v \<Rightarrow> f v)"

definition category_slice :: "uuid \<Rightarrow> Currency \<Rightarrow> db \<Rightarrow> Transaction list \<Rightarrow> uuid option \<Rightarrow> CategorySlice option" where
  "category_slice orgID currency d rows cid =
     (let mine = filter (\<lambda>t. t_CategoryID t = cid) rows; cat = named_category orgID cid d in
      case sql_sum 0 (map (\<lambda>t. Minor (t_Amount t)) mine) of
        None \<Rightarrow> None
      | Some s \<Rightarrow> Some \<lparr>sl_CategoryID = cid, sl_Name = text_or_empty c_Name cat, sl_Icon = text_or_empty c_Icon cat,
          sl_Color = text_or_empty c_Color cat, sl_Amount = money_New s currency, sl_Share = (0, 1),
          sl_Count = int (length mine)\<rparr>)"

definition slice_order :: "CategorySlice \<Rightarrow> int \<times> int list \<times> nat \<times> uuid" where
  "slice_order s = (- Minor (sl_Amount s), map byte (sl_Name s),
     case sl_CategoryID s of None \<Rightarrow> (1, 0) | Some i \<Rightarrow> (0, i))"

fun collect_some :: "('k \<Rightarrow> 'v option) \<Rightarrow> 'k list \<Rightarrow> (err, 'v list) res" where
  "collect_some f [] = Inr []"
| "collect_some f (k # ks) = (case f k of
     None \<Rightarrow> Inl (Sql IntegerOverflow)
   | Some v \<Rightarrow> (case collect_some f ks of Inl e \<Rightarrow> Inl e | Inr vs \<Rightarrow> Inr (v # vs)))"

definition categorySlices :: "ctx \<Rightarrow> uuid \<Rightarrow> uuid \<Rightarrow> uuid \<Rightarrow> Currency \<Rightarrow> TxKind \<Rightarrow> db \<Rightarrow> (err, CategorySlice list) res" where
  "categorySlices c orgID projectID periodID currency kind d = (case tenant_From c of Inl e \<Rightarrow> Inl e | Inr tc \<Rightarrow>
     let rows = filter (\<lambda>t. t_Kind t = kind) (period_rows periodID currency (scoped_rows orgID projectID (tc_OrgID tc) d))
     in case collect_some (category_slice orgID currency d rows) (remdups (map t_CategoryID rows)) of
          Inl e \<Rightarrow> Inl e | Inr slices \<Rightarrow> Inr (assignShares (sort_key slice_order slices)))"

definition expense_flow :: "uuid \<Rightarrow> Currency \<Rightarrow> db \<Rightarrow> Transaction list \<Rightarrow> uuid \<times> uuid option \<Rightarrow> Flow option" where
  "expense_flow orgID currency d rows k =
     (case sql_sum 0 (map (\<lambda>t. Minor (t_Amount t)) (filter (\<lambda>t. (t_WalletID t, t_CategoryID t) = k) rows)) of
        None \<Rightarrow> None
      | Some s \<Rightarrow> Some \<lparr>fw_WalletID = fst k,
          fw_WalletName = text_or_empty w_Name (find (\<lambda>w. w_ID w = fst k \<and> w_OrgID w = orgID) (db_wallets d)),
          fw_CategoryID = snd k, fw_CategoryName = text_or_empty c_Name (named_category orgID (snd k) d),
          fw_Amount = money_New s currency\<rparr>)"

definition flow_order :: "Flow \<Rightarrow> int \<times> int list \<times> uuid \<times> nat \<times> uuid" where
  "flow_order f = (- Minor (fw_Amount f), map byte (fw_WalletName f), fw_WalletID f,
     case fw_CategoryID f of None \<Rightarrow> (1, 0) | Some i \<Rightarrow> (0, i))"

definition reader_Flows :: "ctx \<Rightarrow> uuid \<Rightarrow> uuid \<Rightarrow> uuid \<Rightarrow> Currency \<Rightarrow> db \<Rightarrow> (err, Flow list) res" where
  "reader_Flows c orgID projectID periodID currency d = (case tenant_From c of Inl e \<Rightarrow> Inl e | Inr tc \<Rightarrow>
     let rows = filter (\<lambda>t. t_Kind t = KindExpense)
           (period_rows periodID currency (scoped_rows orgID projectID (tc_OrgID tc) d))
     in case collect_some (expense_flow orgID currency d rows) (remdups (map (\<lambda>t. (t_WalletID t, t_CategoryID t)) rows)) of
          Inl e \<Rightarrow> Inl e | Inr flows \<Rightarrow> Inr (sort_key flow_order flows))"

definition maxCashflowPeriods :: nat where "maxCashflowPeriods = 9999"

definition cashflowPoint :: "PeriodRef \<Rightarrow> int \<Rightarrow> int \<Rightarrow> Currency \<Rightarrow> CashflowPoint" where
  "cashflowPoint r income expense currency = \<lparr>cf_Period = r, cf_Income = money_New income currency,
     cf_Expense = money_New expense currency, cf_Net = money_New (wrap64 (income - expense)) currency\<rparr>"

definition period_point :: "Currency \<Rightarrow> db \<Rightarrow> Period \<Rightarrow> CashflowPoint option" where
  "period_point currency d p =
     (let rows = filter (\<lambda>t. t_PeriodID t = Some (p_ID p) \<and> t_OrgID t = p_OrgID p \<and> t_ProjectID t = p_ProjectID p \<and>
            tx_currency t = currency) (db_transactions d) in
      case (sql_sum 0 (map income_of rows), sql_sum 0 (map expense_of rows)) of
        (Some i, Some e) \<Rightarrow> Some (cashflowPoint ((period_ref p)\<lparr>pf_ClosedAt := None\<rparr>) i e currency)
      | _ \<Rightarrow> None)"

definition reader_Cashflow :: "ctx \<Rightarrow> uuid \<Rightarrow> uuid \<Rightarrow> uuid list \<Rightarrow> Currency \<Rightarrow> db \<Rightarrow> (err, CashflowPoint list) res" where
  "reader_Cashflow c orgID projectID periodIDs currency d =
     (if periodIDs = [] then Inr []
      else if length periodIDs > maxCashflowPeriods then Inl ErrTooManyPeriods
      else case tenant_From c of Inl e \<Rightarrow> Inl e | Inr tc \<Rightarrow>
        (case collect_some (period_point currency d)
            (filter (\<lambda>p. report_scope orgID projectID (tc_OrgID tc) (p_OrgID p) (p_ProjectID p) \<and> p_ID p \<in> set periodIDs)
               (db_periods d)) of
           Inl e \<Rightarrow> Inl e | Inr found \<Rightarrow> Inr (orderCashflow periodIDs found)))"

definition balance_line :: "Transaction list \<Rightarrow> Wallet \<Rightarrow> WalletLine option" where
  "balance_line rows w =
     (let ins = map (\<lambda>t. if t_Kind t \<in> {KindIncome, KindOpening, KindAdjustmentIn} then Minor (t_Amount t) else 0)
                  (filter (\<lambda>t. t_WalletID t = w_ID w) rows) @
                map (\<lambda>t. Minor (t_Amount t)) (filter (\<lambda>t. t_Kind t = KindTransfer \<and> t_ToWalletID t = Some (w_ID w)) rows);
          outs = map (\<lambda>t. if t_Kind t \<in> {KindExpense, KindTransfer, KindAdjustmentOut} then Minor (t_Amount t) else 0)
                   (filter (\<lambda>t. t_WalletID t = w_ID w) rows)
      in case (sql_sum 0 ins, sql_sum 0 outs) of
           (Some i, Some u) \<Rightarrow> Some (movement_line \<lparr>mv_WalletID = w_ID w, mv_Name = w_Name w,
             mv_Kind = wallet_kind_str (w_Kind w), mv_ExcludeFromTotal = w_ExcludeFromTotal w,
             mv_Opening = 0, mv_In = i, mv_Out = u\<rparr> (w_Currency w))
         | _ \<Rightarrow> None)"

definition reader_WalletBalances :: "ctx \<Rightarrow> uuid \<Rightarrow> uuid \<Rightarrow> db \<Rightarrow> (err, WalletLine list) res" where
  "reader_WalletBalances c orgID projectID d = (case tenant_From c of Inl e \<Rightarrow> Inl e | Inr tc \<Rightarrow>
     collect_some (balance_line (scoped_rows orgID projectID (tc_OrgID tc) d))
       (sort_key by_lower_name (filter (\<lambda>w. report_scope orgID projectID (tc_OrgID tc) (w_OrgID w) (w_ProjectID w) \<and>
          w_ArchivedAt w = None) (db_wallets d))))"

section \<open>The service (service.go)\<close>

definition report_currency :: "ctx \<Rightarrow> uuid \<Rightarrow> uuid \<Rightarrow> db \<Rightarrow> (err, Currency) res" where
  "report_currency c orgID projectID d =
     map_err (Unexpected ''report: default currency'') (ledger_DefaultCurrency c orgID projectID (db_settings d))"

definition report_location :: "tzdb \<Rightarrow> ctx \<Rightarrow> uuid \<Rightarrow> uuid \<Rightarrow> db \<Rightarrow> (err, Location) res" where
  "report_location load c orgID projectID d =
     map_err (Unexpected ''report: location'') (ledger_Location load c orgID projectID (db_settings d))"

definition summaryAs ::
    "tzdb \<Rightarrow> ctx \<Rightarrow> uuid \<Rightarrow> uuid \<Rightarrow> uuid \<Rightarrow> (PeriodRef \<Rightarrow> PeriodRef) \<Rightarrow> db \<Rightarrow> (err, PeriodSummary) res" where
  "summaryAs load c orgID projectID periodID as d =
     (case report_currency c orgID projectID d of Inl e \<Rightarrow> Inl e | Inr currency \<Rightarrow>
     (case report_location load c orgID projectID d of Inl e \<Rightarrow> Inl e | Inr loc \<Rightarrow>
     (case reader_Period c orgID projectID periodID d of
        Inl e \<Rightarrow> Inl (Unexpected ''report.Summary: period'' e)
      | Inr r0 \<Rightarrow> let r = as r0 in
        map_err (Unexpected ''report.Summary: read'')
          (reader_Summary c orgID projectID periodID currency (date_In (pf_Start r) loc) (ArchivedBefore r loc) d))))"

definition reports_Summary :: "tzdb \<Rightarrow> ctx \<Rightarrow> uuid \<Rightarrow> db \<Rightarrow> (err, PeriodSummary) res" where
  "reports_Summary load c periodID d = (case tenant_From c of Inl e \<Rightarrow> Inl e | Inr tc \<Rightarrow>
     summaryAs load c (tc_OrgID tc) (tc_ProjectID tc) periodID (\<lambda>r. r) d)"

definition SnapshotFor :: "tzdb \<Rightarrow> ctx \<Rightarrow> uuid \<Rightarrow> uuid \<Rightarrow> uuid \<Rightarrow> Date \<Rightarrow> instant \<Rightarrow> db \<Rightarrow> (err, PeriodSummary) res" where
  "SnapshotFor load c orgID projectID periodID end' at d =
     summaryAs load c orgID projectID periodID (\<lambda>r. r\<lparr>pf_End := Some end', pf_ClosedAt := Some at\<rparr>) d"

text \<open>The scope and currency every other read starts from.\<close>

definition report_scoped ::
    "ctx \<Rightarrow> db \<Rightarrow> string \<Rightarrow> (Tenant \<Rightarrow> Currency \<Rightarrow> (err, 'a) res) \<Rightarrow> (err, 'a) res" where
  "report_scoped c d op read = (case tenant_From c of Inl e \<Rightarrow> Inl e | Inr tc \<Rightarrow>
     (case report_currency c (tc_OrgID tc) (tc_ProjectID tc) d of Inl e \<Rightarrow> Inl e | Inr currency \<Rightarrow>
       map_err (Unexpected op) (read tc currency)))"

definition reports_SpendByCategory :: "ctx \<Rightarrow> uuid \<Rightarrow> db \<Rightarrow> (err, CategorySlice list) res" where
  "reports_SpendByCategory c periodID d = report_scoped c d ''report.SpendByCategory: read''
     (\<lambda>tc currency. categorySlices c (tc_OrgID tc) (tc_ProjectID tc) periodID currency KindExpense d)"

definition reports_IncomeByCategory :: "ctx \<Rightarrow> uuid \<Rightarrow> db \<Rightarrow> (err, CategorySlice list) res" where
  "reports_IncomeByCategory c periodID d = report_scoped c d ''report.IncomeByCategory: read''
     (\<lambda>tc currency. categorySlices c (tc_OrgID tc) (tc_ProjectID tc) periodID currency KindIncome d)"

definition reports_Cashflow :: "ctx \<Rightarrow> uuid list \<Rightarrow> db \<Rightarrow> (err, CashflowPoint list) res" where
  "reports_Cashflow c periodIDs d = report_scoped c d ''report.Cashflow: read''
     (\<lambda>tc currency. reader_Cashflow c (tc_OrgID tc) (tc_ProjectID tc) periodIDs currency d)"

definition reports_Flows :: "ctx \<Rightarrow> uuid \<Rightarrow> db \<Rightarrow> (err, Flow list) res" where
  "reports_Flows c periodID d = report_scoped c d ''report.Flows: read''
     (\<lambda>tc currency. reader_Flows c (tc_OrgID tc) (tc_ProjectID tc) periodID currency d)"

definition reports_WalletBalances :: "ctx \<Rightarrow> db \<Rightarrow> (err, WalletLine list) res" where
  "reports_WalletBalances c d = (case tenant_From c of Inl e \<Rightarrow> Inl e | Inr tc \<Rightarrow>
     map_err (Unexpected ''report.WalletBalances: read'') (reader_WalletBalances c (tc_OrgID tc) (tc_ProjectID tc) d))"

end
