(* ===== verification/Adapters.thy ===== *)
theory Adapters
  imports PeriodService WalletService CategoryService TransactionService Report
begin

text \<open>
  The adapters of \<open>internal/boot/adapters.go\<close> that join the modules: the
  snapshotter over the report service, the period resolver over the period
  service, the readers of wallets and categories, the opening dater.
  \<open>boot_ports\<close> is what the transaction service is wired with.
\<close>

definition snapshot_of :: "instant \<Rightarrow> PeriodSummary \<Rightarrow> Snapshot" where
  "snapshot_of now s = \<lparr>sn_Currency = su_Currency s, sn_Income = Minor (su_Income s), sn_Expense = Minor (su_Expense s),
     sn_Net = Minor (su_Net s), sn_TxCount = su_TxCount s,
     sn_Wallets = map (\<lambda>w. \<lparr>wc_WalletID = wl_WalletID w, wc_Name = wl_Name w, wc_Closing = Minor (wl_Closing w)\<rparr>) (su_Wallets s),
     sn_ComputedAt = now\<rparr>"

definition snapshotterAdapter :: "tzdb \<Rightarrow> instant \<Rightarrow> snapshotter" where
  "snapshotterAdapter load now c orgID projectID periodID end' at d =
     (case SnapshotFor load c orgID projectID periodID end' at d of
        Inl e \<Rightarrow> Inl e | Inr s \<Rightarrow> Inr (snapshot_of now s))"

definition resolver_info :: "ctx \<Rightarrow> Period \<Rightarrow> db \<Rightarrow> (err, PeriodInfo) res" where
  "resolver_info c p d = (case svc_Neighbors c (p_ID p) d of
     Inl e \<Rightarrow> Inl e
   | Inr (prev, next') \<Rightarrow> Inr \<lparr>pi_ID = p_ID p, pi_Locked = IsLocked p,
       pi_PrevID = map_option p_ID prev, pi_NextID = map_option p_ID next'\<rparr>)"

definition resolver_Containing ::
    "tzdb \<Rightarrow> instant \<Rightarrow> uuid \<Rightarrow> ctx \<Rightarrow> uuid \<Rightarrow> uuid \<Rightarrow> instant \<Rightarrow> (db, PeriodInfo option) prog" where
  "resolver_Containing load now pid c orgID projectID at d =
     (case svc_Containing load now pid c at d of
        (Inl e, d') \<Rightarrow> if period_IsNotFoundError e then (Inr None, d') else (Inl e, d')
      | (Inr p, d') \<Rightarrow>
          if p_OrgID p \<noteq> orgID \<or> p_ProjectID p \<noteq> projectID
          then (Inl (EPeriod (PeriodNotFoundError (RefID (p_ID p)))), d')
          else (case resolver_info c p d' of Inl e \<Rightarrow> (Inl e, d') | Inr info \<Rightarrow> (Inr (Some info), d')))"

definition resolver_ByID :: "ctx \<Rightarrow> uuid \<Rightarrow> uuid \<Rightarrow> uuid \<Rightarrow> db \<Rightarrow> (err, PeriodInfo) res" where
  "resolver_ByID c orgID projectID pid d = (case svc_ByID c pid d of
     Inl e \<Rightarrow> Inl e
   | Inr p \<Rightarrow> if p_OrgID p \<noteq> orgID \<or> p_ProjectID p \<noteq> projectID
              then Inl (EPeriod (PeriodNotFoundError (RefID pid))) else resolver_info c p d)"

definition openingDaterFor :: "tzdb \<Rightarrow> opening_dater" where
  "openingDaterFor load c at d = svc_OpeningDate load c at d"

definition walletReaderFor :: "ctx \<Rightarrow> uuid \<Rightarrow> uuid \<Rightarrow> uuid \<Rightarrow> db \<Rightarrow> (err, WalletInfo) res" where
  "walletReaderFor c orgID projectID wid d = (case wallets_ByID c wid d of
     Inl e \<Rightarrow> Inl e
   | Inr w \<Rightarrow> if w_OrgID w \<noteq> orgID \<or> w_ProjectID w \<noteq> projectID
              then Inl (EWallet (WalletNotFoundError (RefID wid)))
              else Inr \<lparr>wi_ID = w_ID w, wi_Currency = w_Currency w, wi_Archived = wallet_IsArchived w\<rparr>)"

definition categoryReaderFor :: "ctx \<Rightarrow> uuid \<Rightarrow> uuid \<Rightarrow> uuid \<Rightarrow> db \<Rightarrow> (err, CategoryInfo) res" where
  "categoryReaderFor x orgID projectID cid d = (case categories_ByID x cid d of
     Inl e \<Rightarrow> Inl e
   | Inr c \<Rightarrow> if c_OrgID c \<noteq> orgID \<or> c_ProjectID c \<noteq> projectID
              then Inl (ECategory (CategoryNotFoundError cid ''''))
              else Inr \<lparr>ci_ID = c_ID c, ci_Kind = category_kind_str (c_Kind c), ci_Archived = category_IsArchived c\<rparr>)"

definition boot_ports :: "tzdb \<Rightarrow> instant \<Rightarrow> uuid \<Rightarrow> ports" where
  "boot_ports load now pid = \<lparr>port_Wallet = walletReaderFor, port_Category = categoryReaderFor,
     port_Containing = resolver_Containing load now pid, port_PeriodByID = resolver_ByID\<rparr>"

end
