(* ===== verification/TransactionRules.thy ===== *)
theory TransactionRules
  imports Adapters PeriodInvariants
begin

text \<open>
  What the transaction service relies on from the other modules, as the locale
  \<open>tx_ports\<close>: a wallet, category or period a port returns is a row of the
  caller's project, and resolving a period does nothing but open a first one.
  The effects of every transaction operation are derived from these laws, and
  the adapters of the program satisfy them.
\<close>

section \<open>The contract of the ports\<close>

text \<open>The only write a period lookup may make: the project's first period, open, with a fresh id, in a well-formed timeline.\<close>

definition opens_period :: "db \<Rightarrow> db \<Rightarrow> bool" where
  "opens_period d d' \<longleftrightarrow> d' = d \<or> (\<exists>p. d' = d\<lparr>db_periods := db_periods d @ [p]\<rparr> \<and> \<not> IsLocked p \<and>
     find_row p_ID (p_ID p) (db_periods d) = None \<and> (periods_inv (db_periods d) \<longrightarrow> periods_inv (db_periods d @ [p])))"

definition owns_wallet :: "db \<Rightarrow> uuid \<Rightarrow> uuid \<Rightarrow> uuid \<Rightarrow> WalletInfo \<Rightarrow> bool" where
  "owns_wallet d org prj wid w \<longleftrightarrow> (\<exists>r \<in> set (db_wallets d). w_ID r = wid \<and> w_OrgID r = org \<and> w_ProjectID r = prj \<and>
     w = \<lparr>wi_ID = wid, wi_Currency = w_Currency r, wi_Archived = wallet_IsArchived r\<rparr>)"

definition owns_category :: "db \<Rightarrow> uuid \<Rightarrow> uuid \<Rightarrow> uuid \<Rightarrow> CategoryInfo \<Rightarrow> bool" where
  "owns_category d org prj cid ci \<longleftrightarrow> (\<exists>r \<in> set (db_categories d). c_ID r = cid \<and> c_OrgID r = org \<and> c_ProjectID r = prj \<and>
     ci = \<lparr>ci_ID = cid, ci_Kind = category_kind_str (c_Kind r), ci_Archived = category_IsArchived r\<rparr>)"

definition owns_period :: "db \<Rightarrow> uuid \<Rightarrow> uuid \<Rightarrow> uuid \<Rightarrow> bool \<Rightarrow> bool" where
  "owns_period d org prj pid locked \<longleftrightarrow> (\<exists>p \<in> set (db_periods d). p_ID p = pid \<and> p_OrgID p = org \<and> p_ProjectID p = prj \<and>
     IsLocked p = locked)"

locale tx_ports =
  fixes pt :: ports
  assumes wallet_owned: "tenant_From c = Inr tc \<Longrightarrow>
      port_Wallet pt c (tc_OrgID tc) (tc_ProjectID tc) wid d = Inr w \<Longrightarrow> owns_wallet d (tc_OrgID tc) (tc_ProjectID tc) wid w"
    and category_owned: "tenant_From c = Inr tc \<Longrightarrow>
      port_Category pt c (tc_OrgID tc) (tc_ProjectID tc) cid d = Inr ci \<Longrightarrow> owns_category d (tc_OrgID tc) (tc_ProjectID tc) cid ci"
    and period_owned: "tenant_From c = Inr tc \<Longrightarrow>
      port_PeriodByID pt c (tc_OrgID tc) (tc_ProjectID tc) pid d = Inr info \<Longrightarrow>
      owns_period d (tc_OrgID tc) (tc_ProjectID tc) pid (pi_Locked info)"
    and containing_opens: "port_Containing pt c org prj at d = (r, d') \<Longrightarrow> opens_period d d'"
begin

lemma check_target_Inr:
  assumes "tenant_From c = Inr tc" "check_target pt c tc chosen d = Inr pid"
  shows "pid = Some chosen \<and> owns_period d (tc_OrgID tc) (tc_ProjectID tc) chosen False"
  using assms period_owned [OF assms(1)]
  by (fastforce simp: check_target_def split: sum.splits if_splits)

lemma resolvePeriod_opens: "resolvePeriod pt c tc at want d = (r, d') \<Longrightarrow> opens_period d d'"
  by (auto simp: resolvePeriod_def split: prod.splits sum.splits option.splits if_splits dest: containing_opens)

lemma resolvePeriod_Inr:
  assumes "tenant_From c = Inr tc" "resolvePeriod pt c tc at want d = (Inr pid, d')"
  shows "(want \<noteq> None \<longrightarrow> pid = want) \<and>
    (\<forall>i. pid = Some i \<longrightarrow> owns_period d' (tc_OrgID tc) (tc_ProjectID tc) i False)"
  using assms(2) check_target_Inr [OF assms(1)]
  by (auto simp: resolvePeriod_def split: prod.splits sum.splits option.splits if_splits)

lemma refusePeriodLocked_Inr:
  assumes "tenant_From c = Inr tc" "refusePeriodLocked pt c tc (Some pid) d = Inr u"
  shows "owns_period d (tc_OrgID tc) (tc_ProjectID tc) pid False"
  using assms(2) period_owned [OF assms(1)]
  by (fastforce simp: refusePeriodLocked_def split: sum.splits if_splits)

lemma tx_wallet_Inr:
  assumes "tenant_From c = Inr tc" "tx_wallet pt c tc wid d = Inr w"
  shows "owns_wallet d (tc_OrgID tc) (tc_ProjectID tc) wid w"
  using assms wallet_owned [OF assms(1)] by (simp add: tx_wallet_def)

lemma checkWallets_Inr:
  assumes "tenant_From c = Inr tc" "checkWallets pt c tc wid toWid kind a d = Inr cur"
  shows "Currency a = cur \<and> (\<exists>w. owns_wallet d (tc_OrgID tc) (tc_ProjectID tc) wid w \<and> wi_Currency w = cur \<and> \<not> wi_Archived w) \<and>
    (\<forall>to. kind = KindTransfer \<longrightarrow> toWid = Some to \<longrightarrow>
      (\<exists>w. owns_wallet d (tc_OrgID tc) (tc_ProjectID tc) to w \<and> wi_Currency w = cur \<and> \<not> wi_Archived w))"
proof -
  obtain w where w: "tx_wallet pt c tc wid d = Inr w" "\<not> wi_Archived w" "Currency a = wi_Currency w" "cur = wi_Currency w"
    "kind = KindTransfer \<Longrightarrow> toWid = Some to \<Longrightarrow> \<exists>tw. tx_wallet pt c tc to d = Inr tw \<and> \<not> wi_Archived tw \<and> wi_Currency tw = cur" for to
    using assms(2) by (auto simp: checkWallets_def split: sum.splits if_splits option.splits)
  show ?thesis using tx_wallet_Inr [OF assms(1)] w by blast
qed

lemma checkCategory_Inr:
  assumes "tenant_From c = Inr tc" "checkCategory pt c tc (Some cid) kind d = Inr u"
  shows "AllowsCategory kind \<and> (\<exists>ci. owns_category d (tc_OrgID tc) (tc_ProjectID tc) cid ci \<and> ci_Kind ci = tx_kind_str kind)"
  using assms(2) category_owned [OF assms(1)]
  by (fastforce simp: checkCategory_def split: sum.splits if_splits)

end

section \<open>The adapters satisfy the contract\<close>

lemma wallets_ByID_Inr:
  assumes "wallets_ByID c wid d = Inr w"
  shows "w \<in> set (db_wallets d) \<and> w_ID w = wid \<and>
    (\<exists>tc. tenant_From c = Inr tc \<and> w_OrgID w = tc_OrgID tc \<and> w_ProjectID w = tc_ProjectID tc)"
  using assms by (auto simp: wallets_ByID_def wallet_ByID_def find_Some_iff split: sum.splits option.splits if_splits)

lemma categories_ByID_Inr:
  assumes "categories_ByID c cid d = Inr k"
  shows "k \<in> set (db_categories d) \<and> c_ID k = cid \<and>
    (\<exists>tc. tenant_From c = Inr tc \<and> c_OrgID k = tc_OrgID tc \<and> c_ProjectID k = tc_ProjectID tc)"
  using assms by (auto simp: categories_ByID_def category_ByID_def find_Some_iff split: sum.splits option.splits if_splits)

lemma svc_ByID_Inr:
  assumes "svc_ByID c pid d = Inr p"
  shows "p \<in> set (db_periods d) \<and> p_ID p = pid \<and>
    (\<exists>tc. tenant_From c = Inr tc \<and> p_OrgID p = tc_OrgID tc \<and> p_ProjectID p = tc_ProjectID tc)"
  using assms period_scoped_Inr by (fastforce simp: svc_ByID_def split: sum.splits)

lemma EnsureCurrent_opens:
  assumes run: "EnsureCurrent load now pid c d = (r, d')"
  shows "opens_period d d'"
  using run
proof (cases rule: EnsureCurrent_effect)
  case (first tc loc day p)
  note p = period_New_Inr [OF first(4)]
  then show ?thesis using first(6,7) EnsureCurrent_inv [OF _ run] by (auto simp: opens_period_def IsLocked_def)
qed (simp add: opens_period_def)

lemma svc_Containing_opens: "svc_Containing load now pid c at d = (r, d') \<Longrightarrow> opens_period d d'"
  by (drule svc_Containing_effect, elim disjE exE) (simp add: opens_period_def, rule EnsureCurrent_opens)

lemma resolver_info_Inr: "resolver_info c p d = Inr info \<Longrightarrow> pi_ID info = p_ID p \<and> pi_Locked info = IsLocked p"
  by (auto simp: resolver_info_def split: sum.splits prod.splits)

interpretation boot: tx_ports "boot_ports load now pid"
proof (unfold_locales, goal_cases)
  case (1 c tc wid d w)
  then show ?case
    by (auto simp: boot_ports_def walletReaderFor_def owns_wallet_def split: sum.splits if_splits dest!: wallets_ByID_Inr)
next
  case (2 c tc cid d ci)
  then show ?case
    by (auto simp: boot_ports_def categoryReaderFor_def owns_category_def split: sum.splits if_splits dest!: categories_ByID_Inr)
next
  case (3 c tc i d info)
  then show ?case
    by (auto simp: boot_ports_def resolver_ByID_def owns_period_def split: sum.splits if_splits
        dest!: svc_ByID_Inr resolver_info_Inr)
next
  case (4 c org prj at d r d')
  then show ?case
    by (auto simp: boot_ports_def resolver_Containing_def split: prod.splits sum.splits if_splits dest: svc_Containing_opens)
qed

end
