(* ===== verification/TransactionEffects.thy ===== *)
theory TransactionEffects
  imports TransactionRules
begin

text \<open>
  What each transaction operation does to the state: the row it adds, replaces
  or removes, where that row fits in the books (\<open>tx_fits\<close>), and that the
  transactions of a closed period stay as they are (\<open>frozen\<close>).
\<close>

section \<open>Rows that fit the books\<close>

definition has_wallet :: "db \<Rightarrow> uuid \<Rightarrow> uuid \<Rightarrow> uuid \<Rightarrow> Currency \<Rightarrow> bool" where
  "has_wallet d org prj wid cur \<longleftrightarrow>
     (\<exists>w \<in> set (db_wallets d). w_ID w = wid \<and> w_OrgID w = org \<and> w_ProjectID w = prj \<and> w_Currency w = cur)"

definition has_category :: "db \<Rightarrow> uuid \<Rightarrow> uuid \<Rightarrow> uuid \<Rightarrow> string \<Rightarrow> bool" where
  "has_category d org prj cid kind \<longleftrightarrow>
     (\<exists>c \<in> set (db_categories d). c_ID c = cid \<and> c_OrgID c = org \<and> c_ProjectID c = prj \<and> category_kind_str (c_Kind c) = kind)"

definition has_period :: "db \<Rightarrow> uuid \<Rightarrow> uuid \<Rightarrow> uuid \<Rightarrow> bool" where
  "has_period d org prj pid \<longleftrightarrow> (\<exists>p \<in> set (db_periods d). p_ID p = pid \<and> p_OrgID p = org \<and> p_ProjectID p = prj)"

text \<open>
  A transaction fits: it is well formed, its amount is a 64-bit integer in the
  currency of its wallets, and its wallets, category (of its own kind) and
  period are rows of its own project.
\<close>

definition tx_fits :: "db \<Rightarrow> Transaction \<Rightarrow> bool" where
  "tx_fits d t \<longleftrightarrow> tx_ok t \<and> in_i64 (Minor (t_Amount t)) \<and>
     has_wallet d (t_OrgID t) (t_ProjectID t) (t_WalletID t) (tx_currency t) \<and>
     (\<forall>to. t_ToWalletID t = Some to \<longrightarrow> has_wallet d (t_OrgID t) (t_ProjectID t) to (tx_currency t)) \<and>
     (\<forall>cid. t_CategoryID t = Some cid \<longrightarrow> has_category d (t_OrgID t) (t_ProjectID t) cid (tx_kind_str (t_Kind t))) \<and>
     (\<forall>pid. t_PeriodID t = Some pid \<longrightarrow> has_period d (t_OrgID t) (t_ProjectID t) pid)"

lemma tx_fits_mono:
  assumes "tx_fits d t"
    and "\<And>o' p w k. has_wallet d o' p w k \<Longrightarrow> has_wallet d' o' p w k"
    and "\<And>o' p c k. has_category d o' p c k \<Longrightarrow> has_category d' o' p c k"
    and "\<And>o' p i. has_period d o' p i \<Longrightarrow> has_period d' o' p i"
  shows "tx_fits d' t"
  using assms unfolding tx_fits_def by blast

lemma tx_fits_fks: "tx_fits d t \<Longrightarrow> tx_fks d t"
  by (auto simp: tx_fits_def tx_fks_def has_wallet_def has_category_def has_period_def split: option.splits)

lemma find_row_absent: "find_row key k rows = None \<longleftrightarrow> k \<notin> key ` set rows"
  by (auto simp: find_row_None image_iff)

lemma opens_periodD:
  assumes "opens_period d d'"
  shows "db_wallets d' = db_wallets d" "db_categories d' = db_categories d" "db_transactions d' = db_transactions d"
    "db_settings d' = db_settings d" "db_closings d' = db_closings d" "db_links d' = db_links d" "db_sync d' = db_sync d"
    "set (db_periods d) \<subseteq> set (db_periods d')"
    "keyed p_ID (db_periods d) \<Longrightarrow> keyed p_ID (db_periods d')"
    "\<And>p. p \<in> set (db_periods d') \<Longrightarrow> IsLocked p \<Longrightarrow> p \<in> set (db_periods d)"
    "periods_inv (db_periods d) \<Longrightarrow> periods_inv (db_periods d')"
  using assms by (auto simp: opens_period_def find_row_absent)

lemma opens_period_refl [simp]: "opens_period d d"
  by (simp add: opens_period_def)

lemma fits_same_rows:
  assumes "db_wallets d' = db_wallets d" "db_categories d' = db_categories d" "set (db_periods d) \<subseteq> set (db_periods d')"
    and "tx_fits d t"
  shows "tx_fits d' t"
  using assms(4) by (rule tx_fits_mono) (use assms in \<open>auto simp: has_wallet_def has_category_def has_period_def\<close>)

lemma fits_opens: "opens_period d d' \<Longrightarrow> tx_fits d t \<Longrightarrow> tx_fits d' t"
  using fits_same_rows opens_periodD by metis

lemma tx_stored_fits [simp]: "tx_fits d (tx_stored t) = tx_fits d t"
  by (simp add: tx_fits_def tx_stored_def tx_ok_def tx_currency_def)

lemma tx_stored_fields [simp]:
  "t_ID (tx_stored t) = t_ID t" "t_OrgID (tx_stored t) = t_OrgID t" "t_ProjectID (tx_stored t) = t_ProjectID t"
  "t_PeriodID (tx_stored t) = t_PeriodID t" "t_WalletID (tx_stored t) = t_WalletID t" "t_Kind (tx_stored t) = t_Kind t"
  "t_ToWalletID (tx_stored t) = t_ToWalletID t" "t_Amount (tx_stored t) = t_Amount t" "t_CategoryID (tx_stored t) = t_CategoryID t"
  "t_OccurredAt (tx_stored t) = t_OccurredAt t" "t_CreatedAt (tx_stored t) = t_CreatedAt t" "t_Note (tx_stored t) = t_Note t"
  by (simp_all add: tx_stored_def)

lemma owns_wallet_has: "owns_wallet d org prj wid w \<Longrightarrow> has_wallet d org prj wid (wi_Currency w)"
  by (auto simp: owns_wallet_def has_wallet_def)

lemma owns_category_has: "owns_category d org prj cid ci \<Longrightarrow> has_category d org prj cid (ci_Kind ci)"
  by (auto simp: owns_category_def has_category_def)

lemma owns_period_has: "owns_period d org prj pid l \<Longrightarrow> has_period d org prj pid"
  by (auto simp: owns_period_def has_period_def)

section \<open>Closed periods\<close>

definition locked_ids :: "db \<Rightarrow> uuid set" where
  "locked_ids d = p_ID ` {p \<in> set (db_periods d). IsLocked p}"

definition in_locked :: "db \<Rightarrow> Transaction \<Rightarrow> bool" where
  "in_locked d t \<longleftrightarrow> (\<exists>i \<in> locked_ids d. t_PeriodID t = Some i)"

text \<open>The transactions of the closed periods.\<close>

definition frozen :: "db \<Rightarrow> Transaction list" where
  "frozen d = filter (in_locked d) (db_transactions d)"

lemma opens_locked_ids: "opens_period d d' \<Longrightarrow> locked_ids d' = locked_ids d"
  using opens_periodD(8,10) by (fastforce simp: locked_ids_def)

lemma owns_unlocked:
  assumes "keyed p_ID (db_periods d)" "owns_period d org prj pid False"
  shows "pid \<notin> locked_ids d"
  using assms by (force simp: locked_ids_def owns_period_def distinct_map inj_on_def)

lemma filter_upsert_other:
  assumes "find_row key (key x) rows = Some old" "\<not> P old" "\<not> P x"
  shows "filter P (upsert_row key x rows) = filter P rows"
  using assms by (induction rows) (auto simp: table_simps split: if_splits)

lemma filter_delete_other:
  assumes "keyed key rows" "find_row key i rows = Some old" "\<not> P old"
  shows "filter P (delete_row key i rows) = filter P rows"
proof -
  have "\<not> P r" if "r \<in> set rows" "key r = i" for r
    using that assms by (metis find_row_Some_iff option.inject)
  then show ?thesis by (auto simp: delete_row_def filter_filter intro!: filter_cong)
qed

section \<open>Effects of the operations\<close>

lemma tx_load_Inr:
  assumes "tx_load c tc tid op d = Inr t" "keyed t_ID (db_transactions d)" "tenant_From c = Inr tc"
  shows "find_row t_ID tid (db_transactions d) = Some t \<and> t_OrgID t = tc_OrgID tc \<and> t_ProjectID t = tc_ProjectID tc"
  using assms tx_store.byid_found [OF assms(2,3)]
  by (auto simp: tx_load_def split: sum.splits if_splits)

text \<open>The setters of a patch touch neither the identity nor the kind of the transaction.\<close>

definition same_core :: "Transaction \<Rightarrow> Transaction \<Rightarrow> bool" where
  "same_core t t' \<longleftrightarrow> t_ID t' = t_ID t \<and> t_OrgID t' = t_OrgID t \<and> t_ProjectID t' = t_ProjectID t \<and> t_Kind t' = t_Kind t \<and>
     t_PeriodID t' = t_PeriodID t \<and> t_CreatedAt t' = t_CreatedAt t \<and> t_CreatedBy t' = t_CreatedBy t \<and>
     t_CreatedByKeyID t' = t_CreatedByKeyID t"

lemma set_core:
  "same_core t (case rp_OccurredAt p of None \<Rightarrow> t | Some at \<Rightarrow> SetOccurredAt now at t)"
  "same_core t (case rp_WalletID p of None \<Rightarrow> t | Some w \<Rightarrow> SetWallet now w t)"
  "same_core t (case rp_ToWalletID p of None \<Rightarrow> t | Some tw \<Rightarrow> SetToWallet now tw t)"
  "(case rp_Note p of None \<Rightarrow> (Inr (), t) | Some n \<Rightarrow> SetNote now n t) = (Inr u, t') \<Longrightarrow> same_core t t' \<and> t_Amount t' = t_Amount t"
  "(case rp_Amount p of None \<Rightarrow> (Inr (), t) | Some a \<Rightarrow> SetAmount now a t) = (Inr u, t') \<Longrightarrow>
     same_core t t' \<and> t_Amount t' = (case rp_Amount p of None \<Rightarrow> t_Amount t | Some a \<Rightarrow> a)"
  "(case rp_CategoryID p of None \<Rightarrow> (Inr (), t) | Some i \<Rightarrow> SetCategory now i t) = (Inr u, t') \<Longrightarrow>
     same_core t t' \<and> t_Amount t' = t_Amount t"
  by (auto simp: same_core_def SetOccurredAt_def SetWallet_def SetToWallet_def SetNote_def SetAmount_def SetCategory_def
      Let_def split: option.splits sum.splits if_splits)

lemma same_core_trans: "same_core a b \<Longrightarrow> same_core b c \<Longrightarrow> same_core a c"
  by (simp add: same_core_def)

lemma patch_moves_amount:
  "t_Amount (case rp_OccurredAt p of None \<Rightarrow> t | Some at \<Rightarrow> SetOccurredAt now at t) = t_Amount t"
  "t_Amount (case rp_WalletID p of None \<Rightarrow> t | Some w \<Rightarrow> SetWallet now w t) = t_Amount t"
  "t_Amount (case rp_ToWalletID p of None \<Rightarrow> t | Some tw \<Rightarrow> SetToWallet now tw t) = t_Amount t"
  by (simp_all add: SetOccurredAt_def SetWallet_def SetToWallet_def split: option.splits)

lemma apply_patch_Inr:
  assumes "apply_patch now p t = Inr t'"
  shows "tx_ok t'" "same_core t t'" "t_Amount t' = (case rp_Amount p of None \<Rightarrow> t_Amount t | Some a \<Rightarrow> a)"
proof -
  define t1 where "t1 = (case rp_OccurredAt p of None \<Rightarrow> t | Some at \<Rightarrow> SetOccurredAt now at t)"
  define t2 where "t2 = (case rp_WalletID p of None \<Rightarrow> t1 | Some w \<Rightarrow> SetWallet now w t1)"
  define t3 where "t3 = (case rp_ToWalletID p of None \<Rightarrow> t2 | Some w \<Rightarrow> SetToWallet now w t2)"
  have m: "same_core t t3" "t_Amount t3 = t_Amount t"
    using set_core(1) [where t = t and p = p and now = now, folded t1_def]
      set_core(2) [where t = t1 and p = p and now = now, folded t2_def]
      set_core(3) [where t = t2 and p = p and now = now, folded t3_def]
    by (blast intro: same_core_trans, simp add: t1_def t2_def t3_def patch_moves_amount)
  obtain t4 t5 where
    4: "(case rp_Note p of None \<Rightarrow> (Inr (), t3) | Some n \<Rightarrow> SetNote now n t3) = (Inr (), t4)"
    and 5: "(case rp_Amount p of None \<Rightarrow> (Inr (), t4) | Some a \<Rightarrow> SetAmount now a t4) = (Inr (), t5)"
    and 6: "(case rp_CategoryID p of None \<Rightarrow> (Inr (), t5) | Some i \<Rightarrow> SetCategory now i t5) = (Inr (), t')"
    and v: "tx_validate t' = Inr ()"
    using assms unfolding apply_patch_def Let_def t1_def [symmetric] t2_def [symmetric] t3_def [symmetric]
    by (auto split: prod.splits sum.splits)
  show "tx_ok t'" using v by (simp add: tx_validate_iff)
  show "same_core t t'" using m set_core(4) [OF 4] set_core(5) [OF 5] set_core(6) [OF 6] same_core_trans by blast
  show "t_Amount t' = (case rp_Amount p of None \<Rightarrow> t_Amount t | Some a \<Rightarrow> a)"
    using m set_core(4) [OF 4] set_core(5) [OF 5] set_core(6) [OF 6] by (simp split: option.split)
qed

context tx_ports
begin

lemma tx_record_Inr:
  assumes tc: "tenant_From c = Inr tc" and run: "tx_record pt now tid c tc inp by' d = (Inr t, d')"
    and amt: "in_i64 (Minor (ri_Amount inp))"
  obtains d1 where "opens_period d d1" "tx_Save c t d1 = (Inr (), d')" "tx_fits d1 t"
    "t_ID t = tid" "t_OrgID t = tc_OrgID tc" "t_ProjectID t = tc_ProjectID tc" "t_WalletID t = ri_WalletID inp"
    "t_ToWalletID t = ri_ToWalletID inp" "t_Kind t = ri_Kind inp" "t_Amount t = ri_Amount inp"
    "t_OccurredAt t = ri_OccurredAt inp"
    "\<And>i. t_PeriodID t = Some i \<Longrightarrow> owns_period d1 (tc_OrgID tc) (tc_ProjectID tc) i False"
proof -
  from run obtain cur pid d1 who where
    w: "checkWallets pt c tc (ri_WalletID inp) (ri_ToWalletID inp) (ri_Kind inp) (ri_Amount inp) d = Inr cur"
    and k: "checkCategory pt c tc (ri_CategoryID inp) (ri_Kind inp) d = Inr ()"
    and p: "resolvePeriod pt c tc (ri_OccurredAt inp) (ri_PeriodID inp) d = (Inr pid, d1)"
    and n: "tx_New tid now (tc_OrgID tc) (tc_ProjectID tc) (new_params inp cur pid who) = Inr t"
    and s: "tx_Save c t d1 = (Inr (), d')"
    by (auto simp: tx_record_def split: sum.splits prod.splits)
  note o1 = resolvePeriod_opens [OF p] and rows = opens_periodD [OF resolvePeriod_opens [OF p]]
  note N = tx_New_Inr [OF n]
  note W = checkWallets_Inr [OF tc w] and P = resolvePeriod_Inr [OF tc p]
  have a: "t_Amount t = ri_Amount inp" "tx_currency t = cur"
    using N W by (simp_all add: new_params_def money_New_def tx_currency_def)
  have wal: "has_wallet d (tc_OrgID tc) (tc_ProjectID tc) (ri_WalletID inp) cur"
    using W owns_wallet_has by metis
  have wal2: "has_wallet d (tc_OrgID tc) (tc_ProjectID tc) to cur"
    if "ri_Kind inp = KindTransfer" "ri_ToWalletID inp = Some to" for to
    using W owns_wallet_has that by metis
  have cat: "has_category d (tc_OrgID tc) (tc_ProjectID tc) cid (tx_kind_str (ri_Kind inp))" if "ri_CategoryID inp = Some cid" for cid
    using checkCategory_Inr [OF tc] k that owns_category_has by metis
  have "tx_fits d1 t"
    using N(1) wal wal2 cat a amt P owns_period_has N(3-10)
    by (auto simp: tx_fits_def new_params_def has_wallet_def has_category_def rows tx_ok_def)
  then show thesis using that [OF o1 s _] N a P by (simp add: new_params_def)
qed

lemma tx_record_opens:
  assumes "tx_record pt now tid c tc inp by' d = (Inl e, d')"
  shows "opens_period d d'"
  using assms
  by (auto simp: tx_record_def split: sum.splits prod.splits dest!: tx_Save_Inl dest: resolvePeriod_opens)

text \<open>The period a revision leaves the transaction in.\<close>

lemma revise_period_Inr:
  assumes tc: "tenant_From c = Inr tc" and run: "revise_period pt now c tc p moved t d = (Inr t', d')"
  shows "opens_period d d'" "\<exists>pid u. t' = t\<lparr>t_PeriodID := pid, t_UpdatedAt := u\<rparr> \<and>
    (pid = t_PeriodID t \<or> (\<forall>i. pid = Some i \<longrightarrow> owns_period d' (tc_OrgID tc) (tc_ProjectID tc) i False))"
proof -
  have "opens_period d d' \<and> (\<exists>pid u. t' = t\<lparr>t_PeriodID := pid, t_UpdatedAt := u\<rparr> \<and>
    (pid = t_PeriodID t \<or> (\<forall>i. pid = Some i \<longrightarrow> owns_period d' (tc_OrgID tc) (tc_ProjectID tc) i False)))"
  proof (cases "rp_PeriodID p")
    case None
    show ?thesis
    proof (cases moved)
      case True
      then obtain pid where r: "resolvePeriod pt c tc (t_OccurredAt t) None d = (Inr pid, d')" "t' = SetPeriod now pid t"
        using run None by (auto simp: revise_period_def split: prod.splits sum.splits)
      show ?thesis using resolvePeriod_opens [OF r(1)] resolvePeriod_Inr [OF tc r(1)] r(2) by (auto simp: SetPeriod_def)
    next
      case False
      then have "t' = t" "d' = d" using run None by (auto simp: revise_period_def)
      then show ?thesis
        by (intro conjI exI [of _ "t_PeriodID t"] exI [of _ "t_UpdatedAt t"]) simp_all
    qed
  next
    case (Some w)
    show ?thesis
    proof (cases w)
      case None
      then show ?thesis using run Some by (auto simp: revise_period_def SetPeriod_def)
    next
      case (Some i)
      then obtain pid where r: "resolvePeriod pt c tc (t_OccurredAt t) (Some i) d = (Inr pid, d')" "t' = SetPeriod now pid t"
        using run \<open>rp_PeriodID p = Some w\<close> by (auto simp: revise_period_def split: prod.splits sum.splits)
      show ?thesis using resolvePeriod_opens [OF r(1)] resolvePeriod_Inr [OF tc r(1)] r(2) by (auto simp: SetPeriod_def)
    qed
  qed
  then show "opens_period d d'" "\<exists>pid u. t' = t\<lparr>t_PeriodID := pid, t_UpdatedAt := u\<rparr> \<and>
    (pid = t_PeriodID t \<or> (\<forall>i. pid = Some i \<longrightarrow> owns_period d' (tc_OrgID tc) (tc_ProjectID tc) i False))"
    by blast+
qed

text \<open>
  One shape for every write of a transaction: perhaps a first period, then one
  row saved whose old version (if any) and new version lie outside the closed
  periods.
\<close>

lemma tx_revise_Inr:
  assumes tc: "tenant_From c = Inr tc" and run: "tx_revise pt now c tc tid p d = (Inr (t', refs), d')"
    and keyed: "keyed t_ID (db_transactions d)" and fits: "\<And>t. t \<in> set (db_transactions d) \<Longrightarrow> tx_fits d t"
    and amt: "\<And>a. rp_Amount p = Some a \<Longrightarrow> in_i64 (Minor a)"
  obtains t d1 where "find_row t_ID tid (db_transactions d) = Some t" "opens_period d d1" "tx_Save c t' d1 = (Inr (), d')"
    "tx_fits d1 t'" "t_ID t' = tid" "same_core t (t'\<lparr>t_PeriodID := t_PeriodID t\<rparr>)" "IsUserRecorded (t_Kind t)"
    "t_OrgID t = tc_OrgID tc" "t_ProjectID t = tc_ProjectID tc"
    "\<And>i. t_PeriodID t = Some i \<Longrightarrow> owns_period d (tc_OrgID tc) (tc_ProjectID tc) i False"
    "\<And>i. t_PeriodID t' = Some i \<Longrightarrow> t_PeriodID t = Some i \<or> owns_period d1 (tc_OrgID tc) (tc_ProjectID tc) i False"
proof -
  from run obtain t t1 cur d1 where
    l: "tx_load c tc tid ''transaction.Revise'' d = Inr t" and u: "IsUserRecorded (t_Kind t)"
    and r: "refusePeriodLocked pt c tc (t_PeriodID t) d = Inr ()" and ap: "apply_patch now p t = Inr t1"
    and w: "checkWallets pt c tc (t_WalletID t1) (t_ToWalletID t1) (t_Kind t1) (t_Amount t1) d = Inr cur"
    and k: "checkCategory pt c tc (t_CategoryID t1) (t_Kind t1) d = Inr ()"
    and q: "revise_period pt now c tc p (t_OccurredAt t1 \<noteq> t_OccurredAt t)
              (t1\<lparr>t_Amount := money_New (Minor (t_Amount t1)) cur\<rparr>) d = (Inr t', d1)"
    and s: "tx_Save c t' d1 = (Inr (), d')"
    by (auto simp: tx_revise_def Let_def split: sum.splits prod.splits if_splits)
  note L = tx_load_Inr [OF l keyed tc] and A = apply_patch_Inr [OF ap]
  note W = checkWallets_Inr [OF tc w] and Q = revise_period_Inr [OF tc q]
  have "t1\<lparr>t_Amount := money_New (Minor (t_Amount t1)) cur\<rparr> = t1" using W by (simp add: money_New_def)
  then obtain pid up where t': "t' = t1\<lparr>t_PeriodID := pid, t_UpdatedAt := up\<rparr>"
    and pid: "pid = t_PeriodID t1 \<or> (\<forall>i. pid = Some i \<longrightarrow> owns_period d1 (tc_OrgID tc) (tc_ProjectID tc) i False)"
    using Q(2) by auto
  have old: "tx_fits d t" "t_ID t = tid" using L find_row_SomeD fits by metis+
  note rows = opens_periodD [OF Q(1)]
  have wal: "has_wallet d (tc_OrgID tc) (tc_ProjectID tc) (t_WalletID t1) cur" using W owns_wallet_has by metis
  have wal2: "has_wallet d (tc_OrgID tc) (tc_ProjectID tc) to cur" if "t_Kind t1 = KindTransfer" "t_ToWalletID t1 = Some to" for to
    using W owns_wallet_has that by metis
  have cat: "has_category d (tc_OrgID tc) (tc_ProjectID tc) cid (tx_kind_str (t_Kind t1))" if "t_CategoryID t1 = Some cid" for cid
    using checkCategory_Inr [OF tc] k that owns_category_has by metis
  have per: "has_period d1 (tc_OrgID tc) (tc_ProjectID tc) i" if "pid = Some i" for i
  proof (cases "pid = t_PeriodID t1")
    case True
    then have "t_PeriodID t = Some i" using that A(2) by (simp add: same_core_def)
    then show ?thesis using old(1) L rows(8) by (auto simp: tx_fits_def has_period_def)
  next
    case False
    then show ?thesis using pid that owns_period_has by metis
  qed
  have i64: "in_i64 (Minor (t_Amount t1))" using A(3) amt old(1) by (auto simp: tx_fits_def split: option.splits)
  have "tx_fits d1 t'"
  proof -
    have c: "t_OrgID t1 = tc_OrgID tc" "t_ProjectID t1 = tc_ProjectID tc" "Currency (t_Amount t1) = cur"
      using A(2) L W by (simp_all add: same_core_def)
    have d1: "has_wallet d1 = has_wallet d" "has_category d1 = has_category d"
      by (intro ext, simp add: has_wallet_def has_category_def rows)+
    have "tx_ok t'" using A(1) by (simp add: t' tx_ok_def)
    moreover have "t_Kind t1 = KindTransfer" if "t_ToWalletID t1 = Some to" for to
      using A(1) that by (simp add: tx_ok_def)
    ultimately show ?thesis
      using wal wal2 cat per i64 by (simp add: t' tx_fits_def tx_currency_def c d1)
  qed
  moreover have "same_core t (t'\<lparr>t_PeriodID := t_PeriodID t\<rparr>)" "t_ID t' = tid"
    using A(2) old(2) by (simp_all add: t' same_core_def)
  moreover have "owns_period d (tc_OrgID tc) (tc_ProjectID tc) i False" if "t_PeriodID t = Some i" for i
    using refusePeriodLocked_Inr [OF tc] r that by metis
  moreover have "t_PeriodID t = Some i \<or> owns_period d1 (tc_OrgID tc) (tc_ProjectID tc) i False" if "t_PeriodID t' = Some i" for i
    using pid A(2) that by (auto simp: t' same_core_def)
  ultimately show thesis
    using L u by (intro that [OF _ Q(1) s]) auto
qed

lemma delete_body_Inr:
  assumes tc: "tenant_From c = Inr tc" and run: "delete_body pt c tc tid d = (Inr x, d')"
    and keyed: "keyed t_ID (db_transactions d)"
  obtains t where "find_row t_ID tid (db_transactions d) = Some t" "IsUserRecorded (t_Kind t)"
    "t_OrgID t = tc_OrgID tc" "t_ProjectID t = tc_ProjectID tc"
    "d' = d\<lparr>db_transactions := delete_row t_ID tid (db_transactions d)\<rparr>" "x = ((), touched t True)"
    "\<And>i. t_PeriodID t = Some i \<Longrightarrow> owns_period d (tc_OrgID tc) (tc_ProjectID tc) i False"
proof -
  from run obtain t where
    l: "tx_load c tc tid ''transaction.Delete'' d = Inr t" "IsUserRecorded (t_Kind t)"
    and r: "refusePeriodLocked pt c tc (t_PeriodID t) d = Inr ()"
    and x: "tx_Delete c tid d = (Inr (), d')" "x = ((), touched t True)"
    by (auto simp: delete_body_def split: sum.splits prod.splits if_splits)
  have "owns_period d (tc_OrgID tc) (tc_ProjectID tc) i False" if "t_PeriodID t = Some i" for i
    using refusePeriodLocked_Inr [OF tc] r that by metis
  moreover have "d' = d\<lparr>db_transactions := delete_row t_ID tid (db_transactions d)\<rparr>"
    using x(1) by (auto simp: tx_Delete_Inr)
  ultimately show thesis
    using tx_load_Inr [OF l(1) keyed tc] l(2) x(2) by (intro that) auto
qed

end

section \<open>What a save or a delete leaves alone\<close>

lemma tx_Save_frame:
  assumes "tx_Save c t d = (Inr u, d')"
  obtains row where "d' = d\<lparr>db_transactions := upsert_row t_ID row (db_transactions d)\<rparr>" "t_ID row = t_ID t"
    "find_row t_ID (t_ID t) (db_transactions d) = None \<Longrightarrow> row = tx_stored t"
    "\<And>old. find_row t_ID (t_ID t) (db_transactions d) = Some old \<Longrightarrow> row = tx_overlay old t"
proof (cases "find_row t_ID (t_ID t) (db_transactions d)")
  case None
  then have n: "find_row t_ID (t_ID (tx_stored t)) (db_transactions d) = None" by simp
  from assms None have "d' = d\<lparr>db_transactions := db_transactions d @ [tx_stored t]\<rparr>"
    by (simp add: tx_Save_Inr) (elim exE conjE, assumption)
  then have "d' = d\<lparr>db_transactions := upsert_row t_ID (tx_stored t) (db_transactions d)\<rparr>"
    by (simp only: upsert_row_new [OF n])
  then show thesis by (rule that) (simp_all add: None)
next
  case (Some old)
  have i: "t_ID (tx_overlay old t) = t_ID t" using find_row_SomeD [OF Some] by (simp add: tx_overlay_def)
  from assms Some have "d' = d\<lparr>db_transactions := upsert_row t_ID (tx_overlay old t) (db_transactions d)\<rparr>"
    by (simp add: tx_Save_Inr) (elim exE conjE, assumption)
  then show thesis by (rule that) (simp_all add: Some i)
qed

lemma tx_overlay_core:
  assumes "same_core old (t\<lparr>t_PeriodID := t_PeriodID old\<rparr>)"
  shows "tx_overlay old t = t"
  using assms by (cases old, cases t) (simp add: tx_overlay_def same_core_def)

end
