(* ===== verification/Books.thy ===== *)
theory Books
  imports TransactionEffects
begin

text \<open>
  The invariant of the whole database (\<open>books_inv\<close>) and the changes that keep
  it: putting or deleting a wallet or a category, writing one transaction,
  moving the period timeline, saving settings.  Every operation of the services
  makes one of these changes.
\<close>

section \<open>The invariant\<close>

definition wallets_inv :: "Wallet list \<Rightarrow> bool" where
  "wallets_inv rows \<longleftrightarrow> keyed w_ID rows \<and> (\<forall>w \<in> set rows. wallet_ok w \<and> \<not> wallet_name_taken rows w)"

definition categories_inv :: "Category list \<Rightarrow> bool" where
  "categories_inv rows \<longleftrightarrow> keyed c_ID rows \<and> (\<forall>c \<in> set rows. category_ok c \<and> \<not> category_name_taken rows c)"

definition books_inv :: "tzdb \<Rightarrow> db \<Rightarrow> bool" where
  "books_inv load d \<longleftrightarrow> wallets_inv (db_wallets d) \<and> categories_inv (db_categories d) \<and> periods_inv (db_periods d) \<and>
     ledger_inv load (db_settings d) \<and> keyed t_ID (db_transactions d) \<and> (\<forall>t \<in> set (db_transactions d). tx_fits d t)"

lemma books_invD:
  assumes "books_inv load d"
  shows "keyed w_ID (db_wallets d)" "keyed c_ID (db_categories d)" "keyed t_ID (db_transactions d)"
    "keyed p_ID (db_periods d)" "periods_inv (db_periods d)" "ledger_inv load (db_settings d)"
    "\<And>t. t \<in> set (db_transactions d) \<Longrightarrow> tx_fits d t" "wallets_inv (db_wallets d)" "categories_inv (db_categories d)"
  using assms periods_invD(1) by (auto simp: books_inv_def wallets_inv_def categories_inv_def)

lemma books_inv_books:
  assumes "same_books d d'" "books_inv load d"
  shows "books_inv load d'"
proof -
  have "tx_fits d' t" if "tx_fits d t" for t
    using assms(1) that by (intro fits_same_rows [of d' d]) (simp_all add: same_booksD)
  then show ?thesis using assms by (auto simp: books_inv_def same_booksD)
qed

lemma books_inv_empty: "books_inv load empty_db"
  by (simp add: books_inv_def empty_db_def wallets_inv_def categories_inv_def ledger_inv_def)

section \<open>Wallets\<close>

definition put_wallet :: "db \<Rightarrow> db \<Rightarrow> Wallet \<Rightarrow> bool" where
  "put_wallet d d' w \<longleftrightarrow> d' = d\<lparr>db_wallets := upsert_row w_ID w (db_wallets d)\<rparr> \<and> wallet_ok w \<and>
     \<not> wallet_name_taken (db_wallets d) w \<and>
     (\<forall>old. find_row w_ID (w_ID w) (db_wallets d) = Some old \<longrightarrow>
        w_OrgID w = w_OrgID old \<and> w_ProjectID w = w_ProjectID old \<and> w_Currency w = w_Currency old)"

definition drop_wallet :: "db \<Rightarrow> db \<Rightarrow> Wallet \<Rightarrow> bool" where
  "drop_wallet d d' w \<longleftrightarrow> d' = d\<lparr>db_wallets := delete_row w_ID (w_ID w) (db_wallets d)\<rparr> \<and>
     w \<in> set (db_wallets d) \<and> \<not> wallet_referenced w d"

lemma put_wallet_has:
  assumes "put_wallet d d' w" "has_wallet d org prj i cur" "keyed w_ID (db_wallets d)"
  shows "has_wallet d' org prj i cur"
proof -
  obtain r where r: "r \<in> set (db_wallets d)" "w_ID r = i" "w_OrgID r = org" "w_ProjectID r = prj" "w_Currency r = cur"
    using assms(2) by (auto simp: has_wallet_def)
  show ?thesis
  proof (cases "i = w_ID w")
    case True
    then have "find_row w_ID (w_ID w) (db_wallets d) = Some r" using r assms(3) by (simp add: find_row_Some_iff)
    then show ?thesis using assms(1,3) r True by (auto simp: put_wallet_def has_wallet_def set_upsert_row)
  next
    case False
    then show ?thesis using assms(1,3) r by (auto simp: put_wallet_def has_wallet_def set_upsert_row)
  qed
qed

lemma wallets_inv_put:
  assumes "wallets_inv rows" "wallet_ok w" "\<not> wallet_name_taken rows w"
  shows "wallets_inv (upsert_row w_ID w rows)"
  using assms keyed_upsert_row [of w_ID rows w]
  by (auto simp: wallets_inv_def set_upsert_row wallet_name_taken_def)

lemma wallets_inv_delete: "wallets_inv rows \<Longrightarrow> wallets_inv (delete_row w_ID i rows)"
  using keyed_delete_row [of w_ID rows i] by (auto simp: wallets_inv_def wallet_name_taken_def)

lemma put_wallet_inv:
  assumes inv: "books_inv load d" and put: "put_wallet d d' w"
  shows "books_inv load d'"
proof -
  have d': "d' = d\<lparr>db_wallets := upsert_row w_ID w (db_wallets d)\<rparr>" using put by (simp add: put_wallet_def)
  have "tx_fits d' t" if "t \<in> set (db_transactions d)" for t
    by (rule tx_fits_mono [OF books_invD(7) [OF inv that]])
       (use put_wallet_has [OF put _ books_invD(1) [OF inv]] d' in \<open>simp_all add: has_category_def has_period_def\<close>)
  then show ?thesis
    using inv put wallets_inv_put d' by (simp add: books_inv_def put_wallet_def)
qed

text \<open>An unreferenced wallet can go: no transaction of the books names it.\<close>

lemma drop_wallet_has:
  assumes inv: "books_inv load d" and drop: "drop_wallet d d' w" and t: "t \<in> set (db_transactions d)"
    and i: "i = t_WalletID t \<or> t_ToWalletID t = Some i" and has: "has_wallet d (t_OrgID t) prj i cur"
  shows "has_wallet d' (t_OrgID t) prj i cur"
proof -
  obtain r where r: "r \<in> set (db_wallets d)" "w_ID r = i" "w_OrgID r = t_OrgID t" "w_ProjectID r = prj" "w_Currency r = cur"
    using has by (auto simp: has_wallet_def)
  have "i \<noteq> w_ID w"
  proof
    assume "i = w_ID w"
    then have "r = w" using r drop books_invD(1) [OF inv] by (auto simp: drop_wallet_def distinct_map inj_on_def)
    then show False using drop t i r by (auto simp: drop_wallet_def wallet_referenced_def list_ex_iff)
  qed
  then show ?thesis using r drop by (auto simp: drop_wallet_def has_wallet_def)
qed

lemma drop_wallet_inv:
  assumes inv: "books_inv load d" and drop: "drop_wallet d d' w"
  shows "books_inv load d'"
proof -
  have d': "d' = d\<lparr>db_wallets := delete_row w_ID (w_ID w) (db_wallets d)\<rparr>" using drop by (simp add: drop_wallet_def)
  have "tx_fits d' t" if t: "t \<in> set (db_transactions d)" for t
  proof -
    have "has_category d' = has_category d" "has_period d' = has_period d"
      by (intro ext, simp add: d' has_category_def has_period_def)+
    then show ?thesis
      using books_invD(7) [OF inv t] drop_wallet_has [OF inv drop t]
      by (auto simp: tx_fits_def)
  qed
  then show ?thesis using inv wallets_inv_delete d' by (simp add: books_inv_def)
qed

section \<open>Categories\<close>

definition put_category :: "db \<Rightarrow> db \<Rightarrow> Category \<Rightarrow> bool" where
  "put_category d d' c \<longleftrightarrow> d' = d\<lparr>db_categories := upsert_row c_ID c (db_categories d)\<rparr> \<and> category_ok c \<and>
     \<not> category_name_taken (db_categories d) c \<and>
     (\<forall>old. find_row c_ID (c_ID c) (db_categories d) = Some old \<longrightarrow>
        c_OrgID c = c_OrgID old \<and> c_ProjectID c = c_ProjectID old \<and> c_Kind c = c_Kind old)"

definition drop_category :: "db \<Rightarrow> db \<Rightarrow> Category \<Rightarrow> bool" where
  "drop_category d d' c \<longleftrightarrow> d' = d\<lparr>db_categories := delete_row c_ID (c_ID c) (db_categories d)\<rparr> \<and>
     c \<in> set (db_categories d) \<and> \<not> category_referenced c d"

lemma put_category_has:
  assumes "put_category d d' c" "has_category d org prj i k" "keyed c_ID (db_categories d)"
  shows "has_category d' org prj i k"
proof -
  obtain r where r: "r \<in> set (db_categories d)" "c_ID r = i" "c_OrgID r = org" "c_ProjectID r = prj"
      "category_kind_str (c_Kind r) = k"
    using assms(2) by (auto simp: has_category_def)
  show ?thesis
  proof (cases "i = c_ID c")
    case True
    then have "find_row c_ID (c_ID c) (db_categories d) = Some r" using r assms(3) by (simp add: find_row_Some_iff)
    then show ?thesis using assms(1,3) r True by (auto simp: put_category_def has_category_def set_upsert_row)
  next
    case False
    then show ?thesis using assms(1,3) r by (auto simp: put_category_def has_category_def set_upsert_row)
  qed
qed

lemma categories_inv_put:
  assumes "categories_inv rows" "category_ok c" "\<not> category_name_taken rows c"
  shows "categories_inv (upsert_row c_ID c rows)"
  using assms keyed_upsert_row [of c_ID rows c]
  by (auto simp: categories_inv_def set_upsert_row category_name_taken_def)

lemma categories_inv_delete: "categories_inv rows \<Longrightarrow> categories_inv (delete_row c_ID i rows)"
  using keyed_delete_row [of c_ID rows i] by (auto simp: categories_inv_def category_name_taken_def)

lemma put_category_inv:
  assumes inv: "books_inv load d" and put: "put_category d d' c"
  shows "books_inv load d'"
proof -
  have d': "d' = d\<lparr>db_categories := upsert_row c_ID c (db_categories d)\<rparr>" using put by (simp add: put_category_def)
  have "tx_fits d' t" if "t \<in> set (db_transactions d)" for t
    by (rule tx_fits_mono [OF books_invD(7) [OF inv that]])
       (use put_category_has [OF put _ books_invD(2) [OF inv]] d' in \<open>simp_all add: has_wallet_def has_period_def\<close>)
  then show ?thesis
    using inv put categories_inv_put d' by (simp add: books_inv_def put_category_def)
qed

lemma drop_category_inv:
  assumes inv: "books_inv load d" and drop: "drop_category d d' c"
  shows "books_inv load d'"
proof -
  have d': "d' = d\<lparr>db_categories := delete_row c_ID (c_ID c) (db_categories d)\<rparr>" using drop by (simp add: drop_category_def)
  have "tx_fits d' t" if t: "t \<in> set (db_transactions d)" for t
  proof -
    have same: "has_wallet d' = has_wallet d" "has_period d' = has_period d"
      by (intro ext, simp add: d' has_wallet_def has_period_def)+
    have "has_category d' (t_OrgID t) (t_ProjectID t) i k"
      if i: "t_CategoryID t = Some i" and has: "has_category d (t_OrgID t) (t_ProjectID t) i k" for i k
    proof -
      obtain r where r: "r \<in> set (db_categories d)" "c_ID r = i" "c_OrgID r = t_OrgID t" "c_ProjectID r = t_ProjectID t"
          "category_kind_str (c_Kind r) = k"
        using has by (auto simp: has_category_def)
      have "i \<noteq> c_ID c"
      proof
        assume "i = c_ID c"
        then have "r = c" using r drop books_invD(2) [OF inv] by (auto simp: drop_category_def distinct_map inj_on_def)
        then show False using drop t i r by (auto simp: drop_category_def category_referenced_def list_ex_iff)
      qed
      then show ?thesis using r drop by (auto simp: drop_category_def has_category_def)
    qed
    then show ?thesis using books_invD(7) [OF inv t] by (auto simp: tx_fits_def same)
  qed
  then show ?thesis using inv categories_inv_delete d' by (simp add: books_inv_def)
qed

section \<open>Transactions, periods, settings\<close>

lemma opens_period_inv:
  assumes "books_inv load d" "opens_period d d'"
  shows "books_inv load d'"
  using assms fits_opens opens_periodD(1-4,11) [OF assms(2)] by (auto simp: books_inv_def)

lemma put_tx_inv:
  assumes inv: "books_inv load d" and fits: "tx_fits d t" and d': "d' = d\<lparr>db_transactions := upsert_row t_ID t (db_transactions d)\<rparr>"
  shows "books_inv load d'"
proof -
  have f: "tx_fits d' x = tx_fits d x" for x
    by (simp add: tx_fits_def d' has_wallet_def has_category_def has_period_def)
  show ?thesis
    using inv fits keyed_upsert_row books_invD(3,7) [OF inv]
    by (auto simp: books_inv_def f) (auto simp: d' set_upsert_row)
qed

lemma drop_tx_inv:
  assumes inv: "books_inv load d" and d': "d' = d\<lparr>db_transactions := delete_row t_ID i (db_transactions d)\<rparr>"
  shows "books_inv load d'"
proof -
  have f: "tx_fits d' x = tx_fits d x" for x
    by (simp add: tx_fits_def d' has_wallet_def has_category_def has_period_def)
  show ?thesis
    using inv keyed_delete_row books_invD(3,7) [OF inv] by (auto simp: books_inv_def f) (auto simp: d')
qed

text \<open>The period timeline may move in any way that keeps its invariant and never loses a period.\<close>

lemma periods_move_inv:
  assumes "books_inv load d" "periods_inv (db_periods d')"
    and "db_wallets d' = db_wallets d" "db_categories d' = db_categories d" "db_transactions d' = db_transactions d"
      "db_settings d' = db_settings d"
    and "\<And>o' p i. has_period d o' p i \<Longrightarrow> has_period d' o' p i"
  shows "books_inv load d'"
proof -
  have "tx_fits d' t" if "t \<in> set (db_transactions d)" for t
    by (rule tx_fits_mono [OF books_invD(7) [OF assms(1) that]])
       (use assms in \<open>simp_all add: has_wallet_def has_category_def\<close>)
  then show ?thesis using assms by (simp add: books_inv_def)
qed

lemma has_period_upsert:
  assumes "has_period d o' pr i" "keyed p_ID (db_periods d)" "find_row p_ID (p_ID p) (db_periods d) = Some old"
    "p_OrgID p = p_OrgID old" "p_ProjectID p = p_ProjectID old"
    "set (upsert_row p_ID p (db_periods d)) \<subseteq> set (db_periods d')"
  shows "has_period d' o' pr i"
proof -
  obtain q where q: "q \<in> set (db_periods d)" "p_ID q = i" "p_OrgID q = o'" "p_ProjectID q = pr"
    using assms(1) by (auto simp: has_period_def)
  show ?thesis
  proof (cases "i = p_ID p")
    case True
    then have "q = old" using q assms(2,3) by (auto simp: find_row_Some_iff distinct_map inj_on_def)
    then show ?thesis using assms q True by (auto simp: has_period_def set_upsert_row)
  next
    case False
    then show ?thesis using assms q by (auto simp: has_period_def set_upsert_row)
  qed
qed

lemma scoped_replace_inv:
  assumes inv: "books_inv load d" and p: "period_scoped c tc pid d = Inr old"
    and x: "p_ID x = p_ID old" "p_OrgID x = p_OrgID old" "p_ProjectID x = p_ProjectID old"
    and d': "set (upsert_row p_ID x (db_periods d)) \<subseteq> set (db_periods d')" "periods_inv (db_periods d')"
      "db_wallets d' = db_wallets d" "db_categories d' = db_categories d" "db_transactions d' = db_transactions d"
      "db_settings d' = db_settings d"
  shows "books_inv load d'"
proof (rule periods_move_inv [OF inv d'(2-6)])
  have "find_row p_ID (p_ID x) (db_periods d) = Some old"
    using period_scoped_Inr [OF p] x books_invD(4) [OF inv] by (simp add: find_row_Some_iff)
  then show "has_period d' o' pr i" if "has_period d o' pr i" for o' pr i
    using has_period_upsert [OF that books_invD(4) [OF inv]] x d' by blast
qed
section \<open>Steps that keep the books\<close>

text \<open>
  A change keeps the books: the invariant survives it, no period is closed or
  reopened, and the transactions of the closed periods are untouched.
\<close>

definition keeps :: "tzdb \<Rightarrow> db \<Rightarrow> db \<Rightarrow> bool" where
  "keeps load d d' \<longleftrightarrow> (books_inv load d \<longrightarrow> books_inv load d' \<and> locked_ids d' = locked_ids d \<and>
     filter (in_locked d) (db_transactions d') = frozen d)"

lemma keepsI: "(books_inv load d \<Longrightarrow> keeps load d d') \<Longrightarrow> keeps load d d'"
  by (simp add: keeps_def)

lemma keeps_refl [simp]: "keeps load d d"
  by (simp add: keeps_def frozen_def)

lemma in_locked_cong: "locked_ids d' = locked_ids d \<Longrightarrow> in_locked d' = in_locked d"
  by (intro ext) (simp add: in_locked_def)

lemma keeps_trans:
  assumes "keeps load d d1" "keeps load d1 d'"
  shows "keeps load d d'"
proof (rule keepsI)
  assume inv: "books_inv load d"
  have 1: "books_inv load d1" "locked_ids d1 = locked_ids d" "filter (in_locked d) (db_transactions d1) = frozen d"
    using assms(1) inv by (simp_all add: keeps_def)
  have 2: "books_inv load d'" "locked_ids d' = locked_ids d1" "filter (in_locked d1) (db_transactions d') = frozen d1"
    using assms(2) 1 by (simp_all add: keeps_def)
  show ?thesis using 1 2 by (simp add: keeps_def frozen_def in_locked_cong [OF 1(2)])
qed

lemma keeps_same_txs:
  assumes "books_inv load d \<Longrightarrow> books_inv load d'" "db_transactions d' = db_transactions d" "locked_ids d' = locked_ids d"
  shows "keeps load d d'"
  using assms by (simp add: keeps_def frozen_def)

lemma locked_ids_periods: "db_periods d' = db_periods d \<Longrightarrow> locked_ids d' = locked_ids d"
  by (simp add: locked_ids_def)

lemma keeps_books: "same_books d d' \<Longrightarrow> keeps load d d'"
  using books_inv_books by (intro keeps_same_txs locked_ids_periods) (auto simp: same_booksD)

lemma keeps_opens: "opens_period d d' \<Longrightarrow> keeps load d d'"
  using opens_period_inv opens_locked_ids opens_periodD(3) by (metis keeps_same_txs)

lemma keeps_rows:
  "put_wallet d d' w \<Longrightarrow> keeps load d d'" "drop_wallet d d' w \<Longrightarrow> keeps load d d'"
  "put_category d d' c \<Longrightarrow> keeps load d d'" "drop_category d d' c \<Longrightarrow> keeps load d d'"
  by (rule keeps_same_txs, rule put_wallet_inv drop_wallet_inv put_category_inv drop_category_inv, assumption+,
      simp add: put_wallet_def drop_wallet_def put_category_def drop_category_def,
      simp add: put_wallet_def drop_wallet_def put_category_def drop_category_def locked_ids_def)+

lemma keeps_put_tx:
  assumes fits: "tx_fits d t" and d': "d' = d\<lparr>db_transactions := upsert_row t_ID t (db_transactions d)\<rparr>"
    and new: "\<not> in_locked d t" and old: "\<And>old. find_row t_ID (t_ID t) (db_transactions d) = Some old \<Longrightarrow> \<not> in_locked d old"
  shows "keeps load d d'"
proof -
  have "filter (in_locked d) (db_transactions d') = frozen d"
  proof (cases "find_row t_ID (t_ID t) (db_transactions d)")
    case None
    then show ?thesis using new by (simp add: d' frozen_def upsert_row_new)
  next
    case (Some o')
    then show ?thesis using filter_upsert_other [OF Some, of "in_locked d"] old new by (simp add: d' frozen_def)
  qed
  then show ?thesis using put_tx_inv [OF _ fits d'] by (simp add: keeps_def d' locked_ids_def)
qed

lemma keeps_drop_tx:
  assumes d': "d' = d\<lparr>db_transactions := delete_row t_ID i (db_transactions d)\<rparr>"
    and old: "find_row t_ID i (db_transactions d) = Some old" "\<not> in_locked d old"
  shows "keeps load d d'"
proof (rule keepsI)
  assume inv: "books_inv load d"
  have "filter (in_locked d) (db_transactions d') = frozen d"
    using filter_delete_other [OF books_invD(3) [OF inv] old(1), of "in_locked d"] old(2) by (simp add: d' frozen_def)
  then show ?thesis using drop_tx_inv [OF inv d'] by (simp add: keeps_def d' locked_ids_def)
qed

lemma commit_cases:
  assumes "commit m now op c write d = (r, d')"
  obtains "d' = d" | v refs d1 where "write (c\<lparr>ctx_uow := True\<rparr>) d = (Inr (v, refs), d1)" "same_books d1 d'"
proof (cases r)
  case (Inl e)
  show thesis by (rule that(1), rule commit_Inl) (use assms Inl in simp)
next
  case (Inr x)
  then obtain v refs where k: "commit m now op c write d = (Inr (v, refs), d')" using assms by (cases x) simp
  show thesis by (rule commit_Inr [OF k]) (rule that(2))
qed

lemma keeps_commit:
  assumes "commit m now op c write d = (r, d')"
    and "\<And>v refs d1. write (c\<lparr>ctx_uow := True\<rparr>) d = (Inr (v, refs), d1) \<Longrightarrow> keeps load d d1"
  shows "keeps load d d'"
proof (rule commit_cases [OF assms(1)])
  show "keeps load d d'" if "d' = d" using that by simp
qed (rule keeps_trans [OF assms(2) keeps_books])

lemma keeps_kick: "keeps load d d1 \<Longrightarrow> keeps load d (mirror_Kick m c refs d1)"
  by (rule keeps_trans [OF _ keeps_books [OF mirror_Kick_books]])

lemma keeps_commit_kick:
  assumes "commit_kick m now op c write d = (r, d')"
    and "\<And>v refs d1. write (c\<lparr>ctx_uow := True\<rparr>) d = (Inr (v, refs), d1) \<Longrightarrow> keeps load d d1"
  shows "keeps load d d'"
proof -
  obtain r1 d1 where c: "commit m now op c write d = (r1, d1)" by fastforce
  have "keeps load d d1" by (rule keeps_commit [OF c assms(2)])
  then show ?thesis using assms(1) c keeps_kick by (auto simp: commit_kick_def split: sum.splits prod.splits)
qed

end
