(* ===== verification/Balances.thy ===== *)
theory Balances
  imports Books
begin

text \<open>
  Balances as sums of effects.  \<open>wallet_total\<close> is the specification: the sum over
  the project's transactions of \<open>Effect\<close> on the wallet.  The SQL aggregates of
  \<open>Balance\<close>, \<open>Balances\<close> and \<open>WalletBalances\<close> compute it.
\<close>

section \<open>Sums\<close>

lemma sql_sum_Some: "sql_sum acc xs = Some s \<Longrightarrow> s = acc + sum_list xs"
  by (induction acc xs rule: sql_sum.induct) (auto split: if_splits)

lemma sql_sum_bounded:
  assumes "\<bar>acc\<bar> + sum_list (map abs xs) < 2 ^ 63"
  shows "sql_sum acc xs = Some (acc + sum_list xs)"
  using assms
proof (induction acc xs rule: sql_sum.induct)
  case (2 acc x xs)
  have nn: "0 \<le> sum_list (map abs xs)" by (induction xs) auto
  then have "in_i64 (acc + x)" using "2.prems" unfolding in_i64_def by auto
  moreover have "\<bar>acc + x\<bar> + sum_list (map abs xs) < 2 ^ 63" using "2.prems" by simp
  ultimately show ?case using "2.IH" by simp
qed simp

definition wallet_total :: "uuid \<Rightarrow> Transaction list \<Rightarrow> int" where
  "wallet_total wid rows = sum_list (map (\<lambda>t. Minor (Effect t wid)) rows)"

text \<open>The volume of a list of transactions bounds every balance over it.\<close>

definition volume :: "Transaction list \<Rightarrow> int" where
  "volume rows = sum_list (map (\<lambda>t. Minor (t_Amount t)) rows)"

definition sound :: "Transaction \<Rightarrow> bool" where
  "sound t \<longleftrightarrow> tx_ok t \<and> in_i64 (Minor (t_Amount t))"

lemma sound_fits: "tx_fits d t \<Longrightarrow> sound t"
  by (simp add: tx_fits_def sound_def)

lemma sound_Effect: "sound t \<Longrightarrow> Minor (Effect t w) = effect_minor t w"
  by (intro Minor_Effect) (simp_all add: sound_def tx_ok_def)

lemma valid_kind_cases: "tx_kind_valid k \<Longrightarrow> k \<in> {KindIncome, KindExpense, KindTransfer, KindOpening, KindAdjustmentIn, KindAdjustmentOut}"
  by (cases k) simp_all

lemma effect_own:
  assumes "sound t"
  shows "effect_minor t w = (if t_WalletID t = w then own_delta t
    else if t_Kind t = KindTransfer \<and> t_ToWalletID t = Some w then Minor (t_Amount t) else 0)"
  using assms valid_kind_cases [of "t_Kind t"]
  by (auto simp: sound_def tx_ok_def effect_minor_def own_delta_def)

lemma wallet_total_eq: "\<forall>t \<in> set rows. sound t \<Longrightarrow> wallet_total w rows = sum_list (map (\<lambda>t. effect_minor t w) rows)"
  unfolding wallet_total_def by (rule arg_cong [where f = sum_list], rule map_cong) (simp_all add: sound_Effect)

lemma deltas_sum:
  assumes "\<forall>t \<in> set rows. sound t"
  shows "sum_list (map snd (wallet_deltas w rows)) = wallet_total w rows"
  unfolding wallet_total_eq [OF assms] wallet_deltas_def using assms
proof (induction rows)
  case (Cons t rows)
  have s: "sound t" using Cons.prems by simp
  have "t_ToWalletID t \<noteq> Some (t_WalletID t)" using s by (simp add: sound_def tx_ok_def)
  with Cons show ?case by (auto simp: effect_own [OF s])
qed simp

lemma deltas_volume:
  assumes "\<forall>t \<in> set rows. sound t"
  shows "sum_list (map abs (map snd (wallet_deltas w rows))) \<le> volume rows"
  using assms
proof (induction rows)
  case (Cons t rows)
  have s: "sound t" using Cons.prems by simp
  then have "t_ToWalletID t \<noteq> Some (t_WalletID t)" "0 < Minor (t_Amount t)" by (simp_all add: sound_def tx_ok_def)
  with Cons show ?case by (auto simp: wallet_deltas_def volume_def own_delta_def)
qed (simp add: wallet_deltas_def volume_def)

lemma volume_nonneg: "\<forall>t \<in> set rows. sound t \<Longrightarrow> 0 \<le> volume rows"
  by (induction rows) (auto simp: volume_def sound_def tx_ok_def)

section \<open>One currency per wallet\<close>

text \<open>In consistent books the deltas of a wallet all carry the wallet's currency.\<close>

definition one_currency :: "(uuid \<Rightarrow> Currency) \<Rightarrow> Transaction list \<Rightarrow> bool" where
  "one_currency f rows \<longleftrightarrow> (\<forall>t \<in> set rows. sound t \<and> tx_currency t = f (t_WalletID t) \<and>
     (\<forall>to. t_ToWalletID t = Some to \<longrightarrow> tx_currency t = f to))"

definition currency_in :: "db \<Rightarrow> uuid \<Rightarrow> Currency" where
  "currency_in d wid = (case find_row w_ID wid (db_wallets d) of None \<Rightarrow> '''' | Some w \<Rightarrow> w_Currency w)"

lemma has_wallet_currency:
  assumes "keyed w_ID (db_wallets d)" "has_wallet d org prj wid cur"
  shows "currency_in d wid = cur"
  using assms by (auto simp: has_wallet_def currency_in_def find_row_Some_iff split: option.splits)
    (metis find_row_Some_iff option.inject option.simps(3))+

lemma books_one_currency:
  assumes "books_inv load d" "set rows \<subseteq> set (db_transactions d)"
  shows "one_currency (currency_in d) rows"
proof -
  have "sound t \<and> tx_currency t = currency_in d (t_WalletID t) \<and> (\<forall>to. t_ToWalletID t = Some to \<longrightarrow> tx_currency t = currency_in d to)"
    if "t \<in> set rows" for t
  proof -
    have f: "tx_fits d t" using that assms books_invD(7) by blast
    then show ?thesis
      using has_wallet_currency [OF books_invD(1) [OF assms(1)]] sound_fits by (auto simp: tx_fits_def)
  qed
  then show ?thesis unfolding one_currency_def by blast
qed

lemma one_currency_sound: "one_currency f rows \<Longrightarrow> \<forall>t \<in> set rows. sound t"
  by (simp add: one_currency_def)

lemma deltas_currency:
  assumes "one_currency f rows" "x \<in> set (wallet_deltas w rows)"
  shows "fst x = f w"
  using assms by (auto simp: wallet_deltas_def one_currency_def)

lemma distinct_set_singleton: "distinct xs \<Longrightarrow> set xs = {a} \<Longrightarrow> xs = [a]"
  by (cases xs; cases "tl xs") auto

section \<open>Balance\<close>

lemma tx_Balance_total:
  assumes inv: "books_inv load d" and tc: "tenant_From c = Inr tc"
    and vol: "volume (scoped_rows (tc_OrgID tc) (tc_ProjectID tc) (tc_OrgID tc) d) < 2 ^ 63"
  shows "\<exists>a. tx_Balance c (tc_OrgID tc) (tc_ProjectID tc) wid d = Inr a \<and>
    Minor a = wallet_total wid (scoped_rows (tc_OrgID tc) (tc_ProjectID tc) (tc_OrgID tc) d) \<and>
    (Currency a = '''' \<or> Currency a = currency_in d wid)"
proof -
  let ?rows = "scoped_rows (tc_OrgID tc) (tc_ProjectID tc) (tc_OrgID tc) d"
  let ?ds = "wallet_deltas wid ?rows"
  have one: "one_currency (currency_in d) ?rows"
    by (rule books_one_currency [OF inv]) (auto simp: scoped_rows_def)
  note snd' = one_currency_sound [OF one] and cur = deltas_currency [OF one, of _ wid]
  show ?thesis
  proof (cases "?ds = []")
    case True
    then have "wallet_total wid ?rows = 0" using deltas_sum [OF snd', of wid] by simp
    then show ?thesis using True tc unfolding tx_Balance_def tc by (simp add: zero_Amount_def)
  next
    case False
    have "remdups (map fst ?ds) = [currency_in d wid]"
    proof -
      have "set (map fst ?ds) = {currency_in d wid}" using cur False by (cases ?ds) force+
      then show ?thesis by (intro distinct_set_singleton) simp_all
    qed
    moreover have "filter (\<lambda>x. fst x = currency_in d wid) ?ds = ?ds" using cur by (simp add: filter_id_conv)
    moreover have "sql_sum 0 (map snd ?ds) = Some (wallet_total wid ?rows)"
      using sql_sum_bounded [of 0 "map snd ?ds"] deltas_volume [OF snd', of wid] vol deltas_sum [OF snd', of wid] by simp
    ultimately show ?thesis unfolding tx_Balance_def tc by (simp add: money_New_def)
  qed
qed
lemma tx_Balance_no_currency:
  assumes inv: "books_inv load d" and tc: "tenant_From c = Inr tc"
    and a: "tx_Balance c (tc_OrgID tc) (tc_ProjectID tc) wid d = Inr a" "Currency a = ''''"
  shows "Minor a = 0"
proof -
  let ?ds = "wallet_deltas wid (scoped_rows (tc_OrgID tc) (tc_ProjectID tc) (tc_OrgID tc) d)"
  have ne: "fst x \<noteq> ''''" if x: "x \<in> set ?ds" for x
  proof -
    obtain t where t: "t \<in> set (db_transactions d)" "fst x = tx_currency t"
      using x by (auto simp: wallet_deltas_def scoped_rows_def)
    then have "currency_Valid (tx_currency t)" using books_invD(7) [OF inv] by (simp add: tx_fits_def tx_ok_def tx_currency_def)
    then show ?thesis using t length_valid_currency by fastforce
  qed
  show ?thesis
  proof (cases "sort_key (map byte) (remdups (map fst ?ds))")
    case Nil
    then show ?thesis using a(1) unfolding tx_Balance_def tc by (auto simp: zero_Amount_def)
  next
    case (Cons cur curs)
    then have "cur \<in> set (map fst ?ds)" by (metis list.set_intros(1) set_remdups set_sort)
    then have "cur \<noteq> ''''" using ne by auto
    then show ?thesis using a Cons unfolding tx_Balance_def tc by (auto simp: Let_def money_New_def split: option.splits)
  qed
qed

section \<open>Balances\<close>

definition minor_of :: "Amount option \<Rightarrow> int" where
  "minor_of x = (case x of None \<Rightarrow> 0 | Some a \<Rightarrow> Minor a)"

definition key_sum :: "(balance_key \<times> int) list \<Rightarrow> balance_key \<Rightarrow> int" where
  "key_sum rows k = sum_list (map snd (filter (\<lambda>r. fst r = k) rows))"

lemma accumulate_groups_eq:
  assumes "distinct ks" "\<forall>k \<in> set ks. snd k = f (fst k) \<and> key_total rows k = Some (key_sum rows k)"
  shows "\<exists>out'. accumulate_groups rows ks out = Inr out' \<and>
    (\<forall>w. out' w = (if (w, f w) \<in> set ks then accumulate out w (money_New (key_sum rows (w, f w)) (f w)) w else out w))"
  using assms
proof (induction ks arbitrary: out)
  case (Cons k ks)
  obtain w0 where k: "k = (w0, f w0)" using Cons.prems(2) by (cases k) auto
  let ?o = "accumulate out w0 (money_New (key_sum rows k) (f w0))"
  obtain out' where o: "accumulate_groups rows ks ?o = Inr out'"
    "\<And>w. out' w = (if (w, f w) \<in> set ks then accumulate ?o w (money_New (key_sum rows (w, f w)) (f w)) w else ?o w)"
    using Cons.IH [of ?o] Cons.prems by auto
  have other: "accumulate ou w a v = ou v" if "v \<noteq> w" for ou w a v
    using that by (simp add: accumulate_def split: option.split)
  have cong: "accumulate ou w a w = accumulate ou' w a w" if "ou w = ou' w" for ou ou' w a
    using that by (simp add: accumulate_def split: option.split)
  have "out' w = (if (w, f w) \<in> set (k # ks) then accumulate out w (money_New (key_sum rows (w, f w)) (f w)) w else out w)" for w
  proof (cases "w = w0")
    case True
    then show ?thesis using o(2) [of w] Cons.prems(1) by (simp add: k)
  next
    case False
    then have "?o w = out w" by (rule other)
    then show ?thesis using o(2) [of w] False cong [of ?o w out] by (simp add: k)
  qed
  moreover have "key_total rows k = Some (key_sum rows k)" using Cons.prems(2) by simp
  ultimately show ?case using o(1) by (auto simp: k)
qed simp

lemma set_group_keys [simp]: "set (group_keys rows) = fst ` set rows" "distinct (group_keys rows)"
  by (simp_all add: group_keys_def)

lemma key_sum_absent: "k \<notin> fst ` set rows \<Longrightarrow> key_sum rows k = 0"
  by (auto simp: key_sum_def filter_empty_conv) (metis (mono_tags, lifting) filter_empty_conv image_eqI list.simps(8) sum_list.Nil)

lemma key_total_bounded:
  assumes "sum_list (map abs (map snd rows)) < 2 ^ 63"
  shows "key_total rows k = Some (key_sum rows k)"
proof -
  have "sum_list (map abs (map snd (filter P rows))) \<le> sum_list (map abs (map snd rows))" for P
    by (induction rows) auto
  then have "sum_list (map abs (map snd (filter (\<lambda>r. fst r = k) rows))) < 2 ^ 63" using assms by (meson le_less_trans)
  then show ?thesis unfolding key_total_def key_sum_def using sql_sum_bounded [of 0] by simp
qed

lemma own_rows_volume: "\<forall>t \<in> set rows. sound t \<Longrightarrow> sum_list (map abs (map snd (own_rows rows))) = volume rows"
  by (induction rows) (auto simp: own_rows_def volume_def own_delta_def sound_def tx_ok_def)

lemma incoming_rows_volume: "\<forall>t \<in> set rows. sound t \<Longrightarrow> sum_list (map abs (map snd (incoming_rows rows))) \<le> volume rows"
  by (induction rows) (auto simp: incoming_rows_def volume_def sound_def tx_ok_def)

lemma key_sums_total:
  assumes "one_currency f rows"
  shows "key_sum (own_rows rows) (w, f w) + key_sum (incoming_rows rows) (w, f w) = wallet_total w rows"
proof -
  have "wallet_total w rows = sum_list (map (\<lambda>t. effect_minor t w) rows)"
    by (rule wallet_total_eq [OF one_currency_sound [OF assms]])
  moreover have "key_sum (own_rows rows) (w, f w) + key_sum (incoming_rows rows) (w, f w) = sum_list (map (\<lambda>t. effect_minor t w) rows)"
    using assms
  proof (induction rows)
    case (Cons t rows)
    have s: "sound t" "tx_currency t = f (t_WalletID t)" "\<And>to. t_ToWalletID t = Some to \<Longrightarrow> tx_currency t = f to"
      using Cons.prems unfolding one_currency_def by auto
    then have "t_ToWalletID t \<noteq> Some (t_WalletID t)" by (simp add: sound_def tx_ok_def)
    moreover have "one_currency f rows" using Cons.prems unfolding one_currency_def by auto
    ultimately show ?case
      using Cons.IH s(2,3) by (auto simp: key_sum_def own_rows_def incoming_rows_def effect_own [OF s(1)])
  qed (simp add: key_sum_def own_rows_def incoming_rows_def)
  ultimately show ?thesis by simp
qed

lemma wallet_total_volume:
  assumes "\<forall>t \<in> set rows. sound t"
  shows "\<bar>wallet_total w rows\<bar> \<le> volume rows"
proof -
  have "\<bar>sum_list xs\<bar> \<le> sum_list (map abs xs)" for xs :: "int list" by (induction xs) auto
  then show ?thesis using deltas_sum [OF assms, of w] deltas_volume [OF assms, of w] by (metis order_trans)
qed

lemma tx_Balances_total:
  assumes inv: "books_inv load d" and tc: "tenant_From c = Inr tc"
    and vol: "volume (scoped_rows (tc_OrgID tc) (tc_ProjectID tc) (tc_OrgID tc) d) < 2 ^ 63"
  shows "\<exists>bs. tx_Balances c (tc_OrgID tc) (tc_ProjectID tc) d = Inr bs \<and>
    (\<forall>w. minor_of (bs w) = wallet_total w (scoped_rows (tc_OrgID tc) (tc_ProjectID tc) (tc_OrgID tc) d) \<and>
      (\<forall>a. bs w = Some a \<longrightarrow> Currency a = currency_in d w))"
proof -
  let ?rows = "scoped_rows (tc_OrgID tc) (tc_ProjectID tc) (tc_OrgID tc) d" and ?f = "currency_in d"
  have one: "one_currency ?f ?rows" by (rule books_one_currency [OF inv]) (auto simp: scoped_rows_def)
  note ok = one_currency_sound [OF one]
  have own: "\<forall>k \<in> set (group_keys (own_rows ?rows)). snd k = ?f (fst k) \<and> key_total (own_rows ?rows) k = Some (key_sum (own_rows ?rows) k)"
    using key_total_bounded [of "own_rows ?rows"] own_rows_volume [OF ok] vol one by (auto simp: own_rows_def one_currency_def)
  have inc: "\<forall>k \<in> set (group_keys (incoming_rows ?rows)). snd k = ?f (fst k) \<and>
      key_total (incoming_rows ?rows) k = Some (key_sum (incoming_rows ?rows) k)"
    using key_total_bounded [of "incoming_rows ?rows"] incoming_rows_volume [OF ok] vol one
    by (auto simp: incoming_rows_def one_currency_def)
  obtain b1 where b1: "accumulate_groups (own_rows ?rows) (group_keys (own_rows ?rows)) Map.empty = Inr b1"
    "\<And>w. b1 w = (if (w, ?f w) \<in> fst ` set (own_rows ?rows) then Some (money_New (key_sum (own_rows ?rows) (w, ?f w)) (?f w)) else None)"
    using accumulate_groups_eq [OF set_group_keys(2) own, of Map.empty] by (auto simp: accumulate_def)
  obtain bs where bs: "accumulate_groups (incoming_rows ?rows) (group_keys (incoming_rows ?rows)) b1 = Inr bs"
    "\<And>w. bs w = (if (w, ?f w) \<in> fst ` set (incoming_rows ?rows)
       then accumulate b1 w (money_New (key_sum (incoming_rows ?rows) (w, ?f w)) (?f w)) w else b1 w)"
    using accumulate_groups_eq [OF set_group_keys(2) inc, of b1] by auto
  have "minor_of (bs w) = wallet_total w ?rows \<and> (\<forall>a. bs w = Some a \<longrightarrow> Currency a = ?f w)" for w
  proof -
    let ?o = "key_sum (own_rows ?rows) (w, ?f w)" and ?i = "key_sum (incoming_rows ?rows) (w, ?f w)"
    have "in_i64 (?o + ?i)"
      using wallet_total_volume [OF ok, of w] key_sums_total [OF one, of w] vol by (auto simp: in_i64_def)
    then have "minor_of (bs w) = ?o + ?i" "\<forall>a. bs w = Some a \<longrightarrow> Currency a = ?f w"
      using bs(2) [of w] b1(2) [of w] key_sum_absent [of "(w, ?f w)" "own_rows ?rows"] key_sum_absent [of "(w, ?f w)" "incoming_rows ?rows"]
      by (auto simp: minor_of_def accumulate_def amount_Add_def money_New_def wrap64_id split: if_splits)
    then show ?thesis using key_sums_total [OF one, of w] by simp
  qed
  then show ?thesis using b1(1) bs(1) unfolding tx_Balances_def tc by (simp add: Let_def)
qed
section \<open>The wallet lines of a report\<close>

lemma sum_parts_volume:
  fixes g :: "Transaction \<Rightarrow> int"
  assumes "\<forall>t \<in> set rows. sound t" "\<And>t. t \<in> set rows \<Longrightarrow> \<bar>g t\<bar> \<le> Minor (t_Amount t)"
  shows "sum_list (map abs (map g (filter P rows))) \<le> volume rows"
  using assms
proof (induction rows)
  case (Cons t rows)
  have "0 < Minor (t_Amount t)" "\<bar>g t\<bar> \<le> Minor (t_Amount t)"
    using Cons.prems by (simp_all add: sound_def tx_ok_def)
  moreover have "sum_list (map abs (map g (filter P rows))) \<le> volume rows"
    using Cons.prems by (intro Cons.IH) simp_all
  ultimately show ?case by (simp add: volume_def)
qed (simp add: volume_def)

lemma balance_line_total:
  assumes ok: "\<forall>t \<in> set rows. sound t" and vol: "volume rows < 2 ^ 62"
  shows "\<exists>l. balance_line rows w = Some l \<and> wl_WalletID l = w_ID w \<and> Minor (wl_Closing l) = wallet_total (w_ID w) rows \<and>
    Currency (wl_Closing l) = w_Currency w"
proof -
  let ?in = "\<lambda>t. if t_Kind t \<in> {KindIncome, KindOpening, KindAdjustmentIn} then Minor (t_Amount t) else 0"
  let ?out = "\<lambda>t. if t_Kind t \<in> {KindExpense, KindTransfer, KindAdjustmentOut} then Minor (t_Amount t) else 0"
  let ?own = "filter (\<lambda>t. t_WalletID t = w_ID w) rows"
  let ?inc = "filter (\<lambda>t. t_Kind t = KindTransfer \<and> t_ToWalletID t = Some (w_ID w)) rows"
  let ?ins = "map ?in ?own @ map (\<lambda>t. Minor (t_Amount t)) ?inc" and ?outs = "map ?out ?own"
  have pos: "0 < Minor (t_Amount t)" if "t \<in> set rows" for t using ok that by (simp add: sound_def tx_ok_def)
  have b: "sum_list (map abs (map ?in ?own)) \<le> volume rows" "sum_list (map abs ?outs) \<le> volume rows"
    "sum_list (map abs (map (\<lambda>t. Minor (t_Amount t)) ?inc)) \<le> volume rows"
    by (rule sum_parts_volume [OF ok], use pos in force)+
  have abs_le: "\<bar>sum_list xs\<bar> \<le> sum_list (map abs xs)" for xs :: "int list" by (induction xs) auto
  have i: "sql_sum 0 ?ins = Some (sum_list ?ins)" "\<bar>sum_list ?ins\<bar> < 2 ^ 63"
    using sql_sum_bounded [of 0 ?ins] b vol abs_le [of ?ins] by auto
  have u: "sql_sum 0 ?outs = Some (sum_list ?outs)" "\<bar>sum_list ?outs\<bar> < 2 ^ 63"
    using sql_sum_bounded [of 0 ?outs] b vol abs_le [of ?outs] by auto
  have split: "sum_list (map own_delta ?own) = sum_list (map ?in ?own) - sum_list ?outs"
    using ok
  proof (induction rows)
    case (Cons t rows)
    then show ?case using valid_kind_cases [of "t_Kind t"] by (auto simp: own_delta_def sound_def tx_ok_def)
  qed simp
  have tot: "wallet_total (w_ID w) rows = sum_list ?ins - sum_list ?outs"
    using deltas_sum [OF ok, of "w_ID w"] split by (simp add: wallet_deltas_def comp_def)
  moreover have "in_i64 (wallet_total (w_ID w) rows)" "in_i64 (sum_list ?ins)"
    using wallet_total_volume [OF ok, of "w_ID w"] vol i(2) by (auto simp: in_i64_def)
  ultimately show ?thesis using i(1) u(1) by (simp add: balance_line_def Let_def movement_line_def money_New_def wrap64_id)
qed

lemma collect_some_all:
  assumes "\<And>k. k \<in> set ks \<Longrightarrow> \<exists>v. f k = Some v"
  shows "\<exists>vs. collect_some f ks = Inr vs \<and> list_all2 (\<lambda>k v. f k = Some v) ks vs"
  using assms by (induction ks) fastforce+

section \<open>Writes move balances by their effect\<close>

lemma wallet_total_append: "wallet_total w (xs @ ys) = wallet_total w xs + wallet_total w ys"
  by (simp add: wallet_total_def)

lemma Effect_stored [simp]: "Effect (tx_stored t) w = Effect t w"
  by (simp add: Effect_def)

definition project_total :: "Tenant \<Rightarrow> uuid \<Rightarrow> db \<Rightarrow> int" where
  "project_total tc w d = wallet_total w (scoped_rows (tc_OrgID tc) (tc_ProjectID tc) (tc_OrgID tc) d)"

lemma tx_scope_tenant [simp]: "tx_scope org prj org t \<longleftrightarrow> t_OrgID t = org \<and> t_ProjectID t = prj"
  by (auto simp: tx_scope_def)

lemma project_total_append:
  assumes "db_transactions d' = db_transactions d @ [t]" "t_OrgID t = tc_OrgID tc" "t_ProjectID t = tc_ProjectID tc"
  shows "project_total tc w d' = project_total tc w d + Minor (Effect t w)"
  using assms by (simp add: project_total_def scoped_rows_def wallet_total_append) (simp add: wallet_total_def)

lemma wallet_total_remove:
  assumes "keyed t_ID rows" "find_row t_ID i rows = Some t" "P t"
  shows "wallet_total w (filter P (delete_row t_ID i rows)) = wallet_total w (filter P rows) - Minor (Effect t w)"
  using assms
proof (induction rows)
  case (Cons r rows)
  show ?case
  proof (cases "t_ID r = i")
    case True
    then have "\<forall>x \<in> set rows. t_ID x \<noteq> i" using Cons.prems(1) by (auto simp: image_iff)
    then have "delete_row t_ID i rows = rows" by (simp add: delete_row_def filter_id_conv)
    then show ?thesis using Cons.prems True by (simp add: delete_row_def wallet_total_def table_simps)
  next
    case False
    then show ?thesis using Cons by (simp add: delete_row_def wallet_total_def table_simps)
  qed
qed (simp add: table_simps)

lemma wallet_total_replace:
  assumes "find_row t_ID (t_ID t') rows = Some t" "P t" "P t'"
  shows "wallet_total w (filter P (upsert_row t_ID t' rows)) = wallet_total w (filter P rows) - Minor (Effect t w) + Minor (Effect t' w)"
  using assms by (induction rows) (auto simp: wallet_total_def table_simps split: if_splits)

section \<open>Transfers conserve money\<close>

definition external :: "Transaction \<Rightarrow> int" where
  "external t = (if t_Kind t = KindTransfer then 0 else if IsInflow (t_Kind t) then Minor (t_Amount t) else - Minor (t_Amount t))"

lemma effects_sum:
  assumes "sound t" "distinct ws" "t_WalletID t \<in> set ws" "\<And>to. t_ToWalletID t = Some to \<Longrightarrow> to \<in> set ws"
  shows "sum_list (map (\<lambda>w. Minor (Effect t w)) ws) = external t"
proof -
  have "sum_list (map (\<lambda>w. Minor (Effect t w)) ws) = (\<Sum>w \<in> set ws. effect_minor t w)"
    using assms(1,2) by (simp add: sum_list_distinct_conv_sum_set sound_Effect)
  also have "\<dots> = (\<Sum>w \<in> set ws. (if w = t_WalletID t then own_delta t else 0) +
      (if t_ToWalletID t = Some w then Minor (t_Amount t) else 0))"
    using assms(1) by (intro sum.cong) (auto simp: effect_own [OF assms(1)] sound_def tx_ok_def)
  also have "\<dots> = own_delta t + (\<Sum>w \<in> set ws. if t_ToWalletID t = Some w then Minor (t_Amount t) else 0)"
    using assms(3) by (simp add: sum.distrib)
  also have "\<dots> = external t"
  proof (cases "t_ToWalletID t")
    case None
    then show ?thesis
      using assms(1) valid_kind_cases [of "t_Kind t"] by (auto simp: external_def own_delta_def sound_def tx_ok_def)
  next
    case (Some to)
    then have "t_Kind t = KindTransfer" using assms(1) by (auto simp: sound_def tx_ok_def)
    then show ?thesis using assms(4) [OF Some] Some by (simp add: external_def own_delta_def)
  qed
  finally show ?thesis .
qed

lemma totals_conserved:
  assumes "distinct ws" "\<forall>t \<in> set rows. sound t \<and> t_WalletID t \<in> set ws \<and> (\<forall>to. t_ToWalletID t = Some to \<longrightarrow> to \<in> set ws)"
  shows "sum_list (map (\<lambda>w. wallet_total w rows) ws) = sum_list (map external rows)"
  using assms
proof (induction rows)
  case (Cons t rows)
  have "sum_list (map (\<lambda>w. wallet_total w (t # rows)) ws) =
      sum_list (map (\<lambda>w. Minor (Effect t w)) ws) + sum_list (map (\<lambda>w. wallet_total w rows) ws)"
    by (simp add: wallet_total_def sum_list_addf)
  then show ?case using Cons effects_sum [of t ws] by simp
qed (simp add: wallet_total_def)

end
