(* ===== verification/BookSteps.thy ===== *)
theory BookSteps
  imports Books
begin

text \<open>
  Every state-changing operation of the wallet and category services keeps the
  books: each is a put or a deletion of one row in a unit of work of its own.
\<close>

section \<open>Wallet operations\<close>

lemma wallet_Save_put:
  assumes "wallet_Save c w d = (Inr u, d1)" "wallet_ok w"
    and "\<And>old. find_row w_ID (w_ID w) (db_wallets d) = Some old \<Longrightarrow> w_Currency w = w_Currency old"
  shows "keeps load d d1"
proof (cases "find_row w_ID (w_ID w) (db_wallets d)")
  case None
  then have "put_wallet d d1 w"
    using assms by (simp add: wallet_Save_Inr put_wallet_def upsert_row_new) (elim exE conjE, simp)
  then show ?thesis by (rule keeps_rows)
next
  case (Some old)
  have "w_ID (wallet_overlay old w) = w_ID w" "wallet_ok (wallet_overlay old w)"
    using find_row_SomeD [OF Some] assms(2) by (simp_all add: wallet_overlay_def wallet_ok_def)
  then have "put_wallet d d1 (wallet_overlay old w)"
    using assms Some by (simp add: wallet_Save_Inr put_wallet_def wallet_overlay_def) (elim exE conjE, simp)
  then show ?thesis by (rule keeps_rows)
qed

lemma wallet_saveRow_Inr: "wallet_saveRow c w op d = (Inr u, d') \<longleftrightarrow> wallet_Save c w d = (Inr u, d')"
  by (auto simp: wallet_saveRow_def split: prod.splits sum.splits)

lemma wallets_save_keeps:
  assumes run: "wallets_save m now c w op cascade d = (r, d')" and "wallet_ok w"
    and "\<And>old. find_row w_ID (w_ID w) (db_wallets d) = Some old \<Longrightarrow> w_Currency w = w_Currency old"
  shows "keeps load d d'"
  by (rule keeps_commit_kick [OF run [unfolded wallets_save_def]])
     (use wallet_Save_put [OF _ assms(2,3)] wallet_saveRow_Inr in \<open>fastforce split: prod.splits sum.splits\<close>)

text \<open>A wallet loaded by the service and edited keeps its identity and currency.\<close>

lemma loaded_wallet:
  assumes "books_inv load d" "wallets_ByID c wid d = Inr w"
  shows "wallet_ok w" "find_row w_ID wid (db_wallets d) = Some w" "w_ID w = wid"
  using wallets_ByID_Inr [OF assms(2)] books_invD(1,8) [OF assms(1)] by (auto simp: wallets_inv_def find_row_Some_iff)

lemma saved_edit_keeps:
  assumes inv: "books_inv load d" and w: "wallets_ByID c wid d = Inr w" "same_wallet w w'"
    and run: "wallets_save m now c w' op cascade d = (r, d')"
  shows "keeps load d d'"
  using loaded_wallet [OF inv w(1)] w(2) by (intro wallets_save_keeps [OF run]) (auto simp: same_wallet_def)

lemma wallets_edit_keeps:
  assumes inv: "books_inv load d" and run: "wallets_edit m now c wid op method cascade d = (r, d')"
    and meth: "\<And>w x w'. method w = (x, w') \<Longrightarrow> same_wallet w w'"
  shows "keeps load d d'"
proof -
  from run consider "d' = d"
    | w w' r' where "wallets_ByID c wid d = Inr w" "method w = (Inr (), w')" "wallets_save m now c w' op (cascade w w') d = (r', d')"
    by (auto simp: wallets_edit_def split: sum.splits prod.splits)
  then show ?thesis by cases (simp, erule saved_edit_keeps [OF inv], erule meth, assumption)
qed

lemma wallets_Archive_keeps:
  assumes inv: "books_inv load d" and run: "wallets_Archive m now c wid d = (r, d')"
  shows "keeps load d d'"
proof -
  from run consider "d' = d"
    | w r' where "wallets_ByID c wid d = Inr w" "wallets_save m now c (wallet_Archive now w) ''wallet.Archive'' False d = (r', d')"
    by (auto simp: wallets_Archive_def Let_def split: sum.splits prod.splits if_splits)
  then show ?thesis using saved_edit_keeps [OF inv _ wallet_edits_same(4)] by cases auto
qed

lemma wallets_Unarchive_keeps:
  assumes inv: "books_inv load d" and run: "wallets_Unarchive m now c wid d = (r, d')"
  shows "keeps load d d'"
proof -
  from run consider "d' = d"
    | w r' where "wallets_ByID c wid d = Inr w" "wallets_save m now c (wallet_Unarchive now w) ''wallet.Unarchive'' False d = (r', d')"
    by (auto simp: wallets_Unarchive_def Let_def split: sum.splits prod.splits if_splits)
  then show ?thesis using saved_edit_keeps [OF inv _ wallet_edits_same(5)] by cases auto
qed

lemma wallets_edits_keep:
  assumes inv: "books_inv load d"
  shows "wallets_Update m now c wid kind pr ex d = (r, d') \<Longrightarrow> keeps load d d'"
    "wallets_Edit m now c wid name kind pr ex d = (r, d') \<Longrightarrow> keeps load d d'"
    "wallets_Rename m now c wid name d = (r, d') \<Longrightarrow> keeps load d d'"
  unfolding wallets_Update_def wallets_Edit_def wallets_Rename_def
  by (erule wallets_edit_keeps [OF inv], erule wallet_edits_same(1-3))+

lemma wallets_create_put:
  assumes "wallets_create now wid c p d = (Inr w, d1)" "wid \<notin> w_ID ` set (db_wallets d)"
  shows "put_wallet d d1 w" "w_ID w = wid"
proof -
  obtain tc cur where tc: "tenant_From c = Inr tc" and n: "wallet_New wid now (tc_OrgID tc) (tc_ProjectID tc) (p\<lparr>wp_Currency := cur\<rparr>) = Inr w"
    and s: "wallet_Save c w d = (Inr (), d1)"
    using assms(1) unfolding wallets_create_def
    by (auto simp: wallet_saveRow_Inr simp del: tenant_From_Inr split: sum.splits prod.splits)
  note N = wallet_New_Inr [OF n]
  have "find_row w_ID (w_ID w) (db_wallets d) = None" using assms(2) N(1) by (simp add: find_row_absent)
  then show "put_wallet d d1 w"
    using s N(4) by (simp add: wallet_Save_Inr put_wallet_def upsert_row_new) (elim exE conjE, simp)
  show "w_ID w = wid" by (rule N)
qed

lemma wallets_Create_keeps:
  assumes run: "wallets_Create m now wid c p d = (r, d')" and fresh: "wid \<notin> w_ID ` set (db_wallets d)"
  shows "keeps load d d'"
  by (rule keeps_commit_kick [OF run [unfolded wallets_Create_def]])
     (use wallets_create_put(1) [OF _ fresh] keeps_rows(1) in \<open>fastforce split: prod.splits sum.splits\<close>)

lemma wallet_Delete_keeps: "wallet_Delete c wid d = (Inr u, d1) \<Longrightarrow> keeps load d d1"
  unfolding wallet_Delete_Inr
  by (elim exE conjE, rule keeps_rows(2)) (auto simp: find_Some_iff drop_wallet_def)

lemma wallets_Delete_keeps:
  assumes run: "wallets_Delete m now c wid d = (r, d')"
  shows "keeps load d d'"
proof (cases "\<exists>e. r = Inl e \<and> d' = d")
  case False
  with run show ?thesis
    by (auto simp: wallets_Delete_def split: sum.splits elim!: keeps_commit_kick)
       (auto split: prod.splits sum.splits dest!: wallet_Delete_keeps)
qed auto
section \<open>Category operations\<close>

lemma category_stored_ok: "category_ok c \<Longrightarrow> category_ok (category_stored c)"
  using clampSortOrder_bounds by (simp add: category_ok_def category_stored_def SortOrder32_def)

lemma category_overlay_ok: "category_ok c \<Longrightarrow> category_ok (category_overlay old c)"
  using clampSortOrder_bounds by (simp add: category_ok_def category_overlay_def SortOrder32_def)

lemma category_name_taken_stored [simp]: "category_name_taken rows (category_stored c) = category_name_taken rows c"
  by (simp add: category_name_taken_def category_stored_def)

lemma category_Save_put:
  assumes "category_Save x c d = (Inr u, d1)" "category_ok c"
    and "\<And>old. find_row c_ID (c_ID c) (db_categories d) = Some old \<Longrightarrow> c_Kind c = c_Kind old"
  shows "keeps load d d1"
proof (cases "find_row c_ID (c_ID c) (db_categories d)")
  case None
  then have n: "find_row c_ID (c_ID (category_stored c)) (db_categories d) = None" by (simp add: category_stored_def)
  have "put_category d d1 (category_stored c)"
    using assms(1) None n category_stored_ok [OF assms(2)]
    by (simp add: category_Save_Inr put_category_def upsert_row_new [OF n]) (elim exE conjE, simp)
  then show ?thesis by (rule keeps_rows)
next
  case (Some old)
  have "c_ID (category_overlay old c) = c_ID c"
    using find_row_SomeD [OF Some] by (simp add: category_overlay_def)
  moreover have "c_OrgID (category_overlay old c) = c_OrgID old" "c_ProjectID (category_overlay old c) = c_ProjectID old"
      "c_Kind (category_overlay old c) = c_Kind old"
    using assms(3) [OF Some] by (simp_all add: category_overlay_def)
  ultimately have "put_category d d1 (category_overlay old c)"
    using assms(1) Some category_overlay_ok [OF assms(2), of old]
    by (simp add: category_Save_Inr put_category_def) (elim exE conjE, simp)
  then show ?thesis by (rule keeps_rows)
qed

lemma categories_save_keeps:
  assumes run: "categories_save m now x c op cascade d = (r, d')" and "category_ok c"
    and "\<And>old. find_row c_ID (c_ID c) (db_categories d) = Some old \<Longrightarrow> c_Kind c = c_Kind old"
  shows "keeps load d d'"
  by (rule keeps_commit_kick [OF run [unfolded categories_save_def]])
     (use category_Save_put [OF _ assms(2,3)] in \<open>fastforce split: prod.splits sum.splits\<close>)

lemma saved_category_keeps:
  assumes inv: "books_inv load d" and c: "categories_ByID x cid d = Inr c" "same_category c c'"
    and run: "categories_save m now x c' op cascade d = (r, d')"
  shows "keeps load d d'"
proof -
  have "category_ok c" "find_row c_ID cid (db_categories d) = Some c" "c_ID c = cid"
    using categories_ByID_Inr [OF c(1)] books_invD(2,9) [OF inv] by (auto simp: categories_inv_def find_row_Some_iff)
  then show ?thesis using c(2) by (intro categories_save_keeps [OF run]) (auto simp: same_category_def)
qed

lemma categories_edits_keep:
  assumes inv: "books_inv load d"
  shows "categories_Rename m now x cid name d = (r, d') \<Longrightarrow> keeps load d d'"
    "categories_Update m now x cid icon color d = (r, d') \<Longrightarrow> keeps load d d'"
    "categories_Archive m now x cid d = (r, d') \<Longrightarrow> keeps load d d'"
    "categories_Unarchive m now x cid d = (r, d') \<Longrightarrow> keeps load d d'"
  using saved_category_keeps [OF inv] category_edits_same
  by (auto simp: categories_Rename_def categories_Update_def categories_Archive_def categories_Unarchive_def
      split: sum.splits prod.splits) metis+

lemma category_insert_keeps:
  assumes "category_insert op c x d = (Inr v, d1)" "category_ok c" "c_ID c \<notin> c_ID ` set (db_categories d)"
  shows "keeps load d d1"
proof -
  have "category_Save x c d = (Inr (), d1)"
    using assms(1) by (auto simp: category_insert_def split: prod.splits sum.splits)
  moreover have "find_row c_ID (c_ID c) (db_categories d) = None" using assms(3) by (simp add: find_row_absent)
  ultimately show ?thesis by (intro category_Save_put [OF _ assms(2)]) (assumption, simp)
qed

lemma categories_Create_keeps:
  assumes run: "categories_Create m now cid x name kind icon color d = (r, d')" and fresh: "cid \<notin> c_ID ` set (db_categories d)"
  shows "keeps load d d'"
proof -
  have ins: "keeps load d d'"
    if "category_New cid now org prj name kind icon color so = Inr c"
      "commit_kick m now ''category.Create'' x (category_insert ''category.Create'' c) d = (r', d')" for org prj so c r'
  proof (rule keeps_commit_kick [OF that(2)])
    note C = category_New_Inr(1,5) [OF that(1)]
    show "keeps load d d1" if "category_insert ''category.Create'' c (x\<lparr>ctx_uow := True\<rparr>) d = (Inr (v, refs), d1)" for v refs d1
      by (rule category_insert_keeps [OF that C(2)]) (use C(1) fresh in metis)
  qed
  show ?thesis
    using run ins
    by (auto simp: categories_Create_def split: sum.splits prod.splits if_splits) metis
qed

lemma category_Delete_keeps: "category_Delete x cid d = (Inr u, d1) \<Longrightarrow> keeps load d d1"
  unfolding category_Delete_Inr
  by (elim exE conjE, rule keeps_rows(4)) (auto simp: find_Some_iff drop_category_def)

lemma categories_Delete_keeps:
  assumes run: "categories_Delete m now x cid d = (r, d')"
  shows "keeps load d d'"
proof (cases "\<exists>e. r = Inl e \<and> d' = d")
  case False
  with run show ?thesis
    by (auto simp: categories_Delete_def split: sum.splits elim!: keeps_commit_kick)
       (auto split: prod.splits sum.splits dest!: category_Delete_keeps)
qed auto

lemma upsert_row_ids: "key ` set (upsert_row key x rows) \<subseteq> insert (key x) (key ` set rows)"
  by (induction rows) (auto simp: table_simps split: if_splits)

text \<open>The ids the seeding draws are fresh and distinct.\<close>

lemma commit_category_ids:
  assumes "commit m now op x (category_insert op' c) d = (r, d')"
  shows "c_ID ` set (db_categories d') \<subseteq> insert (c_ID c) (c_ID ` set (db_categories d))"
proof (cases r)
  case (Inl e)
  have "d' = d" by (rule commit_Inl) (use assms Inl in simp)
  then show ?thesis by auto
next
  case (Inr v)
  then obtain u refs where k: "commit m now op x (category_insert op' c) d = (Inr (u, refs), d')" using assms by (cases v) simp
  show ?thesis
  proof (rule commit_Inr [OF k])
    fix d1 assume a: "category_insert op' c (x\<lparr>ctx_uow := True\<rparr>) d = (Inr (u, refs), d1)" "same_books d1 d'"
    then have "category_Save (x\<lparr>ctx_uow := True\<rparr>) c d = (Inr (), d1)"
      by (auto simp: category_insert_def split: prod.splits sum.splits)
    then have "c_ID ` set (db_categories d1) \<subseteq> insert (c_ID c) (c_ID ` set (db_categories d))"
      using upsert_row_ids [of c_ID] find_row_SomeD [of c_ID "c_ID c" "db_categories d"]
      by (fastforce simp: category_Save_Inr category_stored_def category_overlay_def split: option.splits)
    then show ?thesis using a(2) by (simp add: same_booksD)
  qed
qed

lemma disjoint_insert_subset: "a \<notin> A \<Longrightarrow> A \<inter> B = {} \<Longrightarrow> C \<subseteq> insert a B \<Longrightarrow> A \<inter> C = {}"
  by blast

lemma seed_loop_keeps:
  assumes "seed_loop m now newid namer x tc nx dcs taken seen added kick d = (res, kick', d')"
    and "distinct (map (newid \<circ> dc_Key) dcs)" "(newid \<circ> dc_Key) ` set dcs \<inter> c_ID ` set (db_categories d) = {}"
  shows "keeps load d d'"
  using assms
proof (induction dcs arbitrary: taken seen added kick d)
  case (Cons dc dcs)
  let ?n = "category_New (newid (dc_Key dc)) now (tc_OrgID tc) (tc_ProjectID tc) (defaultName namer dc) (dc_Kind dc)
      (dc_Icon dc) (dc_Color dc) (nx (dc_Kind dc) + seen (dc_Kind dc))"
  show ?case
  proof (cases "(dc_Kind dc, FoldName (defaultName namer dc)) \<in> taken \<or> (\<exists>e. ?n = Inl e)")
    case True
    have "keeps load d d'" if "seed_loop m now newid namer x tc nx dcs taken (seen(dc_Kind dc := seen (dc_Kind dc) + 1)) added kick d = (res, kick', d')"
      using Cons.prems(2,3) by (intro Cons.IH [OF that]) auto
    then show ?thesis using Cons.prems(1) True by (auto simp: Let_def split: if_splits)
  next
    case False
    then obtain c where c: "?n = Inr c" by (cases ?n) auto
    note C = category_New_Inr(1,5) [OF c]
    obtain r1 d1 where k: "commit m now ''category.SeedDefaults'' x (category_insert ''category.SeedDefaults'' c) d = (r1, d1)"
      by fastforce
    have "keeps load d d1"
    proof (rule keeps_commit [OF k])
      show "keeps load d d2" if "category_insert ''category.SeedDefaults'' c (x\<lparr>ctx_uow := True\<rparr>) d = (Inr (v, refs), d2)" for v refs d2
        by (rule category_insert_keeps [OF that C(2)]) (use C(1) Cons.prems(3) in auto)
    qed
    moreover have "(newid \<circ> dc_Key) ` set dcs \<inter> c_ID ` set (db_categories d1) = {}"
    proof -
      have "newid (dc_Key dc) \<notin> (newid \<circ> dc_Key) ` set dcs" "(newid \<circ> dc_Key) ` set dcs \<inter> c_ID ` set (db_categories d) = {}"
        using Cons.prems(2,3) by auto
      then show ?thesis by (rule disjoint_insert_subset) (rule commit_category_ids [OF k, unfolded C(1)])
    qed
    then have IH: "keeps load d1 d'" if "seed_loop m now newid namer x tc nx dcs tk (seen(dc_Kind dc := seen (dc_Kind dc) + 1)) ad ki d1 = (res, kick', d')" for tk ad ki
      using Cons.prems(2) by (intro Cons.IH [OF that]) simp_all
    have "keeps load d1 d'"
    proof (cases r1)
      case (Inl e)
      then show ?thesis using Cons.prems(1) False c k IH by (simp add: Let_def split: if_splits)
    next
      case (Inr v)
      then show ?thesis using Cons.prems(1) False c k IH by (cases v) (simp add: Let_def)
    qed
    ultimately show ?thesis by (rule keeps_trans)
  qed
qed simp

lemma SeedDefaults_keeps:
  assumes "SeedDefaults m now newid namer x d = (res, d')"
    and "inj newid" "range newid \<inter> c_ID ` set (db_categories d) = {}"
  shows "keeps load d d'"
proof -
  have "distinct (map dc_Key category_Defaults)" by (simp add: category_Defaults_def default_cat_def)
  then have "distinct (map (newid \<circ> dc_Key) category_Defaults)"
    using assms(2) distinct_map [of newid "map dc_Key category_Defaults"] by (simp add: inj_on_def)
  moreover have "(newid \<circ> dc_Key) ` set category_Defaults \<inter> c_ID ` set (db_categories d) = {}"
    using assms(3) by (auto simp: disjoint_iff)
  ultimately show ?thesis
    using assms(1) by (auto simp: SeedDefaults_def split: sum.splits prod.splits intro!: keeps_kick elim!: seed_loop_keeps)
qed

end
