(* ===== verification/TransactionSteps.thy ===== *)
theory TransactionSteps
  imports BookSteps
begin

text \<open>
  The operations of the transaction service, and the workflow that opens a
  wallet, keep the books.  A write finds its row outside the closed periods and
  leaves it outside them.
\<close>

section \<open>One saved row\<close>

lemma not_in_locked:
  assumes "keyed p_ID (db_periods d)" "\<And>i. t_PeriodID t = Some i \<Longrightarrow> owns_period d org prj i False"
  shows "\<not> in_locked d t"
  using assms owns_unlocked by (auto simp: in_locked_def)

lemma tx_Save_new_keeps:
  assumes "books_inv load d" "tx_Save c t d = (Inr u, d')" "tx_fits d t" "t_ID t \<notin> t_ID ` set (db_transactions d)"
    and "\<And>i. t_PeriodID t = Some i \<Longrightarrow> owns_period d org prj i False"
  shows "keeps load d d'"
proof -
  have n: "find_row t_ID (t_ID t) (db_transactions d) = None" using assms(4) by (simp add: find_row_absent)
  have "\<not> in_locked d (tx_stored t)"
    by (rule not_in_locked [OF books_invD(4) [OF assms(1)]]) (use assms(5) in simp)
  then show ?thesis
    by (rule_tac tx_Save_frame [OF assms(2)], rule_tac keeps_put_tx [where t = "tx_stored t"]) (use assms(3) n in simp_all)
qed

lemma tx_Save_old_keeps:
  assumes inv: "books_inv load d" and s: "tx_Save c t d = (Inr u, d')" "tx_fits d t"
    and old: "find_row t_ID (t_ID t) (db_transactions d) = Some old" "same_core old (t\<lparr>t_PeriodID := t_PeriodID old\<rparr>)"
    and free: "\<And>i. t_PeriodID old = Some i \<Longrightarrow> owns_period d org prj i False"
      "\<And>i. t_PeriodID t = Some i \<Longrightarrow> t_PeriodID old = Some i \<or> owns_period d org prj i False"
  shows "keeps load d d'"
proof -
  note k = books_invD(4) [OF inv]
  have f: "\<not> in_locked d old" "\<not> in_locked d t" using not_in_locked [OF k] free by blast+
  show ?thesis
    by (rule_tac tx_Save_frame [OF s(1)], rule_tac keeps_put_tx [where t = t])
       (use s(2) f old tx_overlay_core [OF old(2)] in simp_all)
qed

section \<open>The operations\<close>

lemma touched_ids: "opens_period d d1 \<Longrightarrow> tid \<notin> t_ID ` set (db_transactions d) \<Longrightarrow> tid \<notin> t_ID ` set (db_transactions d1)"
  by (simp add: opens_periodD)

context tx_ports
begin

lemma tx_record_keeps:
  assumes tc: "tenant_From c = Inr tc" and run: "tx_record pt now tid c tc inp by' d = (Inr t, d')"
    and amt: "in_i64 (Minor (ri_Amount inp))" and fresh: "tid \<notin> t_ID ` set (db_transactions d)"
  shows "keeps load d d'"
proof (rule keepsI)
  assume inv: "books_inv load d"
  show ?thesis
  proof (rule tx_record_Inr [OF tc run amt])
    fix d1 assume a: "opens_period d d1" "tx_Save c t d1 = (Inr (), d')" "tx_fits d1 t" "t_ID t = tid"
      "\<And>i. t_PeriodID t = Some i \<Longrightarrow> owns_period d1 (tc_OrgID tc) (tc_ProjectID tc) i False"
    have "t_ID t \<notin> t_ID ` set (db_transactions d1)" using touched_ids [OF a(1) fresh] a(4) by metis
    then have "keeps load d1 d'" by (rule tx_Save_new_keeps [OF opens_period_inv [OF inv a(1)] a(2,3) _ a(5)])
    then show ?thesis by (rule keeps_trans [OF keeps_opens [OF a(1)]])
  qed
qed

lemma recordOne_keeps:
  assumes run: "recordOne m pt now tid c inp d = (r, d')" and amt: "in_i64 (Minor (ri_Amount inp))"
    and fresh: "tid \<notin> t_ID ` set (db_transactions d)"
  shows "keeps load d d'"
proof (cases "tenant_From c")
  case (Inr tc)
  then have k: "commit m now ''transaction.Record'' c (\<lambda>c' d0.
        case tx_record pt now tid c' tc inp (tc_UserID tc) d0 of
          (Inl e, d1) \<Rightarrow> (Inl e, d1)
        | (Inr t, d1) \<Rightarrow> (Inr (t, touched t False), d1)) d = (r, d')"
    using run unfolding recordOne_def by (simp only: sum.case)
  have tc: "tenant_From (c\<lparr>ctx_uow := True\<rparr>) = Inr tc" using Inr by (simp only: tenant_From_uow)
  show ?thesis
    by (rule keeps_commit [OF k])
       (use tx_record_keeps [OF tc _ amt fresh] in \<open>fastforce split: prod.splits sum.splits\<close>)
qed (use run in \<open>simp add: recordOne_def\<close>)

lemma Record_keeps:
  assumes run: "Record m pt now tid c inp d = (r, d')" and amt: "in_i64 (Minor (ri_Amount inp))"
    and fresh: "tid \<notin> t_ID ` set (db_transactions d)"
  shows "keeps load d d'"
  using run recordOne_keeps [OF _ amt fresh]
  by (auto simp: Record_def split: prod.splits sum.splits intro: keeps_kick)

lemma Revise_keeps:
  assumes inv: "books_inv load d" and run: "Revise m pt now c tid p d = (r, d')"
    and amt: "\<And>a. rp_Amount p = Some a \<Longrightarrow> in_i64 (Minor a)"
  shows "keeps load d d'"
proof (cases "tenant_From c")
  case (Inr tc)
  then have k: "commit_kick m now ''transaction.Revise'' c (\<lambda>c'. tx_revise pt now c' tc tid p) d = (r, d')"
    using run unfolding Revise_def by (simp only: sum.case)
  have tc: "tenant_From (c\<lparr>ctx_uow := True\<rparr>) = Inr tc" using Inr by (simp only: tenant_From_uow)
  show ?thesis
  proof (rule keeps_commit_kick [OF k])
    fix t' refs d2 assume w: "tx_revise pt now (c\<lparr>ctx_uow := True\<rparr>) tc tid p d = (Inr (t', refs), d2)"
    show "keeps load d d2"
    proof (rule tx_revise_Inr [OF tc w books_invD(3,7) [OF inv] amt])
      fix t d1 assume a: "find_row t_ID tid (db_transactions d) = Some t" "opens_period d d1"
        "tx_Save (c\<lparr>ctx_uow := True\<rparr>) t' d1 = (Inr (), d2)" "tx_fits d1 t'" "t_ID t' = tid"
        "same_core t (t'\<lparr>t_PeriodID := t_PeriodID t\<rparr>)"
        "\<And>i. t_PeriodID t = Some i \<Longrightarrow> owns_period d (tc_OrgID tc) (tc_ProjectID tc) i False"
        "\<And>i. t_PeriodID t' = Some i \<Longrightarrow> t_PeriodID t = Some i \<or> owns_period d1 (tc_OrgID tc) (tc_ProjectID tc) i False"
      have f: "find_row t_ID (t_ID t') (db_transactions d1) = Some t" using a(1,5) opens_periodD(3) [OF a(2)] by simp
      have o: "owns_period d1 (tc_OrgID tc) (tc_ProjectID tc) i False" if "t_PeriodID t = Some i" for i
        using a(7) [OF that] opens_periodD(8) [OF a(2)] by (auto simp: owns_period_def)
      have "keeps load d1 d2" by (rule tx_Save_old_keeps [OF opens_period_inv [OF inv a(2)] a(3,4) f a(6) o a(8)])
      then show ?thesis by (rule keeps_trans [OF keeps_opens [OF a(2)]])
    qed
  qed
qed (use run in \<open>simp add: Revise_def\<close>)

lemma txs_Delete_keeps:
  assumes inv: "books_inv load d" and run: "txs_Delete m pt now c tid d = (r, d')"
  shows "keeps load d d'"
proof (cases "tenant_From c")
  case (Inr tc)
  then have k: "commit_kick m now ''transaction.Delete'' c (\<lambda>c'. delete_body pt c' tc tid) d = (r, d')"
    using run unfolding txs_Delete_def by (simp only: sum.case)
  have tc: "tenant_From (c\<lparr>ctx_uow := True\<rparr>) = Inr tc" using Inr by (simp only: tenant_From_uow)
  show ?thesis
  proof (rule keeps_commit_kick [OF k])
    fix v refs d2 assume w: "delete_body pt (c\<lparr>ctx_uow := True\<rparr>) tc tid d = (Inr (v, refs), d2)"
    show "keeps load d d2"
    proof (rule delete_body_Inr [OF tc w books_invD(3) [OF inv]])
      fix t assume a: "find_row t_ID tid (db_transactions d) = Some t"
        "d2 = d\<lparr>db_transactions := delete_row t_ID tid (db_transactions d)\<rparr>"
        "\<And>i. t_PeriodID t = Some i \<Longrightarrow> owns_period d (tc_OrgID tc) (tc_ProjectID tc) i False"
      show ?thesis by (rule keeps_drop_tx [OF a(2,1) not_in_locked [OF books_invD(4) [OF inv] a(3)]])
    qed
  qed
qed (use run in \<open>simp add: txs_Delete_def\<close>)

text \<open>Every row of a batch is its own unit of work; the ids drawn for the rows are distinct.\<close>

lemma recordOne_ids:
  assumes "recordOne m pt now tid c inp d = (r, d')" "in_i64 (Minor (ri_Amount inp))"
  shows "t_ID ` set (db_transactions d') \<subseteq> insert tid (t_ID ` set (db_transactions d))"
proof (cases "tenant_From c")
  case (Inl e)
  then show ?thesis using assms(1) by (auto simp: recordOne_def)
next
  case (Inr tc)
  note tc = Inr
  let ?w = "\<lambda>c' d0. case tx_record pt now tid c' tc inp (tc_UserID tc) d0 of
          (Inl e, d1) \<Rightarrow> (Inl e, d1) | (Inr t, d1) \<Rightarrow> (Inr (t, touched t False), d1)"
  have k: "commit m now ''transaction.Record'' c ?w d = (r, d')"
    using assms(1) unfolding recordOne_def tc by (simp only: sum.case)
  have tc': "tenant_From (c\<lparr>ctx_uow := True\<rparr>) = Inr tc" using tc by (simp only: tenant_From_uow)
  show ?thesis
  proof (rule commit_cases [OF k])
    assume "d' = d" then show ?thesis by blast
  next
    fix t refs d1 assume a: "?w (c\<lparr>ctx_uow := True\<rparr>) d = (Inr (t, refs), d1)" "same_books d1 d'"
    then have w: "tx_record pt now tid (c\<lparr>ctx_uow := True\<rparr>) tc inp (tc_UserID tc) d = (Inr t, d1)"
      by (auto split: prod.splits sum.splits)
    show ?thesis
    proof (rule tx_record_Inr [OF tc' w assms(2)])
      fix d0 assume b: "opens_period d d0" "tx_Save (c\<lparr>ctx_uow := True\<rparr>) t d0 = (Inr (), d1)" "t_ID t = tid"
      obtain row where row: "d1 = d0\<lparr>db_transactions := upsert_row t_ID row (db_transactions d0)\<rparr>" "t_ID row = t_ID t"
        by (rule tx_Save_frame [OF b(2)])
      have "db_transactions d' = upsert_row t_ID row (db_transactions d)"
        using row(1) opens_periodD(3) [OF b(1)] same_booksD [OF a(2)] by simp
      then show ?thesis using upsert_row_ids [of t_ID row "db_transactions d"] row(2) b(3) by simp
    qed
  qed
qed

lemma batch_loop_keeps:
  assumes "batch_loop m pt now newid c i rows d = (out, kick, d')"
    and "\<And>row. row \<in> set rows \<Longrightarrow> in_i64 (Minor (ri_Amount row))"
    and "inj newid" "\<And>j. i \<le> j \<Longrightarrow> newid j \<notin> t_ID ` set (db_transactions d)"
  shows "keeps load d d'"
  using assms(1,2,4)
proof (induction rows arbitrary: i d out kick)
  case (Cons row rows)
  obtain r1 d1 where one: "recordOne m pt now (newid i) c row d = (r1, d1)" by fastforce
  have amt: "in_i64 (Minor (ri_Amount row))" using Cons.prems(2) by simp
  have "keeps load d d1" by (rule recordOne_keeps [OF one amt]) (rule Cons.prems(3), simp)
  moreover obtain out' kick' where rest: "batch_loop m pt now newid c (Suc i) rows d1 = (out', kick', d')"
    using Cons.prems(1) one by (auto split: sum.splits prod.splits)
  have "keeps load d1 d'"
  proof (rule Cons.IH [OF rest])
    fix j assume j: "Suc i \<le> j"
    then have "newid j \<noteq> newid i" "newid j \<notin> t_ID ` set (db_transactions d)"
      using assms(3) Cons.prems(3) [of j] by (auto dest: injD)
    then show "newid j \<notin> t_ID ` set (db_transactions d1)" using recordOne_ids [OF one amt] by blast
  qed (simp add: Cons.prems(2))
  ultimately show ?case by (rule keeps_trans)
qed simp

lemma RecordBatch_keeps:
  assumes "RecordBatch m pt now newid c rows d = (out, d')"
    and "\<And>row. row \<in> set rows \<Longrightarrow> in_i64 (Minor (ri_Amount row))"
    and "inj newid" "range newid \<inter> t_ID ` set (db_transactions d) = {}"
  shows "keeps load d d'"
proof -
  obtain out' kick d1 where b: "batch_loop m pt now newid c 0 rows d = (out', kick, d1)" by (metis prod_cases3)
  have "keeps load d d1" by (rule batch_loop_keeps [OF b assms(2,3)]) (use assms(4) in blast)+
  then show ?thesis using assms(1) b keeps_kick by (auto simp: RecordBatch_def)
qed

section \<open>Opening balances and adjustments\<close>

lemma tx_mark_books: "tx_mark m now c op refs d = (Inr u, d') \<Longrightarrow> same_books d d'"
  using mirror_Mark_books by (fastforce simp: tx_mark_def split: prod.splits sum.splits)

lemma RecordOpening_keeps:
  assumes run: "RecordOpening m pt now tid c wid amount at by' d = (Inr i, d')" and amt: "in_i64 (Minor amount)"
    and fresh: "tid \<notin> t_ID ` set (db_transactions d)"
  shows "keeps load d d'"
proof -
  obtain tc where tc: "tenant_From c = Inr tc" using run by (cases "tenant_From c") (simp_all add: RecordOpening_def)
  obtain t d1 where r: "tx_record pt now tid c tc (system_input wid KindOpening amount at) by' d = (Inr t, d1)"
    and m: "tx_mark m now c ''transaction.RecordOpening'' (touched t False) d1 = (Inr (), d')"
    using run unfolding RecordOpening_def tc by (auto split: prod.splits sum.splits)
  have "keeps load d d1" by (rule tx_record_keeps [OF tc r _ fresh]) (simp add: system_input_def amt)
  then show ?thesis by (rule keeps_trans [OF _ keeps_books [OF tx_mark_books [OF m]]])
qed

lemma adjust_body_keeps:
  assumes run: "adjust_body m pt now tid tc w wid target at by' c d = (Inr x, d')" and tc: "tenant_From c = Inr tc"
    and fresh: "tid \<notin> t_ID ` set (db_transactions d)"
  shows "keeps load d d'"
proof -
  from run consider "d' = d"
    | kind z t d1 where
      "tx_record pt now tid c tc (system_input wid kind (money_New (wrap64 z) (wi_Currency w)) at) by' d = (Inr t, d1)"
      "tx_mark m now c ''transaction.Adjust'' (touched t False) d1 = (Inr (), d')"
    by (auto simp: adjust_body_def Let_def split: sum.splits prod.splits if_splits)
  then show ?thesis
  proof cases
    case (2 kind z t d1)
    have "keeps load d d1" by (rule tx_record_keeps [OF tc 2(1) _ fresh]) (simp add: system_input_def money_New_def)
    then show ?thesis by (rule keeps_trans [OF _ keeps_books [OF tx_mark_books [OF 2(2)]]])
  qed simp
qed

lemma Adjust_keeps:
  assumes run: "Adjust m pt now tid c wid target at by' d = (r, d')" and fresh: "tid \<notin> t_ID ` set (db_transactions d)"
  shows "keeps load d d'"
proof (cases "tenant_From c")
  case (Inr tc)
  then have tc': "tenant_From (c\<lparr>ctx_uow := True\<rparr>) = Inr tc" by (simp only: tenant_From_uow)
  from run consider "d' = d"
    | w x refs d1 where "RunInTx c (adjust_body m pt now tid tc w wid target at by') d = (Inr (x, refs), d1)"
        "d' = mirror_Kick m c refs d1"
    | w e where "RunInTx c (adjust_body m pt now tid tc w wid target at by') d = (Inl e, d')"
    unfolding Adjust_def Inr by (auto split: sum.splits prod.splits if_splits)
  then show ?thesis
  proof cases
    case (2 w x refs d1)
    then have "adjust_body m pt now tid tc w wid target at by' (c\<lparr>ctx_uow := True\<rparr>) d = (Inr (x, refs), d1)"
      by (simp add: RunInTx_Inr)
    then have "keeps load d d1" by (rule adjust_body_keeps [OF _ tc' fresh])
    then show ?thesis unfolding 2(2) by (rule keeps_kick)
  next
    case (3 w e)
    then have "d' = d" by (rule uow.rollback)
    then show ?thesis by simp
  qed simp
qed (use run in \<open>simp add: Adjust_def\<close>)

end

end
