(* ===== verification/AppSteps.thy ===== *)
theory AppSteps
  imports TransactionSteps
begin

text \<open>
  The whole ledger as a state machine: \<open>app_step\<close> is one call of any
  state-changing operation of the wallet, category, transaction, period and
  settings services, wired to each other as \<open>internal/boot\<close> wires them.  Every
  step keeps the invariant of the books and leaves the transactions of the
  closed periods as they were.
\<close>

section \<open>Opening a wallet\<close>

lemma open_body_keeps:
  assumes run: "open_body m (RecordOpening m (boot_ports load now pid) now tid) dater now wid p opening at by' c d = (Inr x, d')"
    and amt: "\<And>a. opening = Some a \<Longrightarrow> in_i64 (Minor a)"
    and fresh: "wid \<notin> w_ID ` set (db_wallets d)" "tid \<notin> t_ID ` set (db_transactions d)"
  shows "keeps load d d'"
proof -
  from run obtain w d1 where w: "wallets_create now wid c p d = (Inr w, d1)"
    and rest: "(\<exists>refs. mirror_Mark m now c refs d1 = (Inr (), d')) \<or>
      (\<exists>dt i d2 refs. \<not> no_opening opening \<and>
        RecordOpening m (boot_ports load now pid) now tid c (w_ID w) (the opening) dt by' d1 = (Inr i, d2) \<and>
        mirror_Mark m now c refs d2 = (Inr (), d'))"
    by (auto simp: open_body_def Let_def split: prod.splits sum.splits if_splits) blast
  note put = wallets_create_put(1) [OF w fresh(1)]
  have k1: "keeps load d d1" by (rule keeps_rows(1) [OF put])
  have f: "tid \<notin> t_ID ` set (db_transactions d1)" using fresh(2) put by (simp add: put_wallet_def)
  from rest show ?thesis
  proof (elim disjE exE conjE)
    fix refs assume "mirror_Mark m now c refs d1 = (Inr (), d')"
    then show ?thesis using keeps_trans [OF k1 keeps_books [OF mirror_Mark_books]] by blast
  next
    fix dt i d2 refs
    assume o: "\<not> no_opening opening"
      and r: "RecordOpening m (boot_ports load now pid) now tid c (w_ID w) (the opening) dt by' d1 = (Inr i, d2)"
      and mk: "mirror_Mark m now c refs d2 = (Inr (), d')"
    have "in_i64 (Minor (the opening))" using o amt by (auto simp: no_opening_def split: option.splits)
    then have "keeps load d1 d2" by (rule boot.RecordOpening_keeps [OF r _ f])
    then show ?thesis using keeps_trans [OF keeps_trans [OF k1] keeps_books [OF mirror_Mark_books [OF mk]]] by blast
  qed
qed

lemma open_Run_keeps:
  assumes run: "open_Run m (RecordOpening m (boot_ports load now pid) now tid) dater now wid c p opening at d = (r, d')"
    and amt: "\<And>a. opening = Some a \<Longrightarrow> in_i64 (Minor a)"
    and fresh: "wid \<notin> w_ID ` set (db_wallets d)" "tid \<notin> t_ID ` set (db_transactions d)"
  shows "keeps load d d'"
proof -
  from run consider "d' = d"
    | by' e where "RunInTx c (open_body m (RecordOpening m (boot_ports load now pid) now tid) dater now wid p opening at by') d = (Inl e, d')"
    | by' x refs d1 where "RunInTx c (open_body m (RecordOpening m (boot_ports load now pid) now tid) dater now wid p opening at by') d
        = (Inr (x, refs), d1)" "d' = mirror_Kick m c refs d1"
    by (auto simp: open_Run_def split: sum.splits prod.splits if_splits)
  then show ?thesis
  proof cases
    case (2 by' e)
    then have "d' = d" by (rule uow.rollback)
    then show ?thesis by simp
  next
    case (3 by' x refs d1)
    then have "keeps load d d1" by (intro open_body_keeps [OF _ amt fresh]) (auto simp: RunInTx_Inr)
    then show ?thesis unfolding 3(2) by (rule keeps_kick)
  qed simp
qed

section \<open>Periods and settings\<close>

lemma locked_ids_upsert:
  assumes old: "find_row p_ID (p_ID x) (db_periods d) = Some old"
    and x: "IsLocked x = IsLocked old" and d': "db_periods d' = upsert_row p_ID x (db_periods d)"
  shows "locked_ids d' = locked_ids d"
proof -
  have "map p_ID (filter IsLocked (upsert_row p_ID x rows)) = map p_ID (filter IsLocked rows)"
    if "find_row p_ID (p_ID x) rows = Some old" for rows
    using that x by (induction rows) (auto simp: table_simps split: if_splits)
  from this [OF old] have "p_ID ` set (filter IsLocked (db_periods d')) = p_ID ` set (filter IsLocked (db_periods d))"
    unfolding d' by (metis set_map)
  then show ?thesis by (simp add: locked_ids_def)
qed

lemma EnsureCurrent_keeps: "EnsureCurrent load now pid c d = (r, d') \<Longrightarrow> keeps load d d'"
  using EnsureCurrent_opens keeps_opens by blast

lemma svc_Rename_keeps:
  assumes run: "svc_Rename now c pid name d = (r, d')"
  shows "keeps load d d'"
proof (rule keepsI)
  assume inv: "books_inv load d"
  note k = books_invD(4) [OF inv]
  from run k show ?thesis
  proof (cases rule: svc_Rename_effect)
    case (renamed tc p clean)
    let ?p = "p\<lparr>p_Name := clean, p_UpdatedAt := now\<rparr>"
    have "books_inv load d'"
      by (rule scoped_replace_inv [OF inv renamed(2), where x = ?p])
         (use renamed(5) svc_Rename_inv [OF books_invD(5) [OF inv] run] in simp_all)
    moreover have "locked_ids d' = locked_ids d"
      by (rule locked_ids_upsert [where x = ?p])
         (use scoped_find_row [OF k renamed(2)] period_scoped_Inr(2) [OF renamed(2)] in \<open>simp_all add: renamed(5) IsLocked_def\<close>)
    ultimately show ?thesis by (intro keeps_same_txs) (simp_all add: renamed(5))
  qed simp
qed

text \<open>Closing and reopening move a period in or out of the closed ones; the transactions stay.\<close>

definition same_txs :: "tzdb \<Rightarrow> db \<Rightarrow> db \<Rightarrow> bool" where
  "same_txs load d d' \<longleftrightarrow> (books_inv load d \<longrightarrow> books_inv load d') \<and> db_transactions d' = db_transactions d"

lemma Close_same_txs:
  assumes e: "valid_date end'" and fresh: "nextid \<notin> p_ID ` set (db_periods d)"
    and run: "Close snapper load' now clid nextid c pid end' by' d = (r, d')" and inv: "books_inv load d"
  shows "same_txs load d d'"
proof (cases r)
  case (Inl e)
  then have "d' = d" using Close_error run by blast
  then show ?thesis by (simp add: same_txs_def)
next
  case (Inr p')
  note k = books_invD(4) [OF inv] and pinv = Close_inv [OF books_invD(5) [OF inv] e fresh run]
  from run [unfolded Inr] k fresh show ?thesis
  proof (cases rule: Close_effect)
    case (1 tc p snap who)
    have rows: "set (upsert_row p_ID p' (db_periods d)) \<subseteq> set (db_periods d')"
      and same: "db_wallets d' = db_wallets d" "db_categories d' = db_categories d" "db_transactions d' = db_transactions d"
        "db_settings d' = db_settings d"
      using 1(6) by auto
    have "books_inv load d'"
      by (rule scoped_replace_inv [OF inv closable_Inr(1) [OF 1(2)] _ _ _ rows pinv same]) (simp_all add: 1(4))
    then show ?thesis using same(3) by (simp add: same_txs_def)
  qed
qed

lemma Reopen_same_txs:
  assumes run: "Reopen now c pid d = (r, d')" and inv: "books_inv load d"
  shows "same_txs load d d'"
  using run books_invD(4) [OF inv]
proof (cases rule: Reopen_effect)
  case (reopened tc p)
  let ?p = "p\<lparr>p_Status := StatusOpen, p_UpdatedAt := now\<rparr>"
  have "books_inv load d'"
    by (rule scoped_replace_inv [OF inv reopened(2), where x = ?p])
       (use reopened(6) Reopen_inv [OF books_invD(5) [OF inv] run] in simp_all)
  then show ?thesis by (simp add: same_txs_def reopened(6))
qed (simp add: same_txs_def)

lemma ledger_Update_keeps:
  assumes "ledger_Update load now c p (db_settings d) = (r, rows)" "load DefaultTimezone \<noteq> None"
  shows "keeps load d (d\<lparr>db_settings := rows\<rparr>)"
proof (rule keeps_same_txs)
  assume inv: "books_inv load d"
  have f: "tx_fits (d\<lparr>db_settings := rows\<rparr>) t = tx_fits d t" for t
    by (simp add: tx_fits_def has_wallet_def has_category_def has_period_def)
  show "books_inv load (d\<lparr>db_settings := rows\<rparr>)"
    using inv ledger_Update_inv [OF books_invD(6) [OF inv] assms(2,1)] by (simp add: books_inv_def f)
qed (simp_all add: locked_ids_def)

section \<open>The state machine\<close>

text \<open>
  One step is one call of an operation by any caller (\<open>c\<close>), at any time, with
  any arguments.  The ids an operation mints are fresh, amounts are 64-bit
  integers, the end date of a close is a calendar date.  \<open>sheets\<close> is any step
  of the sheet synchronisation, which leaves the books alone.
\<close>

inductive app_step :: "tzdb \<Rightarrow> db \<Rightarrow> db \<Rightarrow> bool" for load where
  wallet_create: "wallets_Create m now wid c wp d = (r1, d') \<Longrightarrow> wid \<notin> w_ID ` set (db_wallets d) \<Longrightarrow> app_step load d d'"
| wallet_open: "open_Run m (RecordOpening m (boot_ports load now pid) now tid) (openingDaterFor load) now wid c wp opening at d = (r2, d') \<Longrightarrow>
    (\<And>a. opening = Some a \<Longrightarrow> in_i64 (Minor a)) \<Longrightarrow>
    wid \<notin> w_ID ` set (db_wallets d) \<Longrightarrow> tid \<notin> t_ID ` set (db_transactions d) \<Longrightarrow> app_step load d d'"
| wallet_update: "wallets_Update m now c wid kind provider exclude d = (r3, d') \<Longrightarrow> app_step load d d'"
| wallet_edit: "wallets_Edit m now c wid name kind provider exclude d = (r4, d') \<Longrightarrow> app_step load d d'"
| wallet_rename: "wallets_Rename m now c wid name d = (r5, d') \<Longrightarrow> app_step load d d'"
| wallet_archive: "wallets_Archive m now c wid d = (r6, d') \<Longrightarrow> app_step load d d'"
| wallet_unarchive: "wallets_Unarchive m now c wid d = (r7, d') \<Longrightarrow> app_step load d d'"
| wallet_delete: "wallets_Delete m now c wid d = (r8, d') \<Longrightarrow> app_step load d d'"
| category_create: "categories_Create m now cid c name ckind icon color d = (r9, d') \<Longrightarrow>
    cid \<notin> c_ID ` set (db_categories d) \<Longrightarrow> app_step load d d'"
| category_rename: "categories_Rename m now c cid name d = (r10, d') \<Longrightarrow> app_step load d d'"
| category_update: "categories_Update m now c cid icon color d = (r11, d') \<Longrightarrow> app_step load d d'"
| category_archive: "categories_Archive m now c cid d = (r12, d') \<Longrightarrow> app_step load d d'"
| category_unarchive: "categories_Unarchive m now c cid d = (r13, d') \<Longrightarrow> app_step load d d'"
| category_delete: "categories_Delete m now c cid d = (r14, d') \<Longrightarrow> app_step load d d'"
| category_seed: "SeedDefaults m now newcat namer c d = (r15, d') \<Longrightarrow> inj newcat \<Longrightarrow>
    range newcat \<inter> c_ID ` set (db_categories d) = {} \<Longrightarrow> app_step load d d'"
| record_one: "Record m (boot_ports load now pid) now tid c inp d = (r16, d') \<Longrightarrow> in_i64 (Minor (ri_Amount inp)) \<Longrightarrow>
    tid \<notin> t_ID ` set (db_transactions d) \<Longrightarrow> app_step load d d'"
| batch: "RecordBatch m (boot_ports load now pid) now newtx c rows d = (out, d') \<Longrightarrow>
    (\<And>row. row \<in> set rows \<Longrightarrow> in_i64 (Minor (ri_Amount row))) \<Longrightarrow> inj newtx \<Longrightarrow>
    range newtx \<inter> t_ID ` set (db_transactions d) = {} \<Longrightarrow> app_step load d d'"
| revise: "Revise m (boot_ports load now pid) now c tid patch d = (r17, d') \<Longrightarrow>
    (\<And>a. rp_Amount patch = Some a \<Longrightarrow> in_i64 (Minor a)) \<Longrightarrow> app_step load d d'"
| delete: "txs_Delete m (boot_ports load now pid) now c tid d = (r18, d') \<Longrightarrow> app_step load d d'"
| adjust: "Adjust m (boot_ports load now pid) now tid c wid target at by' d = (r19, d') \<Longrightarrow>
    tid \<notin> t_ID ` set (db_transactions d) \<Longrightarrow> app_step load d d'"
| ensure: "EnsureCurrent load now pid c d = (r20, d') \<Longrightarrow> app_step load d d'"
| contain: "svc_Containing load now pid c at d = (r21, d') \<Longrightarrow> app_step load d d'"
| period_rename: "svc_Rename now c pid name d = (r22, d') \<Longrightarrow> app_step load d d'"
| close: "Close (snapshotterAdapter load now) load now clid nextid c pid end' by' d = (r23, d') \<Longrightarrow> valid_date end' \<Longrightarrow>
    nextid \<notin> p_ID ` set (db_periods d) \<Longrightarrow> app_step load d d'"
| reopen: "Reopen now c pid d = (r24, d') \<Longrightarrow> app_step load d d'"
| settings: "ledger_Update load now c sp (db_settings d) = (r25, rows') \<Longrightarrow> app_step load d (d\<lparr>db_settings := rows'\<rparr>)"
| sheets: "same_books d d' \<Longrightarrow> app_step load d d'"

inductive app_reachable :: "tzdb \<Rightarrow> db \<Rightarrow> bool" for load where
  init: "app_reachable load empty_db"
| step: "app_reachable load d \<Longrightarrow> app_step load d d' \<Longrightarrow> app_reachable load d'"

lemmas step_keeps = wallets_Create_keeps open_Run_keeps wallets_edits_keep wallets_Archive_keeps wallets_Unarchive_keeps
  wallets_Delete_keeps categories_Create_keeps categories_edits_keep categories_Delete_keeps SeedDefaults_keeps
  boot.Record_keeps boot.RecordBatch_keeps boot.Revise_keeps boot.txs_Delete_keeps boot.Adjust_keeps
  EnsureCurrent_keeps keeps_opens [OF svc_Containing_opens] svc_Rename_keeps ledger_Update_keeps keeps_books

lemma app_step_effect:
  assumes "app_step load d d'" "books_inv load d" "load DefaultTimezone \<noteq> None"
  shows "keeps load d d' \<or> same_txs load d d'"
  using assms(1)
proof cases
  case (close now clid nextid c pid end' by' r23)
  then show ?thesis using Close_same_txs [OF close(2,3,1) assms(2)] by blast
next
  case (reopen now c pid r24)
  then show ?thesis using Reopen_same_txs [OF reopen assms(2)] by blast
qed (use assms(2,3) step_keeps in \<open>metis\<close>)+

lemma app_reachable_inv:
  assumes "app_reachable load d" "load DefaultTimezone \<noteq> None"
  shows "books_inv load d"
  using assms(1)
proof induction
  case (step d d')
  then show ?case using app_step_effect [OF step(2) step(3) assms(2)] by (auto simp: keeps_def same_txs_def)
qed (rule books_inv_empty)

end
