(* ===== verification/BookFixtures.thy ===== *)
theory BookFixtures
  imports AppSteps Fixtures
begin

text \<open>
  Concrete books for the witnesses: two wallets and a category, an income and a
  transfer in the first period, the period closed, one more expense after it.
  The sheet mirror is off.
\<close>

definition w_mirror :: mirror where
  "w_mirror = \<lparr>mirror_on = False, queue_ok = True\<rparr>"

definition w_params :: "string \<Rightarrow> WalletParams" where
  "w_params n = \<lparr>wp_Name = n, wp_Kind = KindBank, wp_Provider = '''', wp_Currency = IDR, wp_ExcludeFromTotal = False\<rparr>"

definition w_input :: "uuid \<Rightarrow> uuid option \<Rightarrow> TxKind \<Rightarrow> int \<Rightarrow> instant \<Rightarrow> RecordInput" where
  "w_input wid to kind minor at = \<lparr>ri_WalletID = wid, ri_ToWalletID = to, ri_Kind = kind, ri_Amount = money_New minor IDR,
     ri_CategoryID = None, ri_PeriodID = None, ri_Note = ''note'', ri_OccurredAt = at\<rparr>"

definition b_db1 :: db where
  "b_db1 = snd (wallets_Create w_mirror 0 30 w_ctx (w_params ''Bank'') empty_db)"

definition b_db2 :: db where
  "b_db2 = snd (wallets_Create w_mirror 0 31 w_ctx (w_params ''Cash'') b_db1)"

definition b_db3 :: db where
  "b_db3 = snd (Record w_mirror (boot_ports w_load 0 10) 0 40 w_ctx (w_input 30 None KindIncome 500 0) b_db2)"

definition b_db4 :: db where
  "b_db4 = snd (Record w_mirror (boot_ports w_load 0 12) 0 41 w_ctx (w_input 30 (Some 31) KindTransfer 200 0) b_db3)"

definition b_db5 :: db where
  "b_db5 = snd (Close (snapshotterAdapter w_load 0) w_load 0 20 11 w_ctx 10 (Date 1970 1 1) 3 b_db4)"

definition b_next_day :: instant where
  "b_next_day = 90000 * 1000000000"

definition b_db6 :: db where
  "b_db6 = snd (Record w_mirror (boot_ports w_load b_next_day 12) b_next_day 42 w_ctx
     (w_input 31 None KindExpense 50 b_next_day) b_db5)"
text \<open>The states written out, so that each is computed once.\<close>

definition b_wallet :: "uuid \<Rightarrow> string \<Rightarrow> Wallet" where
  "b_wallet i n = \<lparr>w_ID = i, w_OrgID = 1, w_ProjectID = 2, w_Name = n, w_Kind = KindBank, w_Provider = '''', w_Currency = IDR,
     w_ExcludeFromTotal = False, w_ArchivedAt = None, w_CreatedAt = 0, w_UpdatedAt = 0\<rparr>"

definition b_tx :: "uuid \<Rightarrow> uuid \<Rightarrow> uuid option \<Rightarrow> TxKind \<Rightarrow> int \<Rightarrow> uuid \<Rightarrow> instant \<Rightarrow> Transaction" where
  "b_tx i wid to kind minor pid at = \<lparr>t_ID = i, t_OrgID = 1, t_ProjectID = 2, t_WalletID = wid, t_ToWalletID = to, t_Kind = kind,
     t_Amount = money_New minor IDR, t_CategoryID = None, t_PeriodID = Some pid, t_Note = ''note'', t_OccurredAt = at,
     t_CreatedBy = 3, t_CreatedByKeyID = 0, t_CreatedAt = at, t_UpdatedAt = at\<rparr>"

definition b_period :: "uuid \<Rightarrow> Date \<Rightarrow> Period" where
  "b_period i start = \<lparr>p_ID = i, p_OrgID = 1, p_ProjectID = 2, p_Name = ''Jan 1970'', p_StartDate = start, p_EndDate = None,
     p_Status = StatusOpen, p_ClosedAt = None, p_Snapshot = None, p_CreatedAt = 0, p_UpdatedAt = 0\<rparr>"

definition b_snap :: Snapshot where
  "b_snap = \<lparr>sn_Currency = IDR, sn_Income = 500, sn_Expense = 0, sn_Net = 500, sn_TxCount = 1,
     sn_Wallets = [\<lparr>wc_WalletID = 30, wc_Name = ''Bank'', wc_Closing = 300\<rparr>, \<lparr>wc_WalletID = 31, wc_Name = ''Cash'', wc_Closing = 200\<rparr>],
     sn_ComputedAt = 0\<rparr>"

definition b_closing :: Closing where
  "b_closing = \<lparr>cl_ID = 20, cl_OrgID = 1, cl_ProjectID = 2, cl_PeriodID = 10, cl_ClosedAt = 0, cl_ClosedBy = 3,
     cl_ClosedByKeyID = 0, cl_Snapshot = b_snap\<rparr>"

lemma b_db2_code [code]: "b_db2 = empty_db\<lparr>db_wallets := [b_wallet 30 ''Bank'', b_wallet 31 ''Cash'']\<rparr>"
  by code_simp

lemma b_db4_code [code]: "b_db4 = b_db2\<lparr>db_periods := [b_period 10 (Date 1970 1 1)],
    db_transactions := [b_tx 40 30 None KindIncome 500 10 0, b_tx 41 30 (Some 31) KindTransfer 200 10 0]\<rparr>"
  by code_simp

lemma b_db5_code [code]: "b_db5 = b_db4\<lparr>db_periods := [(b_period 10 (Date 1970 1 1))\<lparr>p_EndDate := Some (Date 1970 1 1),
      p_Status := StatusClosed, p_ClosedAt := Some 0, p_Snapshot := Some b_snap\<rparr>, b_period 11 (Date 1970 1 2)],
    db_closings := [b_closing]\<rparr>"
  by code_simp

lemma b_db6_code [code]: "b_db6 = b_db5\<lparr>db_transactions := db_transactions b_db5 @ [b_tx 42 31 None KindExpense 50 11 b_next_day]\<rparr>"
  by code_simp

lemma w_tz: "w_load DefaultTimezone \<noteq> None"
  by (simp add: w_load_def)

lemma b_db2_reachable: "app_reachable w_load b_db2"
proof -
  have "app_step w_load empty_db b_db1" unfolding b_db1_def
    by (rule app_step.wallet_create [OF prod.collapse [symmetric]]) (simp add: empty_db_def)
  moreover have "31 \<notin> w_ID ` set (db_wallets b_db1)" by code_simp
  then have "app_step w_load b_db1 b_db2" unfolding b_db2_def
    by (rule app_step.wallet_create [OF prod.collapse [symmetric]])
  ultimately show ?thesis using app_reachable.init app_reachable.step by blast
qed

lemma w_input_i64: "in_i64 n \<Longrightarrow> in_i64 (Minor (ri_Amount (w_input wid to kind n at)))"
  by (simp add: w_input_def money_New_def)

lemma b_db4_reachable: "app_reachable w_load b_db4"
proof -
  have "40 \<notin> t_ID ` set (db_transactions b_db2)" "in_i64 500" by code_simp+
  then have "app_step w_load b_db2 b_db3"
    unfolding b_db3_def by (intro app_step.record_one [OF prod.collapse [symmetric] w_input_i64])
  moreover have "41 \<notin> t_ID ` set (db_transactions b_db3)" "in_i64 200" by code_simp+
  then have "app_step w_load b_db3 b_db4"
    unfolding b_db4_def by (intro app_step.record_one [OF prod.collapse [symmetric] w_input_i64])
  ultimately show ?thesis using b_db2_reachable app_reachable.step by blast
qed

lemma b_db5_step: "app_step w_load b_db4 b_db5"
proof -
  have "valid_date (Date 1970 1 1)" "11 \<notin> p_ID ` set (db_periods b_db4)" by code_simp+
  then show ?thesis unfolding b_db5_def by (rule app_step.close [OF prod.collapse [symmetric]])
qed

lemma b_db5_reachable: "app_reachable w_load b_db5"
  by (rule app_reachable.step [OF b_db4_reachable b_db5_step])

lemma b_db6_step: "app_step w_load b_db5 b_db6"
proof -
  have "42 \<notin> t_ID ` set (db_transactions b_db5)" "in_i64 50" by code_simp+
  then show ?thesis unfolding b_db6_def
    by (intro app_step.record_one [OF prod.collapse [symmetric] w_input_i64])
qed

lemma b_db6_reachable: "app_reachable w_load b_db6"
  by (rule app_reachable.step [OF b_db5_reachable b_db6_step])

end
