(* ===== verification/BalanceProperties.thy ===== *)
theory BalanceProperties
  imports Balances AppSteps BookFixtures
begin

text \<open>What the writes of the transaction service do to the balances of a project.\<close>

section \<open>The row a write appends\<close>

lemma tx_Save_appends:
  assumes "tx_Save c t d = (Inr u, d')" "t_ID t \<notin> t_ID ` set (db_transactions d)"
  shows "db_transactions d' = db_transactions d @ [tx_stored t]"
proof -
  have n: "find_row t_ID (t_ID t) (db_transactions d) = None" using assms(2) by (simp add: find_row_absent)
  show ?thesis
    by (rule tx_Save_frame [OF assms(1)]) (use n in \<open>simp add: upsert_row_new\<close>)
qed

context tx_ports
begin

lemma tx_record_appends:
  assumes tc: "tenant_From c = Inr tc" and run: "tx_record pt now tid c tc inp by' d = (Inr t, d')"
    and amt: "in_i64 (Minor (ri_Amount inp))" and fresh: "tid \<notin> t_ID ` set (db_transactions d)"
  shows "db_transactions d' = db_transactions d @ [tx_stored t]" "t_OrgID t = tc_OrgID tc" "t_ProjectID t = tc_ProjectID tc"
    "t_WalletID t = ri_WalletID inp" "t_ToWalletID t = ri_ToWalletID inp" "t_Kind t = ri_Kind inp" "t_Amount t = ri_Amount inp"
proof -
  obtain d1 where a: "opens_period d d1" "tx_Save c t d1 = (Inr (), d')" "t_ID t = tid"
    and f: "t_OrgID t = tc_OrgID tc" "t_ProjectID t = tc_ProjectID tc"
    "t_WalletID t = ri_WalletID inp" "t_ToWalletID t = ri_ToWalletID inp" "t_Kind t = ri_Kind inp" "t_Amount t = ri_Amount inp"
    by (rule tx_record_Inr [OF tc run amt])
  have "t_ID t \<notin> t_ID ` set (db_transactions d1)" using touched_ids [OF a(1) fresh] a(3) by metis
  then show "db_transactions d' = db_transactions d @ [tx_stored t]"
    using tx_Save_appends [OF a(2)] opens_periodD(3) [OF a(1)] by simp
  show "t_OrgID t = tc_OrgID tc" "t_ProjectID t = tc_ProjectID tc" "t_WalletID t = ri_WalletID inp"
    "t_ToWalletID t = ri_ToWalletID inp" "t_Kind t = ri_Kind inp" "t_Amount t = ri_Amount inp" by (rule f)+
qed

lemma Record_appends:
  assumes run: "Record m pt now tid c inp d = (Inr t, d')" and tc: "tenant_From c = Inr tc"
    and amt: "in_i64 (Minor (ri_Amount inp))" and fresh: "tid \<notin> t_ID ` set (db_transactions d)"
  shows "db_transactions d' = db_transactions d @ [tx_stored t]" "t_OrgID t = tc_OrgID tc" "t_ProjectID t = tc_ProjectID tc"
proof -
  let ?w = "\<lambda>c' d0. case tx_record pt now tid c' tc inp (tc_UserID tc) d0 of
          (Inl e, d1) \<Rightarrow> (Inl e, d1) | (Inr t, d1) \<Rightarrow> (Inr (t, touched t False), d1)"
  obtain refs d2 where k: "commit m now ''transaction.Record'' c ?w d = (Inr (t, refs), d2)" and d': "d' = mirror_Kick m c refs d2"
    using run unfolding Record_def recordOne_def tc by (auto split: prod.splits sum.splits)
  obtain d1 where w: "?w (c\<lparr>ctx_uow := True\<rparr>) d = (Inr (t, refs), d1)" "same_books d1 d2"
    by (rule commit_Inr [OF k])
  have tc': "tenant_From (c\<lparr>ctx_uow := True\<rparr>) = Inr tc" using tc by (simp only: tenant_From_uow)
  have r: "tx_record pt now tid (c\<lparr>ctx_uow := True\<rparr>) tc inp (tc_UserID tc) d = (Inr t, d1)"
    using w(1) by (auto split: prod.splits sum.splits)
  note A = tx_record_appends [OF tc' r amt fresh]
  have "db_transactions d' = db_transactions d1"
    unfolding d' using same_booksD [OF w(2)] same_booksD [OF mirror_Kick_books] by simp
  then show "db_transactions d' = db_transactions d @ [tx_stored t]" "t_OrgID t = tc_OrgID tc" "t_ProjectID t = tc_ProjectID tc"
    using A by simp_all
qed

lemma Delete_removes:
  assumes run: "txs_Delete m pt now c tid d = (Inr u, d')" and tc: "tenant_From c = Inr tc" and k: "keyed t_ID (db_transactions d)"
  obtains t where "find_row t_ID tid (db_transactions d) = Some t" "t_OrgID t = tc_OrgID tc" "t_ProjectID t = tc_ProjectID tc"
    "db_transactions d' = delete_row t_ID tid (db_transactions d)"
proof -
  have kick: "commit_kick m now ''transaction.Delete'' c (\<lambda>c'. delete_body pt c' tc tid) d = (Inr u, d')"
    using run unfolding txs_Delete_def tc by (simp only: sum.case)
  have tc': "tenant_From (c\<lparr>ctx_uow := True\<rparr>) = Inr tc" using tc by (simp only: tenant_From_uow)
  obtain d1 refs where w: "delete_body pt (c\<lparr>ctx_uow := True\<rparr>) tc tid d = (Inr (u, refs), d1)" "same_books d1 d'"
    by (rule commit_kick_Inr [OF kick])
  show thesis
    by (rule delete_body_Inr [OF tc' w(1) k], rule that) (use same_booksD [OF w(2)] in simp_all)
qed

text \<open>An adjustment writes nothing, or the one row that moves the balance to the target.\<close>

lemma Adjust_appends:
  assumes run: "Adjust m pt now tid c wid target at by' d = (Inr out, d')" and tc: "tenant_From c = Inr tc"
    and fresh: "tid \<notin> t_ID ` set (db_transactions d)"
  obtains cur delta where "tx_Balance (c\<lparr>ctx_uow := True\<rparr>) (tc_OrgID tc) (tc_ProjectID tc) wid d = Inr cur"
    "delta = wrap64 (Minor target - Minor cur)"
    "delta = 0 \<and> out = None \<and> db_transactions d' = db_transactions d \<or>
     delta \<noteq> 0 \<and> (\<exists>t. out = Some t \<and> db_transactions d' = db_transactions d @ [tx_stored t] \<and> t_OrgID t = tc_OrgID tc \<and>
       t_ProjectID t = tc_ProjectID tc \<and> t_WalletID t = wid \<and> t_Kind t = (if delta < 0 then KindAdjustmentOut else KindAdjustmentIn) \<and>
       Minor (t_Amount t) = (if delta < 0 then wrap64 (- delta) else delta))"
proof -
  obtain w refs d1 where r: "RunInTx c (adjust_body m pt now tid tc w wid target at by') d = (Inr (out, refs), d1)"
    and d': "d' = mirror_Kick m c refs d1"
    using run unfolding Adjust_def tc by (auto split: sum.splits prod.splits if_splits)
  let ?c = "c\<lparr>ctx_uow := True\<rparr>"
  have b: "adjust_body m pt now tid tc w wid target at by' ?c d = (Inr (out, refs), d1)" using r by (simp add: RunInTx_Inr)
  have tc': "tenant_From ?c = Inr tc" using tc by (simp only: tenant_From_uow)
  obtain cur where cur: "tx_Balance ?c (tc_OrgID tc) (tc_ProjectID tc) wid d = Inr cur"
    using b by (auto simp: adjust_body_def split: sum.splits)
  let ?delta = "wrap64 (Minor target - Minor cur)"
  have same: "db_transactions d' = db_transactions d1" unfolding d' using same_booksD [OF mirror_Kick_books] by simp
  show thesis
  proof (cases "?delta = 0")
    case True
    then show thesis using b cur same by (intro that [OF cur refl]) (auto simp: adjust_body_def Let_def split: sum.splits if_splits)
  next
    case False
    let ?kind = "if ?delta < 0 then KindAdjustmentOut else KindAdjustmentIn"
    let ?inp = "system_input wid ?kind (money_New (if ?delta < 0 then wrap64 (- ?delta) else ?delta) (wi_Currency w)) at"
    obtain t d2 where t: "tx_record pt now tid ?c tc ?inp by' d = (Inr t, d2)" "out = Some t"
      "tx_mark m now ?c ''transaction.Adjust'' (touched t False) d2 = (Inr (), d1)"
      using b cur False by (auto simp: adjust_body_def Let_def split: sum.splits prod.splits if_splits)
    have "in_i64 (Minor (ri_Amount ?inp))" by (simp add: system_input_def money_New_def)
    note A = tx_record_appends [OF tc' t(1) this fresh]
    have "db_transactions d' = db_transactions d @ [tx_stored t]"
      using same same_booksD [OF tx_mark_books [OF t(3)]] A(1) by simp
    then show thesis using False t(2) A by (intro that [OF cur refl]) (auto simp: system_input_def money_New_def)
  qed
qed

end

text \<open>
  The properties of the whole ledger: the invariant of the books over every sequence of
  operations, closed periods, tenants, money; then those of balances: what the SQL
  aggregates compute, how writes move them, conservation.
\<close>

section \<open>The books\<close>

text \<open>C8: After any sequence of operations of the wallet, category, transaction, period and settings
  services, by any callers, the books are consistent: row ids are unique, wallet and category names do not
  clash, the period timeline of every project is gapless, settings are valid, and every transaction is well
  formed (positive amount, a destination exactly when it is a transfer, ...), in the currency of its wallets,
  with its wallets, its category (of its own kind) and its period in its own project.\<close>

theorem books_stay_consistent:
  assumes "app_reachable load d" and "load DefaultTimezone \<noteq> None"
  shows "books_inv load d"
  by (rule app_reachable_inv [OF assms])

theorem books_stay_consistent_witness:
  "books_inv w_load b_db6 \<and> length (db_transactions b_db6) = 3 \<and> length (db_periods b_db6) = 2"
proof -
  have "length (db_transactions b_db6) = 3" "length (db_periods b_db6) = 2" by code_simp+
  then show ?thesis using books_stay_consistent [OF b_db6_reachable w_tz] by simp
qed

text \<open>C9: A closed period is frozen: no operation of the program adds, changes, moves out or deletes a
  transaction of a period that is closed when the operation starts.\<close>

theorem closed_periods_are_frozen:
  assumes "app_reachable load d" and "load DefaultTimezone \<noteq> None" and "app_step load d d'"
  shows "filter (in_locked d) (db_transactions d') = filter (in_locked d) (db_transactions d)"
proof -
  note inv = app_reachable_inv [OF assms(1,2)]
  from app_step_effect [OF assms(3) inv assms(2)] show ?thesis
  proof
    assume "keeps load d d'"
    then show ?thesis using inv by (simp add: keeps_def frozen_def)
  qed (simp add: same_txs_def)
qed

theorem closed_periods_are_frozen_witness:
  "map t_ID (filter (in_locked b_db5) (db_transactions b_db6)) = [40, 41] \<and> length (db_transactions b_db6) = 3"
proof -
  have "map t_ID (filter (in_locked b_db5) (db_transactions b_db5)) = [40, 41]" "length (db_transactions b_db6) = 3"
    by code_simp+
  then show ?thesis using closed_periods_are_frozen [OF b_db5_reachable w_tz b_db6_step] by simp
qed

section \<open>Reading balances\<close>

lemma wallets_ByID_row:
  assumes inv: "books_inv load d" and w: "wallets_ByID c wid d = Inr w"
  shows "currency_in d wid = w_Currency w" "w_Currency w \<noteq> ''''"
proof -
  have "find_row w_ID wid (db_wallets d) = Some w" "wallet_ok w" using loaded_wallet [OF inv w] by auto
  then show "currency_in d wid = w_Currency w" "w_Currency w \<noteq> ''''"
    by (auto simp: currency_in_def wallet_ok_def dest: length_valid_currency)
qed

lemma boot_wallet:
  assumes "wallets_ByID c wid d = Inr w" "tenant_From c = Inr tc"
  shows "tx_wallet (boot_ports load now pid) c tc wid d = Inr \<lparr>wi_ID = wid, wi_Currency = w_Currency w, wi_Archived = wallet_IsArchived w\<rparr>"
  using wallets_ByID_Inr [OF assms(1)] assms by (auto simp: tx_wallet_def boot_ports_def walletReaderFor_def)

text \<open>C10: The balance the service reports for a wallet is the sum of the signed effects of the
  project's transactions on it, in the wallet's currency, as long as the project's volume fits in 64 bits:
  the SQL aggregate refines the definition of a balance, and the read does not fail.\<close>

theorem Balance_is_the_sum_of_effects:
  assumes "app_reachable load d" and "load DefaultTimezone \<noteq> None" and "tenant_From c = Inr tc"
    and "wallets_ByID c wid d = Inr w"
    and "volume (scoped_rows (tc_OrgID tc) (tc_ProjectID tc) (tc_OrgID tc) d) < 2 ^ 63"
  shows "txs_Balance (boot_ports load now pid) c wid d =
    Inr (money_New (sum_list (map (\<lambda>t. Minor (Effect t wid))
      (filter (\<lambda>t. t_OrgID t = tc_OrgID tc \<and> t_ProjectID t = tc_ProjectID tc) (db_transactions d)))) (w_Currency w))"
proof -
  let ?rows = "scoped_rows (tc_OrgID tc) (tc_ProjectID tc) (tc_OrgID tc) d"
  note inv = app_reachable_inv [OF assms(1,2)]
  obtain a where a: "tx_Balance c (tc_OrgID tc) (tc_ProjectID tc) wid d = Inr a" "Minor a = wallet_total wid ?rows"
    "Currency a = '''' \<or> Currency a = currency_in d wid" "Currency a = '''' \<Longrightarrow> Minor a = 0"
    using tx_Balance_total [OF inv assms(3,5), of wid] tx_Balance_no_currency [OF inv assms(3)] by blast
  have "?rows = filter (\<lambda>t. t_OrgID t = tc_OrgID tc \<and> t_ProjectID t = tc_ProjectID tc) (db_transactions d)"
    by (simp add: scoped_rows_def cong: filter_cong)
  then have s: "sum_list (map (\<lambda>t. Minor (Effect t wid))
      (filter (\<lambda>t. t_OrgID t = tc_OrgID tc \<and> t_ProjectID t = tc_ProjectID tc) (db_transactions d))) = Minor a"
    using a(2) by (simp add: wallet_total_def)
  show ?thesis
  proof (cases "Currency a = ''''")
    case True
    then have "Minor a = 0" by (rule a(4))
    with True show ?thesis
      unfolding txs_Balance_def assms(3) sum.case a(1) s boot_wallet [OF assms(4,3)] by (simp add: money_Zero_def money_New_def)
  next
    case False
    then have "a = money_New (Minor a) (w_Currency w)"
      using a(3) wallets_ByID_row [OF inv assms(4)] by (simp add: money_New_def)
    with False show ?thesis unfolding txs_Balance_def assms(3) sum.case a(1) s by simp
  qed
qed

theorem Balance_is_the_sum_of_effects_witness:
  "txs_Balance (boot_ports w_load 0 9) w_ctx 30 b_db6 = Inr (money_New 300 IDR)"
proof -
  have "wallets_ByID w_ctx 30 b_db6 = Inr (b_wallet 30 ''Bank'')"
    "volume (scoped_rows (tc_OrgID w_tc) (tc_ProjectID w_tc) (tc_OrgID w_tc) b_db6) < 2 ^ 63" by code_simp+
  from Balance_is_the_sum_of_effects [OF b_db6_reachable w_tz w_tenant this, of 0 9]
  show ?thesis by (rule trans) code_simp
qed
text \<open>The balances of all wallets read in one query are the balances read one by one: each is
  the sum of effects, and a wallet the map leaves out has no balance.\<close>

theorem Balances_agree_with_Balance:
  assumes "app_reachable load d" and "load DefaultTimezone \<noteq> None" and "tenant_From c = Inr tc"
    and "volume (scoped_rows (tc_OrgID tc) (tc_ProjectID tc) (tc_OrgID tc) d) < 2 ^ 63"
  shows "\<exists>bs. txs_Balances c d = Inr bs \<and>
    (\<forall>wid a. tx_Balance c (tc_OrgID tc) (tc_ProjectID tc) wid d = Inr a \<longrightarrow>
       Minor a = (case bs wid of None \<Rightarrow> 0 | Some b \<Rightarrow> Minor b))"
proof -
  note inv = app_reachable_inv [OF assms(1,2)]
  obtain bs where bs: "tx_Balances c (tc_OrgID tc) (tc_ProjectID tc) d = Inr bs"
    "\<And>w. minor_of (bs w) = wallet_total w (scoped_rows (tc_OrgID tc) (tc_ProjectID tc) (tc_OrgID tc) d)"
    using tx_Balances_total [OF inv assms(3,4)] by blast
  have "Minor a = minor_of (bs wid)" if "tx_Balance c (tc_OrgID tc) (tc_ProjectID tc) wid d = Inr a" for wid a
    using tx_Balance_total [OF inv assms(3,4), of wid] bs(2) [of wid] that by auto
  then show ?thesis using bs(1) unfolding txs_Balances_def assms(3) by (simp add: minor_of_def)
qed

theorem Balances_agree_with_Balance_witness:
  "\<exists>bs. txs_Balances w_ctx b_db6 = Inr bs \<and> (case bs 31 of None \<Rightarrow> 0 | Some b \<Rightarrow> Minor b) = 150"
proof -
  have "volume (scoped_rows (tc_OrgID w_tc) (tc_ProjectID w_tc) (tc_OrgID w_tc) b_db6) < 2 ^ 63"
    "tx_Balance w_ctx (tc_OrgID w_tc) (tc_ProjectID w_tc) 31 b_db6 = Inr (money_New 150 IDR)" by code_simp+
  then show ?thesis using Balances_agree_with_Balance [OF b_db6_reachable w_tz w_tenant] by (fastforce simp: money_New_def)
qed

text \<open>The wallet lines of the balance report list exactly the active wallets of the project, and
  the closing amount of each is the balance the transaction service derives.\<close>

theorem WalletBalances_agree_with_Balance:
  assumes "app_reachable load d" and "load DefaultTimezone \<noteq> None" and "tenant_From c = Inr tc"
    and "volume (scoped_rows (tc_OrgID tc) (tc_ProjectID tc) (tc_OrgID tc) d) < 2 ^ 62"
  shows "\<exists>lines. reports_WalletBalances c d = Inr lines \<and>
    set (map wl_WalletID lines) = w_ID ` {w \<in> set (db_wallets d). w_OrgID w = tc_OrgID tc \<and> w_ProjectID w = tc_ProjectID tc \<and> w_ArchivedAt w = None} \<and>
    (\<forall>l \<in> set lines. wl_Closing l = money_New (project_total tc (wl_WalletID l) d) (currency_in d (wl_WalletID l)))"
proof -
  note inv = app_reachable_inv [OF assms(1,2)]
  let ?rows = "scoped_rows (tc_OrgID tc) (tc_ProjectID tc) (tc_OrgID tc) d"
  let ?ws = "filter (\<lambda>w. report_scope (tc_OrgID tc) (tc_ProjectID tc) (tc_OrgID tc) (w_OrgID w) (w_ProjectID w) \<and> w_ArchivedAt w = None) (db_wallets d)"
  have ok: "\<forall>t \<in> set ?rows. sound t"
    using books_invD(7) [OF inv] sound_fits by (auto simp: scoped_rows_def)
  obtain lines where lines: "collect_some (balance_line ?rows) (sort_key by_lower_name ?ws) = Inr lines"
    "list_all2 (\<lambda>w l. balance_line ?rows w = Some l) (sort_key by_lower_name ?ws) lines"
    using collect_some_all [of "sort_key by_lower_name ?ws" "balance_line ?rows"] balance_line_total [OF ok assms(4)] by blast
  have l2: "list_all2 (\<lambda>w l. wl_WalletID l = w_ID w \<and> wl_Closing l = money_New (project_total tc (wl_WalletID l) d) (currency_in d (wl_WalletID l)))
      (sort_key by_lower_name ?ws) lines"
    using lines(2)
  proof (rule list.rel_mono_strong)
    fix w l assume "w \<in> set (sort_key by_lower_name ?ws)" "balance_line ?rows w = Some l"
    moreover have "currency_in d (w_ID w) = w_Currency w" if "w \<in> set (db_wallets d)"
      using that books_invD(1) [OF inv] by (simp add: currency_in_def find_row_Some_iff [THEN iffD2])
    ultimately show "wl_WalletID l = w_ID w \<and> wl_Closing l = money_New (project_total tc (wl_WalletID l) d) (currency_in d (wl_WalletID l))"
      using balance_line_total [OF ok assms(4), of w] by (auto simp: project_total_def money_New_def)
  qed
  have "map wl_WalletID lines = map w_ID (sort_key by_lower_name ?ws)"
    using l2 by (induction rule: list_all2_induct) auto
  then have "set (map wl_WalletID lines) = w_ID ` set ?ws" by simp
  moreover have "wl_Closing l = money_New (project_total tc (wl_WalletID l) d) (currency_in d (wl_WalletID l))" if "l \<in> set lines" for l
    using l2 that by (induction rule: list_all2_induct) auto
  ultimately show ?thesis
    using lines(1) unfolding reports_WalletBalances_def reader_WalletBalances_def assms(3)
    by (auto simp: report_scope_def)
qed

theorem WalletBalances_agree_with_Balance_witness:
  "\<exists>lines. reports_WalletBalances w_ctx b_db6 = Inr lines \<and> set (map wl_WalletID lines) = {30, 31}"
proof -
  have "volume (scoped_rows (tc_OrgID w_tc) (tc_ProjectID w_tc) (tc_OrgID w_tc) b_db6) < 2 ^ 62" by code_simp
  moreover have "w_ID ` {w \<in> set (db_wallets b_db6). w_OrgID w = tc_OrgID w_tc \<and> w_ProjectID w = tc_ProjectID w_tc \<and> w_ArchivedAt w = None} = {30, 31}"
    by code_simp
  ultimately show ?thesis using WalletBalances_agree_with_Balance [OF b_db6_reachable w_tz w_tenant] by metis
qed

section \<open>Conservation\<close>

text \<open>C11: Money is conserved: the balances of a project's wallets always add up to what came in minus
  what went out; transfers between wallets cancel.\<close>

theorem transfers_conserve_money:
  assumes "app_reachable load d" and "load DefaultTimezone \<noteq> None"
  shows "sum_list (map (\<lambda>w. project_total tc (w_ID w) d)
      (filter (\<lambda>w. w_OrgID w = tc_OrgID tc \<and> w_ProjectID w = tc_ProjectID tc) (db_wallets d))) =
    sum_list (map (\<lambda>t. if t_Kind t = KindTransfer then 0 else if IsInflow (t_Kind t) then Minor (t_Amount t) else - Minor (t_Amount t))
      (filter (\<lambda>t. t_OrgID t = tc_OrgID tc \<and> t_ProjectID t = tc_ProjectID tc) (db_transactions d)))"
proof -
  note inv = app_reachable_inv [OF assms]
  let ?ws = "filter (\<lambda>w. w_OrgID w = tc_OrgID tc \<and> w_ProjectID w = tc_ProjectID tc) (db_wallets d)"
  let ?rows = "scoped_rows (tc_OrgID tc) (tc_ProjectID tc) (tc_OrgID tc) d"
  have "distinct (map w_ID ?ws)" using books_invD(1) [OF inv] by (simp add: distinct_map_filter)
  moreover have "sound t \<and> t_WalletID t \<in> set (map w_ID ?ws) \<and> (\<forall>to. t_ToWalletID t = Some to \<longrightarrow> to \<in> set (map w_ID ?ws))"
    if t: "t \<in> set ?rows" for t
  proof -
    have f: "tx_fits d t" "t_OrgID t = tc_OrgID tc" "t_ProjectID t = tc_ProjectID tc"
      using t books_invD(7) [OF inv] by (simp_all add: scoped_rows_def)
    have w: "i \<in> set (map w_ID ?ws)" if "has_wallet d (t_OrgID t) (t_ProjectID t) i cur" for i cur
      using that f(2,3) by (force simp: has_wallet_def)
    show ?thesis using f(1) sound_fits [OF f(1)] w by (simp only: tx_fits_def) blast
  qed
  ultimately have "sum_list (map (\<lambda>w. wallet_total w ?rows) (map w_ID ?ws)) = sum_list (map external ?rows)"
    using totals_conserved by blast
  then show ?thesis by (simp add: project_total_def scoped_rows_def external_def [abs_def] comp_def cong: filter_cong)
qed

theorem transfers_conserve_money_witness:
  "sum_list (map (\<lambda>w. project_total w_tc (w_ID w) b_db6)
      (filter (\<lambda>w. w_OrgID w = tc_OrgID w_tc \<and> w_ProjectID w = tc_ProjectID w_tc) (db_wallets b_db6))) = 450"
proof -
  have "sum_list (map (\<lambda>t. if t_Kind t = KindTransfer then 0 else if IsInflow (t_Kind t) then Minor (t_Amount t) else - Minor (t_Amount t))
      (filter (\<lambda>t. t_OrgID t = tc_OrgID w_tc \<and> t_ProjectID t = tc_ProjectID w_tc) (db_transactions b_db6))) = 450"
    by code_simp
  then show ?thesis using transfers_conserve_money [OF b_db6_reachable w_tz, of w_tc] by simp
qed
section \<open>Writing\<close>

text \<open>Recording a transaction moves the balance of every wallet by exactly the transaction's effect on
  it, and deleting a transaction takes exactly its effect back.\<close>

theorem writes_move_balances_by_their_effect:
  assumes "app_reachable load d" and "load DefaultTimezone \<noteq> None" and "tenant_From c = Inr tc"
  shows "(Record m (boot_ports load now pid) now tid c inp d = (Inr t, d1) \<longrightarrow>
      in_i64 (Minor (ri_Amount inp)) \<longrightarrow> tid \<notin> t_ID ` set (db_transactions d) \<longrightarrow>
      project_total tc w d1 = project_total tc w d + Minor (Effect t w)) \<and>
    (txs_Delete m (boot_ports load now pid) now c tid d = (Inr u, d2) \<longrightarrow>
      (\<exists>old \<in> set (db_transactions d). t_ID old = tid \<and> project_total tc w d2 = project_total tc w d - Minor (Effect old w)))"
proof (intro conjI impI)
  assume r: "Record m (boot_ports load now pid) now tid c inp d = (Inr t, d1)" "in_i64 (Minor (ri_Amount inp))"
    "tid \<notin> t_ID ` set (db_transactions d)"
  note R = boot.Record_appends [OF r(1) assms(3) r(2,3)]
  show "project_total tc w d1 = project_total tc w d + Minor (Effect t w)"
    using project_total_append [OF R(1), where w = w] R(2,3) by simp
next
  assume x: "txs_Delete m (boot_ports load now pid) now c tid d = (Inr u, d2)"
  note k = books_invD(3) [OF app_reachable_inv [OF assms(1,2)]]
  obtain old where old: "find_row t_ID tid (db_transactions d) = Some old" "t_OrgID old = tc_OrgID tc"
    "t_ProjectID old = tc_ProjectID tc" "db_transactions d2 = delete_row t_ID tid (db_transactions d)"
    by (rule boot.Delete_removes [OF x assms(3) k])
  have "project_total tc w d2 = project_total tc w d - Minor (Effect old w)"
    using wallet_total_remove [OF k old(1), of "tx_scope (tc_OrgID tc) (tc_ProjectID tc) (tc_OrgID tc)"] old
    by (simp add: project_total_def scoped_rows_def)
  then show "\<exists>old \<in> set (db_transactions d). t_ID old = tid \<and> project_total tc w d2 = project_total tc w d - Minor (Effect old w)"
    using find_row_SomeD [OF old(1)] by blast
qed

theorem writes_move_balances_by_their_effect_witness:
  "project_total w_tc 30 (snd (Record w_mirror (boot_ports w_load b_next_day 12) b_next_day 43 w_ctx
     (w_input 30 (Some 31) KindTransfer 100 b_next_day) b_db6)) = 200 \<and>
   project_total w_tc 31 (snd (txs_Delete w_mirror (boot_ports w_load 0 12) 0 w_ctx 42 b_db6)) = 200"
proof -
  let ?in = "w_input 30 (Some 31) KindTransfer 100 b_next_day"
  let ?r = "Record w_mirror (boot_ports w_load b_next_day 12) b_next_day 43 w_ctx ?in b_db6"
  let ?x = "txs_Delete w_mirror (boot_ports w_load 0 12) 0 w_ctx 42 b_db6"
  let ?t = "b_tx 43 30 (Some 31) KindTransfer 100 11 b_next_day"
  have r: "?r = (Inr ?t, snd ?r)" "?x = (Inr (), snd ?x)" by code_simp+
  have i: "in_i64 (Minor (ri_Amount ?in))" "43 \<notin> t_ID ` set (db_transactions b_db6)" by code_simp+
  note P = writes_move_balances_by_their_effect [OF b_db6_reachable w_tz w_tenant, THEN conjunct1, rule_format, OF r(1) i]
    and Q = writes_move_balances_by_their_effect [OF b_db6_reachable w_tz w_tenant, THEN conjunct2, rule_format, OF r(2)]
  have "project_total w_tc 30 b_db6 = 300" "Minor (Effect ?t 30) = -100" "project_total w_tc 31 b_db6 = 150"
    "\<forall>old \<in> set (db_transactions b_db6). t_ID old = 42 \<longrightarrow> Minor (Effect old 31) = -50" by code_simp+
  then show ?thesis using P [of 30] Q [of 31] by force
qed

text \<open>C12: An adjustment that succeeds leaves the wallet at the target balance, and touches the balance
  of no other wallet of this or any other project, as long as the target and the project's volume together stay
  below 2^63 (past that the int64 difference between target and balance may wrap).  The books are any reachable ones; the default time zone
  loads and the new transaction's id is fresh.\<close>

theorem Adjust_reaches_the_target:
  assumes "app_reachable load d" and "load DefaultTimezone \<noteq> None" and "tenant_From c = Inr tc"
    and "tid \<notin> t_ID ` set (db_transactions d)"
    and "\<bar>Minor target\<bar> + volume (scoped_rows (tc_OrgID tc) (tc_ProjectID tc) (tc_OrgID tc) d) < 2 ^ 63"
    and "Adjust m (boot_ports load now pid) now tid c wid target at by' d = (Inr out, d')"
  shows "project_total tc wid d' = Minor target \<and>
    (\<forall>tc2 w. (tc_OrgID tc2, tc_ProjectID tc2, w) \<noteq> (tc_OrgID tc, tc_ProjectID tc, wid) \<longrightarrow> project_total tc2 w d' = project_total tc2 w d)"
proof -
  let ?rows = "scoped_rows (tc_OrgID tc) (tc_ProjectID tc) (tc_OrgID tc) d"
  note inv = app_reachable_inv [OF assms(1,2)]
  have ok: "\<forall>t \<in> set ?rows. sound t" using books_invD(7) [OF inv] sound_fits by (auto simp: scoped_rows_def)
  note vol = wallet_total_volume [OF ok, of wid] volume_nonneg [OF ok]
  have tc': "tenant_From (c\<lparr>ctx_uow := True\<rparr>) = Inr tc" using assms(3) by (simp only: tenant_From_uow)
  obtain cur delta where cur: "tx_Balance (c\<lparr>ctx_uow := True\<rparr>) (tc_OrgID tc) (tc_ProjectID tc) wid d = Inr cur"
    and delta: "delta = wrap64 (Minor target - Minor cur)"
    and eff: "delta = 0 \<and> out = None \<and> db_transactions d' = db_transactions d \<or>
     delta \<noteq> 0 \<and> (\<exists>t. out = Some t \<and> db_transactions d' = db_transactions d @ [tx_stored t] \<and> t_OrgID t = tc_OrgID tc \<and>
       t_ProjectID t = tc_ProjectID tc \<and> t_WalletID t = wid \<and> t_Kind t = (if delta < 0 then KindAdjustmentOut else KindAdjustmentIn) \<and>
       Minor (t_Amount t) = (if delta < 0 then wrap64 (- delta) else delta))"
    by (rule boot.Adjust_appends [OF assms(6,3,4)])
  have c: "Minor cur = project_total tc wid d"
    using tx_Balance_total [OF inv tc', of wid] cur assms(5) vol(2) by (force simp: project_total_def)
  have "\<bar>Minor target - project_total tc wid d\<bar> < 2 ^ 63" using vol assms(5) unfolding project_total_def by linarith
  then have i: "in_i64 (Minor target - project_total tc wid d)" "in_i64 (- (Minor target - project_total tc wid d))"
    by (auto simp: in_i64_def)
  have d: "delta = Minor target - project_total tc wid d" "wrap64 (- delta) = - delta"
    using wrap64_id [OF i(1)] wrap64_id [OF i(2)] by (simp_all add: delta c)
  from eff show ?thesis
  proof (elim disjE conjE exE)
    assume "delta = 0" "db_transactions d' = db_transactions d"
    then show ?thesis using d by (simp add: project_total_def scoped_rows_def)
  next
    fix t assume t: "db_transactions d' = db_transactions d @ [tx_stored t]" "t_OrgID t = tc_OrgID tc" "t_ProjectID t = tc_ProjectID tc"
      "t_WalletID t = wid" "t_Kind t = (if delta < 0 then KindAdjustmentOut else KindAdjustmentIn)"
      "Minor (t_Amount t) = (if delta < 0 then wrap64 (- delta) else delta)"
    have "Minor (Effect t w) = (if w = wid then delta else 0)" for w
      using t(4-6) d(2) wrap64_id [of delta]
      by (cases "delta < 0") (auto simp: Effect_def amount_Neg_def money_Zero_def delta)
    then have own: "project_total tc w d' = project_total tc w d + (if w = wid then delta else 0)" for w
      using project_total_append [OF t(1)] t(2,3) by simp
    have "project_total tc2 w d' = project_total tc2 w d"
      if "(tc_OrgID tc2, tc_ProjectID tc2, w) \<noteq> (tc_OrgID tc, tc_ProjectID tc, wid)" for tc2 w
    proof (cases "tc_OrgID tc2 = tc_OrgID tc \<and> tc_ProjectID tc2 = tc_ProjectID tc")
      case True
      then have "project_total tc2 w x = project_total tc w x" for x by (simp add: project_total_def)
      then show ?thesis using own [of w] that True by auto
    next
      case False
      then show ?thesis using t(1-3) by (auto simp: project_total_def scoped_rows_def)
    qed
    then show ?thesis using own [of wid] d(1) by simp
  qed
qed

theorem Adjust_reaches_the_target_witness:
  "project_total w_tc 31 (snd (Adjust w_mirror (boot_ports w_load b_next_day 12) b_next_day 43 w_ctx 31 (money_New 1000 IDR) b_next_day 3 b_db6)) = 1000"
proof -
  let ?r = "Adjust w_mirror (boot_ports w_load b_next_day 12) b_next_day 43 w_ctx 31 (money_New 1000 IDR) b_next_day 3 b_db6"
  have r: "?r = (Inr (projr (fst ?r)), snd ?r)" by code_simp
  have i: "43 \<notin> t_ID ` set (db_transactions b_db6)"
    "\<bar>Minor (money_New 1000 IDR)\<bar> + volume (scoped_rows (tc_OrgID w_tc) (tc_ProjectID w_tc) (tc_OrgID w_tc) b_db6) < 2 ^ 63" by code_simp+
  show ?thesis using Adjust_reaches_the_target [OF b_db6_reachable w_tz w_tenant i r] by (simp add: money_New_def)
qed

end
