(* ===== verification/ReportProperties.thy ===== *)
theory ReportProperties
  imports Balances BookFixtures
begin

text \<open>
  The wallet lines of a period summary: the opening is the effect of the earlier
  transactions, the difference of in and out the effect of the period's own, and
  the closing of one period is the opening of the next.
\<close>

section \<open>Sums over the union of own and incoming moves\<close>

definition sum_if :: "(Transaction \<Rightarrow> bool) \<Rightarrow> uuid \<Rightarrow> Transaction list \<Rightarrow> int" where
  "sum_if P w rows = sum_list (map (\<lambda>t. if P t then Minor (Effect t w) else 0) rows)"

lemma sum_if_Cons: "sum_if P w (t # rows) = (if P t then Minor (Effect t w) else 0) + sum_if P w rows"
  by (simp add: sum_if_def)

lemma sum_if_disjoint:
  assumes "\<And>t. t \<in> set rows \<Longrightarrow> P t \<longleftrightarrow> Q t \<or> R t" "\<And>t. t \<in> set rows \<Longrightarrow> \<not> (Q t \<and> R t)"
  shows "sum_if P w rows = sum_if Q w rows + sum_if R w rows"
  using assms by (induction rows) (auto simp: sum_if_def)

lemma move_rows_sum:
  fixes g :: "move_row \<Rightarrow> int"
  shows "sum_list (map g (filter (\<lambda>m. mo_wallet m = w) (move_rows pri pid rows))) =
    sum_list (map (\<lambda>t. (if t_WalletID t = w then g (own_move pri pid t) else 0) +
      (if t_Kind t = KindTransfer \<and> t_ToWalletID t = Some w then g (incoming_move pri pid t) else 0)) rows)"
  by (induction rows) (auto simp: move_rows_def own_move_def incoming_move_def)

lemma sound_transfer:
  assumes "sound t"
  shows "t_ToWalletID t \<noteq> Some (t_WalletID t)" "t_ToWalletID t \<noteq> None \<longleftrightarrow> t_Kind t = KindTransfer" "tx_kind_valid (t_Kind t)"
  using assms by (auto simp: sound_def tx_ok_def)

lemma move_sums:
  assumes "\<forall>t \<in> set rows. sound t"
  shows "sum_list (map mo_opening (filter (\<lambda>m. mo_wallet m = w) (move_rows pri pid rows))) = sum_if pri w rows"
    "sum_list (map mo_in (filter (\<lambda>m. mo_wallet m = w) (move_rows pri pid rows))) -
     sum_list (map mo_out (filter (\<lambda>m. mo_wallet m = w) (move_rows pri pid rows))) = sum_if (\<lambda>t. t_PeriodID t = Some pid) w rows"
proof -
  show "sum_list (map mo_opening (filter (\<lambda>m. mo_wallet m = w) (move_rows pri pid rows))) = sum_if pri w rows"
    unfolding move_rows_sum sum_if_def
  proof (intro arg_cong [where f = sum_list] map_cong refl)
    fix t assume "t \<in> set rows"
    then have s: "sound t" using assms by simp
    show "(if t_WalletID t = w then mo_opening (own_move pri pid t) else 0) +
        (if t_Kind t = KindTransfer \<and> t_ToWalletID t = Some w then mo_opening (incoming_move pri pid t) else 0) =
        (if pri t then Minor (Effect t w) else 0)"
      using sound_transfer(1) [OF s] unfolding sound_Effect [OF s] effect_own [OF s] by (auto simp: own_move_def incoming_move_def)
  qed
  show "sum_list (map mo_in (filter (\<lambda>m. mo_wallet m = w) (move_rows pri pid rows))) -
     sum_list (map mo_out (filter (\<lambda>m. mo_wallet m = w) (move_rows pri pid rows))) = sum_if (\<lambda>t. t_PeriodID t = Some pid) w rows"
    unfolding move_rows_sum sum_if_def sum_list_subtractf [symmetric]
  proof (intro arg_cong [where f = sum_list] map_cong refl)
    fix t assume "t \<in> set rows"
    then have s: "sound t" using assms by simp
    show "(if t_WalletID t = w then mo_in (own_move pri pid t) else 0) +
        (if t_Kind t = KindTransfer \<and> t_ToWalletID t = Some w then mo_in (incoming_move pri pid t) else 0) -
        ((if t_WalletID t = w then mo_out (own_move pri pid t) else 0) +
        (if t_Kind t = KindTransfer \<and> t_ToWalletID t = Some w then mo_out (incoming_move pri pid t) else 0)) =
        (if t_PeriodID t = Some pid then Minor (Effect t w) else 0)"
      using sound_transfer(1) [OF s] valid_kind_cases [OF sound_transfer(3) [OF s]]
      unfolding sound_Effect [OF s] effect_own [OF s] by (auto simp: own_move_def incoming_move_def own_delta_def)
  qed
qed

lemma sql_sum_in_range: "sql_sum acc xs = Some s \<Longrightarrow> in_i64 acc \<Longrightarrow> in_i64 s"
  by (induction acc xs rule: sql_sum.induct) (auto split: if_splits)

lemma wallet_movement_sums:
  assumes "wallet_movement (move_rows pri pid rows) w = Some m" "\<forall>t \<in> set rows. sound t"
  shows "mv_WalletID m = w_ID w" "mv_Opening m = sum_if pri (w_ID w) rows" "in_i64 (mv_Opening m)"
    "mv_In m - mv_Out m = sum_if (\<lambda>t. t_PeriodID t = Some pid) (w_ID w) rows"
proof -
  let ?ms = "filter (\<lambda>x. mo_wallet x = w_ID w) (move_rows pri pid rows)"
  obtain o' i u where s: "sql_sum 0 (map mo_opening ?ms) = Some o'" "sql_sum 0 (map mo_in ?ms) = Some i" "sql_sum 0 (map mo_out ?ms) = Some u"
    and m: "mv_WalletID m = w_ID w" "mv_Opening m = o'" "mv_In m = i" "mv_Out m = u"
    using assms(1) by (auto simp: wallet_movement_def Let_def split: option.splits)
  show "mv_WalletID m = w_ID w" by (rule m)
  show "mv_Opening m = sum_if pri (w_ID w) rows" using sql_sum_Some [OF s(1)] move_sums(1) [OF assms(2)] m by simp
  show "in_i64 (mv_Opening m)" using sql_sum_in_range [OF s(1)] m by (simp add: in_i64_def)
  show "mv_In m - mv_Out m = sum_if (\<lambda>t. t_PeriodID t = Some pid) (w_ID w) rows"
    using sql_sum_Some [OF s(2)] sql_sum_Some [OF s(3)] move_sums(2) [OF assms(2)] m by simp
qed

lemma all_movements_in:
  assumes "all_movements moves ws = Inr ms" "m \<in> set ms"
  obtains w where "w \<in> set ws" "wallet_movement moves w = Some m"
  using assms by (induction ws arbitrary: ms) (fastforce split: option.splits sum.splits)+

text \<open>One line of a summary, in terms of effects.\<close>

definition prior_total :: "Tenant \<Rightarrow> Currency \<Rightarrow> uuid \<Rightarrow> instant \<Rightarrow> uuid \<Rightarrow> db \<Rightarrow> int" where
  "prior_total tc cur pid start w d = sum_if (prior (tc_OrgID tc) (tc_ProjectID tc) pid start d) w
     (filter (\<lambda>t. tx_currency t = cur) (scoped_rows (tc_OrgID tc) (tc_ProjectID tc) (tc_OrgID tc) d))"

definition period_total :: "Tenant \<Rightarrow> Currency \<Rightarrow> uuid \<Rightarrow> uuid \<Rightarrow> db \<Rightarrow> int" where
  "period_total tc cur pid w d = sum_if (\<lambda>t. t_PeriodID t = Some pid) w
     (filter (\<lambda>t. tx_currency t = cur) (scoped_rows (tc_OrgID tc) (tc_ProjectID tc) (tc_OrgID tc) d))"

lemma summary_line:
  assumes inv: "books_inv load d" and tc: "tenant_From c = Inr tc"
    and s: "reader_Summary c (tc_OrgID tc) (tc_ProjectID tc) pid cur start arch d = Inr s" and l: "l \<in> set (su_Wallets s)"
  shows "wl_Opening l = money_New (prior_total tc cur pid start (wl_WalletID l) d) cur"
    "wl_Closing l = money_New (wrap64 (prior_total tc cur pid start (wl_WalletID l) d + period_total tc cur pid (wl_WalletID l) d)) cur"
    "in_i64 (prior_total tc cur pid start (wl_WalletID l) d)"
proof -
  let ?rows = "filter (\<lambda>t. tx_currency t = cur) (scoped_rows (tc_OrgID tc) (tc_ProjectID tc) (tc_OrgID tc) d)"
  let ?pri = "prior (tc_OrgID tc) (tc_ProjectID tc) pid start d"
  have ok: "\<forall>t \<in> set ?rows. sound t" using books_invD(7) [OF inv] sound_fits by (auto simp: scoped_rows_def)
  obtain moves where m: "walletLines (tc_OrgID tc) (tc_ProjectID tc) (tc_OrgID tc) pid cur start arch d = Inr moves"
    and su: "su_Wallets s = map (\<lambda>m. movement_line m cur) moves"
    using s unfolding reader_Summary_def tc by (auto simp: assembleSummary_def Let_def split: sum.splits prod.splits)
  obtain mv where mv: "mv \<in> set moves" "l = movement_line mv cur" using l su by auto
  obtain ws where "all_movements (move_rows ?pri pid ?rows) ws = Inr moves"
    using m unfolding walletLines_def Let_def by blast
  then obtain w where w: "wallet_movement (move_rows ?pri pid ?rows) w = Some mv"
    using all_movements_in mv(1) by metis
  note M = wallet_movement_sums [OF w ok]
  have l': "wl_WalletID l = w_ID w" using mv(2) M(1) by (simp add: movement_line_def)
  show "wl_Opening l = money_New (prior_total tc cur pid start (wl_WalletID l) d) cur"
    "in_i64 (prior_total tc cur pid start (wl_WalletID l) d)"
    using mv(2) M(2,3) l' by (simp_all add: movement_line_def prior_total_def)
  have "wrap64 (wrap64 (mv_Opening mv + mv_In mv) - mv_Out mv) = wrap64 (mv_Opening mv + (mv_In mv - mv_Out mv))"
    by (simp add: i64_simps algebra_simps)
  then show "wl_Closing l = money_New (wrap64 (prior_total tc cur pid start (wl_WalletID l) d + period_total tc cur pid (wl_WalletID l) d)) cur"
    using mv(2) M(2,4) l' by (simp add: movement_line_def prior_total_def period_total_def)
qed

section \<open>Consecutive periods\<close>

lemma prior_assigned:
  assumes k: "keyed p_ID (db_periods d)" and p: "p \<in> set (db_periods d)" "p_OrgID p = org" "p_ProjectID p = prj"
    and t: "t_PeriodID t = Some i"
  shows "prior org prj (p_ID p) start d t \<longleftrightarrow> (\<exists>q \<in> set (book org prj (db_periods d)). p_ID q = i \<and> p_StartDate q < p_StartDate p)"
proof -
  have "find (\<lambda>p2. p_ID p2 = p_ID p \<and> p_OrgID p2 = org \<and> p_ProjectID p2 = prj) (db_periods d) = Some p"
  proof -
    have "find_row p_ID (p_ID p) (db_periods d) = Some p" using k p(1) by (simp add: find_row_Some_iff)
    then show ?thesis using p(2,3) unfolding find_keyed [OF k] by simp
  qed
  then show ?thesis using t by (auto simp: prior_def list_ex_iff book_def)
qed

lemma earlier_than_next:
  assumes "chained (xs @ p # n # ys)" "q \<in> set (xs @ p # n # ys)"
  shows "p_StartDate q < p_StartDate n \<longleftrightarrow> q = p \<or> p_StartDate q < p_StartDate p"
proof -
  have "sorted_wrt (\<lambda>p q. p_StartDate p < p_StartDate q) (xs @ p # n # ys)" by (rule chained_sorted [OF assms(1)])
  then show ?thesis using assms(2) by (auto simp: sorted_wrt_append)
qed

lemma prior_next:
  assumes inv: "books_inv load d" and tl: "timeline org prj (db_periods d) = xs @ p # n # ys"
    and none: "t_PeriodID t = None \<Longrightarrow> t_OccurredAt t < start_p \<longleftrightarrow> t_OccurredAt t < start_n"
  shows "prior org prj (p_ID n) start_n d t \<longleftrightarrow> prior org prj (p_ID p) start_p d t \<or> t_PeriodID t = Some (p_ID p)"
    "\<not> (prior org prj (p_ID p) start_p d t \<and> t_PeriodID t = Some (p_ID p))"
proof -
  note k = books_invD(4) [OF inv] and ch = periods_invD(4) [OF books_invD(5) [OF inv], of org prj]
  have set: "set (book org prj (db_periods d)) = set (xs @ p # n # ys)"
    using tl by (metis set_oldest_first timeline_def)
  then have rows: "p \<in> set (db_periods d)" "p_OrgID p = org" "p_ProjectID p = prj"
      "n \<in> set (db_periods d)" "p_OrgID n = org" "p_ProjectID n = prj"
    unfolding book_def by auto
  have eq: "q = r" if "q \<in> set (book org prj (db_periods d))" "r \<in> set (book org prj (db_periods d))" "p_ID q = p_ID r" for q r
    using that k by (auto simp: book_def distinct_map inj_on_def)
  note early = earlier_than_next [OF ch [unfolded tl]]
  show "prior org prj (p_ID n) start_n d t \<longleftrightarrow> prior org prj (p_ID p) start_p d t \<or> t_PeriodID t = Some (p_ID p)"
  proof (cases "t_PeriodID t")
    case None
    then show ?thesis using none by (simp add: prior_def)
  next
    case (Some i)
    have "(\<exists>q \<in> set (book org prj (db_periods d)). p_ID q = i \<and> p_StartDate q < p_StartDate n) \<longleftrightarrow>
        (\<exists>q \<in> set (book org prj (db_periods d)). p_ID q = i \<and> p_StartDate q < p_StartDate p) \<or> i = p_ID p"
      using early set by auto
    then show ?thesis using Some prior_assigned [OF k rows(1-3) Some] prior_assigned [OF k rows(4-6) Some] by auto
  qed
  show "\<not> (prior org prj (p_ID p) start_p d t \<and> t_PeriodID t = Some (p_ID p))"
  proof
    assume a: "prior org prj (p_ID p) start_p d t \<and> t_PeriodID t = Some (p_ID p)"
    then obtain q where "q \<in> set (book org prj (db_periods d))" "p_ID q = p_ID p" "p_StartDate q < p_StartDate p"
      using prior_assigned [OF k rows(1-3)] by blast
    moreover have "p \<in> set (book org prj (db_periods d))" using set by simp
    ultimately show False using eq by auto
  qed
qed

text \<open>The properties of the reports and of the note search.\<close>

section \<open>Summaries\<close>

lemma summaryAs_reader:
  assumes "summaryAs load c org prj pid as d = Inr s"
  obtains cur loc r where "report_currency c org prj d = Inr cur" "report_location load c org prj d = Inr loc"
    "reader_Period c org prj pid d = Inr r"
    "reader_Summary c org prj pid cur (date_In (pf_Start (as r)) loc) (ArchivedBefore (as r) loc) d = Inr s"
proof -
  obtain cur loc r where r: "report_currency c org prj d = Inr cur" "report_location load c org prj d = Inr loc"
    "reader_Period c org prj pid d = Inr r"
    using assms by (auto simp: summaryAs_def split: sum.splits)
  then have "map_err (Unexpected ''report.Summary: read'')
      (reader_Summary c org prj pid cur (date_In (pf_Start (as r)) loc) (ArchivedBefore (as r) loc) d) = Inr s"
    using assms by (simp add: summaryAs_def Let_def)
  then show thesis
    by (cases "reader_Summary c org prj pid cur (date_In (pf_Start (as r)) loc) (ArchivedBefore (as r) loc) d")
       (use that [OF r] in simp_all)
qed

lemma reader_Period_start:
  assumes "keyed p_ID (db_periods d)" "tenant_From c = Inr tc" "p \<in> set (timeline (tc_OrgID tc) (tc_ProjectID tc) (db_periods d))"
    "reader_Period c (tc_OrgID tc) (tc_ProjectID tc) (p_ID p) d = Inr r"
  shows "pf_Start r = p_StartDate p"
proof -
  have p: "p \<in> set (db_periods d)" "p_OrgID p = tc_OrgID tc" "p_ProjectID p = tc_ProjectID tc"
    using assms(3) by (simp_all add: set_timeline)
  then have "find_row p_ID (p_ID p) (db_periods d) = Some p" using assms(1) by (simp add: find_row_Some_iff)
  then have "find (\<lambda>q. p_ID q = p_ID p \<and> report_scope (tc_OrgID tc) (tc_ProjectID tc) (tc_OrgID tc) (p_OrgID q) (p_ProjectID q)) (db_periods d) = Some p"
    unfolding find_keyed [OF assms(1)] using p by (simp add: report_scope_def)
  then show ?thesis using assms(4) unfolding reader_Period_def assms(2) by (auto simp: period_ref_def)
qed

text \<open>C13: The reports carry balances over: for two consecutive periods of a project, the closing amount
  of a wallet in the earlier summary is its opening amount in the later one, provided no transaction outside
  every period falls between the two starts.\<close>

theorem closing_carries_over:
  assumes "app_reachable load d" and "load DefaultTimezone \<noteq> None" and "tenant_From c = Inr tc"
    and "timeline (tc_OrgID tc) (tc_ProjectID tc) (db_periods d) = xs @ p # n # ys"
    and "report_location load c (tc_OrgID tc) (tc_ProjectID tc) d = Inr loc"
    and "\<And>t. t \<in> set (db_transactions d) \<Longrightarrow> t_PeriodID t = None \<Longrightarrow>
      t_OccurredAt t < date_In (p_StartDate p) loc \<longleftrightarrow> t_OccurredAt t < date_In (p_StartDate n) loc"
    and "reports_Summary load c (p_ID p) d = Inr s1" and "reports_Summary load c (p_ID n) d = Inr s2"
    and "l1 \<in> set (su_Wallets s1)" and "l2 \<in> set (su_Wallets s2)" and "wl_WalletID l1 = wl_WalletID l2"
  shows "wl_Closing l1 = wl_Opening l2"
proof -
  note inv = app_reachable_inv [OF assms(1,2)]
  let ?org = "tc_OrgID tc" and ?prj = "tc_ProjectID tc" and ?w = "wl_WalletID l2"
  have s: "summaryAs load c ?org ?prj (p_ID p) (\<lambda>r. r) d = Inr s1" "summaryAs load c ?org ?prj (p_ID n) (\<lambda>r. r) d = Inr s2"
    using assms(7,8) unfolding reports_Summary_def assms(3) by simp_all
  obtain cur r1 where 1: "report_currency c ?org ?prj d = Inr cur" "reader_Period c ?org ?prj (p_ID p) d = Inr r1"
      "reader_Summary c ?org ?prj (p_ID p) cur (date_In (pf_Start r1) loc) (ArchivedBefore r1 loc) d = Inr s1"
    by (rule summaryAs_reader [OF s(1)]) (use assms(5) in simp)
  obtain r2 where 2: "reader_Period c ?org ?prj (p_ID n) d = Inr r2"
      "reader_Summary c ?org ?prj (p_ID n) cur (date_In (pf_Start r2) loc) (ArchivedBefore r2 loc) d = Inr s2"
    by (rule summaryAs_reader [OF s(2)]) (use assms(5) 1(1) in simp)
  have st: "pf_Start r1 = p_StartDate p" "pf_Start r2 = p_StartDate n"
    using reader_Period_start [OF books_invD(4) [OF inv] assms(3) _ 1(2)] reader_Period_start [OF books_invD(4) [OF inv] assms(3) _ 2(1)]
      assms(4) by simp_all
  note L1 = summary_line [OF inv assms(3) 1(3) assms(9), unfolded assms(11) st]
  note L2 = summary_line [OF inv assms(3) 2(2) assms(10), unfolded st]
  have pn: "prior ?org ?prj (p_ID n) (date_In (p_StartDate n) loc) d t \<longleftrightarrow>
        prior ?org ?prj (p_ID p) (date_In (p_StartDate p) loc) d t \<or> t_PeriodID t = Some (p_ID p)"
      "\<not> (prior ?org ?prj (p_ID p) (date_In (p_StartDate p) loc) d t \<and> t_PeriodID t = Some (p_ID p))"
    if "t \<in> set (db_transactions d)" for t
    by (rule prior_next [OF inv assms(4)], rule assms(6) [OF that], assumption)+
  have "prior_total tc cur (p_ID n) (date_In (p_StartDate n) loc) ?w d =
      prior_total tc cur (p_ID p) (date_In (p_StartDate p) loc) ?w d + period_total tc cur (p_ID p) ?w d"
    unfolding prior_total_def period_total_def
  proof (rule sum_if_disjoint)
    fix t
    assume "t \<in> set (filter (\<lambda>t. tx_currency t = cur) (scoped_rows ?org ?prj ?org d))"
    then have "t \<in> set (db_transactions d)" by (auto simp: scoped_rows_def)
    note pn = pn [OF this]
    show "prior ?org ?prj (p_ID n) (date_In (p_StartDate n) loc) d t \<longleftrightarrow>
        prior ?org ?prj (p_ID p) (date_In (p_StartDate p) loc) d t \<or> t_PeriodID t = Some (p_ID p)" by (rule pn(1))
    show "\<not> (prior ?org ?prj (p_ID p) (date_In (p_StartDate p) loc) d t \<and> t_PeriodID t = Some (p_ID p))" by (rule pn(2))
  qed
  then show ?thesis using L1 L2 by (simp add: wrap64_id)
qed

theorem closing_carries_over_witness:
  "map (Minor \<circ> wl_Closing) (su_Wallets (projr (reports_Summary w_load w_ctx 10 b_db6))) = [300, 200] \<and>
   wl_Closing (hd (su_Wallets (projr (reports_Summary w_load w_ctx 10 b_db6)))) =
   wl_Opening (hd (su_Wallets (projr (reports_Summary w_load w_ctx 11 b_db6))))"
proof -
  let ?t = "timeline (tc_OrgID w_tc) (tc_ProjectID w_tc) (db_periods b_db6)"
  let ?s1 = "reports_Summary w_load w_ctx 10 b_db6" and ?s2 = "reports_Summary w_load w_ctx 11 b_db6"
  have t: "?t = [] @ hd ?t # last ?t # []" "p_ID (hd ?t) = 10" "p_ID (last ?t) = 11" by code_simp+
  have l: "report_location w_load w_ctx (tc_OrgID w_tc) (tc_ProjectID w_tc) b_db6 = Inr time_UTC"
  proof -
    have "db_settings b_db6 = []" by code_simp
    then show ?thesis
      by (simp add: report_location_def ledger_Location_def ledger_effective_def ledger_ByProject_def
        settings_Location_def is_error_defs w_load_def)
  qed
  have s: "?s1 = Inr (projr ?s1)" "?s2 = Inr (projr ?s2)" by code_simp+
  have w: "hd (su_Wallets (projr ?s1)) \<in> set (su_Wallets (projr ?s1))" "hd (su_Wallets (projr ?s2)) \<in> set (su_Wallets (projr ?s2))"
    "wl_WalletID (hd (su_Wallets (projr ?s1))) = wl_WalletID (hd (su_Wallets (projr ?s2)))" by code_simp+
  have "\<forall>t \<in> set (db_transactions b_db6). t_PeriodID t \<noteq> None" by code_simp
  then have "wl_Closing (hd (su_Wallets (projr ?s1))) = wl_Opening (hd (su_Wallets (projr ?s2)))"
    using closing_carries_over [OF b_db6_reachable w_tz w_tenant t(1) l _ _ _ w, unfolded t(2,3), OF _ s] by blast
  moreover have "map (Minor \<circ> wl_Closing) (su_Wallets (projr ?s1)) = [300, 200]" by code_simp
  ultimately show ?thesis by simp
qed

end
