(* ===== verification/Access.thy ===== *)
theory Access
  imports Tenant
begin

text \<open>
  Organisations and memberships (\<open>internal/org\<close>): the aggregate, the SQLite store
  and the service.  \<open>access_db\<close> is the part of the database that decides who may
  act where: organisations, memberships, the projects of each organisation, API
  keys and their grants (theory \<open>ApiKey\<close>).  References to users hold.
\<close>

section \<open>The aggregate\<close>

datatype Role = RoleOwner | RoleAdmin | RoleMember | RoleOther string

fun role_str :: "Role \<Rightarrow> string" where
  "role_str RoleOwner = ''owner''"
| "role_str RoleAdmin = ''admin''"
| "role_str RoleMember = ''member''"
| "role_str (RoleOther s) = s"

definition role_IsValid :: "Role \<Rightarrow> bool" where
  "role_IsValid r \<longleftrightarrow> r = RoleOwner \<or> r = RoleAdmin \<or> r = RoleMember"

definition CanManage :: "Role \<Rightarrow> bool" where
  "CanManage r \<longleftrightarrow> r = RoleOwner \<or> r = RoleAdmin"

record Org =
  or_ID :: uuid
  or_Slug :: string
  or_Name :: string
  or_OwnerID :: uuid
  or_CreatedAt :: instant
  or_System :: bool

record CreateRequest =
  cr_Slug :: string
  cr_Name :: string
  cr_OwnerID :: uuid

record Membership =
  mb_OrgID :: uuid
  mb_UserID :: uuid
  mb_Role :: Role
  mb_CreatedAt :: instant
  mb_System :: bool

definition slug_char :: "char \<Rightarrow> bool" where
  "slug_char c \<longleftrightarrow> 97 \<le> byte c \<and> byte c \<le> 122 \<or> is_digit c"

text \<open>The expression \<open>^[a-z0-9](?:[a-z0-9-]*[a-z0-9])?$\<close>.\<close>

definition org_slugRe :: "string \<Rightarrow> bool" where
  "org_slugRe s \<longleftrightarrow> s \<noteq> [] \<and> slug_char (hd s) \<and> slug_char (last s) \<and> list_all (\<lambda>c. slug_char c \<or> c = CHR ''-'') s"

definition org_validateSlug :: "string \<Rightarrow> (err, unit) res" where
  "org_validateSlug s =
     (if length s < 3 \<or> length s > 64 then Inl (EOrg (OrgInvalidSlugError s ''length out of range''))
      else if \<not> org_slugRe s then Inl (EOrg (OrgInvalidSlugError s ''must be lowercase alphanumeric with dashes''))
      else if s = ''new'' then Inl (EOrg (OrgInvalidSlugError s ''reserved word''))
      else Inr ())"

definition org_validateName :: "string \<Rightarrow> (err, unit) res" where
  "org_validateName n = (if length n < 1 \<or> length n > 200 then Inl (EOrg (OrgInvalidNameError ''length out of range'')) else Inr ())"

definition NewOrg :: "uuid \<Rightarrow> instant \<Rightarrow> string \<Rightarrow> string \<Rightarrow> uuid \<Rightarrow> (err, Org) res" where
  "NewOrg id' now slug name ownerID =
     (let s = TrimSpace slug; n = TrimSpace name in
      case org_validateSlug s of Inl e \<Rightarrow> Inl e | Inr _ \<Rightarrow>
     (case org_validateName n of Inl e \<Rightarrow> Inl e | Inr _ \<Rightarrow>
      Inr \<lparr>or_ID = id', or_Slug = s, or_Name = n, or_OwnerID = ownerID, or_CreatedAt = now, or_System = False\<rparr>))"

definition org_Rename :: "string \<Rightarrow> Org \<Rightarrow> (err, Org) res" where
  "org_Rename name o' = (let n = TrimSpace name in
     case org_validateName n of Inl e \<Rightarrow> Inl e | Inr _ \<Rightarrow> Inr (o'\<lparr>or_Name := n\<rparr>))"

definition NewMembership :: "instant \<Rightarrow> uuid \<Rightarrow> uuid \<Rightarrow> Role \<Rightarrow> (err, Membership) res" where
  "NewMembership now orgID userID role =
     (if \<not> role_IsValid role then Inl (EOrg (InvalidRoleError (role_str role)))
      else Inr \<lparr>mb_OrgID = orgID, mb_UserID = userID, mb_Role = role, mb_CreatedAt = now, mb_System = False\<rparr>)"

definition RemovalRefusal :: "uuid \<Rightarrow> uuid \<Rightarrow> uuid \<Rightarrow> Role \<Rightarrow> Role \<Rightarrow> bool \<Rightarrow> err option" where
  "RemovalRefusal orgID actor target actorRole targetRole system =
     (if system then Some (EOrg (SystemProtectedError ''remove_member'' orgID target ''membership''))
      else if actor = target then Some (EOrg (SelfRemovalError orgID target))
      else if targetRole = RoleOwner \<and> actorRole \<noteq> RoleOwner then Some (EOrg (OwnerRemovalError orgID target))
      else None)"

section \<open>The tables\<close>

datatype KeyKind = KindProject | KindOrg | KindPersonal | KindUnknown string

record APIKey =
  k_ID :: uuid
  k_OrgID :: uuid
  k_ProjectID :: uuid
  k_Kind :: KeyKind
  k_AllProjects :: bool
  k_ProjectIDs :: "uuid list"
  k_Name :: string
  k_SecretHash :: string
  k_SecretHint :: string
  k_Scopes :: "string list"
  k_ResourceIDs :: "uuid list"
  k_CreatedBy :: uuid
  k_CreatedAt :: instant
  k_ExpiresAt :: "instant option"
  k_RevokedAt :: "instant option"
  k_LastUsedAt :: "instant option"

record key_grant =
  g_OrgID :: uuid
  g_KeyID :: uuid
  g_ProjectID :: uuid
  g_CreatedAt :: instant

text \<open>A row of \<open>api_keys\<close> is a key whose \<open>ProjectIDs\<close> are empty: they live in the grants table.\<close>

record access_db =
  ad_orgs :: "Org list"
  ad_members :: "Membership list"
  ad_projects :: "(uuid \<times> uuid) list"
  ad_keys :: "APIKey list"
  ad_grants :: "key_grant list"

definition no_access :: access_db where
  "no_access = \<lparr>ad_orgs = [], ad_members = [], ad_projects = [], ad_keys = [], ad_grants = []\<rparr>"

abbreviation member_key :: "Membership \<Rightarrow> uuid \<times> uuid" where
  "member_key m \<equiv> (mb_OrgID m, mb_UserID m)"

section \<open>The store\<close>

definition org_Save :: "Org \<Rightarrow> (access_db, unit) prog" where
  "org_Save o' d =
     (if or_System o' \<and> list_ex (\<lambda>r. or_ID r \<noteq> or_ID o' \<and> or_System r) (ad_orgs d)
      then (Inl (EOrg (SystemOrgExistsError (or_Slug o'))), d)
      else if list_ex (\<lambda>r. or_ID r \<noteq> or_ID o' \<and> or_Slug r = or_Slug o') (ad_orgs d)
      then (Inl (EOrg (OrgAlreadyExistsError (or_Slug o'))), d)
      else let row = (case find_row or_ID (or_ID o') (ad_orgs d) of
             None \<Rightarrow> o' | Some old \<Rightarrow> o'\<lparr>or_CreatedAt := or_CreatedAt old\<rparr>)
        in (Inr (), d\<lparr>ad_orgs := upsert_row or_ID row (ad_orgs d)\<rparr>))"

definition org_BySlug :: "string \<Rightarrow> access_db \<Rightarrow> (err, Org) res" where
  "org_BySlug slug d = (case find (\<lambda>r. or_Slug r = slug) (ad_orgs d) of
     None \<Rightarrow> Inl (EOrg (OrgNotFoundError (RefText slug))) | Some o' \<Rightarrow> Inr o')"

text \<open>The index \<open>orgs_one_system\<close> leaves at most one row to choose from.\<close>

definition store_SystemOrg :: "access_db \<Rightarrow> (err, Org) res" where
  "store_SystemOrg d = (case filter or_System (ad_orgs d) of
     [] \<Rightarrow> Inl (EOrg SystemOrgNotFoundError) | o' # _ \<Rightarrow> Inr o')"

definition org_ByID :: "uuid \<Rightarrow> access_db \<Rightarrow> (err, Org) res" where
  "org_ByID id' d = (case find_row or_ID id' (ad_orgs d) of
     None \<Rightarrow> Inl (EOrg (OrgNotFoundError (RefID id'))) | Some o' \<Rightarrow> Inr o')"

definition org_List :: "uuid \<Rightarrow> access_db \<Rightarrow> Org list" where
  "org_List userID d = sort_key or_CreatedAt
     (filter (\<lambda>o'. list_ex (\<lambda>m. mb_OrgID m = or_ID o' \<and> mb_UserID m = userID) (ad_members d)) (ad_orgs d))"

definition SaveMembership :: "Membership \<Rightarrow> (access_db, unit) prog" where
  "SaveMembership m d =
     (if \<not> role_IsValid (mb_Role m) then (Inl (Sql ConstraintCheck), d)
      else if find_row or_ID (mb_OrgID m) (ad_orgs d) = None then (Inl (Sql ConstraintForeignKey), d)
      else let row = (case find_row member_key (member_key m) (ad_members d) of
             None \<Rightarrow> m | Some old \<Rightarrow> old\<lparr>mb_Role := mb_Role m, mb_System := mb_System m\<rparr>)
        in (Inr (), d\<lparr>ad_members := upsert_row member_key row (ad_members d)\<rparr>))"

definition store_MembershipOf :: "uuid \<Rightarrow> uuid \<Rightarrow> access_db \<Rightarrow> (err, Membership) res" where
  "store_MembershipOf orgID userID d = (case find_row member_key (orgID, userID) (ad_members d) of
     None \<Rightarrow> Inl (EOrg (MembershipMissingError orgID userID)) | Some m \<Rightarrow> Inr m)"

definition store_ListMembers :: "uuid \<Rightarrow> access_db \<Rightarrow> Membership list" where
  "store_ListMembers orgID d = sort_key mb_CreatedAt (filter (\<lambda>m. mb_OrgID m = orgID) (ad_members d))"

definition store_RemoveMember :: "uuid \<Rightarrow> uuid \<Rightarrow> (access_db, unit) prog" where
  "store_RemoveMember orgID userID d =
     (if find_row member_key (orgID, userID) (ad_members d) = None
      then (Inl (EOrg (MembershipMissingError orgID userID)), d)
      else (Inr (), d\<lparr>ad_members := delete_row member_key (orgID, userID) (ad_members d)\<rparr>))"

section \<open>The service\<close>

definition orgs_MembershipOf :: "uuid \<Rightarrow> uuid \<Rightarrow> access_db \<Rightarrow> (err, Membership) res" where
  "orgs_MembershipOf orgID userID d = (case store_MembershipOf orgID userID d of
     Inl e \<Rightarrow> Inl (if IsMembershipMissingError e \<or> org_IsNotFoundError e then e else Unexpected ''org.MembershipOf'' e)
   | Inr m \<Rightarrow> Inr m)"

definition IsManager :: "uuid \<Rightarrow> uuid \<Rightarrow> access_db \<Rightarrow> (err, bool) res" where
  "IsManager orgID userID d =
     (if userID = uuid_Nil then Inr False
      else case orgs_MembershipOf orgID userID d of
        Inl e \<Rightarrow> if IsMembershipMissingError e \<or> org_IsNotFoundError e then Inr False else Inl e
      | Inr m \<Rightarrow> Inr (CanManage (mb_Role m)))"

definition RequireManager :: "uuid \<Rightarrow> uuid \<Rightarrow> access_db \<Rightarrow> (err, unit) res" where
  "RequireManager orgID userID d = (case IsManager orgID userID d of
     Inl e \<Rightarrow> Inl e
   | Inr ok \<Rightarrow> if ok then Inr () else Inl (EOrg (NotManagerError orgID userID)))"

definition RequireMember :: "uuid \<Rightarrow> uuid \<Rightarrow> access_db \<Rightarrow> (err, unit) res" where
  "RequireMember orgID userID d =
     (if userID = uuid_Nil then Inl (EOrg (MembershipMissingError orgID userID))
      else case orgs_MembershipOf orgID userID d of
        Inl e \<Rightarrow> Inl (if org_IsNotFoundError e then EOrg (MembershipMissingError orgID userID) else e)
      | Inr _ \<Rightarrow> Inr ())"

definition orgs_List :: "uuid \<Rightarrow> access_db \<Rightarrow> (err, Org list) res" where
  "orgs_List userID d = Inr (org_List userID d)"

definition orgs_SystemOrg :: "access_db \<Rightarrow> (err, Org) res" where
  "orgs_SystemOrg d = map_err (\<lambda>e. if org_IsNotFoundError e then e else Unexpected ''org.SystemOrg'' e) (store_SystemOrg d)"

definition orgs_BySlug :: "string \<Rightarrow> access_db \<Rightarrow> (err, Org) res" where
  "orgs_BySlug slug d = map_err (\<lambda>e. if org_IsNotFoundError e then e else Unexpected ''org.BySlug'' e) (org_BySlug slug d)"

definition orgs_ByID :: "uuid \<Rightarrow> access_db \<Rightarrow> (err, Org) res" where
  "orgs_ByID id' d = map_err (\<lambda>e. if org_IsNotFoundError e then e else Unexpected ''org.ByID'' e) (org_ByID id' d)"

definition orgs_ListMembers :: "uuid \<Rightarrow> access_db \<Rightarrow> (err, Membership list) res" where
  "orgs_ListMembers orgID d = Inr (store_ListMembers orgID d)"

text \<open>Generated slugs, the three draws of the random source as arguments.\<close>

definition adjectives :: "string list" where
  "adjectives =
    [''amber'', ''ancient'', ''autumn'', ''bold'', ''brave'', ''breezy'', ''bright'', ''calm'',
     ''clear'', ''cool'', ''cosmic'', ''crisp'', ''curly'', ''deep'', ''dusty'', ''eager'',
     ''early'', ''fancy'', ''fresh'', ''gentle'', ''glossy'', ''golden'', ''green'', ''happy'',
     ''hidden'', ''jolly'', ''keen'', ''lively'', ''lunar'', ''mellow'', ''merry'', ''misty'',
     ''neat'', ''noble'', ''polar'', ''proud'', ''quiet'', ''rapid'', ''rustic'', ''silent'',
     ''silver'', ''snowy'', ''solar'', ''spry'', ''sunny'', ''tidy'', ''warm'', ''wispy'']"

definition nouns :: "string list" where
  "nouns =
    [''anchor'', ''arbor'', ''beacon'', ''birch'', ''bloom'', ''breeze'', ''brook'', ''canyon'',
     ''cedar'', ''cliff'', ''cloud'', ''comet'', ''coral'', ''cove'', ''creek'', ''delta'',
     ''dune'', ''ember'', ''fern'', ''field'', ''forest'', ''frost'', ''garden'', ''glade'',
     ''glen'', ''grove'', ''harbor'', ''haven'', ''hill'', ''island'', ''lagoon'', ''lake'',
     ''leaf'', ''meadow'', ''mesa'', ''moss'', ''oasis'', ''orbit'', ''pine'', ''prairie'',
     ''reef'', ''ridge'', ''river'', ''shore'', ''spruce'', ''summit'', ''thicket'', ''valley'']"

definition slug_Generate :: "nat \<Rightarrow> nat \<Rightarrow> nat \<Rightarrow> string" where
  "slug_Generate i j k = adjectives ! (i mod length adjectives) @ ''-'' @ nouns ! (j mod length nouns) @ ''-'' @
     FormatInt (1000 + int (k mod 9000))"

definition slug_Combinations :: nat where
  "slug_Combinations = length adjectives * length nouns * (9999 - 1000 + 1)"

text \<open>\<open>slug.Retry\<close>: try freshly generated slugs until one is not taken, at most \<open>attempts\<close> times.\<close>

fun retry_loop :: "nat \<Rightarrow> nat \<Rightarrow> err \<Rightarrow> (nat \<Rightarrow> string) \<Rightarrow> (err \<Rightarrow> bool) \<Rightarrow> (string \<Rightarrow> ('s, 'a) prog) \<Rightarrow> ('s, 'a) prog" where
  "retry_loop 0 i prev gen taken create s = (Inl prev, s)"
| "retry_loop (Suc n) i prev gen taken create s =
     (case create (gen i) s of
        (Inr v, s') \<Rightarrow> (Inr v, s')
      | (Inl e, s') \<Rightarrow> if \<not> taken e then (Inl e, s') else retry_loop n (Suc i) e gen taken create s')"

definition slug_Retry :: "int \<Rightarrow> (nat \<Rightarrow> string) \<Rightarrow> (err \<Rightarrow> bool) \<Rightarrow> (string \<Rightarrow> ('s, 'a) prog) \<Rightarrow> ('s, 'a) prog" where
  "slug_Retry attempts gen taken create s =
     retry_loop (nat (max attempts 1)) 0 (EOrg CreationDisabledError) gen taken create s"

definition createWithSlug :: "uuid \<Rightarrow> instant \<Rightarrow> CreateRequest \<Rightarrow> string \<Rightarrow> (access_db, Org) prog" where
  "createWithSlug id' now req chosen d =
     (case org_BySlug chosen d of
        Inr _ \<Rightarrow> (Inl (EOrg (OrgAlreadyExistsError chosen)), d)
      | Inl e \<Rightarrow>
        if \<not> org_IsNotFoundError e then (Inl (Unexpected ''org.Create: BySlug'' e), d)
        else case NewOrg id' now chosen (cr_Name req) (cr_OwnerID req) of Inl e \<Rightarrow> (Inl e, d) | Inr o' \<Rightarrow>
       (case org_Save o' d of
          (Inl e, d1) \<Rightarrow> (Inl (if org_IsAlreadyExistsError e then e else Unexpected ''org.Create: Save'' e), d1)
        | (Inr _, d1) \<Rightarrow>
          (case NewMembership now (or_ID o') (cr_OwnerID req) RoleOwner of Inl e \<Rightarrow> (Inl e, d1) | Inr m \<Rightarrow>
          (case SaveMembership m d1 of
             (Inl e, d2) \<Rightarrow> (Inl (Unexpected ''org.Create: SaveMembership'' e), d2)
           | (Inr _, d2) \<Rightarrow> (Inr o', d2)))))"

definition orgs_Create :: "bool \<Rightarrow> (nat \<Rightarrow> string) \<Rightarrow> uuid \<Rightarrow> instant \<Rightarrow> CreateRequest \<Rightarrow> (access_db, Org) prog" where
  "orgs_Create orgCreation gen id' now req d =
     (if \<not> orgCreation then (Inl (EOrg CreationDisabledError), d)
      else let chosen = TrimSpace (cr_Slug req) in
      if chosen \<noteq> '''' then createWithSlug id' now req chosen d
      else slug_Retry 5 gen org_IsAlreadyExistsError (createWithSlug id' now req) d)"

definition orgs_Rename :: "uuid \<Rightarrow> string \<Rightarrow> (access_db, Org) prog" where
  "orgs_Rename id' name d =
     (case org_ByID id' d of
        Inl e \<Rightarrow> (Inl (if org_IsNotFoundError e then e else Unexpected ''org.Rename: ByID'' e), d)
      | Inr o' \<Rightarrow>
        if or_System o' then (Inl (EOrg (SystemProtectedError ''rename'' id' uuid_Nil ''org'')), d)
        else case org_Rename name o' of Inl e \<Rightarrow> (Inl e, d) | Inr o2 \<Rightarrow>
       (case org_Save o2 d of
          (Inl e, d1) \<Rightarrow> (Inl (Unexpected ''org.Rename: Save'' e), d1)
        | (Inr _, d1) \<Rightarrow> (Inr o2, d1)))"

definition AddMember :: "instant \<Rightarrow> uuid \<Rightarrow> uuid \<Rightarrow> Role \<Rightarrow> (access_db, Membership) prog" where
  "AddMember now orgID userID role d =
     (if \<not> role_IsValid role then (Inl (EOrg (InvalidRoleError (role_str role))), d)
      else case store_MembershipOf orgID userID d of
        Inr _ \<Rightarrow> (Inl (EOrg (MembershipExistsError orgID userID)), d)
      | Inl e \<Rightarrow>
        if \<not> IsMembershipMissingError e \<and> \<not> org_IsNotFoundError e then (Inl (Unexpected ''org.AddMember: MembershipOf'' e), d)
        else case NewMembership now orgID userID role of Inl e \<Rightarrow> (Inl e, d) | Inr m \<Rightarrow>
       (case SaveMembership m d of
          (Inl e, d1) \<Rightarrow> (Inl (Unexpected ''org.AddMember: SaveMembership'' e), d1)
        | (Inr _, d1) \<Rightarrow> (Inr m, d1)))"

type_synonym member_hook = "ctx \<Rightarrow> uuid \<Rightarrow> uuid \<Rightarrow> (access_db, unit) prog"

fun run_hooks :: "member_hook list \<Rightarrow> ctx \<Rightarrow> uuid \<Rightarrow> uuid \<Rightarrow> (access_db, unit) prog" where
  "run_hooks [] c orgID userID d = (Inr (), d)"
| "run_hooks (fn # fns) c orgID userID d =
     (case fn c orgID userID d of
        (Inl e, d1) \<Rightarrow> (Inl (Unexpected ''org.RemoveMember: hook'' e), d1)
      | (Inr _, d1) \<Rightarrow> run_hooks fns c orgID userID d1)"

definition RemoveMember :: "member_hook list \<Rightarrow> ctx \<Rightarrow> uuid \<Rightarrow> uuid \<Rightarrow> (access_db, unit) prog" where
  "RemoveMember onRemoved c0 orgID userID d =
     (let c = WithOrg c0 orgID in
      case store_MembershipOf orgID userID d of
        Inl e \<Rightarrow> (Inl (if IsMembershipMissingError e \<or> org_IsNotFoundError e then e
           else Unexpected ''org.RemoveMember: MembershipOf'' e), d)
      | Inr m \<Rightarrow>
       (case tenant_From c of Inl e \<Rightarrow> (Inl e, d) | Inr tc \<Rightarrow>
       (case store_MembershipOf orgID (tc_UserID tc) d of Inl e \<Rightarrow> (Inl e, d) | Inr actor \<Rightarrow>
       (case RemovalRefusal orgID (tc_UserID tc) userID (mb_Role actor) (mb_Role m) (mb_System m) of
          Some e \<Rightarrow> (Inl e, d)
        | None \<Rightarrow>
         (case run_hooks onRemoved c orgID userID d of
            (Inl e, d1) \<Rightarrow> (Inl e, d1)
          | (Inr _, d1) \<Rightarrow>
            (case store_RemoveMember orgID userID d1 of
               (Inl e, d2) \<Rightarrow> (Inl (if IsMembershipMissingError e then e else Unexpected ''org.RemoveMember'' e), d2)
             | (Inr _, d2) \<Rightarrow> (Inr (), d2)))))))"

subsection \<open>The bootstrap organisation\<close>

definition scopeForBootstrap :: "uuid \<Rightarrow> ctx \<Rightarrow> uuid \<Rightarrow> ctx \<times> uuid" where
  "scopeForBootstrap fresh c ownerID = (case tenant_From c of
     Inr tc \<Rightarrow> (c, tc_OrgID tc)
   | Inl _ \<Rightarrow> (tenant_Into c \<lparr>tc_OrgID = fresh, tc_ProjectID = uuid_Nil, tc_UserID = ownerID\<rparr>, fresh))"

definition adopt_member :: "instant \<Rightarrow> Org \<Rightarrow> uuid \<Rightarrow> (access_db, Org) prog" where
  "adopt_member now existing ownerID d =
     (case store_MembershipOf (or_ID existing) ownerID d of
        Inr m \<Rightarrow>
          if mb_System m then (Inr existing, d)
          else (case SaveMembership (m\<lparr>mb_System := True\<rparr>) d of
             (Inl e, d1) \<Rightarrow> (Inl (Unexpected ''org.BootstrapSingleton: SaveMembership'' e), d1)
           | (Inr _, d1) \<Rightarrow> (Inr existing, d1))
      | Inl e \<Rightarrow>
        if \<not> IsMembershipMissingError e \<and> \<not> org_IsNotFoundError e
        then (Inl (Unexpected ''org.BootstrapSingleton: MembershipOf'' e), d)
        else case NewMembership now (or_ID existing) ownerID RoleOwner of Inl e \<Rightarrow> (Inl e, d) | Inr m \<Rightarrow>
       (case SaveMembership (m\<lparr>mb_System := True\<rparr>) d of
          (Inl e, d1) \<Rightarrow> (Inl (Unexpected ''org.BootstrapSingleton: SaveMembership'' e), d1)
        | (Inr _, d1) \<Rightarrow> (Inr existing, d1)))"

definition adoptSingleton :: "instant \<Rightarrow> Org \<Rightarrow> uuid \<Rightarrow> (access_db, Org) prog" where
  "adoptSingleton now existing ownerID d =
     (if or_System existing then adopt_member now existing ownerID d
      else let e' = existing\<lparr>or_System := True\<rparr> in
      case org_Save e' d of
        (Inl e, d1) \<Rightarrow> (Inl (if IsSystemOrgExistsError e then e else Unexpected ''org.BootstrapSingleton: Save'' e), d1)
      | (Inr _, d1) \<Rightarrow> adopt_member now e' ownerID d1)"

definition insertSingleton :: "instant \<Rightarrow> uuid \<Rightarrow> string \<Rightarrow> string \<Rightarrow> uuid \<Rightarrow> (access_db, Org) prog" where
  "insertSingleton now orgID slug name ownerID d =
     (case NewOrg orgID now slug name ownerID of Inl e \<Rightarrow> (Inl e, d) | Inr o0 \<Rightarrow>
      let o' = o0\<lparr>or_System := True\<rparr> in
     (case org_Save o' d of
        (Inl e, d1) \<Rightarrow> (Inl (if org_IsAlreadyExistsError e \<or> IsSystemOrgExistsError e then e
           else Unexpected ''org.BootstrapSingleton: Save'' e), d1)
      | (Inr _, d1) \<Rightarrow>
        (case NewMembership now (or_ID o') ownerID RoleOwner of Inl e \<Rightarrow> (Inl e, d1) | Inr m \<Rightarrow>
        (case SaveMembership (m\<lparr>mb_System := True\<rparr>) d1 of
           (Inl e, d2) \<Rightarrow> (Inl (Unexpected ''org.BootstrapSingleton: SaveMembership'' e), d2)
         | (Inr _, d2) \<Rightarrow> (Inr o', d2)))))"

definition singleton_candidate :: "instant \<Rightarrow> uuid \<Rightarrow> string \<Rightarrow> uuid \<Rightarrow> string \<Rightarrow> (access_db, Org) prog" where
  "singleton_candidate now orgID name ownerID candidate d =
     (case org_BySlug candidate d of
        Inr _ \<Rightarrow> (Inl (EOrg (OrgAlreadyExistsError candidate)), d)
      | Inl e \<Rightarrow> if \<not> org_IsNotFoundError e then (Inl (Unexpected ''org.BootstrapSingleton: BySlug'' e), d)
          else insertSingleton now orgID candidate name ownerID d)"

definition ensureSingleton :: "(nat \<Rightarrow> string) \<Rightarrow> instant \<Rightarrow> uuid \<Rightarrow> string \<Rightarrow> string \<Rightarrow> uuid \<Rightarrow> (access_db, Org) prog" where
  "ensureSingleton gen now orgID slug name ownerID d =
     (case store_SystemOrg d of
        Inr existing \<Rightarrow> adoptSingleton now existing ownerID d
      | Inl e \<Rightarrow>
        if \<not> org_IsNotFoundError e then (Inl (Unexpected ''org.BootstrapSingleton: SystemOrg'' e), d)
        else if slug = '''' then slug_Retry 5 gen org_IsAlreadyExistsError (singleton_candidate now orgID name ownerID) d
        else case org_BySlug slug d of
          Inr existing \<Rightarrow> adoptSingleton now existing ownerID d
        | Inl e \<Rightarrow>
          if \<not> org_IsNotFoundError e then (Inl (Unexpected ''org.BootstrapSingleton: BySlug'' e), d)
          else case insertSingleton now orgID slug name ownerID d of
            (Inl e, d1) \<Rightarrow> (Inl (if org_IsAlreadyExistsError e then EOrg (UnreadableExistingOrgError slug) else e), d1)
          | (Inr o', d1) \<Rightarrow> (Inr o', d1))"

definition BootstrapSingleton :: "(nat \<Rightarrow> string) \<Rightarrow> uuid \<Rightarrow> instant \<Rightarrow> ctx \<Rightarrow> string \<Rightarrow> string \<Rightarrow> uuid \<Rightarrow> (access_db, Org) prog" where
  "BootstrapSingleton gen fresh now c slug name ownerID d =
     (let orgID = snd (scopeForBootstrap fresh c ownerID) in
      case ensureSingleton gen now orgID (TrimSpace slug) name ownerID d of
        (Inr o', d1) \<Rightarrow> (Inr o', d1)
      | (Inl e, d1) \<Rightarrow>
        if \<not> IsSystemOrgExistsError e \<and> \<not> IsUnreadableExistingOrgError e then (Inl e, d1)
        else case store_SystemOrg d1 of
          Inl w \<Rightarrow> if org_IsNotFoundError w \<and> IsUnreadableExistingOrgError e then (Inl e, d1)
            else (Inl (Unexpected ''org.BootstrapSingleton: SystemOrg after conflict'' w), d1)
        | Inr winner \<Rightarrow> adoptSingleton now winner ownerID d1)"

end
