(* ===== verification/ApiKey.thy ===== *)
theory ApiKey
  imports Access "HOL-Library.Product_Lexorder"
begin

text \<open>
  API keys (\<open>internal/apikey\<close>) and credential checks (\<open>internal/platform/authn\<close>,
  \<open>session/reach.go\<close>): the scope catalogue, minting, grants, the SQLite store, the
  service, the authenticator and the scope table of the control plane.  SHA-256
  is the parameter \<open>sum256\<close>; the random bytes of a secret are an argument.  JSON
  columns hold the lists they encode.
\<close>

section \<open>Scopes and credential shapes\<close>

datatype ScopeLevel = LevelProject | LevelOrg

record scopeSpec =
  ss_name :: string
  ss_level :: ScopeLevel
  ss_retired :: bool

definition catalog :: "scopeSpec list" where
  "catalog =
    [\<lparr>ss_name = ''yasaku:read'', ss_level = LevelProject, ss_retired = False\<rparr>,
     \<lparr>ss_name = ''yasaku:write'', ss_level = LevelProject, ss_retired = False\<rparr>,
     \<lparr>ss_name = ''apikeys:read'', ss_level = LevelProject, ss_retired = False\<rparr>,
     \<lparr>ss_name = ''apikeys:write'', ss_level = LevelProject, ss_retired = True\<rparr>,
     \<lparr>ss_name = ''members:read'', ss_level = LevelOrg, ss_retired = False\<rparr>]"

definition AllScopes :: "string list" where
  "AllScopes = map ss_name catalog"

definition MintableScopes :: "string list" where
  "MintableScopes = map ss_name (filter (\<lambda>s. \<not> ss_retired s) catalog)"

definition scope_Valid :: "string \<Rightarrow> bool" where
  "scope_Valid scope \<longleftrightarrow> list_ex (\<lambda>s. ss_name s = scope) catalog"

definition Mintable :: "string \<Rightarrow> bool" where
  "Mintable scope \<longleftrightarrow> scope \<in> set MintableScopes"

definition LevelOf :: "string \<Rightarrow> ScopeLevel option" where
  "LevelOf scope = map_option ss_level (find (\<lambda>s. ss_name s = scope) catalog)"

datatype Shape = ShapeUnknown | ShapeAPIKey | ShapeJWT | ShapePersonalToken

record authn_Scheme =
  as_Prefix :: string
  as_TokenPrefix :: string

definition Looks :: "authn_Scheme \<Rightarrow> string \<Rightarrow> Shape" where
  "Looks s raw =
     (if raw = '''' then ShapeUnknown
      else if as_Prefix s \<noteq> '''' \<and> prefix (as_Prefix s) raw then ShapeAPIKey
      else if as_TokenPrefix s \<noteq> '''' \<and> prefix (as_TokenPrefix s) raw then ShapePersonalToken
      else if count_list raw (CHR ''.'') = 2 \<and> CHR '' '' \<notin> set raw \<and> CHR 0x09 \<notin> set raw then ShapeJWT
      else ShapeUnknown)"

definition CredentialFromHeader :: "string \<Rightarrow> string \<Rightarrow> string" where
  "CredentialFromHeader authorization xAPIKey =
     (if authorization \<noteq> '''' then
        (if prefix ''Bearer '' authorization then TrimSpace (drop 7 authorization)
         else if prefix ''bearer '' authorization then TrimSpace (drop 7 authorization)
         else '''')
      else TrimSpace xAPIKey)"

section \<open>Principals\<close>

datatype Source = SourceGenesis | SourceOIDC | SourceToken | SourceLocal | SourceAPIKey

record SessionPrincipal = Principal +
  pr_Name :: string
  pr_Source :: Source
  pr_Scopes :: "string list"
  pr_ActiveOrgID :: uuid
  pr_ActiveProjectID :: uuid
  pr_ProjectIDs :: "uuid list"
  pr_AllProjects :: bool
  pr_ResourceIDs :: "uuid list"
  pr_IssuedAt :: instant

definition ReachesProject :: "SessionPrincipal \<Rightarrow> uuid \<Rightarrow> uuid \<Rightarrow> bool" where
  "ReachesProject p orgID projectID =
     (if orgID = uuid_Nil \<or> orgID \<noteq> pr_ActiveOrgID p then False
      else if pr_Source p \<noteq> SourceAPIKey \<or> pr_AllProjects p then True
      else projectID \<in> set (pr_ProjectIDs p))"

definition ReachesWholeProject :: "SessionPrincipal \<Rightarrow> uuid \<Rightarrow> uuid \<Rightarrow> bool" where
  "ReachesWholeProject p orgID projectID \<longleftrightarrow> ReachesProject p orgID projectID \<and> pr_ResourceIDs p = []"

definition ReachesResource :: "SessionPrincipal \<Rightarrow> uuid \<Rightarrow> uuid \<Rightarrow> uuid \<Rightarrow> bool" where
  "ReachesResource p orgID projectID resourceID =
     (if \<not> ReachesProject p orgID projectID then False
      else pr_ResourceIDs p = [] \<or> resourceID \<in> set (pr_ResourceIDs p))"

section \<open>The aggregate\<close>

text \<open>\<open>base64.RawURLEncoding\<close>.\<close>

fun b64_groups :: "int list \<Rightarrow> int list" where
  "b64_groups [] = []"
| "b64_groups [a] = [a div 4, (a mod 4) * 16]"
| "b64_groups [a, b] = [a div 4, (a mod 4) * 16 + b div 16, (b mod 16) * 4]"
| "b64_groups (a # b # c # r) = a div 4 # ((a mod 4) * 16 + b div 16) # ((b mod 16) * 4 + c div 64) # c mod 64 # b64_groups r"

definition b64_char :: "int \<Rightarrow> char" where
  "b64_char n = (if n < 26 then char_of (n + 65) else if n < 52 then char_of (n + 71) else if n < 62 then char_of (n - 4)
     else if n = 62 then CHR ''-'' else CHR ''_'')"

definition RawURLEncoding :: "string \<Rightarrow> string" where
  "RawURLEncoding s = map b64_char (b64_groups (map byte s))"

definition scheme_Prefix :: "string \<Rightarrow> string" where
  "scheme_Prefix p = (if p = '''' then ''key_'' else p)"

definition scheme_Authn :: "string \<Rightarrow> authn_Scheme" where
  "scheme_Authn p = \<lparr>as_Prefix = scheme_Prefix p, as_TokenPrefix = ''''\<rparr>"

definition MaxLifetime :: int where "MaxLifetime = 366 * 24 * 3600 * 10 ^ 9"

definition validateLifetime :: "instant option \<Rightarrow> instant \<Rightarrow> (err, unit) res" where
  "validateLifetime expiresAt now =
     (case expiresAt of None \<Rightarrow> Inl (EApiKey ExpiryRequiredError) | Some t \<Rightarrow>
      if \<not> now < t then Inl (EApiKey ExpiryInPastError)
      else if t - now > MaxLifetime then Inl (EApiKey ExpiryTooLongError)
      else Inr ())"

record ProjectGrant =
  pg_All :: bool
  pg_ProjectIDs :: "uuid list"

definition grant_validate :: "ProjectGrant \<Rightarrow> (err, unit) res" where
  "grant_validate g =
     (if pg_All g \<and> pg_ProjectIDs g \<noteq> [] then Inl (EApiKey GrantConflictError)
      else if \<not> pg_All g \<and> pg_ProjectIDs g = [] then Inl (EApiKey EmptyGrantError)
      else Inr ())"

fun dedupe_from :: "uuid list \<Rightarrow> uuid list \<Rightarrow> uuid list" where
  "dedupe_from out [] = out"
| "dedupe_from out (i # ids) = dedupe_from (if i \<noteq> uuid_Nil \<and> i \<notin> set out then out @ [i] else out) ids"

definition dedupe :: "uuid list \<Rightarrow> uuid list" where
  "dedupe ids = dedupe_from [] ids"

text \<open>What minting draws: the id of the key and the random bytes of its secret.\<close>

definition plain_secret :: "string \<Rightarrow> string \<Rightarrow> string" where
  "plain_secret scheme buf = scheme_Prefix scheme @ RawURLEncoding buf"

definition base_mint :: "(string \<Rightarrow> string) \<Rightarrow> string \<Rightarrow> uuid \<Rightarrow> string \<Rightarrow> uuid \<Rightarrow> string \<Rightarrow> string list \<Rightarrow> instant option \<Rightarrow> instant
    \<Rightarrow> (err, APIKey \<times> string) res" where
  "base_mint sum256 scheme id' buf orgID name scopes expiresAt now =
     (case find (\<lambda>s. \<not> scope_Valid s) scopes of Some s \<Rightarrow> Inl (EApiKey (UnknownScopeError s)) | None \<Rightarrow>
      let plaintext = plain_secret scheme buf in
      Inr (\<lparr>k_ID = id', k_OrgID = orgID, k_ProjectID = uuid_Nil, k_Kind = KindUnknown '''', k_AllProjects = False, k_ProjectIDs = [],
        k_Name = name, k_SecretHash = sum256 plaintext, k_SecretHint = drop (length plaintext - 4) plaintext,
        k_Scopes = scopes, k_ResourceIDs = [], k_CreatedBy = uuid_Nil, k_CreatedAt = now, k_ExpiresAt = expiresAt,
        k_RevokedAt = None, k_LastUsedAt = None\<rparr>, plaintext))"

definition scheme_Mint :: "(string \<Rightarrow> string) \<Rightarrow> string \<Rightarrow> uuid \<Rightarrow> string \<Rightarrow> uuid \<Rightarrow> uuid \<Rightarrow> string \<Rightarrow> string list \<Rightarrow> uuid list
    \<Rightarrow> instant option \<Rightarrow> instant \<Rightarrow> (err, APIKey \<times> string) res" where
  "scheme_Mint sum256 scheme id' buf orgID projectID name scopes resourceIDs expiresAt now =
     (case find (\<lambda>s. case LevelOf s of None \<Rightarrow> False | Some l \<Rightarrow> l \<noteq> LevelProject) scopes of
        Some s \<Rightarrow> Inl (EApiKey (ScopeLevelError s))
      | None \<Rightarrow>
       (case base_mint sum256 scheme id' buf orgID name scopes expiresAt now of Inl e \<Rightarrow> Inl e
        | Inr (k, plaintext) \<Rightarrow>
          Inr (k\<lparr>k_Kind := KindProject, k_ProjectID := projectID, k_ResourceIDs := resourceIDs\<rparr>, plaintext)))"

definition scheme_MintOrg :: "(string \<Rightarrow> string) \<Rightarrow> string \<Rightarrow> uuid \<Rightarrow> string \<Rightarrow> uuid \<Rightarrow> string \<Rightarrow> string list \<Rightarrow> ProjectGrant
    \<Rightarrow> instant option \<Rightarrow> instant \<Rightarrow> (err, APIKey \<times> string) res" where
  "scheme_MintOrg sum256 scheme id' buf orgID name scopes g expiresAt now =
     (case grant_validate g of Inl e \<Rightarrow> Inl e | Inr _ \<Rightarrow>
     (case base_mint sum256 scheme id' buf orgID name scopes expiresAt now of Inl e \<Rightarrow> Inl e
      | Inr (k, plaintext) \<Rightarrow>
        Inr (k\<lparr>k_Kind := KindOrg, k_AllProjects := pg_All g, k_ProjectIDs := dedupe (pg_ProjectIDs g)\<rparr>, plaintext)))"

definition scheme_MintPersonal :: "(string \<Rightarrow> string) \<Rightarrow> string \<Rightarrow> uuid \<Rightarrow> string \<Rightarrow> uuid \<Rightarrow> uuid \<Rightarrow> string \<Rightarrow> string list
    \<Rightarrow> ProjectGrant \<Rightarrow> instant option \<Rightarrow> instant \<Rightarrow> (err, APIKey \<times> string) res" where
  "scheme_MintPersonal sum256 scheme id' buf orgID ownerID name scopes g expiresAt now =
     (case scheme_MintOrg sum256 scheme id' buf orgID name scopes g expiresAt now of Inl e \<Rightarrow> Inl e
      | Inr (k, plaintext) \<Rightarrow> Inr (k\<lparr>k_Kind := KindPersonal, k_CreatedBy := ownerID\<rparr>, plaintext))"

definition HasGrant :: "APIKey \<Rightarrow> bool" where
  "HasGrant k \<longleftrightarrow> k_Kind k = KindOrg \<or> k_Kind k = KindPersonal"

definition promotable :: "APIKey \<Rightarrow> (err, unit) res" where
  "promotable k =
     (if \<not> HasGrant k then Inl (EApiKey BoundToProjectError)
      else if k_RevokedAt k \<noteq> None then Inl (EApiKey RevokedError)
      else Inr ())"

definition key_GrantProjects :: "uuid list \<Rightarrow> APIKey \<Rightarrow> (err, APIKey) res" where
  "key_GrantProjects projectIDs k =
     (case promotable k of Inl e \<Rightarrow> Inl e | Inr _ \<Rightarrow>
      if k_AllProjects k then Inl (EApiKey AlreadyAllProjectsError)
      else if projectIDs = [] then Inl (EApiKey EmptyGrantError)
      else Inr (k\<lparr>k_ProjectIDs := dedupe (k_ProjectIDs k @ projectIDs)\<rparr>))"

definition key_GrantAllProjects :: "APIKey \<Rightarrow> (err, APIKey) res" where
  "key_GrantAllProjects k =
     (case promotable k of Inl e \<Rightarrow> Inl e | Inr _ \<Rightarrow>
      if k_AllProjects k then Inl (EApiKey AlreadyAllProjectsError)
      else Inr (k\<lparr>k_AllProjects := True, k_ProjectIDs := []\<rparr>))"

definition ReachableProjects :: "APIKey \<Rightarrow> uuid list" where
  "ReachableProjects k = (if HasGrant k then k_ProjectIDs k else [k_ProjectID k])"

definition Usable :: "APIKey \<Rightarrow> instant \<Rightarrow> bool" where
  "Usable k now =
     (if (case k_RevokedAt k of None \<Rightarrow> False | Some t \<Rightarrow> \<not> now < t) then False
      else if (case k_ExpiresAt k of None \<Rightarrow> False | Some t \<Rightarrow> \<not> now < t) then False
      else True)"

definition Matches :: "(string \<Rightarrow> string) \<Rightarrow> APIKey \<Rightarrow> string \<Rightarrow> bool" where
  "Matches sum256 k plaintext \<longleftrightarrow> sum256 plaintext = k_SecretHash k"

section \<open>The store\<close>

definition kind_shape :: "APIKey \<Rightarrow> bool" where
  "kind_shape k \<longleftrightarrow> k_Kind k = KindProject \<and> k_ProjectID k \<noteq> uuid_Nil \<and> \<not> k_AllProjects k \<or>
     (k_Kind k = KindOrg \<or> k_Kind k = KindPersonal) \<and> k_ProjectID k = uuid_Nil"

definition key_row :: "APIKey \<Rightarrow> APIKey" where
  "key_row k = k\<lparr>k_ProjectIDs := []\<rparr>"

definition key_overlay :: "APIKey \<Rightarrow> APIKey \<Rightarrow> APIKey" where
  "key_overlay old k = old\<lparr>k_Name := k_Name k, k_AllProjects := k_AllProjects k, k_Scopes := k_Scopes k,
     k_ResourceIDs := k_ResourceIDs k, k_ExpiresAt := k_ExpiresAt k, k_RevokedAt := k_RevokedAt k, k_LastUsedAt := k_LastUsedAt k\<rparr>"

definition key_save :: "Tenant \<Rightarrow> APIKey \<Rightarrow> (access_db, unit) prog" where
  "key_save tc k d =
     (if \<not> kind_shape k then (Inl (Sql ConstraintCheck), d)
      else case find_row k_ID (k_ID k) (ad_keys d) of
        Some old \<Rightarrow>
          if k_OrgID old \<noteq> tc_OrgID tc then (Inl (EApiKey KeyNotFoundError), d)
          else if \<not> kind_shape (key_overlay old k) then (Inl (Sql ConstraintCheck), d)
          else (Inr (), d\<lparr>ad_keys := upsert_row k_ID (key_overlay old k) (ad_keys d)\<rparr>)
      | None \<Rightarrow>
          if list_ex (\<lambda>r. k_SecretHash r = k_SecretHash k) (ad_keys d) then (Inl (Sql ConstraintUnique), d)
          else if find_row or_ID (k_OrgID k) (ad_orgs d) = None \<or>
            k_ProjectID k \<noteq> uuid_Nil \<and> k_ProjectID k \<notin> snd ` set (ad_projects d)
          then (Inl (Sql ConstraintForeignKey), d)
          else (Inr (), d\<lparr>ad_keys := ad_keys d @ [key_row k]\<rparr>))"

fun add_grants :: "Tenant \<Rightarrow> uuid \<Rightarrow> instant \<Rightarrow> uuid list \<Rightarrow> key_grant list \<Rightarrow> key_grant list" where
  "add_grants tc key now [] gs = gs"
| "add_grants tc key now (p # ps) gs =
     add_grants tc key now ps
       (if list_ex (\<lambda>g. g_KeyID g = key \<and> g_ProjectID g = p) gs then gs
        else gs @ [\<lparr>g_OrgID = tc_OrgID tc, g_KeyID = key, g_ProjectID = p, g_CreatedAt = now\<rparr>])"

definition syncGrants :: "instant \<Rightarrow> Tenant \<Rightarrow> APIKey \<Rightarrow> (access_db, unit) prog" where
  "syncGrants now tc k d =
     (let kept = filter (\<lambda>g. \<not> (g_OrgID g = tc_OrgID tc \<and> g_KeyID g = k_ID k \<and> g_ProjectID g \<notin> set (k_ProjectIDs k))) (ad_grants d);
          gs = add_grants tc (k_ID k) now (k_ProjectIDs k) kept;
          new = filter (\<lambda>g. g \<notin> set kept) gs
      in if list_ex (\<lambda>g. \<not> list_ex (\<lambda>r. k_ID r = g_KeyID g \<and> k_OrgID r = g_OrgID g) (ad_keys d) \<or>
           (g_OrgID g, g_ProjectID g) \<notin> set (ad_projects d)) new
         then (Inl (Sql ConstraintForeignKey), d)
         else (Inr (), d\<lparr>ad_grants := gs\<rparr>))"

definition key_Save :: "instant \<Rightarrow> ctx \<Rightarrow> APIKey \<Rightarrow> (access_db, unit) prog" where
  "key_Save now c k = atomically (\<lambda>d.
     (case tenant_From c of Inl e \<Rightarrow> (Inl e, d) | Inr tc \<Rightarrow>
     (case key_save tc k d of (Inl e, d1) \<Rightarrow> (Inl e, d1) | (Inr _, d1) \<Rightarrow> syncGrants now tc k d1)))"

definition toAPIKey :: "access_db \<Rightarrow> APIKey \<Rightarrow> APIKey" where
  "toAPIKey d r = r\<lparr>k_ProjectIDs := map g_ProjectID (sort_key (\<lambda>g. (g_CreatedAt g, g_ProjectID g))
     (filter (\<lambda>g. g_OrgID g = k_OrgID r \<and> g_KeyID g = k_ID r) (ad_grants d)))\<rparr>"

definition key_queryOne :: "(APIKey \<Rightarrow> bool) \<Rightarrow> access_db \<Rightarrow> (err, APIKey) res" where
  "key_queryOne cond d = (case find cond (ad_keys d) of
     None \<Rightarrow> Inl (EApiKey KeyNotFoundError) | Some r \<Rightarrow> Inr (toAPIKey d r))"

definition key_ByID :: "ctx \<Rightarrow> uuid \<Rightarrow> access_db \<Rightarrow> (err, APIKey) res" where
  "key_ByID c id' d = (case tenant_From c of Inl e \<Rightarrow> Inl e | Inr tc \<Rightarrow>
     key_queryOne (\<lambda>r. k_ID r = id' \<and> k_OrgID r = tc_OrgID tc) d)"

definition BySecretHash :: "string \<Rightarrow> access_db \<Rightarrow> (err, APIKey) res" where
  "BySecretHash hash d = key_queryOne (\<lambda>r. k_SecretHash r = hash) d"

definition key_queryMany :: "(APIKey \<Rightarrow> bool) \<Rightarrow> access_db \<Rightarrow> APIKey list" where
  "key_queryMany cond d = map (toAPIKey d) (sort_key (\<lambda>r. (- k_CreatedAt r, - int (k_ID r))) (filter cond (ad_keys d)))"

definition key_List :: "ctx \<Rightarrow> uuid \<Rightarrow> access_db \<Rightarrow> (err, APIKey list) res" where
  "key_List c projectID d = (case tenant_From c of Inl e \<Rightarrow> Inl e | Inr tc \<Rightarrow>
     Inr (key_queryMany (\<lambda>r. k_OrgID r = tc_OrgID tc \<and> k_Kind r = KindProject \<and> projectID \<noteq> uuid_Nil \<and> k_ProjectID r = projectID) d))"

definition key_ListOrg :: "ctx \<Rightarrow> access_db \<Rightarrow> (err, APIKey list) res" where
  "key_ListOrg c d = (case tenant_From c of Inl e \<Rightarrow> Inl e | Inr tc \<Rightarrow>
     Inr (key_queryMany (\<lambda>r. k_OrgID r = tc_OrgID tc \<and> k_Kind r = KindOrg) d))"

definition key_ListPersonal :: "ctx \<Rightarrow> uuid \<Rightarrow> access_db \<Rightarrow> (err, APIKey list) res" where
  "key_ListPersonal c ownerID d = (case tenant_From c of Inl e \<Rightarrow> Inl e | Inr tc \<Rightarrow>
     Inr (key_queryMany (\<lambda>r. k_OrgID r = tc_OrgID tc \<and> k_Kind r = KindPersonal \<and> ownerID \<noteq> uuid_Nil \<and> k_CreatedBy r = ownerID) d))"

definition RevokePersonal :: "ctx \<Rightarrow> uuid \<Rightarrow> instant \<Rightarrow> (access_db, unit) prog" where
  "RevokePersonal c ownerID at d = (case tenant_From c of Inl e \<Rightarrow> (Inl e, d) | Inr tc \<Rightarrow>
     (Inr (), d\<lparr>ad_keys := map (\<lambda>r. if k_OrgID r = tc_OrgID tc \<and> k_Kind r = KindPersonal \<and> ownerID \<noteq> uuid_Nil \<and>
        k_CreatedBy r = ownerID \<and> k_RevokedAt r = None then r\<lparr>k_RevokedAt := Some at\<rparr> else r) (ad_keys d)\<rparr>))"

definition TouchLastUsed :: "ctx \<Rightarrow> uuid \<Rightarrow> instant \<Rightarrow> (access_db, unit) prog" where
  "TouchLastUsed c id' at d = (case tenant_From c of Inl e \<Rightarrow> (Inl e, d) | Inr tc \<Rightarrow>
     if \<not> list_ex (\<lambda>r. k_ID r = id' \<and> k_OrgID r = tc_OrgID tc) (ad_keys d) then (Inl (EApiKey KeyNotFoundError), d)
     else (Inr (), d\<lparr>ad_keys := map (\<lambda>r. if k_ID r = id' \<and> k_OrgID r = tc_OrgID tc then r\<lparr>k_LastUsedAt := Some at\<rparr> else r)
       (ad_keys d)\<rparr>))"

end
