(* ===== verification/Password.thy ===== *)
theory Password
  imports ApiKey
begin

text \<open>
  Password hashes (\<open>internal/password/hasher.go\<close>): the PHC text of an Argon2id hash.
  \<open>argon2.IDKey\<close> is the parameter \<open>IDKey\<close> (password, salt, time, memory, threads, key
  length); the salt drawn for a hash is an argument.
\<close>

section \<open>The standard library\<close>

text \<open>\<open>strings.Split(s, sep)\<close> for a separator of one byte.\<close>

fun split_on :: "char \<Rightarrow> string \<Rightarrow> string list" where
  "split_on c [] = [[]]"
| "split_on c (x # s) = (if x = c then [] # split_on c s
     else case split_on c s of [] \<Rightarrow> [[x]] | p # ps \<Rightarrow> (x # p) # ps)"

text \<open>\<open>base64.RawStdEncoding\<close>: the decoder skips line breaks and refuses padding.\<close>

definition std_char :: "int \<Rightarrow> char" where
  "std_char n = (if n = 62 then CHR ''+'' else if n = 63 then CHR ''/'' else b64_char n)"

definition RawStdEncode :: "string \<Rightarrow> string" where
  "RawStdEncode s = map std_char (b64_groups (map byte s))"

definition std_value :: "char \<Rightarrow> int option" where
  "std_value c = (let b = byte c in
     if 65 \<le> b \<and> b \<le> 90 then Some (b - 65)
     else if 97 \<le> b \<and> b \<le> 122 then Some (b - 71)
     else if 48 \<le> b \<and> b \<le> 57 then Some (b + 4)
     else if b = 43 then Some 62 else if b = 47 then Some 63 else None)"

fun b64_ungroup :: "int list \<Rightarrow> int list option" where
  "b64_ungroup [] = Some []"
| "b64_ungroup [a] = None"
| "b64_ungroup [a, b] = Some [a * 4 + b div 16]"
| "b64_ungroup [a, b, c] = Some [a * 4 + b div 16, (b mod 16) * 16 + c div 4]"
| "b64_ungroup (a # b # c # d # r) = map_option (\<lambda>bs. (a * 4 + b div 16) # ((b mod 16) * 16 + c div 4) # ((c mod 4) * 64 + d) # bs) (b64_ungroup r)"

definition RawStdDecode :: "string \<Rightarrow> string option" where
  "RawStdDecode s =
     (let vs = map std_value (filter (\<lambda>c. c \<noteq> CHR 0x0A \<and> c \<noteq> CHR 0x0D) s) in
      if None \<in> set vs then None else map_option (map char_of) (b64_ungroup (map the vs)))"

text \<open>
  What \<open>fmt.Sscanf\<close> does for a literal and for \<open>%d\<close>: a literal must match; a number
  skips spaces (a line break is an error) and reads as many digits as there are,
  and must fit its operand.
\<close>

definition scan_lit :: "string \<Rightarrow> string \<Rightarrow> string option" where
  "scan_lit p s = (if prefix p s then Some (drop (length p) s) else None)"

definition skip_space :: "string \<Rightarrow> string option" where
  "skip_space s = (let r = trim_left (filter (\<lambda>w. w \<noteq> [CHR 0x0A]) white_space) s in
     if r \<noteq> [] \<and> hd r = CHR 0x0A then None else Some r)"

definition scan_uint :: "int \<Rightarrow> string \<Rightarrow> (int \<times> string) option" where
  "scan_uint hi s = (case skip_space s of None \<Rightarrow> None | Some r \<Rightarrow>
     let ds = takeWhile is_digit r in
     if ds = [] \<or> digits_val ds > hi then None else Some (digits_val ds, dropWhile is_digit r))"

definition scan_int :: "string \<Rightarrow> (int \<times> string) option" where
  "scan_int s = (case skip_space s of None \<Rightarrow> None | Some r \<Rightarrow>
     let neg = r \<noteq> [] \<and> hd r = CHR ''-''; r' = (if r \<noteq> [] \<and> (hd r = CHR ''-'' \<or> hd r = CHR ''+'') then tl r else r);
         ds = takeWhile is_digit r'; n = (if neg then - digits_val ds else digits_val ds) in
     if ds = [] \<or> \<not> in_i64 n then None else Some (n, dropWhile is_digit r'))"

section \<open>The hasher\<close>

type_synonym argon2 = "string \<Rightarrow> string \<Rightarrow> int \<Rightarrow> int \<Rightarrow> int \<Rightarrow> int \<Rightarrow> string"

datatype password_error = ErrInvalidHash | ErrMismatch

definition argon2_Version :: int where "argon2_Version = 19"

definition defaultMemoryKiB :: int where "defaultMemoryKiB = 19456"

definition phc_encode :: "int \<Rightarrow> int \<Rightarrow> int \<Rightarrow> string \<Rightarrow> string \<Rightarrow> string" where
  "phc_encode mem t threads salt key =
     ''$argon2id$v='' @ FormatInt argon2_Version @ ''$m='' @ FormatInt mem @ '',t='' @ FormatInt t @ '',p='' @ FormatInt threads
     @ ''$'' @ RawStdEncode salt @ ''$'' @ RawStdEncode key"

definition scan_version :: "string \<Rightarrow> int option" where
  "scan_version s = (case scan_lit ''v='' s of None \<Rightarrow> None | Some r \<Rightarrow> map_option fst (scan_int r))"

definition scan_params :: "string \<Rightarrow> (int \<times> int \<times> int) option" where
  "scan_params s =
     (case scan_lit ''m='' s of None \<Rightarrow> None | Some s1 \<Rightarrow>
     (case scan_uint (2 ^ 32 - 1) s1 of None \<Rightarrow> None | Some (mem, s2) \<Rightarrow>
     (case scan_lit '',t='' s2 of None \<Rightarrow> None | Some s3 \<Rightarrow>
     (case scan_uint (2 ^ 32 - 1) s3 of None \<Rightarrow> None | Some (t, s4) \<Rightarrow>
     (case scan_lit '',p='' s4 of None \<Rightarrow> None | Some s5 \<Rightarrow>
     (case scan_uint 255 s5 of None \<Rightarrow> None | Some (threads, _) \<Rightarrow> Some (mem, t, threads)))))))"

definition phc_decode :: "string \<Rightarrow> (password_error, int \<times> int \<times> int \<times> string \<times> string) res" where
  "phc_decode hash =
     (let parts = split_on (CHR ''$'') hash in
      if length parts \<noteq> 6 \<or> parts ! 1 \<noteq> ''argon2id'' then Inl ErrInvalidHash
      else if scan_version (parts ! 2) \<noteq> Some argon2_Version then Inl ErrInvalidHash
      else case scan_params (parts ! 3) of None \<Rightarrow> Inl ErrInvalidHash | Some (mem, t, threads) \<Rightarrow>
       (case RawStdDecode (parts ! 4) of None \<Rightarrow> Inl ErrInvalidHash | Some salt \<Rightarrow>
       (case RawStdDecode (parts ! 5) of None \<Rightarrow> Inl ErrInvalidHash | Some key \<Rightarrow>
        Inr (mem, t, threads, salt, key))))"

definition password_Hash :: "argon2 \<Rightarrow> string \<Rightarrow> string \<Rightarrow> string" where
  "password_Hash IDKey salt plain = phc_encode defaultMemoryKiB 2 1 salt (IDKey plain salt 2 defaultMemoryKiB 1 32)"

definition password_Verify :: "argon2 \<Rightarrow> string \<Rightarrow> string \<Rightarrow> (password_error, unit) res" where
  "password_Verify IDKey hash plain =
     (case phc_decode hash of Inl e \<Rightarrow> Inl e | Inr (mem, t, threads, salt, key) \<Rightarrow>
      if key \<noteq> IDKey plain salt t mem threads (int (length key) mod 2 ^ 32) then Inl ErrMismatch else Inr ())"

section \<open>Round trips\<close>

lemma split_on_ne [simp]: "split_on c s \<noteq> []"
  by (induction s) (auto split: list.splits)

lemma split_on_none: "c \<notin> set s \<Longrightarrow> split_on c s = [s]"
  by (induction s) auto

lemma split_on_append: "c \<notin> set a \<Longrightarrow> split_on c (a @ c # s) = a # split_on c s"
  by (induction a) auto

lemma sextet:
  fixes a b :: int
  assumes "0 \<le> a" "a < m" "0 \<le> b" "b < k"
  shows "0 \<le> a * k + b" "a * k + b < m * k"
proof -
  show "0 \<le> a * k + b" using assms by simp
  have "(a + 1) * k \<le> m * k" using assms by (intro mult_right_mono) simp_all
  then show "a * k + b < m * k" using assms by (simp add: distrib_right)
qed

lemma b64_sextets:
  fixes a b c :: int
  assumes "0 \<le> a \<and> a < 256" "0 \<le> b \<and> b < 256" "0 \<le> c \<and> c < 256"
  shows "0 \<le> a div 4 \<and> a div 4 < 64" "0 \<le> (a mod 4) * 16 + b div 16 \<and> (a mod 4) * 16 + b div 16 < 64"
    "0 \<le> (b mod 16) * 4 + c div 64 \<and> (b mod 16) * 4 + c div 64 < 64" "0 \<le> c mod 64 \<and> c mod 64 < 64"
proof -
  have d: "0 \<le> b div 16" "b div 16 < 16" "0 \<le> c div 64" "c div 64 < 4" using assms by presburger+
  show "0 \<le> a div 4 \<and> a div 4 < 64" "0 \<le> c mod 64 \<and> c mod 64 < 64" using assms by presburger+
  show "0 \<le> (a mod 4) * 16 + b div 16 \<and> (a mod 4) * 16 + b div 16 < 64" using sextet [of "a mod 4" 4 "b div 16" 16] d by simp
  show "0 \<le> (b mod 16) * 4 + c div 64 \<and> (b mod 16) * 4 + c div 64 < 64" using sextet [of "b mod 16" 16 "c div 64" 4] d by simp
qed

lemma b64_groups_range: "list_all (\<lambda>b. 0 \<le> b \<and> b < 256) bs \<Longrightarrow> list_all (\<lambda>n. 0 \<le> n \<and> n < 64) (b64_groups bs)"
proof (induction bs rule: b64_groups.induct)
  case (2 a)
  then show ?case using b64_sextets [of a 0 0] by simp
next
  case (3 a b)
  then show ?case using b64_sextets [of a b 0] by simp
next
  case (4 a b c r)
  then show ?case using b64_sextets [of a b c] by simp
qed simp

lemma b64_bytes:
  fixes a b c :: int
  assumes "0 \<le> a" "0 \<le> b" "b < 256" "0 \<le> c" "c < 256"
  shows "a div 4 * 4 + ((a mod 4) * 16 + b div 16) div 16 = a"
    and "((a mod 4 * 16 + b div 16) mod 16) * 16 + ((b mod 16) * 4 + c div 64) div 4 = b"
    and "((b mod 16 * 4 + c div 64) mod 4) * 64 + c mod 64 = c"
proof -
  have b: "0 \<le> b div 16" "b div 16 < 16" using assms(2,3) by presburger+
  have c: "0 \<le> c div 64" "c div 64 < 4" using assms(4,5) by presburger+
  have "((a mod 4) * 16 + b div 16) div 16 = a mod 4" "(a mod 4 * 16 + b div 16) mod 16 = b div 16"
    "((b mod 16) * 4 + c div 64) div 4 = b mod 16" "(b mod 16 * 4 + c div 64) mod 4 = c div 64"
    using b c div_pos_pos_trivial mod_pos_pos_trivial by simp_all
  then show "a div 4 * 4 + ((a mod 4) * 16 + b div 16) div 16 = a"
    "((a mod 4 * 16 + b div 16) mod 16) * 16 + ((b mod 16) * 4 + c div 64) div 4 = b"
    "((b mod 16 * 4 + c div 64) mod 4) * 64 + c mod 64 = c"
    by (simp_all only: div_mult_mod_eq)
qed

lemma b64_ungroup_groups: "list_all (\<lambda>b. 0 \<le> b \<and> b < 256) bs \<Longrightarrow> b64_ungroup (b64_groups bs) = Some bs"
proof (induction bs rule: b64_groups.induct)
  case (2 a)
  then show ?case using b64_bytes(1) [of a 0 0] by simp
next
  case (3 a b)
  then show ?case using b64_bytes(1,2) [of a b 0] by simp
next
  case (4 a b c r)
  then show ?case using b64_bytes [of a b c] by simp
qed simp

lemma std_value_char: "0 \<le> n \<Longrightarrow> n < 64 \<Longrightarrow> std_value (std_char n) = Some n"
  by (auto simp: std_value_def std_char_def b64_char_def byte_def Let_def)

lemma std_char_plain: "0 \<le> n \<Longrightarrow> n < 64 \<Longrightarrow> std_char n \<noteq> CHR 0x0A \<and> std_char n \<noteq> CHR 0x0D \<and> std_char n \<noteq> CHR ''$''"
proof -
  assume n: "0 \<le> n" "n < 64"
  then have "std_value (std_char n) \<noteq> None" using std_value_char by simp
  moreover have "std_value (CHR 0x0A) = None" "std_value (CHR 0x0D) = None" "std_value (CHR ''$'') = None"
    by (simp_all add: std_value_def byte_def)
  ultimately show ?thesis by metis
qed

lemma bytes_range: "list_all (\<lambda>b. 0 \<le> b \<and> b < 256) (map byte s)"
  using byte_bounds by (simp add: list_all_iff)

lemma RawStd_roundtrip: "RawStdDecode (RawStdEncode s) = Some s"
proof -
  let ?g = "b64_groups (map byte s)"
  have g: "\<forall>n \<in> set ?g. 0 \<le> n \<and> n < 64" using b64_groups_range [OF bytes_range] by (simp add: list_all_iff)
  have f: "filter (\<lambda>c. c \<noteq> CHR 0x0A \<and> c \<noteq> CHR 0x0D) (map std_char ?g) = map std_char ?g"
    using g std_char_plain by (intro filter_True) auto
  have vs: "map std_value (map std_char ?g) = map Some ?g" using g std_value_char by simp
  have "RawStdDecode (RawStdEncode s) = map_option (map char_of) (b64_ungroup ?g)"
    unfolding RawStdDecode_def RawStdEncode_def Let_def f vs by (simp add: comp_def)
  also have "\<dots> = Some s" unfolding b64_ungroup_groups [OF bytes_range] by (simp add: byte_def comp_def)
  finally show ?thesis .
qed

lemma RawStdEncode_no_dollar: "CHR ''$'' \<notin> set (RawStdEncode s)"
  using b64_groups_range [OF bytes_range, of s] std_char_plain by (fastforce simp: RawStdEncode_def list_all_iff)

lemma skip_space_visible:
  assumes "s \<noteq> []" "visible (hd s)"
  shows "skip_space s = Some s"
proof -
  have "trim_left (filter (\<lambda>w. w \<noteq> [CHR 0x0A]) white_space) s = s"
    using assms white_space_hd by (intro trim_left_id) (auto simp: prefix_def neq_Nil_conv)
  moreover have "hd s \<noteq> CHR 0x0A" using assms(2) by (auto simp: visible_def byte_def)
  ultimately show ?thesis by (simp add: skip_space_def Let_def)
qed

lemma digits_then:
  assumes "0 \<le> n" "r = [] \<or> \<not> is_digit (hd r)"
  shows "takeWhile is_digit (utoa n @ r) = utoa n" "dropWhile is_digit (utoa n @ r) = r" "skip_space (utoa n @ r) = Some (utoa n @ r)"
proof -
  have d: "\<forall>c \<in> set (utoa n). is_digit c" by (rule utoa_digits [OF assms(1)])
  have r: "takeWhile is_digit r = []" "dropWhile is_digit r = r" using assms(2) by (cases r; simp)+
  show "takeWhile is_digit (utoa n @ r) = utoa n" "dropWhile is_digit (utoa n @ r) = r" using d r by simp_all
  have "is_digit (hd (utoa n))" using d by (meson hd_in_set utoa_ne)
  then show "skip_space (utoa n @ r) = Some (utoa n @ r)"
    by (intro skip_space_visible) (simp_all add: is_digit_visible)
qed

lemma scan_uint_utoa: "0 \<le> n \<Longrightarrow> n \<le> hi \<Longrightarrow> r = [] \<or> \<not> is_digit (hd r) \<Longrightarrow> scan_uint hi (utoa n @ r) = Some (n, r)"
  using digits_then [of n r] by (simp add: scan_uint_def Let_def)

lemma scan_int_utoa: "0 \<le> n \<Longrightarrow> in_i64 n \<Longrightarrow> scan_int (utoa n) = Some (n, [])"
proof -
  assume n: "0 \<le> n" "in_i64 n"
  have h: "is_digit (hd (utoa n))" using utoa_digits [OF n(1)] by (meson hd_in_set utoa_ne)
  have "hd (utoa n) \<noteq> CHR ''-''" "hd (utoa n) \<noteq> CHR ''+''" using h by (auto simp: is_digit_def byte_def)
  moreover have "takeWhile is_digit (utoa n) = utoa n" "dropWhile is_digit (utoa n) = []" "skip_space (utoa n) = Some (utoa n)"
    using digits_then [of n "[]"] n by simp_all
  ultimately show ?thesis using n by (simp add: scan_int_def Let_def del: takeWhile_eq_all_conv dropWhile_eq_Nil_conv)
qed

lemma scan_params_text:
  assumes "0 \<le> mem" "mem < 2 ^ 32" "0 \<le> t" "t < 2 ^ 32" "0 \<le> threads" "threads < 256"
  shows "scan_params (''m='' @ utoa mem @ '',t='' @ utoa t @ '',p='' @ utoa threads) = Some (mem, t, threads)"
proof -
  have "\<not> is_digit (CHR '','')" by (simp add: is_digit_def byte_def)
  then have "scan_uint (2 ^ 32 - 1) (utoa mem @ '',t='' @ utoa t @ '',p='' @ utoa threads) = Some (mem, '',t='' @ utoa t @ '',p='' @ utoa threads)"
    "scan_uint (2 ^ 32 - 1) (utoa t @ '',p='' @ utoa threads) = Some (t, '',p='' @ utoa threads)"
    "scan_uint 255 (utoa threads) = Some (threads, [])"
    using assms scan_uint_utoa [of threads 255 "[]"] by (auto intro!: scan_uint_utoa)
  then show ?thesis by (simp add: scan_params_def scan_lit_def)
qed

lemma digits_no_dollar: "0 \<le> n \<Longrightarrow> CHR ''$'' \<notin> set (utoa n)"
  using utoa_digits [of n] by (fastforce simp: is_digit_def byte_def)

lemma phc_roundtrip:
  assumes "0 \<le> mem" "mem < 2 ^ 32" "0 \<le> t" "t < 2 ^ 32" "0 \<le> threads" "threads < 256"
  shows "phc_decode (phc_encode mem t threads salt key) = Inr (mem, t, threads, salt, key)"
proof -
  let ?v = "''v='' @ utoa 19" and ?p = "''m='' @ utoa mem @ '',t='' @ utoa t @ '',p='' @ utoa threads"
  have enc: "phc_encode mem t threads salt key = [] @ CHR ''$'' # ''argon2id'' @ CHR ''$'' # ?v @ CHR ''$'' # ?p @ CHR ''$'' #
      RawStdEncode salt @ CHR ''$'' # RawStdEncode key"
    using assms by (simp add: phc_encode_def FormatInt_def argon2_Version_def)
  have "CHR ''$'' \<notin> set ?v" "CHR ''$'' \<notin> set ?p" using digits_no_dollar assms by auto
  then have parts: "split_on (CHR ''$'') (phc_encode mem t threads salt key) = [[], ''argon2id'', ?v, ?p, RawStdEncode salt, RawStdEncode key]"
    unfolding enc by (subst split_on_append, simp add: RawStdEncode_no_dollar)+ (simp only: split_on_none [OF RawStdEncode_no_dollar])
  have v: "scan_version ?v = Some argon2_Version"
    using scan_int_utoa [of 19] by (simp add: scan_version_def scan_lit_def in_i64_def argon2_Version_def)
  show ?thesis
    unfolding phc_decode_def parts Let_def using v scan_params_text [OF assms] by (simp add: RawStd_roundtrip)
qed

lemma Verify_Hash:
  assumes "length (IDKey plain salt 2 defaultMemoryKiB 1 32) = 32"
  shows "password_Verify IDKey (password_Hash IDKey salt plain) other =
    (if IDKey other salt 2 defaultMemoryKiB 1 32 = IDKey plain salt 2 defaultMemoryKiB 1 32 then Inr () else Inl ErrMismatch)"
proof -
  have "phc_decode (password_Hash IDKey salt plain) = Inr (defaultMemoryKiB, 2, 1, salt, IDKey plain salt 2 defaultMemoryKiB 1 32)"
    unfolding password_Hash_def by (rule phc_roundtrip) (simp_all add: defaultMemoryKiB_def)
  then show ?thesis using assms by (auto simp: password_Verify_def)
qed

lemma Hash_nonempty: "password_Hash IDKey salt plain \<noteq> ''''"
  by (simp add: password_Hash_def phc_encode_def)

end
