(* ===== verification/Sealer.thy ===== *)
theory Sealer
  imports Tenant Password
begin

text \<open>
  Sealed secrets (\<open>internal/platform/sealer\<close>) and what webhooks make of them
  (\<open>internal/webhook/secret.go\<close>, \<open>sign.go\<close>).  The AEAD cipher built from the key and
  HMAC-SHA256 are parameters; the bytes drawn from the random source are arguments,
  or the error drawing them gave.
\<close>

section \<open>The sealer\<close>

text \<open>\<open>cipher.AEAD\<close>: the nonce comes first, then the text and the additional data.\<close>

record AEAD =
  NonceSize :: nat
  aead_Seal :: "string \<Rightarrow> string \<Rightarrow> string \<Rightarrow> string"
  aead_Open :: "string \<Rightarrow> string \<Rightarrow> string \<Rightarrow> string option"

datatype Sealer = gcmSealer AEAD | Disabled

definition KeyLen :: nat where "KeyLen = 32"

definition sealer_New :: "(string \<Rightarrow> AEAD) \<Rightarrow> string \<Rightarrow> (err, Sealer) res" where
  "sealer_New gcm key = (if length key \<noteq> KeyLen then Inl (ESealer (SealerInvalidKeyError (length key))) else Inr (gcmSealer (gcm key)))"

fun Seal :: "Sealer \<Rightarrow> (err, string) res \<Rightarrow> string \<Rightarrow> string \<Rightarrow> (err, string) res" where
  "Seal (gcmSealer a) rnd plaintext aad = (case rnd of Inl e \<Rightarrow> Inl e | Inr nonce \<Rightarrow> Inr (nonce @ aead_Seal a nonce plaintext aad))"
| "Seal Disabled rnd plaintext aad = Inl (ESealer SealerUnavailableError)"

fun sealer_Open :: "Sealer \<Rightarrow> string \<Rightarrow> string \<Rightarrow> (err, string) res" where
  "sealer_Open (gcmSealer a) ciphertext aad =
     (let n = NonceSize a in
      if length ciphertext < n then Inl (ESealer OpenFailedError)
      else case aead_Open a (take n ciphertext) (drop n ciphertext) aad of
        None \<Rightarrow> Inl (ESealer OpenFailedError) | Some out \<Rightarrow> Inr out)"
| "sealer_Open Disabled ciphertext aad = Inl (ESealer SealerUnavailableError)"

section \<open>The key\<close>

definition hex_value :: "char \<Rightarrow> int option" where
  "hex_value c = (let b = byte c in
     if 48 \<le> b \<and> b \<le> 57 then Some (b - 48)
     else if 97 \<le> b \<and> b \<le> 102 then Some (b - 87)
     else if 65 \<le> b \<and> b \<le> 70 then Some (b - 55) else None)"

fun hex_DecodeString :: "string \<Rightarrow> string option" where
  "hex_DecodeString [] = Some []"
| "hex_DecodeString [c] = None"
| "hex_DecodeString (c # d # s) =
     (case (hex_value c, hex_value d) of
        (Some h, Some l) \<Rightarrow> map_option (\<lambda>r. char_of (16 * h + l) # r) (hex_DecodeString s)
      | _ \<Rightarrow> None)"

definition hex_digit :: "int \<Rightarrow> char" where
  "hex_digit n = (if n < 10 then char_of (48 + n) else char_of (87 + n))"

definition hex_EncodeToString :: "string \<Rightarrow> string" where
  "hex_EncodeToString s = concat (map (\<lambda>c. [hex_digit (byte c div 16), hex_digit (byte c mod 16)]) s)"

text \<open>\<open>base64.StdEncoding\<close>: groups of four, the last one padded; line breaks are skipped.\<close>

fun std_groups :: "string \<Rightarrow> int list option" where
  "std_groups [] = Some []"
| "std_groups (a # b # c # d # s) =
     (case (std_value a, std_value b) of
        (Some x, Some y) \<Rightarrow>
          (if c = CHR ''='' then (if d = CHR ''='' \<and> s = [] then Some [x * 4 + y div 16] else None)
           else case std_value c of None \<Rightarrow> None | Some z \<Rightarrow>
             if d = CHR ''='' then (if s = [] then Some [x * 4 + y div 16, (y mod 16) * 16 + z div 4] else None)
             else case std_value d of None \<Rightarrow> None | Some w \<Rightarrow>
               map_option (\<lambda>r. (x * 4 + y div 16) # ((y mod 16) * 16 + z div 4) # ((z mod 4) * 64 + w) # r) (std_groups s))
      | _ \<Rightarrow> None)"
| "std_groups _ = None"

definition StdDecode :: "string \<Rightarrow> string option" where
  "StdDecode s = map_option (map char_of) (std_groups (filter (\<lambda>c. c \<noteq> CHR 0x0A \<and> c \<noteq> CHR 0x0D) s))"

definition ParseKey :: "string \<Rightarrow> (err, string) res" where
  "ParseKey s =
     (let s = TrimSpace s in
      if s = '''' then Inl (ESealer SealerUnavailableError)
      else case hex_DecodeString s of
        Some b \<Rightarrow> if length b \<noteq> KeyLen then Inl (ESealer (SealerInvalidKeyError (length b))) else Inr b
      | None \<Rightarrow> (case StdDecode s of
          None \<Rightarrow> Inl (ESealer SealerKeyTextError)
        | Some b \<Rightarrow> if length b \<noteq> KeyLen then Inl (ESealer (SealerInvalidKeyError (length b))) else Inr b))"

section \<open>Signing secrets\<close>

definition newSecret :: "(err, string) res \<Rightarrow> (err, string) res" where
  "newSecret rnd = (case rnd of Inl e \<Rightarrow> Inl e | Inr b \<Rightarrow> Inr (''whsec_'' @ RawURLEncoding b))"

text \<open>\<open>str\<close> is \<open>uuid.UUID.String\<close>.\<close>

definition secretAAD :: "(uuid \<Rightarrow> string) \<Rightarrow> uuid \<Rightarrow> string \<Rightarrow> string" where
  "secretAAD str endpointID slot = ''webhook:'' @ str endpointID @ '':'' @ slot"

definition slotPrimary :: string where "slotPrimary = ''primary''"

definition slotSecondary :: string where "slotSecondary = ''secondary''"

definition sealSecret :: "(uuid \<Rightarrow> string) \<Rightarrow> Sealer \<Rightarrow> (err, string) res \<Rightarrow> uuid \<Rightarrow> string \<Rightarrow> string \<Rightarrow> (err, string) res" where
  "sealSecret str sl rnd endpointID slot secret = Seal sl rnd secret (secretAAD str endpointID slot)"

definition openSecret :: "(uuid \<Rightarrow> string) \<Rightarrow> Sealer \<Rightarrow> uuid \<Rightarrow> string \<Rightarrow> string \<Rightarrow> (err, string) res" where
  "openSecret str sl endpointID slot sealed = sealer_Open sl sealed (secretAAD str endpointID slot)"

definition Sign :: "(string \<Rightarrow> string \<Rightarrow> string) \<Rightarrow> string \<Rightarrow> string \<Rightarrow> string \<Rightarrow> string" where
  "Sign hmac secret timestamp body = ''v1='' @ hex_EncodeToString (hmac secret (timestamp @ ''.'' @ body))"

section \<open>Opening what was sealed\<close>

text \<open>
  What the sealer relies on: an AEAD opens what it sealed with a nonce of the right
  size, under the same additional data.
\<close>

definition aead_inverts :: "AEAD \<Rightarrow> bool" where
  "aead_inverts a \<longleftrightarrow> (\<forall>nonce p aad. length nonce = NonceSize a \<longrightarrow> aead_Open a nonce (aead_Seal a nonce p aad) aad = Some p)"

fun sealer_inverts :: "Sealer \<Rightarrow> bool" where
  "sealer_inverts (gcmSealer a) = aead_inverts a"
| "sealer_inverts Disabled = True"

fun nonce_ok :: "Sealer \<Rightarrow> (err, string) res \<Rightarrow> bool" where
  "nonce_ok (gcmSealer a) (Inr nonce) = (length nonce = NonceSize a)"
| "nonce_ok _ _ = True"

lemma Open_Seal:
  assumes "sealer_inverts sl" "nonce_ok sl rnd" "Seal sl rnd p aad = Inr ct"
  shows "sealer_Open sl ct aad = Inr p"
  using assms by (cases sl; cases rnd) (auto simp: aead_inverts_def Let_def)

lemma openSecret_sealSecret:
  assumes "sealer_inverts sl" "nonce_ok sl rnd" "sealSecret str sl rnd i slot secret = Inr ct"
  shows "openSecret str sl i slot ct = Inr secret"
  using Open_Seal assms unfolding sealSecret_def openSecret_def by blast

lemma Seal_Inr_gcm: "Seal sl rnd p aad = Inr ct \<Longrightarrow> \<exists>a nonce. sl = gcmSealer a \<and> rnd = Inr nonce \<and> ct = nonce @ aead_Seal a nonce p aad"
  by (cases sl; cases rnd) auto

text \<open>A key written in hexadecimal is read back.\<close>

lemma hex_value_digit: "0 \<le> n \<Longrightarrow> n < 16 \<Longrightarrow> hex_value (hex_digit n) = Some n"
  by (simp add: hex_value_def hex_digit_def byte_char_of Let_def)

lemma hex_Encode_Cons: "hex_EncodeToString (c # s) = hex_digit (byte c div 16) # hex_digit (byte c mod 16) # hex_EncodeToString s"
  by (simp add: hex_EncodeToString_def)

lemma hex_roundtrip: "hex_DecodeString (hex_EncodeToString s) = Some s"
proof (induction s)
  case (Cons c s)
  have "hex_value (hex_digit (byte c div 16)) = Some (byte c div 16)" "hex_value (hex_digit (byte c mod 16)) = Some (byte c mod 16)"
    using byte_bounds [of c] by (intro hex_value_digit; simp)+
  moreover have "char_of (byte c) = c" by (simp add: byte_def)
  ultimately show ?case using Cons by (simp add: hex_Encode_Cons)
qed (simp add: hex_EncodeToString_def)

lemma hex_digit_visible: "0 \<le> n \<Longrightarrow> n < 16 \<Longrightarrow> visible (hex_digit n)"
  by (simp add: visible_def hex_digit_def byte_char_of)

lemma ParseKey_hex:
  assumes "length key = KeyLen"
  shows "ParseKey (hex_EncodeToString key) = Inr key"
proof -
  have ne: "key \<noteq> []" using assms by (auto simp: KeyLen_def)
  have nib: "visible (hex_digit (byte c div 16))" "visible (hex_digit (byte c mod 16))" for c
    using byte_bounds [of c] by (intro hex_digit_visible; simp)+
  obtain c s where k: "key = c # s" using ne by (cases key) auto
  obtain d t where k': "key = t @ [d]" using ne by (cases key rule: rev_cases) auto
  have "hd (hex_EncodeToString key) = hex_digit (byte c div 16)" by (simp add: k hex_Encode_Cons)
  moreover have "last (hex_EncodeToString key) = hex_digit (byte d mod 16)" by (simp add: k' hex_EncodeToString_def)
  moreover have he: "hex_EncodeToString key \<noteq> []" by (simp add: k hex_Encode_Cons)
  ultimately have "TrimSpace (hex_EncodeToString key) = hex_EncodeToString key" using nib by (intro TrimSpace_visible) simp_all
  then show ?thesis using he assms by (simp add: ParseKey_def hex_roundtrip)
qed

end
