(* ===== verification/Opensheet.thy ===== *)
theory Opensheet
  imports Adapters Access Sealer
begin

text \<open>
  What the mirror sends to opensheet: the client (package \<open>opensheet\<close>), how its errors are
  judged (\<open>internal/opensheetsync/classify.go\<close>), the current state of a row as the sheet
  shows it (\<open>mapper.go\<close>, \<open>internal/boot/opensheet_yasaku.go\<close>).  One HTTP exchange with
  the server, in whatever state \<open>'w\<close> the server is, is a parameter, as are \<open>url.Parse\<close>,
  \<open>url.PathEscape\<close> and the address ranges of \<open>httpclient\<close>; a body is what its JSON decodes
  to.  The mirror makes one attempt per call, so the retries of \<open>httpclient\<close> play no part.
\<close>

section \<open>The client\<close>

type_synonym sheet_row = "(string \<times> string) list"

record SheetCapabilities =
  sc_Columns :: "string list"
  sc_IDColumn :: bool
  sc_SoftDelete :: bool
  sc_Writable :: bool
  sc_SatisfiesContract :: bool
  sc_ContractReason :: string
  sc_ValidatedAt :: "instant option"

record os_request =
  rq_Method :: string
  rq_URL :: string
  rq_Token :: string
  rq_IdempotencyKey :: string
  rq_Body :: "sheet_row option"

record os_response =
  rs_Status :: nat
  rs_Code :: string
  rs_Message :: string
  rs_RetryAfter :: int
  rs_ETag :: string
  rs_Row :: sheet_row
  rs_Caps :: SheetCapabilities

record 'w os_lib =
  ol_Parse :: "string \<Rightarrow> (string \<times> string) option"
  ol_PrivateLiteral :: "string \<Rightarrow> bool"
  ol_PathEscape :: "string \<Rightarrow> string"
  ol_Exchange :: "os_request \<Rightarrow> 'w \<Rightarrow> (exchange_cause + os_response) \<times> 'w"

record os_config =
  cfg_BaseURL :: string
  cfg_Org :: string
  cfg_Project :: string
  cfg_Token :: string
  cfg_AllowPrivateHosts :: bool

record os_client =
  cl_Base :: string
  cl_Token :: string

definition trim_slashes :: "string \<Rightarrow> string" where
  "trim_slashes s = rev (dropWhile (\<lambda>c. c = CHR ''/'') (rev s))"

definition opensheet_New :: "'w os_lib \<Rightarrow> os_config \<Rightarrow> (err, os_client) res" where
  "opensheet_New lib cfg =
     (case ol_Parse lib (cfg_BaseURL cfg) of
        None \<Rightarrow> Inl (EOpensheet (ClientConfigError ''opensheet: invalid BaseURL: it needs a scheme and a host''))
      | Some (scheme, host) \<Rightarrow>
          if scheme = '''' \<or> host = ''''
          then Inl (EOpensheet (ClientConfigError ''opensheet: invalid BaseURL: it needs a scheme and a host''))
          else if \<not> cfg_AllowPrivateHosts cfg \<and> ol_PrivateLiteral lib (cfg_BaseURL cfg)
          then Inl (EOpensheet (ClientConfigError ''opensheet: BaseURL is a private host; set AllowPrivateHosts to allow it''))
          else if cfg_Org cfg = '''' \<or> cfg_Project cfg = ''''
          then Inl (EOpensheet (ClientConfigError ''opensheet: Org and Project are required''))
          else Inr \<lparr>cl_Base = trim_slashes (cfg_BaseURL cfg) @ ''/api/v1/orgs/'' @ ol_PathEscape lib (cfg_Org cfg) @
                 ''/projects/'' @ ol_PathEscape lib (cfg_Project cfg), cl_Token = cfg_Token cfg\<rparr>)"

definition sheetURL :: "'w os_lib \<Rightarrow> os_client \<Rightarrow> string \<Rightarrow> string list \<Rightarrow> string" where
  "sheetURL lib cl slug parts =
     cl_Base cl @ ''/sheets/'' @ ol_PathEscape lib slug @ concat (map (\<lambda>p. ''/'' @ ol_PathEscape lib p) parts)"

definition fromResponse :: "os_response \<Rightarrow> opensheet_error" where
  "fromResponse r =
     (if rs_Status r = 404 then SheetNotFoundError '''' '''' (rs_Code r)
      else if rs_Status r = 412 then PreconditionFailedError '''' ''''
      else if rs_Status r = 409 \<and> rs_Code r = ''SHT036'' then StaleCursorError ''''
      else if rs_Status r = 429 then RateLimitedError (rs_RetryAfter r)
      else if rs_Status r = 413 then PayloadTooLargeError ''''
      else if rs_Status r = 400 \<or> rs_Status r = 422 then ValidationError (rs_Code r) (rs_Message r)
      else APIError (rs_Status r) (rs_Code r) (rs_Message r))"

fun os_annotate :: "string \<Rightarrow> string \<Rightarrow> opensheet_error \<Rightarrow> opensheet_error" where
  "os_annotate slug i (SheetNotFoundError _ _ code) = SheetNotFoundError slug i code"
| "os_annotate slug i (PreconditionFailedError _ _) = PreconditionFailedError slug i"
| "os_annotate slug i (StaleCursorError _) = StaleCursorError slug"
| "os_annotate slug i (PayloadTooLargeError _) = PayloadTooLargeError slug"
| "os_annotate slug i e = e"

definition os_do :: "'w os_lib \<Rightarrow> os_client \<Rightarrow> string \<Rightarrow> string \<Rightarrow> sheet_row option \<Rightarrow> string \<Rightarrow> 'w \<Rightarrow> (opensheet_error, os_response) res \<times> 'w" where
  "os_do lib cl method u body key w =
     (case ol_Exchange lib \<lparr>rq_Method = method, rq_URL = u, rq_Token = cl_Token cl, rq_IdempotencyKey = key, rq_Body = body\<rparr> w of
        (Inl cause, w') \<Rightarrow> (Inl (ExchangeError cause), w')
      | (Inr r, w') \<Rightarrow> if 400 \<le> rs_Status r then (Inl (fromResponse r), w') else (Inr r, w'))"

definition PatchRow :: "'w os_lib \<Rightarrow> os_client \<Rightarrow> string \<Rightarrow> string \<Rightarrow> sheet_row \<Rightarrow> 'w \<Rightarrow> (opensheet_error, sheet_row \<times> string) res \<times> 'w" where
  "PatchRow lib cl slug i patch w =
     (case os_do lib cl ''PATCH'' (sheetURL lib cl slug [''rows'', i]) (Some patch) '''' w of
        (Inl e, w') \<Rightarrow> (Inl (os_annotate slug i e), w') | (Inr r, w') \<Rightarrow> (Inr (rs_Row r, rs_ETag r), w'))"

definition CreateRow :: "'w os_lib \<Rightarrow> os_client \<Rightarrow> string \<Rightarrow> sheet_row \<Rightarrow> string \<Rightarrow> 'w \<Rightarrow> (opensheet_error, sheet_row \<times> string) res \<times> 'w" where
  "CreateRow lib cl slug row key w =
     (case os_do lib cl ''POST'' (sheetURL lib cl slug [''rows'']) (Some row) key w of
        (Inl e, w') \<Rightarrow> (Inl (os_annotate slug '''' e), w') | (Inr r, w') \<Rightarrow> (Inr (rs_Row r, rs_ETag r), w'))"

definition DeleteRow :: "'w os_lib \<Rightarrow> os_client \<Rightarrow> string \<Rightarrow> string \<Rightarrow> 'w \<Rightarrow> (opensheet_error, unit) res \<times> 'w" where
  "DeleteRow lib cl slug i w =
     (case os_do lib cl ''DELETE'' (sheetURL lib cl slug [''rows'', i]) None '''' w of
        (Inl e, w') \<Rightarrow> (Inl (os_annotate slug i e), w') | (Inr r, w') \<Rightarrow> (Inr (), w'))"

definition Capabilities :: "'w os_lib \<Rightarrow> os_client \<Rightarrow> string \<Rightarrow> 'w \<Rightarrow> (opensheet_error, SheetCapabilities) res \<times> 'w" where
  "Capabilities lib cl slug w =
     (case os_do lib cl ''GET'' (sheetURL lib cl slug [''capabilities'']) None '''' w of
        (Inl e, w') \<Rightarrow> (Inl (os_annotate slug '''' e), w') | (Inr r, w') \<Rightarrow> (Inr (rs_Caps r), w'))"

section \<open>Judging an answer\<close>

fun RowMissing :: "opensheet_error \<Rightarrow> bool" where
  "RowMissing (SheetNotFoundError _ _ code) = (code = ''SHT013'')"
| "RowMissing _ = False"

fun rowTaken :: "opensheet_error \<Rightarrow> bool" where
  "rowTaken (APIError status code _) = (status = 409 \<and> code = ''SHT012'')"
| "rowTaken (ValidationError code _) = (code = ''SHT018'')"
| "rowTaken _ = False"

definition linkLevel :: "string \<Rightarrow> bool" where
  "linkLevel code \<longleftrightarrow> code \<in> {''SHT010'', ''SHT011'', ''SHT014'', ''SHT021'', ''SHT023'', ''SHT029''}"

fun codeOf :: "opensheet_error \<Rightarrow> string" where
  "codeOf (SheetNotFoundError _ _ code) = code"
| "codeOf (ValidationError code _) = code"
| "codeOf (APIError _ code _) = code"
| "codeOf _ = ''''"

definition os_transient :: "nat \<Rightarrow> string \<Rightarrow> bool" where
  "os_transient status code \<longleftrightarrow> status \<ge> 500 \<or> status = 409 \<and> code = ''SHT017''"

fun row_level :: "opensheet_error \<Rightarrow> bool" where
  "row_level (ValidationError _ _) = True"
| "row_level (PreconditionFailedError _ _) = True"
| "row_level (PayloadTooLargeError _) = True"
| "row_level _ = False"

fun is_sheet_404 :: "opensheet_error \<Rightarrow> bool" where
  "is_sheet_404 (SheetNotFoundError _ _ _) = True"
| "is_sheet_404 _ = False"

definition refusal :: "string \<Rightarrow> opensheet_error \<Rightarrow> err" where
  "refusal sheet x =
     (let e = EOpensheet x; code = codeOf x in
      if x = ExchangeError PrivateAddress then SyncRefusedError '''' ''config'' (PrivateEndpointError e)
      else if is_sheet_404 x \<and> \<not> RowMissing x then SyncRefusedError sheet code e
      else if linkLevel code then SyncRefusedError sheet code e
      else if row_level x then RowRefusedError sheet code e
      else (case x of
          APIError status _ _ \<Rightarrow>
            if os_transient status code then SheetError sheet e
            else if status = 401 \<or> status = 403 \<or> status = 424 then SyncRefusedError sheet code e
            else if status \<ge> 400 then RowRefusedError sheet code e
            else SheetError sheet e
        | _ \<Rightarrow> SheetError sheet e))"

text \<open>The errors an error wraps, itself first, as \<open>errors.AsType\<close> walks them.\<close>

fun err_chain :: "err \<Rightarrow> err list" where
  "err_chain (Unexpected op e) = Unexpected op e # err_chain e"
| "err_chain (SecretUnavailableError e) = SecretUnavailableError e # err_chain e"
| "err_chain (UnavailableError e) = UnavailableError e # err_chain e"
| "err_chain (SheetError sheet e) = SheetError sheet e # err_chain e"
| "err_chain (SyncRefusedError sheet code e) = SyncRefusedError sheet code e # err_chain e"
| "err_chain (RowRefusedError sheet code e) = RowRefusedError sheet code e # err_chain e"
| "err_chain (KeyUnreadableError e) = KeyUnreadableError e # err_chain e"
| "err_chain (PrivateEndpointError e) = PrivateEndpointError e # err_chain e"
| "err_chain e = [e]"

fun first_opensheet :: "err list \<Rightarrow> (opensheet_error \<Rightarrow> bool) \<Rightarrow> opensheet_error option" where
  "first_opensheet [] P = None"
| "first_opensheet (EOpensheet x # es) P = (if P x then Some x else first_opensheet es P)"
| "first_opensheet (_ # es) P = first_opensheet es P"

fun opensheet_text :: "opensheet_error \<Rightarrow> string" where
  "opensheet_text (APIError _ _ m) = m"
| "opensheet_text (ValidationError _ m) = m"
| "opensheet_text _ = ''''"

fun is_api :: "opensheet_error \<Rightarrow> bool" where
  "is_api (APIError _ _ _) = True"
| "is_api _ = False"

fun is_validation :: "opensheet_error \<Rightarrow> bool" where
  "is_validation (ValidationError _ _) = True"
| "is_validation _ = False"

fun is_exchange :: "opensheet_error \<Rightarrow> bool" where
  "is_exchange (ExchangeError _) = True"
| "is_exchange _ = False"

fun is_rate_limited :: "opensheet_error \<Rightarrow> bool" where
  "is_rate_limited (RateLimitedError _) = True"
| "is_rate_limited _ = False"

definition opensheetMessage :: "err \<Rightarrow> string" where
  "opensheetMessage e =
     (case first_opensheet (err_chain e) is_api of Some x \<Rightarrow> opensheet_text x | None \<Rightarrow>
     (case first_opensheet (err_chain e) is_validation of Some x \<Rightarrow> opensheet_text x | None \<Rightarrow> ''''))"

definition typedText :: "string \<Rightarrow> string \<Rightarrow> err \<Rightarrow> string" where
  "typedText msg code cause =
     (let detail = opensheetMessage cause in
      if detail \<noteq> '''' \<and> detail \<noteq> code then msg @ '': '' @ TrimSpace (code @ '' '' @ detail)
      else if code = '''' then msg else msg @ '' ('' @ code @ '')'')"

definition privateEndpointMessage :: string where
  "privateEndpointMessage = ''The opensheet base URL resolves to a private address; '' @
     ''set YASAKU_OPENSHEET_ALLOW_PRIVATE_HOSTS=true when opensheet runs on a private network''"

fun first_refusal :: "err list \<Rightarrow> (string \<times> string \<times> err) option" where
  "first_refusal [] = None"
| "first_refusal (SyncRefusedError sheet code e # es) = Some (sheet, code, e)"
| "first_refusal (_ # es) = first_refusal es"

fun first_row_refusal :: "err list \<Rightarrow> (string \<times> string \<times> err) option" where
  "first_row_refusal [] = None"
| "first_row_refusal (RowRefusedError sheet code e # es) = Some (sheet, code, e)"
| "first_row_refusal (_ # es) = first_row_refusal es"

definition refusalText :: "err \<Rightarrow> string" where
  "refusalText e =
     (if list_ex (\<lambda>x. case x of KeyUnreadableError _ \<Rightarrow> True | _ \<Rightarrow> False) (err_chain e)
      then ''The saved opensheet API key can no longer be read; enter it again and save (OSL015)''
      else if list_ex (\<lambda>x. case x of PrivateEndpointError _ \<Rightarrow> True | _ \<Rightarrow> False) (err_chain e)
      then privateEndpointMessage @ '' (OSL016)''
      else case first_refusal (err_chain e) of
        None \<Rightarrow> ''opensheet refused the sync''
      | Some (sheet, code, cause) \<Rightarrow>
          if sheet = '''' then ''opensheet refused the sync ('' @ code @ '')''
          else typedText (''opensheet refused a write to sheet '' @ sheet) code cause)"

definition failureText :: "err \<Rightarrow> string" where
  "failureText e =
     (let retried = ''; the row is retried''; os = first_opensheet (err_chain e) in
      if IsSyncRefusedError e then refusalText e
      else case first_row_refusal (err_chain e) of
        Some (sheet, code, cause) \<Rightarrow> typedText (''opensheet refused a row of sheet '' @ sheet) code cause
      | None \<Rightarrow>
          if os (\<lambda>x. x = ExchangeError DeadlineExceeded) \<noteq> None
          then ''the sync ran out of time (context deadline exceeded)'' @ retried
          else if os (\<lambda>x. x = ExchangeError Canceled) \<noteq> None
          then ''the sync ran out of time (context canceled)'' @ retried
          else if os is_rate_limited \<noteq> None then ''opensheet rate limited the sync'' @ retried
          else case os is_api of
            Some x \<Rightarrow> ''opensheet failed ('' @ codeOf x @ '')'' @ retried
          | None \<Rightarrow> if os is_exchange \<noteq> None then ''opensheet could not be reached'' @ retried
                    else ''the sync failed'' @ retried)"

section \<open>A row as the sheet shows it\<close>

record TransactionFacts =
  tf_ID :: uuid
  tf_Kind :: string
  tf_Amount :: Amount
  tf_OccurredAt :: instant
  tf_Location :: "Location option"
  tf_WalletID :: uuid
  tf_WalletName :: string
  tf_ToWalletID :: uuid
  tf_ToWalletName :: string
  tf_CategoryID :: uuid
  tf_CategoryName :: string
  tf_PeriodName :: string
  tf_Note :: string
  tf_RecurringID :: uuid
  tf_UpdatedAt :: instant

record WalletFacts =
  wf_ID :: uuid
  wf_Name :: string
  wf_Kind :: string
  wf_Provider :: string
  wf_Balance :: Amount
  wf_ExcludeFromTotal :: bool
  wf_Archived :: bool
  wf_UpdatedAt :: instant

record CategoryFacts =
  cf_ID :: uuid
  cf_Name :: string
  cf_Kind :: string
  cf_Icon :: string
  cf_Color :: string
  cf_Archived :: bool
  cf_UpdatedAt :: instant

text \<open>\<open>Format(time.RFC3339)\<close> in a location; the offset is shown in minutes.\<close>

definition zone_text :: "int \<Rightarrow> string" where
  "zone_text offset = (let m = offset sdiv 60 in
     if offset = 0 then ''Z''
     else (if m < 0 then ''-'' else ''+'') @ pad 2 (\<bar>m\<bar> div 60) @ '':'' @ pad 2 (\<bar>m\<bar> mod 60))"

definition RFC3339 :: "instant \<Rightarrow> Location \<Rightarrow> string" where
  "RFC3339 t loc = (let s = local_seconds t loc mod day_seconds in
     date_String (DateOf t loc) @ ''T'' @ pad 2 (s div 3600) @ '':'' @ pad 2 (s div 60 mod 60) @ '':'' @ pad 2 (s mod 60) @
     zone_text (loc (unix_seconds t)))"

definition instantText :: "instant \<Rightarrow> string" where
  "instantText t = RFC3339 t time_UTC"

definition idText :: "(uuid \<Rightarrow> string) \<Rightarrow> uuid \<Rightarrow> string" where
  "idText str i = (if i = uuid_Nil then '''' else str i)"

definition FormatBool :: "bool \<Rightarrow> string" where
  "FormatBool b = (if b then ''true'' else ''false'')"

definition TransactionRow :: "(uuid \<Rightarrow> string) \<Rightarrow> TransactionFacts \<Rightarrow> sheet_row" where
  "TransactionRow str f = (let loc = (case tf_Location f of None \<Rightarrow> time_UTC | Some l \<Rightarrow> l) in
    [(''id'', str (tf_ID f)), (''date'', date_String (DateOf (tf_OccurredAt f) loc)),
     (''occurred_at'', RFC3339 (tf_OccurredAt f) loc), (''kind'', tf_Kind f), (''amount'', Major (tf_Amount f)),
     (''currency'', Currency (tf_Amount f)), (''wallet'', tf_WalletName f), (''wallet_id'', str (tf_WalletID f)),
     (''to_wallet'', tf_ToWalletName f), (''to_wallet_id'', idText str (tf_ToWalletID f)),
     (''category'', tf_CategoryName f), (''category_id'', idText str (tf_CategoryID f)), (''note'', tf_Note f),
     (''period'', tf_PeriodName f), (''recurring_id'', idText str (tf_RecurringID f)), (''updated_at'', instantText (tf_UpdatedAt f))])"

definition WalletRow :: "(uuid \<Rightarrow> string) \<Rightarrow> WalletFacts \<Rightarrow> sheet_row" where
  "WalletRow str f =
    [(''id'', str (wf_ID f)), (''name'', wf_Name f), (''kind'', wf_Kind f), (''provider'', wf_Provider f),
     (''currency'', Currency (wf_Balance f)), (''balance'', Major (wf_Balance f)),
     (''exclude_from_total'', FormatBool (wf_ExcludeFromTotal f)), (''archived'', FormatBool (wf_Archived f)),
     (''updated_at'', instantText (wf_UpdatedAt f))]"

definition CategoryRow :: "(uuid \<Rightarrow> string) \<Rightarrow> CategoryFacts \<Rightarrow> sheet_row" where
  "CategoryRow str f =
    [(''id'', str (cf_ID f)), (''name'', cf_Name f), (''kind'', cf_Kind f), (''icon'', cf_Icon f), (''color'', cf_Color f),
     (''archived'', FormatBool (cf_Archived f)), (''updated_at'', instantText (cf_UpdatedAt f))]"

section \<open>The source of rows\<close>

text \<open>The services read within the tenant of the job.  An absent row is \<open>Inr None\<close>.\<close>

definition source_walletName :: "ctx \<Rightarrow> uuid \<Rightarrow> db \<Rightarrow> (err, string) res" where
  "source_walletName c wid d = (case wallets_ByID c wid d of Inl e \<Rightarrow> Inl e | Inr w \<Rightarrow> Inr (w_Name w))"

definition source_Transaction :: "tzdb \<Rightarrow> ctx \<Rightarrow> uuid \<Rightarrow> db \<Rightarrow> (err, TransactionFacts option) res" where
  "source_Transaction load c i d =
     (case txs_ByID c i d of
        Inl e \<Rightarrow> if tx_IsNotFoundError e then Inr None else Inl e
      | Inr t \<Rightarrow>
     (case ledger_Location load c (t_OrgID t) (t_ProjectID t) (db_settings d) of Inl e \<Rightarrow> Inl e | Inr loc \<Rightarrow>
     (case source_walletName c (t_WalletID t) d of Inl e \<Rightarrow> Inl e | Inr wn \<Rightarrow>
     (case (case t_ToWalletID t of None \<Rightarrow> Inr (uuid_Nil, '''')
            | Some j \<Rightarrow> (case source_walletName c j d of Inl e \<Rightarrow> Inl e | Inr n \<Rightarrow> Inr (j, n))) of Inl e \<Rightarrow> Inl e | Inr (toID, ton) \<Rightarrow>
     (case (case t_CategoryID t of None \<Rightarrow> Inr (uuid_Nil, '''')
            | Some j \<Rightarrow> (case categories_ByID c j d of Inl e \<Rightarrow> Inl e | Inr x \<Rightarrow> Inr (c_ID x, c_Name x))) of Inl e \<Rightarrow> Inl e | Inr (catID, catn) \<Rightarrow>
     (case (case t_PeriodID t of None \<Rightarrow> Inr ''''
            | Some j \<Rightarrow> (case svc_ByID c j d of Inl e \<Rightarrow> Inl e | Inr p \<Rightarrow> Inr (p_Name p))) of Inl e \<Rightarrow> Inl e | Inr pn \<Rightarrow>
        Inr (Some \<lparr>tf_ID = t_ID t, tf_Kind = tx_kind_str (t_Kind t), tf_Amount = t_Amount t, tf_OccurredAt = t_OccurredAt t,
          tf_Location = Some loc, tf_WalletID = t_WalletID t, tf_WalletName = wn, tf_ToWalletID = toID, tf_ToWalletName = ton,
          tf_CategoryID = catID, tf_CategoryName = catn, tf_PeriodName = pn, tf_Note = t_Note t, tf_RecurringID = uuid_Nil,
          tf_UpdatedAt = t_UpdatedAt t\<rparr>)))))))"

definition source_Wallet :: "ports \<Rightarrow> ctx \<Rightarrow> uuid \<Rightarrow> db \<Rightarrow> (err, WalletFacts option) res" where
  "source_Wallet pt c i d =
     (case wallets_ByID c i d of
        Inl e \<Rightarrow> if wallet_IsNotFoundError e then Inr None else Inl e
      | Inr w \<Rightarrow>
     (case txs_Balance pt c i d of Inl e \<Rightarrow> Inl e | Inr balance \<Rightarrow>
        Inr (Some \<lparr>wf_ID = w_ID w, wf_Name = w_Name w, wf_Kind = wallet_kind_str (w_Kind w), wf_Provider = w_Provider w,
          wf_Balance = balance, wf_ExcludeFromTotal = w_ExcludeFromTotal w, wf_Archived = wallet_IsArchived w,
          wf_UpdatedAt = w_UpdatedAt w\<rparr>)))"

definition source_Category :: "ctx \<Rightarrow> uuid \<Rightarrow> db \<Rightarrow> (err, CategoryFacts option) res" where
  "source_Category c i d =
     (case categories_ByID c i d of
        Inl e \<Rightarrow> if category_IsNotFoundError e then Inr None else Inl e
      | Inr x \<Rightarrow> Inr (Some \<lparr>cf_ID = c_ID x, cf_Name = c_Name x, cf_Kind = category_kind_str (c_Kind x), cf_Icon = c_Icon x,
          cf_Color = c_Color x, cf_Archived = category_IsArchived x, cf_UpdatedAt = c_UpdatedAt x\<rparr>))"

section \<open>The sealed key\<close>

definition keyAAD :: "(uuid \<Rightarrow> string) \<Rightarrow> uuid \<Rightarrow> uuid \<Rightarrow> string" where
  "keyAAD str orgID projectID = ''opensheetsync.api_key|'' @ str orgID @ ''|'' @ str projectID"

definition sealKey :: "(uuid \<Rightarrow> string) \<Rightarrow> Sealer \<Rightarrow> (err, string) res \<Rightarrow> uuid \<Rightarrow> uuid \<Rightarrow> string \<Rightarrow> (err, string) res" where
  "sealKey str sl rnd orgID projectID key = Seal sl rnd key (keyAAD str orgID projectID)"

definition openKey :: "(uuid \<Rightarrow> string) \<Rightarrow> Sealer \<Rightarrow> Link \<Rightarrow> (err, string) res" where
  "openKey str sl l = sealer_Open sl (ln_APIKeySealed l) (keyAAD str (ln_OrgID l) (ln_ProjectID l))"

end
