(* ===== verification/MirrorSync.thy ===== *)
theory MirrorSync
  imports Opensheet
begin

text \<open>
  The sync job (\<open>internal/opensheetsync/sync.go\<close>, \<open>consumer.go\<close>) and the jobs the mirror
  submits besides those of a write (\<open>mirror.go\<close>).  A job leases a dirty row, reads its
  current state, pushes it and settles the version it leased; other requests go on
  meanwhile, so a pass takes what they commit before the lease (\<open>pe_BeforeClaim\<close>), between
  the lease and the read (\<open>pe_BeforeRead\<close>) and between the read and the settle
  (\<open>pe_BeforeSettle\<close>) as functions of the database.  Whether a deadline leaves room is an argument, as is each reading of
  the clock.
\<close>

section \<open>Pushing one row\<close>

definition leaseTTL :: int where "leaseTTL = 60 * second_ns"

definition maxPasses :: nat where "maxPasses = 3"

definition truncate_error :: "string \<Rightarrow> string" where
  "truncate_error s = (if length s \<le> 512 then s else take 512 s)"

record 'w syncer =
  sy_lib :: "'w os_lib"
  sy_String :: "uuid \<Rightarrow> string"
  sy_Sealer :: Sealer
  sy_BaseURL :: string
  sy_AllowPrivateHosts :: bool
  sy_load :: tzdb
  sy_ports :: ports
  sy_queued :: bool
  sy_queue_ok :: bool

record pass_env =
  pe_Token :: uuid
  pe_Now :: instant
  pe_FailedAt :: instant
  pe_BeforeClaim :: "db \<Rightarrow> db"
  pe_BeforeRead :: "db \<Rightarrow> db"
  pe_BeforeSettle :: "db \<Rightarrow> db"

definition endpoint_client :: "'w syncer \<Rightarrow> string \<Rightarrow> string \<Rightarrow> string \<Rightarrow> (err, os_client) res" where
  "endpoint_client sy osOrg osProject key =
     opensheet_New (sy_lib sy) \<lparr>cfg_BaseURL = sy_BaseURL sy, cfg_Org = osOrg, cfg_Project = osProject, cfg_Token = key,
       cfg_AllowPrivateHosts = sy_AllowPrivateHosts sy\<rparr>"

definition idempotency_key :: "string \<Rightarrow> int \<Rightarrow> string" where
  "idempotency_key i version = i @ '':'' @ FormatInt version"

definition sheet_upsert :: "'w os_lib \<Rightarrow> os_client \<Rightarrow> string \<Rightarrow> string \<Rightarrow> int \<Rightarrow> sheet_row \<Rightarrow> 'w \<Rightarrow> err option \<times> 'w" where
  "sheet_upsert lib cl sheet i version row w =
     (let patch = filter (\<lambda>kv. fst kv \<noteq> ''id'') row in
      case PatchRow lib cl sheet i patch w of
        (Inr _, w1) \<Rightarrow> (None, w1)
      | (Inl x, w1) \<Rightarrow> if \<not> RowMissing x then (Some (refusal sheet x), w1) else
     (case CreateRow lib cl sheet row (idempotency_key i version) w1 of
        (Inr _, w2) \<Rightarrow> (None, w2)
      | (Inl y, w2) \<Rightarrow> if \<not> rowTaken y then (Some (refusal sheet y), w2) else
     (case PatchRow lib cl sheet i patch w2 of
        (Inr _, w3) \<Rightarrow> (None, w3)
      | (Inl z, w3) \<Rightarrow> (if RowMissing z then None else Some (refusal sheet z), w3))))"

definition sheet_remove :: "'w os_lib \<Rightarrow> os_client \<Rightarrow> string \<Rightarrow> string \<Rightarrow> 'w \<Rightarrow> err option \<times> 'w" where
  "sheet_remove lib cl sheet i w =
     (case DeleteRow lib cl sheet i w of
        (Inr _, w1) \<Rightarrow> (None, w1)
      | (Inl x, w1) \<Rightarrow> (if RowMissing x then None else Some (refusal sheet x), w1))"

text \<open>A deadline or a cancellation is returned as it is, for a retry; anything else is reported.\<close>

definition sync_fail :: "string \<Rightarrow> err \<Rightarrow> err" where
  "sync_fail op e =
     (if first_opensheet (err_chain e) (\<lambda>x. x = ExchangeError DeadlineExceeded \<or> x = ExchangeError Canceled) \<noteq> None
      then e else Unexpected op e)"

definition rowOf :: "'w syncer \<Rightarrow> ctx \<Rightarrow> Entity \<Rightarrow> uuid \<Rightarrow> db \<Rightarrow> (err, sheet_row option) res" where
  "rowOf sy c en i d =
     map_err (\<lambda>e. if AsAppError e then e else sync_fail ''opensheetsync.Sync: source'' e)
       (case en of
          EntityTransaction \<Rightarrow> (case source_Transaction (sy_load sy) c i d of
            Inl e \<Rightarrow> Inl e | Inr f \<Rightarrow> Inr (map_option (TransactionRow (sy_String sy)) f))
        | EntityWallet \<Rightarrow> (case source_Wallet (sy_ports sy) c i d of
            Inl e \<Rightarrow> Inl e | Inr f \<Rightarrow> Inr (map_option (WalletRow (sy_String sy)) f))
        | EntityCategory \<Rightarrow> (case source_Category c i d of
            Inl e \<Rightarrow> Inl e | Inr f \<Rightarrow> Inr (map_option (CategoryRow (sy_String sy)) f)))"

definition sync_push :: "'w syncer \<Rightarrow> ctx \<Rightarrow> os_client \<Rightarrow> Link \<Rightarrow> SyncState \<Rightarrow> db \<Rightarrow> 'w \<Rightarrow> err option \<times> 'w" where
  "sync_push sy c cl l st d w =
     (let sheet = slugs_For (ln_Sheets l) (st_Entity st); i = sy_String sy (st_ID st) in
      if st_Deleted st then sheet_remove (sy_lib sy) cl sheet i w
      else case rowOf sy c (st_Entity st) (st_ID st) d of
        Inl e \<Rightarrow> (Some e, w)
      | Inr None \<Rightarrow> sheet_remove (sy_lib sy) cl sheet i w
      | Inr (Some row) \<Rightarrow> sheet_upsert (sy_lib sy) cl sheet i (st_Version st) row w)"

definition sync_release :: "Link \<Rightarrow> SyncState \<Rightarrow> uuid \<Rightarrow> instant \<Rightarrow> err \<Rightarrow> db \<Rightarrow> db" where
  "sync_release l st token now cause d =
     Release (ln_OrgID l) (ln_ProjectID l) (st_Entity st) (st_ID st) token
       \<lparr>fl_Reason = truncate_error (failureText cause), fl_Count = IsRowRefusedError cause,
        fl_RetryAfter = (if IsRowRefusedError cause then Some (now + RowBackoff (st_Attempts st + 1)) else None),
        fl_Version = st_Version st, fl_At = now\<rparr> d"

text \<open>\<open>syncRow\<close>, with the passes left; \<open>pe k\<close> is what happens around the pass that leaves \<open>k\<close>.\<close>

fun sync_passes :: "'w syncer \<Rightarrow> ctx \<Rightarrow> os_client \<Rightarrow> Link \<Rightarrow> Entity \<Rightarrow> uuid \<Rightarrow> (nat \<Rightarrow> pass_env) \<Rightarrow> nat \<Rightarrow> nat \<Rightarrow> db \<Rightarrow> 'w
    \<Rightarrow> (nat \<times> err option) \<times> db \<times> 'w" where
  "sync_passes sy c cl l en i pe 0 pushed d w = ((pushed, None), d, w)"
| "sync_passes sy c cl l en i pe (Suc k) pushed d w =
     (case Claim (ln_OrgID l) (ln_ProjectID l) en i (pe_Token (pe k)) (pe_Now (pe k)) leaseTTL (pe_BeforeClaim (pe k) d) of
        (None, d1) \<Rightarrow> ((pushed, None), d1, w)
      | (Some st, d1) \<Rightarrow>
     (case sync_push sy c cl l st (pe_BeforeRead (pe k) d1) w of
        (Some e, w1) \<Rightarrow> ((pushed, Some e),
          sync_release l st (pe_Token (pe k)) (pe_FailedAt (pe k)) e (pe_BeforeSettle (pe k) (pe_BeforeRead (pe k) d1)), w1)
      | (None, w1) \<Rightarrow>
     (case Settle (ln_OrgID l) (ln_ProjectID l) en i (st_Version st) (pe_Token (pe k))
          (pe_BeforeSettle (pe k) (pe_BeforeRead (pe k) d1)) of
        ((settled, dirty), d3) \<Rightarrow>
          if \<not> settled \<or> \<not> dirty then ((if settled then pushed + 1 else pushed, None), d3, w1)
          else sync_passes sy c cl l en i pe k (pushed + 1) d3 w1)))"

definition syncRow :: "'w syncer \<Rightarrow> ctx \<Rightarrow> os_client \<Rightarrow> Link \<Rightarrow> MirrorRef \<Rightarrow> (nat \<Rightarrow> pass_env) \<Rightarrow> db \<Rightarrow> 'w \<Rightarrow> (nat \<times> err option) \<times> db \<times> 'w" where
  "syncRow sy c cl l r pe d w = sync_passes sy c cl l (mr_Entity r) (mr_ID r) pe maxPasses 0 d w"

section \<open>One job\<close>

record sync_env =
  se_Budget :: "nat \<Rightarrow> bool"
  se_Passes :: "nat \<Rightarrow> nat \<Rightarrow> pass_env"
  se_OutcomeAt :: instant
  se_FollowUpAt :: instant

text \<open>The loop over the rows: the pushes, the rows done and the error that ended it.\<close>

fun sync_refs :: "'w syncer \<Rightarrow> sync_env \<Rightarrow> ctx \<Rightarrow> os_client \<Rightarrow> Link \<Rightarrow> MirrorRef list \<Rightarrow> nat \<Rightarrow> nat \<Rightarrow> db \<Rightarrow> 'w
    \<Rightarrow> (nat \<times> nat \<times> err option) \<times> db \<times> 'w" where
  "sync_refs sy se c cl l [] pushed n d w = ((pushed, n, None), d, w)"
| "sync_refs sy se c cl l (r # refs) pushed n d w =
     (if \<not> se_Budget se n then ((pushed, n, None), d, w)
      else case syncRow sy c cl l r (se_Passes se n) d w of
        ((p, None), d1, w1) \<Rightarrow> sync_refs sy se c cl l refs (pushed + p) (n + 1) d1 w1
      | ((p, Some e), d1, w1) \<Rightarrow>
          if IsRowRefusedError e then sync_refs sy se c cl l refs (pushed + p) (n + 1) d1 w1
          else ((pushed + p, n + 1, Some e), d1, w1))"

definition sync_outcome :: "Link \<Rightarrow> instant \<Rightarrow> string \<Rightarrow> db \<Rightarrow> db" where
  "sync_outcome l at msg d =
     snd (SaveOutcome (ln_OrgID l) (ln_ProjectID l) \<lparr>oc_LinkUpdatedAt = ln_UpdatedAt l, oc_Err = truncate_error msg, oc_At = at\<rparr> d)"

definition sync_refuse :: "Link \<Rightarrow> instant \<Rightarrow> err \<Rightarrow> db \<Rightarrow> db" where
  "sync_refuse l at e d = sync_outcome l at (refusalText e) d"

definition submit_job :: "bool \<Rightarrow> uuid \<Rightarrow> MirrorRef list \<Rightarrow> db \<Rightarrow> db" where
  "submit_job ok projectID refs d = (if ok then d\<lparr>db_jobs := db_jobs d @ [payloadOf projectID refs]\<rparr> else d)"

definition followUp :: "'w syncer \<Rightarrow> Link \<Rightarrow> instant \<Rightarrow> db \<Rightarrow> db" where
  "followUp sy l now d =
     (let refs = ListDirty (ln_OrgID l) (ln_ProjectID l) (now + second_ns) now maxRefsPerJob d in
      if refs = [] then d else submit_job (sy_queue_ok sy) (ln_ProjectID l) refs d)"

definition Sync :: "'w syncer \<Rightarrow> sync_env \<Rightarrow> ctx \<Rightarrow> uuid \<Rightarrow> MirrorRef list \<Rightarrow> db \<Rightarrow> 'w \<Rightarrow> err option \<times> db \<times> 'w" where
  "Sync sy se c projectID refs0 d w =
     (case tenant_From c of Inl _ \<Rightarrow> (Some (ESheet (ScopeMismatchError projectID None)), d, w) | Inr tc \<Rightarrow>
      if tc_ProjectID tc \<noteq> projectID
      then (Some (ESheet (ScopeMismatchError projectID (Some (tc_ProjectID tc)))), d, w)
      else case LinkByProject (tc_OrgID tc) (tc_ProjectID tc) d of
        Inl e \<Rightarrow> (if IsLinkNotFoundError e then None else Some (sync_fail ''opensheetsync.Sync: link'' e), d, w)
      | Inr l \<Rightarrow>
      if \<not> ln_Enabled l then (None, d, w)
      else case openKey (sy_String sy) (sy_Sealer sy) l of
        Inl e \<Rightarrow> (let x = SyncRefusedError '''' ''key'' (KeyUnreadableError e) in (Some x, sync_refuse l (se_OutcomeAt se) x d, w))
      | Inr key \<Rightarrow>
     (case endpoint_client sy (ln_OSOrg l) (ln_OSProject l) key of
        Inl e \<Rightarrow> (let x = SyncRefusedError '''' ''config'' e in (Some x, sync_refuse l (se_OutcomeAt se) x d, w))
      | Inr cl \<Rightarrow>
     (let refs = Dedupe refs0 in
      case sync_refs sy se c cl l refs 0 0 d w of
        ((pushed, n, Some e), d1, w1) \<Rightarrow> (Some e, if IsSyncRefusedError e then sync_refuse l (se_OutcomeAt se) e d1 else d1, w1)
      | ((pushed, n, None), d1, w1) \<Rightarrow>
         (let d2 = (if 0 < pushed then sync_outcome l (se_OutcomeAt se) '''' d1 else d1);
              d3 = (if sy_queued sy \<and> maxRefsPerJob \<le> length refs \<and> n = length refs \<and> 0 < pushed
                    then followUp sy l (se_FollowUpAt se) d2 else d2)
          in (None, d3, w1)))))"

text \<open>The consumer: whether the failure is permanent, and the error when there is one to name.\<close>

definition consume_sync :: "'w syncer \<Rightarrow> sync_env \<Rightarrow> ctx \<Rightarrow> syncV1 \<Rightarrow> db \<Rightarrow> 'w \<Rightarrow> (bool \<times> err option) option \<times> db \<times> 'w" where
  "consume_sync sy se c p d w =
     (case payload_refs (sj_Refs p) of
        None \<Rightarrow> (Some (True, None), d, w)
      | Some refs \<Rightarrow>
         (case Sync sy se c (sj_ProjectID p) refs d w of
            (None, d1, w1) \<Rightarrow> (None, d1, w1)
          | (Some e, d1, w1) \<Rightarrow> (Some (IsSyncRefusedError e \<or> IsScopeMismatchError e, Some e), d1, w1)))"

section \<open>Jobs the mirror submits\<close>

function mirror_chunks :: "nat \<Rightarrow> 'a list \<Rightarrow> 'a list list" where
  "mirror_chunks n xs = (if xs = [] then [] else take (Suc n) xs # mirror_chunks n (drop (Suc n) xs))"
  by pat_completeness auto
termination
  by (relation "measure (\<lambda>(n, xs). length xs)") auto

declare mirror_chunks.simps [simp del]

text \<open>\<open>room i\<close> is whether the deadline leaves room at the \<open>i\<close>-th look; a refused job is reported and passed over.\<close>

fun submit_chunks :: "bool \<Rightarrow> (nat \<Rightarrow> bool) \<Rightarrow> uuid \<Rightarrow> MirrorRef list list \<Rightarrow> nat \<Rightarrow> db \<Rightarrow> nat \<times> db" where
  "submit_chunks ok room projectID [] i d = (0, d)"
| "submit_chunks ok room projectID (refs # rest) i d =
     (if \<not> room i then (0, d)
      else case submit_chunks ok room projectID rest (i + 1) (submit_job ok projectID refs d) of
        (n, d') \<Rightarrow> ((if ok then length refs else 0) + n, d'))"

definition mirror_submit :: "bool \<Rightarrow> (nat \<Rightarrow> bool) \<Rightarrow> uuid \<Rightarrow> MirrorRef list \<Rightarrow> db \<Rightarrow> nat \<times> db" where
  "mirror_submit ok room projectID refs d = submit_chunks ok room projectID (mirror_chunks (maxRefsPerJob - 1) refs) 0 d"

definition KickDirty :: "mirror \<Rightarrow> (nat \<Rightarrow> bool) \<Rightarrow> instant \<Rightarrow> ctx \<Rightarrow> db \<Rightarrow> db" where
  "KickDirty m room now c d =
     (case tenant_From c of Inl _ \<Rightarrow> d | Inr tc \<Rightarrow>
      snd (mirror_submit (queue_ok m) room (tc_ProjectID tc)
        (ListDirty (tc_OrgID tc) (tc_ProjectID tc) (now + second_ns) now maxRefsPerJob d) d))"

definition reconcileGrace :: int where "reconcileGrace = 60 * second_ns"

definition reconcileInlineCap :: nat where "reconcileInlineCap = 2 * maxRefsPerJob"

definition rotate_links :: "Link list \<Rightarrow> instant \<Rightarrow> Link list" where
  "rotate_links links now =
     (if length links < 2 then links
      else let k = nat ((unix_seconds now sdiv 300) smod int (length links)) in drop k links @ take k links)"

fun reconcile_links :: "mirror \<Rightarrow> bool \<Rightarrow> (nat \<Rightarrow> bool) \<Rightarrow> (nat \<Rightarrow> nat \<Rightarrow> bool) \<Rightarrow> (nat \<Rightarrow> instant) \<Rightarrow> uuid \<Rightarrow> Link list \<Rightarrow> nat \<Rightarrow> db \<Rightarrow> nat \<times> db" where
  "reconcile_links m queued room rooms now orgID [] i d = (0, d)"
| "reconcile_links m queued room rooms now orgID (l # links) i d =
     (if \<not> room i then (0, d)
      else let limit = (if queued then maxRefsPerJob else reconcileInlineCap);
               refs = ListDirty orgID (ln_ProjectID l) (now i - reconcileGrace) (now i) limit d
           in case mirror_submit (queue_ok m) (rooms i) (ln_ProjectID l) refs d of (sent, d1) \<Rightarrow>
             (case reconcile_links m queued room rooms now orgID links (i + 1) d1 of (n, d2) \<Rightarrow> (sent + n, d2)))"

definition Reconcile :: "mirror \<Rightarrow> bool \<Rightarrow> (nat \<Rightarrow> bool) \<Rightarrow> (nat \<Rightarrow> nat \<Rightarrow> bool) \<Rightarrow> instant \<Rightarrow> (nat \<Rightarrow> instant) \<Rightarrow> ctx \<Rightarrow> (db, nat) prog" where
  "Reconcile m queued room rooms rotateAt now c d =
     (case tenant_From c of Inl e \<Rightarrow> (Inl e, d) | Inr tc \<Rightarrow>
      case reconcile_links m queued room rooms now (tc_OrgID tc) (rotate_links (ListEnabledLinks (tc_OrgID tc) d) rotateAt) 0 d of
        (sent, d') \<Rightarrow> (Inr sent, d'))"

end
