(* ===== verification/MirrorService.thy ===== *)
theory MirrorService
  imports MirrorSync
begin

text \<open>
  A project's opensheet link under management: the sheet contract (\<open>contract.go\<close>), the
  judgement of a tab (\<open>shape.go\<close>) and the service (\<open>internal/opensheetsync/service.go\<close>).
  The tabs of a Test are looked at one after the other; the code asks for them at once and
  waits for all.  The number of rows a backfill marked, which only \<open>SyncNow\<close> returns, is left
  out.
\<close>

section \<open>The sheet contract\<close>

record Tab =
  tab_Entity :: Entity
  tab_DefaultSlug :: string
  tab_Columns :: "string list"

definition deletedAtColumn :: string where "deletedAtColumn = ''deleted_at''"

definition Contract :: "Tab list" where
  "Contract =
    [\<lparr>tab_Entity = EntityTransaction, tab_DefaultSlug = ''yasaku-transactions'', tab_Columns =
       [''id'', ''date'', ''occurred_at'', ''kind'', ''amount'', ''currency'', ''wallet'', ''wallet_id'', ''to_wallet'', ''to_wallet_id'',
        ''category'', ''category_id'', ''note'', ''period'', ''recurring_id'', ''updated_at'', deletedAtColumn]\<rparr>,
     \<lparr>tab_Entity = EntityWallet, tab_DefaultSlug = ''yasaku-wallets'', tab_Columns =
       [''id'', ''name'', ''kind'', ''provider'', ''currency'', ''balance'', ''exclude_from_total'', ''archived'', ''updated_at'', deletedAtColumn]\<rparr>,
     \<lparr>tab_Entity = EntityCategory, tab_DefaultSlug = ''yasaku-categories'', tab_Columns =
       [''id'', ''name'', ''kind'', ''icon'', ''color'', ''archived'', ''updated_at'', deletedAtColumn]\<rparr>]"

definition TabFor :: "Entity \<Rightarrow> Tab option" where
  "TabFor e = find (\<lambda>t. tab_Entity t = e) Contract"

definition tab_Written :: "Tab \<Rightarrow> string list" where
  "tab_Written t = filter (\<lambda>c. c \<noteq> deletedAtColumn) (tab_Columns t)"

fun default_slugs :: "Tab list \<Rightarrow> SheetSlugs \<Rightarrow> SheetSlugs" where
  "default_slugs [] s = s"
| "default_slugs (t # ts) s = default_slugs ts
     (case tab_Entity t of
        EntityTransaction \<Rightarrow> s\<lparr>sh_Transactions := tab_DefaultSlug t\<rparr>
      | EntityWallet \<Rightarrow> s\<lparr>sh_Wallets := tab_DefaultSlug t\<rparr>
      | EntityCategory \<Rightarrow> s\<lparr>sh_Categories := tab_DefaultSlug t\<rparr>)"

definition DefaultSheetSlugs :: SheetSlugs where
  "DefaultSheetSlugs = default_slugs Contract \<lparr>sh_Transactions = '''', sh_Wallets = '''', sh_Categories = ''''\<rparr>"

section \<open>Judging a tab\<close>

record TabCheck =
  tk_Entity :: Entity
  tk_Sheet :: string
  tk_Reachable :: bool
  tk_IDColumn :: bool
  tk_Writable :: bool
  tk_ColumnsDeferred :: bool
  tk_Missing :: "string list"
  tk_ContractReason :: string
  tk_Err :: "err option"

definition Checklist_OK :: "TabCheck list \<Rightarrow> bool" where
  "Checklist_OK l \<longleftrightarrow> l \<noteq> [] \<and> list_all (\<lambda>c. tk_Err c = None) l"

definition Checklist_Err :: "TabCheck list \<Rightarrow> err option" where
  "Checklist_Err l = (case find (\<lambda>c. tk_Err c \<noteq> None) l of None \<Rightarrow> None | Some c \<Rightarrow> tk_Err c)"

definition fetchRefusal :: "string \<Rightarrow> opensheet_error \<Rightarrow> err" where
  "fetchRefusal sheet x =
     (if x = ExchangeError PrivateAddress then PrivateEndpointError (EOpensheet x)
      else if is_sheet_404 x then ESheet (SheetUnreachableError sheet)
      else (case x of
          APIError status _ _ \<Rightarrow> if status = 401 \<or> status = 403 then ESheet (SheetUnreachableError sheet)
                                 else SheetUnavailableError sheet (EOpensheet x)
        | ValidationError code msg \<Rightarrow> ESheet (ContractUnsatisfiedError sheet (if msg \<noteq> '''' then msg else code))
        | _ \<Rightarrow> SheetUnavailableError sheet (EOpensheet x)))"

definition columnsObservable :: "string list \<Rightarrow> bool" where
  "columnsObservable columns \<longleftrightarrow> list_ex (\<lambda>c. c \<noteq> deletedAtColumn) columns"

definition missingColumns :: "Tab \<Rightarrow> SheetCapabilities \<Rightarrow> bool \<Rightarrow> string list" where
  "missingColumns tab caps deferred =
     (if deferred then (if sc_SoftDelete caps then [] else [deletedAtColumn])
      else filter (\<lambda>c. c \<notin> set (sc_Columns caps)) (tab_Columns tab))"

definition contract_reason :: "SheetCapabilities \<Rightarrow> bool \<Rightarrow> string" where
  "contract_reason caps deferred =
     (if \<not> sc_SatisfiesContract caps then
        (if sc_ContractReason caps \<noteq> '''' then sc_ContractReason caps else ''the sheet does not satisfy opensheet''  @ [char_of (39::nat)] @ ''s table contract'')
      else if deferred \<and> sc_ValidatedAt caps = None then
        ''opensheet has not read and validated this tab yet; open its rows in opensheet once, then run Test again''
      else '''')"

definition CheckTab :: "Tab \<Rightarrow> string \<Rightarrow> (opensheet_error, SheetCapabilities) res \<Rightarrow> TabCheck" where
  "CheckTab tab sheet answer =
     (case answer of
        Inl x \<Rightarrow> \<lparr>tk_Entity = tab_Entity tab, tk_Sheet = sheet, tk_Reachable = False, tk_IDColumn = False, tk_Writable = False,
          tk_ColumnsDeferred = False, tk_Missing = [], tk_ContractReason = '''', tk_Err = Some (fetchRefusal sheet x)\<rparr>
      | Inr caps \<Rightarrow>
          (let deferred = \<not> columnsObservable (sc_Columns caps);
               verdict = (sc_SatisfiesContract caps \<and> sc_ValidatedAt caps \<noteq> None);
               idColumn = (sc_IDColumn caps \<or> deferred \<and> verdict);
               missing = missingColumns tab caps deferred;
               reason = contract_reason caps deferred
           in \<lparr>tk_Entity = tab_Entity tab, tk_Sheet = sheet, tk_Reachable = True, tk_IDColumn = idColumn, tk_Writable = sc_Writable caps,
             tk_ColumnsDeferred = deferred, tk_Missing = missing, tk_ContractReason = reason,
             tk_Err = (if missing \<noteq> [] then Some (ESheet (ShapeMismatchError sheet missing))
               else if \<not> idColumn \<and> \<not> deferred then Some (ESheet (NoIDColumnError sheet))
               else if \<not> sc_Writable caps then Some (ESheet (SheetNotWritableError sheet))
               else if reason \<noteq> '''' then Some (ESheet (ContractUnsatisfiedError sheet reason)) else None)\<rparr>))"

section \<open>The service\<close>

definition KeyHint :: "string \<Rightarrow> string" where
  "KeyHint key = (let r = runes key in
     if length r < 12 then '''' else concat (map (\<lambda>x. if valid_rune x then x else rune_error) (drop (length r - 4) r)))"

definition NewLink :: "uuid \<Rightarrow> uuid \<Rightarrow> uuid \<Rightarrow> uuid \<Rightarrow> uuid \<Rightarrow> instant \<Rightarrow> Link" where
  "NewLink id' orgID projectID by' byKey at =
     \<lparr>ln_ID = id', ln_OrgID = orgID, ln_ProjectID = projectID, ln_OSOrg = '''', ln_OSProject = '''', ln_APIKeySealed = '''', ln_APIKeyHint = '''',
      ln_Sheets = DefaultSheetSlugs, ln_Enabled = False, ln_VerifiedAt = None, ln_LastError = '''', ln_LastSyncedAt = None,
      ln_FailureStreak = 0, ln_AutoDisabledAt = None, ln_CreatedBy = by', ln_CreatedByKeyID = byKey, ln_CreatedAt = at, ln_UpdatedAt = at\<rparr>"

text \<open>
  What one call draws from outside: the id of a new link, random bytes, the clock (once for
  the call, once for the kick after it) and whether the deadline leaves room to submit.
\<close>

record call_env =
  ce_LinkID :: uuid
  ce_Rnd :: "(err, string) res"
  ce_Now :: instant
  ce_KickAt :: instant
  ce_Room :: "nat \<Rightarrow> bool"

definition sheet_manager :: "access_db \<Rightarrow> ctx \<Rightarrow> (err, Tenant) res" where
  "sheet_manager ad c =
     (case tenant_From c of Inl e \<Rightarrow> Inl e | Inr tc \<Rightarrow>
     (case RequireManager (tc_OrgID tc) (tc_UserID tc) ad of
        Inl e \<Rightarrow> Inl (as_app ''opensheetsync: role'' e) | Inr _ \<Rightarrow> Inr tc))"

definition sheet_link :: "Tenant \<Rightarrow> db \<Rightarrow> (err, Link) res" where
  "sheet_link tc d = map_err (as_app ''opensheetsync: link'') (LinkByProject (tc_OrgID tc) (tc_ProjectID tc) d)"

definition savedKey :: "'w syncer \<Rightarrow> Link \<Rightarrow> (err, string) res" where
  "savedKey sy l =
     (case openKey (sy_String sy) (sy_Sealer sy) l of
        Inl e \<Rightarrow> Inl (if IsOpenFailedError e then KeyUnreadableError e else as_app ''opensheetsync: open key'' e)
      | Inr key \<Rightarrow> Inr key)"

definition sheet_resolve :: "'w syncer \<Rightarrow> Tenant \<Rightarrow> SheetSettings \<Rightarrow> db \<Rightarrow> (err, SheetSettings \<times> Link option) res" where
  "sheet_resolve sy tc in0 d =
     (let s = ss_Normalized in0 in
      case (case LinkByProject (tc_OrgID tc) (tc_ProjectID tc) d of
              Inl e \<Rightarrow> if IsLinkNotFoundError e then Inr None else Inl (Unexpected ''opensheetsync: link'' e)
            | Inr l \<Rightarrow> Inr (Some l)) of
        Inl e \<Rightarrow> Inl e
      | Inr existing \<Rightarrow>
     (case ss_Validate (existing = None) s of Inl e \<Rightarrow> Inl e | Inr _ \<Rightarrow>
      if ss_APIKey s \<noteq> '''' then Inr (s, existing)
      else (case existing of None \<Rightarrow> Inr (s, existing) | Some l \<Rightarrow>
        (case savedKey sy l of Inl e \<Rightarrow> Inl e | Inr key \<Rightarrow> Inr (s\<lparr>ss_APIKey := key\<rparr>, existing)))))"

fun check_tabs :: "'w syncer \<Rightarrow> os_client \<Rightarrow> SheetSlugs \<Rightarrow> Tab list \<Rightarrow> 'w \<Rightarrow> TabCheck list \<times> 'w" where
  "check_tabs sy cl sheets [] w = ([], w)"
| "check_tabs sy cl sheets (t # ts) w =
     (case Capabilities (sy_lib sy) cl (slugs_For sheets (tab_Entity t)) w of (answer, w1) \<Rightarrow>
     (case check_tabs sy cl sheets ts w1 of (out, w2) \<Rightarrow> (CheckTab t (slugs_For sheets (tab_Entity t)) answer # out, w2)))"

definition sheet_check :: "'w syncer \<Rightarrow> SheetSettings \<Rightarrow> 'w \<Rightarrow> (err, TabCheck list) res \<times> 'w" where
  "sheet_check sy s w =
     (case endpoint_client sy (ss_OSOrg s) (ss_OSProject s) (ss_APIKey s) of
        Inl e \<Rightarrow> (Inl (Unexpected ''opensheetsync.Test: client'' e), w)
      | Inr cl \<Rightarrow> (case check_tabs sy cl (ss_Sheets s) Contract w of (out, w1) \<Rightarrow> (Inr out, w1)))"

definition sheet_persist :: "ctx \<Rightarrow> Link \<Rightarrow> bool \<Rightarrow> instant \<Rightarrow> (db, unit) prog" where
  "sheet_persist c l backfill at d =
     RunInTx c (\<lambda>c' d0. case SaveLink l d0 of
          (Inl e, d1) \<Rightarrow> (Inl e, d1)
        | (Inr _, d1) \<Rightarrow> if \<not> backfill then (Inr (), d1) else MarkAll (ln_OrgID l) (ln_ProjectID l) at d1) d"

definition sheet_stamp :: "Link option \<Rightarrow> instant \<Rightarrow> instant" where
  "sheet_stamp old now =
     (let at = now div 1000 * 1000 in
      case old of None \<Rightarrow> at | Some l \<Rightarrow> if at > ln_UpdatedAt l then at else ln_UpdatedAt l + 1000)"

definition sheet_Status :: "ctx \<Rightarrow> db \<Rightarrow> (err, Link option \<times> Backlog) res" where
  "sheet_Status c d =
     (case tenant_From c of Inl e \<Rightarrow> Inl e | Inr tc \<Rightarrow>
     (case LinkByProject (tc_OrgID tc) (tc_ProjectID tc) d of
        Inl e \<Rightarrow> if IsLinkNotFoundError e then Inr (None, \<lparr>bl_Pending = 0, bl_Failing = 0, bl_GivenUp = 0\<rparr>)
                 else Inl (Unexpected ''opensheetsync.Status: link'' e)
      | Inr l \<Rightarrow> Inr (Some l, store_Backlog (tc_OrgID tc) (tc_ProjectID tc) d)))"

definition sheet_Test :: "'w syncer \<Rightarrow> access_db \<Rightarrow> ctx \<Rightarrow> SheetSettings \<Rightarrow> db \<Rightarrow> 'w \<Rightarrow> (err, TabCheck list) res \<times> 'w" where
  "sheet_Test sy ad c in0 d w =
     (case sheet_manager ad c of Inl e \<Rightarrow> (Inl e, w) | Inr tc \<Rightarrow>
     (case sheet_resolve sy tc in0 d of Inl e \<Rightarrow> (Inl e, w) | Inr (s, _) \<Rightarrow> sheet_check sy s w))"

definition sheet_Save :: "'w syncer \<Rightarrow> mirror \<Rightarrow> access_db \<Rightarrow> call_env \<Rightarrow> ctx \<Rightarrow> SheetSettings \<Rightarrow> db \<Rightarrow> 'w
    \<Rightarrow> ((err, Link) res \<times> TabCheck list) \<times> db \<times> 'w" where
  "sheet_Save sy m ad ce c in0 d w =
     (case sheet_manager ad c of Inl e \<Rightarrow> ((Inl e, []), d, w) | Inr tc \<Rightarrow>
      let entered = ss_APIKey (ss_Normalized in0) \<noteq> '''' in
      case sheet_resolve sy tc in0 d of Inl e \<Rightarrow> ((Inl e, []), d, w) | Inr (s, existing) \<Rightarrow>
     (case sheet_check sy s w of (Inl e, w1) \<Rightarrow> ((Inl e, []), d, w1) | (Inr checklist, w1) \<Rightarrow>
     (case (if Checklist_OK checklist then None else Checklist_Err checklist) of
        Some e \<Rightarrow> ((Inl e, checklist), d, w1)
      | None \<Rightarrow>
     (case (if entered then map_sum id Some (sealKey (sy_String sy) (sy_Sealer sy) (ce_Rnd ce) (tc_OrgID tc) (tc_ProjectID tc) (ss_APIKey s))
            else Inr None) of
        Inl e \<Rightarrow> ((Inl (as_app ''opensheetsync.Save: seal'' e), []), d, w1)
      | Inr sealed \<Rightarrow>
          (let at = sheet_stamp existing (ce_Now ce);
               l0 = (case existing of None \<Rightarrow> NewLink (ce_LinkID ce) (tc_OrgID tc) (tc_ProjectID tc) (tc_UserID tc) uuid_Nil at | Some l \<Rightarrow> l);
               backfill = (ln_Enabled l0 \<and> link_Retargets s l0);
               l = link_Configure s sealed (if entered then KeyHint (ss_APIKey s) else '''') at l0
           in case sheet_persist c l backfill at d of
                (Inl e, d1) \<Rightarrow> ((Inl (as_app ''opensheetsync.Save: save'' e), []), d1, w1)
              | (Inr _, d1) \<Rightarrow> ((Inr l, checklist), if backfill then KickDirty m (ce_Room ce) (ce_KickAt ce) c d1 else d1, w1))))))"

definition SetEnabled :: "'w syncer \<Rightarrow> mirror \<Rightarrow> access_db \<Rightarrow> call_env \<Rightarrow> ctx \<Rightarrow> bool \<Rightarrow> (db, Link) prog" where
  "SetEnabled sy m ad ce c on d =
     (case sheet_manager ad c of Inl e \<Rightarrow> (Inl e, d) | Inr tc \<Rightarrow>
     (case sheet_link tc d of Inl e \<Rightarrow> (Inl e, d) | Inr l \<Rightarrow>
      if ln_Enabled l = on then (Inr l, d)
      else let at = sheet_stamp (Some l) (ce_Now ce) in
      if \<not> on then
        (let l1 = link_Disable at l in
         case SaveLink l1 d of (Inl e, d1) \<Rightarrow> (Inl (as_app ''opensheetsync.SetEnabled: save'' e), d1) | (Inr _, d1) \<Rightarrow> (Inr l1, d1))
      else (case link_Enable at l of (Inl e, _) \<Rightarrow> (Inl e, d) | (Inr _, l1) \<Rightarrow>
        (case savedKey sy l1 of Inl e \<Rightarrow> (Inl e, d) | Inr _ \<Rightarrow>
        (case sheet_persist c l1 True at d of
           (Inl e, d1) \<Rightarrow> (Inl (as_app ''opensheetsync.SetEnabled: save'' e), d1)
         | (Inr _, d1) \<Rightarrow> (Inr l1, KickDirty m (ce_Room ce) (ce_KickAt ce) c d1))))))"

definition SyncNow :: "mirror \<Rightarrow> access_db \<Rightarrow> call_env \<Rightarrow> ctx \<Rightarrow> (db, unit) prog" where
  "SyncNow m ad ce c d =
     (case sheet_manager ad c of Inl e \<Rightarrow> (Inl e, d) | Inr tc \<Rightarrow>
     (case sheet_link tc d of Inl e \<Rightarrow> (Inl e, d) | Inr l \<Rightarrow>
      if \<not> ln_Enabled l then (Inl (ESheet LinkDisabledError), d)
      else (case MarkAll (tc_OrgID tc) (tc_ProjectID tc) (ce_Now ce) d of
          (Inl e, d1) \<Rightarrow> (Inl (Unexpected ''opensheetsync.SyncNow: mark all'' e), d1)
        | (Inr _, d1) \<Rightarrow> (Inr (), KickDirty m (ce_Room ce) (ce_KickAt ce) c d1))))"

definition sheet_Delete :: "access_db \<Rightarrow> ctx \<Rightarrow> (db, unit) prog" where
  "sheet_Delete ad c d =
     (case sheet_manager ad c of Inl e \<Rightarrow> (Inl e, d) | Inr tc \<Rightarrow>
     (case DeleteLink (tc_OrgID tc) (tc_ProjectID tc) d of
        (Inl e, d1) \<Rightarrow> (Inl (as_app ''opensheetsync.Delete: delete'' e), d1) | (Inr _, d1) \<Rightarrow> (Inr (), d1)))"

end
