(* ===== verification/MirrorProperties.thy ===== *)
theory MirrorProperties
  imports MirrorService Fixtures
begin

text \<open>
  The properties of the mirror: a row the job leaves clean shows the current state in the
  sheet, whatever is edited meanwhile.
\<close>

section \<open>What the sheet serves\<close>

text \<open>
  What opensheet documents of its rows (\<open>docs/opensheet\<close>, \<open>opensheet/README.md\<close>): a PATCH
  changes the cells it names of a row that is there; a POST writes the row, or, under an
  idempotency key it has seen, answers as it did the first time and writes nothing; a DELETE
  removes the row or marks it deleted; a refusal that says the row is missing or taken says
  the truth and writes nothing.  \<open>tab w slug i\<close> is the row, \<open>used w slug\<close> the keys seen.
\<close>

definition sheet_gone :: "(string \<rightharpoonup> string) option \<Rightarrow> bool" where
  "sheet_gone r = (case r of None \<Rightarrow> True | Some cells \<Rightarrow> cells ''deleted_at'' \<noteq> None \<and> cells ''deleted_at'' \<noteq> Some '''')"

definition patch_served :: "'w os_lib \<Rightarrow> os_client \<Rightarrow> ('w \<Rightarrow> string \<Rightarrow> string \<Rightarrow> (string \<rightharpoonup> string) option) \<Rightarrow> ('w \<Rightarrow> string \<Rightarrow> string set) \<Rightarrow> bool" where
  "patch_served lib cl tab used \<longleftrightarrow> (\<forall>slug i patch w x w'. PatchRow lib cl slug i patch w = (x, w') \<longrightarrow>
     (case x of
        Inr _ \<Rightarrow> used w' slug = used w slug \<and> (\<exists>old. tab w slug i = Some old \<and> tab w' slug i = Some (old ++ map_of patch))
      | Inl e \<Rightarrow> RowMissing e \<longrightarrow> used w' slug = used w slug \<and> tab w slug i = None \<and> tab w' slug i = None))"

definition create_served :: "'w os_lib \<Rightarrow> os_client \<Rightarrow> ('w \<Rightarrow> string \<Rightarrow> string \<Rightarrow> (string \<rightharpoonup> string) option) \<Rightarrow> ('w \<Rightarrow> string \<Rightarrow> string set) \<Rightarrow> bool" where
  "create_served lib cl tab used \<longleftrightarrow> (\<forall>slug row key i w x w'. CreateRow lib cl slug row key w = (x, w') \<longrightarrow> map_of row ''id'' = Some i \<longrightarrow> key \<noteq> '''' \<longrightarrow>
     (case x of
        Inr _ \<Rightarrow> if key \<in> used w slug then used w' slug = used w slug \<and> tab w' slug i = tab w slug i
                 else used w' slug = insert key (used w slug) \<and> tab w' slug i = Some (map_of row)
      | Inl e \<Rightarrow> rowTaken e \<longrightarrow> used w' slug = used w slug \<and> tab w' slug i = tab w slug i \<and>
                 (tab w slug i \<noteq> None \<or> key \<in> used w slug)))"

definition delete_served :: "'w os_lib \<Rightarrow> os_client \<Rightarrow> ('w \<Rightarrow> string \<Rightarrow> string \<Rightarrow> (string \<rightharpoonup> string) option) \<Rightarrow> ('w \<Rightarrow> string \<Rightarrow> string set) \<Rightarrow> bool" where
  "delete_served lib cl tab used \<longleftrightarrow> (\<forall>slug i w x w'. DeleteRow lib cl slug i w = (x, w') \<longrightarrow>
     (case x of
        Inr _ \<Rightarrow> used w' slug = used w slug \<and> sheet_gone (tab w' slug i)
      | Inl e \<Rightarrow> RowMissing e \<longrightarrow> used w' slug = used w slug \<and> tab w' slug i = None))"

definition opensheet_serves :: "'w os_lib \<Rightarrow> os_client \<Rightarrow> ('w \<Rightarrow> string \<Rightarrow> string \<Rightarrow> (string \<rightharpoonup> string) option) \<Rightarrow> ('w \<Rightarrow> string \<Rightarrow> string set) \<Rightarrow> bool" where
  "opensheet_serves lib cl tab used \<longleftrightarrow> patch_served lib cl tab used \<and> create_served lib cl tab used \<and> delete_served lib cl tab used"

text \<open>The sheet shows a row (every cell but the id, which the PATCH does not carry), or no live row.\<close>

definition sheet_shows :: "(string \<rightharpoonup> string) option \<Rightarrow> sheet_row option \<Rightarrow> bool" where
  "sheet_shows r target = (case target of
     None \<Rightarrow> sheet_gone r
   | Some row \<Rightarrow> (\<exists>cells. r = Some cells \<and> (\<forall>kv \<in> set row. fst kv \<noteq> ''id'' \<longrightarrow> cells (fst kv) = Some (snd kv))))"

lemma map_of_patch:
  assumes "distinct (map fst row)" "(k, v) \<in> set row" "k \<noteq> ''id''"
  shows "map_of (filter (\<lambda>kv. fst kv \<noteq> ''id'') row) k = Some v"
  using assms by (intro map_of_is_SomeI) (auto simp: distinct_map_filter)

lemma idempotency_key_ne: "idempotency_key i v \<noteq> ''''"
  by (simp add: idempotency_key_def)

lemma upsert_shows:
  assumes "opensheet_serves lib cl tab used" "sheet_upsert lib cl slug i v row w = (None, w')"
    and "map_of row ''id'' = Some i" "distinct (map fst row)" "idempotency_key i v \<notin> used w slug \<or> tab w slug i \<noteq> None"
  shows "sheet_shows (tab w' slug i) (Some row)" "used w' slug \<subseteq> insert (idempotency_key i v) (used w slug)"
proof -
  let ?p = "filter (\<lambda>kv. fst kv \<noteq> ''id'') row"
  note P = assms(1) [unfolded opensheet_serves_def patch_served_def, THEN conjunct1, rule_format]
  note C = assms(1) [unfolded opensheet_serves_def create_served_def, THEN conjunct2, THEN conjunct1, rule_format, OF _ assms(3) idempotency_key_ne]
  have shown: "sheet_shows (Some (old ++ map_of ?p)) (Some row)" for old
    using map_of_patch [OF assms(4)] by (auto simp: sheet_shows_def map_add_Some_iff)
  have whole: "sheet_shows (Some (map_of row)) (Some row)"
    using assms(4) by (auto simp: sheet_shows_def)
  obtain x1 w1 where 1: "PatchRow lib cl slug i ?p w = (x1, w1)" by fastforce
  have "sheet_shows (tab w' slug i) (Some row) \<and> used w' slug \<subseteq> insert (idempotency_key i v) (used w slug)"
  proof (cases x1)
    case (Inr r)
    then show ?thesis using assms(2) 1 P [OF 1] shown by (auto simp: sheet_upsert_def)
  next
    case (Inl e1)
    then have m: "RowMissing e1" using assms(2) 1 by (auto simp: sheet_upsert_def split: if_splits)
    then have w1: "used w1 slug = used w slug" "tab w1 slug i = None" "tab w slug i = None" using P [OF 1] Inl by auto
    then have new: "idempotency_key i v \<notin> used w slug" using assms(5) by simp
    obtain x2 w2 where 2: "CreateRow lib cl slug row (idempotency_key i v) w1 = (x2, w2)" by fastforce
    show ?thesis
    proof (cases x2)
      case (Inr r)
      then show ?thesis using assms(2) new 1 2 Inl m w1 C [OF 2] whole by (auto simp: sheet_upsert_def split: if_splits)
    next
      case (Inl e2)
      have t: "rowTaken e2" using assms(2) 1 2 \<open>x1 = Inl e1\<close> m Inl by (auto simp: sheet_upsert_def split: if_splits)
      have False using C [OF 2] Inl t w1 new by auto
      then show ?thesis ..
    qed
  qed
  then show "sheet_shows (tab w' slug i) (Some row)" "used w' slug \<subseteq> insert (idempotency_key i v) (used w slug)" by blast+
qed

lemma remove_shows:
  assumes "opensheet_serves lib cl tab used" "sheet_remove lib cl slug i w = (None, w')"
  shows "sheet_shows (tab w' slug i) None" "used w' slug = used w slug"
proof -
  note D = assms(1) [unfolded opensheet_serves_def delete_served_def, THEN conjunct2, THEN conjunct2, rule_format]
  obtain x1 w1 where 1: "DeleteRow lib cl slug i w = (x1, w1)" by fastforce
  show "sheet_shows (tab w' slug i) None" "used w' slug = used w slug"
    using assms(2) D [OF 1] 1 by (auto simp: sheet_remove_def sheet_shows_def sheet_gone_def split: sum.splits if_splits)
qed

section \<open>The row of the sync state\<close>

definition sync_row :: "Link \<Rightarrow> Entity \<Rightarrow> uuid \<Rightarrow> db \<Rightarrow> SyncState option" where
  "sync_row l en i d = find_row sync_key (ln_OrgID l, en, i) (db_sync d)"

lemma sync_row_update:
  assumes "\<And>s. sync_key (f s) = sync_key s"
  shows "sync_row l en i (update_state hit f d) = map_option (\<lambda>s. if hit s then f s else s) (sync_row l en i d)"
proof -
  have "find_row sync_key k (map (\<lambda>s. if hit s then f s else s) rows) =
      map_option (\<lambda>s. if hit s then f s else s) (find_row sync_key k rows)" for k rows
    using assms by (induction rows) (auto simp: table_simps)
  then show ?thesis by (simp add: sync_row_def update_state_def)
qed

lemma keyed_update_state:
  assumes "\<And>s. sync_key (f s) = sync_key s"
  shows "keyed sync_key (db_sync (update_state hit f d)) = keyed sync_key (db_sync d)"
  using assms by (simp add: update_state_def comp_def if_distrib cong: if_cong)

lemma sync_row_fields: "sync_row l en i d = Some s \<Longrightarrow> st_OrgID s = ln_OrgID l \<and> st_Entity s = en \<and> st_ID s = i"
  by (auto simp: sync_row_def sync_key_def dest!: find_row_SomeD)

lemma find_state:
  assumes "keyed sync_key (db_sync d)"
  shows "find (\<lambda>s. stateKey (ln_OrgID l) pid en i s \<and> P s) (db_sync d) =
    (case sync_row l en i d of None \<Rightarrow> None | Some s \<Rightarrow> if st_ProjectID s = pid \<and> P s then Some s else None)"
proof -
  have "(\<lambda>s. stateKey (ln_OrgID l) pid en i s \<and> P s) = (\<lambda>s. sync_key s = (ln_OrgID l, en, i) \<and> st_ProjectID s = pid \<and> P s)"
    by (auto simp: stateKey_def sync_key_def)
  then show ?thesis using find_keyed [OF assms] by (simp add: sync_row_def)
qed

lemma Claim_row:
  assumes "keyed sync_key (db_sync d)" "Claim (ln_OrgID l) pid en i token at ttl d = (r, d1)"
  shows "keyed sync_key (db_sync d1)" "r = None \<Longrightarrow> sync_row l en i d1 = sync_row l en i d"
    "r = Some st \<Longrightarrow> \<exists>s. sync_row l en i d = Some s \<and> sync_row l en i d1 = Some st \<and> st_LeaseToken st = Some token \<and>
       st_Version st = st_Version s \<and> st_SyncedVersion st = st_SyncedVersion s \<and> st_ProjectID st = pid \<and> state_Dirty st"
proof -
  let ?f = "\<lambda>s. s\<lparr>st_LeaseToken := Some token, st_LeasedUntil := Some (at + ttl)\<rparr>"
  let ?hit = "\<lambda>s. stateKey (ln_OrgID l) pid en i s \<and> claimable at s"
  have k: "sync_key (?f s) = sync_key s" for s by (simp add: sync_key_def)
  have r: "r = map_option ?f (find ?hit (db_sync d))" and d1: "d1 = update_state ?hit ?f d"
    using assms(2) by (auto simp: Claim_def Let_def)
  show "keyed sync_key (db_sync d1)" using assms(1) unfolding d1 keyed_update_state [of ?f, OF k] .
  note row = sync_row_update [of ?f l en i ?hit d, OF k, folded d1]
  show "r = None \<Longrightarrow> sync_row l en i d1 = sync_row l en i d"
    unfolding row r find_state [OF assms(1)]
    by (auto simp: stateKey_def split: option.splits if_splits)
  show "\<exists>s. sync_row l en i d = Some s \<and> sync_row l en i d1 = Some st \<and> st_LeaseToken st = Some token \<and>
       st_Version st = st_Version s \<and> st_SyncedVersion st = st_SyncedVersion s \<and> st_ProjectID st = pid \<and> state_Dirty st" if "r = Some st"
    using that sync_row_fields unfolding row r find_state [OF assms(1)]
    by (fastforce simp: stateKey_def claimable_def state_Dirty_def split: option.splits if_splits)
qed

lemma Settle_row:
  assumes "keyed sync_key (db_sync d)" "Settle (ln_OrgID l) pid en i v token d = ((settled, dirty), d1)"
  shows "keyed sync_key (db_sync d1)" "\<not> settled \<Longrightarrow> d1 = d"
    "settled \<Longrightarrow> \<exists>s. sync_row l en i d = Some s \<and> st_LeaseToken s = Some token \<and> dirty = (v < st_Version s) \<and>
       (\<exists>s'. sync_row l en i d1 = Some s' \<and> st_Version s' = st_Version s \<and> st_SyncedVersion s' = v \<and> st_Deleted s' = st_Deleted s) \<and>
       (\<exists>ss. d1 = d\<lparr>db_sync := ss\<rparr>)"
proof -
  let ?f = "\<lambda>s. s\<lparr>st_SyncedVersion := v, st_Attempts := 0, st_LastError := '''', st_LeaseToken := None, st_LeasedUntil := None, st_RetryAfter := None\<rparr>"
  let ?hit = "\<lambda>s. stateKey (ln_OrgID l) pid en i s \<and> st_LeaseToken s = Some token"
  have h: "held (ln_OrgID l) pid en i token = ?hit" by (auto simp: held_def)
  have k: "sync_key (?f s) = sync_key s" for s by (simp add: sync_key_def)
  note row = sync_row_update [of ?f l en i ?hit d, OF k]
  have f: "find ?hit (db_sync d) = None \<and> \<not> settled \<and> d1 = d \<or>
     (\<exists>s. find ?hit (db_sync d) = Some s \<and> settled \<and> dirty = (v < st_Version s) \<and> d1 = update_state ?hit ?f d)"
    using assms(2) by (auto simp: Settle_def Let_def h split: option.splits)
  show "keyed sync_key (db_sync d1)" using f assms(1) keyed_update_state [of ?f ?hit d, OF k] by auto
  show "\<not> settled \<Longrightarrow> d1 = d" using f by auto
  show "\<exists>s. sync_row l en i d = Some s \<and> st_LeaseToken s = Some token \<and> dirty = (v < st_Version s) \<and>
       (\<exists>s'. sync_row l en i d1 = Some s' \<and> st_Version s' = st_Version s \<and> st_SyncedVersion s' = v \<and> st_Deleted s' = st_Deleted s) \<and>
       (\<exists>ss. d1 = d\<lparr>db_sync := ss\<rparr>)" if ok: settled
  proof -
    obtain s where s: "find ?hit (db_sync d) = Some s" "dirty = (v < st_Version s)" and d1: "d1 = update_state ?hit ?f d"
      using f ok by blast
    have r: "sync_row l en i d = Some s" "st_ProjectID s = pid" "st_LeaseToken s = Some token"
      using s(1) unfolding find_state [OF assms(1)] by (auto split: option.splits if_splits)
    then have "sync_row l en i d1 = Some (?f s)"
      using sync_row_fields [OF r(1)] unfolding d1 row by (simp add: stateKey_def)
    then show ?thesis using r s(2) d1 by (auto simp: update_state_def)
  qed
qed

section \<open>The row read\<close>

lemma tx_read_id: "txs_ByID c i d = Inr t \<Longrightarrow> t_ID t = i"
  by (auto simp: txs_ByID_def tx_load_def tx_ByID_def find_Some_iff split: sum.splits option.splits if_splits)

lemma wallet_read_id: "wallets_ByID c i d = Inr w \<Longrightarrow> w_ID w = i"
  by (auto simp: wallets_ByID_def wallet_ByID_def find_Some_iff split: sum.splits option.splits if_splits)

lemma category_read_id: "categories_ByID c i d = Inr x \<Longrightarrow> c_ID x = i"
  by (auto simp: categories_ByID_def category_ByID_def find_Some_iff split: sum.splits option.splits if_splits)

lemma source_Transaction_id: "source_Transaction load c i d = Inr (Some f) \<Longrightarrow> tf_ID f = i"
  by (auto simp: source_Transaction_def tx_read_id split: sum.splits option.splits if_splits prod.splits)

lemma source_Wallet_id: "source_Wallet pt c i d = Inr (Some f) \<Longrightarrow> wf_ID f = i"
  by (auto simp: source_Wallet_def wallet_read_id split: sum.splits if_splits)

lemma source_Category_id: "source_Category c i d = Inr (Some f) \<Longrightarrow> cf_ID f = i"
  by (auto simp: source_Category_def category_read_id split: sum.splits if_splits)

lemma rowOf_row:
  assumes "rowOf sy c en i d = Inr (Some row)"
  shows "map_of row ''id'' = Some (sy_String sy i)" "distinct (map fst row)"
proof -
  have "(\<exists>f. row = TransactionRow (sy_String sy) f \<and> tf_ID f = i) \<or> (\<exists>f. row = WalletRow (sy_String sy) f \<and> wf_ID f = i) \<or>
      (\<exists>f. row = CategoryRow (sy_String sy) f \<and> cf_ID f = i)"
    using assms by (auto simp: rowOf_def split: Entity.splits sum.splits
      dest!: source_Transaction_id source_Wallet_id source_Category_id)
  then show "map_of row ''id'' = Some (sy_String sy i)" "distinct (map fst row)"
    by (auto simp: TransactionRow_def WalletRow_def CategoryRow_def Let_def)
qed

text \<open>Bookkeeping does not change what is read.\<close>

lemma wallets_ByID_sync: "wallets_ByID c i (d\<lparr>db_sync := ss\<rparr>) = wallets_ByID c i d"
  by (simp add: wallets_ByID_def wallet_ByID_def cong: sum.case_cong option.case_cong)

lemma categories_ByID_sync: "categories_ByID c i (d\<lparr>db_sync := ss\<rparr>) = categories_ByID c i d"
  by (simp add: categories_ByID_def category_ByID_def cong: sum.case_cong option.case_cong)

lemma txs_ByID_sync: "txs_ByID c i (d\<lparr>db_sync := ss\<rparr>) = txs_ByID c i d"
  by (simp add: txs_ByID_def tx_load_def tx_ByID_def cong: sum.case_cong option.case_cong)

lemma svc_ByID_sync: "svc_ByID c i (d\<lparr>db_sync := ss\<rparr>) = svc_ByID c i d"
  by (simp add: svc_ByID_def period_scoped_def period_ByID_def cong: sum.case_cong option.case_cong)

lemma tx_Balance_sync: "tx_Balance c orgID projectID i (d\<lparr>db_sync := ss\<rparr>) = tx_Balance c orgID projectID i d"
proof -
  have r: "scoped_rows orgID projectID oid (d\<lparr>db_sync := ss\<rparr>) = scoped_rows orgID projectID oid d" for oid
    by (simp add: scoped_rows_def)
  show ?thesis unfolding tx_Balance_def r ..
qed

lemma txs_Balance_sync:
  assumes "port_Wallet pt = walletReaderFor"
  shows "txs_Balance pt c i (d\<lparr>db_sync := ss\<rparr>) = txs_Balance pt c i d"
proof -
  have r: "tx_wallet pt c tc i (d\<lparr>db_sync := ss\<rparr>) = tx_wallet pt c tc i d" for tc
    by (simp add: tx_wallet_def assms walletReaderFor_def wallets_ByID_sync)
  show ?thesis unfolding txs_Balance_def tx_Balance_sync r ..
qed

lemma rowOf_sync:
  "port_Wallet (sy_ports sy) = walletReaderFor \<Longrightarrow> rowOf sy c en i (d\<lparr>db_sync := ss\<rparr>) = rowOf sy c en i d"
  by (cases en) (simp_all add: rowOf_def source_Transaction_def source_Wallet_def source_Category_def source_walletName_def
    wallets_ByID_sync categories_ByID_sync txs_ByID_sync svc_ByID_sync txs_Balance_sync cong: sum.case_cong option.case_cong)

section \<open>Idempotency keys\<close>

lemma utoa_minus: "0 \<le> n \<Longrightarrow> utoa n \<noteq> CHR ''-'' # cs"
  using utoa_digits [of n] by (auto simp: is_digit_def byte_def)

lemma FormatInt_inject: "FormatInt a = FormatInt b \<Longrightarrow> a = b"
proof -
  assume e: "FormatInt a = FormatInt b"
  consider "a < 0" "b < 0" | "0 \<le> a" "0 \<le> b" | "a < 0" "0 \<le> b" | "0 \<le> a" "b < 0" by linarith
  then show ?thesis
  proof cases
    case 1
    then have "digits_val (utoa (- a)) = digits_val (utoa (- b))" using e by (simp add: FormatInt_def)
    then show ?thesis using 1 by simp
  next
    case 2
    then have "digits_val (utoa a) = digits_val (utoa b)" using e by (simp add: FormatInt_def)
    then show ?thesis using 2 by simp
  qed (use e utoa_minus [of a] utoa_minus [of b] in \<open>simp_all add: FormatInt_def, metis\<close>)
qed

lemma idempotency_key_inject: "idempotency_key i v = idempotency_key i v' \<longleftrightarrow> v = v'"
  using FormatInt_inject by (auto simp: idempotency_key_def)

section \<open>What the sheet shows when the job is done\<close>

text \<open>
  What the other requests may do to a row while a job holds it: mark it again, which raises
  its version, or take the link away with its rows; what the sheet is to show of the row
  changes only with its version.  (The store's mark is part of every write the mirror is told
  of; renaming a period or moving the ledger's zone is documented not to mark.)  Nobody else
  syncs this row meanwhile.
\<close>

definition only_marks :: "'w syncer \<Rightarrow> ctx \<Rightarrow> Link \<Rightarrow> Entity \<Rightarrow> uuid \<Rightarrow> (db \<Rightarrow> db) \<Rightarrow> bool" where
  "only_marks sy c l en i f \<longleftrightarrow> (\<forall>d. keyed sync_key (db_sync d) \<longrightarrow> keyed sync_key (db_sync (f d)) \<and>
     (case sync_row l en i (f d) of None \<Rightarrow> True
      | Some s' \<Rightarrow> \<exists>s. sync_row l en i d = Some s \<and> st_LeaseToken s' = st_LeaseToken s \<and> st_SyncedVersion s' = st_SyncedVersion s \<and>
          st_Version s \<le> st_Version s' \<and>
          (st_Version s' = st_Version s \<longrightarrow> st_Deleted s' = st_Deleted s \<and> rowOf sy c en i (f d) = rowOf sy c en i d)))"

definition mirror_target :: "'w syncer \<Rightarrow> ctx \<Rightarrow> Entity \<Rightarrow> uuid \<Rightarrow> SyncState \<Rightarrow> db \<Rightarrow> (err, sheet_row option) res" where
  "mirror_target sy c en i s d = (if st_Deleted s then Inr None else rowOf sy c en i d)"

lemma only_marksD:
  assumes "only_marks sy c l en i f" "keyed sync_key (db_sync d)"
  shows "keyed sync_key (db_sync (f d))"
    "sync_row l en i (f d) = Some s' \<Longrightarrow> \<exists>s. sync_row l en i d = Some s \<and> st_LeaseToken s' = st_LeaseToken s \<and>
       st_SyncedVersion s' = st_SyncedVersion s \<and> st_Version s \<le> st_Version s' \<and>
       (st_Version s' = st_Version s \<longrightarrow> st_Deleted s' = st_Deleted s \<and> rowOf sy c en i (f d) = rowOf sy c en i d)"
  using assms unfolding only_marks_def by (auto split: option.splits)

lemma push_shows:
  assumes "opensheet_serves (sy_lib sy) cl tab used" "sync_push sy c cl l st d w = (None, w')"
    and "st_Entity st = en" "st_ID st = i"
    and "idempotency_key (sy_String sy i) (st_Version st) \<notin> used w (slugs_For (ln_Sheets l) en) \<or>
      tab w (slugs_For (ln_Sheets l) en) (sy_String sy i) \<noteq> None"
  shows "\<exists>target. mirror_target sy c en i st d = Inr target \<and>
      sheet_shows (tab w' (slugs_For (ln_Sheets l) en) (sy_String sy i)) target"
    "used w' (slugs_For (ln_Sheets l) en) \<subseteq>
       insert (idempotency_key (sy_String sy i) (st_Version st)) (used w (slugs_For (ln_Sheets l) en))"
proof -
  have "(\<exists>target. mirror_target sy c en i st d = Inr target \<and>
      sheet_shows (tab w' (slugs_For (ln_Sheets l) en) (sy_String sy i)) target) \<and>
    used w' (slugs_For (ln_Sheets l) en) \<subseteq>
       insert (idempotency_key (sy_String sy i) (st_Version st)) (used w (slugs_For (ln_Sheets l) en))"
    using assms(2) unfolding sync_push_def Let_def assms(3,4)
    by (auto simp: mirror_target_def rowOf_row remove_shows [OF assms(1)] upsert_shows [OF assms(1) _ _ _ assms(5)]
      split: if_splits sum.splits option.splits dest: upsert_shows(2) [OF assms(1) _ _ _ assms(5)])
  then show "\<exists>target. mirror_target sy c en i st d = Inr target \<and>
      sheet_shows (tab w' (slugs_For (ln_Sheets l) en) (sy_String sy i)) target"
    "used w' (slugs_For (ln_Sheets l) en) \<subseteq>
       insert (idempotency_key (sy_String sy i) (st_Version st)) (used w (slugs_For (ln_Sheets l) en))" by auto
qed

lemma passes_show:
  assumes serves: "opensheet_serves (sy_lib sy) cl tab used" and port: "port_Wallet (sy_ports sy) = walletReaderFor"
    and others: "\<And>k. only_marks sy c l en i (pe_BeforeClaim (pe k))" "\<And>k. only_marks sy c l en i (pe_BeforeRead (pe k))"
      "\<And>k. only_marks sy c l en i (pe_BeforeSettle (pe k))"
    and run: "sync_passes sy c cl l en i pe k n0 d w = ((n, None), d', w')"
    and before: "keyed sync_key (db_sync d)" "sync_row l en i d = Some s" "state_Dirty s"
      "\<And>v. st_Version s < v \<Longrightarrow> idempotency_key (sy_String sy i) v \<notin> used w (slugs_For (ln_Sheets l) en)"
      "idempotency_key (sy_String sy i) (st_Version s) \<notin> used w (slugs_For (ln_Sheets l) en) \<or>
         tab w (slugs_For (ln_Sheets l) en) (sy_String sy i) \<noteq> None"
    and clean: "sync_row l en i d' = Some s'" "\<not> state_Dirty s'"
  shows "\<exists>target. mirror_target sy c en i s' d' = Inr target \<and> sheet_shows (tab w' (slugs_For (ln_Sheets l) en) (sy_String sy i)) target"
  using run before
proof (induction k arbitrary: n0 d w s)
  case 0
  then show ?case using clean by simp
next
  case (Suc k)
  let ?sl = "slugs_For (ln_Sheets l) en"
  let ?d0 = "pe_BeforeClaim (pe k) d"
  note o0 = only_marksD [OF others(1) [of k] Suc.prems(2)]
  obtain r d1 where cl: "Claim (ln_OrgID l) (ln_ProjectID l) en i (pe_Token (pe k)) (pe_Now (pe k)) leaseTTL ?d0 = (r, d1)" by fastforce
  note c = Claim_row [OF o0(1) cl]
  show ?case
  proof (cases r)
    case None
    then have "d' = d1" using Suc.prems(1) cl by simp
    then show ?thesis using c(2) [OF None] clean o0(2) [of s'] Suc.prems(3,4) by (auto simp: state_Dirty_def)
  next
    case (Some st)
    obtain s0 where s0: "sync_row l en i ?d0 = Some s0" "sync_row l en i d1 = Some st" "st_LeaseToken st = Some (pe_Token (pe k))"
      "st_Version st = st_Version s0" "state_Dirty st" using c(3) [OF Some] by blast
    have v0: "st_Version s \<le> st_Version st" using o0(2) [OF s0(1)] Suc.prems(3) s0(4) by auto
    let ?d2 = "pe_BeforeRead (pe k) d1" and ?d3 = "pe_BeforeSettle (pe k) (pe_BeforeRead (pe k) d1)"
    note o1 = only_marksD [OF others(2) [of k] c(1)]
    note o2 = only_marksD [OF others(3) [of k] o1(1)]
    obtain e1 w1 where p: "sync_push sy c cl l st ?d2 w = (e1, w1)" by fastforce
    have e1: "e1 = None" using Suc.prems(1) cl Some p by (auto split: option.splits)
    note f = sync_row_fields [OF s0(2)]
    obtain ok dirty d4 where st: "Settle (ln_OrgID l) (ln_ProjectID l) en i (st_Version st) (pe_Token (pe k)) ?d3 = ((ok, dirty), d4)"
      by (metis prod.exhaust)
    note se = Settle_row [OF o2(1) st]
    show ?thesis
    proof (cases ok)
      case False
      then have "d' = ?d3" using Suc.prems(1) cl Some p e1 st se(2) by simp
      then obtain s2 where "sync_row l en i ?d2 = Some s2" "st_SyncedVersion s' = st_SyncedVersion s2" "st_Version s2 \<le> st_Version s'"
        using o2(2) clean(1) by blast
      then show ?thesis using o1(2) s0(2,5) clean(2) by (fastforce simp: state_Dirty_def)
    next
      case True
      obtain s3 s4 ss where s3: "sync_row l en i ?d3 = Some s3" "dirty = (st_Version st < st_Version s3)"
        and s4: "sync_row l en i d4 = Some s4" "st_Version s4 = st_Version s3" "st_SyncedVersion s4 = st_Version st"
          "st_Deleted s4 = st_Deleted s3" "d4 = ?d3\<lparr>db_sync := ss\<rparr>" using se(3) [OF True] by blast
      obtain s2 where s2: "sync_row l en i ?d2 = Some s2" "st_Version s2 \<le> st_Version s3"
        "st_Version s3 = st_Version s2 \<longrightarrow> st_Deleted s3 = st_Deleted s2 \<and> rowOf sy c en i ?d3 = rowOf sy c en i ?d2"
        using o2(2) [OF s3(1)] by blast
      have v1: "st_Version st \<le> st_Version s2"
        "st_Version s2 = st_Version st \<longrightarrow> st_Deleted s2 = st_Deleted st"
        using o1(2) [OF s2(1)] s0(2) by auto
      have "idempotency_key (sy_String sy i) (st_Version st) \<notin> used w ?sl \<or> tab w ?sl (sy_String sy i) \<noteq> None"
        using Suc.prems(5) [of "st_Version st"] Suc.prems(6) v0 by (cases "st_Version s = st_Version st") auto
      note shown = push_shows [OF serves p [unfolded e1] _ _ this, OF conjunct1 [OF conjunct2 [OF f]] conjunct2 [OF conjunct2 [OF f]]]
      show ?thesis
      proof (cases dirty)
        case False
        then have "d' = d4" "w' = w1" using Suc.prems(1) cl Some p e1 st True by simp_all
        moreover have "st_Version s3 = st_Version s2" "st_Version s2 = st_Version st" using False s3(2) s2(2) v1(1) by auto
        ultimately have "s' = s4" and "mirror_target sy c en i s4 d4 = mirror_target sy c en i st ?d2"
          using s4 clean(1) s2(3) v1(2) rowOf_sync [OF port] by (simp_all add: mirror_target_def)
        then show ?thesis using shown(1) \<open>d' = d4\<close> \<open>w' = w1\<close> by simp
      next
        case dirty: True
        have "sync_passes sy c cl l en i pe k (n0 + 1) d4 w1 = ((n, None), d', w')"
          using Suc.prems(1) cl Some p e1 st True dirty by simp
        moreover have "state_Dirty s4" using dirty s3(2) s4 by (simp add: state_Dirty_def)
        moreover have "idempotency_key (sy_String sy i) v \<notin> used w1 ?sl" if "st_Version s4 \<le> v" for v
          using shown(2) Suc.prems(5) [of v] that dirty s3(2) s4(2) v0 by (auto simp: idempotency_key_inject)
        ultimately show ?thesis by (intro Suc.IH [OF _ se(1) s4(1)]) auto
      qed
    qed
  qed
qed

section \<open>A server in memory\<close>

text \<open>The rows by their URL, and the idempotency keys seen by each tab.\<close>

type_synonym mem_sheets = "(string \<rightharpoonup> string \<rightharpoonup> string) \<times> (string \<times> string) set"

definition mem_answer :: "nat \<Rightarrow> string \<Rightarrow> exchange_cause + os_response" where
  "mem_answer status code = Inr \<lparr>rs_Status = status, rs_Code = code, rs_Message = '''', rs_RetryAfter = 0, rs_ETag = '''', rs_Row = [],
     rs_Caps = \<lparr>sc_Columns = [], sc_IDColumn = True, sc_SoftDelete = True, sc_Writable = True, sc_SatisfiesContract = True,
       sc_ContractReason = '''', sc_ValidatedAt = Some 0\<rparr>\<rparr>"

definition mem_exchange :: "os_request \<Rightarrow> mem_sheets \<Rightarrow> (exchange_cause + os_response) \<times> mem_sheets" where
  "mem_exchange rq w =
     (let u = rq_URL rq; cells = map_of (case rq_Body rq of None \<Rightarrow> [] | Some row \<Rightarrow> row) in
      if rq_Method rq = ''PATCH'' then
        (case fst w u of None \<Rightarrow> (mem_answer 404 ''SHT013'', w)
         | Some old \<Rightarrow> (mem_answer 200 '''', ((fst w)(u \<mapsto> old ++ cells), snd w)))
      else if rq_Method rq = ''POST'' then
        (case cells ''id'' of None \<Rightarrow> (mem_answer 400 ''SHT016'', w)
         | Some i \<Rightarrow>
            if rq_IdempotencyKey rq \<noteq> '''' \<and> (u, rq_IdempotencyKey rq) \<in> snd w then (mem_answer 201 '''', w)
            else if fst w (u @ ''/'' @ i) \<noteq> None then (mem_answer 409 ''SHT012'', w)
            else (mem_answer 201 '''', ((fst w)(u @ ''/'' @ i \<mapsto> cells), insert (u, rq_IdempotencyKey rq) (snd w))))
      else if rq_Method rq = ''DELETE'' then
        (if fst w u = None then (mem_answer 404 ''SHT013'', w) else (mem_answer 204 '''', ((fst w)(u := None), snd w)))
      else (mem_answer 200 '''', w))"

definition mem_lib :: "mem_sheets os_lib" where
  "mem_lib = \<lparr>ol_Parse = (\<lambda>_. Some (''https'', ''sheets.example'')), ol_PrivateLiteral = (\<lambda>_. False), ol_PathEscape = id,
     ol_Exchange = mem_exchange\<rparr>"

definition mem_tab :: "os_client \<Rightarrow> mem_sheets \<Rightarrow> string \<Rightarrow> string \<Rightarrow> (string \<rightharpoonup> string) option" where
  "mem_tab cl w slug i = fst w (sheetURL mem_lib cl slug [''rows'', i])"

definition mem_used :: "os_client \<Rightarrow> mem_sheets \<Rightarrow> string \<Rightarrow> string set" where
  "mem_used cl w slug = {k. (sheetURL mem_lib cl slug [''rows''], k) \<in> snd w}"

lemma mem_row_url: "sheetURL mem_lib cl slug [''rows''] @ ''/'' @ i = sheetURL mem_lib cl slug [''rows'', i]"
  by (simp add: sheetURL_def mem_lib_def)

lemma mem_patch: "patch_served mem_lib cl (mem_tab cl) (mem_used cl)"
  by (auto simp: patch_served_def PatchRow_def os_do_def mem_exchange_def mem_answer_def mem_tab_def mem_used_def Let_def
    mem_lib_def fromResponse_def split: option.splits)

lemma mem_create: "create_served mem_lib cl (mem_tab cl) (mem_used cl)"
  using mem_row_url [of cl]
  by (auto simp: create_served_def CreateRow_def os_do_def mem_exchange_def mem_answer_def mem_tab_def mem_used_def Let_def
    mem_lib_def fromResponse_def split: option.splits if_splits)

lemma mem_delete: "delete_served mem_lib cl (mem_tab cl) (mem_used cl)"
  by (auto simp: delete_served_def DeleteRow_def os_do_def mem_exchange_def mem_answer_def mem_tab_def mem_used_def Let_def
    mem_lib_def fromResponse_def sheet_gone_def split: option.splits if_splits)

lemma mem_serves: "opensheet_serves mem_lib cl (mem_tab cl) (mem_used cl)"
  by (simp add: opensheet_serves_def mem_patch mem_create mem_delete)

section \<open>The property\<close>

text \<open>C14: While a sync job runs, other requests may mark the row again or take its link away, in
  any of its pauses (before the lease, before the read, before the settle), as long as what
  the row shows changes only together with its version, and the endpoint serves rows as
  opensheet documents.  When the job ends without an error and leaves the row clean, the
  sheet holds the row's current state cell by cell, or no live row when the entity is gone:
  an edit made during a push is never lost.  The idempotency keys of later versions must be
  unused, and that of the current one unused or the row there, which a link set up again does
  not give (\<open>relinked_rows_can_stay_missing\<close>).\<close>

theorem settled_rows_show_the_current_state:
  assumes "opensheet_serves (sy_lib sy) cl tab used" and "port_Wallet (sy_ports sy) = walletReaderFor"
    and "\<And>k. only_marks sy c l (mr_Entity r) (mr_ID r) (pe_BeforeClaim (pe k))"
    and "\<And>k. only_marks sy c l (mr_Entity r) (mr_ID r) (pe_BeforeRead (pe k))"
    and "\<And>k. only_marks sy c l (mr_Entity r) (mr_ID r) (pe_BeforeSettle (pe k))"
    and "keyed sync_key (db_sync d)" and "sync_row l (mr_Entity r) (mr_ID r) d = Some s" and "state_Dirty s"
    and "\<And>v. st_Version s < v \<Longrightarrow> idempotency_key (sy_String sy (mr_ID r)) v \<notin> used w (slugs_For (ln_Sheets l) (mr_Entity r))"
    and "idempotency_key (sy_String sy (mr_ID r)) (st_Version s) \<notin> used w (slugs_For (ln_Sheets l) (mr_Entity r)) \<or>
      tab w (slugs_For (ln_Sheets l) (mr_Entity r)) (sy_String sy (mr_ID r)) \<noteq> None"
    and "syncRow sy c cl l r pe d w = ((n, None), d', w')"
    and "sync_row l (mr_Entity r) (mr_ID r) d' = Some s'" and "\<not> state_Dirty s'"
  shows "\<exists>target. mirror_target sy c (mr_Entity r) (mr_ID r) s' d' = Inr target \<and>
    sheet_shows (tab w' (slugs_For (ln_Sheets l) (mr_Entity r)) (sy_String sy (mr_ID r))) target"
  by (rule passes_show [OF assms(1-5) assms(11) [unfolded syncRow_def] assms(6-10,12,13)])

definition m_cat :: "string \<Rightarrow> Category" where
  "m_cat name = \<lparr>c_ID = 40, c_OrgID = 1, c_ProjectID = 2, c_Name = name, c_Kind = CKindExpense, c_Icon = ''utensils'', c_Color = ''#aa0000'',
     c_SortOrder = 0, c_ArchivedAt = None, c_CreatedAt = 0, c_UpdatedAt = 0\<rparr>"

definition m_link :: Link where
  "m_link = (NewLink 70 1 2 3 uuid_Nil 0)\<lparr>ln_APIKeySealed := ''sealed'', ln_Enabled := True\<rparr>"

definition m_db :: db where
  "m_db = snd (mark_row 1 2 EntityCategory 40 False 0 (empty_db\<lparr>db_categories := [m_cat ''Food''], db_links := [m_link]\<rparr>))"

definition m_sync :: "mem_sheets syncer" where
  "m_sync = \<lparr>sy_lib = mem_lib, sy_String = (\<lambda>i. FormatInt (int i)), sy_Sealer = Disabled, sy_BaseURL = ''https://sheets.example'',
     sy_AllowPrivateHosts = False, sy_load = w_load, sy_ports = boot_ports w_load 0 9, sy_queued = False, sy_queue_ok = True\<rparr>"

definition m_client :: os_client where
  "m_client = \<lparr>cl_Base = ''https://sheets.example/api/v1/orgs/acme/projects/books'', cl_Token = ''key''\<rparr>"

definition m_ref :: MirrorRef where
  "m_ref = \<lparr>mr_Entity = EntityCategory, mr_ID = 40, mr_Deleted = False, mr_Cascade = False\<rparr>"

text \<open>The category is renamed, and marked, while the first pass is under way.\<close>

definition m_rename :: "db \<Rightarrow> db" where
  "m_rename d = (if sync_row m_link EntityCategory 40 d = None then d
     else snd (mark_row 1 2 EntityCategory 40 False 5 (d\<lparr>db_categories := map (\<lambda>x. x\<lparr>c_Name := ''Dining''\<rparr>) (db_categories d)\<rparr>)))"

definition m_pass :: "nat \<Rightarrow> pass_env" where
  "m_pass k = \<lparr>pe_Token = 80 + k, pe_Now = 10, pe_FailedAt = 11, pe_BeforeClaim = id, pe_BeforeRead = id,
     pe_BeforeSettle = (if k = 2 then m_rename else id)\<rparr>"

lemma id_only_marks: "only_marks sy c l en i id"
  by (auto simp: only_marks_def split: option.split)

lemma rename_only_marks: "only_marks sy c m_link EntityCategory 40 m_rename"
  by (auto simp: only_marks_def m_rename_def mark_row_def sync_row_def find_row_upsert keyed_upsert_row markSets_def m_link_def NewLink_def sync_key_def
    split: option.split dest!: find_row_SomeD)

lemma m_run: "case syncRow m_sync w_ctx m_client m_link m_ref m_pass m_db (\<lambda>_. None, {}) of ((n, e), d', w') \<Rightarrow>
    n = 2 \<and> e = None \<and> (case sync_row m_link EntityCategory 40 d' of None \<Rightarrow> False | Some s \<Rightarrow> \<not> state_Dirty s \<and> \<not> st_Deleted s) \<and>
    rowOf m_sync w_ctx EntityCategory 40 d' = Inr (Some [(''id'', ''40''), (''name'', ''Dining''), (''kind'', ''expense''), (''icon'', ''utensils''),
      (''color'', ''#aa0000''), (''archived'', ''false''), (''updated_at'', ''1970-01-01T00:00:00Z'')])"
  by code_simp

theorem settled_rows_show_the_current_state_witness:
  "case syncRow m_sync w_ctx m_client m_link m_ref m_pass m_db (\<lambda>_. None, {}) of ((n, e), d', w') \<Rightarrow>
     n = 2 \<and> sheet_shows (mem_tab m_client w' ''yasaku-categories'' ''40'')
       (Some [(''id'', ''40''), (''name'', ''Dining''), (''kind'', ''expense''), (''icon'', ''utensils''),
         (''color'', ''#aa0000''), (''archived'', ''false''), (''updated_at'', ''1970-01-01T00:00:00Z'')])"
proof -
  obtain n e d' w' where run: "syncRow m_sync w_ctx m_client m_link m_ref m_pass m_db (\<lambda>_. None, {}) = ((n, e), d', w')"
    by (metis prod.exhaust)
  obtain s' where r: "n = 2" "e = None" "sync_row m_link EntityCategory 40 d' = Some s'" "\<not> state_Dirty s'" "\<not> st_Deleted s'"
    "rowOf m_sync w_ctx EntityCategory 40 d' = Inr (Some [(''id'', ''40''), (''name'', ''Dining''), (''kind'', ''expense''), (''icon'', ''utensils''),
      (''color'', ''#aa0000''), (''archived'', ''false''), (''updated_at'', ''1970-01-01T00:00:00Z'')])"
    using m_run by (auto simp: run split: option.splits)
  have ref: "mr_Entity m_ref = EntityCategory" "mr_ID m_ref = 40" by (simp_all add: m_ref_def)
  have k: "keyed sync_key (db_sync m_db)" by code_simp
  have d: "case sync_row m_link EntityCategory 40 m_db of None \<Rightarrow> False | Some s \<Rightarrow> state_Dirty s" by code_simp
  then obtain s where s: "sync_row m_link EntityCategory 40 m_db = Some s" "state_Dirty s" by (auto split: option.splits)
  have lib: "sy_lib m_sync = mem_lib" "sy_ports m_sync = boot_ports w_load 0 9" "sh_Categories (ln_Sheets m_link) = ''yasaku-categories''"
    "sy_String m_sync 40 = ''40''" by (simp_all add: m_sync_def) code_simp+
  have f: "only_marks m_sync w_ctx m_link EntityCategory 40 (pe_BeforeClaim (m_pass k))"
    "only_marks m_sync w_ctx m_link EntityCategory 40 (pe_BeforeRead (m_pass k))"
    "only_marks m_sync w_ctx m_link EntityCategory 40 (pe_BeforeSettle (m_pass k))" for k
    by (simp_all add: m_pass_def id_only_marks rename_only_marks)
  have "\<exists>target. mirror_target m_sync w_ctx EntityCategory 40 s' d' = Inr target \<and>
      sheet_shows (mem_tab m_client w' ''yasaku-categories'' ''40'') target"
    using settled_rows_show_the_current_state [of m_sync m_client "mem_tab m_client" "mem_used m_client" w_ctx m_link m_ref m_pass m_db s
        "(\<lambda>_. None, {})" n d' w' s'] mem_serves [of m_client] f k s r(3,4) run
    by (simp add: ref lib r(2) boot_ports_def mem_used_def)
  then show ?thesis using r(1,5,6) by (auto simp: run mirror_target_def)
qed

section \<open>A link set up again\<close>

text \<open>
  Deleting a link deletes its sync state, so after the link is set up again versions start at
  1 and the idempotency keys of the first link come up again.  The rows were cleared from the
  tab meanwhile: the job settles the row, and the tab stays without it.
\<close>

definition m_quiet :: "nat \<Rightarrow> pass_env" where
  "m_quiet k = (m_pass k)\<lparr>pe_BeforeSettle := id\<rparr>"

definition m_relinked :: "db \<Rightarrow> db" where
  "m_relinked d = snd (MarkAll 1 2 20 (snd (SaveLink m_link (snd (DeleteLink 1 2 d)))))"

lemma relinked_rows_can_stay_missing:
  "case syncRow m_sync w_ctx m_client m_link m_ref m_quiet m_db (\<lambda>_. None, {}) of ((n1, e1), d1, w1) \<Rightarrow>
   case syncRow m_sync w_ctx m_client m_link m_ref m_quiet (m_relinked d1) (\<lambda>_. None, snd w1) of ((n2, e2), d2, w2) \<Rightarrow>
     n1 = 1 \<and> e1 = None \<and> mem_tab m_client w1 ''yasaku-categories'' ''40'' \<noteq> None \<and>
     n2 = 1 \<and> e2 = None \<and> mem_tab m_client w2 ''yasaku-categories'' ''40'' = None \<and>
     (case sync_row m_link EntityCategory 40 d2 of None \<Rightarrow> False | Some s \<Rightarrow> \<not> state_Dirty s)"
  by code_simp

end
