(* ===== verification/LinkProperties.thy ===== *)
theory LinkProperties
  imports MirrorProperties
begin

text \<open>
  The links under every operation on them: a link is enabled only with settings whose
  sheets passed a test, and while fewer than three syncs in a row were refused.
\<close>

section \<open>The invariant\<close>







section \<open>The store\<close>


text \<open>A save replaces at most one row, by the link with the id and the age of the row it had.\<close>

definition like_link :: "Link \<Rightarrow> Link \<Rightarrow> bool" where
  "like_link l q \<longleftrightarrow> ln_OrgID q = ln_OrgID l \<and> ln_ProjectID q = ln_ProjectID l \<and> ln_OSOrg q = ln_OSOrg l \<and> ln_OSProject q = ln_OSProject l \<and>
     ln_Sheets q = ln_Sheets l \<and> ln_APIKeySealed q = ln_APIKeySealed l"

lemma like_link_refl [simp]: "like_link l l"
  by (simp add: like_link_def)










lemma submit_chunks_links: "db_links (snd (submit_chunks ok room projectID chunks i d)) = db_links d"
proof (induction chunks arbitrary: i d)
  case (Cons refs chunks)
  have "db_links (submit_job ok projectID refs d) = db_links d" by (simp add: submit_job_def)
  with Cons [of "i + 1" "submit_job ok projectID refs d"] show ?case by (simp add: case_prod_beta del: One_nat_def)
qed simp

lemma KickDirty_links [simp]: "db_links (KickDirty m room now c d) = db_links d"
  by (simp add: KickDirty_def mirror_submit_def submit_chunks_links split: sum.split)


section \<open>The calls\<close>








section \<open>Passed tests\<close>
























section \<open>All of them\<close>















end
