(* ===== verification/Outbox.thy ===== *)
theory Outbox
  imports Tenant "HOL-Library.Product_Lexorder"
begin

text \<open>
  The delivery queue of \<open>internal/platform/outbox\<close>: entries and their validation
  (\<open>outbox.go\<close>), the SQLite store (\<open>sqlite.go\<close>) and the dispatch worker
  (\<open>worker.go\<close>).  The table is the list of its rows.  Instants are stored as
  zero-padded text, whose order is that of time.  A claim returns the rows in
  table order; entries due at the same instant are taken in table order.
\<close>

section \<open>Entries\<close>

datatype outbox_Status = StatusPending | StatusDelivered | StatusFailed | StatusOther string

fun status_str :: "outbox_Status \<Rightarrow> string" where
  "status_str StatusPending = ''pending''"
| "status_str StatusDelivered = ''delivered''"
| "status_str StatusFailed = ''failed''"
| "status_str (StatusOther s) = s"

definition status_Valid :: "outbox_Status \<Rightarrow> bool" where
  "status_Valid s \<longleftrightarrow> s = StatusPending \<or> s = StatusDelivered \<or> s = StatusFailed"

definition Terminal :: "outbox_Status \<Rightarrow> bool" where
  "Terminal s \<longleftrightarrow> s = StatusDelivered \<or> s = StatusFailed"

definition MaxAttempts :: int where "MaxAttempts = 8"

definition ClaimLease :: int where "ClaimLease = 5 * 60 * 10 ^ 9"

definition MaxTargetLen :: nat where "MaxTargetLen = 255"

definition MaxClaimLimit :: int where "MaxClaimLimit = 1000"

definition outbox_MaxListLimit :: int where "outbox_MaxListLimit = 100"

definition MaxCauseLen :: int where "MaxCauseLen = 1024"

text \<open>The zero \<open>time.Time\<close>: the start of year 1.\<close>

definition time_Zero :: instant where "time_Zero = - 62135596800 * 10 ^ 9"

record Entry =
  e_ID :: uuid
  e_EventID :: uuid
  e_OrgID :: uuid
  e_ProjectID :: uuid
  e_Target :: string
  e_Payload :: string
  e_Attempt :: int
  e_NextAttemptAt :: instant
  e_Status :: outbox_Status
  e_LastError :: string
  e_CreatedAt :: instant

text \<open>A row holds one more column than an entry.\<close>

record outbox_row = Entry +
  e_DeliveredAt :: "instant option"

type_synonym outbox = "outbox_row list"

definition toEntry :: "outbox_row \<Rightarrow> Entry" where
  "toEntry r = Entry.truncate r"

definition BackoffBase :: "int \<Rightarrow> int" where
  "BackoffBase attempt =
     (if attempt \<le> 2 then 30 * 10 ^ 9
      else if attempt = 3 then 5 * 60 * 10 ^ 9
      else if attempt = 4 then 30 * 60 * 10 ^ 9
      else if attempt = 5 then 2 * 3600 * 10 ^ 9
      else if attempt = 6 then 5 * 3600 * 10 ^ 9
      else 10 * 3600 * 10 ^ 9)"

text \<open>The jitter is the draw \<open>rand.N(2*spread+1)\<close>, a number below that bound.\<close>

definition Backoff :: "int \<Rightarrow> int \<Rightarrow> int" where
  "Backoff jitter attempt = (let base = BackoffBase attempt; spread = base div 10 in base - spread + jitter)"

definition jitter_ok :: "int \<Rightarrow> int \<Rightarrow> bool" where
  "jitter_ok jitter attempt \<longleftrightarrow> 0 \<le> jitter \<and> jitter < 2 * (BackoffBase attempt div 10) + 1"

definition entry_validate :: "Entry \<Rightarrow> (err, unit) res" where
  "entry_validate e =
     (if e_ID e = uuid_Nil then Inl (EOutbox (InvalidEntryError ''ID'' ''must not be the zero uuid''))
      else if e_EventID e = uuid_Nil then Inl (EOutbox (InvalidEntryError ''EventID'' ''must not be the zero uuid''))
      else if e_OrgID e = uuid_Nil then Inl (EOutbox (InvalidEntryError ''OrgID'' ''must not be the zero uuid''))
      else if e_ProjectID e = uuid_Nil then Inl (EOutbox (InvalidEntryError ''ProjectID'' ''must not be the zero uuid''))
      else if e_Target e = [] then Inl (EOutbox (InvalidEntryError ''Target'' ''must not be empty''))
      else if length (e_Target e) > MaxTargetLen then Inl (EOutbox (InvalidEntryError ''Target'' ''exceeds the length limit''))
      else if status_str (e_Status e) \<noteq> '''' \<and> status_str (e_Status e) \<noteq> status_str StatusPending
      then Inl (EOutbox (InvalidEntryError ''Status'' ''a new entry is always pending''))
      else Inr ())"

definition clampLimit :: "int \<Rightarrow> int \<Rightarrow> int" where
  "clampLimit limit limitCap = min (max limit 1) limitCap"

definition claimBatch :: "int \<Rightarrow> int" where
  "claimBatch limit = clampLimit limit MaxClaimLimit"

definition listBatch :: "int \<Rightarrow> int" where
  "listBatch limit = clampLimit limit outbox_MaxListLimit"

definition TruncateCause :: "string \<Rightarrow> int \<Rightarrow> string" where
  "TruncateCause cause limit = ToValidUTF8 (take (nat (max limit 0)) cause) ''''"

definition truncateCause :: "string \<Rightarrow> string" where
  "truncateCause cause = TruncateCause cause MaxCauseLen"

section \<open>The store\<close>

definition pending_row :: "Entry \<Rightarrow> instant \<Rightarrow> instant \<Rightarrow> outbox_row" where
  "pending_row e due now = \<lparr>e_ID = e_ID e, e_EventID = e_EventID e, e_OrgID = e_OrgID e, e_ProjectID = e_ProjectID e,
     e_Target = e_Target e, e_Payload = e_Payload e, e_Attempt = 0, e_NextAttemptAt = due, e_Status = StatusPending,
     e_LastError = '''', e_CreatedAt = now, e_DeliveredAt = None\<rparr>"

definition same_delivery :: "Entry \<Rightarrow> outbox_row \<Rightarrow> bool" where
  "same_delivery e r \<longleftrightarrow> e_OrgID r = e_OrgID e \<and> e_EventID r = e_EventID e \<and> e_Target r = e_Target e"

definition Enqueue :: "instant \<Rightarrow> ctx \<Rightarrow> Entry \<Rightarrow> (outbox, unit) prog" where
  "Enqueue now c e d =
     (case entry_validate e of Inl err \<Rightarrow> (Inl err, d) | Inr _ \<Rightarrow>
     (case tenant_From c of Inl err \<Rightarrow> (Inl err, d) | Inr tc \<Rightarrow>
      if e_OrgID e \<noteq> tc_OrgID tc
      then (Inl (EOutbox (InvalidEntryError ''OrgID'' ''does not match the tenant scope on ctx'')), d)
      else if e_ProjectID e \<noteq> tc_ProjectID tc
      then (Inl (EOutbox (InvalidEntryError ''ProjectID'' ''does not match the tenant scope on ctx'')), d)
      else let due = (if e_NextAttemptAt e = time_Zero then now else e_NextAttemptAt e) in
      if list_ex (same_delivery e) d then (Inr (), d)
      else if find_row e_ID (e_ID e) d \<noteq> None then (Inl (Sql ConstraintUnique), d)
      else (Inr (), d @ [pending_row e due now])))"

definition exhausted :: "Tenant \<Rightarrow> instant \<Rightarrow> outbox_row \<Rightarrow> bool" where
  "exhausted tc now r \<longleftrightarrow> e_OrgID r = tc_OrgID tc \<and> e_Status r = StatusPending \<and> e_Attempt r \<ge> MaxAttempts \<and>
     e_NextAttemptAt r \<le> now"

definition reapExhausted :: "Tenant \<Rightarrow> instant \<Rightarrow> outbox \<Rightarrow> outbox" where
  "reapExhausted tc now d = map (\<lambda>r. if exhausted tc now r then r\<lparr>e_Status := StatusFailed\<rparr> else r) d"

definition entry_claimable :: "Tenant \<Rightarrow> instant \<Rightarrow> outbox_row \<Rightarrow> bool" where
  "entry_claimable tc now r \<longleftrightarrow> e_OrgID r = tc_OrgID tc \<and> e_Status r = StatusPending \<and> e_Attempt r < MaxAttempts \<and>
     e_NextAttemptAt r \<le> now"

definition due_ids :: "Tenant \<Rightarrow> instant \<Rightarrow> int \<Rightarrow> outbox \<Rightarrow> uuid list" where
  "due_ids tc now limit d = map e_ID (take (nat (claimBatch limit)) (sort_key e_NextAttemptAt (filter (entry_claimable tc now) d)))"

definition claimed :: "instant \<Rightarrow> outbox_row \<Rightarrow> outbox_row" where
  "claimed now r = r\<lparr>e_Attempt := e_Attempt r + 1, e_NextAttemptAt := now + ClaimLease\<rparr>"

definition ClaimDue :: "ctx \<Rightarrow> instant \<Rightarrow> int \<Rightarrow> (outbox, Entry list) prog" where
  "ClaimDue c now limit d =
     (case tenant_From c of Inl err \<Rightarrow> (Inl err, d) | Inr tc \<Rightarrow>
      let d1 = reapExhausted tc now d;
          due = due_ids tc now limit d1;
          hit = (\<lambda>r. e_OrgID r = tc_OrgID tc \<and> e_ID r \<in> set due)
      in (Inr (map (toEntry \<circ> claimed now) (filter hit d1)), map (\<lambda>r. if hit r then claimed now r else r) d1))"

definition claimedRow :: "Tenant \<Rightarrow> Entry \<Rightarrow> outbox_row \<Rightarrow> bool" where
  "claimedRow tc e r \<longleftrightarrow> e_OrgID r = tc_OrgID tc \<and> e_ID r = e_ID e \<and> e_Status r = StatusPending \<and> e_Attempt r = e_Attempt e"

definition refuseReason :: "Tenant \<Rightarrow> Entry \<Rightarrow> outbox \<Rightarrow> err" where
  "refuseReason tc e d =
     (case find (\<lambda>r. e_OrgID r = tc_OrgID tc \<and> e_ID r = e_ID e) d of
        None \<Rightarrow> EOutbox (EntryNotFoundError (e_ID e))
      | Some r \<Rightarrow> if e_Status r = StatusPending then EOutbox (StaleClaimError (e_ID e) (e_Attempt e) (e_Attempt r))
          else EOutbox (TerminalStateError (e_ID e) (status_str (e_Status r))))"

definition settle :: "Tenant \<Rightarrow> Entry \<Rightarrow> (outbox_row \<Rightarrow> outbox_row) \<Rightarrow> (outbox, unit) prog" where
  "settle tc e upd d =
     (if list_ex (claimedRow tc e) d then (Inr (), map (\<lambda>r. if claimedRow tc e r then upd r else r) d)
      else (Inl (refuseReason tc e d), d))"

definition delivered :: "instant \<Rightarrow> outbox_row \<Rightarrow> outbox_row" where
  "delivered at r = r\<lparr>e_Status := StatusDelivered, e_DeliveredAt := Some at, e_LastError := ''''\<rparr>"

definition Succeed :: "ctx \<Rightarrow> Entry \<Rightarrow> instant \<Rightarrow> (outbox, unit) prog" where
  "Succeed c e at d =
     (case tenant_From c of Inl err \<Rightarrow> (Inl err, d) | Inr tc \<Rightarrow> settle tc e (delivered at) d)"

definition undelivered :: "instant \<Rightarrow> string \<Rightarrow> outbox_row \<Rightarrow> outbox_row" where
  "undelivered retryAt cause r = r\<lparr>e_Status := (if e_Attempt r \<ge> MaxAttempts then StatusFailed else StatusPending),
     e_NextAttemptAt := retryAt, e_LastError := truncateCause cause\<rparr>"

definition Fail :: "ctx \<Rightarrow> Entry \<Rightarrow> instant \<Rightarrow> string \<Rightarrow> (outbox, unit) prog" where
  "Fail c e retryAt cause d =
     (case tenant_From c of Inl err \<Rightarrow> (Inl err, d) | Inr tc \<Rightarrow> settle tc e (undelivered retryAt cause) d)"

definition requeued :: "instant \<Rightarrow> outbox_row \<Rightarrow> outbox_row" where
  "requeued now r = r\<lparr>e_Status := StatusPending, e_Attempt := 0, e_NextAttemptAt := now, e_LastError := ''''\<rparr>"

definition failedRow :: "Tenant \<Rightarrow> uuid \<Rightarrow> string \<Rightarrow> outbox_row \<Rightarrow> bool" where
  "failedRow tc id' target r \<longleftrightarrow> e_OrgID r = tc_OrgID tc \<and> e_ID r = id' \<and> e_Target r = target \<and> e_Status r = StatusFailed"

definition refuseRequeue :: "Tenant \<Rightarrow> uuid \<Rightarrow> string \<Rightarrow> outbox \<Rightarrow> err" where
  "refuseRequeue tc id' target d =
     (case find (\<lambda>r. e_OrgID r = tc_OrgID tc \<and> e_ID r = id' \<and> e_Target r = target) d of
        None \<Rightarrow> EOutbox (EntryNotFoundError id')
      | Some r \<Rightarrow> EOutbox (NotFailedError id' (status_str (e_Status r))))"

definition Requeue :: "instant \<Rightarrow> ctx \<Rightarrow> uuid \<Rightarrow> string \<Rightarrow> (outbox, unit) prog" where
  "Requeue now c id' target d =
     (case tenant_From c of Inl err \<Rightarrow> (Inl err, d) | Inr tc \<Rightarrow>
      if list_ex (failedRow tc id' target) d
      then (Inr (), map (\<lambda>r. if failedRow tc id' target r then requeued now r else r) d)
      else (Inl (refuseRequeue tc id' target d), d))"

definition RequeueFailed :: "instant \<Rightarrow> ctx \<Rightarrow> string \<Rightarrow> (outbox, nat) prog" where
  "RequeueFailed now c target d =
     (case tenant_From c of Inl err \<Rightarrow> (Inl err, d) | Inr tc \<Rightarrow>
      let hit = (\<lambda>r. e_OrgID r = tc_OrgID tc \<and> e_Target r = target \<and> e_Status r = StatusFailed)
      in (Inr (length (filter hit d)), map (\<lambda>r. if hit r then requeued now r else r) d))"

definition outbox_ByID :: "ctx \<Rightarrow> uuid \<Rightarrow> string \<Rightarrow> outbox \<Rightarrow> (err, Entry) res" where
  "outbox_ByID c id' target d =
     (case tenant_From c of Inl err \<Rightarrow> Inl err | Inr tc \<Rightarrow>
     (case find (\<lambda>r. e_OrgID r = tc_OrgID tc \<and> e_ID r = id' \<and> e_Target r = target) d of
        None \<Rightarrow> Inl (EOutbox (EntryNotFoundError id')) | Some r \<Rightarrow> Inr (toEntry r)))"

definition ListByTarget :: "ctx \<Rightarrow> string \<Rightarrow> int \<Rightarrow> outbox \<Rightarrow> (err, Entry list) res" where
  "ListByTarget c target limit d =
     (case tenant_From c of Inl err \<Rightarrow> Inl err | Inr tc \<Rightarrow>
      Inr (map toEntry (take (nat (listBatch limit))
        (sort_key (\<lambda>r. (- e_CreatedAt r, - int (e_ID r)))
          (filter (\<lambda>r. e_OrgID r = tc_OrgID tc \<and> e_Target r = target) d)))))"

section \<open>The dispatch worker\<close>

text \<open>
  What a sweep meets outside the table: the outcome of delivering an entry
  (\<open>Some\<close> is the text of the error), the clock when its outcome is recorded, the
  jitter drawn, and whether the worker was cancelled before its delivery began.
\<close>

record delivery_env =
  de_Deliver :: "Entry \<Rightarrow> string option"
  de_Now :: "Entry \<Rightarrow> instant"
  de_Jitter :: "Entry \<Rightarrow> int"
  de_Cancelled :: "Entry \<Rightarrow> bool"

record WorkerOpts =
  wo_Tick :: int
  wo_Batch :: int
  wo_Concurrency :: int
  wo_SettleGrace :: int

definition NewWorker_opts :: "WorkerOpts \<Rightarrow> WorkerOpts" where
  "NewWorker_opts o' = \<lparr>wo_Tick = (if wo_Tick o' \<le> 0 then 5 * 10 ^ 9 else wo_Tick o'),
     wo_Batch = (if wo_Batch o' \<le> 0 then 100 else wo_Batch o'),
     wo_Concurrency = (if wo_Concurrency o' \<le> 0 then 8 else wo_Concurrency o'),
     wo_SettleGrace = (if wo_SettleGrace o' \<le> 0 then 5 * 10 ^ 9 else wo_SettleGrace o')\<rparr>"

definition deliverOne :: "delivery_env \<Rightarrow> ctx \<Rightarrow> Entry \<Rightarrow> outbox \<Rightarrow> outbox" where
  "deliverOne env c e d =
     (case de_Deliver env e of
        None \<Rightarrow> snd (Succeed c e (de_Now env e) d)
      | Some cause \<Rightarrow> snd (Fail c e (de_Now env e + Backoff (de_Jitter env e) (e_Attempt e + 1)) cause d))"

definition deliver_all :: "delivery_env \<Rightarrow> ctx \<Rightarrow> Entry list \<Rightarrow> outbox \<Rightarrow> outbox" where
  "deliver_all env c es d = fold (\<lambda>e d. if de_Cancelled env e then d else deliverOne env c e d) es d"

definition drain :: "delivery_env \<Rightarrow> WorkerOpts \<Rightarrow> instant \<Rightarrow> ctx \<Rightarrow> outbox \<Rightarrow> outbox" where
  "drain env opts now c d =
     (case ClaimDue c now (wo_Batch opts) d of
        (Inl _, d') \<Rightarrow> d'
      | (Inr es, d') \<Rightarrow> deliver_all env c es d')"

text \<open>A sweep visits the tenants in turn, and stops after the one during which the worker was cancelled.\<close>

fun sweep :: "delivery_env \<Rightarrow> WorkerOpts \<Rightarrow> (ctx \<times> instant \<times> bool) list \<Rightarrow> outbox \<Rightarrow> outbox" where
  "sweep env opts [] d = d"
| "sweep env opts ((c, now, cancelled) # cs) d =
     (let d' = drain env opts now c d in if cancelled then d' else sweep env opts cs d')"

end
