(* ===== verification/OutboxSteps.thy ===== *)
theory OutboxSteps
  imports Outbox
begin

text \<open>
  The life of an entry.  \<open>row_dispatch\<close> and \<open>row_step\<close> are the transitions of one
  row; every operation of the store moves each row by at most one of them and
  adds at most one new row, so the invariants of the table are proved row by row.
\<close>

section \<open>The transitions of a row\<close>

inductive row_dispatch :: "outbox_row \<Rightarrow> outbox_row \<Rightarrow> bool" where
  reap: "e_Status r = StatusPending \<Longrightarrow> e_Attempt r \<ge> MaxAttempts \<Longrightarrow> row_dispatch r (r\<lparr>e_Status := StatusFailed\<rparr>)"
| claim: "e_Status r = StatusPending \<Longrightarrow> e_Attempt r < MaxAttempts \<Longrightarrow> e_NextAttemptAt r \<le> now \<Longrightarrow> row_dispatch r (claimed now r)"
| deliver: "e_Status r = StatusPending \<Longrightarrow> row_dispatch r (delivered at r)"
| undeliver: "e_Status r = StatusPending \<Longrightarrow> row_dispatch r (undelivered retryAt cause r)"

inductive row_step :: "outbox_row \<Rightarrow> outbox_row \<Rightarrow> bool" where
  dispatch: "row_dispatch r r' \<Longrightarrow> row_step r r'"
| requeue: "e_Status r = StatusFailed \<Longrightarrow> row_step r (requeued now r)"

lemmas row_upd_defs = claimed_def delivered_def undelivered_def requeued_def

text \<open>What identifies a delivery never changes.\<close>

definition same_entry :: "outbox_row \<Rightarrow> outbox_row \<Rightarrow> bool" where
  "same_entry r r' \<longleftrightarrow> e_ID r' = e_ID r \<and> e_EventID r' = e_EventID r \<and> e_OrgID r' = e_OrgID r \<and> e_ProjectID r' = e_ProjectID r \<and>
     e_Target r' = e_Target r \<and> e_Payload r' = e_Payload r \<and> e_CreatedAt r' = e_CreatedAt r"

lemma row_step_same: "row_step r r' \<Longrightarrow> same_entry r r'"
  by (induction rule: row_step.induct) (auto elim!: row_dispatch.cases simp: same_entry_def row_upd_defs)

lemma row_steps_same: "row_step\<^sup>*\<^sup>* r r' \<Longrightarrow> same_entry r r'"
  by (induction rule: rtranclp_induct) (auto simp: same_entry_def dest!: row_step_same)

definition row_ok :: "outbox_row \<Rightarrow> bool" where
  "row_ok r \<longleftrightarrow> status_Valid (e_Status r) \<and> 0 \<le> e_Attempt r \<and> e_Attempt r \<le> MaxAttempts \<and>
     (e_DeliveredAt r \<noteq> None \<longleftrightarrow> e_Status r = StatusDelivered) \<and>
     (e_Status r = StatusFailed \<longrightarrow> e_Attempt r = MaxAttempts)"

lemma row_dispatch_ok: "row_dispatch r r' \<Longrightarrow> row_ok r \<Longrightarrow> row_ok r'"
proof (induction rule: row_dispatch.induct)
  case (undeliver r retryAt cause)
  then show ?case by (cases "e_Attempt r \<ge> MaxAttempts") (simp_all add: row_ok_def undelivered_def status_Valid_def)
qed (simp_all add: row_ok_def claimed_def delivered_def status_Valid_def)

lemma row_step_ok: "row_step r r' \<Longrightarrow> row_ok r \<Longrightarrow> row_ok r'"
proof (induction rule: row_step.induct)
  case (requeue r now)
  then show ?case by (simp add: row_ok_def requeued_def status_Valid_def MaxAttempts_def)
qed (rule row_dispatch_ok)

lemma row_dispatch_attempt: "row_dispatch r r' \<Longrightarrow> e_Attempt r \<le> e_Attempt r'"
  by (induction rule: row_dispatch.induct) (auto simp: row_upd_defs)

lemma row_dispatches_attempt: "row_dispatch\<^sup>*\<^sup>* r r' \<Longrightarrow> e_Attempt r \<le> e_Attempt r'"
  by (induction rule: rtranclp_induct) (auto dest: row_dispatch_attempt)

lemma delivered_final: "row_step r r' \<Longrightarrow> e_Status r \<noteq> StatusDelivered"
  by (auto elim!: row_step.cases row_dispatch.cases)

lemma delivered_stays: "row_step\<^sup>*\<^sup>* r r' \<Longrightarrow> e_Status r = StatusDelivered \<Longrightarrow> r' = r"
  by (induction rule: converse_rtranclp_induct) (auto dest: delivered_final)

section \<open>Tables\<close>

text \<open>A table grows by new rows while its old rows move by \<open>R\<close>.\<close>

definition grows :: "(outbox_row \<Rightarrow> outbox_row \<Rightarrow> bool) \<Rightarrow> outbox \<Rightarrow> outbox \<Rightarrow> bool" where
  "grows R d d' \<longleftrightarrow> (\<exists>xs new. d' = xs @ new \<and> list_all2 R\<^sup>*\<^sup>* d xs)"

lemma grows_refl [simp]: "grows R d d"
  unfolding grows_def by (intro exI [of _ d] exI [of _ "[]"]) (simp add: list.rel_refl)

lemma grows_trans:
  assumes "grows R d1 d2" "grows R d2 d3"
  shows "grows R d1 d3"
proof -
  obtain xs n1 ys n2 where "d2 = xs @ n1" "list_all2 R\<^sup>*\<^sup>* d1 xs" "d3 = ys @ n2" "list_all2 R\<^sup>*\<^sup>* d2 ys"
    using assms by (auto simp: grows_def)
  moreover from this obtain zs ws where "ys = zs @ ws" "list_all2 R\<^sup>*\<^sup>* xs zs"
    by (auto simp: list_all2_append1)
  ultimately have "d3 = zs @ (ws @ n2)" "list_all2 R\<^sup>*\<^sup>* d1 zs"
    by (auto intro: list_all2_trans [where ?P1.0 = "R\<^sup>*\<^sup>*" and ?P2.0 = "R\<^sup>*\<^sup>*"])
  then show ?thesis unfolding grows_def by blast
qed

lemma grows_map:
  assumes "\<And>r. r \<in> set d \<Longrightarrow> f r = r \<or> R r (f r)"
  shows "grows R d (map f d)"
proof -
  have "list_all2 R\<^sup>*\<^sup>* d (map f d)"
    using assms by (auto simp: list_all2_conv_all_nth) (metis nth_mem r_into_rtranclp rtranclp.rtrancl_refl)
  then show ?thesis unfolding grows_def by (intro exI [of _ "map f d"] exI [of _ "[]"]) simp
qed

lemma grows_append: "grows R d (d @ new)"
  unfolding grows_def by (intro exI [of _ d] exI [of _ new]) (simp add: list.rel_refl)

lemma grows_mono:
  assumes "grows R d d'" "\<And>r r'. R r r' \<Longrightarrow> S r r'"
  shows "grows S d d'"
proof -
  have "S\<^sup>*\<^sup>* r r'" if "R\<^sup>*\<^sup>* r r'" for r r'
    using rtranclp_mono [of R S] assms(2) that by blast
  then show ?thesis using assms(1) by (auto simp: grows_def intro: list_all2_mono)
qed

lemma grows_row:
  assumes "grows R d d'" "r \<in> set d"
  obtains r' where "r' \<in> set d'" "R\<^sup>*\<^sup>* r r'"
  using assms by (auto simp: grows_def in_set_conv_nth list_all2_conv_all_nth) (metis nth_append nth_mem trans_less_add1 length_append)

text \<open>The invariant of the table: rows are well formed, ids are unique, and no delivery is queued twice.\<close>

abbreviation delivery_key :: "outbox_row \<Rightarrow> uuid \<times> uuid \<times> string" where
  "delivery_key r \<equiv> (e_OrgID r, e_EventID r, e_Target r)"

definition outbox_inv :: "outbox \<Rightarrow> bool" where
  "outbox_inv d \<longleftrightarrow> (\<forall>r \<in> set d. row_ok r) \<and> keyed e_ID d \<and> keyed delivery_key d"

lemma outbox_invD:
  assumes "outbox_inv d"
  shows "\<And>r. r \<in> set d \<Longrightarrow> row_ok r" "keyed e_ID d" "keyed delivery_key d"
  using assms by (auto simp: outbox_inv_def)

lemma outbox_inv_map:
  assumes "outbox_inv d" "\<And>r. r \<in> set d \<Longrightarrow> f r = r \<or> row_step r (f r)"
  shows "outbox_inv (map f d)"
proof -
  have "same_entry r (f r)" if "r \<in> set d" for r
    using assms(2) [OF that] row_step_same by (auto simp: same_entry_def)
  then have k: "map e_ID (map f d) = map e_ID d" "map delivery_key (map f d) = map delivery_key d"
    by (auto simp: same_entry_def)
  have "row_ok (f r)" if "r \<in> set d" for r
    using assms(2) [OF that] outbox_invD(1) [OF assms(1) that] row_step_ok by metis
  then show ?thesis using outbox_invD(2,3) [OF assms(1)] unfolding outbox_inv_def k by simp
qed

section \<open>The operations\<close>

lemma row_dispatch_reap: "exhausted tc now r \<Longrightarrow> row_dispatch r (r\<lparr>e_Status := StatusFailed\<rparr>)"
  by (auto simp: exhausted_def intro: row_dispatch.reap)

lemma row_dispatch_claim: "entry_claimable tc now r \<Longrightarrow> row_dispatch r (claimed now r)"
  by (auto simp: entry_claimable_def intro: row_dispatch.claim)

lemma due_ids_claimable:
  assumes "keyed e_ID d" "r \<in> set d" "e_ID r \<in> set (due_ids tc now limit d)"
  shows "entry_claimable tc now r"
proof -
  obtain q where "q \<in> set d" "entry_claimable tc now q" "e_ID q = e_ID r"
    using assms(3) by (auto simp: due_ids_def dest!: in_set_takeD)
  then show ?thesis using assms(1,2) by (metis distinct_map inj_onD)
qed

text \<open>One claim moves each row at most once: it reaps it, or claims it, or leaves it.\<close>

definition claim_row :: "Tenant \<Rightarrow> instant \<Rightarrow> uuid list \<Rightarrow> outbox_row \<Rightarrow> outbox_row" where
  "claim_row tc now due r =
     (if exhausted tc now r then r\<lparr>e_Status := StatusFailed\<rparr>
      else if entry_claimable tc now r \<and> e_ID r \<in> set due then claimed now r else r)"

lemma not_exhausted_claimable: "entry_claimable tc now r \<Longrightarrow> \<not> exhausted tc now r"
  by (auto simp: entry_claimable_def exhausted_def)

lemma reaped_not_claimable: "exhausted tc now r \<Longrightarrow> \<not> entry_claimable tc now (r\<lparr>e_Status := StatusFailed\<rparr>)"
  by (simp add: entry_claimable_def)

lemma reapExhausted_keys: "map e_ID (reapExhausted tc now d) = map e_ID d"
  by (simp add: reapExhausted_def)

lemma filter_claimable_reaped: "filter (entry_claimable tc now) (reapExhausted tc now d) = filter (entry_claimable tc now) d"
  by (induction d) (auto simp: reapExhausted_def entry_claimable_def exhausted_def)

lemma due_ids_reaped: "due_ids tc now limit (reapExhausted tc now d) = due_ids tc now limit d"
  by (simp add: due_ids_def filter_claimable_reaped)

lemma ClaimDue_eq:
  assumes k: "keyed e_ID d" and tc: "tenant_From c = Inr tc"
  shows "ClaimDue c now limit d =
    (Inr (map (toEntry \<circ> claimed now) (filter (\<lambda>r. entry_claimable tc now r \<and> e_ID r \<in> set (due_ids tc now limit d)) d)),
     map (claim_row tc now (due_ids tc now limit d)) d)"
proof -
  let ?due = "due_ids tc now limit d" and ?reap = "\<lambda>r. if exhausted tc now r then r\<lparr>e_Status := StatusFailed\<rparr> else r"
  let ?hit = "\<lambda>r. e_OrgID r = tc_OrgID tc \<and> e_ID r \<in> set ?due"
  have hit: "?hit r \<longleftrightarrow> entry_claimable tc now r \<and> e_ID r \<in> set ?due" if "r \<in> set d" for r
    using due_ids_claimable [OF k that] by (auto simp: entry_claimable_def)
  have fix1: "?hit (?reap r) \<longleftrightarrow> entry_claimable tc now r \<and> e_ID r \<in> set ?due" if "r \<in> set d" for r
    using hit [OF that] by auto
  have same: "?reap r = r" if "entry_claimable tc now r" for r using not_exhausted_claimable [OF that] by simp
  have "filter ?hit (reapExhausted tc now d) = map ?reap (filter (\<lambda>r. ?hit (?reap r)) d)"
    by (simp only: reapExhausted_def filter_map comp_def)
  also have "\<dots> = map ?reap (filter (\<lambda>r. entry_claimable tc now r \<and> e_ID r \<in> set ?due) d)"
    by (rule arg_cong [OF filter_cong [OF refl]]) (rule fix1)
  also have "\<dots> = filter (\<lambda>r. entry_claimable tc now r \<and> e_ID r \<in> set ?due) d"
    using same by (intro map_idI) auto
  finally have f: "filter ?hit (reapExhausted tc now d) = filter (\<lambda>r. entry_claimable tc now r \<and> e_ID r \<in> set ?due) d" .
  have "map (\<lambda>r. if ?hit r then claimed now r else r) (reapExhausted tc now d) = map (claim_row tc now ?due) d"
    unfolding reapExhausted_def map_map
  proof (rule map_cong [OF refl])
    fix r assume r: "r \<in> set d"
    show "((\<lambda>r. if ?hit r then claimed now r else r) \<circ> ?reap) r = claim_row tc now ?due r"
      using hit [OF r] by (auto simp: claim_row_def not_exhausted_claimable)
  qed
  then show ?thesis
    unfolding ClaimDue_def tc by (simp only: sum.case due_ids_reaped Let_def f)
qed

lemma claim_row_moves: "claim_row tc now due r = r \<or> row_dispatch r (claim_row tc now due r)"
  by (auto simp: claim_row_def row_dispatch_reap row_dispatch_claim)

text \<open>An operation that updates the rows that satisfy a condition.\<close>

lemma settle_cases:
  "settle tc e upd d = (x, d') \<Longrightarrow> d' = d \<and> (\<exists>err. x = Inl err) \<or> x = Inr () \<and> d' = map (\<lambda>r. if claimedRow tc e r then upd r else r) d"
  by (auto simp: settle_def split: if_splits)

lemma settle_map: "snd (settle tc e upd d) = map (\<lambda>r. if claimedRow tc e r then upd r else r) d"
  by (auto simp: settle_def list_ex_iff intro: map_idI [symmetric])

lemma claimedRow_pending: "claimedRow tc e r \<Longrightarrow> e_Status r = StatusPending"
  by (simp add: claimedRow_def)

definition settle_row :: "ctx \<Rightarrow> Entry \<Rightarrow> (outbox_row \<Rightarrow> outbox_row) \<Rightarrow> outbox_row \<Rightarrow> outbox_row" where
  "settle_row c e upd r = (case tenant_From c of Inl _ \<Rightarrow> r | Inr tc \<Rightarrow> if claimedRow tc e r then upd r else r)"

lemma Succeed_map: "snd (Succeed c e at d) = map (settle_row c e (delivered at)) d"
  unfolding Succeed_def settle_row_def [abs_def] by (cases "tenant_From c") (simp_all only: sum.case snd_conv settle_map map_ident)

lemma Fail_map: "snd (Fail c e retryAt cause d) = map (settle_row c e (undelivered retryAt cause)) d"
  unfolding Fail_def settle_row_def [abs_def] by (cases "tenant_From c") (simp_all only: sum.case snd_conv settle_map map_ident)

lemma settle_row_moves:
  assumes "\<And>r. e_Status r = StatusPending \<Longrightarrow> row_dispatch r (upd r)"
  shows "settle_row c e upd r = r \<or> row_dispatch r (settle_row c e upd r)"
  using assms claimedRow_pending by (auto simp: settle_row_def split: sum.splits)

lemma settles_move:
  "settle_row c e (delivered at) r = r \<or> row_dispatch r (settle_row c e (delivered at) r)"
  "settle_row c e (undelivered retryAt cause) r = r \<or> row_dispatch r (settle_row c e (undelivered retryAt cause) r)"
  by (rule settle_row_moves, erule row_dispatch.deliver) (rule settle_row_moves, erule row_dispatch.undeliver)

definition requeue_row :: "ctx \<Rightarrow> instant \<Rightarrow> (outbox_row \<Rightarrow> bool) \<Rightarrow> outbox_row \<Rightarrow> outbox_row" where
  "requeue_row c now P r = (case tenant_From c of Inl _ \<Rightarrow> r | Inr tc \<Rightarrow>
     if e_OrgID r = tc_OrgID tc \<and> P r \<and> e_Status r = StatusFailed then requeued now r else r)"

lemma Requeue_map:
  "snd (Requeue now c i target d) = map (requeue_row c now (\<lambda>r. e_ID r = i \<and> e_Target r = target)) d"
proof (cases "tenant_From c")
  case (Inr tc)
  show ?thesis
    unfolding Requeue_def Inr sum.case
    by (auto simp: requeue_row_def [abs_def] Inr [simplified] Inr failedRow_def list_ex_iff intro!: map_cong map_idI [symmetric]) 
qed (simp add: Requeue_def requeue_row_def [abs_def])

lemma RequeueFailed_map:
  "snd (RequeueFailed now c target d) = map (requeue_row c now (\<lambda>r. e_Target r = target)) d"
proof (cases "tenant_From c")
  case (Inr tc)
  show ?thesis unfolding RequeueFailed_def requeue_row_def [abs_def] Inr sum.case Let_def by (auto intro!: map_cong)
qed (simp add: RequeueFailed_def requeue_row_def [abs_def])

lemma requeue_row_moves: "requeue_row c now P r = r \<or> row_step r (requeue_row c now P r)"
  by (auto simp: requeue_row_def row_step.requeue split: sum.splits)

lemma Enqueue_cases:
  "snd (Enqueue now c e d) = d \<or>
   (\<exists>due. snd (Enqueue now c e d) = d @ [pending_row e due now] \<and> e_ID e \<notin> e_ID ` set d \<and>
     (e_OrgID e, e_EventID e, e_Target e) \<notin> delivery_key ` set d)"
proof (cases "entry_validate e")
  case (Inr u)
  show ?thesis
  proof (cases "tenant_From c")
    case (Inl err)
    then show ?thesis using Inr by (simp add: Enqueue_def)
  next
    case tc: (Inr tc)
    show ?thesis
      unfolding Enqueue_def Inr tc sum.case Let_def
      by (auto simp: list_ex_iff same_delivery_def find_row_None image_iff)
  qed
qed (simp add: Enqueue_def)

lemma Enqueue_inv: "outbox_inv d \<Longrightarrow> outbox_inv (snd (Enqueue now c e d))"
  using Enqueue_cases [of now c e d]
  by (auto simp: outbox_inv_def pending_row_def row_ok_def status_Valid_def MaxAttempts_def)
section \<open>The state machine of the table\<close>

text \<open>\<open>dispatch_step\<close> is what producers and workers do; \<open>outbox_step\<close> adds the operator's requeues.\<close>

inductive dispatch_step :: "outbox \<Rightarrow> outbox \<Rightarrow> bool" where
  enqueue: "Enqueue now c e d = (x, d') \<Longrightarrow> dispatch_step d d'"
| claim: "ClaimDue c now limit d = (x, d') \<Longrightarrow> dispatch_step d d'"
| succeed: "Succeed c e at d = (x, d') \<Longrightarrow> dispatch_step d d'"
| fail: "Fail c e retryAt cause d = (x, d') \<Longrightarrow> dispatch_step d d'"

inductive outbox_step :: "outbox \<Rightarrow> outbox \<Rightarrow> bool" where
  dispatch: "dispatch_step d d' \<Longrightarrow> outbox_step d d'"
| requeue: "Requeue now c i target d = (x, d') \<Longrightarrow> outbox_step d d'"
| requeue_failed: "RequeueFailed now c target d = (x, d') \<Longrightarrow> outbox_step d d'"

inductive outbox_reachable :: "outbox \<Rightarrow> bool" where
  empty: "outbox_reachable []"
| step: "outbox_reachable d \<Longrightarrow> outbox_step d d' \<Longrightarrow> outbox_reachable d'"

lemma ClaimDue_map:
  assumes "keyed e_ID d" "ClaimDue c now limit d = (x, d')"
  shows "d' = d \<or> (\<exists>tc due. d' = map (claim_row tc now due) d)"
proof (cases "tenant_From c")
  case (Inr tc)
  then show ?thesis using assms(2) ClaimDue_eq [OF assms(1) Inr, of now limit] by auto
qed (use assms(2) in \<open>simp add: ClaimDue_def\<close>)

text \<open>Every step maps the rows by a function that moves each at most once, or adds one new row.\<close>

lemma dispatch_step_map:
  assumes "dispatch_step d d'" "keyed e_ID d"
  obtains f where "d' = map f d" "\<And>r. f r = r \<or> row_dispatch r (f r)"
  | now c e where "d' = snd (Enqueue now c e d)" "\<exists>new. d' = d @ new"
  using assms(1)
proof cases
  case (enqueue now c e x)
  then have "d' = snd (Enqueue now c e d)" by simp
  moreover from this have "\<exists>new. d' = d @ new" using Enqueue_cases [of now c e d] by auto
  ultimately show ?thesis by (rule that(2))
next
  case (claim c now limit x)
  then consider "d' = map (\<lambda>r. r) d" | tc due where "d' = map (claim_row tc now due) d"
    using ClaimDue_map [OF assms(2)] by fastforce
  then show ?thesis by cases (rule that(1), assumption, (rule disjI1 [OF refl] | rule claim_row_moves))+
next
  case (succeed c e at x)
  then have "d' = map (settle_row c e (delivered at)) d" using Succeed_map [of c e at d] by simp
  from that(1) [OF this] show ?thesis using settles_move(1) by blast
next
  case (fail c e retryAt cause x)
  then have "d' = map (settle_row c e (undelivered retryAt cause)) d" using Fail_map [of c e retryAt cause d] by simp
  from that(1) [OF this] show ?thesis using settles_move(2) by blast
qed

lemma dispatch_step_effect:
  assumes "dispatch_step d d'" "outbox_inv d"
  shows "outbox_inv d'" "grows row_dispatch d d'"
proof -
  have "outbox_inv d' \<and> grows row_dispatch d d'"
    using assms(1) outbox_invD(2) [OF assms(2)]
  proof (cases rule: dispatch_step_map)
    case (1 f)
    then show ?thesis using outbox_inv_map [OF assms(2), of f] grows_map [of d f row_dispatch] row_step.dispatch by metis
  next
    case (2 now c e)
    then show ?thesis using Enqueue_inv [OF assms(2), of now c e] grows_append by metis
  qed
  then show "outbox_inv d'" "grows row_dispatch d d'" by simp_all
qed

lemma outbox_step_effect:
  assumes "outbox_step d d'" "outbox_inv d"
  shows "outbox_inv d' \<and> grows row_step d d'"
  using assms(1)
proof cases
  case dispatch
  then show ?thesis using dispatch_step_effect [OF _ assms(2)] grows_mono [of row_dispatch d d' row_step] row_step.dispatch by blast
next
  case (requeue now c i target x)
  then have "d' = map (requeue_row c now (\<lambda>r. e_ID r = i \<and> e_Target r = target)) d"
    using Requeue_map [of now c i target d] by simp
  then show ?thesis using outbox_inv_map [OF assms(2)] grows_map requeue_row_moves by metis
next
  case (requeue_failed now c target x)
  then have "d' = map (requeue_row c now (\<lambda>r. e_Target r = target)) d"
    using RequeueFailed_map [of now c target d] by simp
  then show ?thesis using outbox_inv_map [OF assms(2)] grows_map requeue_row_moves by metis
qed

lemma outbox_reachable_inv: "outbox_reachable d \<Longrightarrow> outbox_inv d"
proof (induction rule: outbox_reachable.induct)
  case empty
  show ?case by (simp add: outbox_inv_def)
qed (use outbox_step_effect in blast)

lemma outbox_steps_effect:
  "outbox_step\<^sup>*\<^sup>* d d' \<Longrightarrow> outbox_inv d \<Longrightarrow> outbox_inv d' \<and> grows row_step d d'"
proof (induction rule: rtranclp_induct)
  case (step d1 d2)
  then show ?case using outbox_step_effect [of d1 d2] grows_trans [of row_step d d1 d2] by simp
qed simp

lemma dispatch_steps_effect:
  "dispatch_step\<^sup>*\<^sup>* d d' \<Longrightarrow> outbox_inv d \<Longrightarrow> outbox_inv d' \<and> grows row_dispatch d d'"
proof (induction rule: rtranclp_induct)
  case (step d1 d2)
  then show ?case using dispatch_step_effect [of d1 d2] grows_trans [of row_dispatch d d1 d2] by simp
qed simp

text \<open>What a claim hands out.\<close>

lemma ClaimDue_entry:
  assumes inv: "outbox_inv d" and c: "ClaimDue c now limit d = (Inr es, d')" and e: "e \<in> set es"
  obtains tc r where "tenant_From c = Inr tc" "r \<in> set d" "entry_claimable tc now r" "e = toEntry (claimed now r)"
    "claimed now r \<in> set d'"
proof (cases "tenant_From c")
  case (Inl err)
  then show ?thesis using c by (simp add: ClaimDue_def)
next
  case (Inr tc)
  note eq = ClaimDue_eq [OF outbox_invD(2) [OF inv] Inr, of now limit]
  let ?due = "due_ids tc now limit d"
  have es: "es = map (toEntry \<circ> claimed now) (filter (\<lambda>r. entry_claimable tc now r \<and> e_ID r \<in> set ?due) d)"
    and d': "d' = map (claim_row tc now ?due) d" using c unfolding eq by simp_all
  obtain r where r: "r \<in> set d" "entry_claimable tc now r" "e_ID r \<in> set ?due" "e = toEntry (claimed now r)"
    using e unfolding es by auto
  have "claim_row tc now ?due r = claimed now r" using r not_exhausted_claimable by (simp add: claim_row_def)
  then have "claimed now r \<in> set d'" using r(1) unfolding d' by force
  then show ?thesis using that Inr r by blast
qed

lemma toEntry_fields [simp]:
  "e_ID (toEntry r) = e_ID r" "e_Attempt (toEntry r) = e_Attempt r" "e_OrgID (toEntry r) = e_OrgID r"
  "e_Status (toEntry r) = e_Status r" "e_Target (toEntry r) = e_Target r" "e_NextAttemptAt (toEntry r) = e_NextAttemptAt r"
  by (simp_all add: toEntry_def Entry.truncate_def)

lemma row_by_id: "outbox_inv d \<Longrightarrow> r \<in> set d \<Longrightarrow> r' \<in> set d \<Longrightarrow> e_ID r = e_ID r' \<Longrightarrow> r = r'"
  by (metis distinct_map inj_onD outbox_invD(2))

end
