(* ===== verification/OutboxProperties.thy ===== *)
theory OutboxProperties
  imports OutboxSteps
begin

text \<open>The properties of the delivery queue: its invariant, leases and fencing, termination, and the dispatch worker.\<close>

section \<open>Concrete entries\<close>

definition o_ctx :: ctx where
  "o_ctx = \<lparr>ctx_tenant = Some \<lparr>tc_OrgID = 1, tc_ProjectID = 2, tc_UserID = 3\<rparr>, ctx_principal = None, ctx_uow = False\<rparr>"

definition o_entry :: Entry where
  "o_entry = \<lparr>e_ID = 7, e_EventID = 8, e_OrgID = 1, e_ProjectID = 2, e_Target = ''t'', e_Payload = ''{}'', e_Attempt = 0,
     e_NextAttemptAt = 100, e_Status = StatusOther '''', e_LastError = '''', e_CreatedAt = 0\<rparr>"

definition o_db :: outbox where "o_db = snd (Enqueue 50 o_ctx o_entry [])"

lemma o_db_reachable: "outbox_reachable o_db"
  unfolding o_db_def
  by (rule outbox_reachable.step [OF outbox_reachable.empty], rule outbox_step.dispatch,
      rule dispatch_step.enqueue [OF prod.collapse [symmetric]])

section \<open>The invariant\<close>

text \<open>C16: Whatever sequence of enqueues, claims, settlements and requeues ran, every entry is pending, delivered
  or failed, has been attempted at most eight times, is marked with a delivery time exactly when delivered, is failed only
  after all attempts, and no event is queued twice for one target.\<close>

theorem outbox_stays_well_formed:
  assumes "outbox_reachable d"
  shows "(\<forall>r \<in> set d. status_Valid (e_Status r) \<and> 0 \<le> e_Attempt r \<and> e_Attempt r \<le> MaxAttempts \<and>
      (e_DeliveredAt r \<noteq> None \<longleftrightarrow> e_Status r = StatusDelivered) \<and> (e_Status r = StatusFailed \<longrightarrow> e_Attempt r = MaxAttempts)) \<and>
    distinct (map e_ID d) \<and> distinct (map (\<lambda>r. (e_OrgID r, e_EventID r, e_Target r)) d)"
  using outbox_reachable_inv [OF assms] by (simp add: outbox_inv_def row_ok_def)

theorem outbox_stays_well_formed_witness: "length o_db = 1 \<and> distinct (map e_ID o_db)"
proof -
  have "length o_db = 1" by code_simp
  then show ?thesis using outbox_stays_well_formed [OF o_db_reachable] by blast
qed

section \<open>Leases and fencing\<close>

text \<open>
  The steps that cannot settle entry \<open>i\<close>, with every claim made before \<open>t\<close>: other
  producers and other workers while the holder of \<open>i\<close> works.
\<close>

inductive quiet_step :: "uuid \<Rightarrow> instant \<Rightarrow> outbox \<Rightarrow> outbox \<Rightarrow> bool" for i t where
  enqueue: "Enqueue now c e d = (x, d') \<Longrightarrow> quiet_step i t d d'"
| claim: "ClaimDue c now limit d = (x, d') \<Longrightarrow> now < t \<Longrightarrow> quiet_step i t d d'"
| succeed: "Succeed c e at d = (x, d') \<Longrightarrow> e_ID e \<noteq> i \<Longrightarrow> quiet_step i t d d'"
| fail: "Fail c e retryAt cause d = (x, d') \<Longrightarrow> e_ID e \<noteq> i \<Longrightarrow> quiet_step i t d d'"

lemma quiet_dispatch: "quiet_step i t d d' \<Longrightarrow> dispatch_step d d'"
  by (induction rule: quiet_step.induct) (auto intro: dispatch_step.intros)

lemma settle_row_other: "e_ID e \<noteq> e_ID r \<Longrightarrow> settle_row c e upd r = r"
  by (auto simp: settle_row_def claimedRow_def split: sum.splits)

lemma claim_row_leased: "now < e_NextAttemptAt r \<Longrightarrow> claim_row tc now due r = r"
  by (simp add: claim_row_def exhausted_def entry_claimable_def)

lemma fixed_in_map: "r \<in> set d \<Longrightarrow> f r = r \<Longrightarrow> r \<in> set (map f d)"
  by force

lemma quiet_keeps_row:
  assumes "quiet_step (e_ID r) (e_NextAttemptAt r) d d'" "outbox_inv d" "r \<in> set d"
  shows "r \<in> set d'"
  using assms(1)
proof cases
  case (enqueue now c e x)
  then show ?thesis using Enqueue_cases [of now c e d] assms(3) by auto
next
  case (claim c now limit x)
  then consider "d' = d" | tc due where "d' = map (claim_row tc now due) d"
    using ClaimDue_map [OF outbox_invD(2) [OF assms(2)]] by metis
  then show ?thesis
  proof cases
    case (2 tc due)
    then show ?thesis using fixed_in_map [where f = "claim_row tc now due", OF assms(3) claim_row_leased [OF claim(2)]] by simp
  qed (use assms(3) in simp)
next
  case (succeed c e at x)
  then have "d' = map (settle_row c e (delivered at)) d" using Succeed_map [of c e at d] by simp
  then show ?thesis using fixed_in_map [where f = "settle_row c e (delivered at)", OF assms(3) settle_row_other [OF succeed(2)]] by simp
next
  case (fail c e retryAt cause x)
  then have "d' = map (settle_row c e (undelivered retryAt cause)) d" using Fail_map [of c e retryAt cause d] by simp
  then show ?thesis using fixed_in_map [where f = "settle_row c e (undelivered retryAt cause)", OF assms(3) settle_row_other [OF fail(2)]] by simp
qed

lemma quiet_keeps_rows:
  assumes "(quiet_step (e_ID r) (e_NextAttemptAt r))\<^sup>*\<^sup>* d d'" "outbox_inv d" "r \<in> set d"
  shows "outbox_inv d' \<and> r \<in> set d'"
  using assms(1)
proof (induction rule: rtranclp_induct)
  case (step d1 d2)
  then show ?case
    using quiet_keeps_row [of r d1 d2] dispatch_step_effect(1) [OF quiet_dispatch, of "e_ID r" "e_NextAttemptAt r" d1 d2] by blast
qed (use assms in simp)

text \<open>C17: A claim is exclusive for five minutes: until the lease of a claimed entry runs out, no claim by
  anyone returns that entry again, whatever is enqueued, claimed or settled for other entries in between.\<close>

theorem claims_are_exclusive:
  assumes "outbox_reachable d" and "ClaimDue c now limit d = (Inr es, d1)" and "e \<in> set es"
    and "(quiet_step (e_ID e) (now + ClaimLease))\<^sup>*\<^sup>* d1 d2"
    and "ClaimDue c' now' limit' d2 = (Inr es', d3)" and "now' < now + ClaimLease"
  shows "e_ID e \<notin> e_ID ` set es'"
proof
  note inv = outbox_reachable_inv [OF assms(1)]
  obtain tc r where r: "r \<in> set d" "entry_claimable tc now r" "e = toEntry (claimed now r)" "claimed now r \<in> set d1"
    by (rule ClaimDue_entry [OF inv assms(2,3)])
  have inv1: "outbox_inv d1" using dispatch_step_effect(1) [OF dispatch_step.claim [OF assms(2)] inv] .
  have e: "e_ID e = e_ID (claimed now r)" "now + ClaimLease = e_NextAttemptAt (claimed now r)"
    using r(3) by (simp_all add: claimed_def)
  have q: "outbox_inv d2" "claimed now r \<in> set d2"
    using quiet_keeps_rows [OF _ inv1 r(4)] assms(4) unfolding e by blast+
  assume "e_ID e \<in> e_ID ` set es'"
  then obtain e' where e': "e' \<in> set es'" "e_ID e' = e_ID e" by auto
  obtain tc' r' where r': "r' \<in> set d2" "entry_claimable tc' now' r'" "e' = toEntry (claimed now' r')"
    by (rule ClaimDue_entry [OF q(1) assms(5) e'(1)])
  have "r' = claimed now r"
    using row_by_id [OF q(1) r'(1) q(2)] e' e(1) r'(3) by (simp add: claimed_def)
  then show False using r'(2) assms(6) e(2) by (simp add: entry_claimable_def)
qed

theorem claims_are_exclusive_witness:
  "e_ID (hd (projr (fst (ClaimDue o_ctx 200 5 o_db)))) = 7 \<and>
   7 \<notin> e_ID ` set (projr (fst (ClaimDue o_ctx 300 5 (snd (ClaimDue o_ctx 200 5 o_db)))))"
proof -
  let ?r = "ClaimDue o_ctx 200 5 o_db" and ?s = "ClaimDue o_ctx 300 5 (snd (ClaimDue o_ctx 200 5 o_db))"
  have r: "?r = (Inr (projr (fst ?r)), snd ?r)" "?s = (Inr (projr (fst ?s)), snd ?s)" by code_simp+
  have e: "hd (projr (fst ?r)) \<in> set (projr (fst ?r))" "e_ID (hd (projr (fst ?r))) = 7" "300 < 200 + ClaimLease" by code_simp+
  show ?thesis
    using claims_are_exclusive [OF o_db_reachable r(1) e(1) rtranclp.rtrancl_refl r(2) e(3)] e(2) by simp
qed

text \<open>A settlement is fenced by its claim: once another claim took the entry over, the earlier holder can
  neither deliver nor fail it, whatever else workers and producers did since; the table stays as it is.\<close>

theorem stale_claims_cannot_settle:
  assumes "outbox_reachable d" and "ClaimDue c now limit d = (Inr es, d1)" and "e \<in> set es"
    and "dispatch_step\<^sup>*\<^sup>* d1 d2" and "ClaimDue c' now' limit' d2 = (Inr es', d3)" and "e' \<in> set es'" and "e_ID e' = e_ID e"
    and "dispatch_step\<^sup>*\<^sup>* d3 d4"
  shows "(\<exists>err. Succeed c'' e at d4 = (Inl err, d4)) \<and> (\<exists>err. Fail c'' e retryAt cause d4 = (Inl err, d4))"
proof -
  note inv = outbox_reachable_inv [OF assms(1)]
  obtain tc r where r: "r \<in> set d" "e = toEntry (claimed now r)" "claimed now r \<in> set d1"
    by (rule ClaimDue_entry [OF inv assms(2,3)])
  have inv1: "outbox_inv d1" using dispatch_step_effect(1) [OF dispatch_step.claim [OF assms(2)] inv] .
  have inv2: "outbox_inv d2" "grows row_dispatch d1 d2" using dispatch_steps_effect [OF assms(4) inv1] by simp_all
  obtain r2 where r2: "r2 \<in> set d2" "row_dispatch\<^sup>*\<^sup>* (claimed now r) r2" by (rule grows_row [OF inv2(2) r(3)])
  have same: "row_dispatch\<^sup>*\<^sup>* a b \<Longrightarrow> e_ID b = e_ID a" for a b
    using row_steps_same [of a b] rtranclp_mono [of row_dispatch row_step] row_step.dispatch by (auto simp: same_entry_def)
  obtain tc' q where q: "q \<in> set d2" "e' = toEntry (claimed now' q)" "claimed now' q \<in> set d3"
    by (rule ClaimDue_entry [OF inv2(1) assms(5,6)])
  have "q = r2"
    using row_by_id [OF inv2(1) q(1) r2(1)] same [OF r2(2)] assms(7) q(2) r(2) by (simp add: claimed_def)
  then have a2: "e_Attempt e < e_Attempt (claimed now' q)" using row_dispatches_attempt [OF r2(2)] r(2) by (simp add: claimed_def)
  have inv3: "outbox_inv d3" using dispatch_step_effect(1) [OF dispatch_step.claim [OF assms(5)] inv2(1)] .
  have inv4: "outbox_inv d4" "grows row_dispatch d3 d4" using dispatch_steps_effect [OF assms(8) inv3] by simp_all
  obtain r4 where r4: "r4 \<in> set d4" "row_dispatch\<^sup>*\<^sup>* (claimed now' q) r4" by (rule grows_row [OF inv4(2) q(3)])
  have i4: "e_ID r4 = e_ID e" using same [OF r4(2)] q(2) assms(7) by simp
  have a4: "e_Attempt e < e_Attempt r4" using row_dispatches_attempt [OF r4(2)] a2 by simp
  have "\<not> claimedRow tc e s" if "s \<in> set d4" for tc s
    using row_by_id [OF inv4(1) that r4(1)] i4 a4 by (auto simp: claimedRow_def)
  then have "\<not> list_ex (claimedRow tc e) d4" for tc by (simp add: list_ex_iff)
  then have "settle tc e upd d4 = (Inl (refuseReason tc e d4), d4)" for tc upd by (simp add: settle_def)
  then show ?thesis unfolding Succeed_def Fail_def by (cases "tenant_From c''") (simp_all only: sum.case, blast+)
qed

theorem stale_claims_cannot_settle_witness:
  "\<exists>err. Succeed o_ctx (hd (projr (fst (ClaimDue o_ctx 200 5 o_db)))) 900000000000
      (snd (ClaimDue o_ctx 400000000000 5 (snd (ClaimDue o_ctx 200 5 o_db)))) =
    (Inl err, snd (ClaimDue o_ctx 400000000000 5 (snd (ClaimDue o_ctx 200 5 o_db))))"
proof -
  let ?r = "ClaimDue o_ctx 200 5 o_db" and ?s = "ClaimDue o_ctx 400000000000 5 (snd (ClaimDue o_ctx 200 5 o_db))"
  have r: "?r = (Inr (projr (fst ?r)), snd ?r)" "?s = (Inr (projr (fst ?s)), snd ?s)" by code_simp+
  have e: "hd (projr (fst ?r)) \<in> set (projr (fst ?r))" "hd (projr (fst ?s)) \<in> set (projr (fst ?s))"
    "e_ID (hd (projr (fst ?s))) = e_ID (hd (projr (fst ?r)))" by code_simp+
  show ?thesis
    using stale_claims_cannot_settle [OF o_db_reachable r(1) e(1) rtranclp.rtrancl_refl r(2) e(2,3) rtranclp.rtrancl_refl] by blast
qed

text \<open>A delivered entry is final: no later operation, requeues included, changes any of its columns.\<close>

theorem delivered_entries_are_final:
  assumes "outbox_reachable d" and "outbox_step\<^sup>*\<^sup>* d d'" and "r \<in> set d" and "e_Status r = StatusDelivered"
  shows "r \<in> set d'"
proof -
  have "grows row_step d d'" using outbox_steps_effect [OF assms(2) outbox_reachable_inv [OF assms(1)]] by simp
  then obtain r' where "r' \<in> set d'" "row_step\<^sup>*\<^sup>* r r'" by (rule grows_row [OF _ assms(3)])
  then show ?thesis using delivered_stays assms(4) by metis
qed

definition o_done :: outbox where
  "o_done = (let (r, d) = ClaimDue o_ctx 200 5 o_db in snd (Succeed o_ctx (hd (projr r)) 300 d))"

lemma o_done_reachable: "outbox_reachable o_done"
  unfolding o_done_def Let_def case_prod_beta
  by (intro outbox_reachable.step [OF outbox_reachable.step [OF o_db_reachable]] outbox_step.dispatch,
      rule dispatch_step.claim [OF prod.collapse [symmetric]], rule dispatch_step.succeed [OF prod.collapse [symmetric]])

theorem delivered_entries_are_final_witness:
  "hd o_done \<in> set (snd (Requeue 400 o_ctx 7 ''t'' o_done)) \<and> e_Status (hd o_done) = StatusDelivered"
proof -
  have "hd o_done \<in> set o_done" "e_Status (hd o_done) = StatusDelivered" by code_simp+
  moreover have "outbox_step\<^sup>*\<^sup>* o_done (snd (Requeue 400 o_ctx 7 ''t'' o_done))"
    by (rule r_into_rtranclp, rule outbox_step.requeue [OF prod.collapse [symmetric]])
  ultimately show ?thesis using delivered_entries_are_final [OF o_done_reachable] by blast
qed
section \<open>The number of deliveries is bounded\<close>

definition attempts_left :: "outbox_row \<Rightarrow> int" where
  "attempts_left r = (if e_Status r = StatusPending then MaxAttempts - e_Attempt r else 0)"

definition total_left :: "outbox \<Rightarrow> int" where
  "total_left d = sum_list (map attempts_left d)"

text \<open>Runs of workers, with the number of entries they claimed.\<close>

inductive worker_run :: "outbox \<Rightarrow> nat \<Rightarrow> outbox \<Rightarrow> bool" where
  start: "worker_run d 0 d"
| claim: "worker_run d n d1 \<Longrightarrow> ClaimDue c now limit d1 = (Inr es, d2) \<Longrightarrow> worker_run d (n + length es) d2"
| succeed: "worker_run d n d1 \<Longrightarrow> Succeed c e at d1 = (x, d2) \<Longrightarrow> worker_run d n d2"
| fail: "worker_run d n d1 \<Longrightarrow> Fail c e retryAt cause d1 = (x, d2) \<Longrightarrow> worker_run d n d2"

lemma attempts_left_nonneg: "row_ok r \<Longrightarrow> 0 \<le> attempts_left r"
  by (simp add: attempts_left_def row_ok_def)

lemma settle_left: "row_ok r \<Longrightarrow> attempts_left (settle_row c e (delivered at) r) \<le> attempts_left r"
    "row_ok r \<Longrightarrow> attempts_left (settle_row c e (undelivered t s) r) \<le> attempts_left r"
  by (auto simp: settle_row_def attempts_left_def row_ok_def claimedRow_def delivered_def undelivered_def split: sum.splits)

lemma total_left_map:
  "(\<And>r. r \<in> set d \<Longrightarrow> attempts_left (f r) \<le> attempts_left r) \<Longrightarrow> total_left (map f d) \<le> total_left d"
  by (induction d) (auto simp: total_left_def intro: add_mono)

lemma claim_left:
  assumes "\<forall>r \<in> set d. row_ok r"
  shows "total_left (map (claim_row tc now due) d) + int (length (filter (\<lambda>r. entry_claimable tc now r \<and> e_ID r \<in> set due) d)) \<le> total_left d"
  using assms
proof (induction d)
  case (Cons r d)
  have "attempts_left (claim_row tc now due r) + (if entry_claimable tc now r \<and> e_ID r \<in> set due then 1 else 0) \<le> attempts_left r"
    using Cons.prems
    by (auto simp: claim_row_def attempts_left_def claimed_def entry_claimable_def exhausted_def row_ok_def MaxAttempts_def)
  then show ?case using Cons by (auto simp: total_left_def)
qed (simp add: total_left_def)

lemma worker_run_left:
  assumes "worker_run d n d'" "outbox_inv d"
  shows "outbox_inv d' \<and> total_left d' + int n \<le> total_left d"
  using assms
proof (induction rule: worker_run.induct)
  case (claim d n d1 c now limit es d2)
  then have inv: "outbox_inv d1" by simp
  note k = outbox_invD(2) [OF inv]
  obtain tc where tc: "tenant_From c = Inr tc" using claim(2) by (cases "tenant_From c") (auto simp: ClaimDue_def)
  let ?due = "due_ids tc now limit d1"
  have "d2 = map (claim_row tc now ?due) d1" "length es = length (filter (\<lambda>r. entry_claimable tc now r \<and> e_ID r \<in> set ?due) d1)"
    using claim(2) unfolding ClaimDue_eq [OF k tc] by auto
  then have "total_left d2 + int (length es) \<le> total_left d1"
    using claim_left [of d1 tc now ?due] outbox_invD(1) [OF inv] by simp
  then show ?case using claim dispatch_step_effect(1) [OF dispatch_step.claim [OF claim(2)] inv] by simp
next
  case (succeed d n d1 c e at x d2)
  then have inv: "outbox_inv d1" by simp
  have "total_left d2 \<le> total_left d1"
    using Succeed_map [of c e at d1] succeed(2) total_left_map [of d1] settle_left(1) outbox_invD(1) [OF inv] by (metis snd_conv)
  then show ?case using succeed dispatch_step_effect(1) [OF dispatch_step.succeed [OF succeed(2)] inv] by simp
next
  case (fail d n d1 c e retryAt cause x d2)
  then have inv: "outbox_inv d1" by simp
  have "total_left d2 \<le> total_left d1"
    using Fail_map [of c e retryAt cause d1] fail(2) total_left_map [of d1] settle_left(2) outbox_invD(1) [OF inv] by (metis snd_conv)
  then show ?case using fail dispatch_step_effect(1) [OF dispatch_step.fail [OF fail(2)] inv] by simp
qed simp

text \<open>Delivery terminates: however many workers run and however deliveries end, the entries of a table are
  handed out at most eight times each, so a run with no new entries claims at most eight times their number.\<close>

theorem deliveries_are_bounded:
  assumes "outbox_reachable d" and "worker_run d n d'"
  shows "n \<le> 8 * length d"
proof -
  note inv = outbox_reachable_inv [OF assms(1)]
  have "0 \<le> total_left d'" if "outbox_inv d'" for d'
    using attempts_left_nonneg outbox_invD(1) [OF that] unfolding total_left_def by (intro sum_list_nonneg) auto
  then have "int n \<le> total_left d" using worker_run_left [OF assms(2) inv] by force
  moreover have "total_left d \<le> 8 * int (length d)" if "\<forall>r \<in> set d. row_ok r" for d
    using that by (induction d) (auto simp: total_left_def attempts_left_def row_ok_def MaxAttempts_def)
  ultimately show ?thesis using outbox_invD(1) [OF inv] by force
qed

theorem deliveries_are_bounded_witness:
  "length (projr (fst (ClaimDue o_ctx 200 5 o_db))) \<le> 8 * length o_db"
proof -
  have "ClaimDue o_ctx 200 5 o_db = (Inr (projr (fst (ClaimDue o_ctx 200 5 o_db))), snd (ClaimDue o_ctx 200 5 o_db))" by code_simp
  from worker_run.claim [OF worker_run.start this] show ?thesis using deliveries_are_bounded [OF o_db_reachable] by fastforce
qed

section \<open>The worker\<close>

definition deliver_row :: "delivery_env \<Rightarrow> ctx \<Rightarrow> Entry \<Rightarrow> outbox_row \<Rightarrow> outbox_row" where
  "deliver_row env c e =
     (if de_Cancelled env e then (\<lambda>r. r)
      else settle_row c e (case de_Deliver env e of None \<Rightarrow> delivered (de_Now env e)
        | Some cause \<Rightarrow> undelivered (de_Now env e + Backoff (de_Jitter env e) (e_Attempt e + 1)) cause))"

lemma deliverOne_map: "deliverOne env c e d = map (settle_row c e (case de_Deliver env e of None \<Rightarrow> delivered (de_Now env e)
        | Some cause \<Rightarrow> undelivered (de_Now env e + Backoff (de_Jitter env e) (e_Attempt e + 1)) cause)) d"
  by (auto simp: deliverOne_def Succeed_map Fail_map split: option.splits)

lemma deliver_all_map: "deliver_all env c es d = map (fold (deliver_row env c) es) d"
proof (induction es arbitrary: d)
  case (Cons e es)
  have "deliver_all env c (e # es) d = deliver_all env c es (map (deliver_row env c e) d)"
    by (simp add: deliver_all_def deliver_row_def deliverOne_map)
  then show ?case by (simp add: Cons)
qed (simp add: deliver_all_def)

lemma deliver_row_other: "e_ID e \<noteq> e_ID r \<Longrightarrow> deliver_row env c e r = r"
  by (simp add: deliver_row_def settle_row_other)

lemma deliver_row_id: "e_ID (deliver_row env c e r) = e_ID r"
  by (auto simp: deliver_row_def settle_row_def delivered_def undelivered_def split: sum.splits option.splits)

lemma deliver_row_commute:
  assumes "e_ID e \<noteq> e_ID e'"
  shows "deliver_row env c e \<circ> deliver_row env c e' = deliver_row env c e' \<circ> deliver_row env c e"
proof
  fix r
  show "(deliver_row env c e \<circ> deliver_row env c e') r = (deliver_row env c e' \<circ> deliver_row env c e) r"
    using assms deliver_row_other [of e r] deliver_row_other [of e' r] deliver_row_id [of env c]
    by (cases "e_ID e = e_ID r") (simp_all add: deliver_row_other)
qed

lemma ClaimDue_ids:
  assumes "outbox_inv d" "ClaimDue c now limit d = (Inr es, d')"
  shows "distinct (map e_ID es)"
proof (cases "tenant_From c")
  case (Inr tc)
  have "map e_ID es = map e_ID (filter (\<lambda>r. entry_claimable tc now r \<and> e_ID r \<in> set (due_ids tc now limit d)) d)"
    using assms(2) unfolding ClaimDue_eq [OF outbox_invD(2) [OF assms(1)] Inr] by (auto simp: claimed_def)
  then show ?thesis using outbox_invD(2) [OF assms(1)] by (simp add: distinct_map_filter)
qed (use assms(2) in \<open>simp add: ClaimDue_def\<close>)

text \<open>C18: The worker's concurrency does not matter: whatever order the claimed entries are delivered and settled in,
  the table ends up the same.\<close>

theorem delivery_order_is_irrelevant:
  assumes "outbox_reachable d" and "ClaimDue c now limit d = (Inr es, d')" and "mset es' = mset es"
  shows "deliver_all env c es' d' = deliver_all env c es d'"
proof -
  have dist: "distinct (map e_ID es)" by (rule ClaimDue_ids [OF outbox_reachable_inv [OF assms(1)] assms(2)])
  have "fold (deliver_row env c) es = fold (deliver_row env c) es'"
  proof (rule fold_multiset_equiv)
    fix x y assume "x \<in> set es" "y \<in> set es"
    then show "deliver_row env c x \<circ> deliver_row env c y = deliver_row env c y \<circ> deliver_row env c x"
      using deliver_row_commute dist by (metis distinct_map inj_onD)
  qed (simp add: assms(3))
  then show ?thesis by (simp add: deliver_all_map)
qed

definition o_env :: delivery_env where
  "o_env = \<lparr>de_Deliver = (\<lambda>e. if e_ID e = 7 then Some ''timeout'' else None), de_Now = (\<lambda>e. 400), de_Jitter = (\<lambda>e. 0), de_Cancelled = (\<lambda>e. False)\<rparr>"

definition o_db2 :: outbox where "o_db2 = snd (Enqueue 60 o_ctx (o_entry\<lparr>e_ID := 9, e_Target := ''u''\<rparr>) o_db)"

lemma o_db2_reachable: "outbox_reachable o_db2"
  unfolding o_db2_def
  by (rule outbox_reachable.step [OF o_db_reachable], rule outbox_step.dispatch, rule dispatch_step.enqueue [OF prod.collapse [symmetric]])

theorem delivery_order_is_irrelevant_witness:
  "map e_Status (deliver_all o_env o_ctx (rev (projr (fst (ClaimDue o_ctx 200 5 o_db2)))) (snd (ClaimDue o_ctx 200 5 o_db2))) =
     [StatusPending, StatusDelivered]"
proof -
  let ?r = "ClaimDue o_ctx 200 5 o_db2"
  have r: "?r = (Inr (projr (fst ?r)), snd ?r)" by code_simp
  have "map e_Status (deliver_all o_env o_ctx (projr (fst ?r)) (snd ?r)) = [StatusPending, StatusDelivered]" by code_simp
  then show ?thesis using delivery_order_is_irrelevant [OF o_db2_reachable r mset_rev] by simp
qed

text \<open>What one sweep does with an entry that is due and fits in the batch.\<close>

lemma due_ids_all:
  assumes "length (filter (entry_claimable tc now) d) \<le> nat (claimBatch limit)"
  shows "set (due_ids tc now limit d) = e_ID ` {r \<in> set d. entry_claimable tc now r}"
  using assms by (simp add: due_ids_def)

lemma fold_deliver_row:
  assumes "distinct (map e_ID es)" "e \<in> set es" "e_ID e = e_ID r"
  shows "fold (deliver_row env c) es r = deliver_row env c e r"
  using assms
proof (induction es arbitrary: r)
  case (Cons x es)
  have idle: "fold (deliver_row env c) es r = r" if "e_ID r \<notin> e_ID ` set es" for r
    using that by (induction es) (auto simp: deliver_row_other image_iff)
  show ?case
  proof (cases "x = e")
    case True
    then show ?thesis using Cons.prems by (simp add: idle deliver_row_id)
  next
    case False
    then have "e_ID x \<noteq> e_ID r" using Cons.prems by force
    then show ?thesis using Cons False by (simp add: deliver_row_other)
  qed
qed simp

lemma drain_row:
  assumes inv: "outbox_inv d" and tc: "tenant_From c = Inr tc" and r: "r \<in> set d" "entry_claimable tc now r"
    and room: "length (filter (entry_claimable tc now) d) \<le> nat (claimBatch (wo_Batch opts))"
    and live: "\<not> de_Cancelled env (toEntry (claimed now r))"
  shows "(case de_Deliver env (toEntry (claimed now r)) of None \<Rightarrow> delivered (de_Now env (toEntry (claimed now r)))
      | Some cause \<Rightarrow> undelivered (de_Now env (toEntry (claimed now r)) + Backoff (de_Jitter env (toEntry (claimed now r)))
          (e_Attempt r + 2)) cause) (claimed now r) \<in> set (drain env opts now c d)"
proof -
  let ?e = "toEntry (claimed now r)" and ?due = "due_ids tc now (wo_Batch opts) d"
  obtain es d1 where c: "ClaimDue c now (wo_Batch opts) d = (Inr es, d1)"
    and es: "es = map (toEntry \<circ> claimed now) (filter (\<lambda>r. entry_claimable tc now r \<and> e_ID r \<in> set ?due) d)"
    and d1: "d1 = map (claim_row tc now ?due) d"
    using ClaimDue_eq [OF outbox_invD(2) [OF inv] tc] by blast
  have due: "e_ID r \<in> set ?due" unfolding due_ids_all [OF room] using r by blast
  have "claim_row tc now ?due r = claimed now r" using r due not_exhausted_claimable by (simp add: claim_row_def)
  then have "claimed now r \<in> set d1" using r(1) unfolding d1 by force
  moreover have "?e \<in> set es" using r due unfolding es by auto
  then have "fold (deliver_row env c) es (claimed now r) = deliver_row env c ?e (claimed now r)"
    by (rule fold_deliver_row [OF ClaimDue_ids [OF inv c]]) simp
  ultimately have "deliver_row env c ?e (claimed now r) \<in> set (drain env opts now c d)"
    unfolding drain_def c prod.case sum.case deliver_all_map set_map by (metis image_eqI)
  moreover have "claimedRow tc ?e (claimed now r)" using r(2) by (simp add: claimedRow_def entry_claimable_def claimed_def)
  ultimately show ?thesis using live unfolding deliver_row_def settle_row_def tc by (simp add: claimed_def ac_simps split: option.splits)
qed

lemma deliver_all_dispatch: "dispatch_step\<^sup>*\<^sup>* d (deliver_all env c es d)"
proof (induction es arbitrary: d)
  case (Cons e es)
  have "dispatch_step d (deliverOne env c e d)"
    by (auto simp: deliverOne_def split: option.splits
      intro: dispatch_step.succeed [OF prod.collapse [symmetric]] dispatch_step.fail [OF prod.collapse [symmetric]])
  moreover have "deliver_all env c (e # es) d = deliver_all env c es (if de_Cancelled env e then d else deliverOne env c e d)"
    by (simp add: deliver_all_def)
  ultimately show ?case using Cons by (simp add: converse_rtranclp_into_rtranclp)
qed (simp add: deliver_all_def)

lemma drain_dispatch: "dispatch_step\<^sup>*\<^sup>* d (drain env opts now c d)"
proof -
  obtain x d1 where c: "ClaimDue c now (wo_Batch opts) d = (x, d1)" by fastforce
  have "dispatch_step d d1" by (rule dispatch_step.claim [OF c])
  moreover have "dispatch_step\<^sup>*\<^sup>* d1 (drain env opts now c d)"
    using deliver_all_dispatch by (cases x) (auto simp: drain_def c)
  ultimately show ?thesis by (rule converse_rtranclp_into_rtranclp)
qed

lemma drain_effect:
  assumes "outbox_inv d"
  shows "outbox_inv (drain env opts now c d)" "grows row_dispatch d (drain env opts now c d)"
  using dispatch_steps_effect [OF drain_dispatch assms] by simp_all

lemma settled_stays: "row_dispatch\<^sup>*\<^sup>* r r' \<Longrightarrow> e_Status r \<noteq> StatusPending \<Longrightarrow> r' = r"
  by (induction rule: converse_rtranclp_induct) (auto elim!: row_dispatch.cases)

text \<open>Sweeps that attend to entry \<open>i\<close>: each finds it settled, or finds it due, has room for it and delivers it.\<close>

definition in_turn :: "WorkerOpts \<Rightarrow> ctx \<Rightarrow> delivery_env \<Rightarrow> instant \<Rightarrow> outbox \<Rightarrow> outbox_row \<Rightarrow> bool" where
  "in_turn opts c env now d r = (case tenant_From c of Inl _ \<Rightarrow> False | Inr tc \<Rightarrow>
     e_OrgID r = tc_OrgID tc \<and> e_NextAttemptAt r \<le> now \<and>
     length (filter (entry_claimable tc now) d) \<le> nat (claimBatch (wo_Batch opts)) \<and>
     \<not> de_Cancelled env (toEntry (claimed now r)))"

lemma in_turnD:
  assumes "in_turn opts c env now d r"
  obtains tc where "tenant_From c = Inr tc" "e_OrgID r = tc_OrgID tc" "e_NextAttemptAt r \<le> now"
    "length (filter (entry_claimable tc now) d) \<le> nat (claimBatch (wo_Batch opts))" "\<not> de_Cancelled env (toEntry (claimed now r))"
proof (cases "tenant_From c")
  case (Inr tc)
  show ?thesis using assms that [OF Inr] unfolding in_turn_def Inr sum.case by blast
qed (use assms in \<open>simp add: in_turn_def\<close>)

fun attended :: "WorkerOpts \<Rightarrow> ctx \<Rightarrow> uuid \<Rightarrow> (delivery_env \<times> instant) list \<Rightarrow> outbox \<Rightarrow> bool" where
  "attended opts c i [] d = True"
| "attended opts c i ((env, now) # ws) d \<longleftrightarrow>
     (\<forall>r \<in> set d. e_ID r = i \<and> e_Status r = StatusPending \<longrightarrow>
        in_turn opts c env now d r) \<and>
     attended opts c i ws (drain env opts now c d)"

definition sweeps :: "WorkerOpts \<Rightarrow> ctx \<Rightarrow> (delivery_env \<times> instant) list \<Rightarrow> outbox \<Rightarrow> outbox" where
  "sweeps opts c ws d = fold (\<lambda>(env, now). drain env opts now c) ws d"

lemma drain_reaps:
  assumes "outbox_inv d" "tenant_From c = Inr tc" "r \<in> set d" "exhausted tc now r"
  shows "r\<lparr>e_Status := StatusFailed\<rparr> \<in> set (drain env opts now c d)"
proof -
  let ?due = "due_ids tc now (wo_Batch opts) d"
  obtain es where c: "ClaimDue c now (wo_Batch opts) d = (Inr es, map (claim_row tc now ?due) d)"
    using ClaimDue_eq [OF outbox_invD(2) [OF assms(1)] assms(2)] by blast
  have "claim_row tc now ?due r = r\<lparr>e_Status := StatusFailed\<rparr>" using assms(4) by (simp add: claim_row_def)
  then have m: "r\<lparr>e_Status := StatusFailed\<rparr> \<in> set (map (claim_row tc now ?due) d)" using assms(3) by force
  have inv1: "outbox_inv (map (claim_row tc now ?due) d)" by (rule dispatch_step_effect(1) [OF dispatch_step.claim [OF c] assms(1)])
  have d: "drain env opts now c d = deliver_all env c es (map (claim_row tc now ?due) d)" by (simp add: drain_def c)
  have "grows row_dispatch (map (claim_row tc now ?due) d) (drain env opts now c d)"
    unfolding d using dispatch_steps_effect [OF deliver_all_dispatch inv1] by blast
  then obtain r' where r': "r' \<in> set (drain env opts now c d)" "row_dispatch\<^sup>*\<^sup>* (r\<lparr>e_Status := StatusFailed\<rparr>) r'"
    by (rule grows_row [OF _ m])
  then show ?thesis using settled_stays [OF r'(2)] by simp
qed

text \<open>One attended sweep settles the entry or uses up one attempt.\<close>

lemma attended_sweep:
  assumes inv: "outbox_inv d" and r: "r \<in> set d" and att: "attended opts c (e_ID r) ((env, now) # ws) d"
  obtains r' where "r' \<in> set (drain env opts now c d)" "e_ID r' = e_ID r"
    "Terminal (e_Status r') \<or> e_Status r' = StatusPending \<and> e_Attempt r' = e_Attempt r + 1 \<and> e_Attempt r' < MaxAttempts"
proof (cases "e_Status r = StatusPending")
  case False
  obtain r' where r': "r' \<in> set (drain env opts now c d)" "row_dispatch\<^sup>*\<^sup>* r r'" by (rule grows_row [OF drain_effect(2) [OF inv] r])
  then have "r' = r" using settled_stays False by blast
  moreover have "Terminal (e_Status r)" using outbox_invD(1) [OF inv r] False by (auto simp: row_ok_def status_Valid_def Terminal_def)
  ultimately show ?thesis using that r'(1) by blast
next
  case True
  obtain tc where tc: "tenant_From c = Inr tc" "e_OrgID r = tc_OrgID tc" "e_NextAttemptAt r \<le> now"
    "length (filter (entry_claimable tc now) d) \<le> nat (claimBatch (wo_Batch opts))" "\<not> de_Cancelled env (toEntry (claimed now r))"
    by (rule in_turnD [of opts c env now d r]) (use att r True in simp)
  show ?thesis
  proof (cases "e_Attempt r < MaxAttempts")
    case False
    then have "exhausted tc now r" using True tc by (simp add: exhausted_def)
    from drain_reaps [OF inv tc(1) r this] show ?thesis by (rule that) (simp_all add: Terminal_def)
  next
    case lt: True
    then have "entry_claimable tc now r" using True tc by (simp add: entry_claimable_def)
    note D = drain_row [OF inv tc(1) r this tc(4,5)]
    show ?thesis
      by (rule that [OF D]) (auto simp: delivered_def undelivered_def claimed_def Terminal_def lt True split: option.splits)
  qed
qed

lemma attended_terminates:
  assumes "outbox_inv d" "r \<in> set d" "attended opts c (e_ID r) ws d"
    "Terminal (e_Status r) \<or> MaxAttempts - e_Attempt r \<le> int (length ws) \<and> ws \<noteq> []"
  shows "\<exists>r' \<in> set (sweeps opts c ws d). e_ID r' = e_ID r \<and> Terminal (e_Status r')"
  using assms
proof (induction ws arbitrary: d r)
  case Nil
  then show ?case by (auto simp: sweeps_def)
next
  case (Cons w ws)
  obtain env now where w: "w = (env, now)" by fastforce
  let ?d = "drain env opts now c d"
  obtain r' where r': "r' \<in> set ?d" "e_ID r' = e_ID r"
    "Terminal (e_Status r') \<or> e_Status r' = StatusPending \<and> e_Attempt r' = e_Attempt r + 1 \<and> e_Attempt r' < MaxAttempts"
    by (rule attended_sweep [OF Cons.prems(1,2) Cons.prems(3) [unfolded w]])
  have "Terminal (e_Status r') \<or> MaxAttempts - e_Attempt r' \<le> int (length ws) \<and> ws \<noteq> []"
  proof (cases "Terminal (e_Status r)")
    case True
    obtain q where q: "q \<in> set ?d" "row_dispatch\<^sup>*\<^sup>* r q" by (rule grows_row [OF drain_effect(2) [OF Cons.prems(1)] Cons.prems(2)])
    have "q = r" using settled_stays [OF q(2)] True by (auto simp: Terminal_def)
    then have "r \<in> set ?d" using q(1) by simp
    then show ?thesis using row_by_id [OF drain_effect(1) [OF Cons.prems(1)] r'(1)] r'(2) True by metis
  qed (use r'(3) Cons.prems(4) in auto)
  from Cons.IH [OF drain_effect(1) [OF Cons.prems(1)] r'(1) _ this] show ?case
    using Cons.prems(3) r'(2) by (simp add: w sweeps_def)
qed

text \<open>C19: Every entry settles: if eight sweeps find it due, have room for it and are not cancelled before
  delivering it, the entry ends up delivered or failed, whatever the deliveries return.\<close>

theorem entries_settle_in_eight_sweeps:
  assumes "outbox_reachable d" and "r \<in> set d" and "attended opts c (e_ID r) ws d" and "8 \<le> length ws"
  shows "\<exists>r' \<in> set (sweeps opts c ws d). e_ID r' = e_ID r \<and> Terminal (e_Status r')"
proof -
  note inv = outbox_reachable_inv [OF assms(1)]
  have "0 \<le> e_Attempt r" using outbox_invD(1) [OF inv assms(2)] by (simp add: row_ok_def)
  then have "MaxAttempts - e_Attempt r \<le> int (length ws)" "ws \<noteq> []" using assms(4) by (auto simp: MaxAttempts_def)
  then show ?thesis using attended_terminates [OF inv assms(2,3)] by blast
qed

definition o_opts :: WorkerOpts where
  "o_opts = NewWorker_opts \<lparr>wo_Tick = 0, wo_Batch = 0, wo_Concurrency = 0, wo_SettleGrace = 0\<rparr>"

definition o_sweeps :: "(delivery_env \<times> instant) list" where
  "o_sweeps = map (\<lambda>n. (o_env\<lparr>de_Now := \<lambda>_. n * 10 ^ 15\<rparr>, n * 10 ^ 15)) [1, 2, 3, 4, 5, 6, 7, 8]"

theorem entries_settle_in_eight_sweeps_witness:
  "\<exists>r' \<in> set (sweeps o_opts o_ctx o_sweeps o_db). e_ID r' = 7 \<and> Terminal (e_Status r')"
proof -
  have e: "hd o_db \<in> set o_db" "e_ID (hd o_db) = 7" "8 \<le> length o_sweeps" by code_simp+
  have "attended o_opts o_ctx (e_ID (hd o_db)) o_sweeps o_db" by code_simp
  then show ?thesis using entries_settle_in_eight_sweeps [OF o_db_reachable e(1) _ e(3)] e(2) by auto
qed
section \<open>Requeues and the fence\<close>

text \<open>
  Without the restriction to \<open>dispatch_step\<close> the fence has a gap: a requeue resets
  the attempt to 0, so a worker stuck since the first claim of the entry's first
  life settles the claim that another worker holds in its second life.
\<close>

definition o_stuck :: outbox where
  "o_stuck = (let d = fold (\<lambda>n d. snd (ClaimDue o_ctx (n * 10 ^ 12) 5 d)) [1, 2, 3, 4, 5, 6, 7, 8, 9] o_db
     in snd (ClaimDue o_ctx (11 * 10 ^ 12) 5 (snd (Requeue (10 * 10 ^ 12) o_ctx 7 ''t'' d))))"

lemma requeue_resets_the_fence:
  "fst (Succeed o_ctx (hd (projr (fst (ClaimDue o_ctx (10 ^ 12) 5 o_db)))) (12 * 10 ^ 12) o_stuck) = Inr ()"
  by code_simp

end
