(* ===== verification/ApiKeyService.thy ===== *)
theory ApiKeyService
  imports ApiKey
begin

text \<open>
  The API key service, the authenticator and the usage recorder
  (\<open>apikey/service.go\<close>, \<open>apikey/usage.go\<close>) and the interceptor of the control plane
  (\<open>authn/interceptor.go\<close>).  The membership gate is the organisation service, the
  list of an organisation's projects comes from the projects table, as
  \<open>internal/boot\<close> wires them.
\<close>

record minting =
  mi_Sum256 :: "string \<Rightarrow> string"
  mi_Scheme :: string
  mi_ID :: uuid
  mi_Bytes :: string

section \<open>Gates\<close>

definition hasOrgLevelScope :: "string list \<Rightarrow> bool" where
  "hasOrgLevelScope scopes \<longleftrightarrow> list_ex (\<lambda>sc. LevelOf sc = Some LevelOrg) scopes"

definition requireOwner :: "uuid \<Rightarrow> uuid \<Rightarrow> string list \<Rightarrow> access_db \<Rightarrow> (err, unit) res" where
  "requireOwner orgID userID scopes d =
     (if hasOrgLevelScope scopes then RequireManager orgID userID d else RequireMember orgID userID d)"

definition requireMinter :: "KeyKind \<Rightarrow> Tenant \<Rightarrow> string list \<Rightarrow> access_db \<Rightarrow> (err, unit) res" where
  "requireMinter kind tc scopes d =
     (if kind = KindPersonal then requireOwner (tc_OrgID tc) (tc_UserID tc) scopes d
      else RequireManager (tc_OrgID tc) (tc_UserID tc) d)"

definition requireMintable :: "string list \<Rightarrow> (err, unit) res" where
  "requireMintable scopes = (case find (\<lambda>sc. scope_Valid sc \<and> \<not> Mintable sc) scopes of
     Some sc \<Rightarrow> Inl (EApiKey (RetiredScopeError sc)) | None \<Rightarrow> Inr ())"

definition mintGate :: "instant \<Rightarrow> ctx \<Rightarrow> KeyKind \<Rightarrow> string list \<Rightarrow> instant option \<Rightarrow> access_db \<Rightarrow> (err, Tenant) res" where
  "mintGate now c kind scopes expiresAt d =
     (case tenant_From c of Inl e \<Rightarrow> Inl e | Inr tc \<Rightarrow>
     (case requireMinter kind tc scopes d of Inl e \<Rightarrow> Inl e | Inr _ \<Rightarrow>
     (case requireMintable scopes of Inl e \<Rightarrow> Inl e | Inr _ \<Rightarrow>
     (case validateLifetime expiresAt now of Inl e \<Rightarrow> Inl e | Inr _ \<Rightarrow> Inr tc))))"

definition key_ProjectIDs :: "uuid \<Rightarrow> access_db \<Rightarrow> uuid list" where
  "key_ProjectIDs orgID d = map snd (filter (\<lambda>p. fst p = orgID) (ad_projects d))"

definition requireOrgProjects :: "uuid \<Rightarrow> uuid list \<Rightarrow> access_db \<Rightarrow> (err, unit) res" where
  "requireOrgProjects orgID projectIDs d =
     (if projectIDs = [] then Inr ()
      else case find (\<lambda>i. i \<notin> set (key_ProjectIDs orgID d)) projectIDs of
        Some i \<Rightarrow> Inl (EApiKey (ProjectNotInOrgError i)) | None \<Rightarrow> Inr ())"

section \<open>Minting\<close>

definition saveMinted :: "instant \<Rightarrow> ctx \<Rightarrow> Tenant \<Rightarrow> APIKey \<Rightarrow> string \<Rightarrow> (access_db, APIKey \<times> string) prog" where
  "saveMinted now c tc k plaintext d =
     (let k' = k\<lparr>k_CreatedBy := tc_UserID tc\<rparr> in
      case key_Save now c k' d of
        (Inl e, d1) \<Rightarrow> (Inl (Unexpected ''apikey.Mint: save'' e), d1)
      | (Inr _, d1) \<Rightarrow> (Inr (k', plaintext), d1))"

definition keys_Mint :: "minting \<Rightarrow> instant \<Rightarrow> ctx \<Rightarrow> string \<Rightarrow> string list \<Rightarrow> uuid list \<Rightarrow> instant option
    \<Rightarrow> (access_db, APIKey \<times> string) prog" where
  "keys_Mint mi now c name scopes resourceIDs expiresAt d =
     (case mintGate now c KindProject scopes expiresAt d of Inl e \<Rightarrow> (Inl e, d) | Inr tc \<Rightarrow>
     (case scheme_Mint (mi_Sum256 mi) (mi_Scheme mi) (mi_ID mi) (mi_Bytes mi) (tc_OrgID tc) (tc_ProjectID tc) name scopes
         resourceIDs expiresAt now of
        Inl e \<Rightarrow> (Inl e, d)
      | Inr (k, plaintext) \<Rightarrow> saveMinted now c tc k plaintext d))"

definition keys_MintOrg :: "minting \<Rightarrow> instant \<Rightarrow> ctx \<Rightarrow> string \<Rightarrow> string list \<Rightarrow> ProjectGrant \<Rightarrow> instant option
    \<Rightarrow> (access_db, APIKey \<times> string) prog" where
  "keys_MintOrg mi now c name scopes g expiresAt d =
     (case mintGate now c KindOrg scopes expiresAt d of Inl e \<Rightarrow> (Inl e, d) | Inr tc \<Rightarrow>
     (case requireOrgProjects (tc_OrgID tc) (pg_ProjectIDs g) d of Inl e \<Rightarrow> (Inl e, d) | Inr _ \<Rightarrow>
     (case scheme_MintOrg (mi_Sum256 mi) (mi_Scheme mi) (mi_ID mi) (mi_Bytes mi) (tc_OrgID tc) name scopes g expiresAt now of
        Inl e \<Rightarrow> (Inl e, d)
      | Inr (k, plaintext) \<Rightarrow> saveMinted now c tc k plaintext d)))"

definition keys_MintPersonal :: "minting \<Rightarrow> instant \<Rightarrow> ctx \<Rightarrow> string \<Rightarrow> string list \<Rightarrow> ProjectGrant \<Rightarrow> instant option
    \<Rightarrow> (access_db, APIKey \<times> string) prog" where
  "keys_MintPersonal mi now c name scopes g expiresAt d =
     (case mintGate now c KindPersonal scopes expiresAt d of Inl e \<Rightarrow> (Inl e, d) | Inr tc \<Rightarrow>
     (case requireOrgProjects (tc_OrgID tc) (pg_ProjectIDs g) d of Inl e \<Rightarrow> (Inl e, d) | Inr _ \<Rightarrow>
     (case scheme_MintPersonal (mi_Sum256 mi) (mi_Scheme mi) (mi_ID mi) (mi_Bytes mi) (tc_OrgID tc) (tc_UserID tc) name scopes g
         expiresAt now of
        Inl e \<Rightarrow> (Inl e, d)
      | Inr (k, plaintext) \<Rightarrow> saveMinted now c tc k plaintext d)))"

section \<open>Reads and changes\<close>

definition keys_List :: "ctx \<Rightarrow> uuid \<Rightarrow> access_db \<Rightarrow> (err, APIKey list) res" where
  "keys_List c projectID d = map_err (Unexpected ''apikey.List: list'') (key_List c projectID d)"

definition keys_ListOrg :: "ctx \<Rightarrow> access_db \<Rightarrow> (err, APIKey list) res" where
  "keys_ListOrg c d = map_err (Unexpected ''apikey.ListOrg: list'') (key_ListOrg c d)"

definition keys_ListPersonal :: "ctx \<Rightarrow> access_db \<Rightarrow> (err, APIKey list) res" where
  "keys_ListPersonal c d = (case tenant_From c of Inl e \<Rightarrow> Inl e | Inr tc \<Rightarrow>
     map_err (Unexpected ''apikey.ListPersonal: list'') (key_ListPersonal c (tc_UserID tc) d))"

definition RevokePersonalOf :: "instant \<Rightarrow> member_hook" where
  "RevokePersonalOf now c orgID userID d =
     (case RevokePersonal (WithOrg c orgID) userID now d of
        (Inl e, d1) \<Rightarrow> (Inl (Unexpected ''apikey.RevokePersonalOf'' e), d1)
      | (Inr _, d1) \<Rightarrow> (Inr (), d1))"

definition key_load :: "ctx \<Rightarrow> Tenant \<Rightarrow> uuid \<Rightarrow> access_db \<Rightarrow> (err, APIKey) res" where
  "key_load c tc id' d =
     (case key_ByID c id' d of
        Inl e \<Rightarrow> Inl (if apikey_IsNotFoundError e then e else Unexpected ''apikey.load'' e)
      | Inr k \<Rightarrow> if k_OrgID k \<noteq> tc_OrgID tc \<or> k_ProjectID k \<noteq> tc_ProjectID tc then Inl (EApiKey KeyNotFoundError) else Inr k)"

definition loadForChange :: "ctx \<Rightarrow> uuid \<Rightarrow> access_db \<Rightarrow> (err, Tenant \<times> APIKey) res" where
  "loadForChange c id' d =
     (case tenant_From c of Inl e \<Rightarrow> Inl e | Inr tc \<Rightarrow>
     (case key_load c tc id' d of Inl e \<Rightarrow> Inl e | Inr k \<Rightarrow>
      if k_Kind k \<noteq> KindPersonal
      then (case RequireManager (tc_OrgID tc) (tc_UserID tc) d of Inl e \<Rightarrow> Inl e | Inr _ \<Rightarrow> Inr (tc, k))
      else if tc_UserID tc = uuid_Nil \<or> k_CreatedBy k \<noteq> tc_UserID tc then Inl (EApiKey KeyNotFoundError)
      else (case RequireMember (tc_OrgID tc) (tc_UserID tc) d of Inl e \<Rightarrow> Inl e | Inr _ \<Rightarrow> Inr (tc, k))))"

definition promote :: "instant \<Rightarrow> ctx \<Rightarrow> uuid \<Rightarrow> (Tenant \<Rightarrow> APIKey \<Rightarrow> access_db \<Rightarrow> (err, APIKey) res) \<Rightarrow> (access_db, APIKey) prog" where
  "promote now c id' widen d =
     (case loadForChange c id' d of Inl e \<Rightarrow> (Inl e, d) | Inr (tc, k) \<Rightarrow>
     (case widen tc k d of Inl e \<Rightarrow> (Inl e, d) | Inr k' \<Rightarrow>
     (case key_Save now c k' d of
        (Inl e, d1) \<Rightarrow> (Inl (Unexpected ''apikey.promote: save'' e), d1)
      | (Inr _, d1) \<Rightarrow> (Inr k', d1))))"

definition keys_GrantProjects :: "instant \<Rightarrow> ctx \<Rightarrow> uuid \<Rightarrow> uuid list \<Rightarrow> (access_db, APIKey) prog" where
  "keys_GrantProjects now c id' projectIDs =
     promote now c id' (\<lambda>tc k d. case requireOrgProjects (tc_OrgID tc) projectIDs d of Inl e \<Rightarrow> Inl e
       | Inr _ \<Rightarrow> key_GrantProjects projectIDs k)"

definition keys_GrantAllProjects :: "instant \<Rightarrow> ctx \<Rightarrow> uuid \<Rightarrow> (access_db, APIKey) prog" where
  "keys_GrantAllProjects now c id' = promote now c id' (\<lambda>tc k d. key_GrantAllProjects k)"

definition keys_Revoke :: "instant \<Rightarrow> ctx \<Rightarrow> uuid \<Rightarrow> (access_db, unit) prog" where
  "keys_Revoke now c id' d =
     (case loadForChange c id' d of Inl e \<Rightarrow> (Inl e, d) | Inr (_, k) \<Rightarrow>
      let k' = (if k_RevokedAt k = None then k\<lparr>k_RevokedAt := Some now\<rparr> else k) in
      case key_Save now c k' d of
        (Inl e, d1) \<Rightarrow> (Inl (Unexpected ''apikey.Revoke: save'' e), d1)
      | (Inr _, d1) \<Rightarrow> (Inr (), d1))"

section \<open>Authentication\<close>

definition ownerRefusal :: "err \<Rightarrow> err" where
  "ownerRefusal e = (if AsAppError e \<or> IsUnauthorizedError e then EAuthn UnauthorizedError else UnavailableError e)"

definition requireLiveOwner :: "APIKey \<Rightarrow> access_db \<Rightarrow> (err, unit) res" where
  "requireLiveOwner k d =
     (if k_Kind k \<noteq> KindPersonal then Inr ()
      else if k_CreatedBy k = uuid_Nil then Inl (EAuthn UnauthorizedError)
      else requireOwner (k_OrgID k) (k_CreatedBy k) (k_Scopes k) d)"

definition resolve :: "(string \<Rightarrow> string) \<Rightarrow> string \<Rightarrow> instant \<Rightarrow> string \<Rightarrow> access_db \<Rightarrow> (err, APIKey) res" where
  "resolve sum256 scheme now raw d =
     (if Looks (scheme_Authn scheme) raw \<noteq> ShapeAPIKey then Inl (EAuthn UnauthorizedError)
      else case BySecretHash (sum256 raw) d of
        Inl e \<Rightarrow> if \<not> apikey_IsNotFoundError e then Inl (UnavailableError e) else Inl (EAuthn UnauthorizedError)
      | Inr k \<Rightarrow>
        if \<not> Usable k now then Inl (EAuthn UnauthorizedError)
        else case requireLiveOwner k d of Inl e \<Rightarrow> Inl (ownerRefusal e) | Inr _ \<Rightarrow> Inr k)"

definition principalFor :: "APIKey \<Rightarrow> SessionPrincipal" where
  "principalFor k = \<lparr>pr_UserID = uuid_Nil, pr_KeyID = k_ID k, pr_Name = k_Name k, pr_Source = SourceAPIKey,
     pr_Scopes = k_Scopes k, pr_ActiveOrgID = k_OrgID k, pr_ActiveProjectID = k_ProjectID k,
     pr_ProjectIDs = ReachableProjects k, pr_AllProjects = k_AllProjects k, pr_ResourceIDs = k_ResourceIDs k,
     pr_IssuedAt = k_CreatedAt k\<rparr>"

definition Authenticate :: "(string \<Rightarrow> string) \<Rightarrow> string \<Rightarrow> instant \<Rightarrow> string \<Rightarrow> access_db \<Rightarrow> (err, SessionPrincipal) res" where
  "Authenticate sum256 scheme now raw d = (case resolve sum256 scheme now raw d of Inl e \<Rightarrow> Inl e | Inr k \<Rightarrow> Inr (principalFor k))"

definition Authorize :: "(string \<Rightarrow> string) \<Rightarrow> string \<Rightarrow> instant \<Rightarrow> string \<Rightarrow> string \<Rightarrow> uuid \<Rightarrow> uuid \<Rightarrow> uuid \<Rightarrow> access_db
    \<Rightarrow> (err, SessionPrincipal) res" where
  "Authorize sum256 scheme now raw scope orgID projectID resourceID d =
     (case resolve sum256 scheme now raw d of Inl e \<Rightarrow> Inl e | Inr k \<Rightarrow>
      let p = principalFor k in
      if \<not> ReachesProject p orgID projectID then Inl (EAuthn UnauthorizedError)
      else if scope \<notin> set (pr_Scopes p) \<or> \<not> ReachesResource p orgID projectID resourceID
      then Inl (EAuthn (InsufficientScopeError scope))
      else Inr p)"

definition AuthorizeProject :: "(string \<Rightarrow> string) \<Rightarrow> string \<Rightarrow> instant \<Rightarrow> string \<Rightarrow> string \<Rightarrow> uuid \<Rightarrow> uuid \<Rightarrow> access_db
    \<Rightarrow> (err, SessionPrincipal) res" where
  "AuthorizeProject sum256 scheme now raw scope orgID projectID d =
     (case resolve sum256 scheme now raw d of Inl e \<Rightarrow> Inl e | Inr k \<Rightarrow>
      let p = principalFor k in
      if \<not> ReachesProject p orgID projectID then Inl (EAuthn UnauthorizedError)
      else if scope \<notin> set (pr_Scopes p) \<or> \<not> ReachesWholeProject p orgID projectID
      then Inl (EAuthn (InsufficientScopeError scope))
      else Inr p)"

text \<open>The chain of authenticators and the interceptor.\<close>

fun chain_loop :: "(string \<Rightarrow> (err, SessionPrincipal) res) list \<Rightarrow> string \<Rightarrow> err option \<Rightarrow> (err, SessionPrincipal) res" where
  "chain_loop [] raw unavailable = (case unavailable of Some u \<Rightarrow> Inl u | None \<Rightarrow> Inl (EAuthn UnauthorizedError))"
| "chain_loop (a # as) raw unavailable =
     (case a raw of Inr p \<Rightarrow> Inr p
      | Inl e \<Rightarrow> chain_loop as raw
          (case e of UnavailableError _ \<Rightarrow> if unavailable = None then Some e else unavailable | _ \<Rightarrow> unavailable))"

definition Chain_Authenticate :: "(string \<Rightarrow> (err, SessionPrincipal) res) list \<Rightarrow> string \<Rightarrow> (err, SessionPrincipal) res" where
  "Chain_Authenticate ch raw = chain_loop ch raw None"

definition isSession :: "Source \<Rightarrow> bool" where
  "isSession src \<longleftrightarrow> src = SourceGenesis \<or> src = SourceOIDC \<or> src = SourceLocal"

definition Interceptor :: "(string \<Rightarrow> (err, SessionPrincipal) res) list \<Rightarrow> (string \<Rightarrow> string option) \<Rightarrow> string \<Rightarrow> string \<Rightarrow> string
    \<Rightarrow> (err, SessionPrincipal) res" where
  "Interceptor ch table procedure authorization xAPIKey =
     (let raw = CredentialFromHeader authorization xAPIKey in
      if raw = '''' then Inl (EAuthn UnauthorizedError)
      else case Chain_Authenticate ch raw of Inl e \<Rightarrow> Inl e | Inr p \<Rightarrow>
        if isSession (pr_Source p) then Inr p
        else case table procedure of
          None \<Rightarrow> Inl (EAuthn (InsufficientScopeError ''''))
        | Some want \<Rightarrow>
          if want = ''session-only'' then Inl (EAuthn SessionRequiredError)
          else if want \<notin> set (pr_Scopes p) then Inl (EAuthn (InsufficientScopeError want))
          else Inr p)"

section \<open>Usage\<close>

record usageEntry =
  ue_ID :: uuid
  ue_Tenant :: Tenant
  ue_At :: instant

definition usage_Record :: "uuid \<Rightarrow> Tenant \<Rightarrow> instant \<Rightarrow> usageEntry list \<Rightarrow> usageEntry list" where
  "usage_Record id' tc at pending =
     (case find_row ue_ID id' pending of
        Some cur \<Rightarrow> if ue_At cur < at then upsert_row ue_ID \<lparr>ue_ID = id', ue_Tenant = tc, ue_At = at\<rparr> pending else pending
      | None \<Rightarrow> pending @ [\<lparr>ue_ID = id', ue_Tenant = tc, ue_At = at\<rparr>])"

definition usage_flush :: "ctx \<Rightarrow> usageEntry list \<times> access_db \<Rightarrow> usageEntry list \<times> access_db" where
  "usage_flush c s = ([], fold (\<lambda>e d. snd (TouchLastUsed (tenant_Into c (ue_Tenant e)) (ue_ID e) (ue_At e) d)) (fst s) (snd s))"

end
