(* ===== verification/ApiKeySteps.thy ===== *)
theory ApiKeySteps
  imports ApiKeyService
begin

text \<open>
  How the operations change the access tables: organisations and memberships
  leave keys alone, a key row only evolves (it may gain all projects, be revoked
  once, be touched), and grants only widen.
\<close>

section \<open>How a key evolves\<close>

definition key_evolves :: "APIKey \<Rightarrow> APIKey \<Rightarrow> bool" where
  "key_evolves r r' \<longleftrightarrow> r' = r\<lparr>k_AllProjects := k_AllProjects r', k_RevokedAt := k_RevokedAt r', k_LastUsedAt := k_LastUsedAt r'\<rparr> \<and>
     (k_AllProjects r \<longrightarrow> k_AllProjects r') \<and> (k_RevokedAt r \<noteq> None \<longrightarrow> k_RevokedAt r' = k_RevokedAt r) \<and>
     (k_AllProjects r' \<and> \<not> k_AllProjects r \<longrightarrow> HasGrant r)"

lemma key_evolves_refl [simp]: "key_evolves r r"
  by (simp add: key_evolves_def)

lemma key_evolvesI:
  "(k_AllProjects r \<longrightarrow> a) \<Longrightarrow> (k_RevokedAt r \<noteq> None \<longrightarrow> v = k_RevokedAt r) \<Longrightarrow> (a \<and> \<not> k_AllProjects r \<longrightarrow> HasGrant r) \<Longrightarrow>
   key_evolves r (r\<lparr>k_AllProjects := a, k_RevokedAt := v, k_LastUsedAt := u\<rparr>)"
  by (simp add: key_evolves_def)

lemma key_evolves_fields:
  assumes "key_evolves r r'"
  shows "k_ID r' = k_ID r" "k_OrgID r' = k_OrgID r" "k_ProjectID r' = k_ProjectID r" "k_Kind r' = k_Kind r" "k_ProjectIDs r' = k_ProjectIDs r"
    "k_SecretHash r' = k_SecretHash r" "k_Scopes r' = k_Scopes r" "k_CreatedBy r' = k_CreatedBy r" "k_CreatedAt r' = k_CreatedAt r"
    "k_ExpiresAt r' = k_ExpiresAt r" "k_ResourceIDs r' = k_ResourceIDs r"
proof -
  obtain a v u where "r' = r\<lparr>k_AllProjects := a, k_RevokedAt := v, k_LastUsedAt := u\<rparr>" using assms unfolding key_evolves_def by blast
  then show "k_ID r' = k_ID r" "k_OrgID r' = k_OrgID r" "k_ProjectID r' = k_ProjectID r" "k_Kind r' = k_Kind r"
    "k_ProjectIDs r' = k_ProjectIDs r" "k_SecretHash r' = k_SecretHash r" "k_Scopes r' = k_Scopes r" "k_CreatedBy r' = k_CreatedBy r"
    "k_CreatedAt r' = k_CreatedAt r" "k_ExpiresAt r' = k_ExpiresAt r" "k_ResourceIDs r' = k_ResourceIDs r" by simp_all
qed

lemma key_evolves_trans:
  assumes "key_evolves r r'" "key_evolves r' r''"
  shows "key_evolves r r''"
proof -
  obtain a v u where 1: "r' = r\<lparr>k_AllProjects := a, k_RevokedAt := v, k_LastUsedAt := u\<rparr>" using assms(1) unfolding key_evolves_def by blast
  obtain a' v' u' where 2: "r'' = r'\<lparr>k_AllProjects := a', k_RevokedAt := v', k_LastUsedAt := u'\<rparr>" using assms(2) unfolding key_evolves_def by blast
  show ?thesis using assms unfolding key_evolves_def 2 1 HasGrant_def by auto
qed

text \<open>The keys evolve in place, and new keys are appended.\<close>

definition keys_grow :: "APIKey list \<Rightarrow> APIKey list \<Rightarrow> bool" where
  "keys_grow ks ks' \<longleftrightarrow> (\<exists>xs new. ks' = xs @ new \<and> list_all2 key_evolves ks xs)"

lemma keys_grow_refl [simp]: "keys_grow ks ks"
  unfolding keys_grow_def by (intro exI [of _ ks] exI [of _ "[]"]) (simp add: list.rel_refl)

lemma keys_grow_trans:
  assumes "keys_grow a b" "keys_grow b c"
  shows "keys_grow a c"
proof -
  obtain xs n1 ys n2 where 1: "b = xs @ n1" "list_all2 key_evolves a xs" "c = ys @ n2" "list_all2 key_evolves b ys"
    using assms unfolding keys_grow_def by blast
  then obtain zs ws where "ys = zs @ ws" "list_all2 key_evolves xs zs" by (auto simp: list_all2_append1)
  moreover from this have "list_all2 key_evolves a zs"
    using 1(2) list_all2_trans [of key_evolves key_evolves key_evolves a xs zs] key_evolves_trans by blast
  ultimately show ?thesis unfolding keys_grow_def 1(3) by auto
qed

lemma keys_grow_map: "(\<And>r. r \<in> set ks \<Longrightarrow> key_evolves r (f r)) \<Longrightarrow> keys_grow ks (map f ks)"
  unfolding keys_grow_def by (intro exI [of _ "map f ks"] exI [of _ "[]"]) (simp add: list_all2_conv_all_nth)

lemma keys_grow_append: "keys_grow ks (ks @ new)"
  unfolding keys_grow_def by (intro exI [of _ ks] exI [of _ new]) (simp add: list.rel_refl)

lemma keys_grow_upsert:
  assumes "find_row k_ID (k_ID row) ks = Some old" "key_evolves old row"
  shows "keys_grow ks (upsert_row k_ID row ks)"
proof -
  have "list_all2 key_evolves ks (upsert_row k_ID row ks)"
    using assms by (induction ks) (auto simp: table_simps list.rel_refl split: if_splits)
  then show ?thesis unfolding keys_grow_def by (intro exI [of _ "upsert_row k_ID row ks"] exI [of _ "[]"]) simp
qed

lemma keys_grow_row:
  assumes "keys_grow ks ks'" "r \<in> set ks"
  obtains r' where "r' \<in> set ks'" "key_evolves r r'"
proof -
  obtain xs new where "ks' = xs @ new" "list_all2 key_evolves ks xs" using assms(1) unfolding keys_grow_def by blast
  then show ?thesis using assms(2) that by (auto simp: in_set_conv_nth list_all2_conv_all_nth nth_append) (metis nth_mem Un_iff set_append)
qed

section \<open>The invariant\<close>

definition key_ok :: "APIKey \<Rightarrow> bool" where
  "key_ok k \<longleftrightarrow> kind_shape k \<and> k_ProjectIDs k = [] \<and> list_all scope_Valid (k_Scopes k) \<and>
     (k_Kind k = KindProject \<longrightarrow> \<not> hasOrgLevelScope (k_Scopes k)) \<and>
     (k_Kind k = KindPersonal \<longrightarrow> k_CreatedBy k \<noteq> uuid_Nil) \<and>
     (\<exists>t. k_ExpiresAt k = Some t \<and> k_CreatedAt k < t \<and> t - k_CreatedAt k \<le> MaxLifetime)"

definition grant_ok :: "access_db \<Rightarrow> key_grant \<Rightarrow> bool" where
  "grant_ok d g \<longleftrightarrow> (\<exists>k \<in> set (ad_keys d). k_ID k = g_KeyID g \<and> k_OrgID k = g_OrgID g) \<and> (g_OrgID g, g_ProjectID g) \<in> set (ad_projects d)"

definition access_inv :: "access_db \<Rightarrow> bool" where
  "access_inv d \<longleftrightarrow> keyed k_ID (ad_keys d) \<and> keyed k_SecretHash (ad_keys d) \<and> (\<forall>k \<in> set (ad_keys d). key_ok k) \<and>
     (\<forall>g \<in> set (ad_grants d). grant_ok d g) \<and> uuid_Nil \<notin> snd ` set (ad_projects d)"

lemma key_evolves_ok: "key_evolves r r' \<Longrightarrow> key_ok r \<Longrightarrow> key_ok r'"
proof -
  assume e: "key_evolves r r'" and ok: "key_ok r"
  have "kind_shape r'"
    using ok e key_evolves_fields(1-4) [OF e] by (auto simp: key_ok_def kind_shape_def key_evolves_def HasGrant_def)
  then show "key_ok r'" using ok key_evolves_fields [OF e] by (simp add: key_ok_def)
qed

text \<open>The grants a key has, as its \<open>ProjectIDs\<close> are read.\<close>

definition granted :: "access_db \<Rightarrow> APIKey \<Rightarrow> uuid set" where
  "granted d r = g_ProjectID ` {g \<in> set (ad_grants d). g_OrgID g = k_OrgID r \<and> g_KeyID g = k_ID r}"

lemma set_loaded: "set (k_ProjectIDs (toAPIKey d r)) = granted d r"
  by (auto simp: toAPIKey_def granted_def)

lemma loaded_fields [simp]:
  "k_ID (toAPIKey d r) = k_ID r" "k_OrgID (toAPIKey d r) = k_OrgID r" "k_ProjectID (toAPIKey d r) = k_ProjectID r"
  "k_Kind (toAPIKey d r) = k_Kind r" "k_AllProjects (toAPIKey d r) = k_AllProjects r" "k_RevokedAt (toAPIKey d r) = k_RevokedAt r"
  "k_ExpiresAt (toAPIKey d r) = k_ExpiresAt r" "k_Scopes (toAPIKey d r) = k_Scopes r" "k_CreatedBy (toAPIKey d r) = k_CreatedBy r"
  "k_SecretHash (toAPIKey d r) = k_SecretHash r" "k_ResourceIDs (toAPIKey d r) = k_ResourceIDs r" "k_LastUsedAt (toAPIKey d r) = k_LastUsedAt r"
  "k_Name (toAPIKey d r) = k_Name r" "k_CreatedAt (toAPIKey d r) = k_CreatedAt r" "k_SecretHint (toAPIKey d r) = k_SecretHint r"
  by (simp_all add: toAPIKey_def)

text \<open>
  The effect every operation has: the invariant, keys that only grow, and reach
  that only widens.
\<close>

definition widens :: "access_db \<Rightarrow> access_db \<Rightarrow> bool" where
  "widens d d' \<longleftrightarrow> keys_grow (ad_keys d) (ad_keys d') \<and> set (ad_projects d) \<subseteq> set (ad_projects d') \<and>
     (\<forall>r \<in> set (ad_keys d). \<forall>r' \<in> set (ad_keys d'). k_ID r' = k_ID r \<longrightarrow> k_AllProjects r' \<or> granted d r \<subseteq> granted d' r')"

definition keeps_access :: "access_db \<Rightarrow> access_db \<Rightarrow> bool" where
  "keeps_access d d' \<longleftrightarrow> (access_inv d \<longrightarrow> access_inv d' \<and> widens d d')"

lemma access_invD:
  assumes "access_inv d"
  shows "keyed k_ID (ad_keys d)" "keyed k_SecretHash (ad_keys d)" "\<And>k. k \<in> set (ad_keys d) \<Longrightarrow> key_ok k"
    "\<And>g. g \<in> set (ad_grants d) \<Longrightarrow> grant_ok d g" "uuid_Nil \<notin> snd ` set (ad_projects d)"
  using assms unfolding access_inv_def by blast+

lemma key_unique: "access_inv d \<Longrightarrow> r \<in> set (ad_keys d) \<Longrightarrow> r' \<in> set (ad_keys d) \<Longrightarrow> k_ID r = k_ID r' \<Longrightarrow> r = r'"
  using access_invD(1) by (metis distinct_map inj_onD)

lemma widens_refl: "access_inv d \<Longrightarrow> widens d d"
  using key_unique by (force simp: widens_def)

lemma keeps_access_refl [simp]: "keeps_access d d"
  by (simp add: keeps_access_def widens_refl)

lemma widens_trans:
  assumes "widens d1 d2" "widens d2 d3" "access_inv d1" "access_inv d2" "access_inv d3"
  shows "widens d1 d3"
  unfolding widens_def
proof (intro conjI ballI impI)
  show "keys_grow (ad_keys d1) (ad_keys d3)" "set (ad_projects d1) \<subseteq> set (ad_projects d3)"
    using assms(1,2) keys_grow_trans unfolding widens_def by blast+
  fix r r3 assume r: "r \<in> set (ad_keys d1)" "r3 \<in> set (ad_keys d3)" "k_ID r3 = k_ID r"
  obtain r2 where r2: "r2 \<in> set (ad_keys d2)" "key_evolves r r2" by (rule keys_grow_row) (use assms(1) r(1) in \<open>auto simp: widens_def\<close>)
  have i2: "k_ID r2 = k_ID r" by (rule key_evolves_fields(1) [OF r2(2)])
  obtain q where q: "q \<in> set (ad_keys d3)" "key_evolves r2 q" by (rule keys_grow_row) (use assms(2) r2(1) in \<open>auto simp: widens_def\<close>)
  have "q = r3" using key_unique [OF assms(5) q(1) r(2)] key_evolves_fields(1) [OF q(2)] i2 r(3) by simp
  then have a: "k_AllProjects r2 \<longrightarrow> k_AllProjects r3" using q(2) unfolding key_evolves_def by blast
  have "k_AllProjects r2 \<or> granted d1 r \<subseteq> granted d2 r2" "k_AllProjects r3 \<or> granted d2 r2 \<subseteq> granted d3 r3"
    using assms(1,2) r r2(1) i2 unfolding widens_def by auto
  then show "k_AllProjects r3 \<or> granted d1 r \<subseteq> granted d3 r3" using a by blast
qed

lemma keeps_access_trans: "keeps_access d1 d2 \<Longrightarrow> keeps_access d2 d3 \<Longrightarrow> keeps_access d1 d3"
  using widens_trans unfolding keeps_access_def by blast

text \<open>An operation that leaves the grants alone and lets keys evolve in place.\<close>

lemma keeps_access_map:
  assumes "ad_keys d' = map f (ad_keys d)" "\<And>r. r \<in> set (ad_keys d) \<Longrightarrow> key_evolves r (f r)"
    "ad_grants d' = ad_grants d" "set (ad_projects d) \<subseteq> set (ad_projects d')" "uuid_Nil \<notin> snd ` (set (ad_projects d') - set (ad_projects d))"
  shows "keeps_access d d'"
  unfolding keeps_access_def
proof (intro impI conjI)
  assume inv: "access_inv d"
  note fields = key_evolves_fields [OF assms(2)]
  have ids: "map k_ID (ad_keys d') = map k_ID (ad_keys d)" "map k_SecretHash (ad_keys d') = map k_SecretHash (ad_keys d)"
    unfolding assms(1) using fields(1,6) by simp_all
  have "grant_ok d' g" if g: "g \<in> set (ad_grants d)" for g
  proof -
    obtain k where "k \<in> set (ad_keys d)" "k_ID k = g_KeyID g" "k_OrgID k = g_OrgID g" "(g_OrgID g, g_ProjectID g) \<in> set (ad_projects d)"
      using access_invD(4) [OF inv g] unfolding grant_ok_def by blast
    then show ?thesis using fields(1,2) [of k] assms(4) unfolding grant_ok_def assms(1) by auto
  qed
  moreover have "key_ok (f r)" if "r \<in> set (ad_keys d)" for r
    using key_evolves_ok [OF assms(2) [OF that]] access_invD(3) [OF inv that] by blast
  moreover have "uuid_Nil \<notin> snd ` set (ad_projects d')" using access_invD(5) [OF inv] assms(5) by force
  ultimately show "access_inv d'"
    using access_invD(1,2) [OF inv] unfolding access_inv_def ids assms(3) by (simp add: assms(1))
  have "granted d r \<subseteq> granted d' (f q)" if "r \<in> set (ad_keys d)" "q \<in> set (ad_keys d)" "k_ID (f q) = k_ID r" for r q
  proof -
    have "q = r" using key_unique [OF inv that(2,1)] fields(1) [OF that(2)] that(3) by simp
    then show ?thesis using fields(1,2) [OF that(1)] by (auto simp: granted_def assms(3))
  qed
  then show "widens d d'"
    using keys_grow_map [of "ad_keys d" f] assms(2,4) unfolding widens_def assms(1) by auto
qed

lemma keeps_access_same:
  "ad_keys d' = ad_keys d \<Longrightarrow> ad_grants d' = ad_grants d \<Longrightarrow> set (ad_projects d) \<subseteq> set (ad_projects d') \<Longrightarrow>
   uuid_Nil \<notin> snd ` (set (ad_projects d') - set (ad_projects d)) \<Longrightarrow> keeps_access d d'"
  by (rule keeps_access_map [where f = "\<lambda>r. r"]) simp_all
section \<open>Saving a key\<close>

lemma add_grants_set:
  "set (add_grants tc key now ps gs) \<supseteq> set gs"
  "p \<in> set ps \<Longrightarrow> \<exists>g \<in> set (add_grants tc key now ps gs). g_KeyID g = key \<and> g_ProjectID g = p"
proof -
  have sup: "set gs \<subseteq> set (add_grants tc key now ps gs)" for ps gs by (induction ps arbitrary: gs) force+
  show "set (add_grants tc key now ps gs) \<supseteq> set gs" by (rule sup)
  show "p \<in> set ps \<Longrightarrow> \<exists>g \<in> set (add_grants tc key now ps gs). g_KeyID g = key \<and> g_ProjectID g = p"
  proof (induction ps arbitrary: gs)
    case (Cons q ps)
    let ?gs = "if list_ex (\<lambda>g. g_KeyID g = key \<and> g_ProjectID g = q) gs then gs
      else gs @ [\<lparr>g_OrgID = tc_OrgID tc, g_KeyID = key, g_ProjectID = q, g_CreatedAt = now\<rparr>]"
    have "\<exists>g \<in> set ?gs. g_KeyID g = key \<and> g_ProjectID g = q" by (auto simp: list_ex_iff)
    then show ?case using Cons sup [of ?gs ps] by (cases "p = q") (fastforce simp del: add_grants.simps(1))+
  qed simp
qed

lemma syncGrants_Inr:
  assumes "syncGrants now tc k d = (Inr (), d')"
  shows "ad_keys d' = ad_keys d" "ad_projects d' = ad_projects d" "ad_orgs d' = ad_orgs d" "ad_members d' = ad_members d"
    "\<And>g. g \<in> set (ad_grants d') \<Longrightarrow> g \<in> set (ad_grants d) \<or> grant_ok d g"
    "\<And>g. g \<in> set (ad_grants d) \<Longrightarrow> g_OrgID g \<noteq> tc_OrgID tc \<or> g_KeyID g \<noteq> k_ID k \<or> g_ProjectID g \<in> set (k_ProjectIDs k) \<Longrightarrow>
      g \<in> set (ad_grants d')"
    "\<And>p. p \<in> set (k_ProjectIDs k) \<Longrightarrow> \<exists>g \<in> set (ad_grants d'). g_KeyID g = k_ID k \<and> g_ProjectID g = p"
proof -
  let ?kept = "filter (\<lambda>g. \<not> (g_OrgID g = tc_OrgID tc \<and> g_KeyID g = k_ID k \<and> g_ProjectID g \<notin> set (k_ProjectIDs k))) (ad_grants d)"
  let ?gs = "add_grants tc (k_ID k) now (k_ProjectIDs k) ?kept"
  have fk: "grant_ok d g" if "g \<in> set ?gs" "g \<notin> set ?kept" for g
    using assms that unfolding syncGrants_def Let_def grant_ok_def by (auto simp: list_ex_iff split: if_splits)
  have d': "d' = d\<lparr>ad_grants := ?gs\<rparr>" using assms unfolding syncGrants_def Let_def by (auto split: if_splits)
  show "ad_keys d' = ad_keys d" "ad_projects d' = ad_projects d" "ad_orgs d' = ad_orgs d" "ad_members d' = ad_members d"
    by (simp_all add: d')
  show "g \<in> set (ad_grants d) \<or> grant_ok d g" if "g \<in> set (ad_grants d')" for g using fk that by (auto simp: d')
  show "g \<in> set (ad_grants d')"
    if "g \<in> set (ad_grants d)" "g_OrgID g \<noteq> tc_OrgID tc \<or> g_KeyID g \<noteq> k_ID k \<or> g_ProjectID g \<in> set (k_ProjectIDs k)" for g
    using that add_grants_set(1) [of ?kept tc "k_ID k" now "k_ProjectIDs k"] by (auto simp: d')
  show "\<exists>g \<in> set (ad_grants d'). g_KeyID g = k_ID k \<and> g_ProjectID g = p" if "p \<in> set (k_ProjectIDs k)" for p
    using add_grants_set(2) [OF that] by (simp add: d')
qed

lemma key_Save_cases:
  assumes "key_Save now c k d = (x, d')"
  obtains e where "x = Inl e" "d' = d"
  | tc d1 where "x = Inr ()" "tenant_From c = Inr tc" "key_save tc k d = (Inr (), d1)" "syncGrants now tc k d1 = (Inr (), d')"
proof (cases x)
  case (Inl e)
  have "d' = d" using assms unfolding Inl key_Save_def by (rule atomically_Inl)
  then show ?thesis by (rule that(1) [OF Inl])
next
  case (Inr u)
  note run = assms [unfolded key_Save_def Inr atomically_Inr]
  show ?thesis
  proof (cases "tenant_From c")
    case (Inl e)
    then show ?thesis using run by simp
  next
    case tc: (Inr tc)
    obtain y d1 where y: "key_save tc k d = (y, d1)" by fastforce
    show ?thesis
    proof (cases y)
      case (Inl e)
      then show ?thesis using run unfolding tc sum.case y by simp
    next
      case (Inr v)
      then have "syncGrants now tc k d1 = (Inr u, d')" using run unfolding tc sum.case y by simp
      then show ?thesis by (intro that(2) [OF _ tc]) (simp_all add: y Inr \<open>x = Inr u\<close>)
    qed
  qed
qed

lemma key_save_Inr:
  assumes "key_save tc k d = (Inr (), d1)"
  shows "ad_grants d1 = ad_grants d" "ad_projects d1 = ad_projects d"
    "find_row k_ID (k_ID k) (ad_keys d) = None \<and> ad_keys d1 = ad_keys d @ [key_row k] \<and> kind_shape k \<and> k_SecretHash k \<notin> k_SecretHash ` set (ad_keys d) \<or>
     (\<exists>old. find_row k_ID (k_ID k) (ad_keys d) = Some old \<and> k_OrgID old = tc_OrgID tc \<and> ad_keys d1 = upsert_row k_ID (key_overlay old k) (ad_keys d))"
  using assms unfolding key_save_def by (auto simp: list_ex_iff split: if_splits option.splits)

lemma key_overlay_id [simp]: "k_ID (key_overlay old k) = k_ID old"
  by (simp add: key_overlay_def)

text \<open>Saving a new key.\<close>

lemma key_Save_new:
  assumes "key_Save now c k d = (Inr (), d')" "k_ID k \<notin> k_ID ` set (ad_keys d)" "key_ok (key_row k)"
  shows "keeps_access d d'" "ad_keys d' = ad_keys d @ [key_row k]"
proof -
  obtain tc d1 where s: "tenant_From c = Inr tc" "key_save tc k d = (Inr (), d1)" "syncGrants now tc k d1 = (Inr (), d')"
    by (rule key_Save_cases [OF assms(1)]) simp_all
  note G = syncGrants_Inr [OF s(3)] and S = key_save_Inr [OF s(2)]
  have "find_row k_ID (k_ID k) (ad_keys d) = None" using assms(2) by (rule find_row_fresh)
  then have k: "ad_keys d1 = ad_keys d @ [key_row k]" "k_SecretHash k \<notin> k_SecretHash ` set (ad_keys d)" using S(3) by simp_all
  show keys: "ad_keys d' = ad_keys d @ [key_row k]" using G(1) k(1) by simp
  show "keeps_access d d'"
    unfolding keeps_access_def
  proof (intro impI conjI)
    assume inv: "access_inv d"
    have fresh: "g_KeyID g \<noteq> k_ID k" if "g \<in> set (ad_grants d)" for g
      using access_invD(4) [OF inv that] assms(2) unfolding grant_ok_def by (metis image_eqI)
    have "grant_ok d' g" if g: "g \<in> set (ad_grants d')" for g
      using G(5) [OF g] access_invD(4) [OF inv] G(1,2) S(1,2) k(1) unfolding grant_ok_def by auto
    then show "access_inv d'"
      using access_invD(1-3,5) [OF inv] assms(2,3) k(2) G(2) S(2) unfolding access_inv_def keys by (auto simp: key_row_def)
    have "granted d r \<subseteq> granted d' r" for r
      using G(6) fresh S(1) unfolding granted_def by auto
    moreover have "r' = r" if "r \<in> set (ad_keys d)" "r' \<in> set (ad_keys d')" "k_ID r' = k_ID r" for r r'
      using that key_unique [OF inv] assms(2) unfolding keys by (auto simp: key_row_def)
    ultimately show "widens d d'" unfolding widens_def keys using keys_grow_append G(2) S(2) unfolding keys by auto
  qed
qed

text \<open>Saving a key that was loaded, changed only where \<open>key_evolves\<close> allows, and whose projects are kept or all.\<close>

lemma key_Save_loaded:
  assumes inv: "access_inv d" and s: "key_Save now c k d = (Inr (), d')" and r: "r \<in> set (ad_keys d)" and id: "k_ID k = k_ID r"
    and ev: "key_evolves r (key_overlay r k)"
    and wide: "k_AllProjects k \<or> granted d r \<subseteq> set (k_ProjectIDs k)"
  shows "access_inv d'" "widens d d'" "key_overlay r k \<in> set (ad_keys d')" "set (ad_keys d') = insert (key_overlay r k) (set (ad_keys d) - {r})"
proof -
  obtain tc d1 where s: "tenant_From c = Inr tc" "key_save tc k d = (Inr (), d1)" "syncGrants now tc k d1 = (Inr (), d')"
    by (rule key_Save_cases [OF s]) simp_all
  note G = syncGrants_Inr [OF s(3)] and S = key_save_Inr [OF s(2)]
  have f: "find_row k_ID (k_ID k) (ad_keys d) = Some r" using find_row_Some_iff [OF access_invD(1) [OF inv]] r id by metis
  then have keys: "ad_keys d' = upsert_row k_ID (key_overlay r k) (ad_keys d)" "k_OrgID r = tc_OrgID tc" using S(3) G(1) by auto
  have grow: "keys_grow (ad_keys d) (ad_keys d')" unfolding keys(1) by (rule keys_grow_upsert [OF _ ev]) (use f id in simp)
  have set': "set (ad_keys d') = insert (key_overlay r k) {q \<in> set (ad_keys d). k_ID q \<noteq> k_ID r}"
    unfolding keys(1) using set_upsert_row [OF access_invD(1) [OF inv], of "key_overlay r k"] by simp
  then show "set (ad_keys d') = insert (key_overlay r k) (set (ad_keys d) - {r})" using key_unique [OF inv _ r] by auto
  then show "key_overlay r k \<in> set (ad_keys d')" by simp
  have map': "map k_ID (ad_keys d') = map k_ID (ad_keys d)" "map k_SecretHash (ad_keys d') = map k_SecretHash (ad_keys d)"
  proof -
    have "map h (upsert_row k_ID x ks) = map h ks" if "find_row k_ID (k_ID x) ks = Some o'" "h x = h o'" for h :: "APIKey \<Rightarrow> 'b" and x ks o'
      using that by (induction ks) (auto simp: table_simps split: if_splits)
    then show "map k_ID (ad_keys d') = map k_ID (ad_keys d)" "map k_SecretHash (ad_keys d') = map k_SecretHash (ad_keys d)"
      unfolding keys(1) using f id key_evolves_fields(1,6) [OF ev] by (metis key_overlay_id)+
  qed
  have gr: "grant_ok d' g" if g: "g \<in> set (ad_grants d')" for g
  proof -
    have "grant_ok d1 g \<or> grant_ok d g" using G(5) [OF g] access_invD(4) [OF inv] S(1) by auto
    then have "\<exists>q \<in> set (ad_keys d) \<union> set (ad_keys d'). k_ID q = g_KeyID g \<and> k_OrgID q = g_OrgID g" "(g_OrgID g, g_ProjectID g) \<in> set (ad_projects d')"
      using G(1,2) S(2) unfolding grant_ok_def by auto
    then show ?thesis using set' key_evolves_fields(1,2) [OF ev] key_unique [OF inv _ r] unfolding grant_ok_def by auto
  qed
  have "key_ok q" if "q \<in> set (ad_keys d')" for q
    using that set' access_invD(3) [OF inv] key_evolves_ok [OF ev] r by auto
  then show inv': "access_inv d'" using access_invD(1,2,5) [OF inv] gr G(2) S(2) unfolding access_inv_def map' by simp
  show "widens d d'"
    unfolding widens_def
  proof (intro conjI ballI impI)
    show "keys_grow (ad_keys d) (ad_keys d')" by (rule grow)
    show "set (ad_projects d) \<subseteq> set (ad_projects d')" using G(2) S(2) by simp
    fix q q' assume q: "q \<in> set (ad_keys d)" "q' \<in> set (ad_keys d')" "k_ID q' = k_ID q"
    show "k_AllProjects q' \<or> granted d q \<subseteq> granted d' q'"
    proof (cases "q = r")
      case False
      then have ne: "k_ID q \<noteq> k_ID r" using key_unique [OF inv q(1) r] by blast
      then have "q' = q" using set' q key_unique [OF inv _ q(1)] by auto
      then show ?thesis using G(6) S(1) ne id unfolding granted_def by auto
    next
      case True
      then have q': "q' = key_overlay r k" using set' q(2,3) by auto
      show ?thesis
      proof (cases "k_AllProjects k")
        case False
        then have "granted d r \<subseteq> set (k_ProjectIDs k)" using wide by blast
        then have "g \<in> set (ad_grants d')" if "g \<in> set (ad_grants d)" "g_OrgID g = k_OrgID r" "g_KeyID g = k_ID r" for g
          using that G(6) S(1) unfolding granted_def by auto
        then show ?thesis using True q' key_evolves_fields(1,2) [OF ev] unfolding granted_def by auto
      qed (simp add: q' key_overlay_def)
    qed
  qed
qed
section \<open>Operations of the organisation service\<close>

definition same_keys :: "access_db \<Rightarrow> access_db \<Rightarrow> bool" where
  "same_keys d d' \<longleftrightarrow> ad_keys d' = ad_keys d \<and> ad_grants d' = ad_grants d \<and> ad_projects d' = ad_projects d"

lemma same_keys_refl [simp]: "same_keys d d"
  by (simp add: same_keys_def)

lemma same_keys_trans: "same_keys d1 d2 \<Longrightarrow> same_keys d2 d3 \<Longrightarrow> same_keys d1 d3"
  by (simp add: same_keys_def)

lemma same_keys_keeps: "same_keys d d' \<Longrightarrow> keeps_access d d'"
  by (rule keeps_access_same) (simp_all add: same_keys_def)

lemma org_store_same_keys:
  "same_keys d (snd (org_Save o' d))" "same_keys d (snd (SaveMembership m d))" "same_keys d (snd (store_RemoveMember orgID userID d))"
  by (simp_all add: same_keys_def org_Save_def SaveMembership_def store_RemoveMember_def Let_def)

lemmas org_saves = org_store_same_keys [unfolded same_keys_def] same_keys_def

lemma createWithSlug_same: "same_keys d (snd (createWithSlug id' now req chosen d))"
proof -
  have "same_keys d (snd (case org_Save o' d of
          (Inl e, d1) \<Rightarrow> (Inl (f e), d1)
        | (Inr _, d1) \<Rightarrow>
          (case NewMembership now (or_ID o') (cr_OwnerID req) RoleOwner of Inl e \<Rightarrow> (Inl e, d1) | Inr m \<Rightarrow>
          (case SaveMembership m d1 of (Inl e, d2) \<Rightarrow> (Inl (g e), d2) | (Inr _, d2) \<Rightarrow> (Inr o', d2)))))" for o' f g
    using org_store_same_keys(1) [of d o'] org_store_same_keys(2) same_keys_trans
    by (auto split: prod.splits sum.splits) (metis snd_conv)+
  then show ?thesis by (auto simp: createWithSlug_def split: sum.splits)
qed

lemma retry_loop_same:
  assumes "\<And>s cand. same_keys s (snd (create cand s))"
  shows "same_keys s (snd (retry_loop n i prev gen taken create s))"
proof (induction n arbitrary: i prev s)
  case (Suc n)
  show ?case
    using assms [of s "gen i"] Suc same_keys_trans by (auto split: prod.splits sum.splits)
qed simp

lemma orgs_Create_same: "same_keys d (snd (orgs_Create oc gen id' now req d))"
  using createWithSlug_same retry_loop_same [of "createWithSlug id' now req"] by (simp add: orgs_Create_def Let_def slug_Retry_def)

lemma orgs_Rename_same: "same_keys d (snd (orgs_Rename id' name d))"
  using org_store_same_keys(1) [of d]
  by (auto simp: orgs_Rename_def split: sum.splits prod.splits) (metis snd_conv)+

lemma AddMember_same: "same_keys d (snd (AddMember now orgID userID role d))"
  using org_store_same_keys(2) [of d]
  by (auto simp: AddMember_def split: sum.splits prod.splits) (metis snd_conv)+

lemma adopt_member_same: "same_keys d (snd (adopt_member now existing ownerID d))"
  using org_store_same_keys(2) [of d]
  by (auto simp: adopt_member_def split: sum.splits prod.splits) (metis snd_conv)+

lemma adoptSingleton_same: "same_keys d (snd (adoptSingleton now existing ownerID d))"
proof (cases "or_System existing")
  case False
  obtain x d1 where x: "org_Save (existing\<lparr>or_System := True\<rparr>) d = (x, d1)" by fastforce
  have "same_keys d d1" using org_store_same_keys(1) [of d "existing\<lparr>or_System := True\<rparr>"] x by simp
  then show ?thesis
    using False x same_keys_trans [OF _ adopt_member_same] by (cases x) (simp_all add: adoptSingleton_def)
qed (simp add: adoptSingleton_def adopt_member_same)

lemma insertSingleton_same: "same_keys d (snd (insertSingleton now orgID slug name ownerID d))"
proof (cases "NewOrg orgID now slug name ownerID")
  case (Inr o0)
  obtain x d1 where x: "org_Save (o0\<lparr>or_System := True\<rparr>) d = (x, d1)" by fastforce
  have 1: "same_keys d d1" using org_store_same_keys(1) [of d "o0\<lparr>or_System := True\<rparr>"] x by simp
  have "same_keys d d2" if "SaveMembership m d1 = (y, d2)" for m y d2
    using same_keys_trans [OF 1 org_store_same_keys(2) [of d1 m]] that by simp
  then show ?thesis
    using 1 Inr x by (cases x) (auto simp: insertSingleton_def split: sum.splits prod.splits)
qed (simp add: insertSingleton_def)

lemma ensureSingleton_same: "same_keys d (snd (ensureSingleton gen now orgID slug name ownerID d))"
proof -
  have cand: "same_keys s (snd (singleton_candidate now orgID name ownerID cand s))" for s cand
    using insertSingleton_same by (auto simp: singleton_candidate_def split: sum.splits)
  show ?thesis
    using adoptSingleton_same insertSingleton_same [of d now orgID slug name ownerID]
      retry_loop_same [of "singleton_candidate now orgID name ownerID", OF cand]
    by (auto simp: ensureSingleton_def slug_Retry_def split: sum.splits prod.splits)
qed

lemma BootstrapSingleton_same: "same_keys d (snd (BootstrapSingleton gen fresh now c slug name ownerID d))"
proof -
  let ?org = "snd (scopeForBootstrap fresh c ownerID)"
  obtain x d1 where x: "ensureSingleton gen now ?org (TrimSpace slug) name ownerID d = (x, d1)" by fastforce
  have 1: "same_keys d d1" using ensureSingleton_same [of d gen now ?org "TrimSpace slug" name ownerID] x by simp
  show ?thesis
    using 1 same_keys_trans [OF 1 adoptSingleton_same] by (cases x) (auto simp: BootstrapSingleton_def x Let_def split: sum.splits)
qed

section \<open>Operations of the key service\<close>

lemma RevokePersonal_keeps: "keeps_access d (snd (RevokePersonal c ownerID at d))"
proof (cases "tenant_From c")
  case (Inr tc)
  let ?f = "\<lambda>r. if k_OrgID r = tc_OrgID tc \<and> k_Kind r = KindPersonal \<and> ownerID \<noteq> uuid_Nil \<and>
    k_CreatedBy r = ownerID \<and> k_RevokedAt r = None then r\<lparr>k_RevokedAt := Some at\<rparr> else r"
  have "keeps_access d (d\<lparr>ad_keys := map ?f (ad_keys d)\<rparr>)"
    by (rule keeps_access_map [where f = ?f]) (simp_all add: key_evolves_def)
  then show ?thesis unfolding RevokePersonal_def Inr sum.case by simp
qed (simp add: RevokePersonal_def)

lemma TouchLastUsed_keeps: "keeps_access d (snd (TouchLastUsed c id' at d))"
proof (cases "tenant_From c")
  case (Inr tc)
  let ?f = "\<lambda>r. if k_ID r = id' \<and> k_OrgID r = tc_OrgID tc then r\<lparr>k_LastUsedAt := Some at\<rparr> else r"
  have "keeps_access d (d\<lparr>ad_keys := map ?f (ad_keys d)\<rparr>)"
    by (rule keeps_access_map [where f = ?f]) (simp_all add: key_evolves_def)
  then show ?thesis unfolding TouchLastUsed_def Inr sum.case by simp
qed (simp add: TouchLastUsed_def)
lemma RemoveMember_cases:
  assumes "RemoveMember [RevokePersonalOf now] c0 orgID userID d = (x, d')"
  shows "keeps_access d d'"
    "x = Inr () \<Longrightarrow> \<exists>d1 tc. tenant_From (WithOrg (WithOrg c0 orgID) orgID) = Inr tc \<and>
       RevokePersonal (WithOrg (WithOrg c0 orgID) orgID) userID now d = (Inr (), d1) \<and> ad_keys d' = ad_keys d1"
proof -
  let ?c = "WithOrg c0 orgID"
  obtain y d1 where y: "RevokePersonal (WithOrg ?c orgID) userID now d = (y, d1)" by fastforce
  have hooks: "run_hooks [RevokePersonalOf now] ?c orgID userID d =
      ((case y of Inl e \<Rightarrow> Inl (Unexpected ''org.RemoveMember: hook'' (Unexpected ''apikey.RevokePersonalOf'' e)) | Inr _ \<Rightarrow> Inr ()), d1)"
    using y by (cases y) (simp_all add: RevokePersonalOf_def)
  have k1: "keeps_access d d1" using RevokePersonal_keeps [of d "WithOrg ?c orgID" userID now] y by simp
  obtain z d2 where z: "store_RemoveMember orgID userID d1 = (z, d2)" by fastforce
  have s2: "same_keys d1 d2" using org_store_same_keys(3) [of d1 orgID userID] z by simp
  have alt: "d' = d \<or> d' = d1 \<or> d' = d2" "x = Inr () \<Longrightarrow> y = Inr () \<and> d' = d2"
    using assms hooks z unfolding RemoveMember_def Let_def
    by (auto split: sum.splits option.splits)
  show "keeps_access d d'" using alt(1) k1 keeps_access_trans [OF k1 same_keys_keeps [OF s2]] by auto
  assume "x = Inr ()"
  then have "y = Inr ()" "d' = d2" using alt(2) by simp_all
  moreover have "\<exists>tc. tenant_From (WithOrg ?c orgID) = Inr tc"
    using y \<open>y = Inr ()\<close> by (cases "tenant_From (WithOrg ?c orgID)") (auto simp: RevokePersonal_def)
  ultimately show "\<exists>d1 tc. tenant_From (WithOrg ?c orgID) = Inr tc \<and>
       RevokePersonal (WithOrg ?c orgID) userID now d = (Inr (), d1) \<and> ad_keys d' = ad_keys d1"
    using y s2 by (auto simp: same_keys_def)
qed

lemma requireMinter_user:
  "RequireManager orgID userID d = Inr () \<Longrightarrow> userID \<noteq> uuid_Nil" "RequireMember orgID userID d = Inr () \<Longrightarrow> userID \<noteq> uuid_Nil"
  by (auto simp: RequireManager_def IsManager_def RequireMember_def split: sum.splits if_splits)

lemma mintGate_Inr:
  assumes "mintGate now c kind scopes expiresAt d = Inr tc"
  obtains t where "tenant_From c = Inr tc" "expiresAt = Some t" "now < t" "t - now \<le> MaxLifetime" "tc_UserID tc \<noteq> uuid_Nil"
    "list_all (\<lambda>s. scope_Valid s \<longrightarrow> Mintable s) scopes"
proof (cases "tenant_From c")
  case (Inl e)
  then show ?thesis using assms by (simp add: mintGate_def)
next
  case (Inr tc')
  have m: "requireMinter kind tc' scopes d = Inr ()" and f: "requireMintable scopes = Inr ()" and l: "validateLifetime expiresAt now = Inr ()"
    and tc: "tc' = tc" using assms unfolding mintGate_def Inr sum.case by (auto split: sum.splits)
  have "tc_UserID tc \<noteq> uuid_Nil"
    using m requireMinter_user unfolding requireMinter_def requireOwner_def tc by (auto split: if_splits)
  moreover have "list_all (\<lambda>s. scope_Valid s \<longrightarrow> Mintable s) scopes"
    using f by (auto simp: requireMintable_def list_all_iff find_None_iff split: option.splits)
  ultimately show ?thesis
    using that l Inr unfolding tc by (auto simp: validateLifetime_def split: option.splits if_splits)
qed

lemma base_mint_Inr:
  assumes "base_mint sum256 scheme id' buf orgID name scopes expiresAt now = Inr (k, pt)"
  shows "list_all scope_Valid scopes" "pt = plain_secret scheme buf" "k_ID k = id'" "k_OrgID k = orgID" "k_SecretHash k = sum256 pt"
    "k_Scopes k = scopes" "k_CreatedAt k = now" "k_ExpiresAt k = expiresAt" "k_RevokedAt k = None" "k_ProjectIDs k = []"
  using assms by (auto simp: base_mint_def Let_def list_all_iff find_None_iff split: option.splits)

text \<open>What a minted key looks like, whatever its kind.\<close>

definition minted :: "minting \<Rightarrow> instant \<Rightarrow> Tenant \<Rightarrow> string list \<Rightarrow> instant option \<Rightarrow> APIKey \<Rightarrow> string \<Rightarrow> bool" where
  "minted mi now tc scopes expiresAt k pt \<longleftrightarrow> list_all scope_Valid scopes \<and> pt = plain_secret (mi_Scheme mi) (mi_Bytes mi) \<and> k_ID k = mi_ID mi \<and>
     k_OrgID k = tc_OrgID tc \<and> k_SecretHash k = mi_Sum256 mi pt \<and> k_Scopes k = scopes \<and> k_CreatedAt k = now \<and> k_ExpiresAt k = expiresAt \<and>
     k_RevokedAt k = None \<and> (k_Kind k = KindProject \<longrightarrow> \<not> hasOrgLevelScope scopes)"

lemma scheme_Mint_minted:
  "scheme_Mint (mi_Sum256 mi) (mi_Scheme mi) (mi_ID mi) (mi_Bytes mi) (tc_OrgID tc) p name scopes rs expiresAt now = Inr (k, pt) \<Longrightarrow>
   minted mi now tc scopes expiresAt k pt"
  by (auto simp: scheme_Mint_def minted_def hasOrgLevelScope_def list_ex_iff find_None_iff base_mint_Inr
    split: option.splits sum.splits dest: base_mint_Inr) 

lemma scheme_MintOrg_minted:
  "scheme_MintOrg (mi_Sum256 mi) (mi_Scheme mi) (mi_ID mi) (mi_Bytes mi) (tc_OrgID tc) name scopes g expiresAt now = Inr (k, pt) \<Longrightarrow>
   minted mi now tc scopes expiresAt k pt"
  by (auto simp: scheme_MintOrg_def minted_def split: sum.splits dest: base_mint_Inr)

lemma scheme_MintPersonal_minted:
  "scheme_MintPersonal (mi_Sum256 mi) (mi_Scheme mi) (mi_ID mi) (mi_Bytes mi) (tc_OrgID tc) owner name scopes g expiresAt now = Inr (k, pt) \<Longrightarrow>
   minted mi now tc scopes expiresAt k pt"
  by (auto simp: scheme_MintPersonal_def scheme_MintOrg_def minted_def split: sum.splits dest: base_mint_Inr)

lemma saveMinted_effect:
  assumes s: "saveMinted now c tc k pt d = (x, d')" and m: "minted mi now tc scopes expiresAt k pt"
    and fresh: "mi_ID mi \<notin> k_ID ` set (ad_keys d)" and g: "mintGate now c kind scopes expiresAt d = Inr tc"
  shows "keeps_access d d'"
    "x = Inr (k2, pt2) \<Longrightarrow> pt2 = pt \<and> k2 = k\<lparr>k_CreatedBy := tc_UserID tc\<rparr> \<and> ad_keys d' = ad_keys d @ [key_row k2]"
proof -
  let ?k = "k\<lparr>k_CreatedBy := tc_UserID tc\<rparr>"
  obtain y d1 where y: "key_Save now c ?k d = (y, d1)" by fastforce
  obtain t where t: "expiresAt = Some t" "now < t" "t - now \<le> MaxLifetime" "tc_UserID tc \<noteq> uuid_Nil" by (rule mintGate_Inr [OF g])
  have d': "d' = d1" using s y by (auto simp: saveMinted_def split: sum.splits)
  have id: "k_ID ?k \<notin> k_ID ` set (ad_keys d)" using m fresh by (simp add: minted_def)
  show "keeps_access d d'"
  proof (cases y)
    case (Inl e)
    then have "d1 = d" by (rule_tac key_Save_cases [OF y]) simp_all
    then show ?thesis by (simp add: d')
  next
    case (Inr u)
    then have y: "key_Save now c ?k d = (Inr (), d1)" using y by simp
    have "kind_shape ?k"
    proof (rule key_Save_cases [OF y])
      fix tc' d2 assume "key_save tc' ?k d = (Inr (), d2)"
      then show ?thesis using key_save_Inr(3) find_row_fresh [OF id] by fastforce
    qed simp
    then have "key_ok (key_row ?k)"
      using m t by (simp add: key_ok_def key_row_def minted_def kind_shape_def)
    then show ?thesis using key_Save_new(1) [OF y id] d' by simp
  qed
  assume x: "x = Inr (k2, pt2)"
  then have "y = Inr ()" "k2 = ?k" "pt2 = pt" using s y by (auto simp: saveMinted_def split: sum.splits)
  then have y: "key_Save now c ?k d = (Inr (), d1)" using y by simp
  have "ad_keys d' = ad_keys d @ [key_row ?k]"
  proof (rule key_Save_cases [OF y])
    fix tc' d2 assume "key_save tc' ?k d = (Inr (), d2)" "syncGrants now tc' ?k d2 = (Inr (), d1)"
    then show ?thesis using key_save_Inr(3) find_row_fresh [OF id] syncGrants_Inr(1) d' by fastforce
  qed simp
  then show "pt2 = pt \<and> k2 = ?k \<and> ad_keys d' = ad_keys d @ [key_row k2]" using \<open>k2 = ?k\<close> \<open>pt2 = pt\<close> by simp
qed
text \<open>Changing a key that was loaded.\<close>

lemma loadForChange_Inr:
  assumes "loadForChange c id' d = Inr (tc, k)"
  obtains r where "r \<in> set (ad_keys d)" "k_ID r = id'" "k_OrgID r = tc_OrgID tc" "k = toAPIKey d r" "tenant_From c = Inr tc"
proof (cases "tenant_From c")
  case (Inl e)
  then show ?thesis using assms by (simp add: loadForChange_def)
next
  case (Inr tc')
  obtain k' where k': "key_load c tc' id' d = Inr k'" and eq: "tc' = tc" "k' = k"
    using assms unfolding loadForChange_def Inr sum.case by (auto split: sum.splits if_splits)
  have b: "key_ByID c id' d = Inr k" using k' unfolding key_load_def eq by (auto split: sum.splits if_splits)
  then have "key_queryOne (\<lambda>r. k_ID r = id' \<and> k_OrgID r = tc_OrgID tc) d = Inr k"
    unfolding key_ByID_def Inr sum.case eq .
  then obtain r where f: "find (\<lambda>r. k_ID r = id' \<and> k_OrgID r = tc_OrgID tc) (ad_keys d) = Some r" and k: "k = toAPIKey d r"
    by (auto simp: key_queryOne_def split: option.splits)
  have "r \<in> set (ad_keys d) \<and> k_ID r = id' \<and> k_OrgID r = tc_OrgID tc" using f by (auto simp: find_Some_iff)
  then show ?thesis using that [of r] k Inr eq(1) by blast
qed

lemma set_dedupe_from: "set (dedupe_from out ids) = set out \<union> (set ids - {uuid_Nil})"
  by (induction out ids rule: dedupe_from.induct) auto

lemma granted_not_Nil:
  assumes "access_inv d"
  shows "uuid_Nil \<notin> granted d r"
proof
  assume "uuid_Nil \<in> granted d r"
  then obtain g where "g \<in> set (ad_grants d)" "g_ProjectID g = uuid_Nil" by (auto simp: granted_def)
  then show False using access_invD(4,5) [OF assms] unfolding grant_ok_def by (metis image_eqI snd_conv)
qed

lemma widen_GrantProjects:
  assumes "key_GrantProjects ps (toAPIKey d r) = Inr k'" "access_inv d"
  shows "k_ID k' = k_ID r" "key_evolves r (key_overlay r k')" "k_AllProjects k' \<or> granted d r \<subseteq> set (k_ProjectIDs k')" "k_RevokedAt r = None"
proof -
  have k': "k' = (toAPIKey d r)\<lparr>k_ProjectIDs := dedupe (k_ProjectIDs (toAPIKey d r) @ ps)\<rparr>" and rv: "k_RevokedAt r = None"
    using assms(1) by (auto simp: key_GrantProjects_def promotable_def split: sum.splits if_splits)
  show "k_ID k' = k_ID r" "k_RevokedAt r = None" by (simp_all add: k' rv)
  show "key_evolves r (key_overlay r k')" by (simp add: k' key_overlay_def key_evolves_def)
  have "granted d r \<subseteq> set (k_ProjectIDs k')"
    using granted_not_Nil [OF assms(2), of r] by (auto simp: k' dedupe_def set_dedupe_from set_loaded)
  then show "k_AllProjects k' \<or> granted d r \<subseteq> set (k_ProjectIDs k')" ..
qed

lemma widen_GrantAll:
  assumes "key_GrantAllProjects (toAPIKey d r) = Inr k'"
  shows "k_ID k' = k_ID r" "key_evolves r (key_overlay r k')" "k_AllProjects k' \<or> granted d r \<subseteq> set (k_ProjectIDs k')" "k_RevokedAt r = None"
proof -
  have k': "k' = (toAPIKey d r)\<lparr>k_AllProjects := True, k_ProjectIDs := []\<rparr>" and rv: "k_RevokedAt r = None" and hg: "HasGrant r"
    using assms(1) by (auto simp: key_GrantAllProjects_def promotable_def HasGrant_def split: sum.splits if_splits)
  show "k_ID k' = k_ID r" "k_RevokedAt r = None" "k_AllProjects k' \<or> granted d r \<subseteq> set (k_ProjectIDs k')" by (simp_all add: k' rv)
  show "key_evolves r (key_overlay r k')" using hg by (simp add: k' key_overlay_def key_evolves_def)
qed

lemma promote_keeps:
  assumes w: "\<And>tc r k'. widen tc (toAPIKey d r) d = Inr k' \<Longrightarrow> access_inv d \<Longrightarrow> k_ID k' = k_ID r \<and> key_evolves r (key_overlay r k') \<and>
      (k_AllProjects k' \<or> granted d r \<subseteq> set (k_ProjectIDs k'))"
    and p: "promote now c id' widen d = (x, d')"
  shows "keeps_access d d'"
proof (cases "loadForChange c id' d")
  case (Inr q)
  obtain tc k where q: "q = (tc, k)" by fastforce
  obtain r where r: "r \<in> set (ad_keys d)" "k = toAPIKey d r" by (rule loadForChange_Inr [OF Inr [unfolded q]])
  show ?thesis
  proof (cases "widen tc k d")
    case (Inr k')
    obtain y d1 where y: "key_Save now c k' d = (y, d1)" by fastforce
    have d': "d' = d1" using p \<open>loadForChange c id' d = Inr q\<close> Inr y by (auto simp: promote_def q split: sum.splits)
    show ?thesis
    proof (cases y)
      case (Inl e)
      then have "d1 = d" by (rule_tac key_Save_cases [OF y]) simp_all
      then show ?thesis by (simp add: d')
    next
      case y': (Inr u)
      show ?thesis
        unfolding keeps_access_def
      proof
        assume inv: "access_inv d"
        note W = w [OF Inr [unfolded r(2)] inv]
        show "access_inv d' \<and> widens d d'"
          using key_Save_loaded(1,2) [OF inv, of now c k' d' r] y y' r(1) W d' by simp
      qed
    qed
  qed (use p Inr q in \<open>auto simp: promote_def\<close>)
qed (use p in \<open>auto simp: promote_def\<close>)

lemma keys_Revoke_effect:
  assumes "keys_Revoke now c id' d = (x, d')"
  shows "keeps_access d d'"
    "x = Inr () \<Longrightarrow> access_inv d \<Longrightarrow> \<exists>r \<in> set (ad_keys d'). k_ID r = id' \<and> (\<exists>t. k_RevokedAt r = Some t \<and>
      (\<forall>r0 \<in> set (ad_keys d). k_ID r0 = id' \<and> k_RevokedAt r0 = None \<longrightarrow> t = now))"
proof -
  have eff: "(access_inv d \<longrightarrow> access_inv d' \<and> widens d d') \<and> (x = Inr () \<longrightarrow> access_inv d \<longrightarrow>
      (\<exists>r \<in> set (ad_keys d'). k_ID r = id' \<and> (\<exists>t. k_RevokedAt r = Some t \<and>
      (\<forall>r0 \<in> set (ad_keys d). k_ID r0 = id' \<and> k_RevokedAt r0 = None \<longrightarrow> t = now))))"
  proof (cases "loadForChange c id' d")
    case (Inr q)
    obtain tc k where q: "q = (tc, k)" by fastforce
    obtain r where r: "r \<in> set (ad_keys d)" "k_ID r = id'" "k = toAPIKey d r" by (rule loadForChange_Inr [OF Inr [unfolded q]])
    let ?k = "if k_RevokedAt k = None then k\<lparr>k_RevokedAt := Some now\<rparr> else k"
    obtain y d1 where y: "key_Save now c ?k d = (y, d1)" by fastforce
    have d': "d' = d1" "x = Inr () \<Longrightarrow> y = Inr ()" using assms Inr y by (auto simp: keys_Revoke_def q Let_def split: sum.splits)
    show ?thesis
    proof (cases y)
      case (Inl e)
      then have "d1 = d" by (rule_tac key_Save_cases [OF y]) simp_all
      then show ?thesis using d' Inl widens_refl by auto
    next
      case y': (Inr u)
      have ov: "key_overlay r ?k = r\<lparr>k_RevokedAt := (if k_RevokedAt r = None then Some now else k_RevokedAt r)\<rparr>"
        using r(3) by (auto simp: key_overlay_def)
      have ev: "key_evolves r (key_overlay r ?k)" unfolding ov by (auto simp: key_evolves_def)
      have ids: "k_ID ?k = k_ID r" "granted d r \<subseteq> set (k_ProjectIDs ?k)" using set_loaded [of d r] by (auto simp: r(3))
      show ?thesis
      proof (intro conjI impI)
        assume inv: "access_inv d"
        have y2: "key_Save now c ?k d = (Inr (), d1)" using y y' by simp
        note L = key_Save_loaded [OF inv y2 r(1) ids(1) ev disjI2 [OF ids(2)]]
        show "access_inv d'" "widens d d'" using L(1,2) d' y y' by auto
        assume "x = Inr ()"
        have "key_overlay r ?k \<in> set (ad_keys d')" using L(3) d' y y' by auto
        moreover have "k_ID (key_overlay r ?k) = id'" using r(2) by simp
        moreover have "\<exists>t. k_RevokedAt (key_overlay r ?k) = Some t \<and> (\<forall>r0 \<in> set (ad_keys d). k_ID r0 = id' \<and> k_RevokedAt r0 = None \<longrightarrow> t = now)"
        proof -
          have "r0 = r" if "r0 \<in> set (ad_keys d)" "k_ID r0 = id'" for r0 using key_unique [OF inv that(1) r(1)] that(2) r(2) by simp
          then show ?thesis unfolding ov by (cases "k_RevokedAt r") fastforce+
        qed
        ultimately show "\<exists>r \<in> set (ad_keys d'). k_ID r = id' \<and> (\<exists>t. k_RevokedAt r = Some t \<and>
            (\<forall>r0 \<in> set (ad_keys d). k_ID r0 = id' \<and> k_RevokedAt r0 = None \<longrightarrow> t = now))" by blast
      qed
    qed
  qed (use assms in \<open>auto simp: keys_Revoke_def widens_refl\<close>)
  show "keeps_access d d'" using eff unfolding keeps_access_def by blast
  show "x = Inr () \<Longrightarrow> access_inv d \<Longrightarrow> \<exists>r \<in> set (ad_keys d'). k_ID r = id' \<and> (\<exists>t. k_RevokedAt r = Some t \<and>
      (\<forall>r0 \<in> set (ad_keys d). k_ID r0 = id' \<and> k_RevokedAt r0 = None \<longrightarrow> t = now))" using eff by blast
qed
section \<open>The state machine\<close>

text \<open>
  Every operation of the organisation and key services as a step.  Ids of new
  keys are fresh.  The project service adds projects, never with the nil id.
\<close>

inductive access_step :: "access_db \<Rightarrow> access_db \<Rightarrow> bool" where
  create: "orgs_Create oc gen id' now req d = (x, d') \<Longrightarrow> access_step d d'"
| bootstrap: "BootstrapSingleton gen id' now c slug name ownerID d = (x, d') \<Longrightarrow> access_step d d'"
| rename: "orgs_Rename id' name d = (x, d') \<Longrightarrow> access_step d d'"
| add_member: "AddMember now orgID userID role d = (x2, d') \<Longrightarrow> access_step d d'"
| remove_member: "RemoveMember [RevokePersonalOf now] c orgID userID d = (u, d') \<Longrightarrow> access_step d d'"
| project: "p \<noteq> uuid_Nil \<Longrightarrow> access_step d (d\<lparr>ad_projects := ad_projects d @ [(orgID, p)]\<rparr>)"
| mint: "keys_Mint mi now c name scopes resourceIDs expiresAt d = (k, d') \<Longrightarrow> mi_ID mi \<notin> k_ID ` set (ad_keys d) \<Longrightarrow> access_step d d'"
| mint_org: "keys_MintOrg mi now c name scopes g expiresAt d = (k, d') \<Longrightarrow> mi_ID mi \<notin> k_ID ` set (ad_keys d) \<Longrightarrow> access_step d d'"
| mint_personal: "keys_MintPersonal mi now c name scopes g expiresAt d = (k, d') \<Longrightarrow> mi_ID mi \<notin> k_ID ` set (ad_keys d) \<Longrightarrow> access_step d d'"
| grant: "keys_GrantProjects now c id' projectIDs d = (k2, d') \<Longrightarrow> access_step d d'"
| grant_all: "keys_GrantAllProjects now c id' d = (k2, d') \<Longrightarrow> access_step d d'"
| revoke: "keys_Revoke now c id' d = (u, d') \<Longrightarrow> access_step d d'"
| touch: "TouchLastUsed c id' at d = (u, d') \<Longrightarrow> access_step d d'"

inductive access_reachable :: "access_db \<Rightarrow> bool" where
  empty: "access_reachable no_access"
| step: "access_reachable d \<Longrightarrow> access_step d d' \<Longrightarrow> access_reachable d'"

lemma keys_Mint_effect:
  assumes "keys_Mint mi now c name scopes rs expiresAt d = (x, d')" "mi_ID mi \<notin> k_ID ` set (ad_keys d)"
  shows "keeps_access d d'"
    "x = Inr (k, pt) \<Longrightarrow> \<exists>tc. minted mi now tc scopes expiresAt k pt \<and> tenant_From c = Inr tc \<and> k_Kind k = KindProject \<and>
       k_ProjectID k = tc_ProjectID tc \<and> k_ResourceIDs k = rs \<and> ad_keys d' = ad_keys d @ [key_row k]"
proof -
  have "keeps_access d d' \<and> (x = Inr (k, pt) \<longrightarrow> (\<exists>tc. minted mi now tc scopes expiresAt k pt \<and> tenant_From c = Inr tc \<and> k_Kind k = KindProject \<and>
       k_ProjectID k = tc_ProjectID tc \<and> k_ResourceIDs k = rs \<and> ad_keys d' = ad_keys d @ [key_row k]))"
  proof (cases "mintGate now c KindProject scopes expiresAt d")
    case (Inr tc)
    note g = this
    show ?thesis
    proof (cases "scheme_Mint (mi_Sum256 mi) (mi_Scheme mi) (mi_ID mi) (mi_Bytes mi) (tc_OrgID tc) (tc_ProjectID tc) name scopes rs expiresAt now")
      case (Inr kp)
      obtain k0 pt0 where kp: "kp = (k0, pt0)" by fastforce
      note m = scheme_Mint_minted [OF Inr [unfolded kp]]
      have k0: "k_Kind k0 = KindProject" "k_ProjectID k0 = tc_ProjectID tc" "k_ResourceIDs k0 = rs"
        using Inr kp by (auto simp: scheme_Mint_def split: option.splits sum.splits)
      have s: "saveMinted now c tc k0 pt0 d = (x, d')" using assms(1) g Inr by (simp add: keys_Mint_def kp)
      note E = saveMinted_effect [OF s m assms(2) g]
      show ?thesis
      proof (intro conjI impI)
        show "keeps_access d d'" by (rule E(1))
        assume "x = Inr (k, pt)"
        then have k: "pt = pt0" "k = k0\<lparr>k_CreatedBy := tc_UserID tc\<rparr>" "ad_keys d' = ad_keys d @ [key_row k]" using E(2) by blast+
        have "minted mi now tc scopes expiresAt k pt" using m unfolding minted_def k by simp
        moreover have "tenant_From c = Inr tc" by (rule mintGate_Inr [OF g])
        ultimately show "\<exists>tc. minted mi now tc scopes expiresAt k pt \<and> tenant_From c = Inr tc \<and> k_Kind k = KindProject \<and>
          k_ProjectID k = tc_ProjectID tc \<and> k_ResourceIDs k = rs \<and> ad_keys d' = ad_keys d @ [key_row k]" using k0 k by auto
      qed
    qed (use assms(1) Inr in \<open>auto simp: keys_Mint_def\<close>)
  qed (use assms(1) in \<open>auto simp: keys_Mint_def\<close>)
  then show "keeps_access d d'" "x = Inr (k, pt) \<Longrightarrow> \<exists>tc. minted mi now tc scopes expiresAt k pt \<and> tenant_From c = Inr tc \<and> k_Kind k = KindProject \<and>
       k_ProjectID k = tc_ProjectID tc \<and> k_ResourceIDs k = rs \<and> ad_keys d' = ad_keys d @ [key_row k]" by blast+
qed

lemma keys_MintOrg_keeps:
  assumes "keys_MintOrg mi now c name scopes gr expiresAt d = (x, d')" "mi_ID mi \<notin> k_ID ` set (ad_keys d)"
  shows "keeps_access d d'"
proof (cases "mintGate now c KindOrg scopes expiresAt d")
  case (Inr tc)
  show ?thesis
  proof (cases "requireOrgProjects (tc_OrgID tc) (pg_ProjectIDs gr) d")
    case u: (Inr u)
    show ?thesis
    proof (cases "scheme_MintOrg (mi_Sum256 mi) (mi_Scheme mi) (mi_ID mi) (mi_Bytes mi) (tc_OrgID tc) name scopes gr expiresAt now")
      case kp: (Inr kp)
      obtain k0 pt0 where e: "kp = (k0, pt0)" by fastforce
      have "saveMinted now c tc k0 pt0 d = (x, d')" using assms(1) Inr u kp e by (simp add: keys_MintOrg_def)
      then show ?thesis by (rule saveMinted_effect(1) [OF _ scheme_MintOrg_minted [OF kp [unfolded e]] assms(2) Inr])
    qed (use assms(1) Inr u in \<open>auto simp: keys_MintOrg_def\<close>)
  qed (use assms(1) Inr in \<open>auto simp: keys_MintOrg_def\<close>)
qed (use assms(1) in \<open>auto simp: keys_MintOrg_def\<close>)

lemma keys_MintPersonal_keeps:
  assumes "keys_MintPersonal mi now c name scopes gr expiresAt d = (x, d')" "mi_ID mi \<notin> k_ID ` set (ad_keys d)"
  shows "keeps_access d d'"
proof (cases "mintGate now c KindPersonal scopes expiresAt d")
  case (Inr tc)
  show ?thesis
  proof (cases "requireOrgProjects (tc_OrgID tc) (pg_ProjectIDs gr) d")
    case u: (Inr u)
    show ?thesis
    proof (cases "scheme_MintPersonal (mi_Sum256 mi) (mi_Scheme mi) (mi_ID mi) (mi_Bytes mi) (tc_OrgID tc) (tc_UserID tc) name scopes gr expiresAt now")
      case kp: (Inr kp)
      obtain k0 pt0 where e: "kp = (k0, pt0)" by fastforce
      have "saveMinted now c tc k0 pt0 d = (x, d')" using assms(1) Inr u kp e by (simp add: keys_MintPersonal_def)
      then show ?thesis by (rule saveMinted_effect(1) [OF _ scheme_MintPersonal_minted [OF kp [unfolded e]] assms(2) Inr])
    qed (use assms(1) Inr u in \<open>auto simp: keys_MintPersonal_def\<close>)
  qed (use assms(1) Inr in \<open>auto simp: keys_MintPersonal_def\<close>)
qed (use assms(1) in \<open>auto simp: keys_MintPersonal_def\<close>)

lemma grants_keep:
  "keys_GrantProjects now c id' ps d = (x, d') \<Longrightarrow> keeps_access d d'" "keys_GrantAllProjects now c id' d = (x, d') \<Longrightarrow> keeps_access d d'"
proof -
  assume "keys_GrantProjects now c id' ps d = (x, d')"
  then show "keeps_access d d'"
    unfolding keys_GrantProjects_def
    by (rule promote_keeps [rotated]) (use widen_GrantProjects in \<open>fastforce split: sum.splits\<close>)
next
  assume "keys_GrantAllProjects now c id' d = (x, d')"
  then show "keeps_access d d'"
    unfolding keys_GrantAllProjects_def by (rule promote_keeps [rotated]) (use widen_GrantAll in blast)
qed

lemma access_step_keeps: "access_step d d' \<Longrightarrow> keeps_access d d'"
proof (induction rule: access_step.induct)
  case (create oc gen id' now req d x d')
  then show ?case using same_keys_keeps [OF orgs_Create_same [of d oc gen id' now req]] by simp
next
  case (bootstrap gen id' now c slug name ownerID d x d')
  then show ?case using same_keys_keeps [OF BootstrapSingleton_same [of d gen id' now c slug name ownerID]] by simp
next
  case (rename id' name d x d')
  then show ?case using same_keys_keeps [OF orgs_Rename_same [of d id' name]] by simp
next
  case (add_member now orgID userID role d x2 d')
  then show ?case using same_keys_keeps [OF AddMember_same [of d now orgID userID role]] by simp
next
  case (remove_member now c orgID userID d u d')
  then show ?case by (rule RemoveMember_cases(1))
next
  case (project p d orgID)
  then show ?case by (intro keeps_access_same) auto
next
  case (mint mi now c name scopes resourceIDs expiresAt d k d')
  then show ?case by (rule keys_Mint_effect(1))
next
  case (mint_org mi now c name scopes g expiresAt d k d')
  then show ?case by (rule keys_MintOrg_keeps)
next
  case (mint_personal mi now c name scopes g expiresAt d k d')
  then show ?case by (rule keys_MintPersonal_keeps)
next
  case (touch c id' at d u d')
  then show ?case using TouchLastUsed_keeps [of d c id' at] by simp
qed (use grants_keep keys_Revoke_effect(1) in blast)+

lemma access_reachable_inv: "access_reachable d \<Longrightarrow> access_inv d"
proof (induction rule: access_reachable.induct)
  case empty
  show ?case by (simp add: access_inv_def no_access_def)
qed (use access_step_keeps in \<open>auto simp: keeps_access_def\<close>)

lemma access_steps_keep: "access_step\<^sup>*\<^sup>* d d' \<Longrightarrow> keeps_access d d'"
  by (induction rule: rtranclp_induct) (use access_step_keeps keeps_access_trans in \<open>simp, blast\<close>)

end
