(* ===== verification/ApiKeyProperties.thy ===== *)
theory ApiKeyProperties
  imports ApiKeySteps
begin

text \<open>The properties of API keys: what a credential is accepted for, and that revocation and grants are one-way.\<close>

section \<open>Concrete organisations and keys\<close>

definition a_hash :: "string \<Rightarrow> string" where "a_hash s = s"

definition a_ctx :: ctx where
  "a_ctx = \<lparr>ctx_tenant = Some \<lparr>tc_OrgID = 1, tc_ProjectID = 2, tc_UserID = 3\<rparr>, ctx_principal = None, ctx_uow = False\<rparr>"

definition a_org_ctx :: ctx where
  "a_org_ctx = \<lparr>ctx_tenant = Some \<lparr>tc_OrgID = 1, tc_ProjectID = 0, tc_UserID = 3\<rparr>, ctx_principal = None, ctx_uow = False\<rparr>"

definition a_user_ctx :: ctx where
  "a_user_ctx = \<lparr>ctx_tenant = Some \<lparr>tc_OrgID = 1, tc_ProjectID = 0, tc_UserID = 4\<rparr>, ctx_principal = None, ctx_uow = False\<rparr>"

definition a_mi :: "uuid \<Rightarrow> string \<Rightarrow> minting" where
  "a_mi i bytes = \<lparr>mi_Sum256 = a_hash, mi_Scheme = '''', mi_ID = i, mi_Bytes = bytes\<rparr>"

definition a_org :: access_db where
  "a_org = no_access\<lparr>
     ad_orgs := [\<lparr>or_ID = 1, or_Slug = ''acme'', or_Name = ''Acme'', or_OwnerID = 3, or_CreatedAt = 10, or_System = False\<rparr>],
     ad_members := [\<lparr>mb_OrgID = 1, mb_UserID = 3, mb_Role = RoleOwner, mb_CreatedAt = 10, mb_System = False\<rparr>]\<rparr>"

definition a_db1 :: access_db where
  "a_db1 = a_org\<lparr>ad_projects := [(1, 2)],
     ad_members := ad_members a_org @ [\<lparr>mb_OrgID = 1, mb_UserID = 4, mb_Role = RoleMember, mb_CreatedAt = 20, mb_System = False\<rparr>]\<rparr>"

definition a_key :: APIKey where
  "a_key = \<lparr>k_ID = 20, k_OrgID = 1, k_ProjectID = 2, k_Kind = KindProject, k_AllProjects = False, k_ProjectIDs = [], k_Name = ''ci'',
     k_SecretHash = ''key_YWJj'', k_SecretHint = ''YWJj'', k_Scopes = [''yasaku:read''], k_ResourceIDs = [], k_CreatedBy = 3,
     k_CreatedAt = 100, k_ExpiresAt = Some 1000, k_RevokedAt = None, k_LastUsedAt = None\<rparr>"

definition a_token :: APIKey where
  "a_token = \<lparr>k_ID = 22, k_OrgID = 1, k_ProjectID = 0, k_Kind = KindPersonal, k_AllProjects = False, k_ProjectIDs = [], k_Name = ''mine'',
     k_SecretHash = ''key_dXZ3'', k_SecretHint = ''dXZ3'', k_Scopes = [''yasaku:read''], k_ResourceIDs = [], k_CreatedBy = 4,
     k_CreatedAt = 100, k_ExpiresAt = Some 1000, k_RevokedAt = None, k_LastUsedAt = None\<rparr>"

definition a_db2 :: access_db where "a_db2 = a_db1\<lparr>ad_keys := [a_key]\<rparr>"

definition a_db :: access_db where
  "a_db = a_db2\<lparr>ad_keys := [a_key, a_token], ad_grants := [\<lparr>g_OrgID = 1, g_KeyID = 22, g_ProjectID = 2, g_CreatedAt = 100\<rparr>]\<rparr>"

lemma a_mint: "keys_Mint (a_mi 20 ''abc'') 100 a_ctx ''ci'' [''yasaku:read''] [] (Some 1000) a_db1 = (Inr (a_key, ''key_YWJj''), a_db2)"
  by code_simp

lemma a_mint_personal: "keys_MintPersonal (a_mi 22 ''uvw'') 100 a_user_ctx ''mine'' [''yasaku:read''] \<lparr>pg_All = False, pg_ProjectIDs = [2]\<rparr>
    (Some 1000) a_db2 = (Inr (a_token\<lparr>k_ProjectIDs := [2]\<rparr>, ''key_dXZ3''), a_db)"
  by code_simp

lemma a_db1_reachable: "access_reachable a_db1"
proof -
  let ?o = "(ad_orgs a_org)!0" and ?m = "(ad_members a_db1)!1"
  let ?d = "a_org\<lparr>ad_projects := ad_projects a_org @ [(1, 2)]\<rparr>"
  have "orgs_Create True (\<lambda>n. '''') 1 10 \<lparr>cr_Slug = ''acme'', cr_Name = ''Acme'', cr_OwnerID = 3\<rparr> no_access = (Inr ?o, a_org)"
    "AddMember 20 1 4 RoleMember ?d = (Inr ?m, a_db1)" by code_simp+
  then show ?thesis
    using access_reachable.step [OF access_reachable.empty access_step.create] access_step.project [of 2 a_org 1] access_reachable.step
      access_step.add_member by (metis zero_neq_numeral)
qed

lemma a_db2_reachable: "access_reachable a_db2"
  by (rule access_reachable.step [OF a_db1_reachable access_step.mint [OF a_mint]]) (simp add: a_db1_def a_org_def no_access_def)

lemma a_db_reachable: "access_reachable a_db"
  by (rule access_reachable.step [OF a_db2_reachable access_step.mint_personal [OF a_mint_personal]]) (simp add: a_db2_def a_key_def a_mi_def)

lemma a_db_keys: "a_key \<in> set (ad_keys a_db)" "a_token \<in> set (ad_keys a_db)"
  by (simp_all add: a_db_def)

section \<open>What keys can exist\<close>

text \<open>C20: However keys were minted and changed, every key holds only scopes of the catalogue, a key bound to a project
  holds no organisation-level scope and never reaches another project, every key expires within 366 days of its creation,
  and a grant names only projects of the key's own organisation.\<close>

theorem keys_are_well_formed:
  assumes "access_reachable d" and "r \<in> set (ad_keys d)"
  shows "(\<forall>s \<in> set (k_Scopes r). s \<in> set AllScopes) \<and>
    (k_Kind r = KindProject \<longrightarrow> (\<forall>s \<in> set (k_Scopes r). LevelOf s = Some LevelProject) \<and> \<not> k_AllProjects r \<and> ReachableProjects (toAPIKey d r) = [k_ProjectID r]) \<and>
    (\<exists>t. k_ExpiresAt r = Some t \<and> k_CreatedAt r < t \<and> t \<le> k_CreatedAt r + MaxLifetime) \<and>
    (\<forall>p \<in> set (k_ProjectIDs (toAPIKey d r)). (k_OrgID r, p) \<in> set (ad_projects d))"
proof -
  note inv = access_reachable_inv [OF assms(1)]
  have ok: "key_ok r" by (rule access_invD(3) [OF inv assms(2)])
  have valid: "\<forall>s \<in> set (k_Scopes r). s \<in> set AllScopes"
    using ok by (auto simp: key_ok_def list_all_iff scope_Valid_def AllScopes_def list_ex_iff)
  have "LevelOf s = Some LevelProject" if "k_Kind r = KindProject" "s \<in> set (k_Scopes r)" for s
  proof -
    have "LevelOf s \<noteq> Some LevelOrg" using ok that by (auto simp: key_ok_def hasOrgLevelScope_def list_ex_iff)
    moreover have "LevelOf s \<noteq> None" using valid that(2) by (auto simp: LevelOf_def AllScopes_def find_None_iff)
    ultimately show ?thesis by (cases "LevelOf s") (simp, metis ScopeLevel.exhaust)
  qed
  moreover have "(k_OrgID r, p) \<in> set (ad_projects d)" if p: "p \<in> set (k_ProjectIDs (toAPIKey d r))" for p
  proof -
    obtain g where "g \<in> set (ad_grants d)" "g_OrgID g = k_OrgID r" "p = g_ProjectID g" using p unfolding set_loaded granted_def by blast
    then show ?thesis using access_invD(4) [OF inv] unfolding grant_ok_def by metis
  qed
  moreover have "\<not> k_AllProjects r \<and> ReachableProjects (toAPIKey d r) = [k_ProjectID r]" if "k_Kind r = KindProject"
    using ok that by (auto simp: key_ok_def kind_shape_def ReachableProjects_def HasGrant_def)
  moreover obtain t where "k_ExpiresAt r = Some t" "k_CreatedAt r < t" "t \<le> k_CreatedAt r + MaxLifetime"
    using ok by (auto simp: key_ok_def)
  ultimately show ?thesis using valid by blast
qed

theorem keys_are_well_formed_witness:
  "(1, hd (k_ProjectIDs (toAPIKey a_db a_token))) \<in> set (ad_projects a_db)"
proof -
  have "k_OrgID a_token = 1" "k_ProjectIDs (toAPIKey a_db a_token) \<noteq> []" by code_simp+
  then show ?thesis using keys_are_well_formed [OF a_db_reachable a_db_keys(2)] hd_in_set by metis
qed

section \<open>Authorisation\<close>

text \<open>
  The rule a request is meant to follow: a key with this secret, not revoked, not
  expired, of this organisation, holding the scope, reaching the project as a
  whole; a personal token only while its owner is a member, and a manager if it
  holds an organisation-level scope.
\<close>

definition owner_lives :: "access_db \<Rightarrow> APIKey \<Rightarrow> bool" where
  "owner_lives d r \<longleftrightarrow> k_Kind r = KindPersonal \<longrightarrow> k_CreatedBy r \<noteq> uuid_Nil \<and>
     (case find_row member_key (k_OrgID r, k_CreatedBy r) (ad_members d) of
        None \<Rightarrow> False | Some m \<Rightarrow> hasOrgLevelScope (k_Scopes r) \<longrightarrow> CanManage (mb_Role m))"

definition entitled :: "(string \<Rightarrow> string) \<Rightarrow> string \<Rightarrow> instant \<Rightarrow> string \<Rightarrow> string \<Rightarrow> uuid \<Rightarrow> uuid \<Rightarrow> access_db \<Rightarrow> APIKey \<Rightarrow> bool" where
  "entitled digest scheme now raw scope orgID projectID d r \<longleftrightarrow>
     prefix (scheme_Prefix scheme) raw \<and> k_SecretHash r = digest raw \<and>
     (\<forall>t. k_RevokedAt r = Some t \<longrightarrow> now < t) \<and> (\<forall>t. k_ExpiresAt r = Some t \<longrightarrow> now < t) \<and> owner_lives d r \<and>
     orgID \<noteq> uuid_Nil \<and> k_OrgID r = orgID \<and> scope \<in> set (k_Scopes r) \<and> k_ResourceIDs r = [] \<and>
     (k_AllProjects r \<or> (if HasGrant r then projectID \<in> granted d r else projectID = k_ProjectID r))"

lemma requireOwner_iff:
  "requireOwner orgID userID scopes d = Inr () \<longleftrightarrow> userID \<noteq> uuid_Nil \<and>
     (case find_row member_key (orgID, userID) (ad_members d) of
        None \<Rightarrow> False | Some m \<Rightarrow> hasOrgLevelScope scopes \<longrightarrow> CanManage (mb_Role m))"
  by (auto simp: requireOwner_def RequireManager_def IsManager_def RequireMember_def orgs_MembershipOf_def store_MembershipOf_def
    platform_error_defs split: option.splits)

lemma requireLiveOwner_iff: "requireLiveOwner k d = Inr () \<longleftrightarrow> owner_lives d k"
  by (auto simp: requireLiveOwner_def owner_lives_def requireOwner_iff)

lemma ReachesProject_loaded:
  "ReachesProject (principalFor (toAPIKey d r)) orgID projectID \<longleftrightarrow> orgID \<noteq> uuid_Nil \<and> k_OrgID r = orgID \<and>
     (k_AllProjects r \<or> (if HasGrant r then projectID \<in> granted d r else projectID = k_ProjectID r))"
  using set_loaded [of d r] by (auto simp: ReachesProject_def principalFor_def ReachableProjects_def HasGrant_def)

lemma scheme_Prefix_ne: "scheme_Prefix s \<noteq> ''''"
  by (simp add: scheme_Prefix_def)

lemma Looks_key: "Looks (scheme_Authn s) raw = ShapeAPIKey \<longleftrightarrow> prefix (scheme_Prefix s) raw"
  using scheme_Prefix_ne [of s] by (auto simp: Looks_def scheme_Authn_def)

lemma resolve_iff:
  assumes "access_inv d"
  shows "resolve digest scheme now raw d = Inr k \<longleftrightarrow> (\<exists>r \<in> set (ad_keys d). k = toAPIKey d r \<and> prefix (scheme_Prefix scheme) raw \<and>
    k_SecretHash r = digest raw \<and> Usable r now \<and> owner_lives d r)"
proof -
  have q: "key_queryOne (\<lambda>r. k_SecretHash r = h) d = Inr k \<longleftrightarrow> (\<exists>r \<in> set (ad_keys d). k_SecretHash r = h \<and> k = toAPIKey d r)" for h k
  proof -
    have "find (\<lambda>r. k_SecretHash r = h) (ad_keys d) = Some r \<longleftrightarrow> r \<in> set (ad_keys d) \<and> k_SecretHash r = h" for r
      using find_row_Some_iff [OF access_invD(2) [OF assms], of h r] by (simp add: find_row_def)
    note f = this
    show ?thesis
    proof (cases "find (\<lambda>r. k_SecretHash r = h) (ad_keys d)")
      case None
      have "\<not> (\<exists>x. x \<in> set (ad_keys d) \<and> k_SecretHash x = h)" using None unfolding find_None_iff .
      then show ?thesis by (auto simp add: key_queryOne_def None)
    next
      case (Some r)
      then have "q \<in> set (ad_keys d) \<and> k_SecretHash q = h \<longleftrightarrow> q = r" for q using f [of q] by auto
      note q = this
      have "(\<exists>q \<in> set (ad_keys d). k_SecretHash q = h \<and> k = toAPIKey d q) \<longleftrightarrow> (\<exists>q. (q \<in> set (ad_keys d) \<and> k_SecretHash q = h) \<and> k = toAPIKey d q)"
        by blast
      also have "\<dots> \<longleftrightarrow> k = toAPIKey d r" unfolding q by simp
      finally have "(\<exists>q \<in> set (ad_keys d). k_SecretHash q = h \<and> k = toAPIKey d q) \<longleftrightarrow> k = toAPIKey d r" .
      then show ?thesis using Some by (auto simp: key_queryOne_def)
    qed
  qed
  have u: "Usable (toAPIKey d r) now = Usable r now" "owner_lives d (toAPIKey d r) = owner_lives d r" for r
    unfolding Usable_def owner_lives_def loaded_fields by (rule refl)+
  have "resolve digest scheme now raw d = Inr k \<longleftrightarrow> prefix (scheme_Prefix scheme) raw \<and>
      key_queryOne (\<lambda>r. k_SecretHash r = digest raw) d = Inr k \<and> Usable k now \<and> owner_lives d k"
    unfolding resolve_def Looks_key BySecretHash_def requireLiveOwner_iff [symmetric] by (auto split: sum.splits if_splits)
  then show ?thesis unfolding q using u by (metis (no_types))
qed

text \<open>C21: A request for a project is authorised exactly when some key entitles it: the right secret, neither
  revoked nor expired, its owner still a member where it acts for one, the scope, and the project within its reach.\<close>

theorem AuthorizeProject_accepts_what_is_entitled:
  assumes "access_reachable d"
  shows "(\<exists>p. AuthorizeProject digest scheme now raw scope orgID projectID d = Inr p) \<longleftrightarrow>
    (\<exists>r \<in> set (ad_keys d). entitled digest scheme now raw scope orgID projectID d r)"
proof -
  note R = resolve_iff [OF access_reachable_inv [OF assms]]
  have usable: "Usable r now \<longleftrightarrow> (\<forall>t. k_RevokedAt r = Some t \<longrightarrow> now < t) \<and> (\<forall>t. k_ExpiresAt r = Some t \<longrightarrow> now < t)" for r
    by (auto simp: Usable_def split: option.splits)
  have auth: "(\<exists>p. AuthorizeProject digest scheme now raw scope orgID projectID d = Inr p) \<longleftrightarrow>
      (\<exists>k. resolve digest scheme now raw d = Inr k \<and> ReachesProject (principalFor k) orgID projectID \<and>
        scope \<in> set (k_Scopes k) \<and> k_ResourceIDs k = [])"
    by (auto simp: AuthorizeProject_def Let_def ReachesWholeProject_def principalFor_def split: sum.splits)
  have "(\<exists>k. resolve digest scheme now raw d = Inr k \<and> P k) \<longleftrightarrow> (\<exists>r \<in> set (ad_keys d). prefix (scheme_Prefix scheme) raw \<and>
      k_SecretHash r = digest raw \<and> Usable r now \<and> owner_lives d r \<and> P (toAPIKey d r))" for P
    unfolding R by blast
  note res = this [of "\<lambda>k. ReachesProject (principalFor k) orgID projectID \<and> scope \<in> set (k_Scopes k) \<and> k_ResourceIDs k = []"]
  show ?thesis
    unfolding auth res by (rule bex_cong [OF refl]) (simp only: entitled_def usable ReachesProject_loaded loaded_fields, blast)
qed

theorem AuthorizeProject_accepts_what_is_entitled_witness:
  "\<exists>r \<in> set (ad_keys a_db). entitled a_hash '''' 500 ''key_YWJj'' ''yasaku:read'' 1 2 a_db r"
proof -
  have "AuthorizeProject a_hash '''' 500 ''key_YWJj'' ''yasaku:read'' 1 2 a_db = Inr (principalFor a_key)" by code_simp
  then show ?thesis using AuthorizeProject_accepts_what_is_entitled [OF a_db_reachable] by blast
qed

text \<open>C22: A minted key works at once: the secret shown when a project key was minted authenticates, until the key
  expires, as that key, with its scopes and no user behind it.\<close>

theorem minted_secrets_authenticate:
  assumes "access_reachable d" and "mi_ID mi \<notin> k_ID ` set (ad_keys d)"
    and "keys_Mint mi now c name scopes resourceIDs (Some expiry) d = (Inr (k, plaintext), d')" and "now' < expiry"
  shows "Authenticate (mi_Sum256 mi) (mi_Scheme mi) now' plaintext d' = Inr (principalFor k) \<and>
    pr_UserID (principalFor k) = uuid_Nil \<and> pr_Scopes (principalFor k) = scopes"
proof -
  note inv = access_reachable_inv [OF assms(1)]
  have inv': "access_inv d'" using keys_Mint_effect(1) [OF assms(3,2)] inv by (simp add: keeps_access_def)
  obtain tc where m: "minted mi now tc scopes (Some expiry) k plaintext" and k: "k_Kind k = KindProject" "ad_keys d' = ad_keys d @ [key_row k]"
    using keys_Mint_effect(2) [OF assms(3,2)] by blast
  have r: "key_row k \<in> set (ad_keys d')" using k(2) by simp
  have "Usable (key_row k) now'" using m assms(4) by (simp add: Usable_def key_row_def minted_def)
  moreover have "owner_lives d' (key_row k)" using k(1) by (simp add: owner_lives_def key_row_def)
  moreover have "prefix (scheme_Prefix (mi_Scheme mi)) plaintext" "k_SecretHash (key_row k) = mi_Sum256 mi plaintext"
    using m by (simp_all add: minted_def plain_secret_def key_row_def)
  ultimately have "resolve (mi_Sum256 mi) (mi_Scheme mi) now' plaintext d' = Inr (toAPIKey d' (key_row k))"
    using resolve_iff [OF inv'] r by blast
  moreover have "principalFor (toAPIKey d' (key_row k)) = principalFor k"
    using k(1) by (simp add: principalFor_def ReachableProjects_def HasGrant_def key_row_def)
  ultimately show ?thesis using m by (simp add: Authenticate_def principalFor_def minted_def)
qed

theorem minted_secrets_authenticate_witness:
  "Authenticate a_hash '''' 999 ''key_YWJj'' a_db2 = Inr (principalFor a_key)"
  using minted_secrets_authenticate [OF a_db1_reachable _ a_mint, of 999] by (simp add: a_mi_def a_db1_def a_org_def no_access_def)

section \<open>One-way changes\<close>

text \<open>A key revoked by some state is refused in every later one.\<close>

lemma revoked_refused:
  assumes "access_inv d1" "r1 \<in> set (ad_keys d1)" "k_RevokedAt r1 = Some t" "access_step\<^sup>*\<^sup>* d1 d2" "digest raw = k_SecretHash r1" "t \<le> now'"
  shows "Authenticate digest scheme now' raw d2 = Inl (EAuthn UnauthorizedError)"
proof -
  have k: "access_inv d2" "keys_grow (ad_keys d1) (ad_keys d2)"
    using access_steps_keep [OF assms(4)] assms(1) by (auto simp: keeps_access_def widens_def)
  obtain r2 where r2: "r2 \<in> set (ad_keys d2)" "key_evolves r1 r2" by (rule keys_grow_row [OF k(2) assms(2)])
  have rv: "k_RevokedAt r2 = Some t" using r2(2) assms(3) unfolding key_evolves_def by simp
  have h: "k_SecretHash r2 = digest raw" using key_evolves_fields(6) [OF r2(2)] assms(5) by simp
  have "find (\<lambda>r. k_SecretHash r = digest raw) (ad_keys d2) = Some r2"
    using find_row_Some_iff [OF access_invD(2) [OF k(1)], of "digest raw" r2] r2(1) h by (simp add: find_row_def)
  then have b: "BySecretHash (digest raw) d2 = Inr (toAPIKey d2 r2)" by (simp add: BySecretHash_def key_queryOne_def)
  have "\<not> Usable (toAPIKey d2 r2) now'" using rv assms(6) by (simp add: Usable_def)
  then show ?thesis by (simp add: Authenticate_def resolve_def b)
qed

text \<open>C23: Revocation is final: once a key was revoked its secret is refused from then on, whatever operations
  follow, widening its grants included.\<close>

theorem revoked_keys_stay_revoked:
  assumes "access_reachable d" and "r \<in> set (ad_keys d)" and "k_RevokedAt r = None"
    and "keys_Revoke now c (k_ID r) d = (Inr (), d1)" and "access_step\<^sup>*\<^sup>* d1 d2" and "digest raw = k_SecretHash r" and "now \<le> now'"
  shows "Authenticate digest scheme now' raw d2 = Inl (EAuthn UnauthorizedError)"
proof -
  note inv = access_reachable_inv [OF assms(1)]
  note E = keys_Revoke_effect [OF assms(4)]
  have inv1: "access_inv d1" "keys_grow (ad_keys d) (ad_keys d1)" using E(1) inv by (auto simp: keeps_access_def widens_def)
  obtain r1 where r1: "r1 \<in> set (ad_keys d1)" "k_ID r1 = k_ID r" "k_RevokedAt r1 = Some now"
    using E(2) [OF refl inv] assms(2,3) by blast
  obtain q where q: "q \<in> set (ad_keys d1)" "key_evolves r q" by (rule keys_grow_row [OF inv1(2) assms(2)])
  have "q = r1" using key_unique [OF inv1(1) q(1) r1(1)] key_evolves_fields(1) [OF q(2)] r1(2) by simp
  then have "digest raw = k_SecretHash r1" using key_evolves_fields(6) [OF q(2)] assms(6) by simp
  then show ?thesis by (rule revoked_refused [OF inv1(1) r1(1,3) assms(5) _ assms(7)])
qed

theorem revoked_keys_stay_revoked_witness:
  "Authenticate a_hash '''' 999 ''key_YWJj'' (snd (keys_Revoke 200 a_ctx 20 a_db)) = Inl (EAuthn UnauthorizedError)"
proof -
  let ?d = "snd (keys_Revoke 200 a_ctx 20 a_db)"
  have r: "k_RevokedAt a_key = None" "k_ID a_key = 20" "a_hash ''key_YWJj'' = k_SecretHash a_key"
    "fst (keys_Revoke 200 a_ctx 20 a_db) = Inr ()" by code_simp+
  have "keys_Revoke 200 a_ctx (k_ID a_key) a_db = (Inr (), ?d)" using r(2,4) by (simp add: prod_eq_iff)
  then show ?thesis
    by (rule revoked_keys_stay_revoked [where raw = "''key_YWJj''" and digest = a_hash, OF a_db_reachable a_db_keys(1) r(1) _ rtranclp.rtrancl_refl [of access_step ?d] r(3)]) simp
qed

lemma RevokePersonal_row:
  assumes "tenant_From c = Inr tc" "r \<in> set (ad_keys d)" "k_Kind r = KindPersonal" "k_OrgID r = tc_OrgID tc" "k_CreatedBy r = userID" "userID \<noteq> uuid_Nil"
  shows "(if k_RevokedAt r = None then r\<lparr>k_RevokedAt := Some now\<rparr> else r) \<in> set (ad_keys (snd (RevokePersonal c userID now d)))"
proof -
  let ?f = "\<lambda>r. if k_OrgID r = tc_OrgID tc \<and> k_Kind r = KindPersonal \<and> userID \<noteq> uuid_Nil \<and>
    k_CreatedBy r = userID \<and> k_RevokedAt r = None then r\<lparr>k_RevokedAt := Some now\<rparr> else r"
  have "ad_keys (snd (RevokePersonal c userID now d)) = map ?f (ad_keys d)" unfolding RevokePersonal_def assms(1) sum.case by simp
  moreover have "(if k_RevokedAt r = None then r\<lparr>k_RevokedAt := Some now\<rparr> else r) = ?f r" using assms(3-6) by simp
  ultimately show ?thesis using imageI [OF assms(2), of ?f] by (simp only: set_map)
qed

text \<open>C24: Removing a member from an organisation kills the member's personal tokens there for good: none of them
  authenticates any more, even if the user is added again.\<close>

theorem removed_members_lose_their_tokens:
  assumes "access_reachable d" and "RemoveMember [RevokePersonalOf now] c orgID userID d = (Inr (), d1)"
    and "r \<in> set (ad_keys d)" and "k_Kind r = KindPersonal" and "k_OrgID r = orgID" and "k_CreatedBy r = userID"
    and "\<forall>t. k_RevokedAt r = Some t \<longrightarrow> t \<le> now" and "access_step\<^sup>*\<^sup>* d1 d2" and "digest raw = k_SecretHash r" and "now \<le> now'"
  shows "Authenticate digest scheme now' raw d2 = Inl (EAuthn UnauthorizedError)"
proof -
  note inv = access_reachable_inv [OF assms(1)]
  note E = RemoveMember_cases [OF assms(2)]
  have inv1: "access_inv d1" using E(1) inv by (simp add: keeps_access_def)
  let ?c = "WithOrg (WithOrg c orgID) orgID"
  obtain e tc where e: "tenant_From ?c = Inr tc" "RevokePersonal ?c userID now d = (Inr (), e)" "ad_keys d1 = ad_keys e"
    using E(2) by blast
  have org: "tc_OrgID tc = orgID" using e(1) by (auto simp: WithOrg_def Let_def tenant_Into_def)
  have nil: "userID \<noteq> uuid_Nil" using access_invD(3) [OF inv assms(3)] assms(4,6) by (simp add: key_ok_def)
  let ?r = "if k_RevokedAt r = None then r\<lparr>k_RevokedAt := Some now\<rparr> else r"
  have r1: "?r \<in> set (ad_keys d1)"
    using RevokePersonal_row [OF e(1) assms(3,4) _ assms(6) nil, of now] org assms(5) unfolding e(2,3) by simp
  obtain t where t: "k_RevokedAt ?r = Some t" "t \<le> now" using assms(7) by (cases "k_RevokedAt r") auto
  have "digest raw = k_SecretHash ?r" using assms(9) by simp
  then show ?thesis by (rule revoked_refused [OF inv1 r1 t(1) assms(8) _ order.trans [OF t(2) assms(10)]])
qed

theorem removed_members_lose_their_tokens_witness:
  "Authenticate a_hash '''' 400 ''key_dXZ3'' (snd (RemoveMember [RevokePersonalOf 300] a_org_ctx 1 4 a_db)) = Inl (EAuthn UnauthorizedError)"
proof -
  let ?d = "snd (RemoveMember [RevokePersonalOf 300] a_org_ctx 1 4 a_db)"
  have r: "k_Kind a_token = KindPersonal" "k_OrgID a_token = 1" "k_CreatedBy a_token = 4" "k_RevokedAt a_token = None"
    "a_hash ''key_dXZ3'' = k_SecretHash a_token" "fst (RemoveMember [RevokePersonalOf 300] a_org_ctx 1 4 a_db) = Inr ()" by code_simp+
  have "RemoveMember [RevokePersonalOf 300] a_org_ctx 1 4 a_db = (Inr (), ?d)" using r(6) by (simp add: prod_eq_iff)
  then show ?thesis
    by (rule removed_members_lose_their_tokens [where raw = "''key_dXZ3''" and digest = a_hash, OF a_db_reachable _ a_db_keys(2) r(1-3) _ rtranclp.rtrancl_refl [of access_step ?d] r(5)])
      (simp_all add: r(4))
qed

text \<open>What a key reaches only widens: a project the key could reach stays within its reach, whatever is granted,
  added or changed afterwards.\<close>

theorem grants_only_widen:
  assumes "access_reachable d" and "access_step\<^sup>*\<^sup>* d d'" and "r \<in> set (ad_keys d)" and "r' \<in> set (ad_keys d')" and "k_ID r' = k_ID r"
    and "ReachesProject (principalFor (toAPIKey d r)) orgID projectID"
  shows "ReachesProject (principalFor (toAPIKey d' r')) orgID projectID"
proof -
  have k: "access_inv d'" "widens d d'"
    using access_steps_keep [OF assms(2)] access_reachable_inv [OF assms(1)] by (auto simp: keeps_access_def)
  obtain q where q: "q \<in> set (ad_keys d')" "key_evolves r q" by (rule keys_grow_row) (use k(2) assms(3) in \<open>auto simp: widens_def\<close>)
  have "q = r'" using key_unique [OF k(1) q(1) assms(4)] key_evolves_fields(1) [OF q(2)] assms(5) by simp
  then have ev: "key_evolves r r'" using q(2) by simp
  have "k_AllProjects r \<longrightarrow> k_AllProjects r'" "HasGrant r' = HasGrant r"
    using ev key_evolves_fields(4) [OF ev] by (auto simp: key_evolves_def HasGrant_def)
  moreover have "k_AllProjects r' \<or> granted d r \<subseteq> granted d' r'" using k(2) assms(3-5) unfolding widens_def by blast
  ultimately show ?thesis
    using assms(6) key_evolves_fields(2,3) [OF ev] unfolding ReachesProject_loaded by (auto split: if_splits)
qed

theorem grants_only_widen_witness:
  "ReachesProject (principalFor (toAPIKey (snd (keys_GrantAllProjects 150 a_user_ctx 22 a_db)) (a_token\<lparr>k_AllProjects := True\<rparr>))) 1 2"
proof -
  let ?d = "snd (keys_GrantAllProjects 150 a_user_ctx 22 a_db)"
  have s: "access_step\<^sup>*\<^sup>* a_db ?d" by (rule r_into_rtranclp) (rule access_step.grant_all [OF prod.collapse [symmetric]])
  have r: "a_token\<lparr>k_AllProjects := True\<rparr> \<in> set (ad_keys ?d)" "k_ID (a_token\<lparr>k_AllProjects := True\<rparr>) = k_ID a_token"
    "ReachesProject (principalFor (toAPIKey a_db a_token)) 1 2" by code_simp+
  show ?thesis by (rule grants_only_widen [OF a_db_reachable s a_db_keys(2) r])
qed

section \<open>A lost update\<close>

text \<open>
  \<open>promote\<close> loads a key, widens it and saves all of it, and nothing holds the key in
  between: a revocation that commits after the load is overwritten by the save, and
  the revoked secret authenticates again.
\<close>

definition widened :: "APIKey" where
  "widened = projr (key_GrantAllProjects (snd (projr (loadForChange a_user_ctx 22 a_db))))"

lemma promote_race_unrevokes:
  "Authenticate a_hash '''' 500 ''key_dXZ3'' (snd (keys_Revoke 200 a_user_ctx 22 a_db)) = Inl (EAuthn UnauthorizedError)"
  "Authenticate a_hash '''' 500 ''key_dXZ3'' (snd (key_Save 201 a_user_ctx widened (snd (keys_Revoke 200 a_user_ctx 22 a_db)))) =
     Inr (principalFor widened)"
  by code_simp+

end
