(* ===== verification/User.thy ===== *)
theory User
  imports Password
begin

text \<open>
  Accounts (\<open>internal/user\<close>): the aggregate, the SQLite store and the service.  The
  table is the list of its rows; a row is a \<open>User\<close> whose \<open>Source\<close> is empty, since the
  source is not stored but derived when a row is read.  An empty issuer or subject
  stands for SQL's NULL, as \<open>sqliteNullableString\<close> writes it.
\<close>

section \<open>The aggregate\<close>

record User =
  u_ID :: uuid
  u_Email :: string
  u_Name :: string
  u_Source :: string
  u_IDPIssuer :: string
  u_IDPSubject :: string
  u_PasswordHash :: string
  u_IsAdmin :: bool
  u_Locale :: string
  u_TermsAcceptedAt :: "instant option"
  u_CreatedAt :: instant

text \<open>\<open>strings.IndexByte\<close>.\<close>

fun IndexByte :: "string \<Rightarrow> char \<Rightarrow> int" where
  "IndexByte [] c = -1"
| "IndexByte (x # s) c = (if x = c then 0 else let i = IndexByte s c in if i < 0 then -1 else i + 1)"

definition NormalizeEmail :: "string \<Rightarrow> (err, string) res" where
  "NormalizeEmail s =
     (let e = ToLower (TrimSpace s) in
      if e = '''' then Inl (EUser (UserInvalidEmailError ''empty'' ''''))
      else let at = IndexByte e (CHR ''@'') in
      if at \<le> 0 \<or> at = int (length e) - 1 then Inl (EUser (UserInvalidEmailError ''malformed'' s))
      else Inr e)"

definition user_normalizeName :: "string \<Rightarrow> (err, string) res" where
  "user_normalizeName s = (let n = TrimSpace s in if n = '''' then Inl (EUser (UserInvalidNameError ''empty'')) else Inr n)"

definition defaultNameFromEmail :: "string \<Rightarrow> string" where
  "defaultNameFromEmail email =
     (let e = TrimSpace email; local = takeWhile (\<lambda>c. c \<noteq> CHR ''@'') e in
      if CHR ''@'' \<notin> set e \<or> TrimSpace local = '''' then e else TrimSpace local)"

definition user_New :: "uuid \<Rightarrow> instant \<Rightarrow> string \<Rightarrow> string \<Rightarrow> string \<Rightarrow> (err, User) res" where
  "user_New id' now email name source =
     (case NormalizeEmail email of Inl e \<Rightarrow> Inl e | Inr e \<Rightarrow>
     (case user_normalizeName name of Inl x \<Rightarrow> Inl x | Inr n \<Rightarrow>
      let s = TrimSpace source in
      Inr \<lparr>u_ID = id', u_Email = e, u_Name = n, u_Source = (if s = '''' then ''genesis'' else s), u_IDPIssuer = '''', u_IDPSubject = '''',
        u_PasswordHash = '''', u_IsAdmin = False, u_Locale = '''', u_TermsAcceptedAt = None, u_CreatedAt = now\<rparr>))"

definition user_Rename :: "string \<Rightarrow> User \<Rightarrow> (err, User) res" where
  "user_Rename name u = (case user_normalizeName name of Inl e \<Rightarrow> Inl e | Inr n \<Rightarrow> Inr (u\<lparr>u_Name := n\<rparr>))"

definition ChangeEmail :: "string \<Rightarrow> User \<Rightarrow> (err, User) res" where
  "ChangeEmail email u = (case NormalizeEmail email of Inl e \<Rightarrow> Inl e | Inr e \<Rightarrow> Inr (u\<lparr>u_Email := e\<rparr>))"

section \<open>The store\<close>

definition sourceFrom :: "bool \<Rightarrow> bool \<Rightarrow> bool \<Rightarrow> string" where
  "sourceFrom isAdmin hasIDPIssuer hasPassword =
     (if hasIDPIssuer then ''oidc'' else if hasPassword then ''local'' else if isAdmin then ''genesis'' else ''genesis'')"

definition toUser :: "User \<Rightarrow> User" where
  "toUser r = r\<lparr>u_Source := sourceFrom (u_IsAdmin r) (u_IDPIssuer r \<noteq> '''') (u_PasswordHash r \<noteq> '''')\<rparr>"

definition user_queryOne :: "(User \<Rightarrow> bool) \<Rightarrow> err \<Rightarrow> User list \<Rightarrow> (err, User) res" where
  "user_queryOne cond notFound us = (case find cond us of None \<Rightarrow> Inl notFound | Some r \<Rightarrow> Inr (toUser r))"

definition user_ByID :: "uuid \<Rightarrow> User list \<Rightarrow> (err, User) res" where
  "user_ByID id' us = user_queryOne (\<lambda>r. u_ID r = id') (EUser (UserNotFoundError (RefID id'))) us"

definition user_ByEmail :: "string \<Rightarrow> User list \<Rightarrow> (err, User) res" where
  "user_ByEmail email us = user_queryOne (\<lambda>r. u_Email r = ToLower email) (EUser (UserNotFoundError (RefText email))) us"

definition same_idp :: "string \<Rightarrow> string \<Rightarrow> User \<Rightarrow> bool" where
  "same_idp issuer subject r \<longleftrightarrow> u_IDPIssuer r \<noteq> '''' \<and> u_IDPSubject r \<noteq> '''' \<and> u_IDPIssuer r = issuer \<and> u_IDPSubject r = subject"

definition user_ByIDP :: "string \<Rightarrow> string \<Rightarrow> User list \<Rightarrow> (err, User) res" where
  "user_ByIDP issuer subject us = user_queryOne (same_idp issuer subject) (EUser (UserNotFoundError (RefText subject))) us"

definition user_row :: "User \<Rightarrow> User" where
  "user_row u = u\<lparr>u_Source := '''', u_IsAdmin := u_IsAdmin u \<or> u_Source u = ''genesis'' \<or> u_Source u = ''local''\<rparr>"

definition user_Save :: "User \<Rightarrow> (User list, unit) prog" where
  "user_Save u us =
     (if list_ex (\<lambda>r. u_ID r \<noteq> u_ID u \<and> same_idp (u_IDPIssuer u) (u_IDPSubject u) r) us
      then (Inl (EUser (UserAlreadyExistsError ''idp_subject'' (u_IDPSubject u))), us)
      else if list_ex (\<lambda>r. u_ID r \<noteq> u_ID u \<and> u_Email r = u_Email u) us
      then (Inl (EUser (UserAlreadyExistsError ''email'' (u_Email u))), us)
      else let row = (case find_row u_ID (u_ID u) us of None \<Rightarrow> user_row u | Some old \<Rightarrow> (user_row u)\<lparr>u_CreatedAt := u_CreatedAt old\<rparr>)
        in (Inr (), upsert_row u_ID row us))"

definition user_HasLocalUsers :: "User list \<Rightarrow> bool" where
  "user_HasLocalUsers us \<longleftrightarrow> list_ex (\<lambda>r. u_PasswordHash r \<noteq> '''') us"

definition store_UpdateLocale :: "uuid \<Rightarrow> string \<Rightarrow> (User list, unit) prog" where
  "store_UpdateLocale id' locale us =
     (if find_row u_ID id' us = None then (Inl (EUser (UserNotFoundError (RefID id'))), us)
      else (Inr (), map (\<lambda>r. if u_ID r = id' then r\<lparr>u_Locale := locale\<rparr> else r) us))"

section \<open>The service\<close>

definition user_lookup :: "string \<Rightarrow> uuid \<Rightarrow> User list \<Rightarrow> (err, User) res" where
  "user_lookup op id' us = map_err (\<lambda>e. if user_IsNotFoundError e then e else Unexpected op e) (user_ByID id' us)"

definition users_ByID :: "uuid \<Rightarrow> User list \<Rightarrow> (err, User) res" where
  "users_ByID id' us = user_lookup ''user.ByID: byID'' id' us"

record CreateUserRequest =
  cu_Email :: string
  cu_Name :: string
  cu_Source :: string
  cu_Password :: string

definition users_Create :: "argon2 \<Rightarrow> string \<Rightarrow> uuid \<Rightarrow> instant \<Rightarrow> CreateUserRequest \<Rightarrow> (User list, User) prog" where
  "users_Create IDKey salt id' now req us =
     (case user_New id' now (cu_Email req) (cu_Name req) (cu_Source req) of Inl e \<Rightarrow> (Inl e, us) | Inr u0 \<Rightarrow>
      let pw = TrimSpace (cu_Password req);
          u = (if pw \<noteq> '''' then u0\<lparr>u_PasswordHash := password_Hash IDKey salt pw\<rparr> else u0) in
      case user_Save u us of
        (Inl e, us1) \<Rightarrow> (Inl (if user_IsAlreadyExistsError e then e else Unexpected ''user.Create: save'' e), us1)
      | (Inr _, us1) \<Rightarrow> (Inr u, us1))"

definition users_Promote :: "uuid \<Rightarrow> (User list, unit) prog" where
  "users_Promote id' us =
     (case user_lookup ''user.Promote: byID'' id' us of Inl e \<Rightarrow> (Inl e, us) | Inr u \<Rightarrow>
      if u_IsAdmin u then (Inr (), us)
      else case user_Save (u\<lparr>u_IsAdmin := True\<rparr>) us of
        (Inl e, us1) \<Rightarrow> (Inl (Unexpected ''user.Promote: save'' e), us1)
      | (Inr _, us1) \<Rightarrow> (Inr (), us1))"

datatype GenesisOutcome = OutcomeUnconfigured | OutcomeSatisfied | OutcomeClaimed | OutcomeUnclaimed

definition ReconcileGenesisAdmin :: "string \<Rightarrow> (User list, GenesisOutcome) prog" where
  "ReconcileGenesisAdmin genesisEmail us =
     (let email = ToLower (TrimSpace genesisEmail) in
      if email = '''' then (Inr OutcomeUnconfigured, us)
      else case user_ByEmail email us of
        Inl e \<Rightarrow> if user_IsNotFoundError e then (Inr OutcomeUnclaimed, us)
          else (Inl (Unexpected ''user.ReconcileGenesisAdmin: byEmail'' e), us)
      | Inr u \<Rightarrow>
        if u_IsAdmin u then (Inr OutcomeSatisfied, us)
        else case users_Promote (u_ID u) us of (Inl e, us1) \<Rightarrow> (Inl e, us1) | (Inr _, us1) \<Rightarrow> (Inr OutcomeClaimed, us1))"

text \<open>\<open>HasPendingForEmail\<close> of the invite service is the argument \<open>hasPending\<close>; \<open>boot\<close> always attaches it.\<close>

definition CheckOIDCSignupEligibility :: "(string \<Rightarrow> (err, bool) res) \<Rightarrow> string \<Rightarrow> User list \<Rightarrow> (err, unit) res" where
  "CheckOIDCSignupEligibility hasPending email us =
     (let e = ToLower (TrimSpace email) in
      if e = '''' then Inl (EUser (UserInvalidEmailError ''empty'' ''''))
      else case user_ByEmail e us of
        Inr _ \<Rightarrow> Inr ()
      | Inl x \<Rightarrow>
        if \<not> user_IsNotFoundError x then Inl (Unexpected ''user.CheckOIDCSignupEligibility: byEmail'' x)
        else case hasPending e of
          Inl y \<Rightarrow> Inl (Unexpected ''user.CheckOIDCSignupEligibility: invites'' y)
        | Inr has \<Rightarrow> if has then Inr () else Inl (EUser (NotInvitedError e)))"

record Claims =
  cl_Issuer :: string
  cl_Subject :: string
  cl_Email :: string
  cl_EmailVerified :: bool
  cl_Name :: string

definition renamed_from :: "Claims \<Rightarrow> User \<Rightarrow> (err, User) res" where
  "renamed_from claims u = (let name = TrimSpace (cl_Name claims) in
     if name \<noteq> '''' \<and> u_Name u \<noteq> name then user_Rename name u else Inr u)"

definition relink :: "User \<Rightarrow> string \<Rightarrow> string \<Rightarrow> Claims \<Rightarrow> (User list, User) prog" where
  "relink u issuer subject claims us =
     (if u_IDPSubject u \<noteq> '''' \<and> u_IDPIssuer u = issuer \<and> u_IDPSubject u \<noteq> subject then (Inl (EUser IdentityConflictError), us)
      else case renamed_from claims u of Inl e \<Rightarrow> (Inl e, us) | Inr u1 \<Rightarrow>
       let u2 = u1\<lparr>u_IDPIssuer := issuer, u_IDPSubject := subject\<rparr> in
      (case user_Save u2 us of
         (Inl e, us1) \<Rightarrow> (Inl (Unexpected ''user.EnsureFromOIDC: relink'' e), us1)
       | (Inr _, us1) \<Rightarrow> (Inr u2, us1)))"

definition refreshFromClaims :: "User \<Rightarrow> Claims \<Rightarrow> (User list, User) prog" where
  "refreshFromClaims u claims us =
     (case renamed_from claims u of Inl e \<Rightarrow> (Inl e, us) | Inr u1 \<Rightarrow>
      let email = ToLower (TrimSpace (cl_Email claims)) in
     (case (if cl_EmailVerified claims \<and> email \<noteq> '''' \<and> u_Email u1 \<noteq> email then ChangeEmail email u1 else Inr u1) of
        Inl e \<Rightarrow> (Inl e, us)
      | Inr u2 \<Rightarrow>
        if \<not> (TrimSpace (cl_Name claims) \<noteq> '''' \<and> u_Name u \<noteq> TrimSpace (cl_Name claims)) \<and>
           \<not> (cl_EmailVerified claims \<and> email \<noteq> '''' \<and> u_Email u1 \<noteq> email) then (Inr u, us)
        else case user_Save u2 us of
          (Inl e, us1) \<Rightarrow>
            (Inl (case e of EUser (UserAlreadyExistsError f v) \<Rightarrow> if f = ''email'' then EUser IdentityConflictError else e
               | _ \<Rightarrow> Unexpected ''user.EnsureFromOIDC: refresh'' e), us1)
        | (Inr _, us1) \<Rightarrow> (Inr u2, us1)))"

definition EnsureFromOIDC :: "uuid \<Rightarrow> instant \<Rightarrow> Claims \<Rightarrow> (User list, User) prog" where
  "EnsureFromOIDC id' now claims us =
     (let issuer = TrimSpace (cl_Issuer claims); subject = TrimSpace (cl_Subject claims); email = ToLower (TrimSpace (cl_Email claims)) in
      if issuer = '''' \<or> subject = '''' then (Inl (EUser (UserInvalidEmailError ''oidc claims missing issuer or subject'' '''')), us)
      else case user_ByIDP issuer subject us of
        Inr linked \<Rightarrow> refreshFromClaims linked claims us
      | Inl e \<Rightarrow>
        if \<not> user_IsNotFoundError e then (Inl (Unexpected ''user.EnsureFromOIDC: byIDP'' e), us)
        else if \<not> cl_EmailVerified claims then (Inl (EUser EmailUnverifiedError), us)
        else case user_ByEmail email us of
          Inr existing \<Rightarrow> relink existing issuer subject claims us
        | Inl e \<Rightarrow>
          if \<not> user_IsNotFoundError e then (Inl (Unexpected ''user.EnsureFromOIDC: byEmail'' e), us)
          else let name = (if TrimSpace (cl_Name claims) \<noteq> '''' then TrimSpace (cl_Name claims) else defaultNameFromEmail email) in
          case user_New id' now (cl_Email claims) name ''oidc'' of Inl e \<Rightarrow> (Inl e, us) | Inr u0 \<Rightarrow>
          let u = u0\<lparr>u_IDPIssuer := issuer, u_IDPSubject := subject\<rparr> in
         (case user_Save u us of
            (Inl e, us1) \<Rightarrow>
              (case e of EUser (UserAlreadyExistsError f v) \<Rightarrow>
                 if f = ''idp_subject'' then (user_ByIDP issuer subject us1, us1) else (user_ByEmail (u_Email u) us1, us1)
               | _ \<Rightarrow> (Inl (Unexpected ''user.EnsureFromOIDC: save'' e), us1))
          | (Inr _, us1) \<Rightarrow> (Inr u, us1)))"

definition users_AcceptTerms :: "instant \<Rightarrow> uuid \<Rightarrow> (User list, unit) prog" where
  "users_AcceptTerms now id' us =
     (case user_lookup ''user.AcceptTerms: byID'' id' us of Inl e \<Rightarrow> (Inl e, us) | Inr u \<Rightarrow>
      if u_TermsAcceptedAt u \<noteq> None then (Inr (), us)
      else case user_Save (u\<lparr>u_TermsAcceptedAt := Some now\<rparr>) us of
        (Inl e, us1) \<Rightarrow> (Inl (Unexpected ''user.AcceptTerms: save'' e), us1)
      | (Inr _, us1) \<Rightarrow> (Inr (), us1))"

definition users_UpdateLocale :: "uuid \<Rightarrow> string \<Rightarrow> (User list, unit) prog" where
  "users_UpdateLocale id' locale us =
     (case store_UpdateLocale id' (TrimSpace locale) us of
        (Inl e, us1) \<Rightarrow> (Inl (if user_IsNotFoundError e then e else Unexpected ''user.UpdateLocale'' e), us1)
      | (Inr _, us1) \<Rightarrow> (Inr (), us1))"

definition users_Rename :: "uuid \<Rightarrow> string \<Rightarrow> (User list, unit) prog" where
  "users_Rename id' name us =
     (case user_lookup ''user.Rename: byID'' id' us of Inl e \<Rightarrow> (Inl e, us) | Inr u \<Rightarrow>
     (case user_Rename name u of Inl e \<Rightarrow> (Inl e, us) | Inr u1 \<Rightarrow>
     (case user_Save u1 us of
        (Inl e, us1) \<Rightarrow> (Inl (Unexpected ''user.Rename: save'' e), us1)
      | (Inr _, us1) \<Rightarrow> (Inr (), us1))))"

end
