(* ===== verification/UserSteps.thy ===== *)
theory UserSteps
  imports User
begin

text \<open>
  The invariant of the users table (identifiers, addresses and identity-provider
  links are unique), that every operation of \<open>User\<close> keeps it, and what a save and an
  OIDC login do to the rows.
\<close>

section \<open>The invariant\<close>

lemma keyed_upsert_other:
  assumes "keyed key rows" "keyed g rows" "\<forall>r \<in> set rows. key r \<noteq> key x \<longrightarrow> g r \<noteq> g x"
  shows "keyed g (upsert_row key x rows)"
proof -
  have "inj_on g (insert x {r \<in> set rows. key r \<noteq> key x})"
    using assms(2,3) by (auto simp: distinct_map inj_on_def)
  moreover have "distinct (upsert_row key x rows)" using keyed_upsert_row [OF assms(1), of x] by (simp add: distinct_map)
  ultimately show ?thesis by (simp add: distinct_map set_upsert_row [OF assms(1)])
qed

definition linked :: "User \<Rightarrow> bool" where
  "linked r \<longleftrightarrow> u_IDPIssuer r \<noteq> '''' \<and> u_IDPSubject r \<noteq> ''''"

abbreviation link :: "User \<Rightarrow> string \<times> string" where
  "link r \<equiv> (u_IDPIssuer r, u_IDPSubject r)"

definition users_ok :: "User list \<Rightarrow> bool" where
  "users_ok us \<longleftrightarrow> keyed u_ID us \<and> keyed u_Email us \<and> inj_on link {r \<in> set us. linked r} \<and> (\<forall>r \<in> set us. u_Source r = '''')"

lemma users_okD:
  assumes "users_ok us"
  shows "keyed u_ID us" "keyed u_Email us" "r \<in> set us \<Longrightarrow> u_Source r = ''''"
    and "r \<in> set us \<Longrightarrow> q \<in> set us \<Longrightarrow> linked r \<Longrightarrow> link q = link r \<Longrightarrow> q = r"
proof -
  show "keyed u_ID us" "keyed u_Email us" "r \<in> set us \<Longrightarrow> u_Source r = ''''" using assms by (simp_all add: users_ok_def)
  assume a: "r \<in> set us" "q \<in> set us" "linked r" "link q = link r"
  have "inj_on link {r \<in> set us. linked r}" using assms by (simp add: users_ok_def)
  moreover have "linked q" using a(3,4) by (simp add: linked_def)
  ultimately show "q = r" using a by (auto dest: inj_onD)
qed

text \<open>The row a save writes.\<close>

definition saved_row :: "User \<Rightarrow> User list \<Rightarrow> User" where
  "saved_row u us = (case find_row u_ID (u_ID u) us of None \<Rightarrow> user_row u | Some old \<Rightarrow> (user_row u)\<lparr>u_CreatedAt := u_CreatedAt old\<rparr>)"

lemma saved_row_fields [simp]:
  "u_ID (saved_row u us) = u_ID u" "u_Email (saved_row u us) = u_Email u" "u_Name (saved_row u us) = u_Name u"
  "u_IDPIssuer (saved_row u us) = u_IDPIssuer u" "u_IDPSubject (saved_row u us) = u_IDPSubject u"
  "u_PasswordHash (saved_row u us) = u_PasswordHash u" "u_Source (saved_row u us) = ''''"
  "u_IsAdmin (saved_row u us) \<longleftrightarrow> u_IsAdmin u \<or> u_Source u = ''genesis'' \<or> u_Source u = ''local''"
  "u_Locale (saved_row u us) = u_Locale u" "u_TermsAcceptedAt (saved_row u us) = u_TermsAcceptedAt u"
  by (simp_all add: saved_row_def user_row_def split: option.splits)

lemma user_Save_Inl: "user_Save u us = (Inl e, us') \<Longrightarrow> us' = us"
  by (auto simp: user_Save_def Let_def split: if_splits)

lemma user_Save_Inr:
  assumes "user_Save u us = (Inr y, us')"
  shows "us' = upsert_row u_ID (saved_row u us) us"
    "\<And>r. r \<in> set us \<Longrightarrow> u_ID r \<noteq> u_ID u \<Longrightarrow> u_Email r \<noteq> u_Email u"
    "\<And>r. r \<in> set us \<Longrightarrow> u_ID r \<noteq> u_ID u \<Longrightarrow> linked u \<Longrightarrow> link r \<noteq> link u"
  using assms by (auto simp: user_Save_def Let_def saved_row_def same_idp_def linked_def list_ex_iff split: if_splits)

lemma user_Save_ok:
  assumes "users_ok us" "user_Save u us = (x, us')"
  shows "users_ok us'"
proof (cases x)
  case (Inl e)
  then show ?thesis using assms user_Save_Inl by blast
next
  case (Inr y)
  note S = user_Save_Inr [OF assms(2) [unfolded Inr]]
  note k = users_okD [OF assms(1)]
  have set': "set us' = insert (saved_row u us) {r \<in> set us. u_ID r \<noteq> u_ID u}"
    unfolding S(1) set_upsert_row [OF k(1)] by simp
  have ids: "keyed u_ID us'" unfolding S(1) by (rule keyed_upsert_row [OF k(1)])
  have emails: "keyed u_Email us'" unfolding S(1)
    using S(2) by (intro keyed_upsert_other [OF k(1,2)]) simp
  have "q = r" if "q \<in> set us'" "r \<in> set us'" "linked r" "linked q" "link q = link r" for q r
  proof -
    have u: "link r' \<noteq> link u" if "r' \<in> set us" "u_ID r' \<noteq> u_ID u" "linked r'" for r'
      using S(3) [OF that(1,2)] that(3) by (auto simp: linked_def)
    consider "q = saved_row u us" "r = saved_row u us" | "q = saved_row u us" "r \<in> set us" "u_ID r \<noteq> u_ID u"
      | "r = saved_row u us" "q \<in> set us" "u_ID q \<noteq> u_ID u" | "q \<in> set us" "r \<in> set us"
      using \<open>q \<in> set us'\<close> \<open>r \<in> set us'\<close> unfolding set' by auto
    then show ?thesis
    proof cases
      case 2
      then show ?thesis using u [of r] \<open>linked r\<close> \<open>link q = link r\<close> by simp
    next
      case 3
      then show ?thesis using u [of q] \<open>linked q\<close> \<open>link q = link r\<close> by simp
    next
      case 4
      then show ?thesis using k(4) \<open>linked r\<close> \<open>link q = link r\<close> by blast
    qed simp
  qed
  then have "inj_on link {r \<in> set us'. linked r}" by (auto simp: inj_on_def)
  then show ?thesis using ids emails k(3) by (auto simp: users_ok_def set')
qed

lemma users_ok_map:
  assumes "users_ok us" "\<And>r. u_ID (f r) = u_ID r" "\<And>r. u_Email (f r) = u_Email r" "\<And>r. link (f r) = link r" "\<And>r. u_Source (f r) = u_Source r"
  shows "users_ok (map f us)"
proof -
  have "map u_ID (map f us) = map u_ID us" "map u_Email (map f us) = map u_Email us" using assms(2,3) by simp_all
  moreover have "inj_on link {r \<in> set (map f us). linked r}"
  proof (rule inj_onI)
    fix q r assume a: "q \<in> {r \<in> set (map f us). linked r}" "r \<in> {r \<in> set (map f us). linked r}" "link q = link r"
    then obtain q0 r0 where "q0 \<in> set us" "r0 \<in> set us" "q = f q0" "r = f r0" by auto
    moreover have "link q0 = link r0" "linked r0" using a assms(4) calculation by (auto simp: linked_def)
    ultimately show "q = r" using users_okD(4) [OF assms(1)] by blast
  qed
  moreover have "\<forall>r \<in> set (map f us). u_Source r = ''''" using users_okD(3) [OF assms(1)] assms(5) by simp
  ultimately show ?thesis using users_okD(1,2) [OF assms(1)] by (simp only: users_ok_def)
qed

lemma UpdateLocale_ok: "users_ok us \<Longrightarrow> users_ok (snd (store_UpdateLocale id' locale us))"
  by (auto simp: store_UpdateLocale_def intro: users_ok_map)

section \<open>Every operation keeps it\<close>

text \<open>An operation that reads, then saves at most once.\<close>

definition keeps_users :: "(User list, 'a) prog \<Rightarrow> bool" where
  "keeps_users f \<longleftrightarrow> (\<forall>us. users_ok us \<longrightarrow> users_ok (snd (f us)))"

lemma keeps_usersI [intro]: "(\<And>us. users_ok us \<Longrightarrow> users_ok (snd (f us))) \<Longrightarrow> keeps_users f"
  by (simp add: keeps_users_def)

lemma keeps_usersD: "keeps_users f \<Longrightarrow> users_ok us \<Longrightarrow> f us = (x, us') \<Longrightarrow> users_ok us'"
  by (metis keeps_users_def snd_conv)

lemma keeps_Save: "keeps_users (user_Save u)"
  by (rule keeps_usersI) (metis user_Save_ok prod.collapse)

lemma Save_then_ok: "users_ok us \<Longrightarrow> (\<And>e us1. snd (f (Inl e, us1)) = us1) \<Longrightarrow> (\<And>us1. snd (f (Inr (), us1)) = us1) \<Longrightarrow> users_ok (snd (f (user_Save u us)))"
  using user_Save_ok [of us u] by (cases "user_Save u us"; cases "fst (user_Save u us)") auto

lemma keeps_Create: "keeps_users (users_Create IDKey salt id' now req)"
  by (rule keeps_usersI) (auto simp: users_Create_def Let_def split: sum.splits intro!: Save_then_ok)

lemma keeps_Promote: "keeps_users (users_Promote id')"
  by (rule keeps_usersI) (auto simp: users_Promote_def split: sum.splits intro!: Save_then_ok)

lemma keeps_AcceptTerms: "keeps_users (users_AcceptTerms now id')"
  by (rule keeps_usersI) (auto simp: users_AcceptTerms_def split: sum.splits intro!: Save_then_ok)

lemma keeps_Rename: "keeps_users (users_Rename id' name)"
  by (rule keeps_usersI) (auto simp: users_Rename_def split: sum.splits intro!: Save_then_ok)

lemma keeps_UpdateLocale: "keeps_users (users_UpdateLocale id' locale)"
  by (rule keeps_usersI)
     (use UpdateLocale_ok in \<open>auto simp: users_UpdateLocale_def split: prod.splits sum.splits\<close>, (metis snd_conv)+)

lemma keeps_Reconcile: "keeps_users (ReconcileGenesisAdmin genesisEmail)"
  by (rule keeps_usersI)
     (auto simp: ReconcileGenesisAdmin_def Let_def split: sum.splits prod.splits intro: keeps_usersD [OF keeps_Promote])

lemma keeps_relink: "keeps_users (relink u issuer subject claims)"
  by (rule keeps_usersI) (auto simp: relink_def Let_def split: sum.splits intro!: Save_then_ok)

lemma keeps_refresh: "keeps_users (refreshFromClaims u claims)"
  by (rule keeps_usersI) (auto simp: refreshFromClaims_def Let_def split: sum.splits intro!: Save_then_ok)

end
