(* ===== verification/Identity.thy ===== *)
theory Identity
  imports User Outbox
begin

text \<open>
  Projects, invites and the bootstrap record: the aggregates of \<open>internal/project\<close>,
  \<open>internal/invite\<close> and \<open>internal/onboard\<close>, and the tables of identity.  The pairs
  of \<open>ad_projects\<close> that API keys read (theory \<open>Access\<close>) are the identifiers of the
  project rows.
\<close>

section \<open>Projects\<close>

record Project =
  pj_ID :: uuid
  pj_OrgID :: uuid
  pj_Slug :: string
  pj_Name :: string
  pj_CreatedAt :: instant
  pj_System :: bool

text \<open>The expression \<open>^[a-z0-9][a-z0-9-]*$\<close>.\<close>

definition project_slugRe :: "string \<Rightarrow> bool" where
  "project_slugRe s \<longleftrightarrow> s \<noteq> [] \<and> slug_char (hd s) \<and> list_all (\<lambda>c. slug_char c \<or> c = CHR ''-'') s"

definition project_validateSlug :: "string \<Rightarrow> (err, unit) res" where
  "project_validateSlug s =
     (if length s < 1 \<or> length s > 63 then Inl (EProject (ProjectInvalidSlugError s ''length out of range''))
      else if \<not> project_slugRe s then Inl (EProject (ProjectInvalidSlugError s ''must be lowercase alphanumeric with dashes''))
      else if s = ''new'' then Inl (EProject (ProjectInvalidSlugError s ''reserved word''))
      else Inr ())"

definition project_validateName :: "string \<Rightarrow> (err, string) res" where
  "project_validateName s =
     (let n = TrimSpace s in
      if n = '''' then Inl (EProject (ProjectInvalidNameError ''empty''))
      else if RuneCountInString n < 1 \<or> RuneCountInString n > 200 then Inl (EProject (ProjectInvalidNameError ''length out of range''))
      else Inr n)"

definition project_New :: "uuid \<Rightarrow> instant \<Rightarrow> uuid \<Rightarrow> string \<Rightarrow> string \<Rightarrow> (err, Project) res" where
  "project_New id' now orgID slug name =
     (case project_validateSlug slug of Inl e \<Rightarrow> Inl e | Inr _ \<Rightarrow>
     (case project_validateName name of Inl e \<Rightarrow> Inl e | Inr n \<Rightarrow>
      Inr \<lparr>pj_ID = id', pj_OrgID = orgID, pj_Slug = slug, pj_Name = n, pj_CreatedAt = now, pj_System = False\<rparr>))"

definition project_Rename :: "string \<Rightarrow> Project \<Rightarrow> (err, Project) res" where
  "project_Rename name p = (case project_validateName name of Inl e \<Rightarrow> Inl e | Inr n \<Rightarrow> Inr (p\<lparr>pj_Name := n\<rparr>))"

section \<open>Addresses\<close>

text \<open>
  \<open>net/mail.ParseAddress\<close>, as far as \<open>normalizeEmail\<close> uses it: the address it
  returns is the whole input exactly when the input is a bare \<open>addr-spec\<close>, a
  dot-atom, \<open>@\<close>, and a dot-atom or an IP address in brackets (display names,
  comments, quoting, spaces and lists all change the address or fail).
\<close>

definition isAtext :: "string \<Rightarrow> bool" where
  "isAtext r \<longleftrightarrow> (if length r > 1 then True
     else let b = byte (hd r) in 33 \<le> b \<and> b \<le> 126 \<and> hd r \<notin> set ''()<>[]:;@,'' \<and> b \<noteq> 92 \<and> b \<noteq> 34)"

definition dot_atom :: "string \<Rightarrow> bool" where
  "dot_atom s \<longleftrightarrow> s \<noteq> [] \<and> list_all isAtext (runes s) \<and> hd s \<noteq> CHR ''.'' \<and> last s \<noteq> CHR ''.'' \<and> \<not> Contains s ''..''"

definition is_hex :: "char \<Rightarrow> bool" where
  "is_hex c \<longleftrightarrow> is_digit c \<or> 97 \<le> byte c \<and> byte c \<le> 102 \<or> 65 \<le> byte c \<and> byte c \<le> 70"

definition is_octet :: "string \<Rightarrow> bool" where
  "is_octet s \<longleftrightarrow> s \<noteq> [] \<and> list_all is_digit s \<and> digits_val s \<le> 255 \<and> (length s = 1 \<or> hd s \<noteq> CHR ''0'')"

definition parseIPv4 :: "string \<Rightarrow> bool" where
  "parseIPv4 s \<longleftrightarrow> length (split_on (CHR ''.'') s) = 4 \<and> list_all is_octet (split_on (CHR ''.'') s)"

text \<open>The loop of \<open>netip.parseIPv6\<close>: \<open>n\<close> groups are still free, \<open>ell\<close> says whether \<open>::\<close> was seen.\<close>

fun ipv6_groups :: "nat \<Rightarrow> bool \<Rightarrow> string \<Rightarrow> bool" where
  "ipv6_groups 0 ell s \<longleftrightarrow> s = [] \<and> \<not> ell"
| "ipv6_groups (Suc n) ell s \<longleftrightarrow>
     (let h = takeWhile is_hex s; r = drop (length h) s in
      if h = [] \<or> length h > 4 then False
      else if r \<noteq> [] \<and> hd r = CHR ''.'' then (ell \<or> n = 1) \<and> n \<noteq> 0 \<and> parseIPv4 s \<and> (n = 1 \<longleftrightarrow> \<not> ell)
      else if r = [] then (n = 0 \<longleftrightarrow> \<not> ell)
      else if hd r \<noteq> CHR '':'' \<or> length r = 1 then False
      else let s1 = tl r in
        if hd s1 = CHR '':'' then (if ell then False else if tl s1 = [] then n \<noteq> 0 else ipv6_groups n True (tl s1))
        else ipv6_groups n ell s1)"

definition parseIPv6 :: "string \<Rightarrow> bool" where
  "parseIPv6 s = (if prefix ''::'' s then drop 2 s = [] \<or> ipv6_groups 8 True (drop 2 s) else ipv6_groups 8 False s)"

definition ParseIP :: "string \<Rightarrow> bool" where
  "ParseIP s = (case find (\<lambda>c. c = CHR ''.'' \<or> c = CHR '':'' \<or> c = CHR ''%'') s of
     None \<Rightarrow> False | Some c \<Rightarrow> if c = CHR ''.'' then parseIPv4 s else if c = CHR '':'' then parseIPv6 s else False)"

definition addr_spec :: "string \<Rightarrow> bool" where
  "addr_spec e \<longleftrightarrow> (let at = takeWhile (\<lambda>c. c \<noteq> CHR ''@'') e; r = drop (length at) e; dom = tl r in
     r \<noteq> [] \<and> dot_atom at \<and>
     (if dom \<noteq> [] \<and> hd dom = CHR ''['' then last dom = CHR '']'' \<and> ParseIP (butlast (tl dom)) else dot_atom dom))"

definition invite_normalizeEmail :: "string \<Rightarrow> (err, string) res" where
  "invite_normalizeEmail s =
     (let e = ToLower (TrimSpace s) in
      if e = '''' then Inl (EInvite (InviteInvalidEmailError ''empty'' ''''))
      else if \<not> addr_spec e then Inl (EInvite (InviteInvalidEmailError ''malformed'' s))
      else Inr e)"

section \<open>Invites\<close>

record Invite =
  iv_ID :: uuid
  iv_OrgID :: uuid
  iv_Email :: string
  iv_Role :: Role
  iv_TokenHash :: string
  iv_ExpiresAt :: instant
  iv_UsedAt :: "instant option"
  iv_CreatedAt :: instant

text \<open>\<open>hex.EncodeToString\<close> and the token digest; SHA-256 is the parameter \<open>sha\<close>.\<close>

definition hex_digit :: "int \<Rightarrow> char" where
  "hex_digit n = (if n < 10 then char_of (n + 48) else char_of (n + 87))"

definition hex_EncodeToString :: "string \<Rightarrow> string" where
  "hex_EncodeToString s = concat (map (\<lambda>c. [hex_digit (byte c div 16), hex_digit (byte c mod 16)]) s)"

definition HashToken :: "(string \<Rightarrow> string) \<Rightarrow> string \<Rightarrow> string" where
  "HashToken sha raw = hex_EncodeToString (sha raw)"

definition invite_New :: "(string \<Rightarrow> string) \<Rightarrow> uuid \<Rightarrow> uuid \<Rightarrow> string \<Rightarrow> Role \<Rightarrow> int \<Rightarrow> string \<Rightarrow> instant \<Rightarrow> (err, Invite) res" where
  "invite_New sha id' orgID email role ttl token now =
     (if \<not> role_IsValid role then Inl (EInvite (InviteInvalidRoleError (role_str role)))
      else case invite_normalizeEmail email of Inl e \<Rightarrow> Inl e | Inr e \<Rightarrow>
      Inr \<lparr>iv_ID = id', iv_OrgID = orgID, iv_Email = e, iv_Role = role, iv_TokenHash = HashToken sha token,
        iv_ExpiresAt = now + ttl, iv_UsedAt = None, iv_CreatedAt = now\<rparr>)"

definition invite_IsExpired :: "instant \<Rightarrow> Invite \<Rightarrow> bool" where
  "invite_IsExpired now i \<longleftrightarrow> now > iv_ExpiresAt i"

definition invite_Consume :: "instant \<Rightarrow> Invite \<Rightarrow> (err, Invite) res" where
  "invite_Consume now i =
     (if iv_UsedAt i \<noteq> None then Inl (EInvite (InviteAlreadyUsedError (iv_ID i)))
      else if invite_IsExpired now i then Inl (EInvite (InviteExpiredError (iv_ID i)))
      else Inr (i\<lparr>iv_UsedAt := Some now\<rparr>))"

section \<open>The bootstrap record\<close>

datatype Method = MethodEnvGenesis | MethodWebOnboard | MethodCLIInit | MethodOther string

fun method_str :: "Method \<Rightarrow> string" where
  "method_str MethodEnvGenesis = ''env-genesis''"
| "method_str MethodWebOnboard = ''web-onboard''"
| "method_str MethodCLIInit = ''cli-init''"
| "method_str (MethodOther s) = s"

definition method_IsValid :: "Method \<Rightarrow> bool" where
  "method_IsValid m \<longleftrightarrow> m = MethodEnvGenesis \<or> m = MethodWebOnboard \<or> m = MethodCLIInit"

record Bootstrap =
  bs_OnboardedAt :: instant
  bs_OnboardedBy :: uuid
  bs_Method :: Method

definition onboard_New :: "uuid \<Rightarrow> Method \<Rightarrow> instant \<Rightarrow> (err, Bootstrap) res" where
  "onboard_New by' method now =
     (if by' = uuid_Nil then Inl (EOnboard (InvalidMethodError (method_str method) ''onboarded_by required''))
      else if \<not> method_IsValid method then Inl (EOnboard (InvalidMethodError (method_str method) ''unknown method''))
      else if now = time_Zero then Inl (EOnboard (InvalidMethodError (method_str method) ''timestamp required''))
      else Inr \<lparr>bs_OnboardedAt = now, bs_OnboardedBy = by', bs_Method = method\<rparr>)"

section \<open>The tables\<close>

record identity_db =
  id_access :: access_db
  id_users :: "User list"
  id_projects :: "Project list"
  id_invites :: "Invite list"
  id_bootstrap :: "Bootstrap option"

definition no_identity :: identity_db where
  "no_identity = \<lparr>id_access = no_access, id_users = [], id_projects = [], id_invites = [], id_bootstrap = None\<rparr>"

definition has_user :: "uuid \<Rightarrow> identity_db \<Rightarrow> bool" where
  "has_user u d \<longleftrightarrow> find_row u_ID u (id_users d) \<noteq> None"

definition has_org :: "uuid \<Rightarrow> identity_db \<Rightarrow> bool" where
  "has_org o' d \<longleftrightarrow> find_row or_ID o' (ad_orgs (id_access d)) \<noteq> None"

text \<open>An operation on one table, run on the whole database.\<close>

definition on_users :: "(User list, 'a) prog \<Rightarrow> (identity_db, 'a) prog" where
  "on_users f d = (case f (id_users d) of (r, us) \<Rightarrow> (r, d\<lparr>id_users := us\<rparr>))"

definition on_access :: "(access_db, 'a) prog \<Rightarrow> (identity_db, 'a) prog" where
  "on_access f d = (case f (id_access d) of (r, a) \<Rightarrow> (r, d\<lparr>id_access := a\<rparr>))"

definition put_projects :: "Project list \<Rightarrow> identity_db \<Rightarrow> identity_db" where
  "put_projects ps d = d\<lparr>id_projects := ps, id_access := (id_access d)\<lparr>ad_projects := map (\<lambda>p. (pj_OrgID p, pj_ID p)) ps\<rparr>\<rparr>"

end
