(* ===== verification/ProjectService.thy ===== *)
theory ProjectService
  imports Identity
begin

text \<open>
  Projects (\<open>internal/project\<close>): the SQLite store, whose upsert is fenced by the
  caller's organisation, and the service.  The creator of a row is the caller; it
  must be a user.
\<close>

section \<open>The store\<close>

definition project_Save :: "ctx \<Rightarrow> Project \<Rightarrow> (identity_db, unit) prog" where
  "project_Save c p d =
     (case tenant_From c of Inl e \<Rightarrow> (Inl e, d) | Inr tc \<Rightarrow>
     (case find_row pj_ID (pj_ID p) (id_projects d) of
        Some old \<Rightarrow>
          if pj_OrgID old \<noteq> tc_OrgID tc then (Inl (EProject (ProjectNotFoundError (RefID (pj_ID p)))), d)
          else if pj_System p \<and> list_ex (\<lambda>r. pj_ID r \<noteq> pj_ID p \<and> pj_OrgID r = pj_OrgID old \<and> pj_System r) (id_projects d)
          then (Inl (EProject (SystemProjectExistsError (pj_OrgID p) (pj_Slug p))), d)
          else (Inr (), put_projects (upsert_row pj_ID (old\<lparr>pj_Name := pj_Name p, pj_System := pj_System p\<rparr>) (id_projects d)) d)
      | None \<Rightarrow>
          if pj_System p \<and> list_ex (\<lambda>r. pj_OrgID r = pj_OrgID p \<and> pj_System r) (id_projects d)
          then (Inl (EProject (SystemProjectExistsError (pj_OrgID p) (pj_Slug p))), d)
          else if list_ex (\<lambda>r. pj_OrgID r = pj_OrgID p \<and> pj_Slug r = pj_Slug p) (id_projects d)
          then (Inl (EProject (ProjectAlreadyExistsError ''slug'' (pj_Slug p))), d)
          else if \<not> has_org (pj_OrgID p) d \<or> \<not> has_user (tc_UserID tc) d then (Inl (Sql ConstraintForeignKey), d)
          else (Inr (), put_projects (upsert_row pj_ID p (id_projects d)) d)))"

definition project_ByID :: "ctx \<Rightarrow> uuid \<Rightarrow> identity_db \<Rightarrow> (err, Project) res" where
  "project_ByID c id' d =
     (case tenant_From c of Inl e \<Rightarrow> Inl e | Inr tc \<Rightarrow>
     (case find (\<lambda>r. pj_ID r = id' \<and> pj_OrgID r = tc_OrgID tc) (id_projects d) of
        None \<Rightarrow> Inl (EProject (ProjectNotFoundError (RefID id'))) | Some p \<Rightarrow> Inr p))"

definition project_BySlug :: "ctx \<Rightarrow> uuid \<Rightarrow> string \<Rightarrow> identity_db \<Rightarrow> (err, Project) res" where
  "project_BySlug c orgID slug d =
     (case tenant_From c of Inl e \<Rightarrow> Inl e | Inr tc \<Rightarrow>
     (case find (\<lambda>r. pj_OrgID r = orgID \<and> pj_Slug r = slug) (id_projects d) of
        None \<Rightarrow> Inl (EProject (ProjectNotFoundError (RefText slug))) | Some p \<Rightarrow> Inr p))"

definition project_List :: "ctx \<Rightarrow> uuid \<Rightarrow> identity_db \<Rightarrow> (err, Project list) res" where
  "project_List c orgID d =
     (case tenant_From c of Inl e \<Rightarrow> Inl e | Inr tc \<Rightarrow>
      Inr (sort_key pj_CreatedAt (filter (\<lambda>r. pj_OrgID r = orgID) (id_projects d))))"

section \<open>The service\<close>

definition project_createWithSlug :: "uuid \<Rightarrow> instant \<Rightarrow> ctx \<Rightarrow> uuid \<Rightarrow> string \<Rightarrow> bool \<Rightarrow> string \<Rightarrow> (identity_db, Project) prog" where
  "project_createWithSlug id' now c orgID name system chosen d =
     (case project_BySlug c orgID chosen d of
        Inr _ \<Rightarrow> (Inl (EProject (ProjectAlreadyExistsError ''slug'' chosen)), d)
      | Inl e \<Rightarrow>
        if \<not> project_IsNotFoundError e then (Inl (Unexpected ''project.Create: bySlug'' e), d)
        else case project_New id' now orgID chosen name of Inl e \<Rightarrow> (Inl e, d) | Inr p0 \<Rightarrow>
        let p = p0\<lparr>pj_System := system\<rparr> in
       (case project_Save c p d of
          (Inl e, d1) \<Rightarrow> (Inl (if project_IsAlreadyExistsError e \<or> IsSystemProjectExistsError e then e
             else Unexpected ''project.Create: save'' e), d1)
        | (Inr _, d1) \<Rightarrow> (Inr p, d1)))"

definition projects_Create :: "(nat \<Rightarrow> string) \<Rightarrow> uuid \<Rightarrow> instant \<Rightarrow> ctx \<Rightarrow> uuid \<Rightarrow> string \<Rightarrow> string \<Rightarrow> (identity_db, Project) prog" where
  "projects_Create gen id' now c orgID slug name d =
     (case tenant_From c of Inl e \<Rightarrow> (Inl e, d) | Inr _ \<Rightarrow>
      if TrimSpace slug \<noteq> '''' then project_createWithSlug id' now c orgID name False (TrimSpace slug) d
      else slug_Retry 5 gen project_IsAlreadyExistsError (project_createWithSlug id' now c orgID name False) d)"

definition systemProject :: "ctx \<Rightarrow> uuid \<Rightarrow> identity_db \<Rightarrow> (err, Project option) res" where
  "systemProject c orgID d = (case project_List c orgID d of
     Inl e \<Rightarrow> Inl (Unexpected ''project.BootstrapSystem: list'' e) | Inr ps \<Rightarrow> Inr (find pj_System ps))"

definition ensureSystem :: "(nat \<Rightarrow> string) \<Rightarrow> uuid \<Rightarrow> instant \<Rightarrow> ctx \<Rightarrow> uuid \<Rightarrow> string \<Rightarrow> string \<Rightarrow> (identity_db, Project) prog" where
  "ensureSystem gen id' now c orgID slug name d =
     (case systemProject c orgID d of
        Inl e \<Rightarrow> (Inl e, d)
      | Inr (Some existing) \<Rightarrow> (Inr existing, d)
      | Inr None \<Rightarrow>
        if slug = '''' then slug_Retry 5 gen project_IsAlreadyExistsError (project_createWithSlug id' now c orgID name True) d
        else case project_BySlug c orgID slug d of
          Inr bySlug \<Rightarrow>
            let p = bySlug\<lparr>pj_System := True\<rparr> in
           (case project_Save c p d of
              (Inl e, d1) \<Rightarrow> (Inl (if IsSystemProjectExistsError e then e else Unexpected ''project.BootstrapSystem: promote'' e), d1)
            | (Inr _, d1) \<Rightarrow> (Inr p, d1))
        | Inl e \<Rightarrow>
          if \<not> project_IsNotFoundError e then (Inl (Unexpected ''project.BootstrapSystem: bySlug'' e), d)
          else project_createWithSlug id' now c orgID name True slug d)"

definition BootstrapSystem :: "(nat \<Rightarrow> string) \<Rightarrow> uuid \<Rightarrow> instant \<Rightarrow> ctx \<Rightarrow> uuid \<Rightarrow> string \<Rightarrow> string \<Rightarrow> (identity_db, Project) prog" where
  "BootstrapSystem gen id' now c orgID slug name d =
     (case tenant_From c of Inl e \<Rightarrow> (Inl e, d) | Inr _ \<Rightarrow>
     (case ensureSystem gen id' now c orgID (TrimSpace slug) name d of
        (Inr p, d1) \<Rightarrow> (Inr p, d1)
      | (Inl e, d1) \<Rightarrow>
        if \<not> IsSystemProjectExistsError e \<and> \<not> project_IsAlreadyExistsError e then (Inl e, d1)
        else case systemProject c orgID d1 of
          Inl w \<Rightarrow> (Inl w, d1)
        | Inr None \<Rightarrow> (Inl e, d1)
        | Inr (Some winner) \<Rightarrow> (Inr winner, d1)))"

definition projects_List :: "ctx \<Rightarrow> uuid \<Rightarrow> identity_db \<Rightarrow> (err, Project list) res" where
  "projects_List c orgID d =
     (case tenant_From c of Inl e \<Rightarrow> Inl e | Inr _ \<Rightarrow> map_err (Unexpected ''project.List: list'') (project_List c orgID d))"

definition projects_Rename :: "ctx \<Rightarrow> uuid \<Rightarrow> string \<Rightarrow> (identity_db, Project) prog" where
  "projects_Rename c id' name d =
     (case tenant_From c of Inl e \<Rightarrow> (Inl e, d) | Inr _ \<Rightarrow>
     (case project_ByID c id' d of
        Inl e \<Rightarrow> (Inl (if project_IsNotFoundError e then e else Unexpected ''project.Rename: byID'' e), d)
      | Inr p \<Rightarrow>
        if pj_System p then (Inl (EProject (ProjectSystemProtectedError ''rename'' id')), d)
        else case project_Rename name p of Inl e \<Rightarrow> (Inl e, d) | Inr q \<Rightarrow>
       (case project_Save c q d of
          (Inl e, d1) \<Rightarrow> (Inl (Unexpected ''project.Rename: save'' e), d1)
        | (Inr _, d1) \<Rightarrow> (Inr q, d1))))"

definition projects_ByID :: "ctx \<Rightarrow> uuid \<Rightarrow> identity_db \<Rightarrow> (err, Project) res" where
  "projects_ByID c id' d =
     (case tenant_From c of Inl e \<Rightarrow> Inl e | Inr _ \<Rightarrow>
      map_err (\<lambda>e. if project_IsNotFoundError e then e else Unexpected ''project.ByID: byID'' e) (project_ByID c id' d))"

definition projects_BySlug :: "ctx \<Rightarrow> uuid \<Rightarrow> string \<Rightarrow> identity_db \<Rightarrow> (err, Project) res" where
  "projects_BySlug c orgID slug d =
     (case tenant_From c of Inl e \<Rightarrow> Inl e | Inr _ \<Rightarrow>
      map_err (\<lambda>e. if project_IsNotFoundError e then e else Unexpected ''project.BySlug: bySlug'' e) (project_BySlug c orgID slug d))"

end
