(* ===== verification/InviteService.thy ===== *)
theory InviteService
  imports Identity
begin

text \<open>
  Invites (\<open>internal/invite\<close>): the SQLite store, the send and accept workflows, the
  service, and the adapters of \<open>boot/shims.go\<close> through which acceptance writes users
  and memberships.  The workflows run outside a unit of work: what was written
  before a failure stays.
\<close>

section \<open>The store\<close>

definition invite_Save :: "ctx \<Rightarrow> Invite \<Rightarrow> (identity_db, unit) prog" where
  "invite_Save c i d =
     (case tenant_From c of Inl e \<Rightarrow> (Inl e, d) | Inr tc \<Rightarrow>
      if \<not> role_IsValid (iv_Role i) then (Inl (Sql ConstraintCheck), d)
      else case find_row iv_ID (iv_ID i) (id_invites d) of
        Some old \<Rightarrow>
          if iv_OrgID old \<noteq> tc_OrgID tc then (Inl (EInvite (InviteNotFoundError (RefID (iv_ID i)))), d)
          else (Inr (), d\<lparr>id_invites := upsert_row iv_ID
             (i\<lparr>iv_OrgID := iv_OrgID old, iv_CreatedAt := iv_CreatedAt old\<rparr>) (id_invites d)\<rparr>)
      | None \<Rightarrow>
          if \<not> has_org (iv_OrgID i) d \<or> \<not> has_user (tc_UserID tc) d then (Inl (Sql ConstraintForeignKey), d)
          else (Inr (), d\<lparr>id_invites := upsert_row iv_ID i (id_invites d)\<rparr>))"

definition invite_ByID :: "ctx \<Rightarrow> uuid \<Rightarrow> identity_db \<Rightarrow> (err, Invite) res" where
  "invite_ByID c id' d =
     (case tenant_From c of Inl e \<Rightarrow> Inl e | Inr tc \<Rightarrow>
     (case find (\<lambda>r. iv_ID r = id' \<and> iv_OrgID r = tc_OrgID tc) (id_invites d) of
        None \<Rightarrow> Inl (EInvite (InviteNotFoundError (RefID id'))) | Some i \<Rightarrow> Inr i))"

definition ByTokenHash :: "string \<Rightarrow> identity_db \<Rightarrow> (err, Invite) res" where
  "ByTokenHash hash d = (case find (\<lambda>r. iv_TokenHash r = hash) (id_invites d) of
     None \<Rightarrow> Inl (EInvite (InviteNotFoundError (RefText ''''))) | Some i \<Rightarrow> Inr i)"

definition invite_ListPending :: "ctx \<Rightarrow> uuid \<Rightarrow> identity_db \<Rightarrow> (err, Invite list) res" where
  "invite_ListPending c orgID d =
     (case tenant_From c of Inl e \<Rightarrow> Inl e | Inr tc \<Rightarrow>
      if tc_OrgID tc \<noteq> orgID then Inr []
      else Inr (sort_key iv_CreatedAt (filter (\<lambda>r. iv_OrgID r = orgID \<and> iv_UsedAt r = None) (id_invites d))))"

definition FindPendingForEmail :: "string \<Rightarrow> identity_db \<Rightarrow> Invite list" where
  "FindPendingForEmail email d = sort_key iv_CreatedAt (filter (\<lambda>r. iv_Email r = email \<and> iv_UsedAt r = None) (id_invites d))"

definition invite_Delete :: "ctx \<Rightarrow> uuid \<Rightarrow> (identity_db, unit) prog" where
  "invite_Delete c id' d =
     (case tenant_From c of Inl e \<Rightarrow> (Inl e, d) | Inr tc \<Rightarrow>
     (let keep = filter (\<lambda>r. \<not> (iv_ID r = id' \<and> iv_OrgID r = tc_OrgID tc)) (id_invites d) in
      if length keep = length (id_invites d) then (Inl (EInvite (InviteNotFoundError (RefID id'))), d)
      else (Inr (), d\<lparr>id_invites := keep\<rparr>)))"

section \<open>Sending\<close>

definition DefaultTTL :: int where "DefaultTTL = 7 * 24 * 3600 * 10 ^ 9"

record SendRequest =
  sr_Email :: string
  sr_Role :: Role
  sr_TTL :: int

text \<open>\<open>token\<close> is what the token generator returned, \<open>mail\<close> what the mailer answers for an invite and its raw token.\<close>

definition SendWorkflow_Execute ::
  "(string \<Rightarrow> string) \<Rightarrow> (err, string) res \<Rightarrow> (Invite \<Rightarrow> string \<Rightarrow> (err, unit) res) \<Rightarrow> uuid \<Rightarrow> instant \<Rightarrow> ctx \<Rightarrow> SendRequest \<Rightarrow>
   (identity_db, Invite) prog" where
  "SendWorkflow_Execute sha token mail id' now c req d =
     (case tenant_From c of Inl e \<Rightarrow> (Inl e, d) | Inr tc \<Rightarrow>
      if \<not> role_IsValid (sr_Role req) then (Inl (EInvite (InviteInvalidRoleError (role_str (sr_Role req)))), d)
      else case invite_normalizeEmail (sr_Email req) of Inl e \<Rightarrow> (Inl e, d) | Inr _ \<Rightarrow>
      let ttl = (if sr_TTL req \<le> 0 then DefaultTTL else sr_TTL req) in
     (case token of Inl e \<Rightarrow> (Inl (Unexpected ''invite.Send: tokenGen'' e), d) | Inr raw \<Rightarrow>
     (case invite_New sha id' (tc_OrgID tc) (sr_Email req) (sr_Role req) ttl raw now of Inl e \<Rightarrow> (Inl e, d) | Inr ivt \<Rightarrow>
     (case invite_Save c ivt d of
        (Inl e, d1) \<Rightarrow> (Inl (Unexpected ''invite.Send: save'' e), d1)
      | (Inr _, d1) \<Rightarrow>
        (case mail ivt raw of Inl e \<Rightarrow> (Inl (Unexpected ''invite.Send: mail'' e), d1) | Inr _ \<Rightarrow> (Inr ivt, d1))))))"

section \<open>Accepting\<close>

text \<open>The adapters of \<open>boot/shims.go\<close>: what acceptance reads and writes of users and memberships.\<close>

record UserRef =
  ur_ID :: uuid
  ur_Email :: string
  ur_Name :: string
  ur_Source :: string

definition userStoreForInvite_ByEmail :: "string \<Rightarrow> identity_db \<Rightarrow> (err, UserRef) res" where
  "userStoreForInvite_ByEmail email d = (case user_ByEmail email (id_users d) of Inl e \<Rightarrow> Inl e
     | Inr u \<Rightarrow> Inr \<lparr>ur_ID = u_ID u, ur_Email = u_Email u, ur_Name = u_Name u, ur_Source = u_Source u\<rparr>)"

definition userStoreForInvite_Save :: "UserRef \<Rightarrow> (identity_db, unit) prog" where
  "userStoreForInvite_Save u = on_users (user_Save \<lparr>u_ID = ur_ID u, u_Email = ur_Email u, u_Name = ur_Name u, u_Source = ur_Source u,
     u_IDPIssuer = '''', u_IDPSubject = '''', u_PasswordHash = '''', u_IsAdmin = False, u_Locale = '''', u_TermsAcceptedAt = None,
     u_CreatedAt = time_Zero\<rparr>)"

definition orgStoreForInvite_SaveMembership :: "uuid \<Rightarrow> uuid \<Rightarrow> Role \<Rightarrow> (identity_db, unit) prog" where
  "orgStoreForInvite_SaveMembership orgID userID role =
     on_access (SaveMembership \<lparr>mb_OrgID = orgID, mb_UserID = userID, mb_Role = role, mb_CreatedAt = time_Zero, mb_System = False\<rparr>)"

definition invite_defaultName :: "string \<Rightarrow> string" where
  "invite_defaultName email = (let at = IndexByte email (CHR ''@'') in if at > 0 then take (nat at) email else email)"

definition ensureUser :: "uuid \<Rightarrow> string \<Rightarrow> string \<Rightarrow> (identity_db, UserRef) prog" where
  "ensureUser fresh email name d =
     (case userStoreForInvite_ByEmail email d of
        Inr usr \<Rightarrow> (Inr usr, d)
      | Inl _ \<Rightarrow>
        let displayName = (if TrimSpace name = '''' then invite_defaultName email else TrimSpace name);
            usr = \<lparr>ur_ID = fresh, ur_Email = email, ur_Name = displayName, ur_Source = ''invite''\<rparr> in
       (case userStoreForInvite_Save usr d of
          (Inl e, d1) \<Rightarrow> (Inl (Unexpected ''invite.Accept: user save'' e), d1)
        | (Inr _, d1) \<Rightarrow> (Inr usr, d1)))"

record AcceptRequest =
  ar_Token :: string
  ar_Email :: string
  ar_Name :: string

text \<open>\<open>strings.EqualFold\<close>, with the case folding of theory \<open>GoStrings\<close>.\<close>

definition fold_rune :: "string \<Rightarrow> string" where
  "fold_rune r = (if map byte r = [0xC5, 0xBF] then ''s'' else if map byte r = [0xC4, 0xB0] then r else lower_rune r)"

definition EqualFold :: "string \<Rightarrow> string \<Rightarrow> bool" where
  "EqualFold s t \<longleftrightarrow> map fold_rune (runes s) = map fold_rune (runes t)"

definition AcceptWorkflow_Execute :: "(string \<Rightarrow> string) \<Rightarrow> uuid \<Rightarrow> instant \<Rightarrow> ctx \<Rightarrow> AcceptRequest \<Rightarrow> (identity_db, Invite \<times> UserRef \<times> Role) prog" where
  "AcceptWorkflow_Execute sha fresh now c req d =
     (if ar_Token req = '''' then (Inl (EInvite TokenMismatchError), d)
      else case invite_normalizeEmail (ar_Email req) of Inl e \<Rightarrow> (Inl e, d) | Inr email \<Rightarrow>
     (case ByTokenHash (HashToken sha (ar_Token req)) d of
        Inl e \<Rightarrow> (Inl (if invite_IsNotFoundError e then EInvite TokenMismatchError else Unexpected ''invite.Accept: byTokenHash'' e), d)
      | Inr ivt \<Rightarrow>
        if \<not> EqualFold (iv_Email ivt) email then (Inl (EInvite TokenMismatchError), d)
        else case invite_Consume now ivt of Inl e \<Rightarrow> (Inl e, d) | Inr ivt1 \<Rightarrow>
       (case ensureUser fresh email (ar_Name req) d of
          (Inl e, d1) \<Rightarrow> (Inl e, d1)
        | (Inr usr, d1) \<Rightarrow>
         (case org_ByID (iv_OrgID ivt1) (id_access d1) of
            Inl e \<Rightarrow> (Inl (Unexpected ''invite.Accept: org lookup'' e), d1)
          | Inr _ \<Rightarrow>
            let tctx = tenant_Into c \<lparr>tc_OrgID = iv_OrgID ivt1, tc_ProjectID = uuid_Nil, tc_UserID = ur_ID usr\<rparr> in
           (case orgStoreForInvite_SaveMembership (iv_OrgID ivt1) (ur_ID usr) (iv_Role ivt1) d1 of
              (Inl e, d2) \<Rightarrow> (Inl (Unexpected ''invite.Accept: save membership'' e), d2)
            | (Inr _, d2) \<Rightarrow>
             (case invite_Save tctx ivt1 d2 of
                (Inl e, d3) \<Rightarrow> (Inl (Unexpected ''invite.Accept: save invite'' e), d3)
              | (Inr _, d3) \<Rightarrow> (Inr (ivt1, usr, iv_Role ivt1), d3)))))))"

section \<open>The service\<close>

definition invites_Send ::
  "bool \<Rightarrow> (string \<Rightarrow> string) \<Rightarrow> (err, string) res \<Rightarrow> (Invite \<Rightarrow> string \<Rightarrow> (err, unit) res) \<Rightarrow> uuid \<Rightarrow> instant \<Rightarrow> ctx \<Rightarrow> SendRequest \<Rightarrow>
   (identity_db, Invite) prog" where
  "invites_Send enabled sha token mail id' now c req d =
     (if \<not> enabled then (Inl (EInvite (InvitesDisabledError ''invites require OIDC in selfhosted mode; set YASAKU_OIDC_ISSUER to enable'')), d)
      else SendWorkflow_Execute sha token mail id' now c req d)"

definition HasPendingForEmail :: "identity_db \<Rightarrow> string \<Rightarrow> (err, bool) res" where
  "HasPendingForEmail d email = Inr (FindPendingForEmail email d \<noteq> [])"

definition invites_ListPending :: "ctx \<Rightarrow> identity_db \<Rightarrow> (err, Invite list) res" where
  "invites_ListPending c d =
     (case tenant_From c of Inl e \<Rightarrow> Inl e | Inr tc \<Rightarrow> map_err (Unexpected ''invite.ListPending'') (invite_ListPending c (tc_OrgID tc) d))"

definition invites_Revoke :: "ctx \<Rightarrow> uuid \<Rightarrow> (identity_db, unit) prog" where
  "invites_Revoke c id' d =
     (case tenant_From c of Inl e \<Rightarrow> (Inl e, d) | Inr tc \<Rightarrow>
     (case invite_ByID c id' d of
        Inl e \<Rightarrow> (Inl (if invite_IsNotFoundError e then e else Unexpected ''invite.Revoke: byID'' e), d)
      | Inr ivt \<Rightarrow>
        if iv_OrgID ivt \<noteq> tc_OrgID tc then (Inl (EInvite (InviteNotFoundError (RefID id'))), d)
        else case invite_Delete c id' d of
          (Inl e, d1) \<Rightarrow> (Inl (if invite_IsNotFoundError e then e else Unexpected ''invite.Revoke: delete'' e), d1)
        | (Inr _, d1) \<Rightarrow> (Inr (), d1)))"

end
