(* ===== verification/Login.thy ===== *)
theory Login
  imports ProjectService InviteService ApiKeyService
begin

text \<open>
  First run and login: the bootstrap record (\<open>internal/onboard\<close>), the workflow that
  finds the organisation of a user who just authenticated (\<open>internal/user/onboard.go\<close>),
  the authenticator of access tokens (\<open>internal/user/authn.go\<close>), and local and OIDC
  login (\<open>internal/auth\<close>) wired as \<open>boot/services.go\<close> wires them.
\<close>

section \<open>The bootstrap record\<close>

definition onboard_Get :: "identity_db \<Rightarrow> (err, Bootstrap) res" where
  "onboard_Get d = (case id_bootstrap d of None \<Rightarrow> Inl (EOnboard NotOnboardedError) | Some b \<Rightarrow> Inr b)"

definition onboard_Save :: "Bootstrap \<Rightarrow> (identity_db, unit) prog" where
  "onboard_Save b d =
     (if \<not> method_IsValid (bs_Method b) then (Inl (Sql ConstraintCheck), d)
      else if id_bootstrap d \<noteq> None then (Inl (EOnboard AlreadyOnboardedError), d)
      else if \<not> has_user (bs_OnboardedBy b) d then (Inl (Sql ConstraintForeignKey), d)
      else (Inr (), d\<lparr>id_bootstrap := Some b\<rparr>))"

definition onboard_Required :: "identity_db \<Rightarrow> (err, bool) res" where
  "onboard_Required d = (case onboard_Get d of Inr _ \<Rightarrow> Inr False
     | Inl e \<Rightarrow> if IsNotOnboardedError e then Inr True else Inl (Unexpected ''onboard.Required: get'' e))"

definition onboard_Status :: "identity_db \<Rightarrow> (err, Bootstrap) res" where
  "onboard_Status d = map_err (\<lambda>e. if IsNotOnboardedError e then e else Unexpected ''onboard.Status: get'' e) (onboard_Get d)"

definition onboard_Complete :: "instant \<Rightarrow> uuid \<Rightarrow> Method \<Rightarrow> (identity_db, Bootstrap) prog" where
  "onboard_Complete now by' method d =
     (case onboard_New by' method now of Inl e \<Rightarrow> (Inl e, d) | Inr b \<Rightarrow>
     (case onboard_Save b d of
        (Inl e, d1) \<Rightarrow> (Inl (if IsAlreadyOnboardedError e then e else Unexpected ''onboard.Complete: save'' e), d1)
      | (Inr _, d1) \<Rightarrow> (Inr b, d1)))"

text \<open>\<open>boot.bootstrap\<close>: whether the deployment is onboarded, after the genesis address was reconciled.\<close>

definition bootstrap :: "string \<Rightarrow> (identity_db, bool) prog" where
  "bootstrap genesisEmail d =
     (case onboard_Required d of Inl e \<Rightarrow> (Inl e, d) | Inr required \<Rightarrow>
     (case on_users (ReconcileGenesisAdmin genesisEmail) d of
        (Inl e, d1) \<Rightarrow> (Inl e, d1)
      | (Inr _, d1) \<Rightarrow> (Inr (\<not> required), d1)))"

section \<open>Onboarding a user\<close>

definition orgStoreForOnboard_SystemOrg :: "identity_db \<Rightarrow> (err, Org) res" where
  "orgStoreForOnboard_SystemOrg d =
     map_err (\<lambda>e. if org_IsNotFoundError e then EUser SingletonOrgMissingError else e) (store_SystemOrg (id_access d))"

definition inviteStoreForOnboard_Save :: "ctx \<Rightarrow> uuid \<Rightarrow> instant option \<Rightarrow> (identity_db, unit) prog" where
  "inviteStoreForOnboard_Save c id' acceptedAt d =
     (case invite_ByID c id' d of Inl e \<Rightarrow> (Inl e, d) | Inr existing \<Rightarrow> invite_Save c (existing\<lparr>iv_UsedAt := acceptedAt\<rparr>) d)"

definition onboard_pickProject :: "ctx \<Rightarrow> uuid \<Rightarrow> identity_db \<Rightarrow> (err, uuid) res" where
  "onboard_pickProject c orgID d = (case project_List (WithOrg c orgID) orgID d of
     Inl e \<Rightarrow> Inl (Unexpected ''user.Onboard: list projects'' e)
   | Inr ps \<Rightarrow> Inr (case ps of [] \<Rightarrow> uuid_Nil | p # _ \<Rightarrow> pj_ID p))"

definition findPendingInvite :: "instant \<Rightarrow> ctx \<Rightarrow> uuid \<Rightarrow> string \<Rightarrow> identity_db \<Rightarrow> (err, Invite option) res" where
  "findPendingInvite now c orgID userEmail d = (case invite_ListPending (WithOrg c orgID) orgID d of
     Inl e \<Rightarrow> Inl (Unexpected ''user.Onboard: list invites'' e)
   | Inr is \<Rightarrow> let e = ToLower (TrimSpace userEmail) in
       Inr (find (\<lambda>i. iv_UsedAt i = None \<and> \<not> now > iv_ExpiresAt i \<and> EqualFold (iv_Email i) e) is))"

definition findAnyPendingInvite :: "instant \<Rightarrow> string \<Rightarrow> identity_db \<Rightarrow> Invite option" where
  "findAnyPendingInvite now userEmail d =
     (let e = ToLower (TrimSpace userEmail) in
      find (\<lambda>i. iv_UsedAt i = None \<and> \<not> now > iv_ExpiresAt i) (FindPendingForEmail e d))"

text \<open>Joining through a pending invite, the tail both policies share.\<close>

definition join_by_invite :: "instant \<Rightarrow> ctx \<Rightarrow> uuid \<Rightarrow> uuid \<Rightarrow> Invite \<Rightarrow> (identity_db, uuid \<times> uuid) prog" where
  "join_by_invite now c orgID userID ivt d =
     (case inviteStoreForOnboard_Save (WithOrg c (iv_OrgID ivt)) (iv_ID ivt) (Some now) d of
        (Inl e, d1) \<Rightarrow> (Inl (Unexpected ''user.Onboard: accept invite'' e), d1)
      | (Inr _, d1) \<Rightarrow>
       (case orgStoreForInvite_SaveMembership orgID userID (iv_Role ivt) d1 of
          (Inl e, d2) \<Rightarrow> (Inl (Unexpected ''user.Onboard: save membership'' e), d2)
        | (Inr _, d2) \<Rightarrow>
         (case onboard_pickProject c orgID d2 of Inl e \<Rightarrow> (Inl e, d2) | Inr pid \<Rightarrow> (Inr (orgID, pid), d2))))"

definition onboardSelfhosted :: "instant \<Rightarrow> ctx \<Rightarrow> uuid \<Rightarrow> string \<Rightarrow> (identity_db, uuid \<times> uuid) prog" where
  "onboardSelfhosted now c userID userEmail d =
     (case orgStoreForOnboard_SystemOrg d of
        Inl e \<Rightarrow> (Inl (if IsSingletonOrgMissingError e then EUser (SignupRequiredError userID userEmail)
           else Unexpected ''user.Onboard: singleton org lookup'' e), d)
      | Inr o' \<Rightarrow>
       (case store_MembershipOf (or_ID o') userID (id_access d) of
          Inr _ \<Rightarrow> (case onboard_pickProject c (or_ID o') d of Inl e \<Rightarrow> (Inl e, d) | Inr pid \<Rightarrow> (Inr (or_ID o', pid), d))
        | Inl _ \<Rightarrow>
         (case findPendingInvite now c (or_ID o') userEmail d of
            Inl e \<Rightarrow> (Inl e, d)
          | Inr None \<Rightarrow> (Inl (EUser (NotInvitedError userEmail)), d)
          | Inr (Some ivt) \<Rightarrow> join_by_invite now c (or_ID o') userID ivt d)))"

definition onboardCloud :: "instant \<Rightarrow> ctx \<Rightarrow> uuid \<Rightarrow> string \<Rightarrow> (identity_db, uuid \<times> uuid) prog" where
  "onboardCloud now c userID userEmail d =
     (case org_List userID (id_access d) of
        o' # _ \<Rightarrow> (case onboard_pickProject c (or_ID o') d of Inl e \<Rightarrow> (Inl e, d) | Inr pid \<Rightarrow> (Inr (or_ID o', pid), d))
      | [] \<Rightarrow>
       (case findAnyPendingInvite now userEmail d of
          None \<Rightarrow> (Inl (EUser (SignupRequiredError userID userEmail)), d)
        | Some ivt \<Rightarrow> join_by_invite now c (iv_OrgID ivt) userID ivt d))"

definition Onboard :: "string \<Rightarrow> instant \<Rightarrow> ctx \<Rightarrow> uuid \<Rightarrow> string \<Rightarrow> (identity_db, uuid \<times> uuid) prog" where
  "Onboard mode now c userID userEmail d =
     (if mode = ''selfhosted'' then onboardSelfhosted now c userID userEmail d
      else if mode = ''cloud'' then onboardCloud now c userID userEmail d
      else (Inl (EUser (UnknownPolicyError mode)), d))"

section \<open>Principals\<close>

record LoginPrincipal = SessionPrincipal +
  pr_Email :: string
  pr_IDPIssuer :: string
  pr_IDPSubject :: string
  pr_IsAdmin :: bool
  pr_Locale :: string
  pr_TermsAcceptedAt :: instant

definition terms_of :: "User \<Rightarrow> instant" where
  "terms_of u = (case u_TermsAcceptedAt u of None \<Rightarrow> time_Zero | Some t \<Rightarrow> t)"

definition principalFromRef :: "User \<Rightarrow> Source \<Rightarrow> instant \<Rightarrow> LoginPrincipal" where
  "principalFromRef u src now = \<lparr>pr_UserID = u_ID u, pr_KeyID = uuid_Nil, pr_Name = u_Name u, pr_Source = src, pr_Scopes = [],
     pr_ActiveOrgID = uuid_Nil, pr_ActiveProjectID = uuid_Nil, pr_ProjectIDs = [], pr_AllProjects = False, pr_ResourceIDs = [],
     pr_IssuedAt = now, pr_Email = u_Email u, pr_IDPIssuer = '''', pr_IDPSubject = '''', pr_IsAdmin = u_IsAdmin u,
     pr_Locale = u_Locale u, pr_TermsAcceptedAt = terms_of u\<rparr>"

subsection \<open>Access tokens\<close>

definition needsIdentity :: "LoginPrincipal \<Rightarrow> bool" where
  "needsIdentity p = (if pr_Source p = SourceAPIKey then False else if pr_UserID p \<noteq> uuid_Nil then False
     else pr_IDPIssuer p \<noteq> '''' \<and> pr_IDPSubject p \<noteq> '''')"

definition pickOrg :: "Org list \<Rightarrow> uuid" where
  "pickOrg os = (if length os = 1 then or_ID (hd os) else uuid_Nil)"

definition authn_pickProject :: "ctx \<Rightarrow> uuid \<Rightarrow> identity_db \<Rightarrow> uuid" where
  "authn_pickProject c orgID d = (case project_List (WithOrg c orgID) orgID d of
     Inl _ \<Rightarrow> uuid_Nil | Inr [] \<Rightarrow> uuid_Nil | Inr (p # _) \<Rightarrow> pj_ID p)"

definition resolveTenant :: "ctx \<Rightarrow> LoginPrincipal \<Rightarrow> identity_db \<Rightarrow> LoginPrincipal" where
  "resolveTenant c p d =
     (if pr_ActiveOrgID p \<noteq> uuid_Nil then p
      else let orgID = pickOrg (org_List (pr_UserID p) (id_access d)) in
      if orgID = uuid_Nil then p
      else p\<lparr>pr_ActiveOrgID := orgID, pr_ActiveProjectID := authn_pickProject c orgID d\<rparr>)"

definition user_Authenticate :: "(string \<Rightarrow> (err, LoginPrincipal) res) \<Rightarrow> ctx \<Rightarrow> string \<Rightarrow> identity_db \<Rightarrow> (err, LoginPrincipal) res" where
  "user_Authenticate nxt c raw d =
     (case nxt raw of Inl e \<Rightarrow> Inl e | Inr p \<Rightarrow>
      if \<not> needsIdentity p then Inr p
      else case user_ByIDP (pr_IDPIssuer p) (pr_IDPSubject p) (id_users d) of
        Inl e \<Rightarrow> if user_IsNotFoundError e then Inl (EAuthn UnauthorizedError) else Inl (UnavailableError e)
      | Inr u \<Rightarrow>
        let p1 = p\<lparr>pr_UserID := u_ID u, pr_Email := u_Email u, pr_Name := u_Name u, pr_IsAdmin := u_IsAdmin u, pr_Locale := u_Locale u,
              pr_TermsAcceptedAt := (case u_TermsAcceptedAt u of None \<Rightarrow> pr_TermsAcceptedAt p | Some t \<Rightarrow> t)\<rparr>
        in Inr (resolveTenant c p1 d))"

subsection \<open>Local login\<close>

record Genesis =
  gn_Email :: string
  gn_PasswordHash :: string
  gn_Name :: string

definition hashGenesisPassword :: "argon2 \<Rightarrow> string \<Rightarrow> string \<Rightarrow> string" where
  "hashGenesisPassword IDKey salt plain = (if TrimSpace plain = '''' then '''' else password_Hash IDKey salt plain)"

definition genesis_Configured :: "Genesis \<Rightarrow> bool" where
  "genesis_Configured g \<longleftrightarrow> TrimSpace (gn_Email g) \<noteq> '''' \<and> gn_PasswordHash g \<noteq> ''''"

definition sourceFor :: "User \<Rightarrow> Source" where
  "sourceFor u = (if EqualFold (u_Source u) ''local'' then SourceLocal else if EqualFold (u_Source u) ''oidc'' then SourceOIDC else SourceGenesis)"

definition LocalLogin_Execute :: "argon2 \<Rightarrow> Genesis \<Rightarrow> uuid \<Rightarrow> instant \<Rightarrow> string \<Rightarrow> string \<Rightarrow> (User list, LoginPrincipal) prog" where
  "LocalLogin_Execute IDKey g fresh now email pw us =
     (let gotEmail = ToLower (TrimSpace email); bad = Inl (EAuth InvalidCredentialsError) in
      if gotEmail = '''' \<or> pw = '''' then (bad, us)
      else let found = user_ByEmail gotEmail us;
               wantEmail = ToLower (TrimSpace (gn_Email g));
               genesisOK = (genesis_Configured g \<and> gotEmail = wantEmail \<and> is_ok (password_Verify IDKey (gn_PasswordHash g) pw)) in
      case found of
        Inr u \<Rightarrow>
          if u_PasswordHash u \<noteq> ''''
          then (if is_ok (password_Verify IDKey (u_PasswordHash u) pw) then Inr (principalFromRef u (sourceFor u) now) else bad, us)
          else if genesisOK then (Inr (principalFromRef u SourceGenesis now), us) else (bad, us)
      | Inl e \<Rightarrow>
          if \<not> user_IsNotFoundError e then (Inl (Unexpected ''auth.LocalLogin.Execute: byEmail'' e), us)
          else if \<not> genesisOK then (bad, us)
          else let name = (if TrimSpace (gn_Name g) = '''' then ''Root'' else TrimSpace (gn_Name g));
                   u = \<lparr>u_ID = fresh, u_Email = wantEmail, u_Name = name, u_Source = ''genesis'', u_IDPIssuer = '''', u_IDPSubject = '''',
                     u_PasswordHash = '''', u_IsAdmin = False, u_Locale = '''', u_TermsAcceptedAt = None, u_CreatedAt = time_Zero\<rparr> in
          case user_Save u us of
            (Inl e, us1) \<Rightarrow> (Inl (Unexpected ''auth.LocalLogin.Execute: save genesis'' e), us1)
          | (Inr _, us1) \<Rightarrow> (Inr (principalFromRef u SourceGenesis now), us1))"

subsection \<open>OIDC login\<close>

text \<open>\<open>boot/services.go\<close>: only a self-hosted deployment that is onboarded asks for an invite.\<close>

definition allowSignup :: "string \<Rightarrow> string \<Rightarrow> identity_db \<Rightarrow> (err, unit) res" where
  "allowSignup mode email d =
     (if mode \<noteq> ''selfhosted'' then Inr ()
      else if onboard_Required d = Inr True then Inr ()
      else CheckOIDCSignupEligibility (HasPendingForEmail d) email (id_users d))"

definition typed_or :: "string \<Rightarrow> err \<Rightarrow> err" where
  "typed_or op e = (if AsAppError e then e else Unexpected op e)"

definition OIDCLogin_Execute :: "string \<Rightarrow> uuid \<Rightarrow> instant \<Rightarrow> ctx \<Rightarrow> Claims \<Rightarrow> (identity_db, LoginPrincipal) prog" where
  "OIDCLogin_Execute mode fresh now c claims d =
     (if TrimSpace (cl_Issuer claims) = '''' then (Inl (EAuth (OIDCClaimMissingError ''iss'')), d)
      else if TrimSpace (cl_Subject claims) = '''' then (Inl (EAuth (OIDCClaimMissingError ''sub'')), d)
      else if TrimSpace (cl_Email claims) = '''' then (Inl (EAuth (OIDCClaimMissingError ''email'')), d)
      else case allowSignup mode (cl_Email claims) d of
        Inl e \<Rightarrow> (Inl (typed_or ''auth.OIDCLogin.Execute: allowSignup'' e), d)
      | Inr _ \<Rightarrow>
       (case on_users (EnsureFromOIDC fresh now claims) d of
          (Inl e, d1) \<Rightarrow> (Inl (typed_or ''auth.OIDCLogin.Execute: ensureFromOIDC'' e), d1)
        | (Inr u, d1) \<Rightarrow>
          let p = (principalFromRef u SourceOIDC now)\<lparr>pr_IDPIssuer := cl_Issuer claims, pr_IDPSubject := cl_Subject claims\<rparr> in
         (case Onboard (if mode = ''selfhosted'' then ''selfhosted'' else ''cloud'') now c (u_ID u) (u_Email u) d1 of
            (Inr (orgID, projectID), d2) \<Rightarrow> (Inr (p\<lparr>pr_ActiveOrgID := orgID, pr_ActiveProjectID := projectID\<rparr>), d2)
          | (Inl e, d2) \<Rightarrow>
            (case root_cause e of
               EUser (SignupRequiredError _ _) \<Rightarrow> (Inr p, d2)
             | _ \<Rightarrow> (Inl (typed_or ''auth.OIDCLogin.Execute: onboard'' e), d2)))))"

section \<open>Slugs from addresses\<close>

definition SlugFromEmail :: "string \<Rightarrow> string \<Rightarrow> string" where
  "SlugFromEmail email fallback =
     (let at = IndexByte email (CHR ''@'');
          local = ToLower (TrimSpace (if at > 0 then take (nat at) email else email));
          b = concat (map (\<lambda>r. if length r = 1 \<and> slug_char (hd r) then r
                else if length r = 1 \<and> hd r \<in> set ''._-+'' then ''-'' else []) (runes local));
          dash = (\<lambda>c. c = CHR ''-'');
          s = rev (dropWhile dash (rev (dropWhile dash b))) in
      if s = '''' then fallback else s)"

end
