(* ===== verification/UserLogin.thy ===== *)
theory UserLogin
  imports UserSteps Login
begin

text \<open>
  What an OIDC login and a local login do to the users table: an identity keeps its
  account, an unknown identity is bound only through a verified address, and a
  password opens the account it was set for.
\<close>

section \<open>Lookups\<close>

lemma user_queryOne_Inr: "user_queryOne cond nf us = Inr u \<longleftrightarrow> (\<exists>r. find cond us = Some r \<and> u = toUser r)"
  by (auto simp: user_queryOne_def split: option.splits)

lemma user_queryOne_Inl: "user_queryOne cond nf us = Inl e \<longleftrightarrow> (\<forall>r \<in> set us. \<not> cond r) \<and> e = nf"
  by (auto simp: user_queryOne_def find_None_iff find_Some_iff split: option.splits)

lemma toUser_fields [simp]:
  "u_ID (toUser r) = u_ID r" "u_Email (toUser r) = u_Email r" "u_Name (toUser r) = u_Name r" "u_IDPIssuer (toUser r) = u_IDPIssuer r"
  "u_IDPSubject (toUser r) = u_IDPSubject r" "u_PasswordHash (toUser r) = u_PasswordHash r" "u_IsAdmin (toUser r) = u_IsAdmin r"
  "u_Locale (toUser r) = u_Locale r" "u_TermsAcceptedAt (toUser r) = u_TermsAcceptedAt r" "u_CreatedAt (toUser r) = u_CreatedAt r"
  by (simp_all add: toUser_def)

lemmas user_lookup_defs = user_ByID_def user_ByEmail_def user_ByIDP_def user_queryOne_Inr user_queryOne_Inl

lemma user_ByIDP_Inr:
  "user_ByIDP issuer subject us = Inr u \<Longrightarrow> \<exists>r \<in> set us. u = toUser r \<and> linked r \<and> link r = (issuer, subject)"
  by (auto simp: user_lookup_defs find_Some_iff same_idp_def linked_def)

lemma user_ByIDP_Inl:
  "user_ByIDP issuer subject us = Inl e \<Longrightarrow> linked r \<Longrightarrow> link r = (issuer, subject) \<Longrightarrow> r \<notin> set us"
  by (auto simp: user_lookup_defs same_idp_def linked_def)

lemma user_ByIDP_not_found: "user_ByIDP issuer subject us = Inl e \<Longrightarrow> user_IsNotFoundError e"
  by (auto simp: user_lookup_defs platform_error_defs)

lemma user_ByEmail_not_found: "user_ByEmail email us = Inl e \<Longrightarrow> user_IsNotFoundError e \<and> (\<forall>r \<in> set us. u_Email r \<noteq> ToLower email)"
  by (auto simp: user_lookup_defs platform_error_defs)

lemma user_ByEmail_Inr: "user_ByEmail email us = Inr u \<Longrightarrow> \<exists>r \<in> set us. u = toUser r \<and> u_Email r = ToLower email"
  by (auto simp: user_lookup_defs find_Some_iff)

section \<open>OIDC\<close>

lemma renamed_from_Inr:
  "renamed_from claims u = Inr v \<Longrightarrow> u_ID v = u_ID u \<and> link v = link u \<and> u_Email v = u_Email u"
  by (auto simp: renamed_from_def user_Rename_def Let_def split: if_splits sum.splits)

lemma refresh_Inr:
  "refreshFromClaims q claims us = (Inr u, us') \<Longrightarrow>
   u_ID u = u_ID q \<and> link u = link q \<and> (us' = us \<and> u = q \<or> user_Save u us = (Inr (), us'))"
  by (auto simp: refreshFromClaims_def ChangeEmail_def Let_def split: if_splits sum.splits prod.splits dest!: renamed_from_Inr)

lemma refresh_Inl: "refreshFromClaims q claims us = (Inl e, us') \<Longrightarrow> us' = us"
  by (auto simp: refreshFromClaims_def Let_def split: if_splits sum.splits prod.splits dest: user_Save_Inl)

lemma relink_Inr:
  "relink q issuer subject claims us = (Inr u, us') \<Longrightarrow>
   u_ID u = u_ID q \<and> link u = (issuer, subject) \<and> user_Save u us = (Inr (), us') \<and>
   \<not> (u_IDPSubject q \<noteq> '''' \<and> u_IDPIssuer q = issuer \<and> u_IDPSubject q \<noteq> subject)"
  by (auto simp: relink_def Let_def split: if_splits sum.splits prod.splits dest!: renamed_from_Inr)

lemma relink_Inl: "relink q issuer subject claims us = (Inl e, us') \<Longrightarrow> us' = us"
  by (auto simp: relink_def Let_def split: if_splits sum.splits prod.splits dest: user_Save_Inl)

lemma user_New_Inr:
  "user_New id' now email name source = Inr u \<Longrightarrow> u_ID u = id' \<and> u_Email u = ToLower (TrimSpace email) \<and> u_PasswordHash u = '''' \<and> \<not> u_IsAdmin u"
  by (auto simp: user_New_def NormalizeEmail_def Let_def split: if_splits sum.splits)

text \<open>A save of an account leaves the other rows alone.\<close>

lemma Save_others:
  assumes "users_ok us" "user_Save u us = (Inr (), us')" "r \<in> set us" "u_ID r \<noteq> u_ID u"
  shows "r \<in> set us'"
  using user_Save_Inr(1) [OF assms(2)] set_upsert_row [OF users_okD(1) [OF assms(1)]] assms(3,4) by auto

lemma Save_present:
  assumes "users_ok us" "user_Save u us = (Inr (), us')"
  shows "saved_row u us \<in> set us'"
  using user_Save_Inr(1) [OF assms(2)] set_upsert_row [OF users_okD(1) [OF assms(1)]] by auto

text \<open>The ways an OIDC login ends well: it refreshes the linked account, binds the account of a verified address, or creates one.\<close>

definition oidc_issuer :: "Claims \<Rightarrow> string" where "oidc_issuer claims = TrimSpace (cl_Issuer claims)"
definition oidc_subject :: "Claims \<Rightarrow> string" where "oidc_subject claims = TrimSpace (cl_Subject claims)"
definition oidc_email :: "Claims \<Rightarrow> string" where "oidc_email claims = ToLower (TrimSpace (cl_Email claims))"

lemmas oidc_defs = oidc_issuer_def oidc_subject_def oidc_email_def

lemma Ensure_unfold:
  "EnsureFromOIDC id' now claims us =
     (if oidc_issuer claims = '''' \<or> oidc_subject claims = ''''
      then (Inl (EUser (UserInvalidEmailError ''oidc claims missing issuer or subject'' '''')), us)
      else case user_ByIDP (oidc_issuer claims) (oidc_subject claims) us of
        Inr q \<Rightarrow> refreshFromClaims q claims us
      | Inl e \<Rightarrow>
        if \<not> cl_EmailVerified claims then (Inl (EUser EmailUnverifiedError), us)
        else case user_ByEmail (oidc_email claims) us of
          Inr existing \<Rightarrow> relink existing (oidc_issuer claims) (oidc_subject claims) claims us
        | Inl e \<Rightarrow>
          let name = (if TrimSpace (cl_Name claims) \<noteq> '''' then TrimSpace (cl_Name claims) else defaultNameFromEmail (oidc_email claims)) in
          case user_New id' now (cl_Email claims) name ''oidc'' of Inl e \<Rightarrow> (Inl e, us) | Inr u0 \<Rightarrow>
          let u = u0\<lparr>u_IDPIssuer := oidc_issuer claims, u_IDPSubject := oidc_subject claims\<rparr> in
         (case user_Save u us of
            (Inl e, us1) \<Rightarrow>
              (case e of EUser (UserAlreadyExistsError f v) \<Rightarrow>
                 if f = ''idp_subject'' then (user_ByIDP (oidc_issuer claims) (oidc_subject claims) us1, us1) else (user_ByEmail (u_Email u) us1, us1)
               | _ \<Rightarrow> (Inl (Unexpected ''user.EnsureFromOIDC: save'' e), us1))
          | (Inr _, us1) \<Rightarrow> (Inr u, us1)))"
proof (cases "user_ByIDP (oidc_issuer claims) (oidc_subject claims) us")
  case (Inl e1)
  then have n1: "user_IsNotFoundError e1" by (rule user_ByIDP_not_found)
  show ?thesis
  proof (cases "user_ByEmail (oidc_email claims) us")
    case (Inl e2)
    then have n2: "user_IsNotFoundError e2" using user_ByEmail_not_found by blast
    show ?thesis
      unfolding EnsureFromOIDC_def Let_def oidc_defs [symmetric] \<open>user_ByIDP _ _ us = _\<close> Inl sum.case
      using n1 n2 by (simp only: simp_thms if_True if_False)
  next
    case (Inr q)
    show ?thesis
      unfolding EnsureFromOIDC_def Let_def oidc_defs [symmetric] \<open>user_ByIDP _ _ us = _\<close> Inr sum.case
      using n1 by (simp only: simp_thms if_True if_False)
  qed
next
  case (Inr q)
  show ?thesis unfolding EnsureFromOIDC_def Let_def oidc_defs [symmetric] Inr sum.case by (rule refl)
qed

text \<open>A save of a new account cannot clash with a row the lookups missed.\<close>

lemma new_account_saves:
  assumes "user_ByIDP (u_IDPIssuer u) (u_IDPSubject u) us = Inl e1" "user_ByEmail (u_Email u) us = Inl e2" "ToLower (u_Email u) = u_Email u"
  shows "\<exists>us'. user_Save u us = (Inr (), us')"
proof -
  have "\<not> list_ex (\<lambda>r. u_ID r \<noteq> u_ID u \<and> same_idp (u_IDPIssuer u) (u_IDPSubject u) r) us"
    using assms(1) by (auto simp: user_lookup_defs list_ex_iff)
  moreover have "\<not> list_ex (\<lambda>r. u_ID r \<noteq> u_ID u \<and> u_Email r = u_Email u) us"
    using user_ByEmail_not_found [OF assms(2)] assms(3) by (auto simp: list_ex_iff)
  ultimately show ?thesis by (simp add: user_Save_def Let_def)
qed

lemma Ensure_Inr:
  assumes "EnsureFromOIDC id' now claims us = (Inr u, us')"
  shows "link u = (oidc_issuer claims, oidc_subject claims)" "linked u"
    and "(\<exists>r \<in> set us. linked r \<and> link r = link u \<and> u_ID r = u_ID u \<and> (us' = us \<and> u = toUser r \<or> user_Save u us = (Inr (), us'))) \<or>
      cl_EmailVerified claims \<and> (\<forall>r \<in> set us. linked r \<longrightarrow> link r \<noteq> link u) \<and> user_Save u us = (Inr (), us') \<and>
      (u_ID u = id' \<or> (\<exists>r \<in> set us. u_ID r = u_ID u \<and> u_Email r = oidc_email claims \<and>
         \<not> (u_IDPSubject r \<noteq> '''' \<and> u_IDPIssuer r = oidc_issuer claims)))"
proof -
  have ne: "oidc_issuer claims \<noteq> ''''" "oidc_subject claims \<noteq> ''''" using assms by (auto simp: Ensure_unfold split: if_splits)
  let ?C1 = "\<exists>r \<in> set us. linked r \<and> link r = link u \<and> u_ID r = u_ID u \<and> (us' = us \<and> u = toUser r \<or> user_Save u us = (Inr (), us'))"
  let ?C2 = "cl_EmailVerified claims \<and> (\<forall>r \<in> set us. linked r \<longrightarrow> link r \<noteq> link u) \<and> user_Save u us = (Inr (), us') \<and>
      (u_ID u = id' \<or> (\<exists>r \<in> set us. u_ID r = u_ID u \<and> u_Email r = oidc_email claims \<and>
         \<not> (u_IDPSubject r \<noteq> '''' \<and> u_IDPIssuer r = oidc_issuer claims)))"
  have "link u = (oidc_issuer claims, oidc_subject claims) \<and> (?C1 \<or> ?C2)"
  proof (cases "user_ByIDP (oidc_issuer claims) (oidc_subject claims) us")
    case (Inr q)
    then obtain r where r: "r \<in> set us" "q = toUser r" "linked r" "link r = (oidc_issuer claims, oidc_subject claims)"
      using user_ByIDP_Inr by blast
    have "refreshFromClaims q claims us = (Inr u, us')" using assms ne Inr by (simp add: Ensure_unfold)
    then show ?thesis using refresh_Inr [of q claims us u us'] r by auto
  next
    case (Inl e)
    note byIDP = this
    have none: "\<forall>r \<in> set us. linked r \<longrightarrow> link r \<noteq> (oidc_issuer claims, oidc_subject claims)"
      using user_ByIDP_Inl [OF Inl] by blast
    have v: "cl_EmailVerified claims" using assms ne Inl by (auto simp: Ensure_unfold split: if_splits)
    show ?thesis
    proof (cases "user_ByEmail (oidc_email claims) us")
      case (Inr q)
      then obtain r where r: "r \<in> set us" "q = toUser r" "u_Email r = oidc_email claims"
        using user_ByEmail_Inr by (fastforce simp: oidc_email_def)
      have re: "relink q (oidc_issuer claims) (oidc_subject claims) claims us = (Inr u, us')"
        using assms ne byIDP v Inr by (simp add: Ensure_unfold)
      note R = relink_Inr [OF re]
      have "\<not> (u_IDPSubject r \<noteq> '''' \<and> u_IDPIssuer r = oidc_issuer claims)"
        using R r none ne by (auto simp: linked_def)
      then show ?thesis using R r none v by auto
    next
      case (Inl e2)
      let ?n = "if TrimSpace (cl_Name claims) \<noteq> '''' then TrimSpace (cl_Name claims) else defaultNameFromEmail (oidc_email claims)"
      obtain u0 where u0: "user_New id' now (cl_Email claims) ?n ''oidc'' = Inr u0"
        using assms ne byIDP v Inl by (cases "user_New id' now (cl_Email claims) ?n ''oidc''") (auto simp: Ensure_unfold Let_def)
      let ?u = "u0\<lparr>u_IDPIssuer := oidc_issuer claims, u_IDPSubject := oidc_subject claims\<rparr>"
      have em: "u_ID ?u = id'" "u_Email ?u = oidc_email claims" using user_New_Inr [OF u0] by (simp_all add: oidc_email_def)
      have "\<exists>us1. user_Save ?u us = (Inr (), us1)"
        using byIDP Inl em by (intro new_account_saves [of _ _ e e2]) (simp_all add: oidc_email_def)
      then obtain us1 where s: "user_Save ?u us = (Inr (), us1)" by blast
      have "u = ?u \<and> us' = us1" using assms ne byIDP v Inl u0 s by (simp add: Ensure_unfold Let_def)
      then show ?thesis using s em v none by auto
    qed
  qed
  then show "link u = (oidc_issuer claims, oidc_subject claims)" "?C1 \<or> ?C2" by blast+
  then show "linked u" using ne by (simp add: linked_def)
qed

lemma Ensure_Inl:
  assumes "EnsureFromOIDC id' now claims us = (Inl e, us')"
  shows "us' = us"
  using assms unfolding Ensure_unfold Let_def
  by (auto split: if_splits sum.splits prod.splits err.splits user_error.splits dest: refresh_Inl relink_Inl user_Save_Inl)

lemma keeps_Ensure: "keeps_users (EnsureFromOIDC id' now claims)"
proof (rule keeps_usersI)
  fix us assume ok: "users_ok us"
  obtain x us' where e: "EnsureFromOIDC id' now claims us = (x, us')" by fastforce
  show "users_ok (snd (EnsureFromOIDC id' now claims us))"
  proof (cases x)
    case (Inl er)
    then show ?thesis using ok e Ensure_Inl by (metis snd_conv)
  next
    case (Inr u)
    then have "us' = us \<or> user_Save u us = (Inr (), us')" using Ensure_Inr(3) [OF e [unfolded Inr]] by blast
    then show ?thesis using ok e user_Save_ok by auto
  qed
qed

section \<open>Local login\<close>

lemma keeps_LocalLogin: "keeps_users (LocalLogin_Execute IDKey g fresh now email pw)"
proof (rule keeps_usersI)
  fix us assume ok: "users_ok us"
  show "users_ok (snd (LocalLogin_Execute IDKey g fresh now email pw us))"
    unfolding LocalLogin_Execute_def Let_def using ok by (auto split: sum.split intro!: Save_then_ok)
qed

lemma user_ByEmail_row:
  assumes "users_ok us" "r \<in> set us" "u_Email r = ToLower email"
  shows "user_ByEmail email us = Inr (toUser r)"
proof (cases "user_ByEmail email us")
  case (Inl e)
  then show ?thesis using assms user_ByEmail_not_found by blast
next
  case (Inr u)
  then obtain q where q: "q \<in> set us" "u = toUser q" "u_Email q = ToLower email" using user_ByEmail_Inr by blast
  then have "q = r" using assms users_okD(2) [OF assms(1)] by (simp add: distinct_map inj_on_def)
  then show ?thesis using Inr q by simp
qed

lemma LocalLogin_password:
  assumes "users_ok us" "r \<in> set us" "u_Email r = ToLower (TrimSpace email)" "u_Email r \<noteq> ''''" "pw \<noteq> ''''" "u_PasswordHash r \<noteq> ''''"
  shows "LocalLogin_Execute IDKey g fresh now email pw us =
    (if is_ok (password_Verify IDKey (u_PasswordHash r) pw) then Inr (principalFromRef (toUser r) (sourceFor (toUser r)) now)
     else Inl (EAuth InvalidCredentialsError), us)"
proof -
  have "user_ByEmail (ToLower (TrimSpace email)) us = Inr (toUser r)"
    using assms(1-3) by (intro user_ByEmail_row) simp_all
  then show ?thesis using assms(3-6) by (simp add: LocalLogin_Execute_def Let_def)
qed

lemma users_Create_Inr:
  assumes "users_Create IDKey salt id' now req us = (Inr u, us')" "users_ok us"
  shows "user_Save u us = (Inr (), us')" "u_ID u = id'" "u_Email u = ToLower (TrimSpace (cu_Email req))" "u_Email u \<noteq> ''''"
    "u_PasswordHash u = (if TrimSpace (cu_Password req) = '''' then '''' else password_Hash IDKey salt (TrimSpace (cu_Password req)))"
proof -
  obtain u0 where u0: "user_New id' now (cu_Email req) (cu_Name req) (cu_Source req) = Inr u0"
    using assms(1) by (auto simp: users_Create_def split: sum.splits)
  let ?pw = "TrimSpace (cu_Password req)"
  let ?u = "if ?pw \<noteq> '''' then u0\<lparr>u_PasswordHash := password_Hash IDKey salt ?pw\<rparr> else u0"
  have s: "user_Save ?u us = (Inr (), us') \<and> u = ?u"
    using assms(1) u0 by (auto simp: users_Create_def Let_def split: sum.splits prod.splits)
  show "user_Save u us = (Inr (), us')" using s by simp
  show "u_ID u = id'" "u_Email u = ToLower (TrimSpace (cu_Email req))" using s user_New_Inr [OF u0] by simp_all
  show "u_PasswordHash u = (if ?pw = '''' then '''' else password_Hash IDKey salt ?pw)" using s user_New_Inr [OF u0] by simp
  show "u_Email u \<noteq> ''''" using s u0 by (auto simp: user_New_def NormalizeEmail_def Let_def split: if_splits sum.splits)
qed

end
