(* ===== verification/IdentityFrames.thy ===== *)
theory IdentityFrames
  imports UserLogin
begin

text \<open>
  What the operations on projects, invites and the bootstrap record keep.  A frame
  is a reflexive and transitive relation between the states before and after an
  operation; the retry loop and sequences of operations stay within any frame
  their parts stay within.
\<close>

section \<open>Frames\<close>

locale state_frame =
  fixes R :: "'s \<Rightarrow> 's \<Rightarrow> bool"
  assumes same: "R s s" and seq: "R s t \<Longrightarrow> R t u \<Longrightarrow> R s u"
begin

lemma retry_loop: "(\<And>cand s. R s (snd (create cand s))) \<Longrightarrow> R s (snd (retry_loop n i prev gen taken create s))"
proof (induction n arbitrary: i prev s)
  case (Suc n)
  obtain x s1 where c: "create (gen i) s = (x, s1)" by fastforce
  have "R s s1" using Suc.prems [of s "gen i"] c by simp
  then show ?case using c Suc.IH [OF Suc.prems] seq by (auto split: sum.split)
qed (simp add: same)

lemma retry: "(\<And>cand s. R s (snd (create cand s))) \<Longrightarrow> R s (snd (slug_Retry k gen taken create s))"
  unfolding slug_Retry_def by (rule retry_loop)

lemma steps: "step\<^sup>*\<^sup>* s t \<Longrightarrow> (\<And>s t. step s t \<Longrightarrow> R s t) \<Longrightarrow> R s t"
  by (induction rule: rtranclp_induct) (auto intro: same seq)

end

section \<open>Projects\<close>

definition projects_ok :: "Project list \<Rightarrow> bool" where
  "projects_ok ps \<longleftrightarrow> keyed pj_ID ps \<and> keyed (\<lambda>p. (pj_OrgID p, pj_Slug p)) ps \<and>
     (\<forall>p \<in> set ps. \<forall>q \<in> set ps. pj_System p \<and> pj_System q \<and> pj_OrgID p = pj_OrgID q \<longrightarrow> p = q) \<and>
     (\<forall>p \<in> set ps. project_validateSlug (pj_Slug p) = Inr () \<and> pj_Name p \<noteq> '''')"

definition projects_synced :: "identity_db \<Rightarrow> bool" where
  "projects_synced d \<longleftrightarrow> ad_projects (id_access d) = map (\<lambda>p. (pj_OrgID p, pj_ID p)) (id_projects d)"

definition project_frame :: "identity_db \<Rightarrow> identity_db \<Rightarrow> bool" where
  "project_frame d d' \<longleftrightarrow> id_users d' = id_users d \<and> id_invites d' = id_invites d \<and> id_bootstrap d' = id_bootstrap d \<and>
     (projects_ok (id_projects d) \<and> projects_synced d \<longrightarrow> projects_ok (id_projects d') \<and> projects_synced d')"

interpretation projects: state_frame project_frame
  by unfold_locales (auto simp: project_frame_def)

lemma project_validateName_Inr: "project_validateName s = Inr n \<Longrightarrow> n \<noteq> ''''"
  by (auto simp: project_validateName_def Let_def split: if_splits)

lemma put_projects_frame:
  assumes "projects_ok (id_projects d) \<Longrightarrow> projects_ok ps"
  shows "project_frame d (put_projects ps d)"
  using assms by (simp add: project_frame_def put_projects_def projects_synced_def)

text \<open>Replacing a row, or adding one, under the checks the store makes.\<close>

lemma projects_ok_upsert:
  assumes ok: "projects_ok ps" and "project_validateSlug (pj_Slug x) = Inr ()" "pj_Name x \<noteq> ''''"
    and slug: "\<And>r. r \<in> set ps \<Longrightarrow> pj_ID r \<noteq> pj_ID x \<Longrightarrow> pj_OrgID r = pj_OrgID x \<Longrightarrow> pj_Slug r \<noteq> pj_Slug x"
    and sys: "\<And>r. r \<in> set ps \<Longrightarrow> pj_ID r \<noteq> pj_ID x \<Longrightarrow> pj_OrgID r = pj_OrgID x \<Longrightarrow> pj_System x \<Longrightarrow> \<not> pj_System r"
  shows "projects_ok (upsert_row pj_ID x ps)"
proof -
  have k: "keyed pj_ID ps" "keyed (\<lambda>p. (pj_OrgID p, pj_Slug p)) ps" using ok by (simp_all add: projects_ok_def)
  have set': "set (upsert_row pj_ID x ps) = insert x {r \<in> set ps. pj_ID r \<noteq> pj_ID x}" by (rule set_upsert_row [OF k(1)])
  have "keyed (\<lambda>p. (pj_OrgID p, pj_Slug p)) (upsert_row pj_ID x ps)"
    using slug by (intro keyed_upsert_other [OF k]) auto
  moreover have "p = q" if "p \<in> set (upsert_row pj_ID x ps)" "q \<in> set (upsert_row pj_ID x ps)" "pj_System p" "pj_System q" "pj_OrgID p = pj_OrgID q" for p q
    using that sys ok unfolding set' projects_ok_def by auto
  ultimately show ?thesis
    using ok assms(2,3) keyed_upsert_row [OF k(1), of x] unfolding projects_ok_def set' by auto
qed

lemma project_Save_frame:
  assumes "project_validateSlug (pj_Slug p) = Inr ()" "pj_Name p \<noteq> ''''"
  shows "project_frame d (snd (project_Save c p d))"
proof (cases "tenant_From c")
  case (Inr tc)
  show ?thesis
  proof (cases "find_row pj_ID (pj_ID p) (id_projects d)")
    case None
    have "projects_ok (upsert_row pj_ID p (id_projects d))"
      if "projects_ok (id_projects d)" "\<not> (pj_System p \<and> list_ex (\<lambda>r. pj_OrgID r = pj_OrgID p \<and> pj_System r) (id_projects d))"
        "\<not> list_ex (\<lambda>r. pj_OrgID r = pj_OrgID p \<and> pj_Slug r = pj_Slug p) (id_projects d)"
      using that assms by (intro projects_ok_upsert) (auto simp: list_ex_iff)
    then show ?thesis using Inr None put_projects_frame projects.same unfolding project_Save_def
      by (simp del: tenant_From_Inr)
  next
    case (Some old)
    let ?x = "old\<lparr>pj_Name := pj_Name p, pj_System := pj_System p\<rparr>"
    have old: "old \<in> set (id_projects d)" "pj_ID old = pj_ID p" using find_row_SomeD [OF Some] by auto
    have "projects_ok (upsert_row pj_ID ?x (id_projects d))"
      if ok: "projects_ok (id_projects d)"
        and s: "\<not> (pj_System p \<and> list_ex (\<lambda>r. pj_ID r \<noteq> pj_ID p \<and> pj_OrgID r = pj_OrgID old \<and> pj_System r) (id_projects d))"
    proof (rule projects_ok_upsert [OF ok])
      fix r assume r: "r \<in> set (id_projects d)" "pj_ID r \<noteq> pj_ID ?x" "pj_OrgID r = pj_OrgID ?x"
      show "pj_Slug r \<noteq> pj_Slug ?x"
        using ok r old(1) by (auto simp: projects_ok_def distinct_map inj_on_def)
      show "pj_System ?x \<Longrightarrow> \<not> pj_System r" using s r old by (auto simp: list_ex_iff)
    qed (use ok old assms in \<open>auto simp: projects_ok_def\<close>)
    then show ?thesis using Inr Some put_projects_frame projects.same unfolding project_Save_def
      by (simp del: tenant_From_Inr)
  qed
qed (simp add: project_Save_def projects.same)

lemma project_New_Inr:
  "project_New id' now orgID slug name = Inr p \<Longrightarrow> project_validateSlug (pj_Slug p) = Inr () \<and> pj_Name p \<noteq> '''' \<and> pj_ID p = id'"
  by (auto simp: project_New_def split: sum.splits dest: project_validateName_Inr)

text \<open>Finishing a save: an operation that answers with what a save left.\<close>

lemma frame_case:
  assumes "R d (snd (f d))" "\<And>e d1. snd (g (Inl e, d1)) = d1" "\<And>y d1. snd (g (Inr y, d1)) = d1"
  shows "R d (snd (g (f d)))"
  using assms by (cases "f d"; cases "fst (f d)") auto

lemma createWithSlug_frame: "project_frame d (snd (project_createWithSlug id' now c orgID name system chosen d))"
proof (cases "project_BySlug c orgID chosen d")
  case (Inl e)
  show ?thesis
  proof (cases "project_New id' now orgID chosen name")
    case (Inr p)
    have "project_frame d (snd (project_Save c (p\<lparr>pj_System := system\<rparr>) d))"
      using project_New_Inr [OF Inr] by (intro project_Save_frame) auto
    then show ?thesis using Inl Inr projects.same unfolding project_createWithSlug_def Let_def
      by (auto intro!: frame_case [where R = project_frame and f = "project_Save c (p\<lparr>pj_System := system\<rparr>)"])
  qed (use Inl projects.same in \<open>simp add: project_createWithSlug_def\<close>)
qed (simp add: project_createWithSlug_def projects.same)

lemma Create_frame: "project_frame d (snd (projects_Create gen id' now c orgID slug name d))"
  using projects.same createWithSlug_frame projects.retry [of "project_createWithSlug id' now c orgID name False"]
  unfolding projects_Create_def by (auto split: sum.split)

text \<open>Saving a row that was read, with another name or the system mark.\<close>

lemma project_Save_others:
  "id_users (snd (project_Save c p d)) = id_users d" "id_invites (snd (project_Save c p d)) = id_invites d"
  "id_bootstrap (snd (project_Save c p d)) = id_bootstrap d"
  by (simp_all add: project_Save_def put_projects_def split: sum.split option.split)

lemma project_resave_frame:
  assumes "q \<in> set (id_projects d)" "pj_Slug p = pj_Slug q" "pj_Name p = pj_Name q \<or> pj_Name p \<noteq> ''''"
  shows "project_frame d (snd (project_Save c p d))"
proof (cases "projects_ok (id_projects d)")
  case True
  then show ?thesis using assms by (intro project_Save_frame) (auto simp: projects_ok_def)
qed (simp add: project_frame_def project_Save_others)

lemma project_BySlug_Inr: "project_BySlug c orgID slug d = Inr p \<Longrightarrow> p \<in> set (id_projects d) \<and> pj_OrgID p = orgID \<and> pj_Slug p = slug"
  by (auto simp: project_BySlug_def find_Some_iff split: sum.splits option.splits)

lemma project_ByID_Inr:
  "project_ByID c id' d = Inr p \<Longrightarrow> p \<in> set (id_projects d) \<and> pj_ID p = id' \<and> (\<exists>tc. tenant_From c = Inr tc \<and> pj_OrgID p = tc_OrgID tc)"
  by (auto simp: project_ByID_def find_Some_iff simp del: tenant_From_Inr split: sum.splits option.splits)

lemma promote_frame:
  assumes "project_BySlug c orgID slug d = Inr p"
  shows "project_frame d (snd (case project_Save c (p\<lparr>pj_System := True\<rparr>) d of
      (Inl e, d1) \<Rightarrow> (Inl (if IsSystemProjectExistsError e then e else Unexpected ''project.BootstrapSystem: promote'' e), d1)
    | (Inr _, d1) \<Rightarrow> (Inr (p\<lparr>pj_System := True\<rparr>), d1)))"
proof -
  have "project_frame d (snd (project_Save c (p\<lparr>pj_System := True\<rparr>) d))"
    using project_BySlug_Inr [OF assms] by (intro project_resave_frame [of p]) auto
  then show ?thesis by (rule frame_case) simp_all
qed

lemma ensureSystem_frame: "project_frame d (snd (ensureSystem gen id' now c orgID slug name d))"
proof (cases "systemProject c orgID d")
  case (Inr o')
  show ?thesis
  proof (cases o')
    case None
    have retry: "project_frame d (snd (slug_Retry 5 gen project_IsAlreadyExistsError (project_createWithSlug id' now c orgID name True) d))"
      by (rule projects.retry) (rule createWithSlug_frame)
    show ?thesis
      using retry createWithSlug_frame promote_frame [of c orgID slug d] projects.same Inr None
      by (cases "project_BySlug c orgID slug d") (simp_all add: ensureSystem_def Let_def)
  qed (use Inr projects.same in \<open>simp add: ensureSystem_def\<close>)
qed (simp add: ensureSystem_def projects.same)

lemma BootstrapSystem_frame: "project_frame d (snd (BootstrapSystem gen id' now c orgID slug name d))"
proof -
  obtain x d1 where e: "ensureSystem gen id' now c orgID (TrimSpace slug) name d = (x, d1)" by fastforce
  have "project_frame d d1" using ensureSystem_frame [of d gen id' now c orgID "TrimSpace slug" name] e by simp
  then show ?thesis using projects.same e unfolding BootstrapSystem_def by (auto split: sum.split option.split)
qed

lemma project_Rename_frame: "project_frame d (snd (projects_Rename c id' name d))"
proof (cases "project_ByID c id' d")
  case (Inr p)
  show ?thesis
  proof (cases "project_Rename name p")
    case (Inr q)
    then have "pj_Slug q = pj_Slug p" "pj_Name q \<noteq> ''''"
      by (auto simp: project_Rename_def split: sum.splits dest: project_validateName_Inr)
    then have "project_frame d (snd (project_Save c q d))"
      using project_ByID_Inr [OF \<open>project_ByID c id' d = Inr p\<close>] by (intro project_resave_frame [of p]) auto
    then have "project_frame d (snd (case project_Save c q d of
        (Inl e, d1) \<Rightarrow> (Inl (Unexpected ''project.Rename: save'' e), d1) | (Inr _, d1) \<Rightarrow> (Inr q, d1)))"
      by (rule frame_case) simp_all
    then show ?thesis using Inr \<open>project_ByID c id' d = Inr p\<close> projects.same
      by (cases "tenant_From c") (simp_all add: projects_Rename_def del: tenant_From_Inr)
  qed (use Inr projects.same in \<open>cases "tenant_From c"; simp add: projects_Rename_def del: tenant_From_Inr\<close>)
qed (cases "tenant_From c"; simp add: projects_Rename_def projects.same del: tenant_From_Inr)

section \<open>Invites\<close>

definition invites_ok :: "Invite list \<Rightarrow> bool" where
  "invites_ok is \<longleftrightarrow> keyed iv_ID is \<and> keyed iv_TokenHash is \<and> (\<forall>i \<in> set is. role_IsValid (iv_Role i))"

text \<open>
  The frame of invites: the token hashes of \<open>H\<close> name no new invite, and an invite
  that was used stays used.
\<close>

definition invites_frame :: "string set \<Rightarrow> Invite list \<Rightarrow> Invite list \<Rightarrow> bool" where
  "invites_frame H is js \<longleftrightarrow> (invites_ok is \<longrightarrow> invites_ok js \<and>
     (\<forall>j \<in> set js. iv_TokenHash j \<in> H \<longrightarrow> (\<exists>i \<in> set is. iv_TokenHash i = iv_TokenHash j \<and> (iv_UsedAt i \<noteq> None \<longrightarrow> iv_UsedAt j \<noteq> None))))"

interpretation invites: state_frame "invites_frame H"
proof
  show "invites_frame H s s" for s by (auto simp: invites_frame_def)
  show "invites_frame H s u" if st: "invites_frame H s t" and tu: "invites_frame H t u" for s t u
    unfolding invites_frame_def
  proof (intro impI conjI ballI)
    assume "invites_ok s"
    then have t: "invites_ok t" using st by (simp add: invites_frame_def)
    then show "invites_ok u" using tu by (simp add: invites_frame_def)
    fix j assume "j \<in> set u" "iv_TokenHash j \<in> H"
    then obtain i where i: "i \<in> set t" "iv_TokenHash i = iv_TokenHash j" "iv_UsedAt i \<noteq> None \<longrightarrow> iv_UsedAt j \<noteq> None"
      using tu t unfolding invites_frame_def by blast
    then obtain h where "h \<in> set s" "iv_TokenHash h = iv_TokenHash i" "iv_UsedAt h \<noteq> None \<longrightarrow> iv_UsedAt i \<noteq> None"
      using st \<open>invites_ok s\<close> \<open>iv_TokenHash j \<in> H\<close> unfolding invites_frame_def by metis
    then show "\<exists>i \<in> set s. iv_TokenHash i = iv_TokenHash j \<and> (iv_UsedAt i \<noteq> None \<longrightarrow> iv_UsedAt j \<noteq> None)"
      using i by (intro bexI [of _ h]) auto
  qed
qed

lemma invites_frame_filter: "invites_frame H is (filter P is)"
  by (auto simp: invites_frame_def invites_ok_def distinct_map_filter)

lemma invites_frame_use:
  assumes "i \<in> set is"
  shows "invites_frame H is (upsert_row iv_ID (i\<lparr>iv_UsedAt := Some t\<rparr>) is)"
  unfolding invites_frame_def
proof (intro impI conjI ballI)
  assume ok: "invites_ok is"
  then have k: "keyed iv_ID is" "keyed iv_TokenHash is" by (simp_all add: invites_ok_def)
  let ?x = "i\<lparr>iv_UsedAt := Some t\<rparr>" and ?js = "upsert_row iv_ID (i\<lparr>iv_UsedAt := Some t\<rparr>) is"
  have set': "set ?js = insert ?x {r \<in> set is. iv_ID r \<noteq> iv_ID i}" using set_upsert_row [OF k(1), of ?x] by simp
  have "iv_TokenHash r \<noteq> iv_TokenHash ?x" if "r \<in> set is" "iv_ID r \<noteq> iv_ID ?x" for r
    using k(2) that assms by (auto simp: distinct_map inj_on_def)
  then have "keyed iv_TokenHash ?js" by (intro keyed_upsert_other [OF k]) auto
  then show "invites_ok ?js" using ok assms keyed_upsert_row [OF k(1), of ?x] unfolding invites_ok_def set' by auto
  fix j assume "j \<in> set ?js" "iv_TokenHash j \<in> H"
  then show "\<exists>i \<in> set is. iv_TokenHash i = iv_TokenHash j \<and> (iv_UsedAt i \<noteq> None \<longrightarrow> iv_UsedAt j \<noteq> None)"
    using assms unfolding set' by auto
qed

lemma invites_frame_new:
  assumes "role_IsValid (iv_Role i)" "iv_TokenHash i \<notin> H" "iv_TokenHash i \<notin> iv_TokenHash ` set is" "find_row iv_ID (iv_ID i) is = None"
  shows "invites_frame H is (upsert_row iv_ID i is)"
  using assms by (auto simp: upsert_row_new invites_frame_def invites_ok_def table_simps)

end
