(* ===== verification/IdentitySteps.thy ===== *)
theory IdentitySteps
  imports IdentityFrames ApiKeySteps
begin

text \<open>
  The operations on users, projects, invites and the bootstrap record as one step
  relation, and its invariant.  A fresh invite has a fresh identifier and a fresh
  token (32 random characters); the parameter \<open>H\<close> of the relation is a set of token
  hashes the issued tokens avoid, so that statements about a token that was already
  issued can follow it through later steps.
\<close>

section \<open>The frame of identity\<close>

definition identity_frame :: "string set \<Rightarrow> identity_db \<Rightarrow> identity_db \<Rightarrow> bool" where
  "identity_frame H d d' \<longleftrightarrow> (users_ok (id_users d) \<longrightarrow> users_ok (id_users d')) \<and> invites_frame H (id_invites d) (id_invites d') \<and>
     (projects_ok (id_projects d) \<and> projects_synced d \<longrightarrow> projects_ok (id_projects d') \<and> projects_synced d') \<and>
     (id_bootstrap d \<noteq> None \<longrightarrow> id_bootstrap d' = id_bootstrap d)"

interpretation identity: state_frame "identity_frame H"
proof
  show "identity_frame H s s" for s by (simp add: identity_frame_def invites.same)
  show "identity_frame H s u" if "identity_frame H s t" "identity_frame H t u" for s t u
    using that invites.seq unfolding identity_frame_def by (metis (no_types, lifting))
qed

lemma frame_projects: "project_frame d d' \<Longrightarrow> identity_frame H d d'"
  by (simp add: project_frame_def identity_frame_def invites.same)

lemma frame_users: "keeps_users f \<Longrightarrow> identity_frame H d (snd (on_users f d))"
  by (auto simp: on_users_def identity_frame_def projects_synced_def invites.same keeps_users_def split: prod.split)

lemma frame_access: "ad_projects (snd (f (id_access d))) = ad_projects (id_access d) \<Longrightarrow> identity_frame H d (snd (on_access f d))"
  by (auto simp: on_access_def identity_frame_def projects_synced_def invites.same split: prod.split)

lemma frame_invites: "invites_frame H (id_invites d) js \<Longrightarrow> identity_frame H d (d\<lparr>id_invites := js\<rparr>)"
  by (simp add: identity_frame_def projects_synced_def)

lemma SaveMembership_projects: "ad_projects (snd (SaveMembership m a)) = ad_projects a"
  by (simp add: SaveMembership_def Let_def)

lemma frame_membership: "identity_frame H d (snd (orgStoreForInvite_SaveMembership orgID userID role d))"
  unfolding orgStoreForInvite_SaveMembership_def by (rule frame_access) (rule SaveMembership_projects)

lemma membership_invites: "id_invites (snd (orgStoreForInvite_SaveMembership orgID userID role d)) = id_invites d"
  by (simp add: orgStoreForInvite_SaveMembership_def on_access_def split: prod.split)

section \<open>Invites\<close>

lemma invite_same_org: "iv_OrgID i = o' \<Longrightarrow> i\<lparr>iv_UsedAt := u, iv_OrgID := o'\<rparr> = i\<lparr>iv_UsedAt := u\<rparr>"
  by (cases i) auto

lemma invite_Save_use:
  assumes "i \<in> set (id_invites d)"
  shows "identity_frame H d (snd (invite_Save c (i\<lparr>iv_UsedAt := Some t\<rparr>) d))"
proof (cases "invites_ok (id_invites d)")
  case True
  then have "find_row iv_ID (iv_ID i) (id_invites d) = Some i"
    using find_row_Some_iff [of iv_ID "id_invites d"] assms by (simp add: invites_ok_def)
  then show ?thesis using assms identity.same invites_frame_use [OF assms, of H t] frame_invites
    by (cases "tenant_From c") (simp_all add: invite_Save_def invite_same_org del: tenant_From_Inr)
next
  case False
  have "identity_frame H d (d\<lparr>id_invites := js\<rparr>)" for js using False by (intro frame_invites) (simp add: invites_frame_def)
  then show ?thesis using identity.same by (simp add: invite_Save_def split: sum.split option.split)
qed

lemma invite_Save_new:
  assumes "iv_TokenHash i \<notin> H" "iv_TokenHash i \<notin> iv_TokenHash ` set (id_invites d)" "iv_ID i \<notin> iv_ID ` set (id_invites d)"
  shows "identity_frame H d (snd (invite_Save c i d))"
proof -
  have n: "find_row iv_ID (iv_ID i) (id_invites d) = None" using assms(3) by (rule find_row_fresh)
  have "role_IsValid (iv_Role i) \<Longrightarrow> identity_frame H d (d\<lparr>id_invites := upsert_row iv_ID i (id_invites d)\<rparr>)"
    using assms n by (intro frame_invites invites_frame_new) simp_all
  then show ?thesis using n identity.same by (simp add: invite_Save_def split: sum.split)
qed

lemma invite_New_Inr:
  "invite_New sha id' orgID email role ttl raw now = Inr i \<Longrightarrow>
   iv_ID i = id' \<and> iv_TokenHash i = HashToken sha raw \<and> iv_OrgID i = orgID \<and> iv_Role i = role \<and> iv_UsedAt i = None \<and> iv_ExpiresAt i = now + ttl"
  by (auto simp: invite_New_def split: if_splits sum.splits)

lemma Send_frame:
  assumes "\<And>raw. token = Inr raw \<Longrightarrow> HashToken sha raw \<notin> H \<union> iv_TokenHash ` set (id_invites d)" "id' \<notin> iv_ID ` set (id_invites d)"
  shows "identity_frame H d (snd (SendWorkflow_Execute sha token mail id' now c req d))"
proof -
  have save: "identity_frame H d d1"
    if "token = Inr raw" "invite_New sha id' orgID email role ttl raw now = Inr i" "invite_Save c i d = (x, d1)" for raw orgID email role ttl i x d1
  proof -
    have "identity_frame H d (snd (invite_Save c i d))"
      using invite_New_Inr [OF that(2)] assms(1) [OF that(1)] assms(2) by (intro invite_Save_new) auto
    then show ?thesis using that(3) by simp
  qed
  show ?thesis unfolding SendWorkflow_Execute_def Let_def
    using identity.same by (auto split: sum.split prod.split intro: save)
qed

lemma invites_Send_frame:
  assumes "\<And>raw. token = Inr raw \<Longrightarrow> HashToken sha raw \<notin> H \<union> iv_TokenHash ` set (id_invites d)" "id' \<notin> iv_ID ` set (id_invites d)"
  shows "identity_frame H d (snd (invites_Send enabled sha token mail id' now c req d))"
  using Send_frame [OF assms] identity.same by (simp add: invites_Send_def)

lemma ensureUser_frame: "identity_frame H d (snd (ensureUser fresh email name d))" "id_invites (snd (ensureUser fresh email name d)) = id_invites d"
proof -
  have "identity_frame H d (snd (userStoreForInvite_Save u d))" "id_invites (snd (userStoreForInvite_Save u d)) = id_invites d" for u
    unfolding userStoreForInvite_Save_def by (rule frame_users, rule keeps_Save) (simp add: on_users_def split: prod.split)
  then show "identity_frame H d (snd (ensureUser fresh email name d))" "id_invites (snd (ensureUser fresh email name d)) = id_invites d"
    using identity.same unfolding ensureUser_def Let_def
    by (auto split: sum.split prod.split) (metis snd_conv)+
qed

lemma ByTokenHash_Inr: "ByTokenHash h d = Inr i \<Longrightarrow> i \<in> set (id_invites d) \<and> iv_TokenHash i = h"
  by (auto simp: ByTokenHash_def find_Some_iff split: option.splits)

lemma Consume_Inr: "invite_Consume now i = Inr j \<longleftrightarrow> iv_UsedAt i = None \<and> now \<le> iv_ExpiresAt i \<and> j = i\<lparr>iv_UsedAt := Some now\<rparr>"
  by (auto simp: invite_Consume_def invite_IsExpired_def)

text \<open>What acceptance does, step by step, once its checks have passed.\<close>

definition redeem :: "uuid \<Rightarrow> instant \<Rightarrow> ctx \<Rightarrow> string \<Rightarrow> string \<Rightarrow> Invite \<Rightarrow> (identity_db, Invite \<times> UserRef \<times> Role) prog" where
  "redeem fresh now c email name i d =
     (case ensureUser fresh email name d of
        (Inl e, d1) \<Rightarrow> (Inl e, d1)
      | (Inr usr, d1) \<Rightarrow>
       (case org_ByID (iv_OrgID i) (id_access d1) of
          Inl e \<Rightarrow> (Inl (Unexpected ''invite.Accept: org lookup'' e), d1)
        | Inr _ \<Rightarrow>
         (case orgStoreForInvite_SaveMembership (iv_OrgID i) (ur_ID usr) (iv_Role i) d1 of
            (Inl e, d2) \<Rightarrow> (Inl (Unexpected ''invite.Accept: save membership'' e), d2)
          | (Inr _, d2) \<Rightarrow>
           (case invite_Save (tenant_Into c \<lparr>tc_OrgID = iv_OrgID i, tc_ProjectID = uuid_Nil, tc_UserID = ur_ID usr\<rparr>) (i\<lparr>iv_UsedAt := Some now\<rparr>) d2 of
              (Inl e, d3) \<Rightarrow> (Inl (Unexpected ''invite.Accept: save invite'' e), d3)
            | (Inr _, d3) \<Rightarrow> (Inr (i\<lparr>iv_UsedAt := Some now\<rparr>, usr, iv_Role i), d3)))))"

lemma Accept_unfold:
  "AcceptWorkflow_Execute sha fresh now c req d =
     (if ar_Token req = '''' then (Inl (EInvite TokenMismatchError), d)
      else case invite_normalizeEmail (ar_Email req) of Inl e \<Rightarrow> (Inl e, d) | Inr email \<Rightarrow>
     (case ByTokenHash (HashToken sha (ar_Token req)) d of
        Inl e \<Rightarrow> (Inl (EInvite TokenMismatchError), d)
      | Inr i \<Rightarrow>
        if \<not> EqualFold (iv_Email i) email then (Inl (EInvite TokenMismatchError), d)
        else if iv_UsedAt i \<noteq> None then (Inl (EInvite (InviteAlreadyUsedError (iv_ID i))), d)
        else if now > iv_ExpiresAt i then (Inl (EInvite (InviteExpiredError (iv_ID i))), d)
        else redeem fresh now c email (ar_Name req) i d))"
proof -
  have nf: "ByTokenHash h d = Inl e \<Longrightarrow> invite_IsNotFoundError e" for h e
    by (auto simp: ByTokenHash_def platform_error_defs split: option.splits)
  show ?thesis
    by (cases "invite_normalizeEmail (ar_Email req)"; cases "ByTokenHash (HashToken sha (ar_Token req)) d")
       (auto simp: AcceptWorkflow_Execute_def invite_Consume_def invite_IsExpired_def redeem_def nf Let_def cong: sum.case_cong prod.case_cong)
qed

lemma redeem_frame:
  assumes "i \<in> set (id_invites d)"
  shows "identity_frame H d (snd (redeem fresh now c email name i d))"
proof -
  obtain x1 d1 where 1: "ensureUser fresh email name d = (x1, d1)" by fastforce
  have f1: "identity_frame H d d1" "id_invites d1 = id_invites d" using ensureUser_frame [where d = d and fresh = fresh and email = email and name = name] 1 by simp_all
  show ?thesis
  proof (cases x1)
    case (Inr usr)
    obtain x2 d2 where 2: "orgStoreForInvite_SaveMembership (iv_OrgID i) (ur_ID usr) (iv_Role i) d1 = (x2, d2)" by fastforce
    have f2: "identity_frame H d1 d2" "id_invites d2 = id_invites d1"
      using frame_membership [of H d1 "iv_OrgID i" "ur_ID usr" "iv_Role i"] membership_invites [of "iv_OrgID i" "ur_ID usr" "iv_Role i" d1] 2 by simp_all
    have f3: "identity_frame H d2 (snd (invite_Save c' (i\<lparr>iv_UsedAt := Some now\<rparr>) d2))" for c'
      using assms f1 f2 by (intro invite_Save_use) simp
    have f4: "identity_frame H d (snd (invite_Save c' (i\<lparr>iv_UsedAt := Some now\<rparr>) d2))" "identity_frame H d d2" for c'
      using identity.seq f1(1) f2(1) f3 by blast+
    then show ?thesis unfolding redeem_def 1 Inr using 2 f1(1)
      by (auto split: sum.split prod.split) (metis snd_conv)+
  qed (use 1 f1 in \<open>simp add: redeem_def\<close>)
qed

text \<open>The writes of a successful acceptance.\<close>

lemma redeem_Inr:
  assumes "redeem fresh now c email name i d = (Inr (j, usr, role), d')"
  shows "\<exists>d1 d2. ensureUser fresh email name d = (Inr usr, d1) \<and> (\<exists>o'. org_ByID (iv_OrgID i) (id_access d1) = Inr o') \<and>
      orgStoreForInvite_SaveMembership (iv_OrgID i) (ur_ID usr) (iv_Role i) d1 = (Inr (), d2) \<and>
      invite_Save (tenant_Into c \<lparr>tc_OrgID = iv_OrgID i, tc_ProjectID = uuid_Nil, tc_UserID = ur_ID usr\<rparr>) j d2 = (Inr (), d')"
    "j = i\<lparr>iv_UsedAt := Some now\<rparr>" "role = iv_Role i"
  using assms by (auto simp: redeem_def split: sum.splits prod.splits)

lemma Accept_Inr:
  assumes "AcceptWorkflow_Execute sha fresh now c req d = (Inr r, d')"
  obtains i email where "ar_Token req \<noteq> ''''" "invite_normalizeEmail (ar_Email req) = Inr email" "ByTokenHash (HashToken sha (ar_Token req)) d = Inr i"
    "EqualFold (iv_Email i) email" "iv_UsedAt i = None" "now \<le> iv_ExpiresAt i" "redeem fresh now c email (ar_Name req) i d = (Inr r, d')"
  using assms unfolding Accept_unfold by (auto split: if_splits sum.splits)

text \<open>The invite as it is stored afterwards.\<close>

lemma invite_Save_used:
  assumes "invite_Save c (i\<lparr>iv_UsedAt := Some t\<rparr>) d = (Inr (), d')" "i \<in> set (id_invites d)" "invites_ok (id_invites d)"
  shows "set (id_invites d') = insert (i\<lparr>iv_UsedAt := Some t\<rparr>) {r \<in> set (id_invites d). iv_ID r \<noteq> iv_ID i}"
    "id_users d' = id_users d" "id_access d' = id_access d"
proof -
  have k: "keyed iv_ID (id_invites d)" using assms(3) by (simp add: invites_ok_def)
  have "find_row iv_ID (iv_ID i) (id_invites d) = Some i" using find_row_Some_iff [OF k] assms(2) by simp
  then have d': "d' = d\<lparr>id_invites := upsert_row iv_ID (i\<lparr>iv_UsedAt := Some t\<rparr>) (id_invites d)\<rparr>"
    using assms(1) by (auto simp: invite_Save_def invite_same_org simp del: tenant_From_Inr split: sum.splits if_splits)
  show "set (id_invites d') = insert (i\<lparr>iv_UsedAt := Some t\<rparr>) {r \<in> set (id_invites d). iv_ID r \<noteq> iv_ID i}"
    using set_upsert_row [OF k, of "i\<lparr>iv_UsedAt := Some t\<rparr>"] by (simp add: d')
  show "id_users d' = id_users d" "id_access d' = id_access d" by (simp_all add: d')
qed

text \<open>The account an acceptance works with, and the membership it writes.\<close>

lemma normal_email: "invite_normalizeEmail s = Inr e \<Longrightarrow> ToLower e = e"
  by (auto simp: invite_normalizeEmail_def Let_def split: if_splits)

lemma ensured_user:
  assumes "users_ok (id_users d)" "ToLower email = email" "ensureUser fresh email name d = (Inr usr, d1)"
  shows "ur_Email usr = email" "\<exists>u \<in> set (id_users d1). u_ID u = ur_ID usr \<and> u_Email u = email"
    "id_invites d1 = id_invites d" "id_access d1 = id_access d"
proof -
  have "ur_Email usr = email \<and> (\<exists>u \<in> set (id_users d1). u_ID u = ur_ID usr \<and> u_Email u = email) \<and> id_access d1 = id_access d"
  proof (cases "userStoreForInvite_ByEmail email d")
    case (Inr q)
    then obtain u where "user_ByEmail email (id_users d) = Inr u" "q = \<lparr>ur_ID = u_ID u, ur_Email = u_Email u, ur_Name = u_Name u, ur_Source = u_Source u\<rparr>"
      by (auto simp: userStoreForInvite_ByEmail_def split: sum.splits)
    then show ?thesis using Inr assms(2,3) user_ByEmail_Inr [of email "id_users d" u] by (auto simp: ensureUser_def)
  next
    case (Inl e)
    let ?n = "if TrimSpace name = '''' then invite_defaultName email else TrimSpace name"
    let ?q = "\<lparr>ur_ID = fresh, ur_Email = email, ur_Name = ?n, ur_Source = ''invite''\<rparr>"
    have q: "usr = ?q" "userStoreForInvite_Save ?q d = (Inr (), d1)"
      using Inl assms(3) by (auto simp: ensureUser_def Let_def split: sum.splits prod.splits)
    define u where "u = \<lparr>u_ID = fresh, u_Email = email, u_Name = ?n, u_Source = ''invite'', u_IDPIssuer = '''', u_IDPSubject = '''',
      u_PasswordHash = '''', u_IsAdmin = False, u_Locale = '''', u_TermsAcceptedAt = None, u_CreatedAt = time_Zero\<rparr>"
    obtain us where us: "user_Save u (id_users d) = (Inr (), us)" "d1 = d\<lparr>id_users := us\<rparr>"
      using q(2) unfolding userStoreForInvite_Save_def on_users_def u_def by (auto split: prod.splits)
    have "saved_row u (id_users d) \<in> set us" by (rule Save_present [OF assms(1) us(1)])
    moreover have "u_ID (saved_row u (id_users d)) = fresh" "u_Email (saved_row u (id_users d)) = email" by (simp_all add: u_def)
    ultimately have "\<exists>u \<in> set us. u_ID u = fresh \<and> u_Email u = email" by blast
    then show ?thesis using q(1) us(2) by simp
  qed
  then show "ur_Email usr = email" "\<exists>u \<in> set (id_users d1). u_ID u = ur_ID usr \<and> u_Email u = email" "id_access d1 = id_access d" by blast+
  show "id_invites d1 = id_invites d" using ensureUser_frame(2) [of fresh email name d] assms(3) by simp
qed

lemma SaveMembership_write:
  assumes "SaveMembership m a = (Inr (), a')"
  shows "\<exists>row. member_key row = member_key m \<and> mb_Role row = mb_Role m \<and> mb_System row = mb_System m \<and>
    a' = a\<lparr>ad_members := upsert_row member_key row (ad_members a)\<rparr>"
proof -
  define row where "row = (case find_row member_key (member_key m) (ad_members a) of
    None \<Rightarrow> m | Some old \<Rightarrow> old\<lparr>mb_Role := mb_Role m, mb_System := mb_System m\<rparr>)"
  have "a' = a\<lparr>ad_members := upsert_row member_key row (ad_members a)\<rparr>"
    using assms unfolding SaveMembership_def Let_def row_def [symmetric] by (auto split: if_splits)
  moreover have "member_key row = member_key m \<and> mb_Role row = mb_Role m \<and> mb_System row = mb_System m"
  proof (cases "find_row member_key (member_key m) (ad_members a)")
    case (Some old)
    then have "member_key old = member_key m" using find_row_SomeD by fastforce
    then show ?thesis by (simp add: row_def Some)
  qed (simp add: row_def)
  ultimately show ?thesis by blast
qed

lemma enrolled:
  assumes "orgStoreForInvite_SaveMembership orgID userID role d = (Inr (), d')"
  shows "\<exists>m. find_row member_key (orgID, userID) (ad_members (id_access d')) = Some m \<and> mb_Role m = role \<and> \<not> mb_System m"
    "k \<noteq> (orgID, userID) \<Longrightarrow> find_row member_key k (ad_members (id_access d')) = find_row member_key k (ad_members (id_access d))"
    "id_users d' = id_users d" "id_invites d' = id_invites d"
proof -
  let ?m = "\<lparr>mb_OrgID = orgID, mb_UserID = userID, mb_Role = role, mb_CreatedAt = time_Zero, mb_System = False\<rparr>"
  let ?ms = "ad_members (id_access d)"
  obtain a' where a': "SaveMembership ?m (id_access d) = (Inr (), a')" "d' = d\<lparr>id_access := a'\<rparr>"
    using assms unfolding orgStoreForInvite_SaveMembership_def on_access_def by (auto split: prod.splits)
  obtain row where row: "member_key row = (orgID, userID)" "mb_Role row = role" "\<not> mb_System row"
    and d': "d' = d\<lparr>id_access := (id_access d)\<lparr>ad_members := upsert_row member_key row ?ms\<rparr>\<rparr>"
    using SaveMembership_write [OF a'(1)] a'(2) by auto
  show "\<exists>m. find_row member_key (orgID, userID) (ad_members (id_access d')) = Some m \<and> mb_Role m = role \<and> \<not> mb_System m"
    using row by (simp add: d' find_row_upsert)
  show "k \<noteq> (orgID, userID) \<Longrightarrow> find_row member_key k (ad_members (id_access d')) = find_row member_key k ?ms"
    using row by (simp add: d' find_row_upsert)
  show "id_users d' = id_users d" "id_invites d' = id_invites d" by (simp_all add: d')
qed

lemma Accept_frame: "identity_frame H d (snd (AcceptWorkflow_Execute sha fresh now c req d))"
  unfolding Accept_unfold using identity.same redeem_frame ByTokenHash_Inr by (auto split: sum.split)

lemma Revoke_frame: "identity_frame H d (snd (invites_Revoke c id' d))"
proof -
  have "identity_frame H d (snd (invite_Delete c id' d))"
    using identity.same frame_invites [OF invites_frame_filter] by (auto simp: invite_Delete_def Let_def split: sum.split)
  then have "identity_frame H d (snd (case invite_Delete c id' d of
      (Inl e, d1) \<Rightarrow> (Inl (if invite_IsNotFoundError e then e else Unexpected ''invite.Revoke: delete'' e), d1) | (Inr _, d1) \<Rightarrow> (Inr (), d1)))"
    by (rule frame_case) simp_all
  then show ?thesis using identity.same by (simp add: invites_Revoke_def split: sum.split)
qed

section \<open>First run and logins\<close>

lemma Complete_frame: "identity_frame H d (snd (onboard_Complete now by' method d))"
proof -
  have "identity_frame H d (snd (onboard_Save b d))" for b
    by (simp add: onboard_Save_def identity.same) (simp add: identity_frame_def projects_synced_def invites.same)
  then have "identity_frame H d (snd (case onboard_Save b d of
      (Inl e, d1) \<Rightarrow> (Inl (if IsAlreadyOnboardedError e then e else Unexpected ''onboard.Complete: save'' e), d1) | (Inr _, d1) \<Rightarrow> (Inr b, d1)))" for b
    by (rule frame_case) simp_all
  then show ?thesis using identity.same by (simp add: onboard_Complete_def split: sum.split)
qed

lemma bootstrap_frame: "identity_frame H d (snd (bootstrap genesisEmail d))"
proof -
  have "identity_frame H d (snd (on_users (ReconcileGenesisAdmin genesisEmail) d))" by (rule frame_users [OF keeps_Reconcile])
  then have "identity_frame H d (snd (case on_users (ReconcileGenesisAdmin genesisEmail) d of
      (Inl e, d1) \<Rightarrow> (Inl e, d1) | (Inr _, d1) \<Rightarrow> (Inr (\<not> required), d1)))" for required
    by (rule frame_case) simp_all
  then show ?thesis using identity.same by (simp add: bootstrap_def split: sum.split)
qed

lemma invite_ByID_Inr:
  "invite_ByID c id' d = Inr i \<Longrightarrow> i \<in> set (id_invites d) \<and> iv_ID i = id' \<and> (\<exists>tc. tenant_From c = Inr tc \<and> iv_OrgID i = tc_OrgID tc)"
  by (auto simp: invite_ByID_def find_Some_iff simp del: tenant_From_Inr split: sum.splits option.splits)

lemma onboard_accept_frame: "identity_frame H d (snd (inviteStoreForOnboard_Save c id' (Some t) d))"
  using identity.same invite_Save_use invite_ByID_Inr by (auto simp: inviteStoreForOnboard_Save_def split: sum.split)

lemma join_frame: "identity_frame H d (snd (join_by_invite now c orgID userID i d))"
proof -
  obtain x1 d1 where 1: "inviteStoreForOnboard_Save (WithOrg c (iv_OrgID i)) (iv_ID i) (Some now) d = (x1, d1)" by fastforce
  obtain x2 d2 where 2: "orgStoreForInvite_SaveMembership orgID userID (iv_Role i) d1 = (x2, d2)" by fastforce
  have "identity_frame H d d1" using onboard_accept_frame [of H d "WithOrg c (iv_OrgID i)" "iv_ID i" now] 1 by simp
  moreover have "identity_frame H d1 d2" using frame_membership [of H d1 orgID userID "iv_Role i"] 2 by simp
  ultimately show ?thesis unfolding join_by_invite_def 1 using 2 identity.seq by (auto split: sum.split)
qed

lemma Onboard_frame: "identity_frame H d (snd (Onboard mode now c userID email d))"
  using identity.same join_frame
  by (auto simp: Onboard_def onboardSelfhosted_def onboardCloud_def split: sum.split option.split list.split)

lemma OIDCLogin_frame: "identity_frame H d (snd (OIDCLogin_Execute mode fresh now c claims d))"
proof -
  obtain x1 d1 where 1: "on_users (EnsureFromOIDC fresh now claims) d = (x1, d1)" by fastforce
  have f1: "identity_frame H d d1" using frame_users [OF keeps_Ensure [of fresh now claims], where H = H and d = d] 1 by simp
  have f2: "identity_frame H d (snd (Onboard m now c u e d1))" for m u e
    using identity.seq [OF f1 Onboard_frame] .
  have tail: "snd (case Onboard m now c u e d1 of (Inr (orgID, projectID), d2) \<Rightarrow> (Inr (f orgID projectID), d2)
      | (Inl e, d2) \<Rightarrow> (case root_cause e of EUser (SignupRequiredError _ _) \<Rightarrow> (Inr p, d2) | _ \<Rightarrow> (Inl (g e), d2))) = snd (Onboard m now c u e d1)"
    for m u e f p g by (cases "Onboard m now c u e d1"; cases "fst (Onboard m now c u e d1)") (auto split: err.split user_error.split)
  have "identity_frame H d (snd (case x1 of Inl e \<Rightarrow> (Inl (typed_or ''auth.OIDCLogin.Execute: ensureFromOIDC'' e), d1) | Inr u \<Rightarrow>
      let p = (principalFromRef u SourceOIDC now)\<lparr>pr_IDPIssuer := cl_Issuer claims, pr_IDPSubject := cl_Subject claims\<rparr> in
      case Onboard (if mode = ''selfhosted'' then ''selfhosted'' else ''cloud'') now c (u_ID u) (u_Email u) d1 of
        (Inr (orgID, projectID), d2) \<Rightarrow> (Inr (p\<lparr>pr_ActiveOrgID := orgID, pr_ActiveProjectID := projectID\<rparr>), d2)
      | (Inl e, d2) \<Rightarrow> (case root_cause e of EUser (SignupRequiredError _ _) \<Rightarrow> (Inr p, d2)
          | _ \<Rightarrow> (Inl (typed_or ''auth.OIDCLogin.Execute: onboard'' e), d2))))"
    unfolding Let_def by (cases x1) (simp_all only: sum.case tail snd_conv f1 f2)
  then show ?thesis unfolding OIDCLogin_Execute_def 1 prod.case
    using identity.same by (cases "allowSignup mode (cl_Email claims) d") simp_all
qed

section \<open>Steps\<close>

inductive identity_step :: "(string \<Rightarrow> string) \<Rightarrow> string set \<Rightarrow> identity_db \<Rightarrow> identity_db \<Rightarrow> bool" for sha H where
  create_user: "on_users (users_Create IDKey salt id' now req) d = (u, d') \<Longrightarrow> identity_step sha H d d'"
| promote: "on_users (users_Promote id') d = (y, d') \<Longrightarrow> identity_step sha H d d'"
| accept_terms: "on_users (users_AcceptTerms now id') d = (y, d') \<Longrightarrow> identity_step sha H d d'"
| update_locale: "on_users (users_UpdateLocale id' locale) d = (y, d') \<Longrightarrow> identity_step sha H d d'"
| rename_user: "on_users (users_Rename id' name) d = (y, d') \<Longrightarrow> identity_step sha H d d'"
| local_login: "on_users (LocalLogin_Execute IDKey g fresh now email pw) d = (p, d') \<Longrightarrow> identity_step sha H d d'"
| oidc_login: "OIDCLogin_Execute mode fresh now c claims d = (p, d') \<Longrightarrow> identity_step sha H d d'"
| onboard: "Onboard mode now c userID email d = (r, d') \<Longrightarrow> identity_step sha H d d'"
| complete: "onboard_Complete now by' method d = (b, d') \<Longrightarrow> identity_step sha H d d'"
| boot: "bootstrap genesisEmail d = (ob, d') \<Longrightarrow> identity_step sha H d d'"
| create_project: "projects_Create gen id' now c orgID slug name d = (pj, d') \<Longrightarrow> identity_step sha H d d'"
| bootstrap_system: "BootstrapSystem gen id' now c orgID slug name d = (pj, d') \<Longrightarrow> identity_step sha H d d'"
| rename_project: "projects_Rename c id' name d = (pj, d') \<Longrightarrow> identity_step sha H d d'"
| send: "invites_Send enabled sha token mail id' now c sreq d = (i, d') \<Longrightarrow> id' \<notin> iv_ID ` set (id_invites d) \<Longrightarrow>
    (\<And>raw. token = Inr raw \<Longrightarrow> HashToken sha raw \<notin> H \<union> iv_TokenHash ` set (id_invites d)) \<Longrightarrow> identity_step sha H d d'"
| accept: "AcceptWorkflow_Execute sha fresh now c areq d = (a, d') \<Longrightarrow> identity_step sha H d d'"
| revoke: "invites_Revoke c id' d = (y, d') \<Longrightarrow> identity_step sha H d d'"
| organisation: "access_step (id_access d) a' \<Longrightarrow> ad_projects a' = ad_projects (id_access d) \<Longrightarrow> identity_step sha H d (d\<lparr>id_access := a'\<rparr>)"

lemma step_frame: "identity_step sha H d d' \<Longrightarrow> identity_frame H d d'"
proof (induction rule: identity_step.induct)
  case (organisation d a')
  then show ?case by (simp add: identity_frame_def projects_synced_def invites.same)
next
  case (send enabled token mail id' now c sreq d i d')
  then show ?case using invites_Send_frame by (metis snd_conv)
qed (metis snd_conv frame_users frame_projects keeps_Create keeps_Promote keeps_AcceptTerms keeps_UpdateLocale keeps_Rename keeps_LocalLogin
   OIDCLogin_frame Onboard_frame Complete_frame bootstrap_frame Create_frame BootstrapSystem_frame project_Rename_frame Accept_frame Revoke_frame)+

definition identity_inv :: "identity_db \<Rightarrow> bool" where
  "identity_inv d \<longleftrightarrow> users_ok (id_users d) \<and> invites_ok (id_invites d) \<and> projects_ok (id_projects d) \<and> projects_synced d"

lemma frame_inv: "identity_frame H d d' \<Longrightarrow> identity_inv d \<Longrightarrow> identity_inv d'"
  by (simp add: identity_frame_def identity_inv_def invites_frame_def)

lemma inv_empty: "identity_inv no_identity"
  by (simp add: identity_inv_def no_identity_def no_access_def users_ok_def invites_ok_def projects_ok_def projects_synced_def)

lemma steps_frame: "(identity_step sha H)\<^sup>*\<^sup>* d d' \<Longrightarrow> identity_frame H d d'"
  using identity.steps step_frame by metis

text \<open>After an acceptance every invite of that token is used.\<close>

lemma accepted_is_spent:
  assumes "identity_inv d" "AcceptWorkflow_Execute sha fresh now c req d = (Inr r, d1)"
  shows "\<forall>j \<in> set (id_invites d1). iv_TokenHash j = HashToken sha (ar_Token req) \<longrightarrow> iv_UsedAt j \<noteq> None"
proof -
  obtain i email where b: "ByTokenHash (HashToken sha (ar_Token req)) d = Inr i"
    and r: "redeem fresh now c email (ar_Name req) i d = (Inr r, d1)"
    using Accept_Inr [OF assms(2)] .
  obtain j usr role where r': "r = (j, usr, role)" by (cases r)
  obtain e1 e2 where e: "ensureUser fresh email (ar_Name req) d = (Inr usr, e1)"
      "orgStoreForInvite_SaveMembership (iv_OrgID i) (ur_ID usr) (iv_Role i) e1 = (Inr (), e2)"
    and s: "invite_Save (tenant_Into c \<lparr>tc_OrgID = iv_OrgID i, tc_ProjectID = uuid_Nil, tc_UserID = ur_ID usr\<rparr>) (i\<lparr>iv_UsedAt := Some now\<rparr>) e2 = (Inr (), d1)"
    using redeem_Inr [OF r [unfolded r']] by auto
  have same: "id_invites e2 = id_invites d"
    using ensureUser_frame(2) [of fresh email "ar_Name req" d] membership_invites [of "iv_OrgID i" "ur_ID usr" "iv_Role i" e1] e by simp
  have ok: "invites_ok (id_invites d)" using assms(1) by (simp add: identity_inv_def)
  have i: "i \<in> set (id_invites d)" "iv_TokenHash i = HashToken sha (ar_Token req)" using ByTokenHash_Inr [OF b] by auto
  have set': "set (id_invites d1) = insert (i\<lparr>iv_UsedAt := Some now\<rparr>) {q \<in> set (id_invites d). iv_ID q \<noteq> iv_ID i}"
    using invite_Save_used(1) [OF s] i(1) ok same by simp
  have "iv_TokenHash q \<noteq> iv_TokenHash i" if "q \<in> set (id_invites d)" "iv_ID q \<noteq> iv_ID i" for q
    using ok that i(1) by (auto simp: invites_ok_def distinct_map inj_on_def)
  then show ?thesis using i(2) unfolding set' by auto
qed

lemma steps_inv: "(identity_step sha H)\<^sup>*\<^sup>* no_identity d \<Longrightarrow> identity_inv d"
  using steps_frame frame_inv inv_empty by blast

end
