(* ===== verification/OrgProperties.thy ===== *)
theory OrgProperties
  imports ApiKeyProperties IdentitySteps
begin

text \<open>
  The invariant of organisations and memberships over the steps of \<open>ApiKeySteps\<close> and
  \<open>IdentitySteps\<close>: ids and slugs are unique, at most one organisation is the system's, members
  belong to an organisation that exists, and every organisation has an owner.  One
  step can break the last part, the acceptance of an invite by an owner.
\<close>

section \<open>The invariant\<close>

definition owners :: "Membership list \<Rightarrow> uuid set" where
  "owners ms = {mb_OrgID m |m. m \<in> set ms \<and> mb_Role m = RoleOwner}"

definition org_rows :: "access_db \<Rightarrow> bool" where
  "org_rows d \<longleftrightarrow> keyed or_ID (ad_orgs d) \<and> keyed or_Slug (ad_orgs d) \<and>
     (\<forall>o1 \<in> set (ad_orgs d). \<forall>o2 \<in> set (ad_orgs d). or_System o1 \<and> or_System o2 \<longrightarrow> o1 = o2) \<and>
     (\<forall>o' \<in> set (ad_orgs d). org_validateSlug (or_Slug o') = Inr ()) \<and> keyed member_key (ad_members d) \<and>
     (\<forall>m \<in> set (ad_members d). role_IsValid (mb_Role m) \<and> mb_OrgID m \<in> or_ID ` set (ad_orgs d))"

definition org_inv :: "access_db \<Rightarrow> bool" where
  "org_inv d \<longleftrightarrow> org_rows d \<and> or_ID ` set (ad_orgs d) \<subseteq> owners (ad_members d)"

definition same_orgs :: "access_db \<Rightarrow> access_db \<Rightarrow> bool" where
  "same_orgs d d' \<longleftrightarrow> ad_orgs d' = ad_orgs d \<and> ad_members d' = ad_members d"

lemma same_orgs_refl [simp]: "same_orgs d d"
  by (simp add: same_orgs_def)

lemma same_orgs_inv: "same_orgs d d' \<Longrightarrow> org_inv d \<Longrightarrow> org_inv d'"
  by (simp add: same_orgs_def org_inv_def org_rows_def)

section \<open>The store\<close>

lemma org_Save_Inl: "org_Save o' d = (Inl e, d') \<Longrightarrow> d' = d"
  by (auto simp: org_Save_def Let_def split: if_splits)

lemma org_Save_Inr:
  assumes "org_Save o' d = (Inr (), d')" "org_rows d" "org_validateSlug (or_Slug o') = Inr ()"
  shows "org_rows d'" "ad_members d' = ad_members d" "or_ID ` set (ad_orgs d') = insert (or_ID o') (or_ID ` set (ad_orgs d))"
proof -
  define row where "row = (case find_row or_ID (or_ID o') (ad_orgs d) of None \<Rightarrow> o' | Some old \<Rightarrow> o'\<lparr>or_CreatedAt := or_CreatedAt old\<rparr>)"
  have row: "or_ID row = or_ID o'" "or_Slug row = or_Slug o'" "or_System row = or_System o'"
    by (simp_all add: row_def split: option.splits)
  have d': "d' = d\<lparr>ad_orgs := upsert_row or_ID row (ad_orgs d)\<rparr>"
    and sys: "\<And>r. r \<in> set (ad_orgs d) \<Longrightarrow> or_ID r \<noteq> or_ID o' \<Longrightarrow> or_System o' \<Longrightarrow> \<not> or_System r"
    and slug: "\<And>r. r \<in> set (ad_orgs d) \<Longrightarrow> or_ID r \<noteq> or_ID o' \<Longrightarrow> or_Slug r \<noteq> or_Slug o'"
    using assms(1) by (auto simp: org_Save_def Let_def row_def list_ex_iff split: if_splits)
  have k: "keyed or_ID (ad_orgs d)" "keyed or_Slug (ad_orgs d)" using assms(2) by (simp_all add: org_rows_def)
  have set': "set (ad_orgs d') = insert row {r \<in> set (ad_orgs d). or_ID r \<noteq> or_ID o'}"
    unfolding d' using set_upsert_row [OF k(1), of row] row(1) by simp
  have k': "keyed or_ID (ad_orgs d')" unfolding d' using keyed_upsert_row [OF k(1)] by simp
  have "inj_on or_Slug (set (ad_orgs d'))"
    unfolding set' using slug k(2) row(2) by (auto simp: inj_on_def distinct_map) (metis slug)+
  moreover have "distinct (ad_orgs d')" using k' by (simp add: distinct_map)
  ultimately have s': "keyed or_Slug (ad_orgs d')" by (simp add: distinct_map)
  show "ad_members d' = ad_members d" by (simp add: d')
  show ids: "or_ID ` set (ad_orgs d') = insert (or_ID o') (or_ID ` set (ad_orgs d))"
    unfolding d' using keys_upsert_row [of or_ID row "ad_orgs d"] row(1) by simp
  have "or_System o1 \<and> or_System o2 \<longrightarrow> o1 = o2" if "o1 \<in> set (ad_orgs d')" "o2 \<in> set (ad_orgs d')" for o1 o2
    using that sys assms(2) row(3) unfolding set' org_rows_def by auto
  moreover have "org_validateSlug (or_Slug q) = Inr ()" if "q \<in> set (ad_orgs d')" for q
    using that assms(2,3) row(2) unfolding set' org_rows_def by auto
  ultimately show "org_rows d'"
    using assms(2) k' s' ids unfolding org_rows_def by (auto simp: d')
qed

lemma SaveMembership_Inl: "SaveMembership m d = (Inl e, d') \<Longrightarrow> d' = d"
  by (auto simp: SaveMembership_def Let_def split: if_splits)

lemma SaveMembership_owners:
  assumes "SaveMembership m d = (Inr (), d')" "org_rows d"
    "mb_Role m = RoleOwner \<or>
      (\<forall>old. find_row member_key (member_key m) (ad_members d) = Some old \<longrightarrow> mb_Role old = RoleOwner \<longrightarrow> mb_Role m = RoleOwner)"
  shows "org_rows d'" "ad_orgs d' = ad_orgs d" "owners (ad_members d) \<subseteq> owners (ad_members d')"
    "mb_Role m = RoleOwner \<Longrightarrow> mb_OrgID m \<in> owners (ad_members d')"
proof -
  define row where "row = (case find_row member_key (member_key m) (ad_members d) of
    None \<Rightarrow> m | Some old \<Rightarrow> old\<lparr>mb_Role := mb_Role m, mb_System := mb_System m\<rparr>)"
  have row: "member_key row = member_key m" "mb_Role row = mb_Role m"
  proof -
    have "member_key row = member_key m \<and> mb_Role row = mb_Role m"
    proof (cases "find_row member_key (member_key m) (ad_members d)")
      case (Some old)
      then have "member_key old = member_key m" using find_row_SomeD by fastforce
      then show ?thesis by (simp add: row_def Some)
    qed (simp add: row_def)
    then show "member_key row = member_key m" "mb_Role row = mb_Role m" by blast+
  qed
  have org: "mb_OrgID m \<in> or_ID ` set (ad_orgs d)"
    using assms(1) find_row_fresh [of "mb_OrgID m" or_ID "ad_orgs d"] by (fastforce simp: SaveMembership_def split: if_splits)
  have d': "d' = d\<lparr>ad_members := upsert_row member_key row (ad_members d)\<rparr>" "role_IsValid (mb_Role m)"
    using assms(1) unfolding SaveMembership_def Let_def row_def [symmetric] by (auto split: if_splits)
  have k: "keyed member_key (ad_members d)" using assms(2) by (simp add: org_rows_def)
  have set': "set (ad_members d') = insert row {r \<in> set (ad_members d). member_key r \<noteq> member_key m}"
    unfolding d'(1) using set_upsert_row [OF k, of row] row(1) by simp
  show "ad_orgs d' = ad_orgs d" by (simp add: d'(1))
  have "keyed member_key (ad_members d')" unfolding d'(1) using keyed_upsert_row [OF k] by simp
  then show "org_rows d'"
    using assms(2) row d'(2) org unfolding org_rows_def set' by (simp add: d'(1))
  show own: "mb_Role m = RoleOwner \<Longrightarrow> mb_OrgID m \<in> owners (ad_members d')"
    using row unfolding owners_def set' by (intro CollectI exI [of _ row]) simp
  show "owners (ad_members d) \<subseteq> owners (ad_members d')"
  proof
    fix i assume "i \<in> owners (ad_members d)"
    then obtain q where q: "q \<in> set (ad_members d)" "mb_Role q = RoleOwner" "mb_OrgID q = i" by (auto simp: owners_def)
    show "i \<in> owners (ad_members d')"
    proof (cases "member_key q = member_key m")
      case True
      then have "find_row member_key (member_key m) (ad_members d) = Some q" using find_row_Some_iff [OF k] q(1) by blast
      then have "mb_Role m = RoleOwner" using assms(3) q(2) by auto
      then show ?thesis using own q(3) True by simp
    qed (use q in \<open>auto simp: owners_def set'\<close>)
  qed
qed

lemma SaveMembership_Inr:
  assumes "SaveMembership m d = (Inr (), d')" "org_rows d"
    "mb_Role m = RoleOwner \<or> (\<forall>old. find_row member_key (member_key m) (ad_members d) = Some old \<longrightarrow> mb_Role old = mb_Role m)"
  shows "org_rows d'" "ad_orgs d' = ad_orgs d" "owners (ad_members d) \<subseteq> owners (ad_members d')"
    "mb_Role m = RoleOwner \<Longrightarrow> mb_OrgID m \<in> owners (ad_members d')"
  by (rule SaveMembership_owners [OF assms(1,2)]; use assms(3) in auto)+

lemma SaveMembership_ok:
  "role_IsValid (mb_Role m) \<Longrightarrow> mb_OrgID m \<in> or_ID ` set (ad_orgs d) \<Longrightarrow> \<exists>d'. SaveMembership m d = (Inr (), d')"
  by (auto simp: SaveMembership_def Let_def table_simps)

section \<open>Creating organisations\<close>

text \<open>Saving an organisation and enrolling an owner.\<close>

lemma enrol_owner:
  assumes "org_Save o' d = (Inr (), d1)" "org_inv d" "org_validateSlug (or_Slug o') = Inr ()"
    "SaveMembership m d1 = (x, d2)" "mb_OrgID m = or_ID o'" "mb_Role m = RoleOwner"
  shows "org_inv d2" "x = Inr ()"
proof -
  note S = org_Save_Inr [OF assms(1) _ assms(3)]
  have rows: "org_rows d1" using S(1) assms(2) by (simp add: org_inv_def)
  have ids: "or_ID ` set (ad_orgs d1) = insert (or_ID o') (or_ID ` set (ad_orgs d))" "ad_members d1 = ad_members d"
    using S(2,3) assms(2) by (simp_all add: org_inv_def)
  show x: "x = Inr ()"
    using SaveMembership_ok [of m d1] assms(4-6) ids(1) by (auto simp: role_IsValid_def)
  note M = SaveMembership_Inr [OF assms(4) [unfolded x] rows disjI1 [OF assms(6)]]
  show "org_inv d2" using M assms(2,5,6) ids by (auto simp: org_inv_def)
qed

lemma NewOrg_Inr: "NewOrg id' now slug name ownerID = Inr o' \<Longrightarrow> org_validateSlug (or_Slug o') = Inr () \<and> or_ID o' = id'"
  by (auto simp: NewOrg_def Let_def split: sum.splits)

lemma NewMembership_Inr:
  "NewMembership now orgID userID role = Inr m \<Longrightarrow> mb_OrgID m = orgID \<and> mb_UserID m = userID \<and> mb_Role m = role"
  by (auto simp: NewMembership_def split: if_splits)

lemma NewMembership_owner: "\<exists>m. NewMembership now orgID userID RoleOwner = Inr m"
  by (simp add: NewMembership_def role_IsValid_def)

lemma createWithSlug_inv: "org_inv d \<Longrightarrow> org_inv (snd (createWithSlug id' now req chosen d))"
proof (cases "NewOrg id' now chosen (cr_Name req) (cr_OwnerID req)")
  case (Inr o')
  assume inv: "org_inv d"
  note o' = NewOrg_Inr [OF Inr]
  obtain m where m: "NewMembership now (or_ID o') (cr_OwnerID req) RoleOwner = Inr m" using NewMembership_owner by blast
  obtain x d1 where x: "org_Save o' d = (x, d1)" by fastforce
  obtain y d2 where y: "SaveMembership m d1 = (y, d2)" by fastforce
  show ?thesis
  proof (cases x)
    case (Inl e)
    then show ?thesis using inv x org_Save_Inl [of o' d e d1] by (auto simp: createWithSlug_def Inr split: sum.splits)
  next
    case u: (Inr u)
    have "org_inv d2" using enrol_owner(1) [OF _ inv _ y] x u o' NewMembership_Inr [OF m] by simp
    then show ?thesis using inv x u y m by (cases y) (auto simp: createWithSlug_def Inr split: sum.splits)
  qed
qed (auto simp: createWithSlug_def split: sum.splits)

lemma retry_loop_inv:
  assumes "\<And>s cand. org_inv s \<Longrightarrow> org_inv (snd (create cand s))"
  shows "org_inv s \<Longrightarrow> org_inv (snd (retry_loop n i prev gen taken create s))"
proof (induction n arbitrary: i prev s)
  case (Suc n)
  show ?case
    using assms [of s "gen i"] Suc by (auto split: prod.splits sum.splits)
qed simp

lemma orgs_Create_inv: "org_inv d \<Longrightarrow> org_inv (snd (orgs_Create oc gen id' now req d))"
  using createWithSlug_inv retry_loop_inv [of "createWithSlug id' now req"] by (simp add: orgs_Create_def Let_def slug_Retry_def)

lemma orgs_Rename_inv:
  assumes inv: "org_inv d"
  shows "org_inv (snd (orgs_Rename id' name d))"
proof (cases "find_row or_ID id' (ad_orgs d)")
  case (Some o')
  then have o': "o' \<in> set (ad_orgs d)" using find_row_SomeD by fastforce
  have "org_inv d1" if s: "org_Save o2 d = (Inr (), d1)" "org_Rename name o' = Inr o2" for o2 d1
  proof -
    have o2: "or_Slug o2 = or_Slug o'" "or_ID o2 = or_ID o'" using s(2) by (auto simp: org_Rename_def Let_def split: sum.splits)
    have "org_validateSlug (or_Slug o2) = Inr ()" using inv o' o2 by (simp add: org_inv_def org_rows_def)
    note S = org_Save_Inr [OF s(1) _ this]
    show ?thesis using S inv o' o2(2) by (auto simp: org_inv_def)
  qed
  then show ?thesis
    using inv org_Save_Inl by (auto simp: orgs_Rename_def org_ByID_def Some split: sum.splits prod.splits) metis+
qed (use inv in \<open>simp add: orgs_Rename_def org_ByID_def\<close>)

section \<open>Members\<close>

lemma AddMember_inv:
  assumes inv: "org_inv d"
  shows "org_inv (snd (AddMember now orgID userID role d))"
proof -
  have "org_inv d1" if s: "SaveMembership m d = (Inr (), d1)" "NewMembership now orgID userID role = Inr m"
      "store_MembershipOf orgID userID d = Inl e" for m d1 e
  proof -
    have "find_row member_key (member_key m) (ad_members d) = None"
      using s(3) NewMembership_Inr [OF s(2)] by (simp add: store_MembershipOf_def split: option.splits)
    then have "mb_Role m = RoleOwner \<or> (\<forall>old. find_row member_key (member_key m) (ad_members d) = Some old \<longrightarrow> mb_Role old = mb_Role m)" by simp
    note M = SaveMembership_Inr [OF s(1) _ this]
    show ?thesis using M inv by (auto simp: org_inv_def)
  qed
  then show ?thesis
    using inv SaveMembership_Inl by (auto simp: AddMember_def split: sum.splits prod.splits) metis+
qed

lemma hooks_same: "same_orgs d (snd (run_hooks [RevokePersonalOf now] c orgID userID d))"
proof -
  have "same_orgs d (snd (RevokePersonal (WithOrg c orgID) userID now d))"
  proof (cases "tenant_From (WithOrg c orgID)")
    case (Inr tc)
    show ?thesis unfolding RevokePersonal_def Inr sum.case by (simp add: same_orgs_def)
  qed (simp add: RevokePersonal_def)
  then show ?thesis by (auto simp: RevokePersonalOf_def split: prod.splits sum.splits)
qed

text \<open>A removal that is not refused leaves an owner: the actor, if the removed member was one.\<close>

lemma remove_keeps_owner:
  assumes inv: "org_inv d" and s: "store_MembershipOf orgID userID d = Inr m" "store_MembershipOf orgID actorID d = Inr actor"
      "RemovalRefusal orgID actorID userID (mb_Role actor) (mb_Role m) (mb_System m) = None"
      "same_orgs d d1" "store_RemoveMember orgID userID d1 = (Inr (), d2)"
  shows "org_inv d2"
proof -
  have rows: "org_rows d" "or_ID ` set (ad_orgs d) \<subseteq> owners (ad_members d)" using inv by (simp_all add: org_inv_def)
  have f: "find_row member_key (orgID, userID) (ad_members d) = Some m" "find_row member_key (orgID, actorID) (ad_members d) = Some actor"
    using s(1,2) by (simp_all add: store_MembershipOf_def split: option.splits)
  have m: "member_key m = (orgID, userID)" "m \<in> set (ad_members d)" and a: "member_key actor = (orgID, actorID)" "actor \<in> set (ad_members d)"
    using find_row_SomeD [OF f(1)] find_row_SomeD [OF f(2)] by blast+
  have ref: "actorID \<noteq> userID" "mb_Role m = RoleOwner \<longrightarrow> mb_Role actor = RoleOwner" using s(3) by (auto simp: RemovalRefusal_def split: if_splits)
  have d2: "ad_orgs d2 = ad_orgs d" "ad_members d2 = delete_row member_key (orgID, userID) (ad_members d)"
    using s(4,5) by (auto simp: store_RemoveMember_def same_orgs_def split: if_splits)
  have ow: "mb_OrgID p \<in> owners (ad_members d2)" if "p \<in> set (ad_members d)" "member_key p \<noteq> (orgID, userID)" "mb_Role p = RoleOwner" for p
    unfolding owners_def d2(2) using that by (intro CollectI exI [of _ p]) simp
  have "owners (ad_members d) \<subseteq> owners (ad_members d2)"
  proof
    fix i assume "i \<in> owners (ad_members d)"
    then obtain q where q: "q \<in> set (ad_members d)" "mb_Role q = RoleOwner" "mb_OrgID q = i" by (auto simp: owners_def)
    show "i \<in> owners (ad_members d2)"
    proof (cases "q = m")
      case True
      then show ?thesis using ow [of actor] a m(1) ref q by simp
    next
      case False
      have "member_key q \<noteq> (orgID, userID)"
      proof
        assume k: "member_key q = (orgID, userID)"
        have "keyed member_key (ad_members d)" using rows(1) by (simp add: org_rows_def)
        from find_row_Some_iff [OF this, of "(orgID, userID)" q] q(1) k
        have "find_row member_key (orgID, userID) (ad_members d) = Some q" by blast
        then show False using f(1) False by simp
      qed
      then show ?thesis using ow [of q] q by simp
    qed
  qed
  moreover have "org_rows d2"
    using rows(1) keyed_delete_row [of member_key "ad_members d" "(orgID, userID)"] unfolding org_rows_def d2 by simp
  ultimately show ?thesis using rows(2) by (auto simp: org_inv_def d2(1))
qed

lemma RemoveMember_inv:
  assumes inv: "org_inv d"
  shows "org_inv (snd (RemoveMember [RevokePersonalOf now] c orgID userID d))"
proof -
  obtain x d1 where x: "run_hooks [RevokePersonalOf now] (WithOrg c orgID) orgID userID d = (x, d1)" by fastforce
  obtain y d2 where y: "store_RemoveMember orgID userID d1 = (y, d2)" by fastforce
  have s1: "same_orgs d d1" using hooks_same [of d now "WithOrg c orgID" orgID userID] x by simp
  then have i1: "org_inv d1" using same_orgs_inv inv by blast
  have "y \<noteq> Inr () \<Longrightarrow> d2 = d1" using y by (auto simp: store_RemoveMember_def split: if_splits)
  then have gone: "y \<noteq> Inr () \<Longrightarrow> org_inv d2" using i1 by simp
  note keep = remove_keeps_owner [OF inv _ _ _ s1]
  show ?thesis
  proof (cases "tenant_From (WithOrg c orgID)")
    case (Inr tc)
    show ?thesis
      using inv i1 gone keep [of orgID userID _ "tc_UserID tc" _ d2] y unfolding RemoveMember_def Let_def Inr sum.case x
      by (cases y) (simp_all split: sum.split option.split)
  next
    case (Inl e)
    show ?thesis using inv unfolding RemoveMember_def Let_def Inl sum.case by (simp split: sum.split)
  qed
qed

section \<open>The bootstrap organisation\<close>

lemma adopt_member_inv:
  assumes inv: "org_inv d" and o': "existing \<in> set (ad_orgs d)"
  shows "org_inv (snd (adopt_member now existing ownerID d))"
proof -
  have keep: "org_inv d1" if s: "SaveMembership m d = (Inr (), d1)"
      "mb_Role m = RoleOwner \<or> (\<forall>old. find_row member_key (member_key m) (ad_members d) = Some old \<longrightarrow> mb_Role old = mb_Role m)" for m d1
    using SaveMembership_Inr [OF s(1) _ s(2)] inv by (auto simp: org_inv_def)
  show ?thesis
  proof (cases "find_row member_key (or_ID existing, ownerID) (ad_members d)")
    case None
    obtain m where m: "NewMembership now (or_ID existing) ownerID RoleOwner = Inr m" using NewMembership_owner by blast
    obtain x d1 where x: "SaveMembership (m\<lparr>mb_System := True\<rparr>) d = (x, d1)" by fastforce
    show ?thesis
      using keep [of "m\<lparr>mb_System := True\<rparr>" d1] SaveMembership_Inl [of "m\<lparr>mb_System := True\<rparr>" d _ d1] x inv m NewMembership_Inr [OF m]
      by (cases x) (auto simp: adopt_member_def store_MembershipOf_def None platform_error_defs)
  next
    case (Some m)
    then have k: "member_key m = (or_ID existing, ownerID)" using find_row_SomeD by fastforce
    obtain x d1 where x: "SaveMembership (m\<lparr>mb_System := True\<rparr>) d = (x, d1)" by fastforce
    show ?thesis
      using keep [of "m\<lparr>mb_System := True\<rparr>" d1] SaveMembership_Inl [of "m\<lparr>mb_System := True\<rparr>" d _ d1] x inv Some k
      by (cases x) (auto simp: adopt_member_def store_MembershipOf_def)
  qed
qed

lemma adoptSingleton_inv:
  assumes inv: "org_inv d" and o': "existing \<in> set (ad_orgs d)"
  shows "org_inv (snd (adoptSingleton now existing ownerID d))"
proof (cases "or_System existing")
  case False
  let ?e = "existing\<lparr>or_System := True\<rparr>"
  obtain x d1 where x: "org_Save ?e d = (x, d1)" by fastforce
  show ?thesis
  proof (cases x)
    case (Inl e)
    then show ?thesis using False x inv org_Save_Inl [of ?e d e d1] by (simp add: adoptSingleton_def)
  next
    case (Inr u)
    have slug: "org_validateSlug (or_Slug ?e) = Inr ()" using inv o' by (simp add: org_inv_def org_rows_def)
    have s: "org_Save ?e d = (Inr (), d1)" using x Inr by simp
    note S = org_Save_Inr [OF s _ slug]
    have inv1: "org_inv d1" using S inv o' by (auto simp: org_inv_def)
    have "or_ID ?e \<in> or_ID ` set (ad_orgs d1)" using S(3) inv by (simp add: org_inv_def)
    then obtain q where q: "q \<in> set (ad_orgs d1)" "or_ID q = or_ID ?e" by (metis imageE)
    have "adopt_member now ?e ownerID d1 = (case adopt_member now q ownerID d1 of (y, d2) \<Rightarrow> (map_sum id (\<lambda>_. ?e) y, d2))"
      using q(2) by (auto simp: adopt_member_def split: sum.splits prod.splits)
    then have "snd (adopt_member now ?e ownerID d1) = snd (adopt_member now q ownerID d1)" by (simp split: prod.splits)
    then show ?thesis using False x Inr adopt_member_inv [OF inv1 q(1)] by (simp add: adoptSingleton_def Let_def)
  qed
qed (use adopt_member_inv [OF inv o'] in \<open>simp add: adoptSingleton_def\<close>)

lemma insertSingleton_inv:
  assumes inv: "org_inv d"
  shows "org_inv (snd (insertSingleton now orgID slug name ownerID d))"
proof (cases "NewOrg orgID now slug name ownerID")
  case (Inr o0)
  let ?o = "o0\<lparr>or_System := True\<rparr>"
  have slug: "org_validateSlug (or_Slug ?o) = Inr ()" using NewOrg_Inr [OF Inr] by simp
  obtain m where m: "NewMembership now (or_ID ?o) ownerID RoleOwner = Inr m" using NewMembership_owner by blast
  obtain x d1 where x: "org_Save ?o d = (x, d1)" by fastforce
  obtain y d2 where y: "SaveMembership (m\<lparr>mb_System := True\<rparr>) d1 = (y, d2)" by fastforce
  show ?thesis
  proof (cases x)
    case (Inl e)
    then show ?thesis using inv x org_Save_Inl [of ?o d e d1] by (simp add: insertSingleton_def Inr Let_def)
  next
    case u: (Inr u)
    have s: "org_Save ?o d = (Inr (), d1)" using x u by simp
    have "org_inv d2" using enrol_owner(1) [OF s inv slug y] NewMembership_Inr [OF m] by simp
    then show ?thesis using x u y m by (cases y) (simp_all add: insertSingleton_def Inr Let_def)
  qed
qed (use inv in \<open>simp add: insertSingleton_def\<close>)

lemma store_SystemOrg_mem: "store_SystemOrg d = Inr o' \<Longrightarrow> o' \<in> set (ad_orgs d)"
proof -
  assume "store_SystemOrg d = Inr o'"
  then have "\<exists>os. filter or_System (ad_orgs d) = o' # os" by (auto simp: store_SystemOrg_def split: list.splits)
  then have "o' \<in> set (filter or_System (ad_orgs d))" by (metis list.set_intros(1))
  then show ?thesis by simp
qed

lemma org_BySlug_mem: "org_BySlug slug d = Inr o' \<Longrightarrow> o' \<in> set (ad_orgs d)"
  by (auto simp: org_BySlug_def find_Some_iff split: option.splits)

lemma ensureSingleton_inv:
  assumes inv: "org_inv d"
  shows "org_inv (snd (ensureSingleton gen now orgID slug name ownerID d))"
proof -
  have cand: "org_inv s \<Longrightarrow> org_inv (snd (singleton_candidate now orgID name ownerID cand s))" for s cand
    using insertSingleton_inv by (auto simp: singleton_candidate_def split: sum.splits)
  have ins: "org_inv d1" if "insertSingleton now orgID slug name ownerID d = (x, d1)" for x d1
    using insertSingleton_inv [OF inv, of now orgID slug name ownerID] that by simp
  show ?thesis
    using inv ins adoptSingleton_inv [OF inv] store_SystemOrg_mem [of d] org_BySlug_mem [of slug d]
      retry_loop_inv [of "singleton_candidate now orgID name ownerID", OF cand inv]
    unfolding ensureSingleton_def slug_Retry_def by (auto split: sum.splits prod.splits)
qed

lemma BootstrapSingleton_inv:
  assumes inv: "org_inv d"
  shows "org_inv (snd (BootstrapSingleton gen fresh now c slug name ownerID d))"
proof -
  let ?org = "snd (scopeForBootstrap fresh c ownerID)"
  obtain x d1 where x: "ensureSingleton gen now ?org (TrimSpace slug) name ownerID d = (x, d1)" by fastforce
  have inv1: "org_inv d1" using ensureSingleton_inv [OF inv, of gen now ?org "TrimSpace slug" name ownerID] x by simp
  show ?thesis
    using inv1 adoptSingleton_inv [OF inv1] store_SystemOrg_mem [of d1]
    unfolding BootstrapSingleton_def Let_def x by (auto split: sum.splits)
qed

section \<open>Keys leave organisations alone\<close>

lemma key_Save_same: "same_orgs d (snd (key_Save now c k d))"
proof -
  obtain x d' where x: "key_Save now c k d = (x, d')" by fastforce
  show ?thesis
  proof (rule key_Save_cases [OF x])
    fix tc d1 assume s: "key_save tc k d = (Inr (), d1)" "syncGrants now tc k d1 = (Inr (), d')"
    have "ad_orgs d1 = ad_orgs d" "ad_members d1 = ad_members d"
      using s(1) by (auto simp: key_save_def split: if_splits option.splits)
    then show ?thesis using syncGrants_Inr(3,4) [OF s(2)] x by (simp add: same_orgs_def)
  qed (simp add: x)
qed

lemma saveMinted_same: "same_orgs d (snd (saveMinted now c tc k plaintext d))"
  using key_Save_same [of d now c] by (auto simp: saveMinted_def Let_def split: prod.splits sum.splits) (metis snd_conv)+

lemma key_ops_same:
  "same_orgs d (snd (keys_Mint mi now c name scopes rs expiresAt d))" "same_orgs d (snd (keys_MintOrg mi now c name scopes g expiresAt d))"
  "same_orgs d (snd (keys_MintPersonal mi now c name scopes g expiresAt d))"
  by (auto simp: keys_Mint_def keys_MintOrg_def keys_MintPersonal_def saveMinted_same split: prod.splits sum.splits)

lemma promote_same: "same_orgs d (snd (promote now c id' widen d))"
  using key_Save_same [of d now c] by (auto simp: promote_def split: prod.splits sum.splits) (metis snd_conv)+

lemma keys_Revoke_same: "same_orgs d (snd (keys_Revoke now c id' d))"
proof (cases "loadForChange c id' d")
  case (Inr tk)
  obtain tc k where tk: "tk = (tc, k)" by fastforce
  let ?k = "if k_RevokedAt k = None then k\<lparr>k_RevokedAt := Some now\<rparr> else k"
  show ?thesis
    using key_Save_same [of d now c ?k] unfolding keys_Revoke_def Inr tk sum.case prod.case Let_def
    by (cases "key_Save now c ?k d"; cases "fst (key_Save now c ?k d)") simp_all
qed (simp add: keys_Revoke_def)

lemma TouchLastUsed_same: "same_orgs d (snd (TouchLastUsed c id' at d))"
proof (cases "tenant_From c")
  case (Inr tc)
  show ?thesis unfolding TouchLastUsed_def Inr sum.case by (simp add: same_orgs_def)
qed (simp add: TouchLastUsed_def)

lemma access_step_org_inv: "access_step d d' \<Longrightarrow> org_inv d \<Longrightarrow> org_inv d'"
proof (induction rule: access_step.induct)
  case (create oc gen id' now req d x d')
  then show ?case using orgs_Create_inv [of d oc gen id' now req] by simp
next
  case (bootstrap gen id' now c slug name ownerID d x d')
  then show ?case using BootstrapSingleton_inv [of d gen id' now c slug name ownerID] by simp
next
  case (rename id' name d x d')
  then show ?case using orgs_Rename_inv [of d id' name] by simp
next
  case (add_member now orgID userID role d x2 d')
  then show ?case using AddMember_inv [of d now orgID userID role] by simp
next
  case (remove_member now c orgID userID d u d')
  then show ?case using RemoveMember_inv [of d now c orgID userID] by simp
next
  case (project p d orgID)
  show ?case by (rule same_orgs_inv [OF _ project(2)]) (simp add: same_orgs_def)
next
  case (mint mi now c name scopes rs expiresAt d k d')
  then show ?case using same_orgs_inv [OF key_ops_same(1) [of d mi now c name scopes rs expiresAt]] by simp
next
  case (mint_org mi now c name scopes g expiresAt d k d')
  then show ?case using same_orgs_inv [OF key_ops_same(2) [of d mi now c name scopes g expiresAt]] by simp
next
  case (mint_personal mi now c name scopes g expiresAt d k d')
  then show ?case using same_orgs_inv [OF key_ops_same(3) [of d mi now c name scopes g expiresAt]] by simp
next
  case (grant now c id' ps d k2 d')
  have "same_orgs d (snd (keys_GrantProjects now c id' ps d))" unfolding keys_GrantProjects_def by (rule promote_same)
  then show ?case using grant same_orgs_inv [of d d'] by simp
next
  case (grant_all now c id' d k2 d')
  have "same_orgs d (snd (keys_GrantAllProjects now c id' d))" unfolding keys_GrantAllProjects_def by (rule promote_same)
  then show ?case using grant_all same_orgs_inv [of d d'] by simp
next
  case (revoke now c id' d u d')
  then show ?case using same_orgs_inv [OF keys_Revoke_same [of d now c id']] by simp
next
  case (touch c id' at d u d')
  then show ?case using same_orgs_inv [OF TouchLastUsed_same [of d c id' at]] by simp
qed

lemma access_reachable_org_inv: "access_reachable d \<Longrightarrow> org_inv d"
proof (induction rule: access_reachable.induct)
  case empty
  show ?case by (simp add: org_inv_def org_rows_def no_access_def)
qed (rule access_step_org_inv)

section \<open>Accounts, projects and invites\<close>

text \<open>The operations that leave organisations and memberships as they are.\<close>

definition orgs_frame :: "identity_db \<Rightarrow> identity_db \<Rightarrow> bool" where
  "orgs_frame d d' \<longleftrightarrow> same_orgs (id_access d) (id_access d')"

interpretation orgs: state_frame orgs_frame
  by unfold_locales (simp_all add: orgs_frame_def same_orgs_def)

lemma orgs_users: "orgs_frame d (snd (on_users f d))"
  by (simp add: on_users_def orgs_frame_def split: prod.split)

lemma orgs_project_Save: "orgs_frame d (snd (project_Save c p d))"
  by (simp add: project_Save_def put_projects_def orgs_frame_def same_orgs_def split: sum.split option.split)

lemma orgs_saved:
  assumes "\<And>e d1. snd (g (Inl e, d1)) = d1" "\<And>y d1. snd (g (Inr y, d1)) = d1"
  shows "orgs_frame d (snd (g (project_Save c p d)))"
  by (rule frame_case [where R = orgs_frame and f = "project_Save c p", OF orgs_project_Save assms])

lemma orgs_createWithSlug: "orgs_frame d (snd (project_createWithSlug id' now c orgID name system chosen d))"
proof (cases "project_BySlug c orgID chosen d")
  case (Inl e)
  then show ?thesis using orgs.same
    by (cases "project_New id' now orgID chosen name") (auto simp: project_createWithSlug_def Let_def intro!: orgs_saved)
qed (simp add: project_createWithSlug_def orgs.same)

lemma orgs_projects_Create: "orgs_frame d (snd (projects_Create gen id' now c orgID slug name d))"
  using orgs.same orgs_createWithSlug orgs.retry [of "project_createWithSlug id' now c orgID name False"]
  unfolding projects_Create_def by (auto split: sum.split)

lemma orgs_ensureSystem: "orgs_frame d (snd (ensureSystem gen id' now c orgID slug name d))"
proof -
  have retry: "orgs_frame d (snd (slug_Retry 5 gen project_IsAlreadyExistsError (project_createWithSlug id' now c orgID name True) d))"
    by (rule orgs.retry) (rule orgs_createWithSlug)
  have promote: "orgs_frame d (snd (case project_Save c q d of
      (Inl e, d1) \<Rightarrow> (Inl (if IsSystemProjectExistsError e then e else Unexpected ''project.BootstrapSystem: promote'' e), d1)
    | (Inr _, d1) \<Rightarrow> (Inr q, d1)))" for q
    by (rule orgs_saved) simp_all
  show ?thesis
    using retry orgs_createWithSlug promote orgs.same
    by (cases "project_BySlug c orgID slug d") (simp_all add: ensureSystem_def Let_def split: sum.split option.split)
qed

lemma orgs_BootstrapSystem: "orgs_frame d (snd (BootstrapSystem gen id' now c orgID slug name d))"
proof -
  obtain x d1 where e: "ensureSystem gen id' now c orgID (TrimSpace slug) name d = (x, d1)" by fastforce
  have "orgs_frame d d1" using orgs_ensureSystem [of d gen id' now c orgID "TrimSpace slug" name] e by simp
  then show ?thesis using orgs.same e unfolding BootstrapSystem_def by (auto split: sum.split option.split)
qed

lemma orgs_projects_Rename: "orgs_frame d (snd (projects_Rename c id' name d))"
proof -
  have "orgs_frame d (snd (case project_Save c q d of
      (Inl e, d1) \<Rightarrow> (Inl (Unexpected ''project.Rename: save'' e), d1) | (Inr _, d1) \<Rightarrow> (Inr q, d1)))" for q
    by (rule orgs_saved) simp_all
  then show ?thesis using orgs.same by (simp add: projects_Rename_def split: sum.split)
qed

lemma orgs_invite_Save: "orgs_frame d (snd (invite_Save c i d))"
  by (simp add: invite_Save_def orgs_frame_def split: sum.split option.split)

lemma orgs_Send: "orgs_frame d (snd (invites_Send enabled sha token mail id' now c req d))"
proof -
  have save: "orgs_frame d d1" if "invite_Save c i d = (x, d1)" for i x d1 using orgs_invite_Save [of d c i] that by simp
  have "orgs_frame d (snd (SendWorkflow_Execute sha token mail id' now c req d))"
    unfolding SendWorkflow_Execute_def Let_def using orgs.same by (auto split: sum.split prod.split intro: save)
  then show ?thesis using orgs.same by (simp add: invites_Send_def)
qed

lemma orgs_Revoke: "orgs_frame d (snd (invites_Revoke c id' d))"
proof -
  have "orgs_frame d (snd (invite_Delete c id' d))"
    by (simp add: invite_Delete_def Let_def orgs_frame_def split: sum.split)
  then have "orgs_frame d (snd (case invite_Delete c id' d of
      (Inl e, d1) \<Rightarrow> (Inl (if invite_IsNotFoundError e then e else Unexpected ''invite.Revoke: delete'' e), d1) | (Inr _, d1) \<Rightarrow> (Inr (), d1)))"
    by (rule frame_case) simp_all
  then show ?thesis using orgs.same by (simp add: invites_Revoke_def split: sum.split)
qed

lemma orgs_ensureUser: "orgs_frame d (snd (ensureUser fresh email name d))"
proof -
  have "orgs_frame d (snd (userStoreForInvite_Save u d))" for u unfolding userStoreForInvite_Save_def by (rule orgs_users)
  then show ?thesis using orgs.same unfolding ensureUser_def Let_def by (auto split: sum.split prod.split) (metis snd_conv)+
qed

lemma orgs_Complete: "orgs_frame d (snd (onboard_Complete now by' method d))"
proof -
  have "orgs_frame d (snd (onboard_Save b d))" for b by (simp add: onboard_Save_def orgs_frame_def)
  then have "orgs_frame d (snd (case onboard_Save b d of
      (Inl e, d1) \<Rightarrow> (Inl (if IsAlreadyOnboardedError e then e else Unexpected ''onboard.Complete: save'' e), d1) | (Inr _, d1) \<Rightarrow> (Inr b, d1)))" for b
    by (rule frame_case) simp_all
  then show ?thesis using orgs.same by (simp add: onboard_Complete_def split: sum.split)
qed

lemma orgs_bootstrap: "orgs_frame d (snd (bootstrap genesisEmail d))"
proof -
  have "orgs_frame d (snd (case on_users (ReconcileGenesisAdmin genesisEmail) d of
      (Inl e, d1) \<Rightarrow> (Inl e, d1) | (Inr _, d1) \<Rightarrow> (Inr (\<not> required), d1)))" for required
    by (rule frame_case [where R = orgs_frame, OF orgs_users]) simp_all
  then show ?thesis using orgs.same by (simp add: bootstrap_def split: sum.split)
qed

section \<open>Joining\<close>

text \<open>The invariant as a frame, for the operations that write a membership.\<close>

definition owned_frame :: "identity_db \<Rightarrow> identity_db \<Rightarrow> bool" where
  "owned_frame d d' \<longleftrightarrow> (org_inv (id_access d) \<longrightarrow> org_inv (id_access d'))"

interpretation owned: state_frame owned_frame
  by unfold_locales (simp_all add: owned_frame_def)

lemma owned_orgs: "orgs_frame d d' \<Longrightarrow> owned_frame d d'"
  using same_orgs_inv by (simp add: orgs_frame_def owned_frame_def)

definition owner_in :: "uuid \<Rightarrow> uuid \<Rightarrow> identity_db \<Rightarrow> bool" where
  "owner_in orgID userID d \<longleftrightarrow> (\<exists>m. find_row member_key (orgID, userID) (ad_members (id_access d)) = Some m \<and> mb_Role m = RoleOwner)"

lemma membership_owned:
  assumes "orgStoreForInvite_SaveMembership orgID userID role d = (x, d')" "role = RoleOwner \<or> \<not> owner_in orgID userID d"
  shows "owned_frame d d'"
proof -
  let ?m = "\<lparr>mb_OrgID = orgID, mb_UserID = userID, mb_Role = role, mb_CreatedAt = time_Zero, mb_System = False\<rparr>"
  obtain a' where a: "SaveMembership ?m (id_access d) = (x, a')" "d' = d\<lparr>id_access := a'\<rparr>"
    using assms(1) by (auto simp: orgStoreForInvite_SaveMembership_def on_access_def split: prod.splits)
  show ?thesis
  proof (cases x)
    case (Inl e)
    then show ?thesis using SaveMembership_Inl [of ?m "id_access d" e a'] a by (simp add: owned_frame_def)
  next
    case (Inr u)
    show ?thesis unfolding owned_frame_def
    proof
      assume inv: "org_inv (id_access d)"
      have "org_rows a' \<and> ad_orgs a' = ad_orgs (id_access d) \<and> owners (ad_members (id_access d)) \<subseteq> owners (ad_members a')"
        using SaveMembership_owners [of ?m "id_access d" a'] a(1) Inr inv assms(2) by (auto simp: org_inv_def owner_in_def)
      then show "org_inv (id_access d')" using inv by (auto simp: org_inv_def a(2))
    qed
  qed
qed

lemma orgs_owner: "orgs_frame d d' \<Longrightarrow> owner_in orgID userID d' = owner_in orgID userID d"
  by (simp add: orgs_frame_def same_orgs_def owner_in_def)

text \<open>At login a person joins only an organisation they are no member of.\<close>

lemma join_owned:
  assumes "\<not> owner_in orgID userID d"
  shows "owned_frame d (snd (join_by_invite now c orgID userID i d))"
proof -
  obtain x1 d1 where 1: "inviteStoreForOnboard_Save (WithOrg c (iv_OrgID i)) (iv_ID i) (Some now) d = (x1, d1)" by fastforce
  obtain x2 d2 where 2: "orgStoreForInvite_SaveMembership orgID userID (iv_Role i) d1 = (x2, d2)" by fastforce
  have "orgs_frame d (snd (inviteStoreForOnboard_Save c' id' (Some now) d))" for c' id'
    using orgs.same orgs_invite_Save by (auto simp: inviteStoreForOnboard_Save_def split: sum.split)
  then have f: "orgs_frame d d1" using 1 by (metis snd_conv)
  have "owned_frame d1 d2" using membership_owned [OF 2] assms orgs_owner [OF f] by blast
  then show ?thesis unfolding join_by_invite_def 1 using 2 owned_orgs [OF f] owned.seq by (auto split: sum.split)
qed

lemma no_orgs_no_owner:
  assumes "org_List userID (id_access d) = []" "org_inv (id_access d)"
  shows "\<not> owner_in orgID userID d"
proof
  assume "owner_in orgID userID d"
  then obtain m where m: "find_row member_key (orgID, userID) (ad_members (id_access d)) = Some m" by (auto simp: owner_in_def)
  then have "m \<in> set (ad_members (id_access d))" "mb_OrgID m = orgID" "mb_UserID m = userID"
    using find_row_SomeD [OF m] by auto
  moreover then obtain o' where "o' \<in> set (ad_orgs (id_access d))" "or_ID o' = orgID" using assms(2) by (auto simp: org_inv_def org_rows_def)
  moreover have "set (org_List userID (id_access d)) = {}" using assms(1) by simp
  ultimately show False by (auto simp: org_List_def list_ex_iff)
qed

lemma Onboard_owned: "owned_frame d (snd (Onboard mode now c userID email d))"
proof (cases "org_inv (id_access d)")
  case True
  have self: "\<not> owner_in orgID userID d" if "store_MembershipOf orgID userID (id_access d) = Inl e" for orgID e
    using that by (auto simp: store_MembershipOf_def owner_in_def split: option.splits)
  have cloud: "\<not> owner_in orgID userID d" if "org_List userID (id_access d) = []" for orgID
    by (rule no_orgs_no_owner [OF that True])
  show ?thesis
    using owned.same join_owned self cloud
    by (auto simp: Onboard_def onboardSelfhosted_def onboardCloud_def split: sum.split option.split list.split)
qed (simp add: owned_frame_def)

lemma OIDCLogin_owned: "owned_frame d (snd (OIDCLogin_Execute mode fresh now c claims d))"
proof -
  obtain x1 d1 where 1: "on_users (EnsureFromOIDC fresh now claims) d = (x1, d1)" by fastforce
  have f1: "owned_frame d d1" using owned_orgs [OF orgs_users [of d "EnsureFromOIDC fresh now claims"]] 1 by simp
  have f2: "owned_frame d (snd (Onboard m now c u e d1))" for m u e
    using owned.seq [OF f1 Onboard_owned] .
  have tail: "snd (case Onboard m now c u e d1 of (Inr (orgID, projectID), d2) \<Rightarrow> (Inr (f orgID projectID), d2)
      | (Inl e, d2) \<Rightarrow> (case root_cause e of EUser (SignupRequiredError _ _) \<Rightarrow> (Inr p, d2) | _ \<Rightarrow> (Inl (g e), d2))) = snd (Onboard m now c u e d1)"
    for m u e f p g by (cases "Onboard m now c u e d1"; cases "fst (Onboard m now c u e d1)") (auto split: err.split user_error.split)
  have "owned_frame d (snd (case x1 of Inl e \<Rightarrow> (Inl (typed_or ''auth.OIDCLogin.Execute: ensureFromOIDC'' e), d1) | Inr u \<Rightarrow>
      let p = (principalFromRef u SourceOIDC now)\<lparr>pr_IDPIssuer := cl_Issuer claims, pr_IDPSubject := cl_Subject claims\<rparr> in
      case Onboard (if mode = ''selfhosted'' then ''selfhosted'' else ''cloud'') now c (u_ID u) (u_Email u) d1 of
        (Inr (orgID, projectID), d2) \<Rightarrow> (Inr (p\<lparr>pr_ActiveOrgID := orgID, pr_ActiveProjectID := projectID\<rparr>), d2)
      | (Inl e, d2) \<Rightarrow> (case root_cause e of EUser (SignupRequiredError _ _) \<Rightarrow> (Inr p, d2)
          | _ \<Rightarrow> (Inl (typed_or ''auth.OIDCLogin.Execute: onboard'' e), d2))))"
    unfolding Let_def by (cases x1) (simp_all only: sum.case tail snd_conv f1 f2)
  then show ?thesis unfolding OIDCLogin_Execute_def 1 prod.case
    using owned.same by (cases "allowSignup mode (cl_Email claims) d") simp_all
qed

text \<open>An acceptance is an owner's loss when it writes a lesser role over an owner's membership.\<close>

definition demotes :: "identity_db \<Rightarrow> identity_db \<Rightarrow> bool" where
  "demotes d d' \<longleftrightarrow> (\<exists>orgID userID. owner_in orgID userID d \<and> \<not> owner_in orgID userID d')"

lemma redeem_owned:
  assumes "redeem fresh now c email name i d = (r, d')" "\<not> demotes d d'"
  shows "owned_frame d d'"
proof -
  obtain x1 d1 where 1: "ensureUser fresh email name d = (x1, d1)" by fastforce
  have f1: "orgs_frame d d1" using orgs_ensureUser [of d fresh email name] 1 by simp
  show ?thesis
  proof (cases "\<exists>usr o'. x1 = Inr usr \<and> org_ByID (iv_OrgID i) (id_access d1) = Inr o'")
    case False
    then have "d' = d1" using assms(1) 1 by (auto simp: redeem_def split: sum.splits prod.splits)
    then show ?thesis using owned_orgs [OF f1] by simp
  next
    case True
    then obtain usr o' where x: "x1 = Inr usr" "org_ByID (iv_OrgID i) (id_access d1) = Inr o'" by blast
    obtain x2 d2 where 2: "orgStoreForInvite_SaveMembership (iv_OrgID i) (ur_ID usr) (iv_Role i) d1 = (x2, d2)" by fastforce
    have f3: "orgs_frame d2 d'"
      using assms(1) 1 2 x orgs.same orgs_invite_Save unfolding redeem_def by (auto split: sum.splits prod.splits) (metis snd_conv)+
    have keep: "iv_Role i = RoleOwner \<or> \<not> owner_in (iv_OrgID i) (ur_ID usr) d1" if "x2 = Inr ()"
    proof (rule ccontr)
      assume n: "\<not> ?thesis"
      then have "owner_in (iv_OrgID i) (ur_ID usr) d'"
        using assms(2) orgs_owner [OF f1, of "iv_OrgID i" "ur_ID usr"] by (auto simp: demotes_def)
      then have "owner_in (iv_OrgID i) (ur_ID usr) d2" using orgs_owner [OF f3] by blast
      moreover have "\<exists>m. find_row member_key (iv_OrgID i, ur_ID usr) (ad_members (id_access d2)) = Some m \<and> mb_Role m = iv_Role i"
        using enrolled(1) [OF 2 [unfolded that]] by blast
      ultimately show False using n by (auto simp: owner_in_def)
    qed
    have "owned_frame d1 d2"
    proof (cases x2)
      case (Inl e)
      then have "d2 = d1" using 2 SaveMembership_Inl
        by (fastforce simp: orgStoreForInvite_SaveMembership_def on_access_def split: prod.splits)
      then show ?thesis by (simp add: owned.same)
    next
      case (Inr u)
      then show ?thesis using membership_owned [OF 2] keep by simp
    qed
    then show ?thesis using owned_orgs [OF f1] owned_orgs [OF f3] owned.seq by blast
  qed
qed

lemma Accept_owned:
  assumes "AcceptWorkflow_Execute sha fresh now c req d = (r, d')" "\<not> demotes d d'"
  shows "owned_frame d d'"
  using assms(1) redeem_owned [OF _ assms(2)] owned.same unfolding Accept_unfold
  by (auto split: if_splits sum.splits)

lemma identity_step_owned:
  assumes "identity_step sha H d d'"
    and "\<And>fresh now c req r. AcceptWorkflow_Execute sha fresh now c req d = (r, d') \<Longrightarrow> \<not> demotes d d'"
  shows "owned_frame d d'"
  using assms
proof (induction rule: identity_step.induct)
  case (organisation d a')
  then show ?case using access_step_org_inv by (simp add: owned_frame_def)
next
  case (accept fresh now c areq d a d')
  then show ?case using Accept_owned by blast
next
  case (oidc_login mode fresh now c claims d p d')
  then show ?case using OIDCLogin_owned by (metis snd_conv)
next
  case (onboard mode now c userID email d r d')
  then show ?case using Onboard_owned by (metis snd_conv)
qed (metis snd_conv owned_orgs orgs_users orgs_Complete orgs_bootstrap orgs_projects_Create orgs_BootstrapSystem orgs_projects_Rename orgs_Send orgs_Revoke)+

text \<open>
  The runs from an empty deployment by any identity steps, but for an acceptance in
  which an owner loses the role.
\<close>

definition owner_accepts_less :: "(string \<Rightarrow> string) \<Rightarrow> identity_db \<Rightarrow> identity_db \<Rightarrow> bool" where
  "owner_accepts_less sha d d' \<longleftrightarrow> demotes d d' \<and> (\<exists>fresh now c req r. AcceptWorkflow_Execute sha fresh now c req d = (r, d'))"

inductive owned_reachable :: "(string \<Rightarrow> string) \<Rightarrow> string set \<Rightarrow> identity_db \<Rightarrow> bool" for sha H where
  empty: "owned_reachable sha H no_identity"
| step: "owned_reachable sha H d \<Longrightarrow> identity_step sha H d d' \<Longrightarrow> \<not> owner_accepts_less sha d d' \<Longrightarrow> owned_reachable sha H d'"

lemma owned_reachable_inv: "owned_reachable sha H d \<Longrightarrow> org_inv (id_access d)"
proof (induction rule: owned_reachable.induct)
  case empty
  show ?case by (simp add: org_inv_def org_rows_def no_identity_def no_access_def)
next
  case (step d d')
  have "owned_frame d d'"
    by (rule identity_step_owned [OF step(2)]) (use step(3) in \<open>auto simp: owner_accepts_less_def\<close>)
  then show ?case using step(4) by (simp add: owned_frame_def)
qed

section \<open>Generated slugs\<close>

definition word :: "string \<Rightarrow> bool" where
  "word w \<longleftrightarrow> 4 \<le> length w \<and> length w \<le> 8 \<and> list_all (\<lambda>c. 97 \<le> byte c \<and> byte c \<le> 122) w"

lemma words: "list_all word adjectives" "list_all word nouns" "distinct adjectives" "distinct nouns" "length adjectives = 48" "length nouns = 48"
  by code_simp+

lemma words_nth: "word (adjectives ! (i mod 48))" "word (nouns ! (j mod 48))"
  using words by (auto simp: list_all_length)

lemma word_no_dash: "word w \<Longrightarrow> CHR ''-'' \<notin> set w"
  by (auto simp: word_def list_all_iff byte_def)

lemma word_slug: "word w \<Longrightarrow> list_all slug_char w"
  by (auto simp: word_def list_all_iff slug_char_def)

abbreviation suffix_of :: "nat \<Rightarrow> string" where
  "suffix_of k \<equiv> utoa (1000 + int (k mod 9000))"

lemma Generate_parts: "slug_Generate i j k = adjectives ! (i mod 48) @ CHR ''-'' # nouns ! (j mod 48) @ CHR ''-'' # suffix_of k"
  by (simp add: slug_Generate_def words FormatInt_def)

lemma suffix_props: "list_all is_digit (suffix_of k)" "suffix_of k \<noteq> []" "length (suffix_of k) \<le> 4"
proof -
  have n: "0 \<le> 1000 + int (k mod 9000)" "1000 + int (k mod 9000) < 10 ^ 4" by auto
  show "list_all is_digit (suffix_of k)" using utoa_digits [OF n(1)] by (simp add: list_all_iff)
  show "suffix_of k \<noteq> []" by simp
  show "length (suffix_of k) \<le> 4" using length_utoa [OF n(1) n(2)] by simp
qed

lemma split_dash: "CHR ''-'' \<notin> set a \<Longrightarrow> CHR ''-'' \<notin> set b \<Longrightarrow> a @ CHR ''-'' # x = b @ CHR ''-'' # y \<longleftrightarrow> a = b \<and> x = y"
proof (induction a arbitrary: b)
  case Nil
  then show ?case by (cases b) auto
next
  case (Cons c a)
  then show ?case by (cases b) auto
qed

lemma Generate_inj:
  "slug_Generate i j k = slug_Generate i' j' k' \<longleftrightarrow> i mod 48 = i' mod 48 \<and> j mod 48 = j' mod 48 \<and> k mod 9000 = k' mod 9000"
proof -
  have nth: "adjectives ! (i mod 48) = adjectives ! (i' mod 48) \<longleftrightarrow> i mod 48 = i' mod 48"
    "nouns ! (j mod 48) = nouns ! (j' mod 48) \<longleftrightarrow> j mod 48 = j' mod 48"
    using nth_eq_iff_index_eq [OF words(3)] nth_eq_iff_index_eq [OF words(4)] words(5,6) by simp_all
  have suf: "suffix_of k = suffix_of k' \<longleftrightarrow> k mod 9000 = k' mod 9000"
  proof
    assume "suffix_of k = suffix_of k'"
    then have "digits_val (suffix_of k) = digits_val (suffix_of k')" by simp
    then show "k mod 9000 = k' mod 9000" by simp
  qed simp
  show ?thesis
    unfolding Generate_parts by (simp add: split_dash word_no_dash words_nth nth suf)
qed

text \<open>Every generated slug is one the organisations accept, and there are exactly \<open>Combinations\<close> of them.\<close>

theorem generated_slugs_are_valid:
  "org_validateSlug (slug_Generate i j k) = Inr () \<and> card {slug_Generate i j k |i j k. True} = slug_Combinations"
proof
  let ?a = "adjectives ! (i mod 48)" and ?n = "nouns ! (j mod 48)"
  note w = words_nth(1) [of i] words_nth(2) [of j] and s = suffix_props [of k]
  have a: "?a \<noteq> []" "4 \<le> length ?a" "length ?a \<le> 8" "length ?n \<le> 8" using w by (auto simp: word_def)
  have "list_all slug_char (suffix_of k)" using s(1) by (auto simp: list_all_iff slug_char_def)
  then have all: "list_all (\<lambda>c. slug_char c \<or> c = CHR ''-'') (slug_Generate i j k)" "slug_char (last (slug_Generate i j k))"
    "slug_char (hd (slug_Generate i j k))"
    using word_slug [OF w(1)] word_slug [OF w(2)] s(2) a(1) unfolding Generate_parts by (auto simp: list_all_iff)
  have "4 \<le> length (slug_Generate i j k)" "length (slug_Generate i j k) \<le> 64" using a s(3) unfolding Generate_parts by simp_all
  then show "org_validateSlug (slug_Generate i j k) = Inr ()"
    using all by (auto simp: org_validateSlug_def org_slugRe_def)
  let ?f = "\<lambda>(i, j, k). slug_Generate i j k" and ?D = "{..<48::nat} \<times> {..<48::nat} \<times> {..<9000::nat}"
  have "{slug_Generate i j k |i j k. True} = ?f ` ?D"
  proof
    show "{slug_Generate i j k |i j k. True} \<subseteq> ?f ` ?D"
    proof clarify
      fix i j k
      have "slug_Generate i j k = ?f (i mod 48, j mod 48, k mod 9000)" by (simp add: Generate_inj)
      then show "slug_Generate i j k \<in> ?f ` ?D" by (rule image_eqI) simp
    qed
  qed auto
  moreover have "inj_on ?f ?D" by (auto simp: inj_on_def Generate_inj)
  moreover have "card ?D = 48 * (48 * 9000)" by (simp add: card_cartesian_product)
  ultimately show "card {slug_Generate i j k |i j k. True} = slug_Combinations"
    by (simp add: card_image slug_Combinations_def words)
qed

end
