(* ===== verification/IdentityProperties.thy ===== *)
theory IdentityProperties
  imports OrgProperties
begin

text \<open>
  The properties of identity: organisations keep an owner, the tables stay well formed, an invite is redeemed at
  most once, an OIDC identity keeps its account, and a password opens the account it
  was set for.
\<close>

section \<open>A small deployment\<close>

text \<open>A digest of 32 bytes that tells passwords apart by their last character, and a token hash.\<close>

definition w_IDKey :: argon2 where
  "w_IDKey p s t m th k = replicate 31 (CHR ''z'') @ [if p = [] then CHR ''0'' else last p]"

definition w_sha :: "string \<Rightarrow> string" where "w_sha s = s"

definition w_ctx :: ctx where
  "w_ctx = \<lparr>ctx_tenant = Some \<lparr>tc_OrgID = 10, tc_ProjectID = 0, tc_UserID = 1\<rparr>, ctx_principal = None, ctx_uow = False\<rparr>"

definition w_ann :: CreateUserRequest where
  "w_ann = \<lparr>cu_Email = ''Ann@x.id'', cu_Name = ''Ann'', cu_Source = ''local'', cu_Password = ''secret ''\<rparr>"

definition w_send :: SendRequest where
  "w_send = \<lparr>sr_Email = ''bob@x.id'', sr_Role = RoleMember, sr_TTL = 0\<rparr>"

definition w_accept :: AcceptRequest where
  "w_accept = \<lparr>ar_Token = ''t'', ar_Email = ''Bob@x.id'', ar_Name = ''''\<rparr>"

definition w_claims :: "bool \<Rightarrow> Claims" where
  "w_claims v = \<lparr>cl_Issuer = ''idp'', cl_Subject = ''s1'', cl_Email = ''ann@x.id'', cl_EmailVerified = v, cl_Name = ''Ann''\<rparr>"

text \<open>The states of a run: an account, an organisation, an invite, and the invite redeemed.\<close>

definition w_user :: User where
  "w_user = \<lparr>u_ID = 1, u_Email = ''ann@x.id'', u_Name = ''Ann'', u_Source = '''', u_IDPIssuer = '''', u_IDPSubject = '''',
     u_PasswordHash = ''$argon2id$v=19$m=19456,t=2,p=1$c2FsdA$enp6enp6enp6enp6enp6enp6enp6enp6enp6enp6enQ'', u_IsAdmin = True,
     u_Locale = '''', u_TermsAcceptedAt = None, u_CreatedAt = 5\<rparr>"

definition w_bob :: User where
  "w_bob = \<lparr>u_ID = 2, u_Email = ''bob@x.id'', u_Name = ''bob'', u_Source = '''', u_IDPIssuer = '''', u_IDPSubject = '''', u_PasswordHash = '''',
     u_IsAdmin = False, u_Locale = '''', u_TermsAcceptedAt = None, u_CreatedAt = - 62135596800000000000\<rparr>"

definition w_owner :: Membership where
  "w_owner = \<lparr>mb_OrgID = 10, mb_UserID = 1, mb_Role = RoleOwner, mb_CreatedAt = 6, mb_System = False\<rparr>"

definition w_member :: Membership where
  "w_member = \<lparr>mb_OrgID = 10, mb_UserID = 2, mb_Role = RoleMember, mb_CreatedAt = - 62135596800000000000, mb_System = False\<rparr>"

definition w_access :: access_db where
  "w_access = no_access\<lparr>ad_orgs := [\<lparr>or_ID = 10, or_Slug = ''acme'', or_Name = ''Acme'', or_OwnerID = 1, or_CreatedAt = 6, or_System = False\<rparr>],
     ad_members := [w_owner]\<rparr>"

definition w_invite :: Invite where
  "w_invite = \<lparr>iv_ID = 20, iv_OrgID = 10, iv_Email = ''bob@x.id'', iv_Role = RoleMember, iv_TokenHash = ''74'',
     iv_ExpiresAt = 604800000000007, iv_UsedAt = None, iv_CreatedAt = 7\<rparr>"

definition w1 :: identity_db where "w1 = no_identity\<lparr>id_users := [w_user]\<rparr>"
definition w2 :: identity_db where "w2 = w1\<lparr>id_access := w_access\<rparr>"
definition w3 :: identity_db where "w3 = w2\<lparr>id_invites := [w_invite]\<rparr>"
definition w4 :: identity_db where
  "w4 = w3\<lparr>id_access := w_access\<lparr>ad_members := [w_owner, w_member]\<rparr>, id_users := [w_user, w_bob], id_invites := [w_invite\<lparr>iv_UsedAt := Some 8\<rparr>]\<rparr>"

lemma w1_run: "snd (on_users (users_Create w_IDKey ''salt'' 1 5 w_ann) no_identity) = w1"
  by code_simp

lemma w2_run: "snd (orgs_Create True (\<lambda>_. '''') 10 6 \<lparr>cr_Slug = ''acme'', cr_Name = ''Acme'', cr_OwnerID = 1\<rparr> (id_access w1)) = w_access"
  by code_simp

lemma w3_run: "snd (invites_Send True w_sha (Inr ''t'') (\<lambda>_ _. Inr ()) 20 7 w_ctx w_send w2) = w3"
  by code_simp

lemma w4_run: "AcceptWorkflow_Execute w_sha 2 8 w_ctx w_accept w3 =
    (Inr (w_invite\<lparr>iv_UsedAt := Some 8\<rparr>, \<lparr>ur_ID = 2, ur_Email = ''bob@x.id'', ur_Name = ''bob'', ur_Source = ''invite''\<rparr>, RoleMember), w4)"
  by code_simp

lemma run_pair: "snd r = d' \<Longrightarrow> r = (fst r, d')"
  by (metis prod.collapse)

lemma w_steps: "identity_step w_sha {} no_identity w1" "identity_step w_sha {} w1 w2" "identity_step w_sha {} w2 w3"
proof -
  show "identity_step w_sha {} no_identity w1" by (rule identity_step.create_user [OF run_pair [OF w1_run]])
  have "access_step (id_access w1) w_access" by (rule access_step.create [OF run_pair [OF w2_run]])
  moreover have "ad_projects w_access = ad_projects (id_access w1)" by (simp add: w_access_def w1_def no_identity_def no_access_def)
  ultimately show "identity_step w_sha {} w1 w2" unfolding w2_def by (rule identity_step.organisation)
  have "20 \<notin> iv_ID ` set (id_invites w2)" "HashToken w_sha ''t'' \<notin> {} \<union> iv_TokenHash ` set (id_invites w2)"
    by (simp_all add: w2_def w1_def no_identity_def)
  then show "identity_step w_sha {} w2 w3" by (intro identity_step.send [OF run_pair [OF w3_run]]) simp_all
qed

lemma w3_reachable: "(identity_step w_sha {})\<^sup>*\<^sup>* no_identity w3"
  using w_steps by (meson rtranclp.rtrancl_into_rtrancl rtranclp.rtrancl_refl)

lemma w4_reachable: "(identity_step w_sha {})\<^sup>*\<^sup>* no_identity w4"
  using w3_reachable identity_step.accept [OF w4_run, of "{}"] by (rule rtranclp.rtrancl_into_rtrancl)

section \<open>Owners\<close>

text \<open>C25: Whatever account, login, project, invite, organisation and key operations run from an empty deployment, organisations
created, bootstrapped and renamed, members added, removed, joined by an invite or at a login, every organisation keeps an owner, slugs
stay unique and acceptable, and at most one organisation is the system's; with one exception, which the runs leave out: an acceptance in
which an owner takes an invite to a lesser role (accepting_can_remove_the_last_owner shows that it can leave no owner).\<close>

theorem organisations_keep_an_owner:
  assumes "owned_reachable sha H d" and "o' \<in> set (ad_orgs (id_access d))"
  shows "(\<exists>m \<in> set (ad_members (id_access d)). mb_OrgID m = or_ID o' \<and> mb_Role m = RoleOwner) \<and> org_validateSlug (or_Slug o') = Inr () \<and>
    (\<forall>q \<in> set (ad_orgs (id_access d)). or_Slug q = or_Slug o' \<or> or_System q \<and> or_System o' \<longrightarrow> q = o')"
proof -
  have inv: "org_inv (id_access d)" by (rule owned_reachable_inv [OF assms(1)])
  have "or_ID o' \<in> owners (ad_members (id_access d))" using inv assms(2) by (auto simp: org_inv_def)
  then have "\<exists>m \<in> set (ad_members (id_access d)). mb_OrgID m = or_ID o' \<and> mb_Role m = RoleOwner" by (auto simp: owners_def)
  moreover have "org_validateSlug (or_Slug o') = Inr ()" using inv assms(2) by (simp add: org_inv_def org_rows_def)
  moreover have "q = o'" if "q \<in> set (ad_orgs (id_access d))" "or_Slug q = or_Slug o' \<or> or_System q \<and> or_System o'" for q
    using inv assms(2) that unfolding org_inv_def org_rows_def distinct_map inj_on_def by blast
  ultimately show ?thesis by blast
qed

lemma w_owners: "owner_in orgID userID w4 = owner_in orgID userID w3" "owner_in orgID userID w3 = owner_in orgID userID w2"
  "\<not> owner_in orgID userID w1" "\<not> owner_in orgID userID no_identity"
  by (auto simp: owner_in_def w4_def w3_def w2_def w1_def w_access_def w_member_def w_owner_def no_identity_def no_access_def table_simps)

lemma w4_owned: "owned_reachable w_sha {} w4"
proof -
  have "owned_reachable w_sha {} w1"
    by (rule owned_reachable.step [OF owned_reachable.empty w_steps(1)]) (simp add: owner_accepts_less_def demotes_def w_owners)
  then have "owned_reachable w_sha {} w2"
    by (rule owned_reachable.step [OF _ w_steps(2)]) (simp add: owner_accepts_less_def demotes_def w_owners)
  then have "owned_reachable w_sha {} w3"
    by (rule owned_reachable.step [OF _ w_steps(3)]) (simp add: owner_accepts_less_def demotes_def w_owners)
  then show ?thesis
    by (rule owned_reachable.step [OF _ identity_step.accept [OF w4_run]]) (simp add: owner_accepts_less_def demotes_def w_owners)
qed

theorem organisations_keep_an_owner_witness:
  "\<exists>m \<in> set (ad_members (id_access w4)). mb_OrgID m = 10 \<and> mb_Role m = RoleOwner"
proof -
  have "ad_orgs (id_access w4) = [hd (ad_orgs w_access)]" "or_ID (hd (ad_orgs w_access)) = 10" by (simp_all add: w4_def w_access_def)
  then show ?thesis using organisations_keep_an_owner [OF w4_owned, of "hd (ad_orgs w_access)"] by simp
qed

section \<open>The tables\<close>

text \<open>C26: Whatever sequence of account, login, project, invite, organisation and onboarding operations runs, from any caller
and with any outcome, no two accounts share an identifier, an address or an identity-provider link; projects have unique identifiers, a
unique and valid slug within their organisation, and an organisation has at most one system project; no two invites share an identifier or a
token, and their roles are valid; and the project identifiers API keys are checked against are exactly those of the project rows.\<close>

theorem identity_stays_well_formed:
  assumes "(identity_step sha H)\<^sup>*\<^sup>* no_identity d"
  shows "keyed u_ID (id_users d) \<and> keyed u_Email (id_users d) \<and>
    inj_on (\<lambda>r. (u_IDPIssuer r, u_IDPSubject r)) {r \<in> set (id_users d). u_IDPIssuer r \<noteq> '''' \<and> u_IDPSubject r \<noteq> ''''} \<and>
    keyed pj_ID (id_projects d) \<and> keyed (\<lambda>p. (pj_OrgID p, pj_Slug p)) (id_projects d) \<and>
    inj_on pj_OrgID {p \<in> set (id_projects d). pj_System p} \<and> (\<forall>p \<in> set (id_projects d). project_validateSlug (pj_Slug p) = Inr ()) \<and>
    keyed iv_ID (id_invites d) \<and> keyed iv_TokenHash (id_invites d) \<and> (\<forall>i \<in> set (id_invites d). role_IsValid (iv_Role i)) \<and>
    ad_projects (id_access d) = map (\<lambda>p. (pj_OrgID p, pj_ID p)) (id_projects d)"
  using steps_inv [OF assms]
  by (simp add: identity_inv_def users_ok_def linked_def projects_ok_def invites_ok_def projects_synced_def inj_on_def)

theorem identity_stays_well_formed_witness:
  "keyed u_Email (id_users w4) \<and> keyed iv_TokenHash (id_invites w4) \<and> length (id_users w4) = 2"
  using identity_stays_well_formed [OF w4_reachable] by (simp add: w4_def)

section \<open>Invites\<close>

text \<open>C27: An invite is redeemed at most once.  After a successful acceptance of a token, and whatever operations run
afterwards (logins, other invites, revocations, even a new invite to the same address, as long as the same token is not minted again),
presenting that token again, from any session and with any address, is refused and changes nothing.\<close>

theorem invites_are_single_use:
  assumes "(identity_step sha {})\<^sup>*\<^sup>* no_identity d"
    and "AcceptWorkflow_Execute sha fresh now c req d = (Inr r, d1)"
    and "(identity_step sha {HashToken sha (ar_Token req)})\<^sup>*\<^sup>* d1 d2"
    and "ar_Token req' = ar_Token req"
  shows "\<exists>e. AcceptWorkflow_Execute sha fresh' now' c' req' d2 = (Inl e, d2)"
proof -
  let ?h = "HashToken sha (ar_Token req)"
  have inv: "identity_inv d" using steps_inv [OF assms(1)] .
  have "identity_frame {} d d1" using Accept_frame [of "{}" d sha fresh now c req] assms(2) by simp
  then have inv1: "identity_inv d1" using inv frame_inv by blast
  have spent1: "\<forall>j \<in> set (id_invites d1). iv_TokenHash j = ?h \<longrightarrow> iv_UsedAt j \<noteq> None"
    using accepted_is_spent [OF inv assms(2)] .
  have fr: "identity_frame {?h} d1 d2" using steps_frame [OF assms(3)] .
  have "iv_UsedAt j \<noteq> None" if j: "j \<in> set (id_invites d2)" "iv_TokenHash j = ?h" for j
  proof -
    obtain i where "i \<in> set (id_invites d1)" "iv_TokenHash i = iv_TokenHash j" "iv_UsedAt i \<noteq> None \<longrightarrow> iv_UsedAt j \<noteq> None"
      using fr inv1 j unfolding identity_frame_def invites_frame_def identity_inv_def by blast
    then show ?thesis using spent1 j(2) by auto
  qed
  then have "ByTokenHash ?h d2 = Inr i \<Longrightarrow> iv_UsedAt i \<noteq> None" for i using ByTokenHash_Inr by blast
  then show ?thesis using assms(4) unfolding Accept_unfold by (auto split: sum.split)
qed

theorem invites_are_single_use_witness:
  "AcceptWorkflow_Execute w_sha 3 9 w_ctx w_accept w4 = (Inl (EInvite (InviteAlreadyUsedError 20)), w4) \<and>
   (\<exists>e. AcceptWorkflow_Execute w_sha 3 9 w_ctx w_accept w4 = (Inl e, w4))"
proof
  show "AcceptWorkflow_Execute w_sha 3 9 w_ctx w_accept w4 = (Inl (EInvite (InviteAlreadyUsedError 20)), w4)" by code_simp
  have "(identity_step w_sha {HashToken w_sha (ar_Token w_accept)})\<^sup>*\<^sup>* w4 w4" by (rule rtranclp.rtrancl_refl)
  then show "\<exists>e. AcceptWorkflow_Execute w_sha 3 9 w_ctx w_accept w4 = (Inl e, w4)"
    by (rule invites_are_single_use [OF w3_reachable w4_run _ refl])
qed

lemma acceptance:
  assumes "identity_inv d" and "AcceptWorkflow_Execute sha fresh now c req d = (Inr (j, usr, role), d')"
  shows "\<exists>i \<in> set (id_invites d). iv_TokenHash i = HashToken sha (ar_Token req) \<and> iv_UsedAt i = None \<and> now \<le> iv_ExpiresAt i \<and>
      (\<exists>email. invite_normalizeEmail (ar_Email req) = Inr email \<and> EqualFold (iv_Email i) email \<and> ur_Email usr = email) \<and>
      j = i\<lparr>iv_UsedAt := Some now\<rparr> \<and> role = iv_Role i"
    and "j \<in> set (id_invites d')"
    and "\<exists>u \<in> set (id_users d'). u_ID u = ur_ID usr \<and> u_Email u = ur_Email usr"
    and "\<exists>m. find_row member_key (iv_OrgID j, ur_ID usr) (ad_members (id_access d')) = Some m \<and> mb_Role m = iv_Role j \<and> \<not> mb_System m"
    and "k \<noteq> (iv_OrgID j, ur_ID usr) \<Longrightarrow>
      find_row member_key k (ad_members (id_access d')) = find_row member_key k (ad_members (id_access d))"
proof -
  obtain i email where a: "ar_Token req \<noteq> ''''" "invite_normalizeEmail (ar_Email req) = Inr email"
    "ByTokenHash (HashToken sha (ar_Token req)) d = Inr i" "EqualFold (iv_Email i) email" "iv_UsedAt i = None" "now \<le> iv_ExpiresAt i"
    and r: "redeem fresh now c email (ar_Name req) i d = (Inr (j, usr, role), d')"
    using Accept_Inr [OF assms(2)] .
  obtain d1 d2 where e: "ensureUser fresh email (ar_Name req) d = (Inr usr, d1)"
    and m: "orgStoreForInvite_SaveMembership (iv_OrgID i) (ur_ID usr) (iv_Role i) d1 = (Inr (), d2)"
    and s: "invite_Save (tenant_Into c \<lparr>tc_OrgID = iv_OrgID i, tc_ProjectID = uuid_Nil, tc_UserID = ur_ID usr\<rparr>) j d2 = (Inr (), d')"
    and j: "j = i\<lparr>iv_UsedAt := Some now\<rparr>" and role: "role = iv_Role i"
    using redeem_Inr [OF r] by blast
  have ok: "users_ok (id_users d)" "invites_ok (id_invites d)" using assms(1) by (simp_all add: identity_inv_def)
  note E = ensured_user [OF ok(1) normal_email [OF a(2)] e] and M = enrolled [OF m]
  have i: "i \<in> set (id_invites d)" "iv_TokenHash i = HashToken sha (ar_Token req)" using ByTokenHash_Inr [OF a(3)] by auto
  have same: "id_invites d2 = id_invites d" using M(4) E(3) by simp
  note S = invite_Save_used [OF s [unfolded j]]
  have S': "set (id_invites d') = insert (i\<lparr>iv_UsedAt := Some now\<rparr>) {q \<in> set (id_invites d). iv_ID q \<noteq> iv_ID i}"
    "id_users d' = id_users d2" "id_access d' = id_access d2"
    using S same i(1) ok(2) by simp_all
  show "\<exists>i \<in> set (id_invites d). iv_TokenHash i = HashToken sha (ar_Token req) \<and> iv_UsedAt i = None \<and> now \<le> iv_ExpiresAt i \<and>
      (\<exists>email. invite_normalizeEmail (ar_Email req) = Inr email \<and> EqualFold (iv_Email i) email \<and> ur_Email usr = email) \<and>
      j = i\<lparr>iv_UsedAt := Some now\<rparr> \<and> role = iv_Role i"
    using i a j role E(1) by auto
  show "j \<in> set (id_invites d')" using S'(1) j by simp
  show "\<exists>u \<in> set (id_users d'). u_ID u = ur_ID usr \<and> u_Email u = ur_Email usr" using E(1,2) M(3) S'(2) by simp
  show "\<exists>m. find_row member_key (iv_OrgID j, ur_ID usr) (ad_members (id_access d')) = Some m \<and> mb_Role m = iv_Role j \<and> \<not> mb_System m"
    using M(1) j S'(3) by simp
  show "find_row member_key k (ad_members (id_access d')) = find_row member_key k (ad_members (id_access d))"
    if "k \<noteq> (iv_OrgID j, ur_ID usr)"
    using M(2) [of k] that j S'(3) E(4) by simp
qed

text \<open>C28: What an acceptance that succeeds did.  The token named an invite that was unused and not expired, sent to the address
presented; the invite is now used, at that moment; the account of that address, found or created, is a member of the invite's organisation
with exactly the role of the invite and without the protection of a system membership, whatever role and protection it had before; and every
other membership is untouched.\<close>

theorem accepting_an_invite:
  assumes "identity_inv d" and "AcceptWorkflow_Execute sha fresh now c req d = (Inr (j, usr, role), d')"
  shows "(\<exists>i \<in> set (id_invites d). iv_TokenHash i = HashToken sha (ar_Token req) \<and> iv_UsedAt i = None \<and> now \<le> iv_ExpiresAt i \<and>
      (\<exists>email. invite_normalizeEmail (ar_Email req) = Inr email \<and> EqualFold (iv_Email i) email \<and> ur_Email usr = email) \<and>
      j = i\<lparr>iv_UsedAt := Some now\<rparr> \<and> role = iv_Role i) \<and>
    j \<in> set (id_invites d') \<and>
    (\<exists>u \<in> set (id_users d'). u_ID u = ur_ID usr \<and> u_Email u = ur_Email usr) \<and>
    (\<exists>m. find_row member_key (iv_OrgID j, ur_ID usr) (ad_members (id_access d')) = Some m \<and> mb_Role m = iv_Role j \<and> \<not> mb_System m) \<and>
    (\<forall>k. k \<noteq> (iv_OrgID j, ur_ID usr) \<longrightarrow>
      find_row member_key k (ad_members (id_access d')) = find_row member_key k (ad_members (id_access d)))"
  using acceptance [OF assms] by blast

theorem accepting_an_invite_witness:
  "\<exists>m. find_row member_key (10, 2) (ad_members (id_access w4)) = Some m \<and> mb_Role m = RoleMember \<and> \<not> mb_System m"
  using accepting_an_invite [OF steps_inv [OF w3_reachable] w4_run] by (simp add: w_invite_def)

text \<open>So an owner who accepts an invite for a lesser role loses ownership, and the organisation its last owner.\<close>

lemma accepting_can_remove_the_last_owner:
  "map mb_Role (ad_members (id_access (snd (AcceptWorkflow_Execute w_sha 2 8 w_ctx (w_accept\<lparr>ar_Email := ''ann@x.id''\<rparr>)
     (w2\<lparr>id_invites := [w_invite\<lparr>iv_Email := ''ann@x.id''\<rparr>]\<rparr>))))) = [RoleMember]"
  by code_simp

section \<open>OIDC\<close>

lemma oidc_login:
  assumes "users_ok us" "id' \<notin> u_ID ` set us" "EnsureFromOIDC id' now claims us = (x, us')"
  shows "x = Inr u \<Longrightarrow> link u = (TrimSpace (cl_Issuer claims), TrimSpace (cl_Subject claims))"
    and "x = Inr u \<Longrightarrow> r \<in> set us \<Longrightarrow> linked r \<Longrightarrow> link r = link u \<Longrightarrow> u_ID u = u_ID r"
    and "x = Inr u \<Longrightarrow> r \<in> set us \<Longrightarrow> u_ID r \<noteq> u_ID u \<Longrightarrow> r \<in> set us'"
    and "x = Inl e \<Longrightarrow> us' = us"
    and "\<not> cl_EmailVerified claims \<Longrightarrow> (\<And>r. r \<in> set us \<Longrightarrow> linked r \<Longrightarrow> link r \<noteq> (TrimSpace (cl_Issuer claims), TrimSpace (cl_Subject claims))) \<Longrightarrow>
      \<exists>e. x = Inl e"
    and "r \<in> set us \<Longrightarrow> linked r \<Longrightarrow> u_IDPIssuer r = TrimSpace (cl_Issuer claims) \<Longrightarrow> u_IDPSubject r \<noteq> TrimSpace (cl_Subject claims) \<Longrightarrow> r \<in> set us'"
proof -
  have ok: "EnsureFromOIDC id' now claims us = (Inr v, us')" if "x = Inr v" for v using assms(3) that by simp
  have lk: "link v = (TrimSpace (cl_Issuer claims), TrimSpace (cl_Subject claims))" if "x = Inr v" for v
    using Ensure_Inr(1) [OF ok [OF that]] by (simp add: oidc_defs)
  have others: "q \<in> set us'" if "x = Inr v" "q \<in> set us" "u_ID q \<noteq> u_ID v" for v q
    using Ensure_Inr(3) [OF ok [OF that(1)]] Save_others [OF assms(1) _ that(2,3)] that(2) by blast
  have kept: "us' = us" if "x = Inl er" for er using Ensure_Inl assms(3) that by blast
  show "x = Inr u \<Longrightarrow> link u = (TrimSpace (cl_Issuer claims), TrimSpace (cl_Subject claims))" by (rule lk)
  show "x = Inr u \<Longrightarrow> r \<in> set us \<Longrightarrow> linked r \<Longrightarrow> link r = link u \<Longrightarrow> u_ID u = u_ID r"
    using Ensure_Inr(3) [OF ok, of u] users_okD(4) [OF assms(1), of r] by metis
  show "x = Inr u \<Longrightarrow> r \<in> set us \<Longrightarrow> u_ID r \<noteq> u_ID u \<Longrightarrow> r \<in> set us'" by (rule others)
  show "x = Inl e \<Longrightarrow> us' = us" by (rule kept)
  show "\<exists>e. x = Inl e" if "\<not> cl_EmailVerified claims"
    "\<And>r. r \<in> set us \<Longrightarrow> linked r \<Longrightarrow> link r \<noteq> (TrimSpace (cl_Issuer claims), TrimSpace (cl_Subject claims))"
  proof (cases x)
    case (Inr v)
    then show ?thesis using Ensure_Inr(3) [OF ok [OF Inr]] lk [OF Inr] that by metis
  qed simp
  show "r \<in> set us'" if r: "r \<in> set us" "linked r" "u_IDPIssuer r = TrimSpace (cl_Issuer claims)" "u_IDPSubject r \<noteq> TrimSpace (cl_Subject claims)"
  proof (cases x)
    case (Inl er)
    then show ?thesis using kept r(1) by simp
  next
    case (Inr v)
    have "u_ID r \<noteq> u_ID v"
    proof
      assume same: "u_ID r = u_ID v"
      have "q = r" if "q \<in> set us" "u_ID q = u_ID v" for q
        using that same r(1) users_okD(1) [OF assms(1)] by (simp add: distinct_map inj_on_def)
      then show False using Ensure_Inr(3) [OF ok [OF Inr]] lk [OF Inr] r assms(2) same unfolding oidc_defs linked_def
        by (metis Pair_inject image_eqI)
    qed
    then show ?thesis by (rule others [OF Inr r(1)])
  qed
qed

text \<open>C29: An OIDC login is decided by the subject.  A login that succeeds returns the account linked to the issuer and
subject of the claims; if some account already had that link, it is that account, whatever address the claims carry; no other account
changes, and a login that fails changes none.  An identity no account is linked to gets nowhere without a verified address, and an account
linked to another subject of the same issuer is never rebound.\<close>

theorem oidc_logins_follow_the_subject:
  assumes "users_ok us" "id' \<notin> u_ID ` set us" "EnsureFromOIDC id' now claims us = (x, us')"
  shows "(\<forall>u. x = Inr u \<longrightarrow> link u = (TrimSpace (cl_Issuer claims), TrimSpace (cl_Subject claims)) \<and>
      (\<forall>r \<in> set us. linked r \<and> link r = link u \<longrightarrow> u_ID u = u_ID r) \<and> (\<forall>r \<in> set us. u_ID r \<noteq> u_ID u \<longrightarrow> r \<in> set us')) \<and>
    (\<forall>e. x = Inl e \<longrightarrow> us' = us) \<and>
    (\<not> cl_EmailVerified claims \<and> (\<forall>r \<in> set us. linked r \<longrightarrow> link r \<noteq> (TrimSpace (cl_Issuer claims), TrimSpace (cl_Subject claims))) \<longrightarrow>
      (\<exists>e. x = Inl e)) \<and>
    (\<forall>r \<in> set us. linked r \<and> u_IDPIssuer r = TrimSpace (cl_Issuer claims) \<and> u_IDPSubject r \<noteq> TrimSpace (cl_Subject claims) \<longrightarrow> r \<in> set us')"
proof (intro conjI allI impI ballI)
  fix u assume u: "x = Inr u"
  show "link u = (TrimSpace (cl_Issuer claims), TrimSpace (cl_Subject claims))" by (rule oidc_login(1) [OF assms u])
  show "u_ID u = u_ID r" if "r \<in> set us" "linked r \<and> link r = link u" for r using oidc_login(2) [OF assms u] that by blast
  show "r \<in> set us'" if "r \<in> set us" "u_ID r \<noteq> u_ID u" for r by (rule oidc_login(3) [OF assms u that])
next
  show "us' = us" if "x = Inl e" for e by (rule oidc_login(4) [OF assms that])
  show "\<exists>e. x = Inl e" if "\<not> cl_EmailVerified claims \<and> (\<forall>r \<in> set us. linked r \<longrightarrow> link r \<noteq> (TrimSpace (cl_Issuer claims), TrimSpace (cl_Subject claims)))"
    using oidc_login(5) [OF assms] that by blast
  show "r \<in> set us'" if "r \<in> set us" "linked r \<and> u_IDPIssuer r = TrimSpace (cl_Issuer claims) \<and> u_IDPSubject r \<noteq> TrimSpace (cl_Subject claims)" for r
    using oidc_login(6) [OF assms] that by blast
qed

theorem oidc_logins_follow_the_subject_witness:
  "(\<exists>e. fst (EnsureFromOIDC 3 9 (w_claims False) [w_user]) = Inl e) \<and> snd (EnsureFromOIDC 3 9 (w_claims False) [w_user]) = [w_user]"
proof -
  have ok: "users_ok [w_user]" by (simp add: users_ok_def inj_on_def) (simp add: w_user_def)
  have no: "\<not> linked w_user" by (simp add: linked_def w_user_def)
  note P = oidc_logins_follow_the_subject [OF ok _ prod.collapse [symmetric], where id' = 3 and now = 9 and claims = "w_claims False"]
  have "\<not> cl_EmailVerified (w_claims False)" by (simp add: w_claims_def)
  then show ?thesis using P no by (auto simp: w_user_def)
qed

section \<open>Passwords\<close>

text \<open>Verifying a password against a stored hash, whose text is parsed back into parameters, salt and digest, accepts
exactly the passwords with the digest of the one that was hashed; a hash the program wrote is never reported as malformed.\<close>

theorem hashes_verify_their_passwords:
  assumes "\<And>p s t m th k. length (IDKey p s t m th k) = nat k"
  shows "password_Verify IDKey (password_Hash IDKey salt plain) other =
      (if IDKey other salt 2 defaultMemoryKiB 1 32 = IDKey plain salt 2 defaultMemoryKiB 1 32 then Inr () else Inl ErrMismatch) \<and>
    phc_decode (password_Hash IDKey salt plain) = Inr (19456, 2, 1, salt, IDKey plain salt 2 19456 1 32)"
proof
  show "password_Verify IDKey (password_Hash IDKey salt plain) other =
    (if IDKey other salt 2 defaultMemoryKiB 1 32 = IDKey plain salt 2 defaultMemoryKiB 1 32 then Inr () else Inl ErrMismatch)"
    using assms by (intro Verify_Hash) simp
  show "phc_decode (password_Hash IDKey salt plain) = Inr (19456, 2, 1, salt, IDKey plain salt 2 19456 1 32)"
    unfolding password_Hash_def defaultMemoryKiB_def by (rule phc_roundtrip) simp_all
qed

definition w_digest :: argon2 where
  "w_digest p s t m th k = take (nat k) (p @ replicate (nat k) (CHR ''0''))"

theorem hashes_verify_their_passwords_witness:
  "password_Verify w_digest (password_Hash w_digest ''salt'' ''secret'') ''secret'' = Inr () \<and>
   password_Verify w_digest (password_Hash w_digest ''salt'' ''secret'') ''other'' = Inl ErrMismatch"
proof -
  have "length (w_digest p s t m th k) = nat k" for p s t m th k by (simp add: w_digest_def)
  note P = hashes_verify_their_passwords [of w_digest, OF this]
  have "w_digest ''other'' ''salt'' 2 defaultMemoryKiB 1 32 \<noteq> w_digest ''secret'' ''salt'' 2 defaultMemoryKiB 1 32" by (simp add: w_digest_def)
  then show ?thesis using P by simp
qed

text \<open>An account created with a password is opened by local login with the passwords whose digest is that of the
password it was created with, stripped of surrounding white space, and by no others; a login changes nothing.  (The password typed at login is
not stripped, so a password with a space at either end does not open the account it was chosen for.)\<close>

theorem created_passwords_open_the_account:
  assumes "users_ok us" "users_Create IDKey salt id' now req us = (Inr u, us')" "TrimSpace (cu_Password req) \<noteq> ''''" "pw \<noteq> ''''"
    and "length (IDKey (TrimSpace (cu_Password req)) salt 2 defaultMemoryKiB 1 32) = 32"
  shows "\<exists>r \<in> set us'. u_ID r = u_ID u \<and> u_Email r = ToLower (TrimSpace (cu_Email req)) \<and>
    LocalLogin_Execute IDKey g fresh now' (cu_Email req) pw us' =
      (if IDKey pw salt 2 defaultMemoryKiB 1 32 = IDKey (TrimSpace (cu_Password req)) salt 2 defaultMemoryKiB 1 32
       then Inr (principalFromRef (toUser r) SourceLocal now') else Inl (EAuth InvalidCredentialsError), us')"
proof -
  note C = users_Create_Inr [OF assms(2,1)]
  let ?r = "saved_row u us"
  have r: "?r \<in> set us'" "users_ok us'" using Save_present [OF assms(1) C(1)] user_Save_ok [OF assms(1) C(1)] by blast+
  have h: "u_PasswordHash ?r = password_Hash IDKey salt (TrimSpace (cu_Password req))" using C(5) assms(3) by simp
  have idp: "u_IDPIssuer u = ''''"
    using assms(2) by (auto simp: users_Create_def user_New_def Let_def split: sum.splits prod.splits if_splits)
  have src: "sourceFor (toUser ?r) = SourceLocal"
    using h Hash_nonempty idp by (simp add: sourceFor_def toUser_def sourceFrom_def EqualFold_def)
  have ne: "u_PasswordHash ?r \<noteq> ''''" using h Hash_nonempty by simp
  have em: "u_Email ?r = ToLower (TrimSpace (cu_Email req))" "u_Email ?r \<noteq> ''''" using C(3,4) by simp_all
  note L = LocalLogin_password [OF r(2,1) em assms(4) ne, where IDKey = IDKey and g = g and fresh = fresh and now = now']
  have "is_ok (password_Verify IDKey (u_PasswordHash ?r) pw) \<longleftrightarrow>
      IDKey pw salt 2 defaultMemoryKiB 1 32 = IDKey (TrimSpace (cu_Password req)) salt 2 defaultMemoryKiB 1 32"
    unfolding h Verify_Hash [of IDKey, OF assms(5)] by simp
  then show ?thesis using L src em(1) by (intro bexI [OF _ r(1)]) simp
qed

lemma TrimSpace_secret: "TrimSpace ''secret '' = ''secret''"
  by code_simp

theorem created_passwords_open_the_account_witness:
  "fst (LocalLogin_Execute w_IDKey \<lparr>gn_Email = '''', gn_PasswordHash = '''', gn_Name = ''''\<rparr> 5 9 (cu_Email w_ann) (cu_Password w_ann) [w_user]) =
   Inl (EAuth InvalidCredentialsError)"
proof -
  have c: "users_Create w_IDKey ''salt'' 1 5 w_ann [] = (Inr (w_user\<lparr>u_Source := ''local'', u_IsAdmin := False\<rparr>), [w_user])" by code_simp
  have "users_ok []" by (simp add: users_ok_def)
  from created_passwords_open_the_account [OF this c, where pw = "cu_Password w_ann"]
  show ?thesis using TrimSpace_secret by (auto simp: w_ann_def w_IDKey_def)
qed

text \<open>
  An account with neither an identity-provider link nor a password, as acceptance
  creates it, is read back with the source \<open>genesis\<close>; the next save of it, here a
  change of name, makes it an administrator.
\<close>

lemma saving_an_unlinked_account_makes_an_admin:
  assumes "users_ok us" "r \<in> set us" "u_IDPIssuer r = ''''" "users_Rename (u_ID r) name us = (Inr (), us')"
  shows "\<exists>q \<in> set us'. u_ID q = u_ID r \<and> u_IsAdmin q"
proof -
  have "find (\<lambda>q. u_ID q = u_ID r) us = Some r"
    using find_row_Some_iff [OF users_okD(1) [OF assms(1)]] assms(2) by (simp add: find_row_def)
  then have lookup: "user_lookup op (u_ID r) us = Inr (toUser r)" for op by (simp add: user_lookup_def user_ByID_def user_queryOne_def)
  obtain v where v: "user_Rename name (toUser r) = Inr v" "user_Save v us = (Inr (), us')"
    using assms(4) lookup by (auto simp: users_Rename_def split: sum.splits prod.splits)
  have "u_ID v = u_ID r" "u_Source v = u_Source (toUser r)" using v(1) by (auto simp: user_Rename_def split: sum.splits)
  moreover have "u_Source (toUser r) = ''genesis'' \<or> u_Source (toUser r) = ''local''" using assms(3) by (simp add: toUser_def sourceFrom_def)
  ultimately have "u_ID (saved_row v us) = u_ID r" "u_IsAdmin (saved_row v us)" by simp_all
  then show ?thesis using Save_present [OF assms(1) v(2)] by blast
qed

end
