(* ===== verification/Webhook.thy ===== *)
theory Webhook
  imports Sealer OutboxSteps "HOL-Library.List_Lexorder"
begin

text \<open>
  Outbound webhooks: the event catalog (\<open>internal/platform/events\<close>), endpoints and
  their validation (\<open>internal/webhook/webhook.go\<close>), the bounds on a stored response
  (\<open>response.go\<close>) and the SQLite store (\<open>sqlite.go\<close>, \<open>adapter.go\<close>).  The columns
  holding JSON are kept as the values they encode.  What the packages take from the
  uuid, \<open>net/url\<close>, JSON and HMAC libraries is a \<open>webhook_lib\<close>.
\<close>

section \<open>The event catalog\<close>

definition PostPublished :: string where "PostPublished = ''blog.post.published''"
definition PostUnpublished :: string where "PostUnpublished = ''blog.post.unpublished''"
definition PostDeleted :: string where "PostDeleted = ''blog.post.deleted''"
definition WebhookPing :: string where "WebhookPing = ''webhook.ping''"

lemmas event_type_defs = PostPublished_def PostUnpublished_def PostDeleted_def WebhookPing_def

record Spec =
  sp_Type :: string
  sp_Version :: int
  sp_Subscribable :: bool

definition APIVersion :: "Spec \<Rightarrow> string" where
  "APIVersion s = ''v'' @ FormatInt (sp_Version s)"

definition events_All :: "Spec list" where
  "events_All =
     [\<lparr>sp_Type = PostPublished, sp_Version = 1, sp_Subscribable = True\<rparr>,
      \<lparr>sp_Type = PostUnpublished, sp_Version = 1, sp_Subscribable = True\<rparr>,
      \<lparr>sp_Type = PostDeleted, sp_Version = 1, sp_Subscribable = True\<rparr>,
      \<lparr>sp_Type = WebhookPing, sp_Version = 1, sp_Subscribable = False\<rparr>]"

definition Subscribable :: "Spec list" where
  "Subscribable = filter sp_Subscribable events_All"

definition events_Lookup :: "string \<Rightarrow> Spec option" where
  "events_Lookup t = find (\<lambda>s. sp_Type s = t) events_All"

record PostSnapshotV1 =
  ps_ID :: uuid
  ps_Slug :: string
  ps_Title :: string
  ps_BodyMarkdown :: string
  ps_CategoryID :: uuid
  ps_TagIDs :: "uuid list"
  ps_FirstPublishedAt :: "instant option"
  ps_UpdatedAt :: instant
  ps_Version :: int

text \<open>The dynamic type of an event's data; \<open>OtherPayload\<close> is any type that is not a payload.\<close>

datatype event_data =
    PostPublishedV1 PostSnapshotV1
  | PostUnpublishedV1 PostSnapshotV1
  | PostDeletedV1 uuid string bool
  | WebhookPingV1 uuid
  | OtherPayload

definition CheckPayload :: "string \<Rightarrow> event_data \<Rightarrow> (err, unit) res" where
  "CheckPayload t data =
     (if t = PostPublished then (case data of PostPublishedV1 _ \<Rightarrow> Inr () | _ \<Rightarrow> Inl (EWebhook (PayloadMismatchError t)))
      else if t = PostUnpublished then (case data of PostUnpublishedV1 _ \<Rightarrow> Inr () | _ \<Rightarrow> Inl (EWebhook (PayloadMismatchError t)))
      else if t = PostDeleted then (case data of PostDeletedV1 _ _ _ \<Rightarrow> Inr () | _ \<Rightarrow> Inl (EWebhook (PayloadMismatchError t)))
      else if t = WebhookPing then (case data of WebhookPingV1 _ \<Rightarrow> Inr () | _ \<Rightarrow> Inl (EWebhook (PayloadMismatchError t)))
      else Inl (EWebhook (UnknownTypeError t)))"

section \<open>The library\<close>

text \<open>What \<open>url.Parse\<close> tells of an endpoint's URL.\<close>

record URL =
  u_Scheme :: string
  u_User :: bool
  u_Hostname :: string

record EnvelopeTenant =
  et_OrgID :: uuid
  et_ProjectID :: uuid
  et_ProjectSlug :: string

record Envelope =
  en_ID :: string
  en_Type :: string
  en_APIVersion :: string
  en_CreatedAt :: instant
  en_Tenant :: EnvelopeTenant
  en_Data :: event_data

text \<open>
  \<open>wl_type\<close> is the \<open>type\<close> member of a decoded payload, empty when it has none.  The
  left results are the texts of the errors; \<open>wl_Error\<close> is the text of an error of the
  store or the sealer.
\<close>

record webhook_lib =
  wl_String :: "uuid \<Rightarrow> string"
  wl_Parse :: "string \<Rightarrow> (string, uuid) res"
  wl_url :: "string \<Rightarrow> (string, URL) res"
  wl_Marshal :: "Envelope \<Rightarrow> (err, string) res"
  wl_type :: "string \<Rightarrow> (string, string) res"
  wl_hmac :: "string \<Rightarrow> string \<Rightarrow> string"
  wl_Error :: "err \<Rightarrow> string"

section \<open>Endpoints\<close>

definition MaxEndpointsPerProject :: nat where "MaxEndpointsPerProject = 10"

definition MaxURLLen :: nat where "MaxURLLen = 2048"

definition MaxDescriptionRunes :: nat where "MaxDescriptionRunes = 200"

record SealedSecrets =
  ss_Primary :: string
  ss_Secondary :: "string option"

record Endpoint =
  ep_ID :: uuid
  ep_OrgID :: uuid
  ep_ProjectID :: uuid
  ep_URL :: string
  ep_Description :: string
  ep_EventTypes :: "string list"
  ep_Secrets :: SealedSecrets
  ep_Active :: bool
  ep_CreatedAt :: instant
  ep_UpdatedAt :: instant

record Header =
  h_Name :: string
  h_Value :: string

record Attempt =
  at_ID :: uuid
  at_OrgID :: uuid
  at_ProjectID :: uuid
  at_EndpointID :: uuid
  at_DeliveryID :: uuid
  at_EventID :: uuid
  at_EventType :: string
  at_Attempt :: int
  at_StatusCode :: int
  at_Error :: string
  at_ResponseBody :: string
  at_ResponseTruncated :: bool
  at_ResponseHeaders :: "Header list"
  at_Duration :: int
  at_CreatedAt :: instant

definition validateURL :: "webhook_lib \<Rightarrow> string \<Rightarrow> (err, string) res" where
  "validateURL lib rawURL =
     (let rawURL = TrimSpace rawURL in
      if rawURL = '''' then Inl (EWebhook (InvalidURLError ''is required''))
      else if length rawURL > MaxURLLen then Inl (EWebhook (InvalidURLError ''is longer than 2048 characters''))
      else if \<not> ValidString rawURL then Inl (EWebhook (InvalidURLError ''is not valid UTF-8''))
      else case wl_url lib rawURL of Inl _ \<Rightarrow> Inl (EWebhook (InvalidURLError ''cannot be parsed'')) | Inr u \<Rightarrow>
        if u_Scheme u \<noteq> ''https'' then Inl (EWebhook (InvalidURLError ''must use https''))
        else if u_User u then Inl (EWebhook (InvalidURLError ''must not carry credentials''))
        else if u_Hostname u = '''' then Inl (EWebhook (InvalidURLError ''has no host''))
        else Inr rawURL)"

definition validateDescription :: "string \<Rightarrow> (err, string) res" where
  "validateDescription description =
     (let description = TrimSpace description in
      if \<not> ValidString description then Inl (EWebhook (InvalidDescriptionError ''is not valid UTF-8''))
      else if RuneCountInString description > MaxDescriptionRunes
      then Inl (EWebhook (InvalidDescriptionError ''is longer than 200 characters''))
      else Inr description)"

text \<open>The loop over the types; \<open>before\<close> holds those already passed.\<close>

fun check_types :: "string list \<Rightarrow> string list \<Rightarrow> (err, unit) res" where
  "check_types before [] = Inr ()"
| "check_types before (t # ts) =
     (case events_Lookup t of
        None \<Rightarrow> Inl (EWebhook (InvalidEventTypesError (''unknown event type '' @ t)))
      | Some spec \<Rightarrow>
          if \<not> sp_Subscribable spec
          then Inl (EWebhook (InvalidEventTypesError (''event type '' @ t @ '' cannot be subscribed to'')))
          else if t \<in> set before then Inl (EWebhook (InvalidEventTypesError (''event type '' @ t @ '' is listed twice'')))
          else check_types (before @ [t]) ts)"

definition validateTypes :: "string list \<Rightarrow> (err, string list) res" where
  "validateTypes types =
     (if types = [] then Inl (EWebhook (InvalidEventTypesError ''at least one event type is required''))
      else case check_types [] types of Inl e \<Rightarrow> Inl e | Inr _ \<Rightarrow> Inr types)"

definition webhook_validate :: "webhook_lib \<Rightarrow> string \<Rightarrow> string \<Rightarrow> string list \<Rightarrow> (err, string \<times> string \<times> string list) res" where
  "webhook_validate lib rawURL description types =
     (case validateURL lib rawURL of Inl e \<Rightarrow> Inl e | Inr u \<Rightarrow>
     (case validateDescription description of Inl e \<Rightarrow> Inl e | Inr d \<Rightarrow>
     (case validateTypes types of Inl e \<Rightarrow> Inl e | Inr ts \<Rightarrow> Inr (u, d, ts))))"

definition webhook_New :: "webhook_lib \<Rightarrow> uuid \<Rightarrow> instant \<Rightarrow> uuid \<Rightarrow> uuid \<Rightarrow> string \<Rightarrow> string \<Rightarrow> string list \<Rightarrow> (err, Endpoint) res" where
  "webhook_New lib id' now orgID projectID rawURL description types =
     (case webhook_validate lib rawURL description types of Inl e \<Rightarrow> Inl e | Inr (u, d, ts) \<Rightarrow>
      Inr \<lparr>ep_ID = id', ep_OrgID = orgID, ep_ProjectID = projectID, ep_URL = u, ep_Description = d, ep_EventTypes = ts,
        ep_Secrets = \<lparr>ss_Primary = '''', ss_Secondary = None\<rparr>, ep_Active = True, ep_CreatedAt = now, ep_UpdatedAt = now\<rparr>)"

definition endpoint_Update :: "webhook_lib \<Rightarrow> instant \<Rightarrow> string \<Rightarrow> string \<Rightarrow> string list \<Rightarrow> bool \<Rightarrow> Endpoint \<Rightarrow> (err, Endpoint) res" where
  "endpoint_Update lib now rawURL description types active e =
     (case webhook_validate lib rawURL description types of Inl err \<Rightarrow> Inl err | Inr (u, d, ts) \<Rightarrow>
      Inr (e\<lparr>ep_URL := u, ep_Description := d, ep_EventTypes := ts, ep_Active := active, ep_UpdatedAt := now\<rparr>))"

definition SetSecrets :: "instant \<Rightarrow> SealedSecrets \<Rightarrow> Endpoint \<Rightarrow> Endpoint" where
  "SetSecrets now s e = e\<lparr>ep_Secrets := s, ep_UpdatedAt := now\<rparr>"

definition Subscribes :: "Endpoint \<Rightarrow> string \<Rightarrow> bool" where
  "Subscribes e t \<longleftrightarrow> t \<in> set (ep_EventTypes e)"

section \<open>Stored responses\<close>

definition MaxResponseBodyBytes :: nat where "MaxResponseBodyBytes = 4096"

definition MaxResponseHeaderBytes :: nat where "MaxResponseHeaderBytes = 4096"

definition MaxResponseHeaders :: nat where "MaxResponseHeaders = 50"

text \<open>\<open>utf8.RuneStart\<close> and \<open>utf8.FullRune\<close>: an invalid encoding counts as full.\<close>

definition RuneStart :: "char \<Rightarrow> bool" where
  "RuneStart c \<longleftrightarrow> \<not> (0x80 \<le> byte c \<and> byte c \<le> 0xBF)"

definition lead_len :: "int \<Rightarrow> nat" where
  "lead_len b = (if b < 0xC2 then 1 else if b \<le> 0xDF then 2 else if b \<le> 0xEF then 3 else if b \<le> 0xF4 then 4 else 1)"

definition second_lo :: "int \<Rightarrow> int" where
  "second_lo b = (if b = 0xE0 then 0xA0 else if b = 0xF0 then 0x90 else 0x80)"

definition second_hi :: "int \<Rightarrow> int" where
  "second_hi b = (if b = 0xED then 0x9F else if b = 0xF4 then 0x8F else 0xBF)"

definition FullRune :: "string \<Rightarrow> bool" where
  "FullRune p =
     (if p = [] then False
      else if length p \<ge> lead_len (byte (hd p)) then True
      else if length p > 1 \<and> \<not> cont_in (second_lo (byte (hd p))) (second_hi (byte (hd p))) 1 p then True
      else length p > 2 \<and> \<not> cont_in 0x80 0xBF 2 p)"

text \<open>The loop of \<open>trimPartialRune\<close> from \<open>i\<close> on, with \<open>fuel = utf8.UTFMax - i\<close> rounds left.\<close>

fun trim_from :: "nat \<Rightarrow> nat \<Rightarrow> string \<Rightarrow> string" where
  "trim_from 0 i b = b"
| "trim_from (Suc fuel) i b =
     (if i > length b then b
      else if \<not> RuneStart (b ! (length b - i)) then trim_from fuel (Suc i) b
      else if FullRune (drop (length b - i) b) then b
      else take (length b - i) b)"

definition trimPartialRune :: "string \<Rightarrow> string" where
  "trimPartialRune b = trim_from 3 1 b"

definition replace_nul :: "string \<Rightarrow> string" where
  "replace_nul s = concat (map (\<lambda>c. if c = CHR 0x00 then rune_error else [c]) s)"

definition storableText :: "string \<Rightarrow> nat \<Rightarrow> string \<times> bool" where
  "storableText s limit =
     (let s = ToValidUTF8 (replace_nul s) rune_error in
      if length s \<le> limit then (s, False) else (trimPartialRune (take limit s), True))"

definition credentialHeaderMarkers :: "string list" where
  "credentialHeaderMarkers = [''auth'', ''cookie'', ''token'', ''secret'', ''key'', ''session'', ''password'', ''credential'', ''signature'']"

definition isCredentialHeader :: "string \<Rightarrow> bool" where
  "isCredentialHeader name = (let lower = ToLower name in list_ex (Contains lower) credentialHeaderMarkers)"

fun bound_headers :: "nat \<Rightarrow> Header list \<Rightarrow> Header list \<Rightarrow> Header list" where
  "bound_headers used out [] = out"
| "bound_headers used out (h # hs) =
     (if length out \<ge> MaxResponseHeaders then out
      else if isCredentialHeader (h_Name h) then bound_headers used out hs
      else let name = fst (storableText (h_Name h) MaxResponseHeaderBytes);
               val = fst (storableText (h_Value h) MaxResponseHeaderBytes)
           in if used + length name + length val > MaxResponseHeaderBytes then bound_headers used out hs
              else bound_headers (used + length name + length val) (out @ [\<lparr>h_Name = name, h_Value = val\<rparr>]) hs)"

definition boundHeaders :: "Header list \<Rightarrow> Header list" where
  "boundHeaders hs = bound_headers 0 [] hs"

definition BoundResponse :: "Attempt \<Rightarrow> Attempt" where
  "BoundResponse a =
     (let (body, trimmed) = storableText (at_ResponseBody a) MaxResponseBodyBytes in
      a\<lparr>at_ResponseBody := body, at_ResponseTruncated := at_ResponseTruncated a \<or> trimmed,
        at_ResponseHeaders := boundHeaders (at_ResponseHeaders a)\<rparr>)"

record response =
  rs_StatusCode :: int
  rs_Header :: "(string \<times> string list) list"
  rs_Body :: string

record receipt =
  rc_status :: int
  rc_body :: string
  rc_truncated :: bool
  rc_headers :: "Header list"

definition headerList :: "(string \<times> string list) list \<Rightarrow> Header list" where
  "headerList h = concat (map (\<lambda>(name, vs). if isCredentialHeader name then [] else map (\<lambda>v. \<lparr>h_Name = name, h_Value = v\<rparr>) vs)
     (sort_key (\<lambda>(name, vs). map byte name) h))"

definition readReceipt :: "response \<Rightarrow> receipt" where
  "readReceipt resp =
     (let b = take (MaxResponseBodyBytes + 1) (rs_Body resp);
          truncated = length b > MaxResponseBodyBytes;
          b = (if truncated then trimPartialRune (take MaxResponseBodyBytes b) else b)
      in \<lparr>rc_status = rs_StatusCode resp, rc_body = b, rc_truncated = truncated, rc_headers = headerList (rs_Header resp)\<rparr>)"

section \<open>The store\<close>

text \<open>The two tables of the store, and the outbox the service writes to.\<close>

record webhook_db =
  wd_Endpoints :: "Endpoint list"
  wd_Attempts :: "Attempt list"
  wd_Outbox :: outbox

definition no_webhooks :: webhook_db where
  "no_webhooks = \<lparr>wd_Endpoints = [], wd_Attempts = [], wd_Outbox = []\<rparr>"

definition sqliteSecondary :: "string option \<Rightarrow> string option" where
  "sqliteSecondary b = (case b of None \<Rightarrow> None | Some s \<Rightarrow> if s = [] then None else Some s)"

definition stored_secrets :: "SealedSecrets \<Rightarrow> SealedSecrets" where
  "stored_secrets s = s\<lparr>ss_Secondary := sqliteSecondary (ss_Secondary s)\<rparr>"

definition endpoint_overlay :: "Endpoint \<Rightarrow> Endpoint \<Rightarrow> Endpoint" where
  "endpoint_overlay e r = r\<lparr>ep_URL := ep_URL e, ep_Description := ep_Description e, ep_EventTypes := ep_EventTypes e,
     ep_Active := ep_Active e, ep_UpdatedAt := ep_UpdatedAt e\<rparr>"

definition endpoint_Save :: "ctx \<Rightarrow> Endpoint \<Rightarrow> (webhook_db, unit) prog" where
  "endpoint_Save c e d =
     (case tenant_From c of Inl err \<Rightarrow> (Inl err, d) | Inr tc \<Rightarrow>
      if ep_OrgID e \<noteq> tc_OrgID tc then (Inl (EWebhook (EndpointNotFoundError (ep_ID e))), d)
      else case find_row ep_ID (ep_ID e) (wd_Endpoints d) of
        None \<Rightarrow> (Inr (), d\<lparr>wd_Endpoints := wd_Endpoints d @ [e\<lparr>ep_Secrets := stored_secrets (ep_Secrets e)\<rparr>]\<rparr>)
      | Some r \<Rightarrow> if ep_OrgID r \<noteq> tc_OrgID tc then (Inl (EWebhook (EndpointNotFoundError (ep_ID e))), d)
          else (Inr (), d\<lparr>wd_Endpoints := upsert_row ep_ID (endpoint_overlay e r) (wd_Endpoints d)\<rparr>))"

definition secrets_match :: "Tenant \<Rightarrow> uuid \<Rightarrow> SealedSecrets \<Rightarrow> Endpoint \<Rightarrow> bool" where
  "secrets_match tc id' expected r \<longleftrightarrow> ep_OrgID r = tc_OrgID tc \<and> ep_ID r = id' \<and>
     ss_Primary (ep_Secrets r) = ss_Primary expected \<and> ss_Secondary (ep_Secrets r) = sqliteSecondary (ss_Secondary expected)"

definition SaveSecrets :: "instant \<Rightarrow> ctx \<Rightarrow> uuid \<Rightarrow> SealedSecrets \<Rightarrow> SealedSecrets \<Rightarrow> (webhook_db, unit) prog" where
  "SaveSecrets now c id' expected next' d =
     (case tenant_From c of Inl err \<Rightarrow> (Inl err, d) | Inr tc \<Rightarrow>
      if list_ex (secrets_match tc id' expected) (wd_Endpoints d)
      then (Inr (), d\<lparr>wd_Endpoints := map (\<lambda>r. if secrets_match tc id' expected r
              then r\<lparr>ep_Secrets := stored_secrets next', ep_UpdatedAt := now\<rparr> else r) (wd_Endpoints d)\<rparr>)
      else if list_ex (\<lambda>r. ep_OrgID r = tc_OrgID tc \<and> ep_ID r = id') (wd_Endpoints d)
      then (Inl (EWebhook (SecretConflictError id')), d)
      else (Inl (EWebhook (EndpointNotFoundError id')), d))"

definition endpoint_ByID :: "ctx \<Rightarrow> uuid \<Rightarrow> webhook_db \<Rightarrow> (err, Endpoint) res" where
  "endpoint_ByID c id' d =
     (case tenant_From c of Inl err \<Rightarrow> Inl err | Inr tc \<Rightarrow>
     (case find (\<lambda>r. ep_ID r = id' \<and> ep_OrgID r = tc_OrgID tc) (wd_Endpoints d) of
        None \<Rightarrow> Inl (EWebhook (EndpointNotFoundError id')) | Some r \<Rightarrow> Inr r))"

definition endpoint_List :: "ctx \<Rightarrow> uuid \<Rightarrow> uuid \<Rightarrow> webhook_db \<Rightarrow> (err, Endpoint list) res" where
  "endpoint_List c orgID projectID d =
     (case tenant_From c of Inl err \<Rightarrow> Inl err | Inr tc \<Rightarrow>
      Inr (sort_key (\<lambda>r. (- ep_CreatedAt r, - int (ep_ID r)))
        (filter (\<lambda>r. ep_OrgID r = orgID \<and> ep_OrgID r = tc_OrgID tc \<and> ep_ProjectID r = projectID) (wd_Endpoints d))))"

text \<open>Deleting an endpoint takes its attempts along (\<open>ON DELETE CASCADE\<close>).\<close>

definition endpoint_Delete :: "ctx \<Rightarrow> uuid \<Rightarrow> (webhook_db, unit) prog" where
  "endpoint_Delete c id' d =
     (case tenant_From c of Inl err \<Rightarrow> (Inl err, d) | Inr tc \<Rightarrow>
      let hit = (\<lambda>r. ep_ID r = id' \<and> ep_OrgID r = tc_OrgID tc) in
      if list_ex hit (wd_Endpoints d)
      then (Inr (), d\<lparr>wd_Endpoints := filter (\<lambda>r. \<not> hit r) (wd_Endpoints d),
              wd_Attempts := filter (\<lambda>a. at_EndpointID a \<noteq> id') (wd_Attempts d)\<rparr>)
      else (Inl (EWebhook (EndpointNotFoundError id')), d))"

definition Milliseconds :: "int \<Rightarrow> int" where
  "Milliseconds d = (if d < 0 then - ((- d) div 10 ^ 6) else d div 10 ^ 6)"

text \<open>\<open>newid\<close> and \<open>now\<close> are the id and the instant drawn when the attempt carries none.\<close>

definition prepareAttempt :: "uuid \<Rightarrow> instant \<Rightarrow> Tenant \<Rightarrow> Attempt \<Rightarrow> (err, Attempt) res" where
  "prepareAttempt newid now tc a =
     (if at_OrgID a \<noteq> tc_OrgID tc
      then Inl (EWebhook (InvalidAttemptError ''OrgID'' ''does not match the tenant scope on ctx''))
      else if at_ProjectID a \<noteq> tc_ProjectID tc
      then Inl (EWebhook (InvalidAttemptError ''ProjectID'' ''does not match the tenant scope on ctx''))
      else Inr (BoundResponse (a\<lparr>at_ID := (if at_ID a = uuid_Nil then newid else at_ID a),
        at_CreatedAt := (if at_CreatedAt a = time_Zero then now else at_CreatedAt a),
        at_Error := TruncateCause (at_Error a) MaxCauseLen\<rparr>)))"

definition SaveAttempt :: "uuid \<Rightarrow> instant \<Rightarrow> ctx \<Rightarrow> Attempt \<Rightarrow> (webhook_db, unit) prog" where
  "SaveAttempt newid now c a d =
     (case tenant_From c of Inl err \<Rightarrow> (Inl err, d) | Inr tc \<Rightarrow>
     (case prepareAttempt newid now tc a of Inl err \<Rightarrow> (Inl err, d) | Inr a \<Rightarrow>
      let row = a\<lparr>at_Duration := Milliseconds (at_Duration a) * 10 ^ 6\<rparr> in
      if find_row at_ID (at_ID a) (wd_Attempts d) \<noteq> None then (Inl (Sql ConstraintUnique), d)
      else if find_row ep_ID (at_EndpointID a) (wd_Endpoints d) = None
      then (Inl (EWebhook (EndpointNotFoundError (at_EndpointID a))), d)
      else (Inr (), d\<lparr>wd_Attempts := wd_Attempts d @ [row]\<rparr>)))"

definition ListAttempts :: "ctx \<Rightarrow> uuid \<Rightarrow> uuid \<Rightarrow> webhook_db \<Rightarrow> (err, Attempt list) res" where
  "ListAttempts c endpointID deliveryID d =
     (case tenant_From c of Inl err \<Rightarrow> Inl err | Inr tc \<Rightarrow>
      Inr (sort_key (\<lambda>a. (- at_CreatedAt a, - int (at_ID a)))
        (filter (\<lambda>a. at_OrgID a = tc_OrgID tc \<and> at_EndpointID a = endpointID \<and> at_DeliveryID a = deliveryID) (wd_Attempts d))))"

end
