(* ===== verification/WebhookService.thy ===== *)
theory WebhookService
  imports Webhook
begin

text \<open>
  The webhooks service (\<open>internal/webhook/service.go\<close>) and the deliverer the dispatch
  worker calls (\<open>deliverer.go\<close>).  Ids, instants and random bytes drawn by an operation
  are its arguments.  A list of entry ids and instants, one for each target in turn, is
  a \<open>fan_env\<close>.
\<close>

section \<open>Loading and saving\<close>

definition hooks_load :: "string \<Rightarrow> ctx \<Rightarrow> uuid \<Rightarrow> webhook_db \<Rightarrow> (err, Endpoint) res" where
  "hooks_load op c id' d =
     (case tenant_From c of Inl err \<Rightarrow> Inl err | Inr tc \<Rightarrow>
     (case endpoint_ByID c id' d of
        Inl err \<Rightarrow> Inl (if webhook_IsNotFoundError err then err else Unexpected (op @ '': byID'') err)
      | Inr e \<Rightarrow> if ep_OrgID e \<noteq> tc_OrgID tc \<or> ep_ProjectID e \<noteq> tc_ProjectID tc
                then Inl (EWebhook (EndpointNotFoundError id')) else Inr e))"

definition hooks_save :: "string \<Rightarrow> ctx \<Rightarrow> Endpoint \<Rightarrow> (webhook_db, unit) prog" where
  "hooks_save op c e d =
     (case endpoint_Save c e d of
        (Inl err, d1) \<Rightarrow> (Inl (if webhook_IsNotFoundError err then err else Unexpected (op @ '': save'') err), d1)
      | (Inr _, d1) \<Rightarrow> (Inr (), d1))"

definition hooks_saveSecrets :: "string \<Rightarrow> instant \<Rightarrow> ctx \<Rightarrow> Endpoint \<Rightarrow> SealedSecrets \<Rightarrow> (webhook_db, unit) prog" where
  "hooks_saveSecrets op now c e next' d =
     (case SaveSecrets now c (ep_ID e) (ep_Secrets e) next' d of
        (Inr _, d1) \<Rightarrow> (Inr (), d1)
      | (Inl err, d1) \<Rightarrow> (Inl (if webhook_IsNotFoundError err \<or> IsSecretConflictError err then err
           else Unexpected (op @ '': save secrets'') err), d1))"

definition sealFailure :: "string \<Rightarrow> err \<Rightarrow> err" where
  "sealFailure msg err = (if IsSealerUnavailableError err then err else Unexpected msg err)"

section \<open>Fan-out\<close>

record fan_env =
  fe_EventID :: uuid
  fe_Now :: instant
  fe_IDs :: "nat \<Rightarrow> uuid"
  fe_Ats :: "nat \<Rightarrow> instant"

definition second :: int where "second = 10 ^ 9"

definition event_envelope :: "webhook_lib \<Rightarrow> fan_env \<Rightarrow> uuid \<Rightarrow> uuid \<Rightarrow> string \<Rightarrow> Spec \<Rightarrow> event_data \<Rightarrow> Envelope" where
  "event_envelope lib fe orgID projectID slug spec data =
     \<lparr>en_ID = ''evt_'' @ wl_String lib (fe_EventID fe), en_Type = sp_Type spec, en_APIVersion = APIVersion spec,
      en_CreatedAt = fe_Now fe div second * second,
      en_Tenant = \<lparr>et_OrgID = orgID, et_ProjectID = projectID, et_ProjectSlug = slug\<rparr>, en_Data = data\<rparr>"

definition fan_entry :: "webhook_lib \<Rightarrow> fan_env \<Rightarrow> uuid \<Rightarrow> uuid \<Rightarrow> string \<Rightarrow> nat \<Rightarrow> Endpoint \<Rightarrow> Entry" where
  "fan_entry lib fe orgID projectID body i e =
     \<lparr>e_ID = fe_IDs fe i, e_EventID = fe_EventID fe, e_OrgID = orgID, e_ProjectID = projectID, e_Target = wl_String lib (ep_ID e),
      e_Payload = body, e_Attempt = 0, e_NextAttemptAt = time_Zero, e_Status = StatusOther '''', e_LastError = '''',
      e_CreatedAt = time_Zero\<rparr>"

fun enqueue_targets :: "webhook_lib \<Rightarrow> fan_env \<Rightarrow> ctx \<Rightarrow> uuid \<Rightarrow> uuid \<Rightarrow> string \<Rightarrow> nat \<Rightarrow> Endpoint list \<Rightarrow> (outbox, unit) prog" where
  "enqueue_targets lib fe c orgID projectID body i [] o' = (Inr (), o')"
| "enqueue_targets lib fe c orgID projectID body i (e # es) o' =
     (case Enqueue (fe_Ats fe i) c (fan_entry lib fe orgID projectID body i e) o' of
        (Inl err, o1) \<Rightarrow> (Inl err, o1)
      | (Inr _, o1) \<Rightarrow> enqueue_targets lib fe c orgID projectID body (Suc i) es o1)"

text \<open>\<open>slugOf\<close> is \<open>ProjectSlugs.SlugOf\<close>.\<close>

definition fanOut :: "webhook_lib \<Rightarrow> (uuid \<Rightarrow> (err, string) res) \<Rightarrow> fan_env \<Rightarrow> ctx \<Rightarrow> uuid \<Rightarrow> uuid \<Rightarrow> Spec \<Rightarrow> event_data \<Rightarrow> Endpoint list
    \<Rightarrow> (webhook_db, unit) prog" where
  "fanOut lib slugOf fe c orgID projectID spec data targets d =
     (case slugOf projectID of Inl err \<Rightarrow> (Inl err, d) | Inr slug \<Rightarrow>
     (case wl_Marshal lib (event_envelope lib fe orgID projectID slug spec data) of Inl err \<Rightarrow> (Inl err, d) | Inr body \<Rightarrow>
     (case enqueue_targets lib fe c orgID projectID body 0 targets (wd_Outbox d) of (r, o') \<Rightarrow> (r, d\<lparr>wd_Outbox := o'\<rparr>))))"

definition fan_targets :: "string \<Rightarrow> Endpoint list \<Rightarrow> Endpoint list" where
  "fan_targets t endpoints = filter (\<lambda>e. \<not> (\<not> ep_Active e \<or> \<not> Subscribes e t)) endpoints"

definition hooks_Enqueue :: "webhook_lib \<Rightarrow> (uuid \<Rightarrow> (err, string) res) \<Rightarrow> fan_env \<Rightarrow> ctx \<Rightarrow> string \<Rightarrow> event_data \<Rightarrow> (webhook_db, unit) prog" where
  "hooks_Enqueue lib slugOf fe c t data d =
     (if \<not> ctx_uow c then (Inl (EWebhook WebhookNoUnitOfWorkError), d)
      else case events_Lookup t of None \<Rightarrow> (Inl (EWebhook (UnknownTypeError t)), d) | Some spec \<Rightarrow>
     (case CheckPayload t data of Inl err \<Rightarrow> (Inl err, d) | Inr _ \<Rightarrow>
     (case tenant_From c of Inl err \<Rightarrow> (Inl err, d) | Inr tc \<Rightarrow>
     (case endpoint_List c (tc_OrgID tc) (tc_ProjectID tc) d of Inl err \<Rightarrow> (Inl err, d) | Inr endpoints \<Rightarrow>
      let targets = fan_targets t endpoints in
      if targets = [] then (Inr (), d)
      else fanOut lib slugOf fe c (tc_OrgID tc) (tc_ProjectID tc) spec data targets d))))"

section \<open>Endpoints\<close>

definition hooks_Create :: "webhook_lib \<Rightarrow> Sealer \<Rightarrow> uuid \<Rightarrow> instant \<Rightarrow> (err, string) res \<Rightarrow> (err, string) res \<Rightarrow> ctx
    \<Rightarrow> string \<Rightarrow> string \<Rightarrow> string list \<Rightarrow> (webhook_db, Endpoint \<times> string) prog" where
  "hooks_Create lib sl id' now rnd nonce c rawURL description types d =
     (case tenant_From c of Inl err \<Rightarrow> (Inl err, d) | Inr tc \<Rightarrow>
     (case webhook_New lib id' now (tc_OrgID tc) (tc_ProjectID tc) rawURL description types of Inl err \<Rightarrow> (Inl err, d) | Inr e \<Rightarrow>
     (case endpoint_List c (tc_OrgID tc) (tc_ProjectID tc) d of
        Inl err \<Rightarrow> (Inl (Unexpected ''webhook.Create: list'' err), d)
      | Inr existing \<Rightarrow>
          if length existing \<ge> MaxEndpointsPerProject
          then (Inl (EWebhook (EndpointLimitError (int MaxEndpointsPerProject))), d)
          else case newSecret rnd of Inl err \<Rightarrow> (Inl (Unexpected ''webhook.Create: new secret'' err), d) | Inr secret \<Rightarrow>
         (case sealSecret (wl_String lib) sl nonce (ep_ID e) slotPrimary secret of
            Inl err \<Rightarrow> (Inl (sealFailure ''webhook.Create: seal'' err), d)
          | Inr primary \<Rightarrow>
              let e = e\<lparr>ep_Secrets := (ep_Secrets e)\<lparr>ss_Primary := primary\<rparr>\<rparr> in
              (case hooks_save ''webhook.Create'' c e d of
                 (Inl err, d1) \<Rightarrow> (Inl err, d1)
               | (Inr _, d1) \<Rightarrow> (Inr (e, secret), d1))))))"

definition hooks_Update :: "webhook_lib \<Rightarrow> instant \<Rightarrow> ctx \<Rightarrow> uuid \<Rightarrow> string \<Rightarrow> string \<Rightarrow> string list \<Rightarrow> bool \<Rightarrow> (webhook_db, Endpoint) prog" where
  "hooks_Update lib now c id' rawURL description types active d =
     (case hooks_load ''webhook.Update'' c id' d of Inl err \<Rightarrow> (Inl err, d) | Inr e \<Rightarrow>
     (case endpoint_Update lib now rawURL description types active e of Inl err \<Rightarrow> (Inl err, d) | Inr e \<Rightarrow>
     (case hooks_save ''webhook.Update'' c e d of
        (Inl err, d1) \<Rightarrow> (Inl err, d1)
      | (Inr _, d1) \<Rightarrow> (Inr e, d1))))"

definition hooks_Delete :: "ctx \<Rightarrow> uuid \<Rightarrow> (webhook_db, unit) prog" where
  "hooks_Delete c id' d =
     (case hooks_load ''webhook.Delete'' c id' d of Inl err \<Rightarrow> (Inl err, d) | Inr _ \<Rightarrow>
     (case endpoint_Delete c id' d of
        (Inl err, d1) \<Rightarrow> (Inl (if webhook_IsNotFoundError err then err else Unexpected ''webhook.Delete: delete'' err), d1)
      | (Inr _, d1) \<Rightarrow> (Inr (), d1)))"

definition hooks_ByID :: "ctx \<Rightarrow> uuid \<Rightarrow> webhook_db \<Rightarrow> (err, Endpoint) res" where
  "hooks_ByID c id' d = hooks_load ''webhook.ByID'' c id' d"

definition hooks_List :: "ctx \<Rightarrow> webhook_db \<Rightarrow> (err, Endpoint list) res" where
  "hooks_List c d =
     (case tenant_From c of Inl err \<Rightarrow> Inl err | Inr tc \<Rightarrow>
      map_err (Unexpected ''webhook.List: list'') (endpoint_List c (tc_OrgID tc) (tc_ProjectID tc) d))"

section \<open>Secrets\<close>

definition openPrimary :: "webhook_lib \<Rightarrow> Sealer \<Rightarrow> Endpoint \<Rightarrow> string option" where
  "openPrimary lib sl e =
     (case openSecret (wl_String lib) sl (ep_ID e) slotPrimary (ss_Primary (ep_Secrets e)) of Inl _ \<Rightarrow> None | Inr old \<Rightarrow> Some old)"

text \<open>
  What \<open>Rotate\<close> computes between loading the endpoint and writing its secrets back:
  the new secret and the pair to store.
\<close>

definition rotated :: "webhook_lib \<Rightarrow> Sealer \<Rightarrow> (err, string) res \<Rightarrow> (err, string) res \<Rightarrow> (err, string) res \<Rightarrow> uuid \<Rightarrow> Endpoint
    \<Rightarrow> (err, string \<times> SealedSecrets) res" where
  "rotated lib sl rnd nonce1 nonce2 id' e =
     (case newSecret rnd of Inl err \<Rightarrow> Inl (Unexpected ''webhook.Rotate: new secret'' err) | Inr secret \<Rightarrow>
     (case sealSecret (wl_String lib) sl nonce1 (ep_ID e) slotPrimary secret of
        Inl err \<Rightarrow> Inl (sealFailure ''webhook.Rotate: seal primary'' err)
      | Inr primary \<Rightarrow>
         (case openPrimary lib sl e of
            None \<Rightarrow> Inr (secret, \<lparr>ss_Primary = primary, ss_Secondary = None\<rparr>)
          | Some old \<Rightarrow>
             (case sealSecret (wl_String lib) sl nonce2 (ep_ID e) slotSecondary old of
                Inl err \<Rightarrow> Inl (sealFailure ''webhook.Rotate: seal secondary'' err)
              | Inr secondary \<Rightarrow> Inr (secret, \<lparr>ss_Primary = primary, ss_Secondary = Some secondary\<rparr>)))))"

definition Rotate :: "webhook_lib \<Rightarrow> Sealer \<Rightarrow> instant \<Rightarrow> (err, string) res \<Rightarrow> (err, string) res \<Rightarrow> (err, string) res \<Rightarrow> ctx \<Rightarrow> uuid
    \<Rightarrow> (webhook_db, string) prog" where
  "Rotate lib sl now rnd nonce1 nonce2 c id' d =
     (case hooks_load ''webhook.Rotate'' c id' d of Inl err \<Rightarrow> (Inl err, d) | Inr e \<Rightarrow>
     (case rotated lib sl rnd nonce1 nonce2 id' e of Inl err \<Rightarrow> (Inl err, d) | Inr (secret, next') \<Rightarrow>
     (case hooks_saveSecrets ''webhook.Rotate'' now c e next' d of
        (Inl err, d1) \<Rightarrow> (Inl err, d1)
      | (Inr _, d1) \<Rightarrow> (Inr secret, d1))))"

definition RetireSecondary :: "instant \<Rightarrow> ctx \<Rightarrow> uuid \<Rightarrow> (webhook_db, unit) prog" where
  "RetireSecondary now c id' d =
     (case hooks_load ''webhook.RetireSecondary'' c id' d of Inl err \<Rightarrow> (Inl err, d) | Inr e \<Rightarrow>
      if ss_Secondary (ep_Secrets e) = None then (Inr (), d)
      else hooks_saveSecrets ''webhook.RetireSecondary'' now c e \<lparr>ss_Primary = ss_Primary (ep_Secrets e), ss_Secondary = None\<rparr> d)"

section \<open>Deliveries\<close>

definition SendTest :: "webhook_lib \<Rightarrow> (uuid \<Rightarrow> (err, string) res) \<Rightarrow> fan_env \<Rightarrow> ctx \<Rightarrow> uuid \<Rightarrow> (webhook_db, unit) prog" where
  "SendTest lib slugOf fe c id' d =
     (case hooks_load ''webhook.SendTest'' c id' d of Inl err \<Rightarrow> (Inl err, d) | Inr e \<Rightarrow>
      if \<not> ep_Active e then (Inl (EWebhook (EndpointInactiveError id')), d)
      else case events_Lookup WebhookPing of
        None \<Rightarrow> (Inl (Unexpected ''webhook.SendTest: lookup'' (EWebhook (UnknownTypeError WebhookPing))), d)
      | Some spec \<Rightarrow>
         (case fanOut lib slugOf fe c (ep_OrgID e) (ep_ProjectID e) spec (WebhookPingV1 (ep_ID e)) [e] d of
            (Inl err, d1) \<Rightarrow> (Inl (Unexpected ''webhook.SendTest: enqueue'' err), d1)
          | (Inr _, d1) \<Rightarrow> (Inr (), d1)))"

definition envelopeType :: "webhook_lib \<Rightarrow> string \<Rightarrow> (string, string) res" where
  "envelopeType lib payload =
     (case wl_type lib payload of
        Inl t \<Rightarrow> Inl (''decode envelope type: '' @ t)
      | Inr t \<Rightarrow> if t = '''' then Inl ''decode envelope type: type is empty'' else Inr t)"

record Delivery = Entry +
  dl_EventType :: string

definition toDelivery :: "webhook_lib \<Rightarrow> Entry \<Rightarrow> Delivery" where
  "toDelivery lib e = Entry.extend e (Delivery.fields (case envelopeType lib (e_Payload e) of Inl _ \<Rightarrow> '''' | Inr t \<Rightarrow> t))"

definition MaxDeliveriesListed :: int where "MaxDeliveriesListed = 50"

definition Deliveries :: "webhook_lib \<Rightarrow> ctx \<Rightarrow> uuid \<Rightarrow> int \<Rightarrow> webhook_db \<Rightarrow> (err, Delivery list) res" where
  "Deliveries lib c id' limit d =
     (case hooks_load ''webhook.Deliveries'' c id' d of Inl err \<Rightarrow> Inl err | Inr _ \<Rightarrow>
     (case ListByTarget c (wl_String lib id') (min limit MaxDeliveriesListed) (wd_Outbox d) of
        Inl err \<Rightarrow> Inl (Unexpected ''webhook.Deliveries: list'' err)
      | Inr entries \<Rightarrow> Inr (map (toDelivery lib) entries)))"

definition hooks_Delivery :: "webhook_lib \<Rightarrow> ctx \<Rightarrow> uuid \<Rightarrow> uuid \<Rightarrow> webhook_db \<Rightarrow> (err, Delivery) res" where
  "hooks_Delivery lib c id' deliveryID d =
     (case hooks_load ''webhook.Delivery'' c id' d of Inl err \<Rightarrow> Inl err | Inr _ \<Rightarrow>
     (case outbox_ByID c deliveryID (wl_String lib id') (wd_Outbox d) of
        Inl err \<Rightarrow> Inl (if outbox_IsNotFoundError err then EWebhook (DeliveryNotFoundError deliveryID)
          else Unexpected ''webhook.Delivery: byID'' err)
      | Inr e \<Rightarrow> Inr (toDelivery lib e)))"

definition hooks_Attempts :: "ctx \<Rightarrow> uuid \<Rightarrow> uuid \<Rightarrow> webhook_db \<Rightarrow> (err, Attempt list) res" where
  "hooks_Attempts c id' deliveryID d =
     (case hooks_load ''webhook.Attempts'' c id' d of Inl err \<Rightarrow> Inl err | Inr _ \<Rightarrow>
      map_err (Unexpected ''webhook.Attempts: list'') (ListAttempts c id' deliveryID d))"

definition Retry :: "webhook_lib \<Rightarrow> instant \<Rightarrow> ctx \<Rightarrow> uuid \<Rightarrow> uuid \<Rightarrow> (webhook_db, unit) prog" where
  "Retry lib now c id' deliveryID d =
     (case hooks_load ''webhook.Retry'' c id' d of Inl err \<Rightarrow> (Inl err, d) | Inr _ \<Rightarrow>
     (case Requeue now c deliveryID (wl_String lib id') (wd_Outbox d) of
        (Inr _, o') \<Rightarrow> (Inr (), d\<lparr>wd_Outbox := o'\<rparr>)
      | (Inl err, o') \<Rightarrow>
          (Inl (if outbox_IsNotFailedError err then EWebhook (DeliveryNotRetryableError deliveryID)
                else if outbox_IsNotFoundError err then EWebhook (DeliveryNotFoundError deliveryID)
                else Unexpected ''webhook.Retry: requeue'' err), d\<lparr>wd_Outbox := o'\<rparr>)))"

definition RetryFailed :: "webhook_lib \<Rightarrow> instant \<Rightarrow> ctx \<Rightarrow> uuid \<Rightarrow> (webhook_db, nat) prog" where
  "RetryFailed lib now c id' d =
     (case hooks_load ''webhook.RetryFailed'' c id' d of Inl err \<Rightarrow> (Inl err, d) | Inr _ \<Rightarrow>
     (case RequeueFailed now c (wl_String lib id') (wd_Outbox d) of
        (Inl err, o') \<Rightarrow> (Inl (Unexpected ''webhook.RetryFailed: requeue'' err), d\<lparr>wd_Outbox := o'\<rparr>)
      | (Inr n, o') \<Rightarrow> (Inr n, d\<lparr>wd_Outbox := o'\<rparr>)))"

section \<open>The deliverer\<close>

text \<open>How a delivery fails, and the text of each failure.\<close>

datatype deliver_error =
    TargetError string
  | LoadError err
  | InactiveError uuid
  | SecretError err
  | TypeError string
  | BuildError string
  | PostError string
  | StatusError int

fun deliver_Error :: "webhook_lib \<Rightarrow> deliver_error \<Rightarrow> string" where
  "deliver_Error lib (TargetError t) = ''webhook.Deliver: target: '' @ t"
| "deliver_Error lib (LoadError e) = ''webhook.Deliver: load endpoint: '' @ wl_Error lib e"
| "deliver_Error lib (InactiveError i) = ''webhook: endpoint inactive: id='' @ wl_String lib i"
| "deliver_Error lib (SecretError e) =
     ''webhook: signing secret unavailable: rotate the endpoint secret to recover: webhook.openSecret: '' @ wl_Error lib e"
| "deliver_Error lib (TypeError t) = ''webhook.Deliver: '' @ t"
| "deliver_Error lib (BuildError t) = ''webhook.Deliver: build request: '' @ t"
| "deliver_Error lib (PostError t) = ''webhook.Deliver: post: '' @ t"
| "deliver_Error lib (StatusError n) = ''webhook: delivery failed: status='' @ FormatInt n"

definition errorText :: "webhook_lib \<Rightarrow> deliver_error option \<Rightarrow> string" where
  "errorText lib e = (case e of None \<Rightarrow> '''' | Some e \<Rightarrow> deliver_Error lib e)"

record request =
  rq_URL :: string
  rq_Headers :: "Header list"
  rq_Body :: string

text \<open>The HTTP client: an answer, or the text of its error.  \<open>dv_Unix\<close> is the second the request is signed at.\<close>

record deliver_env =
  dv_Do :: "request \<Rightarrow> (string, response) res"
  dv_Unix :: int
  dv_Duration :: int
  dv_AttemptID :: uuid
  dv_At :: instant

definition deliveryHeaders :: "webhook_lib \<Rightarrow> Entry \<Rightarrow> string \<Rightarrow> Header list" where
  "deliveryHeaders lib e eventType =
     [\<lparr>h_Name = ''X-Yasaku-Event-Id'', h_Value = ''evt_'' @ wl_String lib (e_EventID e)\<rparr>,
      \<lparr>h_Name = ''X-Yasaku-Event-Type'', h_Value = eventType\<rparr>,
      \<lparr>h_Name = ''X-Yasaku-Delivery-Id'', h_Value = ''dlv_'' @ wl_String lib (e_ID e)\<rparr>,
      \<lparr>h_Name = ''Content-Type'', h_Value = ''application/json''\<rparr>,
      \<lparr>h_Name = ''User-Agent'', h_Value = ''Yasaku-Webhooks/1''\<rparr>]"

definition openSecrets :: "webhook_lib \<Rightarrow> Sealer \<Rightarrow> Endpoint \<Rightarrow> (deliver_error, string list) res" where
  "openSecrets lib sl ep =
     (case openSecret (wl_String lib) sl (ep_ID ep) slotPrimary (ss_Primary (ep_Secrets ep)) of
        Inl err \<Rightarrow> Inl (SecretError err)
      | Inr primary \<Rightarrow>
         (case ss_Secondary (ep_Secrets ep) of None \<Rightarrow> Inr [primary] | Some s \<Rightarrow>
            if s = [] then Inr [primary]
            else case openSecret (wl_String lib) sl (ep_ID ep) slotSecondary s of
              Inl err \<Rightarrow> Inl (SecretError err)
            | Inr secondary \<Rightarrow> Inr [primary, secondary]))"

fun strings_Join :: "string list \<Rightarrow> string \<Rightarrow> string" where
  "strings_Join [] sep = []"
| "strings_Join [s] sep = s"
| "strings_Join (s # t # ss) sep = s @ sep @ strings_Join (t # ss) sep"

definition signed_request :: "webhook_lib \<Rightarrow> deliver_env \<Rightarrow> string \<Rightarrow> Entry \<Rightarrow> string \<Rightarrow> string list \<Rightarrow> request" where
  "signed_request lib env endpointURL e eventType secrets =
     (let timestamp = FormatInt (dv_Unix env);
          signatures = map (\<lambda>s. Sign (wl_hmac lib) s timestamp (e_Payload e)) secrets
      in \<lparr>rq_URL = endpointURL,
          rq_Headers = deliveryHeaders lib e eventType
            @ [\<lparr>h_Name = ''X-Yasaku-Timestamp'', h_Value = timestamp\<rparr>,
               \<lparr>h_Name = ''X-Yasaku-Signature'', h_Value = strings_Join signatures '' ''\<rparr>],
          rq_Body = e_Payload e\<rparr>)"

definition no_receipt :: receipt where
  "no_receipt = \<lparr>rc_status = 0, rc_body = '''', rc_truncated = False, rc_headers = []\<rparr>"

text \<open>Posting: the receipt, the error, and the request that was sent if one was.\<close>

definition post :: "webhook_lib \<Rightarrow> deliver_env \<Rightarrow> string \<Rightarrow> Entry \<Rightarrow> string \<Rightarrow> string list \<Rightarrow> receipt \<times> deliver_error option \<times> request option" where
  "post lib env endpointURL e eventType secrets =
     (case wl_url lib endpointURL of
        Inl t \<Rightarrow> (no_receipt, Some (BuildError t), None)
      | Inr _ \<Rightarrow>
          let req = signed_request lib env endpointURL e eventType secrets in
          case dv_Do env req of
            Inl t \<Rightarrow> (no_receipt, Some (PostError t), Some req)
          | Inr resp \<Rightarrow>
              let rc = readReceipt resp in
              if rc_status rc < 200 \<or> rc_status rc > 299 then (rc, Some (StatusError (rc_status rc)), Some req)
              else (rc, None, Some req))"

text \<open>Recording the attempt logs a failure and goes on.\<close>

definition attempt_of :: "deliver_env \<Rightarrow> Entry \<Rightarrow> Endpoint \<Rightarrow> string \<Rightarrow> receipt \<Rightarrow> string \<Rightarrow> Attempt" where
  "attempt_of env e ep eventType rc errtext =
     \<lparr>at_ID = uuid_Nil, at_OrgID = e_OrgID e, at_ProjectID = e_ProjectID e, at_EndpointID = ep_ID ep, at_DeliveryID = e_ID e,
      at_EventID = e_EventID e, at_EventType = eventType, at_Attempt = e_Attempt e, at_StatusCode = rc_status rc, at_Error = errtext,
      at_ResponseBody = rc_body rc, at_ResponseTruncated = rc_truncated rc, at_ResponseHeaders = rc_headers rc,
      at_Duration = dv_Duration env, at_CreatedAt = time_Zero\<rparr>"

definition Deliver :: "webhook_lib \<Rightarrow> Sealer \<Rightarrow> deliver_env \<Rightarrow> ctx \<Rightarrow> Entry \<Rightarrow> webhook_db \<Rightarrow> deliver_error option \<times> request option \<times> webhook_db" where
  "Deliver lib sl env c e d =
     (case wl_Parse lib (e_Target e) of Inl t \<Rightarrow> (Some (TargetError t), None, d) | Inr endpointID \<Rightarrow>
     (case endpoint_ByID c endpointID d of
        Inl err \<Rightarrow> if webhook_IsNotFoundError err then (None, None, d) else (Some (LoadError err), None, d)
      | Inr ep \<Rightarrow>
          if ep_OrgID ep \<noteq> e_OrgID e \<or> ep_ProjectID ep \<noteq> e_ProjectID e then (None, None, d)
          else let c = WithProject c (e_ProjectID e) in
          if \<not> ep_Active ep then (Some (InactiveError (ep_ID ep)), None, d)
          else case openSecrets lib sl ep of Inl err \<Rightarrow> (Some err, None, d) | Inr secrets \<Rightarrow>
         (case envelopeType lib (e_Payload e) of Inl t \<Rightarrow> (Some (TypeError t), None, d) | Inr eventType \<Rightarrow>
         (case post lib env (ep_URL ep) e eventType secrets of (rc, sendErr, sent) \<Rightarrow>
            (sendErr, sent, snd (SaveAttempt (dv_AttemptID env) (dv_At env) c (attempt_of env e ep eventType rc (errorText lib sendErr)) d))))))"

end
