(* ===== verification/WebhookResponse.thy ===== *)
theory WebhookResponse
  imports Webhook
begin

text \<open>
  What is kept of a receiver's answer: valid UTF-8 without NUL, within the caps, and no
  header whose name may announce a credential.  The argument is about the sequences
  \<open>runes\<close> cuts a text into: cleaning replaces some of them, and a cut at a byte limit
  followed by \<open>trimPartialRune\<close> drops the incomplete one at the end.
\<close>

section \<open>Texts made of whole sequences\<close>

abbreviation valid_part :: "string \<Rightarrow> bool" where
  "valid_part r \<equiv> whole_rune r \<and> valid_rune r"

lemma ValidString_concat: "\<forall>r \<in> set rs. valid_part r \<Longrightarrow> ValidString (concat rs)"
  by (simp add: ValidString_def runes_concat list_all_iff)

lemma runes_valid_whole:
  assumes "r \<in> set (runes s)" "valid_rune r"
  shows "whole_rune r"
proof (cases "length r = 1")
  case True
  then obtain c where "r = [c]" by (cases r) auto
  then show ?thesis using assms(2) whole_ascii by (simp add: valid_rune_def)
qed (use runes_shape [OF assms(1)] in blast)

lemma valid_rune_error: "valid_part rune_error"
  using whole_rune_error by (simp add: valid_rune_def rune_error_def)

text \<open>\<open>replace_runs\<close> on sequences rather than on text.\<close>

fun replaced_runes :: "string \<Rightarrow> bool \<Rightarrow> string list \<Rightarrow> string list" where
  "replaced_runes rep bad [] = []"
| "replaced_runes rep bad (r # rs) =
     (if valid_rune r then r # replaced_runes rep False rs
      else (if bad then [] else [rep]) @ replaced_runes rep True rs)"

lemma replace_runs_concat: "replace_runs rep bad rs = concat (replaced_runes rep bad rs)"
  by (induction rs arbitrary: bad) auto

lemma replaced_runes_set: "r \<in> set (replaced_runes rep bad rs) \<Longrightarrow> r = rep \<or> r \<in> set rs \<and> valid_rune r"
  by (induction rs arbitrary: bad) (auto split: if_splits)

lemma ToValidUTF8_parts:
  "ToValidUTF8 s rune_error = concat (replaced_runes rune_error False (runes s))"
  "r \<in> set (replaced_runes rune_error bad (runes s)) \<Longrightarrow> valid_part r"
  using replaced_runes_set [of r rune_error bad "runes s"] runes_valid_whole valid_rune_error
  by (auto simp: ToValidUTF8_def replace_runs_concat)

section \<open>Cutting at a byte\<close>

lemma whole_rune_len: "whole_rune r \<Longrightarrow> rune_len r = length r"
  using whole_rune_def [of r] by (metis append_Nil2)

lemma rune_len_lead:
  assumes "1 < rune_len s"
  defines "b \<equiv> byte (hd s)"
  shows "rune_len s = lead_len b" "0xC2 \<le> b" "cont_in (second_lo b) (second_hi b) 1 s"
    "2 < rune_len s \<Longrightarrow> cont_in 0x80 0xBF 2 s" "3 < rune_len s \<Longrightarrow> cont_in 0x80 0xBF 3 s"
proof -
  consider "b < 0xC2" | "0xC2 \<le> b" "b \<le> 0xDF" | "0xDF < b" "b \<le> 0xEF" | "0xEF < b" "b \<le> 0xF4" | "0xF4 < b" by linarith
  then have "rune_len s = lead_len b \<and> 0xC2 \<le> b \<and> cont_in (second_lo b) (second_hi b) 1 s
    \<and> (2 < rune_len s \<longrightarrow> cont_in 0x80 0xBF 2 s) \<and> (3 < rune_len s \<longrightarrow> cont_in 0x80 0xBF 3 s)"
  proof cases
    case 2
    then show ?thesis using assms(1)
      by (simp add: rune_len_def Let_def lead_len_def second_lo_def second_hi_def flip: b_def split: if_splits)
  next
    case 3
    then show ?thesis using assms(1)
      by (simp add: rune_len_def Let_def lead_len_def second_lo_def second_hi_def flip: b_def split: if_splits)
  next
    case 4
    then show ?thesis using assms(1)
      by (simp add: rune_len_def Let_def lead_len_def second_lo_def second_hi_def flip: b_def split: if_splits)
  qed (use assms(1) in \<open>simp_all add: rune_len_def Let_def flip: b_def\<close>)
  then show "rune_len s = lead_len b" "0xC2 \<le> b" "cont_in (second_lo b) (second_hi b) 1 s"
    "2 < rune_len s \<Longrightarrow> cont_in 0x80 0xBF 2 s" "3 < rune_len s \<Longrightarrow> cont_in 0x80 0xBF 3 s" by blast+
qed

lemma second_bounds: "0x80 \<le> second_lo b" "second_hi b \<le> 0xBF"
  by (simp_all add: second_lo_def second_hi_def)

lemma cont_not_start: "cont_in lo hi i s \<Longrightarrow> 0x80 \<le> lo \<Longrightarrow> hi \<le> 0xBF \<Longrightarrow> \<not> RuneStart (s ! i)"
  by (simp add: cont_in_def RuneStart_def)

lemma valid_part_bytes:
  assumes "valid_part r"
  shows "r \<noteq> []" "RuneStart (hd r)" "length r = lead_len (byte (hd r))" "length r \<le> 4"
    "\<And>i. 0 < i \<Longrightarrow> i < length r \<Longrightarrow> \<not> RuneStart (r ! i)"
    "1 < length r \<Longrightarrow> cont_in (second_lo (byte (hd r))) (second_hi (byte (hd r))) 1 r"
    "2 < length r \<Longrightarrow> cont_in 0x80 0xBF 2 r"
proof -
  let ?b = "byte (hd r)"
  have w: "whole_rune r" and v: "valid_rune r" using assms by simp_all
  note l = whole_rune_len [OF w]
  have ne: "r \<noteq> []" using w by (simp add: whole_rune_def)
  note lead = rune_len_lead [of r, unfolded l]
  show "r \<noteq> []" by (rule ne)
  have short: "?b < 0x80" "length r = 1" if "\<not> 1 < length r"
  proof -
    show "?b < 0x80" using v that by (simp add: valid_rune_def)
    show "length r = 1" using that ne by (cases r) simp_all
  qed
  show len: "length r = lead_len ?b"
  proof (cases "1 < length r")
    case False
    then show ?thesis using short by (simp add: lead_len_def)
  qed (rule lead(1))
  show l4: "length r \<le> 4" using len by (simp add: lead_len_def)
  show "RuneStart (hd r)"
  proof (cases "1 < length r")
    case True
    then show ?thesis using lead(2) by (simp add: RuneStart_def)
  qed (use short in \<open>simp add: RuneStart_def\<close>)
  show c1: "1 < length r \<Longrightarrow> cont_in (second_lo ?b) (second_hi ?b) 1 r" by (rule lead(3))
  show c2: "2 < length r \<Longrightarrow> cont_in 0x80 0xBF 2 r" using lead(4) by simp
  fix i assume i: "0 < i" "i < length r"
  then consider "i = 1" | "i = 2" | "i = 3" using l4 by linarith
  then show "\<not> RuneStart (r ! i)"
  proof cases
    case 1
    then show ?thesis using cont_not_start [OF c1] second_bounds i by simp
  next
    case 2
    then show ?thesis using cont_not_start [OF c2] i by simp
  next
    case 3
    then show ?thesis using cont_not_start [OF lead(5)] i by simp
  qed
qed

lemma trim_from_tail:
  assumes "r \<noteq> []" "RuneStart (r ! 0)" "\<And>j. 0 < j \<Longrightarrow> j < length r \<Longrightarrow> \<not> RuneStart (r ! j)" "1 \<le> i" "i \<le> length r"
  shows "trim_from fuel i (u @ r) = (if length r < i + fuel \<and> \<not> FullRune r then u else u @ r)"
  using assms(4,5)
proof (induction fuel arbitrary: i)
  case (Suc fuel)
  have "length (u @ r) - i = length u + (length r - i)" using Suc.prems by simp
  then have at: "(u @ r) ! (length (u @ r) - i) = r ! (length r - i)" by (simp only: nth_append_length_plus)
  show ?case
  proof (cases "i = length r")
    case True
    then show ?thesis using at assms(1,2) by simp
  next
    case False
    then have "\<not> RuneStart (r ! (length r - i))" using Suc.prems by (intro assms(3)) auto
    then show ?thesis using at Suc.prems False Suc.IH [of "Suc i"] by simp
  qed
qed simp

lemma trim_whole:
  assumes "\<forall>r \<in> set rs. valid_part r"
  shows "trimPartialRune (concat rs) = concat rs"
proof (cases rs rule: rev_cases)
  case Nil
  then show ?thesis by (simp add: trimPartialRune_def numeral_3_eq_3)
next
  case (snoc us r)
  then have r: "valid_part r" using assms by simp
  note b = valid_part_bytes [OF r]
  have "FullRune r" using b(1,3) by (simp add: FullRune_def)
  moreover have "1 \<le> length r" using b(1) by (cases r) auto
  ultimately have "trimPartialRune (concat us @ r) = concat us @ r"
    unfolding trimPartialRune_def using b by (subst trim_from_tail) (auto simp: hd_conv_nth)
  then show ?thesis using snoc by simp
qed

lemma trim_partial:
  assumes r: "valid_part r" and p: "strict_prefix p r" "p \<noteq> []"
  shows "trimPartialRune (u @ p) = u"
proof -
  note b = valid_part_bytes [OF r]
  have l: "length p < length r" using prefix_length_less [OF p(1)] .
  have at: "p ! j = r ! j" if "j < length p" for j using p(1) that by (auto simp: strict_prefix_def prefix_def nth_append)
  have h: "hd p = hd r" using p by (auto simp: strict_prefix_def prefix_def)
  have c: "cont_in lo hi j p = cont_in lo hi j r" if "j < length p" for lo hi j using at that l by (simp add: cont_in_def)
  have "\<not> FullRune p" using l b(3,6,7) c [of 1] c [of 2] p(2) by (simp add: FullRune_def h)
  moreover have "1 \<le> length p" using p(2) by (cases p) auto
  moreover have "RuneStart (p ! 0)" using b(2) h p(2) by (simp add: hd_conv_nth)
  ultimately show ?thesis
    unfolding trimPartialRune_def using b(4,5) l p(2) at by (subst trim_from_tail) auto
qed

lemma take_concat:
  obtains ts p where "take n (concat rs) = concat ts @ p" "prefix ts rs" "p = [] \<or> (\<exists>r \<in> set rs. strict_prefix p r)"
proof -
  have "\<exists>ts p. take n (concat rs) = concat ts @ p \<and> prefix ts rs \<and> (p = [] \<or> (\<exists>r \<in> set rs. strict_prefix p r))"
  proof (induction rs arbitrary: n)
    case (Cons r rs)
    show ?case
    proof (cases "n < length r")
      case True
      then have "strict_prefix (take n r) r" by (auto simp: strict_prefix_def take_is_prefix dest: arg_cong [where f = length])
      then show ?thesis using True by (intro exI [of _ "[]"] exI [of _ "take n r"]) auto
    next
      case False
      obtain ts p where "take (n - length r) (concat rs) = concat ts @ p" "prefix ts rs"
        "p = [] \<or> (\<exists>r \<in> set rs. strict_prefix p r)" using Cons.IH by blast
      then show ?thesis using False by (intro exI [of _ "r # ts"] exI [of _ p]) auto
    qed
  qed (intro exI [of _ "[]"], simp)
  then show ?thesis using that by blast
qed

lemma trim_take:
  assumes "\<forall>r \<in> set rs. valid_part r"
  obtains ts where "trimPartialRune (take n (concat rs)) = concat ts" "prefix ts rs"
proof -
  obtain ts p where t: "take n (concat rs) = concat ts @ p" "prefix ts rs" "p = [] \<or> (\<exists>r \<in> set rs. strict_prefix p r)"
    using take_concat [of n rs] by metis
  have "\<forall>r \<in> set ts. valid_part r" using assms t(2) set_mono_prefix by blast
  then have "trimPartialRune (concat ts @ p) = concat ts"
    using t(3) assms trim_whole [of ts] trim_partial [of _ p "concat ts"] by (cases "p = []") auto
  then show ?thesis using that t by simp
qed

lemma length_trim_from: "length (trim_from fuel i b) \<le> length b"
  by (induction fuel i b rule: trim_from.induct) auto

section \<open>Storable text\<close>

definition cleaned :: "string \<Rightarrow> string list" where
  "cleaned s = replaced_runes rune_error False (runes (replace_nul s))"

lemma cleaned_valid: "r \<in> set (cleaned s) \<Longrightarrow> valid_part r"
  unfolding cleaned_def by (rule ToValidUTF8_parts(2))

lemma storableText_parts:
  obtains ts where "fst (storableText s limit) = concat ts" "prefix ts (cleaned s)" "length (concat ts) \<le> limit"
proof (cases "length (concat (cleaned s)) \<le> limit")
  case True
  then show ?thesis using that [of "cleaned s"] by (simp add: storableText_def ToValidUTF8_parts(1) cleaned_def)
next
  case False
  have "length (trimPartialRune (take limit (concat (cleaned s)))) \<le> limit"
    using length_trim_from [of 3 1 "take limit (concat (cleaned s))"] by (simp add: trimPartialRune_def)
  then show ?thesis using False that trim_take [of "cleaned s" limit] cleaned_valid
    by (simp add: storableText_def ToValidUTF8_parts(1) flip: cleaned_def) metis
qed

lemma rune_error_no_nul: "CHR 0x00 \<notin> set rune_error"
  by (simp add: rune_error_def char_of_def)

lemma replace_nul_no_nul: "CHR 0x00 \<notin> set (replace_nul s)"
  using rune_error_no_nul by (auto simp: replace_nul_def split: if_splits)

lemma runes_set: "r \<in> set (runes s) \<Longrightarrow> set r \<subseteq> set s"
  using concat_runes [of s] by (metis UN_upper set_concat)

lemma cleaned_no_nul: "r \<in> set (cleaned s) \<Longrightarrow> CHR 0x00 \<notin> set r"
  using replaced_runes_set [of r rune_error False "runes (replace_nul s)"] runes_set [of r "replace_nul s"] replace_nul_no_nul [of s]
    rune_error_no_nul by (auto simp: cleaned_def)

lemma storableText_ok:
  "ValidString (fst (storableText s limit))" "CHR 0x00 \<notin> set (fst (storableText s limit))"
  "length (fst (storableText s limit)) \<le> limit"
proof -
  obtain ts where t: "fst (storableText s limit) = concat ts" "prefix ts (cleaned s)" "length (concat ts) \<le> limit"
    using storableText_parts [of s limit] by metis
  have "set ts \<subseteq> set (cleaned s)" using t(2) by (rule set_mono_prefix)
  then show "ValidString (fst (storableText s limit))" "CHR 0x00 \<notin> set (fst (storableText s limit))"
    using cleaned_valid cleaned_no_nul by (auto simp: t(1) intro!: ValidString_concat)
  show "length (fst (storableText s limit)) \<le> limit" using t by simp
qed
section \<open>Credential headers\<close>

text \<open>Replacing NUL does not move the borders between sequences.\<close>

lemma replace_nul_Cons: "replace_nul (c # s) = (if c = CHR 0x00 then rune_error else [c]) @ replace_nul s"
  by (simp add: replace_nul_def)

lemma replace_nul_append: "replace_nul (s @ t) = replace_nul s @ replace_nul t"
  by (simp add: replace_nul_def)

lemma replace_nul_id: "CHR 0x00 \<notin> set s \<Longrightarrow> replace_nul s = s"
  by (induction s) (auto simp: replace_nul_def)

lemma rune_error_hd: "byte (hd rune_error) = 0xEF" "rune_error \<noteq> []"
  by (simp_all add: rune_error_def byte_def)

lemma cont_in_0:
  assumes "cont_in lo hi 0 (replace_nul t)" "hi \<le> 0xBF"
  shows "t \<noteq> [] \<and> hd t \<noteq> CHR 0x00 \<and> cont_in lo hi 0 t"
proof (cases t)
  case (Cons c u)
  have "\<not> cont_in lo hi 0 (rune_error @ s)" for s
    using rune_error_hd assms(2) by (simp add: cont_in_def nth_append hd_conv_nth)
  then show ?thesis using assms(1) Cons by (auto simp: replace_nul_Cons cont_in_def split: if_splits)
qed (use assms in \<open>simp add: replace_nul_def cont_in_def\<close>)

lemma cont_in_Suc: "cont_in lo hi (Suc i) (c # s) = cont_in lo hi i s"
  by (simp add: cont_in_def)

lemma cont_in_replace:
  "cont_in lo hi i (replace_nul t) \<Longrightarrow> \<forall>j < i. \<exists>lo' hi'. hi' \<le> 0xBF \<and> cont_in lo' hi' j (replace_nul t) \<Longrightarrow> hi \<le> 0xBF \<Longrightarrow> cont_in lo hi i t"
proof (induction i arbitrary: t)
  case (Suc i)
  obtain lo' hi' where "hi' \<le> 0xBF" "cont_in lo' hi' 0 (replace_nul t)" using Suc.prems(2) by blast
  then have "t \<noteq> [] \<and> hd t \<noteq> CHR 0x00" using cont_in_0 by blast
  then obtain c u where t: "t = c # u" "c \<noteq> CHR 0x00" by (cases t) auto
  have "\<forall>j < i. \<exists>lo' hi'. hi' \<le> 0xBF \<and> cont_in lo' hi' j (replace_nul u)"
    using Suc.prems(2) t by (auto simp: replace_nul_Cons cont_in_Suc) (metis Suc_less_eq cont_in_Suc)
  then show ?case using Suc.IH [of u] Suc.prems(1,3) t by (simp add: replace_nul_Cons cont_in_Suc)
qed (use cont_in_0 in blast)

lemma rune_len_single:
  assumes "rune_len (c # t) = 1"
  shows "rune_len (c # replace_nul t) = 1"
proof (rule ccontr)
  let ?s = "c # replace_nul t"
  assume "rune_len ?s \<noteq> 1"
  then have l: "1 < rune_len ?s" using rune_len_pos [of ?s] by linarith
  note lead = rune_len_lead [OF l]
  have c1: "cont_in (second_lo (byte c)) (second_hi (byte c)) 0 (replace_nul t)" using lead(3) by (simp add: cont_in_Suc)
  have c2: "cont_in 0x80 0xBF 1 (replace_nul t)" if "2 < rune_len ?s" using lead(4) [OF that] by (simp add: cont_in_def numeral_2_eq_2)
  have c3: "cont_in 0x80 0xBF 2 (replace_nul t)" if "3 < rune_len ?s" using lead(5) [OF that] by (simp add: cont_in_def numeral_3_eq_3 numeral_2_eq_2)
  have d1: "cont_in (second_lo (byte c)) (second_hi (byte c)) 1 (c # t)"
    using cont_in_0 [OF c1] second_bounds by (simp add: cont_in_Suc)
  have d2: "cont_in 0x80 0xBF 2 (c # t)" if "2 < rune_len ?s"
    using cont_in_replace [OF c2 [OF that]] c1 second_bounds by (auto simp: cont_in_Suc numeral_2_eq_2)
  have d3: "cont_in 0x80 0xBF 3 (c # t)" if "3 < rune_len ?s"
    using cont_in_replace [OF c3 [OF that]] c1 c2 second_bounds that
    by (auto simp: cont_in_Suc numeral_3_eq_3 less_Suc_eq numeral_2_eq_2)
  have "rune_len (c # t) = lead_len (byte c)" if "rune_len ?s = lead_len (byte c)"
    using d1 d2 d3 lead(2) l that
    by (auto simp: rune_len_def [of "c # t"] Let_def lead_len_def second_lo_def second_hi_def split: if_splits)
  then show False using lead(1) assms l by simp
qed
lemma rune_len_whole: "whole_rune r \<Longrightarrow> rune_len (r @ t) = length r"
  by (simp add: whole_rune_def)

lemma runes_append: "whole_rune r \<Longrightarrow> runes (r @ t) = r # runes t"
  by (subst runes.simps) (simp add: rune_len_whole, simp add: whole_rune_def)

lemma multi_no_nul: "valid_part r \<Longrightarrow> 1 < length r \<Longrightarrow> CHR 0x00 \<notin> set r"
proof
  assume r: "valid_part r" "1 < length r" "CHR 0x00 \<in> set r"
  then obtain i where i: "i < length r" "r ! i = CHR 0x00" by (auto simp: in_set_conv_nth)
  have "i = 0" using valid_part_bytes(5) [OF r(1), of i] i by (cases i) (auto simp: RuneStart_def byte_def)
  then have "byte (hd r) = 0" using i r(2) by (simp add: hd_conv_nth byte_def)
  then show False using valid_part_bytes(3) [OF r(1)] r(2) by (simp add: lead_len_def)
qed

lemma runes_replace_nul: "runes (replace_nul s) = map (\<lambda>r. if r = [CHR 0x00] then rune_error else r) (runes s)"
proof (induction s rule: runes.induct)
  case (1 s)
  show ?case
  proof (cases s)
    case (Cons c t)
    let ?n = "rune_len s" and ?f = "\<lambda>r. if r = [CHR 0x00] then rune_error else r"
    have rs: "runes s = take ?n s # runes (drop ?n s)" using Cons by (subst runes.simps) simp
    have ih: "runes (replace_nul (drop ?n s)) = map ?f (runes (drop ?n s))" using 1 Cons by simp
    show ?thesis
    proof (cases "?n = 1")
      case n: True
      show ?thesis
      proof (cases "c = CHR 0x00")
        case True
        then show ?thesis using rs ih n Cons runes_append [OF whole_rune_error] by (simp add: replace_nul_Cons)
      next
        case False
        then have "runes (replace_nul s) = [c] # runes (replace_nul t)"
          using rune_len_single [of c t] n Cons by (subst runes.simps) (simp add: replace_nul_Cons)
        then show ?thesis using rs ih n Cons False by simp
      qed
    next
      case False
      then have n: "1 < ?n" using rune_len_pos [of s] by linarith
      have l: "length (take ?n s) = ?n" using Cons rune_len_le [of s] by simp
      have w: "whole_rune (take ?n s)" using n l rune_len_prefix [OF n refl] by (auto simp: whole_rune_def)
      moreover have v: "valid_rune (take ?n s)" using n l by (simp add: valid_rune_def)
      ultimately have "CHR 0x00 \<notin> set (take ?n s)" using multi_no_nul n l by auto
      then have "replace_nul s = take ?n s @ replace_nul (drop ?n s)"
        using replace_nul_append [of "take ?n s" "drop ?n s"] by (simp add: replace_nul_id)
      then show ?thesis using runes_append [OF w] rs ih n l by (auto dest: arg_cong [where f = length])
    qed
  qed (simp add: replace_nul_def)
qed

text \<open>A text that avoids the bytes of the replacement character is found in the cleaned name only if it is in the name.\<close>

lemma sublist_skip:
  assumes "sublist m (sep @ y)" "set m \<inter> set sep = {}"
  shows "sublist m y"
proof -
  have nil: "m' = []" if "sublist m' sep" "set m' \<subseteq> set m" for m'
    using assms(2) that set_mono_sublist [OF that(1)] by (cases m') auto
  from assms(1) consider "sublist m sep" | "sublist m y" | m1 m2 where "m = m1 @ m2" "suffix m1 sep" "prefix m2 y"
    by (auto simp: sublist_append)
  then show ?thesis
  proof cases
    case 1
    then have "m = []" using nil [of m] by simp
    then show ?thesis by simp
  next
    case 3
    then have "m1 = []" using nil [of m1] by auto
    then show ?thesis using 3 by auto
  qed
qed
abbreviation cleaned_lower :: "bool \<Rightarrow> string list \<Rightarrow> string" where
  "cleaned_lower bad rs \<equiv> concat (map lower_rune (replaced_runes rune_error bad (map (\<lambda>r. if r = [CHR 0x00] then rune_error else r) rs)))"

lemma lower_rune_error: "lower_rune rune_error = rune_error"
  by (simp add: lower_rune_def rune_error_def byte_def)

lemma valid_rune_nul: "valid_rune rune_error" "valid_rune [CHR 0x00]"
  by (simp_all add: valid_rune_def rune_error_def byte_def)

lemma invalid_lower: "length r = 1 \<Longrightarrow> \<not> valid_rune r \<Longrightarrow> lower_rune r = rune_error"
  by (simp add: valid_rune_def lower_rune_def)

lemma cleaned_lower_Cons:
  "cleaned_lower bad ([CHR 0x00] # rs) = rune_error @ cleaned_lower False rs"
  "valid_rune r \<Longrightarrow> r \<noteq> [CHR 0x00] \<Longrightarrow> cleaned_lower bad (r # rs) = lower_rune r @ cleaned_lower False rs"
  "\<not> valid_rune r \<Longrightarrow> cleaned_lower bad (r # rs) = (if bad then [] else rune_error) @ cleaned_lower True rs"
  using valid_rune_nul by (auto simp: lower_rune_error)

lemma prefix_cleaned_lower:
  assumes "prefix m (cleaned_lower False rs)" "set m \<inter> set rune_error = {}"
  shows "prefix m (concat (map lower_rune rs))"
  using assms
proof (induction rs arbitrary: m)
  case (Cons r rs)
  have sep: "m = []" if "prefix m (rune_error @ t)" for t
  proof -
    obtain x xs where e: "rune_error = x # xs" by (simp add: rune_error_def)
    show ?thesis using that Cons.prems(2) unfolding e by (cases m) auto
  qed
  consider "r = [CHR 0x00]" | "valid_rune r" "r \<noteq> [CHR 0x00]" | "\<not> valid_rune r" by blast
  then show ?case
  proof cases
    case 2
    from Cons.prems(1) have "prefix m (lower_rune r) \<or> (\<exists>m'. m = lower_rune r @ m' \<and> prefix m' (cleaned_lower False rs))"
      unfolding cleaned_lower_Cons(2) [OF 2] prefix_append by blast
    then show ?thesis using Cons.IH Cons.prems(2) by (auto simp: Int_Un_distrib2 intro: prefix_prefix)
  next
    case 1
    then have "m = []" using sep Cons.prems(1) by (simp only: cleaned_lower_Cons(1))
    then show ?thesis by simp
  next
    case 3
    then have "m = []" using sep Cons.prems(1) by (simp only: cleaned_lower_Cons(3) [OF 3] if_False)
    then show ?thesis by simp
  qed
qed simp

lemma sublist_cleaned_lower:
  assumes "sublist m (cleaned_lower bad rs)" "set m \<inter> set rune_error = {}"
  shows "sublist m (concat (map lower_rune rs))"
  using assms(1)
proof (induction rs arbitrary: bad)
  case (Cons r rs)
  have later: "sublist m (concat (map lower_rune (r # rs)))" if "sublist m (cleaned_lower b rs)" for b
    using Cons.IH [OF that] by (simp add: sublist_append)
  consider "r = [CHR 0x00]" | "valid_rune r" "r \<noteq> [CHR 0x00]" | "\<not> valid_rune r" by blast
  then show ?case
  proof cases
    case 1
    from Cons.prems have "sublist m (rune_error @ cleaned_lower False rs)" unfolding 1 cleaned_lower_Cons(1) .
    then show ?thesis using later [OF sublist_skip] assms(2) by blast
  next
    case 2
    from Cons.prems consider "sublist m (lower_rune r)" | "sublist m (cleaned_lower False rs)"
      | m1 m2 where "m = m1 @ m2" "suffix m1 (lower_rune r)" "prefix m2 (cleaned_lower False rs)"
      unfolding cleaned_lower_Cons(2) [OF 2] sublist_append by blast
    then show ?thesis
    proof cases
      case (3 m1 m2)
      then have "prefix m2 (concat (map lower_rune rs))" using prefix_cleaned_lower assms(2) by auto
      then show ?thesis using 3 by (auto simp: sublist_append)
    qed (use later in \<open>simp_all add: sublist_append\<close>)
  next
    case 3
    then have "sublist m (cleaned_lower True rs)"
      using Cons.prems assms(2) sublist_skip [of m rune_error "cleaned_lower True rs"]
      unfolding cleaned_lower_Cons(3) [OF 3] by (cases bad) (simp_all only: append_Nil if_True if_False)
    then show ?thesis by (rule later)
  qed
qed simp

lemma ToLower_cleaned: "ToLower (concat (cleaned s)) = cleaned_lower False (runes s)"
  using runes_concat [of "cleaned s"] cleaned_valid
  by (simp add: ToLower_def) (simp add: cleaned_def runes_replace_nul)

lemma marker_bytes: "m \<in> set credentialHeaderMarkers \<Longrightarrow> set m \<inter> set rune_error = {}"
  by (auto simp: credentialHeaderMarkers_def rune_error_def char_of_def)

lemma storable_name_not_credential:
  assumes "\<not> isCredentialHeader name"
  shows "\<not> isCredentialHeader (fst (storableText name limit))"
proof
  assume "isCredentialHeader (fst (storableText name limit))"
  then obtain m where m: "m \<in> set credentialHeaderMarkers" "sublist m (ToLower (fst (storableText name limit)))"
    by (auto simp: isCredentialHeader_def list_ex_iff Contains_def)
  obtain ts where t: "fst (storableText name limit) = concat ts" "prefix ts (cleaned name)"
    using storableText_parts [of name limit] by metis
  obtain us where us: "cleaned name = ts @ us" using t(2) by (auto simp: prefix_def)
  have parts: "\<forall>r \<in> set (ts @ us). whole_rune r" using cleaned_valid [of _ name] unfolding us by blast
  have "runes (concat (ts @ us)) = ts @ us" "runes (concat ts) = ts"
    using parts runes_concat [of "ts @ us"] runes_concat [of ts] by simp_all
  then have "ToLower (concat (cleaned name)) = ToLower (concat ts) @ concat (map lower_rune us)"
    unfolding ToLower_def us by simp
  then have "sublist m (ToLower (concat (cleaned name)))" using m(2) unfolding t(1) by (simp only: sublist_append) blast
  then have "sublist m (cleaned_lower False (runes name))" unfolding ToLower_cleaned .
  then have "sublist m (ToLower name)"
    unfolding ToLower_def by (rule sublist_cleaned_lower) (rule marker_bytes [OF m(1)])
  then show False using assms m(1) by (auto simp: isCredentialHeader_def list_ex_iff Contains_def)
qed

section \<open>Bounded responses\<close>

definition header_ok :: "Header \<Rightarrow> bool" where
  "header_ok h \<longleftrightarrow> \<not> isCredentialHeader (h_Name h) \<and> ValidString (h_Name h) \<and> ValidString (h_Value h) \<and>
     CHR 0x00 \<notin> set (h_Name h) \<and> CHR 0x00 \<notin> set (h_Value h)"

abbreviation header_bytes :: "Header list \<Rightarrow> nat" where
  "header_bytes hs \<equiv> sum_list (map (\<lambda>h. length (h_Name h) + length (h_Value h)) hs)"

definition headers_ok :: "Header list \<Rightarrow> bool" where
  "headers_ok hs \<longleftrightarrow> length hs \<le> MaxResponseHeaders \<and> header_bytes hs \<le> MaxResponseHeaderBytes \<and> list_all header_ok hs"

lemma bound_headers_ok: "headers_ok out \<Longrightarrow> used = header_bytes out \<Longrightarrow> headers_ok (bound_headers used out hs)"
proof (induction used out hs rule: bound_headers.induct)
  case (2 used out h hs)
  show ?case
  proof (cases "length out \<ge> MaxResponseHeaders \<or> isCredentialHeader (h_Name h)")
    case False
    let ?h = "\<lparr>h_Name = fst (storableText (h_Name h) MaxResponseHeaderBytes), h_Value = fst (storableText (h_Value h) MaxResponseHeaderBytes)\<rparr>"
    have "header_ok ?h" using False storable_name_not_credential storableText_ok by (simp add: header_ok_def)
    then have "headers_ok (out @ [?h])" if "used + length (h_Name ?h) + length (h_Value ?h) \<le> MaxResponseHeaderBytes"
      using 2(4,5) False that by (simp add: headers_ok_def)
    then show ?thesis using 2 False by (simp add: Let_def)
  qed (use 2 in auto)
qed simp

definition response_ok :: "Attempt \<Rightarrow> bool" where
  "response_ok a \<longleftrightarrow> length (at_ResponseBody a) \<le> MaxResponseBodyBytes \<and> ValidString (at_ResponseBody a) \<and>
     CHR 0x00 \<notin> set (at_ResponseBody a) \<and> headers_ok (at_ResponseHeaders a)"

lemma BoundResponse_ok: "response_ok (BoundResponse a)"
  using storableText_ok [of "at_ResponseBody a" MaxResponseBodyBytes] bound_headers_ok [of "[]" 0 "at_ResponseHeaders a"]
  by (cases "storableText (at_ResponseBody a) MaxResponseBodyBytes")
     (simp add: response_ok_def BoundResponse_def boundHeaders_def headers_ok_def)

text \<open>A response that is already within the caps is stored as it is.\<close>

lemma replace_runs_valid: "list_all valid_rune rs \<Longrightarrow> replace_runs rep bad rs = concat rs"
  by (induction rs arbitrary: bad) simp_all

lemma storableText_id:
  assumes "ValidString s" "CHR 0x00 \<notin> set s" "length s \<le> limit"
  shows "storableText s limit = (s, False)"
proof -
  have "ToValidUTF8 s rune_error = s"
    using assms(1) by (simp add: ToValidUTF8_def ValidString_def replace_runs_valid concat_runes)
  then show ?thesis using assms by (simp add: storableText_def replace_nul_id)
qed

lemma bound_headers_id: "headers_ok (out @ hs) \<Longrightarrow> used = header_bytes out \<Longrightarrow> bound_headers used out hs = out @ hs"
proof (induction used out hs rule: bound_headers.induct)
  case (2 used out h hs)
  have h: "header_ok h" using 2(4) by (simp add: headers_ok_def)
  have room: "\<not> length out \<ge> MaxResponseHeaders" "length (h_Name h) \<le> MaxResponseHeaderBytes" "length (h_Value h) \<le> MaxResponseHeaderBytes"
    "used + length (h_Name h) + length (h_Value h) \<le> MaxResponseHeaderBytes"
    using 2(4,5) by (auto simp: headers_ok_def)
  have t: "storableText (h_Name h) MaxResponseHeaderBytes = (h_Name h, False)"
    "storableText (h_Value h) MaxResponseHeaderBytes = (h_Value h, False)"
    using h room by (simp_all add: storableText_id header_ok_def)
  have eta: "\<lparr>h_Name = h_Name h, h_Value = h_Value h\<rparr> = h" by (cases h) simp
  have "bound_headers (used + length (h_Name h) + length (h_Value h)) (out @ [h]) hs = out @ h # hs"
    using 2(3) [of "h_Name h" "h_Value h"] h room t 2(4,5) by (simp add: header_ok_def eta)
  then show ?case using h room t by (simp add: header_ok_def eta)
qed simp

lemma BoundResponse_id: "response_ok a \<Longrightarrow> BoundResponse a = a"
  using bound_headers_id [of "[]" "at_ResponseHeaders a" 0]
  by (simp add: response_ok_def BoundResponse_def boundHeaders_def storableText_id)

end
