(* ===== verification/WebhookSteps.thy ===== *)
theory WebhookSteps
  imports WebhookService WebhookResponse
begin

text \<open>
  What the operations on webhooks keep.  Every operation is a \<open>webhook_move\<close> of the
  tenant it runs for: it leaves the tables alone, adds an endpoint within the limit,
  edits an endpoint in place, removes one with its attempts, records an attempt, or
  steps the outbox.
\<close>

section \<open>Validation\<close>

lemma prefix_trim_left:
  assumes "prefix t (trim_left ps s)"
  shows "trim_left ps t = t"
proof (rule trim_left_id, intro ballI)
  fix p assume p: "p \<in> set ps"
  have none: "find (\<lambda>p. p \<noteq> [] \<and> prefix p (trim_left ps s)) ps = None"
  proof (rule ccontr)
    assume "find (\<lambda>p. p \<noteq> [] \<and> prefix p (trim_left ps s)) ps \<noteq> None"
    then obtain q where q: "find (\<lambda>p. p \<noteq> [] \<and> prefix p (trim_left ps s)) ps = Some q" by auto
    then have "trim_left ps (trim_left ps s) = trim_left ps (drop (length q) (trim_left ps s))" by (subst trim_left.simps) simp
    then have "suffix (trim_left ps s) (drop (length q) (trim_left ps s))"
      using trim_left_idem [of ps s] trim_left_suffix [of ps "drop (length q) (trim_left ps s)"] by simp
    moreover have "q \<noteq> []" "prefix q (trim_left ps s)" using q by (auto simp: find_Some_iff)
    ultimately show False by (auto simp: prefix_def dest!: suffix_length_le)
  qed
  then show "p = [] \<or> \<not> prefix p t" using p assms prefix_order.trans by (fastforce simp: find_None_iff)
qed

lemma TrimSpace_idem: "TrimSpace (TrimSpace s) = TrimSpace s"
proof -
  let ?t = "trim_left (map rev white_space) (rev (trim_left white_space s))"
  have "prefix (rev ?t) (trim_left white_space s)"
    using trim_left_suffix [of "map rev white_space" "rev (trim_left white_space s)"] by (simp add: suffix_to_prefix)
  then have "trim_left white_space (rev ?t) = rev ?t" by (rule prefix_trim_left)
  then show ?thesis by (simp add: TrimSpace_def trim_left_idem)
qed

definition subscribable :: "string \<Rightarrow> bool" where
  "subscribable t \<longleftrightarrow> t \<in> sp_Type ` set Subscribable"

lemma subscribable_iff: "subscribable t \<longleftrightarrow> (case events_Lookup t of None \<Rightarrow> False | Some s \<Rightarrow> sp_Subscribable s)"
  by (simp add: subscribable_def Subscribable_def events_Lookup_def events_All_def event_type_defs)

lemma check_types_iff:
  "check_types before ts = Inr u \<longleftrightarrow> (\<forall>t \<in> set ts. subscribable t) \<and> distinct ts \<and> set before \<inter> set ts = {}"
proof (induction ts arbitrary: before)
  case (Cons t ts)
  then show ?case by (auto simp: subscribable_iff split: option.splits)
qed simp

lemma validateTypes_iff: "validateTypes ts = Inr ts' \<longleftrightarrow> ts' = ts \<and> ts \<noteq> [] \<and> (\<forall>t \<in> set ts. subscribable t) \<and> distinct ts"
  using check_types_iff [of "[]" ts "()"] by (auto simp: validateTypes_def split: sum.splits)

definition endpoint_ok :: "webhook_lib \<Rightarrow> Endpoint \<Rightarrow> bool" where
  "endpoint_ok lib e \<longleftrightarrow> validateURL lib (ep_URL e) = Inr (ep_URL e) \<and> validateDescription (ep_Description e) = Inr (ep_Description e) \<and>
     validateTypes (ep_EventTypes e) = Inr (ep_EventTypes e) \<and> ss_Secondary (ep_Secrets e) \<noteq> Some []"

lemma validateURL_again: "validateURL lib s = Inr u \<Longrightarrow> validateURL lib u = Inr u"
  by (auto simp: validateURL_def Let_def TrimSpace_idem split: if_splits sum.splits)

lemma validateDescription_again: "validateDescription s = Inr u \<Longrightarrow> validateDescription u = Inr u"
  by (auto simp: validateDescription_def Let_def TrimSpace_idem split: if_splits)

lemma webhook_validate_ok:
  assumes "webhook_validate lib rawURL description types = Inr (u, d, ts)"
  shows "validateURL lib u = Inr u" "validateDescription d = Inr d" "validateTypes ts = Inr ts"
proof -
  have "validateURL lib rawURL = Inr u" "validateDescription description = Inr d" "validateTypes types = Inr ts"
    using assms by (auto simp: webhook_validate_def split: sum.splits)
  then show "validateURL lib u = Inr u" "validateDescription d = Inr d" "validateTypes ts = Inr ts"
    using validateURL_again validateDescription_again by (blast, blast, simp add: validateTypes_iff)
qed

lemma stored_secrets_ok: "ss_Secondary (stored_secrets s) \<noteq> Some []"
  by (simp add: stored_secrets_def sqliteSecondary_def split: option.split)

section \<open>The invariant\<close>

abbreviation scope :: "Endpoint \<Rightarrow> uuid \<times> uuid" where
  "scope e \<equiv> (ep_OrgID e, ep_ProjectID e)"

abbreviation place :: "Endpoint \<Rightarrow> uuid \<times> uuid \<times> uuid" where
  "place e \<equiv> (ep_ID e, scope e)"

abbreviation at_place :: "Attempt \<Rightarrow> uuid \<times> uuid \<times> uuid" where
  "at_place a \<equiv> (at_EndpointID a, at_OrgID a, at_ProjectID a)"

definition places_ok :: "(uuid \<times> uuid \<times> uuid) list \<Rightarrow> bool" where
  "places_ok ps \<longleftrightarrow> distinct (map fst ps) \<and> (\<forall>t. length (filter (\<lambda>p. snd p = t) ps) \<le> MaxEndpointsPerProject)"

lemma places_ok_filter: "places_ok ps \<Longrightarrow> places_ok (filter P ps)"
proof -
  have "length (filter Q (filter P ps)) \<le> length (filter Q ps)" for Q by (induction ps) auto
  then show "places_ok ps \<Longrightarrow> places_ok (filter P ps)"
    unfolding places_ok_def by (meson distinct_map_filter le_trans)
qed

lemma places_ok_add:
  "places_ok ps \<Longrightarrow> fst p \<notin> fst ` set ps \<Longrightarrow> length (filter (\<lambda>q. snd q = snd p) ps) < MaxEndpointsPerProject \<Longrightarrow> places_ok (ps @ [p])"
  by (auto simp: places_ok_def)

definition attempt_ok :: "Attempt \<Rightarrow> bool" where
  "attempt_ok a \<longleftrightarrow> response_ok a \<and> length (at_Error a) \<le> nat MaxCauseLen"

definition webhook_inv :: "webhook_lib \<Rightarrow> webhook_db \<Rightarrow> bool" where
  "webhook_inv lib d \<longleftrightarrow> (\<forall>e \<in> set (wd_Endpoints d). endpoint_ok lib e) \<and> places_ok (map place (wd_Endpoints d)) \<and>
     keyed at_ID (wd_Attempts d) \<and> (\<forall>a \<in> set (wd_Attempts d). attempt_ok a \<and> at_place a \<in> place ` set (wd_Endpoints d)) \<and>
     outbox_inv (wd_Outbox d)"

lemma webhook_invD:
  assumes "webhook_inv lib d"
  shows "\<And>e. e \<in> set (wd_Endpoints d) \<Longrightarrow> endpoint_ok lib e" "places_ok (map place (wd_Endpoints d))" "keyed ep_ID (wd_Endpoints d)"
    "keyed at_ID (wd_Attempts d)" "\<And>a. a \<in> set (wd_Attempts d) \<Longrightarrow> attempt_ok a \<and> at_place a \<in> place ` set (wd_Endpoints d)"
    "outbox_inv (wd_Outbox d)"
  using assms by (auto simp: webhook_inv_def places_ok_def comp_def)

lemma webhook_invI:
  assumes "\<And>e. e \<in> set (wd_Endpoints d) \<Longrightarrow> endpoint_ok lib e" "places_ok (map place (wd_Endpoints d))"
    "keyed at_ID (wd_Attempts d)" "\<And>a. a \<in> set (wd_Attempts d) \<Longrightarrow> attempt_ok a"
    "\<And>a. a \<in> set (wd_Attempts d) \<Longrightarrow> at_place a \<in> place ` set (wd_Endpoints d)" "outbox_inv (wd_Outbox d)"
  shows "webhook_inv lib d"
  using assms unfolding webhook_inv_def by blast

inductive webhook_move :: "webhook_lib \<Rightarrow> uuid \<times> uuid \<Rightarrow> webhook_db \<Rightarrow> webhook_db \<Rightarrow> bool" for lib t where
  stay: "webhook_move lib t d d"
| add: "endpoint_ok lib e \<Longrightarrow> ep_ID e \<notin> ep_ID ` set (wd_Endpoints d) \<Longrightarrow> scope e = t \<Longrightarrow>
    length (filter (\<lambda>r. scope r = t) (wd_Endpoints d)) < MaxEndpointsPerProject \<Longrightarrow>
    webhook_move lib t d (d\<lparr>wd_Endpoints := wd_Endpoints d @ [e]\<rparr>)"
| edit: "(\<And>r. r \<in> set (wd_Endpoints d) \<Longrightarrow> f r = r \<or> place (f r) = place r \<and> endpoint_ok lib (f r) \<and> scope r = t) \<Longrightarrow>
    webhook_move lib t d (d\<lparr>wd_Endpoints := map f (wd_Endpoints d)\<rparr>)"
| remove: "(\<And>r. r \<in> set (wd_Endpoints d) \<Longrightarrow> ep_ID r = i \<Longrightarrow> scope r = t) \<Longrightarrow>
    webhook_move lib t d (d\<lparr>wd_Endpoints := filter (\<lambda>r. ep_ID r \<noteq> i) (wd_Endpoints d),
      wd_Attempts := filter (\<lambda>a. at_EndpointID a \<noteq> i) (wd_Attempts d)\<rparr>)"
| log_attempt: "attempt_ok a \<Longrightarrow> at_ID a \<notin> at_ID ` set (wd_Attempts d) \<Longrightarrow> at_place a \<in> place ` set (wd_Endpoints d) \<Longrightarrow>
    (at_OrgID a, at_ProjectID a) = t \<Longrightarrow> webhook_move lib t d (d\<lparr>wd_Attempts := wd_Attempts d @ [a]\<rparr>)"
| queue: "outbox_step\<^sup>*\<^sup>* (wd_Outbox d) o' \<Longrightarrow> webhook_move lib t d (d\<lparr>wd_Outbox := o'\<rparr>)"

lemma add_inv:
  assumes "webhook_inv lib d" "endpoint_ok lib e" "ep_ID e \<notin> ep_ID ` set (wd_Endpoints d)" "scope e = t"
    "length (filter (\<lambda>r. scope r = t) (wd_Endpoints d)) < MaxEndpointsPerProject"
  shows "webhook_inv lib (d\<lparr>wd_Endpoints := wd_Endpoints d @ [e]\<rparr>)"
proof -
  note inv = webhook_invD [OF assms(1)]
  have "length (filter (\<lambda>q. snd q = snd (place e)) (map place (wd_Endpoints d))) < MaxEndpointsPerProject"
    using assms(4,5) by (simp add: filter_map comp_def)
  moreover have "fst (place e) \<notin> fst ` set (map place (wd_Endpoints d))" using assms(3) by (simp add: image_image)
  ultimately have p: "places_ok (map place (wd_Endpoints d) @ [place e])" using places_ok_add inv(2) by blast
  show ?thesis
  proof (rule webhook_invI, goal_cases)
    case (1 r)
    then show ?case using inv(1) assms(2) by auto
  next
    case (5 a)
    then show ?case using inv(5) [of a] by auto
  qed (use inv p in simp_all)
qed

lemma edit_inv:
  assumes "webhook_inv lib d" "\<And>r. r \<in> set (wd_Endpoints d) \<Longrightarrow> place (f r) = place r"
    "\<And>r. r \<in> set (wd_Endpoints d) \<Longrightarrow> endpoint_ok lib (f r)"
  shows "webhook_inv lib (d\<lparr>wd_Endpoints := map f (wd_Endpoints d)\<rparr>)" (is "webhook_inv lib ?d")
proof -
  note inv = webhook_invD [OF assms(1)]
  have m: "map place (map f (wd_Endpoints d)) = map place (wd_Endpoints d)"
    unfolding map_map comp_def by (rule map_cong [OF refl assms(2)])
  have s: "place ` set (map f (wd_Endpoints d)) = place ` set (wd_Endpoints d)"
    using arg_cong [OF m, of set] by (simp only: set_map)
  have e: "wd_Endpoints ?d = map f (wd_Endpoints d)" by simp
  show ?thesis
  proof (rule webhook_invI, goal_cases)
    case (1 r)
    then show ?case using assms(3) unfolding e by auto
  next
    case 2
    then show ?case using inv(2) unfolding e m .
  next
    case (5 a)
    then have "a \<in> set (wd_Attempts d)" by simp
    then show ?case using inv(5) [of a] unfolding e s by blast
  qed (use inv in simp_all)
qed

lemma remove_inv:
  assumes "webhook_inv lib d"
  shows "webhook_inv lib (d\<lparr>wd_Endpoints := filter (\<lambda>r. ep_ID r \<noteq> i) (wd_Endpoints d),
    wd_Attempts := filter (\<lambda>a. at_EndpointID a \<noteq> i) (wd_Attempts d)\<rparr>)"
proof -
  note inv = webhook_invD [OF assms]
  have "map place (filter (\<lambda>r. ep_ID r \<noteq> i) (wd_Endpoints d)) = filter (\<lambda>p. fst p \<noteq> i) (map place (wd_Endpoints d))"
    by (simp add: filter_map comp_def)
  then have p: "places_ok (map place (filter (\<lambda>r. ep_ID r \<noteq> i) (wd_Endpoints d)))" using places_ok_filter [OF inv(2)] by simp
  show ?thesis
  proof (rule webhook_invI, goal_cases)
    case (5 a)
    then have a: "a \<in> set (wd_Attempts d)" "at_EndpointID a \<noteq> i" by simp_all
    from inv(5) [OF a(1)] obtain e where "e \<in> set (wd_Endpoints d)" "at_place a = place e" by (elim conjE imageE)
    then show ?case using a(2) by (intro image_eqI [of _ _ e]) simp_all
  qed (use inv p in \<open>simp_all add: distinct_map_filter\<close>)
qed

lemma log_inv:
  assumes "webhook_inv lib d" "attempt_ok a" "at_ID a \<notin> at_ID ` set (wd_Attempts d)" "at_place a \<in> place ` set (wd_Endpoints d)"
  shows "webhook_inv lib (d\<lparr>wd_Attempts := wd_Attempts d @ [a]\<rparr>)"
proof -
  note inv = webhook_invD [OF assms(1)]
  show ?thesis
  proof (rule webhook_invI, goal_cases)
    case (4 b)
    then show ?case using inv(5) [of b] assms(2) by auto
  next
    case (5 b)
    then show ?case using inv(5) [of b] assms(4) by auto
  qed (use inv assms(3) in simp_all)
qed

lemma webhook_move_inv:
  assumes "webhook_move lib t d d'" "webhook_inv lib d"
  shows "webhook_inv lib d'"
  using assms(1)
proof cases
  case (add e)
  show ?thesis unfolding add(1) by (rule add_inv [OF assms(2) add(2-5)])
next
  case (edit f)
  have "place (f r) = place r" "endpoint_ok lib (f r)" if "r \<in> set (wd_Endpoints d)" for r
    using edit(2) [OF that] webhook_invD(1) [OF assms(2) that] by (metis, metis)
  then show ?thesis unfolding edit(1) by (rule edit_inv [OF assms(2)])
next
  case (remove i)
  show ?thesis unfolding remove(1) by (rule remove_inv [OF assms(2)])
next
  case (log_attempt a)
  show ?thesis unfolding log_attempt(1) by (rule log_inv [OF assms(2) log_attempt(2-4)])
next
  case (queue o')
  then show ?thesis using outbox_steps_effect [OF queue(2)] assms(2) by (simp add: webhook_inv_def)
qed (use assms(2) in simp)

text \<open>A move of one project leaves the rows of every other project alone.\<close>

lemma webhook_move_others:
  assumes "webhook_move lib t d d'" "webhook_inv lib d"
  shows "filter (\<lambda>r. scope r \<noteq> t) (wd_Endpoints d') = filter (\<lambda>r. scope r \<noteq> t) (wd_Endpoints d)"
    "filter (\<lambda>a. (at_OrgID a, at_ProjectID a) \<noteq> t) (wd_Attempts d') = filter (\<lambda>a. (at_OrgID a, at_ProjectID a) \<noteq> t) (wd_Attempts d)"
proof -
  have "filter (\<lambda>r. scope r \<noteq> t) (wd_Endpoints d') = filter (\<lambda>r. scope r \<noteq> t) (wd_Endpoints d) \<and>
    filter (\<lambda>a. (at_OrgID a, at_ProjectID a) \<noteq> t) (wd_Attempts d') = filter (\<lambda>a. (at_OrgID a, at_ProjectID a) \<noteq> t) (wd_Attempts d)"
    using assms(1)
  proof cases
    case (edit f)
    have "filter (\<lambda>r. scope r \<noteq> t) (map f rs) = filter (\<lambda>r. scope r \<noteq> t) rs" if "set rs \<subseteq> set (wd_Endpoints d)" for rs
      using that edit(2) by (induction rs) fastforce+
    then show ?thesis using edit(1) by simp
  next
    case (remove i)
    have "filter (\<lambda>r. scope r \<noteq> t) (filter (\<lambda>r. ep_ID r \<noteq> i) (wd_Endpoints d)) = filter (\<lambda>r. scope r \<noteq> t) (wd_Endpoints d)"
      using remove(2) by (auto intro!: filter_cong)
    moreover have "(at_OrgID a, at_ProjectID a) = t" if "a \<in> set (wd_Attempts d)" "at_EndpointID a = i" for a
      using webhook_invD(5) [OF assms(2) that(1)] remove(2) that(2) by auto
    then have "filter (\<lambda>a. (at_OrgID a, at_ProjectID a) \<noteq> t) (filter (\<lambda>a. at_EndpointID a \<noteq> i) (wd_Attempts d)) =
      filter (\<lambda>a. (at_OrgID a, at_ProjectID a) \<noteq> t) (wd_Attempts d)"
      by (auto intro!: filter_cong)
    ultimately show ?thesis using remove(1) by simp
  qed auto
  then show "filter (\<lambda>r. scope r \<noteq> t) (wd_Endpoints d') = filter (\<lambda>r. scope r \<noteq> t) (wd_Endpoints d)"
    "filter (\<lambda>a. (at_OrgID a, at_ProjectID a) \<noteq> t) (wd_Attempts d') = filter (\<lambda>a. (at_OrgID a, at_ProjectID a) \<noteq> t) (wd_Attempts d)"
    by simp_all
qed
section \<open>The operations\<close>

text \<open>The project a context is for; a context without a tenant scope is for none, and its calls change nothing.\<close>

definition call_scope :: "ctx \<Rightarrow> (uuid \<times> uuid) option" where
  "call_scope c = (case tenant_From c of Inl _ \<Rightarrow> None | Inr tc \<Rightarrow> Some (tc_OrgID tc, tc_ProjectID tc))"

definition moves_in :: "webhook_lib \<Rightarrow> ctx \<Rightarrow> webhook_db \<Rightarrow> webhook_db \<Rightarrow> bool" where
  "moves_in lib c d d' \<longleftrightarrow> d' = d \<or> (\<exists>t. call_scope c = Some t \<and> webhook_move lib t d d')"

lemma moves_in_same [simp]: "moves_in lib c d d"
  by (simp add: moves_in_def)

lemma moves_in_inv: "moves_in lib c d d' \<Longrightarrow> webhook_inv lib d \<Longrightarrow> webhook_inv lib d'"
  using webhook_move_inv by (auto simp: moves_in_def)

lemma endpoint_ByID_Inr:
  assumes "endpoint_ByID c i d = Inr e"
  shows "e \<in> set (wd_Endpoints d)" "ep_ID e = i"
  using assms by (auto simp: endpoint_ByID_def find_Some_iff split: sum.splits option.splits)

lemma hooks_load_Inr:
  assumes "hooks_load op c i d = Inr e"
  shows "e \<in> set (wd_Endpoints d)" "ep_ID e = i" "call_scope c = Some (scope e)"
proof -
  obtain tc where tc: "tenant_From c = Inr tc" using assms by (auto simp: hooks_load_def split: sum.splits)
  have e: "endpoint_ByID c i d = Inr e" "ep_OrgID e = tc_OrgID tc" "ep_ProjectID e = tc_ProjectID tc"
    using assms unfolding hooks_load_def tc sum.case by (auto split: sum.splits if_splits)
  show "e \<in> set (wd_Endpoints d)" "ep_ID e = i" using endpoint_ByID_Inr [OF e(1)] by simp_all
  show "call_scope c = Some (scope e)" using e unfolding call_scope_def tc by simp
qed

text \<open>Saving an edited endpoint that is there.\<close>

lemma Save_edit:
  assumes inv: "webhook_inv lib d" and r: "r \<in> set (wd_Endpoints d)" and e: "place e = place r"
    and ok: "endpoint_ok lib (endpoint_overlay e r)" and c: "call_scope c = Some (scope r)"
  shows "endpoint_Save c e d = (Inr (), d\<lparr>wd_Endpoints := map (\<lambda>q. if ep_ID q = ep_ID r then endpoint_overlay e r else q) (wd_Endpoints d)\<rparr>)"
    "moves_in lib c d (snd (endpoint_Save c e d))"
proof -
  obtain tc where tc: "tenant_From c = Inr tc" "scope r = (tc_OrgID tc, tc_ProjectID tc)"
    using c by (auto simp: call_scope_def split: sum.splits)
  note k = webhook_invD(3) [OF inv]
  have f: "find_row ep_ID (ep_ID e) (wd_Endpoints d) = Some r" using find_row_Some_iff [OF k] r e by simp
  have i: "ep_ID (endpoint_overlay e r) = ep_ID r" by (simp add: endpoint_overlay_def)
  show eq: "endpoint_Save c e d = (Inr (), d\<lparr>wd_Endpoints := map (\<lambda>q. if ep_ID q = ep_ID r then endpoint_overlay e r else q) (wd_Endpoints d)\<rparr>)"
    unfolding endpoint_Save_def tc(1) sum.case f option.case
    using tc(2) e f upsert_row_map [OF k, of "endpoint_overlay e r" r] by (simp add: i)
  have "q = r" if "q \<in> set (wd_Endpoints d)" "ep_ID q = ep_ID r" for q using k r that by (metis distinct_map inj_onD)
  then have "webhook_move lib (scope r) d (d\<lparr>wd_Endpoints := map (\<lambda>q. if ep_ID q = ep_ID r then endpoint_overlay e r else q) (wd_Endpoints d)\<rparr>)"
    using ok by (intro webhook_move.edit) (auto simp: endpoint_overlay_def)
  then show "moves_in lib c d (snd (endpoint_Save c e d))" using c by (auto simp: moves_in_def eq)
qed

lemma hooks_save_snd: "snd (hooks_save op c e d) = snd (endpoint_Save c e d)"
  by (simp add: hooks_save_def split: prod.split sum.split)

lemma hooks_Update_moves:
  assumes inv: "webhook_inv lib d"
  shows "moves_in lib c d (snd (hooks_Update lib now c i rawURL description types active d))"
proof (cases "hooks_load ''webhook.Update'' c i d")
  case (Inr e)
  note l = hooks_load_Inr [OF Inr]
  show ?thesis
  proof (cases "endpoint_Update lib now rawURL description types active e")
    case u: (Inr e')
    then obtain v desc ts where v: "webhook_validate lib rawURL description types = Inr (v, desc, ts)"
      "e' = e\<lparr>ep_URL := v, ep_Description := desc, ep_EventTypes := ts, ep_Active := active, ep_UpdatedAt := now\<rparr>"
      by (auto simp: endpoint_Update_def split: sum.splits)
    have "endpoint_ok lib (endpoint_overlay e' e)"
      using webhook_validate_ok [OF v(1)] webhook_invD(1) [OF inv l(1)] by (simp add: endpoint_ok_def endpoint_overlay_def v(2))
    then have "moves_in lib c d (snd (endpoint_Save c e' d))"
      using Save_edit(2) [OF inv l(1) _ _ l(3), of e'] by (simp add: v(2))
    then have "moves_in lib c d (snd (hooks_save ''webhook.Update'' c e' d))" by (simp only: hooks_save_snd)
    then show ?thesis by (simp add: hooks_Update_def Inr u split: prod.split sum.split) (metis snd_conv)
  qed (simp add: hooks_Update_def Inr)
qed (simp add: hooks_Update_def)

lemma endpoint_List_Inr:
  assumes "endpoint_List c orgID projectID d = Inr es" "call_scope c = Some (orgID, projectID)"
  shows "set es = {e \<in> set (wd_Endpoints d). scope e = (orgID, projectID)}"
    "length es = length (filter (\<lambda>e. scope e = (orgID, projectID)) (wd_Endpoints d))"
proof -
  obtain tc where tc: "tenant_From c = Inr tc" "tc_OrgID tc = orgID"
    using assms(2) by (auto simp: call_scope_def split: sum.splits)
  have es: "es = sort_key (\<lambda>r. (- ep_CreatedAt r, - int (ep_ID r)))
     (filter (\<lambda>r. ep_OrgID r = orgID \<and> ep_OrgID r = tc_OrgID tc \<and> ep_ProjectID r = projectID) (wd_Endpoints d))"
    using assms(1) unfolding endpoint_List_def tc(1) by simp
  show "set es = {e \<in> set (wd_Endpoints d). scope e = (orgID, projectID)}" using tc(2) by (auto simp: es)
  show "length es = length (filter (\<lambda>e. scope e = (orgID, projectID)) (wd_Endpoints d))"
    unfolding es length_sort tc(2) by (rule arg_cong [where f = length]) (auto intro: filter_cong)
qed

lemma hooks_Create_Inr:
  assumes "hooks_Create lib sl i now rnd nonce c rawURL description types d = (Inr (e, secret), d')"
  obtains t e0 existing primary where "call_scope c = Some t" "webhook_New lib i now (fst t) (snd t) rawURL description types = Inr e0"
    "endpoint_List c (fst t) (snd t) d = Inr existing" "length existing < MaxEndpointsPerProject" "newSecret rnd = Inr secret"
    "sealSecret (wl_String lib) sl nonce (ep_ID e0) slotPrimary secret = Inr primary"
    "e = e0\<lparr>ep_Secrets := (ep_Secrets e0)\<lparr>ss_Primary := primary\<rparr>\<rparr>" "endpoint_Save c e d = (Inr (), d')"
proof -
  obtain tc where tc: "tenant_From c = Inr tc" using assms by (auto simp: hooks_Create_def split: sum.splits)
  let ?t = "(tc_OrgID tc, tc_ProjectID tc)"
  note a = assms [unfolded hooks_Create_def tc sum.case]
  obtain e0 where e0: "webhook_New lib i now (tc_OrgID tc) (tc_ProjectID tc) rawURL description types = Inr e0"
    using a by (auto split: sum.splits)
  obtain existing where ex: "endpoint_List c (tc_OrgID tc) (tc_ProjectID tc) d = Inr existing" "length existing < MaxEndpointsPerProject"
    using a [unfolded e0 sum.case] by (auto split: sum.splits if_splits)
  note b = a [unfolded e0 ex(1) sum.case]
  obtain s where s: "newSecret rnd = Inr s" using b ex(2) by (auto split: sum.splits)
  obtain primary where p: "sealSecret (wl_String lib) sl nonce (ep_ID e0) slotPrimary s = Inr primary"
    using b ex(2) unfolding s sum.case by (auto split: sum.splits)
  let ?e = "e0\<lparr>ep_Secrets := (ep_Secrets e0)\<lparr>ss_Primary := primary\<rparr>\<rparr>"
  have "e = ?e \<and> secret = s \<and> endpoint_Save c ?e d = (Inr (), d')"
    using b ex(2) unfolding s p sum.case Let_def hooks_save_def by (auto split: prod.splits sum.splits)
  moreover have "call_scope c = Some ?t" unfolding call_scope_def tc by simp
  ultimately show ?thesis using that [of ?t e0 existing primary] e0 ex s p by simp
qed

lemma endpoint_Save_Inl: "endpoint_Save c e d = (Inl err, d') \<Longrightarrow> d' = d"
  by (auto simp: endpoint_Save_def split: sum.splits option.splits if_splits)

lemma hooks_Create_Inl: "hooks_Create lib sl i now rnd nonce c rawURL description types d = (Inl err, d') \<Longrightarrow> d' = d"
  using endpoint_Save_Inl
  by (auto simp: hooks_Create_def hooks_save_def Let_def split: sum.splits prod.splits if_splits)

lemma webhook_New_Inr:
  assumes "webhook_New lib i now orgID projectID rawURL description types = Inr e"
  shows "place e = (i, orgID, projectID)" "endpoint_ok lib e" "ep_Secrets e = \<lparr>ss_Primary = '''', ss_Secondary = None\<rparr>" "ep_Active e"
proof -
  obtain u de ts where v: "webhook_validate lib rawURL description types = Inr (u, de, ts)"
    using assms by (auto simp: webhook_New_def split: sum.splits)
  show "place e = (i, orgID, projectID)" "endpoint_ok lib e" "ep_Secrets e = \<lparr>ss_Primary = '''', ss_Secondary = None\<rparr>" "ep_Active e"
    using assms webhook_validate_ok [OF v] unfolding webhook_New_def v by (auto simp: endpoint_ok_def)
qed

lemma Save_new:
  assumes "call_scope c = Some (scope e)" "ep_ID e \<notin> ep_ID ` set (wd_Endpoints d)"
  shows "endpoint_Save c e d = (Inr (), d\<lparr>wd_Endpoints := wd_Endpoints d @ [e\<lparr>ep_Secrets := stored_secrets (ep_Secrets e)\<rparr>]\<rparr>)"
proof -
  obtain tc where tc: "tenant_From c = Inr tc" "tc_OrgID tc = ep_OrgID e"
    using assms(1) by (auto simp: call_scope_def split: sum.splits)
  have "find_row ep_ID (ep_ID e) (wd_Endpoints d) = None" using assms(2) by (rule find_row_fresh)
  then show ?thesis unfolding endpoint_Save_def tc(1) sum.case by (simp add: tc(2))
qed

lemma hooks_Create_moves:
  assumes inv: "webhook_inv lib d" and fresh: "i \<notin> ep_ID ` set (wd_Endpoints d)"
  shows "moves_in lib c d (snd (hooks_Create lib sl i now rnd nonce c rawURL description types d))"
proof -
  obtain x d' where op: "hooks_Create lib sl i now rnd nonce c rawURL description types d = (x, d')" by fastforce
  show ?thesis
  proof (cases x)
    case (Inl err)
    then have "d' = d" using hooks_Create_Inl op by blast
    then show ?thesis by (simp add: op)
  next
    case (Inr y)
    obtain e secret where y: "y = (e, secret)" by fastforce
    obtain t e0 existing primary where c: "call_scope c = Some t" "webhook_New lib i now (fst t) (snd t) rawURL description types = Inr e0"
      "endpoint_List c (fst t) (snd t) d = Inr existing" "length existing < MaxEndpointsPerProject"
      "e = e0\<lparr>ep_Secrets := (ep_Secrets e0)\<lparr>ss_Primary := primary\<rparr>\<rparr>" "endpoint_Save c e d = (Inr (), d')"
      using hooks_Create_Inr [OF op [unfolded Inr y]] by metis
    note n = webhook_New_Inr [OF c(2)]
    let ?e = "e\<lparr>ep_Secrets := stored_secrets (ep_Secrets e)\<rparr>"
    have p: "place e = (i, t)" using n(1) c(5) by simp
    have "endpoint_ok lib ?e" using n(2) stored_secrets_ok c(5) by (simp add: endpoint_ok_def)
    moreover have "length (filter (\<lambda>r. scope r = t) (wd_Endpoints d)) < MaxEndpointsPerProject"
      using endpoint_List_Inr(2) [OF c(3)] c(1,4) by simp
    ultimately have "webhook_move lib t d (d\<lparr>wd_Endpoints := wd_Endpoints d @ [?e]\<rparr>)"
      using fresh p by (intro webhook_move.add) simp_all
    moreover have "d' = d\<lparr>wd_Endpoints := wd_Endpoints d @ [?e]\<rparr>" using Save_new [of c e d] c(1,6) p fresh by simp
    ultimately show ?thesis using c(1) by (auto simp: op moves_in_def)
  qed
qed

lemma hooks_Delete_moves:
  assumes inv: "webhook_inv lib d"
  shows "moves_in lib c d (snd (hooks_Delete c i d))"
proof (cases "hooks_load ''webhook.Delete'' c i d")
  case (Inr e)
  note l = hooks_load_Inr [OF Inr]
  obtain tc where tc: "tenant_From c = Inr tc" "scope e = (tc_OrgID tc, tc_ProjectID tc)"
    using l(3) by (auto simp: call_scope_def split: sum.splits)
  have one: "r = e" if "r \<in> set (wd_Endpoints d)" "ep_ID r = i" for r
    using webhook_invD(3) [OF inv] l that by (metis distinct_map inj_onD)
  have hit: "ep_ID r = i \<and> ep_OrgID r = tc_OrgID tc \<longleftrightarrow> ep_ID r = i" if "r \<in> set (wd_Endpoints d)" for r
    using one [OF that] tc(2) by auto
  have f: "filter (\<lambda>r. \<not> (ep_ID r = i \<and> ep_OrgID r = tc_OrgID tc)) (wd_Endpoints d) = filter (\<lambda>r. ep_ID r \<noteq> i) (wd_Endpoints d)"
    using hit by (auto intro: filter_cong)
  have ex: "list_ex (\<lambda>r. ep_ID r = i \<and> ep_OrgID r = tc_OrgID tc) (wd_Endpoints d)"
    using l(1,2) tc(2) by (auto simp: list_ex_iff)
  have "endpoint_Delete c i d = (Inr (), d\<lparr>wd_Endpoints := filter (\<lambda>r. ep_ID r \<noteq> i) (wd_Endpoints d),
      wd_Attempts := filter (\<lambda>a. at_EndpointID a \<noteq> i) (wd_Attempts d)\<rparr>)"
    using ex unfolding endpoint_Delete_def tc(1) sum.case Let_def f by simp
  moreover have "webhook_move lib (scope e) d (d\<lparr>wd_Endpoints := filter (\<lambda>r. ep_ID r \<noteq> i) (wd_Endpoints d),
      wd_Attempts := filter (\<lambda>a. at_EndpointID a \<noteq> i) (wd_Attempts d)\<rparr>)"
    using one by (intro webhook_move.remove) auto
  ultimately show ?thesis using l(3) by (auto simp: hooks_Delete_def Inr moves_in_def)
qed (simp add: hooks_Delete_def)

text \<open>Writing secrets: the stored pair is replaced only while it is the expected one.\<close>

lemma SaveSecrets_moves:
  assumes inv: "webhook_inv lib d" and e: "e \<in> set (wd_Endpoints d)" "ep_ID e = i" "call_scope c = Some (scope e)"
  shows "moves_in lib c d (snd (SaveSecrets now c i expected next' d))"
proof -
  obtain tc where tc: "tenant_From c = Inr tc" using e(3) by (auto simp: call_scope_def split: sum.splits)
  let ?f = "\<lambda>r. if secrets_match tc i expected r then r\<lparr>ep_Secrets := stored_secrets next', ep_UpdatedAt := now\<rparr> else r"
  have "webhook_move lib (scope e) d (d\<lparr>wd_Endpoints := map ?f (wd_Endpoints d)\<rparr>)"
  proof (rule webhook_move.edit)
    fix r assume r: "r \<in> set (wd_Endpoints d)"
    have "r = e" if "ep_ID r = i" using webhook_invD(3) [OF inv] e(1,2) r that by (metis distinct_map inj_onD)
    then show "?f r = r \<or> place (?f r) = place r \<and> endpoint_ok lib (?f r) \<and> scope r = scope e"
      using webhook_invD(1) [OF inv r] stored_secrets_ok [of next'] by (auto simp: secrets_match_def endpoint_ok_def)
  qed
  then show ?thesis using e(3) unfolding SaveSecrets_def tc sum.case by (auto simp: moves_in_def)
qed

lemma hooks_saveSecrets_snd: "snd (hooks_saveSecrets op now c e next' d) = snd (SaveSecrets now c (ep_ID e) (ep_Secrets e) next' d)"
  by (simp add: hooks_saveSecrets_def split: prod.split sum.split)

lemma Rotate_moves:
  assumes inv: "webhook_inv lib d"
  shows "moves_in lib c d (snd (Rotate lib sl now rnd nonce1 nonce2 c i d))"
proof (cases "hooks_load ''webhook.Rotate'' c i d")
  case (Inr e)
  note l = hooks_load_Inr [OF Inr]
  have "snd (Rotate lib sl now rnd nonce1 nonce2 c i d) = d \<or>
    (\<exists>next'. snd (Rotate lib sl now rnd nonce1 nonce2 c i d) = snd (hooks_saveSecrets ''webhook.Rotate'' now c e next' d))"
    unfolding Rotate_def Inr sum.case by (auto split: sum.split prod.split) (metis snd_conv)+
  then show ?thesis using SaveSecrets_moves [OF inv l] l(2) by (auto simp: hooks_saveSecrets_snd)
qed (simp add: Rotate_def)

lemma RetireSecondary_moves:
  assumes inv: "webhook_inv lib d"
  shows "moves_in lib c d (snd (RetireSecondary now c i d))"
proof (cases "hooks_load ''webhook.RetireSecondary'' c i d")
  case (Inr e)
  note l = hooks_load_Inr [OF Inr]
  show ?thesis unfolding RetireSecondary_def Inr sum.case
    using SaveSecrets_moves [OF inv l] l(2) by (auto simp: hooks_saveSecrets_snd)
qed (simp add: RetireSecondary_def)

text \<open>Queueing deliveries.\<close>

lemma enqueue_targets_steps: "outbox_step\<^sup>*\<^sup>* o' (snd (enqueue_targets lib fe c orgID projectID body i es o'))"
proof (induction es arbitrary: i o')
  case (Cons e es)
  obtain x o1 where q: "Enqueue (fe_Ats fe i) c (fan_entry lib fe orgID projectID body i e) o' = (x, o1)" by fastforce
  have "outbox_step o' o1" using q dispatch_step.enqueue outbox_step.dispatch by blast
  then show ?case using Cons.IH [of o1 "Suc i"] by (cases x) (simp_all add: q converse_rtranclp_into_rtranclp r_into_rtranclp)
qed simp

lemma fanOut_queue:
  obtains o' where "snd (fanOut lib slugOf fe c orgID projectID spec data targets d) = d\<lparr>wd_Outbox := o'\<rparr>" "outbox_step\<^sup>*\<^sup>* (wd_Outbox d) o'"
proof (cases "slugOf projectID")
  case (Inl err)
  then show ?thesis using that [of "wd_Outbox d"] by (simp add: fanOut_def)
next
  case (Inr slug)
  show ?thesis
  proof (cases "wl_Marshal lib (event_envelope lib fe orgID projectID slug spec data)")
    case (Inl err)
    then show ?thesis using that [of "wd_Outbox d"] Inr by (simp add: fanOut_def)
  next
    case m: (Inr body)
    obtain x o1 where q: "enqueue_targets lib fe c orgID projectID body 0 targets (wd_Outbox d) = (x, o1)" by fastforce
    have "outbox_step\<^sup>*\<^sup>* (wd_Outbox d) o1"
      using enqueue_targets_steps [of "wd_Outbox d" lib fe c orgID projectID body 0 targets] unfolding q by simp
    from that [OF _ this] show ?thesis by (simp add: fanOut_def Inr m q)
  qed
qed

lemma queue_moves_in: "call_scope c = Some t \<Longrightarrow> outbox_step\<^sup>*\<^sup>* (wd_Outbox d) o' \<Longrightarrow> moves_in lib c d (d\<lparr>wd_Outbox := o'\<rparr>)"
  unfolding moves_in_def using webhook_move.queue by blast

lemma fanOut_moves:
  assumes "call_scope c = Some t"
  shows "moves_in lib c d (snd (fanOut lib slugOf fe c orgID projectID spec data targets d))"
proof -
  obtain o' where o: "snd (fanOut lib slugOf fe c orgID projectID spec data targets d) = d\<lparr>wd_Outbox := o'\<rparr>" "outbox_step\<^sup>*\<^sup>* (wd_Outbox d) o'"
    by (rule fanOut_queue)
  show ?thesis unfolding o(1) by (rule queue_moves_in [OF assms o(2)])
qed

lemma hooks_Enqueue_moves: "moves_in lib c d (snd (hooks_Enqueue lib slugOf fe c t data d))"
proof (cases "tenant_From c")
  case (Inr tc)
  have "call_scope c = Some (tc_OrgID tc, tc_ProjectID tc)" unfolding call_scope_def Inr by simp
  from fanOut_moves [OF this] show ?thesis
    unfolding hooks_Enqueue_def Inr sum.case Let_def by (auto split: option.split sum.split)
qed (simp add: hooks_Enqueue_def split: option.split sum.split)

lemma SendTest_moves: "moves_in lib c d (snd (SendTest lib slugOf fe c i d))"
proof (cases "hooks_load ''webhook.SendTest'' c i d")
  case (Inr e)
  have s: "snd (case fanOut lib slugOf fe c (ep_OrgID e) (ep_ProjectID e) spec (WebhookPingV1 (ep_ID e)) [e] d of
            (Inl err, d1) \<Rightarrow> (Inl (Unexpected ''webhook.SendTest: enqueue'' err), d1) | (Inr _, d1) \<Rightarrow> (Inr (), d1))
      = snd (fanOut lib slugOf fe c (ep_OrgID e) (ep_ProjectID e) spec (WebhookPingV1 (ep_ID e)) [e] d)" for spec
    by (simp split: prod.split sum.split)
  show ?thesis unfolding SendTest_def Inr sum.case
    by (cases "events_Lookup WebhookPing") (simp_all add: s fanOut_moves [OF hooks_load_Inr(3) [OF Inr]])
qed (simp add: SendTest_def)

lemma Retry_moves: "moves_in lib c d (snd (Retry lib now c i deliveryID d))"
proof (cases "hooks_load ''webhook.Retry'' c i d")
  case (Inr e)
  obtain x o' where q: "Requeue now c deliveryID (wl_String lib i) (wd_Outbox d) = (x, o')" by fastforce
  have "outbox_step\<^sup>*\<^sup>* (wd_Outbox d) o'" using q outbox_step.requeue by blast
  then have "moves_in lib c d (d\<lparr>wd_Outbox := o'\<rparr>)" using queue_moves_in hooks_load_Inr(3) [OF Inr] by blast
  then show ?thesis unfolding Retry_def Inr sum.case q by (cases x) simp_all
qed (simp add: Retry_def)

lemma RetryFailed_moves: "moves_in lib c d (snd (RetryFailed lib now c i d))"
proof (cases "hooks_load ''webhook.RetryFailed'' c i d")
  case (Inr e)
  obtain x o' where q: "RequeueFailed now c (wl_String lib i) (wd_Outbox d) = (x, o')" by fastforce
  have "outbox_step\<^sup>*\<^sup>* (wd_Outbox d) o'" using q outbox_step.requeue_failed by blast
  then have "moves_in lib c d (d\<lparr>wd_Outbox := o'\<rparr>)" using queue_moves_in hooks_load_Inr(3) [OF Inr] by blast
  then show ?thesis unfolding RetryFailed_def Inr sum.case q by (cases x) simp_all
qed (simp add: RetryFailed_def)

section \<open>Delivering\<close>

lemma call_scope_project: "call_scope (WithProject c p) = Some t \<Longrightarrow> snd t = p \<and> (\<exists>tc. tenant_From c = Inr tc \<and> fst t = tc_OrgID tc)"
  by (auto simp: call_scope_def WithProject_def tenant_Into_def tenant_From_def zero_tenant_def Let_def split: option.splits if_splits)

lemma TruncateCause_length: "length (TruncateCause s n) \<le> nat (max n 0)"
  using length_ToValidUTF8_Nil [of "take (nat (max n 0)) s"] unfolding TruncateCause_def by (metis length_take min.cobounded2 le_trans)

lemma SaveAttempt_cases:
  obtains "snd (SaveAttempt newid now c a d) = d"
  | row where "snd (SaveAttempt newid now c a d) = d\<lparr>wd_Attempts := wd_Attempts d @ [row]\<rparr>" "call_scope c = Some (at_OrgID a, at_ProjectID a)"
    "attempt_ok row" "at_place row = at_place a" "at_ID row \<notin> at_ID ` set (wd_Attempts d)"
proof (cases "SaveAttempt newid now c a d")
  case (Pair x d')
  show ?thesis
  proof (cases x)
    case (Inl err)
    then have "d' = d" using Pair by (auto simp: SaveAttempt_def Let_def split: sum.splits if_splits)
    then show ?thesis using that(1) Pair by simp
  next
    case (Inr u)
    obtain tc where tc: "tenant_From c = Inr tc" using Pair Inr by (auto simp: SaveAttempt_def split: sum.splits)
    obtain b where b: "prepareAttempt newid now tc a = Inr b" using Pair Inr unfolding SaveAttempt_def tc by (auto split: sum.splits)
    let ?row = "b\<lparr>at_Duration := Milliseconds (at_Duration b) * 10 ^ 6\<rparr>"
    have d': "d' = d\<lparr>wd_Attempts := wd_Attempts d @ [?row]\<rparr>" and k: "find_row at_ID (at_ID b) (wd_Attempts d) = None"
      using Pair Inr unfolding SaveAttempt_def tc b sum.case Let_def by (auto split: if_splits)
    obtain b0 where b0: "b = BoundResponse b0" "at_Error b0 = TruncateCause (at_Error a) MaxCauseLen" "at_place b0 = at_place a"
      "at_OrgID a = tc_OrgID tc" "at_ProjectID a = tc_ProjectID tc"
      using b by (auto simp: prepareAttempt_def split: if_splits)
    have f: "at_Error b = at_Error b0" "at_place b = at_place b0" unfolding b0(1) by (simp_all add: BoundResponse_def split: prod.split)
    have "attempt_ok ?row"
      using BoundResponse_ok [of b0] TruncateCause_length [of "at_Error a" MaxCauseLen]
      by (simp add: attempt_ok_def response_ok_def f b0(2) flip: b0(1))
    moreover have "call_scope c = Some (at_OrgID a, at_ProjectID a)" unfolding call_scope_def tc by (simp add: b0)
    ultimately show ?thesis using that(2) [of ?row] Pair d' k f b0(3) by (simp add: find_row_None image_iff) metis
  qed
qed

lemma Deliver_posts:
  assumes "Deliver lib sl env c e d = (res, sent, d')" "endpoint_ByID c i d = Inr ep" "wl_Parse lib (e_Target e) = Inr i"
    "scope ep = (e_OrgID e, e_ProjectID e)" "ep_Active ep" "openSecrets lib sl ep = Inr secrets" "envelopeType lib (e_Payload e) = Inr ty"
  shows "\<exists>rc. post lib env (ep_URL ep) e ty secrets = (rc, res, sent) \<and>
    d' = snd (SaveAttempt (dv_AttemptID env) (dv_At env) (WithProject c (e_ProjectID e)) (attempt_of env e ep ty rc (errorText lib res)) d)"
  using assms by (cases "post lib env (ep_URL ep) e ty secrets") (simp add: Deliver_def Let_def)

text \<open>Either nothing is sent and nothing changes, or the endpoint is in the entry's project, active, and the request is signed.\<close>

lemma Deliver_cases:
  assumes "Deliver lib sl env c e d = (res, sent, d')"
  obtains (quiet) "sent = None" "d' = d"
  | (posted) ep ty secrets rc where "endpoint_ByID c (ep_ID ep) d = Inr ep" "ep \<in> set (wd_Endpoints d)"
    "wl_Parse lib (e_Target e) = Inr (ep_ID ep)" "scope ep = (e_OrgID e, e_ProjectID e)" "ep_Active ep"
    "openSecrets lib sl ep = Inr secrets" "envelopeType lib (e_Payload e) = Inr ty" "post lib env (ep_URL ep) e ty secrets = (rc, res, sent)"
    "d' = snd (SaveAttempt (dv_AttemptID env) (dv_At env) (WithProject c (e_ProjectID e)) (attempt_of env e ep ty rc (errorText lib res)) d)"
proof (cases "wl_Parse lib (e_Target e)")
  case (Inl t)
  then show ?thesis using assms quiet by (simp add: Deliver_def)
next
  case (Inr i)
  show ?thesis
  proof (cases "endpoint_ByID c i d")
    case (Inl err)
    then show ?thesis using assms quiet Inr by (auto simp: Deliver_def split: if_splits)
  next
    case ep: (Inr ep)
    note b = endpoint_ByID_Inr [OF ep]
    show ?thesis
    proof (cases "scope ep = (e_OrgID e, e_ProjectID e) \<and> ep_Active ep \<and>
        (\<exists>secrets ty. openSecrets lib sl ep = Inr secrets \<and> envelopeType lib (e_Payload e) = Inr ty)")
      case True
      then obtain secrets ty where t: "scope ep = (e_OrgID e, e_ProjectID e)" "ep_Active ep" "openSecrets lib sl ep = Inr secrets"
        "envelopeType lib (e_Payload e) = Inr ty" by blast
      obtain rc where "post lib env (ep_URL ep) e ty secrets = (rc, res, sent)"
        "d' = snd (SaveAttempt (dv_AttemptID env) (dv_At env) (WithProject c (e_ProjectID e)) (attempt_of env e ep ty rc (errorText lib res)) d)"
        using Deliver_posts [OF assms ep Inr t] by blast
      then show ?thesis using posted [of ep secrets ty rc] b ep Inr t by simp
    next
      case False
      then have "sent = None \<and> d' = d"
        using assms Inr ep by (auto simp: Deliver_def Let_def split: if_splits sum.splits)
      then show ?thesis using quiet by blast
    qed
  qed
qed

lemma Deliver_moves:
  assumes inv: "webhook_inv lib d" and op: "Deliver lib sl env c e d = (res, sent, d')"
  shows "webhook_move lib (e_OrgID e, e_ProjectID e) d d'"
  using op
proof (cases rule: Deliver_cases)
  case quiet
  then show ?thesis using webhook_move.stay by simp
next
  case (posted ep ty secrets rc)
  let ?a = "attempt_of env e ep ty rc (errorText lib res)"
  show ?thesis
  proof (cases rule: SaveAttempt_cases [of "dv_AttemptID env" "dv_At env" "WithProject c (e_ProjectID e)" ?a d])
    case 1
    then show ?thesis using posted(9) webhook_move.stay by simp
  next
    case (2 row)
    have "at_place ?a = place ep" using posted(4) by (simp add: attempt_of_def)
    then have p: "at_place row = place ep" using 2(4) by simp
    moreover have "(at_OrgID row, at_ProjectID row) = (e_OrgID e, e_ProjectID e)" using p posted(4) by simp
    moreover have "at_place row \<in> place ` set (wd_Endpoints d)" using p posted(2) by blast
    ultimately show ?thesis unfolding posted(9) 2(1) using 2(3,5) by (intro webhook_move.log_attempt)
  qed
qed

section \<open>Histories\<close>

text \<open>
  A call of the service in a context.  The id of a new endpoint is fresh.  A history
  interleaves calls, deliveries and the steps of the dispatch worker on the outbox.
\<close>

inductive webhook_call :: "webhook_lib \<Rightarrow> Sealer \<Rightarrow> ctx \<Rightarrow> webhook_db \<Rightarrow> webhook_db \<Rightarrow> bool" for lib sl c where
  create: "i \<notin> ep_ID ` set (wd_Endpoints d) \<Longrightarrow> hooks_Create lib sl i now rnd nonce c rawURL description types d = (x, d') \<Longrightarrow> webhook_call lib sl c d d'"
| update: "hooks_Update lib now c i rawURL description types active d = (y, d') \<Longrightarrow> webhook_call lib sl c d d'"
| delete: "hooks_Delete c i d = (z, d') \<Longrightarrow> webhook_call lib sl c d d'"
| rotate: "Rotate lib sl now rnd nonce1 nonce2 c i d = (s, d') \<Longrightarrow> webhook_call lib sl c d d'"
| retire: "RetireSecondary now c i d = (z, d') \<Longrightarrow> webhook_call lib sl c d d'"
| enqueue: "hooks_Enqueue lib slugOf fe c t data d = (z, d') \<Longrightarrow> webhook_call lib sl c d d'"
| send_test: "SendTest lib slugOf fe c i d = (z, d') \<Longrightarrow> webhook_call lib sl c d d'"
| retry: "Retry lib now c i deliveryID d = (z, d') \<Longrightarrow> webhook_call lib sl c d d'"
| retry_failed: "RetryFailed lib now c i d = (n, d') \<Longrightarrow> webhook_call lib sl c d d'"

inductive webhook_step :: "webhook_lib \<Rightarrow> Sealer \<Rightarrow> webhook_db \<Rightarrow> webhook_db \<Rightarrow> bool" for lib sl where
  call: "webhook_call lib sl c d d' \<Longrightarrow> webhook_step lib sl d d'"
| deliver: "Deliver lib sl env c e d = (res, sent, d') \<Longrightarrow> webhook_step lib sl d d'"
| dispatch: "dispatch_step (wd_Outbox d) o' \<Longrightarrow> webhook_step lib sl d (d\<lparr>wd_Outbox := o'\<rparr>)"

inductive webhook_reachable :: "webhook_lib \<Rightarrow> Sealer \<Rightarrow> webhook_db \<Rightarrow> bool" for lib sl where
  empty: "webhook_reachable lib sl no_webhooks"
| step: "webhook_reachable lib sl d \<Longrightarrow> webhook_step lib sl d d' \<Longrightarrow> webhook_reachable lib sl d'"

lemmas call_moves = hooks_Create_moves hooks_Update_moves hooks_Delete_moves Rotate_moves RetireSecondary_moves
  hooks_Enqueue_moves SendTest_moves Retry_moves RetryFailed_moves

lemma webhook_call_moves: "webhook_call lib sl c d d' \<Longrightarrow> webhook_inv lib d \<Longrightarrow> moves_in lib c d d'"
  by (induction rule: webhook_call.induct) (metis call_moves snd_conv)+

lemma webhook_step_inv: "webhook_step lib sl d d' \<Longrightarrow> webhook_inv lib d \<Longrightarrow> webhook_inv lib d'"
proof (induction rule: webhook_step.induct)
  case (call c d d')
  then show ?case using webhook_call_moves moves_in_inv by blast
next
  case (deliver env c e d res sent d')
  then show ?case using Deliver_moves webhook_move_inv by blast
next
  case (dispatch d o')
  then show ?case using dispatch_step_effect(1) by (auto simp: webhook_inv_def)
qed

lemma webhook_reachable_inv: "webhook_reachable lib sl d \<Longrightarrow> webhook_inv lib d"
proof (induction rule: webhook_reachable.induct)
  case empty
  show ?case by (simp add: webhook_inv_def no_webhooks_def places_ok_def outbox_inv_def)
qed (use webhook_step_inv in blast)

end
