(* ===== verification/WebhookSecrets.thy ===== *)
theory WebhookSecrets
  imports WebhookSteps
begin

text \<open>
  Signing secrets over time: writing them is a compare-and-set, a rotation keeps the
  previous secret as the secondary, and retiring the secondary ends it.
\<close>

section \<open>Compare and set\<close>

text \<open>
  The contract the service relies on when it writes back secrets it loaded earlier:
  the write goes through when the stored value is still the expected one, and is
  refused without effect when it is not.
\<close>

locale compare_and_set =
  fixes ok :: "'s \<Rightarrow> bool" and norm :: "'v \<Rightarrow> 'v" and get :: "'s \<Rightarrow> 'k \<Rightarrow> 'v option"
    and cas :: "'k \<Rightarrow> 'v \<Rightarrow> 'v \<Rightarrow> 's \<Rightarrow> 'e + unit \<Rightarrow> 's \<Rightarrow> bool" and conflict :: "'k \<Rightarrow> 'e"
  assumes wins: "ok s \<Longrightarrow> get s k = Some (norm v) \<Longrightarrow> \<exists>s'. cas k v w s (Inr ()) s' \<and> ok s' \<and> get s' k = Some (norm w)"
    and loses: "ok s \<Longrightarrow> get s k = Some u \<Longrightarrow> u \<noteq> norm v \<Longrightarrow> cas k v w s (Inl (conflict k)) s"
begin

lemma one_winner:
  assumes "ok s" "get s k = Some (norm v)" "norm w \<noteq> norm v"
  shows "\<exists>s'. cas k v w s (Inr ()) s' \<and> get s' k = Some (norm w) \<and> (\<forall>w'. cas k v w' s' (Inl (conflict k)) s')"
  using wins [OF assms(1,2)] loses assms(3) by metis

end

definition secrets_of :: "ctx \<Rightarrow> webhook_db \<Rightarrow> uuid \<Rightarrow> SealedSecrets option" where
  "secrets_of c d i = (case endpoint_ByID c i d of Inl _ \<Rightarrow> None | Inr e \<Rightarrow> Some (ep_Secrets e))"

lemma ByID_keyed:
  assumes "keyed ep_ID (wd_Endpoints d)" "tenant_From c = Inr tc"
  shows "endpoint_ByID c i d = Inr e \<longleftrightarrow> e \<in> set (wd_Endpoints d) \<and> ep_ID e = i \<and> ep_OrgID e = tc_OrgID tc"
proof -
  have "find (\<lambda>r. ep_ID r = i \<and> ep_OrgID r = tc_OrgID tc) (wd_Endpoints d) = Some e \<longleftrightarrow>
      find_row ep_ID i (wd_Endpoints d) = Some e \<and> ep_OrgID e = tc_OrgID tc"
    unfolding find_keyed [OF assms(1), of i "\<lambda>r. ep_OrgID r = tc_OrgID tc"] by (auto split: option.split if_split)
  then have "find (\<lambda>r. ep_ID r = i \<and> ep_OrgID r = tc_OrgID tc) (wd_Endpoints d) = Some e \<longleftrightarrow>
      e \<in> set (wd_Endpoints d) \<and> ep_ID e = i \<and> ep_OrgID e = tc_OrgID tc"
    unfolding find_row_Some_iff [OF assms(1)] by simp
  then show ?thesis unfolding endpoint_ByID_def assms(2) by (auto split: option.split)
qed

lemma ByID_tenant: "endpoint_ByID c i d = Inr e \<Longrightarrow> \<exists>tc. tenant_From c = Inr tc"
  by (auto simp: endpoint_ByID_def split: sum.splits)

definition with_secrets :: "instant \<Rightarrow> SealedSecrets \<Rightarrow> Endpoint \<Rightarrow> Endpoint" where
  "with_secrets now s e = e\<lparr>ep_Secrets := stored_secrets s, ep_UpdatedAt := now\<rparr>"

lemma SaveSecrets_hit:
  assumes k: "keyed ep_ID (wd_Endpoints d)" and e: "endpoint_ByID c i d = Inr e" "ep_Secrets e = stored_secrets expected"
  shows "SaveSecrets now c i expected next' d =
      (Inr (), d\<lparr>wd_Endpoints := map (\<lambda>r. if ep_ID r = i then with_secrets now next' e else r) (wd_Endpoints d)\<rparr>)"
    "endpoint_ByID c i (snd (SaveSecrets now c i expected next' d)) = Inr (with_secrets now next' e)"
    "keyed ep_ID (wd_Endpoints (snd (SaveSecrets now c i expected next' d)))"
proof -
  obtain tc where tc: "tenant_From c = Inr tc" using ByID_tenant [OF e(1)] by blast
  note m = e(1) [unfolded ByID_keyed [OF k tc]]
  have one: "r = e" if "r \<in> set (wd_Endpoints d)" "ep_ID r = i" for r using k m that by (metis distinct_map inj_onD)
  have e2: "ss_Primary (ep_Secrets e) = ss_Primary expected" "ss_Secondary (ep_Secrets e) = sqliteSecondary (ss_Secondary expected)"
    using e(2) by (simp_all add: stored_secrets_def)
  have hit: "secrets_match tc i expected r \<longleftrightarrow> ep_ID r = i" if "r \<in> set (wd_Endpoints d)" for r
    using one [OF that] m e2 by (auto simp: secrets_match_def)
  let ?eps = "map (\<lambda>r. if ep_ID r = i then with_secrets now next' e else r) (wd_Endpoints d)"
  have "list_ex (secrets_match tc i expected) (wd_Endpoints d)" using hit m by (auto simp: list_ex_iff)
  moreover have "map (\<lambda>r. if secrets_match tc i expected r then r\<lparr>ep_Secrets := stored_secrets next', ep_UpdatedAt := now\<rparr> else r) (wd_Endpoints d) = ?eps"
    using hit one by (auto simp: with_secrets_def)
  ultimately show eq: "SaveSecrets now c i expected next' d = (Inr (), d\<lparr>wd_Endpoints := ?eps\<rparr>)"
    unfolding SaveSecrets_def tc sum.case by simp
  have ids: "map ep_ID ?eps = map ep_ID (wd_Endpoints d)" using m by (auto simp: with_secrets_def)
  have eps: "wd_Endpoints (d\<lparr>wd_Endpoints := ?eps\<rparr>) = ?eps" by simp
  show k': "keyed ep_ID (wd_Endpoints (snd (SaveSecrets now c i expected next' d)))" using k unfolding eq snd_conv eps ids .
  have "with_secrets now next' e \<in> set ?eps" using m by force
  then show "endpoint_ByID c i (snd (SaveSecrets now c i expected next' d)) = Inr (with_secrets now next' e)"
    unfolding ByID_keyed [OF k' tc] using m by (simp add: eq with_secrets_def)
qed

lemma SaveSecrets_miss:
  assumes k: "keyed ep_ID (wd_Endpoints d)" and e: "endpoint_ByID c i d = Inr e" "ep_Secrets e \<noteq> stored_secrets expected"
  shows "SaveSecrets now c i expected next' d = (Inl (EWebhook (SecretConflictError i)), d)"
proof -
  obtain tc where tc: "tenant_From c = Inr tc" using ByID_tenant [OF e(1)] by blast
  note m = e(1) [unfolded ByID_keyed [OF k tc]]
  have one: "r = e" if "r \<in> set (wd_Endpoints d)" "ep_ID r = i" for r using k m that by (metis distinct_map inj_onD)
  have "\<not> secrets_match tc i expected r" if "r \<in> set (wd_Endpoints d)" for r
    using one [OF that] e(2) by (auto simp: secrets_match_def stored_secrets_def)
  then have "\<not> list_ex (secrets_match tc i expected) (wd_Endpoints d)" by (simp add: list_ex_iff)
  moreover have "list_ex (\<lambda>r. ep_OrgID r = tc_OrgID tc \<and> ep_ID r = i) (wd_Endpoints d)" using m by (auto simp: list_ex_iff)
  ultimately show ?thesis unfolding SaveSecrets_def tc sum.case by simp
qed

interpretation secrets: compare_and_set "\<lambda>d. keyed ep_ID (wd_Endpoints d)" stored_secrets "secrets_of c"
  "\<lambda>i v w d x d'. SaveSecrets now c i v w d = (x, d')" "\<lambda>i. EWebhook (SecretConflictError i)" for c now
proof (unfold_locales, goal_cases)
  case (1 d i v w)
  then obtain e where e: "endpoint_ByID c i d = Inr e" "ep_Secrets e = stored_secrets v"
    by (auto simp: secrets_of_def split: sum.splits)
  note h = SaveSecrets_hit [OF 1(1) e, of now w]
  have "secrets_of c (snd (SaveSecrets now c i v w d)) i = Some (stored_secrets w)"
    unfolding secrets_of_def h(2) by (simp add: with_secrets_def)
  then show ?case using h(1,3) by auto
next
  case (2 d i u v w)
  then obtain e where "endpoint_ByID c i d = Inr e" "ep_Secrets e = u" by (auto simp: secrets_of_def split: sum.splits)
  then show ?case using SaveSecrets_miss 2 by blast
qed

section \<open>Rotation\<close>

text \<open>What deliveries rely on: the cipher opens what it sealed, and a sealed text is not empty since the nonce leads it.\<close>

definition sealer_ok :: "Sealer \<Rightarrow> bool" where
  "sealer_ok sl \<longleftrightarrow> sealer_inverts sl \<and> (case sl of gcmSealer a \<Rightarrow> 0 < NonceSize a | Disabled \<Rightarrow> True)"

lemma sealSecret_ne:
  assumes "sealer_ok sl" "nonce_ok sl rnd" "sealSecret str sl rnd i slot secret = Inr ct"
  shows "ct \<noteq> []" "openSecret str sl i slot ct = Inr secret"
proof -
  show "openSecret str sl i slot ct = Inr secret" using openSecret_sealSecret assms by (auto simp: sealer_ok_def)
  obtain a nonce where "sl = gcmSealer a" "rnd = Inr nonce" "ct = nonce @ aead_Seal a nonce secret (secretAAD str i slot)"
    using Seal_Inr_gcm assms(3) unfolding sealSecret_def by blast
  then show "ct \<noteq> []" using assms(1,2) by (auto simp: sealer_ok_def)
qed

definition old_secrets :: "webhook_lib \<Rightarrow> Sealer \<Rightarrow> Endpoint \<Rightarrow> string list" where
  "old_secrets lib sl e = (case openPrimary lib sl e of None \<Rightarrow> [] | Some old \<Rightarrow> [old])"

lemma rotated_opens:
  assumes sl: "sealer_ok sl" "nonce_ok sl nonce1" "nonce_ok sl nonce2"
    and r: "rotated lib sl rnd nonce1 nonce2 i e = Inr (secret, next')" and e': "ep_ID e' = ep_ID e" "ep_Secrets e' = stored_secrets next'"
  shows "openSecrets lib sl e' = Inr (secret # old_secrets lib sl e)"
    "openSecret (wl_String lib) sl (ep_ID e') slotPrimary (ss_Primary next') = Inr secret"
proof -
  obtain s where s: "newSecret rnd = Inr s" using r by (auto simp: rotated_def split: sum.splits)
  obtain primary where p: "sealSecret (wl_String lib) sl nonce1 (ep_ID e) slotPrimary s = Inr primary"
    using r unfolding rotated_def s sum.case by (auto split: sum.splits)
  note op = sealSecret_ne(2) [OF sl(1,2) p]
  have "ss_Primary next' = primary" "secret = s"
    using r unfolding rotated_def s p sum.case by (auto split: sum.splits option.splits)
  then show prim: "openSecret (wl_String lib) sl (ep_ID e') slotPrimary (ss_Primary next') = Inr secret" using op e'(1) by simp
  have pr: "ss_Primary (ep_Secrets e') = ss_Primary next'" using e'(2) by (simp add: stored_secrets_def)
  show "openSecrets lib sl e' = Inr (secret # old_secrets lib sl e)"
  proof (cases "openPrimary lib sl e")
    case None
    then have "ss_Secondary (ep_Secrets e') = None"
      using r e'(2) unfolding rotated_def s p sum.case by (auto simp: stored_secrets_def sqliteSecondary_def)
    then show ?thesis using prim by (simp add: openSecrets_def pr old_secrets_def None)
  next
    case (Some old)
    obtain secondary where q: "sealSecret (wl_String lib) sl nonce2 (ep_ID e) slotSecondary old = Inr secondary"
      using r unfolding rotated_def s p Some sum.case option.case by (auto split: sum.splits)
    note ne = sealSecret_ne [OF sl(1,3) q]
    have "ss_Secondary (ep_Secrets e') = Some secondary"
      using r e'(2) ne(1) unfolding rotated_def s p q Some sum.case option.case by (auto simp: stored_secrets_def sqliteSecondary_def)
    then show ?thesis using prim ne e'(1) by (simp add: openSecrets_def pr old_secrets_def Some)
  qed
qed

lemma hooks_load_ByID:
  assumes "hooks_load op c i d = Inr e"
  shows "endpoint_ByID c i d = Inr e" "hooks_load op' c i d = Inr e"
proof -
  obtain tc where tc: "tenant_From c = Inr tc" using assms by (auto simp: hooks_load_def split: sum.splits)
  show "endpoint_ByID c i d = Inr e" "hooks_load op' c i d = Inr e"
    using assms unfolding hooks_load_def tc sum.case by (auto split: sum.splits if_splits)
qed

lemma hooks_load_scope:
  assumes "endpoint_ByID c i d = Inr e" "call_scope c = Some (scope e)"
  shows "hooks_load op c i d = Inr e"
proof -
  obtain tc where tc: "tenant_From c = Inr tc" "scope e = (tc_OrgID tc, tc_ProjectID tc)"
    using assms(2) by (auto simp: call_scope_def split: sum.splits)
  show ?thesis unfolding hooks_load_def tc(1) sum.case assms(1) using tc(2) by simp
qed

lemma endpoint_ok_stored: "endpoint_ok lib e \<Longrightarrow> ep_Secrets e = stored_secrets (ep_Secrets e)"
  by (cases "ep_Secrets e") (auto simp: endpoint_ok_def stored_secrets_def sqliteSecondary_def split: option.splits)

lemma hooks_saveSecrets_loaded:
  assumes inv: "webhook_inv lib d" and l: "hooks_load op c i d = Inr e"
  obtains d' where "hooks_saveSecrets op2 now c e next' d = (Inr (), d')" "hooks_load op c i d' = Inr (with_secrets now next' e)"
    "webhook_inv lib d'"
proof -
  note m = hooks_load_Inr [OF l]
  have b: "endpoint_ByID c i d = Inr e" by (rule hooks_load_ByID(1) [OF l])
  note h = SaveSecrets_hit [OF webhook_invD(3) [OF inv] b endpoint_ok_stored [OF webhook_invD(1) [OF inv m(1)]], of now next']
  let ?d = "snd (SaveSecrets now c i (ep_Secrets e) next' d)"
  have "hooks_saveSecrets op2 now c e next' d = (Inr (), ?d)" unfolding hooks_saveSecrets_def m(2) h(1) by simp
  moreover have "hooks_load op c i ?d = Inr (with_secrets now next' e)"
    by (rule hooks_load_scope [OF h(2)]) (use m(3) in \<open>simp add: with_secrets_def\<close>)
  moreover have "webhook_inv lib ?d" using SaveSecrets_moves [OF inv m] moves_in_inv inv by blast
  ultimately show ?thesis by (rule that)
qed

lemma Rotate_Inr:
  assumes inv: "webhook_inv lib d" and r: "Rotate lib sl now rnd nonce1 nonce2 c i d = (Inr secret, d1)"
  obtains e next' where "hooks_load ''webhook.Rotate'' c i d = Inr e" "rotated lib sl rnd nonce1 nonce2 i e = Inr (secret, next')"
    "hooks_load ''webhook.Rotate'' c i d1 = Inr (with_secrets now next' e)" "webhook_inv lib d1"
proof -
  obtain e where e: "hooks_load ''webhook.Rotate'' c i d = Inr e" using r by (auto simp: Rotate_def split: sum.splits)
  obtain s next' where n: "rotated lib sl rnd nonce1 nonce2 i e = Inr (s, next')"
    using r unfolding Rotate_def e sum.case by (auto split: sum.splits)
  obtain d' where d': "hooks_saveSecrets ''webhook.Rotate'' now c e next' d = (Inr (), d')"
    "hooks_load ''webhook.Rotate'' c i d' = Inr (with_secrets now next' e)" "webhook_inv lib d'"
    by (rule hooks_saveSecrets_loaded [OF inv e])
  have "s = secret" "d' = d1" using r by (simp_all add: Rotate_def e n d'(1))
  then show ?thesis using that e n d'(2,3) by simp
qed

lemma RetireSecondary_keeps:
  assumes inv: "webhook_inv lib d" and l: "hooks_load op c i d = Inr e"
    and p: "openSecret (wl_String lib) sl (ep_ID e) slotPrimary (ss_Primary (ep_Secrets e)) = Inr secret"
  obtains d' e' where "RetireSecondary now c i d = (Inr (), d')" "hooks_load op c i d' = Inr e'" "openSecrets lib sl e' = Inr [secret]"
proof (cases "ss_Secondary (ep_Secrets e) = None")
  case True
  have "openSecrets lib sl e = Inr [secret]" using True p by (simp add: openSecrets_def)
  then show ?thesis using that [of d e] l hooks_load_ByID(2) [OF l] True by (simp add: RetireSecondary_def)
next
  case False
  let ?s = "\<lparr>ss_Primary = ss_Primary (ep_Secrets e), ss_Secondary = None\<rparr>"
  have l2: "hooks_load ''webhook.RetireSecondary'' c i d = Inr e" by (rule hooks_load_ByID(2) [OF l])
  obtain d' where d': "hooks_saveSecrets ''webhook.RetireSecondary'' now c e ?s d = (Inr (), d')"
    "hooks_load op c i d' = Inr (with_secrets now ?s e)" "webhook_inv lib d'"
    by (rule hooks_saveSecrets_loaded [OF inv l])
  have "openSecrets lib sl (with_secrets now ?s e) = Inr [secret]"
    using p by (simp add: openSecrets_def with_secrets_def stored_secrets_def sqliteSecondary_def)
  then show ?thesis using that [of d' "with_secrets now ?s e"] d' l2 False by (simp add: RetireSecondary_def)
qed

text \<open>
  The fan-out of an event (\<open>Service.Enqueue\<close>, \<open>Service.fanOut\<close>): with fresh ids, one
  pending entry is queued for each target, in order, all with the same payload.
\<close>

definition uuid_text :: "webhook_lib \<Rightarrow> uuid \<Rightarrow> bool" where
  "uuid_text lib i \<longleftrightarrow> length (wl_String lib i) = 36 \<and> wl_Parse lib (wl_String lib i) = Inr i"

definition fan_row :: "webhook_lib \<Rightarrow> fan_env \<Rightarrow> uuid \<Rightarrow> uuid \<Rightarrow> string \<Rightarrow> nat \<Rightarrow> Endpoint \<Rightarrow> outbox_row" where
  "fan_row lib fe orgID projectID body i e = pending_row (fan_entry lib fe orgID projectID body i e) (fe_Ats fe i) (fe_Ats fe i)"

definition fan_rows :: "webhook_lib \<Rightarrow> fan_env \<Rightarrow> uuid \<Rightarrow> uuid \<Rightarrow> string \<Rightarrow> nat \<Rightarrow> Endpoint list \<Rightarrow> outbox_row list" where
  "fan_rows lib fe orgID projectID body k es = map (\<lambda>(i, e). fan_row lib fe orgID projectID body i e) (enumerate k es)"

text \<open>Freshness of the ids a fan-out draws.\<close>

definition fan_fresh :: "fan_env \<Rightarrow> nat \<Rightarrow> nat \<Rightarrow> outbox \<Rightarrow> bool" where
  "fan_fresh fe k n o' \<longleftrightarrow> fe_EventID fe \<noteq> uuid_Nil \<and> inj_on (fe_IDs fe) {k ..< k + n} \<and>
     uuid_Nil \<notin> fe_IDs fe ` {k ..< k + n} \<and> fe_IDs fe ` {k ..< k + n} \<inter> e_ID ` set o' = {}"

lemma fan_fresh_le:
  assumes "fan_fresh fe k m o'" "n \<le> m"
  shows "fan_fresh fe k n o'"
proof -
  have s: "{k ..< k + n} \<subseteq> {k ..< k + m}" using assms(2) by auto
  then have "fe_IDs fe ` {k ..< k + n} \<subseteq> fe_IDs fe ` {k ..< k + m}" by (rule image_mono)
  moreover have "inj_on (fe_IDs fe) {k ..< k + n}" using assms(1) s inj_on_subset unfolding fan_fresh_def by blast
  ultimately show ?thesis using assms(1) unfolding fan_fresh_def by blast
qed

lemma Enqueue_fan:
  assumes tc: "tenant_From c = Inr tc" and p: "tc_ProjectID tc \<noteq> uuid_Nil" and ev: "fe_EventID fe \<noteq> uuid_Nil"
    and i: "fe_IDs fe i \<noteq> uuid_Nil" "fe_IDs fe i \<notin> e_ID ` set o'" and t: "uuid_text lib (ep_ID e)"
    and new: "(tc_OrgID tc, fe_EventID fe, wl_String lib (ep_ID e)) \<notin> delivery_key ` set o'"
  shows "Enqueue (fe_Ats fe i) c (fan_entry lib fe (tc_OrgID tc) (tc_ProjectID tc) body i e) o' =
    (Inr (), o' @ [fan_row lib fe (tc_OrgID tc) (tc_ProjectID tc) body i e])"
proof -
  let ?e = "fan_entry lib fe (tc_OrgID tc) (tc_ProjectID tc) body i e"
  have org: "tc_OrgID tc \<noteq> uuid_Nil" using tc by simp
  have target: "wl_String lib (ep_ID e) \<noteq> []" "length (wl_String lib (ep_ID e)) \<le> MaxTargetLen"
    using t by (auto simp: uuid_text_def MaxTargetLen_def)
  have v: "entry_validate ?e = Inr ()"
    using org p ev i target by (simp add: entry_validate_def fan_entry_def)
  have "\<not> list_ex (same_delivery ?e) o'" using new by (auto simp: list_ex_iff same_delivery_def fan_entry_def image_iff)
  moreover have "find_row e_ID (e_ID ?e) o' = None" using i(2) by (intro find_row_fresh) (simp add: fan_entry_def)
  ultimately show ?thesis
    unfolding Enqueue_def v tc sum.case Let_def fan_row_def by (simp add: fan_entry_def)
qed

lemma fan_row_fields:
  "e_ID (fan_row lib fe orgID projectID body i e) = fe_IDs fe i"
  "delivery_key (fan_row lib fe orgID projectID body i e) = (orgID, fe_EventID fe, wl_String lib (ep_ID e))"
  by (simp_all add: fan_row_def pending_row_def fan_entry_def)

lemma fan_fresh_Suc:
  assumes "fan_fresh fe k (Suc n) o'" "e_ID row = fe_IDs fe k"
  shows "fe_IDs fe k \<noteq> uuid_Nil" "fe_IDs fe k \<notin> e_ID ` set o'" "fan_fresh fe (Suc k) n (o' @ [row])"
proof -
  have s: "{k ..< k + Suc n} = insert k {Suc k ..< Suc k + n}" by auto
  show "fe_IDs fe k \<noteq> uuid_Nil" "fe_IDs fe k \<notin> e_ID ` set o'" using assms(1) unfolding fan_fresh_def s by auto
  show "fan_fresh fe (Suc k) n (o' @ [row])" using assms unfolding fan_fresh_def s by auto
qed

lemma enqueue_targets_fan:
  assumes tc: "tenant_From c = Inr tc" and p: "tc_ProjectID tc \<noteq> uuid_Nil"
    and "fan_fresh fe k (length es) o'" "\<forall>e \<in> set es. uuid_text lib (ep_ID e)" "distinct (map ep_ID es)"
    and "\<forall>e \<in> set es. (tc_OrgID tc, fe_EventID fe, wl_String lib (ep_ID e)) \<notin> delivery_key ` set o'"
  shows "enqueue_targets lib fe c (tc_OrgID tc) (tc_ProjectID tc) body k es o' =
    (Inr (), o' @ fan_rows lib fe (tc_OrgID tc) (tc_ProjectID tc) body k es)"
  using assms(3-)
proof (induction es arbitrary: k o')
  case Nil
  then show ?case by (simp add: fan_rows_def)
next
  case (Cons e es)
  let ?row = "fan_row lib fe (tc_OrgID tc) (tc_ProjectID tc) body k e"
  have "fan_fresh fe k (Suc (length es)) o'" using Cons.prems(1) by simp
  note f = fan_fresh_Suc [OF this fan_row_fields(1)]
  have q: "Enqueue (fe_Ats fe k) c (fan_entry lib fe (tc_OrgID tc) (tc_ProjectID tc) body k e) o' = (Inr (), o' @ [?row])"
    using Cons.prems f(1,2) by (intro Enqueue_fan [OF tc p]) (simp_all add: fan_fresh_def)
  have "wl_String lib (ep_ID q) \<noteq> wl_String lib (ep_ID e)" if "q \<in> set es" for q
  proof
    assume eq: "wl_String lib (ep_ID q) = wl_String lib (ep_ID e)"
    have "wl_Parse lib (wl_String lib (ep_ID q)) = Inr (ep_ID q)" "wl_Parse lib (wl_String lib (ep_ID e)) = Inr (ep_ID e)"
      using Cons.prems(2) that by (simp_all add: uuid_text_def)
    then have "ep_ID q = ep_ID e" unfolding eq by simp
    then show False using Cons.prems(3) that by (simp add: rev_image_eqI)
  qed
  then have "\<forall>q \<in> set es. (tc_OrgID tc, fe_EventID fe, wl_String lib (ep_ID q)) \<notin> delivery_key ` set (o' @ [?row])"
    using Cons.prems(4) by (simp add: fan_row_fields(2) [simplified])
  then have "enqueue_targets lib fe c (tc_OrgID tc) (tc_ProjectID tc) body (Suc k) es (o' @ [?row]) =
      (Inr (), (o' @ [?row]) @ fan_rows lib fe (tc_OrgID tc) (tc_ProjectID tc) body (Suc k) es)"
    using Cons.prems(2,3) by (intro Cons.IH [OF f(3)]) simp_all
  then show ?case by (simp add: fan_rows_def q)
qed

lemma hooks_Enqueue_fan:
  assumes inv: "webhook_inv lib d" and c: "ctx_uow c" "tenant_From c = Inr tc" "tc_ProjectID tc \<noteq> uuid_Nil"
    and ev: "events_Lookup t = Some spec" "CheckPayload t data = Inr ()" "slugOf (tc_ProjectID tc) = Inr slug"
    and body: "wl_Marshal lib (event_envelope lib fe (tc_OrgID tc) (tc_ProjectID tc) slug spec data) = Inr body"
    and ids: "\<forall>e \<in> set (wd_Endpoints d). uuid_text lib (ep_ID e)" "fan_fresh fe 0 MaxEndpointsPerProject (wd_Outbox d)"
      "fe_EventID fe \<notin> e_EventID ` set (wd_Outbox d)"
    and l: "endpoint_List c (tc_OrgID tc) (tc_ProjectID tc) d = Inr es"
  shows "hooks_Enqueue lib slugOf fe c t data d =
    (Inr (), d\<lparr>wd_Outbox := wd_Outbox d @ fan_rows lib fe (tc_OrgID tc) (tc_ProjectID tc) body 0 (fan_targets t es)\<rparr>)"
proof -
  have cs: "call_scope c = Some (tc_OrgID tc, tc_ProjectID tc)" unfolding call_scope_def c(2) by simp
  let ?ts = "fan_targets t es"
  note e = endpoint_List_Inr [OF l cs]
  have dist: "distinct (map ep_ID es)"
  proof -
    have "mset es = mset (filter (\<lambda>e. scope e = (tc_OrgID tc, tc_ProjectID tc)) (wd_Endpoints d))"
      using l unfolding endpoint_List_def c(2) by (auto simp: conj_commute)
    then have "mset (map ep_ID es) = mset (map ep_ID (filter (\<lambda>e. scope e = (tc_OrgID tc, tc_ProjectID tc)) (wd_Endpoints d)))" by simp
    then show ?thesis using distinct_map_filter [OF webhook_invD(3) [OF inv]] mset_eq_imp_distinct_iff by blast
  qed
  have "length ?ts \<le> length es" by (simp add: fan_targets_def)
  also have "length es \<le> MaxEndpointsPerProject"
    using webhook_invD(2) [OF inv] unfolding e(2) places_ok_def by (auto simp: filter_map comp_def)
  finally have n: "length ?ts \<le> MaxEndpointsPerProject" .
  have sub: "set ?ts \<subseteq> set es" by (auto simp: fan_targets_def)
  have fresh: "fan_fresh fe 0 (length ?ts) (wd_Outbox d)" using ids(2) n by (rule fan_fresh_le)
  have "enqueue_targets lib fe c (tc_OrgID tc) (tc_ProjectID tc) body 0 ?ts (wd_Outbox d) =
      (Inr (), wd_Outbox d @ fan_rows lib fe (tc_OrgID tc) (tc_ProjectID tc) body 0 ?ts)"
  proof (rule enqueue_targets_fan [OF c(2,3) fresh])
    show "\<forall>e \<in> set ?ts. uuid_text lib (ep_ID e)" using ids(1) sub e(1) by blast
    show "distinct (map ep_ID ?ts)" using distinct_map_filter [OF dist] by (simp add: fan_targets_def)
    show "\<forall>e \<in> set ?ts. (tc_OrgID tc, fe_EventID fe, wl_String lib (ep_ID e)) \<notin> delivery_key ` set (wd_Outbox d)"
      using ids(3) by auto
  qed
  then have f: "fanOut lib slugOf fe c (tc_OrgID tc) (tc_ProjectID tc) spec data ?ts d =
      (Inr (), d\<lparr>wd_Outbox := wd_Outbox d @ fan_rows lib fe (tc_OrgID tc) (tc_ProjectID tc) body 0 ?ts\<rparr>)"
    by (simp add: fanOut_def ev(3) body)
  show ?thesis
    unfolding hooks_Enqueue_def ev(1,2) c(2) l sum.case option.case Let_def f using c(1) by (simp add: fan_rows_def)
qed

end
