(* ===== verification/WebhookProperties.thy ===== *)
theory WebhookProperties
  imports WebhookSecrets
begin

text \<open>
  The properties of webhooks: the tables stay well formed, calls stay in their project,
  an event reaches every subscriber once, secrets rotate without a gap, deliveries go
  to their own endpoint signed, and what is kept of an answer is bounded.
\<close>

section \<open>A small deployment\<close>

text \<open>Ids written in decimal, a cipher that only prefixes the nonce, and a receiver that accepts.\<close>

definition h_lib :: webhook_lib where
  "h_lib = \<lparr>wl_String = (\<lambda>i. pad 36 (int i)), wl_Parse = (\<lambda>s. Inr (nat (digits_val s))),
     wl_url = (\<lambda>_. Inr \<lparr>u_Scheme = ''https'', u_User = False, u_Hostname = ''r.id''\<rparr>),
     wl_Marshal = (\<lambda>e. Inr (en_Type e)), wl_type = (\<lambda>p. Inr p), wl_hmac = (\<lambda>k m. k), wl_Error = (\<lambda>_. '''')\<rparr>"

definition h_aead :: AEAD where
  "h_aead = \<lparr>NonceSize = 1, aead_Seal = (\<lambda>n p a. p), aead_Open = (\<lambda>n p a. Some p)\<rparr>"

definition h_sealer :: Sealer where "h_sealer = gcmSealer h_aead"

definition h_ctx :: ctx where
  "h_ctx = \<lparr>ctx_tenant = Some \<lparr>tc_OrgID = 1, tc_ProjectID = 2, tc_UserID = 3\<rparr>, ctx_principal = None, ctx_uow = True\<rparr>"

definition h_endpoint :: Endpoint where
  "h_endpoint = \<lparr>ep_ID = 20, ep_OrgID = 1, ep_ProjectID = 2, ep_URL = ''https://r.id'', ep_Description = ''crm'',
     ep_EventTypes = [''blog.post.deleted''], ep_Secrets = \<lparr>ss_Primary = ''nwhsec_YWJj'', ss_Secondary = None\<rparr>, ep_Active = True,
     ep_CreatedAt = 100, ep_UpdatedAt = 100\<rparr>"

definition h1 :: webhook_db where "h1 = no_webhooks\<lparr>wd_Endpoints := [h_endpoint]\<rparr>"

definition h_fan :: fan_env where
  "h_fan = \<lparr>fe_EventID = 30, fe_Now = 200, fe_IDs = (\<lambda>i. 40 + i), fe_Ats = (\<lambda>_. 210)\<rparr>"

definition h_slug :: "uuid \<Rightarrow> (err, string) res" where "h_slug p = Inr ''site''"

definition h_entry :: Entry where
  "h_entry = \<lparr>e_ID = 40, e_EventID = 30, e_OrgID = 1, e_ProjectID = 2, e_Target = pad 36 20, e_Payload = ''blog.post.deleted'',
     e_Attempt = 1, e_NextAttemptAt = 210, e_Status = StatusPending, e_LastError = '''', e_CreatedAt = 210\<rparr>"

definition h_deliver :: deliver_env where
  "h_deliver = \<lparr>dv_Do = (\<lambda>_. Inr \<lparr>rs_StatusCode = 204, rs_Header = [(''Server'', [''r'']), (''Set-Cookie'', [''s''])], rs_Body = ''''\<rparr>),
     dv_Unix = 1, dv_Duration = 5 * 10 ^ 6, dv_AttemptID = 50, dv_At = 220\<rparr>"

lemma h_create: "hooks_Create h_lib h_sealer 20 100 (Inr ''abc'') (Inr ''n'') h_ctx '' https://r.id'' ''crm'' [''blog.post.deleted''] no_webhooks =
    (Inr (h_endpoint, ''whsec_YWJj''), h1)"
  by code_simp

lemma h1_reachable: "webhook_reachable h_lib h_sealer h1"
  by (rule webhook_reachable.step [OF webhook_reachable.empty webhook_step.call [OF webhook_call.create [OF _ h_create]]])
     (simp add: no_webhooks_def)

lemma h_sealer_ok: "sealer_ok h_sealer" "nonce_ok h_sealer (Inr ''m'')"
  by (simp_all add: sealer_ok_def h_sealer_def h_aead_def aead_inverts_def)

lemma h_scope: "call_scope h_ctx = Some (1, 2)" "hooks_ByID h_ctx 20 h1 = Inr h_endpoint"
  by code_simp+

section \<open>Tables\<close>

text \<open>C30: In every state webhook calls, deliveries and the dispatch worker can lead to, every endpoint
  passes its validation, ids are unique, no project has more than ten endpoints, and every recorded attempt belongs to
  an endpoint that still exists in the same organisation and project and keeps a bounded response.\<close>

theorem webhooks_stay_well_formed:
  assumes "webhook_reachable lib sl d"
  shows "(\<forall>e \<in> set (wd_Endpoints d). validateURL lib (ep_URL e) = Inr (ep_URL e) \<and>
           validateDescription (ep_Description e) = Inr (ep_Description e) \<and> validateTypes (ep_EventTypes e) = Inr (ep_EventTypes e))
    \<and> distinct (map ep_ID (wd_Endpoints d)) \<and> distinct (map at_ID (wd_Attempts d))
    \<and> length (filter (\<lambda>e. ep_OrgID e = orgID \<and> ep_ProjectID e = projectID) (wd_Endpoints d)) \<le> MaxEndpointsPerProject
    \<and> (\<forall>a \<in> set (wd_Attempts d). BoundResponse a = a \<and>
         (\<exists>e \<in> set (wd_Endpoints d). ep_ID e = at_EndpointID a \<and> ep_OrgID e = at_OrgID a \<and> ep_ProjectID e = at_ProjectID a))"
proof -
  note inv = webhook_invD [OF webhook_reachable_inv [OF assms]]
  have "length (filter (\<lambda>p. snd p = (orgID, projectID)) (map place (wd_Endpoints d))) \<le> MaxEndpointsPerProject"
    using inv(2) by (simp add: places_ok_def)
  then have "length (filter (\<lambda>e. ep_OrgID e = orgID \<and> ep_ProjectID e = projectID) (wd_Endpoints d)) \<le> MaxEndpointsPerProject"
    by (simp add: filter_map comp_def)
  moreover have "BoundResponse a = a" "\<exists>e \<in> set (wd_Endpoints d). ep_ID e = at_EndpointID a \<and> ep_OrgID e = at_OrgID a \<and> ep_ProjectID e = at_ProjectID a"
    if "a \<in> set (wd_Attempts d)" for a
    using inv(5) [OF that] BoundResponse_id by (auto simp: attempt_ok_def)
  ultimately show ?thesis using inv(1,3,4) unfolding endpoint_ok_def by blast
qed

theorem webhooks_stay_well_formed_witness:
  "map ep_ID (wd_Endpoints h1) = [20] \<and> distinct (map ep_ID (wd_Endpoints h1)) \<and>
   length (filter (\<lambda>e. ep_OrgID e = 1 \<and> ep_ProjectID e = 2) (wd_Endpoints h1)) \<le> MaxEndpointsPerProject"
  using webhooks_stay_well_formed [OF h1_reachable, of 1 2] by (simp add: h1_def h_endpoint_def)

text \<open>A webhook call reads and writes only the endpoints and attempts of the project its context is for: an endpoint it
  loads is in that project, and the rows of every other project are the same before and after.\<close>

theorem webhook_calls_stay_in_their_project:
  assumes "webhook_reachable lib sl d" "webhook_call lib sl c d d'"
  shows "filter (\<lambda>e. Some (ep_OrgID e, ep_ProjectID e) \<noteq> call_scope c) (wd_Endpoints d') =
      filter (\<lambda>e. Some (ep_OrgID e, ep_ProjectID e) \<noteq> call_scope c) (wd_Endpoints d)
    \<and> filter (\<lambda>a. Some (at_OrgID a, at_ProjectID a) \<noteq> call_scope c) (wd_Attempts d') =
      filter (\<lambda>a. Some (at_OrgID a, at_ProjectID a) \<noteq> call_scope c) (wd_Attempts d)
    \<and> (hooks_ByID c i d = Inr e \<longrightarrow> call_scope c = Some (ep_OrgID e, ep_ProjectID e))"
proof -
  note inv = webhook_reachable_inv [OF assms(1)]
  have load: "hooks_ByID c i d = Inr e \<longrightarrow> call_scope c = Some (ep_OrgID e, ep_ProjectID e)"
    using hooks_load_Inr(3) by (auto simp: hooks_ByID_def)
  from webhook_call_moves [OF assms(2) inv] consider "d' = d" | t where "call_scope c = Some t" "webhook_move lib t d d'"
    by (auto simp: moves_in_def)
  then show ?thesis
  proof cases
    case 2
    then show ?thesis using load webhook_move_others [OF 2(2) inv] by simp
  qed (use load in simp)
qed

theorem webhook_calls_stay_in_their_project_witness:
  "call_scope h_ctx = Some (1, 2) \<and> hooks_ByID h_ctx 20 h1 = Inr h_endpoint \<and>
   filter (\<lambda>e. Some (ep_OrgID e, ep_ProjectID e) \<noteq> call_scope h_ctx) (wd_Endpoints (snd (hooks_Delete h_ctx 20 h1))) =
     filter (\<lambda>e. Some (ep_OrgID e, ep_ProjectID e) \<noteq> call_scope h_ctx) (wd_Endpoints h1)"
proof -
  have "webhook_call h_lib h_sealer h_ctx h1 (snd (hooks_Delete h_ctx 20 h1))"
    by (rule webhook_call.delete [of h_ctx 20 h1 "fst (hooks_Delete h_ctx 20 h1)"]) simp
  from webhook_calls_stay_in_their_project [OF h1_reachable this, of 20 h_endpoint] show ?thesis using h_scope by blast
qed

section \<open>Events\<close>

text \<open>Publishing an event inside a unit of work queues exactly one pending delivery, with the event's payload, for each active
  endpoint of the project that subscribes to its type, and changes nothing else, provided the ids drawn are fresh.\<close>

theorem events_reach_every_subscriber:
  assumes "webhook_reachable lib sl d" "ctx_uow c" "tenant_From c = Inr tc" "tc_ProjectID tc \<noteq> uuid_Nil"
    and "events_Lookup t = Some spec" "CheckPayload t data = Inr ()" "slugOf (tc_ProjectID tc) = Inr slug"
    and "wl_Marshal lib (event_envelope lib fe (tc_OrgID tc) (tc_ProjectID tc) slug spec data) = Inr body"
    and "\<forall>e \<in> set (wd_Endpoints d). uuid_text lib (ep_ID e)" "fan_fresh fe 0 MaxEndpointsPerProject (wd_Outbox d)"
    and "fe_EventID fe \<notin> e_EventID ` set (wd_Outbox d)"
  shows "\<exists>targets. hooks_Enqueue lib slugOf fe c t data d =
      (Inr (), d\<lparr>wd_Outbox := wd_Outbox d @ fan_rows lib fe (tc_OrgID tc) (tc_ProjectID tc) body 0 targets\<rparr>)
    \<and> distinct targets \<and> set targets = {e \<in> set (wd_Endpoints d). ep_OrgID e = tc_OrgID tc \<and> ep_ProjectID e = tc_ProjectID tc \<and>
        ep_Active e \<and> t \<in> set (ep_EventTypes e)}"
proof -
  note inv = webhook_reachable_inv [OF assms(1)]
  have cs: "call_scope c = Some (tc_OrgID tc, tc_ProjectID tc)" unfolding call_scope_def assms(3) by simp
  obtain es where l: "endpoint_List c (tc_OrgID tc) (tc_ProjectID tc) d = Inr es" unfolding endpoint_List_def assms(3) by simp
  have "mset es = mset (filter (\<lambda>e. scope e = (tc_OrgID tc, tc_ProjectID tc)) (wd_Endpoints d))"
    using l unfolding endpoint_List_def assms(3) by (auto simp: conj_commute)
  moreover have "distinct (wd_Endpoints d)" using webhook_invD(3) [OF inv] by (simp add: distinct_map)
  ultimately have "distinct es" using mset_eq_imp_distinct_iff distinct_filter by blast
  then have "distinct (fan_targets t es)" by (simp add: fan_targets_def)
  moreover have "set (fan_targets t es) = {e \<in> set (wd_Endpoints d). ep_OrgID e = tc_OrgID tc \<and> ep_ProjectID e = tc_ProjectID tc \<and>
      ep_Active e \<and> t \<in> set (ep_EventTypes e)}"
    using endpoint_List_Inr(1) [OF l cs] by (auto simp: fan_targets_def Subscribes_def)
  ultimately show ?thesis using hooks_Enqueue_fan [where slugOf = slugOf and slug = slug, OF inv assms(2-11) l] by blast
qed

lemma h_fan_fresh: "fan_fresh h_fan 0 MaxEndpointsPerProject (wd_Outbox h1)"
  by (auto simp: fan_fresh_def h_fan_def h1_def no_webhooks_def inj_on_def)

theorem events_reach_every_subscriber_witness:
  "\<exists>targets. hooks_Enqueue h_lib h_slug h_fan h_ctx PostDeleted (PostDeletedV1 9 ''hi'' True) h1 =
      (Inr (), h1\<lparr>wd_Outbox := wd_Outbox h1 @ fan_rows h_lib h_fan 1 2 ''blog.post.deleted'' 0 targets\<rparr>)
    \<and> distinct targets \<and> set targets = {e \<in> set (wd_Endpoints h1). ep_OrgID e = 1 \<and> ep_ProjectID e = 2 \<and>
        ep_Active e \<and> PostDeleted \<in> set (ep_EventTypes e)}"
proof -
  have 1: "events_Lookup PostDeleted = Some \<lparr>sp_Type = PostDeleted, sp_Version = 1, sp_Subscribable = True\<rparr>" by code_simp
  have 2: "CheckPayload PostDeleted (PostDeletedV1 9 ''hi'' True) = Inr ()" by code_simp
  have 3: "tenant_From h_ctx = Inr \<lparr>tc_OrgID = 1, tc_ProjectID = 2, tc_UserID = 3\<rparr>" by (simp add: h_ctx_def)
  have 4: "\<forall>e \<in> set (wd_Endpoints h1). uuid_text h_lib (ep_ID e)" by code_simp
  show ?thesis
    using events_reach_every_subscriber [OF h1_reachable _ 3 _ 1 2 _ _ 4 h_fan_fresh, of h_slug "''site''" "''blog.post.deleted''"]
    by (simp add: h_ctx_def h_slug_def h_lib_def h_fan_def h1_def no_webhooks_def event_envelope_def PostDeleted_def)
qed

section \<open>Secrets\<close>

text \<open>C31: A rotation keeps deliveries verifiable: afterwards they are signed with the new secret and with the old one when it could still be
  opened, and once the secondary is retired with the new secret alone.\<close>

theorem rotation_keeps_the_old_secret:
  assumes "webhook_reachable lib sl d" "sealer_ok sl" "nonce_ok sl nonce1" "nonce_ok sl nonce2"
    and "hooks_ByID c i d = Inr e" "Rotate lib sl now rnd nonce1 nonce2 c i d = (Inr secret, d1)"
  shows "(\<exists>e1. hooks_ByID c i d1 = Inr e1 \<and>
      openSecrets lib sl e1 = Inr (secret # (case openPrimary lib sl e of None \<Rightarrow> [] | Some old \<Rightarrow> [old])))
    \<and> (\<exists>d2 e2. RetireSecondary now' c i d1 = (Inr (), d2) \<and> hooks_ByID c i d2 = Inr e2 \<and> openSecrets lib sl e2 = Inr [secret])"
proof -
  obtain e0 next' where r: "hooks_load ''webhook.Rotate'' c i d = Inr e0" "rotated lib sl rnd nonce1 nonce2 i e0 = Inr (secret, next')"
    "hooks_load ''webhook.Rotate'' c i d1 = Inr (with_secrets now next' e0)" "webhook_inv lib d1"
    by (rule Rotate_Inr [OF webhook_reachable_inv [OF assms(1)] assms(6)])
  have "e0 = e" using hooks_load_ByID(2) [OF r(1)] assms(5) by (simp add: hooks_ByID_def)
  note r = r [unfolded this]
  let ?e = "with_secrets now next' e"
  note o = rotated_opens [OF assms(2-4) r(2), of ?e]
  have w: "ep_ID ?e = ep_ID e" "ep_Secrets ?e = stored_secrets next'" by (simp_all add: with_secrets_def)
  have "ss_Primary (ep_Secrets ?e) = ss_Primary next'" by (simp add: w stored_secrets_def)
  then have p: "openSecret (wl_String lib) sl (ep_ID ?e) slotPrimary (ss_Primary (ep_Secrets ?e)) = Inr secret" using o(2) [OF w] by simp
  have b: "hooks_ByID c i d1 = Inr ?e" using hooks_load_ByID(2) [OF r(3)] by (simp add: hooks_ByID_def)
  obtain d2 e2 where "RetireSecondary now' c i d1 = (Inr (), d2)" "hooks_load ''webhook.ByID'' c i d2 = Inr e2" "openSecrets lib sl e2 = Inr [secret]"
    by (rule RetireSecondary_keeps [OF r(4) hooks_load_ByID(2) [OF r(3)] p])
  then show ?thesis using b o(1) [OF w] unfolding old_secrets_def hooks_ByID_def by blast
qed

theorem rotation_keeps_the_old_secret_witness:
  "openPrimary h_lib h_sealer h_endpoint = Some ''whsec_YWJj'' \<and>
   (\<exists>d1 e1. Rotate h_lib h_sealer 300 (Inr ''xyz'') (Inr ''m'') (Inr ''m'') h_ctx 20 h1 = (Inr ''whsec_eHl6'', d1) \<and>
     hooks_ByID h_ctx 20 d1 = Inr e1 \<and> openSecrets h_lib h_sealer e1 = Inr [''whsec_eHl6'', ''whsec_YWJj''])"
proof -
  have o: "openPrimary h_lib h_sealer h_endpoint = Some ''whsec_YWJj''" by code_simp
  have "fst (Rotate h_lib h_sealer 300 (Inr ''xyz'') (Inr ''m'') (Inr ''m'') h_ctx 20 h1) = Inr ''whsec_eHl6''" by code_simp
  then obtain d1 where r: "Rotate h_lib h_sealer 300 (Inr ''xyz'') (Inr ''m'') (Inr ''m'') h_ctx 20 h1 = (Inr ''whsec_eHl6'', d1)"
    by (metis prod.collapse)
  show ?thesis
    using rotation_keeps_the_old_secret [OF h1_reachable h_sealer_ok(1,2,2) h_scope(2) r] o r by auto
qed

text \<open>C32: When two rotations start from the same secrets, the first write goes through and every later one that still expects the old
  secrets is refused as a conflict without changing anything, so no secret handed out is silently lost.\<close>

theorem concurrent_rotations_conflict:
  assumes "webhook_reachable lib sl d" "hooks_ByID c i d = Inr e"
    and "rotated lib sl rnd nonce1 nonce2 i e = Inr (secret, next1)" "ss_Primary next1 \<noteq> ss_Primary (ep_Secrets e)"
  shows "\<exists>d1. hooks_saveSecrets op1 now1 c e next1 d = (Inr (), d1) \<and> secrets_of c d1 i = Some (stored_secrets next1) \<and>
    hooks_saveSecrets op2 now2 c e next2 d1 = (Inl (EWebhook (SecretConflictError i)), d1)"
proof -
  note inv = webhook_reachable_inv [OF assms(1)]
  have l: "hooks_load ''webhook.ByID'' c i d = Inr e" using assms(2) by (simp add: hooks_ByID_def)
  note m = hooks_load_Inr [OF l]
  have st: "stored_secrets (ep_Secrets e) = ep_Secrets e" using endpoint_ok_stored [OF webhook_invD(1) [OF inv m(1)]] by simp
  have g: "secrets_of c d i = Some (stored_secrets (ep_Secrets e))"
    using hooks_load_ByID(1) [OF l] unfolding st by (simp add: secrets_of_def)
  obtain d1 where d1: "SaveSecrets now1 c i (ep_Secrets e) next1 d = (Inr (), d1)" "keyed ep_ID (wd_Endpoints d1)"
    "secrets_of c d1 i = Some (stored_secrets next1)"
    using secrets.wins [where c = c and now = now1, OF webhook_invD(3) [OF inv] g] by blast
  have "ss_Primary (stored_secrets s) = ss_Primary s" for s by (simp add: stored_secrets_def)
  then have "stored_secrets next1 \<noteq> stored_secrets (ep_Secrets e)" using assms(4) by metis
  then have "SaveSecrets now2 c i (ep_Secrets e) next2 d1 = (Inl (EWebhook (SecretConflictError i)), d1)"
    using secrets.loses [where c = c and now = now2, OF d1(2,3)] by blast
  then show ?thesis using d1 by (simp add: hooks_saveSecrets_def m(2) webhook_IsNotFoundError_def IsSecretConflictError_def)
qed

theorem concurrent_rotations_conflict_witness:
  "\<exists>secret next1 d1. rotated h_lib h_sealer (Inr ''xyz'') (Inr ''m'') (Inr ''m'') 20 h_endpoint = Inr (secret, next1) \<and>
     hooks_saveSecrets ''a'' 300 h_ctx h_endpoint next1 h1 = (Inr (), d1) \<and>
     hooks_saveSecrets ''b'' 301 h_ctx h_endpoint next1 d1 = (Inl (EWebhook (SecretConflictError 20)), d1)"
proof -
  have r: "rotated h_lib h_sealer (Inr ''xyz'') (Inr ''m'') (Inr ''m'') 20 h_endpoint =
    Inr (''whsec_eHl6'', \<lparr>ss_Primary = ''mwhsec_eHl6'', ss_Secondary = Some ''mwhsec_YWJj''\<rparr>)" by code_simp
  have "ss_Primary \<lparr>ss_Primary = ''mwhsec_eHl6'', ss_Secondary = Some ''mwhsec_YWJj''\<rparr> \<noteq> ss_Primary (ep_Secrets h_endpoint)"
    by (simp add: h_endpoint_def)
  from concurrent_rotations_conflict [OF h1_reachable h_scope(2) r this] r show ?thesis by blast
qed

section \<open>Deliveries\<close>

lemma post_sent:
  assumes "endpoint_ok lib ep" "post lib env (ep_URL ep) e ty secrets = (rc, res, sent)"
  shows "sent = Some (signed_request lib env (ep_URL ep) e ty secrets)"
    "res = None \<longleftrightarrow> (\<exists>resp. dv_Do env (signed_request lib env (ep_URL ep) e ty secrets) = Inr resp \<and> 200 \<le> rs_StatusCode resp \<and> rs_StatusCode resp \<le> 299)"
proof -
  obtain u where u: "wl_url lib (ep_URL ep) = Inr u"
    using assms(1) by (auto simp: endpoint_ok_def validateURL_def Let_def split: if_splits sum.splits)
  have st: "rc_status (readReceipt resp) = rs_StatusCode resp" for resp by (simp add: readReceipt_def Let_def)
  show "sent = Some (signed_request lib env (ep_URL ep) e ty secrets)"
    "res = None \<longleftrightarrow> (\<exists>resp. dv_Do env (signed_request lib env (ep_URL ep) e ty secrets) = Inr resp \<and> 200 \<le> rs_StatusCode resp \<and> rs_StatusCode resp \<le> 299)"
    using assms(2) unfolding post_def u sum.case Let_def st
    by (cases "dv_Do env (signed_request lib env (ep_URL ep) e ty secrets)"; auto split: if_splits)+
qed

lemma Deliver_missing:
  assumes "Deliver lib sl env c e d = (None, None, d')" "webhook_inv lib d"
  shows "\<not> (\<exists>ep. wl_Parse lib (e_Target e) = Inr (ep_ID ep) \<and> endpoint_ByID c (ep_ID ep) d = Inr ep \<and> scope ep = (e_OrgID e, e_ProjectID e))"
proof
  assume "\<exists>ep. wl_Parse lib (e_Target e) = Inr (ep_ID ep) \<and> endpoint_ByID c (ep_ID ep) d = Inr ep \<and> scope ep = (e_OrgID e, e_ProjectID e)"
  then obtain ep where ep: "wl_Parse lib (e_Target e) = Inr (ep_ID ep)" "endpoint_ByID c (ep_ID ep) d = Inr ep" "scope ep = (e_OrgID e, e_ProjectID e)"
    by blast
  have ok: "endpoint_ok lib ep" using webhook_invD(1) [OF assms(2)] endpoint_ByID_Inr(1) [OF ep(2)] by blast
  show False
  proof (cases "ep_Active ep \<and> (\<exists>secrets ty. openSecrets lib sl ep = Inr secrets \<and> envelopeType lib (e_Payload e) = Inr ty)")
    case True
    then obtain secrets ty where t: "ep_Active ep" "openSecrets lib sl ep = Inr secrets" "envelopeType lib (e_Payload e) = Inr ty" by blast
    show False using Deliver_posts [OF assms(1) ep(2,1,3) t] post_sent(1) [OF ok] by blast
  next
    case False
    then show False using assms(1) ep unfolding Deliver_def by (auto simp: Let_def split: if_splits sum.splits)
  qed
qed

text \<open>C33: A delivery sends at most one request, and only to the active endpoint its target names, in the entry's own organisation and project,
  with the entry's payload and a signature under every secret of the endpoint; it succeeds exactly when the answer is a 2xx. When nothing is
  sent nothing is recorded, and it counts as settled only if no such endpoint exists any more.\<close>

theorem deliveries_reach_their_own_endpoint:
  assumes "webhook_reachable lib sl d" "Deliver lib sl env c e d = (res, sent, d')"
  shows "case sent of
      None \<Rightarrow> d' = d \<and> (res = None \<longrightarrow> \<not> (\<exists>ep. wl_Parse lib (e_Target e) = Inr (ep_ID ep) \<and> endpoint_ByID c (ep_ID ep) d = Inr ep \<and>
        ep_OrgID ep = e_OrgID e \<and> ep_ProjectID ep = e_ProjectID e))
    | Some req \<Rightarrow> (\<exists>ep secrets. ep \<in> set (wd_Endpoints d) \<and> wl_Parse lib (e_Target e) = Inr (ep_ID ep) \<and> ep_Active ep \<and>
        ep_OrgID ep = e_OrgID e \<and> ep_ProjectID ep = e_ProjectID e \<and> openSecrets lib sl ep = Inr secrets \<and>
        rq_URL req = ep_URL ep \<and> rq_Body req = e_Payload e \<and>
        \<lparr>h_Name = ''X-Yasaku-Signature'',
          h_Value = strings_Join (map (\<lambda>s. Sign (wl_hmac lib) s (FormatInt (dv_Unix env)) (e_Payload e)) secrets) '' ''\<rparr> \<in> set (rq_Headers req)) \<and>
        (res = None \<longleftrightarrow> (\<exists>resp. dv_Do env req = Inr resp \<and> 200 \<le> rs_StatusCode resp \<and> rs_StatusCode resp \<le> 299))"
proof -
  note inv = webhook_reachable_inv [OF assms(1)]
  from assms(2) show ?thesis
  proof (cases rule: Deliver_cases)
    case quiet
    then show ?thesis using Deliver_missing [OF _ inv] assms(2) by auto
  next
    case (posted ep ty secrets rc)
    note p = post_sent [OF webhook_invD(1) [OF inv posted(2)] posted(8)]
    let ?req = "signed_request lib env (ep_URL ep) e ty secrets"
    have "rq_URL ?req = ep_URL ep" "rq_Body ?req = e_Payload e"
      "\<lparr>h_Name = ''X-Yasaku-Signature'',
        h_Value = strings_Join (map (\<lambda>s. Sign (wl_hmac lib) s (FormatInt (dv_Unix env)) (e_Payload e)) secrets) '' ''\<rparr> \<in> set (rq_Headers ?req)"
      by (simp_all add: signed_request_def Let_def)
    moreover have "ep_OrgID ep = e_OrgID e" "ep_ProjectID ep = e_ProjectID e" using posted(4) by simp_all
    ultimately show ?thesis using p(2) posted(2,3,5,6) unfolding p(1) option.case by blast
  qed
qed

theorem deliveries_reach_their_own_endpoint_witness:
  "\<exists>req d'. Deliver h_lib h_sealer h_deliver h_ctx h_entry h1 = (None, Some req, d') \<and> length (wd_Attempts d') = 1 \<and>
     (\<exists>ep. ep \<in> set (wd_Endpoints h1) \<and> ep_OrgID ep = 1 \<and> rq_URL req = ep_URL ep)"
proof -
  obtain res sent d' where r: "Deliver h_lib h_sealer h_deliver h_ctx h_entry h1 = (res, sent, d')" by (metis prod_cases3)
  have f: "fst (Deliver h_lib h_sealer h_deliver h_ctx h_entry h1) = None" by code_simp
  have s: "fst (snd (Deliver h_lib h_sealer h_deliver h_ctx h_entry h1)) \<noteq> None" by code_simp
  have a: "length (wd_Attempts (snd (snd (Deliver h_lib h_sealer h_deliver h_ctx h_entry h1)))) = 1" by code_simp
  obtain req where req: "sent = Some req" using s unfolding r by auto
  have "e_OrgID h_entry = 1" by (simp add: h_entry_def)
  then show ?thesis using deliveries_reach_their_own_endpoint [OF h1_reachable r] f a r unfolding req option.case by auto
qed

text \<open>C34: What is stored of a receiver's answer, the body and every header name and value, is valid UTF-8 without NUL; it is at most
  4096 bytes of body and at most 50 headers of 4096 bytes in total, and no stored header has a name that marks a credential; storing it
  again changes nothing.\<close>

theorem stored_responses_are_bounded:
  "length (at_ResponseBody (BoundResponse a)) \<le> 4096 \<and> ValidString (at_ResponseBody (BoundResponse a)) \<and>
   CHR 0x00 \<notin> set (at_ResponseBody (BoundResponse a)) \<and> length (at_ResponseHeaders (BoundResponse a)) \<le> 50 \<and>
   sum_list (map (\<lambda>h. length (h_Name h) + length (h_Value h)) (at_ResponseHeaders (BoundResponse a))) \<le> 4096 \<and>
   list_all (\<lambda>h. \<not> isCredentialHeader (h_Name h) \<and> ValidString (h_Name h) \<and> ValidString (h_Value h) \<and>
     CHR 0x00 \<notin> set (h_Name h) \<and> CHR 0x00 \<notin> set (h_Value h)) (at_ResponseHeaders (BoundResponse a)) \<and>
   BoundResponse (BoundResponse a) = BoundResponse a"
  using BoundResponse_ok [of a] BoundResponse_id [OF BoundResponse_ok [of a]]
  by (simp add: response_ok_def headers_ok_def header_ok_def MaxResponseBodyBytes_def MaxResponseHeaders_def MaxResponseHeaderBytes_def list_all_iff)

end
