(* ===== verification/BlogTerms.thy ===== *)
theory BlogTerms
  imports WebhookService
begin

text \<open>
  The blog's categories and tags: packages \<open>internal/blog/category\<close> and
  \<open>internal/blog/tag\<close>, each its aggregate, its SQLite store and its service, and the
  tables of the whole blog (\<open>schema/migrations/sqlite/004_blog.sql\<close>,
  \<open>008_blog_version.sql\<close>).  Posts are in theory \<open>Blog\<close>.
\<close>

section \<open>Slugs\<close>

text \<open>
  \<open>slugify\<close>, of which the three packages have a copy each.  The expression
  \<open>[^a-z0-9]+\<close> is replaced run by run; every byte of a rune outside ASCII is outside
  the class, so the runs of bytes are the runs of runes.
\<close>

definition blog_slug_char :: "char \<Rightarrow> bool" where
  "blog_slug_char c \<longleftrightarrow> 97 \<le> byte c \<and> byte c \<le> 122 \<or> is_digit c"

function replace_nonslug :: "string \<Rightarrow> string" where
  "replace_nonslug [] = []"
| "replace_nonslug (c # s) = (if blog_slug_char c then c # replace_nonslug s
     else CHR ''-'' # replace_nonslug (dropWhile (\<lambda>c. \<not> blog_slug_char c) s))"
  by pat_completeness auto
termination
  by (relation "measure length") (auto intro: le_imp_less_Suc length_dropWhile_le)

definition trim_dashes :: "string \<Rightarrow> string" where
  "trim_dashes s = rev (dropWhile (\<lambda>c. c = CHR ''-'') (rev (dropWhile (\<lambda>c. c = CHR ''-'') s)))"

definition slugify :: "string \<Rightarrow> string" where
  "slugify s = trim_dashes (replace_nonslug (ToLower (TrimSpace s)))"

section \<open>The tables\<close>

datatype PostStatus = StatusDraft | StatusPublished

record BlogCategory =
  bc_ID :: uuid
  bc_OrgID :: uuid
  bc_ProjectID :: uuid
  bc_Name :: string
  bc_Slug :: string
  bc_CreatedAt :: instant
  bc_UpdatedAt :: instant

record Tag =
  tg_ID :: uuid
  tg_OrgID :: uuid
  tg_ProjectID :: uuid
  tg_Name :: string
  tg_Slug :: string
  tg_CreatedAt :: instant
  tg_UpdatedAt :: instant

text \<open>A row of \<open>blog_posts\<close>; a \<open>Post\<close> is the row with its tags.\<close>

record PostRow =
  po_ID :: uuid
  po_OrgID :: uuid
  po_ProjectID :: uuid
  po_CategoryID :: uuid
  po_Title :: string
  po_Slug :: string
  po_BodyMarkdown :: string
  po_Status :: PostStatus
  po_FirstPublishedAt :: "instant option"
  po_CreatedAt :: instant
  po_UpdatedAt :: instant
  po_Version :: int

record Post = PostRow +
  po_TagIDs :: "uuid list"

record PostTag =
  pt_PostID :: uuid
  pt_TagID :: uuid
  pt_OrgID :: uuid

text \<open>The blog's four tables, and the webhooks its posts publish events to.\<close>

record blog_db =
  bd_Categories :: "BlogCategory list"
  bd_Tags :: "Tag list"
  bd_Posts :: "PostRow list"
  bd_Links :: "PostTag list"
  bd_Hooks :: webhook_db

definition no_blog :: blog_db where
  "no_blog = \<lparr>bd_Categories = [], bd_Tags = [], bd_Posts = [], bd_Links = [], bd_Hooks = no_webhooks\<rparr>"

text \<open>\<open>UNIQUE (project_id, slug)\<close>: the slug of a row is taken by another row of its project.\<close>

definition slug_taken :: "('r \<Rightarrow> uuid) \<Rightarrow> ('r \<Rightarrow> uuid) \<Rightarrow> ('r \<Rightarrow> string) \<Rightarrow> 'r list \<Rightarrow> 'r \<Rightarrow> bool" where
  "slug_taken key prj slug rows x \<longleftrightarrow> list_ex (\<lambda>r. key r \<noteq> key x \<and> prj r = prj x \<and> slug r = slug x) rows"

definition newest_rows :: "('r \<Rightarrow> instant) \<Rightarrow> ('r \<Rightarrow> uuid) \<Rightarrow> 'r list \<Rightarrow> 'r list" where
  "newest_rows at key rows = sort_key (\<lambda>r. (- at r, - int (key r))) rows"

definition by_key :: "('r \<Rightarrow> uuid) \<Rightarrow> 'r list \<Rightarrow> uuid \<Rightarrow> 'r option" where
  "by_key key rows = foldl (\<lambda>m r. m(key r \<mapsto> r)) Map.empty rows"

section \<open>Categories\<close>

definition blogcat_checkName :: "string \<Rightarrow> (err, string) res" where
  "blogcat_checkName name0 = (let name = TrimSpace name0 in
     if name = '''' then Inl (EBlogCategory (BlogCategoryInvalidNameError ''empty''))
     else if RuneCountInString name > 100 then Inl (EBlogCategory (BlogCategoryInvalidNameError ''over 100 characters''))
     else Inr name)"

definition blogcat_New :: "uuid \<Rightarrow> instant \<Rightarrow> uuid \<Rightarrow> uuid \<Rightarrow> string \<Rightarrow> string \<Rightarrow> (err, BlogCategory) res" where
  "blogcat_New id' now orgID projectID name0 slug0 =
     (case blogcat_checkName name0 of Inl e \<Rightarrow> Inl e | Inr name \<Rightarrow>
      let slug = slugify (if TrimSpace slug0 = '''' then name else slug0) in
      if slug = '''' then Inl (EBlogCategory (BlogCategoryInvalidNameError ''slug derives to empty''))
      else Inr \<lparr>bc_ID = id', bc_OrgID = orgID, bc_ProjectID = projectID, bc_Name = name, bc_Slug = slug,
        bc_CreatedAt = now, bc_UpdatedAt = now\<rparr>)"

definition blogcat_Rename :: "instant \<Rightarrow> string \<Rightarrow> BlogCategory \<Rightarrow> (err, BlogCategory) res" where
  "blogcat_Rename now name0 x = (case blogcat_checkName name0 of Inl e \<Rightarrow> Inl e | Inr name \<Rightarrow>
     Inr (x\<lparr>bc_Name := name, bc_UpdatedAt := now\<rparr>))"

definition blogcat_overlay :: "BlogCategory \<Rightarrow> BlogCategory \<Rightarrow> BlogCategory" where
  "blogcat_overlay old x = old\<lparr>bc_Name := bc_Name x, bc_Slug := bc_Slug x, bc_UpdatedAt := bc_UpdatedAt x\<rparr>"

definition blogcat_Save :: "ctx \<Rightarrow> BlogCategory \<Rightarrow> (blog_db, unit) prog" where
  "blogcat_Save c x s =
     (case tenant_From c of Inl e \<Rightarrow> (Inl e, s) | Inr tc \<Rightarrow>
     (case find_row bc_ID (bc_ID x) (bd_Categories s) of
        None \<Rightarrow>
          if slug_taken bc_ID bc_ProjectID bc_Slug (bd_Categories s) x
          then (Inl (EBlogCategory (BlogCategoryAlreadyExistsError (bc_Slug x))), s)
          else (Inr (), s\<lparr>bd_Categories := bd_Categories s @ [x]\<rparr>)
      | Some old \<Rightarrow>
          if bc_OrgID old \<noteq> tc_OrgID tc then (Inl (EBlogCategory (BlogCategoryNotFoundError (bc_ID x))), s)
          else if slug_taken bc_ID bc_ProjectID bc_Slug (bd_Categories s) (blogcat_overlay old x)
          then (Inl (EBlogCategory (BlogCategoryAlreadyExistsError (bc_Slug x))), s)
          else (Inr (), s\<lparr>bd_Categories := upsert_row bc_ID (blogcat_overlay old x) (bd_Categories s)\<rparr>)))"

definition blogcat_ByID :: "ctx \<Rightarrow> uuid \<Rightarrow> blog_db \<Rightarrow> (err, BlogCategory) res" where
  "blogcat_ByID c id' s =
     (case tenant_From c of Inl e \<Rightarrow> Inl e | Inr tc \<Rightarrow>
     (case find (\<lambda>r. bc_ID r = id' \<and> bc_OrgID r = tc_OrgID tc) (bd_Categories s) of
        None \<Rightarrow> Inl (EBlogCategory (BlogCategoryNotFoundError id')) | Some x \<Rightarrow> Inr x))"

definition blogcat_ByIDs :: "ctx \<Rightarrow> uuid \<Rightarrow> uuid \<Rightarrow> uuid list \<Rightarrow> blog_db \<Rightarrow> (err, uuid \<Rightarrow> BlogCategory option) res" where
  "blogcat_ByIDs c orgID projectID ids s =
     (case tenant_From c of Inl e \<Rightarrow> Inl e | Inr tc \<Rightarrow>
      Inr (if ids = [] then Map.empty
        else by_key bc_ID (filter (\<lambda>r. bc_OrgID r = orgID \<and> bc_ProjectID r = projectID \<and> bc_ID r \<in> set ids) (bd_Categories s))))"

definition blogcat_List :: "ctx \<Rightarrow> uuid \<Rightarrow> uuid \<Rightarrow> blog_db \<Rightarrow> (err, BlogCategory list) res" where
  "blogcat_List c orgID projectID s =
     (case tenant_From c of Inl e \<Rightarrow> Inl e | Inr tc \<Rightarrow>
      Inr (newest_rows bc_CreatedAt bc_ID (filter (\<lambda>r. bc_OrgID r = orgID \<and> bc_ProjectID r = projectID) (bd_Categories s))))"

text \<open>\<open>ON DELETE RESTRICT\<close>: posts hold their category.\<close>

definition blogcat_Delete :: "ctx \<Rightarrow> uuid \<Rightarrow> (blog_db, unit) prog" where
  "blogcat_Delete c id' s =
     (case tenant_From c of Inl e \<Rightarrow> (Inl e, s) | Inr tc \<Rightarrow>
     (case find (\<lambda>r. bc_ID r = id' \<and> bc_OrgID r = tc_OrgID tc) (bd_Categories s) of
        None \<Rightarrow> (Inl (EBlogCategory (BlogCategoryNotFoundError id')), s)
      | Some _ \<Rightarrow>
          if list_ex (\<lambda>p. po_CategoryID p = id') (bd_Posts s) then (Inl (EBlogCategory (BlogCategoryInUseError id')), s)
          else (Inr (), s\<lparr>bd_Categories := delete_row bc_ID id' (bd_Categories s)\<rparr>)))"

definition blogcats_Create :: "uuid \<Rightarrow> instant \<Rightarrow> ctx \<Rightarrow> string \<Rightarrow> string \<Rightarrow> (blog_db, BlogCategory) prog" where
  "blogcats_Create id' now c name slug s =
     (case tenant_From c of Inl e \<Rightarrow> (Inl e, s) | Inr tc \<Rightarrow>
     (case blogcat_New id' now (tc_OrgID tc) (tc_ProjectID tc) name slug of Inl e \<Rightarrow> (Inl e, s) | Inr x \<Rightarrow>
     (case blogcat_Save c x s of
        (Inl e, s1) \<Rightarrow> (Inl (if blogcat_IsAlreadyExistsError e then e else Unexpected ''category.Create: save'' e), s1)
      | (Inr _, s1) \<Rightarrow> (Inr x, s1))))"

definition blogcats_ByID :: "ctx \<Rightarrow> uuid \<Rightarrow> blog_db \<Rightarrow> (err, BlogCategory) res" where
  "blogcats_ByID c id' s =
     (case tenant_From c of Inl e \<Rightarrow> Inl e | Inr tc \<Rightarrow>
     (case blogcat_ByID c id' s of
        Inl e \<Rightarrow> Inl (if blogcat_IsNotFoundError e then e else Unexpected ''category.ByID: byID'' e)
      | Inr x \<Rightarrow> if bc_OrgID x \<noteq> tc_OrgID tc \<or> bc_ProjectID x \<noteq> tc_ProjectID tc
                then Inl (EBlogCategory (BlogCategoryNotFoundError id')) else Inr x))"

definition blogcats_Rename :: "instant \<Rightarrow> ctx \<Rightarrow> uuid \<Rightarrow> string \<Rightarrow> (blog_db, BlogCategory) prog" where
  "blogcats_Rename now c id' name s =
     (case blogcats_ByID c id' s of Inl e \<Rightarrow> (Inl e, s) | Inr x \<Rightarrow>
     (case blogcat_Rename now name x of Inl e \<Rightarrow> (Inl e, s) | Inr x1 \<Rightarrow>
     (case blogcat_Save c x1 s of
        (Inl e, s1) \<Rightarrow> (Inl (if blogcat_IsAlreadyExistsError e then e else Unexpected ''category.Rename: save'' e), s1)
      | (Inr _, s1) \<Rightarrow> (Inr x1, s1))))"

definition blogcats_List :: "ctx \<Rightarrow> blog_db \<Rightarrow> (err, BlogCategory list) res" where
  "blogcats_List c s =
     (case tenant_From c of Inl e \<Rightarrow> Inl e | Inr tc \<Rightarrow>
      map_err (Unexpected ''category.List: list'') (blogcat_List c (tc_OrgID tc) (tc_ProjectID tc) s))"

definition blogcats_Delete :: "ctx \<Rightarrow> uuid \<Rightarrow> (blog_db, unit) prog" where
  "blogcats_Delete c id' s =
     (case blogcats_ByID c id' s of Inl e \<Rightarrow> (Inl e, s) | Inr _ \<Rightarrow>
     (case blogcat_Delete c id' s of
        (Inl e, s1) \<Rightarrow> (Inl (if blogcat_IsInUseError e \<or> blogcat_IsNotFoundError e then e
                            else Unexpected ''category.Delete: delete'' e), s1)
      | (Inr _, s1) \<Rightarrow> (Inr (), s1)))"

section \<open>Tags\<close>

definition tag_checkName :: "string \<Rightarrow> (err, string) res" where
  "tag_checkName name0 = (let name = TrimSpace name0 in
     if name = '''' then Inl (ETag (TagInvalidNameError ''empty''))
     else if RuneCountInString name > 100 then Inl (ETag (TagInvalidNameError ''over 100 characters''))
     else Inr name)"

definition tag_New :: "uuid \<Rightarrow> instant \<Rightarrow> uuid \<Rightarrow> uuid \<Rightarrow> string \<Rightarrow> string \<Rightarrow> (err, Tag) res" where
  "tag_New id' now orgID projectID name0 slug0 =
     (case tag_checkName name0 of Inl e \<Rightarrow> Inl e | Inr name \<Rightarrow>
      let slug = slugify (if TrimSpace slug0 = '''' then name else slug0) in
      if slug = '''' then Inl (ETag (TagInvalidNameError ''slug derives to empty''))
      else Inr \<lparr>tg_ID = id', tg_OrgID = orgID, tg_ProjectID = projectID, tg_Name = name, tg_Slug = slug,
        tg_CreatedAt = now, tg_UpdatedAt = now\<rparr>)"

definition tag_Rename :: "instant \<Rightarrow> string \<Rightarrow> Tag \<Rightarrow> (err, Tag) res" where
  "tag_Rename now name0 t = (case tag_checkName name0 of Inl e \<Rightarrow> Inl e | Inr name \<Rightarrow>
     Inr (t\<lparr>tg_Name := name, tg_UpdatedAt := now\<rparr>))"

definition tag_overlay :: "Tag \<Rightarrow> Tag \<Rightarrow> Tag" where
  "tag_overlay old t = old\<lparr>tg_Name := tg_Name t, tg_Slug := tg_Slug t, tg_UpdatedAt := tg_UpdatedAt t\<rparr>"

definition tag_Save :: "ctx \<Rightarrow> Tag \<Rightarrow> (blog_db, unit) prog" where
  "tag_Save c t s =
     (case tenant_From c of Inl e \<Rightarrow> (Inl e, s) | Inr tc \<Rightarrow>
     (case find_row tg_ID (tg_ID t) (bd_Tags s) of
        None \<Rightarrow>
          if slug_taken tg_ID tg_ProjectID tg_Slug (bd_Tags s) t then (Inl (ETag (TagAlreadyExistsError (tg_Slug t))), s)
          else (Inr (), s\<lparr>bd_Tags := bd_Tags s @ [t]\<rparr>)
      | Some old \<Rightarrow>
          if tg_OrgID old \<noteq> tc_OrgID tc then (Inl (ETag (TagNotFoundError (RefID (tg_ID t)))), s)
          else if slug_taken tg_ID tg_ProjectID tg_Slug (bd_Tags s) (tag_overlay old t)
          then (Inl (ETag (TagAlreadyExistsError (tg_Slug t))), s)
          else (Inr (), s\<lparr>bd_Tags := upsert_row tg_ID (tag_overlay old t) (bd_Tags s)\<rparr>)))"

definition tag_queryOne :: "(Tag \<Rightarrow> bool) \<Rightarrow> tag_error \<Rightarrow> blog_db \<Rightarrow> (err, Tag) res" where
  "tag_queryOne cond notFound s = (case find cond (bd_Tags s) of None \<Rightarrow> Inl (ETag notFound) | Some t \<Rightarrow> Inr t)"

definition tag_queryMany :: "(Tag \<Rightarrow> bool) \<Rightarrow> blog_db \<Rightarrow> Tag list" where
  "tag_queryMany cond s = newest_rows tg_CreatedAt tg_ID (filter cond (bd_Tags s))"

definition tag_ByID :: "ctx \<Rightarrow> uuid \<Rightarrow> blog_db \<Rightarrow> (err, Tag) res" where
  "tag_ByID c id' s =
     (case tenant_From c of Inl e \<Rightarrow> Inl e | Inr tc \<Rightarrow>
      tag_queryOne (\<lambda>t. tg_ID t = id' \<and> tg_OrgID t = tc_OrgID tc) (TagNotFoundError (RefID id')) s)"

definition tag_BySlug :: "ctx \<Rightarrow> uuid \<Rightarrow> uuid \<Rightarrow> string \<Rightarrow> blog_db \<Rightarrow> (err, Tag) res" where
  "tag_BySlug c orgID projectID slug s =
     (case tenant_From c of Inl e \<Rightarrow> Inl e | Inr tc \<Rightarrow>
      if tc_OrgID tc \<noteq> orgID then Inl (ETag (TagNotFoundError (RefText slug)))
      else tag_queryOne (\<lambda>t. tg_OrgID t = orgID \<and> tg_ProjectID t = projectID \<and> tg_Slug t = slug) (TagNotFoundError (RefText slug)) s)"

definition tag_ByIDs :: "ctx \<Rightarrow> uuid \<Rightarrow> uuid \<Rightarrow> uuid list \<Rightarrow> blog_db \<Rightarrow> (err, uuid \<Rightarrow> Tag option) res" where
  "tag_ByIDs c orgID projectID ids s =
     (case tenant_From c of Inl e \<Rightarrow> Inl e | Inr tc \<Rightarrow>
      Inr (if ids = [] \<or> tc_OrgID tc \<noteq> orgID then Map.empty
        else by_key tg_ID (tag_queryMany (\<lambda>t. tg_OrgID t = orgID \<and> tg_ProjectID t = projectID \<and> tg_ID t \<in> set ids) s)))"

definition tag_List :: "ctx \<Rightarrow> uuid \<Rightarrow> uuid \<Rightarrow> blog_db \<Rightarrow> (err, Tag list) res" where
  "tag_List c orgID projectID s =
     (case tenant_From c of Inl e \<Rightarrow> Inl e | Inr tc \<Rightarrow>
      Inr (if tc_OrgID tc \<noteq> orgID then [] else tag_queryMany (\<lambda>t. tg_OrgID t = orgID \<and> tg_ProjectID t = projectID) s))"

definition tag_Delete :: "ctx \<Rightarrow> uuid \<Rightarrow> (blog_db, unit) prog" where
  "tag_Delete c id' s =
     (case tenant_From c of Inl e \<Rightarrow> (Inl e, s) | Inr tc \<Rightarrow>
     (case find (\<lambda>t. tg_ID t = id' \<and> tg_OrgID t = tc_OrgID tc) (bd_Tags s) of
        None \<Rightarrow> (Inl (ETag (TagNotFoundError (RefID id'))), s)
      | Some _ \<Rightarrow>
          if list_ex (\<lambda>l. pt_TagID l = id') (bd_Links s) then (Inl (ETag (TagInUseError id')), s)
          else (Inr (), s\<lparr>bd_Tags := delete_row tg_ID id' (bd_Tags s)\<rparr>)))"

definition tags_Create :: "uuid \<Rightarrow> instant \<Rightarrow> ctx \<Rightarrow> string \<Rightarrow> string \<Rightarrow> (blog_db, Tag) prog" where
  "tags_Create id' now c name slug s =
     (case tenant_From c of Inl e \<Rightarrow> (Inl e, s) | Inr tc \<Rightarrow>
     (case tag_New id' now (tc_OrgID tc) (tc_ProjectID tc) name slug of Inl e \<Rightarrow> (Inl e, s) | Inr t \<Rightarrow>
     (case tag_Save c t s of
        (Inl e, s1) \<Rightarrow> (Inl (if tag_IsAlreadyExistsError e then e else Unexpected ''tag.Create: save'' e), s1)
      | (Inr _, s1) \<Rightarrow> (Inr t, s1))))"

definition EnsureByName :: "uuid \<Rightarrow> instant \<Rightarrow> ctx \<Rightarrow> uuid \<Rightarrow> uuid \<Rightarrow> string \<Rightarrow> (blog_db, Tag) prog" where
  "EnsureByName id' now c orgID projectID name s =
     (case tag_New id' now orgID projectID name '''' of Inl e \<Rightarrow> (Inl e, s) | Inr t \<Rightarrow>
     (case tag_BySlug c orgID projectID (tg_Slug t) s of
        Inr existing \<Rightarrow> (Inr existing, s)
      | Inl e \<Rightarrow>
          if \<not> tag_IsNotFoundError e then (Inl (Unexpected ''tag.EnsureByName: lookup by slug'' e), s)
          else (case tag_Save c t s of
             (Inl e, s1) \<Rightarrow> if tag_IsAlreadyExistsError e then (tag_BySlug c orgID projectID (tg_Slug t) s1, s1)
                            else (Inl (Unexpected ''tag.EnsureByName: save'' e), s1)
           | (Inr _, s1) \<Rightarrow> (Inr t, s1))))"

definition tags_ByID :: "ctx \<Rightarrow> uuid \<Rightarrow> blog_db \<Rightarrow> (err, Tag) res" where
  "tags_ByID c id' s =
     (case tenant_From c of Inl e \<Rightarrow> Inl e | Inr tc \<Rightarrow>
     (case tag_ByID c id' s of
        Inl e \<Rightarrow> Inl (if tag_IsNotFoundError e then e else Unexpected ''tag.ByID: load'' e)
      | Inr t \<Rightarrow> if tg_OrgID t \<noteq> tc_OrgID tc \<or> tg_ProjectID t \<noteq> tc_ProjectID tc
                then Inl (ETag (TagNotFoundError (RefID id'))) else Inr t))"

definition tags_Rename :: "instant \<Rightarrow> ctx \<Rightarrow> uuid \<Rightarrow> string \<Rightarrow> (blog_db, Tag) prog" where
  "tags_Rename now c id' name s =
     (case tags_ByID c id' s of Inl e \<Rightarrow> (Inl e, s) | Inr t \<Rightarrow>
     (case tag_Rename now name t of Inl e \<Rightarrow> (Inl e, s) | Inr t1 \<Rightarrow>
     (case tag_Save c t1 s of
        (Inl e, s1) \<Rightarrow> (Inl (if tag_IsAlreadyExistsError e then e else Unexpected ''tag.Rename: save'' e), s1)
      | (Inr _, s1) \<Rightarrow> (Inr t1, s1))))"

definition tags_List :: "ctx \<Rightarrow> blog_db \<Rightarrow> (err, Tag list) res" where
  "tags_List c s =
     (case tenant_From c of Inl e \<Rightarrow> Inl e | Inr tc \<Rightarrow>
      map_err (Unexpected ''tag.List: list'') (tag_List c (tc_OrgID tc) (tc_ProjectID tc) s))"

definition tags_Delete :: "ctx \<Rightarrow> uuid \<Rightarrow> (blog_db, unit) prog" where
  "tags_Delete c id' s =
     (case tags_ByID c id' s of Inl e \<Rightarrow> (Inl e, s) | Inr _ \<Rightarrow>
     (case tag_Delete c id' s of
        (Inl e, s1) \<Rightarrow> (Inl (if tag_IsNotFoundError e \<or> tag_IsInUseError e then e
                            else Unexpected ''tag.Delete: delete'' e), s1)
      | (Inr _, s1) \<Rightarrow> (Inr (), s1)))"

end
