(* ===== verification/Blog.thy ===== *)
theory Blog
  imports BlogTerms
begin

text \<open>
  Blog posts, package \<open>internal/blog\<close>: the aggregate (\<open>blog.go\<close>), the SQLite store with
  its version guard (\<open>sqlite.go\<close>) and the service (\<open>service.go\<close>), whose transitions write
  the post and enqueue its event in one unit of work.  The instants an operation reads
  from the clock are its arguments, as are the ids and instants of the fan-out.
\<close>

section \<open>The aggregate\<close>

definition MaxTitleRunes :: nat where "MaxTitleRunes = 200"

definition MaxSlugRunes :: nat where "MaxSlugRunes = 200"

definition MaxBodyBytes :: nat where "MaxBodyBytes = 65536"

definition post_validate :: "string \<Rightarrow> string \<Rightarrow> string \<Rightarrow> uuid \<Rightarrow> (err, string \<times> string) res" where
  "post_validate title0 slug0 body categoryID =
     (let title = TrimSpace title0 in
      if title = '''' then Inl (EPost (InvalidTitleError ''empty''))
      else if RuneCountInString title > MaxTitleRunes then Inl (EPost (InvalidTitleError ''over 200 characters''))
      else let slug = slugify (if TrimSpace slug0 = '''' then title else slug0) in
      if slug = '''' then Inl (EPost (InvalidSlugError ''derives to empty''))
      else if RuneCountInString slug > MaxSlugRunes then Inl (EPost (InvalidSlugError ''over 200 characters''))
      else if length body > MaxBodyBytes then Inl (EPost (InvalidBodyError ''over 64 KiB''))
      else if categoryID = uuid_Nil then Inl (EPost CategoryRequiredError)
      else Inr (title, slug))"

definition post_New :: "uuid \<Rightarrow> instant \<Rightarrow> uuid \<Rightarrow> uuid \<Rightarrow> uuid \<Rightarrow> string \<Rightarrow> string \<Rightarrow> string \<Rightarrow> (err, Post) res" where
  "post_New id' now orgID projectID categoryID title0 slug0 body =
     (case post_validate title0 slug0 body categoryID of Inl e \<Rightarrow> Inl e | Inr (title, slug) \<Rightarrow>
      Inr \<lparr>po_ID = id', po_OrgID = orgID, po_ProjectID = projectID, po_CategoryID = categoryID, po_Title = title, po_Slug = slug,
        po_BodyMarkdown = body, po_Status = StatusDraft, po_FirstPublishedAt = None, po_CreatedAt = now, po_UpdatedAt = now,
        po_Version = 1, po_TagIDs = []\<rparr>)"

definition post_Update :: "instant \<Rightarrow> string \<Rightarrow> string \<Rightarrow> string \<Rightarrow> uuid \<Rightarrow> Post \<Rightarrow> (err, Post) res" where
  "post_Update now title0 slug0 body categoryID p =
     (case post_validate title0 slug0 body categoryID of Inl e \<Rightarrow> Inl e | Inr (title, slug) \<Rightarrow>
      Inr (p\<lparr>po_Title := title, po_Slug := slug, po_BodyMarkdown := body, po_CategoryID := categoryID, po_UpdatedAt := now\<rparr>))"

definition post_Publish :: "instant \<Rightarrow> Post \<Rightarrow> Post" where
  "post_Publish now p = p\<lparr>po_Status := StatusPublished,
     po_FirstPublishedAt := (case po_FirstPublishedAt p of None \<Rightarrow> Some now | Some t \<Rightarrow> Some t), po_UpdatedAt := now\<rparr>"

definition post_Unpublish :: "instant \<Rightarrow> Post \<Rightarrow> Post" where
  "post_Unpublish now p = p\<lparr>po_Status := StatusDraft, po_UpdatedAt := now\<rparr>"

text \<open>The loop of \<open>SetTags\<close>, \<open>out\<close> holding the ids kept so far.\<close>

fun first_seen :: "uuid list \<Rightarrow> uuid list \<Rightarrow> uuid list" where
  "first_seen out [] = out"
| "first_seen out (i # is) = (if i \<in> set out then first_seen out is else first_seen (out @ [i]) is)"

definition post_SetTags :: "instant \<Rightarrow> uuid list \<Rightarrow> Post \<Rightarrow> Post" where
  "post_SetTags now ids p = p\<lparr>po_TagIDs := first_seen [] ids, po_UpdatedAt := now\<rparr>"

record PostListOpts =
  pl_Status :: "PostStatus option"
  pl_CategoryID :: "uuid option"

section \<open>The store\<close>

definition versionGuard :: "int \<Rightarrow> int \<Rightarrow> bool" where
  "versionGuard ifVersion col \<longleftrightarrow>
     (if ifVersion = 0 then True else if ifVersion < 0 \<or> ifVersion > 2147483647 then False else col = ifVersion)"

definition toPost :: "PostRow \<Rightarrow> uuid list \<Rightarrow> Post" where
  "toPost r tags = PostRow.extend r (Post.fields tags)"

text \<open>The row an upsert leaves where one was: the columns of the \<open>SET\<close> clause.\<close>

definition post_overlay :: "PostRow \<Rightarrow> Post \<Rightarrow> PostRow" where
  "post_overlay old p = old\<lparr>po_CategoryID := po_CategoryID p, po_Title := po_Title p, po_Slug := po_Slug p,
     po_BodyMarkdown := po_BodyMarkdown p, po_Status := po_Status p, po_FirstPublishedAt := po_FirstPublishedAt p,
     po_UpdatedAt := po_UpdatedAt p, po_Version := po_Version old + 1\<rparr>"

definition loadLinks :: "Tenant \<Rightarrow> uuid \<Rightarrow> blog_db \<Rightarrow> uuid list" where
  "loadLinks tc id' s = sort (map pt_TagID (filter (\<lambda>l. pt_PostID l = id' \<and> pt_OrgID l = tc_OrgID tc) (bd_Links s)))"

text \<open>Clearing the links and inserting the new ones, row by row as the statement's constraints see them.\<close>

fun insert_links :: "uuid \<Rightarrow> uuid \<Rightarrow> uuid list \<Rightarrow> (blog_db, unit) prog" where
  "insert_links pid orgID [] s = (Inr (), s)"
| "insert_links pid orgID (t # ts) s =
     (if list_ex (\<lambda>l. pt_PostID l = pid \<and> pt_TagID l = t) (bd_Links s) then (Inl (Sql ConstraintUnique), s)
      else if find_row tg_ID t (bd_Tags s) = None \<or> \<not> list_ex (\<lambda>r. po_ID r = pid \<and> po_OrgID r = orgID) (bd_Posts s)
      then (Inl (Sql ConstraintForeignKey), s)
      else insert_links pid orgID ts (s\<lparr>bd_Links := bd_Links s @ [\<lparr>pt_PostID = pid, pt_TagID = t, pt_OrgID = orgID\<rparr>]\<rparr>))"

definition clear_links :: "Tenant \<Rightarrow> uuid \<Rightarrow> blog_db \<Rightarrow> blog_db" where
  "clear_links tc id' s = s\<lparr>bd_Links := filter (\<lambda>l. \<not> (pt_PostID l = id' \<and> pt_OrgID l = tc_OrgID tc)) (bd_Links s)\<rparr>"

definition replaceLinks :: "Tenant \<Rightarrow> Post \<Rightarrow> (blog_db, unit) prog" where
  "replaceLinks tc p s = atomically (insert_links (po_ID p) (tc_OrgID tc) (po_TagIDs p)) (clear_links tc (po_ID p) s)"

definition refusalError :: "Tenant \<Rightarrow> uuid \<Rightarrow> int \<Rightarrow> blog_db \<Rightarrow> err" where
  "refusalError tc id' ifVersion s =
     (case find (\<lambda>r. po_ID r = id' \<and> po_OrgID r = tc_OrgID tc) (bd_Posts s) of
        None \<Rightarrow> EPost (PostNotFoundError (RefID id'))
      | Some r \<Rightarrow> if ifVersion \<noteq> 0 then EPost (StaleVersionError ifVersion (po_Version r)) else EPost (PostNotFoundError (RefID id')))"

definition post_save :: "Tenant \<Rightarrow> Post \<Rightarrow> int \<Rightarrow> (blog_db, unit) prog" where
  "post_save tc p ifVersion s =
     (case find_row po_ID (po_ID p) (bd_Posts s) of
        None \<Rightarrow>
          let row = PostRow.truncate p in
          if slug_taken po_ID po_ProjectID po_Slug (bd_Posts s) row then (Inl (EPost (PostAlreadyExistsError (po_Slug p))), s)
          else if find_row bc_ID (po_CategoryID row) (bd_Categories s) = None then (Inl (Sql ConstraintForeignKey), s)
          else replaceLinks tc p (s\<lparr>bd_Posts := bd_Posts s @ [row]\<rparr>)
      | Some old \<Rightarrow>
          if \<not> (po_OrgID old = tc_OrgID tc \<and> versionGuard ifVersion (po_Version old)) then (Inl (refusalError tc (po_ID p) ifVersion s), s)
          else let row = post_overlay old p in
          if slug_taken po_ID po_ProjectID po_Slug (bd_Posts s) row then (Inl (EPost (PostAlreadyExistsError (po_Slug p))), s)
          else if find_row bc_ID (po_CategoryID row) (bd_Categories s) = None then (Inl (Sql ConstraintForeignKey), s)
          else replaceLinks tc p (s\<lparr>bd_Posts := upsert_row po_ID row (bd_Posts s)\<rparr>))"

text \<open>\<open>endTx\<close>: a transaction the store opened itself is rolled back on an error; one it joined is left to its owner.\<close>

definition endTx :: "bool \<Rightarrow> ('s, 'a) prog \<Rightarrow> ('s, 'a) prog" where
  "endTx owned f s = (if owned then atomically f s else f s)"

definition post_Save :: "ctx \<Rightarrow> Post \<Rightarrow> int \<Rightarrow> (blog_db, unit) prog" where
  "post_Save c p ifVersion s =
     (case tenant_From c of Inl e \<Rightarrow> (Inl e, s) | Inr tc \<Rightarrow> endTx (\<not> ctx_uow c) (post_save tc p ifVersion) s)"

definition post_ByID :: "ctx \<Rightarrow> uuid \<Rightarrow> blog_db \<Rightarrow> (err, Post) res" where
  "post_ByID c id' s =
     (case tenant_From c of Inl e \<Rightarrow> Inl e | Inr tc \<Rightarrow>
     (case find (\<lambda>r. po_ID r = id' \<and> po_OrgID r = tc_OrgID tc) (bd_Posts s) of
        None \<Rightarrow> Inl (EPost (PostNotFoundError (RefID id')))
      | Some r \<Rightarrow> Inr (toPost r (loadLinks tc (po_ID r) s))))"

definition post_BySlug :: "ctx \<Rightarrow> uuid \<Rightarrow> string \<Rightarrow> blog_db \<Rightarrow> (err, Post) res" where
  "post_BySlug c projectID slug s =
     (case tenant_From c of Inl e \<Rightarrow> Inl e | Inr tc \<Rightarrow>
     (case find (\<lambda>r. po_OrgID r = tc_OrgID tc \<and> po_ProjectID r = projectID \<and> po_Slug r = slug) (bd_Posts s) of
        None \<Rightarrow> Inl (EPost (PostNotFoundError (RefText slug)))
      | Some r \<Rightarrow> Inr (toPost r (loadLinks tc (po_ID r) s))))"

definition post_List :: "ctx \<Rightarrow> uuid \<Rightarrow> uuid \<Rightarrow> PostListOpts \<Rightarrow> blog_db \<Rightarrow> (err, Post list) res" where
  "post_List c orgID projectID opts s =
     (case tenant_From c of Inl e \<Rightarrow> Inl e | Inr tc \<Rightarrow>
      let cond = (\<lambda>r. po_OrgID r = orgID \<and> po_OrgID r = tc_OrgID tc \<and> po_ProjectID r = projectID \<and>
            (case pl_Status opts of None \<Rightarrow> True | Some st \<Rightarrow> po_Status r = st) \<and>
            (case pl_CategoryID opts of None \<Rightarrow> True | Some k \<Rightarrow> po_CategoryID r = k))
      in Inr (map (\<lambda>r. toPost r (loadLinks tc (po_ID r) s)) (newest_rows po_CreatedAt po_ID (filter cond (bd_Posts s)))))"

text \<open>Deleting the row takes its links along (\<open>ON DELETE CASCADE\<close>) before they are cleared once more.\<close>

definition deletePost :: "Tenant \<Rightarrow> uuid \<Rightarrow> int \<Rightarrow> (blog_db, unit) prog" where
  "deletePost tc id' ifVersion s =
     (let cond = (\<lambda>r. po_ID r = id' \<and> po_OrgID r = tc_OrgID tc \<and> (ifVersion \<noteq> 0 \<longrightarrow> versionGuard ifVersion (po_Version r))) in
      if \<not> list_ex cond (bd_Posts s) then (Inl (refusalError tc id' ifVersion s), s)
      else let s1 = s\<lparr>bd_Posts := filter (\<lambda>r. \<not> cond r) (bd_Posts s),
                      bd_Links := filter (\<lambda>l. \<not> (pt_PostID l = id' \<and> pt_OrgID l = tc_OrgID tc)) (bd_Links s)\<rparr>
           in (Inr (), clear_links tc id' s1))"

definition post_Delete :: "ctx \<Rightarrow> uuid \<Rightarrow> int \<Rightarrow> (blog_db, unit) prog" where
  "post_Delete c id' ifVersion s =
     (case tenant_From c of Inl e \<Rightarrow> (Inl e, s) | Inr tc \<Rightarrow> endTx (\<not> ctx_uow c) (deletePost tc id' ifVersion) s)"

text \<open>A \<open>GROUP BY\<close> with a count: a key with no rows is absent.\<close>

definition group_count :: "uuid list \<Rightarrow> uuid \<Rightarrow> nat option" where
  "group_count ks k = (let n = count_list ks k in if n = 0 then None else Some n)"

definition post_CountByCategory :: "ctx \<Rightarrow> uuid \<Rightarrow> uuid \<Rightarrow> blog_db \<Rightarrow> (err, uuid \<Rightarrow> nat option) res" where
  "post_CountByCategory c orgID projectID s =
     (case tenant_From c of Inl e \<Rightarrow> Inl e | Inr tc \<Rightarrow>
      Inr (group_count (map po_CategoryID (filter (\<lambda>r. po_OrgID r = orgID \<and> po_OrgID r = tc_OrgID tc \<and> po_ProjectID r = projectID) (bd_Posts s)))))"

definition post_CountByTag :: "ctx \<Rightarrow> uuid \<Rightarrow> uuid \<Rightarrow> blog_db \<Rightarrow> (err, uuid \<Rightarrow> nat option) res" where
  "post_CountByTag c orgID projectID s =
     (case tenant_From c of Inl e \<Rightarrow> Inl e | Inr tc \<Rightarrow>
      Inr (group_count (concat (map (\<lambda>l. map (\<lambda>_. pt_TagID l)
        (filter (\<lambda>r. po_ID r = pt_PostID l \<and> po_OrgID r = pt_OrgID l \<and> po_OrgID r = orgID \<and> po_OrgID r = tc_OrgID tc \<and>
           pt_OrgID l = tc_OrgID tc \<and> po_ProjectID r = projectID) (bd_Posts s))) (bd_Links s)))))"

section \<open>The service\<close>

definition posts_locate :: "string \<Rightarrow> ctx \<Rightarrow> uuid \<Rightarrow> blog_db \<Rightarrow> (err, Tenant \<times> Post) res" where
  "posts_locate op c id' s =
     (case tenant_From c of Inl e \<Rightarrow> Inl e | Inr tc \<Rightarrow>
     (case post_ByID c id' s of
        Inl e \<Rightarrow> Inl (if post_IsNotFoundError e then e else Unexpected (op @ '': load'') e)
      | Inr p \<Rightarrow> if po_OrgID p \<noteq> tc_OrgID tc then Inl (EPost (PostNotFoundError (RefID id'))) else Inr (tc, p)))"

definition posts_load :: "string \<Rightarrow> ctx \<Rightarrow> uuid \<Rightarrow> blog_db \<Rightarrow> (err, Post) res" where
  "posts_load op c id' s =
     (case posts_locate op c id' s of Inl e \<Rightarrow> Inl e | Inr (tc, p) \<Rightarrow>
      if po_ProjectID p \<noteq> tc_ProjectID tc then Inl (EPost (PostNotFoundError (RefID id'))) else Inr p)"

definition posts_persist :: "string \<Rightarrow> ctx \<Rightarrow> Post \<Rightarrow> int \<Rightarrow> (blog_db, Post) prog" where
  "posts_persist op c p ifVersion s =
     (case post_Save c p ifVersion s of
        (Inl e, s1) \<Rightarrow> (Inl (if post_IsAlreadyExistsError e \<or> post_IsNotFoundError e \<or> IsStaleVersionError e then e
           else Unexpected (op @ '': save'') e), s1)
      | (Inr _, s1) \<Rightarrow> (Inr (p\<lparr>po_Version := po_Version p + 1\<rparr>), s1))"

definition posts_Locate :: "ctx \<Rightarrow> uuid \<Rightarrow> blog_db \<Rightarrow> (err, Post) res" where
  "posts_Locate c id' s = (case posts_locate ''blog.Locate'' c id' s of Inl e \<Rightarrow> Inl e | Inr (_, p) \<Rightarrow> Inr p)"

definition posts_Create :: "uuid \<Rightarrow> instant \<Rightarrow> ctx \<Rightarrow> uuid \<Rightarrow> string \<Rightarrow> string \<Rightarrow> string \<Rightarrow> (blog_db, Post) prog" where
  "posts_Create id' now c categoryID title slug body s =
     (case tenant_From c of Inl e \<Rightarrow> (Inl e, s) | Inr tc \<Rightarrow>
     (case post_New id' now (tc_OrgID tc) (tc_ProjectID tc) categoryID title slug body of Inl e \<Rightarrow> (Inl e, s) | Inr p \<Rightarrow>
     (case post_Save c p 0 s of
        (Inl e, s1) \<Rightarrow> (Inl (if post_IsAlreadyExistsError e then e else Unexpected ''blog.Create: save'' e), s1)
      | (Inr _, s1) \<Rightarrow> (Inr p, s1))))"

definition posts_Update :: "instant \<Rightarrow> ctx \<Rightarrow> uuid \<Rightarrow> string \<Rightarrow> string \<Rightarrow> string \<Rightarrow> uuid \<Rightarrow> int \<Rightarrow> (blog_db, Post) prog" where
  "posts_Update now c id' title slug body categoryID ifVersion s =
     (case posts_load ''blog.Update'' c id' s of Inl e \<Rightarrow> (Inl e, s) | Inr p \<Rightarrow>
     (case post_Update now title slug body categoryID p of Inl e \<Rightarrow> (Inl e, s) | Inr p1 \<Rightarrow>
      posts_persist ''blog.Update'' c p1 ifVersion s))"

definition posts_UpdateWithTags :: "instant \<Rightarrow> instant \<Rightarrow> ctx \<Rightarrow> uuid \<Rightarrow> string \<Rightarrow> string \<Rightarrow> string \<Rightarrow> uuid \<Rightarrow> uuid list \<Rightarrow> int
    \<Rightarrow> (blog_db, Post) prog" where
  "posts_UpdateWithTags now now' c id' title slug body categoryID tagIDs ifVersion s =
     (case posts_load ''blog.UpdateWithTags'' c id' s of Inl e \<Rightarrow> (Inl e, s) | Inr p \<Rightarrow>
     (case post_Update now title slug body categoryID p of Inl e \<Rightarrow> (Inl e, s) | Inr p1 \<Rightarrow>
      posts_persist ''blog.UpdateWithTags'' c (post_SetTags now' tagIDs p1) ifVersion s))"

definition posts_SetTags :: "instant \<Rightarrow> ctx \<Rightarrow> uuid \<Rightarrow> uuid list \<Rightarrow> (blog_db, Post) prog" where
  "posts_SetTags now c id' tagIDs s =
     (case posts_load ''blog.SetTags'' c id' s of Inl e \<Rightarrow> (Inl e, s) | Inr p \<Rightarrow>
      posts_persist ''blog.SetTags'' c (post_SetTags now tagIDs p) 0 s)"

definition posts_List :: "ctx \<Rightarrow> PostListOpts \<Rightarrow> blog_db \<Rightarrow> (err, Post list) res" where
  "posts_List c opts s =
     (case tenant_From c of Inl e \<Rightarrow> Inl e | Inr tc \<Rightarrow>
      map_err (Unexpected ''blog.List: list'') (post_List c (tc_OrgID tc) (tc_ProjectID tc) opts s))"

definition posts_ByID :: "ctx \<Rightarrow> uuid \<Rightarrow> blog_db \<Rightarrow> (err, Post) res" where
  "posts_ByID c id' s = posts_load ''blog.ByID'' c id' s"

definition posts_BySlug :: "ctx \<Rightarrow> string \<Rightarrow> blog_db \<Rightarrow> (err, Post) res" where
  "posts_BySlug c slug s =
     (case tenant_From c of Inl e \<Rightarrow> Inl e | Inr tc \<Rightarrow>
      map_err (\<lambda>e. if post_IsNotFoundError e then e else Unexpected ''blog.BySlug: load'' e) (post_BySlug c (tc_ProjectID tc) slug s))"

definition posts_CountByCategory :: "ctx \<Rightarrow> blog_db \<Rightarrow> (err, uuid \<Rightarrow> nat option) res" where
  "posts_CountByCategory c s =
     (case tenant_From c of Inl e \<Rightarrow> Inl e | Inr tc \<Rightarrow>
      map_err (Unexpected ''blog.CountByCategory: count'') (post_CountByCategory c (tc_OrgID tc) (tc_ProjectID tc) s))"

definition posts_CountByTag :: "ctx \<Rightarrow> blog_db \<Rightarrow> (err, uuid \<Rightarrow> nat option) res" where
  "posts_CountByTag c s =
     (case tenant_From c of Inl e \<Rightarrow> Inl e | Inr tc \<Rightarrow>
      map_err (Unexpected ''blog.CountByTag: count'') (post_CountByTag c (tc_OrgID tc) (tc_ProjectID tc) s))"

section \<open>Transitions\<close>

text \<open>
  What a transition reaches outside the blog: the libraries of the webhooks, the project
  slugs, and what one attempt draws (the clock reading and the fan-out's ids).
\<close>

record blog_env =
  be_lib :: webhook_lib
  be_slugOf :: "uuid \<Rightarrow> (err, string) res"

record attempt_env =
  ae_Now :: instant
  ae_Fan :: fan_env

definition truncate_second :: "instant \<Rightarrow> instant" where
  "truncate_second t = t div second * second"

definition snapshot :: "Post \<Rightarrow> PostSnapshotV1" where
  "snapshot p = \<lparr>ps_ID = po_ID p, ps_Slug = po_Slug p, ps_Title = po_Title p, ps_BodyMarkdown = po_BodyMarkdown p,
     ps_CategoryID = po_CategoryID p, ps_TagIDs = po_TagIDs p,
     ps_FirstPublishedAt = map_option truncate_second (po_FirstPublishedAt p),
     ps_UpdatedAt = truncate_second (po_UpdatedAt p), ps_Version = po_Version p\<rparr>"

definition post_apply :: "instant \<Rightarrow> PostStatus \<Rightarrow> Post \<Rightarrow> Post \<times> string" where
  "post_apply now target p =
     (if target = StatusPublished then (post_Publish now p, PostPublished) else (post_Unpublish now p, PostUnpublished))"

definition post_payload :: "string \<Rightarrow> Post \<Rightarrow> event_data" where
  "post_payload t p = (if t = PostPublished then PostPublishedV1 (snapshot p) else PostUnpublishedV1 (snapshot p))"

definition posts_enqueue :: "blog_env \<Rightarrow> fan_env \<Rightarrow> string \<Rightarrow> ctx \<Rightarrow> string \<Rightarrow> event_data \<Rightarrow> (blog_db, unit) prog" where
  "posts_enqueue be fe op c t data s =
     (case hooks_Enqueue (be_lib be) (be_slugOf be) fe c t data (bd_Hooks s) of
        (Inl e, h) \<Rightarrow> (Inl (Unexpected (op @ '': enqueue'') e), s\<lparr>bd_Hooks := h\<rparr>)
      | (Inr _, h) \<Rightarrow> (Inr (), s\<lparr>bd_Hooks := h\<rparr>))"

text \<open>The unit of work itself fails only where it is opened inside another; it does not run its body then.\<close>

definition inUnitOfWork :: "string \<Rightarrow> ctx \<Rightarrow> (ctx \<Rightarrow> (blog_db, 'a) prog) \<Rightarrow> (blog_db, 'a) prog" where
  "inUnitOfWork op c fn s =
     (if ctx_uow c then (Inl (Unexpected (op @ '': unit of work'') ErrNestedUnitOfWork), s) else RunInTx c fn s)"

text \<open>\<open>Service.atomically\<close>: a write that guards on the version it loaded is tried once more when it lost a race.\<close>

definition posts_atomically :: "string \<Rightarrow> ctx \<Rightarrow> int \<Rightarrow> (attempt_env \<Rightarrow> ctx \<Rightarrow> (blog_db, 'a) prog) \<Rightarrow> attempt_env \<Rightarrow> attempt_env
    \<Rightarrow> (blog_db, 'a) prog" where
  "posts_atomically op c ifVersion fn ae1 ae2 s =
     (case tenant_From c of Inl e \<Rightarrow> (Inl e, s) | Inr _ \<Rightarrow>
     (case inUnitOfWork op c (fn ae1) s of
        (Inl e, s1) \<Rightarrow> if ifVersion = 0 \<and> IsStaleVersionError e then inUnitOfWork op c (fn ae2) s1 else (Inl e, s1)
      | (Inr v, s1) \<Rightarrow> (Inr v, s1)))"

definition cmp_Or :: "int \<Rightarrow> int \<Rightarrow> int" where
  "cmp_Or a b = (if a \<noteq> 0 then a else b)"

definition transition_in :: "blog_env \<Rightarrow> string \<Rightarrow> uuid \<Rightarrow> int \<Rightarrow> PostStatus \<Rightarrow> attempt_env \<Rightarrow> ctx \<Rightarrow> (blog_db, Post) prog" where
  "transition_in be op id' ifVersion target ae c s =
     (case posts_load op c id' s of Inl e \<Rightarrow> (Inl e, s) | Inr p \<Rightarrow>
      if ifVersion \<noteq> 0 \<and> ifVersion \<noteq> po_Version p then (Inl (EPost (StaleVersionError ifVersion (po_Version p))), s)
      else if po_Status p = target then (Inr p, s)
      else (case post_apply (ae_Now ae) target p of (p1, t) \<Rightarrow>
        (case posts_persist op c p1 (cmp_Or ifVersion (po_Version p)) s of
           (Inl e, s1) \<Rightarrow> (Inl e, s1)
         | (Inr p2, s1) \<Rightarrow>
            (case posts_enqueue be (ae_Fan ae) op c t (post_payload t p2) s1 of
               (Inl e, s2) \<Rightarrow> (Inl e, s2)
             | (Inr _, s2) \<Rightarrow> (Inr p2, s2)))))"

definition posts_transition :: "blog_env \<Rightarrow> attempt_env \<Rightarrow> attempt_env \<Rightarrow> string \<Rightarrow> ctx \<Rightarrow> uuid \<Rightarrow> int \<Rightarrow> PostStatus \<Rightarrow> (blog_db, Post) prog" where
  "posts_transition be ae1 ae2 op c id' ifVersion target s =
     posts_atomically op c ifVersion (transition_in be op id' ifVersion target) ae1 ae2 s"

definition posts_Publish :: "blog_env \<Rightarrow> attempt_env \<Rightarrow> attempt_env \<Rightarrow> ctx \<Rightarrow> uuid \<Rightarrow> int \<Rightarrow> (blog_db, Post) prog" where
  "posts_Publish be ae1 ae2 c id' ifVersion s = posts_transition be ae1 ae2 ''blog.Publish'' c id' ifVersion StatusPublished s"

definition posts_Unpublish :: "blog_env \<Rightarrow> attempt_env \<Rightarrow> attempt_env \<Rightarrow> ctx \<Rightarrow> uuid \<Rightarrow> int \<Rightarrow> (blog_db, Post) prog" where
  "posts_Unpublish be ae1 ae2 c id' ifVersion s = posts_transition be ae1 ae2 ''blog.Unpublish'' c id' ifVersion StatusDraft s"

definition delete_in :: "blog_env \<Rightarrow> uuid \<Rightarrow> int \<Rightarrow> attempt_env \<Rightarrow> ctx \<Rightarrow> (blog_db, unit) prog" where
  "delete_in be id' ifVersion ae c s =
     (case posts_load ''blog.Delete'' c id' s of Inl e \<Rightarrow> (Inl e, s) | Inr p \<Rightarrow>
     (case post_Delete c id' (cmp_Or ifVersion (po_Version p)) s of
        (Inl e, s1) \<Rightarrow> (Inl (if post_IsNotFoundError e \<or> IsStaleVersionError e then e else Unexpected ''blog.Delete: delete'' e), s1)
      | (Inr _, s1) \<Rightarrow>
          posts_enqueue be (ae_Fan ae) ''blog.Delete'' c PostDeleted
            (PostDeletedV1 (po_ID p) (po_Slug p) (po_Status p = StatusPublished)) s1))"

definition posts_Delete :: "blog_env \<Rightarrow> attempt_env \<Rightarrow> attempt_env \<Rightarrow> ctx \<Rightarrow> uuid \<Rightarrow> int \<Rightarrow> (blog_db, unit) prog" where
  "posts_Delete be ae1 ae2 c id' ifVersion s = posts_atomically ''blog.Delete'' c ifVersion (delete_in be id' ifVersion) ae1 ae2 s"

end
