(* ===== verification/BlogSteps.thy ===== *)
theory BlogSteps
  imports Blog WebhookSteps
begin

text \<open>
  What the operations of the blog keep.  Every call is a \<open>blog_move\<close> in the project of
  its caller: it leaves the tables alone, writes or removes one category, tag or post
  (a post with its links), and may step the webhooks.
\<close>

section \<open>Slugs\<close>

text \<open>
  Slugs: what \<open>slugify\<close> returns is canonical, words of lower-case letters and digits
  joined by single dashes, and a canonical slug is left as it is.
\<close>

abbreviation (input) dash :: char where "dash \<equiv> CHR ''-''"

definition slug_ok :: "string \<Rightarrow> bool" where
  "slug_ok s \<longleftrightarrow> s \<noteq> [] \<and> hd s \<noteq> dash \<and> last s \<noteq> dash \<and> (\<forall>c \<in> set s. blog_slug_char c \<or> c = dash) \<and>
     successively (\<lambda>a b. \<not> (a = dash \<and> b = dash)) s"

lemma dash_not_slug [simp]: "\<not> blog_slug_char dash"
  by (simp add: blog_slug_char_def is_digit_def byte_def)

lemma replace_nonslug_chars: "c \<in> set (replace_nonslug s) \<Longrightarrow> blog_slug_char c \<or> c = dash"
  by (induction s rule: replace_nonslug.induct) (auto split: if_splits)

lemma replace_nonslug_hd: "blog_slug_char (hd s) \<or> s = [] \<Longrightarrow> replace_nonslug s = [] \<or> hd (replace_nonslug s) \<noteq> dash"
  by (cases s) auto

lemma hd_dropWhile_slug: "blog_slug_char (hd (dropWhile (\<lambda>c. \<not> blog_slug_char c) s)) \<or> dropWhile (\<lambda>c. \<not> blog_slug_char c) s = []"
  using hd_dropWhile [of "\<lambda>c. \<not> blog_slug_char c" s] by blast

lemma replace_nonslug_single: "successively (\<lambda>a b. \<not> (a = dash \<and> b = dash)) (replace_nonslug s)"
proof (induction s rule: replace_nonslug.induct)
  case (2 c s)
  show ?case
  proof (cases "blog_slug_char c")
    case False
    then show ?thesis using 2(2) replace_nonslug_hd [OF hd_dropWhile_slug, of s] by (auto simp: successively_Cons)
  qed (use 2(1) in \<open>auto simp: successively_Cons\<close>)
qed simp

lemma trim_dashes_parts: "\<exists>xs ys. s = xs @ trim_dashes s @ ys"
proof -
  let ?t = "dropWhile (\<lambda>c. c = dash) s"
  let ?u = "dropWhile (\<lambda>c. c = dash) (rev ?t)"
  have s: "takeWhile (\<lambda>c. c = dash) s @ ?t = s" by (rule takeWhile_dropWhile_id)
  have "takeWhile (\<lambda>c. c = dash) (rev ?t) @ ?u = rev ?t" by (rule takeWhile_dropWhile_id)
  from arg_cong [OF this, of rev] have t: "rev ?u @ rev (takeWhile (\<lambda>c. c = dash) (rev ?t)) = ?t"
    by (simp only: rev_append rev_rev_ident)
  have "s = takeWhile (\<lambda>c. c = dash) s @ trim_dashes s @ rev (takeWhile (\<lambda>c. c = dash) (rev ?t))"
    unfolding trim_dashes_def t by (rule s [symmetric])
  then show ?thesis by blast
qed

lemma hd_rev_dropWhile:
  assumes "dropWhile P (rev t) \<noteq> []"
  shows "hd (rev (dropWhile P (rev t))) = hd t" "t \<noteq> []"
proof -
  have "takeWhile P (rev t) @ dropWhile P (rev t) = rev t" by (rule takeWhile_dropWhile_id)
  from arg_cong [OF this, of rev] have t: "t = rev (dropWhile P (rev t)) @ rev (takeWhile P (rev t))"
    by (simp only: rev_append rev_rev_ident)
  have ne: "rev (dropWhile P (rev t)) \<noteq> []" using assms by (simp only: rev_is_Nil_conv not_False_eq_True)
  have "hd t = hd (rev (dropWhile P (rev t)) @ rev (takeWhile P (rev t)))" using t by (rule arg_cong)
  also have "\<dots> = hd (rev (dropWhile P (rev t)))" by (rule hd_append2 [OF ne])
  finally show "hd (rev (dropWhile P (rev t))) = hd t" by (rule sym)
  show "t \<noteq> []" using assms by (cases t) simp_all
qed

lemma trim_dashes_ends:
  assumes "trim_dashes s \<noteq> []"
  shows "hd (trim_dashes s) \<noteq> dash" "last (trim_dashes s) \<noteq> dash"
proof -
  let ?t = "dropWhile (\<lambda>c. c = dash) s"
  have u: "dropWhile (\<lambda>c. c = dash) (rev ?t) \<noteq> []"
    using assms unfolding trim_dashes_def by (simp only: rev_is_Nil_conv not_False_eq_True)
  note h = hd_rev_dropWhile [OF u]
  show "hd (trim_dashes s) \<noteq> dash" unfolding trim_dashes_def h(1) by (rule hd_dropWhile [OF h(2)])
  show "last (trim_dashes s) \<noteq> dash"
    unfolding trim_dashes_def last_rev by (rule hd_dropWhile [OF u])
qed

lemma slugify_ok: "slugify s = [] \<or> slug_ok (slugify s)"
proof -
  let ?r = "replace_nonslug (ToLower (TrimSpace s))"
  obtain xs ys where p: "?r = xs @ slugify s @ ys" using trim_dashes_parts unfolding slugify_def by blast
  have "successively (\<lambda>a b. \<not> (a = dash \<and> b = dash)) (slugify s)"
    using replace_nonslug_single [of "ToLower (TrimSpace s)"] unfolding p by (auto simp: successively_append_iff)
  moreover have "\<forall>c \<in> set (slugify s). blog_slug_char c \<or> c = dash"
    using replace_nonslug_chars [of _ "ToLower (TrimSpace s)"] unfolding p by auto
  ultimately show ?thesis using trim_dashes_ends [of ?r, folded slugify_def] unfolding slug_ok_def by blast
qed

lemma replace_nonslug_id:
  assumes "\<forall>c \<in> set s. blog_slug_char c \<or> c = dash" "successively (\<lambda>a b. \<not> (a = dash \<and> b = dash)) s"
  shows "replace_nonslug s = s"
  using assms
proof (induction s)
  case (Cons c s)
  then have i: "replace_nonslug s = s" by (auto simp: successively_Cons)
  have "dropWhile (\<lambda>c. \<not> blog_slug_char c) s = s" if "c = dash"
    using Cons.prems that by (cases s) (auto simp: successively_Cons)
  then show ?case using i Cons.prems by auto
qed simp

lemma slug_char_visible: "blog_slug_char c \<or> c = dash \<Longrightarrow> visible c"
  by (auto simp: blog_slug_char_def is_digit_def visible_def byte_def)

lemma ToLower_ascii_fixed:
  assumes "\<forall>c \<in> set s. byte c < 0x80 \<and> lower_byte (byte c) = byte c"
  shows "ToLower s = s"
  using assms
proof (induction s)
  case (Cons c s)
  then have "ToLower (c # s) = char_of (lower_byte (byte c)) # ToLower s" by (simp add: ToLower_def lower_rune_def)
  with Cons show ?case by (simp add: byte_def)
qed (simp add: ToLower_def)

lemma slug_char_lower: "blog_slug_char c \<or> c = dash \<Longrightarrow> byte c < 0x80 \<and> lower_byte (byte c) = byte c"
  by (auto simp: blog_slug_char_def is_digit_def lower_byte_def byte_def)

lemma trim_dashes_id: "s \<noteq> [] \<Longrightarrow> hd s \<noteq> dash \<Longrightarrow> last s \<noteq> dash \<Longrightarrow> trim_dashes s = s"
proof -
  assume a: "s \<noteq> []" "hd s \<noteq> dash" "last s \<noteq> dash"
  have "dropWhile (\<lambda>c. c = dash) s = s" using a by (cases s) auto
  moreover have "dropWhile (\<lambda>c. c = dash) (rev s) = rev s" using a by (cases s rule: rev_cases) auto
  ultimately show ?thesis by (simp only: trim_dashes_def rev_rev_ident)
qed

lemma slugify_id:
  assumes "slug_ok s"
  shows "slugify s = s"
proof -
  have ne: "s \<noteq> []" and ends: "hd s \<noteq> dash" "last s \<noteq> dash" and chars: "\<forall>c \<in> set s. blog_slug_char c \<or> c = dash"
    and single: "successively (\<lambda>a b. \<not> (a = dash \<and> b = dash)) s"
    using assms unfolding slug_ok_def by blast+
  have v: "TrimSpace s = s"
    by (rule TrimSpace_visible [OF ne]) (rule slug_char_visible, rule bspec [OF chars], use ne in simp)+
  have l: "ToLower s = s" by (rule ToLower_ascii_fixed, rule ballI, rule slug_char_lower, rule bspec [OF chars])
  show ?thesis unfolding slugify_def v l replace_nonslug_id [OF chars single] by (rule trim_dashes_id [OF ne ends])
qed

lemma slug_ok_iff: "slug_ok s \<longleftrightarrow> s \<noteq> [] \<and> slugify s = s"
  using slugify_ok [of s] slugify_id [of s] by (auto simp: slug_ok_def)

section \<open>Tables with slugs\<close>

definition table_ok :: "('r \<Rightarrow> uuid) \<Rightarrow> ('r \<Rightarrow> uuid) \<Rightarrow> ('r \<Rightarrow> string) \<Rightarrow> ('r \<Rightarrow> bool) \<Rightarrow> 'r list \<Rightarrow> bool" where
  "table_ok key prj slug ok rows \<longleftrightarrow> keyed key rows \<and> distinct (map (\<lambda>r. (prj r, slug r)) rows) \<and> (\<forall>r \<in> set rows. ok r)"

lemma table_okD:
  assumes "table_ok key prj slug ok rows"
  shows "keyed key rows" "distinct (map (\<lambda>r. (prj r, slug r)) rows)" "r \<in> set rows \<Longrightarrow> ok r"
  using assms unfolding table_ok_def by blast+

lemma distinct_upsert:
  assumes "keyed key rows" "distinct (map f rows)" "\<And>r. r \<in> set rows \<Longrightarrow> key r \<noteq> key x \<Longrightarrow> f r \<noteq> f x"
  shows "distinct (map f (upsert_row key x rows))"
  using assms
proof (induction rows)
  case (Cons r rows)
  have k: "keyed key rows" "key r \<notin> key ` set rows" and f: "distinct (map f rows)" "f r \<notin> f ` set rows" using Cons.prems(1,2) by simp_all
  show ?case
  proof (cases "key r = key x")
    case True
    have "f q \<noteq> f x" if "q \<in> set rows" for q
      by (rule Cons.prems(3)) (use that k(2) True in \<open>auto simp: rev_image_eqI\<close>)
    then have "f x \<notin> f ` set rows" by force
    then show ?thesis using f(1) True by simp
  next
    case False
    have "f r \<noteq> f x" using Cons.prems(3) False by simp
    moreover have "f ` set (upsert_row key x rows) \<subseteq> insert (f x) (f ` set rows)" using set_upsert_row [OF k(1), of x] by auto
    moreover have "distinct (map f (upsert_row key x rows))" using Cons.IH [OF k(1) f(1)] Cons.prems(3) by simp
    ultimately show ?thesis using False f(2) by auto
  qed
qed simp

lemma table_ok_put:
  assumes "table_ok key prj slug ok rows" "\<not> slug_taken key prj slug rows x" "ok x"
  shows "table_ok key prj slug ok (upsert_row key x rows)"
proof -
  note d = table_okD [OF assms(1)]
  have "distinct (map (\<lambda>r. (prj r, slug r)) (upsert_row key x rows))"
    by (rule distinct_upsert [OF d(1,2)]) (use assms(2) in \<open>auto simp: slug_taken_def list_ex_iff\<close>)
  then show ?thesis
    using keyed_upsert_row [OF d(1)] d(3) assms(3) unfolding table_ok_def set_upsert_row [OF d(1)] by blast
qed

lemma table_ok_delete: "table_ok key prj slug ok rows \<Longrightarrow> table_ok key prj slug ok (delete_row key i rows)"
  unfolding table_ok_def by (auto intro: keyed_delete_row simp: delete_row_def distinct_map_filter)

text \<open>Rows outside a scope are untouched by writes inside it.\<close>

lemma outside_put:
  assumes "sc x = t" "\<And>old. find_row key (key x) rows = Some old \<Longrightarrow> sc old = t"
  shows "filter (\<lambda>r. sc r \<noteq> t) (upsert_row key x rows) = filter (\<lambda>r. sc r \<noteq> t) rows"
  using assms by (induction rows) (auto simp: table_simps)

lemma outside_delete:
  assumes "keyed key rows" "find_row key i rows = Some old" "sc old = t"
  shows "filter (\<lambda>r. sc r \<noteq> t) (delete_row key i rows) = filter (\<lambda>r. sc r \<noteq> t) rows"
proof -
  have "sc r = t" if "r \<in> set rows" "key r = i" for r
    using that assms by (metis find_row_Some_iff option.inject)
  then show ?thesis by (auto simp: delete_row_def intro!: filter_cong)
qed

lemma keys_delete_row: "key ` set (delete_row key i rows) = key ` set rows - {i}"
  by (auto simp: image_iff)

section \<open>The invariant\<close>

abbreviation bc_scope :: "BlogCategory \<Rightarrow> uuid \<times> uuid" where "bc_scope x \<equiv> (bc_OrgID x, bc_ProjectID x)"
abbreviation tg_scope :: "Tag \<Rightarrow> uuid \<times> uuid" where "tg_scope x \<equiv> (tg_OrgID x, tg_ProjectID x)"
abbreviation po_scope :: "'a PostRow_scheme \<Rightarrow> uuid \<times> uuid" where "po_scope x \<equiv> (po_OrgID x, po_ProjectID x)"

definition name_ok :: "string \<Rightarrow> bool" where
  "name_ok n \<longleftrightarrow> n \<noteq> [] \<and> RuneCountInString n \<le> 100"

definition blogcat_ok :: "BlogCategory \<Rightarrow> bool" where
  "blogcat_ok x \<longleftrightarrow> name_ok (bc_Name x) \<and> slug_ok (bc_Slug x)"

definition tag_ok :: "Tag \<Rightarrow> bool" where
  "tag_ok x \<longleftrightarrow> name_ok (tg_Name x) \<and> slug_ok (tg_Slug x)"

definition post_fields_ok :: "'a PostRow_scheme \<Rightarrow> bool" where
  "post_fields_ok r \<longleftrightarrow> po_Title r \<noteq> [] \<and> RuneCountInString (po_Title r) \<le> MaxTitleRunes \<and> slug_ok (po_Slug r) \<and>
     RuneCountInString (po_Slug r) \<le> MaxSlugRunes \<and> length (po_BodyMarkdown r) \<le> MaxBodyBytes"

definition post_dates_ok :: "'a PostRow_scheme \<Rightarrow> bool" where
  "post_dates_ok r \<longleftrightarrow> (po_Status r = StatusPublished \<longrightarrow> po_FirstPublishedAt r \<noteq> None)"

definition post_ok :: "PostRow \<Rightarrow> bool" where
  "post_ok r \<longleftrightarrow> post_fields_ok r \<and> post_dates_ok r \<and> 1 \<le> po_Version r"

definition links_ok :: "Tag list \<Rightarrow> PostRow list \<Rightarrow> PostTag list \<Rightarrow> bool" where
  "links_ok tags posts links \<longleftrightarrow> distinct (map (\<lambda>l. (pt_PostID l, pt_TagID l)) links) \<and>
     (\<forall>l \<in> set links. pt_TagID l \<in> tg_ID ` set tags \<and> (pt_PostID l, pt_OrgID l) \<in> (\<lambda>r. (po_ID r, po_OrgID r)) ` set posts)"

definition blog_inv :: "blog_db \<Rightarrow> bool" where
  "blog_inv s \<longleftrightarrow> table_ok bc_ID bc_ProjectID bc_Slug blogcat_ok (bd_Categories s) \<and>
     table_ok tg_ID tg_ProjectID tg_Slug tag_ok (bd_Tags s) \<and> table_ok po_ID po_ProjectID po_Slug post_ok (bd_Posts s) \<and>
     po_CategoryID ` set (bd_Posts s) \<subseteq> bc_ID ` set (bd_Categories s) \<and> links_ok (bd_Tags s) (bd_Posts s) (bd_Links s)"

lemma blog_invD:
  assumes "blog_inv s"
  shows "table_ok bc_ID bc_ProjectID bc_Slug blogcat_ok (bd_Categories s)" "table_ok tg_ID tg_ProjectID tg_Slug tag_ok (bd_Tags s)"
    "table_ok po_ID po_ProjectID po_Slug post_ok (bd_Posts s)" "po_CategoryID ` set (bd_Posts s) \<subseteq> bc_ID ` set (bd_Categories s)"
    "links_ok (bd_Tags s) (bd_Posts s) (bd_Links s)"
  using assms unfolding blog_inv_def by blast+

text \<open>How a post changes in one write.\<close>

definition post_evolves :: "PostRow \<Rightarrow> PostRow \<Rightarrow> bool" where
  "post_evolves old r \<longleftrightarrow> po_ID r = po_ID old \<and> po_scope r = po_scope old \<and> po_CreatedAt r = po_CreatedAt old \<and>
     po_Version r = po_Version old + 1 \<and> (\<forall>x. po_FirstPublishedAt old = Some x \<longrightarrow> po_FirstPublishedAt r = Some x)"

definition post_links :: "uuid \<Rightarrow> uuid \<Rightarrow> uuid list \<Rightarrow> PostTag list" where
  "post_links pid orgID ts = map (\<lambda>t. \<lparr>pt_PostID = pid, pt_TagID = t, pt_OrgID = orgID\<rparr>) ts"

definition other_links :: "uuid \<Rightarrow> uuid \<Rightarrow> PostTag list \<Rightarrow> PostTag list" where
  "other_links pid orgID links = filter (\<lambda>l. \<not> (pt_PostID l = pid \<and> pt_OrgID l = orgID)) links"

inductive blog_move :: "uuid \<times> uuid \<Rightarrow> blog_db \<Rightarrow> blog_db \<Rightarrow> bool" for t where
  put_category: "blog_move t s (s\<lparr>bd_Categories := upsert_row bc_ID x (bd_Categories s), bd_Hooks := h\<rparr>)"
  if "\<not> slug_taken bc_ID bc_ProjectID bc_Slug (bd_Categories s) x" "blogcat_ok x" "bc_scope x = t"
    "\<And>old. find_row bc_ID (bc_ID x) (bd_Categories s) = Some old \<Longrightarrow> bc_scope old = t"
| drop_category: "blog_move t s (s\<lparr>bd_Categories := delete_row bc_ID i (bd_Categories s), bd_Hooks := h\<rparr>)"
  if "find_row bc_ID i (bd_Categories s) = Some x" "bc_scope x = t" "i \<notin> po_CategoryID ` set (bd_Posts s)"
| put_tag: "blog_move t s (s\<lparr>bd_Tags := upsert_row tg_ID x (bd_Tags s), bd_Hooks := h\<rparr>)"
  if "\<not> slug_taken tg_ID tg_ProjectID tg_Slug (bd_Tags s) x" "tag_ok x" "tg_scope x = t"
    "\<And>old. find_row tg_ID (tg_ID x) (bd_Tags s) = Some old \<Longrightarrow> tg_scope old = t"
| drop_tag: "blog_move t s (s\<lparr>bd_Tags := delete_row tg_ID i (bd_Tags s), bd_Hooks := h\<rparr>)"
  if "find_row tg_ID i (bd_Tags s) = Some x" "tg_scope x = t" "i \<notin> pt_TagID ` set (bd_Links s)"
| put_post: "blog_move t s (s\<lparr>bd_Posts := upsert_row po_ID r (bd_Posts s),
      bd_Links := other_links (po_ID r) (fst t) (bd_Links s) @ post_links (po_ID r) (fst t) tags, bd_Hooks := h\<rparr>)"
  if "\<not> slug_taken po_ID po_ProjectID po_Slug (bd_Posts s) r" "post_ok r" "po_scope r = t"
    "case find_row po_ID (po_ID r) (bd_Posts s) of None \<Rightarrow> po_Version r = 1 | Some old \<Rightarrow> post_evolves old r"
    "po_CategoryID r \<in> bc_ID ` set (bd_Categories s)" "distinct tags" "set tags \<subseteq> tg_ID ` set (bd_Tags s)"
| drop_post: "blog_move t s (s\<lparr>bd_Posts := delete_row po_ID i (bd_Posts s),
      bd_Links := other_links i (fst t) (bd_Links s), bd_Hooks := h\<rparr>)"
  if "find_row po_ID i (bd_Posts s) = Some r" "po_scope r = t"

lemma links_of_post:
  assumes "links_ok tags posts links" "keyed po_ID posts" "l \<in> set links"
  obtains r where "find_row po_ID (pt_PostID l) posts = Some r" "po_OrgID r = pt_OrgID l"
proof -
  obtain r where "r \<in> set posts" "po_ID r = pt_PostID l" "po_OrgID r = pt_OrgID l"
    using assms(1,3) unfolding links_ok_def by force
  then show ?thesis using that [of r] by (simp add: find_row_Some_iff [OF assms(2)])
qed

lemma other_links_none:
  assumes "links_ok tags posts links" "keyed po_ID posts"
    and "\<And>old. find_row po_ID i posts = Some old \<Longrightarrow> po_OrgID old = orgID" "l \<in> set (other_links i orgID links)"
  shows "pt_PostID l \<noteq> i" "l \<in> set links"
proof -
  have l: "l \<in> set links" "\<not> (pt_PostID l = i \<and> pt_OrgID l = orgID)" using assms(4) by (auto simp: other_links_def)
  obtain r where "find_row po_ID (pt_PostID l) posts = Some r" "po_OrgID r = pt_OrgID l" by (rule links_of_post [OF assms(1,2) l(1)])
  then show "pt_PostID l \<noteq> i" using l(2) assms(3) by auto
  show "l \<in> set links" by (rule l(1))
qed

lemma links_put:
  assumes ok: "links_ok tags posts links" "keyed po_ID posts" and r: "po_OrgID r = orgID"
    and old: "\<And>old. find_row po_ID (po_ID r) posts = Some old \<Longrightarrow> po_OrgID old = orgID"
    and ts: "distinct ts" "set ts \<subseteq> tg_ID ` set tags"
  shows "links_ok tags (upsert_row po_ID r posts) (other_links (po_ID r) orgID links @ post_links (po_ID r) orgID ts)"
proof -
  let ?f = "\<lambda>l. (pt_PostID l, pt_TagID l)" let ?new = "post_links (po_ID r) orgID ts" let ?kept = "other_links (po_ID r) orgID links"
  have n: "pt_PostID l \<noteq> po_ID r" "l \<in> set links" if "l \<in> set ?kept" for l
    using other_links_none [OF ok _ that] old by blast+
  have "distinct (map ?f ?kept)" using ok(1) unfolding links_ok_def other_links_def by (simp add: distinct_map_filter)
  moreover have "distinct (map ?f ?new)" using ts(1) unfolding post_links_def by (simp add: distinct_map comp_def inj_on_def)
  moreover have "?f ` set ?kept \<inter> ?f ` set ?new = {}" using n(1) by (auto simp: post_links_def)
  ultimately have "distinct (map ?f (?kept @ ?new))" by simp
  moreover have "pt_TagID l \<in> tg_ID ` set tags \<and> (pt_PostID l, pt_OrgID l) \<in> (\<lambda>r. (po_ID r, po_OrgID r)) ` set (upsert_row po_ID r posts)"
    if "l \<in> set (?kept @ ?new)" for l
  proof (cases "l \<in> set ?kept")
    case True
    note l = n [OF True]
    obtain q where q: "q \<in> set posts" "pt_PostID l = po_ID q" "pt_OrgID l = po_OrgID q"
      using ok(1) l(2) unfolding links_ok_def by blast
    have "q \<in> set (upsert_row po_ID r posts)" using q l(1) unfolding set_upsert_row [OF ok(2)] by simp
    then show ?thesis using ok(1) l(2) q(2,3) unfolding links_ok_def by blast
  next
    case False
    then have "l \<in> set ?new" using that by simp
    then have "pt_PostID l = po_ID r" "pt_OrgID l = po_OrgID r" "pt_TagID l \<in> set ts" using r by (auto simp: post_links_def)
    moreover have "r \<in> set (upsert_row po_ID r posts)" unfolding set_upsert_row [OF ok(2)] by simp
    ultimately show ?thesis using ts(2) by blast
  qed
  ultimately show ?thesis unfolding links_ok_def by blast
qed

lemma links_drop:
  assumes ok: "links_ok tags posts links" "keyed po_ID posts" and old: "find_row po_ID i posts = Some r" "po_OrgID r = orgID"
  shows "links_ok tags (delete_row po_ID i posts) (other_links i orgID links)"
proof -
  have n: "pt_PostID l \<noteq> i" "l \<in> set links" if "l \<in> set (other_links i orgID links)" for l
    using other_links_none [OF ok _ that] old by auto
  have "distinct (map (\<lambda>l. (pt_PostID l, pt_TagID l)) (other_links i orgID links))"
    using ok(1) unfolding links_ok_def other_links_def by (simp add: distinct_map_filter)
  moreover have "pt_TagID l \<in> tg_ID ` set tags \<and> (pt_PostID l, pt_OrgID l) \<in> (\<lambda>r. (po_ID r, po_OrgID r)) ` set (delete_row po_ID i posts)"
    if "l \<in> set (other_links i orgID links)" for l
    using n [OF that] ok(1) unfolding links_ok_def by (auto simp: image_iff)
  ultimately show ?thesis unfolding links_ok_def by blast
qed

lemma blog_move_inv:
  assumes "blog_move t s s'" "blog_inv s"
  shows "blog_inv s'"
  using assms(1)
proof cases
  case (put_category x h)
  then show ?thesis using blog_invD [OF assms(2)] table_ok_put
    unfolding blog_inv_def by (simp add: keys_upsert_row subset_insertI2)
next
  case (drop_category i x h)
  have "po_CategoryID ` set (bd_Posts s) \<subseteq> bc_ID ` set (delete_row bc_ID i (bd_Categories s))"
    using blog_invD(4) [OF assms(2)] drop_category(4) unfolding keys_delete_row by blast
  then show ?thesis using blog_invD [OF assms(2)] table_ok_delete drop_category(1) unfolding blog_inv_def by simp
next
  case (put_tag x h)
  have "links_ok (upsert_row tg_ID x (bd_Tags s)) (bd_Posts s) (bd_Links s)"
    using blog_invD(5) [OF assms(2)] unfolding links_ok_def keys_upsert_row by blast
  then show ?thesis using blog_invD [OF assms(2)] table_ok_put put_tag unfolding blog_inv_def by simp
next
  case (drop_tag i x h)
  have "links_ok (delete_row tg_ID i (bd_Tags s)) (bd_Posts s) (bd_Links s)"
    using blog_invD(5) [OF assms(2)] drop_tag(4) unfolding links_ok_def keys_delete_row by blast
  then show ?thesis using blog_invD [OF assms(2)] table_ok_delete drop_tag unfolding blog_inv_def by simp
next
  case (put_post r tags h)
  have old: "po_OrgID old = fst t" if "find_row po_ID (po_ID r) (bd_Posts s) = Some old" for old
    using put_post(4,5) that by (auto simp: post_evolves_def)
  have r: "po_OrgID r = fst t" using put_post(4) by auto
  note k = table_okD(1) [OF blog_invD(3) [OF assms(2)]]
  have "links_ok (bd_Tags s) (upsert_row po_ID r (bd_Posts s))
      (other_links (po_ID r) (fst t) (bd_Links s) @ post_links (po_ID r) (fst t) tags)"
    by (rule links_put [OF blog_invD(5) [OF assms(2)] k r old put_post(7,8)])
  moreover have "po_CategoryID ` set (upsert_row po_ID r (bd_Posts s)) \<subseteq> bc_ID ` set (bd_Categories s)"
    using blog_invD(4) [OF assms(2)] put_post(6) unfolding set_upsert_row [OF k] by blast
  ultimately show ?thesis using blog_invD [OF assms(2)] table_ok_put put_post(1-3) unfolding blog_inv_def by simp
next
  case (drop_post i r h)
  note k = table_okD(1) [OF blog_invD(3) [OF assms(2)]]
  have "po_OrgID r = fst t" using drop_post(3) by auto
  note l = links_drop [OF blog_invD(5) [OF assms(2)] k drop_post(2) this]
  then show ?thesis using blog_invD [OF assms(2)] table_ok_delete drop_post(1) unfolding blog_inv_def by auto
qed

end
