(* ===== verification/BlogCalls.thy ===== *)
theory BlogCalls
  imports BlogSteps
begin

text \<open>
  The calls of the blog's services as moves: categories and tags first, then the writes
  and the transitions of posts; and the states a sequence of calls leads to.
\<close>

definition blog_moves :: "webhook_lib \<Rightarrow> ctx \<Rightarrow> blog_db \<Rightarrow> blog_db \<Rightarrow> bool" where
  "blog_moves lib c s s' \<longleftrightarrow> s' = s \<or> (\<exists>t. call_scope c = Some t \<and> (s' = s\<lparr>bd_Hooks := bd_Hooks s'\<rparr> \<or> blog_move t s s') \<and>
     moves_in lib c (bd_Hooks s) (bd_Hooks s'))"

lemma blog_moves_same [simp]: "blog_moves lib c s s"
  by (simp add: blog_moves_def)

lemma blog_moves_table: "call_scope c = Some t \<Longrightarrow> blog_move t s s' \<Longrightarrow> bd_Hooks s' = bd_Hooks s \<Longrightarrow> blog_moves lib c s s'"
  by (simp add: blog_moves_def)

lemma blog_inv_hooks: "blog_inv (s\<lparr>bd_Hooks := h\<rparr>) = blog_inv s"
  by (simp add: blog_inv_def)

lemma blog_moves_inv:
  assumes "blog_moves lib c s s'" "blog_inv s" "webhook_inv lib (bd_Hooks s)"
  shows "blog_inv s'" "webhook_inv lib (bd_Hooks s')"
proof -
  from assms(1) consider "s' = s" | t where "s' = s\<lparr>bd_Hooks := bd_Hooks s'\<rparr> \<or> blog_move t s s'" "moves_in lib c (bd_Hooks s) (bd_Hooks s')"
    unfolding blog_moves_def by blast
  then have "blog_inv s' \<and> webhook_inv lib (bd_Hooks s')"
  proof cases
    case 2
    have "blog_inv s'" using 2(1) assms(2) blog_move_inv blog_inv_hooks by metis
    then show ?thesis using moves_in_inv [OF 2(2) assms(3)] by blast
  qed (use assms in simp)
  then show "blog_inv s'" "webhook_inv lib (bd_Hooks s')" by blast+
qed

lemma call_scope_tenant: "tenant_From c = Inr tc \<Longrightarrow> call_scope c = Some (tc_OrgID tc, tc_ProjectID tc)"
  unfolding call_scope_def by (simp only: sum.case)

section \<open>Categories and tags\<close>

lemma blogcat_checkName_Inr: "blogcat_checkName n = Inr m \<Longrightarrow> name_ok m"
  by (auto simp: blogcat_checkName_def name_ok_def Let_def split: if_splits)

lemma tag_checkName_Inr: "tag_checkName n = Inr m \<Longrightarrow> name_ok m"
  by (auto simp: tag_checkName_def name_ok_def Let_def split: if_splits)

lemma slugify_nonempty: "slugify s \<noteq> [] \<Longrightarrow> slug_ok (slugify s)"
  using slugify_ok by blast

lemma blogcat_New_Inr:
  assumes "blogcat_New i now orgID projectID name slug = Inr x"
  shows "bc_ID x = i" "bc_scope x = (orgID, projectID)" "blogcat_ok x"
  using assms blogcat_checkName_Inr slugify_nonempty
  by (auto simp: blogcat_New_def blogcat_ok_def Let_def split: sum.splits if_splits)

lemma tag_New_Inr:
  assumes "tag_New i now orgID projectID name slug = Inr x"
  shows "tg_ID x = i" "tg_scope x = (orgID, projectID)" "tag_ok x"
  using assms tag_checkName_Inr slugify_nonempty
  by (auto simp: tag_New_def tag_ok_def Let_def split: sum.splits if_splits)

text \<open>
  The contract of the two stores of terms: a save writes the row given, or overlays it on
  the row that has its id, unless the slug is taken; a failed save changes nothing.
\<close>

locale term_store =
  fixes key org prj :: "'r \<Rightarrow> uuid" and slug :: "'r \<Rightarrow> string" and ok :: "'r \<Rightarrow> bool" and overlay :: "'r \<Rightarrow> 'r \<Rightarrow> 'r"
    and rows :: "blog_db \<Rightarrow> 'r list" and put :: "'r list \<Rightarrow> blog_db \<Rightarrow> blog_db" and save :: "ctx \<Rightarrow> 'r \<Rightarrow> (blog_db, unit) prog"
  assumes overlay: "key (overlay old x) = key old" "org (overlay old x) = org old" "prj (overlay old x) = prj old"
      "ok x \<Longrightarrow> ok (overlay old x)"
    and put_hooks: "bd_Hooks (put rs s) = bd_Hooks s"
    and put_moves: "\<not> slug_taken key prj slug (rows s) x \<Longrightarrow> ok x \<Longrightarrow> (org x, prj x) = t \<Longrightarrow>
      (\<And>old. find_row key (key x) (rows s) = Some old \<Longrightarrow> (org old, prj old) = t) \<Longrightarrow> blog_move t s (put (upsert_row key x (rows s)) s)"
    and save_failed: "save c x s = (Inl e, s') \<Longrightarrow> s' = s"
    and save_insert: "save c x s = (Inr (), s') \<Longrightarrow> find_row key (key x) (rows s) = None \<Longrightarrow>
      \<not> slug_taken key prj slug (rows s) x \<and> s' = put (upsert_row key x (rows s)) s"
    and save_update: "save c x s = (Inr (), s') \<Longrightarrow> find_row key (key x) (rows s) = Some old \<Longrightarrow>
      \<not> slug_taken key prj slug (rows s) (overlay old x) \<and> s' = put (upsert_row key (overlay old x) (rows s)) s"
begin

lemma save_moves:
  assumes tc: "tenant_From c = Inr tc" and x: "ok x" "(org x, prj x) = (tc_OrgID tc, tc_ProjectID tc)"
    and old: "\<And>old. find_row key (key x) (rows s) = Some old \<Longrightarrow> (org old, prj old) = (org x, prj x)"
  shows "blog_moves lib c s (snd (save c x s))"
proof (cases "fst (save c x s)")
  case (Inl e)
  then have "snd (save c x s) = s" using save_failed by (metis prod.collapse)
  then show ?thesis by simp
next
  case (Inr u)
  then have sv: "save c x s = (Inr (), snd (save c x s))" by (metis old.unit.exhaust prod.collapse)
  obtain y where y: "\<not> slug_taken key prj slug (rows s) y" "snd (save c x s) = put (upsert_row key y (rows s)) s"
    "key y = key x" "ok y" "(org y, prj y) = (org x, prj x)"
  proof (cases "find_row key (key x) (rows s)")
    case None
    show ?thesis by (rule that [of x]) (use save_insert [OF sv None] x in simp_all)
  next
    case (Some o')
    show ?thesis
      by (rule that [of "overlay o' x"])
         (use save_update [OF sv Some] old [OF Some] find_row_SomeD [OF Some] x(1) in \<open>simp_all add: overlay\<close>)
  qed
  have "blog_move (tc_OrgID tc, tc_ProjectID tc) s (snd (save c x s))"
    unfolding y(2) using y x(2) old by (intro put_moves) simp_all
  then show ?thesis using blog_moves_table [OF call_scope_tenant [OF tc]] y(2) put_hooks by metis
qed

end

interpretation blog_categories: term_store bc_ID bc_OrgID bc_ProjectID bc_Slug blogcat_ok blogcat_overlay bd_Categories
  "\<lambda>rs s. s\<lparr>bd_Categories := rs\<rparr>" blogcat_Save
proof (unfold_locales, goal_cases)
  case (6 s x t)
  from put_category [OF 6(1-4), of "bd_Hooks s"] show ?case by simp
qed (auto simp: blogcat_overlay_def blogcat_ok_def blogcat_Save_def upsert_row_new split: sum.splits option.splits if_splits)

interpretation blog_tags: term_store tg_ID tg_OrgID tg_ProjectID tg_Slug tag_ok tag_overlay bd_Tags
  "\<lambda>rs s. s\<lparr>bd_Tags := rs\<rparr>" tag_Save
proof (unfold_locales, goal_cases)
  case (6 s x t)
  from put_tag [OF 6(1-4), of "bd_Hooks s"] show ?case by simp
qed (auto simp: tag_overlay_def tag_ok_def tag_Save_def upsert_row_new split: sum.splits option.splits if_splits)

lemma blogcats_Create_moves:
  assumes "i \<notin> bc_ID ` set (bd_Categories s)"
  shows "blog_moves lib c s (snd (blogcats_Create i now c name slug s))"
proof (cases "tenant_From c")
  case (Inr tc)
  show ?thesis
  proof (cases "blogcat_New i now (tc_OrgID tc) (tc_ProjectID tc) name slug")
    case (Inr x)
    note x = blogcat_New_Inr [OF Inr]
    have "find_row bc_ID (bc_ID x) (bd_Categories s) = None" using assms x(1) by (simp add: find_row_fresh)
    then have "blog_moves lib c s (snd (blogcat_Save c x s))" using x by (intro blog_categories.save_moves [OF \<open>tenant_From c = Inr tc\<close>]) simp_all
    moreover have "snd (blogcats_Create i now c name slug s) = snd (blogcat_Save c x s)"
      unfolding blogcats_Create_def \<open>tenant_From c = Inr tc\<close> Inr sum.case by (simp split: prod.split sum.split)
    ultimately show ?thesis by simp
  qed (unfold blogcats_Create_def Inr, simp)
qed (unfold blogcats_Create_def, simp)

lemma tags_Create_moves:
  assumes "i \<notin> tg_ID ` set (bd_Tags s)"
  shows "blog_moves lib c s (snd (tags_Create i now c name slug s))"
proof (cases "tenant_From c")
  case (Inr tc)
  show ?thesis
  proof (cases "tag_New i now (tc_OrgID tc) (tc_ProjectID tc) name slug")
    case (Inr x)
    note x = tag_New_Inr [OF Inr]
    have "find_row tg_ID (tg_ID x) (bd_Tags s) = None" using assms x(1) by (simp add: find_row_fresh)
    then have "blog_moves lib c s (snd (tag_Save c x s))" using x by (intro blog_tags.save_moves [OF \<open>tenant_From c = Inr tc\<close>]) simp_all
    moreover have "snd (tags_Create i now c name slug s) = snd (tag_Save c x s)"
      unfolding tags_Create_def \<open>tenant_From c = Inr tc\<close> Inr sum.case by (simp split: prod.split sum.split)
    ultimately show ?thesis by simp
  qed (unfold tags_Create_def Inr, simp)
qed (unfold tags_Create_def, simp)

lemma blogcats_ByID_Inr:
  assumes "blogcats_ByID c i s = Inr x"
  obtains tc where "tenant_From c = Inr tc" "x \<in> set (bd_Categories s)" "bc_ID x = i" "bc_scope x = (tc_OrgID tc, tc_ProjectID tc)"
proof -
  obtain tc where tc: "tenant_From c = Inr tc" using assms by (auto simp: blogcats_ByID_def split: sum.splits)
  have "blogcat_ByID c i s = Inr x" "bc_scope x = (tc_OrgID tc, tc_ProjectID tc)"
    using assms unfolding blogcats_ByID_def tc sum.case by (auto split: sum.splits if_splits)
  moreover have "x \<in> set (bd_Categories s) \<and> bc_ID x = i"
    using calculation(1) unfolding blogcat_ByID_def tc sum.case by (auto simp: find_Some_iff split: option.splits)
  ultimately show ?thesis using that tc by blast
qed

lemma tags_ByID_Inr:
  assumes "tags_ByID c i s = Inr x"
  obtains tc where "tenant_From c = Inr tc" "x \<in> set (bd_Tags s)" "tg_ID x = i" "tg_scope x = (tc_OrgID tc, tc_ProjectID tc)"
proof -
  obtain tc where tc: "tenant_From c = Inr tc" using assms by (auto simp: tags_ByID_def split: sum.splits)
  have "tag_ByID c i s = Inr x" "tg_scope x = (tc_OrgID tc, tc_ProjectID tc)"
    using assms unfolding tags_ByID_def tc sum.case by (auto split: sum.splits if_splits)
  moreover have "x \<in> set (bd_Tags s) \<and> tg_ID x = i"
    using calculation(1) unfolding tag_ByID_def tc sum.case by (auto simp: tag_queryOne_def find_Some_iff split: option.splits)
  ultimately show ?thesis using that tc by blast
qed

lemma blogcats_Rename_moves:
  assumes inv: "blog_inv s"
  shows "blog_moves lib c s (snd (blogcats_Rename now c i name s))"
proof (cases "blogcats_ByID c i s")
  case (Inr x)
  note l = Inr
  obtain tc where x: "tenant_From c = Inr tc" "x \<in> set (bd_Categories s)" "bc_ID x = i" "bc_scope x = (tc_OrgID tc, tc_ProjectID tc)"
    by (rule blogcats_ByID_Inr [OF l])
  note t = table_okD [OF blog_invD(1) [OF inv]]
  show ?thesis
  proof (cases "blogcat_Rename now name x")
    case (Inr y)
    then have y: "bc_ID y = i" "bc_scope y = bc_scope x" "blogcat_ok y"
      using blogcat_checkName_Inr t(3) [OF x(2)] x(3) by (auto simp: blogcat_Rename_def blogcat_ok_def split: sum.splits)
    have "find_row bc_ID i (bd_Categories s) = Some x" using x(2,3) by (simp add: find_row_Some_iff [OF t(1)])
    then have "blog_moves lib c s (snd (blogcat_Save c y s))"
      using x(4) y by (intro blog_categories.save_moves [OF x(1)]) simp_all
    moreover have "snd (blogcats_Rename now c i name s) = snd (blogcat_Save c y s)"
      unfolding blogcats_Rename_def l Inr sum.case by (simp split: prod.split sum.split)
    ultimately show ?thesis by simp
  qed (unfold blogcats_Rename_def l, simp)
qed (unfold blogcats_Rename_def, simp)

lemma tags_Rename_moves:
  assumes inv: "blog_inv s"
  shows "blog_moves lib c s (snd (tags_Rename now c i name s))"
proof (cases "tags_ByID c i s")
  case (Inr x)
  note l = Inr
  obtain tc where x: "tenant_From c = Inr tc" "x \<in> set (bd_Tags s)" "tg_ID x = i" "tg_scope x = (tc_OrgID tc, tc_ProjectID tc)"
    by (rule tags_ByID_Inr [OF l])
  note t = table_okD [OF blog_invD(2) [OF inv]]
  show ?thesis
  proof (cases "tag_Rename now name x")
    case (Inr y)
    then have y: "tg_ID y = i" "tg_scope y = tg_scope x" "tag_ok y"
      using tag_checkName_Inr t(3) [OF x(2)] x(3) by (auto simp: tag_Rename_def tag_ok_def split: sum.splits)
    have "find_row tg_ID i (bd_Tags s) = Some x" using x(2,3) by (simp add: find_row_Some_iff [OF t(1)])
    then have "blog_moves lib c s (snd (tag_Save c y s))"
      using x(4) y by (intro blog_tags.save_moves [OF x(1)]) simp_all
    moreover have "snd (tags_Rename now c i name s) = snd (tag_Save c y s)"
      unfolding tags_Rename_def l Inr sum.case by (simp split: prod.split sum.split)
    ultimately show ?thesis by simp
  qed (unfold tags_Rename_def l, simp)
qed (unfold tags_Rename_def, simp)

text \<open>The web handler ensures tags in the project of the request.\<close>

lemma EnsureByName_moves:
  assumes "i \<notin> tg_ID ` set (bd_Tags s)" "call_scope c = Some (orgID, projectID)"
  shows "blog_moves lib c s (snd (EnsureByName i now c orgID projectID name s))"
proof (cases "tag_New i now orgID projectID name ''''")
  case (Inr x)
  note x = tag_New_Inr [OF Inr]
  obtain tc where tc: "tenant_From c = Inr tc" "orgID = tc_OrgID tc" "projectID = tc_ProjectID tc"
    using assms(2) by (auto simp: call_scope_def split: sum.splits)
  have "find_row tg_ID (tg_ID x) (bd_Tags s) = None" using assms(1) x(1) by (simp add: find_row_fresh)
  then have m: "blog_moves lib c s (snd (tag_Save c x s))" using x tc by (intro blog_tags.save_moves [OF tc(1)]) simp_all
  have "snd (EnsureByName i now c orgID projectID name s) = s \<or>
      snd (EnsureByName i now c orgID projectID name s) = snd (tag_Save c x s)"
    unfolding EnsureByName_def Inr sum.case by (simp split: prod.split sum.split)
  then show ?thesis using m by (elim disjE) simp_all
qed (unfold EnsureByName_def, simp)

lemma blogcats_Delete_moves:
  assumes inv: "blog_inv s"
  shows "blog_moves lib c s (snd (blogcats_Delete c i s))"
proof (cases "blogcats_ByID c i s")
  case (Inr x)
  note l = Inr
  obtain tc where x: "tenant_From c = Inr tc" "x \<in> set (bd_Categories s)" "bc_ID x = i" "bc_scope x = (tc_OrgID tc, tc_ProjectID tc)"
    by (rule blogcats_ByID_Inr [OF l])
  have f: "find_row bc_ID i (bd_Categories s) = Some x"
    using x(2,3) by (simp add: find_row_Some_iff [OF table_okD(1) [OF blog_invD(1) [OF inv]]])
  have "snd (blogcats_Delete c i s) = snd (blogcat_Delete c i s)"
    unfolding blogcats_Delete_def l sum.case by (simp split: prod.split sum.split)
  moreover have "snd (blogcat_Delete c i s) = s \<or> i \<notin> po_CategoryID ` set (bd_Posts s) \<and>
      snd (blogcat_Delete c i s) = s\<lparr>bd_Categories := delete_row bc_ID i (bd_Categories s), bd_Hooks := bd_Hooks s\<rparr>"
    unfolding blogcat_Delete_def x(1) sum.case by (auto simp: list_ex_iff split: option.split)
  ultimately consider "snd (blogcats_Delete c i s) = s" | "i \<notin> po_CategoryID ` set (bd_Posts s)"
    "snd (blogcats_Delete c i s) = s\<lparr>bd_Categories := delete_row bc_ID i (bd_Categories s), bd_Hooks := bd_Hooks s\<rparr>" by metis
  then show ?thesis
  proof cases
    case 2
    show ?thesis unfolding 2(2)
      by (rule blog_moves_table [OF call_scope_tenant [OF x(1)] drop_category [OF f x(4) 2(1)]]) simp
  qed simp
qed (unfold blogcats_Delete_def, simp)

lemma tags_Delete_moves:
  assumes inv: "blog_inv s"
  shows "blog_moves lib c s (snd (tags_Delete c i s))"
proof (cases "tags_ByID c i s")
  case (Inr x)
  note l = Inr
  obtain tc where x: "tenant_From c = Inr tc" "x \<in> set (bd_Tags s)" "tg_ID x = i" "tg_scope x = (tc_OrgID tc, tc_ProjectID tc)"
    by (rule tags_ByID_Inr [OF l])
  have f: "find_row tg_ID i (bd_Tags s) = Some x"
    using x(2,3) by (simp add: find_row_Some_iff [OF table_okD(1) [OF blog_invD(2) [OF inv]]])
  have "snd (tags_Delete c i s) = snd (tag_Delete c i s)"
    unfolding tags_Delete_def l sum.case by (simp split: prod.split sum.split)
  moreover have "snd (tag_Delete c i s) = s \<or> i \<notin> pt_TagID ` set (bd_Links s) \<and>
      snd (tag_Delete c i s) = s\<lparr>bd_Tags := delete_row tg_ID i (bd_Tags s), bd_Hooks := bd_Hooks s\<rparr>"
    unfolding tag_Delete_def x(1) sum.case by (auto simp: list_ex_iff split: option.split)
  ultimately consider "snd (tags_Delete c i s) = s" | "i \<notin> pt_TagID ` set (bd_Links s)"
    "snd (tags_Delete c i s) = s\<lparr>bd_Tags := delete_row tg_ID i (bd_Tags s), bd_Hooks := bd_Hooks s\<rparr>" by metis
  then show ?thesis
  proof cases
    case 2
    show ?thesis unfolding 2(2)
      by (rule blog_moves_table [OF call_scope_tenant [OF x(1)] drop_tag [OF f x(4) 2(1)]]) simp
  qed simp
qed (unfold tags_Delete_def, simp)

end
