(* ===== verification/PostCalls.thy ===== *)
theory PostCalls
  imports BlogCalls
begin

text \<open>The writes and the transitions of posts as moves, and the states calls lead to.\<close>

section \<open>The store\<close>

lemma toPost_sel [simp]:
  "po_ID (toPost r ts) = po_ID r" "po_OrgID (toPost r ts) = po_OrgID r" "po_ProjectID (toPost r ts) = po_ProjectID r"
  "po_CategoryID (toPost r ts) = po_CategoryID r" "po_Title (toPost r ts) = po_Title r" "po_Slug (toPost r ts) = po_Slug r"
  "po_BodyMarkdown (toPost r ts) = po_BodyMarkdown r" "po_Status (toPost r ts) = po_Status r"
  "po_FirstPublishedAt (toPost r ts) = po_FirstPublishedAt r" "po_CreatedAt (toPost r ts) = po_CreatedAt r"
  "po_UpdatedAt (toPost r ts) = po_UpdatedAt r" "po_Version (toPost r ts) = po_Version r" "po_TagIDs (toPost r ts) = ts"
  by (simp_all add: toPost_def PostRow.defs Post.defs)

lemma truncate_sel [simp]:
  "po_ID (PostRow.truncate r) = po_ID r" "po_OrgID (PostRow.truncate r) = po_OrgID r" "po_ProjectID (PostRow.truncate r) = po_ProjectID r"
  "po_CategoryID (PostRow.truncate r) = po_CategoryID r" "po_Title (PostRow.truncate r) = po_Title r" "po_Slug (PostRow.truncate r) = po_Slug r"
  "po_BodyMarkdown (PostRow.truncate r) = po_BodyMarkdown r" "po_Status (PostRow.truncate r) = po_Status r"
  "po_FirstPublishedAt (PostRow.truncate r) = po_FirstPublishedAt r" "po_CreatedAt (PostRow.truncate r) = po_CreatedAt r"
  "po_UpdatedAt (PostRow.truncate r) = po_UpdatedAt r" "po_Version (PostRow.truncate r) = po_Version r"
  by (simp_all add: PostRow.defs)

lemma find_row_key: "find_row key k rows \<noteq> None \<Longrightarrow> k \<in> key ` set rows"
  using find_row_fresh by fastforce

lemma insert_links_Inr:
  "insert_links pid orgID ts s = (Inr u, s') \<Longrightarrow> s' = s\<lparr>bd_Links := bd_Links s @ post_links pid orgID ts\<rparr> \<and> distinct ts \<and>
     set ts \<subseteq> tg_ID ` set (bd_Tags s) \<and> set ts \<inter> pt_TagID ` {l \<in> set (bd_Links s). pt_PostID l = pid} = {}"
proof (induction ts arbitrary: s)
  case (Cons t ts)
  let ?l = "\<lparr>pt_PostID = pid, pt_TagID = t, pt_OrgID = orgID\<rparr>"
  have n: "\<not> list_ex (\<lambda>l. pt_PostID l = pid \<and> pt_TagID l = t) (bd_Links s)" "find_row tg_ID t (bd_Tags s) \<noteq> None"
    and r: "insert_links pid orgID ts (s\<lparr>bd_Links := bd_Links s @ [?l]\<rparr>) = (Inr u, s')"
    using Cons.prems by (auto split: if_splits)
  have t: "t \<in> tg_ID ` set (bd_Tags s)" using n(2) by (rule find_row_key)
  note h = Cons.IH [OF r]
  have "t \<in> pt_TagID ` {l \<in> set (bd_Links s @ [?l]). pt_PostID l = pid}" by (rule image_eqI [of _ _ ?l]) simp_all
  then have "t \<notin> set ts" using h by auto
  moreover have "set ts \<inter> pt_TagID ` {l \<in> set (bd_Links s). pt_PostID l = pid} = {}" using h by auto
  moreover have "t \<notin> pt_TagID ` {l \<in> set (bd_Links s). pt_PostID l = pid}" using n(1) by (auto simp: list_ex_iff)
  ultimately show ?case using h t by (auto simp: post_links_def)
qed (simp add: post_links_def)

lemma replaceLinks_Inr:
  assumes "replaceLinks tc p s = (Inr u, s')"
  shows "s' = s\<lparr>bd_Links := other_links (po_ID p) (tc_OrgID tc) (bd_Links s) @ post_links (po_ID p) (tc_OrgID tc) (po_TagIDs p)\<rparr>"
    "distinct (po_TagIDs p)" "set (po_TagIDs p) \<subseteq> tg_ID ` set (bd_Tags s)"
proof -
  have "insert_links (po_ID p) (tc_OrgID tc) (po_TagIDs p) (clear_links tc (po_ID p) s) = (Inr u, s')"
    using assms by (simp add: replaceLinks_def)
  from insert_links_Inr [OF this]
  show "s' = s\<lparr>bd_Links := other_links (po_ID p) (tc_OrgID tc) (bd_Links s) @ post_links (po_ID p) (tc_OrgID tc) (po_TagIDs p)\<rparr>"
    "distinct (po_TagIDs p)" "set (po_TagIDs p) \<subseteq> tg_ID ` set (bd_Tags s)"
    by (simp_all add: clear_links_def other_links_def)
qed

text \<open>The row a save of \<open>p\<close> leaves.\<close>

definition saved_row :: "blog_db \<Rightarrow> Post \<Rightarrow> PostRow" where
  "saved_row s p = (case find_row po_ID (po_ID p) (bd_Posts s) of None \<Rightarrow> PostRow.truncate p | Some old \<Rightarrow> post_overlay old p)"

definition post_written :: "Tenant \<Rightarrow> Post \<Rightarrow> blog_db \<Rightarrow> blog_db" where
  "post_written tc p s = s\<lparr>bd_Posts := upsert_row po_ID (saved_row s p) (bd_Posts s),
     bd_Links := other_links (po_ID p) (tc_OrgID tc) (bd_Links s) @ post_links (po_ID p) (tc_OrgID tc) (po_TagIDs p)\<rparr>"

lemma post_save_Inr:
  assumes "post_save tc p ifVersion s = (Inr u, s')"
  shows "s' = post_written tc p s" "\<not> slug_taken po_ID po_ProjectID po_Slug (bd_Posts s) (saved_row s p)"
    "po_CategoryID (saved_row s p) \<in> bc_ID ` set (bd_Categories s)" "distinct (po_TagIDs p)" "set (po_TagIDs p) \<subseteq> tg_ID ` set (bd_Tags s)"
    "find_row po_ID (po_ID p) (bd_Posts s) = Some old \<Longrightarrow> po_OrgID old = tc_OrgID tc \<and> versionGuard ifVersion (po_Version old)"
proof -
  have *: "s' = post_written tc p s \<and> \<not> slug_taken po_ID po_ProjectID po_Slug (bd_Posts s) (saved_row s p) \<and>
      po_CategoryID (saved_row s p) \<in> bc_ID ` set (bd_Categories s) \<and> distinct (po_TagIDs p) \<and> set (po_TagIDs p) \<subseteq> tg_ID ` set (bd_Tags s) \<and>
      (\<forall>old. find_row po_ID (po_ID p) (bd_Posts s) = Some old \<longrightarrow> po_OrgID old = tc_OrgID tc \<and> versionGuard ifVersion (po_Version old))"
  proof (cases "find_row po_ID (po_ID p) (bd_Posts s)")
    case None
    have a: "saved_row s p = PostRow.truncate p" by (simp add: saved_row_def None)
    have u: "upsert_row po_ID (PostRow.truncate p) (bd_Posts s) = bd_Posts s @ [PostRow.truncate p]"
      by (rule upsert_row_new) (simp add: None)
    have c: "\<not> slug_taken po_ID po_ProjectID po_Slug (bd_Posts s) (PostRow.truncate p)"
      "find_row bc_ID (po_CategoryID p) (bd_Categories s) \<noteq> None"
      "replaceLinks tc p (s\<lparr>bd_Posts := bd_Posts s @ [PostRow.truncate p]\<rparr>) = (Inr u, s')"
      using assms unfolding post_save_def None option.case Let_def by (auto split: if_splits)
    have "po_CategoryID p \<in> bc_ID ` set (bd_Categories s)" using c(2) by (rule find_row_key)
    then show ?thesis using replaceLinks_Inr [OF c(3)] c(1) by (simp add: a u post_written_def None)
  next
    case (Some old)
    have a: "saved_row s p = post_overlay old p" by (simp add: saved_row_def Some)
    have c: "po_OrgID old = tc_OrgID tc" "versionGuard ifVersion (po_Version old)"
      "\<not> slug_taken po_ID po_ProjectID po_Slug (bd_Posts s) (post_overlay old p)"
      "find_row bc_ID (po_CategoryID (post_overlay old p)) (bd_Categories s) \<noteq> None"
      "replaceLinks tc p (s\<lparr>bd_Posts := upsert_row po_ID (post_overlay old p) (bd_Posts s)\<rparr>) = (Inr u, s')"
      using assms unfolding post_save_def Some option.case Let_def by (auto split: if_splits)
    have "po_CategoryID (post_overlay old p) \<in> bc_ID ` set (bd_Categories s)" using c(4) by (rule find_row_key)
    then show ?thesis using replaceLinks_Inr [OF c(5)] c(1-3) by (simp add: a post_written_def Some)
  qed
  then show "s' = post_written tc p s" "\<not> slug_taken po_ID po_ProjectID po_Slug (bd_Posts s) (saved_row s p)"
    "po_CategoryID (saved_row s p) \<in> bc_ID ` set (bd_Categories s)" "distinct (po_TagIDs p)" "set (po_TagIDs p) \<subseteq> tg_ID ` set (bd_Tags s)"
    "find_row po_ID (po_ID p) (bd_Posts s) = Some old \<Longrightarrow> po_OrgID old = tc_OrgID tc \<and> versionGuard ifVersion (po_Version old)"
    by blast+
qed

lemma post_Save_Inr: "tenant_From c = Inr tc \<Longrightarrow> post_Save c p v s = (Inr u, s') \<Longrightarrow> post_save tc p v s = (Inr u, s')"
  unfolding post_Save_def by (simp only: sum.case) (auto simp: endTx_def split: if_splits)

lemma post_Save_Inl: "\<not> ctx_uow c \<Longrightarrow> post_Save c p v s = (Inl e, s') \<Longrightarrow> s' = s"
  unfolding post_Save_def by (auto simp: endTx_def split: sum.splits dest: atomically_Inl)

lemma post_written_move:
  assumes sv: "post_save tc p v s = (Inr u, s')" and r: "post_ok (saved_row s p)" "po_scope (saved_row s p) = (tc_OrgID tc, tc_ProjectID tc)"
    and old: "case find_row po_ID (po_ID p) (bd_Posts s) of None \<Rightarrow> po_Version p = 1 | Some old \<Rightarrow> post_evolves old (saved_row s p)"
  shows "blog_move (tc_OrgID tc, tc_ProjectID tc) s (post_written tc p s\<lparr>bd_Hooks := h\<rparr>)"
proof -
  note g = post_save_Inr [OF sv]
  have i: "po_ID (saved_row s p) = po_ID p"
    by (auto simp: saved_row_def post_overlay_def split: option.split dest: find_row_SomeD)
  have "case find_row po_ID (po_ID (saved_row s p)) (bd_Posts s) of None \<Rightarrow> po_Version (saved_row s p) = 1
      | Some old \<Rightarrow> post_evolves old (saved_row s p)"
    using old unfolding i by (auto simp: saved_row_def split: option.splits)
  from put_post [OF g(2) r this g(3,4,5), of h] show ?thesis by (simp add: post_written_def i)
qed

section \<open>Loading\<close>

lemma posts_locate_Inr:
  assumes "posts_locate op c i s = Inr (tc, p)"
  obtains r where "tenant_From c = Inr tc" "r \<in> set (bd_Posts s)" "po_ID r = i" "po_OrgID r = tc_OrgID tc" "p = toPost r (loadLinks tc i s)"
proof -
  obtain tc' where tc: "tenant_From c = Inr tc'" using assms by (auto simp: posts_locate_def split: sum.splits)
  have l: "post_ByID c i s = Inr p" "tc' = tc"
    using assms unfolding posts_locate_def tc sum.case by (auto split: sum.splits if_splits)
  obtain r where "find (\<lambda>r. po_ID r = i \<and> po_OrgID r = tc_OrgID tc') (bd_Posts s) = Some r" "p = toPost r (loadLinks tc' (po_ID r) s)"
    using l(1) unfolding post_ByID_def tc sum.case by (auto split: option.splits)
  then show ?thesis using that [of r] tc l(2) by (auto simp: find_Some_iff)
qed

lemma posts_load_Inr:
  assumes "posts_load op c i s = Inr p"
  obtains tc r where "tenant_From c = Inr tc" "r \<in> set (bd_Posts s)" "po_ID r = i" "po_scope r = (tc_OrgID tc, tc_ProjectID tc)"
    "p = toPost r (loadLinks tc i s)"
proof -
  obtain tc where l: "posts_locate op c i s = Inr (tc, p)" "po_ProjectID p = tc_ProjectID tc"
    using assms by (auto simp: posts_load_def split: sum.splits if_splits)
  obtain r where "tenant_From c = Inr tc" "r \<in> set (bd_Posts s)" "po_ID r = i" "po_OrgID r = tc_OrgID tc" "p = toPost r (loadLinks tc i s)"
    by (rule posts_locate_Inr [OF l(1)])
  then show ?thesis using that [of tc r] l(2) by simp
qed

lemma posts_load_iff:
  assumes inv: "blog_inv s" and tc: "tenant_From c = Inr tc" and r: "r \<in> set (bd_Posts s)" "po_scope r = (tc_OrgID tc, tc_ProjectID tc)"
  shows "posts_load op c (po_ID r) s = Inr (toPost r (loadLinks tc (po_ID r) s))"
proof -
  note k = table_okD(1) [OF blog_invD(3) [OF inv]]
  have "find (\<lambda>q. po_ID q = po_ID r \<and> po_OrgID q = tc_OrgID tc) (bd_Posts s) = Some r"
    unfolding find_keyed [OF k] using r by (simp add: find_row_Some_iff [OF k] split: option.split)
       (metis find_row_Some_iff [OF k] option.distinct(1) option.inject)
  then show ?thesis using r(2) unfolding posts_load_def posts_locate_def post_ByID_def tc sum.case option.case by simp
qed

section \<open>Edits\<close>

definition post_edit :: "PostRow \<Rightarrow> Post \<Rightarrow> bool" where
  "post_edit r p \<longleftrightarrow> po_ID p = po_ID r \<and> po_scope p = po_scope r \<and> po_CreatedAt p = po_CreatedAt r \<and> po_Version p = po_Version r \<and>
     post_fields_ok p \<and> post_dates_ok p \<and> (\<forall>x. po_FirstPublishedAt r = Some x \<longrightarrow> po_FirstPublishedAt p = Some x)"

lemma post_validate_ok:
  assumes "post_validate title slug body cat = Inr (t, sl)"
  shows "t \<noteq> []" "RuneCountInString t \<le> MaxTitleRunes" "slug_ok sl" "RuneCountInString sl \<le> MaxSlugRunes" "length body \<le> MaxBodyBytes"
proof -
  define a where "a = TrimSpace title"
  define b where "b = slugify (if TrimSpace slug = '''' then a else slug)"
  have "post_validate title slug body cat =
     (if a = '''' then Inl (EPost (InvalidTitleError ''empty''))
      else if RuneCountInString a > MaxTitleRunes then Inl (EPost (InvalidTitleError ''over 200 characters''))
      else if b = '''' then Inl (EPost (InvalidSlugError ''derives to empty''))
      else if RuneCountInString b > MaxSlugRunes then Inl (EPost (InvalidSlugError ''over 200 characters''))
      else if length body > MaxBodyBytes then Inl (EPost (InvalidBodyError ''over 64 KiB''))
      else if cat = uuid_Nil then Inl (EPost CategoryRequiredError) else Inr (a, b))"
    by (simp only: post_validate_def Let_def a_def b_def)
  then have ab: "a \<noteq> []" "RuneCountInString a \<le> MaxTitleRunes" "b \<noteq> []" "RuneCountInString b \<le> MaxSlugRunes"
      "length body \<le> MaxBodyBytes" "t = a" "sl = b"
    using assms by (simp_all split: if_split_asm)
  have "slug_ok b" using ab(3) slugify_nonempty unfolding b_def by blast
  then show "t \<noteq> []" "RuneCountInString t \<le> MaxTitleRunes" "slug_ok sl" "RuneCountInString sl \<le> MaxSlugRunes" "length body \<le> MaxBodyBytes"
    using ab by simp_all
qed

lemma post_edit_same: "post_ok r \<Longrightarrow> post_edit r (toPost r ts)"
  by (simp add: post_edit_def post_ok_def post_fields_ok_def post_dates_ok_def)

lemma post_Update_edit:
  assumes "post_edit r p0" "post_Update now title slug body cat p0 = Inr p"
  shows "post_edit r p"
proof -
  obtain t sl where v: "post_validate title slug body cat = Inr (t, sl)" using assms(2) by (auto simp: post_Update_def split: sum.splits)
  note ok = post_validate_ok [OF v]
  have "p = p0\<lparr>po_Title := t, po_Slug := sl, po_BodyMarkdown := body, po_CategoryID := cat, po_UpdatedAt := now\<rparr>"
    using assms(2) by (simp add: post_Update_def v)
  then show ?thesis using assms(1) ok by (simp add: post_edit_def post_fields_ok_def post_dates_ok_def)
qed

lemma post_SetTags_edit: "post_edit r p \<Longrightarrow> post_edit r (post_SetTags now ids p)"
  by (simp add: post_edit_def post_SetTags_def post_fields_ok_def post_dates_ok_def)

lemma post_apply_edit: "post_edit r p \<Longrightarrow> post_edit r (fst (post_apply now target p))"
  by (auto simp: post_edit_def post_apply_def post_Publish_def post_Unpublish_def post_fields_ok_def post_dates_ok_def split: option.splits)

text \<open>A save of an edited post replaces its row by the edit, one version on.\<close>

lemma edit_saved:
  assumes inv: "blog_inv s" and tc: "tenant_From c = Inr tc" and r: "r \<in> set (bd_Posts s)" "po_scope r = (tc_OrgID tc, tc_ProjectID tc)"
    and e: "post_edit r p" and sv: "post_Save c p v s = (Inr u, s')"
  shows "s' = post_written tc p s" "saved_row s p = (PostRow.truncate p)\<lparr>po_Version := po_Version r + 1\<rparr>"
    "versionGuard v (po_Version r)" "blog_move (tc_OrgID tc, tc_ProjectID tc) s (s'\<lparr>bd_Hooks := h\<rparr>)"
proof -
  note t = table_okD [OF blog_invD(3) [OF inv]]
  have ids: "po_ID p = po_ID r" "po_OrgID p = po_OrgID r" "po_ProjectID p = po_ProjectID r" "po_CreatedAt p = po_CreatedAt r"
    using e unfolding post_edit_def by simp_all
  have f: "find_row po_ID (po_ID p) (bd_Posts s) = Some r" using r(1) ids(1) by (simp add: find_row_Some_iff [OF t(1)])
  have sv': "post_save tc p v s = (Inr u, s')" by (rule post_Save_Inr [OF tc sv])
  show w: "s' = post_written tc p s" by (rule post_save_Inr(1) [OF sv'])
  show g: "versionGuard v (po_Version r)" using post_save_Inr(6) [OF sv' f] by blast
  have a: "saved_row s p = post_overlay r p" by (simp add: saved_row_def f)
  show row: "saved_row s p = (PostRow.truncate p)\<lparr>po_Version := po_Version r + 1\<rparr>"
    unfolding a using ids by (cases r) (simp add: post_overlay_def PostRow.defs)
  have "post_ok (saved_row s p)" using e t(3) [OF r(1)] unfolding row
    by (simp add: post_ok_def post_edit_def post_fields_ok_def post_dates_ok_def)
  moreover have "po_scope (saved_row s p) = (tc_OrgID tc, tc_ProjectID tc)" using ids r(2) unfolding row by simp
  moreover have "post_evolves r (saved_row s p)" using e unfolding row post_evolves_def post_edit_def by simp
  ultimately show "blog_move (tc_OrgID tc, tc_ProjectID tc) s (s'\<lparr>bd_Hooks := h\<rparr>)"
    unfolding w by (intro post_written_move [OF sv']) (simp_all add: f)
qed

lemma posts_persist_snd: "snd (posts_persist op c p v s) = snd (post_Save c p v s)"
  by (simp add: posts_persist_def split: prod.split sum.split)

lemma posts_persist_Inr: "posts_persist op c p v s = (Inr q, s') \<longleftrightarrow>
    post_Save c p v s = (Inr (), s') \<and> q = p\<lparr>po_Version := po_Version p + 1\<rparr>"
  by (auto simp: posts_persist_def split: prod.splits sum.splits)

lemma posts_persist_moves:
  assumes inv: "blog_inv s" and c: "\<not> ctx_uow c" "tenant_From c = Inr tc"
    and r: "r \<in> set (bd_Posts s)" "po_scope r = (tc_OrgID tc, tc_ProjectID tc)" "post_edit r p"
  shows "blog_moves lib c s (snd (posts_persist op c p v s))"
proof (cases "fst (post_Save c p v s)")
  case (Inl e)
  then have "snd (post_Save c p v s) = s" using post_Save_Inl [OF c(1)] by (metis prod.collapse)
  then show ?thesis by (simp add: posts_persist_snd)
next
  case (Inr u)
  then have sv: "post_Save c p v s = (Inr u, snd (post_Save c p v s))" by (metis prod.collapse)
  note e = edit_saved [OF inv c(2) r sv]
  have h: "bd_Hooks (snd (post_Save c p v s)) = bd_Hooks s" unfolding e(1) by (simp add: post_written_def)
  have "blog_move (tc_OrgID tc, tc_ProjectID tc) s (snd (post_Save c p v s))"
    using e(4) [of "bd_Hooks (snd (post_Save c p v s))"] by simp
  then show ?thesis using blog_moves_table [OF call_scope_tenant [OF c(2)] _ h] by (simp add: posts_persist_snd)
qed

lemma posts_Update_moves:
  assumes inv: "blog_inv s" and c: "\<not> ctx_uow c"
  shows "blog_moves lib c s (snd (posts_Update now c i title slug body cat v s))"
proof (cases "posts_load ''blog.Update'' c i s")
  case (Inr p0)
  note l = Inr
  obtain tc r where r: "tenant_From c = Inr tc" "r \<in> set (bd_Posts s)" "po_ID r = i" "po_scope r = (tc_OrgID tc, tc_ProjectID tc)"
    "p0 = toPost r (loadLinks tc i s)" by (rule posts_load_Inr [OF l])
  have e: "post_edit r p0" unfolding r(5) by (rule post_edit_same [OF table_okD(3) [OF blog_invD(3) [OF inv] r(2)]])
  show ?thesis
  proof (cases "post_Update now title slug body cat p0")
    case (Inr p)
    show ?thesis unfolding posts_Update_def l Inr sum.case
      by (rule posts_persist_moves [OF inv c r(1,2,4) post_Update_edit [OF e Inr]])
  qed (unfold posts_Update_def l, simp)
qed (unfold posts_Update_def, simp)

lemma posts_UpdateWithTags_moves:
  assumes inv: "blog_inv s" and c: "\<not> ctx_uow c"
  shows "blog_moves lib c s (snd (posts_UpdateWithTags now now' c i title slug body cat ids v s))"
proof (cases "posts_load ''blog.UpdateWithTags'' c i s")
  case (Inr p0)
  note l = Inr
  obtain tc r where r: "tenant_From c = Inr tc" "r \<in> set (bd_Posts s)" "po_ID r = i" "po_scope r = (tc_OrgID tc, tc_ProjectID tc)"
    "p0 = toPost r (loadLinks tc i s)" by (rule posts_load_Inr [OF l])
  have e: "post_edit r p0" unfolding r(5) by (rule post_edit_same [OF table_okD(3) [OF blog_invD(3) [OF inv] r(2)]])
  show ?thesis
  proof (cases "post_Update now title slug body cat p0")
    case (Inr p)
    show ?thesis unfolding posts_UpdateWithTags_def l Inr sum.case
      by (rule posts_persist_moves [OF inv c r(1,2,4) post_SetTags_edit [OF post_Update_edit [OF e Inr]]])
  qed (unfold posts_UpdateWithTags_def l, simp)
qed (unfold posts_UpdateWithTags_def, simp)

lemma posts_SetTags_moves:
  assumes inv: "blog_inv s" and c: "\<not> ctx_uow c"
  shows "blog_moves lib c s (snd (posts_SetTags now c i ids s))"
proof (cases "posts_load ''blog.SetTags'' c i s")
  case (Inr p0)
  obtain tc r where r: "tenant_From c = Inr tc" "r \<in> set (bd_Posts s)" "po_ID r = i" "po_scope r = (tc_OrgID tc, tc_ProjectID tc)"
    "p0 = toPost r (loadLinks tc i s)" by (rule posts_load_Inr [OF Inr])
  have e: "post_edit r p0" unfolding r(5) by (rule post_edit_same [OF table_okD(3) [OF blog_invD(3) [OF inv] r(2)]])
  show ?thesis unfolding posts_SetTags_def Inr sum.case
    by (rule posts_persist_moves [OF inv c r(1,2,4) post_SetTags_edit [OF e]])
qed (unfold posts_SetTags_def, simp)

section \<open>New posts\<close>

lemma post_New_Inr:
  assumes "post_New i now orgID projectID cat title slug body = Inr p"
  shows "po_ID p = i" "po_scope p = (orgID, projectID)" "post_ok (PostRow.truncate p)" "po_Version p = 1" "po_TagIDs p = []"
    "po_Status p = StatusDraft" "po_FirstPublishedAt p = None"
proof -
  obtain t sl where v: "post_validate title slug body cat = Inr (t, sl)" using assms by (auto simp: post_New_def split: sum.splits)
  note ok = post_validate_ok [OF v]
  have p: "p = \<lparr>po_ID = i, po_OrgID = orgID, po_ProjectID = projectID, po_CategoryID = cat, po_Title = t, po_Slug = sl,
      po_BodyMarkdown = body, po_Status = StatusDraft, po_FirstPublishedAt = None, po_CreatedAt = now, po_UpdatedAt = now,
      po_Version = 1, po_TagIDs = []\<rparr>"
    using assms unfolding post_New_def v by simp
  show "post_ok (PostRow.truncate p)" using ok unfolding p by (simp add: post_ok_def post_fields_ok_def post_dates_ok_def)
  show "po_ID p = i" "po_scope p = (orgID, projectID)" "po_Version p = 1" "po_TagIDs p = []"
    "po_Status p = StatusDraft" "po_FirstPublishedAt p = None" by (simp_all add: p)
qed

lemma posts_Create_moves:
  assumes i: "i \<notin> po_ID ` set (bd_Posts s)" and c: "\<not> ctx_uow c"
  shows "blog_moves lib c s (snd (posts_Create i now c cat title slug body s))"
proof (cases "tenant_From c")
  case (Inr tc)
  note tc = Inr
  show ?thesis
  proof (cases "post_New i now (tc_OrgID tc) (tc_ProjectID tc) cat title slug body")
    case (Inr p)
    note p = post_New_Inr [OF Inr]
    have snd: "snd (posts_Create i now c cat title slug body s) = snd (post_Save c p 0 s)"
      unfolding posts_Create_def tc Inr sum.case by (simp split: prod.split sum.split)
    show ?thesis
    proof (cases "fst (post_Save c p 0 s)")
      case (Inl e)
      then have "snd (post_Save c p 0 s) = s" using post_Save_Inl [OF c] by (metis prod.collapse)
      then show ?thesis by (simp add: snd)
    next
      case (Inr u)
      then have "post_Save c p 0 s = (Inr u, snd (post_Save c p 0 s))" by (metis prod.collapse)
      note sv = post_Save_Inr [OF tc this]
      have f: "find_row po_ID (po_ID p) (bd_Posts s) = None" using i p(1) by (simp add: find_row_fresh)
      have a: "saved_row s p = PostRow.truncate p" by (simp add: saved_row_def f)
      have "blog_move (tc_OrgID tc, tc_ProjectID tc) s (post_written tc p s\<lparr>bd_Hooks := bd_Hooks s\<rparr>)"
        using p(2,3,4) by (intro post_written_move [OF sv]) (simp_all add: a f)
      then have "blog_move (tc_OrgID tc, tc_ProjectID tc) s (post_written tc p s)" by (simp add: post_written_def)
      then show ?thesis
        unfolding snd post_save_Inr(1) [OF sv] by (rule blog_moves_table [OF call_scope_tenant [OF tc]]) (simp add: post_written_def)
    qed
  qed (unfold posts_Create_def tc, simp)
qed (unfold posts_Create_def, simp)

section \<open>Transitions\<close>

lemma posts_enqueue_Inr: "posts_enqueue be fe op c t data s = (Inr u, s') \<longleftrightarrow>
    (\<exists>h. hooks_Enqueue (be_lib be) (be_slugOf be) fe c t data (bd_Hooks s) = (Inr (), h) \<and> s' = s\<lparr>bd_Hooks := h\<rparr>)"
  by (auto simp: posts_enqueue_def split: prod.splits sum.splits)

text \<open>What a transition that commits did: nothing, or the edit of its post and the event for it.\<close>

lemma transition_in_Inr:
  assumes inv: "blog_inv s" and t: "transition_in be op i v target ae c s = (Inr q, s')"
  obtains (already) tc r where "tenant_From c = Inr tc" "r \<in> set (bd_Posts s)" "po_ID r = i" "po_scope r = (tc_OrgID tc, tc_ProjectID tc)"
      "v = 0 \<or> v = po_Version r" "po_Status r = target" "q = toPost r (loadLinks tc i s)" "s' = s"
    | (changed) tc r p ev h where "tenant_From c = Inr tc" "r \<in> set (bd_Posts s)" "po_ID r = i" "po_scope r = (tc_OrgID tc, tc_ProjectID tc)"
      "v = 0 \<or> v = po_Version r" "po_Status r \<noteq> target" "post_apply (ae_Now ae) target (toPost r (loadLinks tc i s)) = (p, ev)" "post_edit r p"
      "post_Save c p (po_Version r) s = (Inr (), post_written tc p s)" "q = p\<lparr>po_Version := po_Version r + 1\<rparr>"
      "saved_row s p = (PostRow.truncate p)\<lparr>po_Version := po_Version r + 1\<rparr>"
      "hooks_Enqueue (be_lib be) (be_slugOf be) (ae_Fan ae) c ev (post_payload ev q) (bd_Hooks s) = (Inr (), h)"
      "s' = post_written tc p s\<lparr>bd_Hooks := h\<rparr>" "blog_move (tc_OrgID tc, tc_ProjectID tc) s s'"
proof -
  obtain p0 where l: "posts_load op c i s = Inr p0" using t by (auto simp: transition_in_def split: sum.splits)
  obtain tc r where r: "tenant_From c = Inr tc" "r \<in> set (bd_Posts s)" "po_ID r = i" "po_scope r = (tc_OrgID tc, tc_ProjectID tc)"
    "p0 = toPost r (loadLinks tc i s)" by (rule posts_load_Inr [OF l])
  have v: "v = 0 \<or> v = po_Version r" using t unfolding transition_in_def l sum.case r(5) by (auto split: if_splits)
  show ?thesis
  proof (cases "po_Status r = target")
    case True
    then have "q = p0" "s' = s" using t v unfolding transition_in_def l sum.case r(5) by auto
    then show ?thesis using already [OF r(1-4) v True] r(5) by blast
  next
    case False
    obtain p ev where a: "post_apply (ae_Now ae) target p0 = (p, ev)" by fastforce
    have "post_edit r (fst (post_apply (ae_Now ae) target p0))"
      unfolding r(5) by (rule post_apply_edit [OF post_edit_same [OF table_okD(3) [OF blog_invD(3) [OF inv] r(2)]]])
    then have e: "post_edit r p" by (simp add: a)
    have cmp: "cmp_Or v (po_Version p0) = po_Version r" using v r(5) by (auto simp: cmp_Or_def)
    obtain q' s1 where sv: "posts_persist op c p (po_Version r) s = (Inr q', s1)"
      and en: "posts_enqueue be (ae_Fan ae) op c ev (post_payload ev q') s1 = (Inr (), s')" "q = q'"
      using t False v unfolding transition_in_def l sum.case cmp a prod.case by (auto simp: r(5) split: prod.splits sum.splits)
    have pv: "po_Version p = po_Version r" using e by (simp add: post_edit_def)
    note sv' = sv [unfolded posts_persist_Inr]
    note w = edit_saved [OF inv r(1,2,4) e conjunct1 [OF sv']]
    have h1: "bd_Hooks s1 = bd_Hooks s" unfolding w(1) by (simp add: post_written_def)
    obtain h where h: "hooks_Enqueue (be_lib be) (be_slugOf be) (ae_Fan ae) c ev (post_payload ev q') (bd_Hooks s) = (Inr (), h)" "s' = s1\<lparr>bd_Hooks := h\<rparr>"
      using en(1) unfolding posts_enqueue_Inr h1 by blast
    show ?thesis
      by (rule changed [OF r(1-4) v False, of p ev h])
         (use a e sv' w h en(2) r(5) pv in simp_all)
  qed
qed

lemma hooks_Enqueue_moves_uow: "hooks_Enqueue lib slugOf fe (c\<lparr>ctx_uow := True\<rparr>) t data d = (x, d') \<Longrightarrow> moves_in lib c d d'"
proof -
  assume a: "hooks_Enqueue lib slugOf fe (c\<lparr>ctx_uow := True\<rparr>) t data d = (x, d')"
  have "moves_in lib (c\<lparr>ctx_uow := True\<rparr>) d d'" using hooks_Enqueue_moves [of lib "c\<lparr>ctx_uow := True\<rparr>" d slugOf fe t data] a by simp
  then show "moves_in lib c d d'" by (simp add: moves_in_def call_scope_def)
qed

lemma transition_in_moves:
  assumes inv: "blog_inv s" and t: "transition_in be op i v target ae (c\<lparr>ctx_uow := True\<rparr>) s = (Inr q, s')"
  shows "blog_moves (be_lib be) c s s'"
proof (rule transition_in_Inr [OF inv t])
  fix tc r p ev h
  assume a: "tenant_From (c\<lparr>ctx_uow := True\<rparr>) = Inr tc" "s' = post_written tc p s\<lparr>bd_Hooks := h\<rparr>" "blog_move (tc_OrgID tc, tc_ProjectID tc) s s'"
    "hooks_Enqueue (be_lib be) (be_slugOf be) (ae_Fan ae) (c\<lparr>ctx_uow := True\<rparr>) ev (post_payload ev q) (bd_Hooks s) = (Inr (), h)"
  have "call_scope c = Some (tc_OrgID tc, tc_ProjectID tc)" using call_scope_tenant [of c tc] a(1) by simp
  moreover have "moves_in (be_lib be) c (bd_Hooks s) (bd_Hooks s')" using hooks_Enqueue_moves_uow [OF a(4)] a(2) by simp
  ultimately show ?thesis using a(3) unfolding blog_moves_def by blast
qed simp

lemma delete_in_Inr:
  assumes inv: "blog_inv s" and t: "delete_in be i v ae c s = (Inr u, s')"
  obtains tc r h where "tenant_From c = Inr tc" "r \<in> set (bd_Posts s)" "po_ID r = i" "po_scope r = (tc_OrgID tc, tc_ProjectID tc)"
    "v = 0 \<or> v = po_Version r"
    "hooks_Enqueue (be_lib be) (be_slugOf be) (ae_Fan ae) c PostDeleted (PostDeletedV1 i (po_Slug r) (po_Status r = StatusPublished)) (bd_Hooks s) = (Inr (), h)"
    "s' = s\<lparr>bd_Posts := delete_row po_ID i (bd_Posts s), bd_Links := other_links i (tc_OrgID tc) (bd_Links s), bd_Hooks := h\<rparr>"
    "blog_move (tc_OrgID tc, tc_ProjectID tc) s s'"
proof -
  obtain p0 where l: "posts_load ''blog.Delete'' c i s = Inr p0" using t by (auto simp: delete_in_def split: sum.splits)
  obtain tc r where r: "tenant_From c = Inr tc" "r \<in> set (bd_Posts s)" "po_ID r = i" "po_scope r = (tc_OrgID tc, tc_ProjectID tc)"
    "p0 = toPost r (loadLinks tc i s)" by (rule posts_load_Inr [OF l])
  note k = table_okD [OF blog_invD(3) [OF inv]]
  let ?v = "cmp_Or v (po_Version r)"
  have nz: "po_Version r \<noteq> 0" using k(3) [OF r(2)] by (simp add: post_ok_def)
  then have v0: "?v \<noteq> 0" by (simp add: cmp_Or_def)
  obtain s1 where d: "post_Delete c i ?v s = (Inr (), s1)"
    and en: "posts_enqueue be (ae_Fan ae) ''blog.Delete'' c PostDeleted (PostDeletedV1 i (po_Slug r) (po_Status r = StatusPublished)) s1 = (Inr (), s')"
    using t unfolding delete_in_def l sum.case by (auto simp: r(3,5) split: prod.splits sum.splits)
  have dp: "deletePost tc i ?v s = (Inr (), s1)"
    using d unfolding post_Delete_def r(1) sum.case by (auto simp: endTx_def split: if_splits)
  let ?c = "\<lambda>q. po_ID q = i \<and> po_OrgID q = tc_OrgID tc \<and> (?v \<noteq> 0 \<longrightarrow> versionGuard ?v (po_Version q))"
  have ex: "list_ex ?c (bd_Posts s)"
    and s1: "s1 = s\<lparr>bd_Posts := filter (\<lambda>q. \<not> ?c q) (bd_Posts s), bd_Links := other_links i (tc_OrgID tc) (bd_Links s)\<rparr>"
    using dp unfolding deletePost_def Let_def by (auto simp: clear_links_def other_links_def split: if_splits)
  have one: "q = r" if "q \<in> set (bd_Posts s)" "po_ID q = i" for q using k(1) that r(2,3) by (metis distinct_map inj_onD)
  have cr: "?c r" using ex one by (auto simp: list_ex_iff)
  then have v: "v = 0 \<or> v = po_Version r" using v0 by (auto simp: cmp_Or_def versionGuard_def split: if_splits)
  have "filter (\<lambda>q. \<not> ?c q) (bd_Posts s) = delete_row po_ID i (bd_Posts s)"
    unfolding delete_row_def by (rule filter_cong [OF refl]) (use one cr in blast)
  then have s1': "s1 = s\<lparr>bd_Posts := delete_row po_ID i (bd_Posts s), bd_Links := other_links i (tc_OrgID tc) (bd_Links s)\<rparr>" using s1 by simp
  have h1: "bd_Hooks s1 = bd_Hooks s" by (simp add: s1')
  obtain h where h: "hooks_Enqueue (be_lib be) (be_slugOf be) (ae_Fan ae) c PostDeleted (PostDeletedV1 i (po_Slug r) (po_Status r = StatusPublished)) (bd_Hooks s) = (Inr (), h)"
    "s' = s1\<lparr>bd_Hooks := h\<rparr>" using en unfolding posts_enqueue_Inr h1 by blast
  have f: "find_row po_ID i (bd_Posts s) = Some r" using r(2,3) by (simp add: find_row_Some_iff [OF k(1)])
  have m: "blog_move (tc_OrgID tc, tc_ProjectID tc) s s'" using drop_post [OF f r(4), of h] by (simp add: h(2) s1')
  show ?thesis by (rule that [OF r(1-4) v h(1) _ m]) (simp add: h(2) s1')
qed

lemma delete_in_moves:
  assumes inv: "blog_inv s" and t: "delete_in be i v ae (c\<lparr>ctx_uow := True\<rparr>) s = (Inr u, s')"
  shows "blog_moves (be_lib be) c s s'"
proof (rule delete_in_Inr [OF inv t])
  fix tc r h
  assume a: "tenant_From (c\<lparr>ctx_uow := True\<rparr>) = Inr tc" "blog_move (tc_OrgID tc, tc_ProjectID tc) s s'"
    "s' = s\<lparr>bd_Posts := delete_row po_ID i (bd_Posts s), bd_Links := other_links i (tc_OrgID tc) (bd_Links s), bd_Hooks := h\<rparr>"
    "hooks_Enqueue (be_lib be) (be_slugOf be) (ae_Fan ae) (c\<lparr>ctx_uow := True\<rparr>) PostDeleted (PostDeletedV1 i (po_Slug r) (po_Status r = StatusPublished)) (bd_Hooks s) = (Inr (), h)"
  have "call_scope c = Some (tc_OrgID tc, tc_ProjectID tc)" using call_scope_tenant [of c tc] a(1) by simp
  moreover have "moves_in (be_lib be) c (bd_Hooks s) (bd_Hooks s')" using hooks_Enqueue_moves_uow [OF a(4)] a(3) by simp
  ultimately show ?thesis using a(2) unfolding blog_moves_def by blast
qed

text \<open>The unit of work with its one retry commits one run of its body, or changes nothing.\<close>

lemma inUnitOfWork_cases:
  assumes "inUnitOfWork op c fn s = (x, s')"
  shows "s' = s \<or> (\<exists>v. x = Inr v \<and> \<not> ctx_uow c \<and> fn (c\<lparr>ctx_uow := True\<rparr>) s = (Inr v, s'))"
  using assms by (cases x) (auto simp: inUnitOfWork_def RunInTx_Inr dest: uow.rollback split: if_splits)

lemma inUnitOfWork_Inl: "inUnitOfWork op c fn s = (Inl e, s') \<Longrightarrow> s' = s"
  using inUnitOfWork_cases by fastforce

lemma inUnitOfWork_Inr: "inUnitOfWork op c fn s = (Inr v, s') \<Longrightarrow> fn (c\<lparr>ctx_uow := True\<rparr>) s = (Inr v, s')"
  by (auto simp: inUnitOfWork_def RunInTx_Inr split: if_splits)

lemma posts_atomically_cases:
  assumes "posts_atomically op c v fn ae1 ae2 s = (x, s')"
  shows "(\<exists>e. x = Inl e) \<and> s' = s \<or> (\<exists>y ae. x = Inr y \<and> ae \<in> {ae1, ae2} \<and> fn ae (c\<lparr>ctx_uow := True\<rparr>) s = (Inr y, s'))"
proof (cases "inUnitOfWork op c (fn ae1) s")
  case (Pair y s1)
  show ?thesis
  proof (cases y)
    case (Inl e)
    note p = Pair [unfolded Inl]
    have s1: "s1 = s" by (rule inUnitOfWork_Inl [OF p])
    show ?thesis
    proof (cases "inUnitOfWork op c (fn ae2) s")
      case (Pair z s2)
      show ?thesis using assms inUnitOfWork_Inl [of op c "fn ae2" s _ s2] inUnitOfWork_Inr [of op c "fn ae2" s _ s2]
        unfolding posts_atomically_def p s1 Pair prod.case sum.case by (cases z) (auto split: sum.splits if_splits)
    qed
  next
    case (Inr v')
    show ?thesis using assms inUnitOfWork_Inr [OF Pair [unfolded Inr]]
      unfolding posts_atomically_def Pair Inr prod.case sum.case by (auto split: sum.splits)
  qed
qed

lemma posts_transition_moves:
  assumes "blog_inv s"
  shows "blog_moves (be_lib be) c s (snd (posts_transition be ae1 ae2 op c i v target s))"
proof -
  obtain x s' where r: "posts_transition be ae1 ae2 op c i v target s = (x, s')" by fastforce
  show ?thesis using posts_atomically_cases [OF r [unfolded posts_transition_def]] transition_in_moves [OF assms] by (auto simp: r)
qed

lemma posts_Delete_moves:
  assumes "blog_inv s"
  shows "blog_moves (be_lib be) c s (snd (posts_Delete be ae1 ae2 c i v s))"
proof -
  obtain x s' where r: "posts_Delete be ae1 ae2 c i v s = (x, s')" by fastforce
  show ?thesis using posts_atomically_cases [OF r [unfolded posts_Delete_def]] delete_in_moves [OF assms] by (auto simp: r)
qed

end
