(* ===== verification/BlogPublish.thy ===== *)
theory BlogPublish
  imports PostCalls WebhookSecrets
begin

text \<open>
  The states calls of the blog lead to, and what a transition that nothing stands in the
  way of does: a save of a post whose slug, category and tags are unchanged succeeds, and
  the post is read back as it was returned.
\<close>

section \<open>Calls and reachable states\<close>

text \<open>New rows carry fresh ids (\<open>uuid.NewV7\<close>); the services run outside any unit of work of their callers.\<close>

inductive blog_call :: "blog_env \<Rightarrow> ctx \<Rightarrow> blog_db \<Rightarrow> blog_db \<Rightarrow> bool" for be c where
  create_category: "i \<notin> bc_ID ` set (bd_Categories s) \<Longrightarrow> blogcats_Create i now c name slug s = (x1, s') \<Longrightarrow> blog_call be c s s'"
| rename_category: "blogcats_Rename now c i name s = (x2, s') \<Longrightarrow> blog_call be c s s'"
| delete_category: "blogcats_Delete c i s = (x3, s') \<Longrightarrow> blog_call be c s s'"
| create_tag: "i \<notin> tg_ID ` set (bd_Tags s) \<Longrightarrow> tags_Create i now c name slug s = (x4, s') \<Longrightarrow> blog_call be c s s'"
| ensure_tag: "i \<notin> tg_ID ` set (bd_Tags s) \<Longrightarrow> call_scope c = Some (orgID, projectID) \<Longrightarrow>
    EnsureByName i now c orgID projectID name s = (x5, s') \<Longrightarrow> blog_call be c s s'"
| rename_tag: "tags_Rename now c i name s = (x6, s') \<Longrightarrow> blog_call be c s s'"
| delete_tag: "tags_Delete c i s = (x7, s') \<Longrightarrow> blog_call be c s s'"
| create_post: "i \<notin> po_ID ` set (bd_Posts s) \<Longrightarrow> \<not> ctx_uow c \<Longrightarrow> posts_Create i now c cat title slug body s = (x8, s') \<Longrightarrow> blog_call be c s s'"
| update_post: "\<not> ctx_uow c \<Longrightarrow> posts_Update now c i title slug body cat v s = (x9, s') \<Longrightarrow> blog_call be c s s'"
| update_with_tags: "\<not> ctx_uow c \<Longrightarrow> posts_UpdateWithTags now now' c i title slug body cat ids v s = (x10, s') \<Longrightarrow> blog_call be c s s'"
| set_tags: "\<not> ctx_uow c \<Longrightarrow> posts_SetTags now c i ids s = (x11, s') \<Longrightarrow> blog_call be c s s'"
| publish: "posts_Publish be ae1 ae2 c i v s = (x12, s') \<Longrightarrow> blog_call be c s s'"
| unpublish: "posts_Unpublish be ae1 ae2 c i v s = (x13, s') \<Longrightarrow> blog_call be c s s'"
| delete_post: "posts_Delete be ae1 ae2 c i v s = (x14, s') \<Longrightarrow> blog_call be c s s'"

inductive blog_reachable :: "blog_env \<Rightarrow> Sealer \<Rightarrow> blog_db \<Rightarrow> bool" for be sl where
  empty: "blog_reachable be sl no_blog"
| call: "blog_reachable be sl s \<Longrightarrow> blog_call be c s s' \<Longrightarrow> blog_reachable be sl s'"
| hooks: "blog_reachable be sl s \<Longrightarrow> webhook_step (be_lib be) sl (bd_Hooks s) h \<Longrightarrow> blog_reachable be sl (s\<lparr>bd_Hooks := h\<rparr>)"

lemma publish_moves: "blog_inv s \<Longrightarrow> blog_moves (be_lib be) c s (snd (posts_Publish be ae1 ae2 c i v s))"
  unfolding posts_Publish_def by (rule posts_transition_moves)

lemma unpublish_moves: "blog_inv s \<Longrightarrow> blog_moves (be_lib be) c s (snd (posts_Unpublish be ae1 ae2 c i v s))"
  unfolding posts_Unpublish_def by (rule posts_transition_moves)

lemmas blog_call_moves = blogcats_Create_moves blogcats_Rename_moves blogcats_Delete_moves tags_Create_moves EnsureByName_moves
  tags_Rename_moves tags_Delete_moves posts_Create_moves posts_Update_moves posts_UpdateWithTags_moves posts_SetTags_moves
  publish_moves unpublish_moves posts_Delete_moves

lemma blog_call_in: "blog_call be c s s' \<Longrightarrow> blog_inv s \<Longrightarrow> blog_moves (be_lib be) c s s'"
  by (induction rule: blog_call.induct) (metis blog_call_moves snd_conv)+

lemma no_blog_inv: "blog_inv no_blog" "webhook_inv lib (bd_Hooks no_blog)"
proof -
  show "blog_inv no_blog" by (simp add: blog_inv_def no_blog_def table_ok_def links_ok_def)
  show "webhook_inv lib (bd_Hooks no_blog)" using webhook_reachable_inv [OF webhook_reachable.empty] by (simp add: no_blog_def)
qed

lemma blog_reachable_inv: "blog_reachable be sl s \<Longrightarrow> blog_inv s \<and> webhook_inv (be_lib be) (bd_Hooks s)"
proof (induction rule: blog_reachable.induct)
  case empty
  then show ?case using no_blog_inv by simp
next
  case (call s c s')
  then show ?case using blog_moves_inv [OF blog_call_in] by blast
next
  case (hooks s h)
  then show ?case using webhook_step_inv by (auto simp: blog_inv_hooks)
qed

section \<open>Rows outside the caller's project\<close>

lemma blog_move_outside:
  assumes "blog_move t s s'" "blog_inv s"
  shows "filter (\<lambda>x. bc_scope x \<noteq> t) (bd_Categories s') = filter (\<lambda>x. bc_scope x \<noteq> t) (bd_Categories s)"
    "filter (\<lambda>x. tg_scope x \<noteq> t) (bd_Tags s') = filter (\<lambda>x. tg_scope x \<noteq> t) (bd_Tags s)"
    "filter (\<lambda>x. po_scope x \<noteq> t) (bd_Posts s') = filter (\<lambda>x. po_scope x \<noteq> t) (bd_Posts s)"
proof -
  note k = table_okD(1) [OF blog_invD(1) [OF assms(2)]] table_okD(1) [OF blog_invD(2) [OF assms(2)]] table_okD(1) [OF blog_invD(3) [OF assms(2)]]
  have "filter (\<lambda>x. bc_scope x \<noteq> t) (bd_Categories s') = filter (\<lambda>x. bc_scope x \<noteq> t) (bd_Categories s) \<and>
      filter (\<lambda>x. tg_scope x \<noteq> t) (bd_Tags s') = filter (\<lambda>x. tg_scope x \<noteq> t) (bd_Tags s) \<and>
      filter (\<lambda>x. po_scope x \<noteq> t) (bd_Posts s') = filter (\<lambda>x. po_scope x \<noteq> t) (bd_Posts s)"
    using assms(1)
  proof cases
    case (put_category x h)
    then show ?thesis using outside_put [where sc = bc_scope and x = x and t = t and key = bc_ID and rows = "bd_Categories s"] by simp
  next
    case (drop_category i x h)
    then show ?thesis using outside_delete [where sc = bc_scope and old = x and t = t and i = i, OF k(1)] by simp
  next
    case (put_tag x h)
    then show ?thesis using outside_put [where sc = tg_scope and x = x and t = t and key = tg_ID and rows = "bd_Tags s"] by simp
  next
    case (drop_tag i x h)
    then show ?thesis using outside_delete [where sc = tg_scope and old = x and t = t and i = i, OF k(2)] by simp
  next
    case (put_post r tags h)
    have "po_scope old = t" if "find_row po_ID (po_ID r) (bd_Posts s) = Some old" for old
      using put_post(4,5) that by (simp add: post_evolves_def)
    then show ?thesis using put_post outside_put [where sc = po_scope and x = r and t = t and key = po_ID and rows = "bd_Posts s"] by simp
  next
    case (drop_post i x h)
    then show ?thesis using outside_delete [where sc = po_scope and old = x and t = t and i = i, OF k(3)] by simp
  qed
  then show "filter (\<lambda>x. bc_scope x \<noteq> t) (bd_Categories s') = filter (\<lambda>x. bc_scope x \<noteq> t) (bd_Categories s)"
    "filter (\<lambda>x. tg_scope x \<noteq> t) (bd_Tags s') = filter (\<lambda>x. tg_scope x \<noteq> t) (bd_Tags s)"
    "filter (\<lambda>x. po_scope x \<noteq> t) (bd_Posts s') = filter (\<lambda>x. po_scope x \<noteq> t) (bd_Posts s)" by blast+
qed

text \<open>A post that is there before and after a call is the same, or has been written once.\<close>

lemma blog_move_posts:
  assumes m: "blog_move t s s'" and inv: "blog_inv s" and r: "r \<in> set (bd_Posts s)" "r' \<in> set (bd_Posts s')" "po_ID r' = po_ID r"
  shows "r' = r \<or> post_evolves r r'"
proof -
  note k = table_okD(1) [OF blog_invD(3) [OF inv]]
  have one: "q = r" if "q \<in> set (bd_Posts s)" "po_ID q = po_ID r" for q using k that r(1) by (metis distinct_map inj_onD)
  show ?thesis using m
  proof cases
    case (put_post x tags h)
    have "r' = x \<or> r' \<in> set (bd_Posts s)" using r(2) put_post(1) set_upsert_row [OF k, of x] by auto
    moreover have "post_evolves r x" if "r' = x"
      using put_post(5) r(1,3) that one by (auto simp: find_row_Some_iff [OF k] find_row_None split: option.splits)
    ultimately show ?thesis using one r(3) by blast
  next
    case (drop_post i x h)
    then show ?thesis using r one by auto
  qed (use r one in auto)
qed

section \<open>Saves that go through\<close>

lemma insert_links_ok:
  assumes "distinct ts" "set ts \<subseteq> tg_ID ` set (bd_Tags s)" "\<And>l. l \<in> set (bd_Links s) \<Longrightarrow> pt_PostID l = pid \<Longrightarrow> pt_TagID l \<notin> set ts"
    and "\<exists>r \<in> set (bd_Posts s). po_ID r = pid \<and> po_OrgID r = orgID"
  shows "insert_links pid orgID ts s = (Inr (), s\<lparr>bd_Links := bd_Links s @ post_links pid orgID ts\<rparr>)"
  using assms
proof (induction ts arbitrary: s)
  case (Cons t ts)
  let ?s = "s\<lparr>bd_Links := bd_Links s @ [\<lparr>pt_PostID = pid, pt_TagID = t, pt_OrgID = orgID\<rparr>]\<rparr>"
  have "insert_links pid orgID ts ?s = (Inr (), ?s\<lparr>bd_Links := bd_Links ?s @ post_links pid orgID ts\<rparr>)"
  proof (rule Cons.IH)
    show "distinct ts" "set ts \<subseteq> tg_ID ` set (bd_Tags ?s)" "\<exists>r \<in> set (bd_Posts ?s). po_ID r = pid \<and> po_OrgID r = orgID"
      using Cons.prems by simp_all
    fix l assume "l \<in> set (bd_Links ?s)" "pt_PostID l = pid"
    then consider "pt_TagID l = t" | "l \<in> set (bd_Links s)" "pt_PostID l = pid" by (cases "l \<in> set (bd_Links s)") auto
    then show "pt_TagID l \<notin> set ts" using Cons.prems(1,3) by cases auto
  qed
  moreover have "\<not> list_ex (\<lambda>l. pt_PostID l = pid \<and> pt_TagID l = t) (bd_Links s)" using Cons.prems(3) by (auto simp: list_ex_iff)
  moreover have "find_row tg_ID t (bd_Tags s) \<noteq> None" using Cons.prems(2) by (auto simp: find_row_None)
  moreover have "list_ex (\<lambda>r. po_ID r = pid \<and> po_OrgID r = orgID) (bd_Posts s)" using Cons.prems(4) by (auto simp: list_ex_iff)
  ultimately show ?case by (simp add: post_links_def)
qed (simp add: post_links_def)

lemma loadLinks_props:
  assumes "links_ok tags posts (bd_Links s)"
  shows "distinct (loadLinks tc i s)" "set (loadLinks tc i s) \<subseteq> tg_ID ` set tags" "sorted (loadLinks tc i s)"
proof -
  let ?ls = "filter (\<lambda>l. pt_PostID l = i \<and> pt_OrgID l = tc_OrgID tc) (bd_Links s)"
  have d: "distinct (map (\<lambda>l. (pt_PostID l, pt_TagID l)) ?ls)" using assms unfolding links_ok_def by (simp add: distinct_map_filter)
  have "inj_on pt_TagID (set ?ls)"
  proof (rule inj_onI)
    fix a b assume ab: "a \<in> set ?ls" "b \<in> set ?ls" "pt_TagID a = pt_TagID b"
    then have "(pt_PostID a, pt_TagID a) = (pt_PostID b, pt_TagID b)" by simp
    with d ab(1,2) show "a = b" unfolding distinct_map by (blast dest: inj_onD)
  qed
  moreover have "distinct ?ls" using d by (simp add: distinct_map)
  ultimately show "distinct (loadLinks tc i s)" unfolding loadLinks_def by (simp add: distinct_map)
  show "set (loadLinks tc i s) \<subseteq> tg_ID ` set tags" using assms unfolding loadLinks_def links_ok_def by auto
  show "sorted (loadLinks tc i s)" unfolding loadLinks_def by simp
qed

lemma post_links_load: "map pt_TagID (filter (\<lambda>l. pt_PostID l = i \<and> pt_OrgID l = orgID) (post_links i orgID ts)) = ts"
  by (simp add: post_links_def comp_def)

lemma loadLinks_written:
  "loadLinks tc (po_ID p) (post_written tc p s\<lparr>bd_Hooks := h\<rparr>) = sort (po_TagIDs p)"
proof -
  have "filter (\<lambda>l. pt_PostID l = po_ID p \<and> pt_OrgID l = tc_OrgID tc) (other_links (po_ID p) (tc_OrgID tc) (bd_Links s)) = []"
    by (auto simp: other_links_def filter_empty_conv)
  then show ?thesis by (simp add: loadLinks_def post_written_def post_links_load)
qed

lemma post_save_goes_through:
  assumes inv: "blog_inv s" and r: "r \<in> set (bd_Posts s)" "po_OrgID r = tc_OrgID tc" and e: "post_edit r p"
    and same: "po_Slug p = po_Slug r" "po_CategoryID p = po_CategoryID r" "po_TagIDs p = loadLinks tc (po_ID r) s"
    and v: "versionGuard v (po_Version r)"
  shows "post_save tc p v s = (Inr (), post_written tc p s)"
proof -
  note t = table_okD [OF blog_invD(3) [OF inv]]
  have ids: "po_ID p = po_ID r" "po_ProjectID p = po_ProjectID r" using e unfolding post_edit_def by simp_all
  have f: "find_row po_ID (po_ID p) (bd_Posts s) = Some r" using r(1) ids(1) by (simp add: find_row_Some_iff [OF t(1)])
  let ?row = "post_overlay r p"
  have row: "po_ID ?row = po_ID r" "po_ProjectID ?row = po_ProjectID r" "po_Slug ?row = po_Slug r" "po_OrgID ?row = po_OrgID r"
    "po_CategoryID ?row = po_CategoryID r" using same by (simp_all add: post_overlay_def)
  have slug: "\<not> slug_taken po_ID po_ProjectID po_Slug (bd_Posts s) ?row"
  proof
    assume "slug_taken po_ID po_ProjectID po_Slug (bd_Posts s) ?row"
    then obtain q where q: "q \<in> set (bd_Posts s)" "po_ID q \<noteq> po_ID r" "(po_ProjectID q, po_Slug q) = (po_ProjectID r, po_Slug r)"
      using row by (auto simp: slug_taken_def list_ex_iff)
    from t(2) q(1,3) r(1) have "q = r" unfolding distinct_map by (auto dest: inj_onD)
    with q(2) show False by simp
  qed
  have cat: "find_row bc_ID (po_CategoryID ?row) (bd_Categories s) \<noteq> None"
  proof -
    have "po_CategoryID r \<in> bc_ID ` set (bd_Categories s)" using blog_invD(4) [OF inv] r(1) by blast
    then show ?thesis unfolding row(5) find_row_None by force
  qed
  let ?s = "s\<lparr>bd_Posts := upsert_row po_ID ?row (bd_Posts s)\<rparr>"
  note l = loadLinks_props [OF blog_invD(5) [OF inv], of tc "po_ID r"]
  have "insert_links (po_ID p) (tc_OrgID tc) (po_TagIDs p) (clear_links tc (po_ID p) ?s) =
      (Inr (), (clear_links tc (po_ID p) ?s)\<lparr>bd_Links := bd_Links (clear_links tc (po_ID p) ?s) @ post_links (po_ID p) (tc_OrgID tc) (po_TagIDs p)\<rparr>)"
  proof (rule insert_links_ok)
    show "distinct (po_TagIDs p)" "set (po_TagIDs p) \<subseteq> tg_ID ` set (bd_Tags (clear_links tc (po_ID p) ?s))"
      using l(1,2) by (simp_all add: same(3) clear_links_def)
    have "?row \<in> set (bd_Posts (clear_links tc (po_ID p) ?s))" by (simp add: clear_links_def set_upsert_row [OF t(1)])
    then show "\<exists>r \<in> set (bd_Posts (clear_links tc (po_ID p) ?s)). po_ID r = po_ID p \<and> po_OrgID r = tc_OrgID tc"
      using row r(2) ids by auto
    fix k assume k: "k \<in> set (bd_Links (clear_links tc (po_ID p) ?s))" "pt_PostID k = po_ID p"
    then have "k \<in> set (other_links (po_ID r) (tc_OrgID tc) (bd_Links s))" by (simp add: clear_links_def other_links_def ids(1))
    moreover have "po_OrgID old = tc_OrgID tc" if "find_row po_ID (po_ID r) (bd_Posts s) = Some old" for old
      using that f ids(1) r(2) by simp
    ultimately have "pt_PostID k \<noteq> po_ID r" using other_links_none(1) [OF blog_invD(5) [OF inv] t(1)] by blast
    then show "pt_TagID k \<notin> set (po_TagIDs p)" using k(2) ids(1) by simp
  qed
  then have rl: "replaceLinks tc p ?s = (Inr (), post_written tc p s)"
    unfolding replaceLinks_def by (simp add: post_written_def saved_row_def f clear_links_def other_links_def)
  show ?thesis unfolding post_save_def f option.case Let_def using r(2) v slug cat rl by simp
qed

lemma post_Save_uow: "tenant_From c = Inr tc \<Longrightarrow> ctx_uow c \<Longrightarrow> post_Save c p v s = post_save tc p v s"
  unfolding post_Save_def by (simp only: sum.case) (simp add: endTx_def)

text \<open>A post just written is read back with its new version and its tags in order.\<close>

lemma written_read_back:
  assumes inv: "blog_inv s'" and tc: "tenant_From c = Inr tc" and s': "s' = post_written tc p s\<lparr>bd_Hooks := h\<rparr>"
    and k: "keyed po_ID (bd_Posts s)" and row: "saved_row s p = (PostRow.truncate p)\<lparr>po_Version := n\<rparr>"
    and sc: "po_scope p = (tc_OrgID tc, tc_ProjectID tc)" and ts: "sorted (po_TagIDs p)"
  shows "posts_load op c (po_ID p) s' = Inr (p\<lparr>po_Version := n\<rparr>)"
proof -
  let ?row = "(PostRow.truncate p)\<lparr>po_Version := n\<rparr>"
  have "?row \<in> set (bd_Posts s')" by (simp add: s' post_written_def row set_upsert_row [OF k])
  moreover have "po_scope ?row = (tc_OrgID tc, tc_ProjectID tc)" using sc by simp
  ultimately have "posts_load op c (po_ID ?row) s' = Inr (toPost ?row (loadLinks tc (po_ID ?row) s'))"
    by (rule posts_load_iff [OF inv tc])
  moreover have "loadLinks tc (po_ID ?row) s' = po_TagIDs p" using loadLinks_written [where tc = tc and p = p and s = s and h = h] ts by (simp add: s' sorted_sort_id)
  ultimately show ?thesis by (simp add: toPost_def PostRow.defs Post.defs)
qed

lemma posts_load_uow: "posts_load op (c\<lparr>ctx_uow := b\<rparr>) i s = posts_load op c i s"
  unfolding posts_load_def posts_locate_def post_ByID_def tenant_From_uow by (rule refl)

lemma posts_load_op: "posts_load op c i s = Inr p \<Longrightarrow> posts_load op' c i s = Inr p"
  unfolding posts_load_def posts_locate_def by (cases "tenant_From c"; cases "post_ByID c i s") (simp_all split: if_splits del: tenant_From_Inr)

section \<open>Stale writers\<close>

lemma post_stale:
  assumes inv: "blog_inv s" and r: "r \<in> set (bd_Posts s)" "po_OrgID r = tc_OrgID tc" and v: "v \<noteq> 0" "v \<noteq> po_Version r"
  shows "po_ID p = po_ID r \<Longrightarrow> post_save tc p v s = (Inl (EPost (StaleVersionError v (po_Version r))), s)"
    "deletePost tc (po_ID r) v s = (Inl (EPost (StaleVersionError v (po_Version r))), s)"
proof -
  note k = table_okD(1) [OF blog_invD(3) [OF inv]]
  have one: "q = r" if "q \<in> set (bd_Posts s)" "po_ID q = po_ID r" for q using k r(1) that by (metis distinct_map inj_onD)
  have f: "find_row po_ID (po_ID r) (bd_Posts s) = Some r" using r(1) by (simp add: find_row_Some_iff [OF k])
  have "find (\<lambda>q. po_ID q = po_ID r \<and> po_OrgID q = tc_OrgID tc) (bd_Posts s) = Some r"
    unfolding find_keyed [OF k] f option.case using r(2) by simp
  then have e: "refusalError tc (po_ID r) v s = EPost (StaleVersionError v (po_Version r))" using v(1) by (simp add: refusalError_def)
  have g: "\<not> versionGuard v (po_Version r)" using v by (simp add: versionGuard_def)
  show "post_save tc p v s = (Inl (EPost (StaleVersionError v (po_Version r))), s)" if "po_ID p = po_ID r"
    unfolding post_save_def that f option.case e using g by simp
  have "\<not> list_ex (\<lambda>q. po_ID q = po_ID r \<and> po_OrgID q = tc_OrgID tc \<and> (v \<noteq> 0 \<longrightarrow> versionGuard v (po_Version q))) (bd_Posts s)"
    using one g v(1) by (auto simp: list_ex_iff)
  then show "deletePost tc (po_ID r) v s = (Inl (EPost (StaleVersionError v (po_Version r))), s)"
    unfolding deletePost_def Let_def e by simp
qed

lemma endTx_Inl: "f s = (Inl e, s) \<Longrightarrow> endTx b f s = (Inl e, s)"
  by (simp add: endTx_def atomically_def)

text \<open>Every guarded write that expects another version than the stored one is refused and changes nothing.\<close>

lemma stale_writes:
  assumes inv: "blog_inv s" and tc: "tenant_From c = Inr tc" and u: "\<not> ctx_uow c"
    and r: "r \<in> set (bd_Posts s)" "po_scope r = (tc_OrgID tc, tc_ProjectID tc)" and v: "v \<noteq> 0" "v \<noteq> po_Version r"
  shows "post_validate title slug body cat = Inr y \<Longrightarrow>
      posts_Update now c (po_ID r) title slug body cat v s = (Inl (EPost (StaleVersionError v (po_Version r))), s)"
    "posts_transition be ae1 ae2 op c (po_ID r) v target s = (Inl (EPost (StaleVersionError v (po_Version r))), s)"
    "posts_Delete be ae1 ae2 c (po_ID r) v s = (Inl (EPost (StaleVersionError v (po_Version r))), s)"
proof -
  let ?e = "EPost (StaleVersionError v (po_Version r))" let ?p = "toPost r (loadLinks tc (po_ID r) s)"
  have st: "IsStaleVersionError ?e" "post_IsNotFoundError ?e = False" by (simp_all add: blog_error_defs)
  have org: "po_OrgID r = tc_OrgID tc" using r(2) by simp
  note ld = posts_load_iff [OF inv _ r, of c] tc
  have tcu: "tenant_From (c\<lparr>ctx_uow := True\<rparr>) = Inr tc" using tc by simp
  note ld' = posts_load_iff [OF inv tcu r]
  show "posts_Update now c (po_ID r) title slug body cat v s = (Inl ?e, s)" if "post_validate title slug body cat = Inr y"
  proof -
    obtain t sl where y: "y = (t, sl)" by fastforce
    note v' = that [unfolded y]
    obtain q where q: "post_Update now title slug body cat ?p = Inr q" "po_ID q = po_ID r" by (simp add: post_Update_def v')
    have "post_Save c q v s = (Inl ?e, s)"
      unfolding post_Save_def tc sum.case by (rule endTx_Inl [of "post_save tc q v"], rule post_stale(1) [OF inv r(1) org v q(2)])
    then have "posts_persist ''blog.Update'' c q v s = (Inl ?e, s)" using st by (simp add: posts_persist_def)
    then show ?thesis unfolding posts_Update_def ld(1) [OF tc] sum.case q(1) by simp
  qed
  have "transition_in be op (po_ID r) v target ae1 (c\<lparr>ctx_uow := True\<rparr>) s = (Inl ?e, s)"
    unfolding transition_in_def ld' sum.case using v by simp
  then have "inUnitOfWork op c (transition_in be op (po_ID r) v target ae1) s = (Inl ?e, s)" using u by (simp add: inUnitOfWork_def RunInTx_def)
  then show "posts_transition be ae1 ae2 op c (po_ID r) v target s = (Inl ?e, s)"
    unfolding posts_transition_def posts_atomically_def tc sum.case using v by simp
  have "post_Delete (c\<lparr>ctx_uow := True\<rparr>) (po_ID r) v s = (Inl ?e, s)"
    unfolding post_Delete_def tcu sum.case by (rule endTx_Inl [of "deletePost tc (po_ID r) v"], rule post_stale(2) [OF inv r(1) org v])
  then have "delete_in be (po_ID r) v ae1 (c\<lparr>ctx_uow := True\<rparr>) s = (Inl ?e, s)"
    unfolding delete_in_def ld' sum.case using v st by (simp add: cmp_Or_def)
  then have "inUnitOfWork ''blog.Delete'' c (delete_in be (po_ID r) v ae1) s = (Inl ?e, s)" using u by (simp add: inUnitOfWork_def RunInTx_def)
  then show "posts_Delete be ae1 ae2 c (po_ID r) v s = (Inl ?e, s)"
    unfolding posts_Delete_def posts_atomically_def tc sum.case using v by simp
qed

text \<open>What an update that succeeds did, and what is read back.\<close>

lemma posts_Update_Inr:
  assumes inv: "blog_inv s" "webhook_inv lib (bd_Hooks s)" and u: "\<not> ctx_uow c"
    and up: "posts_Update now c i title slug body cat v s = (Inr q, s')"
  obtains tc r p r' where "tenant_From c = Inr tc" "r \<in> set (bd_Posts s)" "po_ID r = i" "po_scope r = (tc_OrgID tc, tc_ProjectID tc)"
    "post_edit r p" "q = p\<lparr>po_Version := po_Version r + 1\<rparr>" "versionGuard v (po_Version r)" "blog_inv s'"
    "posts_load op c i s' = Inr q" "r' \<in> set (bd_Posts s')" "po_ID r' = i" "po_scope r' = (tc_OrgID tc, tc_ProjectID tc)" "po_Version r' = po_Version r + 1"
proof -
  obtain p0 where l: "posts_load ''blog.Update'' c i s = Inr p0" using up by (auto simp: posts_Update_def split: sum.splits)
  obtain tc r where r: "tenant_From c = Inr tc" "r \<in> set (bd_Posts s)" "po_ID r = i" "po_scope r = (tc_OrgID tc, tc_ProjectID tc)"
    "p0 = toPost r (loadLinks tc i s)" by (rule posts_load_Inr [OF l])
  obtain p where p: "post_Update now title slug body cat p0 = Inr p" using up unfolding posts_Update_def l by (auto split: sum.splits)
  have e: "post_edit r p"
    by (rule post_Update_edit [OF _ p], unfold r(5), rule post_edit_same [OF table_okD(3) [OF blog_invD(3) [OF inv(1)] r(2)]])
  have ps: "posts_persist ''blog.Update'' c p v s = (Inr q, s')" using up by (simp only: posts_Update_def l sum.case p)
  note ps = ps [unfolded posts_persist_Inr]
  note w = edit_saved [OF inv(1) r(1,2,4) e conjunct1 [OF ps]]
  note k = table_okD(1) [OF blog_invD(3) [OF inv(1)]]
  have pv: "po_Version p = po_Version r" "po_ID p = i" "po_scope p = (tc_OrgID tc, tc_ProjectID tc)" using e r(3,4) by (simp_all add: post_edit_def)
  have tags: "po_TagIDs p = loadLinks tc i s" using p unfolding post_Update_def r(5) by (auto split: sum.splits)
  have s': "s' = post_written tc p s\<lparr>bd_Hooks := bd_Hooks s\<rparr>" by (simp add: w(1) post_written_def)
  have inv': "blog_inv s'" using blog_move_inv [OF w(4) [of "bd_Hooks s'"]] inv(1) by simp
  have q: "q = p\<lparr>po_Version := po_Version r + 1\<rparr>" using ps pv by simp
  have "posts_load op c (po_ID p) s' = Inr (p\<lparr>po_Version := po_Version r + 1\<rparr>)"
    by (rule written_read_back [OF inv' r(1) s' k w(2) pv(3)]) (simp add: tags loadLinks_def)
  then have again: "posts_load op c i s' = Inr q" by (simp add: q pv)
  let ?r = "(PostRow.truncate p)\<lparr>po_Version := po_Version r + 1\<rparr>"
  have "?r \<in> set (bd_Posts s')" unfolding s' by (simp add: post_written_def w(2) set_upsert_row [OF k])
  then show ?thesis by (rule that [OF r(1-4) e q w(3) inv' again]) (use pv in simp_all)
qed

section \<open>Transitions that go through\<close>

lemma apply_keeps:
  assumes "post_apply now target p = (p', ev)"
  shows "po_ID p' = po_ID p" "po_Slug p' = po_Slug p" "po_CategoryID p' = po_CategoryID p" "po_TagIDs p' = po_TagIDs p" "po_Version p' = po_Version p"
    "po_scope p' = po_scope p" "po_Status p' = target"
proof -
  have "po_Status p' = target" using assms by (cases target) (auto simp: post_apply_def post_Publish_def post_Unpublish_def)
  then show "po_ID p' = po_ID p" "po_Slug p' = po_Slug p" "po_CategoryID p' = po_CategoryID p" "po_TagIDs p' = po_TagIDs p"
    "po_Version p' = po_Version p" "po_scope p' = po_scope p" "po_Status p' = target"
    using assms by (auto simp: post_apply_def post_Publish_def post_Unpublish_def split: if_splits)
qed

lemma transition_in_goes_through:
  assumes inv: "blog_inv s" and c: "tenant_From c = Inr tc" "ctx_uow c" and r: "r \<in> set (bd_Posts s)" "po_scope r = (tc_OrgID tc, tc_ProjectID tc)"
    and v: "v = 0 \<or> v = po_Version r" "po_Version r \<le> 2147483647" "po_Status r \<noteq> target"
    and a: "post_apply (ae_Now ae) target (toPost r (loadLinks tc (po_ID r) s)) = (p, ev)"
    and en: "hooks_Enqueue (be_lib be) (be_slugOf be) (ae_Fan ae) c ev (post_payload ev (p\<lparr>po_Version := po_Version r + 1\<rparr>)) (bd_Hooks s) = (Inr (), h)"
  shows "transition_in be op (po_ID r) v target ae c s = (Inr (p\<lparr>po_Version := po_Version r + 1\<rparr>), post_written tc p s\<lparr>bd_Hooks := h\<rparr>)"
proof -
  let ?p0 = "toPost r (loadLinks tc (po_ID r) s)"
  note ok = table_okD(3) [OF blog_invD(3) [OF inv] r(1)]
  note keep = apply_keeps [OF a]
  have "post_edit r (fst (post_apply (ae_Now ae) target ?p0))" by (rule post_apply_edit [OF post_edit_same [OF ok]])
  then have e: "post_edit r p" by (simp add: a)
  have pos: "1 \<le> po_Version r" using ok by (simp add: post_ok_def)
  have g: "versionGuard (po_Version r) (po_Version r)" using pos v(2) by (simp add: versionGuard_def)
  have "post_save tc p (po_Version r) s = (Inr (), post_written tc p s)"
    by (rule post_save_goes_through [OF inv r(1) _ e _ _ _ g]) (use keep r(2) in simp_all)
  then have ps: "posts_persist op c p (po_Version r) s = (Inr (p\<lparr>po_Version := po_Version r + 1\<rparr>), post_written tc p s)"
    using keep(5) by (simp add: posts_persist_Inr post_Save_uow [OF c])
  have hw: "bd_Hooks (post_written tc p s) = bd_Hooks s" by (simp add: post_written_def)
  have cmp: "cmp_Or v (po_Version ?p0) = po_Version r" using v(1) by (auto simp: cmp_Or_def)
  have q: "posts_enqueue be (ae_Fan ae) op c ev (post_payload ev (p\<lparr>po_Version := po_Version r + 1\<rparr>)) (post_written tc p s) =
      (Inr (), post_written tc p s\<lparr>bd_Hooks := h\<rparr>)" by (simp add: posts_enqueue_Inr hw en)
  have nv: "\<not> (v \<noteq> 0 \<and> v \<noteq> po_Version ?p0)" using v(1) by auto
  show ?thesis
    unfolding transition_in_def posts_load_iff [OF inv c(1) r] sum.case cmp a prod.case ps q using nv v(3) by simp
qed

text \<open>The result of a transition is what is read back, and its event's targets are the subscribers.\<close>

lemma publications_read_back:
  assumes inv: "blog_inv s" and t: "transition_in be op i v target ae c s = (Inr q, s')"
  shows "posts_load op' c i s' = Inr q"
proof (rule transition_in_Inr [OF inv t])
  fix tc r
  assume r: "tenant_From c = Inr tc" "r \<in> set (bd_Posts s)" "po_ID r = i" "po_scope r = (tc_OrgID tc, tc_ProjectID tc)"
    "q = toPost r (loadLinks tc i s)" "s' = s"
  then show ?thesis using posts_load_iff [OF inv r(1,2,4)] by simp
next
  fix tc r p ev h
  assume r: "tenant_From c = Inr tc" "r \<in> set (bd_Posts s)" "po_ID r = i" "po_scope r = (tc_OrgID tc, tc_ProjectID tc)"
    "post_apply (ae_Now ae) target (toPost r (loadLinks tc i s)) = (p, ev)" "q = p\<lparr>po_Version := po_Version r + 1\<rparr>"
    "saved_row s p = (PostRow.truncate p)\<lparr>po_Version := po_Version r + 1\<rparr>"
    "s' = post_written tc p s\<lparr>bd_Hooks := h\<rparr>" "blog_move (tc_OrgID tc, tc_ProjectID tc) s s'"
  note keep = apply_keeps [OF r(5)]
  have "posts_load op' c (po_ID p) s' = Inr (p\<lparr>po_Version := po_Version r + 1\<rparr>)"
    by (rule written_read_back [OF blog_move_inv [OF r(9) inv] r(1) r(8) table_okD(1) [OF blog_invD(3) [OF inv]] r(7)])
       (use keep r(4) in \<open>simp_all add: loadLinks_def\<close>)
  then show ?thesis using keep(1) r(3,6) by simp
qed

lemma endpoint_List_targets:
  assumes inv: "webhook_inv lib d" and tc: "tenant_From c = Inr tc" and l: "endpoint_List c (tc_OrgID tc) (tc_ProjectID tc) d = Inr es"
  shows "distinct (fan_targets t es)"
    "set (fan_targets t es) = {e \<in> set (wd_Endpoints d). ep_OrgID e = tc_OrgID tc \<and> ep_ProjectID e = tc_ProjectID tc \<and>
      ep_Active e \<and> t \<in> set (ep_EventTypes e)}"
proof -
  have "mset es = mset (filter (\<lambda>e. ep_OrgID e = tc_OrgID tc \<and> ep_ProjectID e = tc_ProjectID tc) (wd_Endpoints d))"
    using l unfolding endpoint_List_def tc by (auto simp: conj_commute)
  moreover have "distinct (wd_Endpoints d)" using webhook_invD(3) [OF inv] by (simp add: distinct_map)
  ultimately have "distinct es" using mset_eq_imp_distinct_iff distinct_filter by blast
  then show "distinct (fan_targets t es)" by (simp add: fan_targets_def)
  show "set (fan_targets t es) = {e \<in> set (wd_Endpoints d). ep_OrgID e = tc_OrgID tc \<and> ep_ProjectID e = tc_ProjectID tc \<and>
      ep_Active e \<and> t \<in> set (ep_EventTypes e)}"
    using endpoint_List_Inr(1) [OF l call_scope_tenant [OF tc]] by (auto simp: fan_targets_def Subscribes_def)
qed

end
