(* ===== verification/BlogProperties.thy ===== *)
theory BlogProperties
  imports BlogPublish WebhookProperties
begin

text \<open>
  The properties of the blog: its tables stay well formed, a post changes one version at a
  time, stale writers are refused, and a transition commits together with its event.
\<close>

section \<open>A small blog\<close>

definition b_env :: blog_env where "b_env = \<lparr>be_lib = h_lib, be_slugOf = h_slug\<rparr>"

definition b_ctx :: ctx where "b_ctx = h_ctx\<lparr>ctx_uow := False\<rparr>"

definition b_endpoint :: Endpoint where "b_endpoint = h_endpoint\<lparr>ep_EventTypes := [''blog.post.published'']\<rparr>"

definition b_cat :: BlogCategory where
  "b_cat = \<lparr>bc_ID = 5, bc_OrgID = 1, bc_ProjectID = 2, bc_Name = ''News'', bc_Slug = ''news'', bc_CreatedAt = 10, bc_UpdatedAt = 10\<rparr>"

definition b_post :: Post where
  "b_post = \<lparr>po_ID = 7, po_OrgID = 1, po_ProjectID = 2, po_CategoryID = 5, po_Title = ''Hello World'', po_Slug = ''hello-world'',
     po_BodyMarkdown = ''Hi'', po_Status = StatusDraft, po_FirstPublishedAt = None, po_CreatedAt = 20, po_UpdatedAt = 20,
     po_Version = 1, po_TagIDs = []\<rparr>"

definition b1 :: blog_db where "b1 = no_blog\<lparr>bd_Hooks := no_webhooks\<lparr>wd_Endpoints := [b_endpoint]\<rparr>\<rparr>"
definition b2 :: blog_db where "b2 = b1\<lparr>bd_Categories := [b_cat]\<rparr>"
definition b3 :: blog_db where "b3 = b2\<lparr>bd_Posts := [PostRow.truncate b_post]\<rparr>"

definition b_try :: attempt_env where "b_try = \<lparr>ae_Now = 5000000003, ae_Fan = h_fan\<rparr>"

lemma b_hook: "hooks_Create h_lib h_sealer 20 100 (Inr ''abc'') (Inr ''n'') h_ctx '' https://r.id'' ''crm'' [''blog.post.published''] no_webhooks =
    (Inr (b_endpoint, ''whsec_YWJj''), bd_Hooks b1)"
  by code_simp

lemma b_category: "blogcats_Create 5 10 b_ctx '' News'' '''' b1 = (Inr b_cat, b2)"
  by code_simp

lemma b_slug: "slugify ''Hello World'' = ''hello-world''" "TrimSpace ''Hello World'' = ''Hello World''" "TrimSpace '''' = ''''"
    "RuneCountInString ''Hello World'' = 11" "RuneCountInString ''hello-world'' = 11"
  by code_simp+

lemma b_create: "posts_Create 7 20 b_ctx 5 ''Hello World'' '''' ''Hi'' b2 = (Inr b_post, b3)"
proof -
  have "post_validate ''Hello World'' '''' ''Hi'' 5 = Inr (''Hello World'', ''hello-world'')"
    unfolding post_validate_def Let_def b_slug by (simp add: b_slug MaxTitleRunes_def MaxSlugRunes_def MaxBodyBytes_def)
  then have n: "post_New 7 20 1 2 5 ''Hello World'' '''' ''Hi'' = Inr b_post" by (simp add: post_New_def b_post_def)
  have tc: "tenant_From b_ctx = Inr \<lparr>tc_OrgID = 1, tc_ProjectID = 2, tc_UserID = 3\<rparr>" by (simp add: b_ctx_def h_ctx_def)
  have sv: "post_Save b_ctx b_post 0 b2 = (Inr (), b3)" by code_simp
  show ?thesis unfolding posts_Create_def tc sum.case by (simp add: n [simplified] sv)
qed

lemma b3_reachable: "blog_reachable b_env h_sealer b3"
proof -
  have "webhook_call h_lib h_sealer h_ctx no_webhooks (bd_Hooks b1)"
    by (rule webhook_call.create [OF _ b_hook]) (simp add: no_webhooks_def)
  then have "webhook_step h_lib h_sealer (bd_Hooks no_blog) (bd_Hooks b1)" by (simp add: no_blog_def webhook_step.call)
  then have "blog_reachable b_env h_sealer (no_blog\<lparr>bd_Hooks := bd_Hooks b1\<rparr>)"
    by (intro blog_reachable.hooks [OF blog_reachable.empty]) (simp add: b_env_def)
  then have 1: "blog_reachable b_env h_sealer b1" by (simp add: b1_def)
  have 2: "blog_reachable b_env h_sealer b2"
    by (rule blog_reachable.call [OF 1 blog_call.create_category [OF _ b_category]]) (simp add: b1_def no_blog_def)
  show ?thesis
    by (rule blog_reachable.call [OF 2 blog_call.create_post [OF _ _ b_create]]) (simp_all add: b2_def b1_def no_blog_def b_ctx_def)
qed

section \<open>Tables\<close>

text \<open>C35: Whatever calls of the blog's services and of its webhooks run, ids stay unique, no two posts of a project share
  a slug, every slug is one slugify leaves alone, bodies stay within their cap, versions count from one, a published post has its first
  publication time; the category a post names exists, and so do the tag and the post of a link, the post in the link's own organisation. That
  the category and the tag are of the post's project is not kept (foreign_posts_hold_a_category, foreign_tags_can_be_linked).\<close>

theorem blog_stays_well_formed:
  assumes "blog_reachable be sl s"
  shows "distinct (map bc_ID (bd_Categories s)) \<and> distinct (map tg_ID (bd_Tags s)) \<and> distinct (map po_ID (bd_Posts s))
    \<and> distinct (map (\<lambda>p. (po_ProjectID p, po_Slug p)) (bd_Posts s))
    \<and> (\<forall>p \<in> set (bd_Posts s). po_Slug p \<noteq> [] \<and> slugify (po_Slug p) = po_Slug p \<and> 1 \<le> po_Version p \<and>
        length (po_BodyMarkdown p) \<le> MaxBodyBytes \<and> (po_Status p = StatusDraft \<or> po_FirstPublishedAt p \<noteq> None) \<and>
        (\<exists>x \<in> set (bd_Categories s). bc_ID x = po_CategoryID p))
    \<and> (\<forall>l \<in> set (bd_Links s). (\<exists>t \<in> set (bd_Tags s). tg_ID t = pt_TagID l) \<and>
        (\<exists>p \<in> set (bd_Posts s). po_ID p = pt_PostID l \<and> po_OrgID p = pt_OrgID l))"
proof -
  have inv: "blog_inv s" using blog_reachable_inv [OF assms] by blast
  note t = table_okD [OF blog_invD(1) [OF inv]] table_okD [OF blog_invD(2) [OF inv]] table_okD [OF blog_invD(3) [OF inv]]
  have "po_Slug p \<noteq> [] \<and> slugify (po_Slug p) = po_Slug p \<and> 1 \<le> po_Version p \<and> length (po_BodyMarkdown p) \<le> MaxBodyBytes \<and>
      (po_Status p = StatusDraft \<or> po_FirstPublishedAt p \<noteq> None) \<and> (\<exists>x \<in> set (bd_Categories s). bc_ID x = po_CategoryID p)"
    if "p \<in> set (bd_Posts s)" for p
  proof -
    have "post_ok p" by (rule t(9) [OF that])
    moreover have "po_CategoryID p \<in> bc_ID ` set (bd_Categories s)" using blog_invD(4) [OF inv] that by blast
    ultimately show ?thesis
      by (cases "po_Status p") (auto simp: post_ok_def post_fields_ok_def post_dates_ok_def slug_ok_iff)
  qed
  moreover have "(\<exists>t \<in> set (bd_Tags s). tg_ID t = pt_TagID l) \<and> (\<exists>p \<in> set (bd_Posts s). po_ID p = pt_PostID l \<and> po_OrgID p = pt_OrgID l)"
    if "l \<in> set (bd_Links s)" for l
  proof -
    have "pt_TagID l \<in> tg_ID ` set (bd_Tags s)" "(pt_PostID l, pt_OrgID l) \<in> (\<lambda>r. (po_ID r, po_OrgID r)) ` set (bd_Posts s)"
      using blog_invD(5) [OF inv] that unfolding links_ok_def by blast+
    then show ?thesis by force
  qed
  ultimately show ?thesis using t by blast
qed

theorem blog_stays_well_formed_witness:
  "map po_ID (bd_Posts b3) = [7] \<and> distinct (map po_ID (bd_Posts b3)) \<and> slugify ''hello-world'' = ''hello-world''"
  using blog_stays_well_formed [OF b3_reachable] by (simp add: b3_def b2_def b1_def no_blog_def b_post_def PostRow.defs)

text \<open>C36: A call changes a post only from within its project, and by one version at a time: a post that is there before and
  after the call is the same, or it was written once for the caller's own project, is one version on, keeps its organisation, project
  and creation time, and keeps its first publication time once it has one.\<close>

theorem posts_change_one_version_at_a_time:
  assumes "blog_reachable be sl s" "blog_call be c s s'" "r \<in> set (bd_Posts s)" "r' \<in> set (bd_Posts s')" "po_ID r' = po_ID r"
  shows "r' = r \<or> call_scope c = Some (po_OrgID r, po_ProjectID r) \<and> po_OrgID r' = po_OrgID r \<and> po_ProjectID r' = po_ProjectID r
    \<and> po_CreatedAt r' = po_CreatedAt r \<and> po_Version r' = po_Version r + 1 \<and> po_FirstPublishedAt r \<in> {None, po_FirstPublishedAt r'}"
proof -
  have inv: "blog_inv s" "webhook_inv (be_lib be) (bd_Hooks s)" using blog_reachable_inv [OF assms(1)] by blast+
  note mv = blog_call_in [OF assms(2) inv(1)]
  note k = table_okD(1) [OF blog_invD(3) [OF inv(1)]]
  note k' = table_okD(1) [OF blog_invD(3) [OF blog_moves_inv(1) [OF mv inv]]]
  from mv consider "bd_Posts s' = bd_Posts s" | t where "call_scope c = Some t" "blog_move t s s'"
    unfolding blog_moves_def by (metis blog_db.select_convs(3) blog_db.surjective blog_db.update_convs(5))
  then show ?thesis
  proof cases
    case 1
    then show ?thesis using k assms(3-5) by (metis distinct_map inj_onD)
  next
    case 2
    have "r' = r" if "po_scope r \<noteq> t"
    proof -
      have "r \<in> set (filter (\<lambda>x. po_scope x \<noteq> t) (bd_Posts s'))"
        unfolding blog_move_outside(3) [OF 2(2) inv(1)] using that assms(3) by simp
      then have "r \<in> set (bd_Posts s')" by simp
      then show ?thesis using k' assms(4,5) by (metis distinct_map inj_onD)
    qed
    moreover have "r' = r \<or> post_evolves r r'" by (rule blog_move_posts [OF 2(2) inv(1) assms(3-5)])
    ultimately show ?thesis using 2(1) by (cases "po_FirstPublishedAt r") (auto simp: post_evolves_def)
  qed
qed

text \<open>C37: Optimistic locking works: an update that names a version succeeds only when that is the stored version, leaves the next
  one, and what it returns is what is read back; a second writer that still names the old version, whether it updates, publishes,
  unpublishes or deletes, is told the version it has is stale, and changes nothing.\<close>

theorem stale_writers_are_refused:
  assumes "blog_reachable be sl s" "\<not> ctx_uow c" "v \<noteq> 0" "posts_Update now c i title slug body cat v s = (Inr q, s1)"
    and "post_validate title2 slug2 body2 cat2 = Inr y"
  shows "(\<exists>p. posts_ByID c i s = Inr p \<and> po_Version p = v) \<and> posts_ByID c i s1 = Inr q \<and> po_Version q = v + 1
    \<and> posts_Update now2 c i title2 slug2 body2 cat2 v s1 = (Inl (EPost (StaleVersionError v (v + 1))), s1)
    \<and> posts_Publish be ae1 ae2 c i v s1 = (Inl (EPost (StaleVersionError v (v + 1))), s1)
    \<and> posts_Unpublish be ae1 ae2 c i v s1 = (Inl (EPost (StaleVersionError v (v + 1))), s1)
    \<and> posts_Delete be ae1 ae2 c i v s1 = (Inl (EPost (StaleVersionError v (v + 1))), s1)"
proof -
  have inv: "blog_inv s" "webhook_inv (be_lib be) (bd_Hooks s)" using blog_reachable_inv [OF assms(1)] by blast+
  obtain tc r p r' where r: "tenant_From c = Inr tc" "r \<in> set (bd_Posts s)" "po_ID r = i" "po_scope r = (tc_OrgID tc, tc_ProjectID tc)"
    "post_edit r p" "q = p\<lparr>po_Version := po_Version r + 1\<rparr>" "versionGuard v (po_Version r)" "blog_inv s1"
    "posts_load ''blog.Update'' c i s1 = Inr q" "r' \<in> set (bd_Posts s1)" "po_ID r' = i" "po_scope r' = (tc_OrgID tc, tc_ProjectID tc)"
    "po_Version r' = po_Version r + 1"
    by (rule posts_Update_Inr [OF inv assms(2,4)])
  have v: "po_Version r = v" using r(7) assms(3) by (auto simp: versionGuard_def split: if_splits)
  have "posts_ByID c i s = Inr (toPost r (loadLinks tc i s))" using posts_load_iff [OF inv(1) r(1,2,4)] by (simp add: posts_ByID_def r(3))
  then have "\<exists>p. posts_ByID c i s = Inr p \<and> po_Version p = v" using v by (intro exI [of _ "toPost r (loadLinks tc i s)"]) simp
  moreover have "posts_ByID c i s1 = Inr q" unfolding posts_ByID_def by (rule posts_load_op [OF r(9)])
  moreover have "po_Version q = v + 1" by (simp add: r(6) v)
  moreover have nv: "v \<noteq> po_Version r'" "po_Version r' = v + 1" using r(13) v by simp_all
  note st = stale_writes [OF r(8,1) assms(2) r(10,12) assms(3) nv(1), unfolded r(11) nv(2)]
  ultimately show ?thesis
    unfolding posts_Publish_def posts_Unpublish_def using st(1) [OF assms(5)] st(2,3) by blast
qed

lemma b_update: "posts_Update 40 b_ctx 7 ''Hello World'' '''' ''Ho'' 5 1 b3 =
    (Inr (b_post\<lparr>po_BodyMarkdown := ''Ho'', po_UpdatedAt := 40, po_Version := 2\<rparr>),
     b3\<lparr>bd_Posts := [(PostRow.truncate b_post)\<lparr>po_BodyMarkdown := ''Ho'', po_UpdatedAt := 40, po_Version := 2\<rparr>]\<rparr>)"
  and b_valid: "post_validate ''Hello World'' '''' ''Ho'' 5 = Inr (''Hello World'', ''hello-world'')"
proof -
  show v: "post_validate ''Hello World'' '''' ''Ho'' 5 = Inr (''Hello World'', ''hello-world'')"
    unfolding post_validate_def Let_def b_slug by (simp add: b_slug MaxTitleRunes_def MaxSlugRunes_def MaxBodyBytes_def)
  let ?p = "b_post\<lparr>po_BodyMarkdown := ''Ho'', po_UpdatedAt := 40\<rparr>"
  have l: "posts_load ''blog.Update'' b_ctx 7 b3 = Inr b_post" by code_simp
  have u: "post_Update 40 ''Hello World'' '''' ''Ho'' 5 b_post = Inr ?p" unfolding post_Update_def v by (simp add: b_post_def)
  have s: "posts_persist ''blog.Update'' b_ctx ?p 1 b3 = (Inr (b_post\<lparr>po_BodyMarkdown := ''Ho'', po_UpdatedAt := 40, po_Version := 2\<rparr>),
     b3\<lparr>bd_Posts := [(PostRow.truncate b_post)\<lparr>po_BodyMarkdown := ''Ho'', po_UpdatedAt := 40, po_Version := 2\<rparr>]\<rparr>)" by code_simp
  show "posts_Update 40 b_ctx 7 ''Hello World'' '''' ''Ho'' 5 1 b3 =
    (Inr (b_post\<lparr>po_BodyMarkdown := ''Ho'', po_UpdatedAt := 40, po_Version := 2\<rparr>),
     b3\<lparr>bd_Posts := [(PostRow.truncate b_post)\<lparr>po_BodyMarkdown := ''Ho'', po_UpdatedAt := 40, po_Version := 2\<rparr>]\<rparr>)"
    unfolding posts_Update_def l sum.case u by (rule s)
qed

theorem stale_writers_are_refused_witness:
  "posts_ByID b_ctx 7 (b3\<lparr>bd_Posts := [(PostRow.truncate b_post)\<lparr>po_BodyMarkdown := ''Ho'', po_UpdatedAt := 40, po_Version := 2\<rparr>]\<rparr>) =
     Inr (b_post\<lparr>po_BodyMarkdown := ''Ho'', po_UpdatedAt := 40, po_Version := 2\<rparr>) \<and>
   fst (posts_Publish b_env b_try b_try b_ctx 7 1
     (b3\<lparr>bd_Posts := [(PostRow.truncate b_post)\<lparr>po_BodyMarkdown := ''Ho'', po_UpdatedAt := 40, po_Version := 2\<rparr>]\<rparr>)) =
     Inl (EPost (StaleVersionError 1 2))"
  using stale_writers_are_refused [OF b3_reachable _ _ b_update b_valid, where ?ae1.0 = b_try and ?ae2.0 = b_try] by (simp add: b_ctx_def)

theorem posts_change_one_version_at_a_time_witness:
  "po_Version (b_post\<lparr>po_Version := 2\<rparr>) = po_Version b_post + 1 \<and> call_scope b_ctx = Some (1, 2)"
proof -
  let ?r = "(PostRow.truncate b_post)\<lparr>po_BodyMarkdown := ''Ho'', po_UpdatedAt := 40, po_Version := 2\<rparr>"
  have c: "blog_call b_env b_ctx b3 (b3\<lparr>bd_Posts := [?r]\<rparr>)"
    by (rule blog_call.update_post [OF _ b_update]) (simp_all add: b_ctx_def)
  have m: "PostRow.truncate b_post \<in> set (bd_Posts b3)" by (simp add: b3_def)
  have "?r \<noteq> PostRow.truncate b_post" by (simp add: PostRow.defs b_post_def)
  then show ?thesis
    using posts_change_one_version_at_a_time [OF b3_reachable c m, of ?r] by (simp add: PostRow.defs b_post_def)
qed

section \<open>Publishing\<close>

text \<open>C38: A publication and its event commit together or not at all: when it fails nothing has changed, and when it succeeds the
  post is read back published as it was returned, and either it was published already and nothing has changed, or it is one version on,
  keeps the first publication time it had, and the event enqueued with it carries the post as it is now stored.\<close>

theorem publications_commit_with_their_event:
  assumes "blog_reachable be sl s" "posts_Publish be ae1 ae2 c i v s = (x, s')"
  shows "(case x of Inl e \<Rightarrow> s' = s | Inr q \<Rightarrow> posts_ByID c i s' = Inr q \<and> po_Status q = StatusPublished \<and>
      (s' = s \<or> (\<exists>p ae. ae \<in> {ae1, ae2} \<and> posts_ByID c i s = Inr p \<and> po_Status p = StatusDraft \<and> po_Version q = po_Version p + 1 \<and>
         po_FirstPublishedAt q = Some (case po_FirstPublishedAt p of None \<Rightarrow> ae_Now ae | Some t \<Rightarrow> t) \<and>
         hooks_Enqueue (be_lib be) (be_slugOf be) (ae_Fan ae) (c\<lparr>ctx_uow := True\<rparr>) PostPublished (PostPublishedV1 (snapshot q)) (bd_Hooks s) =
           (Inr (), bd_Hooks s'))))"
proof -
  have inv: "blog_inv s" using blog_reachable_inv [OF assms(1)] by blast
  note load = posts_load_uow [where c = c and b = True and i = i, symmetric]
  show ?thesis
  proof (cases x)
    case (Inl e)
    then show ?thesis using posts_atomically_cases [OF assms(2) [unfolded posts_Publish_def posts_transition_def]] by auto
  next
    case (Inr q)
    let ?c = "c\<lparr>ctx_uow := True\<rparr>"
    obtain ae where ae: "ae \<in> {ae1, ae2}" "transition_in be ''blog.Publish'' i v StatusPublished ae ?c s = (Inr q, s')"
      using posts_atomically_cases [OF assms(2) [unfolded posts_Publish_def posts_transition_def]] Inr by auto
    show ?thesis
    proof (rule transition_in_Inr [OF inv ae(2)])
      fix tc r
      assume r: "tenant_From ?c = Inr tc" "r \<in> set (bd_Posts s)" "po_ID r = i" "po_scope r = (tc_OrgID tc, tc_ProjectID tc)"
        "po_Status r = StatusPublished" "q = toPost r (loadLinks tc i s)" "s' = s"
      have "posts_ByID c i s = Inr q" using posts_load_iff [OF inv r(1,2,4)] r(3,6) by (simp add: posts_ByID_def load)
      then show ?thesis using r Inr by simp
    next
      fix tc r p ev h
      assume r: "tenant_From ?c = Inr tc" "r \<in> set (bd_Posts s)" "po_ID r = i" "po_scope r = (tc_OrgID tc, tc_ProjectID tc)"
        "po_Status r \<noteq> StatusPublished" "post_apply (ae_Now ae) StatusPublished (toPost r (loadLinks tc i s)) = (p, ev)" "post_edit r p"
        "q = p\<lparr>po_Version := po_Version r + 1\<rparr>" "hooks_Enqueue (be_lib be) (be_slugOf be) (ae_Fan ae) ?c ev (post_payload ev q) (bd_Hooks s) = (Inr (), h)"
        "s' = post_written tc p s\<lparr>bd_Hooks := h\<rparr>"
      note keep = apply_keeps [OF r(6)]
      have again: "posts_ByID c i s' = Inr q" unfolding posts_ByID_def load by (rule publications_read_back [OF inv ae(2)])
      have before: "posts_ByID c i s = Inr (toPost r (loadLinks tc i s))"
        using posts_load_iff [OF inv r(1,2,4)] r(3) by (simp add: posts_ByID_def load)
      have draft: "po_Status r = StatusDraft" using r(5) by (cases "po_Status r") simp_all
      have ev: "ev = PostPublished" and first: "po_FirstPublishedAt q = Some (case po_FirstPublishedAt r of None \<Rightarrow> ae_Now ae | Some t \<Rightarrow> t)"
        using r(6,8) by (auto simp: post_apply_def post_Publish_def split: option.split)
      have "hooks_Enqueue (be_lib be) (be_slugOf be) (ae_Fan ae) ?c PostPublished (PostPublishedV1 (snapshot q)) (bd_Hooks s) = (Inr (), bd_Hooks s')"
        using r(9,10) ev by (simp add: post_payload_def)
      then show ?thesis unfolding Inr sum.case using again before draft first ae(1) keep(7) r(8)
        by (intro conjI disjI2 exI [of _ "toPost r (loadLinks tc i s)"] exI [of _ ae]) simp_all
    qed
  qed
qed

text \<open>The publication of the sample post, with its event queued for the endpoint that subscribes to it.\<close>

definition b_published :: Post where
  "b_published = b_post\<lparr>po_Status := StatusPublished, po_FirstPublishedAt := Some 5000000003, po_UpdatedAt := 5000000003, po_Version := 2\<rparr>"

definition b4 :: blog_db where
  "b4 = b3\<lparr>bd_Posts := [PostRow.truncate b_published],
     bd_Hooks := (bd_Hooks b3)\<lparr>wd_Outbox := fan_rows h_lib h_fan 1 2 ''blog.post.published'' 0 [b_endpoint]\<rparr>\<rparr>"

lemma b_publish: "posts_Publish b_env b_try b_try b_ctx 7 0 b3 = (Inr b_published, b4)"
  by code_simp

theorem publications_commit_with_their_event_witness:
  "posts_ByID b_ctx 7 b4 = Inr b_published \<and> po_Status b_published = StatusPublished"
  using publications_commit_with_their_event [OF b3_reachable b_publish] by simp

text \<open>C39: A publication nothing stands in the way of succeeds, and reaches every subscriber: it publishes the draft, one version on,
  and queues one pending delivery, with the stored post as payload, for each active endpoint of the project that subscribes to
  publications.\<close>

theorem publications_reach_every_subscriber:
  assumes "blog_reachable be sl s" "tenant_From c = Inr tc" "\<not> ctx_uow c" "tc_ProjectID tc \<noteq> uuid_Nil"
    and "posts_ByID c i s = Inr p" "po_Status p = StatusDraft" "v = 0 \<or> v = po_Version p" "po_Version p \<le> 2147483647"
    and "be_slugOf be (tc_ProjectID tc) = Inr slug" "\<And>e. wl_Marshal (be_lib be) e = Inr (marshal e)"
    and "\<forall>e \<in> set (wd_Endpoints (bd_Hooks s)). uuid_text (be_lib be) (ep_ID e)"
    and "fan_fresh (ae_Fan ae) 0 MaxEndpointsPerProject (wd_Outbox (bd_Hooks s))"
    and "fe_EventID (ae_Fan ae) \<notin> e_EventID ` set (wd_Outbox (bd_Hooks s))"
  shows "\<exists>q s' body targets. posts_Publish be ae ae2 c i v s = (Inr q, s') \<and> posts_ByID c i s' = Inr q \<and>
      po_Status q = StatusPublished \<and> po_Version q = po_Version p + 1 \<and> po_Title q = po_Title p \<and> po_BodyMarkdown q = po_BodyMarkdown p \<and>
      body = marshal (event_envelope (be_lib be) (ae_Fan ae) (tc_OrgID tc) (tc_ProjectID tc) slug
        \<lparr>sp_Type = PostPublished, sp_Version = 1, sp_Subscribable = True\<rparr> (PostPublishedV1 (snapshot q))) \<and>
      wd_Outbox (bd_Hooks s') = wd_Outbox (bd_Hooks s) @ fan_rows (be_lib be) (ae_Fan ae) (tc_OrgID tc) (tc_ProjectID tc) body 0 targets \<and>
      distinct targets \<and> set targets = {e \<in> set (wd_Endpoints (bd_Hooks s)). ep_OrgID e = tc_OrgID tc \<and> ep_ProjectID e = tc_ProjectID tc \<and>
        ep_Active e \<and> PostPublished \<in> set (ep_EventTypes e)}"
proof -
  have inv: "blog_inv s" "webhook_inv (be_lib be) (bd_Hooks s)" using blog_reachable_inv [OF assms(1)] by blast+
  let ?c = "c\<lparr>ctx_uow := True\<rparr>"
  let ?spec = "\<lparr>sp_Type = PostPublished, sp_Version = 1, sp_Subscribable = True\<rparr>"
  have tc: "tenant_From ?c = Inr tc" using assms(2) by simp
  obtain tc' r where r': "tenant_From c = Inr tc'" "r \<in> set (bd_Posts s)" "po_ID r = i" "po_scope r = (tc_OrgID tc', tc_ProjectID tc')"
    "p = toPost r (loadLinks tc' i s)" by (rule posts_load_Inr [OF assms(5) [unfolded posts_ByID_def]])
  have "tc' = tc" using r'(1) assms(2) by simp
  note r = r' [unfolded this]
  obtain p1 ev where a: "post_apply (ae_Now ae) StatusPublished p = (p1, ev)" by fastforce
  note keep = apply_keeps [OF a]
  have ev: "ev = PostPublished" and fields: "po_Title p1 = po_Title p" "po_BodyMarkdown p1 = po_BodyMarkdown p"
    using a by (auto simp: post_apply_def post_Publish_def)
  let ?q = "p1\<lparr>po_Version := po_Version r + 1\<rparr>"
  let ?env = "event_envelope (be_lib be) (ae_Fan ae) (tc_OrgID tc) (tc_ProjectID tc) slug ?spec (PostPublishedV1 (snapshot ?q))"
  obtain es where l: "endpoint_List ?c (tc_OrgID tc) (tc_ProjectID tc) (bd_Hooks s) = Inr es" unfolding endpoint_List_def tc by simp
  note spec = endpoint_List_targets [OF inv(2) tc l, of PostPublished]
  have k: "events_Lookup PostPublished = Some ?spec" "CheckPayload PostPublished (PostPublishedV1 (snapshot ?q)) = Inr ()" by (code_simp, simp add: CheckPayload_def)
  have pr: "ctx_uow ?c" by simp
  let ?h = "(bd_Hooks s)\<lparr>wd_Outbox := wd_Outbox (bd_Hooks s) @
      fan_rows (be_lib be) (ae_Fan ae) (tc_OrgID tc) (tc_ProjectID tc) (marshal ?env) 0 (fan_targets PostPublished es)\<rparr>"
  have en: "hooks_Enqueue (be_lib be) (be_slugOf be) (ae_Fan ae) ?c PostPublished (PostPublishedV1 (snapshot ?q)) (bd_Hooks s) = (Inr (), ?h)"
    by (rule hooks_Enqueue_fan [where slugOf = "be_slugOf be" and slug = slug, OF inv(2) pr tc assms(4) k assms(9) assms(10) assms(11-13) l])
  have t: "transition_in be ''blog.Publish'' (po_ID r) v StatusPublished ae ?c s = (Inr ?q, post_written tc p1 s\<lparr>bd_Hooks := ?h\<rparr>)"
  proof (rule transition_in_goes_through [OF inv(1) tc pr r(2,4)])
    show "v = 0 \<or> v = po_Version r" "po_Version r \<le> 2147483647" "po_Status r \<noteq> StatusPublished"
      using assms(6-8) by (simp_all add: r(5))
    show "post_apply (ae_Now ae) StatusPublished (toPost r (loadLinks tc (po_ID r) s)) = (p1, ev)" using a by (simp add: r(3,5))
    have "post_payload ev ?q = PostPublishedV1 (snapshot ?q)" by (simp add: ev post_payload_def)
    then show "hooks_Enqueue (be_lib be) (be_slugOf be) (ae_Fan ae) ?c ev (post_payload ev ?q) (bd_Hooks s) = (Inr (), ?h)"
      using en unfolding ev by (simp only:)
  qed
  let ?s = "post_written tc p1 s\<lparr>bd_Hooks := ?h\<rparr>"
  have pub: "posts_Publish be ae ae2 c i v s = (Inr ?q, ?s)"
    unfolding posts_Publish_def posts_transition_def posts_atomically_def assms(2) sum.case
    using t assms(3) r(3) by (simp add: inUnitOfWork_def RunInTx_def)
  have "posts_ByID c i ?s = Inr ?q" using publications_read_back [OF inv(1) t] r(3) by (simp add: posts_ByID_def posts_load_uow)
  then show ?thesis
    using pub keep(7) fields r(5) spec
    by (intro exI [of _ ?q] exI [of _ ?s] exI [of _ "marshal ?env"] exI [of _ "fan_targets PostPublished es"]) simp
qed

theorem publications_reach_every_subscriber_witness:
  "\<exists>q s' body targets. posts_Publish b_env b_try b_try b_ctx 7 0 b3 = (Inr q, s') \<and> posts_ByID b_ctx 7 s' = Inr q \<and>
      po_Status q = StatusPublished \<and> po_Version q = 2 \<and>
      wd_Outbox (bd_Hooks s') = fan_rows h_lib h_fan 1 2 body 0 targets \<and> set targets = {b_endpoint}"
proof -
  have 1: "tenant_From b_ctx = Inr \<lparr>tc_OrgID = 1, tc_ProjectID = 2, tc_UserID = 3\<rparr>" by (simp add: b_ctx_def h_ctx_def)
  have 2: "posts_ByID b_ctx 7 b3 = Inr b_post" by code_simp
  have 3: "\<forall>e \<in> set (wd_Endpoints (bd_Hooks b3)). uuid_text (be_lib b_env) (ep_ID e)" by code_simp
  have 4: "fan_fresh (ae_Fan b_try) 0 MaxEndpointsPerProject (wd_Outbox (bd_Hooks b3))"
    by (auto simp: fan_fresh_def h_fan_def b_try_def b3_def b2_def b1_def no_blog_def no_webhooks_def inj_on_def)
  have 5: "b_ctx\<lparr>ctx_uow := False\<rparr> = b_ctx" "wd_Endpoints (bd_Hooks b3) = [b_endpoint]" "wd_Outbox (bd_Hooks b3) = []" by code_simp+
  have 6: "ep_OrgID b_endpoint = 1" "ep_ProjectID b_endpoint = 2" "ep_Active b_endpoint" "PostPublished \<in> set (ep_EventTypes b_endpoint)" by code_simp+
  note t = publications_reach_every_subscriber [OF b3_reachable 1 _ _ 2 _ _ _ _ _ 3 4, where v = 0 and slug = "''site''" and marshal = en_Type and ?ae2.0 = b_try]
  show ?thesis
    using t 6 by (auto simp: b_ctx_def b_post_def b_env_def h_slug_def h_lib_def 5(2,3) b_try_def h_fan_def cong: conj_cong)
qed

section \<open>Further behaviour\<close>

text \<open>A call leaves the categories, tags and posts of every other project as they were.\<close>

theorem blog_calls_stay_in_their_project:
  assumes "blog_reachable be sl s" "blog_call be c s s'" "call_scope c \<noteq> Some t"
  shows "filter (\<lambda>x. (bc_OrgID x, bc_ProjectID x) = t) (bd_Categories s') = filter (\<lambda>x. (bc_OrgID x, bc_ProjectID x) = t) (bd_Categories s)
    \<and> filter (\<lambda>x. (tg_OrgID x, tg_ProjectID x) = t) (bd_Tags s') = filter (\<lambda>x. (tg_OrgID x, tg_ProjectID x) = t) (bd_Tags s)
    \<and> filter (\<lambda>x. (po_OrgID x, po_ProjectID x) = t) (bd_Posts s') = filter (\<lambda>x. (po_OrgID x, po_ProjectID x) = t) (bd_Posts s)"
proof -
  have inv: "blog_inv s" using blog_reachable_inv [OF assms(1)] by blast
  have restrict: "filter (\<lambda>x. f x = t) xs = filter (\<lambda>x. f x = t) (filter (\<lambda>x. f x \<noteq> u) xs)" if "u \<noteq> t" for f u and xs :: "'b list"
    using that unfolding filter_filter by (intro filter_cong) auto
  from blog_call_in [OF assms(2) inv] consider "s' = s" | "s' = s\<lparr>bd_Hooks := bd_Hooks s'\<rparr>"
    | u where "call_scope c = Some u" "blog_move u s s'" unfolding blog_moves_def by blast
  then show ?thesis
  proof cases
    case 2
    have "bd_Categories s' = bd_Categories s" "bd_Tags s' = bd_Tags s" "bd_Posts s' = bd_Posts s" by (subst 2, simp)+
    then show ?thesis by simp
  next
    case 3
    have u: "u \<noteq> t" using 3(1) assms(3) by auto
    note o' = blog_move_outside [OF 3(2) inv]
    show ?thesis
      unfolding restrict [OF u, of bc_scope "bd_Categories s'"] restrict [OF u, of tg_scope "bd_Tags s'"] restrict [OF u, of po_scope "bd_Posts s'"] o'
      using restrict [OF u, of bc_scope "bd_Categories s"] restrict [OF u, of tg_scope "bd_Tags s"] restrict [OF u, of po_scope "bd_Posts s"] by simp
  qed simp
qed

lemma find_append_None: "find P xs = None \<Longrightarrow> find P (xs @ ys) = find P ys"
  by (induction xs) (auto split: if_splits)

text \<open>Ensuring a tag twice gives the same tag, whatever the second call would have drawn.\<close>

theorem ensuring_a_tag_is_idempotent:
  assumes "blog_reachable be sl s" "i \<notin> tg_ID ` set (bd_Tags s)" "call_scope c = Some (orgID, projectID)"
    and "EnsureByName i now c orgID projectID name s = (Inr t, s1)"
  shows "EnsureByName i2 now2 c orgID projectID name s1 = (Inr t, s1)"
proof -
  have inv: "blog_inv s" using blog_reachable_inv [OF assms(1)] by blast
  obtain tc where tc: "tenant_From c = Inr tc" "orgID = tc_OrgID tc" "projectID = tc_ProjectID tc"
    using assms(3) by (auto simp: call_scope_def split: sum.splits)
  obtain x where x: "tag_New i now orgID projectID name '''' = Inr x" using assms(4) by (auto simp: EnsureByName_def split: sum.splits)
  obtain x2 where x2: "tag_New i2 now2 orgID projectID name '''' = Inr x2" "tg_Slug x2 = tg_Slug x"
    using x by (auto simp: tag_New_def Let_def split: sum.splits if_splits)
  let ?q = "\<lambda>t. tg_OrgID t = orgID \<and> tg_ProjectID t = projectID \<and> tg_Slug t = tg_Slug x"
  have by_slug: "tag_BySlug c orgID projectID (tg_Slug x) s' = (case find ?q (bd_Tags s') of
      None \<Rightarrow> Inl (ETag (TagNotFoundError (RefText (tg_Slug x)))) | Some t \<Rightarrow> Inr t)" for s'
    unfolding tag_BySlug_def tc(1) sum.case using tc(2) by (simp add: tag_queryOne_def)
  have "tag_BySlug c orgID projectID (tg_Slug x) s1 = Inr t"
  proof (cases "find ?q (bd_Tags s)")
    case (Some y)
    then show ?thesis using assms(4) unfolding EnsureByName_def x sum.case by_slug by simp
  next
    case None
    note n = tag_New_Inr [OF x]
    have nf: "find_row tg_ID (tg_ID x) (bd_Tags s) = None" using assms(2) n(1) by (simp add: find_row_fresh)
    have sv: "(case tag_Save c x s of (Inl e, s1) \<Rightarrow> if tag_IsAlreadyExistsError e then (tag_BySlug c orgID projectID (tg_Slug x) s1, s1)
        else (Inl (Unexpected ''tag.EnsureByName: save'' e), s1) | (Inr _, s1) \<Rightarrow> (Inr x, s1)) = (Inr t, s1)"
      using assms(4) None unfolding EnsureByName_def x sum.case by_slug by (simp add: blog_error_defs)
    have "tag_Save c x s = (Inr (), s\<lparr>bd_Tags := bd_Tags s @ [x]\<rparr>) \<or> (\<exists>e. tag_Save c x s = (Inl e, s))"
      unfolding tag_Save_def tc(1) sum.case nf option.case by simp
    then have "t = x" "s1 = s\<lparr>bd_Tags := bd_Tags s @ [x]\<rparr>" using sv None by (auto simp: by_slug split: if_splits)
    then show ?thesis using None n(2) unfolding by_slug by (auto simp: find_append_None)
  qed
  then show ?thesis unfolding EnsureByName_def x2(1) sum.case x2(2) by simp
qed

text \<open>
  The foreign key of a post's category does not tie it to the post's project: a caller of
  another organisation files a post under category 5 of project 2, and the category's own
  project can no longer delete it.
\<close>

definition other_ctx :: ctx where
  "other_ctx = b_ctx\<lparr>ctx_tenant := Some \<lparr>tc_OrgID = 11, tc_ProjectID = 12, tc_UserID = 13\<rparr>\<rparr>"

definition other_post :: Post where "other_post = b_post\<lparr>po_ID := 8, po_OrgID := 11, po_ProjectID := 12\<rparr>"

lemma foreign_posts_hold_a_category:
  "post_Save other_ctx other_post 0 b2 = (Inr (), b2\<lparr>bd_Posts := [PostRow.truncate other_post]\<rparr>) \<and>
   blogcats_Delete b_ctx 5 (b2\<lparr>bd_Posts := [PostRow.truncate other_post]\<rparr>) =
     (Inl (EBlogCategory (BlogCategoryInUseError 5)), b2\<lparr>bd_Posts := [PostRow.truncate other_post]\<rparr>)"
proof (rule conjI)
  show "post_Save other_ctx other_post 0 b2 = (Inr (), b2\<lparr>bd_Posts := [PostRow.truncate other_post]\<rparr>)" by code_simp
  show "blogcats_Delete b_ctx 5 (b2\<lparr>bd_Posts := [PostRow.truncate other_post]\<rparr>) =
     (Inl (EBlogCategory (BlogCategoryInUseError 5)), b2\<lparr>bd_Posts := [PostRow.truncate other_post]\<rparr>)" by code_simp
qed

text \<open>
  Nor does the one of a link's tag: SetTags takes any tag id, and links a tag of organisation 11 to a post of
  organisation 1; organisation 11 can then not delete its tag.
\<close>

definition other_tag :: Tag where
  "other_tag = \<lparr>tg_ID = 90, tg_OrgID = 11, tg_ProjectID = 12, tg_Name = ''Go'', tg_Slug = ''go'', tg_CreatedAt = 10, tg_UpdatedAt = 10\<rparr>"

lemma foreign_tags_can_be_linked:
  "map (\<lambda>l. (pt_PostID l, pt_TagID l, pt_OrgID l)) (bd_Links (snd (posts_SetTags 30 b_ctx 7 [90] (b3\<lparr>bd_Tags := [other_tag]\<rparr>)))) = [(7, 90, 1)] \<and>
   fst (tags_Delete other_ctx 90 (snd (posts_SetTags 30 b_ctx 7 [90] (b3\<lparr>bd_Tags := [other_tag]\<rparr>)))) = Inl (ETag (TagInUseError 90))"
  by (rule conjI) code_simp+

end
