(* ===== verification/Todo.thy ===== *)
theory Todo
  imports Tenant
begin

text \<open>
  Todos, package \<open>internal/todo\<close>: the aggregate (\<open>todo.go\<close>), the SQLite store
  (\<open>sqlite.go\<close>), the service (\<open>service.go\<close>) and what its queue consumer runs
  (\<open>consumer.go\<close>); then the sweep of stale todos, which ends and does in batches what one
  pass over the table would do.  The queue is a parameter, which may refuse a job; the jobs it took are
  kept beside the table.  The organisation, the project and the author a row refers to are
  taken to exist: their tables are not part of this component.
\<close>

section \<open>The aggregate\<close>

definition StaleAfter :: int where "StaleAfter = 14 * 24 * 3600 * 10 ^ 9"

definition SweepBatchSize :: int where "SweepBatchSize = 1000"

record Author =
  au_UserID :: uuid
  au_KeyID :: uuid

definition AuthorUser :: "uuid \<Rightarrow> Author" where "AuthorUser i = \<lparr>au_UserID = i, au_KeyID = uuid_Nil\<rparr>"

definition AuthorKey :: "uuid \<Rightarrow> Author" where "AuthorKey i = \<lparr>au_UserID = uuid_Nil, au_KeyID = i\<rparr>"

definition author_IsKey :: "Author \<Rightarrow> bool" where "author_IsKey a \<longleftrightarrow> au_KeyID a \<noteq> uuid_Nil"

record Todo =
  td_ID :: uuid
  td_OrgID :: uuid
  td_ProjectID :: uuid
  td_Author :: Author
  td_Title :: string
  td_Done :: bool
  td_CreatedAt :: instant
  td_UpdatedAt :: instant

definition todo_New :: "uuid \<Rightarrow> instant \<Rightarrow> uuid \<Rightarrow> uuid \<Rightarrow> string \<Rightarrow> (err, Todo) res" where
  "todo_New id' now orgID projectID title0 =
     (let title = TrimSpace title0 in
      if title = '''' then Inl (ETodo (TodoInvalidTitleError ''empty''))
      else if RuneCountInString title > 200 then Inl (ETodo (TodoInvalidTitleError ''over 200 characters''))
      else Inr \<lparr>td_ID = id', td_OrgID = orgID, td_ProjectID = projectID, td_Author = \<lparr>au_UserID = uuid_Nil, au_KeyID = uuid_Nil\<rparr>,
        td_Title = title, td_Done = False, td_CreatedAt = now, td_UpdatedAt = now\<rparr>)"

definition todo_Toggle :: "instant \<Rightarrow> Todo \<Rightarrow> Todo" where
  "todo_Toggle now t = t\<lparr>td_Done := \<not> td_Done t, td_UpdatedAt := now\<rparr>"

text \<open>The message of the completion job.\<close>

record logCompletionV1 =
  lc_ID :: uuid
  lc_Title :: string
  lc_DoneAt :: instant

record todo_db =
  tb_Todos :: "Todo list"
  tb_Jobs :: "logCompletionV1 list"

section \<open>The store\<close>

definition todo_overlay :: "Todo \<Rightarrow> Todo \<Rightarrow> Todo" where
  "todo_overlay old t = old\<lparr>td_Title := td_Title t, td_Done := td_Done t, td_UpdatedAt := td_UpdatedAt t\<rparr>"

text \<open>The check \<open>todos_author_not_both\<close>, made on the row to insert before any conflict.\<close>

definition author_both :: "Author \<Rightarrow> bool" where
  "author_both a \<longleftrightarrow> au_UserID a \<noteq> uuid_Nil \<and> au_KeyID a \<noteq> uuid_Nil"

definition todo_Save :: "ctx \<Rightarrow> Todo \<Rightarrow> (todo_db, unit) prog" where
  "todo_Save c t s =
     (case tenant_From c of Inl e \<Rightarrow> (Inl e, s) | Inr tc \<Rightarrow>
      if author_both (td_Author t) then (Inl (Sql ConstraintCheck), s)
      else case find_row td_ID (td_ID t) (tb_Todos s) of
        None \<Rightarrow> (Inr (), s\<lparr>tb_Todos := tb_Todos s @ [t]\<rparr>)
      | Some old \<Rightarrow>
          if td_OrgID old \<noteq> tc_OrgID tc then (Inl (ETodo (TodoNotFoundError (td_ID t))), s)
          else (Inr (), s\<lparr>tb_Todos := upsert_row td_ID (todo_overlay old t) (tb_Todos s)\<rparr>))"

definition todo_ByID :: "ctx \<Rightarrow> uuid \<Rightarrow> todo_db \<Rightarrow> (err, Todo) res" where
  "todo_ByID c id' s =
     (case tenant_From c of Inl e \<Rightarrow> Inl e | Inr tc \<Rightarrow>
     (case find (\<lambda>t. td_ID t = id' \<and> td_OrgID t = tc_OrgID tc) (tb_Todos s) of
        None \<Rightarrow> Inl (ETodo (TodoNotFoundError id')) | Some t \<Rightarrow> Inr t))"

definition todo_List :: "ctx \<Rightarrow> uuid \<Rightarrow> uuid \<Rightarrow> bool option \<Rightarrow> todo_db \<Rightarrow> (err, Todo list) res" where
  "todo_List c orgID projectID optsDone s =
     (case tenant_From c of Inl e \<Rightarrow> Inl e | Inr tc \<Rightarrow>
      Inr (if tc_OrgID tc \<noteq> orgID then []
        else sort_key (\<lambda>t. - td_CreatedAt t) (filter (\<lambda>t. td_OrgID t = orgID \<and> td_ProjectID t = projectID \<and>
          (case optsDone of None \<Rightarrow> True | Some b \<Rightarrow> td_Done t = b)) (tb_Todos s))))"

definition todo_Delete :: "ctx \<Rightarrow> uuid \<Rightarrow> (todo_db, unit) prog" where
  "todo_Delete c id' s =
     (case tenant_From c of Inl e \<Rightarrow> (Inl e, s) | Inr tc \<Rightarrow>
      let hit = (\<lambda>t. td_ID t = id' \<and> td_OrgID t = tc_OrgID tc) in
      if \<not> list_ex hit (tb_Todos s) then (Inl (ETodo (TodoNotFoundError id')), s)
      else (Inr (), s\<lparr>tb_Todos := filter (\<lambda>t. \<not> hit t) (tb_Todos s)\<rparr>))"

definition todo_ClearDone :: "ctx \<Rightarrow> uuid \<Rightarrow> uuid \<Rightarrow> (todo_db, nat) prog" where
  "todo_ClearDone c orgID projectID s =
     (case tenant_From c of Inl e \<Rightarrow> (Inl e, s) | Inr tc \<Rightarrow>
      if tc_OrgID tc \<noteq> orgID then (Inr 0, s)
      else let hit = (\<lambda>t. td_OrgID t = orgID \<and> td_ProjectID t = projectID \<and> td_Done t) in
        (Inr (length (filter hit (tb_Todos s))), s\<lparr>tb_Todos := filter (\<lambda>t. \<not> hit t) (tb_Todos s)\<rparr>))"

text \<open>
  One batch of the sweep marks at most \<open>batch\<close> of the stale rows, the oldest first, and
  reports how many it marked.
\<close>

definition todo_stale :: "uuid \<Rightarrow> instant \<Rightarrow> Todo \<Rightarrow> bool" where
  "todo_stale orgID cutoff t \<longleftrightarrow> td_OrgID t = orgID \<and> \<not> td_Done t \<and> td_CreatedAt t < cutoff"

definition mark_batch :: "instant \<Rightarrow> uuid \<Rightarrow> instant \<Rightarrow> nat \<Rightarrow> Todo list \<Rightarrow> nat \<times> Todo list" where
  "mark_batch now orgID cutoff batch rows =
     (let ids = map td_ID (take batch (sort_key td_CreatedAt (filter (todo_stale orgID cutoff) rows)));
          hit = (\<lambda>t. td_ID t \<in> set ids)
      in (length (filter hit rows), map (\<lambda>t. if hit t then t\<lparr>td_Done := True, td_UpdatedAt := now\<rparr> else t) rows))"

text \<open>\<open>now k\<close> is the clock at batch \<open>k\<close>; the batch size is \<open>b + 1\<close>, at least one.\<close>

lemma mark_batch_stale:
  assumes "mark_batch now orgID cutoff batch rows = (n, rows')"
  shows "filter (todo_stale orgID cutoff) rows' = filter (\<lambda>t. todo_stale orgID cutoff t \<and>
      td_ID t \<notin> td_ID ` set (take batch (sort_key td_CreatedAt (filter (todo_stale orgID cutoff) rows)))) rows"
proof -
  let ?hit = "\<lambda>t. td_ID t \<in> td_ID ` set (take batch (sort_key td_CreatedAt (filter (todo_stale orgID cutoff) rows)))"
  have r: "rows' = map (\<lambda>t. if ?hit t then t\<lparr>td_Done := True, td_UpdatedAt := now\<rparr> else t) rows"
    using assms by (simp add: mark_batch_def Let_def)
  have "filter (todo_stale orgID cutoff) (map (\<lambda>t. if H t then t\<lparr>td_Done := True, td_UpdatedAt := now\<rparr> else t) rs) =
      filter (\<lambda>t. todo_stale orgID cutoff t \<and> \<not> H t) rs" for H rs
    by (induction rs) (auto simp: todo_stale_def)
  then show ?thesis unfolding r .
qed

lemma mark_batch_less:
  assumes "mark_batch now orgID cutoff (Suc b) rows = (n, rows')" "\<not> n < Suc b"
  shows "length (filter (todo_stale orgID cutoff) rows') < length (filter (todo_stale orgID cutoff) rows)"
proof -
  let ?st = "filter (todo_stale orgID cutoff) rows"
  let ?top = "take (Suc b) (sort_key td_CreatedAt ?st)"
  have "?st \<noteq> []"
  proof
    assume e: "?st = []"
    then have "n = 0" using assms(1) by (simp add: mark_batch_def e)
    then show False using assms(2) by simp
  qed
  then have "length ?top \<noteq> 0" by simp
  then obtain t where t: "t \<in> set ?top" by (cases ?top) auto
  then have st: "t \<in> set ?st" by (metis in_set_takeD set_sort)
  have eq: "filter (todo_stale orgID cutoff) rows' = filter (\<lambda>x. td_ID x \<notin> td_ID ` set ?top) ?st"
    unfolding mark_batch_stale [OF assms(1)] filter_filter by (rule refl)
  have h: "\<not> td_ID t \<notin> td_ID ` set ?top" using t by simp
  show ?thesis unfolding eq by (rule length_filter_less [where P = "\<lambda>x. td_ID x \<notin> td_ID ` set ?top", OF st h])
qed

function mark_loop :: "(nat \<Rightarrow> instant) \<Rightarrow> nat \<Rightarrow> uuid \<Rightarrow> instant \<Rightarrow> nat \<Rightarrow> nat \<Rightarrow> Todo list \<Rightarrow> nat \<times> Todo list" where
  "mark_loop now k orgID cutoff b total' rows =
     (case mark_batch (now k) orgID cutoff (Suc b) rows of (n, rows') \<Rightarrow>
        if n < Suc b then (total' + n, rows') else mark_loop now (Suc k) orgID cutoff b (total' + n) rows')"
  by pat_completeness auto
termination
  by (relation "measure (\<lambda>(now, k, orgID, cutoff, b, total', rows). length (filter (todo_stale orgID cutoff) rows))")
     (auto intro: mark_batch_less [OF sym])

declare mark_loop.simps [simp del]

definition MarkDoneOlderThan :: "(nat \<Rightarrow> instant) \<Rightarrow> uuid \<Rightarrow> instant \<Rightarrow> int \<Rightarrow> (todo_db, nat) prog" where
  "MarkDoneOlderThan now orgID cutoff batch0 s =
     (let batch = (if batch0 \<le> 0 then SweepBatchSize else batch0) in
      case mark_loop now 0 orgID cutoff (nat batch - 1) 0 (tb_Todos s) of (n, rows) \<Rightarrow> (Inr n, s\<lparr>tb_Todos := rows\<rparr>))"

section \<open>The service\<close>

definition authorFromContext :: "ctx \<Rightarrow> Author" where
  "authorFromContext c = (let p = PrincipalFrom c in if pr_KeyID p \<noteq> uuid_Nil then AuthorKey (pr_KeyID p) else AuthorUser (pr_UserID p))"

definition todos_Create :: "uuid \<Rightarrow> instant \<Rightarrow> ctx \<Rightarrow> string \<Rightarrow> (todo_db, Todo) prog" where
  "todos_Create id' now c title s =
     (case tenant_From c of Inl e \<Rightarrow> (Inl e, s) | Inr tc \<Rightarrow>
     (case todo_New id' now (tc_OrgID tc) (tc_ProjectID tc) title of Inl e \<Rightarrow> (Inl e, s) | Inr t0 \<Rightarrow>
      let t = t0\<lparr>td_Author := authorFromContext c\<rparr> in
      (case todo_Save c t s of
         (Inl e, s1) \<Rightarrow> (Inl (Unexpected ''todo.Create: save'' e), s1)
       | (Inr _, s1) \<Rightarrow> (Inr t, s1))))"

definition todos_List :: "ctx \<Rightarrow> bool option \<Rightarrow> todo_db \<Rightarrow> (err, Todo list) res" where
  "todos_List c optsDone s =
     (case tenant_From c of Inl e \<Rightarrow> Inl e | Inr tc \<Rightarrow>
      map_err (Unexpected ''todo.List: list'') (todo_List c (tc_OrgID tc) (tc_ProjectID tc) optsDone s))"

text \<open>Submitting the completion job: a refusal is reported and does not fail the toggle.\<close>

definition submit_completion :: "(logCompletionV1 \<Rightarrow> err option) \<Rightarrow> instant \<Rightarrow> Todo \<Rightarrow> todo_db \<Rightarrow> todo_db" where
  "submit_completion queue doneAt t s =
     (let j = \<lparr>lc_ID = td_ID t, lc_Title = td_Title t, lc_DoneAt = doneAt\<rparr> in
      case queue j of None \<Rightarrow> s\<lparr>tb_Jobs := tb_Jobs s @ [j]\<rparr> | Some _ \<Rightarrow> s)"

definition todos_Toggle :: "(logCompletionV1 \<Rightarrow> err option) \<Rightarrow> instant \<Rightarrow> instant \<Rightarrow> ctx \<Rightarrow> uuid \<Rightarrow> (todo_db, Todo) prog" where
  "todos_Toggle queue now doneAt c id' s =
     (case tenant_From c of Inl e \<Rightarrow> (Inl e, s) | Inr tc \<Rightarrow>
     (case todo_ByID c id' s of
        Inl e \<Rightarrow> (Inl (if todo_IsNotFoundError e then e else Unexpected ''todo.Toggle: byID'' e), s)
      | Inr t0 \<Rightarrow>
          if td_OrgID t0 \<noteq> tc_OrgID tc \<or> td_ProjectID t0 \<noteq> tc_ProjectID tc then (Inl (ETodo (TodoNotFoundError id')), s)
          else let t = todo_Toggle now t0 in
          (case todo_Save c t s of
             (Inl e, s1) \<Rightarrow> (Inl (Unexpected ''todo.Toggle: save'' e), s1)
           | (Inr _, s1) \<Rightarrow> (Inr t, if td_Done t then submit_completion queue doneAt t s1 else s1))))"

text \<open>What the completion job logs, when it logs anything: the todo's id and title.\<close>

definition LogCompletion :: "ctx \<Rightarrow> uuid \<Rightarrow> todo_db \<Rightarrow> (err, (uuid \<times> string) option) res" where
  "LogCompletion c id' s =
     (case tenant_From c of Inl e \<Rightarrow> Inl e | Inr tc \<Rightarrow>
     (case todo_ByID c id' s of
        Inl e \<Rightarrow> if todo_IsNotFoundError e then Inr None else Inl (Unexpected ''todo.LogCompletion: byID'' e)
      | Inr t \<Rightarrow> if td_OrgID t \<noteq> tc_OrgID tc \<or> td_ProjectID t \<noteq> tc_ProjectID tc then Inr None else Inr (Some (td_ID t, td_Title t))))"

definition todos_Delete :: "ctx \<Rightarrow> uuid \<Rightarrow> (todo_db, unit) prog" where
  "todos_Delete c id' s =
     (case tenant_From c of Inl e \<Rightarrow> (Inl e, s) | Inr tc \<Rightarrow>
     (case todo_ByID c id' s of
        Inl e \<Rightarrow> (Inl (if todo_IsNotFoundError e then e else Unexpected ''todo.Delete: byID'' e), s)
      | Inr t \<Rightarrow>
          if td_OrgID t \<noteq> tc_OrgID tc \<or> td_ProjectID t \<noteq> tc_ProjectID tc then (Inl (ETodo (TodoNotFoundError id')), s)
          else (case todo_Delete c id' s of
             (Inl e, s1) \<Rightarrow> (Inl (Unexpected ''todo.Delete: delete'' e), s1)
           | (Inr _, s1) \<Rightarrow> (Inr (), s1))))"

definition todos_ByID :: "ctx \<Rightarrow> uuid \<Rightarrow> todo_db \<Rightarrow> (err, Todo) res" where
  "todos_ByID c id' s =
     (case tenant_From c of Inl e \<Rightarrow> Inl e | Inr tc \<Rightarrow>
     (case todo_ByID c id' s of
        Inl e \<Rightarrow> Inl (if todo_IsNotFoundError e then e else Unexpected ''todo.ByID: byID'' e)
      | Inr t \<Rightarrow> if td_OrgID t \<noteq> tc_OrgID tc then Inl (ETodo (TodoNotFoundError id')) else Inr t))"

definition todos_ClearDone :: "ctx \<Rightarrow> (todo_db, nat) prog" where
  "todos_ClearDone c s =
     (case tenant_From c of Inl e \<Rightarrow> (Inl e, s) | Inr tc \<Rightarrow>
     (case todo_ClearDone c (tc_OrgID tc) (tc_ProjectID tc) s of
        (Inl e, s1) \<Rightarrow> (Inl (Unexpected ''todo.ClearDone: clear'' e), s1)
      | (Inr n, s1) \<Rightarrow> (Inr n, s1)))"

definition AutoCompleteStale :: "instant \<Rightarrow> (nat \<Rightarrow> instant) \<Rightarrow> ctx \<Rightarrow> int \<Rightarrow> (todo_db, nat) prog" where
  "AutoCompleteStale now batchNow c olderThan s =
     (case tenant_From c of Inl e \<Rightarrow> (Inl e, s) | Inr tc \<Rightarrow>
     (case MarkDoneOlderThan batchNow (tc_OrgID tc) (now - olderThan) SweepBatchSize s of
        (Inl e, s1) \<Rightarrow> (Inl (Unexpected ''todo.AutoCompleteStale: mark done'' e), s1)
      | (Inr n, s1) \<Rightarrow> (Inr n, s1)))"

section \<open>The sweep is one pass\<close>

text \<open>The reference: every stale todo is marked in one pass, each at the time \<open>at\<close> gives for its id.\<close>

definition mark_all :: "(uuid \<Rightarrow> instant) \<Rightarrow> uuid \<Rightarrow> instant \<Rightarrow> Todo list \<Rightarrow> Todo list" where
  "mark_all at orgID cutoff rows =
     map (\<lambda>t. if todo_stale orgID cutoff t then t\<lparr>td_Done := True, td_UpdatedAt := at (td_ID t)\<rparr> else t) rows"

lemma batch_hits_stale:
  assumes "keyed td_ID rows" "t \<in> set rows"
    "td_ID t \<in> td_ID ` set (take b (sort_key td_CreatedAt (filter (todo_stale orgID cutoff) rows)))"
  shows "todo_stale orgID cutoff t"
proof -
  obtain u where u: "td_ID u = td_ID t" "u \<in> set (take b (sort_key td_CreatedAt (filter (todo_stale orgID cutoff) rows)))"
    using assms(3) by auto
  have "u \<in> set (filter (todo_stale orgID cutoff) rows)" using in_set_takeD [OF u(2)] by simp
  then have s: "u \<in> set rows" "todo_stale orgID cutoff u" by simp_all
  have "inj_on td_ID (set rows)" using assms(1) by (simp add: distinct_map)
  then have "u = t" using u(1) s(1) assms(2) by (rule inj_onD)
  then show ?thesis using s(2) by simp
qed

text \<open>One batch followed by a pass is a pass, with the batch's time for the todos it hit.\<close>

lemma mark_batch_left:
  assumes "keyed td_ID rows" "mark_batch now orgID cutoff b rows = (m, rs)"
  shows "length (filter (todo_stale orgID cutoff) rs) + m = length (filter (todo_stale orgID cutoff) rows)"
    and "m < b \<Longrightarrow> filter (todo_stale orgID cutoff) rs = []"
    and "map td_ID rs = map td_ID rows"
    and "mark_all at orgID cutoff rs = mark_all (\<lambda>i. if i \<in> td_ID ` set (filter (todo_stale orgID cutoff) rs) then at i else now) orgID cutoff rows"
proof -
  let ?st = "filter (todo_stale orgID cutoff) rows"
  let ?top = "take b (sort_key td_CreatedAt ?st)"
  let ?hit = "\<lambda>t. td_ID t \<in> td_ID ` set ?top"
  have m: "m = length (filter ?hit rows)" and rs: "rs = map (\<lambda>t. if ?hit t then t\<lparr>td_Done := True, td_UpdatedAt := now\<rparr> else t) rows"
    using assms(2) by (simp_all add: mark_batch_def Let_def)
  note hs = batch_hits_stale [OF assms(1)]
  have "filter ?hit rows = filter ?hit ?st"
    unfolding filter_filter by (intro filter_cong refl) (use hs in blast)
  then have m2: "m = length (filter ?hit ?st)" using m by simp
  have l: "filter (todo_stale orgID cutoff) rs = filter (\<lambda>t. \<not> ?hit t) ?st"
    unfolding mark_batch_stale [OF assms(2)] filter_filter by (rule refl)
  show sum: "length (filter (todo_stale orgID cutoff) rs) + m = length ?st"
    unfolding l m2 using sum_length_filter_compl [of ?hit ?st] by simp
  show "map td_ID rs = map td_ID rows" unfolding rs by simp
  have d: "distinct ?top" using assms(1) by (simp add: distinct_map distinct_sort)
  have sub: "set ?top \<subseteq> set (filter ?hit ?st)"
    by (auto dest: in_set_takeD)
  have top: "length ?top \<le> m" unfolding m2 distinct_card [OF d, symmetric]
    by (rule le_trans [OF card_mono [OF finite_set sub] card_length])
  show "filter (todo_stale orgID cutoff) rs = []" if lt: "m < b"
  proof -
    have "length ?st \<le> m" using top lt by (simp add: min_def split: if_splits)
    then have "length (filter (todo_stale orgID cutoff) rs) = 0" using sum by linarith
    then show ?thesis by (rule length_0_conv [THEN iffD1])
  qed
  have left: "td_ID t \<in> td_ID ` set (filter (todo_stale orgID cutoff) rs) \<longleftrightarrow> todo_stale orgID cutoff t \<and> \<not> ?hit t"
    if t: "t \<in> set rows" for t
  proof
    assume "td_ID t \<in> td_ID ` set (filter (todo_stale orgID cutoff) rs)"
    then obtain u where u: "u \<in> set rows" "todo_stale orgID cutoff u" "\<not> ?hit u" "td_ID u = td_ID t" unfolding l by auto
    have "inj_on td_ID (set rows)" using assms(1) by (simp add: distinct_map)
    then have "u = t" using u(4,1) t by (rule inj_onD)
    then show "todo_stale orgID cutoff t \<and> \<not> ?hit t" using u by blast
  next
    assume "todo_stale orgID cutoff t \<and> \<not> ?hit t"
    then show "td_ID t \<in> td_ID ` set (filter (todo_stale orgID cutoff) rs)" unfolding l using t by (intro imageI) simp
  qed
  let ?at = "\<lambda>i. if i \<in> td_ID ` set (filter (todo_stale orgID cutoff) rs) then at i else now"
  show "mark_all at orgID cutoff rs = mark_all ?at orgID cutoff rows"
    unfolding mark_all_def
  proof (subst (1) rs, unfold map_map, rule map_cong [OF refl])
    fix t assume t: "t \<in> set rows"
    note lt = left [OF t]
    show "((\<lambda>t. if todo_stale orgID cutoff t then t\<lparr>td_Done := True, td_UpdatedAt := at (td_ID t)\<rparr> else t)
        \<circ> (\<lambda>t. if ?hit t then t\<lparr>td_Done := True, td_UpdatedAt := now\<rparr> else t)) t =
      (if todo_stale orgID cutoff t then t\<lparr>td_Done := True, td_UpdatedAt := ?at (td_ID t)\<rparr> else t)"
    proof (cases "?hit t")
      case True
      then show ?thesis using hs [OF t True] lt by (simp add: todo_stale_def del: image_iff)
    next
      case False
      then show ?thesis using lt by (simp only: comp_def if_False simp_thms if_True split: if_split) auto
    qed
  qed
qed

lemma mark_loop_one_pass:
  "keyed td_ID rows \<Longrightarrow> mark_loop now k orgID cutoff b total' rows = (n, rows') \<Longrightarrow>
    n = total' + length (filter (todo_stale orgID cutoff) rows) \<and>
    (\<exists>at. (\<forall>i. at i \<in> range now) \<and> rows' = mark_all at orgID cutoff rows)"
proof (induction now k orgID cutoff b total' rows arbitrary: n rows' rule: mark_loop.induct)
  case (1 now k orgID cutoff b total' rows)
  obtain m rs where m: "mark_batch (now k) orgID cutoff (Suc b) rows = (m, rs)" by fastforce
  note left = mark_batch_left [OF 1(2) m]
  show ?case
  proof (cases "m < Suc b")
    case True
    then have r: "n = total' + m" "rows' = rs" using 1(3) by (simp_all add: mark_loop.simps [of now k] m)
    have none: "filter (todo_stale orgID cutoff) rs = []" using left(2) [OF True] .
    then have "mark_all (\<lambda>_. now k) orgID cutoff rs = rs" by (auto simp: mark_all_def filter_empty_conv intro!: map_idI)
    then have "rows' = mark_all (\<lambda>_. now k) orgID cutoff rows" using left(4) [of "\<lambda>_. now k"] r by simp
    then show ?thesis using left(1) none r by (intro conjI exI [of _ "\<lambda>_. now k"]) simp_all
  next
    case False
    then have r: "mark_loop now (Suc k) orgID cutoff b (total' + m) rs = (n, rows')" using 1(3) by (simp add: mark_loop.simps [of now k] m)
    have kd: "keyed td_ID rs" using 1(2) by (simp only: left(3))
    obtain at where at: "\<forall>i. at i \<in> range now" "rows' = mark_all at orgID cutoff rs"
      using 1(1) [OF m [symmetric] False kd r] by blast
    then have "n = total' + length (filter (todo_stale orgID cutoff) rows)" using 1(1) [OF m [symmetric] False kd r] left(1) by linarith
    moreover have "rows' = mark_all (\<lambda>i. if i \<in> td_ID ` set (filter (todo_stale orgID cutoff) rs) then at i else now k) orgID cutoff rows"
      using at(2) left(4) by simp
    moreover have "\<forall>i. (if i \<in> td_ID ` set (filter (todo_stale orgID cutoff) rs) then at i else now k) \<in> range now"
      using at(1) by simp
    ultimately show ?thesis by (intro conjI exI [of _ "\<lambda>i. if i \<in> td_ID ` set (filter (todo_stale orgID cutoff) rs) then at i else now k"])
  qed
qed

text \<open>C40: The sweep of stale todos ends, whatever the batches and the clock, and does what one pass would: it counts every open todo
  of the organisation created before the cutoff, marks exactly those done, each stamped by the clock of some batch, and leaves every
  other row, and everything else of those rows, as it was; afterwards none is stale.  (In a table whose ids are unique, for a
  caller with a tenant.)\<close>

theorem sweeping_is_one_pass:
  assumes "tenant_From c = Inr tc" "keyed td_ID (tb_Todos s)"
  shows "\<exists>at. (\<forall>i. at i \<in> range batchNow) \<and> AutoCompleteStale now batchNow c olderThan s =
      (Inr (length (filter (todo_stale (tc_OrgID tc) (now - olderThan)) (tb_Todos s))),
       s\<lparr>tb_Todos := map (\<lambda>t. if todo_stale (tc_OrgID tc) (now - olderThan) t
          then t\<lparr>td_Done := True, td_UpdatedAt := at (td_ID t)\<rparr> else t) (tb_Todos s)\<rparr>)
    \<and> filter (todo_stale (tc_OrgID tc) (now - olderThan)) (tb_Todos (snd (AutoCompleteStale now batchNow c olderThan s))) = []"
proof -
  obtain n rows where l: "mark_loop batchNow 0 (tc_OrgID tc) (now - olderThan) (nat SweepBatchSize - 1) 0 (tb_Todos s) = (n, rows)"
    by fastforce
  note p = mark_loop_one_pass [OF assms(2) l]
  have run: "AutoCompleteStale now batchNow c olderThan s = (Inr n, s\<lparr>tb_Todos := rows\<rparr>)"
    unfolding AutoCompleteStale_def assms(1) sum.case MarkDoneOlderThan_def
    using l by (simp add: SweepBatchSize_def)
  obtain at where at: "\<forall>i. at i \<in> range batchNow" "rows = mark_all at (tc_OrgID tc) (now - olderThan) (tb_Todos s)" using p by blast
  have "filter (todo_stale (tc_OrgID tc) (now - olderThan)) rows = []"
    unfolding at(2) by (simp add: mark_all_def filter_map comp_def filter_empty_conv todo_stale_def)
  then show ?thesis using at p by (intro exI [of _ at]) (simp add: run mark_all_def)
qed

definition y_ctx :: ctx where
  "y_ctx = \<lparr>ctx_tenant = Some \<lparr>tc_OrgID = 1, tc_ProjectID = 2, tc_UserID = 3\<rparr>, ctx_principal = None, ctx_uow = False\<rparr>"

definition y_todo :: "uuid \<Rightarrow> uuid \<Rightarrow> instant \<Rightarrow> Todo" where
  "y_todo i projectID t = \<lparr>td_ID = i, td_OrgID = 1, td_ProjectID = projectID, td_Author = AuthorUser 3, td_Title = ''tidy'',
     td_Done = False, td_CreatedAt = t, td_UpdatedAt = t\<rparr>"

definition y_todos :: todo_db where
  "y_todos = \<lparr>tb_Todos = [y_todo 5 2 10, y_todo 6 2 90, y_todo 7 12 20], tb_Jobs = []\<rparr>"

lemma y_tc: "tenant_From y_ctx = Inr \<lparr>tc_OrgID = 1, tc_ProjectID = 2, tc_UserID = 3\<rparr>" by (simp add: y_ctx_def)

lemma y_keyed: "keyed td_ID (tb_Todos y_todos)" by (simp add: y_todos_def y_todo_def)

lemma y_stale: "filter (todo_stale 1 50) (tb_Todos y_todos) = [y_todo 5 2 10, y_todo 7 12 20]"
  by (simp add: y_todos_def y_todo_def todo_stale_def)

theorem sweeping_is_one_pass_witness:
  "AutoCompleteStale 100 (\<lambda>k. 100) y_ctx 50 y_todos =
     (Inr 2, y_todos\<lparr>tb_Todos := [(y_todo 5 2 10)\<lparr>td_Done := True, td_UpdatedAt := 100\<rparr>, y_todo 6 2 90,
        (y_todo 7 12 20)\<lparr>td_Done := True, td_UpdatedAt := 100\<rparr>]\<rparr>)"
proof -
  have g: "(100::int) - 50 = 50" "tc_OrgID \<lparr>tc_OrgID = 1, tc_ProjectID = 2, tc_UserID = 3\<rparr> = 1" by simp_all
  have n: "length [y_todo 5 2 10, y_todo 7 12 20] = 2" by simp
  obtain at where at: "at i \<in> range (\<lambda>k::nat. 100::int)" and run: "AutoCompleteStale 100 (\<lambda>k. 100) y_ctx 50 y_todos = (Inr 2,
      y_todos\<lparr>tb_Todos := map (\<lambda>t. if todo_stale 1 50 t then t\<lparr>td_Done := True, td_UpdatedAt := at (td_ID t)\<rparr> else t) (tb_Todos y_todos)\<rparr>)" for i
    using sweeping_is_one_pass [OF y_tc y_keyed, where now = 100 and olderThan = 50 and batchNow = "\<lambda>k. 100", unfolded g y_stale n]
    by blast
  have "at i = 100" for i using at [of i] by auto
  then show ?thesis unfolding run by (simp add: y_todos_def y_todo_def todo_stale_def)
qed

section \<open>Further behaviour\<close>

text \<open>A toggle touches the todos of the caller's project only; one that completes a todo leaves the job the queue took, if it took it.\<close>

theorem toggles_stay_in_their_project:
  assumes "keyed td_ID (tb_Todos s)" "todos_Toggle queue now doneAt c i s = (Inr t, s')"
  shows "\<exists>tc old. tenant_From c = Inr tc \<and> old \<in> set (tb_Todos s) \<and> td_ID old = i \<and> td_OrgID old = tc_OrgID tc \<and> td_ProjectID old = tc_ProjectID tc
    \<and> t = old\<lparr>td_Done := \<not> td_Done old, td_UpdatedAt := now\<rparr>
    \<and> tb_Todos s' = map (\<lambda>x. if td_ID x = i then t else x) (tb_Todos s)
    \<and> tb_Jobs s' = tb_Jobs s @ (if td_Done t \<and> queue \<lparr>lc_ID = i, lc_Title = td_Title t, lc_DoneAt = doneAt\<rparr> = None
        then [\<lparr>lc_ID = i, lc_Title = td_Title t, lc_DoneAt = doneAt\<rparr>] else [])"
proof -
  obtain tc where tc: "tenant_From c = Inr tc" using assms(2) by (cases "tenant_From c") (simp_all add: todos_Toggle_def)
  obtain old where old: "todo_ByID c i s = Inr old"
    using assms(2) unfolding todos_Toggle_def tc sum.case by (cases "todo_ByID c i s") simp_all
  have f: "find_row td_ID i (tb_Todos s) = Some old" "td_OrgID old = tc_OrgID tc"
    using old unfolding todo_ByID_def tc sum.case find_keyed [OF assms(1)] by (auto split: option.splits if_splits)
  note o' = find_row_SomeD [OF f(1)]
  let ?t = "todo_Toggle now old"
  have p: "td_ProjectID old = tc_ProjectID tc"
    using assms(2) unfolding todos_Toggle_def tc sum.case old by (auto split: if_splits)
  have ov: "todo_overlay old ?t = ?t" by (simp add: todo_overlay_def todo_Toggle_def)
  have i: "td_ID ?t = i" "td_Author ?t = td_Author old" using o' by (simp_all add: todo_Toggle_def)
  have f': "find_row td_ID (td_ID ?t) (tb_Todos s) = Some old" using f(1) i(1) by simp
  have up: "upsert_row td_ID ?t (tb_Todos s) = map (\<lambda>x. if td_ID x = i then ?t else x) (tb_Todos s)"
    using upsert_row_map [OF assms(1) f'] i(1) by simp
  have sv: "todo_Save c ?t s = (if author_both (td_Author old) then (Inl (Sql ConstraintCheck), s)
      else (Inr (), s\<lparr>tb_Todos := map (\<lambda>x. if td_ID x = i then ?t else x) (tb_Todos s)\<rparr>))"
    unfolding todo_Save_def tc sum.case f' option.case ov up i(2) using f(2) by simp
  have r: "t = ?t" "s' = (let s1 = s\<lparr>tb_Todos := map (\<lambda>x. if td_ID x = i then ?t else x) (tb_Todos s)\<rparr>
      in if td_Done ?t then submit_completion queue doneAt ?t s1 else s1)"
    using assms(2) f(2) p unfolding todos_Toggle_def tc sum.case old Let_def sv by (auto split: if_splits)
  then show ?thesis using tc o' f(2) p i(1)
    by (intro exI [of _ tc] exI [of _ old]) (auto simp: todo_Toggle_def submit_completion_def Let_def split: option.splits)
qed

text \<open>
  The read of one todo compares only the organisation: from project 2 the todo of its sibling
  project 12 is read, and cannot be deleted.
\<close>

lemma sibling_todos_are_readable:
  "todos_ByID y_ctx 7 y_todos = Inr (y_todo 7 12 20) \<and>
   todos_Delete y_ctx 7 y_todos = (Inl (ETodo (TodoNotFoundError 7)), y_todos)"
  by (rule conjI) code_simp+

end
