(* ===== verification/Spec2Isabelle.thy ===== *)
theory Spec2Isabelle
  imports CoreProperties PeriodProperties BalanceProperties ReportProperties LinkProperties OutboxProperties ApiKeyProperties OrgProperties IdentityProperties WebhookProperties BlogProperties Todo
begin

text \<open>
  Yasaku is a multi-tenant personal ledger written in Go: wallets, categories,
  transactions and budget periods of a project, reports over them, and a mirror
  that copies the rows to spreadsheets; around it organisations, users and API keys,
  an outbox with webhooks, a blog and todos.  This library models the packages that
  carry that logic, with the SQLite stores behind them, and proves what makes
  them correct.

  \<^bold>\<open>How the program is put together.\<close>  A request carries a context (tenant,
  principal, open unit of work).  Each module under \<open>src/internal\<close> has an
  aggregate (\<open>wallet.go\<close>), a service (\<open>service.go\<close>) that checks, loads, edits and
  saves, and a store (\<open>sqlite.go\<close>, \<open>postgres.go\<close>).  A write runs in a unit of work
  (\<open>platform/db/uow.go\<close>), marks the rows it touched for the spreadsheet mirror in
  the same unit, and kicks a sync job afterwards.  \<open>internal/boot/adapters.go\<close>
  joins the modules: transactions read wallets, categories and periods through
  ports, closing a period takes a snapshot from the reports, opening a wallet
  records its opening balance.

  \<^bold>\<open>Theories.\<close>
  \<^item> \<open>Prelude\<close>: result types, 64-bit wrap-around, tables as keyed lists (upsert,
    find, delete).  \<open>GoStrings\<close>: the parts of \<open>strings\<close>, \<open>unicode/utf8\<close>, \<open>strconv\<close>
    the code uses.  \<open>Errors\<close>: the typed errors of every module.
  \<^item> \<open>Money\<close> (\<open>src/money\<close>), \<open>Civil\<close> (\<open>src/civil\<close>), \<open>Tenant\<close> (tenant context,
    principal, unit of work; locale \<open>unit_of_work\<close>).
  \<^item> Aggregates: \<open>Ledger\<close> (with its service), \<open>Wallet\<close>, \<open>Category\<close>, \<open>Period\<close>,
    \<open>Transaction\<close>, \<open>SheetLink\<close> (\<open>opensheetsync/ref.go\<close>, \<open>link.go\<close>, \<open>job.go\<close>).
  \<^item> \<open>Database\<close>: the tables as lists of rows and the constraints of the schema.
    \<open>RowStore\<close>: the contract of a tenant-scoped store as the locales \<open>row_store\<close>
    and \<open>deletable_store\<close>, interpreted by the wallet, category and transaction
    stores.
  \<^item> \<open>MirrorStore\<close>, \<open>MirrorMark\<close> (\<open>opensheetsync/sqlite.go\<close>, \<open>mirror.go\<close>, the
    \<open>commit\<close> of every module).
  \<^item> Services with their stores: \<open>WalletService\<close> (with \<open>open.go\<close>), \<open>CategoryService\<close>,
    \<open>TransactionStore\<close>, \<open>TransactionService\<close>, \<open>PeriodStore\<close>, \<open>PeriodService\<close>,
    \<open>Report\<close>; \<open>Adapters\<close> is the wiring.
  \<^item> Proof layers: \<open>PeriodTimeline\<close> and \<open>PeriodInvariants\<close> (the gapless timeline, the
    state machine of the periods), \<open>TransactionRules\<close> (locale \<open>tx_ports\<close>: what the
    transaction service relies on, interpreted by the wiring), \<open>TransactionEffects\<close>,
    \<open>Books\<close> (the invariant of the whole database), \<open>BookSteps\<close>, \<open>TransactionSteps\<close>,
    \<open>AppSteps\<close> (every operation keeps it; the state machine \<open>app_step\<close>), \<open>Balances\<close>
    (what the SQL aggregates sum); how writes move the sums opens \<open>BalanceProperties\<close>,
    the lines of consecutive summaries open \<open>ReportProperties\<close>.
  \<^item> The platform: \<open>Outbox\<close> (\<open>platform/outbox\<close>: store and worker), \<open>OutboxSteps\<close> (its
    state machine); \<open>Access\<close> (\<open>internal/org\<close>, \<open>src/slug\<close>), \<open>ApiKey\<close> and
    \<open>ApiKeyService\<close> (\<open>internal/apikey\<close>, \<open>platform/authn\<close>), \<open>ApiKeySteps\<close> (the state
    machine \<open>access_step\<close> of organisations and keys, what it keeps of keys and
    grants; what it and \<open>identity_step\<close> keep of organisations and members is in
    \<open>OrgProperties\<close>, the property in \<open>IdentityProperties\<close>).
  \<^item> Identity: \<open>Password\<close> (\<open>internal/password\<close>), \<open>User\<close> (\<open>internal/user\<close>), \<open>Identity\<close>
    (aggregates of projects, invites and the bootstrap record, the tables),
    \<open>ProjectService\<close> (\<open>internal/project\<close>), \<open>InviteService\<close> (\<open>internal/invite\<close>), \<open>Login\<close>
    (\<open>internal/onboard\<close>, \<open>internal/auth\<close>, \<open>user/onboard.go\<close>, \<open>user/authn.go\<close>);
    \<open>UserSteps\<close>, \<open>UserLogin\<close>, \<open>IdentityFrames\<close> (locale \<open>state_frame\<close>: what an operation
    may do to the tables) and \<open>IdentitySteps\<close> (the state machine \<open>identity_step\<close>).
  \<^item> Webhooks: \<open>Sealer\<close> (\<open>platform/sealer\<close>, \<open>webhook/secret.go\<close>, \<open>sign.go\<close>), \<open>Webhook\<close>
    (\<open>platform/events\<close>, \<open>webhook.go\<close>, \<open>response.go\<close>, \<open>sqlite.go\<close>), \<open>WebhookService\<close>
    (\<open>service.go\<close>, \<open>deliverer.go\<close>); \<open>WebhookResponse\<close> (what is kept of an answer),
    \<open>WebhookSteps\<close> (the state machine \<open>webhook_step\<close>), \<open>WebhookSecrets\<close> (locale
    \<open>compare_and_set\<close>, rotation; the fan-out, one entry per target).
  \<^item> The blog: \<open>BlogTerms\<close> (the tables; \<open>blog/category\<close>, \<open>blog/tag\<close>), \<open>Blog\<close> (posts:
    \<open>blog/blog.go\<close>, \<open>sqlite.go\<close>, \<open>service.go\<close>); \<open>BlogSteps\<close> (what slugify
    leaves, the invariant \<open>blog_inv\<close> and the moves \<open>blog_move\<close>), \<open>BlogCalls\<close>
    (locale \<open>term_store\<close>, the calls of categories and tags), \<open>PostCalls\<close>,
    \<open>BlogPublish\<close> (the state machine \<open>blog_call\<close>, transitions with their events).
  \<^item> The mirror: \<open>Opensheet\<close> (\<open>opensheet/client.go\<close>, \<open>write.go\<close>, \<open>classify.go\<close>,
    \<open>mapper.go\<close>, \<open>secret.go\<close>, the sources of \<open>boot/opensheet_yasaku.go\<close>), \<open>MirrorSync\<close>
    (\<open>sync.go\<close>, \<open>consumer.go\<close>, the rest of \<open>mirror.go\<close>), \<open>MirrorService\<close>
    (\<open>contract.go\<close>, \<open>shape.go\<close>, \<open>service.go\<close>).
  \<^item> \<open>Todo\<close> (\<open>internal/todo\<close>), with the batched sweep of stale todos as a loop.
  \<^item> Properties and their witnesses: \<open>CoreProperties\<close>, \<open>PeriodProperties\<close>,
    \<open>BalanceProperties\<close>, \<open>ReportProperties\<close>, \<open>OutboxProperties\<close>,
    \<open>ApiKeyProperties\<close>, \<open>OrgProperties\<close>, \<open>IdentityProperties\<close>, \<open>WebhookProperties\<close>,
    \<open>BlogProperties\<close>, \<open>MirrorProperties\<close> (the rely of the sync job, a server in memory),
    \<open>LinkProperties\<close> (the state machine \<open>link_call\<close>), end of \<open>Todo\<close>; \<open>Fixtures\<close> and \<open>BookFixtures\<close> hold the concrete
    states of the ledger.

  \<^bold>\<open>How code corresponds to definitions.\<close>  A struct is a record with prefixed
  fields (\<open>w_Name\<close> for \<open>Wallet.Name\<close>), a string enum a datatype with a constructor
  for unknown strings where the code can hold one.  An operation is a function of
  the context, its arguments and the database that returns the result or error and
  the new database (\<open>prog\<close>); a method that mutates its receiver returns the verdict
  and the receiver.  Package-level names that clash get the package's name as a
  prefix (\<open>wallet_New\<close>, \<open>tx_New\<close>), operations of a service its plural
  (\<open>wallets_Create\<close>, \<open>txs_List\<close>, \<open>svc_Rename\<close>), store methods the singular
  (\<open>wallet_Save\<close>).  Integers are \<open>int\<close> with \<open>wrap64\<close> wherever Go's int64 can wrap;
  strings are byte lists; an instant counts nanoseconds since 1970.

  \<^bold>\<open>Parameters and assumptions.\<close>  The time zone database (\<open>tzdb\<close>), fresh ids and
  the clock of an operation (one reading per operation) are arguments, as are the
  translated names of default categories, whether the mirror and its queue are on,
  what a delivery of the outbox answers, SHA-256, Argon2id (\<open>IDKey\<close>), random
  bytes, tokens and drawn slugs, what the mailer answers, the AEAD cipher, HMAC,
  \<open>url.Parse\<close>, JSON, the text of a uuid, the HTTP client of the webhooks, one HTTP
  exchange with opensheet and what others commit while a sync job runs.  References from the
  ledger to organisations, projects and API keys hold.  SQLite's SUM
  fails on overflow, as it does; a LIMIT 1 read without an order takes the first
  row in insertion order.  Reads of a store do not fail for reasons outside the
  model (a broken connection); every error the code itself raises is a value of
  \<open>err\<close>.

  \<^bold>\<open>What the theorems show.\<close>  Money arithmetic is exact or detects overflow and
  the decimal text round-trips; dates round-trip and count days; the periods of a
  project tile time with one current period, closing extends the timeline
  atomically and reopening undoes only the latest close; after any sequence of
  operations of all services the books are consistent, and the transactions of a
  closed period never change; a balance is the sum of the signed effects of the
  transactions on a wallet, however it is read, transfers conserve money, writes
  move balances by their effect, an adjustment reaches its target, and closing
  amounts carry over to the next period.  An outbox entry is claimed by one worker
  at a time, a stale claim cannot settle it, it is delivered at most once per
  attempt and settles within its attempts.  A credential is accepted exactly when a
  live key entitles it; revocation and the removal of a member are final, grants
  only widen, an organisation keeps an owner under every operation but the acceptance
  of an invite by an owner, which can demote the last one.  The tables of users, projects and
  invites keep their uniqueness rules under every operation; an invite is redeemed
  at most once; an OIDC login follows the subject and binds nothing without a
  verified address; a stored hash accepts exactly the passwords with its digest.
  Webhook endpoints and attempts stay well formed and within their project; an event
  queues one entry for each subscriber; a rotation keeps the old secret valid until
  it is retired and concurrent rotations conflict; a delivery goes signed to its own
  endpoint; a stored answer is bounded and holds no credential header.
  A post changes one version at a time from within its project (its category and its tags
  need not be the project's), a stale writer is
  refused, a publication commits together with its event and reaches every
  subscriber; the batched sweep of stale todos ends and equals one pass, row by row.
  A row the sync job leaves clean shows its current state in the sheet whatever is
  edited during the push; a link is on only with sheets and a key that passed a test
  (\<open>link_reachable\<close> carries the tests the saves asked for) and while fewer than three
  syncs in a row were refused.

  \<^bold>\<open>Bounds.\<close>  Loops are structural recursions over lists or characters, or have a
  termination proof (\<open>mark_loop\<close>: a batch that marks a full batch leaves fewer stale
  todos); the counters, of \<open>trim_from\<close> and \<open>sync_passes\<close>, are the source's own bounds of three
  rounds.

  \<^bold>\<open>Not modelled.\<close>  The Postgres stores (twins of the SQLite ones under row
  security), JSON encodings, telemetry and logging; the reading half of the
  opensheet client, which the program does not call; the NATS queue (whether
  a job is taken is a parameter); the retrying HTTP client; Markdown rendering;
  web, CLI, MCP and RPC surfaces; generated code.
\<close>

end
